(* ===== verification/Prelude.thy ===== *)
theory Prelude
  imports Main "HOL-Library.Sublist" "HOL-Library.List_Lexorder" "HOL-Library.Char_ord"
    "HOL-Library.Multiset"
begin

text \<open>
  The shared layer of the development: Go errors, the result of a Go call, the action
  type in which stateful code is written, the control-flow combinators the translations
  use (\<open>attempt\<close>, \<open>check\<close>, \<open>for_each\<close>, \<open>deferring\<close>), a Hoare calculus over them, and
  generic lemmas on lists and strings.
\<close>

section \<open>Proof-rule collections\<close>

named_theorems act_simps \<open>evaluation of the action combinators\<close>
named_theorems hoare_rules \<open>Hoare rules of the action combinators\<close>
named_theorems str_simps \<open>the string functions of the Go standard library\<close>

section \<open>Go errors\<close>

text \<open>
  A Go \<open>error\<close> is its message and, for an error of the Kubernetes client, the API reason
  that \<open>apierrors.IsNotFound\<close> and its siblings read. \<open>Wrapf a e b\<close> is
  \<open>fmt.Errorf("a%wb", e)\<close>: the reason is read through it, as \<open>errors.As\<close> does.
\<close>

datatype reason = ReasonNotFound | ReasonAlreadyExists | ReasonTooManyRequests | ReasonUnknown

datatype error =
    ApiError reason string
  | Errorf string
  | Wrapf string error string

fun error_string :: "error \<Rightarrow> string" where
  "error_string (ApiError r s) = s"
| "error_string (Errorf s) = s"
| "error_string (Wrapf a e b) = a @ error_string e @ b"

fun error_reason :: "error \<Rightarrow> reason" where
  "error_reason (ApiError r s) = r"
| "error_reason (Errorf s) = ReasonUnknown"
| "error_reason (Wrapf a e b) = error_reason e"

definition IsNotFound :: "error \<Rightarrow> bool" where
  "IsNotFound e \<longleftrightarrow> error_reason e = ReasonNotFound"

definition IsAlreadyExists :: "error \<Rightarrow> bool" where
  "IsAlreadyExists e \<longleftrightarrow> error_reason e = ReasonAlreadyExists"

definition IsTooManyRequests :: "error \<Rightarrow> bool" where
  "IsTooManyRequests e \<longleftrightarrow> error_reason e = ReasonTooManyRequests"

abbreviation wrap :: "string \<Rightarrow> error \<Rightarrow> error" where
  "wrap a e \<equiv> Wrapf a e []"

lemma IsNotFound_Wrapf [simp]: "IsNotFound (Wrapf a e b) = IsNotFound e"
  by (simp add: IsNotFound_def)

section \<open>Results and actions\<close>

text \<open>
  A call returns a value, returns a non-nil error, or panics. An action reads and updates
  the state \<open>'w\<close> and gives a result.
\<close>

datatype 'a res = Ok 'a | Err error | Panic string

type_synonym ('w, 'a) act = "'w \<Rightarrow> 'a res \<times> 'w"

definition ret :: "'a \<Rightarrow> ('w, 'a) act" where
  "ret x = (\<lambda>w. (Ok x, w))"

definition fail :: "error \<Rightarrow> ('w, 'a) act" where
  "fail e = (\<lambda>w. (Err e, w))"

definition panic :: "string \<Rightarrow> ('w, 'a) act" where
  "panic s = (\<lambda>w. (Panic s, w))"

text \<open>
  \<open>attempt m k\<close> is \<open>x, err := m(); k\<close> with \<open>k\<close> looking at \<open>err\<close>; a panic is not an error
  and unwinds past \<open>k\<close>. \<open>check m f k\<close> is the idiom
  \<open>x, err := m(); if err != nil { return f(err) }; k\<close>.
\<close>

definition attempt :: "('w, 'a) act \<Rightarrow> (error + 'a \<Rightarrow> ('w, 'b) act) \<Rightarrow> ('w, 'b) act" where
  "attempt m k = (\<lambda>w. case m w of
      (Ok x, w') \<Rightarrow> k (Inr x) w'
    | (Err e, w') \<Rightarrow> k (Inl e) w'
    | (Panic s, w') \<Rightarrow> (Panic s, w'))"

definition check :: "('w, 'a) act \<Rightarrow> (error \<Rightarrow> error) \<Rightarrow> ('a \<Rightarrow> ('w, 'b) act) \<Rightarrow> ('w, 'b) act" where
  "check m f k = attempt m (\<lambda>r. case r of Inl e \<Rightarrow> fail (f e) | Inr x \<Rightarrow> k x)"

abbreviation andthen :: "('w, 'a) act \<Rightarrow> ('a \<Rightarrow> ('w, 'b) act) \<Rightarrow> ('w, 'b) act" where
  "andthen m k \<equiv> check m (\<lambda>e. e) k"

text \<open>\<open>deferring m d\<close> runs \<open>m\<close> and then the deferred \<open>d\<close>, whatever \<open>m\<close> gave.\<close>

definition deferring :: "('w, 'a) act \<Rightarrow> ('w, unit) act \<Rightarrow> ('w, 'a) act" where
  "deferring m d = (\<lambda>w. case m w of (r, w') \<Rightarrow>
      (case d w' of
         (Panic s, w'') \<Rightarrow> (Panic s, w'')
       | (_, w'') \<Rightarrow> (r, w'')))"

text \<open>A \<open>for range\<close> loop whose body may return early with an error.\<close>

primrec for_each :: "'a list \<Rightarrow> ('a \<Rightarrow> ('w, unit) act) \<Rightarrow> ('w, unit) act" where
  "for_each [] f = ret ()"
| "for_each (x # xs) f = andthen (f x) (\<lambda>_. for_each xs f)"

definition when_act :: "bool \<Rightarrow> ('w, unit) act \<Rightarrow> ('w, unit) act" where
  "when_act b m = (if b then m else ret ())"

lemma ret_apply [act_simps]: "ret x w = (Ok x, w)"
  by (simp add: ret_def)

lemma fail_apply [act_simps]: "fail e w = (Err e, w)"
  by (simp add: fail_def)

lemma panic_apply [act_simps]: "panic s w = (Panic s, w)"
  by (simp add: panic_def)

lemma attempt_apply [act_simps]:
  "attempt m k w = (case m w of
      (Ok x, w') \<Rightarrow> k (Inr x) w'
    | (Err e, w') \<Rightarrow> k (Inl e) w'
    | (Panic s, w') \<Rightarrow> (Panic s, w'))"
  by (simp add: attempt_def)

lemma check_apply [act_simps]:
  "check m f k w = (case m w of
      (Ok x, w') \<Rightarrow> k x w'
    | (Err e, w') \<Rightarrow> (Err (f e), w')
    | (Panic s, w') \<Rightarrow> (Panic s, w'))"
  by (simp add: check_def attempt_def fail_apply split: prod.split res.split)

lemma deferring_apply [act_simps]:
  "deferring m d w = (case m w of (r, w') \<Rightarrow>
      (case d w' of
         (Panic s, w'') \<Rightarrow> (Panic s, w'')
       | (Ok u, w'') \<Rightarrow> (r, w'')
       | (Err e, w'') \<Rightarrow> (r, w'')))"
  by (simp add: deferring_def split: prod.split res.split)

lemma when_act_simps [act_simps, simp]:
  "when_act True m = m" "when_act False m = ret ()"
  by (simp_all add: when_act_def)

section \<open>A Hoare calculus for actions\<close>

text \<open>
  \<open>hoare P m Q\<close>: from every state that satisfies \<open>P\<close>, \<open>m\<close> ends in a state and with a
  result that satisfy \<open>Q\<close>. Actions are total functions, so this is total correctness.
\<close>

definition hoare :: "('w \<Rightarrow> bool) \<Rightarrow> ('w, 'a) act \<Rightarrow> ('a res \<Rightarrow> 'w \<Rightarrow> bool) \<Rightarrow> bool" where
  "hoare P m Q \<longleftrightarrow> (\<forall>w. P w \<longrightarrow> Q (fst (m w)) (snd (m w)))"

lemma hoareI: "(\<And>w r w'. P w \<Longrightarrow> m w = (r, w') \<Longrightarrow> Q r w') \<Longrightarrow> hoare P m Q"
  by (simp add: hoare_def)

lemma hoareD: "hoare P m Q \<Longrightarrow> P w \<Longrightarrow> m w = (r, w') \<Longrightarrow> Q r w'"
  by (auto simp: hoare_def)

lemma hoare_conseq:
  "hoare P' m Q' \<Longrightarrow> (\<And>w. P w \<Longrightarrow> P' w) \<Longrightarrow> (\<And>r w. Q' r w \<Longrightarrow> Q r w) \<Longrightarrow> hoare P m Q"
  by (auto simp: hoare_def)

lemma hoare_ret [hoare_rules]: "(\<And>w. P w \<Longrightarrow> Q (Ok x) w) \<Longrightarrow> hoare P (ret x) Q"
  by (simp add: hoare_def ret_apply)

lemma hoare_fail [hoare_rules]: "(\<And>w. P w \<Longrightarrow> Q (Err e) w) \<Longrightarrow> hoare P (fail e) Q"
  by (simp add: hoare_def fail_apply)

lemma hoare_panic [hoare_rules]: "(\<And>w. P w \<Longrightarrow> Q (Panic s) w) \<Longrightarrow> hoare P (panic s) Q"
  by (simp add: hoare_def panic_apply)

lemma hoare_attempt:
  assumes "hoare P m R"
    and "\<And>x. hoare (R (Ok x)) (k (Inr x)) Q"
    and "\<And>e. hoare (R (Err e)) (k (Inl e)) Q"
    and "\<And>s w. R (Panic s) w \<Longrightarrow> Q (Panic s) w"
  shows "hoare P (attempt m k) Q"
proof (rule hoareI)
  fix w r w' assume P: "P w" and run: "attempt m k w = (r, w')"
  obtain r1 w1 where m: "m w = (r1, w1)" by fastforce
  with assms(1) P have "R r1 w1" by (blast dest: hoareD)
  with run m assms(2-4) show "Q r w'"
    by (cases r1) (auto simp: attempt_apply dest: hoareD)
qed

lemma hoare_check:
  assumes "hoare P m R"
    and "\<And>x. hoare (R (Ok x)) (k x) Q"
    and "\<And>e w. R (Err e) w \<Longrightarrow> Q (Err (f e)) w"
    and "\<And>s w. R (Panic s) w \<Longrightarrow> Q (Panic s) w"
  shows "hoare P (check m f k) Q"
  unfolding check_def
  by (rule hoare_attempt [OF assms(1)]) (auto intro: assms hoare_fail)

lemma hoare_deferring:
  assumes "hoare P m R"
    and "\<And>r. hoare (R r) d (\<lambda>r' w. case r' of Panic s \<Rightarrow> Q (Panic s) w | _ \<Rightarrow> Q r w)"
  shows "hoare P (deferring m d) Q"
proof (rule hoareI)
  fix w r w' assume P: "P w" and run: "deferring m d w = (r, w')"
  obtain r1 w1 where m: "m w = (r1, w1)" by fastforce
  obtain r2 w2 where d: "d w1 = (r2, w2)" by fastforce
  from assms(1) P m have "R r1 w1" by (blast dest: hoareD)
  with assms(2) d have "case r2 of Panic s \<Rightarrow> Q (Panic s) w2 | _ \<Rightarrow> Q r1 w2"
    by (blast dest: hoareD)
  with run m d show "Q r w'"
    by (cases r2) (auto simp: deferring_apply)
qed

lemma hoare_when [hoare_rules]:
  "(b \<Longrightarrow> hoare P m Q) \<Longrightarrow> (\<And>w. \<not> b \<Longrightarrow> P w \<Longrightarrow> Q (Ok ()) w) \<Longrightarrow> hoare P (when_act b m) Q"
  by (simp add: when_act_def hoare_ret)

text \<open>
  The loop rule: \<open>I ys\<close> holds when the elements still to visit are \<open>ys\<close>.
\<close>

lemma hoare_for_each:
  assumes "\<And>x ys. x \<in> set xs \<Longrightarrow> hoare (I (x # ys)) (f x)
      (\<lambda>r w. case r of Ok _ \<Rightarrow> I ys w | Err e \<Rightarrow> Q (Err e) w | Panic s \<Rightarrow> Q (Panic s) w)"
    and "\<And>w. I [] w \<Longrightarrow> Q (Ok ()) w"
  shows "hoare (I xs) (for_each xs f) Q"
  using assms(1)
proof (induction xs)
  case Nil
  then show ?case by (simp add: hoare_ret assms(2))
next
  case (Cons x xs)
  have body: "hoare (I (x # xs)) (f x)
      (\<lambda>r w. case r of Ok _ \<Rightarrow> I xs w | Err e \<Rightarrow> Q (Err e) w | Panic s \<Rightarrow> Q (Panic s) w)"
    using Cons.prems by simp
  have rest: "hoare (I xs) (for_each xs f) Q"
    using Cons.prems by (intro Cons.IH) simp
  from body show ?case
    by simp (rule hoare_check, assumption, simp_all add: rest)
qed

lemma hoare_cases_sum:
  assumes "\<And>e. r = Inl e \<Longrightarrow> hoare P (f e) Q" and "\<And>x. r = Inr x \<Longrightarrow> hoare P (g x) Q"
  shows "hoare P (case r of Inl e \<Rightarrow> f e | Inr x \<Rightarrow> g x) Q"
  using assms by (cases r) auto

lemma hoare_if:
  "(b \<Longrightarrow> hoare P m Q) \<Longrightarrow> (\<not> b \<Longrightarrow> hoare P m' Q) \<Longrightarrow> hoare P (if b then m else m') Q"
  by simp

section \<open>Strings of the Go standard library\<close>

text \<open>
  \<open>strings.Contains\<close>, \<open>HasPrefix\<close>, \<open>TrimPrefix\<close>, \<open>Split\<close> on a one-byte separator,
  \<open>TrimSpace\<close> and \<open>Trim\<close> (ASCII), \<open>ToLower\<close> (ASCII), and decimal printing (\<open>%d\<close>).
\<close>

definition contains :: "string \<Rightarrow> string \<Rightarrow> bool" where
  "contains s sub = list_ex (prefix sub) (suffixes s)"

definition HasPrefix :: "string \<Rightarrow> string \<Rightarrow> bool" where
  "HasPrefix s p = prefix p s"

definition TrimPrefix :: "string \<Rightarrow> string \<Rightarrow> string" where
  "TrimPrefix s p = (if prefix p s then drop (length p) s else s)"

fun split_on :: "char \<Rightarrow> string \<Rightarrow> string list" where
  "split_on c [] = [[]]"
| "split_on c (x # xs) =
     (if x = c then [] # split_on c xs
      else (case split_on c xs of [] \<Rightarrow> [[x]] | y # ys \<Rightarrow> (x # y) # ys))"

definition trim_by :: "(char \<Rightarrow> bool) \<Rightarrow> string \<Rightarrow> string" where
  "trim_by p s = rev (dropWhile p (rev (dropWhile p s)))"

definition is_space :: "char \<Rightarrow> bool" where
  "is_space c \<longleftrightarrow> c \<in> {CHR 0x09, CHR 0x0A, CHR 0x0B, CHR 0x0C, CHR 0x0D, CHR '' ''}"

definition TrimSpace :: "string \<Rightarrow> string" where
  "TrimSpace = trim_by is_space"

definition lower_char :: "char \<Rightarrow> char" where
  "lower_char c = (let n = of_char c :: nat in
     if 65 \<le> n \<and> n \<le> 90 then char_of (n + 32) else c)"

definition ToLower :: "string \<Rightarrow> string" where
  "ToLower = map lower_char"

definition is_digit :: "char \<Rightarrow> bool" where
  "is_digit c \<longleftrightarrow> 48 \<le> (of_char c :: nat) \<and> of_char c \<le> (57 :: nat)"

definition digit_char :: "nat \<Rightarrow> char" where
  "digit_char n = char_of (48 + n)"

fun show_nat :: "nat \<Rightarrow> string" where
  "show_nat n = (if n < 10 then [digit_char n] else show_nat (n div 10) @ [digit_char (n mod 10)])"

declare show_nat.simps [simp del]

definition show_int :: "int \<Rightarrow> string" where
  "show_int i = (if i < 0 then ''-'' @ show_nat (nat (- i)) else show_nat (nat i))"

text \<open>Decimal printing is injective and never prints a colon.\<close>

definition read_digits :: "string \<Rightarrow> nat" where
  "read_digits = foldl (\<lambda>a c. 10 * a + (of_char c - 48)) 0"

lemma of_char_digit: "d < 10 \<Longrightarrow> of_char (digit_char d) = 48 + d"
  by (simp add: digit_char_def of_char_of)

lemma read_show_nat [simp]: "read_digits (show_nat n) = n"
proof (induction n rule: show_nat.induct)
  case (1 n)
  show ?case
  proof (cases "n < 10")
    case True
    then show ?thesis by (simp add: show_nat.simps [of n] read_digits_def of_char_digit)
  next
    case False
    with 1 show ?thesis
      by (simp add: show_nat.simps [of n] read_digits_def of_char_digit)
  qed
qed

lemma show_nat_inj: "show_nat m = show_nat n \<longleftrightarrow> m = n"
  by (metis read_show_nat)

lemma set_show_nat: "set (show_nat n) \<subseteq> digit_char ` {..<10}"
proof (induction n rule: show_nat.induct)
  case (1 n)
  then show ?case by (cases "n < 10") (auto simp: show_nat.simps [of n])
qed

lemma show_nat_nonempty [simp]: "show_nat n \<noteq> []"
  by (simp add: show_nat.simps [of n])

lemma show_nat_digits: "c \<in> set (show_nat n) \<Longrightarrow> 48 \<le> (of_char c :: nat) \<and> of_char c \<le> (57 :: nat)"
  using set_show_nat [of n] by (auto simp: of_char_digit subset_iff)

lemma show_int_inj: "show_int a = show_int b \<longleftrightarrow> a = b"
proof -
  have minus: "show_nat n \<noteq> CHR ''-'' # xs" for n xs
    using show_nat_digits [of "CHR ''-''" n] by (auto dest: arg_cong [where f = set])
  then show ?thesis
    by (auto simp: show_int_def show_nat_inj minus [symmetric] dest: sym)
qed

lemma colon_not_in_show_int: "CHR '':'' \<notin> set (show_int a)"
  using show_nat_digits [of "CHR '':''"] by (auto simp: show_int_def)

lemma contains_iff: "contains s sub \<longleftrightarrow> (\<exists>a b. s = a @ sub @ b)"
proof
  assume "contains s sub"
  then show "\<exists>a b. s = a @ sub @ b"
    by (fastforce simp: contains_def list_ex_iff prefix_def suffix_def)
next
  assume "\<exists>a b. s = a @ sub @ b"
  then obtain a b where "s = a @ sub @ b" by blast
  then have "suffix (sub @ b) s" and "prefix sub (sub @ b)"
    by (auto simp: suffix_def)
  then show "contains s sub"
    unfolding contains_def list_ex_iff by (metis in_set_suffixes)
qed

lemma contains_append [str_simps]: "contains s sub \<Longrightarrow> contains (a @ s @ b) sub"
  unfolding contains_iff by (metis append.assoc)

lemma contains_self [str_simps, simp]: "contains (a @ s) s"
  unfolding contains_iff by (metis append_Nil2)

lemma split_on_nonempty [simp]: "split_on c s \<noteq> []"
  by (induction s) (auto split: list.split)

lemma split_on_no_sep: "p \<in> set (split_on c s) \<Longrightarrow> c \<notin> set p"
proof (induction s arbitrary: p)
  case Nil
  then show ?case by simp
next
  case (Cons x xs)
  then show ?case by (auto split: if_splits list.splits)
qed

text \<open>
  \<open>filepath.Clean\<close> and \<open>filepath.Join\<close> (the Unix versions): the lexical processing of the
  path elements, with the elements kept so far in reverse order.
\<close>

definition clean_elem :: "bool \<Rightarrow> string list \<Rightarrow> string \<Rightarrow> string list" where
  "clean_elem rooted stack e =
     (if e = [] \<or> e = ''.'' then stack
      else if e = ''..'' then
        (case stack of
           [] \<Rightarrow> (if rooted then [] else [''..''])
         | t # ts \<Rightarrow> (if t = ''..'' then ''..'' # stack else ts))
      else e # stack)"

fun join_with :: "string \<Rightarrow> string list \<Rightarrow> string" where
  "join_with sep [] = []"
| "join_with sep [x] = x"
| "join_with sep (x # y # ys) = x @ sep @ join_with sep (y # ys)"

definition path_Clean :: "string \<Rightarrow> string" where
  "path_Clean p =
     (let rooted = HasPrefix p ''/'';
          elems = rev (foldl (clean_elem rooted) [] (split_on CHR ''/'' p))
      in if rooted then ''/'' @ join_with ''/'' elems
         else if elems = [] then ''.'' else join_with ''/'' elems)"

definition path_Join :: "string list \<Rightarrow> string" where
  "path_Join ps =
     (let qs = dropWhile (\<lambda>p. p = []) ps in if qs = [] then [] else path_Clean (join_with ''/'' qs))"

text \<open>\<open>strings.LastIndex\<close> of a one-byte string, \<open>strings.HasSuffix\<close>.\<close>

fun last_index :: "char \<Rightarrow> string \<Rightarrow> nat option" where
  "last_index c [] = None"
| "last_index c (x # xs) = (case last_index c xs of
      Some i \<Rightarrow> Some (Suc i)
    | None \<Rightarrow> if x = c then Some 0 else None)"

definition HasSuffix :: "string \<Rightarrow> string \<Rightarrow> bool" where
  "HasSuffix s p = suffix p s"

text \<open>The text of a script, given by its lines.\<close>

definition script_lines :: "string list \<Rightarrow> string" where
  "script_lines ls = concat (map (\<lambda>l. l @ [CHR 0x0A]) ls)"

abbreviation backslash :: string where
  "backslash \<equiv> [CHR 0x5C]"

lemma last_index_append: "c \<notin> set b \<Longrightarrow> last_index c (a @ c # b) = Some (length a)"
proof -
  assume b: "c \<notin> set b"
  then have "last_index c b = None" by (induction b) auto
  then show ?thesis by (induction a) auto
qed

lemma last_index_Some:
  assumes "last_index c s = Some i"
  shows "i < length s \<and> s ! i = c \<and> c \<notin> set (drop (Suc i) s)"
  using assms
proof (induction s arbitrary: i)
  case (Cons x xs)
  have none: "c \<notin> set ys" if "last_index c ys = None" for ys
    using that by (induction ys) (auto split: option.splits)
  from Cons none [of xs] show ?case by (auto split: option.splits if_splits)
qed simp

text \<open>The conversion \<open>int32(i)\<close> keeps the low 32 bits.\<close>

definition int32 :: "int \<Rightarrow> int" where
  "int32 i = (i + 2147483648) mod 4294967296 - 2147483648"

section \<open>Lists\<close>

text \<open>
  \<open>find_first p xs\<close> is the loop that returns the first element that satisfies \<open>p\<close>;
  \<open>List.find\<close> with the facts the components use.
\<close>

lemma find_Some_iff_split:
  "List.find p xs = Some x \<longleftrightarrow> (\<exists>ys zs. xs = ys @ x # zs \<and> p x \<and> (\<forall>y\<in>set ys. \<not> p y))"
proof (induction xs)
  case Nil
  then show ?case by simp
next
  case (Cons a xs)
  show ?case
  proof (cases "p a")
    case True
    then show ?thesis
      by (auto simp: Cons_eq_append_conv)
  next
    case False
    with Cons.IH show ?thesis
      by (auto simp: Cons_eq_append_conv) (metis append_Cons set_ConsD)+
  qed
qed

lemma find_None_conv: "List.find p xs = None \<longleftrightarrow> (\<forall>x\<in>set xs. \<not> p x)"
  by (auto simp: find_None_iff)

text \<open>A loop that returns an error at the first element that fails a test.\<close>

lemma for_each_guard:
  "for_each xs (\<lambda>x. if p x then ret () else fail (f x)) w =
     (case List.find (\<lambda>x. \<not> p x) xs of None \<Rightarrow> (Ok (), w) | Some x \<Rightarrow> (Err (f x), w))"
  by (induction xs) (auto simp: act_simps)

lemma find_SomeD: "List.find p xs = Some x \<Longrightarrow> x \<in> set xs \<and> p x"
  by (auto simp: find_Some_iff_split)

text \<open>The contract of Go's \<open>sort.Slice\<close>: some sorted permutation, ties in any order.\<close>

definition sorts_by :: "('a \<Rightarrow> 'k::linorder) \<Rightarrow> ('a list \<Rightarrow> 'a list) \<Rightarrow> bool" where
  "sorts_by key f \<longleftrightarrow> (\<forall>xs. mset (f xs) = mset xs \<and> sorted (map key (f xs)))"

lemma sorts_by_set: "sorts_by key f \<Longrightarrow> set (f xs) = set xs"
  unfolding sorts_by_def by (metis set_mset_mset)

lemma sorts_by_sorted: "sorts_by key f \<Longrightarrow> sorted (map key (f xs))"
  by (simp add: sorts_by_def)

lemma sorts_by_sort_key [simp]: "sorts_by key (sort_key key)"
  by (simp add: sorts_by_def)

text \<open>
  The contract of Go's \<open>range\<close> over a map: every key once, in an unspecified order.
\<close>

definition ranges_keys :: "('k list \<Rightarrow> 'k list) \<Rightarrow> bool" where
  "ranges_keys ord \<longleftrightarrow> (\<forall>ks. mset (ord ks) = mset ks)"

lemma ranges_keys_set: "ranges_keys ord \<Longrightarrow> set (ord ks) = set ks"
  unfolding ranges_keys_def by (metis set_mset_mset)

lemma ranges_keys_distinct: "ranges_keys ord \<Longrightarrow> distinct (ord ks) = distinct ks"
  unfolding ranges_keys_def by (metis mset_eq_imp_distinct_iff)

lemma ranges_keys_id [simp]: "ranges_keys (\<lambda>ks. ks)"
  by (simp add: ranges_keys_def)

section \<open>Splitting and joining\<close>

lemma split_on_append: "split_on c (a @ c # b) = split_on c a @ split_on c b"
  by (induction a) (auto split: list.split)

lemma split_on_single: "c \<notin> set s \<Longrightarrow> split_on c s = [s]"
  by (induction s) auto

lemma split_script_lines: "(\<And>x. x \<in> set ls \<Longrightarrow> CHR 0x0A \<notin> set x) \<Longrightarrow> split_on CHR 0x0A (script_lines ls) = ls @ [[]]"
  by (induction ls) (simp_all add: script_lines_def split_on_append split_on_single)

lemma join_with_snoc: "xs \<noteq> [] \<Longrightarrow> join_with sep (xs @ [x]) = join_with sep xs @ sep @ x"
  by (induction sep xs rule: join_with.induct) auto

lemma split_join:
  "xs \<noteq> [] \<Longrightarrow> \<forall>x\<in>set xs. c \<notin> set x \<Longrightarrow> split_on c (join_with [c] xs) = xs"
proof (induction "[c]" xs rule: join_with.induct)
  case (2 x)
  then show ?case by (simp add: split_on_single)
next
  case (3 x y ys)
  then show ?case by (simp add: split_on_append split_on_single)
qed simp

lemma join_with_Nil: "join_with sep xs = [] \<Longrightarrow> \<forall>x\<in>set xs. x \<noteq> [] \<Longrightarrow> xs = []"
  by (induction sep xs rule: join_with.induct) auto


end
