(* ===== verification/Api_Types.thy ===== *)
theory Api_Types
  imports Prelude
begin

text \<open>
  The API types of the CVO module (\<open>modules/cvo/api/v1beta1\<close>), one record per Go struct with
  its fields in the Go order, and the parts of the Kubernetes object types that the code
  reads. A Go pointer is an \<open>option\<close>, a Go map an association list (\<open>map_of\<close> reads it),
  a \<open>time.Duration\<close> an \<open>int\<close> of nanoseconds, a timestamp an \<open>int\<close>, raw JSON its text.
  Kinds that the API spells as strings (\<open>AddonType\<close>, hook policies, strategy types) stay
  strings, since the code's switches have default branches for every other spelling.
\<close>

section \<open>Scalars\<close>

type_synonym duration = int
type_synonym timestamp = int
type_synonym json_raw = string
type_synonym labels = "(string \<times> string) list"

abbreviation second :: duration where "second \<equiv> 1000000000"
abbreviation minute :: duration where "minute \<equiv> 60000000000"

section \<open>Object metadata and Kubernetes objects\<close>

record object_meta =
  m_Name :: string
  m_Namespace :: string
  m_Labels :: labels
  m_Finalizers :: "string list"
  m_DeletionTimestamp :: "timestamp option"

record condition =
  cond_Type :: string
  cond_Status :: string
  cond_Reason :: string
  cond_Message :: string
  cond_LastTransitionTime :: timestamp

record object_reference =
  ref_Kind :: string
  ref_Namespace :: string
  ref_Name :: string

record node =
  node_Name :: string
  node_Labels :: labels
  node_Conditions :: "(string \<times> string) list"

record pod =
  pod_Name :: string
  pod_Namespace :: string
  pod_OwnerKinds :: "string list"
  pod_Phase :: string

text \<open>
  A Deployment or DaemonSet: metadata, container images, the status counters (ready, desired
  or current, unavailable, observed generation) and, for Deployments, replicas, strategy and
  the minimal ready time. A CustomResourceDefinition: name, annotations (which may be nil).
\<close>

datatype int_or_string = IntVal int | StringVal string

record workload =
  wl_Name :: string
  wl_Namespace :: string
  wl_Images :: "string list"
  wl_Ready :: int
  wl_Desired :: int
  wl_Annotations :: labels
  wl_Generation :: int
  wl_ObservedGeneration :: int
  wl_Unavailable :: int
  wl_Replicas :: "int option"
  wl_StrategyType :: string
  wl_RollingUpdate :: "(int_or_string option \<times> int_or_string option) option"
  wl_MinReadySeconds :: int

record crd =
  crd_Name :: string
  crd_Annotations :: "labels option"

section \<open>Hooks and component upgrade configuration\<close>

record AddonHook =
  hook_Name :: string
  hook_Command :: string
  hook_Timeout :: "duration option"
  hook_OnFailure :: string

record BackupItem =
  bi_Path :: string
  bi_Type :: string

record ComponentBackupConfig =
  bk_Enabled :: bool
  bk_Config :: "BackupItem list"
  bk_EtcdSnapshot :: bool

record ComponentRollbackConfig =
  rb_Script :: string
  rb_Timeout :: "duration option"

record ComponentHealthCheckConfig =
  chc_Command :: string
  chc_Timeout :: "duration option"
  chc_Retries :: int

record ComponentUpgradeConfig =
  cu_Backup :: ComponentBackupConfig
  cu_Rollback :: ComponentRollbackConfig
  cu_HealthCheck :: ComponentHealthCheckConfig

section \<open>The upgrade graph of a release\<close>

record HealthCheck =
  hc_Type :: string
  hc_Namespace :: string
  hc_Name :: string
  hc_LabelSelector :: string
  hc_Endpoint :: string
  hc_Timeout :: duration

record UpgradeComponent =
  uc_Name :: string
  uc_Manifests :: "string list"
  uc_Scripts :: "string list"
  uc_Blocking :: bool
  uc_DependsOn :: "string list"
  uc_HealthCheck :: "HealthCheck option"

record RollingUpdate =
  ru_MaxUnavailable :: int

record UpgradePhase =
  up_Name :: string
  up_Order :: int
  up_Blocking :: bool
  up_RollingUpdate :: "RollingUpdate option"
  up_Components :: "UpgradeComponent list"

section \<open>Binary components\<close>

record BinaryInstallStrategy =
  bis_Timeout :: "duration option"
  bis_RetryCount :: int
  bis_Method :: string
  bis_ServiceName :: string

record BinaryUpgradeStrategy =
  bus_Type :: string
  bus_MaxConcurrent :: int
  bus_Timeout :: "duration option"
  bus_RetryCount :: int
  bus_Force :: bool
  bus_Drain :: bool

record BinaryFiles =
  bf_Archive :: string

record BinaryComponent =
  bc_Version :: string
  bc_Type :: string
  bc_Path :: string
  bc_Architectures :: "string list"
  bc_Files :: BinaryFiles
  bc_InstallStrategy :: "BinaryInstallStrategy option"
  bc_UpgradeStrategy :: "BinaryUpgradeStrategy option"
  bc_PreHooks :: "AddonHook list"
  bc_PostHooks :: "AddonHook list"
  bc_Upgrade :: "ComponentUpgradeConfig option"

record K8SPlatform =
  kp_Architectures :: "string list"
  kp_Packages :: "(string \<times> string) list"

record KubernetesComponent =
  kc_Version :: string
  kc_Type :: string
  kc_Path :: string
  kc_Platforms :: "(string \<times> K8SPlatform) list"
  kc_ImageList :: "string list"
  kc_InstallStrategy :: "BinaryInstallStrategy option"
  kc_UpgradeStrategy :: "BinaryUpgradeStrategy option"
  kc_PreHooks :: "AddonHook list"
  kc_PostHooks :: "AddonHook list"
  kc_Upgrade :: "ComponentUpgradeConfig option"

record ReleaseComponentVersions =
  rc_Kubernetes :: KubernetesComponent
  rc_Containerd :: BinaryComponent
  rc_Helm :: BinaryComponent
  rc_CNIPlugins :: BinaryComponent

section \<open>Addons\<close>

record AddonVariable =
  av_Name :: string
  av_Type :: string
  av_Description :: string
  av_Required :: bool
  av_Default :: "json_raw option"
  av_Enum :: "json_raw list"
  av_Path :: string

record AddonHealthCheck =
  ahc_Type :: string
  ahc_Namespace :: string
  ahc_Name :: string
  ahc_Selector :: "labels option"

record AddonInstallStrategy =
  ais_Timeout :: "duration option"
  ais_RetryCount :: int
  ais_CreateNamespace :: bool
  ais_Wait :: bool

record AddonRollingUpdateConfig =
  aru_MaxSurge :: int
  aru_Partition :: int

record AddonUpgradeStrategy =
  aus_Type :: string
  aus_RollingUpdate :: "AddonRollingUpdateConfig option"
  aus_MaxUnavailable :: int
  aus_Timeout :: "duration option"
  aus_RetryCount :: int
  aus_Force :: bool

record AddonDefinition =
  ad_Name :: string
  ad_Type :: string
  ad_Version :: string
  ad_ContentPath :: string
  ad_Namespace :: string
  ad_Variables :: "AddonVariable list"
  ad_DefaultValues :: "(string \<times> json_raw) list"
  ad_Dependencies :: "string list"
  ad_InstallStrategy :: "AddonInstallStrategy option"
  ad_UpgradeStrategy :: "AddonUpgradeStrategy option"
  ad_PreHooks :: "AddonHook list"
  ad_PostHooks :: "AddonHook list"
  ad_Upgrade :: "ComponentUpgradeConfig option"
  ad_HealthCheck :: "AddonHealthCheck option"

text \<open>\<open>AddonPhase\<close> and \<open>UpdateState\<close> are closed sets of constants in the API.\<close>

datatype AddonPhase =
    AddonPhaseNone | AddonPhasePending | AddonPhaseInstalling | AddonPhaseInstalled
  | AddonPhaseUpgrading | AddonPhaseFailed | AddonPhaseDeleting

datatype UpdateState = CompletedUpdate | PartialUpdate

record ClusterAddonSpec =
  cas_ClusterRef :: object_reference
  cas_ReleaseImageRef :: string
  cas_AddonName :: string
  cas_Values :: "(string \<times> json_raw) list"
  cas_Namespace :: string
  cas_Prune :: bool
  cas_HealthCheck :: "AddonHealthCheck option"

record ClusterAddonStatus =
  cast_Phase :: AddonPhase
  cast_Version :: string
  cast_Conditions :: "condition list"
  cast_LastAppliedRevision :: string

record ClusterAddon =
  ca_Meta :: object_meta
  ca_Spec :: ClusterAddonSpec
  ca_Status :: ClusterAddonStatus

section \<open>Release images, catalog and upgrade paths\<close>

record HTTPServerConfig =
  hs_Enabled :: bool
  hs_Port :: int
  hs_BasePath :: string
  hs_BaseURL :: string
  hs_TLSSecretRef :: string
  hs_InsecureSkipVerify :: bool

record ImageRegistryConfig =
  ir_Enabled :: bool
  ir_Registry :: string
  ir_Repository :: string
  ir_CredentialsSecret :: string
  ir_InsecureSkipVerify :: bool
  ir_ImagePrefix :: string
  ir_CAConfigMap :: string

record ImportedImageStatus =
  ii_Component :: string
  ii_Image :: string
  ii_TargetRef :: string
  ii_Status :: string
  ii_Message :: string

record ReleaseImageSpec =
  ris_Version :: string
  ris_Image :: string
  ris_HTTPServer :: "HTTPServerConfig option"
  ris_ImageRegistry :: "ImageRegistryConfig option"
  ris_Channels :: "string list"
  ris_PreviousVersions :: "string list"
  ris_Components :: ReleaseComponentVersions
  ris_Addons :: "AddonDefinition list"
  ris_UpgradeGraph :: "UpgradePhase list"
  ris_ContentHash :: string

record ReleaseImageStatus =
  rist_Verified :: bool
  rist_ManifestCount :: int
  rist_ImagesImported :: bool
  rist_ImportJobName :: string
  rist_ImportStatus :: string
  rist_ImportMessage :: string
  rist_ImportedImages :: "ImportedImageStatus list"

record ReleaseImage =
  ri_Meta :: object_meta
  ri_Spec :: ReleaseImageSpec
  ri_Status :: ReleaseImageStatus

record Release =
  rel_Version :: string
  rel_Image :: string

record ReleaseEntry =
  re_Version :: string
  re_Image :: string
  re_Channels :: "string list"
  re_ReleaseDate :: string

record ReleaseCatalogStatus =
  rcs_LastSyncTime :: timestamp
  rcs_SyncSucceeded :: bool
  rcs_ImageDigest :: string
  rcs_Releases :: "ReleaseEntry list"
  rcs_Channels :: "(string \<times> string list) list"

record ReleaseCatalog =
  rcat_Meta :: object_meta
  rcat_Image :: string
  rcat_SyncInterval :: duration
  rcat_Status :: ReleaseCatalogStatus

record GraphEdge =
  ge_From :: string
  ge_To :: string
  ge_Recommended :: bool

record BlockedUpgrade =
  bl_From :: string
  bl_To :: string
  bl_Reason :: string

record CompatibilityRules =
  cr_MaxVersionSkip :: int
  cr_BlockedUpgrades :: "BlockedUpgrade list"

record UpgradePathSpec =
  ups_Image :: string
  ups_Edges :: "GraphEdge list"
  ups_Rules :: CompatibilityRules

record UpgradePathStatus =
  upst_LastSyncTime :: timestamp
  upst_SyncSucceeded :: bool
  upst_ImageDigest :: string

record UpgradePath =
  upath_Meta :: object_meta
  upath_Spec :: UpgradePathSpec
  upath_Status :: UpgradePathStatus

section \<open>ClusterVersion\<close>

record Update =
  upd_Version :: string
  upd_Image :: string
  upd_Force :: bool

record UpdateHistory =
  uh_State :: UpdateState
  uh_Version :: string
  uh_Image :: string
  uh_Verified :: bool
  uh_StartedTime :: timestamp
  uh_CompletionTime :: "timestamp option"

record ComponentStatus =
  cs_Name :: string
  cs_Version :: string
  cs_TargetVersion :: string
  cs_Phase :: string

record AddonVersionStatus =
  avs_Name :: string
  avs_Version :: string
  avs_TargetVersion :: string
  avs_Phase :: AddonPhase
  avs_LastTransitionTime :: timestamp

record ClusterVersionSpec =
  cvs_ClusterRef :: object_reference
  cvs_Channel :: string
  cvs_DesiredUpdate :: "Update option"
  cvs_Paused :: bool

record ClusterVersionStatus =
  cvst_ObservedGeneration :: int
  cvst_Desired :: Release
  cvst_ActualVersion :: string
  cvst_History :: "UpdateHistory list"
  cvst_Conditions :: "condition list"
  cvst_AvailableUpdates :: "Release list"
  cvst_ComponentStatus :: "ComponentStatus list"
  cvst_AddonStatus :: "AddonVersionStatus list"

record ClusterVersion =
  cv_Meta :: object_meta
  cv_Spec :: ClusterVersionSpec
  cv_Status :: ClusterVersionStatus

section \<open>SelfUpgrade\<close>

text \<open>The phase is a string in Go; a value outside the constants is \<open>PhaseOther\<close>.\<close>

datatype SelfUpgradePhase =
    PhaseNone | PhasePending | PhaseValidating | PhasePreUpgrade | PhaseUpgrading | PhaseVerifying
  | PhaseCompleted | PhaseRollingBack | PhaseFailed | PhaseOther string

record SelfUpgradeStrategy =
  ss_Type :: string
  ss_MaxUnavailable :: int
  ss_MaxSurge :: int
  ss_MinReadySeconds :: int
  ss_Timeout :: "duration option"
  ss_AutoRollback :: bool

record Hook =
  hk_Name :: string
  hk_Command :: string
  hk_Timeout :: "duration option"
  hk_OnFailure :: string

record SelfUpgradeComponent =
  suc_Name :: string
  suc_Type :: string
  suc_Order :: int
  suc_Blocking :: bool
  suc_DependsOn :: "string list"
  suc_HealthCheck :: "HealthCheck option"

record SelfUpgradeSpec =
  sus_TargetVersion :: string
  sus_ReleaseImage :: string
  sus_Strategy :: SelfUpgradeStrategy
  sus_PreUpgradeHooks :: "Hook list"
  sus_PostUpgradeHooks :: "Hook list"
  sus_Components :: "SelfUpgradeComponent list"
  sus_Paused :: bool

record ComponentUpgradeStatus =
  cus_Name :: string
  cus_Type :: string
  cus_Phase :: string
  cus_StartedTime :: "timestamp option"
  cus_CompletedTime :: "timestamp option"
  cus_Message :: string

record UpgradeHistory =
  uph_Version :: string
  uph_StartedTime :: "timestamp option"
  uph_CompletionTime :: "timestamp option"
  uph_State :: string
  uph_Message :: string

record observed_condition = condition +
  cond_ObservedGeneration :: int

record SelfUpgradeStatus =
  sust_Phase :: SelfUpgradePhase
  sust_StartedTime :: "timestamp option"
  sust_CompletedTime :: "timestamp option"
  sust_CurrentVersion :: string
  sust_ComponentStatus :: "ComponentUpgradeStatus list"
  sust_History :: "UpgradeHistory list"
  sust_Conditions :: "observed_condition list"
  sust_ObservedGeneration :: int

record SelfUpgrade =
  su_Meta :: object_meta
  su_Generation :: int
  su_Spec :: SelfUpgradeSpec
  su_Status :: SelfUpgradeStatus

section \<open>Node readiness\<close>

text \<open>
  The loop over \<open>node.Status.Conditions\<close> that every health check of the upgraders repeats:
  ready when some condition is \<open>Ready\<close> with status \<open>True\<close>.
\<close>

definition node_ready :: "node \<Rightarrow> bool" where
  "node_ready n = list_ex (\<lambda>(t, s). t = ''Ready'' \<and> s = ''True'') (node_Conditions n)"

lemma node_ready_iff: "node_ready n \<longleftrightarrow> (''Ready'', ''True'') \<in> set (node_Conditions n)"
  by (auto simp: node_ready_def list_ex_iff)

end
