(* ===== verification/Bm_Types.thy ===== *)
theory Bm_Types
  imports Api_Types
begin

text \<open>
  The API types of the CAPBM module (\<open>modules/capbm/api/v1beta2\<close>): \<open>BareMetalMachine\<close>,
  \<open>BareMetalHostInventory\<close>, \<open>BareMetalCluster\<close> and everything they contain, one record per Go struct with
  its fields in the Go order. The conventions are those of \<open>Api_Types\<close>; a \<open>LocalObjectReference\<close> is the
  name it holds, an address of a machine is its type and value, an API endpoint is host and
  port, an owner reference its kind, API version and name. The list of host states is an \<open>option\<close>, because the code tells a nil list from an empty one.
\<close>

section \<open>Installation of components\<close>

record RegistryMirrorEntry =
  rme_Host :: string
  rme_Endpoints :: "string list"

record RuntimeConfig =
  rtc_SystemdCgroup :: "bool option"
  rtc_SandboxImage :: string
  rtc_RegistryMirrors :: "RegistryMirrorEntry list"
  rtc_MaxConcurrentDownloads :: "int option"
  rtc_RawConfig :: string

record ContainerRuntimeConfig =
  crc_Type :: string
  crc_Version :: string
  crc_RegistryMirrors :: "string list"
  crc_Config :: "RuntimeConfig option"

record KubeletConfig =
  klc_CgroupDriver :: string
  klc_MaxPods :: "int option"
  klc_ExtraArgs :: labels
  klc_RawConfig :: string

record KubernetesConfig =
  kcf_Kubelet :: "KubeletConfig option"

record PackageRepository =
  prp_BaseURL :: string
  prp_GPGKey :: string

record KubernetesComponentsConfig =
  kcc_Version :: string
  kcc_Repository :: "PackageRepository option"
  kcc_Config :: "KubernetesConfig option"

record BmHTTPServerConfig =
  bhs_BaseURL :: string
  bhs_TLSSecretRef :: "string option"
  bhs_InsecureSkipVerify :: bool

record AirGapConfig =
  agc_Enabled :: bool
  agc_BinarySource :: string
  agc_HTTPServerConfig :: "BmHTTPServerConfig option"
  agc_LocalPath :: string
  agc_PreloadImages :: "string list"

section \<open>Network plugin\<close>

record CalicoBGPConfig =
  cbg_Enabled :: bool
  cbg_PeerIPs :: "string list"

record CalicoTyphaConfig =
  cty_Enabled :: bool
  cty_Replicas :: int

record CalicoConfig =
  clc_IPAM :: string
  clc_MTU :: int
  clc_BGP :: "CalicoBGPConfig option"
  clc_Typha :: "CalicoTyphaConfig option"

record CiliumHubbleConfig =
  chb_Enabled :: bool
  chb_Relay :: bool
  chb_UI :: bool

record CiliumConfig =
  cil_KubeProxyReplacement :: string
  cil_RoutingMode :: string
  cil_IPv4NativeRoutingCIDR :: string
  cil_Hubble :: "CiliumHubbleConfig option"

record FlannelConfig =
  flc_Backend :: string
  flc_MTU :: int

record CNIPluginConfig =
  cpc_PodCIDR :: string
  cpc_Calico :: "CalicoConfig option"
  cpc_Cilium :: "CiliumConfig option"
  cpc_Flannel :: "FlannelConfig option"

record CNIAirGapConfig =
  cna_Enabled :: bool
  cna_ManifestSource :: string
  cna_HTTPServerConfig :: "BmHTTPServerConfig option"
  cna_LocalPath :: string
  cna_ChartArchive :: string
  cna_CNIPluginsArchive :: string

record CNIConfig =
  cni_Enabled :: bool
  cni_Type :: string
  cni_Version :: string
  cni_InstallMode :: string
  cni_UpgradeStrategy :: string
  cni_Config :: "CNIPluginConfig option"
  cni_AirGap :: "CNIAirGapConfig option"

section \<open>Storage driver\<close>

record CSIStorageClass =
  csc_Name :: string
  csc_ReclaimPolicy :: string
  csc_FSType :: string
  csc_VolumeBindingMode :: string
  csc_MountOptions :: "string list"
  csc_Parameters :: labels

record CephFSConfig =
  cfs_Enabled :: bool
  cfs_KernelMount :: bool
  cfs_FuseMount :: bool

record RBDConfig =
  rbd_Enabled :: bool
  rbd_Pool :: string

record CephCsiConfig =
  cep_ClusterID :: string
  cep_Monitors :: "string list"
  cep_CephFS :: "CephFSConfig option"
  cep_RBD :: "RBDConfig option"
  cep_StorageClass :: "CSIStorageClass option"

record CinderCsiConfig =
  cin_OpenstackCloudConfigSecret :: string
  cin_StorageClass :: "CSIStorageClass option"

record LocalCsiConfig =
  lcs_StorageClass :: "CSIStorageClass option"

record NfsCsiConfig =
  nfs_Server :: string
  nfs_Share :: string
  nfs_StorageClass :: "CSIStorageClass option"

record CSIDriverConfig =
  cdc_CephCsi :: "CephCsiConfig option"
  cdc_CinderCsi :: "CinderCsiConfig option"
  cdc_LocalCsi :: "LocalCsiConfig option"
  cdc_NfsCsi :: "NfsCsiConfig option"

record CSIAirGapConfig =
  csa_Enabled :: bool
  csa_ManifestSource :: string
  csa_HTTPServerConfig :: "BmHTTPServerConfig option"
  csa_LocalPath :: string
  csa_ChartArchive :: string

record CSIConfig =
  csi_Enabled :: bool
  csi_Driver :: string
  csi_Version :: string
  csi_InstallMode :: string
  csi_Config :: "CSIDriverConfig option"
  csi_AirGap :: "CSIAirGapConfig option"

section \<open>Machines\<close>

definition InstallIfMissing :: string where "InstallIfMissing = ''InstallIfMissing''"
definition AlwaysInstall :: string where "AlwaysInstall = ''AlwaysInstall''"
definition Skip :: string where "Skip = ''Skip''"

record ComponentInstallConfig =
  cic_Enabled :: bool
  cic_Strategy :: string
  cic_ContainerRuntime :: ContainerRuntimeConfig
  cic_Kubernetes :: KubernetesComponentsConfig
  cic_Timeout :: "duration option"
  cic_AirGap :: "AirGapConfig option"
  cic_RollbackOnError :: bool
  cic_MaxRetries :: int
  cic_CNI :: CNIConfig
  cic_CSI :: CSIConfig

record PortRule =
  prt_Port :: int
  prt_Protocol :: string
  prt_Description :: string

record FirewallConfig =
  fwc_Configure :: bool
  fwc_AutoDetect :: bool
  fwc_AdditionalPorts :: "PortRule list"

record SELinuxConfig =
  sec_Configure :: bool

record HostsEntry =
  hse_IP :: string
  hse_Hostnames :: "string list"

record NodeBootstrapConfig =
  nbc_Enabled :: bool
  nbc_Hostname :: string
  nbc_HostsEntries :: "HostsEntry list"
  nbc_DisableSwap :: bool
  nbc_KernelModules :: "string list"
  nbc_SysctlParams :: labels
  nbc_TimeSync :: bool

record PowerManagementConfig =
  pmc_Type :: string
  pmc_Address :: string
  pmc_CredentialsRef :: string

record BareMetalMachineSpec =
  bms_ProviderID :: "string option"
  bms_HostInventoryRef :: "string option"
  bms_HostName :: string
  bms_IPAddress :: string
  bms_SSHPort :: int
  bms_CredentialsRef :: "string option"
  bms_UseSudo :: bool
  bms_PowerManagement :: "PowerManagementConfig option"
  bms_Role :: string
  bms_ReleaseImageRef :: "string option"
  bms_ComponentInstall :: "ComponentInstallConfig option"
  bms_Firewall :: "FirewallConfig option"
  bms_SELinux :: "SELinuxConfig option"
  bms_NodeBootstrap :: "NodeBootstrapConfig option"

text \<open>A condition of Cluster API: it has a severity beside the status.\<close>

record capi_condition =
  cc_Type :: string
  cc_Status :: string
  cc_Severity :: string
  cc_LastTransitionTime :: timestamp
  cc_Reason :: string
  cc_Message :: string

record InstalledVersions =
  cvr_ContainerRuntime :: string
  cvr_Kubeadm :: string
  cvr_Kubelet :: string
  cvr_Kubectl :: string
  cvr_CNI :: string
  cvr_CNIType :: string
  cvr_CSI :: string
  cvr_CSIDriver :: string
  cvr_OSType :: string
  cvr_OSVersion :: string

record BareMetalMachineStatus =
  bmt_Ready :: bool
  bmt_ProviderID :: string
  bmt_Addresses :: "(string \<times> string) list"
  bmt_InstalledComponents :: InstalledVersions
  bmt_Conditions :: "capi_condition list"

record BareMetalMachine =
  bm_Meta :: object_meta
  bm_Spec :: BareMetalMachineSpec
  bm_Status :: BareMetalMachineStatus

definition MachineFinalizer :: string where
  "MachineFinalizer = ''baremetalmachine.infrastructure.cluster.x-k8s.io''"

definition PreFlightChecksPassedCondition :: string where
  "PreFlightChecksPassedCondition = ''PreFlightChecksPassed''"

section \<open>Inventory\<close>

definition HostStateAvailable :: string where "HostStateAvailable = ''Available''"
definition HostStateAllocated :: string where "HostStateAllocated = ''Allocated''"
definition HostStateMaintenance :: string where "HostStateMaintenance = ''Maintenance''"

record HostEntry =
  he_Name :: string
  he_HostName :: string
  he_IPAddress :: string
  he_SSHPort :: int
  he_CredentialsRef :: string
  he_Role :: string
  he_Labels :: labels

record HostStatusEntry =
  hst_Name :: string
  hst_State :: string
  hst_ClusterRef :: "object_reference option"

record BareMetalHostInventorySpec =
  his_Hosts :: "HostEntry list"

record BareMetalHostInventoryStatus =
  hit_TotalHosts :: int
  hit_AvailableHosts :: int
  hit_AllocatedHosts :: int
  hit_HostsStatus :: "HostStatusEntry list option"

record BareMetalHostInventory =
  inv_Meta :: object_meta
  inv_Spec :: BareMetalHostInventorySpec
  inv_Status :: BareMetalHostInventoryStatus

section \<open>Clusters\<close>

record NetworkConfig =
  nwc_PodCIDR :: string
  nwc_ServiceCIDR :: string
  nwc_DNSDomain :: string

record HealthCheckConfig =
  lhc_Enabled :: bool
  lhc_Path :: string
  lhc_Interval :: string
  lhc_Timeout :: string
  lhc_HealthyThreshold :: int
  lhc_UnhealthyThreshold :: int

record HAProxyConfig =
  hap_AdminHost :: string
  hap_AdminPort :: int
  hap_SSHHost :: string
  hap_SSHPort :: int
  hap_SSHUser :: string
  hap_SSHKnownHostsFile :: string
  hap_SSHCredentialsRef :: "string option"
  hap_ConfigFile :: string
  hap_BackendName :: string
  hap_ReloadCommand :: string

record KeepalivedConfig =
  kac_VirtualIP :: string
  kac_Interface :: string
  kac_VirtualRouterID :: int
  kac_Priority :: int
  kac_AdvertInterval :: int

record F5Config =
  f5c_Host :: string
  f5c_Port :: int
  f5c_Username :: string
  f5c_Password :: string
  f5c_CredentialsRef :: "string option"
  f5c_Partition :: string
  f5c_PoolName :: string
  f5c_VirtualServerName :: string
  f5c_InsecureSkipVerify :: bool

record MetalLBConfig =
  mlb_IPAddressPool :: string
  mlb_LoadBalancerIP :: string
  mlb_AddressPool :: string
  mlb_Addresses :: "string list"

record LoadBalancerConfig =
  lbc_Provider :: string
  lbc_HealthCheck :: HealthCheckConfig
  lbc_HAProxy :: "HAProxyConfig option"
  lbc_Keepalived :: "KeepalivedConfig option"
  lbc_F5 :: "F5Config option"
  lbc_MetalLB :: "MetalLBConfig option"

record IngressHAProxyConfig =
  ihp_AdminHost :: string
  ihp_AdminPort :: int
  ihp_SSHHost :: string
  ihp_SSHPort :: int
  ihp_BackendName :: string
  ihp_HTTPPort :: int
  ihp_HTTPSPort :: int

record IngressF5Config =
  if5_Host :: string
  if5_Port :: int
  if5_CredentialsRef :: "string option"
  if5_Partition :: string
  if5_HTTPPoolName :: string
  if5_HTTPSPoolName :: string
  if5_HTTPPort :: int
  if5_HTTPSPort :: int

record IngressMetalLBConfig =
  iml_IPAddressPool :: string
  iml_LoadBalancerIP :: string

record IngressLoadBalancerConfig =
  ilb_Enabled :: bool
  ilb_Provider :: string
  ilb_HAProxy :: "IngressHAProxyConfig option"
  ilb_F5 :: "IngressF5Config option"
  ilb_MetalLB :: "IngressMetalLBConfig option"

record EnvoyGatewayConfig =
  egc_ReplicaCount :: int
  egc_NodeSelector :: labels

record MetalLBIPAddressPool =
  mip_Name :: string
  mip_Addresses :: "string list"

record GatewayMetalLBConfig =
  gml_Enabled :: bool
  gml_Mode :: string
  gml_IPAddressPools :: "MetalLBIPAddressPool list"

record GatewayAPIConfig =
  gac_Enabled :: bool
  gac_EnvoyGateway :: "EnvoyGatewayConfig option"
  gac_MetalLB :: "GatewayMetalLBConfig option"

record BareMetalClusterSpec =
  bcs_ControlPlaneEndpoint :: "(string \<times> int)"
  bcs_Network :: NetworkConfig
  bcs_LoadBalancer :: "LoadBalancerConfig option"
  bcs_IngressLoadBalancer :: "IngressLoadBalancerConfig option"
  bcs_GatewayAPI :: "GatewayAPIConfig option"

record BareMetalClusterInitializationStatus =
  bci_Provisioned :: "bool option"

record BareMetalClusterStatus =
  bct_Ready :: bool
  bct_Initialization :: "BareMetalClusterInitializationStatus option"
  bct_Conditions :: "capi_condition list"

record BareMetalCluster =
  bmc_Meta :: object_meta
  bmc_Annotations :: "labels option"
  bmc_OwnerReferences :: "(string \<times> string \<times> string) list"
  bmc_Spec :: BareMetalClusterSpec
  bmc_Status :: BareMetalClusterStatus

definition ClusterFinalizer :: string where
  "ClusterFinalizer = ''baremetalcluster.infrastructure.cluster.x-k8s.io''"

section \<open>Objects of Cluster API\<close>

text \<open>What the code reads of the \<open>Machine\<close> and \<open>Cluster\<close> objects of Cluster API, and of a Service.\<close>

record capi_machine =
  mc_Name :: string
  mc_Labels :: labels
  mc_ClusterName :: string
  mc_Version :: string
  mc_Phase :: string
  mc_Addresses :: "(string \<times> string) list"

record capi_cluster =
  cl_Name :: string
  cl_Namespace :: string
  cl_ControlPlaneEndpoint :: "string \<times> int"
  cl_PodCIDRs :: "string list"
  cl_ServiceCIDRs :: "string list"
  cl_ServiceDomain :: string
  cl_InfraKind :: string
  cl_InfraName :: string

record lb_service =
  ls_Name :: string
  ls_Namespace :: string
  ls_Labels :: labels
  ls_Annotations :: "labels option"
  ls_Type :: string
  ls_Ports :: "(int \<times> int \<times> string) list"
  ls_Selector :: labels
  ls_LoadBalancerIP :: string
  ls_Ingress :: "string list"

abbreviation ClusterNameLabel :: string where
  "ClusterNameLabel \<equiv> ''cluster.x-k8s.io/cluster-name''"

end
