(* ===== verification/Cluster_Env.thy ===== *)
theory Cluster_Env
  imports Bm_Types
begin

text \<open>
  The world the code of both modules acts on. Everything outside the repository (the Kubernetes API
  server and client, the SSH library and remote hosts, HTTP servers, the OCI client, file
  contents, clocks) answers through the records \<open>kube_env\<close>, \<open>ssh_env\<close> and \<open>host_env\<close>,
  which are arguments of the model. Every answer may depend on the whole history of calls
  made so far, the log, so no assumption is made on how the outside behaves or changes
  between two calls. The log is also what theorems on effects and their order talk about.
  State that the repository's own code keeps (the SSH connection pool and its connection
  objects, the work directories of the image puller) are fields of \<open>world\<close>.
\<close>

section \<open>Objects that are written\<close>

text \<open>
  The data of a ConfigMap may be a nil map (\<open>None\<close>). A job is written with its metadata, its
  limits, its single container (name, image, command) and the volumes mounted from
  ConfigMaps (volume, mount path, ConfigMap); all jobs run as the service account
  \<open>capbm-addon-installer\<close> with restart policy \<open>Never\<close>.
\<close>

record config_map =
  cm_Name :: string
  cm_Namespace :: string
  cm_Labels :: labels
  cm_Data :: "(string \<times> string) list option"
  cm_BinaryData :: "(string \<times> string) list"

record job =
  job_Name :: string
  job_Namespace :: string
  job_Labels :: labels
  job_BackoffLimit :: int
  job_ActiveDeadlineSeconds :: "int option"
  job_Container :: string
  job_Image :: string
  job_Command :: "string list"
  job_Volumes :: "(string \<times> string \<times> string) list"

record service =
  svc_Name :: string
  svc_Namespace :: string
  svc_Selector :: "labels option"

text \<open>
  The status of a job as it is read: labels, counters, and the conditions (type, status,
  message). The image import job has an environment and volumes of its own; a value of the
  environment is text or a reference to a key of a Secret, a volume is a host path, an empty
  directory or a ConfigMap.
\<close>

record job_state =
  js_Labels :: labels
  js_Succeeded :: int
  js_Failed :: int
  js_Active :: int
  js_Conditions :: "(string \<times> string \<times> string) list"

datatype env_value = EnvText string | EnvSecret string string
datatype volume_source = VolHostPath string | VolEmptyDir | VolConfigMap string

record import_job =
  ij_Name :: string
  ij_Namespace :: string
  ij_Labels :: labels
  ij_BackoffLimit :: int
  ij_ActiveDeadlineSeconds :: int
  ij_ServiceAccount :: string
  ij_Container :: string
  ij_Image :: string
  ij_Command :: "string list"
  ij_Env :: "(string \<times> env_value) list"
  ij_Mounts :: "(string \<times> string \<times> bool) list"
  ij_Volumes :: "(string \<times> volume_source) list"

text \<open>The jobs that install components of the provider; their pods never restart.\<close>

record component_job =
  cj_Name :: string
  cj_Namespace :: string
  cj_Labels :: labels
  cj_BackoffLimit :: int
  cj_ActiveDeadlineSeconds :: int
  cj_PodLabels :: labels
  cj_ServiceAccount :: string
  cj_Container :: string
  cj_Image :: string
  cj_Command :: "string list"
  cj_Env :: "(string \<times> string) list"
  cj_RestartPolicy :: string
  cj_Tolerations :: "(string \<times> string \<times> string) list"

datatype kobj =
    KUpgradePath UpgradePath
  | KReleaseCatalog ReleaseCatalog
  | KReleaseImage ReleaseImage
  | KClusterAddon ClusterAddon
  | KClusterVersion ClusterVersion
  | KConfigMap config_map
  | KSecret config_map
  | KJob job
  | KDaemonSet workload
  | KDeployment workload
  | KService service
  | KCRD crd
  | KSelfUpgrade SelfUpgrade
  | KImportJob import_job
  | KComponentJob component_job
  | KManifest string
  | KBareMetalMachine BareMetalMachine
  | KInventory BareMetalHostInventory
  | KBareMetalCluster BareMetalCluster
  | KLbService lb_service

section \<open>Calls to the outside\<close>

datatype pod_selector =
    PodsInNamespace string
  | PodsSelector string string
  | PodsLabels string labels
  | PodsOnNode string

datatype event =
    EvGet string string string
  | EvList string string labels
  | EvListPods pod_selector
  | EvCreate kobj
  | EvUpdate kobj
  | EvStatusUpdate kobj
  | EvPatch kobj
  | EvDelete string string string
  | EvEvict string string
  | EvUncordon string
  | EvAPIProbe
  | EvDial string int
  | EvKeepalive string int
  | EvSession string
  | EvExec string string "duration option"
  | EvCloseClient string int
  | EvKnownHosts string
  | EvReadFile string
  | EvStat string
  | EvMkdir string
  | EvFileStore string
  | EvPull string "(string \<times> string) option"
  | EvHTTPGet string
  | EvNow
  | EvSleep duration
  | EvLocalExec string duration
  | EvReadDir string
  | EvWalk string
  | EvRecord string string string
  | EvTcpDial string
  | EvTcpWrite string string
  | EvTcpRead string nat
  | EvTcpClose string
  | EvRequest string string "string option"

type_synonym log = "event list"

text \<open>Which events change the cluster or a host: the rest only reads.\<close>

fun is_api_write :: "event \<Rightarrow> bool" where
  "is_api_write (EvCreate _) = True"
| "is_api_write (EvUpdate _) = True"
| "is_api_write (EvStatusUpdate _) = True"
| "is_api_write (EvPatch _) = True"
| "is_api_write (EvDelete _ _ _) = True"
| "is_api_write (EvEvict _ _) = True"
| "is_api_write (EvUncordon _) = True"
| "is_api_write _ = False"

fun is_exec :: "event \<Rightarrow> bool" where
  "is_exec (EvExec _ _ _) = True"
| "is_exec _ = False"

fun is_ssh :: "event \<Rightarrow> bool" where
  "is_ssh (EvDial _ _) = True"
| "is_ssh (EvKeepalive _ _) = True"
| "is_ssh (EvSession _) = True"
| "is_ssh (EvExec _ _ _) = True"
| "is_ssh (EvCloseClient _ _) = True"
| "is_ssh (EvKnownHosts _) = True"
| "is_ssh _ = False"

fun ssh_host :: "event \<Rightarrow> string option" where
  "ssh_host (EvDial h _) = Some h"
| "ssh_host (EvKeepalive h _) = Some h"
| "ssh_host (EvSession h) = Some h"
| "ssh_host (EvExec h _ _) = Some h"
| "ssh_host (EvCloseClient h _) = Some h"
| "ssh_host _ = None"

definition is_mutation :: "event \<Rightarrow> bool" where
  "is_mutation ev \<longleftrightarrow> is_api_write ev \<or> is_exec ev"

section \<open>State of the program\<close>

text \<open>\<open>Credentials\<close>, \<open>SSHConnection\<close> of \<open>modules/cvo/pkg/ssh/manager.go\<close>.\<close>

record Credentials =
  cred_Username :: string
  cred_Password :: string
  cred_SudoPassword :: string
  cred_UseSudo :: bool

record SSHConnection =
  sc_Client :: "nat option"
  sc_Host :: string
  sc_Port :: int
  sc_LastUsed :: timestamp
  sc_Credentials :: "Credentials option"

text \<open>
  \<open>w_conns\<close> is the heap of connection objects, a pointer is an index into it;
  \<open>w_pool\<close> is \<open>SSHManager.connections\<close>; \<open>w_dirs\<close> are the existing work directories.
\<close>

record world =
  w_log :: log
  w_conns :: "SSHConnection list"
  w_pool :: "(string \<times> nat) list"
  w_dirs :: "string set"

type_synonym 'a cact = "(world, 'a) act"

section \<open>The environment\<close>

record kube_env =
  k_get_node :: "log \<Rightarrow> string \<Rightarrow> error + node"
  k_list_nodes :: "log \<Rightarrow> labels \<Rightarrow> error + node list"
  k_list_pods :: "log \<Rightarrow> pod_selector \<Rightarrow> error + pod list"
  k_selector_ok :: "string \<Rightarrow> bool"
  k_get_deployment :: "log \<Rightarrow> string \<Rightarrow> string \<Rightarrow> error + workload"
  k_get_daemonset :: "log \<Rightarrow> string \<Rightarrow> string \<Rightarrow> error + workload"
  k_list_daemonsets :: "log \<Rightarrow> string \<Rightarrow> error + workload list"
  k_list_deployments :: "log \<Rightarrow> string \<Rightarrow> error + workload list"
  k_list_services :: "log \<Rightarrow> string \<Rightarrow> labels \<Rightarrow> error + service list"
  k_get_crd :: "log \<Rightarrow> string \<Rightarrow> error + (string \<times> string) list"
  k_get_job :: "log \<Rightarrow> string \<Rightarrow> string \<Rightarrow> error + job_state"
  k_list_jobs :: "log \<Rightarrow> string \<Rightarrow> labels \<Rightarrow> error + (string \<times> job_state) list"
  k_list_crds :: "log \<Rightarrow> labels \<Rightarrow> error + crd list"
  k_list_configmaps :: "log \<Rightarrow> string \<Rightarrow> labels \<Rightarrow> error + config_map list"
  k_get_configmap :: "log \<Rightarrow> string \<Rightarrow> string \<Rightarrow> error + config_map"
  k_get_upgradepath :: "log \<Rightarrow> string \<Rightarrow> error + UpgradePath"
  k_get_catalog :: "log \<Rightarrow> string \<Rightarrow> error + ReleaseCatalog"
  k_get_releaseimage :: "log \<Rightarrow> string \<Rightarrow> error + ReleaseImage"
  k_get_clusteraddon :: "log \<Rightarrow> string \<Rightarrow> string \<Rightarrow> error + ClusterAddon"
  k_get_secret :: "log \<Rightarrow> string \<Rightarrow> string \<Rightarrow> error + (string \<times> string) list"
  k_get_inventory :: "log \<Rightarrow> string \<Rightarrow> string \<Rightarrow> error + BareMetalHostInventory"
  k_get_bmmachine :: "log \<Rightarrow> string \<Rightarrow> string \<Rightarrow> error + BareMetalMachine"
  k_list_bmmachines :: "log \<Rightarrow> string \<Rightarrow> error + BareMetalMachine list"
  k_update_bmmachine :: "log \<Rightarrow> BareMetalMachine \<Rightarrow> error + BareMetalMachine"
  k_owner_machine :: "log \<Rightarrow> BareMetalMachine \<Rightarrow> error + capi_machine option"
  k_get_bmcluster :: "log \<Rightarrow> string \<Rightarrow> string \<Rightarrow> error + BareMetalCluster"
  k_update_bmcluster :: "log \<Rightarrow> BareMetalCluster \<Rightarrow> error + BareMetalCluster"
  k_get_cluster :: "log \<Rightarrow> string \<Rightarrow> string \<Rightarrow> error + capi_cluster"
  k_list_machines :: "log \<Rightarrow> string \<Rightarrow> labels \<Rightarrow> error + capi_machine list"
  k_get_lbservice :: "log \<Rightarrow> string \<Rightarrow> string \<Rightarrow> error + lb_service"
  k_list_lbservices :: "log \<Rightarrow> string \<Rightarrow> labels \<Rightarrow> error + lb_service list"
  k_write :: "log \<Rightarrow> event \<Rightarrow> error option"
  k_probe :: "log \<Rightarrow> error option"

datatype run_outcome =
    RunDone string string int
  | RunFailed error
  | RunCancelled error

record ssh_env =
  s_known_hosts :: "log \<Rightarrow> string \<Rightarrow> error option"
  s_dial :: "log \<Rightarrow> string \<Rightarrow> int \<Rightarrow> error option"
  s_keepalive :: "log \<Rightarrow> string \<Rightarrow> int \<Rightarrow> bool"
  s_session :: "log \<Rightarrow> string \<Rightarrow> error option"
  s_run :: "log \<Rightarrow> string \<Rightarrow> string \<Rightarrow> duration option \<Rightarrow> run_outcome"
  s_combined :: "log \<Rightarrow> string \<Rightarrow> string \<Rightarrow> error option \<times> string"

text \<open>What \<open>filepath.Walk\<close> passes to its function for a path: an error, a directory or a file.\<close>

datatype walk_entry = WalkError error | WalkDir | WalkFile

record host_env =
  h_now :: "log \<Rightarrow> timestamp"
  h_read_file :: "log \<Rightarrow> string \<Rightarrow> error + string"
  h_not_exist :: "log \<Rightarrow> string \<Rightarrow> bool"
  h_mkdir :: "log \<Rightarrow> string \<Rightarrow> error option"
  h_file_store :: "log \<Rightarrow> string \<Rightarrow> error option"
  h_repository :: "string \<Rightarrow> error option"
  h_pull :: "log \<Rightarrow> string \<Rightarrow> error option"
  h_http :: "log \<Rightarrow> string \<Rightarrow> error + (int \<times> string)"
  h_range :: "log \<Rightarrow> string list \<Rightarrow> string list"
  h_sched :: "log \<Rightarrow> nat \<Rightarrow> nat list"
  h_decode_yaml :: "string \<Rightarrow> error + bool"
  h_poll :: "duration \<Rightarrow> duration \<Rightarrow> bool cact \<Rightarrow> unit cact"
  h_exec :: "log \<Rightarrow> string \<Rightarrow> duration \<Rightarrow> error option \<times> string"
  h_read_dir :: "log \<Rightarrow> string \<Rightarrow> error + string list"
  h_walk :: "log \<Rightarrow> string \<Rightarrow> (string \<times> walk_entry) list"
  h_format_time :: "string \<Rightarrow> timestamp \<Rightarrow> string"
  h_tcp_dial :: "log \<Rightarrow> string \<Rightarrow> error option"
  h_tcp_write :: "log \<Rightarrow> string \<Rightarrow> string \<Rightarrow> error option"
  h_tcp_read :: "log \<Rightarrow> string \<Rightarrow> nat \<Rightarrow> error + string"
  h_tcp_close :: "log \<Rightarrow> string \<Rightarrow> error option"
  h_request :: "log \<Rightarrow> string \<Rightarrow> string \<Rightarrow> string option \<Rightarrow> error + (int \<times> (error + string))"

record env =
  kube :: kube_env
  ssh :: ssh_env
  host :: host_env

section \<open>Making a call\<close>

definition query :: "event \<Rightarrow> (log \<Rightarrow> error + 'a) \<Rightarrow> 'a cact" where
  "query ev f = (\<lambda>w. (case f (w_log w) of Inl e \<Rightarrow> Err e | Inr x \<Rightarrow> Ok x,
                      w\<lparr>w_log := w_log w @ [ev]\<rparr>))"

definition command :: "event \<Rightarrow> (log \<Rightarrow> error option) \<Rightarrow> unit cact" where
  "command ev f = query ev (\<lambda>l. case f l of None \<Rightarrow> Inr () | Some e \<Rightarrow> Inl e)"

definition api_write :: "env \<Rightarrow> event \<Rightarrow> unit cact" where
  "api_write E ev = command ev (\<lambda>l. k_write (kube E) l ev)"

text \<open>Access to the program's own state.\<close>

definition gets :: "(world \<Rightarrow> 'a) \<Rightarrow> 'a cact" where
  "gets f = (\<lambda>w. (Ok (f w), w))"

definition modify_pool :: "((string \<times> nat) list \<Rightarrow> (string \<times> nat) list) \<Rightarrow> unit cact" where
  "modify_pool f = (\<lambda>w. (Ok (), w\<lparr>w_pool := f (w_pool w)\<rparr>))"

definition modify_conns :: "(SSHConnection list \<Rightarrow> SSHConnection list) \<Rightarrow> unit cact" where
  "modify_conns f = (\<lambda>w. (Ok (), w\<lparr>w_conns := f (w_conns w)\<rparr>))"

definition add_dir :: "string \<Rightarrow> unit cact" where
  "add_dir d = (\<lambda>w. (Ok (), w\<lparr>w_dirs := insert d (w_dirs w)\<rparr>))"

lemmas state_defs = gets_def modify_pool_def modify_conns_def add_dir_def

definition time_Now :: "env \<Rightarrow> timestamp cact" where
  "time_Now E = query EvNow (\<lambda>l. Inr (h_now (host E) l))"

definition time_Sleep :: "duration \<Rightarrow> unit cact" where
  "time_Sleep d = query (EvSleep d) (\<lambda>l. Inr ())"

definition range_map :: "env \<Rightarrow> string list \<Rightarrow> string list cact" where
  "range_map E ks = (\<lambda>w. (Ok (h_range (host E) (w_log w) ks), w))"

definition os_ReadFile :: "env \<Rightarrow> string \<Rightarrow> string cact" where
  "os_ReadFile E p = query (EvReadFile p) (\<lambda>l. h_read_file (host E) l p)"

definition List_nodes :: "env \<Rightarrow> labels \<Rightarrow> node list cact" where
  "List_nodes E sel = query (EvList ''Node'' [] sel) (\<lambda>l. k_list_nodes (kube E) l sel)"

definition List_pods :: "env \<Rightarrow> pod_selector \<Rightarrow> pod list cact" where
  "List_pods E sel = query (EvListPods sel) (\<lambda>l. k_list_pods (kube E) l sel)"

definition Get_node :: "env \<Rightarrow> string \<Rightarrow> node cact" where
  "Get_node E n = query (EvGet ''Node'' [] n) (\<lambda>l. k_get_node (kube E) l n)"

definition Get_clusteraddon :: "env \<Rightarrow> string \<Rightarrow> string \<Rightarrow> ClusterAddon cact" where
  "Get_clusteraddon E ns n =
     query (EvGet ''ClusterAddon'' ns n) (\<lambda>l. k_get_clusteraddon (kube E) l ns n)"

definition Get_releaseimage :: "env \<Rightarrow> string \<Rightarrow> ReleaseImage cact" where
  "Get_releaseimage E n = query (EvGet ''ReleaseImage'' [] n) (\<lambda>l. k_get_releaseimage (kube E) l n)"

section \<open>Polling\<close>

text \<open>
  \<open>wait.PollUntilContextTimeout\<close> and \<open>wait.PollUntilContextCancel\<close> of apimachinery are the
  parameter \<open>h_poll\<close> (interval, timeout, condition). Their documented behaviour: the
  condition is evaluated repeatedly until it is true (nil is returned), until it gives an
  error (which is returned), or until the context ends (its error is returned). \<open>poll_n n\<close>
  is that loop when the context ends after \<open>n\<close> evaluations; \<open>poll_ok\<close> says that every poll
  is such a loop for some \<open>n\<close>.
\<close>

definition deadline_exceeded :: error where
  "deadline_exceeded = Errorf ''context deadline exceeded''"

primrec poll_n :: "nat \<Rightarrow> bool cact \<Rightarrow> unit cact" where
  "poll_n 0 c = fail deadline_exceeded"
| "poll_n (Suc n) c = andthen c (\<lambda>b. if b then ret () else poll_n n c)"

definition poll_ok :: "env \<Rightarrow> bool" where
  "poll_ok E \<longleftrightarrow> (\<forall>i t c w. \<exists>n. h_poll (host E) i t c w = poll_n n c w)"

definition Poll :: "env \<Rightarrow> duration \<Rightarrow> duration \<Rightarrow> bool cact \<Rightarrow> unit cact" where
  "Poll E interval timeout c = h_poll (host E) interval timeout c"

lemma hoare_poll_n:
  assumes "hoare I c (\<lambda>r w. case r of Ok b \<Rightarrow> if b then Q (Ok ()) w else I w
                                | Err e \<Rightarrow> Q (Err e) w | Panic s \<Rightarrow> Q (Panic s) w)"
    and "\<And>w. I w \<Longrightarrow> Q (Err deadline_exceeded) w"
  shows "hoare I (poll_n n c) Q"
proof (induction n)
  case 0
  show ?case using assms(2) by (simp add: hoare_fail)
next
  case (Suc n)
  show ?case
    unfolding poll_n.simps
    by (rule hoare_check [OF assms(1)]) (auto intro!: hoare_ret Suc.IH hoare_if)
qed

lemma hoare_Poll:
  assumes "poll_ok E"
    and "hoare I c (\<lambda>r w. case r of Ok b \<Rightarrow> if b then Q (Ok ()) w else I w
                                | Err e \<Rightarrow> Q (Err e) w | Panic s \<Rightarrow> Q (Panic s) w)"
    and "\<And>w. I w \<Longrightarrow> Q (Err deadline_exceeded) w"
  shows "hoare I (Poll E i t c) Q"
proof (rule hoareI)
  fix w r w' assume I: "I w" and run: "Poll E i t c w = (r, w')"
  from assms(1) obtain n where "Poll E i t c w = poll_n n c w"
    unfolding poll_ok_def Poll_def by blast
  with run have "poll_n n c w = (r, w')" by simp
  then show "Q r w'" using hoare_poll_n [OF assms(2,3)] I by (rule hoareD [rotated 2])
qed

section \<open>Which events an action can cause\<close>

text \<open>
  \<open>emits A m\<close>: whatever the environment answers, \<open>m\<close> only extends the log, and only by
  events that satisfy \<open>A\<close>.
\<close>

named_theorems emits_rules \<open>which events an action can cause\<close>

definition emits :: "(event \<Rightarrow> bool) \<Rightarrow> 'a cact \<Rightarrow> bool" where
  "emits A m \<longleftrightarrow> (\<forall>w. \<exists>es. w_log (snd (m w)) = w_log w @ es \<and> list_all A es)"

lemma emitsI:
  "(\<And>w r w'. m w = (r, w') \<Longrightarrow> \<exists>es. w_log w' = w_log w @ es \<and> list_all A es) \<Longrightarrow> emits A m"
  unfolding emits_def by (metis prod.collapse)

lemma emitsD:
  "emits A m \<Longrightarrow> m w = (r, w') \<Longrightarrow> \<exists>es. w_log w' = w_log w @ es \<and> list_all A es"
  unfolding emits_def by (metis snd_conv)

lemma emits_mono: "emits A m \<Longrightarrow> (\<And>ev. A ev \<Longrightarrow> B ev) \<Longrightarrow> emits B m"
  unfolding emits_def by (metis (mono_tags, lifting) list.pred_mono_strong)

lemma emits_query [emits_rules]: "A ev \<Longrightarrow> emits A (query ev f)"
  by (simp add: emits_def query_def)

lemma emits_command [emits_rules]: "A ev \<Longrightarrow> emits A (command ev f)"
  by (simp add: command_def emits_query)

lemma emits_write [emits_rules]: "A ev \<Longrightarrow> emits A (api_write E ev)"
  by (simp add: api_write_def emits_command)

lemma emits_ret [emits_rules]: "emits A (ret x)"
  by (simp add: emits_def ret_apply)

lemma emits_fail [emits_rules]: "emits A (fail e)"
  by (simp add: emits_def fail_apply)

lemma emits_panic [emits_rules]: "emits A (panic s)"
  by (simp add: emits_def panic_apply)

lemma emits_state [emits_rules]:
  "emits A (gets f)" "emits A (modify_pool g)" "emits A (modify_conns h)" "emits A (add_dir d)"
  by (simp_all add: emits_def state_defs)

lemma emits_range [emits_rules]: "emits A (range_map E ks)"
  by (simp add: emits_def range_map_def)

lemma emits_attempt [emits_rules]:
  assumes "emits A m" and "\<And>r. emits A (k r)"
  shows "emits A (attempt m k)"
proof (rule emitsI)
  fix w r w' assume run: "attempt m k w = (r, w')"
  obtain r1 w1 where m: "m w = (r1, w1)" by fastforce
  with assms(1) obtain es1 where l1: "w_log w1 = w_log w @ es1" "list_all A es1"
    by (blast dest: emitsD)
  have rest: "\<exists>es. w_log w' = w_log w1 @ es \<and> list_all A es" if "k x w1 = (r, w')" for x
    using that assms(2) by (blast dest: emitsD)
  from run m rest show "\<exists>es. w_log w' = w_log w @ es \<and> list_all A es"
    by (cases r1) (use l1 in \<open>fastforce simp: attempt_apply\<close>)+
qed

lemma emits_check [emits_rules]:
  "emits A m \<Longrightarrow> (\<And>x. emits A (k x)) \<Longrightarrow> emits A (check m f k)"
  unfolding check_def by (auto intro!: emits_attempt emits_fail split: sum.split)

lemma emits_deferring [emits_rules]:
  assumes "emits A m" and "emits A d"
  shows "emits A (deferring m d)"
proof (rule emitsI)
  fix w r w' assume run: "deferring m d w = (r, w')"
  obtain r1 w1 where m: "m w = (r1, w1)" by fastforce
  obtain r2 w2 where d: "d w1 = (r2, w2)" by fastforce
  from m d assms obtain es1 es2 where
    "w_log w1 = w_log w @ es1" "list_all A es1" "w_log w2 = w_log w1 @ es2" "list_all A es2"
    by (meson emitsD)
  moreover from run m d have "w' = w2" by (cases r2) (auto simp: deferring_apply)
  ultimately show "\<exists>es. w_log w' = w_log w @ es \<and> list_all A es" by simp
qed

lemma emits_for_each [emits_rules]:
  "(\<And>x. x \<in> set xs \<Longrightarrow> emits A (f x)) \<Longrightarrow> emits A (for_each xs f)"
  by (induction xs) (auto intro!: emits_ret emits_check)

lemma emits_when [emits_rules]: "(b \<Longrightarrow> emits A m) \<Longrightarrow> emits A (when_act b m)"
  by (simp add: when_act_def emits_ret)

lemma emits_if [emits_rules]:
  "(b \<Longrightarrow> emits A m) \<Longrightarrow> (\<not> b \<Longrightarrow> emits A m') \<Longrightarrow> emits A (if b then m else m')"
  by simp

lemma emits_sum [emits_rules]:
  "(\<And>e. emits A (f e)) \<Longrightarrow> (\<And>x. emits A (g x)) \<Longrightarrow> emits A (case r of Inl e \<Rightarrow> f e | Inr x \<Rightarrow> g x)"
  by (simp split: sum.split)

lemma emits_option [emits_rules]:
  "emits A m \<Longrightarrow> (\<And>x. emits A (g x)) \<Longrightarrow> emits A (case r of None \<Rightarrow> m | Some x \<Rightarrow> g x)"
  by (simp split: option.split)

lemma emits_poll_n: "emits A c \<Longrightarrow> emits A (poll_n n c)"
  by (induction n) (auto intro!: emits_rules)

lemma emits_Poll [emits_rules]:
  assumes "poll_ok E" and "emits A c"
  shows "emits A (Poll E i t c)"
proof (rule emitsI)
  fix w r w' assume "Poll E i t c w = (r, w')"
  moreover from assms(1) obtain n where "Poll E i t c w = poll_n n c w"
    unfolding poll_ok_def Poll_def by blast
  ultimately show "\<exists>es. w_log w' = w_log w @ es \<and> list_all A es"
    using emits_poll_n [OF assms(2), of n] by (auto dest: emitsD)
qed

text \<open>The contract of \<open>range\<close> over a map, and of the goroutine scheduler: a permutation.\<close>

definition range_ok :: "env \<Rightarrow> bool" where
  "range_ok E \<longleftrightarrow> (\<forall>l. ranges_keys (h_range (host E) l))"

definition sched_ok :: "env \<Rightarrow> bool" where
  "sched_ok E \<longleftrightarrow> (\<forall>l n. mset (h_sched (host E) l n) = mset [0..<n])"

lemmas call_defs = time_Now_def time_Sleep_def os_ReadFile_def List_nodes_def List_pods_def
  Get_node_def Get_clusteraddon_def

section \<open>A quiet environment\<close>

text \<open>
  A concrete environment for evaluating the model: every lookup is NotFound, every list
  empty, every write and command succeeds, every poll evaluates its condition three times.
\<close>

definition not_found :: error where
  "not_found = ApiError ReasonNotFound ''not found''"

definition quiet_kube :: kube_env where
  "quiet_kube = \<lparr>
     k_get_node = (\<lambda>l n. Inl not_found), k_list_nodes = (\<lambda>l s. Inr []),
     k_list_pods = (\<lambda>l s. Inr []), k_selector_ok = (\<lambda>s. True),
     k_get_deployment = (\<lambda>l ns n. Inl not_found), k_get_daemonset = (\<lambda>l ns n. Inl not_found),
     k_list_daemonsets = (\<lambda>l ns. Inr []), k_list_deployments = (\<lambda>l ns. Inr []),
     k_list_services = (\<lambda>l ns s. Inr []), k_get_crd = (\<lambda>l n. Inl not_found),
     k_get_job = (\<lambda>l ns n. Inr \<lparr>js_Labels = [], js_Succeeded = 1, js_Failed = 0, js_Active = 0, js_Conditions = [(''Complete'', ''True'', [])]\<rparr>),
     k_list_jobs = (\<lambda>l ns s. Inr []), k_list_crds = (\<lambda>l s. Inr []), k_list_configmaps = (\<lambda>l ns s. Inr []),
     k_get_configmap = (\<lambda>l ns n. Inl not_found),
     k_get_upgradepath = (\<lambda>l n. Inl not_found), k_get_catalog = (\<lambda>l n. Inl not_found),
     k_get_releaseimage = (\<lambda>l n. Inl not_found), k_get_clusteraddon = (\<lambda>l ns n. Inl not_found),
     k_get_secret = (\<lambda>l ns n. Inl not_found), k_get_inventory = (\<lambda>l ns n. Inl not_found),
     k_get_bmmachine = (\<lambda>l ns n. Inl not_found), k_list_bmmachines = (\<lambda>l ns. Inr []),
     k_update_bmmachine = (\<lambda>l m. Inr m), k_owner_machine = (\<lambda>l m. Inr None),
     k_get_bmcluster = (\<lambda>l ns n. Inl not_found), k_update_bmcluster = (\<lambda>l c. Inr c),
     k_get_cluster = (\<lambda>l ns n. Inl not_found), k_list_machines = (\<lambda>l ns s. Inr []),
     k_get_lbservice = (\<lambda>l ns n. Inl not_found), k_list_lbservices = (\<lambda>l ns s. Inr []),
     k_write = (\<lambda>l ev. None), k_probe = (\<lambda>l. None)\<rparr>"

definition quiet_ssh :: ssh_env where
  "quiet_ssh = \<lparr>
     s_known_hosts = (\<lambda>l p. None), s_dial = (\<lambda>l h p. None), s_keepalive = (\<lambda>l h p. True),
     s_session = (\<lambda>l h. None), s_run = (\<lambda>l h c t. RunDone [] [] 0),
     s_combined = (\<lambda>l h c. (None, []))\<rparr>"

definition quiet_host :: host_env where
  "quiet_host = \<lparr>
     h_now = (\<lambda>l. 0), h_read_file = (\<lambda>l p. Inr []), h_not_exist = (\<lambda>l p. False),
     h_mkdir = (\<lambda>l p. None), h_file_store = (\<lambda>l p. None), h_repository = (\<lambda>i. None), h_pull = (\<lambda>l i. None), h_http = (\<lambda>l u. Inr (200, [])),
     h_range = (\<lambda>l ks. ks), h_sched = (\<lambda>l n. [0..<n]),
     h_decode_yaml = (\<lambda>d. Inr True), h_poll = (\<lambda>i t c. poll_n 3 c),
     h_exec = (\<lambda>l c t. (None, [])), h_read_dir = (\<lambda>l p. Inr []), h_walk = (\<lambda>l p. []),
     h_format_time = (\<lambda>f t. show_int t),
     h_tcp_dial = (\<lambda>l a. None), h_tcp_write = (\<lambda>l a t. None), h_tcp_read = (\<lambda>l a n. Inr []),
     h_tcp_close = (\<lambda>l a. None), h_request = (\<lambda>l m u b. Inr (200, Inr []))\<rparr>"

definition quiet_env :: env where
  "quiet_env = \<lparr>kube = quiet_kube, ssh = quiet_ssh, host = quiet_host\<rparr>"

definition empty_world :: world where
  "empty_world = \<lparr>w_log = [], w_conns = [], w_pool = [], w_dirs = {}\<rparr>"

lemmas quiet_defs = quiet_kube_def quiet_ssh_def quiet_host_def quiet_env_def empty_world_def

lemma poll_ok_quiet [simp]: "h_poll (host E) = (\<lambda>i t c. poll_n 3 c) \<Longrightarrow> poll_ok E"
  by (auto simp: poll_ok_def)

lemma quiet_simps [simp]:
  "kube quiet_env = quiet_kube" "ssh quiet_env = quiet_ssh" "host quiet_env = quiet_host"
  "h_poll quiet_host = (\<lambda>i t c. poll_n 3 c)"
  by (simp_all add: quiet_env_def quiet_host_def)

lemma range_ok_quiet [simp]: "range_ok quiet_env"
  by (simp add: range_ok_def quiet_host_def)

end
