(* ===== verification/Zero_Values.thy ===== *)
theory Zero_Values
  imports Cluster_Env
begin

text \<open>
  The Go zero values of the API structs (\<open>T{}\<close> in the source): what a struct literal leaves
  out. The code builds its objects from them, and concrete instances are written as updates
  of them.
\<close>

definition zero_meta :: object_meta where
  "zero_meta = \<lparr>m_Name = [], m_Namespace = [], m_Labels = [], m_Finalizers = [], m_DeletionTimestamp = None\<rparr>"

definition zero_ref :: object_reference where
  "zero_ref = \<lparr>ref_Kind = [], ref_Namespace = [], ref_Name = []\<rparr>"

definition zero_node :: node where
  "zero_node = \<lparr>node_Name = [], node_Labels = [], node_Conditions = []\<rparr>"

definition zero_workload :: workload where
  "zero_workload = \<lparr>wl_Name = [], wl_Namespace = [], wl_Images = [], wl_Ready = 0, wl_Desired = 0, wl_Annotations = [],
     wl_Generation = 0, wl_ObservedGeneration = 0, wl_Unavailable = 0, wl_Replicas = None, wl_StrategyType = [],
     wl_RollingUpdate = None, wl_MinReadySeconds = 0\<rparr>"

definition zero_SelfUpgrade :: SelfUpgrade where
  "zero_SelfUpgrade = \<lparr>su_Meta = zero_meta, su_Generation = 0,
     su_Spec = \<lparr>sus_TargetVersion = [], sus_ReleaseImage = [],
       sus_Strategy = \<lparr>ss_Type = [], ss_MaxUnavailable = 0, ss_MaxSurge = 0, ss_MinReadySeconds = 0, ss_Timeout = None, ss_AutoRollback = False\<rparr>,
       sus_PreUpgradeHooks = [], sus_PostUpgradeHooks = [], sus_Components = [], sus_Paused = False\<rparr>,
     su_Status = \<lparr>sust_Phase = PhaseNone, sust_StartedTime = None, sust_CompletedTime = None, sust_CurrentVersion = [],
       sust_ComponentStatus = [], sust_History = [], sust_Conditions = [], sust_ObservedGeneration = 0\<rparr>\<rparr>"

definition zero_BinaryComponent :: BinaryComponent where
  "zero_BinaryComponent = \<lparr>bc_Version = [], bc_Type = [], bc_Path = [], bc_Architectures = [],
     bc_Files = \<lparr>bf_Archive = []\<rparr>, bc_InstallStrategy = None, bc_UpgradeStrategy = None,
     bc_PreHooks = [], bc_PostHooks = [], bc_Upgrade = None\<rparr>"

definition zero_KubernetesComponent :: KubernetesComponent where
  "zero_KubernetesComponent = \<lparr>kc_Version = [], kc_Type = [], kc_Path = [], kc_Platforms = [],
     kc_ImageList = [], kc_InstallStrategy = None, kc_UpgradeStrategy = None,
     kc_PreHooks = [], kc_PostHooks = [], kc_Upgrade = None\<rparr>"

definition zero_Components :: ReleaseComponentVersions where
  "zero_Components = \<lparr>rc_Kubernetes = zero_KubernetesComponent, rc_Containerd = zero_BinaryComponent,
     rc_Helm = zero_BinaryComponent, rc_CNIPlugins = zero_BinaryComponent\<rparr>"

definition zero_Addon :: AddonDefinition where
  "zero_Addon = \<lparr>ad_Name = [], ad_Type = [], ad_Version = [], ad_ContentPath = [], ad_Namespace = [],
     ad_Variables = [], ad_DefaultValues = [], ad_Dependencies = [], ad_InstallStrategy = None,
     ad_UpgradeStrategy = None, ad_PreHooks = [], ad_PostHooks = [], ad_Upgrade = None,
     ad_HealthCheck = None\<rparr>"

definition zero_ComponentUpgradeConfig :: ComponentUpgradeConfig where
  "zero_ComponentUpgradeConfig = \<lparr>
     cu_Backup = \<lparr>bk_Enabled = False, bk_Config = [], bk_EtcdSnapshot = False\<rparr>,
     cu_Rollback = \<lparr>rb_Script = [], rb_Timeout = None\<rparr>,
     cu_HealthCheck = \<lparr>chc_Command = [], chc_Timeout = None, chc_Retries = 0\<rparr>\<rparr>"

definition zero_ReleaseImageSpec :: ReleaseImageSpec where
  "zero_ReleaseImageSpec = \<lparr>ris_Version = [], ris_Image = [], ris_HTTPServer = None,
     ris_ImageRegistry = None, ris_Channels = [], ris_PreviousVersions = [],
     ris_Components = zero_Components, ris_Addons = [], ris_UpgradeGraph = [], ris_ContentHash = []\<rparr>"

definition zero_ReleaseImageStatus :: ReleaseImageStatus where
  "zero_ReleaseImageStatus = \<lparr>rist_Verified = False, rist_ManifestCount = 0, rist_ImagesImported = False,
     rist_ImportJobName = [], rist_ImportStatus = [], rist_ImportMessage = [], rist_ImportedImages = []\<rparr>"

definition zero_ReleaseImage :: ReleaseImage where
  "zero_ReleaseImage = \<lparr>ri_Meta = zero_meta, ri_Spec = zero_ReleaseImageSpec, ri_Status = zero_ReleaseImageStatus\<rparr>"

definition zero_UpgradePathSpec :: UpgradePathSpec where
  "zero_UpgradePathSpec = \<lparr>ups_Image = [], ups_Edges = [],
     ups_Rules = \<lparr>cr_MaxVersionSkip = 0, cr_BlockedUpgrades = []\<rparr>\<rparr>"

definition zero_UpgradePath :: UpgradePath where
  "zero_UpgradePath = \<lparr>upath_Meta = zero_meta, upath_Spec = zero_UpgradePathSpec,
     upath_Status = \<lparr>upst_LastSyncTime = 0, upst_SyncSucceeded = False, upst_ImageDigest = []\<rparr>\<rparr>"

definition zero_ReleaseCatalogStatus :: ReleaseCatalogStatus where
  "zero_ReleaseCatalogStatus = \<lparr>rcs_LastSyncTime = 0, rcs_SyncSucceeded = False, rcs_ImageDigest = [],
     rcs_Releases = [], rcs_Channels = []\<rparr>"

definition zero_ReleaseCatalog :: ReleaseCatalog where
  "zero_ReleaseCatalog = \<lparr>rcat_Meta = zero_meta, rcat_Image = [], rcat_SyncInterval = 0,
     rcat_Status = zero_ReleaseCatalogStatus\<rparr>"

definition zero_ClusterAddonStatus :: ClusterAddonStatus where
  "zero_ClusterAddonStatus = \<lparr>cast_Phase = AddonPhaseNone, cast_Version = [], cast_Conditions = [],
     cast_LastAppliedRevision = []\<rparr>"

definition zero_ClusterAddonSpec :: ClusterAddonSpec where
  "zero_ClusterAddonSpec = \<lparr>cas_ClusterRef = zero_ref, cas_ReleaseImageRef = [], cas_AddonName = [],
     cas_Values = [], cas_Namespace = [], cas_Prune = False, cas_HealthCheck = None\<rparr>"

definition zero_ClusterAddon :: ClusterAddon where
  "zero_ClusterAddon = \<lparr>ca_Meta = zero_meta, ca_Spec = zero_ClusterAddonSpec, ca_Status = zero_ClusterAddonStatus\<rparr>"

definition zero_ClusterVersionStatus :: ClusterVersionStatus where
  "zero_ClusterVersionStatus = \<lparr>cvst_ObservedGeneration = 0,
     cvst_Desired = \<lparr>rel_Version = [], rel_Image = []\<rparr>, cvst_ActualVersion = [], cvst_History = [],
     cvst_Conditions = [], cvst_AvailableUpdates = [], cvst_ComponentStatus = [], cvst_AddonStatus = []\<rparr>"

definition zero_ClusterVersion :: ClusterVersion where
  "zero_ClusterVersion = \<lparr>cv_Meta = zero_meta,
     cv_Spec = \<lparr>cvs_ClusterRef = zero_ref, cvs_Channel = [], cvs_DesiredUpdate = None, cvs_Paused = False\<rparr>,
     cv_Status = zero_ClusterVersionStatus\<rparr>"

lemmas zero_defs = zero_meta_def zero_ref_def zero_node_def zero_workload_def zero_SelfUpgrade_def zero_BinaryComponent_def
  zero_KubernetesComponent_def zero_Components_def zero_Addon_def zero_ComponentUpgradeConfig_def
  zero_ReleaseImageSpec_def zero_ReleaseImageStatus_def zero_ReleaseImage_def zero_UpgradePathSpec_def
  zero_UpgradePath_def zero_ReleaseCatalogStatus_def zero_ReleaseCatalog_def
  zero_ClusterAddonStatus_def zero_ClusterAddonSpec_def zero_ClusterAddon_def
  zero_ClusterVersionStatus_def zero_ClusterVersion_def

end
