(* ===== verification/Version_Path.thy ===== *)
theory Version_Path
  imports Zero_Values
begin

text \<open>
  Upgrade-path validation and the list of available updates: \<open>matchVersion\<close>,
  \<open>ValidateUpgradePath\<close> and \<open>ComputeAvailableUpdates\<close> of
  \<open>modules/cvo/internal/upgrader/graph_executor.go\<close>.
\<close>

section \<open>Definitions\<close>

definition matchVersion :: "string \<Rightarrow> string \<Rightarrow> bool" where
  "matchVersion pattern version =
     (if pattern = [] \<or> version = [] then False
      else if last pattern = CHR ''*'' then
        (let p = butlast pattern in length version \<ge> length p \<and> take (length p) version = p)
      else pattern = version)"

definition Get_upgradepath :: "env \<Rightarrow> string \<Rightarrow> UpgradePath cact" where
  "Get_upgradepath E n = query (EvGet ''UpgradePath'' [] n) (\<lambda>l. k_get_upgradepath (kube E) l n)"

definition Get_catalog :: "env \<Rightarrow> string \<Rightarrow> ReleaseCatalog cact" where
  "Get_catalog E n = query (EvGet ''ReleaseCatalog'' [] n) (\<lambda>l. k_get_catalog (kube E) l n)"

definition edge_matches :: "string \<Rightarrow> string \<Rightarrow> GraphEdge \<Rightarrow> bool" where
  "edge_matches from to e \<longleftrightarrow> matchVersion (ge_From e) from \<and> matchVersion (ge_To e) to"

definition block_matches :: "string \<Rightarrow> string \<Rightarrow> BlockedUpgrade \<Rightarrow> bool" where
  "block_matches from to b \<longleftrightarrow> matchVersion (bl_From b) from \<and> matchVersion (bl_To b) to"

text \<open>The two loops of \<open>ValidateUpgradePath\<close>: the first matching edge, then the blocked pairs.\<close>

definition check_blocked :: "BlockedUpgrade list \<Rightarrow> string \<Rightarrow> string \<Rightarrow> unit cact" where
  "check_blocked bs from to =
     (case List.find (block_matches from to) bs of
        Some b \<Rightarrow> fail (Errorf (''upgrade from '' @ from @ '' to '' @ to @ '' is blocked: '' @ bl_Reason b))
      | None \<Rightarrow> ret ())"

definition ValidateUpgradePath :: "env \<Rightarrow> ClusterVersion \<Rightarrow> unit cact" where
  "ValidateUpgradePath E cv =
     (case cvs_DesiredUpdate (cv_Spec cv) of
        None \<Rightarrow> ret ()
      | Some du \<Rightarrow>
          if upd_Version du = [] then ret ()
          else check (Get_upgradepath E ''global'') (wrap ''failed to get UpgradePath: '') (\<lambda>upgradePath.
            let from = cvst_ActualVersion (cv_Status cv);
                to = upd_Version du;
                spec = upath_Spec upgradePath
            in if from = to then ret ()
               else (case List.find (edge_matches from to) (ups_Edges spec) of
                   Some e \<Rightarrow>
                     if \<not> ge_Recommended e \<and> \<not> upd_Force du
                     then fail (Errorf (''upgrade from '' @ from @ '' to '' @ to
                            @ '' is not recommended, use force=true to override''))
                     else check_blocked (cr_BlockedUpgrades (ups_Rules spec)) from to
                 | None \<Rightarrow>
                     if \<not> upd_Force du
                     then fail (Errorf (''no valid upgrade path from '' @ from @ '' to '' @ to))
                     else check_blocked (cr_BlockedUpgrades (ups_Rules spec)) from to)))"

text \<open>The inner loop takes the first catalog entry that the edge's target matches.\<close>

definition edge_update :: "ReleaseEntry list \<Rightarrow> GraphEdge \<Rightarrow> Release option" where
  "edge_update entries e =
     map_option (\<lambda>r. \<lparr>rel_Version = re_Version r, rel_Image = re_Image r\<rparr>)
       (List.find (\<lambda>r. matchVersion (ge_To e) (re_Version r)) entries)"

fun collect_updates :: "GraphEdge list \<Rightarrow> ReleaseEntry list \<Rightarrow> string \<Rightarrow> Release list" where
  "collect_updates [] entries from = []"
| "collect_updates (e # es) entries from =
     (if matchVersion (ge_From e) from then
        (case edge_update entries e of
           Some r \<Rightarrow> r # collect_updates es entries from
         | None \<Rightarrow> collect_updates es entries from)
      else collect_updates es entries from)"

text \<open>\<open>srt\<close> is \<open>sort.Slice\<close> by version, see \<open>sorts_by\<close>.\<close>

definition ComputeAvailableUpdates ::
  "env \<Rightarrow> (Release list \<Rightarrow> Release list) \<Rightarrow> ClusterVersion \<Rightarrow> Release list cact" where
  "ComputeAvailableUpdates E srt cv =
     andthen (Get_upgradepath E ''global'') (\<lambda>upgradePath.
     andthen (Get_catalog E ''global'') (\<lambda>releaseCatalog.
       ret (srt (collect_updates (ups_Edges (upath_Spec upgradePath))
              (rcs_Releases (rcat_Status releaseCatalog)) (cvst_ActualVersion (cv_Status cv))))))"

section \<open>Version patterns\<close>

lemma matchVersion_exact: "last p \<noteq> CHR ''*'' \<Longrightarrow> matchVersion p v \<longleftrightarrow> p \<noteq> [] \<and> p = v"
  by (auto simp: matchVersion_def)

lemma matchVersion_star: "matchVersion (p @ ''*'') v \<longleftrightarrow> v \<noteq> [] \<and> prefix p v"
  by (auto simp: matchVersion_def Let_def prefix_def) (metis append_take_drop_id)

text \<open>
  \<open>matchVersion\<close> is prefix matching on a trailing star and equality otherwise, and
  neither an empty pattern nor an empty version ever matches.
\<close>

theorem matchVersion_spec:
  "matchVersion pattern version \<longleftrightarrow>
     version \<noteq> [] \<and> (pattern = version \<and> last pattern \<noteq> CHR ''*''
                       \<or> (\<exists>p. pattern = p @ ''*'' \<and> prefix p version))"
proof (cases "pattern = []")
  case True
  then show ?thesis by (simp add: matchVersion_def)
next
  case False
  then obtain p c where p: "pattern = p @ [c]" by (metis rev_exhaust)
  show ?thesis
  proof (cases "c = CHR ''*''")
    case True
    with p show ?thesis by (auto simp: matchVersion_star)
  next
    case False
    with p show ?thesis by (auto simp: matchVersion_exact)
  qed
qed

section \<open>Validation\<close>

definition path_allows :: "UpgradePathSpec \<Rightarrow> string \<Rightarrow> string \<Rightarrow> bool \<Rightarrow> bool" where
  "path_allows spec from to force \<longleftrightarrow>
     (force \<or> (\<exists>e. List.find (edge_matches from to) (ups_Edges spec) = Some e \<and> ge_Recommended e))
     \<and> (\<forall>b\<in>set (cr_BlockedUpgrades (ups_Rules spec)). \<not> block_matches from to b)"

lemma check_blocked_Ok:
  "fst (check_blocked bs from to w) = Ok () \<longleftrightarrow> (\<forall>b\<in>set bs. \<not> block_matches from to b)"
  by (auto simp: check_blocked_def act_simps find_None_conv dest: find_SomeD split: option.split)

text \<open>
  (C11) With a desired version that differs from the actual one and a readable upgrade path,
  validation succeeds exactly when the first matching edge is recommended or the request is
  forced, and no blocked pair matches. Force never overrides a blocked upgrade.
\<close>

theorem ValidateUpgradePath_iff:
  assumes "cvs_DesiredUpdate (cv_Spec cv) = Some du" and "upd_Version du \<noteq> []"
    and "k_get_upgradepath (kube E) (w_log w) ''global'' = Inr path"
    and "cvst_ActualVersion (cv_Status cv) \<noteq> upd_Version du"
  shows "fst (ValidateUpgradePath E cv w) = Ok () \<longleftrightarrow>
    path_allows (upath_Spec path) (cvst_ActualVersion (cv_Status cv)) (upd_Version du) (upd_Force du)"
  using assms
  by (auto simp: ValidateUpgradePath_def Get_upgradepath_def query_def act_simps path_allows_def
      check_blocked_Ok Let_def split: option.split)

section \<open>Available updates\<close>

lemma set_collect_updates:
  "set (collect_updates es entries from) =
     {r. \<exists>e\<in>set es. matchVersion (ge_From e) from \<and> edge_update entries e = Some r}"
  by (induction es) (auto split: option.split)

lemma edge_update_Some:
  "edge_update entries e = Some r \<Longrightarrow>
     \<exists>x\<in>set entries. matchVersion (ge_To e) (re_Version x) \<and> rel_Version r = re_Version x \<and> rel_Image r = re_Image x"
  by (auto simp: edge_update_def dest!: find_SomeD)

lemma edge_update_exists:
  "x \<in> set entries \<Longrightarrow> matchVersion (ge_To e) (re_Version x) \<Longrightarrow> \<exists>r. edge_update entries e = Some r"
  by (auto simp: edge_update_def) (metis find_None_conv not_None_eq)

text \<open>
  When both global objects can be read, the updates computed are sorted by version and
  consist of exactly one catalog release per edge that leaves the actual version and reaches
  some release of the catalog.
\<close>

theorem ComputeAvailableUpdates_spec:
  assumes "sorts_by rel_Version srt"
    and "k_get_upgradepath (kube E) (w_log w) ''global'' = Inr path"
    and "k_get_catalog (kube E) (w_log w @ [EvGet ''UpgradePath'' [] ''global'']) ''global'' = Inr cat"
  shows "\<exists>us. fst (ComputeAvailableUpdates E srt cv w) = Ok us
    \<and> sorted (map rel_Version us)
    \<and> set us = {r. \<exists>e\<in>set (ups_Edges (upath_Spec path)).
          matchVersion (ge_From e) (cvst_ActualVersion (cv_Status cv))
          \<and> edge_update (rcs_Releases (rcat_Status cat)) e = Some r}"
proof -
  let ?us = "collect_updates (ups_Edges (upath_Spec path)) (rcs_Releases (rcat_Status cat))
      (cvst_ActualVersion (cv_Status cv))"
  have "fst (ComputeAvailableUpdates E srt cv w) = Ok (srt ?us)"
    using assms(2,3)
    by (simp add: ComputeAvailableUpdates_def Get_upgradepath_def Get_catalog_def query_def act_simps)
  moreover have "sorted (map rel_Version (srt ?us))" and "set (srt ?us) = set ?us"
    using assms(1) by (simp_all add: sorts_by_sorted sorts_by_set)
  ultimately show ?thesis by (simp add: set_collect_updates)
qed

text \<open>
  What is offered can be requested: for every update that is computed, the upgrade path
  has an edge from the actual version to it, and the release is one of the catalog's. The
  request can be refused later only because the edge is not recommended or blocked, never
  for want of an edge.
\<close>

theorem offered_update_has_edge:
  assumes "sorts_by rel_Version srt"
    and "k_get_upgradepath (kube E) (w_log w) ''global'' = Inr path"
    and "k_get_catalog (kube E) (w_log w @ [EvGet ''UpgradePath'' [] ''global'']) ''global'' = Inr cat"
    and "fst (ComputeAvailableUpdates E srt cv w) = Ok us" and "u \<in> set us"
  shows "(\<exists>e. List.find (edge_matches (cvst_ActualVersion (cv_Status cv)) (rel_Version u))
              (ups_Edges (upath_Spec path)) = Some e)
    \<and> (\<exists>x\<in>set (rcs_Releases (rcat_Status cat)). rel_Version u = re_Version x \<and> rel_Image u = re_Image x)"
proof -
  let ?us = "collect_updates (ups_Edges (upath_Spec path)) (rcs_Releases (rcat_Status cat))
      (cvst_ActualVersion (cv_Status cv))"
  have "us = srt ?us"
    using assms(2-4)
    by (simp add: ComputeAvailableUpdates_def Get_upgradepath_def Get_catalog_def query_def act_simps)
  with assms(1,5) have "u \<in> set ?us" by (simp add: sorts_by_set)
  then obtain e where e: "e \<in> set (ups_Edges (upath_Spec path))"
      "matchVersion (ge_From e) (cvst_ActualVersion (cv_Status cv))"
      "edge_update (rcs_Releases (rcat_Status cat)) e = Some u"
    by (auto simp: set_collect_updates)
  from edge_update_Some [OF e(3)] obtain x where
    x: "x \<in> set (rcs_Releases (rcat_Status cat))" "matchVersion (ge_To e) (re_Version x)"
       "rel_Version u = re_Version x" "rel_Image u = re_Image x"
    by blast
  with e have "edge_matches (cvst_ActualVersion (cv_Status cv)) (rel_Version u) e"
    by (simp add: edge_matches_def)
  with e(1) x show ?thesis by (metis find_None_conv not_None_eq)
qed

section \<open>A concrete upgrade path\<close>

text \<open>
  One edge \<open>v1.0 -> v1.1*\<close>, a catalog with \<open>v1.0\<close> and \<open>v1.1\<close>, a cluster at \<open>v1.0\<close> that wants
  \<open>v1.1\<close>.
\<close>

definition ex_path :: UpgradePath where
  "ex_path = zero_UpgradePath\<lparr>upath_Spec := zero_UpgradePathSpec\<lparr>
     ups_Edges := [\<lparr>ge_From = ''v1.0'', ge_To = ''v1.1*'', ge_Recommended = True\<rparr>]\<rparr>\<rparr>"

definition ex_catalog :: ReleaseCatalog where
  "ex_catalog = zero_ReleaseCatalog\<lparr>rcat_Status := zero_ReleaseCatalogStatus\<lparr>rcs_Releases :=
     [\<lparr>re_Version = ''v1.0'', re_Image = ''a'', re_Channels = [], re_ReleaseDate = []\<rparr>,
      \<lparr>re_Version = ''v1.1'', re_Image = ''b'', re_Channels = [], re_ReleaseDate = []\<rparr>]\<rparr>\<rparr>"

definition ex_cv :: ClusterVersion where
  "ex_cv = zero_ClusterVersion\<lparr>
     cv_Spec := (cv_Spec zero_ClusterVersion)\<lparr>cvs_DesiredUpdate :=
        Some \<lparr>upd_Version = ''v1.1'', upd_Image = [], upd_Force = False\<rparr>\<rparr>,
     cv_Status := zero_ClusterVersionStatus\<lparr>cvst_ActualVersion := ''v1.0''\<rparr>\<rparr>"

definition ex_path_env :: env where
  "ex_path_env = quiet_env\<lparr>kube := quiet_kube\<lparr>
     k_get_upgradepath := (\<lambda>l n. Inr ex_path), k_get_catalog := (\<lambda>l n. Inr ex_catalog)\<rparr>\<rparr>"

lemmas ex_path_defs = ex_path_def ex_catalog_def ex_cv_def ex_path_env_def

lemma ValidateUpgradePath_witness:
  "path_allows (upath_Spec ex_path) ''v1.0'' ''v1.1'' False
   \<and> fst (ValidateUpgradePath ex_path_env ex_cv empty_world) = Ok ()"
proof -
  have "path_allows (upath_Spec ex_path) ''v1.0'' ''v1.1'' False"
    by (simp add: path_allows_def ex_path_def zero_defs edge_matches_def matchVersion_def)
  then show ?thesis
    using ValidateUpgradePath_iff [of ex_cv "\<lparr>upd_Version = ''v1.1'', upd_Image = [], upd_Force = False\<rparr>"
        ex_path_env empty_world ex_path]
    by (simp add: ex_cv_def ex_path_env_def zero_ClusterVersion_def zero_ClusterVersionStatus_def)
qed

lemma ComputeAvailableUpdates_witness:
  "\<exists>us. fst (ComputeAvailableUpdates ex_path_env (sort_key rel_Version) ex_cv empty_world) = Ok us
    \<and> sorted (map rel_Version us) \<and> us \<noteq> []"
proof -
  have "edge_update (rcs_Releases (rcat_Status ex_catalog)) \<lparr>ge_From = ''v1.0'', ge_To = ''v1.1*'', ge_Recommended = True\<rparr>
      = Some \<lparr>rel_Version = ''v1.1'', rel_Image = ''b''\<rparr>"
    by (simp add: edge_update_def ex_catalog_def zero_defs matchVersion_def)
  then have "\<lparr>rel_Version = ''v1.1'', rel_Image = ''b''\<rparr> \<in> {r. \<exists>e\<in>set (ups_Edges (upath_Spec ex_path)).
        matchVersion (ge_From e) (cvst_ActualVersion (cv_Status ex_cv))
        \<and> edge_update (rcs_Releases (rcat_Status ex_catalog)) e = Some r}"
    by (simp add: ex_path_def ex_cv_def zero_defs matchVersion_def)
  then show ?thesis
    using ComputeAvailableUpdates_spec [of "sort_key rel_Version" ex_path_env empty_world ex_path ex_catalog ex_cv]
    by (fastforce simp: ex_path_env_def)
qed

lemma offered_update_witness:
  "\<exists>e. List.find (edge_matches ''v1.0'' ''v1.1'') (ups_Edges (upath_Spec ex_path)) = Some e"
proof -
  have "fst (ComputeAvailableUpdates ex_path_env (sort_key rel_Version) ex_cv empty_world)
      = Ok [\<lparr>rel_Version = ''v1.1'', rel_Image = ''b''\<rparr>]"
    by (simp add: ComputeAvailableUpdates_def Get_upgradepath_def Get_catalog_def query_def act_simps
        ex_path_defs zero_defs matchVersion_def edge_update_def empty_world_def)
  from offered_update_has_edge [OF sorts_by_sort_key _ _ this, of ex_path ex_catalog]
  show ?thesis
    by (simp add: ex_path_env_def ex_cv_def zero_defs)
qed

end
