(* ===== verification/Topo_Sort.thy ===== *)
theory Topo_Sort
  imports Api_Types
begin

text \<open>
  The depth-first topological sort that orders upgrade components and addons:
  \<open>buildDependencyGraph\<close>, \<open>topologicalSort\<close> and \<open>findComponent\<close> of
  \<open>modules/cvo/internal/upgrader/graph_executor.go\<close>, and their twins
  \<open>buildAddonDependencyGraph\<close>, \<open>topologicalSortAddons\<close>, \<open>findAddonDefByName\<close> of
  \<open>modules/cvo/internal/controllers/clusterversion_controller.go\<close>.
  A Go map is an association list with distinct keys; the order in which \<open>range\<close> visits
  its keys is the argument \<open>ord\<close>, and every theorem holds for all orders.
\<close>

section \<open>The closure visit\<close>

type_synonym dep_graph = "(string \<times> string list) list"

record topo_state =
  ts_visited :: "string set"
  ts_inProgress :: "string set"
  ts_result :: "string list"

definition topo_start :: "string \<Rightarrow> topo_state \<Rightarrow> topo_state" where
  "topo_start x s = s\<lparr>ts_inProgress := insert x (ts_inProgress s)\<rparr>"

definition topo_finish :: "string \<Rightarrow> topo_state \<Rightarrow> topo_state" where
  "topo_finish x s = s\<lparr>ts_inProgress := ts_inProgress s - {x},
                       ts_visited := insert x (ts_visited s),
                       ts_result := ts_result s @ [x]\<rparr>"

definition graph_deps :: "dep_graph \<Rightarrow> string \<Rightarrow> string list" where
  "graph_deps g x = (case map_of g x of None \<Rightarrow> [] | Some ds \<Rightarrow> ds)"

text \<open>
  \<open>visits g xs s\<close> is \<open>for _, x := range xs { visit(x) }\<close> with the body of \<open>visit\<close> written
  in: a name that is visited or in progress is skipped; otherwise it is marked, its
  dependencies are visited, and it is finished and appended.
\<close>

function visits :: "dep_graph \<Rightarrow> string list \<Rightarrow> topo_state \<Rightarrow> topo_state" where
  "visits g [] s = s"
| "visits g (x # xs) s =
     (if x \<in> ts_visited s \<or> x \<in> ts_inProgress s then visits g xs s
      else visits g xs (topo_finish x (visits g (graph_deps g x) (topo_start x s))))"
  by pat_completeness auto

lemma visits_progress:
  assumes "visits_dom (g, xs, s)"
  shows "ts_inProgress (visits g xs s) = ts_inProgress s \<and> ts_visited s \<subseteq> ts_visited (visits g xs s)"
  using assms
proof (induction g xs s rule: visits.pinduct)
  case (1 g s)
  then show ?case by (simp add: visits.psimps)
next
  case (2 g x xs s)
  then show ?case
    by (auto simp: visits.psimps topo_start_def topo_finish_def)
qed

definition todo :: "dep_graph \<Rightarrow> topo_state \<Rightarrow> string set" where
  "todo g s = fst ` set g - ts_inProgress s - ts_visited s"

lemma finite_todo [simp]: "finite (todo g s)"
  by (simp add: todo_def)

termination visits
proof (relation "(\<lambda>(g, xs, s). card (todo g s)) <*mlex*> measure (\<lambda>(g, xs, s). length xs)",
    goal_cases)
  case 1
  show ?case by (simp add: wf_mlex)
next
  case (2 g x xs s)
  then show ?case by (simp add: mlex_prod_def)
next
  case (3 g x xs s)
  show ?case
  proof (cases "x \<in> fst ` set g")
    case True
    with 3 have "todo g (topo_start x s) \<subset> todo g s"
      by (auto simp: todo_def topo_start_def)
    then have "card (todo g (topo_start x s)) < card (todo g s)"
      by (simp add: psubset_card_mono)
    then show ?thesis by (simp add: mlex_prod_def)
  next
    case False
    then have "map_of g x = None" by (simp add: map_of_eq_None_iff)
    with False have "graph_deps g x = []" and "todo g (topo_start x s) = todo g s"
      by (auto simp: graph_deps_def todo_def topo_start_def)
    then show ?thesis by (simp add: mlex_prod_def)
  qed
next
  case (4 g x xs s)
  let ?s = "topo_finish x (visits g (graph_deps g x) (topo_start x s))"
  from 4 have "ts_inProgress (visits g (graph_deps g x) (topo_start x s)) = insert x (ts_inProgress s)
      \<and> ts_visited s \<subseteq> ts_visited (visits g (graph_deps g x) (topo_start x s))"
    using visits_progress [of g "graph_deps g x" "topo_start x s"] by (simp add: topo_start_def)
  then have "todo g ?s \<subseteq> todo g s"
    by (auto simp: todo_def topo_finish_def)
  then have "card (todo g ?s) \<le> card (todo g s)"
    by (simp add: card_mono)
  then show ?case by (auto simp: mlex_prod_def)
qed

section \<open>What a visit guarantees\<close>

lemma visits_inProgress [simp]: "ts_inProgress (visits g xs s) = ts_inProgress s"
  by (induction g xs s rule: visits.induct) (auto simp: topo_start_def topo_finish_def)

lemma visits_visited_mono: "ts_visited s \<subseteq> ts_visited (visits g xs s)"
  by (induction g xs s rule: visits.induct) (auto simp: topo_start_def topo_finish_def)

definition dep_edges :: "dep_graph \<Rightarrow> (string \<times> string) set" where
  "dep_edges g = {(x, y). y \<in> set (graph_deps g x)}"

definition topo_inv :: "dep_graph \<Rightarrow> topo_state \<Rightarrow> bool" where
  "topo_inv g s \<longleftrightarrow> distinct (ts_result s) \<and> set (ts_result s) = ts_visited s
     \<and> ts_visited s \<inter> ts_inProgress s = {}
     \<and> dep_edges g `` ts_visited s \<subseteq> ts_visited s \<union> ts_inProgress s"

lemma topo_inv_start:
  "topo_inv g s \<Longrightarrow> x \<notin> ts_visited s \<Longrightarrow> topo_inv g (topo_start x s)"
  by (auto simp: topo_inv_def topo_start_def)

lemma topo_inv_finish:
  "topo_inv g s \<Longrightarrow> x \<in> ts_inProgress s \<Longrightarrow> set (graph_deps g x) \<subseteq> ts_visited s \<union> ts_inProgress s
   \<Longrightarrow> topo_inv g (topo_finish x s)"
  by (auto simp: topo_inv_def topo_finish_def dep_edges_def)

lemma visits_covers: "set xs \<subseteq> ts_visited (visits g xs s) \<union> ts_inProgress s"
proof (induction g xs s rule: visits.induct)
  case (1 g s)
  then show ?case by simp
next
  case (2 g x xs s)
  show ?case
  proof (cases "x \<in> ts_visited s \<or> x \<in> ts_inProgress s")
    case True
    with 2 visits_visited_mono [of s g xs] show ?thesis by auto
  next
    case False
    let ?s = "topo_finish x (visits g (graph_deps g x) (topo_start x s))"
    have "x \<in> ts_visited ?s" by (simp add: topo_finish_def)
    then have "x \<in> ts_visited (visits g xs ?s)" using visits_visited_mono [of ?s g xs] by blast
    moreover have "set xs \<subseteq> ts_visited (visits g xs ?s) \<union> ts_inProgress ?s"
      using 2 False by blast
    moreover have "ts_inProgress ?s = ts_inProgress s"
      using False by (auto simp: topo_finish_def topo_start_def)
    ultimately show ?thesis using False by simp
  qed
qed

lemma visits_inv: "topo_inv g s \<Longrightarrow> topo_inv g (visits g xs s)"
proof (induction g xs s rule: visits.induct)
  case (1 g s)
  then show ?case by simp
next
  case (2 g x xs s)
  show ?case
  proof (cases "x \<in> ts_visited s \<or> x \<in> ts_inProgress s")
    case True
    with 2 show ?thesis by simp
  next
    case False
    let ?s1 = "visits g (graph_deps g x) (topo_start x s)"
    from 2 False have inv: "topo_inv g ?s1" by (simp add: topo_inv_start)
    have "set (graph_deps g x) \<subseteq> ts_visited ?s1 \<union> ts_inProgress ?s1"
      using visits_covers [of "graph_deps g x" g "topo_start x s"] by simp
    with inv have "topo_inv g (topo_finish x ?s1)"
      by (intro topo_inv_finish) (simp_all add: topo_start_def)
    with 2 False show ?thesis by simp
  qed
qed

lemma visits_reach: "ts_visited (visits g xs s) \<subseteq> ts_visited s \<union> (dep_edges g)\<^sup>* `` set xs"
proof (induction g xs s rule: visits.induct)
  case (1 g s)
  then show ?case by simp
next
  case (2 g x xs s)
  show ?case
  proof (cases "x \<in> ts_visited s \<or> x \<in> ts_inProgress s")
    case True
    with 2 show ?thesis by auto
  next
    case False
    let ?s1 = "visits g (graph_deps g x) (topo_start x s)"
    have step: "(dep_edges g)\<^sup>* `` set (graph_deps g x) \<subseteq> (dep_edges g)\<^sup>* `` {x}"
      by (auto simp: dep_edges_def intro: converse_rtrancl_into_rtrancl)
    from 2 False have "ts_visited ?s1 \<subseteq> ts_visited s \<union> (dep_edges g)\<^sup>* `` {x}"
      using step by (auto simp: topo_start_def)
    moreover from 2 False
    have "ts_visited (visits g xs (topo_finish x ?s1))
        \<subseteq> insert x (ts_visited ?s1) \<union> (dep_edges g)\<^sup>* `` set xs"
      by (simp add: topo_finish_def)
    ultimately show ?thesis using False by auto
  qed
qed

text \<open>
  Dependencies come first: \<open>deps_first g res\<close> says that every dependency of an element of
  \<open>res\<close> stands before it.
\<close>

definition deps_first :: "(string \<Rightarrow> string list) \<Rightarrow> string list \<Rightarrow> bool" where
  "deps_first d res \<longleftrightarrow> (\<forall>ys x zs. res = ys @ x # zs \<longrightarrow> set (d x) \<subseteq> set ys)"

lemma deps_first_Nil [simp]: "deps_first d []"
  by (simp add: deps_first_def)

lemma deps_first_snoc: "deps_first d res \<Longrightarrow> set (d x) \<subseteq> set res \<Longrightarrow> deps_first d (res @ [x])"
  by (auto simp: deps_first_def append_eq_append_conv2 Cons_eq_append_conv append_eq_Cons_conv)

lemma visits_deps_first:
  assumes "acyclic (dep_edges g)" and "topo_inv g s" and "deps_first (graph_deps g) (ts_result s)"
    and "ts_inProgress s \<times> set xs \<subseteq> (dep_edges g)\<^sup>+"
  shows "deps_first (graph_deps g) (ts_result (visits g xs s))"
  using assms
proof (induction g xs s rule: visits.induct)
  case (1 g s)
  then show ?case by simp
next
  case (2 g x xs s)
  show ?case
  proof (cases "x \<in> ts_visited s \<or> x \<in> ts_inProgress s")
    case True
    moreover have "ts_inProgress s \<times> set xs \<subseteq> (dep_edges g)\<^sup>+"
      using "2.prems"(4) by auto
    ultimately show ?thesis using 2 by simp
  next
    case False
    let ?s1 = "visits g (graph_deps g x) (topo_start x s)"
    have edge: "{x} \<times> set (graph_deps g x) \<subseteq> dep_edges g"
      by (auto simp: dep_edges_def)
    have stack: "ts_inProgress (topo_start x s) \<times> set (graph_deps g x) \<subseteq> (dep_edges g)\<^sup>+"
      using "2.prems"(4) edge by (auto simp: topo_start_def intro: trancl_into_trancl)
    have inv1: "topo_inv g ?s1"
      using "2.prems"(2) False by (intro visits_inv topo_inv_start) auto
    have df1: "deps_first (graph_deps g) (ts_result ?s1)"
      using 2 False stack by (intro "2.IH"(2)) (simp_all add: topo_inv_start, simp add: topo_start_def)
    have "set (graph_deps g x) \<subseteq> ts_visited ?s1 \<union> ts_inProgress (topo_start x s)"
      by (rule visits_covers)
    moreover have "set (graph_deps g x) \<inter> ts_inProgress (topo_start x s) = {}"
      using stack "2.prems"(1) unfolding acyclic_def by auto
    ultimately have deps: "set (graph_deps g x) \<subseteq> set (ts_result ?s1)"
      using inv1 by (auto simp: topo_inv_def)
    have "topo_inv g (topo_finish x ?s1)"
      using inv1 deps by (intro topo_inv_finish) (auto simp: topo_inv_def topo_start_def)
    moreover have "deps_first (graph_deps g) (ts_result (topo_finish x ?s1))"
      using df1 deps by (simp add: topo_finish_def deps_first_snoc)
    moreover have "ts_inProgress (topo_finish x ?s1) = ts_inProgress s"
      using False by (auto simp: topo_finish_def topo_start_def)
    moreover have "ts_inProgress s \<times> set xs \<subseteq> (dep_edges g)\<^sup>+"
      using "2.prems"(4) by auto
    ultimately show ?thesis
      using 2 False by simp
  qed
qed

lemma visits_append:
  "\<exists>es. ts_result (visits g xs s) = ts_result s @ es"
  by (induction g xs s rule: visits.induct) (auto simp: topo_start_def topo_finish_def)

section \<open>The two sorts of the program\<close>

definition topo_init :: topo_state where
  "topo_init = \<lparr>ts_visited = {}, ts_inProgress = {}, ts_result = []\<rparr>"

text \<open>
  \<open>upd_key k v g\<close> is the map assignment \<open>g[k] = v\<close>.
\<close>

fun upd_key :: "'k \<Rightarrow> 'v \<Rightarrow> ('k \<times> 'v) list \<Rightarrow> ('k \<times> 'v) list" where
  "upd_key k v [] = [(k, v)]"
| "upd_key k v ((k', v') # g) = (if k = k' then (k, v) # g else (k', v') # upd_key k v g)"

lemma map_of_upd_key: "map_of (upd_key k v g) = (map_of g)(k \<mapsto> v)"
  by (induction g) auto

lemma keys_upd_key: "fst ` set (upd_key k v g) = insert k (fst ` set g)"
  by (induction k v g rule: upd_key.induct) (simp_all, blast)

lemma distinct_upd_key: "distinct (map fst g) \<Longrightarrow> distinct (map fst (upd_key k v g))"
proof (induction g)
  case Nil
  then show ?case by simp
next
  case (Cons p g)
  moreover obtain k' v' where "p = (k', v')" by fastforce
  moreover have "fst ` set (upd_key k v g) = insert k (fst ` set g)" by (rule keys_upd_key)
  ultimately show ?case by auto
qed

record depNode =
  dn_name :: string
  dn_deps :: "string list"

definition buildDependencyGraph :: "UpgradeComponent list \<Rightarrow> (string \<times> depNode) list" where
  "buildDependencyGraph cs =
     fold (\<lambda>c g. upd_key (uc_Name c) \<lparr>dn_name = uc_Name c, dn_deps = uc_DependsOn c\<rparr> g) cs []"

definition node_graph :: "(string \<times> depNode) list \<Rightarrow> dep_graph" where
  "node_graph g = map (\<lambda>(k, n). (k, dn_deps n)) g"

definition topologicalSort :: "string list \<Rightarrow> (string \<times> depNode) list \<Rightarrow> string list" where
  "topologicalSort ord g = ts_result (visits (node_graph g) ord topo_init)"

fun findComponent :: "UpgradeComponent list \<Rightarrow> string \<Rightarrow> UpgradeComponent option" where
  "findComponent [] name = None"
| "findComponent (c # cs) name = (if uc_Name c = name then Some c else findComponent cs name)"

definition buildAddonDependencyGraph :: "ReleaseImage \<Rightarrow> (string \<times> string list) list" where
  "buildAddonDependencyGraph ri =
     fold (\<lambda>a g. upd_key (ad_Name a) (ad_Dependencies a) g) (ris_Addons (ri_Spec ri)) []"

definition topologicalSortAddons :: "string list \<Rightarrow> (string \<times> string list) list \<Rightarrow> string list" where
  "topologicalSortAddons ord g = ts_result (visits g ord topo_init)"

fun findAddon :: "AddonDefinition list \<Rightarrow> string \<Rightarrow> AddonDefinition option" where
  "findAddon [] name = None"
| "findAddon (a # as) name = (if ad_Name a = name then Some a else findAddon as name)"

definition findAddonDefByName :: "ReleaseImage \<Rightarrow> string \<Rightarrow> AddonDefinition option" where
  "findAddonDefByName ri name = findAddon (ris_Addons (ri_Spec ri)) name"

section \<open>The sorting interface\<close>

text \<open>
  What both clients rely on: \<open>keys\<close> and \<open>deps\<close> describe the graph, \<open>sort ord g\<close> is the
  order in which the client processes it. The laws are the promises of the provider.
\<close>

locale dependency_sort =
  fixes keys :: "'g \<Rightarrow> string set"
    and deps :: "'g \<Rightarrow> string \<Rightarrow> string list"
    and sort :: "string list \<Rightarrow> 'g \<Rightarrow> string list"
  assumes sort_distinct: "distinct (sort ord g)"
    and sort_set: "set ord = keys g \<Longrightarrow>
      set (sort ord g) = {(x, y). y \<in> set (deps g x)}\<^sup>* `` keys g"
    and sort_deps_first: "acyclic {(x, y). y \<in> set (deps g x)} \<Longrightarrow> deps_first (deps g) (sort ord g)"
begin

text \<open>Every key of the graph is processed, on cyclic graphs too.\<close>

lemma sort_keys: "set ord = keys g \<Longrightarrow> keys g \<subseteq> set (sort ord g)"
  by (auto simp: sort_set)

text \<open>The first \<open>n\<close> processed names contain all their dependencies.\<close>

lemma prefix_closed:
  assumes "acyclic {(x, y). y \<in> set (deps g x)}" and "x \<in> set (take n (sort ord g))"
  shows "set (deps g x) \<subseteq> set (take n (sort ord g))"
proof -
  from assms(2) obtain ys zs where split: "take n (sort ord g) = ys @ x # zs"
    by (auto dest: split_list)
  then have "sort ord g = ys @ x # (zs @ drop n (sort ord g))"
    by (metis append_Cons append_assoc append_take_drop_id)
  with sort_deps_first [OF assms(1)] have "set (deps g x) \<subseteq> set ys"
    unfolding deps_first_def by blast
  with split show ?thesis by auto
qed

lemma before:
  assumes "acyclic {(x, y). y \<in> set (deps g x)}" and "i < length (sort ord g)"
    and "d \<in> set (deps g (sort ord g ! i))"
  shows "\<exists>j<i. sort ord g ! j = d"
proof -
  have "sort ord g = take i (sort ord g) @ sort ord g ! i # drop (Suc i) (sort ord g)"
    using assms(2) by (simp add: id_take_nth_drop)
  with sort_deps_first [OF assms(1), of ord] assms(3)
  have "d \<in> set (take i (sort ord g))"
    unfolding deps_first_def by blast
  then show ?thesis
    using assms(2) by (auto simp: in_set_conv_nth)
qed

end

lemma visits_sort_laws:
  shows "distinct (ts_result (visits g ord topo_init))"
    and "set ord = fst ` set g \<Longrightarrow>
      set (ts_result (visits g ord topo_init)) = (dep_edges g)\<^sup>* `` (fst ` set g)"
    and "acyclic (dep_edges g) \<Longrightarrow> deps_first (graph_deps g) (ts_result (visits g ord topo_init))"
proof -
  have inv0: "topo_inv g topo_init" by (simp add: topo_inv_def topo_init_def)
  then have inv: "topo_inv g (visits g ord topo_init)" by (rule visits_inv)
  then show "distinct (ts_result (visits g ord topo_init))" by (simp add: topo_inv_def)
  let ?V = "ts_visited (visits g ord topo_init)"
  have "ts_inProgress (visits g ord topo_init) = {}" by (simp add: topo_init_def)
  with inv have closed: "dep_edges g `` ?V \<subseteq> ?V" and res: "set (ts_result (visits g ord topo_init)) = ?V"
    by (auto simp: topo_inv_def)
  show "set (ts_result (visits g ord topo_init)) = (dep_edges g)\<^sup>* `` (fst ` set g)"
    if ord: "set ord = fst ` set g"
  proof -
    have "fst ` set g \<subseteq> ?V"
      using visits_covers [of ord g topo_init] ord by (simp add: topo_init_def)
    then have "(dep_edges g)\<^sup>* `` (fst ` set g) \<subseteq> (dep_edges g)\<^sup>* `` ?V" by auto
    also have "\<dots> = ?V" using closed by (rule Image_closed_trancl)
    finally have "(dep_edges g)\<^sup>* `` (fst ` set g) \<subseteq> ?V" .
    moreover have "?V \<subseteq> (dep_edges g)\<^sup>* `` (fst ` set g)"
      using visits_reach [of g ord topo_init] ord by (simp add: topo_init_def)
    ultimately show ?thesis using res by blast
  qed
  show "deps_first (graph_deps g) (ts_result (visits g ord topo_init))" if "acyclic (dep_edges g)"
    using that inv0 by (intro visits_deps_first) (auto simp: topo_init_def)
qed

interpretation addon_sort: dependency_sort "\<lambda>g. fst ` set g" graph_deps topologicalSortAddons
  by unfold_locales
    (auto simp: topologicalSortAddons_def dep_edges_def [symmetric] visits_sort_laws)

lemma keys_node_graph: "fst ` set (node_graph g) = fst ` set g"
  by (force simp: node_graph_def)

interpretation component_sort: dependency_sort "\<lambda>g. fst ` set g"
  "\<lambda>g. graph_deps (node_graph g)" topologicalSort
  by unfold_locales
    (auto simp: topologicalSort_def dep_edges_def [symmetric] visits_sort_laws
      visits_sort_laws(2) [of _ "node_graph _", unfolded keys_node_graph])

section \<open>The graphs that are built\<close>

lemma buildDependencyGraph_keys: "fst ` set (buildDependencyGraph cs) = uc_Name ` set cs"
proof -
  have "fst ` set (fold (\<lambda>c. upd_key (uc_Name c) (f c)) cs g) = fst ` set g \<union> uc_Name ` set cs" for f :: "_ \<Rightarrow> depNode" and g
    by (induction cs arbitrary: g) (auto simp: keys_upd_key)
  from this [of _ "[]"] show ?thesis by (simp add: buildDependencyGraph_def)
qed

lemma buildAddonDependencyGraph_keys:
  "fst ` set (buildAddonDependencyGraph ri) = ad_Name ` set (ris_Addons (ri_Spec ri))"
proof -
  have "fst ` set (fold (\<lambda>a. upd_key (ad_Name a) (f a)) as g) = fst ` set g \<union> ad_Name ` set as" for f :: "_ \<Rightarrow> string list" and g as
    by (induction as arbitrary: g) (auto simp: keys_upd_key)
  from this [of _ _ "[]"] show ?thesis by (simp add: buildAddonDependencyGraph_def)
qed

lemma findComponent_Some: "findComponent cs n = Some c \<Longrightarrow> c \<in> set cs \<and> uc_Name c = n"
  by (induction cs) (auto split: if_splits)

lemma findComponent_None: "findComponent cs n = None \<longleftrightarrow> n \<notin> uc_Name ` set cs"
  by (induction cs) auto

lemma findAddon_Some: "findAddon as n = Some a \<Longrightarrow> a \<in> set as \<and> ad_Name a = n"
  by (induction as) (auto split: if_splits)

lemma findAddon_None: "findAddon as n = None \<longleftrightarrow> n \<notin> ad_Name ` set as"
  by (induction as) auto

section \<open>The sort of the components of a phase\<close>

text \<open>
  (C10) The topological sort of a phase lists every component exactly once, on cyclic graphs
  too, in whatever order the map is ranged over; on an acyclic graph every dependency stands
  before each component that needs it.
\<close>

theorem topologicalSort_correct:
  assumes "set ord = fst ` set (buildDependencyGraph cs)"
  shows "distinct (topologicalSort ord (buildDependencyGraph cs))
    \<and> uc_Name ` set cs \<subseteq> set (topologicalSort ord (buildDependencyGraph cs))
    \<and> (acyclic (dep_edges (node_graph (buildDependencyGraph cs))) \<longrightarrow>
        (\<forall>i<length (topologicalSort ord (buildDependencyGraph cs)).
          \<forall>d\<in>set (graph_deps (node_graph (buildDependencyGraph cs)) (topologicalSort ord (buildDependencyGraph cs) ! i)).
            \<exists>j<i. topologicalSort ord (buildDependencyGraph cs) ! j = d))"
  using component_sort.sort_distinct component_sort.sort_keys [OF assms] component_sort.before
  by (simp add: buildDependencyGraph_keys dep_edges_def)

definition ex_sort_components :: "UpgradeComponent list" where
  "ex_sort_components =
     [\<lparr>uc_Name = ''b'', uc_Manifests = [], uc_Scripts = [], uc_Blocking = True, uc_DependsOn = [''a''], uc_HealthCheck = None\<rparr>,
      \<lparr>uc_Name = ''a'', uc_Manifests = [], uc_Scripts = [], uc_Blocking = True, uc_DependsOn = [], uc_HealthCheck = None\<rparr>]"

lemma ex_sort_graph:
  "buildDependencyGraph ex_sort_components
     = [(''b'', \<lparr>dn_name = ''b'', dn_deps = [''a'']\<rparr>), (''a'', \<lparr>dn_name = ''a'', dn_deps = []\<rparr>)]"
  by (simp add: buildDependencyGraph_def ex_sort_components_def)

lemma topologicalSort_witness:
  "topologicalSort [''b'', ''a''] (buildDependencyGraph ex_sort_components) = [''a'', ''b'']
   \<and> distinct (topologicalSort [''b'', ''a''] (buildDependencyGraph ex_sort_components))
   \<and> (\<exists>j<1. topologicalSort [''b'', ''a''] (buildDependencyGraph ex_sort_components) ! j = ''a'')"
proof -
  have run: "topologicalSort [''b'', ''a''] (buildDependencyGraph ex_sort_components) = [''a'', ''b'']"
    by (simp add: ex_sort_graph topologicalSort_def node_graph_def topo_init_def topo_start_def topo_finish_def graph_deps_def)
  have keys: "set [''b'', ''a''] = fst ` set (buildDependencyGraph ex_sort_components)"
    by (simp add: ex_sort_graph)
  have deps: "graph_deps (node_graph (buildDependencyGraph ex_sort_components)) x = (if x = ''b'' then [''a''] else [])" for x
    by (simp add: ex_sort_graph node_graph_def graph_deps_def)
  then have "dep_edges (node_graph (buildDependencyGraph ex_sort_components)) = {(''b'', ''a'')}"
    by (auto simp: dep_edges_def split: if_splits)
  then have acyclic: "acyclic (dep_edges (node_graph (buildDependencyGraph ex_sort_components)))"
    by (simp add: acyclic_def trancl_id trans_def)
  from topologicalSort_correct [OF keys] acyclic run deps show ?thesis by auto
qed

end
