(* ===== verification/Component_Diff.thy ===== *)
theory Component_Diff
  imports Topo_Sort Zero_Values
begin

text \<open>
  The difference of two release images, \<open>modules/cvo/internal/upgrader/diff_components.go\<close>.
  The two \<open>range\<close> loops over the addon maps visit their keys in the orders \<open>ordT\<close> and \<open>ordC\<close>.
\<close>

section \<open>Definitions\<close>

record ComponentChange =
  cc_Name :: string
  cc_CurrentVersion :: string
  cc_TargetVersion :: string

record ComponentDiff =
  cd_Changed :: "ComponentChange list"
  cd_Unchanged :: "string list"
  cd_Added :: "string list"
  cd_Removed :: "string list"

definition zero_diff :: ComponentDiff where
  "zero_diff = \<lparr>cd_Changed = [], cd_Unchanged = [], cd_Added = [], cd_Removed = []\<rparr>"

definition buildAddonMap :: "ReleaseImage \<Rightarrow> (string \<times> AddonDefinition) list" where
  "buildAddonMap ri = fold (\<lambda>a m. upd_key (ad_Name a) a m) (ris_Addons (ri_Spec ri)) []"

text \<open>The comparison of one component, written out three times in the source.\<close>

definition compare_version :: "string \<Rightarrow> string \<Rightarrow> string \<Rightarrow> ComponentDiff \<Rightarrow> ComponentDiff" where
  "compare_version name cur tgt d =
     (if cur \<noteq> tgt then
        (if tgt \<noteq> [] then
           d\<lparr>cd_Changed := cd_Changed d @ [\<lparr>cc_Name = name, cc_CurrentVersion = cur, cc_TargetVersion = tgt\<rparr>]\<rparr>
         else d)
      else if cur \<noteq> [] then d\<lparr>cd_Unchanged := cd_Unchanged d @ [name]\<rparr>
      else d)"

definition compare_addon ::
  "(string \<times> AddonDefinition) list \<Rightarrow> (string \<times> AddonDefinition) list \<Rightarrow> string \<Rightarrow> ComponentDiff \<Rightarrow> ComponentDiff" where
  "compare_addon curM tgtM name d =
     (case map_of tgtM name of
        None \<Rightarrow> d
      | Some targetAddon \<Rightarrow>
          (case map_of curM name of
             None \<Rightarrow> d\<lparr>cd_Added := cd_Added d @ [name]\<rparr>
           | Some currentAddon \<Rightarrow>
               compare_version name (ad_Version currentAddon) (ad_Version targetAddon) d))"

definition note_removed :: "(string \<times> AddonDefinition) list \<Rightarrow> string \<Rightarrow> ComponentDiff \<Rightarrow> ComponentDiff" where
  "note_removed tgtM name d =
     (if map_of tgtM name = None then d\<lparr>cd_Removed := cd_Removed d @ [name]\<rparr> else d)"

definition DiffComponents ::
  "string list \<Rightarrow> string list \<Rightarrow> ReleaseImage option \<Rightarrow> ReleaseImage option \<Rightarrow> ComponentDiff" where
  "DiffComponents ordT ordC current target =
     (case (current, target) of
        (Some c, Some t) \<Rightarrow>
          (let cc = ris_Components (ri_Spec c); tc = ris_Components (ri_Spec t);
               d1 = compare_version ''containerd'' (bc_Version (rc_Containerd cc)) (bc_Version (rc_Containerd tc)) zero_diff;
               d2 = compare_version ''kubernetes'' (kc_Version (rc_Kubernetes cc)) (kc_Version (rc_Kubernetes tc)) d1;
               curM = buildAddonMap c; tgtM = buildAddonMap t;
               d3 = fold (compare_addon curM tgtM) ordT d2
           in fold (note_removed tgtM) ordC d3)
      | _ \<Rightarrow> zero_diff)"

definition NeedsUpgrade :: "ComponentDiff \<Rightarrow> bool" where
  "NeedsUpgrade d \<longleftrightarrow> length (cd_Changed d) > 0 \<or> length (cd_Added d) > 0"

definition UpgradeSet :: "ComponentDiff \<Rightarrow> (string \<times> bool) list" where
  "UpgradeSet d =
     fold (\<lambda>n m. upd_key n True m) (cd_Added d)
       (fold (\<lambda>c m. upd_key (cc_Name c) True m) (cd_Changed d) [])"

section \<open>The loops\<close>

lemma buildAddonMap_keys: "fst ` set (buildAddonMap ri) = ad_Name ` set (ris_Addons (ri_Spec ri))"
proof -
  have "fst ` set (fold (\<lambda>a. upd_key (ad_Name a) (f a)) as m) = fst ` set m \<union> ad_Name ` set as"
    for f :: "_ \<Rightarrow> AddonDefinition" and m as
    by (induction as arbitrary: m) (auto simp: keys_upd_key)
  from this [of "\<lambda>a. a" _ "[]"] show ?thesis by (simp add: buildAddonMap_def)
qed

lemma compare_version_added_removed [simp]:
  "cd_Added (compare_version n c t d) = cd_Added d" "cd_Removed (compare_version n c t d) = cd_Removed d"
  by (simp_all add: compare_version_def)

definition addon_change ::
  "(string \<times> AddonDefinition) list \<Rightarrow> (string \<times> AddonDefinition) list \<Rightarrow> string \<Rightarrow> ComponentChange option" where
  "addon_change curM tgtM n =
     (case (map_of curM n, map_of tgtM n) of
        (Some c, Some t) \<Rightarrow>
          if ad_Version c \<noteq> ad_Version t \<and> ad_Version t \<noteq> [] then
            Some \<lparr>cc_Name = n, cc_CurrentVersion = ad_Version c, cc_TargetVersion = ad_Version t\<rparr>
          else None
      | _ \<Rightarrow> None)"

lemma fold_compare_addon:
  "cd_Added (fold (compare_addon curM tgtM) ns d)
     = cd_Added d @ filter (\<lambda>n. map_of tgtM n \<noteq> None \<and> map_of curM n = None) ns"
  "set (cd_Changed (fold (compare_addon curM tgtM) ns d))
     = set (cd_Changed d) \<union> {x. \<exists>n\<in>set ns. addon_change curM tgtM n = Some x}"
  "set (cd_Unchanged (fold (compare_addon curM tgtM) ns d))
     = set (cd_Unchanged d) \<union> {n\<in>set ns. \<exists>c t. map_of curM n = Some c \<and> map_of tgtM n = Some t
                                 \<and> ad_Version c = ad_Version t \<and> ad_Version c \<noteq> []}"
  "cd_Removed (fold (compare_addon curM tgtM) ns d) = cd_Removed d"
  by (induction ns arbitrary: d)
     (auto simp: compare_addon_def compare_version_def addon_change_def split: option.splits if_splits)

lemma fold_note_removed:
  "cd_Removed (fold (note_removed tgtM) ns d) = cd_Removed d @ filter (\<lambda>n. map_of tgtM n = None) ns"
  "cd_Added (fold (note_removed tgtM) ns d) = cd_Added d"
  "cd_Changed (fold (note_removed tgtM) ns d) = cd_Changed d"
  "cd_Unchanged (fold (note_removed tgtM) ns d) = cd_Unchanged d"
  by (induction ns arbitrary: d) (auto simp: note_removed_def)

section \<open>What a diff contains\<close>

definition addon_names :: "ReleaseImage \<Rightarrow> string set" where
  "addon_names ri = ad_Name ` set (ris_Addons (ri_Spec ri))"

lemma addon_in_map: "map_of (buildAddonMap ri) n = None \<longleftrightarrow> n \<notin> addon_names ri"
  using buildAddonMap_keys [of ri] by (simp add: map_of_eq_None_iff addon_names_def)

lemma zero_diff_simps [simp]:
  "cd_Changed zero_diff = []" "cd_Unchanged zero_diff = []" "cd_Added zero_diff = []" "cd_Removed zero_diff = []"
  by (simp_all add: zero_diff_def)

lemma changed_compare_version:
  "set (cd_Changed (compare_version n c t d)) = set (cd_Changed d) \<union>
     (if c \<noteq> t \<and> t \<noteq> [] then {\<lparr>cc_Name = n, cc_CurrentVersion = c, cc_TargetVersion = t\<rparr>} else {})"
  "set (cd_Unchanged (compare_version n c t d)) = set (cd_Unchanged d) \<union>
     (if c = t \<and> c \<noteq> [] then {n} else {})"
  by (auto simp: compare_version_def)

text \<open>
  The diff is complete and exact, for every iteration order of the addon maps: an addon
  is added (removed) exactly when only the target (only the current) release has it, and the
  recorded changes are exactly the binary components and common addons whose version changes
  to a non-empty one.
\<close>

theorem DiffComponents_spec:
  assumes "distinct ordT" and "set ordT = addon_names t" and "distinct ordC" and "set ordC = addon_names c"
  shows "set (cd_Added (DiffComponents ordT ordC (Some c) (Some t))) = addon_names t - addon_names c
    \<and> distinct (cd_Added (DiffComponents ordT ordC (Some c) (Some t)))
    \<and> set (cd_Removed (DiffComponents ordT ordC (Some c) (Some t))) = addon_names c - addon_names t
    \<and> distinct (cd_Removed (DiffComponents ordT ordC (Some c) (Some t)))
    \<and> set (cd_Changed (DiffComponents ordT ordC (Some c) (Some t))) =
        {x. \<exists>n\<in>addon_names t. addon_change (buildAddonMap c) (buildAddonMap t) n = Some x}
        \<union> set (cd_Changed (compare_version ''containerd''
            (bc_Version (rc_Containerd (ris_Components (ri_Spec c))))
            (bc_Version (rc_Containerd (ris_Components (ri_Spec t)))) zero_diff))
        \<union> set (cd_Changed (compare_version ''kubernetes''
            (kc_Version (rc_Kubernetes (ris_Components (ri_Spec c))))
            (kc_Version (rc_Kubernetes (ris_Components (ri_Spec t)))) zero_diff))"
proof -
  have added: "filter (\<lambda>n. map_of (buildAddonMap t) n \<noteq> None \<and> map_of (buildAddonMap c) n = None) ordT
      = filter (\<lambda>n. n \<notin> addon_names c) ordT"
    using assms(2) by (intro filter_cong) (auto simp: addon_in_map)
  show ?thesis
    unfolding DiffComponents_def Let_def
    by (auto simp: fold_note_removed fold_compare_addon added changed_compare_version
        assms addon_in_map simp del: not_None_eq)
qed

text \<open>
  \<open>NeedsUpgrade\<close> and \<open>UpgradeSet\<close> agree: the set names exactly the changed and the added
  components, and an upgrade is needed exactly when it is not empty.
\<close>

theorem UpgradeSet_spec:
  "fst ` set (UpgradeSet d) = cc_Name ` set (cd_Changed d) \<union> set (cd_Added d)
   \<and> (NeedsUpgrade d \<longleftrightarrow> UpgradeSet d \<noteq> [])"
proof -
  have a: "fst ` set (fold (\<lambda>n. upd_key n True) ns m) = fst ` set m \<union> set ns" for ns :: "string list" and m
    by (induction ns arbitrary: m) (auto simp: keys_upd_key)
  have b: "fst ` set (fold (\<lambda>c. upd_key (cc_Name c) True) cs m) = fst ` set m \<union> cc_Name ` set cs" for cs :: "ComponentChange list" and m
    by (induction cs arbitrary: m) (auto simp: keys_upd_key)
  have keys: "fst ` set (UpgradeSet d) = cc_Name ` set (cd_Changed d) \<union> set (cd_Added d)"
    by (simp add: UpgradeSet_def a b)
  then have "UpgradeSet d = [] \<longleftrightarrow> cd_Changed d = [] \<and> cd_Added d = []" by auto
  with keys show ?thesis by (auto simp: NeedsUpgrade_def)
qed

text \<open>
  The diff never looks at the Helm and CNI-plugin binaries of a release: two releases
  that differ only there give the same diff, so such a release needs no upgrade.
\<close>

theorem DiffComponents_ignores_helm_cni:
  "DiffComponents ordT ordC (Some c)
     (Some (t\<lparr>ri_Spec := (ri_Spec t)\<lparr>ris_Components :=
         (ris_Components (ri_Spec t))\<lparr>rc_Helm := h, rc_CNIPlugins := p\<rparr>\<rparr>\<rparr>))
   = DiffComponents ordT ordC (Some c) (Some t)"
  by (simp add: DiffComponents_def buildAddonMap_def Let_def)

section \<open>A concrete diff\<close>

definition ex_release :: "string \<Rightarrow> (string \<times> string) list \<Rightarrow> ReleaseImage" where
  "ex_release k8s addons = zero_ReleaseImage\<lparr>ri_Spec := zero_ReleaseImageSpec\<lparr>
     ris_Components := zero_Components\<lparr>rc_Kubernetes := zero_KubernetesComponent\<lparr>kc_Version := k8s\<rparr>\<rparr>,
     ris_Addons := map (\<lambda>(n, v). zero_Addon\<lparr>ad_Name := n, ad_Version := v\<rparr>) addons\<rparr>\<rparr>"

lemma DiffComponents_witness:
  "set (cd_Added (DiffComponents [''b'', ''c''] [''a'', ''b'']
      (Some (ex_release ''v1'' [(''a'', ''1''), (''b'', ''1'')]))
      (Some (ex_release ''v2'' [(''b'', ''2''), (''c'', ''1'')])))) = {''c''}"
  using DiffComponents_spec [of "[''b'', ''c'']" "ex_release ''v2'' [(''b'', ''2''), (''c'', ''1'')]"
      "[''a'', ''b'']" "ex_release ''v1'' [(''a'', ''1''), (''b'', ''1'')]"]
  by (simp add: addon_names_def ex_release_def zero_defs)

end
