(* ===== verification/Ssh_Manager.thy ===== *)
theory Ssh_Manager
  imports Topo_Sort Cluster_Env
begin

text \<open>
  The SSH connection manager and client, \<open>modules/cvo/pkg/ssh/manager.go\<close> and \<open>client.go\<close>.
  A \<open>*SSHConnection\<close> is an index into \<open>w_conns\<close>, so the pool and its callers share the
  object; dereferencing an index outside the heap panics. The \<open>sync.RWMutex\<close> makes each
  operation atomic with respect to the pool; callers are sequential here.
\<close>

section \<open>Definitions\<close>

record SSHManager =
  sm_idleTimeout :: duration
  sm_knownHostsFile :: string

definition NewSSHManager :: "duration \<Rightarrow> SSHManager" where
  "NewSSHManager idleTimeout =
     \<lparr>sm_idleTimeout = (if idleTimeout = 0 then 5 * minute else idleTimeout), sm_knownHostsFile = []\<rparr>"

definition WithKnownHosts :: "SSHManager \<Rightarrow> string \<Rightarrow> SSHManager" where
  "WithKnownHosts m path = m\<lparr>sm_knownHostsFile := path\<rparr>"

definition conn_key :: "string \<Rightarrow> int \<Rightarrow> string" where
  "conn_key h port = h @ '':'' @ show_int port"

definition deref :: "nat \<Rightarrow> SSHConnection cact" where
  "deref p = (\<lambda>w. if p < length (w_conns w) then (Ok (w_conns w ! p), w)
                  else (Panic ''nil pointer dereference'', w))"

definition touch :: "nat \<Rightarrow> timestamp \<Rightarrow> unit cact" where
  "touch p t = modify_conns (\<lambda>cs. if p < length cs then cs[p := (cs ! p)\<lparr>sc_LastUsed := t\<rparr>] else cs)"

definition Keepalive :: "env \<Rightarrow> string \<Rightarrow> int \<Rightarrow> bool cact" where
  "Keepalive E h port = query (EvKeepalive h port) (\<lambda>l. Inr (s_keepalive (ssh E) l h port))"

text \<open>The lookup under the read lock: is there a fresh, live pooled connection?\<close>

definition pooled :: "env \<Rightarrow> SSHManager \<Rightarrow> string \<Rightarrow> nat option cact" where
  "pooled E m key =
     andthen (gets (\<lambda>w. map_of (w_pool w) key)) (\<lambda>entry.
       case entry of
         None \<Rightarrow> ret None
       | Some p \<Rightarrow>
           andthen (deref p) (\<lambda>c.
           andthen (time_Now E) (\<lambda>now.
             if now - sc_LastUsed c < sm_idleTimeout m then
               andthen (Keepalive E (sc_Host c) (sc_Port c)) (\<lambda>alive.
                 if alive then andthen (time_Now E) (\<lambda>t. andthen (touch p t) (\<lambda>_. ret (Some p)))
                 else ret None)
             else ret None)))"

definition dial_new :: "env \<Rightarrow> SSHManager \<Rightarrow> string \<Rightarrow> int \<Rightarrow> Credentials \<Rightarrow> nat cact" where
  "dial_new E m h port creds =
     check (when_act (sm_knownHostsFile m \<noteq> [])
        (command (EvKnownHosts (sm_knownHostsFile m)) (\<lambda>l. s_known_hosts (ssh E) l (sm_knownHostsFile m))))
       (wrap (''failed to load known hosts file '' @ sm_knownHostsFile m @ '': '')) (\<lambda>_.
     check (command (EvDial h port) (\<lambda>l. s_dial (ssh E) l h port))
       (wrap (''failed to connect to '' @ conn_key h port @ '': '')) (\<lambda>_.
     andthen (time_Now E) (\<lambda>now.
     andthen (gets (\<lambda>w. length (w_conns w))) (\<lambda>p.
     andthen (modify_conns (\<lambda>cs. cs @ [\<lparr>sc_Client = Some (length cs), sc_Host = h, sc_Port = port,
                                       sc_LastUsed = now, sc_Credentials = Some creds\<rparr>])) (\<lambda>_.
     andthen (modify_pool (upd_key (conn_key h port) p)) (\<lambda>_. ret p))))))"

definition Connect :: "env \<Rightarrow> SSHManager \<Rightarrow> string \<Rightarrow> int \<Rightarrow> Credentials \<Rightarrow> nat cact" where
  "Connect E m h port creds =
     andthen (pooled E m (conn_key h port)) (\<lambda>r.
       case r of Some p \<Rightarrow> ret p | None \<Rightarrow> dial_new E m h port creds)"

definition delete_key :: "string \<Rightarrow> (string \<times> nat) list \<Rightarrow> (string \<times> nat) list" where
  "delete_key k g = filter (\<lambda>(k', p). k' \<noteq> k) g"

text \<open>\<open>Close\<close>: the client's own close error is ignored; \<open>None\<close> is the nil connection.\<close>

definition Close :: "nat option \<Rightarrow> unit cact" where
  "Close conn = (case conn of
      None \<Rightarrow> ret ()
    | Some p \<Rightarrow>
        andthen (deref p) (\<lambda>c.
          if sc_Client c = None then ret ()
          else andthen (query (EvCloseClient (sc_Host c) (sc_Port c)) (\<lambda>l. Inr ()))
                 (\<lambda>_. modify_pool (delete_key (conn_key (sc_Host c) (sc_Port c))))))"

definition Cleanup :: "env \<Rightarrow> SSHManager \<Rightarrow> unit cact" where
  "Cleanup E m =
     andthen (gets (\<lambda>w. map fst (w_pool w))) (\<lambda>ks.
     andthen (range_map E ks) (\<lambda>order.
       for_each order (\<lambda>key.
         andthen (gets (\<lambda>w. map_of (w_pool w) key)) (\<lambda>entry. case entry of
           None \<Rightarrow> ret ()
         | Some p \<Rightarrow>
             andthen (deref p) (\<lambda>c.
             andthen (time_Now E) (\<lambda>now.
               when_act (now - sc_LastUsed c > sm_idleTimeout m)
                 (andthen (query (EvCloseClient (sc_Host c) (sc_Port c)) (\<lambda>l. Inr ()))
                    (\<lambda>_. modify_pool (delete_key key)))))))))"

definition ConnectionCount :: "nat cact" where
  "ConnectionCount = gets (\<lambda>w. length (w_pool w))"

record CommandResult =
  cr_Stdout :: string
  cr_Stderr :: string
  cr_ExitCode :: int

definition ExecuteCommand :: "env \<Rightarrow> nat \<Rightarrow> string \<Rightarrow> duration option \<Rightarrow> CommandResult cact" where
  "ExecuteCommand E p cmd ctx =
     andthen (deref p) (\<lambda>c.
       if sc_Client c = None then fail (Errorf ''SSH client is not initialized'')
       else check (command (EvSession (sc_Host c)) (\<lambda>l. s_session (ssh E) l (sc_Host c)))
              (wrap ''failed to create SSH session: '') (\<lambda>_.
            andthen (query (EvExec (sc_Host c) cmd ctx) (\<lambda>l. Inr (s_run (ssh E) l (sc_Host c) cmd ctx))) (\<lambda>out.
              case out of
                RunDone stdout stderr code \<Rightarrow>
                  andthen (time_Now E) (\<lambda>t. andthen (touch p t)
                    (\<lambda>_. ret \<lparr>cr_Stdout = stdout, cr_Stderr = stderr, cr_ExitCode = code\<rparr>))
              | RunFailed e \<Rightarrow>
                  andthen (time_Now E) (\<lambda>t. andthen (touch p t)
                    (\<lambda>_. fail (wrap ''command execution failed: '' e)))
              | RunCancelled e \<Rightarrow> fail e)))"

text \<open>\<open>bytes.ReplaceAll(script, "'", "'\''")\<close>, with the backslash as a character code.\<close>

fun escape_quotes :: "string \<Rightarrow> string" where
  "escape_quotes [] = []"
| "escape_quotes (c # cs) =
     (if c = CHR 0x27 then [CHR 0x27, CHR 0x5C, CHR 0x27, CHR 0x27] @ escape_quotes cs
      else c # escape_quotes cs)"

definition single_quoted :: "string \<Rightarrow> string" where
  "single_quoted s = [CHR 0x27] @ s @ [CHR 0x27]"

definition script_command :: "Credentials option \<Rightarrow> string \<Rightarrow> string" where
  "script_command creds script =
     (let escaped = escape_quotes script in
      case creds of
        Some c \<Rightarrow>
          if cred_UseSudo c then
            (if cred_SudoPassword c \<noteq> [] \<and> cred_SudoPassword c \<noteq> cred_Password c then
               ''echo '' @ single_quoted (cred_SudoPassword c) @ '' | sudo -S bash -c '' @ single_quoted escaped
             else ''sudo bash -c '' @ single_quoted escaped)
          else ''bash -c '' @ single_quoted escaped
      | None \<Rightarrow> ''bash -c '' @ single_quoted escaped)"

definition ExecuteScript :: "env \<Rightarrow> nat \<Rightarrow> string \<Rightarrow> duration option \<Rightarrow> CommandResult cact" where
  "ExecuteScript E p script ctx =
     andthen (deref p) (\<lambda>c. ExecuteCommand E p (script_command (sc_Credentials c) script) ctx)"

definition IsAlive :: "env \<Rightarrow> nat \<Rightarrow> bool cact" where
  "IsAlive E p = andthen (deref p) (\<lambda>c.
     if sc_Client c = None then ret False else Keepalive E (sc_Host c) (sc_Port c))"

text \<open>
  The upgraders connect to a node by name, on port 22, with empty credentials.
\<close>

definition no_creds :: Credentials where
  "no_creds = \<lparr>cred_Username = [], cred_Password = [], cred_SudoPassword = [], cred_UseSudo = False\<rparr>"

section \<open>Quoting\<close>

text \<open>
  How a POSIX shell reads a command line, as far as it is needed here: words separated by blanks,
  commands by bars. Inside single quotes every character but the quote stands for itself;
  outside, a backslash makes the next character literal. A character that would start anything
  else (an expansion, a redirection, a list, a comment, a pattern) ends the analysis with
  \<open>None\<close>, as do an open quote and an empty command. The second argument is the word read so far.
\<close>

definition sh_special :: "char set" where
  "sh_special = set ''$`;&<>()#*?[]~!{}'' \<union> {CHR 0x22, CHR 0x0A}"

fun add_word :: "string option \<Rightarrow> string list list \<Rightarrow> string list list" where
  "add_word (Some x) (cmd # cmds) = (x # cmd) # cmds"
| "add_word w cmds = cmds"

definition word_of :: "string option \<Rightarrow> string" where
  "word_of w = (case w of None \<Rightarrow> [] | Some x \<Rightarrow> x)"

fun sh_parse :: "bool \<Rightarrow> string option \<Rightarrow> string \<Rightarrow> string list list option" where
  "sh_parse True w [] = None"
| "sh_parse False w [] = Some (add_word w [[]])"
| "sh_parse True w (c # cs) =
     (if c = CHR 0x27 then sh_parse False w cs else sh_parse True (Some (word_of w @ [c])) cs)"
| "sh_parse False w (c # cs) =
     (if c = CHR 0x27 then sh_parse True (Some (word_of w)) cs
      else if c = CHR 0x5C then (case cs of
          [] \<Rightarrow> None
        | d # ds \<Rightarrow> if d = CHR 0x0A then sh_parse False w ds else sh_parse False (Some (word_of w @ [d])) ds)
      else if c = CHR '' '' \<or> c = CHR 0x09 then map_option (add_word w) (sh_parse False None cs)
      else if c = CHR ''|'' then map_option (\<lambda>cmds. add_word w ([] # cmds)) (sh_parse False None cs)
      else if c \<in> sh_special then None
      else sh_parse False (Some (word_of w @ [c])) cs)"

definition sh_pipeline :: "string \<Rightarrow> string list list option" where
  "sh_pipeline s = (case sh_parse False None s of
     None \<Rightarrow> None | Some cmds \<Rightarrow> if [] \<in> set cmds then None else Some cmds)"

lemma sh_parse_escaped: "sh_parse True (Some x) (escape_quotes s @ CHR 0x27 # rest) = sh_parse False (Some (x @ s)) rest"
  by (induction s arbitrary: x) (auto simp: word_of_def)

lemma sh_parse_quoted:
  "CHR 0x27 \<notin> set s \<Longrightarrow> sh_parse True (Some x) (s @ CHR 0x27 # rest) = sh_parse False (Some (x @ s)) rest"
  by (induction s arbitrary: x) (auto simp: word_of_def)

text \<open>What \<open>ExecuteScript\<close> means to run: the script as one argument of \<open>bash -c\<close>, behind \<open>sudo\<close> if asked for.\<close>

definition script_pipeline :: "Credentials option \<Rightarrow> string \<Rightarrow> string list list" where
  "script_pipeline creds script = (case creds of
      None \<Rightarrow> [[''bash'', ''-c'', script]]
    | Some c \<Rightarrow>
        if \<not> cred_UseSudo c then [[''bash'', ''-c'', script]]
        else if cred_SudoPassword c = [] \<or> cred_SudoPassword c = cred_Password c then [[''sudo'', ''bash'', ''-c'', script]]
        else [[''echo'', cred_SudoPassword c], [''sudo'', ''-S'', ''bash'', ''-c'', script]])"

lemma script_command_pipeline:
  assumes "\<And>c. creds = Some c \<Longrightarrow> CHR 0x27 \<notin> set (cred_SudoPassword c)"
  shows "sh_pipeline (script_command creds script) = Some (script_pipeline creds script)"
proof -
  have bash: "sh_parse False None (''bash -c '' @ single_quoted (escape_quotes script)) = Some [[''bash'', ''-c'', script]]"
    using sh_parse_escaped [of "[]" script "[]"] by (simp add: single_quoted_def word_of_def sh_special_def)
  have sudo: "sh_parse False None (''sudo bash -c '' @ single_quoted (escape_quotes script)) = Some [[''sudo'', ''bash'', ''-c'', script]]"
    using sh_parse_escaped [of "[]" script "[]"] by (simp add: single_quoted_def word_of_def sh_special_def)
  have echo: "sh_parse False None (''echo '' @ single_quoted pw @ '' | sudo -S bash -c '' @ single_quoted (escape_quotes script))
      = Some [[''echo'', pw], [''sudo'', ''-S'', ''bash'', ''-c'', script]]" if "CHR 0x27 \<notin> set pw" for pw
    using sh_parse_quoted [OF that, of "[]"] sh_parse_escaped [of "[]" script "[]"] by (simp add: single_quoted_def word_of_def sh_special_def)
  show ?thesis
    using bash sudo echo assms
    by (cases creds) (simp_all add: sh_pipeline_def script_command_def script_pipeline_def Let_def)
qed

text \<open>
  (C29) What reaches the host is what was meant: on a live connection the only command that
  \<open>ExecuteScript\<close> sends is read by the shell of the host as \<open>bash -c\<close> with exactly the script as its
  argument, whatever bytes the script contains, behind \<open>sudo\<close> and a pipe for its password when
  the credentials ask for it; the result is what the host answered. The password is not escaped, so
  the claim is for passwords without a single quote.
\<close>

theorem script_quoting_roundtrip:
  assumes "p < length (w_conns w)" and "c = w_conns w ! p" and "sc_Client c \<noteq> None"
    and "\<forall>creds. sc_Credentials c = Some creds \<longrightarrow> CHR 0x27 \<notin> set (cred_SudoPassword creds)"
    and "ExecuteScript E p script ctx w = (r, w')"
  shows "\<exists>es. w_log w' = w_log w @ es
    \<and> (\<forall>h cmd t. EvExec h cmd t \<in> set es \<longrightarrow> h = sc_Host c \<and> t = ctx
        \<and> sh_pipeline cmd = Some (script_pipeline (sc_Credentials c) script))
    \<and> (\<forall>x. r = Ok x \<longrightarrow> (\<exists>cmd. es = [EvSession (sc_Host c), EvExec (sc_Host c) cmd ctx, EvNow]
        \<and> s_run (ssh E) (w_log w @ [EvSession (sc_Host c)]) (sc_Host c) cmd ctx
            = RunDone (cr_Stdout x) (cr_Stderr x) (cr_ExitCode x)))"
proof -
  let ?cmd = "script_command (sc_Credentials c) script"
  have pipe: "sh_pipeline ?cmd = Some (script_pipeline (sc_Credentials c) script)"
    by (rule script_command_pipeline) (use assms(4) in blast)
  have "ExecuteCommand E p ?cmd ctx w = (r, w')"
    using assms(1,2,5) by (simp add: ExecuteScript_def act_simps deref_def)
  then show ?thesis
    using assms(1-3) pipe
    by (auto simp: ExecuteCommand_def act_simps deref_def query_def command_def time_Now_def touch_def state_defs
      split: option.splits run_outcome.splits)
qed

definition ex_sudo_world :: world where
  "ex_sudo_world = empty_world\<lparr>w_conns := [\<lparr>sc_Client = Some 0, sc_Host = ''n1'', sc_Port = 22, sc_LastUsed = 0,
     sc_Credentials = Some \<lparr>cred_Username = ''u'', cred_Password = [], cred_SudoPassword = ''pw'', cred_UseSudo = True\<rparr>\<rparr>]\<rparr>"

lemma script_quoting_witness:
  "\<exists>cmd. w_log (snd (ExecuteScript quiet_env 0 (''echo '' @ [CHR 0x27] @ ''hi'' @ [CHR 0x27]) None ex_sudo_world))
       = w_log ex_sudo_world @ [EvSession ''n1'', EvExec ''n1'' cmd None, EvNow]
     \<and> sh_pipeline cmd = Some [[''echo'', ''pw''], [''sudo'', ''-S'', ''bash'', ''-c'', ''echo '' @ [CHR 0x27] @ ''hi'' @ [CHR 0x27]]]"
proof -
  let ?script = "''echo '' @ [CHR 0x27] @ ''hi'' @ [CHR 0x27]"
  let ?run = "ExecuteScript quiet_env 0 ?script None ex_sudo_world"
  have "fst ?run = Ok \<lparr>cr_Stdout = [], cr_Stderr = [], cr_ExitCode = 0\<rparr>"
    by (simp add: ExecuteScript_def ExecuteCommand_def act_simps state_defs deref_def query_def command_def
        time_Now_def touch_def quiet_defs ex_sudo_world_def)
  then have run: "?run = (Ok \<lparr>cr_Stdout = [], cr_Stderr = [], cr_ExitCode = 0\<rparr>, snd ?run)" by (metis prod.collapse)
  from script_quoting_roundtrip [OF _ refl _ _ run] obtain es where es: "w_log (snd ?run) = w_log ex_sudo_world @ es"
    "\<forall>h cmd t. EvExec h cmd t \<in> set es \<longrightarrow>
       sh_pipeline cmd = Some (script_pipeline (sc_Credentials (w_conns ex_sudo_world ! 0)) ?script)"
    "\<exists>cmd. es = [EvSession ''n1'', EvExec ''n1'' cmd None, EvNow]"
    by (auto simp: ex_sudo_world_def)
  from es(3) obtain cmd where cmd: "es = [EvSession ''n1'', EvExec ''n1'' cmd None, EvNow]" ..
  with es(2) have "sh_pipeline cmd = Some (script_pipeline (sc_Credentials (w_conns ex_sudo_world ! 0)) ?script)" by simp
  with es(1) cmd show ?thesis by (intro exI [of _ cmd]) (simp add: script_pipeline_def ex_sudo_world_def)
qed

section \<open>The pool invariant\<close>

definition conn_ok :: "SSHConnection list \<Rightarrow> string \<Rightarrow> nat \<Rightarrow> bool" where
  "conn_ok cs k p \<longleftrightarrow> p < length cs \<and> k = conn_key (sc_Host (cs ! p)) (sc_Port (cs ! p))
     \<and> sc_Client (cs ! p) \<noteq> None"

definition pool_inv :: "(string \<times> nat) list \<Rightarrow> SSHConnection list \<Rightarrow> bool" where
  "pool_inv pool cs \<longleftrightarrow> distinct (map fst pool) \<and> (\<forall>(k, p)\<in>set pool. conn_ok cs k p)"

definition pool_wf :: "world \<Rightarrow> bool" where
  "pool_wf w \<longleftrightarrow> pool_inv (w_pool w) (w_conns w)"

lemma pool_wf_log [simp]: "pool_wf (w\<lparr>w_log := l\<rparr>) = pool_wf w"
  by (simp add: pool_wf_def)

lemma pool_inv_lookup: "pool_inv pool cs \<Longrightarrow> map_of pool k = Some p \<Longrightarrow> conn_ok cs k p"
  by (auto simp: pool_inv_def dest!: map_of_SomeD)

lemma pool_inv_touch [simp]:
  "pool_inv pool cs \<Longrightarrow> p < length cs \<Longrightarrow> pool_inv pool (cs[p := (cs ! p)\<lparr>sc_LastUsed := t\<rparr>])"
proof -
  assume p: "p < length cs" and inv: "pool_inv pool cs"
  have "conn_ok (cs[p := (cs ! p)\<lparr>sc_LastUsed := t\<rparr>]) k q = conn_ok cs k q" for k q
    using p by (auto simp: conn_ok_def nth_list_update)
  with inv show ?thesis by (simp add: pool_inv_def)
qed

lemma pool_inv_delete [simp]: "pool_inv pool cs \<Longrightarrow> pool_inv (delete_key k pool) cs"
  by (auto simp: pool_inv_def delete_key_def intro: distinct_map_filter)

lemma pool_inv_insert [simp]:
  assumes "pool_inv pool cs" and "conn_key (sc_Host c) (sc_Port c) = k" and "sc_Client c \<noteq> None"
  shows "pool_inv (upd_key k (length cs) pool) (cs @ [c])"
proof -
  have d: "distinct (map fst (upd_key k (length cs) pool))"
    using assms(1) by (simp add: pool_inv_def distinct_upd_key)
  have "(k', p) \<in> set (upd_key k (length cs) g) \<Longrightarrow> (k', p) \<in> set g \<or> (k' = k \<and> p = length cs)" for k' p g
    by (induction g) (auto split: if_splits)
  with assms have "\<forall>(k', p)\<in>set (upd_key k (length cs) pool). conn_ok (cs @ [c]) k' p"
    by (fastforce simp: pool_inv_def conn_ok_def nth_append)
  with d show ?thesis by (simp add: pool_inv_def)
qed

lemma delete_key_None [simp]: "map_of (delete_key k g) k = None"
  by (auto simp: delete_key_def map_of_eq_None_iff)

text \<open>A pool-preserving action: the invariant survives whatever its result.\<close>

definition keeps_pool :: "'a cact \<Rightarrow> bool" where
  "keeps_pool m \<longleftrightarrow> hoare pool_wf m (\<lambda>r w. pool_wf w)"

lemma keeps_poolD: "keeps_pool m \<Longrightarrow> pool_wf w \<Longrightarrow> m w = (r, w') \<Longrightarrow> pool_wf w'"
  unfolding keeps_pool_def by (rule hoareD)

named_theorems pool_rules \<open>actions that keep the pool invariant\<close>

lemma keeps_pool_basic [pool_rules]:
  "keeps_pool (ret x)" "keeps_pool (fail e)" "keeps_pool (panic s)" "keeps_pool (gets f)"
  "keeps_pool (query ev g)" "keeps_pool (command ev h)" "keeps_pool (range_map E ks)" "keeps_pool (deref p)"
  by (simp_all add: keeps_pool_def hoare_def act_simps state_defs query_def command_def range_map_def deref_def)

lemma keeps_pool_calls [pool_rules]:
  "keeps_pool (time_Now E)" "keeps_pool (Keepalive E h port)" "keeps_pool (touch p t)"
  "keeps_pool (modify_pool (delete_key k))"
  by (simp_all add: time_Now_def Keepalive_def keeps_pool_basic)
     (auto simp: keeps_pool_def hoare_def touch_def state_defs pool_wf_def)

lemma keeps_pool_attempt [pool_rules]:
  "keeps_pool m \<Longrightarrow> (\<And>r. keeps_pool (k r)) \<Longrightarrow> keeps_pool (attempt m k)"
  unfolding keeps_pool_def by (rule hoare_attempt) auto

lemma keeps_pool_check [pool_rules]:
  "keeps_pool m \<Longrightarrow> (\<And>x. keeps_pool (k x)) \<Longrightarrow> keeps_pool (check m f k)"
  unfolding keeps_pool_def by (rule hoare_check) auto

lemma keeps_pool_deferring [pool_rules]: "keeps_pool m \<Longrightarrow> keeps_pool d \<Longrightarrow> keeps_pool (deferring m d)"
  unfolding keeps_pool_def by (rule hoare_deferring, assumption) (auto elim!: hoare_conseq split: res.split)

lemma keeps_pool_Poll [pool_rules]: "poll_ok E \<Longrightarrow> keeps_pool c \<Longrightarrow> keeps_pool (Poll E i t c)"
  unfolding keeps_pool_def by (rule hoare_Poll, assumption) (auto elim!: hoare_conseq split: res.split)

lemma keeps_pool_when [pool_rules]: "keeps_pool m \<Longrightarrow> keeps_pool (when_act b m)"
  by (simp add: when_act_def keeps_pool_basic)

lemma keeps_pool_for_each [pool_rules]: "(\<And>x. keeps_pool (f x)) \<Longrightarrow> keeps_pool (for_each xs f)"
  by (induction xs) (auto intro!: keeps_pool_basic keeps_pool_check)

lemma keeps_pool_sum [pool_rules]:
  "(\<And>e. keeps_pool (f e)) \<Longrightarrow> (\<And>x. keeps_pool (g x)) \<Longrightarrow> keeps_pool (case r of Inl e \<Rightarrow> f e | Inr x \<Rightarrow> g x)"
  by (simp split: sum.split)

lemma keeps_pool_splits [pool_rules]:
  "keeps_pool m \<Longrightarrow> keeps_pool m' \<Longrightarrow> keeps_pool (if b then m else m')"
  "keeps_pool m \<Longrightarrow> (\<And>x. keeps_pool (g x)) \<Longrightarrow> keeps_pool (case r of None \<Rightarrow> m | Some x \<Rightarrow> g x)"
  "(\<And>a b c. keeps_pool (f1 a b c)) \<Longrightarrow> (\<And>e. keeps_pool (f2 e)) \<Longrightarrow> (\<And>e. keeps_pool (f3 e)) \<Longrightarrow>
     keeps_pool (case out of RunDone a b c \<Rightarrow> f1 a b c | RunFailed e \<Rightarrow> f2 e | RunCancelled e \<Rightarrow> f3 e)"
  by (simp_all split: option.split run_outcome.split)

lemma keeps_pool_pooled [pool_rules]: "keeps_pool (pooled E m key)"
  unfolding pooled_def by (intro pool_rules)

lemma keeps_pool_dial_new [pool_rules]: "keeps_pool (dial_new E m h port creds)"
proof -
  have tail: "keeps_pool (andthen (gets (\<lambda>w. length (w_conns w))) (\<lambda>p.
     andthen (modify_conns (\<lambda>cs. cs @ [\<lparr>sc_Client = Some (length cs), sc_Host = h, sc_Port = port,
                                       sc_LastUsed = now, sc_Credentials = Some creds\<rparr>])) (\<lambda>_.
     andthen (modify_pool (upd_key (conn_key h port) p)) (\<lambda>_. ret p))))" for now
    by (auto simp: keeps_pool_def hoare_def act_simps state_defs pool_wf_def)
  show ?thesis
    unfolding dial_new_def by (intro pool_rules tail)
qed

lemma keeps_pool_operations [pool_rules]:
  "keeps_pool (Connect E m h port creds)" "keeps_pool (Close conn)" "keeps_pool (Cleanup E m)"
  "keeps_pool (ExecuteCommand E p cmd ctx)" "keeps_pool (IsAlive E p)"
  unfolding Connect_def Close_def Cleanup_def ExecuteCommand_def IsAlive_def by (intro pool_rules)+

lemma keeps_pool_ExecuteScript [pool_rules]: "keeps_pool (ExecuteScript E p script ctx)"
  unfolding ExecuteScript_def by (intro pool_rules)


section \<open>Connections to a node\<close>

definition node_event :: "string \<Rightarrow> event \<Rightarrow> bool" where
  "node_event h ev \<longleftrightarrow> ssh_host ev = Some h \<or> ev = EvNow \<or> (\<exists>f. ev = EvKnownHosts f)"

definition conn_at :: "world \<Rightarrow> nat \<Rightarrow> string \<Rightarrow> int \<Rightarrow> bool" where
  "conn_at w p h port \<longleftrightarrow> p < length (w_conns w) \<and> sc_Host (w_conns w ! p) = h
     \<and> sc_Port (w_conns w ! p) = port \<and> sc_Client (w_conns w ! p) \<noteq> None"

text \<open>\<open>grew A l w\<close>: the log of \<open>w\<close> is \<open>l\<close> followed by events that satisfy \<open>A\<close>.\<close>

definition grew :: "(event \<Rightarrow> bool) \<Rightarrow> log \<Rightarrow> world \<Rightarrow> bool" where
  "grew A l w \<longleftrightarrow> (\<exists>es. w_log w = l @ es \<and> list_all A es)"

lemma grew_refl [simp]: "w_log w = l \<Longrightarrow> grew A l w"
  by (simp add: grew_def)

lemma grew_log_snoc [simp]: "A ev \<Longrightarrow> grew A l w \<Longrightarrow> grew A l (w\<lparr>w_log := w_log w @ [ev]\<rparr>)"
  by (auto simp: grew_def)

lemma grew_state [simp]:
  "grew A l (w\<lparr>w_pool := g\<rparr>) = grew A l w" "grew A l (w\<lparr>w_conns := c\<rparr>) = grew A l w"
  "grew A l (w\<lparr>w_dirs := d\<rparr>) = grew A l w"
  by (simp_all add: grew_def)

lemma node_event_simps [simp]:
  "node_event h EvNow" "node_event h (EvDial h port)" "node_event h (EvKeepalive h port)"
  "node_event h (EvSession h)" "node_event h (EvExec h c t)" "node_event h (EvCloseClient h port)"
  "node_event h (EvKnownHosts f)"
  by (simp_all add: node_event_def)

lemma conn_key_inj: "conn_key h p = conn_key h' p' \<longleftrightarrow> h = h' \<and> p = p'"
proof
  assume eq: "conn_key h p = conn_key h' p'"
  then have "rev (show_int p) @ CHR '':'' # rev h = rev (show_int p') @ CHR '':'' # rev h'"
    unfolding conn_key_def by (metis append.assoc append_Cons append_Nil rev.simps(2) rev_append rev_rev_ident)
  moreover have "CHR '':'' \<notin> set (rev (show_int p))" "CHR '':'' \<notin> set (rev (show_int p'))"
    by (simp_all add: colon_not_in_show_int)
  then have "takeWhile (\<lambda>c. c \<noteq> CHR '':'') (rev (show_int q) @ CHR '':'' # rev g) = rev (show_int q)
      \<and> dropWhile (\<lambda>c. c \<noteq> CHR '':'') (rev (show_int q) @ CHR '':'' # rev g) = CHR '':'' # rev g" for q g
    using colon_not_in_show_int [of q] by (auto simp: takeWhile_append dropWhile_append)
  ultimately have "rev (show_int p) = rev (show_int p')" and "rev h = rev h'"
    by (metis list.inject)+
  then show "h = h' \<and> p = p'" by (simp add: show_int_inj)
qed simp

lemma hoare_pooled:
  "hoare (\<lambda>w. pool_wf w \<and> w_log w = l) (pooled E m (conn_key h port))
     (\<lambda>r w. pool_wf w \<and> grew (node_event h) l w \<and> (\<forall>s. r \<noteq> Panic s) \<and> (\<forall>p. r = Ok (Some p) \<longrightarrow> conn_at w p h port))"
proof -
  have "pool_wf w \<Longrightarrow> map_of (w_pool w) (conn_key h port) = Some p \<Longrightarrow> conn_at w p h port" for w p
    by (auto simp: conn_ok_def conn_key_inj conn_at_def pool_wf_def dest!: pool_inv_lookup)
  then show ?thesis
    by (auto simp: hoare_def pooled_def act_simps state_defs deref_def time_Now_def Keepalive_def
        query_def touch_def conn_at_def grew_def pool_wf_def split: option.split)
qed

lemma hoare_dial_new:
  "hoare (\<lambda>w. pool_wf w \<and> grew (node_event h) l w) (dial_new E m h port creds)
     (\<lambda>r w. pool_wf w \<and> grew (node_event h) l w \<and> (\<forall>s. r \<noteq> Panic s) \<and> (\<forall>p. r = Ok p \<longrightarrow> conn_at w p h port))"
proof (rule hoareI)
  fix w r w' assume pre: "pool_wf w \<and> grew (node_event h) l w" and run: "dial_new E m h port creds w = (r, w')"
  have "pool_wf w'" using keeps_poolD [OF keeps_pool_dial_new _ run] pre by blast
  with pre run show "pool_wf w' \<and> grew (node_event h) l w' \<and> (\<forall>s. r \<noteq> Panic s) \<and> (\<forall>p. r = Ok p \<longrightarrow> conn_at w' p h port)"
    by (auto simp: dial_new_def act_simps state_defs query_def command_def time_Now_def when_act_def
        conn_at_def grew_def split: option.splits if_splits)
qed

lemma hoare_Connect:
  "hoare (\<lambda>w. pool_wf w \<and> w_log w = l) (Connect E m h port creds)
     (\<lambda>r w. pool_wf w \<and> grew (node_event h) l w \<and> (\<forall>s. r \<noteq> Panic s) \<and> (\<forall>p. r = Ok p \<longrightarrow> conn_at w p h port))"
  unfolding Connect_def
proof (rule hoare_check [OF hoare_pooled])
  fix x :: "nat option"
  show "hoare (\<lambda>w. pool_wf w \<and> grew (node_event h) l w \<and> (\<forall>s. Ok x \<noteq> Panic s) \<and> (\<forall>p. Ok x = Ok (Some p) \<longrightarrow> conn_at w p h port))
        (case x of None \<Rightarrow> dial_new E m h port creds | Some p \<Rightarrow> ret p)
        (\<lambda>r w. pool_wf w \<and> grew (node_event h) l w \<and> (\<forall>s. r \<noteq> Panic s) \<and> (\<forall>p. r = Ok p \<longrightarrow> conn_at w p h port))"
    by (cases x) (auto intro: hoare_ret hoare_conseq [OF hoare_dial_new])
qed auto

lemma hoare_Close:
  "hoare (\<lambda>w. pool_wf w \<and> grew (node_event h) l w \<and> conn_at w p h port) (Close (Some p))
     (\<lambda>r w. r = Ok () \<and> pool_wf w \<and> grew (node_event h) l w \<and> map_of (w_pool w) (conn_key h port) = None)"
  by (auto simp: hoare_def Close_def act_simps deref_def state_defs query_def conn_at_def pool_wf_def)

lemma conn_at_touch:
  "conn_at w q h port \<Longrightarrow>
   conn_at (w\<lparr>w_log := l, w_conns := (w_conns w)[p := (w_conns w ! p)\<lparr>sc_LastUsed := t\<rparr>]\<rparr>) q h port"
  by (cases "p < length (w_conns w)") (auto simp: conn_at_def nth_list_update)

text \<open>
  What a successful command leaves in the log: the command was executed on the host, and the
  host answered with the result that was returned.
\<close>

definition executed :: "env \<Rightarrow> string \<Rightarrow> string \<Rightarrow> duration option \<Rightarrow> CommandResult \<Rightarrow> log \<Rightarrow> log \<Rightarrow> bool" where
  "executed E h script ctx res l0 l1 \<longleftrightarrow> (\<exists>pre post creds.
     l1 = l0 @ pre @ EvExec h (script_command creds script) ctx # post
     \<and> s_run (ssh E) (l0 @ pre) h (script_command creds script) ctx
         = RunDone (cr_Stdout res) (cr_Stderr res) (cr_ExitCode res))"

lemma executed_append: "executed E h s c r l0 l1 \<Longrightarrow> executed E h s c r l0 (l1 @ l')"
  unfolding executed_def by (metis append.assoc append_Cons)

lemma executed_earlier:
  "executed E h s c r (l0 @ m) l1 \<Longrightarrow> executed E h s c r l0 l1"
  unfolding executed_def by (metis append.assoc)

lemma hoare_ExecuteScript:
  "hoare (\<lambda>w. pool_wf w \<and> grew (node_event h) l w \<and> conn_at w p h port) (ExecuteScript E p script ctx)
     (\<lambda>r w. pool_wf w \<and> grew (node_event h) l w \<and> conn_at w p h port
        \<and> (\<forall>x. r = Ok x \<longrightarrow> executed E h script ctx x l (w_log w)) \<and> (\<forall>s. r \<noteq> Panic s))"
proof (rule hoareI)
  fix w r w' assume pre: "pool_wf w \<and> grew (node_event h) l w \<and> conn_at w p h port"
    and run: "ExecuteScript E p script ctx w = (r, w')"
  have "pool_wf w'" using keeps_poolD [OF keeps_pool_ExecuteScript _ run] pre by blast
  moreover from pre run
  have "grew (node_event h) l w' \<and> conn_at w' p h port \<and> (\<forall>s. r \<noteq> Panic s)"
    by (auto simp: ExecuteScript_def ExecuteCommand_def act_simps deref_def conn_at_def query_def command_def
        time_Now_def touch_def state_defs grew_def split: option.splits run_outcome.splits)
  moreover from pre run
  have "executed E h script ctx x l (w_log w')" if "r = Ok x" for x
    using that
    by (auto simp: ExecuteScript_def ExecuteCommand_def act_simps deref_def conn_at_def query_def command_def
        time_Now_def touch_def state_defs executed_def grew_def split: option.splits run_outcome.splits)
       (metis append.assoc append_Cons append_Nil)+
  ultimately show "pool_wf w' \<and> grew (node_event h) l w' \<and> conn_at w' p h port
        \<and> (\<forall>x. r = Ok x \<longrightarrow> executed E h script ctx x l (w_log w')) \<and> (\<forall>s. r \<noteq> Panic s)"
    by blast
qed

section \<open>One session on a node\<close>

text \<open>
  The shape in which every upgrader runs a script: connect to the node, run the script, close
  the connection (deferred or right after the run), turn an execution error into \<open>ferr\<close> and a
  non-zero exit code into \<open>xerr\<close>.
\<close>

definition run_on_node ::
  "env \<Rightarrow> SSHManager \<Rightarrow> string \<Rightarrow> string \<Rightarrow> duration option \<Rightarrow> (error \<Rightarrow> error) \<Rightarrow> (CommandResult \<Rightarrow> error)
    \<Rightarrow> CommandResult cact" where
  "run_on_node E sm n script ctx ferr xerr =
     check (Connect E sm n 22 no_creds) (wrap (''failed to connect to node '' @ n @ '': '')) (\<lambda>p.
       deferring
         (check (ExecuteScript E p script ctx) ferr
            (\<lambda>r. if cr_ExitCode r \<noteq> 0 then fail (xerr r) else ret r))
         (Close (Some p)))"

definition closed_session :: "string \<Rightarrow> world \<Rightarrow> bool" where
  "closed_session n w \<longleftrightarrow> map_of (w_pool w) (conn_key n 22) = None
     \<and> (\<exists>es. w_log w = es @ [EvCloseClient n 22])"

lemma hoare_Close_session:
  "hoare (\<lambda>w. pool_wf w \<and> grew (node_event n) l w \<and> conn_at w p n 22 \<and> Q (w_log w)) (Close (Some p))
     (\<lambda>r w. r = Ok () \<and> pool_wf w \<and> grew (node_event n) l w \<and> closed_session n w
        \<and> (\<exists>l'. Q l' \<and> w_log w = l' @ [EvCloseClient n 22]))"
  by (auto simp: hoare_def Close_def act_simps deref_def state_defs query_def conn_at_def pool_wf_def
      closed_session_def)

lemma hoare_run_on_node:
  "hoare (\<lambda>w. pool_wf w \<and> w_log w = l) (run_on_node E sm n script ctx ferr xerr)
     (\<lambda>r w. pool_wf w \<and> grew (node_event n) l w \<and> (\<forall>s. r \<noteq> Panic s)
        \<and> (\<forall>x. r = Ok x \<longrightarrow> cr_ExitCode x = 0 \<and> executed E n script ctx x l (w_log w) \<and> closed_session n w))"
  unfolding run_on_node_def
proof (rule hoare_check [OF hoare_Connect])
  fix p
  let ?done = "\<lambda>r l'. \<forall>x. r = Ok x \<longrightarrow> cr_ExitCode x = 0 \<and> executed E n script ctx x l l'"
  let ?mid = "\<lambda>r w. pool_wf w \<and> grew (node_event n) l w \<and> conn_at w p n 22
      \<and> ((\<forall>s. r \<noteq> Panic s) \<and> ?done r (w_log w))"
  have body: "hoare (\<lambda>w. pool_wf w \<and> grew (node_event n) l w \<and> conn_at w p n 22)
      (check (ExecuteScript E p script ctx) ferr
         (\<lambda>r. if cr_ExitCode r \<noteq> 0 then fail (xerr r) else ret r)) ?mid"
    by (rule hoare_check [OF hoare_ExecuteScript]) (auto intro!: hoare_if hoare_fail hoare_ret)
  have close: "hoare (?mid r) (Close (Some p))
      (\<lambda>r' w. case r' of Panic s \<Rightarrow> False
         | _ \<Rightarrow> pool_wf w \<and> grew (node_event n) l w \<and> (\<forall>s. r \<noteq> Panic s)
             \<and> (\<forall>x. r = Ok x \<longrightarrow> cr_ExitCode x = 0 \<and> executed E n script ctx x l (w_log w) \<and> closed_session n w))" for r
    by (rule hoare_conseq [OF hoare_Close_session
          [where Q = "\<lambda>l'. (\<forall>s. r \<noteq> Panic s) \<and> ?done r l'"]]) (auto dest: executed_append)
  have "hoare (\<lambda>w. pool_wf w \<and> grew (node_event n) l w \<and> conn_at w p n 22)
      (deferring (check (ExecuteScript E p script ctx) ferr
         (\<lambda>r. if cr_ExitCode r \<noteq> 0 then fail (xerr r) else ret r)) (Close (Some p)))
      (\<lambda>r w. pool_wf w \<and> grew (node_event n) l w \<and> (\<forall>s. r \<noteq> Panic s)
        \<and> (\<forall>x. r = Ok x \<longrightarrow> cr_ExitCode x = 0 \<and> executed E n script ctx x l (w_log w) \<and> closed_session n w))"
    by (rule hoare_deferring [OF body]) (rule hoare_conseq [OF close], auto split: res.splits)
  then show "hoare (\<lambda>w. pool_wf w \<and> grew (node_event n) l w \<and> (\<forall>s. Ok p \<noteq> Panic s)
          \<and> (\<forall>q. Ok p = Ok q \<longrightarrow> conn_at w q n 22))
      (deferring (check (ExecuteScript E p script ctx) ferr
         (\<lambda>r. if cr_ExitCode r \<noteq> 0 then fail (xerr r) else ret r)) (Close (Some p)))
      (\<lambda>r w. pool_wf w \<and> grew (node_event n) l w \<and> (\<forall>s. r \<noteq> Panic s)
        \<and> (\<forall>x. r = Ok x \<longrightarrow> cr_ExitCode x = 0 \<and> executed E n script ctx x l (w_log w) \<and> closed_session n w))"
    by simp
qed auto

text \<open>
  A session that succeeds ran the script on that node and no other, with exit code 0,
  and ends with the connection closed and gone from the pool.
\<close>

theorem run_on_node_correct:
  assumes "pool_wf w" and "run_on_node E sm n script ctx ferr xerr w = (Ok x, w')"
  shows "cr_ExitCode x = 0 \<and> executed E n script ctx x (w_log w) (w_log w')
    \<and> grew (node_event n) (w_log w) w' \<and> closed_session n w' \<and> pool_wf w'"
  using hoareD [OF hoare_run_on_node, of w "w_log w"] assms by blast

lemma run_on_node_witness:
  "fst (run_on_node quiet_env (NewSSHManager 0) ''n1'' ''true'' None id (\<lambda>r. Errorf []) empty_world)
     = Ok \<lparr>cr_Stdout = [], cr_Stderr = [], cr_ExitCode = 0\<rparr>
   \<and> closed_session ''n1'' (snd (run_on_node quiet_env (NewSSHManager 0) ''n1'' ''true'' None id (\<lambda>r. Errorf []) empty_world))"
proof -
  let ?run = "run_on_node quiet_env (NewSSHManager 0) ''n1'' ''true'' None id (\<lambda>r. Errorf []) empty_world"
  have res: "fst ?run = Ok \<lparr>cr_Stdout = [], cr_Stderr = [], cr_ExitCode = 0\<rparr>"
    by (simp add: run_on_node_def Connect_def pooled_def dial_new_def Close_def ExecuteScript_def
        ExecuteCommand_def act_simps state_defs deref_def query_def command_def time_Now_def touch_def
        quiet_defs NewSSHManager_def)
  have "pool_wf empty_world" by (simp add: pool_wf_def pool_inv_def empty_world_def)
  from run_on_node_correct [OF this, of quiet_env "NewSSHManager 0" "''n1''" "''true''" None id "\<lambda>r. Errorf []"
      "\<lparr>cr_Stdout = [], cr_Stderr = [], cr_ExitCode = 0\<rparr>" "snd ?run"] res
  show ?thesis by (metis prod.collapse)
qed

section \<open>The same session on every node\<close>

definition ssh_only :: "event \<Rightarrow> bool" where
  "ssh_only ev \<longleftrightarrow> is_ssh ev \<or> ev = EvNow"

lemma ssh_only_simps [simp]:
  "ssh_only EvNow" "ssh_only (EvDial h port)" "ssh_only (EvKeepalive h port)" "ssh_only (EvSession h)"
  "ssh_only (EvExec h c t)" "ssh_only (EvCloseClient h port)" "ssh_only (EvKnownHosts f)"
  by (simp_all add: ssh_only_def)

lemma node_event_ssh_only: "node_event n ev \<Longrightarrow> ssh_only ev"
  by (cases ev) (auto simp: node_event_def ssh_only_def)

lemma grew_trans: "grew A l w \<Longrightarrow> grew A (w_log w) w' \<Longrightarrow> grew A l w'"
  unfolding grew_def by (metis append.assoc list_all_append)

lemma grew_mono: "grew A l w \<Longrightarrow> (\<And>ev. A ev \<Longrightarrow> B ev) \<Longrightarrow> grew B l w"
  unfolding grew_def by (metis list.pred_mono_strong)

text \<open>\<open>ran_ok E n script ctx l0 l1\<close>: between \<open>l0\<close> and \<open>l1\<close> the script ran on node \<open>n\<close> with exit code 0.\<close>

definition ran_ok :: "env \<Rightarrow> string \<Rightarrow> string \<Rightarrow> duration option \<Rightarrow> log \<Rightarrow> log \<Rightarrow> bool" where
  "ran_ok E n script ctx l0 l1 \<longleftrightarrow> (\<exists>x. cr_ExitCode x = 0 \<and> executed E n script ctx x l0 l1)"

lemma ran_ok_widen:
  assumes "ran_ok E n script ctx (l0 @ m) l1"
  shows "ran_ok E n script ctx l0 (l1 @ l2)"
  using assms executed_append executed_earlier unfolding ran_ok_def by blast

lemma ran_ok_append: "ran_ok E n script ctx l0 l1 \<Longrightarrow> ran_ok E n script ctx l0 (l1 @ l2)"
  using ran_ok_widen [of E n script ctx l0 "[]"] by simp

lemma ran_ok_grew: "ran_ok E n script ctx l0 l1 \<Longrightarrow> grew A l1 w \<Longrightarrow> ran_ok E n script ctx l0 (w_log w)"
  by (auto simp: grew_def ran_ok_append)

lemma ran_ok_earlier: "ran_ok E n script ctx l1 l2 \<Longrightarrow> grew A l0 w \<Longrightarrow> l1 = w_log w \<Longrightarrow> ran_ok E n script ctx l0 l2"
  using ran_ok_widen [of E n script ctx l0 _ l2 "[]"] by (auto simp: grew_def)

lemma run_on_node_runs:
  assumes "pool_wf w" and "run_on_node E sm n script ctx ferr xerr w = (r, w')"
  shows "pool_wf w' \<and> grew (node_event n) (w_log w) w' \<and> (\<forall>s. r \<noteq> Panic s)
    \<and> (\<forall>x. r = Ok x \<longrightarrow> ran_ok E n script ctx (w_log w) (w_log w') \<and> closed_session n w')"
  using hoareD [OF hoare_run_on_node [of "w_log w"], of w] assms unfolding ran_ok_def by blast

definition on_all_nodes ::
  "env \<Rightarrow> SSHManager \<Rightarrow> node list \<Rightarrow> string \<Rightarrow> duration option \<Rightarrow> (node \<Rightarrow> error \<Rightarrow> error)
    \<Rightarrow> (node \<Rightarrow> CommandResult \<Rightarrow> error) \<Rightarrow> unit cact" where
  "on_all_nodes E sm nodes script ctx ferr xerr =
     for_each nodes (\<lambda>n. andthen (run_on_node E sm (node_Name n) script ctx (ferr n) (xerr n)) (\<lambda>_. ret ()))"

lemma on_all_nodes_runs:
  assumes "pool_wf w" and "on_all_nodes E sm nodes script ctx ferr xerr w = (r, w')"
  shows "pool_wf w' \<and> grew ssh_only (w_log w) w' \<and> (\<forall>s. r \<noteq> Panic s)
    \<and> (r = Ok () \<longrightarrow> (\<forall>n\<in>set nodes. ran_ok E (node_Name n) script ctx (w_log w) (w_log w')))"
  using assms
proof (induction nodes arbitrary: w)
  case Nil
  then show ?case by (auto simp: on_all_nodes_def act_simps)
next
  case (Cons n ns)
  obtain r1 w1 where run: "run_on_node E sm (node_Name n) script ctx (ferr n) (xerr n) w = (r1, w1)"
    by fastforce
  note first = run_on_node_runs [OF Cons.prems(1) run]
  then have g1: "grew ssh_only (w_log w) w1" by (blast intro: grew_mono node_event_ssh_only)
  show ?case
  proof (cases r1)
    case (Ok x)
    with run Cons.prems(2) have rest: "on_all_nodes E sm ns script ctx ferr xerr w1 = (r, w')"
      by (simp add: on_all_nodes_def act_simps)
    with Cons.IH [of w1] first have IH: "pool_wf w'" "grew ssh_only (w_log w1) w'" "\<forall>s. r \<noteq> Panic s"
      "r = Ok () \<longrightarrow> (\<forall>n\<in>set ns. ran_ok E (node_Name n) script ctx (w_log w1) (w_log w'))"
      by auto
    from first Ok IH(2) have "ran_ok E (node_Name n) script ctx (w_log w) (w_log w')"
      by (blast intro: ran_ok_grew)
    with IH g1 show ?thesis by (auto intro: grew_trans ran_ok_earlier)
  qed (use run Cons.prems(2) first g1 in \<open>auto simp: on_all_nodes_def act_simps\<close>)
qed

text \<open>
  \<open>Connect\<close> leaks the stale connection it replaces: when the pooled connection has been
  idle for the idle timeout or longer and the new dial succeeds, the pool entry is overwritten
  and no client is closed.
\<close>

theorem Connect_leaks_stale:
  assumes "pool_wf w" and "map_of (w_pool w) (conn_key h port) = Some p"
    and "sm_knownHostsFile m = []"
    and "h_now (host E) (w_log w) - sc_LastUsed (w_conns w ! p) \<ge> sm_idleTimeout m"
    and "s_dial (ssh E) (w_log w @ [EvNow]) h port = None"
  shows "\<exists>q w'. Connect E m h port creds w = (Ok q, w') \<and> q \<noteq> p
    \<and> map_of (w_pool w') (conn_key h port) = Some q
    \<and> w_log w' = w_log w @ [EvNow, EvDial h port, EvNow]"
proof -
  from assms(1,2) have "p < length (w_conns w)"
    by (auto simp: pool_wf_def conn_ok_def dest!: pool_inv_lookup)
  with assms(2-5) show ?thesis
    by (simp add: Connect_def pooled_def dial_new_def act_simps state_defs deref_def query_def
        command_def time_Now_def map_of_upd_key)
qed

lemma Connect_leaks_stale_witness:
  "\<exists>q w'. Connect quiet_env (NewSSHManager 5) ''n1'' 22 no_creds
      (empty_world\<lparr>w_conns := [\<lparr>sc_Client = Some 0, sc_Host = ''n1'', sc_Port = 22, sc_LastUsed = -10, sc_Credentials = None\<rparr>],
                   w_pool := [(conn_key ''n1'' 22, 0)]\<rparr>) = (Ok q, w') \<and> q \<noteq> 0"
proof -
  let ?w = "empty_world\<lparr>w_conns := [\<lparr>sc_Client = Some 0, sc_Host = ''n1'', sc_Port = 22, sc_LastUsed = -10, sc_Credentials = None\<rparr>],
                   w_pool := [(conn_key ''n1'' 22, 0)]\<rparr>"
  have "pool_wf ?w" by (simp add: pool_wf_def pool_inv_def conn_ok_def)
  from Connect_leaks_stale [OF this, of "''n1''" 22 0 "NewSSHManager 5" quiet_env no_creds]
  show ?thesis by (auto simp: NewSSHManager_def quiet_defs)
qed

end
