(* ===== verification/Preflight.thy ===== *)
theory Preflight
  imports Ssh_Manager
begin

text \<open>
  The pre-flight checks of a host, \<open>modules/cvo/pkg/ssh/preflight.go\<close> (the copies under
  \<open>modules/cvo/internal/ssh\<close> and \<open>modules/capbm/internal/ssh\<close> are the same text). The check
  functions update the result through a pointer: here they return the updated result.
  \<open>atoi_err\<close> is the message of the error that \<open>strconv.Atoi\<close> gives for a string.
\<close>

section \<open>Numbers and fields\<close>

text \<open>\<open>strconv.Atoi\<close>: an optional sign, at least one digit, the value within 64 bits.\<close>

definition Atoi_digits :: "bool \<Rightarrow> string \<Rightarrow> int option" where
  "Atoi_digits neg ds =
     (if ds = [] \<or> \<not> list_all is_digit ds then None
      else (let v = (if neg then - int (read_digits ds) else int (read_digits ds))
            in if - (2 ^ 63) \<le> v \<and> v < 2 ^ 63 then Some v else None))"

fun Atoi :: "string \<Rightarrow> int option" where
  "Atoi [] = None"
| "Atoi (c # cs) =
     (if c = CHR ''-'' then Atoi_digits True cs
      else if c = CHR ''+'' then Atoi_digits False cs
      else Atoi_digits False (c # cs))"

definition part_num :: "string \<Rightarrow> int" where
  "part_num s = (case Atoi s of Some n \<Rightarrow> n | None \<Rightarrow> 0)"

fun version_loop :: "string list \<Rightarrow> string list \<Rightarrow> bool" where
  "version_loop vs [] = True"
| "version_loop [] (r # rs) = False"
| "version_loop (v # vs) (r # rs) =
     (if part_num v > part_num r then True
      else if part_num v < part_num r then False
      else version_loop vs rs)"

definition versionGreaterOrEqual :: "string \<Rightarrow> string \<Rightarrow> bool" where
  "versionGreaterOrEqual version required =
     version_loop (split_on CHR ''.'' version) (split_on CHR ''.'' required)"

fun extract_loop :: "string list \<Rightarrow> string \<Rightarrow> string" where
  "extract_loop [] field = []"
| "extract_loop (line # lines) field =
     (if HasPrefix line (field @ ''='')
      then trim_by (\<lambda>c. c = CHR 0x22 \<or> c = CHR 0x27) (TrimPrefix line (field @ ''=''))
      else extract_loop lines field)"

definition extractOSField :: "string \<Rightarrow> string \<Rightarrow> string" where
  "extractOSField content field = extract_loop (split_on CHR 0x0A content) field"

section \<open>The checks\<close>

record PreflightConfig =
  pc_MinDiskGB :: int
  pc_MinMemoryGB :: int
  pc_KernelVersion :: string
  pc_OSVersions :: "string list"

definition DefaultPreflightConfig :: PreflightConfig where
  "DefaultPreflightConfig = \<lparr>pc_MinDiskGB = 20, pc_MinMemoryGB = 2, pc_KernelVersion = ''3.10'',
     pc_OSVersions = [''centos'', ''rhel'', ''almalinux'', ''rocky'', ''ubuntu'', ''debian'']\<rparr>"

record PreflightResult =
  pr_OSVersion :: string
  pr_KernelVersion :: string
  pr_DiskAvailableGB :: int
  pr_MemoryTotalGB :: int
  pr_SwapEnabled :: bool
  pr_NetworkReachable :: bool
  pr_Passed :: bool
  pr_Errors :: "string list"
  pr_Warnings :: "string list"

definition zero_PreflightResult :: PreflightResult where
  "zero_PreflightResult = \<lparr>pr_OSVersion = [], pr_KernelVersion = [], pr_DiskAvailableGB = 0,
     pr_MemoryTotalGB = 0, pr_SwapEnabled = False, pr_NetworkReachable = False, pr_Passed = False,
     pr_Errors = [], pr_Warnings = []\<rparr>"

definition add_error :: "string \<Rightarrow> PreflightResult \<Rightarrow> PreflightResult" where
  "add_error e r = r\<lparr>pr_Errors := pr_Errors r @ [e]\<rparr>"

definition add_warning :: "string \<Rightarrow> PreflightResult \<Rightarrow> PreflightResult" where
  "add_warning e r = r\<lparr>pr_Warnings := pr_Warnings r @ [e]\<rparr>"

definition os_cmd :: string where
  "os_cmd = ''cat /etc/os-release 2>/dev/null || echo '' @ single_quoted ''NO_OS_RELEASE''"

definition checkOS :: "env \<Rightarrow> nat \<Rightarrow> PreflightConfig \<Rightarrow> PreflightResult \<Rightarrow> PreflightResult cact" where
  "checkOS E p config result =
     attempt (ExecuteCommand E p os_cmd None) (\<lambda>r. case r of
       Inl e \<Rightarrow> ret (add_error (''failed to detect OS: '' @ error_string e) result)
     | Inr c \<Rightarrow>
         if contains (cr_Stdout c) ''NO_OS_RELEASE''
         then ret (add_error ''cannot detect OS: /etc/os-release not found'' result)
         else
           (let osID = extractOSField (cr_Stdout c) ''ID'';
                osVersion = extractOSField (cr_Stdout c) ''VERSION_ID'';
                result' = result\<lparr>pr_OSVersion := osID @ '':'' @ osVersion\<rparr>
            in if osID \<in> set (pc_OSVersions config) then ret result'
               else ret (add_error (''unsupported OS: '' @ osID) result')))"

definition checkKernel :: "env \<Rightarrow> nat \<Rightarrow> PreflightConfig \<Rightarrow> PreflightResult \<Rightarrow> PreflightResult cact" where
  "checkKernel E p config result =
     attempt (ExecuteCommand E p ''uname -r'' None) (\<lambda>r. case r of
       Inl e \<Rightarrow> ret (add_error (''failed to get kernel version: '' @ error_string e) result)
     | Inr c \<Rightarrow>
         (let kernelMajor = hd (split_on CHR ''-'' (TrimSpace (cr_Stdout c)));
              result' = result\<lparr>pr_KernelVersion := kernelMajor\<rparr>
          in if versionGreaterOrEqual kernelMajor (pc_KernelVersion config) then ret result'
             else ret (add_error (''kernel version '' @ kernelMajor @ '' is too old, need >= ''
                        @ pc_KernelVersion config) result')))"

definition disk_cmd :: string where
  "disk_cmd = ''df -BG / | awk '' @ single_quoted ''NR==2 {print $4}'' @ '' | tr -d '' @ single_quoted ''G''"

definition checkDisk ::
  "env \<Rightarrow> (string \<Rightarrow> string) \<Rightarrow> nat \<Rightarrow> PreflightConfig \<Rightarrow> PreflightResult \<Rightarrow> PreflightResult cact" where
  "checkDisk E atoi_err p config result =
     attempt (ExecuteCommand E p disk_cmd None) (\<lambda>r. case r of
       Inl e \<Rightarrow> ret (add_error (''failed to check disk space: '' @ error_string e) result)
     | Inr c \<Rightarrow>
         (case Atoi (TrimSpace (cr_Stdout c)) of
            None \<Rightarrow> ret (add_error (''failed to parse disk space: '' @ atoi_err (TrimSpace (cr_Stdout c))) result)
          | Some availableGB \<Rightarrow>
              (let result' = result\<lparr>pr_DiskAvailableGB := availableGB\<rparr>
               in if availableGB < pc_MinDiskGB config
                  then ret (add_error (''insufficient disk space: '' @ show_int availableGB
                         @ ''GB available, need '' @ show_int (pc_MinDiskGB config) @ ''GB'') result')
                  else ret result')))"

definition mem_cmd :: string where
  "mem_cmd = ''free -g | awk '' @ single_quoted ''/^Mem:/{print $2}''"

definition checkMemory ::
  "env \<Rightarrow> (string \<Rightarrow> string) \<Rightarrow> nat \<Rightarrow> PreflightConfig \<Rightarrow> PreflightResult \<Rightarrow> PreflightResult cact" where
  "checkMemory E atoi_err p config result =
     attempt (ExecuteCommand E p mem_cmd None) (\<lambda>r. case r of
       Inl e \<Rightarrow> ret (add_error (''failed to check memory: '' @ error_string e) result)
     | Inr c \<Rightarrow>
         (case Atoi (TrimSpace (cr_Stdout c)) of
            None \<Rightarrow> ret (add_error (''failed to parse memory: '' @ atoi_err (TrimSpace (cr_Stdout c))) result)
          | Some totalGB \<Rightarrow>
              (let result' = result\<lparr>pr_MemoryTotalGB := totalGB\<rparr>
               in if totalGB < pc_MinMemoryGB config
                  then ret (add_error (''insufficient memory: '' @ show_int totalGB
                         @ ''GB, need '' @ show_int (pc_MinMemoryGB config) @ ''GB'') result')
                  else ret result')))"

definition net_cmd :: string where
  "net_cmd = ''ping -c 1 -W 2 8.8.8.8 &>/dev/null && echo '' @ single_quoted ''reachable''
     @ '' || echo '' @ single_quoted ''unreachable''"

definition checkNetwork :: "env \<Rightarrow> nat \<Rightarrow> PreflightResult \<Rightarrow> PreflightResult cact" where
  "checkNetwork E p result =
     attempt (ExecuteCommand E p net_cmd None) (\<lambda>r. case r of
       Inl e \<Rightarrow> ret (add_warning ''failed to check network connectivity'' result)
     | Inr c \<Rightarrow>
         (let result' = result\<lparr>pr_NetworkReachable := contains (cr_Stdout c) ''reachable''\<rparr>
          in if pr_NetworkReachable result' then ret result'
             else ret (add_warning ''cannot reach external network'' result')))"

definition swap_cmd :: string where
  "swap_cmd = ''swapon --show | grep -q . && echo '' @ single_quoted ''enabled''
     @ '' || echo '' @ single_quoted ''disabled''"

definition checkSwap :: "env \<Rightarrow> nat \<Rightarrow> PreflightResult \<Rightarrow> PreflightResult cact" where
  "checkSwap E p result =
     attempt (ExecuteCommand E p swap_cmd None) (\<lambda>r. case r of
       Inl e \<Rightarrow> ret (add_warning ''failed to check swap status'' result)
     | Inr c \<Rightarrow>
         (let result' = result\<lparr>pr_SwapEnabled := contains (cr_Stdout c) ''enabled''\<rparr>
          in if pr_SwapEnabled result'
             then ret (add_warning ''swap is enabled, should be disabled for Kubernetes'' result')
             else ret result'))"

definition RunPreflightChecks ::
  "env \<Rightarrow> (string \<Rightarrow> string) \<Rightarrow> nat \<Rightarrow> PreflightConfig \<Rightarrow> PreflightResult cact" where
  "RunPreflightChecks E atoi_err p config =
     andthen (checkOS E p config (zero_PreflightResult\<lparr>pr_Passed := True\<rparr>)) (\<lambda>r1.
     andthen (checkKernel E p config r1) (\<lambda>r2.
     andthen (checkDisk E atoi_err p config r2) (\<lambda>r3.
     andthen (checkMemory E atoi_err p config r3) (\<lambda>r4.
     andthen (checkNetwork E p r4) (\<lambda>r5.
     andthen (checkSwap E p r5) (\<lambda>r6.
       ret (if length (pr_Errors r6) > 0 then r6\<lparr>pr_Passed := False\<rparr> else r6)))))))"

section \<open>Version comparison\<close>

lemma version_loop_iff:
  "version_loop vs rs \<longleftrightarrow>
     (\<exists>i<length rs. i < length vs \<and> (\<forall>j<i. part_num (vs ! j) = part_num (rs ! j)) \<and> part_num (vs ! i) > part_num (rs ! i))
     \<or> (length rs \<le> length vs \<and> (\<forall>j<length rs. part_num (vs ! j) = part_num (rs ! j)))"
proof (induction vs rs rule: version_loop.induct)
  case (3 v vs r rs)
  have split: "(\<exists>i<Suc n. P i) \<longleftrightarrow> P 0 \<or> (\<exists>i<n. P (Suc i))" "(\<forall>j<Suc n. P j) \<longleftrightarrow> P 0 \<and> (\<forall>j<n. P (Suc j))" for n and P :: "nat \<Rightarrow> bool"
    by (auto simp: less_Suc_eq_0_disj)
  show ?case
    using 3 by (cases "part_num v = part_num r") (auto simp: split)
qed auto

text \<open>
  \<open>versionGreaterOrEqual\<close> is the lexicographic comparison of the numeric parts: true
  exactly when some part of the version exceeds the required one and all parts before it are
  equal, or when every required part is present and equal. A missing part counts as smaller.
\<close>

theorem versionGreaterOrEqual_spec:
  fixes version required :: string
  defines "vs \<equiv> split_on CHR ''.'' version" and "rs \<equiv> split_on CHR ''.'' required"
  shows "versionGreaterOrEqual version required \<longleftrightarrow>
     (\<exists>i<length rs. i < length vs \<and> (\<forall>j<i. part_num (vs ! j) = part_num (rs ! j)) \<and> part_num (vs ! i) > part_num (rs ! i))
     \<or> (length rs \<le> length vs \<and> (\<forall>j<length rs. part_num (vs ! j) = part_num (rs ! j)))"
  unfolding versionGreaterOrEqual_def vs_def rs_def by (rule version_loop_iff)

lemma version_loop_refl: "version_loop vs vs"
  by (induction vs) auto

lemma version_loop_trans: "version_loop a b \<Longrightarrow> version_loop b c \<Longrightarrow> version_loop a c"
proof (induction a c arbitrary: b rule: version_loop.induct)
  case (2 r rs)
  then show ?case by (cases b) auto
next
  case (3 v vs r rs)
  then show ?case by (cases b) (auto split: if_splits)
qed simp

section \<open>What a passed check means\<close>

text \<open>Each check either adds an error or establishes its condition, and touches no other field.\<close>

definition os_ok :: "PreflightConfig \<Rightarrow> PreflightResult \<Rightarrow> bool" where
  "os_ok cfg r \<longleftrightarrow> (\<exists>os\<in>set (pc_OSVersions cfg). prefix (os @ '':'') (pr_OSVersion r))"

definition checks_extend :: "(PreflightResult \<Rightarrow> bool) \<Rightarrow> (PreflightResult \<Rightarrow> PreflightResult cact) \<Rightarrow> bool" where
  "checks_extend good m \<longleftrightarrow> (\<forall>r0 w r w'. m r0 w = (r, w') \<longrightarrow>
     (\<forall>e. r \<noteq> Err e) \<and> (\<forall>r1. r = Ok r1 \<longrightarrow> pr_Passed r1 = pr_Passed r0
        \<and> (pr_Errors r1 = pr_Errors r0 \<and> good r1 \<or> length (pr_Errors r1) > length (pr_Errors r0))))"

lemmas check_defs = checkOS_def checkKernel_def checkDisk_def checkMemory_def checkNetwork_def checkSwap_def
  add_error_def add_warning_def

lemma run_cases:
  "attempt m k w = (r, w') \<Longrightarrow> (\<And>x w1. m w = (Ok x, w1) \<Longrightarrow> k (Inr x) w1 = (r, w') \<Longrightarrow> P) \<Longrightarrow>
   (\<And>e w1. m w = (Err e, w1) \<Longrightarrow> k (Inl e) w1 = (r, w') \<Longrightarrow> P) \<Longrightarrow>
   (\<And>s w1. m w = (Panic s, w1) \<Longrightarrow> r = Panic s \<Longrightarrow> P) \<Longrightarrow> P"
  by (auto simp: attempt_apply split: prod.splits res.splits)

lemma checks_laws:
  "checks_extend (os_ok cfg) (checkOS E p cfg)"
  "checks_extend (\<lambda>r. versionGreaterOrEqual (pr_KernelVersion r) (pc_KernelVersion cfg)) (checkKernel E p cfg)"
  "checks_extend (\<lambda>r. pc_MinDiskGB cfg \<le> pr_DiskAvailableGB r) (checkDisk E ae p cfg)"
  "checks_extend (\<lambda>r. pc_MinMemoryGB cfg \<le> pr_MemoryTotalGB r) (checkMemory E ae p cfg)"
  "checks_extend (\<lambda>r. True) (checkNetwork E p)"
  "checks_extend (\<lambda>r. True) (checkSwap E p)"
  unfolding checks_extend_def check_defs
  by (fastforce elim!: run_cases simp: ret_apply Let_def os_ok_def prefix_def split: if_splits option.splits)+

text \<open>The frame: a check keeps the field that another check has established.\<close>

lemma checks_frame:
  "checkKernel E p cfg r0 w = (Ok r1, w') \<Longrightarrow> pr_OSVersion r1 = pr_OSVersion r0"
  "checkDisk E ae p cfg r0 w = (Ok r1, w') \<Longrightarrow> pr_OSVersion r1 = pr_OSVersion r0 \<and> pr_KernelVersion r1 = pr_KernelVersion r0"
  "checkMemory E ae p cfg r0 w = (Ok r1, w') \<Longrightarrow> pr_OSVersion r1 = pr_OSVersion r0
     \<and> pr_KernelVersion r1 = pr_KernelVersion r0 \<and> pr_DiskAvailableGB r1 = pr_DiskAvailableGB r0"
  "checkNetwork E p r0 w = (Ok r1, w') \<Longrightarrow> pr_OSVersion r1 = pr_OSVersion r0 \<and> pr_KernelVersion r1 = pr_KernelVersion r0
     \<and> pr_DiskAvailableGB r1 = pr_DiskAvailableGB r0 \<and> pr_MemoryTotalGB r1 = pr_MemoryTotalGB r0"
  "checkSwap E p r0 w = (Ok r1, w') \<Longrightarrow> pr_OSVersion r1 = pr_OSVersion r0 \<and> pr_KernelVersion r1 = pr_KernelVersion r0
     \<and> pr_DiskAvailableGB r1 = pr_DiskAvailableGB r0 \<and> pr_MemoryTotalGB r1 = pr_MemoryTotalGB r0"
  unfolding check_defs by (auto elim!: run_cases simp: ret_apply Let_def split: if_splits option.splits)

lemma andthen_OkE:
  assumes "andthen m k w = (Ok y, w')"
  obtains x w1 where "m w = (Ok x, w1)" and "k x w1 = (Ok y, w')"
  using assms by (auto simp: check_apply split: prod.splits res.splits)

lemma checks_extendD:
  "checks_extend good m \<Longrightarrow> m r0 w = (Ok r1, w') \<Longrightarrow> pr_Passed r1 = pr_Passed r0
     \<and> (pr_Errors r1 = pr_Errors r0 \<and> good r1 \<or> length (pr_Errors r1) > length (pr_Errors r0))"
  unfolding checks_extend_def by blast

text \<open>
  A host that passes the pre-flight checks satisfies all of them: its OS is one of the
  supported ones, its kernel is new enough, disk and memory reach the configured minimum, and
  no error was recorded. Conversely a result without errors is passed.
\<close>

theorem preflight_sound:
  assumes "RunPreflightChecks E ae p cfg w = (Ok r, w')"
  shows "(pr_Passed r \<longleftrightarrow> pr_Errors r = [])
    \<and> (pr_Passed r \<longrightarrow> os_ok cfg r \<and> versionGreaterOrEqual (pr_KernelVersion r) (pc_KernelVersion cfg)
         \<and> pc_MinDiskGB cfg \<le> pr_DiskAvailableGB r \<and> pc_MinMemoryGB cfg \<le> pr_MemoryTotalGB r)"
proof -
  from assms obtain r1 w1 r2 w2 r3 w3 r4 w4 r5 w5 r6 where
    run: "checkOS E p cfg (zero_PreflightResult\<lparr>pr_Passed := True\<rparr>) w = (Ok r1, w1)"
      "checkKernel E p cfg r1 w1 = (Ok r2, w2)" "checkDisk E ae p cfg r2 w2 = (Ok r3, w3)"
      "checkMemory E ae p cfg r3 w3 = (Ok r4, w4)" "checkNetwork E p r4 w4 = (Ok r5, w5)"
      "checkSwap E p r5 w5 = (Ok r6, w')"
    and r: "r = (if length (pr_Errors r6) > 0 then r6\<lparr>pr_Passed := False\<rparr> else r6)"
    unfolding RunPreflightChecks_def by (elim andthen_OkE) (auto simp: ret_apply)
  note laws = checks_extendD [OF checks_laws(1) run(1)] checks_extendD [OF checks_laws(2) run(2)]
    checks_extendD [OF checks_laws(3) run(3)] checks_extendD [OF checks_laws(4) run(4)]
    checks_extendD [OF checks_laws(5) run(5)] checks_extendD [OF checks_laws(6) run(6)]
  have passed: "pr_Passed r6" using laws by (simp add: zero_PreflightResult_def)
  have good: "os_ok cfg r6 \<and> versionGreaterOrEqual (pr_KernelVersion r6) (pc_KernelVersion cfg)
         \<and> pc_MinDiskGB cfg \<le> pr_DiskAvailableGB r6 \<and> pc_MinMemoryGB cfg \<le> pr_MemoryTotalGB r6" if "pr_Errors r6 = []"
    using laws that checks_frame(1) [OF run(2)] checks_frame(2) [OF run(3)] checks_frame(3) [OF run(4)]
      checks_frame(4) [OF run(5)] checks_frame(5) [OF run(6)]
    by (auto simp: os_ok_def)
  show ?thesis using r passed good by (auto split: if_splits)
qed

text \<open>
  The network check cannot detect an unreachable network: the word \<open>unreachable\<close> that
  the probe prints in that case contains the word \<open>reachable\<close> that the check looks for, so the
  host is recorded as reachable and no warning is given.
\<close>

theorem checkNetwork_never_unreachable:
  assumes "ExecuteCommand E p net_cmd None w = (Ok c, w')" and "contains (cr_Stdout c) ''unreachable''"
  shows "checkNetwork E p r0 w = (Ok (r0\<lparr>pr_NetworkReachable := True\<rparr>), w')"
proof -
  from assms(2) obtain a b where "cr_Stdout c = a @ ''unreachable'' @ b" by (auto simp: contains_iff)
  then have "cr_Stdout c = (a @ ''un'') @ ''reachable'' @ b" by simp
  then have "contains (cr_Stdout c) ''reachable''" unfolding contains_iff by blast
  with assms(1) show ?thesis by (simp add: checkNetwork_def act_simps Let_def)
qed

section \<open>A concrete host\<close>

definition ex_out :: "string \<Rightarrow> string" where
  "ex_out c = (if c = os_cmd then ''ID=ubuntu'' else if c = disk_cmd then ''40''
      else if c = mem_cmd then ''8'' else if c = net_cmd then ''unreachable'' else ''5.15'')"

definition ex_host_env :: env where
  "ex_host_env = quiet_env\<lparr>ssh := quiet_ssh\<lparr>s_run := (\<lambda>l h c t. RunDone (ex_out c) [] 0)\<rparr>\<rparr>"

definition ex_host_world :: "log \<Rightarrow> world" where
  "ex_host_world l = empty_world\<lparr>w_log := l, w_conns := [\<lparr>sc_Client = Some 0, sc_Host = ''n1'',
     sc_Port = 22, sc_LastUsed = 0, sc_Credentials = None\<rparr>]\<rparr>"

lemma ex_execute:
  "ExecuteCommand ex_host_env 0 cmd None (ex_host_world l)
     = (Ok \<lparr>cr_Stdout = ex_out cmd, cr_Stderr = [], cr_ExitCode = 0\<rparr>,
        ex_host_world (l @ [EvSession ''n1'', EvExec ''n1'' cmd None, EvNow]))"
  by (simp add: ExecuteCommand_def act_simps state_defs deref_def query_def command_def time_Now_def
      touch_def ex_host_env_def ex_host_world_def quiet_defs)

lemma ex_cmds:
  "os_cmd \<noteq> disk_cmd" "os_cmd \<noteq> mem_cmd" "os_cmd \<noteq> net_cmd" "os_cmd \<noteq> swap_cmd" "disk_cmd \<noteq> mem_cmd"
  "disk_cmd \<noteq> net_cmd" "disk_cmd \<noteq> swap_cmd" "mem_cmd \<noteq> net_cmd" "mem_cmd \<noteq> swap_cmd" "net_cmd \<noteq> swap_cmd"
  "os_cmd \<noteq> ''uname -r''" "disk_cmd \<noteq> ''uname -r''" "mem_cmd \<noteq> ''uname -r''" "net_cmd \<noteq> ''uname -r''"
  by (simp_all add: os_cmd_def disk_cmd_def mem_cmd_def net_cmd_def swap_cmd_def)

lemma ex_outs:
  "ex_out os_cmd = ''ID=ubuntu''" "ex_out disk_cmd = ''40''" "ex_out mem_cmd = ''8''"
  "ex_out net_cmd = ''unreachable''" "ex_out swap_cmd = ''5.15''" "ex_out ''uname -r'' = ''5.15''"
  using ex_cmds by (simp_all add: ex_out_def)

lemma checkNetwork_witness:
  "\<exists>w'. checkNetwork ex_host_env 0 zero_PreflightResult (ex_host_world [])
     = (Ok (zero_PreflightResult\<lparr>pr_NetworkReachable := True\<rparr>), w')"
proof -
  have "contains ''unreachable'' ''unreachable''" using contains_self [of "[]" "''unreachable''"] by simp
  then show ?thesis
    using checkNetwork_never_unreachable [OF ex_execute, of zero_PreflightResult "[]"] by (simp add: ex_outs)
qed

lemma ex_contains:
  "contains ''5.15'' ''enabled'' = False" "contains ''unreachable'' ''reachable'' = True"
  "contains ''ID=ubuntu'' ''NO_OS_RELEASE'' = False"
  by (simp_all add: contains_def)

lemma ex_fields:
  "extractOSField ''ID=ubuntu'' ''ID'' = ''ubuntu''" "extractOSField ''ID=ubuntu'' ''VERSION_ID'' = []"
  by (simp_all add: extractOSField_def HasPrefix_def TrimPrefix_def trim_by_def)

lemma ex_numbers:
  "Atoi (TrimSpace ''40'') = Some 40" "Atoi (TrimSpace ''8'') = Some 8"
  "hd (split_on CHR ''-'' (TrimSpace ''5.15'')) = ''5.15''" "versionGreaterOrEqual ''5.15'' ''3.10''"
  by (simp_all add: Atoi_digits_def TrimSpace_def trim_by_def is_space_def is_digit_def read_digits_def
      versionGreaterOrEqual_def part_num_def)

lemma preflight_witness:
  "\<exists>r w'. RunPreflightChecks ex_host_env id 0 DefaultPreflightConfig (ex_host_world []) = (Ok r, w')
     \<and> pr_Passed r \<and> pr_MemoryTotalGB r = 8 \<and> pr_Errors r = []"
proof -
  obtain r w' where run: "RunPreflightChecks ex_host_env id 0 DefaultPreflightConfig (ex_host_world []) = (Ok r, w')"
    and mem: "pr_MemoryTotalGB r = 8 \<and> pr_Errors r = []"
    by (simp add: RunPreflightChecks_def check_defs act_simps ex_execute ex_outs ex_contains ex_fields ex_numbers
        zero_PreflightResult_def DefaultPreflightConfig_def)
  from preflight_sound [OF run] run mem show ?thesis by blast
qed

theorem versionGreaterOrEqual_witness: "versionGreaterOrEqual ''5.10.0'' ''5.4''"
  by (subst versionGreaterOrEqual_spec, rule disjI1, rule exI [of _ 1])
     (simp add: part_num_def Atoi_digits_def is_digit_def read_digits_def)

end
