(* ===== verification/Retry.thy ===== *)
theory Retry
  imports Cluster_Env
begin

text \<open>
  The retry helpers, \<open>modules/cvo/internal/upgrader/retry/retry.go\<close>. The retried function is an
  action; the context is \<open>ended\<close>, which tells after a history whether the context has ended
  (with which error) before the timer of the wait fires. The product
  \<open>time.Duration(float64(backoff) * Factor)\<close> is the function \<open>bo_Scale\<close>; for the factor 2.0
  of the default configuration it is exact doubling, since the durations that occur are far
  below \<open>2^53\<close> nanoseconds.
\<close>

section \<open>Definitions\<close>

record BackoffConfig =
  bo_Initial :: duration
  bo_Max :: duration
  bo_Scale :: "duration \<Rightarrow> duration"

record Config =
  rt_MaxRetries :: int
  rt_Backoff :: BackoffConfig
  rt_RetryableErrors :: "string list"

definition DefaultConfig :: Config where
  "DefaultConfig = \<lparr>rt_MaxRetries = 3,
     rt_Backoff = \<lparr>bo_Initial = 10 * second, bo_Max = 5 * minute, bo_Scale = (\<lambda>b. b * 2)\<rparr>,
     rt_RetryableErrors = [''connection refused'', ''timeout'', ''etcd server not ready'', ''i/o timeout'', ''no such host'']\<rparr>"

definition IsRetryableError :: "error option \<Rightarrow> string list \<Rightarrow> bool" where
  "IsRetryableError err retryableErrors = (case err of
      None \<Rightarrow> False
    | Some e \<Rightarrow> list_ex (\<lambda>pattern. contains (ToLower (error_string e)) (ToLower pattern)) retryableErrors)"

type_synonym ctx = "log \<Rightarrow> error option"

definition wait_or_done :: "ctx \<Rightarrow> duration \<Rightarrow> unit cact" where
  "wait_or_done ended d = (\<lambda>w. case ended (w_log w) of
      Some e \<Rightarrow> (Err (wrap ''context cancelled during retry: '' e), w)
    | None \<Rightarrow> time_Sleep d w)"

definition next_backoff :: "Config \<Rightarrow> duration \<Rightarrow> duration" where
  "next_backoff cfg b = (let b' = bo_Scale (rt_Backoff cfg) b
     in if b' > bo_Max (rt_Backoff cfg) then bo_Max (rt_Backoff cfg) else b')"

text \<open>The loop counter is \<open>i\<close>; the measure is the number of iterations left.\<close>

function backoff_loop :: "ctx \<Rightarrow> Config \<Rightarrow> unit cact \<Rightarrow> int \<Rightarrow> duration \<Rightarrow> unit cact" where
  "backoff_loop ended cfg fn i backoff =
     (if i > rt_MaxRetries cfg then ret ()
      else attempt fn (\<lambda>r. case r of
        Inr _ \<Rightarrow> ret ()
      | Inl e \<Rightarrow>
          if \<not> IsRetryableError (Some e) (rt_RetryableErrors cfg) then fail (wrap ''non-retryable error: '' e)
          else if i = rt_MaxRetries cfg
          then fail (wrap (''max retries ('' @ show_int (rt_MaxRetries cfg) @ '') exceeded: '') e)
          else andthen (wait_or_done ended backoff) (\<lambda>_. backoff_loop ended cfg fn (i + 1) (next_backoff cfg backoff))))"
  by pat_completeness auto

termination backoff_loop
  by (relation "measure (\<lambda>(ended, cfg, fn, i, backoff). nat (rt_MaxRetries cfg + 1 - i))") auto

definition WithBackoff :: "ctx \<Rightarrow> Config \<Rightarrow> unit cact \<Rightarrow> unit cact" where
  "WithBackoff ended cfg fn = backoff_loop ended cfg fn 0 (bo_Initial (rt_Backoff cfg))"

function interval_loop :: "ctx \<Rightarrow> int \<Rightarrow> duration \<Rightarrow> unit cact \<Rightarrow> int \<Rightarrow> unit cact" where
  "interval_loop ended maxRetries interval fn i =
     (if i > maxRetries then ret ()
      else attempt fn (\<lambda>r. case r of
        Inr _ \<Rightarrow> ret ()
      | Inl e \<Rightarrow>
          if i = maxRetries then fail (wrap (''max retries ('' @ show_int maxRetries @ '') exceeded: '') e)
          else andthen (wait_or_done ended interval) (\<lambda>_. interval_loop ended maxRetries interval fn (i + 1))))"
  by pat_completeness auto

termination interval_loop
  by (relation "measure (\<lambda>(ended, m, d, fn, i). nat (m + 1 - i))") auto

definition WithFixedInterval :: "ctx \<Rightarrow> int \<Rightarrow> duration \<Rightarrow> unit cact \<Rightarrow> unit cact" where
  "WithFixedInterval ended maxRetries interval fn = interval_loop ended maxRetries interval fn 0"

declare backoff_loop.simps [simp del] interval_loop.simps [simp del]

section \<open>What a retried call returns\<close>

text \<open>
  A retry loop as its callers see it: it succeeds only with a success of the function, and an
  error is the last error of the function, wrapped, or the end of the context.
\<close>

definition last_call :: "unit cact \<Rightarrow> unit res \<Rightarrow> world \<Rightarrow> bool" where
  "last_call fn r w' \<longleftrightarrow> (\<exists>w1. fn w1 = (r, w'))"

lemma wait_or_done_cases:
  assumes "wait_or_done ended d w = (r, w')"
  obtains e where "ended (w_log w) = Some e" "r = Err (wrap ''context cancelled during retry: '' e)" "w' = w"
  | "r = Ok ()" "w' = w\<lparr>w_log := w_log w @ [EvSleep d]\<rparr>"
  using assms by (auto simp: wait_or_done_def time_Sleep_def query_def split: option.splits)

lemma backoff_loop_result:
  assumes "i \<le> rt_MaxRetries cfg" and "backoff_loop ended cfg fn i b w = (r, w')"
  shows "case r of
      Ok _ \<Rightarrow> last_call fn (Ok ()) w'
    | Panic s \<Rightarrow> last_call fn (Panic s) w'
    | Err e \<Rightarrow> \<exists>e'. last_call fn (Err e') w' \<and>
        (if IsRetryableError (Some e') (rt_RetryableErrors cfg)
         then e = wrap (''max retries ('' @ show_int (rt_MaxRetries cfg) @ '') exceeded: '') e'
              \<or> (\<exists>c. ended (w_log w') = Some c \<and> e = wrap ''context cancelled during retry: '' c)
         else e = wrap ''non-retryable error: '' e')"
  using assms
proof (induction ended cfg fn i b arbitrary: w rule: backoff_loop.induct)
  case (1 ended cfg fn i b)
  obtain r1 w1 where call: "fn w = (r1, w1)" by fastforce
  show ?case
  proof (cases "\<exists>e. r1 = Err e \<and> IsRetryableError (Some e) (rt_RetryableErrors cfg) \<and> i < rt_MaxRetries cfg")
    case False
    with call "1.prems" show ?thesis
      by (cases r1) (auto simp: backoff_loop.simps [of ended cfg fn i] last_call_def act_simps split: if_splits, blast+)
  next
    case True
    then obtain e where e: "r1 = Err e" "IsRetryableError (Some e) (rt_RetryableErrors cfg)" "i < rt_MaxRetries cfg"
      by blast
    obtain r2 w2 where wait: "wait_or_done ended b w1 = (r2, w2)" by fastforce
    from wait show ?thesis
    proof (cases rule: wait_or_done_cases)
      case (1 c)
      with e call wait "1.prems" have "r = Err (wrap ''context cancelled during retry: '' c)" "w' = w1"
        by (auto simp: backoff_loop.simps [of ended cfg fn i] act_simps)
      with 1 e call show ?thesis by (auto simp: last_call_def)
    next
      case 2
      with e call wait "1.prems" have "backoff_loop ended cfg fn (i + 1) (next_backoff cfg b) w2 = (r, w')"
        by (simp add: backoff_loop.simps [of ended cfg fn i] act_simps)
      then show ?thesis using e by (intro "1.IH" [of e]) auto
    qed
  qed
qed

text \<open>
  \<open>WithBackoff\<close> reports the last call: with at least zero retries allowed, success means
  that the last call of the function succeeded, and an error is that call's error marked as
  non-retryable or as exhausted, or the error of the context that ended while waiting.
\<close>

theorem WithBackoff_reports_last_call:
  assumes "0 \<le> rt_MaxRetries cfg" and "WithBackoff ended cfg fn w = (r, w')"
  shows "case r of
      Ok _ \<Rightarrow> last_call fn (Ok ()) w'
    | Panic s \<Rightarrow> last_call fn (Panic s) w'
    | Err e \<Rightarrow> \<exists>e'. last_call fn (Err e') w' \<and>
        (if IsRetryableError (Some e') (rt_RetryableErrors cfg)
         then e = wrap (''max retries ('' @ show_int (rt_MaxRetries cfg) @ '') exceeded: '') e'
              \<or> (\<exists>c. ended (w_log w') = Some c \<and> e = wrap ''context cancelled during retry: '' c)
         else e = wrap ''non-retryable error: '' e')"
  by (rule backoff_loop_result [OF assms(1) assms(2) [unfolded WithBackoff_def]])

section \<open>How long a retried call waits\<close>

definition sleeps :: "log \<Rightarrow> duration list" where
  "sleeps l = List.map_filter (\<lambda>ev. case ev of EvSleep d \<Rightarrow> Some d | _ \<Rightarrow> None) l"

lemma sleeps_simps [simp]: "sleeps [] = []" "sleeps (EvSleep d # l) = d # sleeps l" "sleeps (l1 @ l2) = sleeps l1 @ sleeps l2"
  by (simp_all add: sleeps_def List.map_filter_def)

lemma sleeps_none: "list_all (\<lambda>ev. \<forall>d. ev \<noteq> EvSleep d) l \<Longrightarrow> sleeps l = []"
  by (induction l) (auto simp: sleeps_def List.map_filter_def split: event.splits)

lemma backoff_loop_sleeps:
  assumes "emits (\<lambda>ev. \<forall>d. ev \<noteq> EvSleep d) fn" and "i \<le> rt_MaxRetries cfg" and "b \<le> M"
    and "bo_Max (rt_Backoff cfg) \<le> M" and "backoff_loop ended cfg fn i b w = (r, w')"
  shows "\<exists>es. w_log w' = w_log w @ es \<and> length (sleeps es) \<le> nat (rt_MaxRetries cfg - i) \<and> (\<forall>d\<in>set (sleeps es). d \<le> M)"
  using assms
proof (induction ended cfg fn i b arbitrary: w rule: backoff_loop.induct)
  case (1 ended cfg fn i b)
  obtain r1 w1 where call: "fn w = (r1, w1)" by fastforce
  with "1.prems"(1) obtain es1 where es1: "w_log w1 = w_log w @ es1" "sleeps es1 = []"
    by (blast dest: emitsD sleeps_none)
  show ?case
  proof (cases "\<exists>e. r1 = Err e \<and> IsRetryableError (Some e) (rt_RetryableErrors cfg) \<and> i < rt_MaxRetries cfg")
    case False
    with call "1.prems" es1 show ?thesis
      by (cases r1) (auto simp: backoff_loop.simps [of ended cfg fn i] act_simps split: if_splits)
  next
    case True
    then obtain e where e: "r1 = Err e" "IsRetryableError (Some e) (rt_RetryableErrors cfg)" "i < rt_MaxRetries cfg"
      by blast
    obtain r2 w2 where wait: "wait_or_done ended b w1 = (r2, w2)" by fastforce
    from wait show ?thesis
    proof (cases rule: wait_or_done_cases)
      case (1 c)
      with e call wait "1.prems" es1 show ?thesis
        by (auto simp: backoff_loop.simps [of ended cfg fn i] act_simps)
    next
      case 2
      with e call wait "1.prems" have run: "backoff_loop ended cfg fn (i + 1) (next_backoff cfg b) w2 = (r, w')"
        by (simp add: backoff_loop.simps [of ended cfg fn i] act_simps)
      have "next_backoff cfg b \<le> M" using "1.prems"(4) by (simp add: next_backoff_def Let_def)
      then have "\<exists>es. w_log w' = w_log w2 @ es \<and> length (sleeps es) \<le> nat (rt_MaxRetries cfg - (i + 1))
          \<and> (\<forall>d\<in>set (sleeps es). d \<le> M)"
        using e "1.prems" run by (intro "1.IH" [of e]) auto
      then obtain es where
        "w_log w' = w_log w2 @ es" "length (sleeps es) \<le> nat (rt_MaxRetries cfg - (i + 1))" "\<forall>d\<in>set (sleeps es). d \<le> M"
        by blast
      with 2 es1 e(3) "1.prems"(3) show ?thesis
        by (intro exI [of _ "es1 @ EvSleep b # es"]) auto
    qed
  qed
qed

text \<open>
  \<open>WithBackoff\<close> waits at most \<open>MaxRetries\<close> times, and never longer than the larger of the
  initial and the maximal backoff, whatever the factor.
\<close>

theorem WithBackoff_waits_bounded:
  assumes "0 \<le> rt_MaxRetries cfg" and "emits (\<lambda>ev. \<forall>d. ev \<noteq> EvSleep d) fn" and "WithBackoff ended cfg fn w = (r, w')"
  shows "\<exists>es. w_log w' = w_log w @ es \<and> length (sleeps es) \<le> nat (rt_MaxRetries cfg)
    \<and> (\<forall>d\<in>set (sleeps es). d \<le> max (bo_Initial (rt_Backoff cfg)) (bo_Max (rt_Backoff cfg)))"
  using backoff_loop_sleeps [OF assms(2,1) _ _ assms(3) [unfolded WithBackoff_def],
      of "max (bo_Initial (rt_Backoff cfg)) (bo_Max (rt_Backoff cfg))"] by simp

text \<open>A call that always times out: three waits of 10, 20 and 40 seconds, then the last error.\<close>

definition ex_timeout :: "unit cact" where
  "ex_timeout = fail (Errorf ''dial: i/o timeout'')"

lemma ex_retryable: "IsRetryableError (Some (Errorf ''dial: i/o timeout'')) (rt_RetryableErrors DefaultConfig)"
  by (simp add: IsRetryableError_def DefaultConfig_def ToLower_def lower_char_def contains_def)

lemma ex_show_int: "show_int 3 = ''3''"
  by code_simp

lemma ex_backoff_run:
  "WithBackoff (\<lambda>l. None) DefaultConfig ex_timeout empty_world
     = (Err (wrap ''max retries (3) exceeded: '' (Errorf ''dial: i/o timeout'')),
        empty_world\<lparr>w_log := [EvSleep (10 * second), EvSleep (20 * second), EvSleep (40 * second)]\<rparr>)"
  using ex_retryable ex_show_int
  by (simp add: WithBackoff_def backoff_loop.simps ex_timeout_def act_simps wait_or_done_def time_Sleep_def query_def
      next_backoff_def DefaultConfig_def empty_world_def)

lemma WithBackoff_last_call_witness: "last_call ex_timeout (Err (Errorf ''dial: i/o timeout''))
    (empty_world\<lparr>w_log := [EvSleep (10 * second), EvSleep (20 * second), EvSleep (40 * second)]\<rparr>)"
  using WithBackoff_reports_last_call [OF _ ex_backoff_run] ex_retryable
  by (auto simp: DefaultConfig_def last_call_def ex_timeout_def act_simps)

lemma WithBackoff_waits_witness:
  "\<exists>es. sleeps es = [10 * second, 20 * second, 40 * second] \<and> length (sleeps es) \<le> 3
     \<and> (\<forall>d\<in>set (sleeps es). d \<le> 5 * minute)"
proof -
  have "emits (\<lambda>ev. \<forall>d. ev \<noteq> EvSleep d) ex_timeout" by (simp add: ex_timeout_def emits_fail)
  from WithBackoff_waits_bounded [OF _ this ex_backoff_run] obtain es where
    "es = [EvSleep (10 * second), EvSleep (20 * second), EvSleep (40 * second)]" "length (sleeps es) \<le> 3"
    "\<forall>d\<in>set (sleeps es). d \<le> 5 * minute"
    by (auto simp: DefaultConfig_def empty_world_def)
  then show ?thesis by (intro exI [of _ es]) simp
qed

text \<open>With a negative number of retries the function is never called and success is reported.\<close>

lemma negative_retries_succeed:
  "rt_MaxRetries cfg < 0 \<Longrightarrow> WithBackoff ended cfg fn w = (Ok (), w)"
  "n < 0 \<Longrightarrow> WithFixedInterval ended n d fn w = (Ok (), w)"
  by (simp_all add: WithBackoff_def WithFixedInterval_def backoff_loop.simps interval_loop.simps act_simps)

end
