(* ===== verification/Health_Check.thy ===== *)
theory Health_Check
  imports Zero_Values
begin

text \<open>
  The health checks: \<open>modules/cvo/internal/upgrader/health_checker.go\<close> and the checks of the
  graph executor (\<open>runHealthCheck\<close> and its \<open>waitFor\<close> functions in \<open>graph_executor.go\<close>). Each
  wait polls a probe, one read of the cluster or of an endpoint. The locale \<open>readiness_wait\<close>
  states what such a wait promises and is interpreted for each of the six waits.
\<close>

section \<open>Definitions\<close>

record HealthChecker =
  hch_timeout :: duration

definition NewHealthChecker :: "duration \<Rightarrow> HealthChecker" where
  "NewHealthChecker timeout = \<lparr>hch_timeout = (if timeout = 0 then 5 * minute else timeout)\<rparr>"

definition CheckClusterHealthy :: "env \<Rightarrow> unit cact" where
  "CheckClusterHealthy E =
     check (List_nodes E []) (wrap ''failed to list nodes: '') (\<lambda>nodes.
       for_each nodes (\<lambda>n.
         if node_ready n then ret ()
         else fail (Errorf (''node '' @ node_Name n @ '' is not Ready''))))"

text \<open>The condition functions of the polls: a failed read is \<open>false, nil\<close>.\<close>

definition probe :: "event \<Rightarrow> (log \<Rightarrow> error + 'a) \<Rightarrow> ('a \<Rightarrow> bool) \<Rightarrow> bool cact" where
  "probe ev f ok = attempt (query ev f) (\<lambda>r. case r of Inl e \<Rightarrow> ret False | Inr x \<Rightarrow> ret (ok x))"

definition pods_selector :: "env \<Rightarrow> string \<Rightarrow> string \<Rightarrow> pod_selector" where
  "pods_selector E namespace labelSelector =
     (if labelSelector \<noteq> [] \<and> k_selector_ok (kube E) labelSelector
      then PodsSelector namespace labelSelector else PodsInNamespace namespace)"

definition all_running :: "pod list \<Rightarrow> bool" where
  "all_running pods \<longleftrightarrow> pods \<noteq> [] \<and> list_all (\<lambda>p. pod_Phase p = ''Running'') pods"

definition workload_ready :: "workload \<Rightarrow> bool" where
  "workload_ready w \<longleftrightarrow> wl_Ready w = wl_Desired w \<and> wl_Desired w > 0"

definition WaitForPodsReady :: "env \<Rightarrow> string \<Rightarrow> string \<Rightarrow> duration \<Rightarrow> unit cact" where
  "WaitForPodsReady E namespace labelSelector timeout =
     Poll E (5 * second) timeout
       (let sel = pods_selector E namespace labelSelector
        in probe (EvListPods sel) (\<lambda>l. k_list_pods (kube E) l sel) all_running)"

definition WaitForDeploymentReady :: "env \<Rightarrow> string \<Rightarrow> string \<Rightarrow> duration \<Rightarrow> unit cact" where
  "WaitForDeploymentReady E namespace name timeout =
     Poll E (5 * second) timeout
       (probe (EvGet ''Deployment'' namespace name)
          (\<lambda>l. k_get_deployment (kube E) l namespace name) workload_ready)"

definition WaitForDaemonSetReady :: "env \<Rightarrow> string \<Rightarrow> string \<Rightarrow> duration \<Rightarrow> unit cact" where
  "WaitForDaemonSetReady E namespace name timeout =
     Poll E (5 * second) timeout
       (probe (EvGet ''DaemonSet'' namespace name)
          (\<lambda>l. k_get_daemonset (kube E) l namespace name) workload_ready)"

definition waitForEndpointHealthy :: "env \<Rightarrow> string \<Rightarrow> duration \<Rightarrow> unit cact" where
  "waitForEndpointHealthy E endpoint timeout =
     Poll E (5 * second) timeout
       (probe (EvHTTPGet endpoint) (\<lambda>l. h_http (host E) l endpoint)
          (\<lambda>(status, body). 200 \<le> status \<and> status < 300))"

definition waitForCRDEstablished :: "env \<Rightarrow> string \<Rightarrow> duration \<Rightarrow> unit cact" where
  "waitForCRDEstablished E name timeout =
     Poll E (5 * second) timeout
       (probe (EvGet ''CustomResourceDefinition'' [] name) (\<lambda>l. k_get_crd (kube E) l name)
          (\<lambda>conds. list_ex (\<lambda>(t, s). t = ''Established'' \<and> s = ''True'') conds))"

definition waitForServiceRunning :: "env \<Rightarrow> string \<Rightarrow> duration \<Rightarrow> unit cact" where
  "waitForServiceRunning E name timeout =
     Poll E (5 * second) timeout
       (let sel = PodsLabels [] [(''app'', name)]
        in probe (EvListPods sel) (\<lambda>l. k_list_pods (kube E) l sel) all_running)"

definition runHealthCheck :: "env \<Rightarrow> HealthChecker option \<Rightarrow> HealthCheck \<Rightarrow> unit cact" where
  "runHealthCheck E checker hc =
     (if checker = None then ret ()
      else
        (let timeout = (if hc_Timeout hc = 0 then 5 * minute else hc_Timeout hc)
         in if hc_Type hc = ''PodReady'' then WaitForPodsReady E (hc_Namespace hc) (hc_LabelSelector hc) timeout
            else if hc_Type hc = ''DaemonSetReady'' then WaitForDaemonSetReady E (hc_Namespace hc) (hc_Name hc) timeout
            else if hc_Type hc = ''DeploymentReady'' then WaitForDeploymentReady E (hc_Namespace hc) (hc_Name hc) timeout
            else if hc_Type hc = ''EndpointHealthy'' then waitForEndpointHealthy E (hc_Endpoint hc) timeout
            else if hc_Type hc = ''CRDEstablished'' then waitForCRDEstablished E (hc_Name hc) timeout
            else if hc_Type hc = ''ServiceRunning'' then waitForServiceRunning E (hc_Name hc) timeout
            else fail (Errorf (''unknown health check type: '' @ hc_Type hc))))"

section \<open>The interface of a wait\<close>

text \<open>
  \<open>wait E k t\<close> reads \<open>event E k\<close> again and again; \<open>ready E k l\<close> says that the answer to that
  read, given after the history \<open>l\<close>, is what the caller waits for.
\<close>

definition seen :: "(log \<Rightarrow> error + 'a) \<Rightarrow> ('a \<Rightarrow> bool) \<Rightarrow> log \<Rightarrow> bool" where
  "seen f ok l \<longleftrightarrow> (case f l of Inl e \<Rightarrow> False | Inr x \<Rightarrow> ok x)"

lemma probe_apply:
  "probe ev f ok w = (Ok (seen f ok (w_log w)), w\<lparr>w_log := w_log w @ [ev]\<rparr>)"
  by (simp add: probe_def act_simps query_def seen_def split: sum.split)

lemma probe_wait:
  "\<exists>i' c. Poll E i t (probe ev f ok) = Poll E i' t c
     \<and> (\<forall>w. c w = (Ok (seen f ok (w_log w)), w\<lparr>w_log := w_log w @ [ev]\<rparr>))"
  using probe_apply by blast

locale readiness_wait =
  fixes wait :: "env \<Rightarrow> 'k \<Rightarrow> duration \<Rightarrow> unit cact"
    and event :: "env \<Rightarrow> 'k \<Rightarrow> event"
    and ready :: "env \<Rightarrow> 'k \<Rightarrow> log \<Rightarrow> bool"
  assumes wait_polls: "\<exists>i c. wait E k t = Poll E i t c
    \<and> (\<forall>w. c w = (Ok (ready E k (w_log w)), w\<lparr>w_log := w_log w @ [event E k]\<rparr>))"
begin

lemma poll_n_outcome:
  assumes "\<forall>w. c w = (Ok (ready E k (w_log w)), w\<lparr>w_log := w_log w @ [event E k]\<rparr>)"
    and "poll_n n c w = (r, w')"
  shows "\<exists>m. w' = w\<lparr>w_log := w_log w @ replicate m (event E k)\<rparr>
    \<and> (\<forall>i<m. ready E k (w_log w @ replicate i (event E k)) \<longrightarrow> Suc i = m \<and> r = Ok ())
    \<and> (r = Ok () \<and> 0 < m \<and> ready E k (w_log w @ replicate (m - 1) (event E k))
       \<or> r = Err deadline_exceeded)"
  using assms(2)
proof (induction n arbitrary: w)
  case 0
  then show ?case by (intro exI [of _ 0]) (simp add: act_simps)
next
  case (Suc n)
  let ?w = "w\<lparr>w_log := w_log w @ [event E k]\<rparr>"
  note c = spec [OF assms(1), of w]
  show ?case
  proof (cases "ready E k (w_log w)")
    case True
    with Suc.prems c show ?thesis by (intro exI [of _ 1]) (simp add: act_simps)
  next
    case False
    with Suc.prems c have "poll_n n c ?w = (r, w')" by (simp add: act_simps)
    from Suc.IH [OF this] obtain m where m:
      "w' = w\<lparr>w_log := w_log w @ replicate (Suc m) (event E k)\<rparr>"
      "\<forall>i<m. ready E k (w_log w @ replicate (Suc i) (event E k)) \<longrightarrow> Suc i = m \<and> r = Ok ()"
      "r = Ok () \<and> 0 < m \<and> ready E k (w_log w @ replicate (Suc (m - 1)) (event E k)) \<or> r = Err deadline_exceeded"
      by auto
    have "\<forall>i<Suc m. ready E k (w_log w @ replicate i (event E k)) \<longrightarrow> Suc i = Suc m \<and> r = Ok ()"
      using m(2) False by (auto simp: less_Suc_eq_0_disj)
    then show ?thesis using m(1,3) by (intro exI [of _ "Suc m"]) (cases m, auto)
  qed
qed

text \<open>
  A wait makes nothing but its read; it succeeds at the first read whose answer is ready and
  fails only by the deadline, after reads none of which was ready.
\<close>

lemma wait_outcome:
  assumes "poll_ok E" and "wait E k t w = (r, w')"
  shows "\<exists>m. w' = w\<lparr>w_log := w_log w @ replicate m (event E k)\<rparr>
    \<and> (\<forall>i<m. ready E k (w_log w @ replicate i (event E k)) \<longrightarrow> Suc i = m \<and> r = Ok ())
    \<and> (r = Ok () \<and> 0 < m \<and> ready E k (w_log w @ replicate (m - 1) (event E k))
       \<or> r = Err deadline_exceeded)"
proof -
  obtain i c where "wait E k t = Poll E i t c"
    and c: "\<forall>w. c w = (Ok (ready E k (w_log w)), w\<lparr>w_log := w_log w @ [event E k]\<rparr>)"
    using wait_polls by blast
  with assms obtain n where "poll_n n c w = (r, w')"
    unfolding poll_ok_def Poll_def by metis
  from poll_n_outcome [OF c this] show ?thesis .
qed

end

interpretation pods_wait: readiness_wait "\<lambda>E (ns, sel) t. WaitForPodsReady E ns sel t"
  "\<lambda>E (ns, sel). EvListPods (pods_selector E ns sel)"
  "\<lambda>E (ns, sel). seen (\<lambda>l. k_list_pods (kube E) l (pods_selector E ns sel)) all_running"
  by unfold_locales (auto simp: WaitForPodsReady_def Let_def intro!: probe_wait split: prod.split)

interpretation deployment_wait: readiness_wait "\<lambda>E (ns, n) t. WaitForDeploymentReady E ns n t"
  "\<lambda>E (ns, n). EvGet ''Deployment'' ns n"
  "\<lambda>E (ns, n). seen (\<lambda>l. k_get_deployment (kube E) l ns n) workload_ready"
  by unfold_locales (auto simp: WaitForDeploymentReady_def Let_def intro!: probe_wait split: prod.split)

interpretation daemonset_wait: readiness_wait "\<lambda>E (ns, n) t. WaitForDaemonSetReady E ns n t"
  "\<lambda>E (ns, n). EvGet ''DaemonSet'' ns n"
  "\<lambda>E (ns, n). seen (\<lambda>l. k_get_daemonset (kube E) l ns n) workload_ready"
  by unfold_locales (auto simp: WaitForDaemonSetReady_def Let_def intro!: probe_wait split: prod.split)

interpretation endpoint_wait: readiness_wait waitForEndpointHealthy "\<lambda>E u. EvHTTPGet u"
  "\<lambda>E u. seen (\<lambda>l. h_http (host E) l u) (\<lambda>(status, body). 200 \<le> status \<and> status < 300)"
  by unfold_locales (auto simp: waitForEndpointHealthy_def Let_def intro!: probe_wait split: prod.split)

interpretation crd_wait: readiness_wait waitForCRDEstablished
  "\<lambda>E n. EvGet ''CustomResourceDefinition'' [] n"
  "\<lambda>E n. seen (\<lambda>l. k_get_crd (kube E) l n) (\<lambda>conds. list_ex (\<lambda>(t, s). t = ''Established'' \<and> s = ''True'') conds)"
  by unfold_locales (auto simp: waitForCRDEstablished_def Let_def intro!: probe_wait split: prod.split)

interpretation service_wait: readiness_wait waitForServiceRunning
  "\<lambda>E n. EvListPods (PodsLabels [] [(''app'', n)])"
  "\<lambda>E n. seen (\<lambda>l. k_list_pods (kube E) l (PodsLabels [] [(''app'', n)])) all_running"
  by unfold_locales (auto simp: waitForServiceRunning_def Let_def intro!: probe_wait split: prod.split)

section \<open>What a health check establishes\<close>

text \<open>
  The read that the health check \<open>hc\<close> repeats, and when an answer counts as healthy, by type.
\<close>

definition hc_event :: "env \<Rightarrow> HealthCheck \<Rightarrow> event" where
  "hc_event E hc =
     (if hc_Type hc = ''PodReady'' then EvListPods (pods_selector E (hc_Namespace hc) (hc_LabelSelector hc))
      else if hc_Type hc = ''DaemonSetReady'' then EvGet ''DaemonSet'' (hc_Namespace hc) (hc_Name hc)
      else if hc_Type hc = ''DeploymentReady'' then EvGet ''Deployment'' (hc_Namespace hc) (hc_Name hc)
      else if hc_Type hc = ''EndpointHealthy'' then EvHTTPGet (hc_Endpoint hc)
      else if hc_Type hc = ''CRDEstablished'' then EvGet ''CustomResourceDefinition'' [] (hc_Name hc)
      else EvListPods (PodsLabels [] [(''app'', hc_Name hc)]))"

definition hc_healthy :: "env \<Rightarrow> HealthCheck \<Rightarrow> log \<Rightarrow> bool" where
  "hc_healthy E hc =
     (if hc_Type hc = ''PodReady''
      then seen (\<lambda>l. k_list_pods (kube E) l (pods_selector E (hc_Namespace hc) (hc_LabelSelector hc))) all_running
      else if hc_Type hc = ''DaemonSetReady''
      then seen (\<lambda>l. k_get_daemonset (kube E) l (hc_Namespace hc) (hc_Name hc)) workload_ready
      else if hc_Type hc = ''DeploymentReady''
      then seen (\<lambda>l. k_get_deployment (kube E) l (hc_Namespace hc) (hc_Name hc)) workload_ready
      else if hc_Type hc = ''EndpointHealthy''
      then seen (\<lambda>l. h_http (host E) l (hc_Endpoint hc)) (\<lambda>(status, body). 200 \<le> status \<and> status < 300)
      else if hc_Type hc = ''CRDEstablished''
      then seen (\<lambda>l. k_get_crd (kube E) l (hc_Name hc)) (\<lambda>conds. list_ex (\<lambda>(t, s). t = ''Established'' \<and> s = ''True'') conds)
      else seen (\<lambda>l. k_list_pods (kube E) l (PodsLabels [] [(''app'', hc_Name hc)])) all_running)"

definition hc_types :: "string list" where
  "hc_types = [''PodReady'', ''DaemonSetReady'', ''DeploymentReady'', ''EndpointHealthy'', ''CRDEstablished'', ''ServiceRunning'']"

lemma runHealthCheck_outcome:
  assumes "poll_ok E" and "hc_Type hc \<in> set hc_types" and "runHealthCheck E (Some h) hc w = (r, w')"
  shows "\<exists>m. w' = w\<lparr>w_log := w_log w @ replicate m (hc_event E hc)\<rparr>
    \<and> (\<forall>i<m. hc_healthy E hc (w_log w @ replicate i (hc_event E hc)) \<longrightarrow> Suc i = m \<and> r = Ok ())
    \<and> (r = Ok () \<and> 0 < m \<and> hc_healthy E hc (w_log w @ replicate (m - 1) (hc_event E hc))
       \<or> r = Err deadline_exceeded)"
proof -
  note pods = pods_wait.wait_outcome [OF assms(1), of "(hc_Namespace hc, hc_LabelSelector hc)", simplified]
  note ds = daemonset_wait.wait_outcome [OF assms(1), of "(hc_Namespace hc, hc_Name hc)", simplified]
  note dep = deployment_wait.wait_outcome [OF assms(1), of "(hc_Namespace hc, hc_Name hc)", simplified]
  note rest = endpoint_wait.wait_outcome [OF assms(1), simplified] crd_wait.wait_outcome [OF assms(1), simplified]
    service_wait.wait_outcome [OF assms(1), simplified]
  from assms(2) consider "hc_Type hc = ''PodReady''" | "hc_Type hc = ''DaemonSetReady''"
    | "hc_Type hc = ''DeploymentReady''" | "hc_Type hc = ''EndpointHealthy''"
    | "hc_Type hc = ''CRDEstablished''" | "hc_Type hc = ''ServiceRunning''"
    by (auto simp: hc_types_def)
  then show ?thesis
    using assms(3)
    by cases (simp_all add: runHealthCheck_def hc_event_def hc_healthy_def Let_def pods ds dep rest)
qed

text \<open>
  A health check of a release component that passes has seen the component healthy: its
  last read was answered with the condition of its type, no earlier read was, and it did
  nothing but that read. A check that does not pass ends with the deadline error.
\<close>

theorem runHealthCheck_sound:
  assumes "poll_ok E" and "hc_Type hc \<in> set hc_types" and "runHealthCheck E (Some h) hc w = (r, w')"
  shows "\<exists>m. w' = w\<lparr>w_log := w_log w @ replicate m (hc_event E hc)\<rparr>
    \<and> (case r of
         Ok _ \<Rightarrow> 0 < m \<and> hc_healthy E hc (w_log w @ replicate (m - 1) (hc_event E hc))
               \<and> (\<forall>i<m - 1. \<not> hc_healthy E hc (w_log w @ replicate i (hc_event E hc)))
       | Err e \<Rightarrow> e = deadline_exceeded \<and> (\<forall>i<m. \<not> hc_healthy E hc (w_log w @ replicate i (hc_event E hc)))
       | Panic s \<Rightarrow> False)"
proof -
  obtain m where w': "w' = w\<lparr>w_log := w_log w @ replicate m (hc_event E hc)\<rparr>"
    and m: "\<forall>i<m. hc_healthy E hc (w_log w @ replicate i (hc_event E hc)) \<longrightarrow> Suc i = m \<and> r = Ok ()"
      "r = Ok () \<and> 0 < m \<and> hc_healthy E hc (w_log w @ replicate (m - 1) (hc_event E hc)) \<or> r = Err deadline_exceeded"
    using runHealthCheck_outcome [OF assms] by blast
  from m have "case r of
         Ok _ \<Rightarrow> 0 < m \<and> hc_healthy E hc (w_log w @ replicate (m - 1) (hc_event E hc))
               \<and> (\<forall>i<m - 1. \<not> hc_healthy E hc (w_log w @ replicate i (hc_event E hc)))
       | Err e \<Rightarrow> e = deadline_exceeded \<and> (\<forall>i<m. \<not> hc_healthy E hc (w_log w @ replicate i (hc_event E hc)))
       | Panic s \<Rightarrow> False"
    by (elim disjE) (auto simp: less_diff_conv, metis Suc_eq_plus1 Suc_lessD less_irrefl)
  with w' show ?thesis by blast
qed

text \<open>A deployment that is ready when it is read, and one that never is.\<close>

definition ex_dep_env :: "int \<Rightarrow> env" where
  "ex_dep_env n = quiet_env\<lparr>kube := quiet_kube\<lparr>k_get_deployment := (\<lambda>l ns d. Inr
     (zero_workload\<lparr>wl_Name := d, wl_Namespace := ns, wl_Ready := n, wl_Desired := 2\<rparr>))\<rparr>\<rparr>"

definition ex_dep_check :: HealthCheck where
  "ex_dep_check = \<lparr>hc_Type = ''DeploymentReady'', hc_Namespace = ''kube-system'', hc_Name = ''coredns'',
     hc_LabelSelector = [], hc_Endpoint = [], hc_Timeout = 0\<rparr>"

lemma runHealthCheck_witness:
  "fst (runHealthCheck (ex_dep_env 2) (Some (NewHealthChecker 0)) ex_dep_check empty_world) = Ok ()
   \<and> fst (runHealthCheck (ex_dep_env 1) (Some (NewHealthChecker 0)) ex_dep_check empty_world) = Err deadline_exceeded
   \<and> hc_healthy (ex_dep_env 2) ex_dep_check []"
proof -
  have type: "hc_Type ex_dep_check \<in> set hc_types" by (simp add: hc_types_def ex_dep_check_def)
  have ok: "poll_ok (ex_dep_env n)" for n by (simp add: ex_dep_env_def)
  have run: "runHealthCheck (ex_dep_env 2) (Some (NewHealthChecker 0)) ex_dep_check empty_world
      = (Ok (), empty_world\<lparr>w_log := [EvGet ''Deployment'' ''kube-system'' ''coredns'']\<rparr>)"
    "fst (runHealthCheck (ex_dep_env 1) (Some (NewHealthChecker 0)) ex_dep_check empty_world) = Err deadline_exceeded"
    by (simp_all add: runHealthCheck_def ex_dep_check_def WaitForDeploymentReady_def Poll_def ex_dep_env_def
        act_simps probe_apply seen_def workload_ready_def numeral_3_eq_3 empty_world_def)
  from runHealthCheck_sound [OF ok type run(1)] obtain m ev where
    m: "[EvGet ''Deployment'' ''kube-system'' ''coredns''] = replicate m ev"
       "hc_healthy (ex_dep_env 2) ex_dep_check (replicate (m - 1) ev)"
    by (auto simp: empty_world_def)
  from m(1) have "m = 1" by (metis One_nat_def length_Cons length_replicate list.size(3))
  with m(2) have "hc_healthy (ex_dep_env 2) ex_dep_check []" by simp
  with run show ?thesis by simp
qed

lemma CheckClusterHealthy_iff:
  "fst (CheckClusterHealthy E w) = Ok () \<longleftrightarrow>
     (\<exists>nodes. k_list_nodes (kube E) (w_log w) [] = Inr nodes \<and> (\<forall>n\<in>set nodes. node_ready n))"
proof -
  have loop: "fst (for_each nodes (\<lambda>n. if node_ready n then ret () else fail (err n)) w) = Ok ()
      \<longleftrightarrow> (\<forall>n\<in>set nodes. node_ready n)" for nodes err and w :: world
    by (induction nodes arbitrary: w) (auto simp: act_simps)
  show ?thesis
    by (auto simp: CheckClusterHealthy_def act_simps List_nodes_def query_def loop split: sum.split)
qed

end
