(* ===== verification/Oci_Puller.thy ===== *)
theory Oci_Puller
  imports Zero_Values
begin

text \<open>
  The release image puller, \<open>modules/cvo/internal/upgrader/oci_puller.go\<close>. The set of existing
  directories is the program-visible state \<open>w_dirs\<close>; \<open>os.Stat\<close> succeeds exactly on them. The
  registry client is the parameter \<open>h_pull\<close>, the file store \<open>h_file_store\<close>, the parser of img
  references \<open>h_repository\<close>. The decoding of a JSON document into a Go struct is an argument
  of the functions that do it.
\<close>

section \<open>Definitions\<close>

record OCIPuller =
  op_workDir :: string
  op_auth :: "(string \<times> string) option"

definition NewOCIPuller :: "string \<Rightarrow> OCIPuller" where
  "NewOCIPuller workDir = \<lparr>op_workDir = (if workDir = [] then ''/tmp/capbm-upgrade'' else workDir), op_auth = None\<rparr>"

definition WithAuth :: "OCIPuller \<Rightarrow> string \<Rightarrow> string \<Rightarrow> OCIPuller" where
  "WithAuth p username password = p\<lparr>op_auth := Some (username, password)\<rparr>"

definition is_alnum :: "char \<Rightarrow> bool" where
  "is_alnum c \<longleftrightarrow> (let n = of_char c :: nat in 97 \<le> n \<and> n \<le> 122 \<or> 65 \<le> n \<and> n \<le> 90 \<or> 48 \<le> n \<and> n \<le> 57)"

definition safeImageName :: "string \<Rightarrow> string" where
  "safeImageName img = concat (map (\<lambda>c. if is_alnum c then [c] else ''-'') img)"

definition os_Stat_dir :: "string \<Rightarrow> bool cact" where
  "os_Stat_dir dir = (\<lambda>w. (Ok (dir \<in> w_dirs w), w\<lparr>w_log := w_log w @ [EvStat dir]\<rparr>))"

definition pull_dir :: "OCIPuller \<Rightarrow> string \<Rightarrow> string \<Rightarrow> string" where
  "pull_dir p img pfx = path_Join [op_workDir p, pfx @ ''-'' @ safeImageName img]"

definition pull_credentials :: "OCIPuller \<Rightarrow> (string \<times> string) option" where
  "pull_credentials p = (case op_auth p of Some (u, pw) \<Rightarrow> if u \<noteq> [] then Some (u, pw) else None | None \<Rightarrow> None)"

definition pullImage :: "env \<Rightarrow> OCIPuller \<Rightarrow> string \<Rightarrow> string \<Rightarrow> string cact" where
  "pullImage E p img pfx =
     (let dir = pull_dir p img pfx in
      andthen (os_Stat_dir dir) (\<lambda>exists.
        if exists then ret dir
        else
          check (command (EvMkdir dir) (\<lambda>l. h_mkdir (host E) l dir)) (wrap ''failed to create work directory: '') (\<lambda>_.
          andthen (add_dir dir) (\<lambda>_.
          check (command (EvFileStore dir) (\<lambda>l. h_file_store (host E) l dir)) (wrap ''failed to create file store: '') (\<lambda>_.
          (case h_repository (host E) img of
             Some e \<Rightarrow> fail (wrap (''failed to parse image reference '' @ img @ '': '') e)
           | None \<Rightarrow>
               check (command (EvPull img (pull_credentials p)) (\<lambda>l. h_pull (host E) l img))
                 (wrap (''failed to pull OCI image '' @ img @ '': '')) (\<lambda>_. ret dir)))))))"

definition GetManifestDir :: "env \<Rightarrow> OCIPuller \<Rightarrow> string \<Rightarrow> string cact" where
  "GetManifestDir E p img =
     andthen (pullImage E p img ''release'') (\<lambda>dir. ret (path_Join [dir, ''manifests'']))"

definition GetScriptsDir :: "env \<Rightarrow> OCIPuller \<Rightarrow> string \<Rightarrow> string cact" where
  "GetScriptsDir E p img =
     andthen (pullImage E p img ''release'') (\<lambda>dir. ret (path_Join [dir, ''scripts'']))"

definition GetImageDir :: "env \<Rightarrow> OCIPuller \<Rightarrow> string \<Rightarrow> string cact" where
  "GetImageDir E p img = pullImage E p img ''release''"

definition PullAndParseCatalog ::
  "env \<Rightarrow> (string \<Rightarrow> error + ReleaseCatalogStatus) \<Rightarrow> OCIPuller \<Rightarrow> string \<Rightarrow> ReleaseCatalogStatus cact" where
  "PullAndParseCatalog E unmarshal p img =
     check (pullImage E p img ''catalog'') (wrap ''failed to pull catalog image: '') (\<lambda>dir.
     check (os_ReadFile E (path_Join [dir, ''catalog.json''])) (wrap ''failed to read catalog.json: '') (\<lambda>data.
       case unmarshal data of Inl e \<Rightarrow> fail (wrap ''failed to parse catalog.json: '' e) | Inr s \<Rightarrow> ret s))"

definition PullAndParseUpgradePath ::
  "env \<Rightarrow> (string \<Rightarrow> error + UpgradePathSpec) \<Rightarrow> OCIPuller \<Rightarrow> string \<Rightarrow> UpgradePathSpec cact" where
  "PullAndParseUpgradePath E unmarshal p img =
     check (pullImage E p img ''upgradepath'') (wrap ''failed to pull upgrade path image: '') (\<lambda>dir.
     check (os_ReadFile E (path_Join [dir, ''upgrade-path.json''])) (wrap ''failed to read upgrade-path.json: '') (\<lambda>data.
       case unmarshal data of Inl e \<Rightarrow> fail (wrap ''failed to parse upgrade-path.json: '' e) | Inr s \<Rightarrow> ret s))"

definition PullAndParseReleaseImage ::
  "env \<Rightarrow> (string \<Rightarrow> error + ReleaseImageSpec) \<Rightarrow> OCIPuller \<Rightarrow> string \<Rightarrow> ReleaseImageSpec cact" where
  "PullAndParseReleaseImage E unmarshal p img =
     check (pullImage E p img ''release'') (wrap ''failed to pull release image: '') (\<lambda>dir.
     check (os_ReadFile E (path_Join [dir, ''release.json''])) (wrap ''failed to read release.json: '') (\<lambda>data.
       case unmarshal data of Inl e \<Rightarrow> fail (wrap ''failed to parse release.json: '' e) | Inr s \<Rightarrow> ret s))"

section \<open>Paths\<close>

lemma safeImageName_chars: "c \<in> set (safeImageName img) \<Longrightarrow> is_alnum c \<or> c = CHR ''-''"
  by (induction img) (auto simp: safeImageName_def split: if_splits)

definition elem_ok :: "string \<Rightarrow> bool" where
  "elem_ok x \<longleftrightarrow> CHR ''/'' \<notin> set x \<and> x \<noteq> [] \<and> x \<noteq> ''.''"

lemma elem_ok_dots [simp]: "elem_ok ''..''"
  by (simp add: elem_ok_def)

lemma clean_elem_ok:
  "list_all elem_ok st \<Longrightarrow> CHR ''/'' \<notin> set e \<Longrightarrow> list_all elem_ok (clean_elem r st e)"
  unfolding clean_elem_def by (cases st) (auto simp: elem_ok_def)

lemma clean_elems_ok:
  "list_all elem_ok st \<Longrightarrow> \<forall>x\<in>set xs. CHR ''/'' \<notin> set x \<Longrightarrow> list_all elem_ok (foldl (clean_elem r) st xs)"
  by (induction xs arbitrary: st) (auto simp: clean_elem_ok)

lemma join_elems:
  assumes "xs \<noteq> []" and "list_all elem_ok xs"
  shows "join_with ''/'' xs \<noteq> ''.'' \<and> join_with ''/'' xs \<noteq> []"
proof -
  obtain x ys where xs: "xs = x # ys" using assms(1) by (cases xs) auto
  then have "x \<noteq> []" "x \<noteq> ''.''" using assms(2) by (auto simp: elem_ok_def)
  then show ?thesis
    unfolding xs by (cases ys) (auto simp: append_eq_Cons_conv)
qed

lemma path_Join_name:
  assumes "d \<noteq> []" and "CHR ''/'' \<notin> set e" and "e \<notin> {[], ''.'', ''..''}"
  shows "path_Join [d, e] =
    (if path_Clean d = ''.'' then e else if path_Clean d = ''/'' then ''/'' @ e else path_Clean d @ ''/'' @ e)"
proof -
  let ?r = "HasPrefix d ''/''"
  let ?st = "foldl (clean_elem ?r) [] (split_on CHR ''/'' d)"
  have ok: "list_all elem_ok (rev ?st)"
    using clean_elems_ok [of "[]" "split_on CHR ''/'' d"] split_on_no_sep by (fastforce simp: list_all_iff)
  have join: "path_Join [d, e] = path_Clean (d @ CHR ''/'' # e)"
    using assms(1) by (simp add: path_Join_def)
  have pre: "HasPrefix (d @ CHR ''/'' # e) ''/'' = ?r"
    using assms(1) by (cases d) (auto simp: HasPrefix_def)
  have elems: "foldl (clean_elem ?r) [] (split_on CHR ''/'' (d @ CHR ''/'' # e)) = e # ?st"
    using assms(2,3) by (simp add: split_on_append split_on_single clean_elem_def)
  have first: "hd (join_with ''/'' (rev ?st)) \<noteq> CHR ''/''" if "?st \<noteq> []"
  proof -
    obtain x ys where xs: "rev ?st = x # ys" using \<open>?st \<noteq> []\<close> by (cases "rev ?st") auto
    with ok have "x \<noteq> []" "CHR ''/'' \<notin> set x" by (auto simp: elem_ok_def)
    then have "hd (join_with ''/'' (x # ys)) = hd x" "hd x \<noteq> CHR ''/''" by (cases ys; cases x; auto)+
    then show ?thesis unfolding xs by simp
  qed
  obtain st where st: "st = ?st" by simp
  have clean: "path_Clean d = (if ?r then ''/'' @ join_with ''/'' (rev st)
      else if st = [] then ''.'' else join_with ''/'' (rev st))"
    unfolding path_Clean_def st Let_def by simp
  have joined: "path_Join [d, e] = (if ?r then ''/'' @ join_with ''/'' (rev st @ [e])
      else join_with ''/'' (rev st @ [e]))"
    unfolding join path_Clean_def pre elems st Let_def by simp
  show ?thesis
  proof (cases "st = []")
    case True
    then show ?thesis unfolding clean joined by simp
  next
    case False
    then have ne: "rev st \<noteq> []" by simp
    from join_elems [OF this] ok have "join_with ''/'' (rev st) \<noteq> ''.''" "join_with ''/'' (rev st) \<noteq> []"
      by (simp_all add: st)
    moreover have "join_with ''/'' (rev st) \<noteq> ''/''" using first False by (auto simp: st)
    moreover note join_with_snoc [OF ne, of "''/''" e]
    ultimately show ?thesis using False unfolding clean joined by simp
  qed
qed

text \<open>
  Every image is unpacked directly below the work directory, whatever its name: the name
  cannot climb out of it by slashes or dots.
\<close>

theorem pull_dir_below_workdir:
  assumes "op_workDir p \<noteq> []" and "path_Clean (op_workDir p) \<notin> {''.'', ''/''}"
    and "pfx \<in> {''release'', ''catalog'', ''upgradepath''}"
  shows "pull_dir p img pfx = path_Clean (op_workDir p) @ ''/'' @ pfx @ ''-'' @ safeImageName img
    \<and> CHR ''/'' \<notin> set (pfx @ ''-'' @ safeImageName img)"
proof -
  have "CHR ''/'' \<notin> set (safeImageName img)"
    using safeImageName_chars [of "CHR ''/''" img] by (auto simp: is_alnum_def)
  with assms(3) have slash: "CHR ''/'' \<notin> set (pfx @ ''-'' @ safeImageName img)" by auto
  have "pfx @ ''-'' @ safeImageName img \<notin> {[], ''.'', ''..''}" using assms(3) by auto
  from path_Join_name [OF assms(1) slash this] assms(2) slash show ?thesis
    by (simp add: pull_dir_def)
qed

lemma pull_dir_witness:
  "pull_dir (NewOCIPuller []) ''../../etc:v1'' ''release'' = ''/tmp/capbm-upgrade/release-------etc-v1''"
proof -
  have clean: "path_Clean ''/tmp/capbm-upgrade'' = ''/tmp/capbm-upgrade''"
    by (simp add: path_Clean_def HasPrefix_def clean_elem_def)
  have safe: "safeImageName ''../../etc:v1'' = ''------etc-v1''"
    by (simp add: safeImageName_def is_alnum_def)
  from pull_dir_below_workdir [of "NewOCIPuller []" "''release''" "''../../etc:v1''"] clean safe
  show ?thesis by (simp add: NewOCIPuller_def)
qed

section \<open>The cache\<close>

lemma pullImage_cached:
  "pull_dir p img pfx \<in> w_dirs w \<Longrightarrow>
   pullImage E p img pfx w = (Ok (pull_dir p img pfx), w\<lparr>w_log := w_log w @ [EvStat (pull_dir p img pfx)]\<rparr>)"
  by (simp add: pullImage_def Let_def act_simps os_Stat_dir_def)

lemma pullImage_first:
  assumes "pull_dir p img pfx \<notin> w_dirs w"
    and "h_mkdir (host E) (w_log w @ [EvStat (pull_dir p img pfx)]) (pull_dir p img pfx) = None"
    and "pullImage E p img pfx w = (r, w')"
  shows "pull_dir p img pfx \<in> w_dirs w' \<and> (r = Ok (pull_dir p img pfx) \<or> (\<exists>e. r = Err e))"
  using assms by (auto simp: pullImage_def Let_def act_simps os_Stat_dir_def command_def query_def state_defs
      split: option.splits)

text \<open>
  The cache of pulled images remembers failed pulls as successes: once the work directory
  has been created, a pull that fails makes every later pull of that image, and of every image
  whose name maps to the same safe name, return the directory at once without contacting the
  registry, whatever it contains.
\<close>

theorem failed_pull_poisons_cache:
  assumes "pull_dir p img pfx \<notin> w_dirs w"
    and "h_mkdir (host E) (w_log w @ [EvStat (pull_dir p img pfx)]) (pull_dir p img pfx) = None"
    and "pullImage E p img pfx w = (Err e, w1)"
    and "safeImageName img' = safeImageName img"
  shows "pullImage E' p img' pfx w1
    = (Ok (pull_dir p img' pfx), w1\<lparr>w_log := w_log w1 @ [EvStat (pull_dir p img' pfx)]\<rparr>)"
proof (rule pullImage_cached)
  have "pull_dir p img' pfx = pull_dir p img pfx" using assms(4) by (simp add: pull_dir_def)
  with pullImage_first [OF assms(1-3)] show "pull_dir p img' pfx \<in> w_dirs w1" by simp
qed

definition ex_no_registry :: env where
  "ex_no_registry = quiet_env\<lparr>host := quiet_host\<lparr>h_pull := (\<lambda>l i. Some (Errorf ''connection refused''))\<rparr>\<rparr>"

lemma poisoned_cache_witness:
  "fst (pullImage ex_no_registry (NewOCIPuller []) ''r/a:1'' ''release'' empty_world)
     = Err (wrap ''failed to pull OCI image r/a:1: '' (Errorf ''connection refused''))
   \<and> fst (pullImage quiet_env (NewOCIPuller []) ''r-a-1'' ''release''
        (snd (pullImage ex_no_registry (NewOCIPuller []) ''r/a:1'' ''release'' empty_world)))
     = Ok (pull_dir (NewOCIPuller []) ''r-a-1'' ''release'')"
proof -
  let ?run = "pullImage ex_no_registry (NewOCIPuller []) ''r/a:1'' ''release'' empty_world"
  have fails: "fst ?run = Err (wrap ''failed to pull OCI image r/a:1: '' (Errorf ''connection refused''))"
    by (simp add: pullImage_def Let_def act_simps os_Stat_dir_def command_def query_def state_defs ex_no_registry_def quiet_defs)
  have same: "safeImageName ''r-a-1'' = safeImageName ''r/a:1''" by (simp add: safeImageName_def is_alnum_def)
  from fails have run: "?run = (Err (wrap ''failed to pull OCI image r/a:1: '' (Errorf ''connection refused'')), snd ?run)"
    by (metis prod.collapse)
  have mkdir: "h_mkdir (host ex_no_registry) l d = None" for l d by (simp add: ex_no_registry_def quiet_defs)
  from failed_pull_poisons_cache [OF _ mkdir run same, of quiet_env] fails show ?thesis
    by (simp add: empty_world_def)
qed

section \<open>Which events the puller causes\<close>

definition puller_event :: "event \<Rightarrow> bool" where
  "puller_event ev \<longleftrightarrow> (case ev of EvStat _ \<Rightarrow> True | EvMkdir _ \<Rightarrow> True | EvFileStore _ \<Rightarrow> True | EvPull _ _ \<Rightarrow> True | _ \<Rightarrow> False)"

lemma emits_os_Stat_dir [emits_rules]: "A (EvStat dir) \<Longrightarrow> emits A (os_Stat_dir dir)"
  by (simp add: emits_def os_Stat_dir_def)

lemma emits_pullImage: "emits puller_event (pullImage E p img pfx)"
  unfolding pullImage_def Let_def by (intro emits_rules) (simp_all add: puller_event_def)

lemma emits_dirs:
  "emits puller_event (GetManifestDir E p img)" "emits puller_event (GetScriptsDir E p img)"
  unfolding GetManifestDir_def GetScriptsDir_def by (intro emits_rules emits_pullImage)+

end
