(* ===== verification/Graph_Exec.thy ===== *)
theory Graph_Exec
  imports Ssh_Manager Health_Check Oci_Puller
begin

text \<open>
  The executor of a release's upgrade graph, \<open>modules/cvo/internal/upgrader/graph_executor.go\<close>:
  phases in their order, the components of a phase in topological order, and for a component
  its manifests, its scripts on every node, its health check. The puller is non-nil; the
  health checker and the SSH manager may be nil. \<open>completed\<close> is the set of names that the Go
  map holds. \<open>srt\<close> is \<open>sort.Slice\<close> by \<open>Order\<close>, whose contract is \<open>sorts_by\<close>.
\<close>

section \<open>Definitions\<close>

record GraphExecutor =
  gx_puller :: OCIPuller
  gx_healthChecker :: "HealthChecker option"
  gx_sshManager :: "SSHManager option"

definition NewGraphExecutor :: "OCIPuller \<Rightarrow> HealthChecker option \<Rightarrow> GraphExecutor" where
  "NewGraphExecutor puller healthChecker =
     \<lparr>gx_puller = puller, gx_healthChecker = healthChecker, gx_sshManager = None\<rparr>"

definition WithSSHManager :: "GraphExecutor \<Rightarrow> SSHManager \<Rightarrow> GraphExecutor" where
  "WithSSHManager e m = e\<lparr>gx_sshManager := Some m\<rparr>"

definition decodeYAML :: "env \<Rightarrow> string \<Rightarrow> kobj cact" where
  "decodeYAML E data = (case h_decode_yaml (host E) data of
      Inl e \<Rightarrow> fail (wrap ''failed to decode YAML: '' e)
    | Inr ok \<Rightarrow> if ok then ret (KManifest data)
        else fail (Errorf ''decoded object does not implement client.Object''))"

definition stat_missing :: "env \<Rightarrow> string \<Rightarrow> bool cact" where
  "stat_missing E path = query (EvStat path) (\<lambda>l. Inr (h_not_exist (host E) l path))"

definition applyManifest :: "env \<Rightarrow> string \<Rightarrow> string \<Rightarrow> unit cact" where
  "applyManifest E manifestDir manifest =
     (let path = path_Join [manifestDir, manifest] in
      andthen (stat_missing E path) (\<lambda>missing.
        if missing then fail (Errorf (''manifest file not found: '' @ path))
        else
          check (os_ReadFile E path) (wrap (''failed to read manifest '' @ path @ '': '')) (\<lambda>data.
          check (decodeYAML E data) (wrap (''failed to decode manifest '' @ path @ '': '')) (\<lambda>obj.
          check (api_write E (EvPatch obj)) (wrap (''failed to apply manifest '' @ path @ '': '')) ret))))"

definition applyManifests :: "env \<Rightarrow> GraphExecutor \<Rightarrow> string list \<Rightarrow> ReleaseImage \<Rightarrow> unit cact" where
  "applyManifests E g manifests ri =
     check (GetManifestDir E (gx_puller g) (ris_Image (ri_Spec ri))) (wrap ''failed to get manifest dir: '')
       (\<lambda>manifestDir. for_each manifests (applyManifest E manifestDir))"

definition getTargetNodes :: "env \<Rightarrow> node list cact" where
  "getTargetNodes E = List_nodes E []"

definition executeScript_on :: "env \<Rightarrow> SSHManager \<Rightarrow> string \<Rightarrow> node list \<Rightarrow> unit cact" where
  "executeScript_on E sm script nodes =
     on_all_nodes E sm nodes script None
       (\<lambda>n. wrap (''script execution failed on node '' @ node_Name n @ '': ''))
       (\<lambda>n r. Errorf (''script failed on node '' @ node_Name n @ '' with exit code '' @ show_int (cr_ExitCode r)
               @ '': '' @ cr_Stderr r))"

definition executeScript :: "env \<Rightarrow> GraphExecutor \<Rightarrow> string \<Rightarrow> string \<Rightarrow> unit cact" where
  "executeScript E g scriptsDir script =
     (let path = path_Join [scriptsDir, script] in
      andthen (stat_missing E path) (\<lambda>missing.
        if missing then fail (Errorf (''script file not found: '' @ path))
        else
          check (os_ReadFile E path) (wrap (''failed to read script '' @ path @ '': '')) (\<lambda>scriptContent.
            case gx_sshManager g of
              None \<Rightarrow> ret ()
            | Some sm \<Rightarrow>
                check (getTargetNodes E) (wrap ''failed to get target nodes: '')
                  (executeScript_on E sm scriptContent))))"

definition executeScripts :: "env \<Rightarrow> GraphExecutor \<Rightarrow> string list \<Rightarrow> ReleaseImage \<Rightarrow> unit cact" where
  "executeScripts E g scripts ri =
     check (GetScriptsDir E (gx_puller g) (ris_Image (ri_Spec ri))) (wrap ''failed to get scripts dir: '')
       (\<lambda>scriptsDir. for_each scripts (executeScript E g scriptsDir))"

definition executeComponent :: "env \<Rightarrow> GraphExecutor \<Rightarrow> UpgradeComponent \<Rightarrow> ReleaseImage \<Rightarrow> unit cact" where
  "executeComponent E g uc ri =
     andthen (when_act (length (uc_Manifests uc) > 0) (applyManifests E g (uc_Manifests uc) ri)) (\<lambda>_.
     andthen (when_act (length (uc_Scripts uc) > 0) (executeScripts E g (uc_Scripts uc) ri)) (\<lambda>_.
       case (uc_HealthCheck uc, gx_healthChecker g) of
         (Some hc, Some h) \<Rightarrow>
           check (runHealthCheck E (gx_healthChecker g) hc)
             (wrap (''health check failed for '' @ uc_Name uc @ '': '')) ret
       | _ \<Rightarrow> ret ()))"

text \<open>The body of the loop of \<open>executePhase\<close>; \<open>continue\<close> when no component has the name.\<close>

definition phase_step ::
  "env \<Rightarrow> GraphExecutor \<Rightarrow> UpgradePhase \<Rightarrow> ReleaseImage \<Rightarrow> string set \<Rightarrow> string \<Rightarrow> unit cact" where
  "phase_step E g phase ri completed compName =
     (case findComponent (up_Components phase) compName of
        None \<Rightarrow> ret ()
      | Some uc \<Rightarrow>
          (case List.find (\<lambda>dep. dep \<notin> completed) (uc_DependsOn uc) of
             Some dep \<Rightarrow> fail (Errorf (''dependency '' @ dep @ '' not completed for component '' @ uc_Name uc))
           | None \<Rightarrow>
               attempt (executeComponent E g uc ri) (\<lambda>r. case r of
                 Inl e \<Rightarrow> if uc_Blocking uc
                   then fail (wrap (''component '' @ uc_Name uc @ '' failed: '') e) else ret ()
               | Inr _ \<Rightarrow> ret ())))"

definition executePhase ::
  "env \<Rightarrow> GraphExecutor \<Rightarrow> UpgradePhase \<Rightarrow> ReleaseImage \<Rightarrow> string set \<Rightarrow> unit cact" where
  "executePhase E g phase ri completed =
     (let depGraph = buildDependencyGraph (up_Components phase) in
      andthen (range_map E (map fst depGraph)) (\<lambda>ord.
        for_each (topologicalSort ord depGraph) (phase_step E g phase ri completed)))"

fun execute_phases ::
  "env \<Rightarrow> GraphExecutor \<Rightarrow> ReleaseImage \<Rightarrow> UpgradePhase list \<Rightarrow> string set \<Rightarrow> unit cact" where
  "execute_phases E g ri [] completed = ret ()"
| "execute_phases E g ri (phase # phases) completed =
     attempt (executePhase E g phase ri completed) (\<lambda>r.
       let rest = execute_phases E g ri phases (completed \<union> set (map uc_Name (up_Components phase)))
       in case r of
            Inl e \<Rightarrow> if up_Blocking phase then fail (wrap (''phase '' @ up_Name phase @ '' failed: '') e) else rest
          | Inr _ \<Rightarrow> rest)"

definition ExecuteUpgradeGraph ::
  "env \<Rightarrow> (UpgradePhase list \<Rightarrow> UpgradePhase list) \<Rightarrow> GraphExecutor \<Rightarrow> ClusterVersion \<Rightarrow> ReleaseImage \<Rightarrow> unit cact" where
  "ExecuteUpgradeGraph E srt g cv ri = execute_phases E g ri (srt (ris_UpgradeGraph (ri_Spec ri))) {}"

section \<open>Dependencies of a phase\<close>

lemma phase_step_Ok_deps:
  assumes "phase_step E g ph ri completed n w = (Ok u, w')" and "findComponent (up_Components ph) n = Some c"
  shows "set (uc_DependsOn c) \<subseteq> completed"
  using assms by (auto simp: phase_step_def act_simps find_None_conv split: option.splits)

lemma findComponent_distinct:
  "c \<in> set cs \<Longrightarrow> distinct (map uc_Name cs) \<Longrightarrow> findComponent cs (uc_Name c) = Some c"
  by (induction cs) (auto simp: image_iff)

lemma for_each_Ok_all:
  assumes "for_each xs f w = (Ok u, w')" and "x \<in> set xs"
  shows "\<exists>w1 w2 u'. f x w1 = (Ok u', w2)"
  using assms
proof (induction xs arbitrary: w)
  case (Cons y ys)
  obtain r w1 where run: "f y w = (r, w1)" by fastforce
  with Cons.prems(1) obtain u' where "r = Ok u'" "for_each ys f w1 = (Ok u, w')"
    by (cases r) (auto simp: act_simps)
  with Cons run show ?case by auto
qed simp

lemma executePhase_loop:
  assumes "range_ok E"
  obtains ord where "set ord = fst ` set (buildDependencyGraph (up_Components ph))"
    and "executePhase E g ph ri completed w =
      for_each (topologicalSort ord (buildDependencyGraph (up_Components ph))) (phase_step E g ph ri completed) w"
proof
  let ?ord = "h_range (host E) (w_log w) (map fst (buildDependencyGraph (up_Components ph)))"
  show "set ?ord = fst ` set (buildDependencyGraph (up_Components ph))"
    using assms by (simp add: range_ok_def ranges_keys_set)
  show "executePhase E g ph ri completed w =
      for_each (topologicalSort ?ord (buildDependencyGraph (up_Components ph))) (phase_step E g ph ri completed) w"
    by (simp add: executePhase_def Let_def act_simps range_map_def)
qed

lemma executePhase_Ok_deps:
  assumes "range_ok E" and "executePhase E g ph ri completed w = (Ok u, w')"
    and "findComponent (up_Components ph) (uc_Name c) = Some c"
  shows "set (uc_DependsOn c) \<subseteq> completed"
proof -
  let ?G = "buildDependencyGraph (up_Components ph)"
  obtain ord where keys: "set ord = fst ` set ?G"
    and loop: "for_each (topologicalSort ord ?G) (phase_step E g ph ri completed) w = (Ok u, w')"
    using executePhase_loop [OF assms(1), of ph g ri completed w] assms(2) by metis
  have "uc_Name c \<in> fst ` set ?G"
    using findComponent_Some [OF assms(3)] by (auto simp: buildDependencyGraph_keys)
  then have "uc_Name c \<in> set (topologicalSort ord ?G)"
    using component_sort.sort_keys [OF keys] by blast
  from for_each_Ok_all [OF loop this] phase_step_Ok_deps assms(3) show ?thesis by blast
qed

text \<open>
  A phase with a dependency between two of its own components always fails: \<open>completed\<close>
  is filled after a phase only, so the topological order inside a phase has no effect. The
  statement covers every dependency that no earlier phase has completed.
\<close>

theorem intra_phase_dependency_fails:
  assumes "range_ok E" and "c \<in> set (up_Components ph)" and "distinct (map uc_Name (up_Components ph))"
    and "d \<in> set (uc_DependsOn c)" and "d \<notin> completed"
  shows "\<not> (\<exists>w'. executePhase E g ph ri completed w = (Ok (), w'))"
proof
  assume "\<exists>w'. executePhase E g ph ri completed w = (Ok (), w')"
  moreover have "findComponent (up_Components ph) (uc_Name c) = Some c"
    using assms(2,3) by (rule findComponent_distinct)
  ultimately show False using executePhase_Ok_deps [OF assms(1)] assms(4,5) by blast
qed

definition ex_component :: "string \<Rightarrow> string list \<Rightarrow> UpgradeComponent" where
  "ex_component n deps = \<lparr>uc_Name = n, uc_Manifests = [], uc_Scripts = [], uc_Blocking = True,
     uc_DependsOn = deps, uc_HealthCheck = None\<rparr>"

definition ex_phase :: "UpgradeComponent list \<Rightarrow> UpgradePhase" where
  "ex_phase cs = \<lparr>up_Name = ''core'', up_Order = 1, up_Blocking = True, up_RollingUpdate = None, up_Components = cs\<rparr>"

lemma intra_phase_witness:
  "\<not> (\<exists>w'. executePhase quiet_env (NewGraphExecutor (NewOCIPuller []) None)
      (ex_phase [ex_component ''etcd'' [], ex_component ''apiserver'' [''etcd'']]) zero_ReleaseImage {} empty_world = (Ok (), w'))"
  by (rule intra_phase_dependency_fails [of _ "ex_component ''apiserver'' [''etcd'']" _ "''etcd''"])
     (simp_all add: ex_phase_def ex_component_def)

section \<open>The order of phases\<close>

definition phase_names :: "UpgradePhase list \<Rightarrow> string set" where
  "phase_names phs = (\<Union>ph\<in>set phs. uc_Name ` set (up_Components ph))"

lemma phase_names_simps [simp]:
  "phase_names [] = {}" "phase_names (ph # phs) = uc_Name ` set (up_Components ph) \<union> phase_names phs"
  by (auto simp: phase_names_def)

lemma execute_phases_append:
  "execute_phases E g ri (pre @ post) C w =
     andthen (execute_phases E g ri pre C) (\<lambda>_. execute_phases E g ri post (C \<union> phase_names pre)) w"
proof (induction pre arbitrary: C w)
  case Nil
  then show ?case by (simp add: act_simps)
next
  case (Cons ph pre)
  obtain r w1 where "executePhase E g ph ri C w = (r, w1)" by fastforce
  with Cons show ?case
    by (cases r) (auto simp: act_simps Let_def Un_assoc split: prod.split res.split)
qed

lemma execute_phases_Err:
  assumes "execute_phases E g ri phs C w = (Err e, w')"
  shows "\<exists>pre ph post w1 e'. phs = pre @ ph # post \<and> up_Blocking ph
    \<and> execute_phases E g ri pre C w = (Ok (), w1)
    \<and> executePhase E g ph ri (C \<union> phase_names pre) w1 = (Err e', w')
    \<and> e = wrap (''phase '' @ up_Name ph @ '' failed: '') e'"
  using assms
proof (induction phs arbitrary: C w)
  case Nil
  then show ?case by (simp add: act_simps)
next
  case (Cons ph phs)
  obtain r w1 where run: "executePhase E g ph ri C w = (r, w1)" by fastforce
  show ?case
  proof (cases "(\<exists>e'. r = Err e') \<and> up_Blocking ph")
    case True
    then obtain e' where "r = Err e'" by blast
    with True run Cons.prems show ?thesis
      by (intro exI [of _ "[]"] exI [of _ ph] exI [of _ phs]) (auto simp: act_simps Let_def)
  next
    case False
    let ?C = "C \<union> set (map uc_Name (up_Components ph))"
    have step: "execute_phases E g ri (ph # ps) C w = execute_phases E g ri ps ?C w1" if "\<forall>s. r \<noteq> Panic s" for ps
      using False run that by (cases r) (auto simp: act_simps Let_def)
    have np: "\<forall>s. r \<noteq> Panic s" using run Cons.prems by (auto simp: act_simps)
    from step [OF np] Cons.prems have "execute_phases E g ri phs ?C w1 = (Err e, w')" by simp
    from Cons.IH [OF this] obtain pre q post w2 e' where
      *: "phs = pre @ q # post" "up_Blocking q" "execute_phases E g ri pre ?C w1 = (Ok (), w2)"
        "executePhase E g q ri (?C \<union> phase_names pre) w2 = (Err e', w')"
        "e = wrap (''phase '' @ up_Name q @ '' failed: '') e'"
      by blast
    have C: "C \<union> phase_names (ph # pre) = ?C \<union> phase_names pre" by auto
    show ?thesis
      by (rule exI [of _ "ph # pre"], rule exI [of _ q], rule exI [of _ post], rule exI [of _ w2], rule exI [of _ e'])
         (unfold C, use * step [OF np, of pre] in simp)
  qed
qed

lemma execute_phases_Ok:
  assumes "execute_phases E g ri phs C w = (Ok u, w')" and "phs = pre @ ph # post" and "up_Blocking ph"
  shows "\<exists>w1 w2. executePhase E g ph ri (C \<union> phase_names pre) w1 = (Ok (), w2)"
proof -
  obtain r1 w1 where pre: "execute_phases E g ri pre C w = (r1, w1)" by fastforce
  obtain r2 w2 where ph: "executePhase E g ph ri (C \<union> phase_names pre) w1 = (r2, w2)" by fastforce
  from assms pre ph have "r2 = Ok ()"
    by (cases r1; cases r2) (auto simp: execute_phases_append act_simps Let_def)
  with ph show ?thesis by blast
qed

text \<open>
  What a run of phases does, independent of the loop: each phase in turn is executed with the
  names of the components before it as completed, and succeeds or fails without blocking.
\<close>

inductive phases_passed ::
  "env \<Rightarrow> GraphExecutor \<Rightarrow> ReleaseImage \<Rightarrow> UpgradePhase list \<Rightarrow> string set \<Rightarrow> world \<Rightarrow> world \<Rightarrow> bool"
  for E g ri where
  no_phase: "phases_passed E g ri [] C w w"
| passed: "executePhase E g ph ri C w = (Ok (), w1) \<Longrightarrow>
    phases_passed E g ri phs (C \<union> uc_Name ` set (up_Components ph)) w1 w' \<Longrightarrow>
    phases_passed E g ri (ph # phs) C w w'"
| not_blocking: "executePhase E g ph ri C w = (Err e, w1) \<Longrightarrow> \<not> up_Blocking ph \<Longrightarrow>
    phases_passed E g ri phs (C \<union> uc_Name ` set (up_Components ph)) w1 w' \<Longrightarrow>
    phases_passed E g ri (ph # phs) C w w'"

inductive_simps phases_passed_simps [simp]:
  "phases_passed E g ri [] C w w'"
  "phases_passed E g ri (ph # phs) C w w'"

lemma execute_phases_Ok_iff:
  "execute_phases E g ri phs C w = (Ok (), w') \<longleftrightarrow> phases_passed E g ri phs C w w'"
proof (induction phs arbitrary: C w)
  case Nil
  show ?case by (auto simp: act_simps)
next
  case (Cons ph phs)
  obtain r w1 where "executePhase E g ph ri C w = (r, w1)" by fastforce
  then show ?case by (cases r) (auto simp: act_simps Let_def Cons.IH)
qed

lemma execute_phases_Err_iff:
  "execute_phases E g ri phs C w = (Err e, w') \<longleftrightarrow>
     (\<exists>pre ph post w1 e'. phs = pre @ ph # post \<and> up_Blocking ph \<and> phases_passed E g ri pre C w w1
        \<and> executePhase E g ph ri (C \<union> phase_names pre) w1 = (Err e', w')
        \<and> e = wrap (''phase '' @ up_Name ph @ '' failed: '') e')"
proof
  assume "execute_phases E g ri phs C w = (Err e, w')"
  from execute_phases_Err [OF this] show "\<exists>pre ph post w1 e'. phs = pre @ ph # post \<and> up_Blocking ph
      \<and> phases_passed E g ri pre C w w1 \<and> executePhase E g ph ri (C \<union> phase_names pre) w1 = (Err e', w')
      \<and> e = wrap (''phase '' @ up_Name ph @ '' failed: '') e'"
    unfolding execute_phases_Ok_iff .
next
  assume "\<exists>pre ph post w1 e'. phs = pre @ ph # post \<and> up_Blocking ph
      \<and> phases_passed E g ri pre C w w1 \<and> executePhase E g ph ri (C \<union> phase_names pre) w1 = (Err e', w')
      \<and> e = wrap (''phase '' @ up_Name ph @ '' failed: '') e'"
  then show "execute_phases E g ri phs C w = (Err e, w')"
    unfolding execute_phases_Ok_iff [symmetric] by (auto simp: execute_phases_append act_simps)
qed

text \<open>
  (C18) The upgrade graph is fail-stop, in the order of the phases. The phases of the graph are
  taken by \<open>Order\<close>; the run succeeds exactly when every phase in turn succeeds or fails without
  blocking, and it returns an error exactly when, after such phases, a blocking phase fails: the
  error is that phase's with its name, and the state is the one that phase left.
\<close>

theorem ExecuteUpgradeGraph_fail_stop:
  assumes "sorts_by up_Order srt" and "phs = srt (ris_UpgradeGraph (ri_Spec ri))"
  shows "sorted (map up_Order phs) \<and> mset phs = mset (ris_UpgradeGraph (ri_Spec ri))
    \<and> (ExecuteUpgradeGraph E srt g cv ri w = (Ok (), w') \<longleftrightarrow> phases_passed E g ri phs {} w w')
    \<and> (ExecuteUpgradeGraph E srt g cv ri w = (Err e, w') \<longleftrightarrow>
        (\<exists>pre ph post w1 e'. phs = pre @ ph # post \<and> up_Blocking ph \<and> phases_passed E g ri pre {} w w1
           \<and> executePhase E g ph ri (phase_names pre) w1 = (Err e', w')
           \<and> e = wrap (''phase '' @ up_Name ph @ '' failed: '') e'))"
proof -
  have "sorted (map up_Order phs)" "mset phs = mset (ris_UpgradeGraph (ri_Spec ri))"
    using assms(1) unfolding assms(2) sorts_by_def by auto
  moreover have "ExecuteUpgradeGraph E srt g cv ri = execute_phases E g ri phs {}"
    by (simp add: ExecuteUpgradeGraph_def assms(2))
  ultimately show ?thesis
    using execute_phases_Ok_iff [of E g ri phs "{}"] execute_phases_Err_iff [of E g ri phs "{}"] by simp
qed

text \<open>
  When a graph completes, every dependency of a component of a blocking phase, whose
  components have different names, belongs to a phase that stands strictly before it.
\<close>

theorem completed_graph_dependencies_earlier:
  assumes "range_ok E" and "ExecuteUpgradeGraph E srt g cv ri w = (Ok (), w')"
    and "srt (ris_UpgradeGraph (ri_Spec ri)) = pre @ ph # post" and "up_Blocking ph"
    and "c \<in> set (up_Components ph)" and "distinct (map uc_Name (up_Components ph))"
  shows "set (uc_DependsOn c) \<subseteq> phase_names pre"
proof -
  from execute_phases_Ok [OF assms(2) [unfolded ExecuteUpgradeGraph_def] assms(3,4)] obtain w1 w2
    where "executePhase E g ph ri (phase_names pre) w1 = (Ok (), w2)" by auto
  from executePhase_Ok_deps [OF assms(1) this] findComponent_distinct [OF assms(5,6)]
  show ?thesis by blast
qed

definition ex_release :: "UpgradePhase list \<Rightarrow> ReleaseImage" where
  "ex_release phs = zero_ReleaseImage\<lparr>ri_Spec := zero_ReleaseImageSpec\<lparr>ris_Image := ''r/a:1'', ris_UpgradeGraph := phs\<rparr>\<rparr>"

definition ex_executor :: GraphExecutor where
  "ex_executor = NewGraphExecutor (NewOCIPuller []) None"

lemmas ex_graph_defs = ex_release_def ex_executor_def NewGraphExecutor_def ex_phase_def ex_component_def zero_defs

lemma ex_sorts:
  "topologicalSort [''etcd''] (buildDependencyGraph [ex_component ''etcd'' []]) = [''etcd'']"
  "topologicalSort [''api''] (buildDependencyGraph [ex_component ''api'' [''etcd'']]) = [''etcd'', ''api'']"
  by (simp_all add: topologicalSort_def buildDependencyGraph_def node_graph_def topo_init_def topo_start_def
      topo_finish_def graph_deps_def ex_component_def)

lemma ex_two_phases:
  "ExecuteUpgradeGraph quiet_env (sort_key up_Order) ex_executor zero_ClusterVersion
     (ex_release [ex_phase [ex_component ''etcd'' []], ex_phase [ex_component ''api'' [''etcd'']]]) empty_world
   = (Ok (), empty_world)"
  using ex_sorts
  by (simp add: ExecuteUpgradeGraph_def executePhase_def phase_step_def executeComponent_def act_simps
      range_map_def quiet_host_def buildDependencyGraph_def ex_graph_defs)

lemma graph_dependencies_witness:
  "set (uc_DependsOn (ex_component ''api'' [''etcd''])) \<subseteq> phase_names [ex_phase [ex_component ''etcd'' []]]"
  by (rule completed_graph_dependencies_earlier [OF range_ok_quiet ex_two_phases,
        of "[ex_phase [ex_component ''etcd'' []]]" "ex_phase [ex_component ''api'' [''etcd'']]" "[]"])
     (simp_all add: ex_graph_defs)

lemma ex_one_phase_fails:
  "ExecuteUpgradeGraph quiet_env (sort_key up_Order) ex_executor zero_ClusterVersion
     (ex_release [ex_phase [ex_component ''api'' [''etcd'']]]) empty_world
   = (Err (wrap ''phase core failed: '' (Errorf ''dependency etcd not completed for component api'')), empty_world)"
  using ex_sorts
  by (simp add: ExecuteUpgradeGraph_def executePhase_def phase_step_def act_simps
      range_map_def quiet_host_def buildDependencyGraph_def ex_graph_defs)

lemma fail_stop_witness:
  "\<exists>ph e'. up_Blocking ph \<and> executePhase quiet_env ex_executor ph
      (ex_release [ex_phase [ex_component ''api'' [''etcd'']]]) {} empty_world = (Err e', empty_world)
    \<and> ExecuteUpgradeGraph quiet_env (sort_key up_Order) ex_executor zero_ClusterVersion
        (ex_release [ex_phase [ex_component ''api'' [''etcd'']]]) empty_world
      = (Err (wrap (''phase '' @ up_Name ph @ '' failed: '') e'), empty_world)"
proof -
  let ?ri = "ex_release [ex_phase [ex_component ''api'' [''etcd'']]]"
  from ExecuteUpgradeGraph_fail_stop [OF sorts_by_sort_key refl, where ri = ?ri and cv = zero_ClusterVersion] ex_one_phase_fails
  obtain pre ph post w1 e' where *: "[ex_phase [ex_component ''api'' [''etcd'']]] = pre @ ph # post" "up_Blocking ph"
    "phases_passed quiet_env ex_executor ?ri pre {} empty_world w1"
    "executePhase quiet_env ex_executor ph ?ri (phase_names pre) w1 = (Err e', empty_world)"
    "wrap ''phase core failed: '' (Errorf ''dependency etcd not completed for component api'')
      = wrap (''phase '' @ up_Name ph @ '' failed: '') e'"
    by (auto simp: ex_release_def)
  from *(1) have "pre = []" by (cases pre) auto
  with * ex_one_phase_fails show ?thesis by (intro exI [of _ ph] exI [of _ e']) simp
qed

section \<open>The executor of the ClusterVersion controller\<close>

text \<open>The controller builds its executor by \<open>NewGraphExecutor(client, puller, nil)\<close>.\<close>

definition graph_event :: "event \<Rightarrow> bool" where
  "graph_event ev \<longleftrightarrow> puller_event ev \<or> (\<exists>p. ev = EvReadFile p) \<or> (\<exists>d. ev = EvPatch (KManifest d))"

lemma graph_event_simps [simp]:
  "graph_event (EvStat p)" "graph_event (EvReadFile p)" "graph_event (EvPatch (KManifest d))"
  by (simp_all add: graph_event_def puller_event_def)

lemma emits_applyManifests: "emits graph_event (applyManifests E g ms ri)"
proof -
  have decode: "emits graph_event (check (decodeYAML E data) f (\<lambda>obj. check (api_write E (EvPatch obj)) f' ret))" for data f f'
    by (cases "h_decode_yaml (host E) data")
       (auto simp: decodeYAML_def check_apply emits_def ret_apply fail_apply api_write_def command_def query_def
          split: sum.split option.split)
  have body: "emits graph_event (applyManifest E dir m)" for dir m
    unfolding applyManifest_def Let_def stat_missing_def os_ReadFile_def by (intro emits_rules decode) simp_all
  show ?thesis
    unfolding applyManifests_def
    by (intro emits_check emits_for_each body emits_mono [OF emits_dirs(1)]) (simp add: graph_event_def)
qed

lemma emits_executeScripts_nil: "gx_sshManager g = None \<Longrightarrow> emits graph_event (executeScripts E g ss ri)"
  unfolding executeScripts_def executeScript_def Let_def stat_missing_def os_ReadFile_def
  by (auto intro!: emits_check emits_for_each emits_if emits_query emits_fail emits_ret
      emits_mono [OF emits_dirs(2)] simp: graph_event_def puller_event_def)

lemma emits_executeComponent_nil:
  "gx_sshManager g = None \<Longrightarrow> gx_healthChecker g = None \<Longrightarrow> emits graph_event (executeComponent E g c ri)"
  unfolding executeComponent_def
  by (intro emits_check emits_when emits_applyManifests emits_executeScripts_nil) (auto intro: emits_ret split: option.split)

lemma emits_execute_phases_nil:
  assumes "gx_sshManager g = None" and "gx_healthChecker g = None"
  shows "emits graph_event (execute_phases E g ri phs C)"
proof -
  have step: "emits graph_event (phase_step E g ph ri C n)" for ph C n
    unfolding phase_step_def by (intro emits_rules emits_executeComponent_nil [OF assms])
  have phase: "emits graph_event (executePhase E g ph ri C)" for ph C
    unfolding executePhase_def Let_def by (intro emits_rules step)
  show ?thesis
    by (induction phs arbitrary: C) (auto simp: Let_def intro!: emits_rules phase)
qed

text \<open>
  With the executor that the ClusterVersion controller builds, an upgrade graph never runs
  one of its scripts on any node and never performs a health check: besides the pull of the
  image and the reading of files, its only effects are the manifests it applies.
\<close>

theorem controller_graph_runs_no_script:
  "emits (\<lambda>ev. puller_event ev \<or> (\<exists>p. ev = EvReadFile p) \<or> (\<exists>d. ev = EvPatch (KManifest d)))
     (ExecuteUpgradeGraph E srt (NewGraphExecutor puller None) cv ri)"
proof -
  have "emits graph_event (ExecuteUpgradeGraph E srt (NewGraphExecutor puller None) cv ri)"
    unfolding ExecuteUpgradeGraph_def by (rule emits_execute_phases_nil) (simp_all add: NewGraphExecutor_def)
  then show ?thesis by (rule emits_mono) (simp add: graph_event_def)
qed

section \<open>Manifests\<close>

text \<open>The objects that a part of the log wrote to the API server, in order.\<close>

definition patched :: "log \<Rightarrow> kobj list" where
  "patched l = List.map_filter (\<lambda>ev. case ev of EvPatch k \<Rightarrow> Some k | _ \<Rightarrow> None) l"

lemma patched_simps [simp]:
  "patched [] = []" "patched (EvPatch k # l) = k # patched l" "patched (EvStat p # l) = patched l"
  "patched (EvReadFile p # l) = patched l" "patched (l1 @ l2) = patched l1 @ patched l2"
  by (simp_all add: patched_def List.map_filter_def)

lemma applyManifest_Ok:
  assumes "applyManifest E dir m w = (Ok u, w')"
  shows "\<exists>data. w' = w\<lparr>w_log := w_log w @ [EvStat (path_Join [dir, m]), EvReadFile (path_Join [dir, m]), EvPatch (KManifest data)]\<rparr>
    \<and> h_read_file (host E) (w_log w @ [EvStat (path_Join [dir, m])]) (path_Join [dir, m]) = Inr data"
  using assms
  by (auto simp: applyManifest_def Let_def stat_missing_def os_ReadFile_def decodeYAML_def api_write_def
      command_def query_def act_simps split: if_splits sum.splits option.splits)

text \<open>\<open>file_seen E path data\<close>: some read of the file in the run was answered with \<open>data\<close>.\<close>

definition file_seen :: "env \<Rightarrow> string \<Rightarrow> string \<Rightarrow> bool" where
  "file_seen E path data \<longleftrightarrow> (\<exists>l. h_read_file (host E) l path = Inr data)"

lemma apply_loop_Ok:
  assumes "for_each ms (applyManifest E dir) w = (Ok u, w')"
  shows "\<exists>es datas. w_log w' = w_log w @ es \<and> patched es = map KManifest datas
    \<and> list_all2 (\<lambda>m data. file_seen E (path_Join [dir, m]) data) ms datas"
  using assms
proof (induction ms arbitrary: w)
  case Nil
  then show ?case by (auto simp: act_simps)
next
  case (Cons m ms)
  obtain r w1 where run: "applyManifest E dir m w = (r, w1)" by fastforce
  with Cons.prems obtain u1 where r: "r = Ok u1" and rest: "for_each ms (applyManifest E dir) w1 = (Ok u, w')"
    by (cases r) (auto simp: act_simps)
  from applyManifest_Ok run r obtain data where
    w1: "w_log w1 = w_log w @ [EvStat (path_Join [dir, m]), EvReadFile (path_Join [dir, m]), EvPatch (KManifest data)]"
    and data: "file_seen E (path_Join [dir, m]) data"
    by (fastforce simp: file_seen_def)
  from Cons.IH [OF rest] obtain es datas where
    "w_log w' = w_log w1 @ es" "patched es = map KManifest datas"
    "list_all2 (\<lambda>m data. file_seen E (path_Join [dir, m]) data) ms datas" by blast
  with w1 data show ?case
    by (intro exI [of _ "[EvStat (path_Join [dir, m]), EvReadFile (path_Join [dir, m]), EvPatch (KManifest data)] @ es"]
        exI [of _ "data # datas"]) simp
qed

lemma patched_puller: "list_all puller_event es \<Longrightarrow> patched es = []"
  by (induction es) (auto simp: patched_def List.map_filter_def puller_event_def split: event.splits)

text \<open>
  Manifests are applied completely and in their order: when \<open>applyManifests\<close> succeeds, the
  objects written to the API server are exactly the contents of the listed files, one per file.
\<close>

theorem applyManifests_in_order:
  assumes "applyManifests E g ms ri w = (Ok (), w')"
  shows "\<exists>dir es datas. w_log w' = w_log w @ es \<and> patched es = map KManifest datas
    \<and> list_all2 (\<lambda>m data. file_seen E (path_Join [dir, m]) data) ms datas"
proof -
  obtain r w1 where dir: "GetManifestDir E (gx_puller g) (ris_Image (ri_Spec ri)) w = (r, w1)" by fastforce
  with assms obtain d where "r = Ok d" and loop: "for_each ms (applyManifest E d) w1 = (Ok (), w')"
    by (cases r) (auto simp: applyManifests_def act_simps)
  from emitsD [OF emits_dirs(1) dir] obtain es0 where "w_log w1 = w_log w @ es0" "patched es0 = []"
    using patched_puller by blast
  moreover from apply_loop_Ok [OF loop] obtain es datas where
    "w_log w' = w_log w1 @ es" "patched es = map KManifest datas"
    "list_all2 (\<lambda>m data. file_seen E (path_Join [d, m]) data) ms datas" by blast
  ultimately show ?thesis
    by (intro exI [of _ d] exI [of _ "es0 @ es"] exI [of _ datas]) simp
qed

lemma applyManifests_witness:
  "\<exists>w' es. applyManifests quiet_env ex_executor [''a.yaml'', ''b.yaml''] zero_ReleaseImage empty_world = (Ok (), w')
     \<and> w_log w' = es \<and> length (patched es) = 2"
proof -
  obtain w' where run: "applyManifests quiet_env ex_executor [''a.yaml'', ''b.yaml''] zero_ReleaseImage empty_world = (Ok (), w')"
    by (simp add: applyManifests_def applyManifest_def GetManifestDir_def pullImage_def Let_def stat_missing_def
        os_ReadFile_def decodeYAML_def api_write_def os_Stat_dir_def command_def query_def state_defs act_simps quiet_defs)
  from applyManifests_in_order [OF run] show ?thesis
    using run by (auto simp: empty_world_def list_all2_Cons1)
qed

section \<open>Scripts\<close>

text \<open>
  \<open>script_ran E path l0 l1\<close>: the file was read right after \<open>l0\<close>, then the nodes were listed,
  and on each of them the content ran with exit code 0 before \<open>l1\<close>.
\<close>

definition script_ran :: "env \<Rightarrow> string \<Rightarrow> log \<Rightarrow> log \<Rightarrow> bool" where
  "script_ran E path l0 l1 \<longleftrightarrow> (\<exists>content nodes l.
     h_read_file (host E) (l0 @ [EvStat path]) path = Inr content
     \<and> k_list_nodes (kube E) (l0 @ [EvStat path, EvReadFile path]) [] = Inr nodes
     \<and> l = l0 @ [EvStat path, EvReadFile path, EvList ''Node'' [] []]
     \<and> (\<forall>n\<in>set nodes. ran_ok E (node_Name n) content None l l1))"

lemma script_ran_append: "script_ran E path l0 l1 \<Longrightarrow> script_ran E path l0 (l1 @ l2)"
  unfolding script_ran_def by (blast intro: ran_ok_append)

lemma executeScript_Ok:
  assumes "pool_wf w" and "gx_sshManager g = Some sm" and "executeScript E g dir s w = (Ok u, w')"
  shows "pool_wf w' \<and> prefix (w_log w) (w_log w') \<and> script_ran E (path_Join [dir, s]) (w_log w) (w_log w')"
proof -
  let ?p = "path_Join [dir, s]"
  let ?l = "w_log w @ [EvStat ?p, EvReadFile ?p, EvList ''Node'' [] []]"
  from assms(2,3) obtain content nodes where
    content: "h_read_file (host E) (w_log w @ [EvStat ?p]) ?p = Inr content" and
    nodes: "k_list_nodes (kube E) (w_log w @ [EvStat ?p, EvReadFile ?p]) [] = Inr nodes" and
    run: "executeScript_on E sm content nodes (w\<lparr>w_log := ?l\<rparr>) = (Ok u, w')"
    by (auto simp: executeScript_def Let_def stat_missing_def os_ReadFile_def getTargetNodes_def List_nodes_def
        query_def act_simps split: if_splits sum.splits)
  from on_all_nodes_runs [OF _ run [unfolded executeScript_on_def]] assms(1)
  have "pool_wf w'" "grew ssh_only ?l w'" "\<forall>n\<in>set nodes. ran_ok E (node_Name n) content None ?l (w_log w')"
    by simp_all
  with content nodes show ?thesis
    unfolding script_ran_def by (auto simp: grew_def)
qed

lemma script_loop_Ok:
  assumes "pool_wf w" and "gx_sshManager g = Some sm" and "for_each ss (executeScript E g dir) w = (Ok u, w')"
  shows "pool_wf w' \<and> prefix (w_log w) (w_log w')
    \<and> (\<forall>s\<in>set ss. \<exists>l0. prefix (w_log w) l0 \<and> script_ran E (path_Join [dir, s]) l0 (w_log w'))"
  using assms(1,3)
proof (induction ss arbitrary: w)
  case Nil
  then show ?case by (auto simp: act_simps)
next
  case (Cons s ss)
  obtain r w1 where run: "executeScript E g dir s w = (r, w1)" by fastforce
  with Cons.prems obtain u1 where r: "r = Ok u1" and rest: "for_each ss (executeScript E g dir) w1 = (Ok u, w')"
    by (cases r) (auto simp: act_simps)
  note first = executeScript_Ok [OF Cons.prems(1) assms(2) run [unfolded r]]
  with Cons.IH [OF _ rest] have IH: "pool_wf w'" "prefix (w_log w1) (w_log w')"
    "\<forall>s\<in>set ss. \<exists>l0. prefix (w_log w1) l0 \<and> script_ran E (path_Join [dir, s]) l0 (w_log w')" by auto
  from first IH(2) have "script_ran E (path_Join [dir, s]) (w_log w) (w_log w')"
    by (auto elim!: prefixE dest: script_ran_append)
  with first IH show ?case by (auto intro: prefix_order.trans)
qed

lemma keeps_pool_dirs: "keeps_pool (GetScriptsDir E p img)"
proof -
  have "keeps_pool (os_Stat_dir d)" "keeps_pool (add_dir d)" for d
    by (auto simp: keeps_pool_def hoare_def os_Stat_dir_def state_defs pool_wf_def)
  then show ?thesis
    unfolding GetScriptsDir_def pullImage_def Let_def by (intro pool_rules)
qed

text \<open>
  With an SSH manager, a successful \<open>executeScripts\<close> has run every listed script, with the
  content its file had, on every node that was listed for it, each with exit code 0.
\<close>

theorem executeScripts_on_every_node:
  assumes "pool_wf w" and "gx_sshManager g = Some sm" and "executeScripts E g ss ri w = (Ok (), w')"
  shows "\<exists>dir. \<forall>s\<in>set ss. \<exists>l0. prefix (w_log w) l0 \<and> script_ran E (path_Join [dir, s]) l0 (w_log w')"
proof -
  obtain r w1 where dir: "GetScriptsDir E (gx_puller g) (ris_Image (ri_Spec ri)) w = (r, w1)" by fastforce
  with assms(3) obtain d where "r = Ok d" and loop: "for_each ss (executeScript E g d) w1 = (Ok (), w')"
    by (cases r) (auto simp: executeScripts_def act_simps)
  from emitsD [OF emits_dirs(2) dir] have "prefix (w_log w) (w_log w1)" by auto
  with script_loop_Ok [OF keeps_poolD [OF keeps_pool_dirs assms(1) dir] assms(2) loop] show ?thesis
    by (blast intro: prefix_order.trans)
qed

definition ex_nodes_env :: env where
  "ex_nodes_env = quiet_env\<lparr>kube := quiet_kube\<lparr>k_list_nodes := (\<lambda>l s. Inr [zero_node\<lparr>node_Name := ''n1''\<rparr>])\<rparr>\<rparr>"

lemma executeScripts_witness:
  "\<exists>w' l0 dir. executeScripts ex_nodes_env (WithSSHManager ex_executor (NewSSHManager 0)) [''up.sh''] zero_ReleaseImage empty_world = (Ok (), w')
     \<and> script_ran ex_nodes_env (path_Join [dir, ''up.sh'']) l0 (w_log w')"
proof -
  obtain w' where run: "executeScripts ex_nodes_env (WithSSHManager ex_executor (NewSSHManager 0)) [''up.sh'']
      zero_ReleaseImage empty_world = (Ok (), w')"
    by (simp add: executeScripts_def executeScript_def executeScript_on_def on_all_nodes_def GetScriptsDir_def pullImage_def
        Let_def stat_missing_def os_ReadFile_def getTargetNodes_def List_nodes_def os_Stat_dir_def command_def query_def
        state_defs act_simps quiet_defs ex_nodes_env_def WithSSHManager_def ex_executor_def NewGraphExecutor_def
        run_on_node_def Connect_def pooled_def dial_new_def Close_def ExecuteScript_def ExecuteCommand_def deref_def
        time_Now_def touch_def NewSSHManager_def zero_node_def)
  have "pool_wf empty_world" by (simp add: pool_wf_def pool_inv_def empty_world_def)
  from executeScripts_on_every_node [OF this _ run, of "NewSSHManager 0"] run show ?thesis
    by (auto simp: WithSSHManager_def)
qed

end
