(* ===== verification/Contracts.thy ===== *)
theory Contracts
  imports Ssh_Manager Zero_Values
begin

text \<open>
  Contracts of node operations. \<open>contract A m Q\<close> says of the action \<open>m\<close>, started with a
  well-formed connection pool: it keeps the pool well formed, it causes only events that
  satisfy \<open>A\<close>, it never panics, and if it returns \<open>x\<close> then \<open>Q x l0 l1\<close> holds of the logs before
  and after. The rules compose contracts along the control flow of the translations.
\<close>

lemma pool_wf_empty [simp]: "pool_wf empty_world"
  by (simp add: pool_wf_def pool_inv_def empty_world_def)

named_theorems contract_rules \<open>contracts of combinators and calls\<close>

definition contract :: "(event \<Rightarrow> bool) \<Rightarrow> 'a cact \<Rightarrow> ('a \<Rightarrow> log \<Rightarrow> log \<Rightarrow> bool) \<Rightarrow> bool" where
  "contract A m Q \<longleftrightarrow> (\<forall>w r w'. pool_wf w \<longrightarrow> m w = (r, w') \<longrightarrow>
     pool_wf w' \<and> grew A (w_log w) w' \<and> (\<forall>s. r \<noteq> Panic s) \<and> (\<forall>x. r = Ok x \<longrightarrow> Q x (w_log w) (w_log w')))"

lemma contractI:
  "(\<And>w r w'. pool_wf w \<Longrightarrow> m w = (r, w') \<Longrightarrow>
     pool_wf w' \<and> grew A (w_log w) w' \<and> (\<forall>s. r \<noteq> Panic s) \<and> (\<forall>x. r = Ok x \<longrightarrow> Q x (w_log w) (w_log w'))) \<Longrightarrow> contract A m Q"
  unfolding contract_def by blast

lemma contractD:
  assumes "contract A m Q" and "pool_wf w" and "m w = (r, w')"
  shows "pool_wf w'" and "grew A (w_log w) w'" and "\<forall>s. r \<noteq> Panic s" and "\<forall>x. r = Ok x \<longrightarrow> Q x (w_log w) (w_log w')"
  using assms unfolding contract_def by blast+

lemma grew_prefix: "grew A l w \<Longrightarrow> prefix l (w_log w)"
  by (auto simp: grew_def)

lemma contract_conseq:
  assumes "contract A m Q" and "\<And>x l0 l1. prefix l0 l1 \<Longrightarrow> Q x l0 l1 \<Longrightarrow> Q' x l0 l1" and "\<And>ev. A ev \<Longrightarrow> A' ev"
  shows "contract A' m Q'"
proof (rule contractI)
  fix w r w' assume "pool_wf w" and "m w = (r, w')"
  note c = contractD [OF assms(1) this]
  from c(2) assms(3) have "grew A' (w_log w) w'" by (rule grew_mono)
  with c assms(2) [OF grew_prefix [OF c(2)]]
  show "pool_wf w' \<and> grew A' (w_log w) w' \<and> (\<forall>s. r \<noteq> Panic s) \<and> (\<forall>x. r = Ok x \<longrightarrow> Q' x (w_log w) (w_log w'))"
    by blast
qed

lemma contract_weaken:
  "contract A m Q \<Longrightarrow> (\<And>x l0 l1. prefix l0 l1 \<Longrightarrow> Q x l0 l1 \<Longrightarrow> Q' x l0 l1) \<Longrightarrow> contract A m Q'"
  by (rule contract_conseq)

lemma contract_ret: "contract A (ret x) (\<lambda>y l0 l1. y = x \<and> l1 = l0)"
  by (auto simp: contract_def act_simps)

lemma contract_retI: "(\<And>l. Q x l l) \<Longrightarrow> contract A (ret x) Q"
  by (auto simp: contract_def act_simps)

lemma contract_fail: "contract A (fail e) Q"
  by (auto simp: contract_def act_simps)

lemma contract_query: "A ev \<Longrightarrow> contract A (query ev f) (\<lambda>x l0 l1. f l0 = Inr x \<and> l1 = l0 @ [ev])"
  by (auto simp: contract_def query_def split: sum.splits)

lemma contract_command: "A ev \<Longrightarrow> contract A (command ev f) (\<lambda>_ l0 l1. f l0 = None \<and> l1 = l0 @ [ev])"
  unfolding command_def by (rule contract_weaken [OF contract_query]) (auto split: option.splits)

lemma contract_write: "A ev \<Longrightarrow> contract A (api_write E ev) (\<lambda>_ l0 l1. l1 = l0 @ [ev])"
  unfolding api_write_def by (rule contract_weaken [OF contract_command]) auto

lemma contract_accepted: "A ev \<Longrightarrow> contract A (api_write E ev) (\<lambda>_ l0 l1. k_write (kube E) l0 ev = None \<and> l1 = l0 @ [ev])"
  unfolding api_write_def by (rule contract_command)

lemma contract_attempt:
  assumes "contract A m Q" and "\<And>x. contract A (k (Inr x)) (R x)" and "\<And>e. contract A (k (Inl e)) S"
  shows "contract A (attempt m k) (\<lambda>y l0 l1. (\<exists>x l. Q x l0 l \<and> prefix l l1 \<and> R x y l l1) \<or> (\<exists>l. prefix l0 l \<and> S y l l1))"
proof (rule contractI)
  fix w r w' assume wf: "pool_wf w" and run: "attempt m k w = (r, w')"
  obtain r1 w1 where m: "m w = (r1, w1)" by fastforce
  note c1 = contractD [OF assms(1) wf m]
  show "pool_wf w' \<and> grew A (w_log w) w' \<and> (\<forall>s. r \<noteq> Panic s) \<and> (\<forall>y. r = Ok y \<longrightarrow>
      (\<exists>x l. Q x (w_log w) l \<and> prefix l (w_log w') \<and> R x y l (w_log w')) \<or> (\<exists>l. prefix (w_log w) l \<and> S y l (w_log w')))"
  proof (cases r1)
    case (Ok x)
    with run m have k: "k (Inr x) w1 = (r, w')" by (simp add: attempt_apply)
    note c2 = contractD [OF assms(2) c1(1) k]
    from c1 c2 Ok grew_trans [OF c1(2) c2(2)] grew_prefix [OF c2(2)] show ?thesis by blast
  next
    case (Err e)
    with run m have k: "k (Inl e) w1 = (r, w')" by (simp add: attempt_apply)
    note c2 = contractD [OF assms(3) c1(1) k]
    from c1 c2 grew_trans [OF c1(2) c2(2)] grew_prefix [OF c1(2)] show ?thesis by blast
  qed (use c1 in auto)
qed

lemma contract_check:
  assumes "contract A m Q" and "\<And>x. contract A (k x) (R x)"
  shows "contract A (check m f k) (\<lambda>y l0 l1. \<exists>x l. Q x l0 l \<and> prefix l l1 \<and> R x y l l1)"
  unfolding check_def
  by (rule contract_weaken [OF contract_attempt [OF assms(1), where R = R and S = "\<lambda>_ _ _. False"]])
     (auto intro: assms(2) contract_fail)

lemma contract_if:
  "(b \<Longrightarrow> contract A m Q) \<Longrightarrow> (\<not> b \<Longrightarrow> contract A m' Q) \<Longrightarrow> contract A (if b then m else m') Q"
  by simp

lemma contract_when:
  "(b \<Longrightarrow> contract A m Q) \<Longrightarrow> contract A (when_act b m) (\<lambda>x l0 l1. if b then Q x l0 l1 else l1 = l0)"
  by (auto simp: when_act_def intro: contract_weaken [OF contract_ret])

lemma contract_for_each:
  assumes "\<And>x. x \<in> set xs \<Longrightarrow> contract A (f x) (\<lambda>_. Q x)"
  shows "contract A (for_each xs f) (\<lambda>_ l0 l1. \<forall>x\<in>set xs. \<exists>l l'. prefix l0 l \<and> prefix l' l1 \<and> Q x l l')"
  using assms
proof (induction xs)
  case Nil
  show ?case by (auto intro: contract_weaken [OF contract_ret])
next
  case (Cons x xs)
  have rest: "contract A (for_each xs f) (\<lambda>_ l0 l1. \<forall>x\<in>set xs. \<exists>l l'. prefix l0 l \<and> prefix l' l1 \<and> Q x l l')"
    using Cons by simp
  have pre: "contract A (f x) (\<lambda>_ l0 l1. Q x l0 l1 \<and> prefix l0 l1)"
    by (rule contract_weaken [OF Cons.prems]) auto
  show ?case
    unfolding for_each.simps
    by (rule contract_weaken [OF contract_check [OF pre, where R = "\<lambda>_ _ l0 l1. \<forall>x\<in>set xs. \<exists>l l'. prefix l0 l \<and> prefix l' l1 \<and> Q x l l'"]])
       (rule rest, auto, blast intro: prefix_order.trans)
qed

lemma contract_poll_n:
  assumes "contract A c Q"
  shows "contract A (poll_n n c) (\<lambda>_ l0 l1. \<exists>l. prefix l0 l \<and> Q True l l1)"
proof (induction n)
  case 0
  show ?case by (simp add: contract_fail)
next
  case (Suc n)
  have pre: "contract A c (\<lambda>b l0 l1. Q b l0 l1 \<and> prefix l0 l1)" by (rule contract_weaken [OF assms]) auto
  have k: "contract A (if b then ret () else poll_n n c)
      (\<lambda>_ l0 l1. if b then l1 = l0 else \<exists>l. prefix l0 l \<and> Q True l l1)" for b
    using Suc by (cases b) (auto intro: contract_weaken [OF contract_ret])
  show ?case
    unfolding poll_n.simps
    by (rule contract_weaken [OF contract_check [OF pre k]]) (auto split: if_splits intro: prefix_order.trans)
qed

lemma contract_Poll:
  assumes "poll_ok E" and "contract A c Q"
  shows "contract A (Poll E i t c) (\<lambda>_ l0 l1. \<exists>l. prefix l0 l \<and> Q True l l1)"
proof (rule contractI)
  fix w r w' assume wf: "pool_wf w" and run: "Poll E i t c w = (r, w')"
  from assms(1) obtain n where "Poll E i t c w = poll_n n c w" unfolding poll_ok_def Poll_def by blast
  with run have "poll_n n c w = (r, w')" by simp
  from contractD [OF contract_poll_n [OF assms(2), of n] wf this]
  show "pool_wf w' \<and> grew A (w_log w) w' \<and> (\<forall>s. r \<noteq> Panic s)
      \<and> (\<forall>x. r = Ok x \<longrightarrow> (\<exists>l. prefix (w_log w) l \<and> Q True l (w_log w')))" by blast
qed

lemma contract_run_on_node:
  assumes "\<And>ev. node_event n ev \<Longrightarrow> A ev"
  shows "contract A (run_on_node E sm n script ctx ferr xerr) (\<lambda>_ l0 l1. ran_ok E n script ctx l0 l1)"
proof (rule contractI)
  fix w r w' assume "pool_wf w" and "run_on_node E sm n script ctx ferr xerr w = (r, w')"
  from run_on_node_runs [OF this] assms
  show "pool_wf w' \<and> grew A (w_log w) w' \<and> (\<forall>s. r \<noteq> Panic s) \<and> (\<forall>x. r = Ok x \<longrightarrow> ran_ok E n script ctx (w_log w) (w_log w'))"
    by (blast intro: grew_mono)
qed

lemma contract_unit: "contract A m Q \<Longrightarrow> contract A (andthen m (\<lambda>_. ret ())) (\<lambda>_ l0 l1. \<exists>x. Q x l0 l1)"
  by (rule contract_weaken [OF contract_check [OF _ contract_ret]]) auto

lemma ran_ok_prefix:
  assumes "ran_ok E n script ctx l l'" and "prefix l0 l" and "prefix l' l1"
  shows "ran_ok E n script ctx l0 l1"
  using assms ran_ok_widen by (auto simp: prefix_def)

lemma ran_ok_appendD: "ran_ok E n script ctx (l0 @ m) l1 \<Longrightarrow> ran_ok E n script ctx l0 l1"
  using ran_ok_widen [of E n script ctx l0 m l1 "[]"] by simp

section \<open>Actions that may panic\<close>

text \<open>
  \<open>outcome m Q\<close> is what remains of a contract for code that may panic: the pool stays well
  formed, the log only grows, and a returned value satisfies \<open>Q\<close>.
\<close>

definition outcome :: "'a cact \<Rightarrow> ('a \<Rightarrow> log \<Rightarrow> log \<Rightarrow> bool) \<Rightarrow> bool" where
  "outcome m Q \<longleftrightarrow> (\<forall>w r w'. pool_wf w \<longrightarrow> m w = (r, w') \<longrightarrow>
     pool_wf w' \<and> prefix (w_log w) (w_log w') \<and> (\<forall>x. r = Ok x \<longrightarrow> Q x (w_log w) (w_log w')))"

lemma outcomeD:
  assumes "outcome m Q" and "pool_wf w" and "m w = (r, w')"
  shows "pool_wf w'" and "prefix (w_log w) (w_log w')" and "\<forall>x. r = Ok x \<longrightarrow> Q x (w_log w) (w_log w')"
  using assms unfolding outcome_def by blast+

lemma outcome_contract: "contract A m Q \<Longrightarrow> outcome m Q"
  unfolding outcome_def by (metis contractD grew_prefix)

lemma outcome_weaken:
  "outcome m Q \<Longrightarrow> (\<And>x l0 l1. prefix l0 l1 \<Longrightarrow> Q x l0 l1 \<Longrightarrow> Q' x l0 l1) \<Longrightarrow> outcome m Q'"
  unfolding outcome_def by blast

lemma outcome_retI: "(\<And>l. Q x l l) \<Longrightarrow> outcome (ret x) Q"
  by (auto simp: outcome_def act_simps)

lemma outcome_fail: "outcome (fail e) Q"
  by (auto simp: outcome_def act_simps)

lemma outcome_panic: "outcome (panic s) Q"
  by (auto simp: outcome_def act_simps)

lemma outcome_attempt:
  assumes "outcome m Q" and "\<And>x. outcome (k (Inr x)) (R x)" and "\<And>e. outcome (k (Inl e)) S"
  shows "outcome (attempt m k) (\<lambda>y l0 l1. (\<exists>x l. Q x l0 l \<and> prefix l0 l \<and> prefix l l1 \<and> R x y l l1) \<or> (\<exists>l. prefix l0 l \<and> S y l l1))"
  unfolding outcome_def
proof (intro allI impI)
  fix w r w' assume wf: "pool_wf w" and run: "attempt m k w = (r, w')"
  obtain r1 w1 where m: "m w = (r1, w1)" by fastforce
  note c1 = outcomeD [OF assms(1) wf m]
  show "pool_wf w' \<and> prefix (w_log w) (w_log w') \<and> (\<forall>y. r = Ok y \<longrightarrow>
      (\<exists>x l. Q x (w_log w) l \<and> prefix (w_log w) l \<and> prefix l (w_log w') \<and> R x y l (w_log w'))
      \<or> (\<exists>l. prefix (w_log w) l \<and> S y l (w_log w')))"
  proof (cases r1)
    case (Ok x)
    with run m have k: "k (Inr x) w1 = (r, w')" by (simp add: attempt_apply)
    note c2 = outcomeD [OF assms(2) c1(1) k]
    from c1 c2 Ok show ?thesis by (blast intro: prefix_order.trans)
  next
    case (Err e)
    with run m have k: "k (Inl e) w1 = (r, w')" by (simp add: attempt_apply)
    note c2 = outcomeD [OF assms(3) c1(1) k]
    from c1 c2 show ?thesis by (blast intro: prefix_order.trans)
  next
    case (Panic s)
    with run m c1 show ?thesis by (auto simp: attempt_apply)
  qed
qed

lemma outcome_check:
  assumes "outcome m Q" and "\<And>x. outcome (k x) (R x)"
  shows "outcome (check m f k) (\<lambda>y l0 l1. \<exists>x l. Q x l0 l \<and> prefix l0 l \<and> prefix l l1 \<and> R x y l l1)"
  unfolding check_def
  by (rule outcome_weaken [OF outcome_attempt [OF assms(1), where R = R and S = "\<lambda>_ _ _. False"]])
     (auto intro: assms(2) outcome_fail)

lemma outcome_then:
  assumes "outcome m (\<lambda>_ _ _. True)" and "\<And>x. outcome (k x) Q"
    and "\<And>y l0 l l1. prefix l0 l \<Longrightarrow> Q y l l1 \<Longrightarrow> Q y l0 l1"
  shows "outcome (check m f k) Q"
  by (rule outcome_weaken [OF outcome_check [OF assms(1,2)]]) (blast intro: assms(3))

lemma outcome_first:
  assumes "outcome m Q" and "\<And>x. outcome (k x) (\<lambda>_ _ _. True)" and "\<And>x y l0 l l1. Q x l0 l \<Longrightarrow> prefix l l1 \<Longrightarrow> Q' y l0 l1"
  shows "outcome (check m f k) Q'"
  by (rule outcome_weaken [OF outcome_check [OF assms(1,2)]]) (blast intro: assms(3))

lemma outcome_for_each:
  assumes "\<And>x. x \<in> set xs \<Longrightarrow> outcome (f x) (\<lambda>_ _ _. True)"
  shows "outcome (for_each xs f) (\<lambda>_ _ _. True)"
  using assms
proof (induction xs)
  case (Cons x xs)
  show ?case unfolding for_each.simps by (rule outcome_then) (use Cons in auto)
qed (simp add: outcome_retI)

lemma outcome_when:
  "(b \<Longrightarrow> outcome m Q) \<Longrightarrow> outcome (when_act b m) (\<lambda>x l0 l1. if b then Q x l0 l1 else l1 = l0)"
  by (auto simp: when_act_def intro: outcome_retI)

lemma outcome_query: "outcome (query ev f) (\<lambda>x l0 l1. f l0 = Inr x \<and> l1 = l0 @ [ev])"
  by (rule outcome_contract [OF contract_query [where A = "\<lambda>_. True"]]) simp

lemma outcome_write: "outcome (api_write E ev) (\<lambda>_ l0 l1. l1 = l0 @ [ev])"
  by (rule outcome_contract [OF contract_write [where A = "\<lambda>_. True"]]) simp

lemma outcome_any: "outcome m Q \<Longrightarrow> outcome m (\<lambda>_ _ _. True)"
  by (rule outcome_weaken) simp_all

end
