(* ===== verification/Node_Upgrade.thy ===== *)
theory Node_Upgrade
  imports Contracts
begin

text \<open>
  What the two node upgraders share: the configuration records of
  \<open>modules/cvo/internal/upgrader/control_plane_upgrader.go\<close>, draining, uncordoning and
  verifying a node, and the installation strategy of a binary. Metrics and the clock
  reads that only feed them are not part of the model.
\<close>

section \<open>Configuration\<close>

record KCPConfig =
  kcp_Enabled :: bool
  kcp_WaitForKCP :: bool

record DrainConfig =
  dr_Enabled :: bool
  dr_Timeout :: duration
  dr_IgnoreDaemonSets :: bool

record RollingUpdateConfig =
  rlu_MaxUnavailable :: int
  rlu_Drain :: DrainConfig
  rlu_Timeout :: duration

record EtcdBackupStorageConfig =
  ebs_Type :: string
  ebs_Retention :: int

record EtcdBackupConfig =
  eb_Enabled :: bool
  eb_Timeout :: duration
  eb_Storage :: EtcdBackupStorageConfig

record RollbackConfig =
  rbk_Enabled :: bool
  rbk_OnTimeout :: bool
  rbk_OnFailure :: bool

section \<open>Draining\<close>

definition daemon_pod :: "pod \<Rightarrow> bool" where
  "daemon_pod p \<longleftrightarrow> list_ex (\<lambda>k. k = ''DaemonSet'') (pod_OwnerKinds p)"

definition no_clientset :: error where
  "no_clientset = Errorf ''kubernetes clientset not initialized''"

definition evict_pod :: "env \<Rightarrow> pod \<Rightarrow> unit cact" where
  "evict_pod E p =
     (if daemon_pod p then ret ()
      else attempt (api_write E (EvEvict (pod_Namespace p) (pod_Name p))) (\<lambda>r. case r of
        Inl e \<Rightarrow> if \<not> IsTooManyRequests e
          then fail (wrap (''failed to evict pod '' @ pod_Namespace p @ ''/'' @ pod_Name p @ '': '') e) else ret ()
      | Inr _ \<Rightarrow> ret ()))"

definition drain_node :: "env \<Rightarrow> bool \<Rightarrow> duration \<Rightarrow> string \<Rightarrow> unit cact" where
  "drain_node E clientset timeout n =
     (if \<not> clientset then fail no_clientset
      else
        check (List_pods E (PodsOnNode n)) (wrap (''failed to list pods on node '' @ n @ '': '')) (\<lambda>pods.
        andthen (for_each pods (evict_pod E)) (\<lambda>_.
          Poll E (5 * second) timeout
            (andthen (List_pods E (PodsOnNode n)) (\<lambda>pods. ret (list_all daemon_pod pods))))))"

definition uncordon_node :: "env \<Rightarrow> bool \<Rightarrow> string \<Rightarrow> unit cact" where
  "uncordon_node E clientset n = (if \<not> clientset then fail no_clientset else api_write E (EvUncordon n))"

definition not_ready_condition :: "node \<Rightarrow> bool" where
  "not_ready_condition n = list_ex (\<lambda>(t, s). t = ''Ready'' \<and> s \<noteq> ''True'') (node_Conditions n)"

definition verify_node :: "env \<Rightarrow> string \<Rightarrow> unit cact" where
  "verify_node E n =
     check (Get_node E n) (wrap (''failed to get node '' @ n @ '': '')) (\<lambda>updatedNode.
       if not_ready_condition updatedNode then fail (Errorf (''node '' @ n @ '' is not Ready'')) else ret ())"

section \<open>Installation strategy\<close>

definition service_or :: "string \<Rightarrow> BinaryInstallStrategy \<Rightarrow> string" where
  "service_or dflt s = (if bis_ServiceName s \<noteq> [] then bis_ServiceName s else dflt)"

definition default_install :: BinaryInstallStrategy where
  "default_install = \<lparr>bis_Timeout = Some (5 * minute), bis_RetryCount = 3, bis_Method = ''package'', bis_ServiceName = ''containerd''\<rparr>"

definition install_strategy :: "BinaryComponent \<Rightarrow> BinaryInstallStrategy" where
  "install_strategy c = (case bc_InstallStrategy c of None \<Rightarrow> default_install | Some s \<Rightarrow> s)"

section \<open>Events of one node\<close>

text \<open>
  \<open>about_node n\<close>: what the upgrade of node \<open>n\<close> may do: SSH to that node, read it, list its
  pods, evict pods, uncordon it.
\<close>

definition about_node :: "string \<Rightarrow> event \<Rightarrow> bool" where
  "about_node n ev \<longleftrightarrow> node_event n ev \<or> ev = EvGet ''Node'' [] n \<or> ev = EvListPods (PodsOnNode n)
     \<or> ev = EvUncordon n \<or> (\<exists>ns p. ev = EvEvict ns p)"

lemma about_node_simps [simp]:
  "about_node n (EvGet ''Node'' [] n)" "about_node n (EvListPods (PodsOnNode n))" "about_node n (EvUncordon n)"
  "about_node n (EvEvict ns p)" "about_node n EvNow"
  by (simp_all add: about_node_def)

lemma about_node_session: "node_event n ev \<Longrightarrow> about_node n ev"
  by (simp add: about_node_def)

section \<open>Contracts\<close>

text \<open>
  \<open>drained E n l0 l1\<close>: the last event is a listing of the node's pods, answered with DaemonSet
  pods only.
\<close>

definition drained :: "env \<Rightarrow> string \<Rightarrow> log \<Rightarrow> log \<Rightarrow> bool" where
  "drained E n l0 l1 \<longleftrightarrow> (\<exists>l pods. prefix l0 l \<and> l1 = l @ [EvListPods (PodsOnNode n)]
     \<and> k_list_pods (kube E) l (PodsOnNode n) = Inr pods \<and> (\<forall>p\<in>set pods. daemon_pod p))"

lemma contract_evict_pod: "contract (about_node n) (evict_pod E p) (\<lambda>_ l0 l1. True)"
proof -
  have handle: "contract (about_node n) (case r of Inl e \<Rightarrow> if \<not> IsTooManyRequests e then fail (f e) else ret () | Inr _ \<Rightarrow> ret ())
      (\<lambda>_ l0 l1. True)" for r :: "error + unit" and f
    by (cases r) (simp_all add: contract_retI contract_fail)
  have "contract (about_node n) (attempt (api_write E (EvEvict (pod_Namespace p) (pod_Name p))) (\<lambda>r. case r of
      Inl e \<Rightarrow> if \<not> IsTooManyRequests e then fail (f e) else ret () | Inr _ \<Rightarrow> ret ())) (\<lambda>_ l0 l1. True)" for f
    by (rule contract_weaken [OF contract_attempt [OF contract_write handle handle]]) simp_all
  then show ?thesis unfolding evict_pod_def by (intro contract_if contract_retI TrueI)
qed

lemma contract_drain:
  assumes "poll_ok E"
  shows "contract (about_node n) (drain_node E clientset timeout n) (\<lambda>_. drained E n)"
proof -
  have list: "contract (about_node n) (List_pods E (PodsOnNode n))
      (\<lambda>pods l0 l1. k_list_pods (kube E) l0 (PodsOnNode n) = Inr pods \<and> l1 = l0 @ [EvListPods (PodsOnNode n)])"
    unfolding List_pods_def by (rule contract_query) simp
  have cond: "contract (about_node n) (andthen (List_pods E (PodsOnNode n)) (\<lambda>pods. ret (list_all daemon_pod pods)))
      (\<lambda>b l0 l1. \<exists>pods. k_list_pods (kube E) l0 (PodsOnNode n) = Inr pods \<and> l1 = l0 @ [EvListPods (PodsOnNode n)]
         \<and> b = list_all daemon_pod pods)"
    by (rule contract_weaken [OF contract_check [OF list contract_ret]]) auto
  have poll: "contract (about_node n) (Poll E (5 * second) timeout
      (andthen (List_pods E (PodsOnNode n)) (\<lambda>pods. ret (list_all daemon_pod pods)))) (\<lambda>_. drained E n)"
    by (rule contract_weaken [OF contract_Poll [OF assms cond]]) (auto simp: drained_def list_all_iff)
  have evict: "contract (about_node n) (for_each pods (evict_pod E)) (\<lambda>_ l0 l1. prefix l0 l1)" for pods
    by (rule contract_weaken [OF contract_for_each [where Q = "\<lambda>_ _ _. True"]]) (auto intro: contract_evict_pod)
  have tail: "contract (about_node n) (andthen (for_each pods (evict_pod E)) (\<lambda>_. Poll E (5 * second) timeout
      (andthen (List_pods E (PodsOnNode n)) (\<lambda>pods. ret (list_all daemon_pod pods))))) (\<lambda>_. drained E n)" for pods
    by (rule contract_weaken [OF contract_check [OF evict poll]])
       (auto simp: drained_def intro: prefix_order.trans)
  show ?thesis
    unfolding drain_node_def
    by (intro contract_if contract_fail, rule contract_weaken [OF contract_check [OF list tail]])
       (auto simp: drained_def intro: append_prefixD)
qed

lemma contract_uncordon:
  "contract (about_node n) (uncordon_node E clientset n) (\<lambda>_ l0 l1. l1 = l0 @ [EvUncordon n])"
  unfolding uncordon_node_def by (intro contract_if contract_fail contract_write) simp

text \<open>\<open>verified E n l0 l1\<close>: the node was read and no condition says that it is not ready.\<close>

definition verified :: "env \<Rightarrow> string \<Rightarrow> log \<Rightarrow> log \<Rightarrow> bool" where
  "verified E n l0 l1 \<longleftrightarrow> (\<exists>nd. k_get_node (kube E) l0 n = Inr nd \<and> \<not> not_ready_condition nd
     \<and> l1 = l0 @ [EvGet ''Node'' [] n])"

lemma contract_verify: "contract (about_node n) (verify_node E n) (\<lambda>_. verified E n)"
proof -
  have get: "contract (about_node n) (Get_node E n)
      (\<lambda>nd l0 l1. k_get_node (kube E) l0 n = Inr nd \<and> l1 = l0 @ [EvGet ''Node'' [] n])"
    unfolding Get_node_def by (rule contract_query) simp
  have test: "contract (about_node n) (if b then fail e else ret ()) (\<lambda>_ l0 l1. \<not> b \<and> l1 = l0)" for b e
    by (auto intro: contract_fail contract_weaken [OF contract_ret])
  show ?thesis
    unfolding verify_node_def by (rule contract_weaken [OF contract_check [OF get test]]) (auto simp: verified_def)
qed

text \<open>
  A drain that succeeds has emptied the node: the last listing of the node's pods showed
  DaemonSet pods only; and draining, whatever its result, touches nothing but that node's pods.
\<close>

theorem drain_node_correct:
  assumes "poll_ok E" and "pool_wf w" and "drain_node E clientset timeout n w = (r, w')"
  shows "grew (about_node n) (w_log w) w' \<and> (\<forall>s. r \<noteq> Panic s) \<and> (r = Ok () \<longrightarrow> drained E n (w_log w) (w_log w'))"
  using contractD [OF contract_drain [OF assms(1)] assms(2,3)] by blast

text \<open>
  The verification after a node upgrade does not check readiness: a node whose status has
  no \<open>Ready\<close> condition at all passes it, although the health checks before the upgrade reject
  such a node.
\<close>

theorem verify_node_accepts_unreported:
  assumes "k_get_node (kube E) (w_log w) n = Inr nd" and "\<forall>c\<in>set (node_Conditions nd). fst c \<noteq> ''Ready''"
  shows "fst (verify_node E n w) = Ok () \<and> \<not> node_ready nd"
proof -
  have "\<not> not_ready_condition nd" "\<not> node_ready nd"
    using assms(2) by (auto simp: not_ready_condition_def node_ready_def list_ex_iff)
  with assms(1) show ?thesis by (simp add: verify_node_def Get_node_def query_def act_simps)
qed

definition ex_pods_env :: "pod list \<Rightarrow> env" where
  "ex_pods_env pods = quiet_env\<lparr>kube := quiet_kube\<lparr>
     k_list_pods := (\<lambda>l s. Inr (if EvEvict ''default'' ''web'' \<in> set l then [] else pods)),
     k_get_node := (\<lambda>l n. Inr (zero_node\<lparr>node_Name := n\<rparr>))\<rparr>\<rparr>"

definition ex_pod :: pod where
  "ex_pod = \<lparr>pod_Name = ''web'', pod_Namespace = ''default'', pod_OwnerKinds = [''ReplicaSet''], pod_Phase = ''Running''\<rparr>"

lemma drain_node_witness:
  "\<exists>w'. drain_node (ex_pods_env [ex_pod]) True minute ''n1'' empty_world = (Ok (), w')
     \<and> drained (ex_pods_env [ex_pod]) ''n1'' [] (w_log w')"
proof -
  obtain w' where run: "drain_node (ex_pods_env [ex_pod]) True minute ''n1'' empty_world = (Ok (), w')"
    by (simp add: drain_node_def List_pods_def evict_pod_def daemon_pod_def Poll_def ex_pods_env_def ex_pod_def
        act_simps query_def command_def api_write_def numeral_3_eq_3 empty_world_def quiet_kube_def)
  have "poll_ok (ex_pods_env [ex_pod])" by (simp add: ex_pods_env_def)
  from drain_node_correct [OF this pool_wf_empty run] run show ?thesis by (simp add: empty_world_def)
qed

lemma verify_node_witness:
  "fst (verify_node (ex_pods_env []) ''n1'' empty_world) = Ok ()"
  using verify_node_accepts_unreported [of "ex_pods_env []" empty_world "''n1''"]
  by (simp add: ex_pods_env_def zero_node_def)

lemma quiet_run_on_node:
  assumes "ssh E = quiet_ssh" and "host E = quiet_host" and "w_pool w = []"
  shows "\<exists>w'. run_on_node E (NewSSHManager 0) n script ctx ferr xerr w
      = (Ok \<lparr>cr_Stdout = [], cr_Stderr = [], cr_ExitCode = 0\<rparr>, w') \<and> w_pool w' = []"
  using assms
  by (simp add: run_on_node_def Connect_def pooled_def dial_new_def Close_def ExecuteScript_def ExecuteCommand_def
      act_simps state_defs deref_def query_def command_def time_Now_def touch_def quiet_ssh_def quiet_host_def
      NewSSHManager_def delete_key_def)

lemma quiet_session:
  assumes "ssh E = quiet_ssh" and "host E = quiet_host" and "w_pool w = []"
  shows "\<exists>w'. andthen (run_on_node E (NewSSHManager 0) n script ctx ferr xerr) (\<lambda>_. ret ()) w = (Ok (), w') \<and> w_pool w' = []"
  using quiet_run_on_node [OF assms, of n script ctx ferr xerr] by (auto simp: act_simps)

lemma quiet_drain:
  assumes "host E = quiet_host" and "k_list_pods (kube E) = (\<lambda>l s. Inr [])"
  shows "drain_node E True t n w = (Ok (), w\<lparr>w_log := w_log w @ [EvListPods (PodsOnNode n), EvListPods (PodsOnNode n)]\<rparr>)"
  using assms by (simp add: drain_node_def List_pods_def Poll_def act_simps query_def numeral_3_eq_3)

lemma quiet_verify:
  assumes "k_get_node (kube E) = (\<lambda>l n. Inr (nd n))" and "\<not> not_ready_condition (nd n)"
  shows "verify_node E n w = (Ok (), w\<lparr>w_log := w_log w @ [EvGet ''Node'' [] n]\<rparr>)"
  using assms by (simp add: verify_node_def Get_node_def act_simps query_def)

end
