(* ===== verification/Rolling.thy ===== *)
theory Rolling
  imports Zero_Values
begin

text \<open>
  The rolling upgrade coordinator, \<open>modules/cvo/internal/upgrader/rolling_upgrade_coordinator.go\<close>.
  A batch starts one goroutine per node; each acquires the semaphore, calls the upgrade
  function, sends an error to the channel and releases the semaphore. \<open>batch_step\<close> is that as
  a step relation in which the accesses of up to \<open>maxConcurrent\<close> calls to the shared world
  interleave; send and release never block (the channel has room for every node of the batch).
  The only caller asks for a semaphore of size one (\<open>worker_node_upgrader.go\<close>, \<open>NewWorkerNodeUpgrader\<close>).
  \<open>executeBatch\<close> is the batch for that size: it makes the calls in the order \<open>h_sched\<close> in which the
  goroutines get the semaphore; the refinement theorem shows that every complete run of the step
  relation with a semaphore of one is such a run. Nothing is said of the world after a batch
  with a larger semaphore.
\<close>

section \<open>Definitions\<close>

record RollingUpgradeCoordinator =
  ro_maxUnavailable :: nat
  ro_maxConcurrent :: nat

definition NewRollingUpgradeCoordinator :: "int \<Rightarrow> int \<Rightarrow> RollingUpgradeCoordinator" where
  "NewRollingUpgradeCoordinator maxUnavailable maxConcurrent =
     \<lparr>ro_maxUnavailable = (if maxUnavailable \<le> 0 then 1 else nat maxUnavailable),
      ro_maxConcurrent = (if maxConcurrent \<le> 0 then 1 else nat maxConcurrent)\<rparr>"

text \<open>
  The loop \<open>for i := 0; i < len(nodes); i += maxUnavailable\<close>; the constructor never gives a
  step of zero, for which the loop would not end.
\<close>

function batches_from :: "nat \<Rightarrow> 'a list \<Rightarrow> nat \<Rightarrow> 'a list list" where
  "batches_from m nodes i =
     (if m = 0 \<or> length nodes \<le> i then []
      else (let end = (if i + m > length nodes then length nodes else i + m)
            in take (end - i) (drop i nodes) # batches_from m nodes (i + m)))"
  by pat_completeness auto

termination batches_from
  by (relation "measure (\<lambda>(m, nodes, i). length nodes - i)") auto

declare batches_from.simps [simp del]

definition createBatches :: "RollingUpgradeCoordinator \<Rightarrow> 'a list \<Rightarrow> 'a list list" where
  "createBatches c nodes = batches_from (ro_maxUnavailable c) nodes 0"

definition node_failed :: "node \<Rightarrow> error \<Rightarrow> error" where
  "node_failed n e = wrap (''failed to upgrade node '' @ node_Name n @ '': '') e"

fun serial_batch :: "(node \<Rightarrow> unit cact) \<Rightarrow> node list \<Rightarrow> error list cact" where
  "serial_batch fn [] = ret []"
| "serial_batch fn (n # ns) =
     attempt (fn n) (\<lambda>r. andthen (serial_batch fn ns) (\<lambda>es.
       ret (case r of Inl e \<Rightarrow> node_failed n e # es | Inr _ \<Rightarrow> es)))"

definition batch_result :: "error list \<Rightarrow> unit cact" where
  "batch_result errs = (case errs of
      [] \<Rightarrow> ret ()
    | e # _ \<Rightarrow> fail (Errorf (show_nat (length errs) @ '' node(s) failed to upgrade: '' @ error_string e)))"

definition executeBatch :: "env \<Rightarrow> (node \<Rightarrow> unit cact) \<Rightarrow> node list \<Rightarrow> unit cact" where
  "executeBatch E fn batch =
     andthen (gets (\<lambda>w. h_sched (host E) (w_log w) (length batch))) (\<lambda>order.
     andthen (serial_batch fn (map ((!) batch) order)) batch_result)"

fun execute_batches :: "env \<Rightarrow> (node \<Rightarrow> unit cact) \<Rightarrow> nat \<Rightarrow> node list list \<Rightarrow> unit cact" where
  "execute_batches E fn i [] = ret ()"
| "execute_batches E fn i (batch # batches) =
     check (executeBatch E fn batch) (wrap (''batch '' @ show_nat (i + 1) @ '' failed: ''))
       (\<lambda>_. execute_batches E fn (i + 1) batches)"

definition ExecuteRollingUpgrade ::
  "env \<Rightarrow> RollingUpgradeCoordinator \<Rightarrow> node list \<Rightarrow> (node \<Rightarrow> unit cact) \<Rightarrow> unit cact" where
  "ExecuteRollingUpgrade E c nodes fn =
     (if length nodes = 0 then ret () else execute_batches E fn 0 (createBatches c nodes))"

section \<open>Batches\<close>

lemma batches_from_props:
  assumes "0 < m"
  shows "concat (batches_from m nodes i) = drop i nodes"
    and "\<forall>b\<in>set (batches_from m nodes i). b \<noteq> [] \<and> length b \<le> m"
proof -
  show "concat (batches_from m nodes i) = drop i nodes"
    using assms
  proof (induction m nodes i rule: batches_from.induct)
    case (1 m nodes i)
    show ?case
    proof (cases "length nodes \<le> i")
      case False
      let ?k = "(if i + m > length nodes then length nodes else i + m) - i"
      have "concat (batches_from m nodes i) = take ?k (drop i nodes) @ drop (i + m) nodes"
        using 1 False by (simp add: batches_from.simps [of m nodes i] Let_def)
      also have "drop (i + m) nodes = drop ?k (drop i nodes)"
        using False by auto
      finally show ?thesis by (simp only: append_take_drop_id)
    qed (simp add: batches_from.simps [of m nodes i])
  qed
  show "\<forall>b\<in>set (batches_from m nodes i). b \<noteq> [] \<and> length b \<le> m"
    using assms
  proof (induction m nodes i rule: batches_from.induct)
    case (1 m nodes i)
    then show ?case by (auto simp: batches_from.simps [of m nodes i] Let_def)
  qed
qed

text \<open>
  The batches partition the nodes in their order, and no batch has more nodes than may be
  unavailable at once; non-positive settings count as one.
\<close>

theorem createBatches_partition:
  "concat (createBatches (NewRollingUpgradeCoordinator maxUnavailable maxConcurrent) nodes) = nodes
   \<and> list_all (\<lambda>b. b \<noteq> [] \<and> length b \<le> nat (max 1 maxUnavailable))
       (createBatches (NewRollingUpgradeCoordinator maxUnavailable maxConcurrent) nodes)"
proof -
  let ?c = "NewRollingUpgradeCoordinator maxUnavailable maxConcurrent"
  have m: "0 < ro_maxUnavailable ?c" "ro_maxUnavailable ?c = nat (max 1 maxUnavailable)"
    by (auto simp: NewRollingUpgradeCoordinator_def max_def)
  then show ?thesis
    using batches_from_props [OF m(1), of nodes 0] by (simp add: createBatches_def list_all_iff)
qed

section \<open>The goroutines of a batch\<close>

text \<open>
  A call that is under way is a program: it has returned, or it is before its next access to
  the shared world, which changes the world and decides from what it saw there how to go on.
  \<open>run_prog\<close> is the call made alone. Sequencing and a single access are programs again, so every
  function of the model is one (\<open>run_bind_prog\<close>, \<open>run_access\<close>).
\<close>

datatype 'a prog = Finished "'a res" | Atom "world \<Rightarrow> world" "world \<Rightarrow> 'a prog"

primrec run_prog :: "'a prog \<Rightarrow> 'a cact" where
  "run_prog (Finished r) = (\<lambda>w. (r, w))"
| "run_prog (Atom u k) = (\<lambda>w. run_prog (k w) (u w))"

primrec bind_prog :: "'a prog \<Rightarrow> ('a \<Rightarrow> 'b prog) \<Rightarrow> 'b prog" where
  "bind_prog (Finished r) f =
     (case r of Ok x \<Rightarrow> f x | Err e \<Rightarrow> Finished (Err e) | Panic m \<Rightarrow> Finished (Panic m))"
| "bind_prog (Atom u k) f = Atom u (\<lambda>w. bind_prog (k w) f)"

definition access :: "'a cact \<Rightarrow> 'a prog" where
  "access m = Atom (snd \<circ> m) (\<lambda>w. Finished (fst (m w)))"

lemma run_access [simp]: "run_prog (access m) = m"
  by (simp add: access_def fun_eq_iff)

lemma run_bind_prog: "run_prog (bind_prog p f) = andthen (run_prog p) (\<lambda>x. run_prog (f x))"
  by (induction p) (auto simp: fun_eq_iff act_simps split: res.splits)

text \<open>
  A goroutine waits for the semaphore, runs its call, is leaving (its error is in the channel
  and it still holds the semaphore), or is done. Any goroutine whose turn it is makes the next
  step: up to \<open>c\<close> calls interleave, access by access. A call that panics takes the process down,
  so there is no step behind it.
\<close>

datatype goroutine = Waiting | Running "unit prog" | Leaving "unit res" | Done "unit res"

record bstate =
  b_gor :: "goroutine list"
  b_errs :: "error list"
  b_world :: world

fun holding :: "goroutine \<Rightarrow> bool" where
  "holding (Running p) = True"
| "holding (Leaving r) = True"
| "holding g = False"

definition running :: "bstate \<Rightarrow> nat" where
  "running s = length (filter holding (b_gor s))"

definition all_done :: "bstate \<Rightarrow> bool" where
  "all_done s \<longleftrightarrow> list_all (\<lambda>g. \<exists>r. g = Done r) (b_gor s)"

definition batch_init :: "'n list \<Rightarrow> world \<Rightarrow> bstate" where
  "batch_init batch w = \<lparr>b_gor = replicate (length batch) Waiting, b_errs = [], b_world = w\<rparr>"

inductive batch_step :: "nat \<Rightarrow> (node \<Rightarrow> unit prog) \<Rightarrow> node list \<Rightarrow> bstate \<Rightarrow> bstate \<Rightarrow> bool"
  for c fn batch where
  acquire: "j < length (b_gor s) \<Longrightarrow> b_gor s ! j = Waiting \<Longrightarrow> running s < c \<Longrightarrow>
    batch_step c fn batch s (s\<lparr>b_gor := (b_gor s)[j := Running (fn (batch ! j))]\<rparr>)"
| access_step: "j < length (b_gor s) \<Longrightarrow> b_gor s ! j = Running (Atom u k) \<Longrightarrow>
    batch_step c fn batch s
      (s\<lparr>b_gor := (b_gor s)[j := Running (k (b_world s))], b_world := u (b_world s)\<rparr>)"
| return_ok: "j < length (b_gor s) \<Longrightarrow> b_gor s ! j = Running (Finished (Ok x)) \<Longrightarrow>
    batch_step c fn batch s (s\<lparr>b_gor := (b_gor s)[j := Leaving (Ok x)]\<rparr>)"
| send_error: "j < length (b_gor s) \<Longrightarrow> b_gor s ! j = Running (Finished (Err e)) \<Longrightarrow>
    batch_step c fn batch s (s\<lparr>b_gor := (b_gor s)[j := Leaving (Err e)],
      b_errs := b_errs s @ [node_failed (batch ! j) e]\<rparr>)"
| release: "j < length (b_gor s) \<Longrightarrow> b_gor s ! j = Leaving r \<Longrightarrow>
    batch_step c fn batch s (s\<lparr>b_gor := (b_gor s)[j := Done r]\<rparr>)"

inductive_cases batch_stepE: "batch_step c fn batch s s'"

definition batch_reach :: "nat \<Rightarrow> (node \<Rightarrow> unit prog) \<Rightarrow> node list \<Rightarrow> world \<Rightarrow> bstate \<Rightarrow> bool" where
  "batch_reach c fn batch w s \<longleftrightarrow> (batch_step c fn batch)\<^sup>*\<^sup>* (batch_init batch w) s"

lemma batch_reach_induct [consumes 1, case_names init step]:
  assumes "batch_reach c fn batch w s" and "P (batch_init batch w)"
    and "\<And>s s'. batch_reach c fn batch w s \<Longrightarrow> P s \<Longrightarrow> batch_step c fn batch s s' \<Longrightarrow> P s'"
  shows "P s"
  using assms(1) unfolding batch_reach_def
  by (induction rule: rtranclp_induct) (auto simp: assms(2) intro: assms(3) [unfolded batch_reach_def])

lemma length_filter_update:
  "j < length xs \<Longrightarrow> length (filter P (xs[j := y])) + (if P (xs ! j) then 1 else 0)
     = length (filter P xs) + (if P y then 1 else 0)"
proof (induction xs arbitrary: j)
  case (Cons x xs)
  show ?case
  proof (cases j)
    case (Suc k)
    with Cons.prems Cons.IH [of k] show ?thesis by simp
  qed simp
qed simp

lemma batch_reach_length: "batch_reach c fn batch w s \<Longrightarrow> length (b_gor s) = length batch"
  by (induction rule: batch_reach_induct) (auto simp: batch_init_def elim: batch_stepE)

text \<open>
  The measure of a batch: the moves between the four states that are left, and among the
  accesses of a call the program that is left of it.
\<close>

fun moves :: "goroutine \<Rightarrow> nat" where
  "moves Waiting = 3"
| "moves (Running p) = 2"
| "moves (Leaving r) = 1"
| "moves (Done r) = 0"

definition steps_left :: "bstate \<Rightarrow> nat" where
  "steps_left s = sum_list (map moves (b_gor s))"

fun program_of :: "goroutine \<Rightarrow> unit prog" where
  "program_of (Running p) = p"
| "program_of g = Finished (Ok ())"

definition rest_of :: "('a prog \<times> 'a prog) set" where
  "rest_of = {(k w, Atom u k) | k u w. True}"

definition goroutine_order :: "(goroutine \<times> goroutine) set" where
  "goroutine_order = inv_image (less_than <*lex*> rest_of) (\<lambda>g. (moves g, program_of g))"

lemma wf_rest_of: "wf rest_of"
proof (rule wfUNIVI)
  fix P :: "'a prog \<Rightarrow> bool" and p
  assume *: "\<forall>p. (\<forall>q. (q, p) \<in> rest_of \<longrightarrow> P q) \<longrightarrow> P p"
  show "P p"
  proof (induction p)
    case (Finished r)
    with * show ?case by (auto simp: rest_of_def)
  next
    case (Atom u k)
    have "P q" if "(q, Atom u k) \<in> rest_of" for q
      using that Atom by (auto simp: rest_of_def)
    with * show ?case by blast
  qed
qed

lemma wf_goroutine_order: "wf goroutine_order"
  unfolding goroutine_order_def by (intro wf_inv_image wf_lex_prod wf_less_than wf_rest_of)

lemma sum_list_map_update:
  "j < length xs \<Longrightarrow> sum_list (map f (xs[j := y])) + f (xs ! j) = sum_list (map f xs) + (f y :: nat)"
  by (induction xs arbitrary: j) (auto split: nat.splits)

lemma batch_step_progress:
  assumes "batch_step c fn batch s s'"
  shows "steps_left s' < steps_left s
    \<or> steps_left s' = steps_left s \<and> (\<exists>j u k. j < length (b_gor s) \<and> b_gor s ! j = Running (Atom u k)
        \<and> s' = s\<lparr>b_gor := (b_gor s)[j := Running (k (b_world s))], b_world := u (b_world s)\<rparr>)"
  using assms
proof (cases rule: batch_step.cases)
  case (acquire j)
  with sum_list_map_update [of j "b_gor s" moves "Running (fn (batch ! j))"] show ?thesis by (simp add: steps_left_def)
next
  case (access_step j u k)
  with sum_list_map_update [of j "b_gor s" moves "Running (k (b_world s))"] show ?thesis
    by (auto simp: steps_left_def)
next
  case (return_ok j x)
  with sum_list_map_update [of j "b_gor s" moves "Leaving (Ok x)"] show ?thesis by (simp add: steps_left_def)
next
  case (send_error j e)
  with sum_list_map_update [of j "b_gor s" moves "Leaving (Err e)"] show ?thesis by (simp add: steps_left_def)
next
  case (release j r)
  with sum_list_map_update [of j "b_gor s" moves "Done r"] show ?thesis by (simp add: steps_left_def)
qed

lemma goroutine_order_intros:
  "moves g < moves h \<Longrightarrow> (g, h) \<in> goroutine_order"
  "(Running (k w), Running (Atom u k)) \<in> goroutine_order"
  by (auto simp: goroutine_order_def rest_of_def)

lemma update_listrel1:
  assumes "j < length xs" and "(y, xs ! j) \<in> r"
  shows "(xs[j := y], xs) \<in> listrel1 r"
proof -
  have "xs = (xs[j := y])[j := xs ! j]" "xs[j := y] ! j = y" "j < length (xs[j := y])" using assms(1) by simp_all
  with assms(2) show ?thesis unfolding listrel1_iff_update by metis
qed

lemma batch_step_order: "batch_step c fn batch s s' \<Longrightarrow> (b_gor s', b_gor s) \<in> listrel1 goroutine_order"
  by (elim batch_stepE) (simp_all add: update_listrel1 goroutine_order_intros)

lemma wf_batch_step: "wf {(s', s). batch_step c fn batch s s'}"
proof (rule wf_subset [OF wf_inv_image [of "listrel1 goroutine_order" b_gor]])
  show "wf (listrel1 goroutine_order)" by (simp add: wf_listrel1_iff wf_goroutine_order)
qed (auto intro: batch_step_order)

lemma running_update:
  "j < length (b_gor s) \<Longrightarrow> b_gor s' = (b_gor s)[j := g] \<Longrightarrow>
     running s' + (if holding (b_gor s ! j) then 1 else 0) = running s + (if holding g then 1 else 0)"
  by (simp add: running_def length_filter_update)

lemma batch_running_bound: "batch_reach c fn batch w s \<Longrightarrow> running s \<le> c"
proof (induction rule: batch_reach_induct)
  case init
  then show ?case by (simp add: batch_init_def running_def)
next
  case (step s s')
  from step.hyps(2) step.IH show ?case
    by (cases rule: batch_step.cases) (auto dest!: running_update [of _ s s'])
qed

text \<open>
  (C27) The semaphore limits concurrency: in every reachable state of a batch at most
  \<open>maxConcurrent\<close> nodes are being upgraded; every step brings the batch closer to its end: it
  decreases a measure that starts at three times the number of nodes, or is one access of a call
  that is under way, and there is no infinite run.
\<close>

theorem batch_concurrency_bounded:
  assumes "batch_reach c fn batch w s"
  shows "running s \<le> c \<and> running s \<le> length batch \<and> steps_left s \<le> 3 * length batch
    \<and> (\<forall>s'. batch_step c fn batch s s' \<longrightarrow> steps_left s' < steps_left s
        \<or> steps_left s' = steps_left s \<and> (\<exists>j u k. j < length (b_gor s) \<and> b_gor s ! j = Running (Atom u k)
            \<and> s' = s\<lparr>b_gor := (b_gor s)[j := Running (k (b_world s))], b_world := u (b_world s)\<rparr>))
    \<and> wf {(s', s). batch_step c fn batch s s'}"
proof -
  from assms have "steps_left s \<le> 3 * length batch"
  proof (induction rule: batch_reach_induct)
    case init
    then show ?case by (simp add: batch_init_def steps_left_def sum_list_replicate)
  next
    case (step s s')
    with batch_step_progress [OF step.hyps(2)] show ?case by auto
  qed
  moreover have "running s \<le> length batch"
    using batch_reach_length [OF assms] length_filter_le [of holding "b_gor s"] by (simp add: running_def)
  ultimately show ?thesis
    using batch_running_bound [OF assms] batch_step_progress [of c fn batch s] wf_batch_step by blast
qed

text \<open>
  A call that cannot panic: whatever the other goroutines do to the world between its accesses.
\<close>

primrec panic_free :: "'a prog \<Rightarrow> bool" where
  "panic_free (Finished r) = (\<forall>m. r \<noteq> Panic m)"
| "panic_free (Atom u k) = (\<forall>w. panic_free (k w))"

definition calls_fine :: "bstate \<Rightarrow> bool" where
  "calls_fine s \<longleftrightarrow> (\<forall>g\<in>set (b_gor s). panic_free (program_of g))"

lemma batch_step_fine:
  assumes "\<And>n. panic_free (fn n)" and "batch_step c fn batch s s'" and "calls_fine s"
  shows "calls_fine s'"
proof -
  have "panic_free (k w)" if "j < length (b_gor s)" "b_gor s ! j = Running (Atom u k)" for j u k w
    using assms(3) that nth_mem [of j "b_gor s"] unfolding calls_fine_def by fastforce
  with assms(2,3) show ?thesis
    by (cases rule: batch_step.cases)
      (auto simp: calls_fine_def assms(1) dest!: subsetD [OF set_update_subset_insert])
qed

lemma batch_stuck_done:
  assumes "0 < c" and "calls_fine s" and "\<not> (\<exists>s'. batch_step c fn batch s s')"
  shows "all_done s"
proof -
  have not_holding: "\<not> holding (b_gor s ! j)" if j: "j < length (b_gor s)" for j
  proof
    assume "holding (b_gor s ! j)"
    then consider u k where "b_gor s ! j = Running (Atom u k)" | r where "b_gor s ! j = Running (Finished r)"
      | r where "b_gor s ! j = Leaving r"
      by (metis holding.elims(2) prog.exhaust)
    then show False
    proof cases
      case (2 r)
      have "panic_free (Finished r)"
        using assms(2) nth_mem [OF j] 2 unfolding calls_fine_def by (metis program_of.simps(1))
      with 2 assms(3) return_ok [OF j] send_error [OF j] show False by (cases r) (auto, metis+)
    qed (use assms(3) access_step [OF j] release [OF j] in metis)+
  qed
  then have "filter holding (b_gor s) = []" by (metis filter_False in_set_conv_nth)
  then have "running s = 0" by (simp add: running_def)
  with assms(1,3) acquire have "b_gor s ! j \<noteq> Waiting" if "j < length (b_gor s)" for j
    using that by metis
  with not_holding have "\<exists>r. b_gor s ! j = Done r" if "j < length (b_gor s)" for j
    using that by (metis goroutine.exhaust holding.simps(1,2))
  then show ?thesis by (auto simp: all_done_def list_all_length)
qed

text \<open>
  A batch always comes to its end: with a semaphore of at least one and an upgrade function
  that does not panic, the goroutines have no infinite run, and whatever they have done so
  far, a state in which none of them can move is one in which all are done, and such a state
  is reached.
\<close>

theorem batch_terminates:
  assumes "0 < c" and "\<And>n. panic_free (fn n)" and "calls_fine s"
  shows "\<exists>t. (batch_step c fn batch)\<^sup>*\<^sup>* s t \<and> \<not> (\<exists>s'. batch_step c fn batch t s') \<and> all_done t"
  using assms(3)
proof (induction s rule: wf_induct_rule [OF wf_batch_step [of c fn batch]])
  case (1 s)
  show ?case
  proof (cases "\<exists>s'. batch_step c fn batch s s'")
    case True
    then obtain s' where s': "batch_step c fn batch s s'" ..
    with batch_step_fine [OF assms(2) s' 1(2)] 1(1) [of s'] show ?thesis
      by (blast intro: converse_rtranclp_into_rtranclp)
  next
    case False
    with batch_stuck_done [OF assms(1) 1(2) False] show ?thesis by blast
  qed
qed

section \<open>Every run of a batch\<close>

text \<open>The errors that the goroutines have put into the channel, node by node.\<close>

fun sent :: "node \<Rightarrow> goroutine \<Rightarrow> error list" where
  "sent n (Leaving (Err e)) = [node_failed n e]"
| "sent n (Done (Err e)) = [node_failed n e]"
| "sent n g = []"

definition all_sent :: "node list \<Rightarrow> goroutine list \<Rightarrow> error list" where
  "all_sent batch gs = concat (map2 sent batch gs)"

lemma all_sent_update:
  "j < length gs \<Longrightarrow> length gs = length batch \<Longrightarrow>
     mset (all_sent batch (gs[j := g])) + mset (sent (batch ! j) (gs ! j))
       = mset (all_sent batch gs) + mset (sent (batch ! j) g)"
proof (induction gs arbitrary: batch j)
  case (Cons a gs)
  then obtain n ns where "batch = n # ns" by (cases batch) auto
  with Cons show ?case by (cases j) (auto simp: all_sent_def ac_simps)
qed simp

lemma batch_errs_sent:
  assumes "batch_reach c fn batch w s"
  shows "mset (b_errs s) = mset (all_sent batch (b_gor s))"
  using assms
proof (induction rule: batch_reach_induct)
  case init
  have "all_sent batch (replicate (length batch) Waiting) = []" by (induction batch) (auto simp: all_sent_def)
  then show ?case by (simp add: batch_init_def)
next
  case (step s s')
  note update = all_sent_update [OF _ batch_reach_length [OF step.hyps(1)]]
  from step.hyps(2) show ?case
  proof (cases rule: batch_step.cases)
    case (acquire j)
    with step.IH update [of j "Running (fn (batch ! j))"] show ?thesis by simp
  next
    case (access_step j u k)
    with step.IH update [of j "Running (k (b_world s))"] show ?thesis by simp
  next
    case (return_ok j x)
    with step.IH update [of j "Leaving (Ok x)"] show ?thesis by simp
  next
    case (send_error j e)
    with step.IH update [of j "Leaving (Err e)"] show ?thesis by simp
  next
    case (release j r)
    with step.IH update [of j "Done r"] show ?thesis by (cases r) simp_all
  qed
qed

lemma serial_batch_snoc:
  "serial_batch fn (ns @ [n]) w =
     andthen (serial_batch fn ns) (\<lambda>es. attempt (fn n) (\<lambda>r.
       ret (es @ (case r of Inl e \<Rightarrow> [node_failed n e] | Inr _ \<Rightarrow> [])))) w"
proof (induction ns arbitrary: w)
  case Nil
  obtain r w1 where "fn n w = (r, w1)" by fastforce
  then show ?case by (cases r) (simp_all add: act_simps)
next
  case (Cons m ns)
  obtain r w1 where m: "fn m w = (r, w1)" by fastforce
  obtain r2 w2 where ns: "serial_batch fn ns w1 = (r2, w2)" by fastforce
  obtain r3 w3 where n: "fn n w2 = (r3, w3)" by fastforce
  from m ns n Cons show ?case
    by (cases r; cases r2; cases r3) (auto simp: act_simps)
qed

text \<open>
  With a semaphore of one the batch is, at every moment, a serial run of the calls that have
  returned, followed by the part of one call that has been made so far.
\<close>

fun returned :: "goroutine \<Rightarrow> bool" where
  "returned (Leaving r) = True"
| "returned (Done r) = True"
| "returned g = False"

definition serial_so_far :: "(node \<Rightarrow> unit prog) \<Rightarrow> node list \<Rightarrow> world \<Rightarrow> bstate \<Rightarrow> nat list \<Rightarrow> world \<Rightarrow> bool" where
  "serial_so_far fn batch w s order v \<longleftrightarrow>
     distinct order \<and> set order = {j. j < length batch \<and> returned (b_gor s ! j)}
     \<and> serial_batch (\<lambda>n. run_prog (fn n)) (map ((!) batch) order) w = (Ok (b_errs s), v)
     \<and> (\<forall>j p. j < length batch \<longrightarrow> b_gor s ! j = Running p \<longrightarrow>
          run_prog p (b_world s) = run_prog (fn (batch ! j)) v)
     \<and> ((\<forall>j p. j < length batch \<longrightarrow> b_gor s ! j \<noteq> Running p) \<longrightarrow> v = b_world s)"

lemma holding_unique:
  assumes "running s \<le> 1" and "i < length (b_gor s)" "holding (b_gor s ! i)"
    and "j < length (b_gor s)" "holding (b_gor s ! j)"
  shows "i = j"
proof -
  have "card {i. i < length (b_gor s) \<and> holding (b_gor s ! i)} \<le> Suc 0"
    using assms(1) by (simp add: running_def length_filter_conv_card)
  then show ?thesis using assms(2-5) by (subst (asm) card_le_Suc0_iff_eq) auto
qed

lemma serial_return:
  assumes so_far: "serial_so_far fn batch w s order v" and one: "running s \<le> 1"
    and len: "length (b_gor s) = length batch"
    and j: "j < length batch" "b_gor s ! j = Running (Finished r)" and r: "\<forall>m. r \<noteq> Panic m"
    and s': "s' = s\<lparr>b_gor := (b_gor s)[j := Leaving r],
      b_errs := b_errs s @ (case r of Err e \<Rightarrow> [node_failed (batch ! j) e] | _ \<Rightarrow> [])\<rparr>"
  shows "serial_so_far fn batch w s' (order @ [j]) (b_world s)"
proof -
  have alone: "b_gor s ! i \<noteq> Running p" if "i < length batch" "i \<noteq> j" for i p
    using holding_unique [OF one, of i j] that j len by auto
  have call: "run_prog (fn (batch ! j)) v = (r, b_world s)"
    using so_far j unfolding serial_so_far_def by (metis run_prog.simps(1))
  have "serial_batch (\<lambda>n. run_prog (fn n)) (map ((!) batch) (order @ [j])) w = (Ok (b_errs s'), b_world s)"
    using so_far call r unfolding serial_so_far_def
    by (cases r) (simp_all add: serial_batch_snoc act_simps s')
  moreover have "distinct (order @ [j])" "set (order @ [j]) = {i. i < length batch \<and> returned (b_gor s' ! i)}"
    using so_far j len unfolding serial_so_far_def s' by (auto simp: nth_list_update split: if_splits)
  moreover have "b_gor s' ! i \<noteq> Running p" if "i < length batch" for i p
    using alone [OF that] len that by (cases "i = j") (auto simp: s')
  ultimately show ?thesis unfolding serial_so_far_def by (auto simp: s')
qed

lemma serial_continue:
  assumes so_far: "serial_so_far fn batch w s order v" and len: "length (b_gor s) = length batch"
    and j: "j < length batch" "b_gor s' = (b_gor s)[j := g]" "b_errs s' = b_errs s"
    and alone: "\<And>i p. i < length batch \<Longrightarrow> i \<noteq> j \<Longrightarrow> b_gor s ! i \<noteq> Running p"
    and same: "returned g = returned (b_gor s ! j)"
    and call: "case g of Running p \<Rightarrow> run_prog p (b_world s') = run_prog (fn (batch ! j)) v | _ \<Rightarrow> v = b_world s'"
  shows "serial_so_far fn batch w s' order v"
proof -
  have at: "b_gor s' ! i = (if i = j then g else b_gor s ! i)" if "i < length batch" for i
    using that len j(2) by (simp add: nth_list_update)
  have "{i. i < length batch \<and> returned (b_gor s' ! i)} = {i. i < length batch \<and> returned (b_gor s ! i)}"
    using at same by (auto split: if_splits)
  moreover have "run_prog p (b_world s') = run_prog (fn (batch ! i)) v" if "i < length batch" "b_gor s' ! i = Running p" for i p
    using that at [OF that(1)] alone call by (auto split: if_splits)
  moreover have "v = b_world s'" if "\<forall>i p. i < length batch \<longrightarrow> b_gor s' ! i \<noteq> Running p"
    using that j(1) at call by (cases g) auto
  ultimately show ?thesis using so_far unfolding serial_so_far_def j(3) by simp
qed

lemma batch_reach_serial:
  assumes "batch_reach 1 fn batch w s"
  shows "\<exists>order v. serial_so_far fn batch w s order v"
  using assms
proof (induction rule: batch_reach_induct)
  case init
  have "serial_so_far fn batch w (batch_init batch w) [] w"
    by (auto simp: serial_so_far_def batch_init_def act_simps)
  then show ?case by blast
next
  case (step s s')
  then obtain order v where so_far: "serial_so_far fn batch w s order v" by blast
  note len = batch_reach_length [OF step.hyps(1)] and one = batch_running_bound [OF step.hyps(1)]
  from step.hyps(2) show ?case
  proof (cases rule: batch_step.cases)
    case (acquire j)
    then have "filter holding (b_gor s) = []" by (simp add: running_def)
    then have free: "\<not> holding (b_gor s ! i)" if "i < length batch" for i
      using that len by (metis filter_empty_conv nth_mem)
    then have "b_gor s ! i \<noteq> Running p" if "i < length batch" for i p using that by fastforce
    moreover from this so_far have "v = b_world s" unfolding serial_so_far_def by blast
    ultimately show ?thesis
      using serial_continue [OF so_far len, of j s' "Running (fn (batch ! j))"] acquire len by auto
  next
    case (access_step j u k)
    have "b_gor s ! i \<noteq> Running p" if "i < length batch" "i \<noteq> j" for i p
      using holding_unique [OF one, of i j] that access_step len by auto
    moreover have "run_prog (k (b_world s)) (u (b_world s)) = run_prog (fn (batch ! j)) v"
      using so_far access_step len unfolding serial_so_far_def by (metis run_prog.simps(2))
    ultimately show ?thesis
      using serial_continue [OF so_far len, of j s' "Running (k (b_world s))"] access_step len by auto
  next
    case (return_ok j x)
    with serial_return [OF so_far one len, of j "Ok x" s'] len show ?thesis by auto
  next
    case (send_error j e)
    with serial_return [OF so_far one len, of j "Err e" s'] len show ?thesis by auto
  next
    case (release j r)
    have "b_gor s ! i \<noteq> Running p" if "i < length batch" for i p
      using holding_unique [OF one, of i j] that release len by (cases "i = j") auto
    moreover from this so_far have "v = b_world s" unfolding serial_so_far_def by blast
    ultimately show ?thesis
      using serial_continue [OF so_far len, of j s' "Done r"] release len by auto
  qed
qed

text \<open>
  (C9) The goroutines refine the function \<open>executeBatch\<close> that the rest of the model uses.
  Whatever the semaphore's size and however the calls interleave, when all goroutines are done
  the channel holds exactly the errors of the calls that failed. With a semaphore of one, the
  only size that the code asks for, the accesses of different calls do not mix: world and
  errors are those of making the calls one after the other, each exactly once, in some order, and
  the batch ends as \<open>executeBatch\<close> does when the scheduler picks that order.
\<close>

theorem batch_runs_serialise:
  assumes "batch_reach c fn batch w s" and "all_done s"
  shows "mset (b_errs s) = mset (all_sent batch (b_gor s))
    \<and> (c = 1 \<longrightarrow> (\<exists>order. mset order = mset [0..<length batch]
        \<and> serial_batch (\<lambda>n. run_prog (fn n)) (map ((!) batch) order) w = (Ok (b_errs s), b_world s)
        \<and> (\<forall>E. h_sched (host E) (w_log w) (length batch) = order \<longrightarrow>
             executeBatch E (\<lambda>n. run_prog (fn n)) batch w = batch_result (b_errs s) (b_world s))))"
proof (intro conjI impI)
  show "mset (b_errs s) = mset (all_sent batch (b_gor s))" by (rule batch_errs_sent [OF assms(1)])
  assume "c = 1"
  with batch_reach_serial assms(1) obtain order v where so_far: "serial_so_far fn batch w s order v" by blast
  have finished: "\<exists>r. b_gor s ! j = Done r" if "j < length batch" for j
    using assms(2) that batch_reach_length [OF assms(1)] by (auto simp: all_done_def list_all_length)
  with so_far have v: "v = b_world s" unfolding serial_so_far_def by (metis goroutine.distinct(9))
  have "set order = {j. j < length batch \<and> returned (b_gor s ! j)}" and "distinct order"
    using so_far unfolding serial_so_far_def by auto
  with finished have "set order = set [0..<length batch]" by (auto, metis returned.simps(2))
  with \<open>distinct order\<close> have "mset order = mset [0..<length batch]"
    by (metis distinct_upt set_eq_iff_mset_eq_distinct)
  moreover have run: "serial_batch (\<lambda>n. run_prog (fn n)) (map ((!) batch) order) w = (Ok (b_errs s), b_world s)"
    using so_far v unfolding serial_so_far_def by simp
  moreover have "executeBatch E (\<lambda>n. run_prog (fn n)) batch w = batch_result (b_errs s) (b_world s)"
    if "h_sched (host E) (w_log w) (length batch) = order" for E
    using that run by (simp add: executeBatch_def act_simps state_defs)
  ultimately show "\<exists>order. mset order = mset [0..<length batch]
        \<and> serial_batch (\<lambda>n. run_prog (fn n)) (map ((!) batch) order) w = (Ok (b_errs s), b_world s)
        \<and> (\<forall>E. h_sched (host E) (w_log w) (length batch) = order \<longrightarrow>
             executeBatch E (\<lambda>n. run_prog (fn n)) batch w = batch_result (b_errs s) (b_world s))"
    by blast
qed

section \<open>A whole rolling upgrade\<close>

lemma serial_batch_errs:
  assumes "serial_batch fn ns w = (Ok es, w')"
  shows "length es \<le> length ns \<and> (es = [] \<longrightarrow> (\<forall>n\<in>set ns. \<exists>w1 w2. fn n w1 = (Ok (), w2)))"
  using assms
proof (induction ns arbitrary: w es)
  case Nil
  then show ?case by (simp add: act_simps)
next
  case (Cons n ns)
  obtain r w1 where n: "fn n w = (r, w1)" by fastforce
  obtain r2 w2 where ns: "serial_batch fn ns w1 = (r2, w2)" by fastforce
  show ?case
  proof (cases r2)
    case (Ok es')
    from n ns Ok Cons.prems have w2: "w2 = w'" by (cases r) (auto simp: act_simps)
    with ns Ok Cons.IH [of w1 es'] have IH: "length es' \<le> length ns"
      "es' = [] \<longrightarrow> (\<forall>n\<in>set ns. \<exists>w1 w2. fn n w1 = (Ok (), w2))" by simp_all
    from n ns Ok Cons.prems have "(\<exists>e. r = Err e \<and> es = node_failed n e # es') \<or> (r = Ok () \<and> es = es')"
      by (cases r) (auto simp: act_simps)
    with IH n show ?thesis by auto
  qed (use n ns Cons.prems in \<open>cases r; auto simp: act_simps\<close>)+
qed

lemma executeBatch_Ok:
  assumes "sched_ok E" and "executeBatch E fn batch w = (Ok u, w')" and "n \<in> set batch"
  shows "\<exists>w1 w2. fn n w1 = (Ok (), w2)"
proof -
  let ?ord = "h_sched (host E) (w_log w) (length batch)"
  have "set ?ord = {0..<length batch}"
    using assms(1) unfolding sched_ok_def by (metis atLeastLessThan_upt set_mset_mset)
  then have "set (map ((!) batch) ?ord) = set batch"
    by (auto simp: in_set_conv_nth image_iff) (metis atLeastLessThan_iff image_eqI less_eq_nat.simps(1))
  moreover obtain r1 w1 where run: "serial_batch fn (map ((!) batch) ?ord) w = (r1, w1)" by fastforce
  moreover from run assms(2) have "r1 = Ok []"
    by (cases r1) (auto simp: executeBatch_def act_simps state_defs batch_result_def split: list.splits)
  ultimately show ?thesis using serial_batch_errs [of fn _ w "[]" w1] assms(3) by metis
qed

lemma execute_batches_Ok:
  assumes "sched_ok E" and "execute_batches E fn i bs w = (Ok u, w')" and "n \<in> set (concat bs)"
  shows "\<exists>w1 w2. fn n w1 = (Ok (), w2)"
  using assms(2,3)
proof (induction bs arbitrary: i w)
  case (Cons b bs)
  obtain r w1 where b: "executeBatch E fn b w = (r, w1)" by fastforce
  with Cons.prems(1) obtain u' where r: "r = Ok u'" and rest: "execute_batches E fn (i + 1) bs w1 = (Ok u, w')"
    by (cases r) (auto simp: act_simps)
  show ?case
    using Cons.prems(2) Cons.IH [OF rest] executeBatch_Ok [OF assms(1) b [unfolded r]] by auto
qed simp

lemma execute_batches_Err:
  assumes "execute_batches E fn i bs w = (Err e, w')"
  shows "\<exists>pre b post w1 e'. bs = pre @ b # post \<and> execute_batches E fn i pre w = (Ok (), w1)
    \<and> executeBatch E fn b w1 = (Err e', w')
    \<and> e = wrap (''batch '' @ show_nat (i + length pre + 1) @ '' failed: '') e'"
  using assms
proof (induction bs arbitrary: i w)
  case Nil
  then show ?case by (simp add: act_simps)
next
  case (Cons b bs)
  obtain r w1 where b: "executeBatch E fn b w = (r, w1)" by fastforce
  show ?case
  proof (cases r)
    case (Ok u)
    with b Cons.prems have "execute_batches E fn (i + 1) bs w1 = (Err e, w')" by (simp add: act_simps)
    from Cons.IH [OF this] obtain pre q post w2 e' where *: "bs = pre @ q # post"
      "execute_batches E fn (i + 1) pre w1 = (Ok (), w2)" "executeBatch E fn q w2 = (Err e', w')"
      "e = wrap (''batch '' @ show_nat (i + 1 + length pre + 1) @ '' failed: '') e'" by blast
    have "execute_batches E fn i (b # pre) w = (Ok (), w2)" using * b Ok by (simp add: act_simps)
    with * show ?thesis
      by (intro exI [of _ "b # pre"] exI [of _ q] exI [of _ post] exI [of _ w2] exI [of _ e']) simp
  next
    case (Err e')
    with b Cons.prems show ?thesis
      by (intro exI [of _ "[]"] exI [of _ b] exI [of _ bs] exI [of _ w] exI [of _ e']) (simp add: act_simps)
  qed (use b Cons.prems in \<open>simp add: act_simps\<close>)
qed

lemma rolling_upgrade_Ok:
  assumes "sched_ok E" and "ExecuteRollingUpgrade E (NewRollingUpgradeCoordinator mu mc) nodes fn w = (Ok u, w')"
    and "n \<in> set nodes"
  shows "\<exists>w1 w2. fn n w1 = (Ok (), w2)"
proof -
  let ?c = "NewRollingUpgradeCoordinator mu mc"
  have m: "0 < ro_maxUnavailable ?c" by (simp add: NewRollingUpgradeCoordinator_def)
  have all: "concat (createBatches ?c nodes) = nodes"
    using batches_from_props(1) [OF m, of nodes 0] by (simp add: createBatches_def)
  from assms(2,3) have "execute_batches E fn 0 (createBatches ?c nodes) w = (Ok u, w')"
    by (auto simp: ExecuteRollingUpgrade_def split: if_splits)
  from execute_batches_Ok [OF assms(1) this] assms(3) show ?thesis unfolding all by simp
qed

text \<open>
  (C12) A rolling upgrade that succeeds has upgraded every node successfully; one that fails
  stops at a batch, names it, and never touches a node of a later batch: the final state is
  the one that batch left.
\<close>

theorem ExecuteRollingUpgrade_correct:
  assumes "sched_ok E" and "ExecuteRollingUpgrade E c nodes fn w = (r, w')"
    and "c = NewRollingUpgradeCoordinator maxUnavailable maxConcurrent"
  shows "case r of
      Ok _ \<Rightarrow> \<forall>n\<in>set nodes. \<exists>w1 w2. fn n w1 = (Ok (), w2)
    | Err e \<Rightarrow> \<exists>pre b post w1 e'. createBatches c nodes = pre @ b # post
        \<and> execute_batches E fn 0 pre w = (Ok (), w1) \<and> executeBatch E fn b w1 = (Err e', w')
        \<and> e = wrap (''batch '' @ show_nat (length pre + 1) @ '' failed: '') e'
    | Panic s \<Rightarrow> True"
proof (cases "nodes = []")
  case True
  with assms(2) show ?thesis by (auto simp: ExecuteRollingUpgrade_def act_simps)
next
  case False
  with assms(2) have run: "execute_batches E fn 0 (createBatches c nodes) w = (r, w')"
    by (simp add: ExecuteRollingUpgrade_def)
  have m: "0 < ro_maxUnavailable c" using assms(3) by (simp add: NewRollingUpgradeCoordinator_def)
  have all: "concat (createBatches c nodes) = nodes"
    using batches_from_props(1) [OF m, of nodes 0] by (simp add: createBatches_def)
  show ?thesis
  proof (cases r)
    case (Ok u)
    with execute_batches_Ok [OF assms(1), of fn 0 "createBatches c nodes" w u w'] run
    show ?thesis unfolding all by simp
  next
    case (Err e)
    with execute_batches_Err [of E fn 0 "createBatches c nodes"] run show ?thesis by auto
  qed simp
qed

text \<open>
  The interface of a rolling upgrade's client: an invariant of the world that the upgrade of one
  node keeps is kept by the whole rolling upgrade.
\<close>

locale rolling_client =
  fixes upgrade :: "'cfg \<Rightarrow> node \<Rightarrow> unit cact"
    and inv :: "'cfg \<Rightarrow> world \<Rightarrow> bool"
  assumes upgrade_keeps: "inv g w \<Longrightarrow> upgrade g n w = (r, w') \<Longrightarrow> inv g w' \<and> (\<forall>s. r \<noteq> Panic s)"
begin

lemma serial_keeps:
  "inv g w \<Longrightarrow> serial_batch (upgrade g) ns w = (r, w') \<Longrightarrow> inv g w' \<and> (\<exists>es. r = Ok es)"
proof (induction ns arbitrary: w r w')
  case Nil
  then show ?case by (auto simp: act_simps)
next
  case (Cons n ns)
  obtain r1 w1 where n: "upgrade g n w = (r1, w1)" by fastforce
  obtain r2 w2 where ns: "serial_batch (upgrade g) ns w1 = (r2, w2)" by fastforce
  from upgrade_keeps [OF Cons.prems(1) n] have "inv g w1" "\<forall>s. r1 \<noteq> Panic s" by auto
  with Cons.IH [OF _ ns] n ns Cons.prems(2) show ?case by (cases r1) (auto simp: act_simps)
qed

lemma batch_keeps:
  assumes "inv g w" and "executeBatch E (upgrade g) b w = (r, w')"
  shows "inv g w' \<and> (\<forall>s. r \<noteq> Panic s)"
proof -
  obtain r1 w1 where run: "serial_batch (upgrade g) (map ((!) b) (h_sched (host E) (w_log w) (length b))) w = (r1, w1)"
    by fastforce
  from serial_keeps [OF assms(1) run] run assms(2) show ?thesis
    by (auto simp: executeBatch_def act_simps state_defs batch_result_def split: list.splits)
qed

lemma batches_keep:
  "inv g w \<Longrightarrow> execute_batches E (upgrade g) i bs w = (r, w') \<Longrightarrow> inv g w' \<and> (\<forall>s. r \<noteq> Panic s)"
proof (induction bs arbitrary: i w)
  case Nil
  then show ?case by (auto simp: act_simps)
next
  case (Cons b bs)
  obtain r1 w1 where b: "executeBatch E (upgrade g) b w = (r1, w1)" by fastforce
  with Cons batch_keeps [OF Cons.prems(1) b] show ?case by (cases r1) (auto simp: act_simps)
qed

lemma rolling_keeps:
  "inv g w \<Longrightarrow> ExecuteRollingUpgrade E c nodes (upgrade g) w = (r, w') \<Longrightarrow> inv g w' \<and> (\<forall>s. r \<noteq> Panic s)"
  by (auto simp: ExecuteRollingUpgrade_def act_simps split: if_splits dest: batches_keep)

end

text \<open>Three nodes, two at a time, the second of which fails.\<close>

definition ex_node :: "string \<Rightarrow> node" where
  "ex_node n = zero_node\<lparr>node_Name := n\<rparr>"

definition ex_upgrade :: "node \<Rightarrow> unit cact" where
  "ex_upgrade n = (if node_Name n = ''n2'' then fail (Errorf ''boom'') else ret ())"

lemma sched_ok_quiet [simp]: "sched_ok quiet_env"
  by (simp add: sched_ok_def quiet_host_def)

lemma ex_batches:
  "createBatches (NewRollingUpgradeCoordinator 2 1) [a, b, c] = [[a, b], [c]]"
  by (simp add: createBatches_def NewRollingUpgradeCoordinator_def batches_from.simps)

lemma ex_rolling_run:
  "\<exists>e. ExecuteRollingUpgrade quiet_env (NewRollingUpgradeCoordinator 2 1) [ex_node ''n1'', ex_node ''n2'', ex_node ''n3'']
     ex_upgrade empty_world = (Err e, empty_world)"
  by (simp add: ExecuteRollingUpgrade_def ex_batches executeBatch_def act_simps state_defs quiet_host_def
      ex_upgrade_def ex_node_def zero_node_def batch_result_def upt_rec)

lemma ExecuteRollingUpgrade_witness:
  "\<exists>b e' w1. b \<in> set (createBatches (NewRollingUpgradeCoordinator 2 1) [ex_node ''n1'', ex_node ''n2'', ex_node ''n3''])
     \<and> executeBatch quiet_env ex_upgrade b w1 = (Err e', empty_world)"
proof -
  from ex_rolling_run obtain e where run:
    "ExecuteRollingUpgrade quiet_env (NewRollingUpgradeCoordinator 2 1) [ex_node ''n1'', ex_node ''n2'', ex_node ''n3'']
     ex_upgrade empty_world = (Err e, empty_world)" by blast
  from ExecuteRollingUpgrade_correct [OF sched_ok_quiet run refl] obtain pre b post w1 e' where
    "createBatches (NewRollingUpgradeCoordinator 2 1) [ex_node ''n1'', ex_node ''n2'', ex_node ''n3''] = pre @ b # post"
    "executeBatch quiet_env ex_upgrade b w1 = (Err e', empty_world)" by auto
  then show ?thesis by (metis in_set_conv_decomp)
qed

text \<open>
  Two nodes and a semaphore of one. Each call reads the world in one access and appends to the
  log it saw in the next, so that two calls that mixed would lose an entry; the call of the
  second node fails.
\<close>

definition ex_call :: "node \<Rightarrow> unit prog" where
  "ex_call n = Atom id (\<lambda>v. Atom (\<lambda>w. w\<lparr>w_log := w_log v @ [EvNow]\<rparr>)
     (\<lambda>_. Finished (if node_Name n = ''n2'' then Err (Errorf ''boom'') else Ok ())))"

definition ex_pair :: "node list" where
  "ex_pair = [ex_node ''n1'', ex_node ''n2'']"

definition ex_second_running :: bstate where
  "ex_second_running = \<lparr>b_gor = [Waiting, Running (ex_call (ex_node ''n2''))], b_errs = [], b_world = empty_world\<rparr>"

lemma ex_second_reached: "batch_reach 1 ex_call ex_pair empty_world ex_second_running"
  unfolding batch_reach_def
  using acquire [of 1 "batch_init ex_pair empty_world" 1 ex_call ex_pair]
  by (intro r_into_rtranclp) (simp add: batch_init_def ex_pair_def ex_second_running_def running_def)

lemma batch_concurrency_witness: "running ex_second_running = 1 \<and> running ex_second_running \<le> 1 \<and> steps_left ex_second_running \<le> 6"
  using batch_concurrency_bounded [OF ex_second_reached]
  by (simp add: running_def ex_second_running_def ex_pair_def)

lemma ex_batch_ends: "\<exists>t. batch_reach 1 ex_call ex_pair empty_world t \<and> all_done t"
proof -
  have "panic_free (ex_call n)" for n by (simp add: ex_call_def)
  moreover have "calls_fine (batch_init ex_pair empty_world)" by (simp add: calls_fine_def batch_init_def)
  ultimately show ?thesis
    using batch_terminates [of 1 ex_call "batch_init ex_pair empty_world" ex_pair] unfolding batch_reach_def by auto
qed

lemma ex_pair_orders:
  assumes "mset order = mset [0..<2]"
  shows "order = [0, 1] \<or> order = [1, 0]"
proof -
  from mset_eq_length [OF assms] have "length order = Suc (Suc 0)" by simp
  then obtain a b where "order = [a, b]" by (metis length_0_conv length_Suc_conv)
  moreover from mset_eq_setD [OF assms] have "set order = {0, 1}" by (simp add: upt_rec)
  ultimately show ?thesis by (auto simp: doubleton_eq_iff)
qed

lemma ex_serial:
  "order = [0, 1] \<or> order = [1, 0] \<Longrightarrow>
     serial_batch (\<lambda>n. run_prog (ex_call n)) (map ((!) ex_pair) order) empty_world
       = (Ok [node_failed (ex_node ''n2'') (Errorf ''boom'')], empty_world\<lparr>w_log := w_log empty_world @ [EvNow, EvNow]\<rparr>)"
  by (auto simp: act_simps ex_call_def ex_pair_def ex_node_def zero_node_def)

lemma batch_serialise_witness:
  "\<exists>s. batch_reach 1 ex_call ex_pair empty_world s \<and> all_done s
     \<and> b_errs s = [node_failed (ex_node ''n2'') (Errorf ''boom'')]
     \<and> b_world s = empty_world\<lparr>w_log := w_log empty_world @ [EvNow, EvNow]\<rparr>"
proof -
  from ex_batch_ends obtain t where t: "batch_reach 1 ex_call ex_pair empty_world t" "all_done t" by blast
  from batch_runs_serialise [OF t] obtain order where order: "mset order = mset [0..<length ex_pair]"
    "serial_batch (\<lambda>n. run_prog (ex_call n)) (map ((!) ex_pair) order) empty_world = (Ok (b_errs t), b_world t)" by blast
  have "length ex_pair = 2" by (simp add: ex_pair_def)
  with order(1) have "order = [0, 1] \<or> order = [1, 0]" by (intro ex_pair_orders) simp
  from ex_serial [OF this] order(2) have "b_errs t = [node_failed (ex_node ''n2'') (Errorf ''boom'')]"
    "b_world t = empty_world\<lparr>w_log := w_log empty_world @ [EvNow, EvNow]\<rparr>" by simp_all
  with t show ?thesis by blast
qed

end
