(* ===== verification/Worker_Upgrader.thy ===== *)
theory Worker_Upgrader
  imports Node_Upgrade Rolling
begin

text \<open>
  The worker node upgrader, \<open>modules/cvo/internal/upgrader/worker_node_upgrader.go\<close>: a rolling
  upgrade over the worker nodes; per node drain, the containerd script, the kubelet script,
  verification and uncordon. The scripts are the texts that the code sends. \<open>wnu_clientset\<close>
  tells whether the clientset is non-nil; the SSH manager is.
\<close>

section \<open>Definitions\<close>

record WorkerUpgradeConfig =
  wuc_RollingUpdate :: RollingUpdateConfig
  wuc_Rollback :: RollbackConfig

record WorkerNodeUpgrader =
  wnu_clientset :: bool
  wnu_sshManager :: SSHManager
  wnu_config :: WorkerUpgradeConfig

definition NewWorkerNodeUpgrader :: "bool \<Rightarrow> SSHManager \<Rightarrow> WorkerUpgradeConfig \<Rightarrow> WorkerNodeUpgrader" where
  "NewWorkerNodeUpgrader clientset sm config = \<lparr>wnu_clientset = clientset, wnu_sshManager = sm, wnu_config = config\<rparr>"

definition is_worker :: "node \<Rightarrow> bool" where
  "is_worker n \<longleftrightarrow> map_of (node_Labels n) ''node-role.kubernetes.io/control-plane'' = None"

definition getWorkerNodes :: "env \<Rightarrow> node list cact" where
  "getWorkerNodes E = andthen (List_nodes E []) (\<lambda>items. ret (filter is_worker items))"

definition worker_preUpgradeChecks :: "env \<Rightarrow> unit cact" where
  "worker_preUpgradeChecks E =
     andthen (getWorkerNodes E) (\<lambda>nodes.
       for_each nodes (\<lambda>n. if node_ready n then ret ()
         else fail (Errorf (''worker node '' @ node_Name n @ '' is not Ready''))))"

definition worker_drainNode :: "env \<Rightarrow> WorkerNodeUpgrader \<Rightarrow> node \<Rightarrow> unit cact" where
  "worker_drainNode E u n =
     drain_node E (wnu_clientset u) (dr_Timeout (rlu_Drain (wuc_RollingUpdate (wnu_config u)))) (node_Name n)"

definition worker_uncordonNode :: "env \<Rightarrow> WorkerNodeUpgrader \<Rightarrow> node \<Rightarrow> unit cact" where
  "worker_uncordonNode E u n = uncordon_node E (wnu_clientset u) (node_Name n)"

definition worker_containerd_script :: "string \<Rightarrow> string \<Rightarrow> string \<Rightarrow> string" where
  \<open>worker_containerd_script serviceName meth archive = script_lines [
    ''#!/bin/bash'',
    ''set -euo pipefail'',
    [],
    ''SERVICE_NAME="'' @ serviceName @ ''"'',
    [],
    ''echo "=== Upgrading containerd ==="'',
    [],
    ''# Stop service'',
    ''systemctl stop "$SERVICE_NAME"'',
    [],
    ''# Backup configuration'',
    ''cp -r /etc/containerd /etc/containerd.bak.$(date +%Y%m%d%H%M%S) 2>/dev/null || true'',
    [],
    ''# Upgrade based on install method'',
    ''case "'' @ meth @ ''" in'',
    ''    package)'',
    ''        apt-get update && apt-get install -y containerd || '' @ backslash,
    ''        dnf install -y containerd || '' @ backslash,
    ''        zypper install -y containerd'',
    ''        ;;'',
    ''    archive)'',
    ''        curl -fsSL "'' @ archive @ ''" -o /tmp/containerd.tar.gz'',
    ''        tar -C /usr/local -xzf /tmp/containerd.tar.gz'',
    ''        rm -f /tmp/containerd.tar.gz'',
    ''        ;;'',
    ''esac'',
    [],
    ''# Restore configuration'',
    ''if [ -d /etc/containerd.bak.* ]; then'',
    ''    LATEST_BAK=$(ls -d /etc/containerd.bak.* | tail -1)'',
    ''    cp -r "$LATEST_BAK"/* /etc/containerd/ 2>/dev/null || true'',
    ''fi'',
    [],
    ''# Start service'',
    ''systemctl daemon-reload'',
    ''systemctl enable --now "$SERVICE_NAME"'',
    [],
    ''# Verify service is running'',
    ''systemctl is-active "$SERVICE_NAME"'',
    [],
    ''echo "=== containerd upgrade completed ==="'']\<close>

definition worker_containerd_of :: "BinaryComponent \<Rightarrow> string" where
  "worker_containerd_of c =
     worker_containerd_script (service_or ''containerd'' (install_strategy c)) (bis_Method (install_strategy c))
       (bf_Archive (bc_Files c))"

definition script_timeout :: "duration option \<Rightarrow> duration option" where
  "script_timeout t = Some (case t of None \<Rightarrow> 10 * minute | Some d \<Rightarrow> d)"

definition worker_upgradeContainerd :: "env \<Rightarrow> WorkerNodeUpgrader \<Rightarrow> node \<Rightarrow> ReleaseImage \<Rightarrow> unit cact" where
  "worker_upgradeContainerd E u n ri =
     (let containerd = rc_Containerd (ris_Components (ri_Spec ri))
      in andthen (run_on_node E (wnu_sshManager u) (node_Name n) (worker_containerd_of containerd)
           (script_timeout (bis_Timeout (install_strategy containerd)))
           (wrap ''failed to execute containerd upgrade script: '')
           (\<lambda>r. Errorf (''containerd upgrade script failed: '' @ cr_Stderr r))) (\<lambda>_. ret ()))"

definition kubelet_script :: "string \<Rightarrow> string" where
  \<open>kubelet_script version = script_lines [
    ''#!/bin/bash'',
    ''set -euo pipefail'',
    [],
    ''K8S_VERSION="'' @ version @ ''"'',
    [],
    ''echo "=== Upgrading kubelet ==="'',
    [],
    ''# Stop kubelet'',
    ''systemctl stop kubelet'',
    [],
    ''# Backup configuration'',
    ''cp -r /etc/kubernetes /etc/kubernetes.bak.$(date +%Y%m%d%H%M%S) 2>/dev/null || true'',
    ''cp /var/lib/kubelet/config.yaml /var/lib/kubelet/config.yaml.bak 2>/dev/null || true'',
    [],
    ''# Upgrade kubelet'',
    ''apt-get update && apt-get install -y kubelet=${K8S_VERSION#v}-00 || '' @ backslash,
    ''dnf install -y kubelet-${K8S_VERSION#v} || '' @ backslash,
    ''zypper install -y kubelet=${K8S_VERSION#v}'',
    [],
    ''# Start kubelet'',
    ''systemctl daemon-reload'',
    ''systemctl enable --now kubelet'',
    [],
    ''# Verify kubelet is running'',
    ''systemctl is-active kubelet'',
    [],
    ''echo "=== kubelet upgrade completed ==="'']\<close>

definition upgradeKubelet :: "env \<Rightarrow> WorkerNodeUpgrader \<Rightarrow> node \<Rightarrow> ReleaseImage \<Rightarrow> unit cact" where
  "upgradeKubelet E u n ri =
     andthen (run_on_node E (wnu_sshManager u) (node_Name n)
       (kubelet_script (kc_Version (rc_Kubernetes (ris_Components (ri_Spec ri))))) (Some (10 * minute))
       (wrap ''failed to execute kubelet upgrade script: '')
       (\<lambda>r. Errorf (''kubelet upgrade script failed: '' @ cr_Stderr r))) (\<lambda>_. ret ())"

definition worker_verifyNodeUpgrade :: "env \<Rightarrow> node \<Rightarrow> unit cact" where
  "worker_verifyNodeUpgrade E n = verify_node E (node_Name n)"

definition worker_upgradeNode :: "env \<Rightarrow> WorkerNodeUpgrader \<Rightarrow> ReleaseImage \<Rightarrow> node \<Rightarrow> unit cact" where
  "worker_upgradeNode E u ri n =
     (let drain = dr_Enabled (rlu_Drain (wuc_RollingUpdate (wnu_config u)))
      in andthen (when_act drain (worker_drainNode E u n)) (\<lambda>_.
         andthen (worker_upgradeContainerd E u n ri) (\<lambda>_.
         andthen (upgradeKubelet E u n ri) (\<lambda>_.
         andthen (worker_verifyNodeUpgrade E n) (\<lambda>_.
           when_act drain (worker_uncordonNode E u n))))))"

definition worker_ExecuteUpgrade :: "env \<Rightarrow> WorkerNodeUpgrader \<Rightarrow> ReleaseImage \<Rightarrow> unit cact" where
  "worker_ExecuteUpgrade E u ri =
     check (worker_preUpgradeChecks E) (wrap ''pre-upgrade checks failed: '') (\<lambda>_.
     andthen (getWorkerNodes E) (\<lambda>nodes.
       if length nodes = 0 then ret ()
       else ExecuteRollingUpgrade E
              (NewRollingUpgradeCoordinator (rlu_MaxUnavailable (wuc_RollingUpdate (wnu_config u))) 1)
              nodes (worker_upgradeNode E u ri)))"

section \<open>The upgrade of one worker node\<close>

lemma contract_worker_scripts:
  "contract (about_node (node_Name n)) (worker_upgradeContainerd E u n ri)
     (\<lambda>_. ran_ok E (node_Name n) (worker_containerd_of (rc_Containerd (ris_Components (ri_Spec ri))))
        (script_timeout (bis_Timeout (install_strategy (rc_Containerd (ris_Components (ri_Spec ri)))))))"
  "contract (about_node (node_Name n)) (upgradeKubelet E u n ri)
     (\<lambda>_. ran_ok E (node_Name n) (kubelet_script (kc_Version (rc_Kubernetes (ris_Components (ri_Spec ri))))) (Some (10 * minute)))"
  unfolding worker_upgradeContainerd_def upgradeKubelet_def Let_def
  by (rule contract_weaken [OF contract_unit [OF contract_run_on_node [OF about_node_session]]], assumption, blast)+

text \<open>
  What the log shows after a successful upgrade of a worker node, in this order: the drain (if
  enabled), the containerd script, the kubelet script, the verification, the uncordon.
\<close>

definition worker_upgraded :: "env \<Rightarrow> WorkerNodeUpgrader \<Rightarrow> ReleaseImage \<Rightarrow> string \<Rightarrow> log \<Rightarrow> log \<Rightarrow> bool" where
  "worker_upgraded E u ri n l0 l5 \<longleftrightarrow> (\<exists>l1 l2 l3 l4.
     (if dr_Enabled (rlu_Drain (wuc_RollingUpdate (wnu_config u))) then drained E n l0 l1 else l1 = l0)
     \<and> ran_ok E n (worker_containerd_of (rc_Containerd (ris_Components (ri_Spec ri))))
         (script_timeout (bis_Timeout (install_strategy (rc_Containerd (ris_Components (ri_Spec ri)))))) l1 l2
     \<and> ran_ok E n (kubelet_script (kc_Version (rc_Kubernetes (ris_Components (ri_Spec ri))))) (Some (10 * minute)) l2 l3
     \<and> verified E n l3 l4
     \<and> l5 = (if dr_Enabled (rlu_Drain (wuc_RollingUpdate (wnu_config u))) then l4 @ [EvUncordon n] else l4))"

lemma contract_worker_upgradeNode:
  assumes "poll_ok E"
  shows "contract (about_node (node_Name n)) (worker_upgradeNode E u ri n) (\<lambda>_. worker_upgraded E u ri (node_Name n))"
proof -
  let ?d = "dr_Enabled (rlu_Drain (wuc_RollingUpdate (wnu_config u)))"
  note drain = contract_when [of ?d, OF contract_drain [OF assms, of "node_Name n" "wnu_clientset u"
        "dr_Timeout (rlu_Drain (wuc_RollingUpdate (wnu_config u)))"]]
  note uncordon = contract_when [of ?d, OF contract_uncordon [of "node_Name n" E "wnu_clientset u"]]
  note verify = contract_check [OF contract_verify [of "node_Name n" E] uncordon]
  note kubelet = contract_check [OF contract_worker_scripts(2) [of n E u ri] verify]
  note containerd = contract_check [OF contract_worker_scripts(1) [of n E u ri] kubelet]
  show ?thesis
    unfolding worker_upgradeNode_def worker_drainNode_def worker_uncordonNode_def worker_verifyNodeUpgrade_def Let_def
    by (rule contract_weaken [OF contract_check [OF drain containerd]]) (unfold worker_upgraded_def, metis)
qed

text \<open>
  (C15) A worker node whose upgrade succeeds went through the whole sequence: drained (if
  configured) of all but DaemonSet pods, containerd script and then kubelet script for the
  release's version run on that node with exit code 0, the node read back, and uncordoned
  last. Success or not, nothing but this node and evicted pods is touched.
\<close>

theorem worker_upgradeNode_correct:
  assumes "poll_ok E" and "pool_wf w" and "worker_upgradeNode E u ri n w = (r, w')"
  shows "grew (about_node (node_Name n)) (w_log w) w' \<and> pool_wf w' \<and> (\<forall>s. r \<noteq> Panic s)
    \<and> (r = Ok () \<longrightarrow> worker_upgraded E u ri (node_Name n) (w_log w) (w_log w'))"
  using contractD [OF contract_worker_upgradeNode [OF assms(1)] assms(2,3)] by blast

section \<open>The whole worker upgrade\<close>

text \<open>
  The upgrade function of the worker upgrader as client of the rolling coordinator: the pool
  stays well formed and the log only grows by events about nodes of the list.
\<close>

definition worker_inv :: "env \<times> WorkerNodeUpgrader \<times> ReleaseImage \<Rightarrow> world \<Rightarrow> bool" where
  "worker_inv g w \<longleftrightarrow> poll_ok (fst g) \<and> pool_wf w"

interpretation worker_rolling: rolling_client "\<lambda>(E, u, ri). worker_upgradeNode E u ri" worker_inv
proof unfold_locales
  fix g :: "env \<times> WorkerNodeUpgrader \<times> ReleaseImage" and w n r w'
  assume "worker_inv g w" and "(case g of (E, u, ri) \<Rightarrow> worker_upgradeNode E u ri) n w = (r, w')"
  moreover obtain E u ri where "g = (E, u, ri)" by (cases g)
  ultimately have ok: "poll_ok E" "pool_wf w" and run: "worker_upgradeNode E u ri n w = (r, w')" and "fst g = E"
    by (simp_all add: worker_inv_def)
  with contractD [OF contract_worker_upgradeNode [OF ok(1)] ok(2) run]
  show "worker_inv g w' \<and> (\<forall>s. r \<noteq> Panic s)" by (simp add: worker_inv_def)
qed

lemma worker_checks_pool:
  "keeps_pool (worker_preUpgradeChecks E)" "keeps_pool (getWorkerNodes E)"
  unfolding worker_preUpgradeChecks_def getWorkerNodes_def List_nodes_def by (intro pool_rules)+

lemma worker_preUpgradeChecks_Ok:
  assumes "worker_preUpgradeChecks E w = (Ok u, w')"
  shows "w' = w\<lparr>w_log := w_log w @ [EvList ''Node'' [] []]\<rparr>
    \<and> (\<exists>nodes. k_list_nodes (kube E) (w_log w) [] = Inr nodes \<and> (\<forall>n\<in>set nodes. is_worker n \<longrightarrow> node_ready n))"
  using assms
  by (auto simp: worker_preUpgradeChecks_def getWorkerNodes_def List_nodes_def query_def check_apply ret_apply
      for_each_guard find_None_conv split: sum.splits option.splits)

text \<open>
  When the worker upgrade returns without error, every worker node was ready before it
  started, and every node that was then listed as a worker has been through a successful
  \<open>upgradeNode\<close>.
\<close>

theorem worker_ExecuteUpgrade_complete:
  assumes "poll_ok E" and "sched_ok E" and "pool_wf w" and "worker_ExecuteUpgrade E u ri w = (Ok (), w')"
  shows "(\<exists>nodes. k_list_nodes (kube E) (w_log w) [] = Inr nodes \<and> (\<forall>n\<in>set nodes. is_worker n \<longrightarrow> node_ready n))
    \<and> (\<exists>nodes. k_list_nodes (kube E) (w_log w @ [EvList ''Node'' [] []]) [] = Inr nodes
        \<and> (\<forall>n\<in>set nodes. is_worker n \<longrightarrow> (\<exists>w1 w2. worker_upgradeNode E u ri n w1 = (Ok (), w2))))"
proof -
  obtain r1 w1 where pre: "worker_preUpgradeChecks E w = (r1, w1)" by fastforce
  with assms(4) have r1: "r1 = Ok ()" by (cases r1) (auto simp: worker_ExecuteUpgrade_def act_simps)
  from worker_preUpgradeChecks_Ok [OF pre [unfolded r1]]
  have log1: "w_log w1 = w_log w @ [EvList ''Node'' [] []]" and
    ready: "\<exists>nodes. k_list_nodes (kube E) (w_log w) [] = Inr nodes \<and> (\<forall>n\<in>set nodes. is_worker n \<longrightarrow> node_ready n)"
    by auto
  let ?roll = "\<lambda>nodes. if length nodes = 0 then ret ()
       else ExecuteRollingUpgrade E (NewRollingUpgradeCoordinator (rlu_MaxUnavailable (wuc_RollingUpdate (wnu_config u))) 1)
              nodes (worker_upgradeNode E u ri)"
  have "andthen (getWorkerNodes E) ?roll w1 = (Ok (), w')"
    using assms(4) unfolding worker_ExecuteUpgrade_def check_apply pre r1 by simp
  then obtain nodes w2 where nodes: "k_list_nodes (kube E) (w_log w1) [] = Inr nodes"
    and rest: "?roll (filter is_worker nodes) w2 = (Ok (), w')"
    unfolding getWorkerNodes_def List_nodes_def query_def check_apply
    by (cases "k_list_nodes (kube E) (w_log w1) []") (auto simp: act_simps)
  have "\<forall>n\<in>set nodes. is_worker n \<longrightarrow> (\<exists>w1 w2. worker_upgradeNode E u ri n w1 = (Ok (), w2))"
  proof (cases "filter is_worker nodes = []")
    case True
    then show ?thesis by (auto simp: filter_empty_conv)
  next
    case False
    with rest have "ExecuteRollingUpgrade E (NewRollingUpgradeCoordinator (rlu_MaxUnavailable (wuc_RollingUpdate (wnu_config u))) 1)
        (filter is_worker nodes) (worker_upgradeNode E u ri) w2 = (Ok (), w')" by simp
    from rolling_upgrade_Ok [OF assms(2) this] show ?thesis by simp
  qed
  with ready nodes log1 show ?thesis by auto
qed

lemma worker_ExecuteUpgrade_no_panic:
  assumes "poll_ok E" and "pool_wf w" and "worker_ExecuteUpgrade E u ri w = (r, w')"
  shows "pool_wf w'"
proof -
  have rolling: "keeps_pool (ExecuteRollingUpgrade E c nodes (worker_upgradeNode E u ri))" for c nodes
    using worker_rolling.rolling_keeps [of "(E, u, ri)" _ E c nodes] assms(1)
    by (auto simp: keeps_pool_def hoare_def worker_inv_def) (metis prod.collapse)
  have "keeps_pool (worker_ExecuteUpgrade E u ri)"
    unfolding worker_ExecuteUpgrade_def by (intro pool_rules worker_checks_pool rolling)
  from keeps_poolD [OF this assms(2,3)] show ?thesis .
qed

text \<open>
  The containerd script of the worker upgrader does not depend on the containerd version of
  the release: two releases that differ in nothing but that version send the same script, so
  with the package method the version the release names is never installed.
\<close>

theorem worker_containerd_ignores_version:
  "worker_containerd_of (c\<lparr>bc_Version := v\<rparr>) = worker_containerd_of c"
  by (simp add: worker_containerd_of_def install_strategy_def)

section \<open>A concrete run\<close>

definition ex_worker :: WorkerNodeUpgrader where
  "ex_worker = NewWorkerNodeUpgrader True (NewSSHManager 0)
     \<lparr>wuc_RollingUpdate = \<lparr>rlu_MaxUnavailable = 1,
        rlu_Drain = \<lparr>dr_Enabled = True, dr_Timeout = minute, dr_IgnoreDaemonSets = True\<rparr>, rlu_Timeout = minute\<rparr>,
      wuc_Rollback = \<lparr>rbk_Enabled = False, rbk_OnTimeout = False, rbk_OnFailure = False\<rparr>\<rparr>"

definition ex_worker_env :: env where
  "ex_worker_env = quiet_env\<lparr>kube := quiet_kube\<lparr>
     k_list_nodes := (\<lambda>l s. Inr [zero_node\<lparr>node_Name := ''n1'', node_Conditions := [(''Ready'', ''True'')]\<rparr>]),
     k_get_node := (\<lambda>l n. Inr (zero_node\<lparr>node_Name := n, node_Conditions := [(''Ready'', ''True'')]\<rparr>))\<rparr>\<rparr>"

lemma ex_worker_env_simps [simp]:
  "ssh ex_worker_env = quiet_ssh" "host ex_worker_env = quiet_host" "poll_ok ex_worker_env" "sched_ok ex_worker_env"
  "k_list_pods (kube ex_worker_env) = (\<lambda>l s. Inr [])"
  "k_get_node (kube ex_worker_env) = (\<lambda>l n. Inr (zero_node\<lparr>node_Name := n, node_Conditions := [(''Ready'', ''True'')]\<rparr>))"
  "k_list_nodes (kube ex_worker_env) = (\<lambda>l s. Inr [zero_node\<lparr>node_Name := ''n1'', node_Conditions := [(''Ready'', ''True'')]\<rparr>])"
  "k_write (kube ex_worker_env) = (\<lambda>l ev. None)"
  by (simp_all add: ex_worker_env_def quiet_kube_def poll_ok_quiet sched_ok_def quiet_host_def)

lemma ex_worker_node:
  assumes "w_pool w = []"
  shows "\<exists>w'. worker_upgradeNode ex_worker_env ex_worker ri n w = (Ok (), w') \<and> w_pool w' = []"
proof -
  have sm: "wnu_sshManager ex_worker = NewSSHManager 0" "wnu_clientset ex_worker"
    "dr_Enabled (rlu_Drain (wuc_RollingUpdate (wnu_config ex_worker)))"
    by (simp_all add: ex_worker_def NewWorkerNodeUpgrader_def)
  have ok: "\<not> not_ready_condition (zero_node\<lparr>node_Name := m, node_Conditions := [(''Ready'', ''True'')]\<rparr>)" for m
    by (simp add: not_ready_condition_def)
  let ?w0 = "w\<lparr>w_log := w_log w @ [EvListPods (PodsOnNode (node_Name n)), EvListPods (PodsOnNode (node_Name n))]\<rparr>"
  have "\<exists>w1. worker_upgradeContainerd ex_worker_env ex_worker n ri ?w0 = (Ok (), w1) \<and> w_pool w1 = []"
    unfolding worker_upgradeContainerd_def Let_def sm by (rule quiet_session) (simp_all add: assms)
  then obtain w1 where w1: "worker_upgradeContainerd ex_worker_env ex_worker n ri ?w0 = (Ok (), w1)" "w_pool w1 = []"
    by blast
  have "\<exists>w2. upgradeKubelet ex_worker_env ex_worker n ri w1 = (Ok (), w2) \<and> w_pool w2 = []"
    unfolding upgradeKubelet_def sm by (rule quiet_session) (simp_all add: w1)
  then obtain w2 where w2: "upgradeKubelet ex_worker_env ex_worker n ri w1 = (Ok (), w2)" "w_pool w2 = []"
    by blast
  show ?thesis
    unfolding worker_upgradeNode_def Let_def check_apply worker_drainNode_def worker_uncordonNode_def worker_verifyNodeUpgrade_def
    using w1 w2 sm by (simp add: quiet_drain quiet_verify ok uncordon_node_def api_write_def command_def query_def)
qed

lemma worker_upgradeNode_witness:
  "\<exists>l. worker_upgraded ex_worker_env ex_worker zero_ReleaseImage ''n1'' [] l"
proof -
  obtain w' where run: "worker_upgradeNode ex_worker_env ex_worker zero_ReleaseImage (ex_node ''n1'') empty_world = (Ok (), w')"
    using ex_worker_node [of empty_world] by (auto simp: empty_world_def)
  have "worker_upgraded ex_worker_env ex_worker zero_ReleaseImage (node_Name (ex_node ''n1'')) (w_log empty_world) (w_log w')"
    using worker_upgradeNode_correct [OF _ pool_wf_empty run] by simp
  then show ?thesis by (intro exI [of _ "w_log w'"]) (simp add: ex_node_def zero_node_def empty_world_def)
qed

lemma worker_ExecuteUpgrade_witness:
  "\<exists>w' n. worker_ExecuteUpgrade ex_worker_env ex_worker zero_ReleaseImage empty_world = (Ok (), w')
     \<and> node_Name n = ''n1'' \<and> (\<exists>w1 w2. worker_upgradeNode ex_worker_env ex_worker zero_ReleaseImage n w1 = (Ok (), w2))"
proof -
  let ?n = "zero_node\<lparr>node_Name := ''n1'', node_Conditions := [(''Ready'', ''True'')]\<rparr>"
  let ?w = "empty_world\<lparr>w_log := [EvList ''Node'' [] [], EvList ''Node'' [] []]\<rparr>"
  have worker: "is_worker ?n" "node_ready ?n" by (simp_all add: is_worker_def node_ready_def zero_node_def)
  obtain w' where up: "worker_upgradeNode ex_worker_env ex_worker zero_ReleaseImage ?n ?w = (Ok (), w')"
    using ex_worker_node [of ?w] by (auto simp: empty_world_def)
  have "createBatches (NewRollingUpgradeCoordinator m 1) [?n] = [[?n]]" for m
    by (simp add: createBatches_def NewRollingUpgradeCoordinator_def batches_from.simps)
  then have run: "worker_ExecuteUpgrade ex_worker_env ex_worker zero_ReleaseImage empty_world = (Ok (), w')"
    using worker up
    by (simp add: worker_ExecuteUpgrade_def worker_preUpgradeChecks_def getWorkerNodes_def List_nodes_def query_def
        act_simps ExecuteRollingUpgrade_def executeBatch_def batch_result_def state_defs empty_world_def quiet_host_def)
  from worker_ExecuteUpgrade_complete [OF _ _ pool_wf_empty run] worker(1)
  have "\<exists>w1 w2. worker_upgradeNode ex_worker_env ex_worker zero_ReleaseImage ?n w1 = (Ok (), w2)" by auto
  with run show ?thesis by (intro exI [of _ w'] exI [of _ ?n]) simp
qed

end
