(* ===== verification/Hooks.thy ===== *)
theory Hooks
  imports Contracts
begin

text \<open>
  Hooks. Three parts of the program run lists of hooks with the same failure policy: the
  control plane upgrader and the backup executor run them on nodes over SSH, the addon
  upgrader as jobs. The locale \<open>hook_runner\<close> states the common contract.
\<close>

text \<open>The \<open>switch hook.OnFailure\<close>: \<open>Ignore\<close> and \<open>Continue\<close> go on, everything else aborts.\<close>

definition hook_ignored :: "string \<Rightarrow> bool" where
  "hook_ignored onFailure \<longleftrightarrow> onFailure = ''Ignore'' \<or> onFailure = ''Continue''"

definition hook_step :: "string \<Rightarrow> unit cact \<Rightarrow> (error \<Rightarrow> error) \<Rightarrow> unit cact" where
  "hook_step onFailure m err =
     attempt m (\<lambda>r. case r of
       Inl e \<Rightarrow> (if onFailure = ''Abort'' then fail (err e)
                else if onFailure = ''Ignore'' then ret ()
                else if onFailure = ''Continue'' then ret ()
                else fail (err e))
     | Inr _ \<Rightarrow> ret ())"

lemma hook_step_apply:
  "hook_step onFailure m err w = (case m w of
      (Ok u, w') \<Rightarrow> (Ok (), w')
    | (Err e, w') \<Rightarrow> (if hook_ignored onFailure then Ok () else Err (err e), w')
    | (Panic s, w') \<Rightarrow> (Panic s, w'))"
  by (auto simp: hook_step_def hook_ignored_def act_simps split: prod.split res.split)

locale hook_runner =
  fixes policy :: "'h \<Rightarrow> string"
    and exec :: "'c \<Rightarrow> 'h \<Rightarrow> unit cact"
    and err :: "'c \<Rightarrow> 'h \<Rightarrow> error \<Rightarrow> error"
    and run :: "'c \<Rightarrow> 'h list \<Rightarrow> unit cact"
  assumes run_loop: "run c hs = for_each hs (\<lambda>h. hook_step (policy h) (exec c h) (err c h))"
begin

lemma run_simps: "run c [] = ret ()" "run c (h # hs) = andthen (hook_step (policy h) (exec c h) (err c h)) (\<lambda>_. run c hs)"
  by (simp_all add: run_loop)

text \<open>If the hooks pass, every hook whose failure is not ignored has succeeded.\<close>

lemma run_Ok:
  assumes "run c hs w = (Ok u, w')" and "h \<in> set hs" and "\<not> hook_ignored (policy h)"
  shows "\<exists>w1 w2. exec c h w1 = (Ok (), w2)"
  using assms(1,2)
proof (induction hs arbitrary: w)
  case (Cons x xs)
  obtain r w1 where x: "exec c x w = (r, w1)" by fastforce
  show ?case
  proof (cases "h = x \<and> r \<noteq> Ok ()")
    case True
    with x Cons.prems(1) assms(3) show ?thesis
      by (cases r) (auto simp: run_simps check_apply hook_step_apply)
  next
    case False
    with x Cons show ?thesis
      by (cases r) (auto simp: run_simps check_apply hook_step_apply split: if_splits)
  qed
qed simp

text \<open>
  If the hooks fail, it is at the first hook whose failure is not ignored; the hooks before it
  have run and no hook after it does.
\<close>

lemma run_Err:
  assumes "run c hs w = (Err e, w')"
  shows "\<exists>pre h post w1 e'. hs = pre @ h # post \<and> run c pre w = (Ok (), w1) \<and> exec c h w1 = (Err e', w')
    \<and> \<not> hook_ignored (policy h) \<and> e = err c h e'"
  using assms
proof (induction hs arbitrary: w)
  case Nil
  then show ?case by (simp add: run_simps act_simps)
next
  case (Cons x xs)
  obtain r w1 where x: "exec c x w = (r, w1)" by fastforce
  show ?case
  proof (cases "\<exists>e'. r = Err e' \<and> \<not> hook_ignored (policy x)")
    case True
    with x Cons.prems show ?thesis
      by (intro exI [of _ "[]"] exI [of _ x] exI [of _ xs]) (auto simp: run_simps act_simps hook_step_apply)
  next
    case False
    with x Cons.prems have step: "hook_step (policy x) (exec c x) (err c x) w = (Ok (), w1)"
      by (cases r) (auto simp: run_simps check_apply hook_step_apply)
    with Cons.prems have "run c xs w1 = (Err e, w')" by (simp add: run_simps check_apply)
    from Cons.IH [OF this] obtain pre h post w2 e' where *: "xs = pre @ h # post" "run c pre w1 = (Ok (), w2)"
      "exec c h w2 = (Err e', w')" "\<not> hook_ignored (policy h)" "e = err c h e'" by blast
    have "run c (x # pre) w = (Ok (), w2)" using step *(2) by (simp add: run_simps check_apply)
    with * show ?thesis by (intro exI [of _ "x # pre"] exI [of _ h] exI [of _ post] exI [of _ w2] exI [of _ e']) simp
  qed
qed

lemma run_contract:
  assumes "\<And>h. h \<in> set hs \<Longrightarrow> contract A (exec c h) (\<lambda>_. Q h)"
  shows "contract A (run c hs) (\<lambda>_ l0 l1. \<forall>h\<in>set hs. hook_ignored (policy h) \<or> (\<exists>l l'. prefix l0 l \<and> prefix l' l1 \<and> Q h l l'))"
proof -
  have "contract A (hook_step (policy h) (exec c h) (err c h)) (\<lambda>_ l0 l1. hook_ignored (policy h) \<or> (\<exists>l. prefix l l1 \<and> Q h l0 l))"
    if "h \<in> set hs" for h
    unfolding hook_step_def
    by (rule contract_weaken [OF contract_attempt [OF assms [OF that], where S = "\<lambda>_ _ _. hook_ignored (policy h)"]])
       (auto simp: hook_ignored_def intro!: contract_fail contract_retI)
  from contract_for_each [OF this] show ?thesis
    unfolding run_loop by (rule contract_weaken) (assumption, rule ballI, drule (1) bspec, metis prefix_order.trans)
qed

end

end
