(* ===== verification/Control_Plane.thy ===== *)
theory Control_Plane
  imports Node_Upgrade Hooks
begin

text \<open>
  The control plane upgrader, \<open>modules/cvo/internal/upgrader/control_plane_upgrader.go\<close>: checks,
  etcd backup, the nodes one by one (hooks, drain, containerd, CNI and CSI images,
  verification, uncordon), rollback on failure, waiting for KCP, final verification.
\<close>

section \<open>Definitions\<close>

record ControlPlaneUpgradeConfig =
  cpc_KubeadmControlPlane :: KCPConfig
  cpc_RollingUpdate :: RollingUpdateConfig
  cpc_EtcdBackup :: EtcdBackupConfig
  cpc_Rollback :: RollbackConfig

record ControlPlaneUpgrader =
  cpu_clientset :: bool
  cpu_sshManager :: SSHManager
  cpu_config :: ControlPlaneUpgradeConfig

definition NewControlPlaneUpgrader :: "bool \<Rightarrow> SSHManager \<Rightarrow> ControlPlaneUpgradeConfig \<Rightarrow> ControlPlaneUpgrader" where
  "NewControlPlaneUpgrader clientset sm config = \<lparr>cpu_clientset = clientset, cpu_sshManager = sm, cpu_config = config\<rparr>"

definition control_plane_label :: labels where
  "control_plane_label = [(''node-role.kubernetes.io/control-plane'', [])]"

definition getControlPlaneNodes :: "env \<Rightarrow> node list cact" where
  "getControlPlaneNodes E = List_nodes E control_plane_label"

definition checkClusterHealth :: "env \<Rightarrow> unit cact" where
  "checkClusterHealth E =
     check (List_nodes E []) (wrap ''failed to list nodes: '') (\<lambda>nodes.
       for_each nodes (\<lambda>n. if node_ready n then ret ()
         else fail (Errorf (''node '' @ node_Name n @ '' is not Ready''))))"

definition checkControlPlaneNodesReady :: "env \<Rightarrow> unit cact" where
  "checkControlPlaneNodesReady E =
     andthen (getControlPlaneNodes E) (\<lambda>nodes.
       for_each nodes (\<lambda>n. if node_ready n then ret ()
         else fail (Errorf (''control plane node '' @ node_Name n @ '' is not Ready''))))"

definition etcd_health_script :: string where
  \<open>etcd_health_script = script_lines [
    ''ETCDCTL_API=3 etcdctl endpoint health '' @ backslash,
    ''  --endpoints=https://127.0.0.1:2379 '' @ backslash,
    ''  --cacert=/etc/kubernetes/pki/etcd/ca.crt '' @ backslash,
    ''  --cert=/etc/kubernetes/pki/etcd/server.crt '' @ backslash] @ ''  --key=/etc/kubernetes/pki/etcd/server.key''\<close>

definition checkEtcdHealth :: "env \<Rightarrow> ControlPlaneUpgrader \<Rightarrow> unit cact" where
  "checkEtcdHealth E u =
     andthen (getControlPlaneNodes E) (\<lambda>nodes.
       case nodes of
         [] \<Rightarrow> fail (Errorf ''no control plane nodes found'')
       | n # _ \<Rightarrow>
           andthen (run_on_node E (cpu_sshManager u) (node_Name n) etcd_health_script None
             (wrap ''failed to check etcd health: '')
             (\<lambda>r. Errorf (''etcd health check failed: '' @ cr_Stderr r))) (\<lambda>_. ret ()))"

definition checkControlPlanePods :: "env \<Rightarrow> unit cact" where
  "checkControlPlanePods E =
     check (List_pods E (PodsLabels ''kube-system'' [(''tier'', ''control-plane'')]))
       (wrap ''failed to list control plane pods: '') (\<lambda>pods.
       for_each pods (\<lambda>p. if pod_Phase p = ''Running'' then ret ()
         else fail (Errorf (''control plane pod '' @ pod_Namespace p @ ''/'' @ pod_Name p
                @ '' is not Running (phase: '' @ pod_Phase p @ '')''))))"

definition checkAPIServerHealth :: "env \<Rightarrow> ControlPlaneUpgrader \<Rightarrow> unit cact" where
  "checkAPIServerHealth E u =
     (if \<not> cpu_clientset u then fail no_clientset else command EvAPIProbe (k_probe (kube E)))"

definition cp_preUpgradeChecks :: "env \<Rightarrow> ControlPlaneUpgrader \<Rightarrow> unit cact" where
  "cp_preUpgradeChecks E u =
     andthen (checkClusterHealth E) (\<lambda>_.
     andthen (getControlPlaneNodes E) (\<lambda>nodes.
       if length nodes < 3
       then fail (Errorf (''at least 3 control plane nodes required for HA, got '' @ show_nat (length nodes)))
       else checkEtcdHealth E u))"

definition postUpgradeVerification :: "env \<Rightarrow> ControlPlaneUpgrader \<Rightarrow> unit cact" where
  "postUpgradeVerification E u =
     andthen (checkControlPlaneNodesReady E) (\<lambda>_.
     andthen (checkEtcdHealth E u) (\<lambda>_.
     andthen (checkControlPlanePods E) (\<lambda>_.
       checkAPIServerHealth E u)))"

definition etcd_backup_script :: string where
  \<open>etcd_backup_script = script_lines [
    ''#!/bin/bash'',
    ''set -euo pipefail'',
    [],
    ''BACKUP_DIR="/tmp/etcd-backup"'',
    ''TIMESTAMP=$(date +%Y%m%d%H%M%S)'',
    ''SNAPSHOT_FILE="${BACKUP_DIR}/etcd-snapshot-${TIMESTAMP}.db"'',
    [],
    ''mkdir -p "$BACKUP_DIR"'',
    [],
    ''# Run etcdctl snapshot save'',
    ''ETCDCTL_API=3 etcdctl snapshot save "$SNAPSHOT_FILE" '' @ backslash,
    ''  --endpoints=https://127.0.0.1:2379 '' @ backslash,
    ''  --cacert=/etc/kubernetes/pki/etcd/ca.crt '' @ backslash,
    ''  --cert=/etc/kubernetes/pki/etcd/server.crt '' @ backslash,
    ''  --key=/etc/kubernetes/pki/etcd/server.key'',
    [],
    ''echo "etcd snapshot saved to $SNAPSHOT_FILE"'',
    [],
    ''# Clean up old backups (keep only last N)'',
    ''ls -t ${BACKUP_DIR}/etcd-snapshot-*.db 2>/dev/null | tail -n +4 | xargs rm -f 2>/dev/null || true'']\<close>

definition backupEtcd :: "env \<Rightarrow> ControlPlaneUpgrader \<Rightarrow> node \<Rightarrow> unit cact" where
  "backupEtcd E u n =
     andthen (run_on_node E (cpu_sshManager u) (node_Name n) etcd_backup_script None
       (wrap ''failed to execute etcd backup script: '')
       (\<lambda>r. Errorf (''etcd backup script failed: '' @ cr_Stderr r))) (\<lambda>_. ret ())"

definition backupBeforeUpgrade :: "env \<Rightarrow> ControlPlaneUpgrader \<Rightarrow> unit cact" where
  "backupBeforeUpgrade E u =
     (if \<not> eb_Enabled (cpc_EtcdBackup (cpu_config u)) then ret ()
      else andthen (getControlPlaneNodes E) (\<lambda>nodes.
        for_each nodes (\<lambda>n. check (backupEtcd E u n)
          (wrap (''failed to backup etcd on node '' @ node_Name n @ '': '')) ret)))"

definition cp_drainNode :: "env \<Rightarrow> ControlPlaneUpgrader \<Rightarrow> node \<Rightarrow> unit cact" where
  "cp_drainNode E u n =
     drain_node E (cpu_clientset u) (dr_Timeout (rlu_Drain (cpc_RollingUpdate (cpu_config u)))) (node_Name n)"

definition cp_uncordonNode :: "env \<Rightarrow> ControlPlaneUpgrader \<Rightarrow> node \<Rightarrow> unit cact" where
  "cp_uncordonNode E u n = uncordon_node E (cpu_clientset u) (node_Name n)"

definition cp_containerd_script :: "string \<Rightarrow> string \<Rightarrow> string \<Rightarrow> string \<Rightarrow> string" where
  \<open>cp_containerd_script serviceName version meth archive = script_lines [
    ''#!/bin/bash'',
    ''set -euo pipefail'',
    [],
    ''SERVICE_NAME="'' @ serviceName @ ''"'',
    ''VERSION="'' @ version @ ''"'',
    [],
    ''echo "=== Upgrading containerd to $VERSION ==="'',
    [],
    ''# Stop service'',
    ''systemctl stop "$SERVICE_NAME"'',
    [],
    ''# Backup configuration'',
    ''cp -r /etc/containerd /etc/containerd.bak.$(date +%Y%m%d%H%M%S) 2>/dev/null || true'',
    [],
    ''# Upgrade based on install method'',
    ''case "'' @ meth @ ''" in'',
    ''    package)'',
    ''        apt-get update && apt-get install -y containerd='' @ version @ '' || '' @ backslash,
    ''        dnf install -y containerd-'' @ version @ '' || '' @ backslash,
    ''        zypper install -y containerd='' @ version,
    ''        ;;'',
    ''    archive)'',
    ''        curl -fsSL "'' @ archive @ ''" -o /tmp/containerd.tar.gz'',
    ''        tar -C /usr/local -xzf /tmp/containerd.tar.gz'',
    ''        rm -f /tmp/containerd.tar.gz'',
    ''        ;;'',
    ''esac'',
    [],
    ''# Restore configuration'',
    ''if [ -d /etc/containerd.bak.* ]; then'',
    ''    LATEST_BAK=$(ls -d /etc/containerd.bak.* | tail -1)'',
    ''    cp -r "$LATEST_BAK"/* /etc/containerd/ 2>/dev/null || true'',
    ''fi'',
    [],
    ''# Start service'',
    ''systemctl daemon-reload'',
    ''systemctl enable --now "$SERVICE_NAME"'',
    [],
    ''# Verify service is running'',
    ''systemctl is-active "$SERVICE_NAME"'',
    [],
    ''echo "=== containerd upgrade completed ==="'']\<close>

definition default_upgrade :: BinaryUpgradeStrategy where
  "default_upgrade = \<lparr>bus_Type = ''Rolling'', bus_MaxConcurrent = 1, bus_Timeout = Some (10 * minute),
     bus_RetryCount = 3, bus_Force = False, bus_Drain = False\<rparr>"

definition upgrade_strategy :: "BinaryComponent \<Rightarrow> BinaryUpgradeStrategy" where
  "upgrade_strategy c = (case bc_UpgradeStrategy c of None \<Rightarrow> default_upgrade | Some s \<Rightarrow> s)"

definition cp_containerd_of :: "BinaryComponent \<Rightarrow> BinaryInstallStrategy \<Rightarrow> string" where
  "cp_containerd_of c inst =
     cp_containerd_script (service_or ''containerd'' inst) (bc_Version c) (bis_Method inst) (bf_Archive (bc_Files c))"

definition strategy_timeout :: "BinaryUpgradeStrategy \<Rightarrow> duration option" where
  "strategy_timeout s = Some (case bus_Timeout s of None \<Rightarrow> 10 * minute | Some d \<Rightarrow> d)"

definition upgradeContainerdRolling ::
  "env \<Rightarrow> ControlPlaneUpgrader \<Rightarrow> node \<Rightarrow> BinaryComponent \<Rightarrow> BinaryUpgradeStrategy \<Rightarrow> BinaryInstallStrategy \<Rightarrow> unit cact" where
  "upgradeContainerdRolling E u n c strategy inst =
     andthen (run_on_node E (cpu_sshManager u) (node_Name n) (cp_containerd_of c inst) (strategy_timeout strategy)
       (wrap ''failed to execute containerd upgrade script: '')
       (\<lambda>r. Errorf (''containerd upgrade script failed: '' @ cr_Stderr r))) (\<lambda>_. ret ())"

definition upgradeContainerdDrainAndUpgrade ::
  "env \<Rightarrow> ControlPlaneUpgrader \<Rightarrow> node \<Rightarrow> BinaryComponent \<Rightarrow> BinaryUpgradeStrategy \<Rightarrow> BinaryInstallStrategy \<Rightarrow> unit cact" where
  "upgradeContainerdDrainAndUpgrade E u n c strategy inst =
     andthen (cp_drainNode E u n) (\<lambda>_. upgradeContainerdRolling E u n c strategy inst)"

definition upgradeContainerdParallel ::
  "env \<Rightarrow> ControlPlaneUpgrader \<Rightarrow> node \<Rightarrow> BinaryComponent \<Rightarrow> BinaryUpgradeStrategy \<Rightarrow> BinaryInstallStrategy \<Rightarrow> unit cact" where
  "upgradeContainerdParallel E u n c strategy inst = upgradeContainerdRolling E u n c strategy inst"

definition cp_upgradeContainerd :: "env \<Rightarrow> ControlPlaneUpgrader \<Rightarrow> node \<Rightarrow> ReleaseImage \<Rightarrow> unit cact" where
  "cp_upgradeContainerd E u n ri =
     (let c = rc_Containerd (ris_Components (ri_Spec ri)); strategy = upgrade_strategy c; inst = install_strategy c
      in if bus_Type strategy = ''Rolling'' then upgradeContainerdRolling E u n c strategy inst
         else if bus_Type strategy = ''DrainAndUpgrade'' then upgradeContainerdDrainAndUpgrade E u n c strategy inst
         else if bus_Type strategy = ''Parallel'' then upgradeContainerdParallel E u n c strategy inst
         else upgradeContainerdRolling E u n c strategy inst)"

text \<open>The new image of a container.\<close>

definition retag :: "string \<Rightarrow> string \<Rightarrow> string" where
  "retag version img =
     (if img \<noteq> [] then
        (case last_index CHR '':'' img of
           Some idx \<Rightarrow> if idx > 0 then take (idx + 1) img @ version else img
         | None \<Rightarrow> img)
      else img)"

definition retag_workload :: "string \<Rightarrow> workload \<Rightarrow> workload" where
  "retag_workload version w = w\<lparr>wl_Images := map (retag version) (wl_Images w)\<rparr>"

definition upgradeCNI :: "env \<Rightarrow> ReleaseImage \<Rightarrow> unit cact" where
  "upgradeCNI E ri =
     for_each (ris_Addons (ri_Spec ri)) (\<lambda>a.
       if ad_Type a \<noteq> ''helm'' \<and> ad_Type a \<noteq> ''manifest'' then ret ()
       else if ad_Name a \<noteq> ''calico'' \<and> ad_Name a \<noteq> ''cilium'' \<and> ad_Name a \<noteq> ''flannel'' then ret ()
       else
         check (query (EvList ''DaemonSet'' (ad_Namespace a) []) (\<lambda>l. k_list_daemonsets (kube E) l (ad_Namespace a)))
           (wrap (''failed to list DaemonSets in '' @ ad_Namespace a @ '': '')) (\<lambda>items.
         for_each items (\<lambda>ds.
           check (api_write E (EvPatch (KDaemonSet (retag_workload (ad_Version a) ds))))
             (wrap (''failed to update DaemonSet '' @ wl_Namespace ds @ ''/'' @ wl_Name ds @ '': '')) ret)))"

definition upgradeCSI :: "env \<Rightarrow> ReleaseImage \<Rightarrow> unit cact" where
  "upgradeCSI E ri =
     for_each (ris_Addons (ri_Spec ri)) (\<lambda>a.
       if ad_Type a \<noteq> ''helm'' \<and> ad_Type a \<noteq> ''manifest'' then ret ()
       else if \<not> contains (ad_Name a) ''csi'' \<and> \<not> contains (ad_Name a) ''ceph'' then ret ()
       else
         check (query (EvList ''Deployment'' (ad_Namespace a) []) (\<lambda>l. k_list_deployments (kube E) l (ad_Namespace a)))
           (wrap (''failed to list Deployments in '' @ ad_Namespace a @ '': '')) (\<lambda>items.
         for_each items (\<lambda>d.
           check (api_write E (EvPatch (KDeployment (retag_workload (ad_Version a) d))))
             (wrap (''failed to update Deployment '' @ wl_Namespace d @ ''/'' @ wl_Name d @ '': '')) ret)))"

definition cp_verifyNodeUpgrade :: "env \<Rightarrow> node \<Rightarrow> unit cact" where
  "cp_verifyNodeUpgrade E n = verify_node E (node_Name n)"

definition hook_timeout :: "AddonHook \<Rightarrow> duration option" where
  "hook_timeout h = Some (case hook_Timeout h of None \<Rightarrow> 5 * minute | Some d \<Rightarrow> d)"

definition hook_failed_text :: "string \<Rightarrow> AddonHook \<Rightarrow> string \<Rightarrow> string \<Rightarrow> string" where
  "hook_failed_text phase h componentName n =
     phase @ ''-hook '' @ hook_Name h @ '' failed for component '' @ componentName @ '' on node '' @ n @ '': ''"

definition executeHookOnNode :: "env \<Rightarrow> SSHManager \<Rightarrow> node \<Rightarrow> AddonHook \<Rightarrow> string \<Rightarrow> string \<Rightarrow> unit cact" where
  "executeHookOnNode E sm n h componentName phase =
     andthen (run_on_node E sm (node_Name n) (hook_Command h) (hook_timeout h)
       (wrap (hook_failed_text phase h componentName (node_Name n)))
       (\<lambda>r. Errorf (hook_failed_text phase h componentName (node_Name n) @ cr_Stderr r))) (\<lambda>_. ret ())"

definition executeComponentPreHooks :: "env \<Rightarrow> ControlPlaneUpgrader \<Rightarrow> node \<Rightarrow> AddonHook list \<Rightarrow> string \<Rightarrow> unit cact" where
  "executeComponentPreHooks E u n hooks componentName =
     for_each hooks (\<lambda>h. hook_step (hook_OnFailure h) (executeHookOnNode E (cpu_sshManager u) n h componentName ''pre'')
       (wrap (hook_failed_text ''pre'' h componentName (node_Name n))))"

definition executeComponentPostHooks :: "env \<Rightarrow> ControlPlaneUpgrader \<Rightarrow> node \<Rightarrow> AddonHook list \<Rightarrow> string \<Rightarrow> unit cact" where
  "executeComponentPostHooks E u n hooks componentName =
     for_each hooks (\<lambda>h. hook_step (hook_OnFailure h) (executeHookOnNode E (cpu_sshManager u) n h componentName ''post'')
       (wrap (hook_failed_text ''post'' h componentName (node_Name n))))"

definition should_drain :: "ControlPlaneUpgrader \<Rightarrow> ReleaseImage \<Rightarrow> bool" where
  "should_drain u ri \<longleftrightarrow> dr_Enabled (rlu_Drain (cpc_RollingUpdate (cpu_config u)))
     \<or> (case bc_UpgradeStrategy (rc_Containerd (ris_Components (ri_Spec ri))) of None \<Rightarrow> False | Some s \<Rightarrow> bus_Drain s)"

definition cp_upgradeNode :: "env \<Rightarrow> ControlPlaneUpgrader \<Rightarrow> node \<Rightarrow> ReleaseImage \<Rightarrow> unit cact" where
  "cp_upgradeNode E u n ri =
     (let containerd = rc_Containerd (ris_Components (ri_Spec ri))
      in andthen (executeComponentPreHooks E u n (bc_PreHooks containerd) ''containerd'') (\<lambda>_.
         andthen (when_act (should_drain u ri) (cp_drainNode E u n)) (\<lambda>_.
         andthen (cp_upgradeContainerd E u n ri) (\<lambda>_.
         andthen (executeComponentPostHooks E u n (bc_PostHooks containerd) ''containerd'') (\<lambda>_.
         andthen (upgradeCNI E ri) (\<lambda>_.
         andthen (upgradeCSI E ri) (\<lambda>_.
         andthen (cp_verifyNodeUpgrade E n) (\<lambda>_.
           when_act (should_drain u ri) (cp_uncordonNode E u n)))))))))"

definition etcd_rollback_script :: string where
  \<open>etcd_rollback_script = script_lines [
    ''#!/bin/bash'',
    ''set -euo pipefail'',
    [],
    ''BACKUP_DIR="/tmp/etcd-backup"'',
    ''LATEST_SNAPSHOT=$(ls -t ${BACKUP_DIR}/etcd-snapshot-*.db 2>/dev/null | head -1)'',
    [],
    ''if [ -z "$LATEST_SNAPSHOT" ]; then'',
    ''    echo "No etcd snapshot found for rollback"'',
    ''    exit 1'',
    ''fi'',
    [],
    ''echo "Restoring etcd from snapshot: $LATEST_SNAPSHOT"'',
    [],
    ''# Stop etcd'',
    ''systemctl stop etcd'',
    [],
    ''# Restore etcd from snapshot'',
    ''ETCDCTL_API=3 etcdctl snapshot restore "$LATEST_SNAPSHOT" '' @ backslash,
    ''  --data-dir=/var/lib/etcd-restore '' @ backslash,
    ''  --name=$(hostname) '' @ backslash,
    ''  --initial-cluster=$(hostname)=https://$(hostname -i):2380 '' @ backslash,
    ''  --initial-advertise-peer-urls=https://$(hostname -i):2380'',
    [],
    ''# Replace etcd data directory'',
    ''mv /var/lib/etcd /var/lib/etcd.old'',
    ''mv /var/lib/etcd-restore /var/lib/etcd'',
    [],
    ''# Start etcd'',
    ''systemctl start etcd'',
    [],
    ''echo "etcd rollback completed"'']\<close>

definition cp_rollback :: "env \<Rightarrow> ControlPlaneUpgrader \<Rightarrow> unit cact" where
  "cp_rollback E u =
     andthen (getControlPlaneNodes E) (\<lambda>nodes.
       on_all_nodes E (cpu_sshManager u) nodes etcd_rollback_script None
         (\<lambda>n. wrap (''failed to execute rollback script on node '' @ node_Name n @ '': ''))
         (\<lambda>n r. Errorf (''rollback script failed on node '' @ node_Name n @ '': '' @ cr_Stderr r)))"

definition waitForKCPUpgrade :: "env \<Rightarrow> ClusterVersion \<Rightarrow> unit cact" where
  "waitForKCPUpgrade E cv =
     Poll E (10 * second) (10 * minute)
       (case cvs_DesiredUpdate (cv_Spec cv) of
          None \<Rightarrow> panic ''nil pointer dereference''
        | Some d \<Rightarrow> ret (cvst_ActualVersion (cv_Status cv) = upd_Version d))"

definition cp_upgrade_one :: "env \<Rightarrow> ControlPlaneUpgrader \<Rightarrow> ReleaseImage \<Rightarrow> node \<Rightarrow> unit cact" where
  "cp_upgrade_one E u ri n =
     attempt (cp_upgradeNode E u n ri) (\<lambda>r. case r of
       Inr _ \<Rightarrow> ret ()
     | Inl e \<Rightarrow>
         if rbk_Enabled (cpc_Rollback (cpu_config u)) then
           attempt (cp_rollback E u) (\<lambda>r'. case r' of
             Inl rollbackErr \<Rightarrow> fail (Wrapf (''upgrade failed on node '' @ node_Name n @ '' and rollback also failed: '') e
                                  ('', rollback error: '' @ error_string rollbackErr))
           | Inr _ \<Rightarrow> fail (wrap (''upgrade failed on node '' @ node_Name n @ '': '') e))
         else fail (wrap (''upgrade failed on node '' @ node_Name n @ '': '') e))"

definition cp_ExecuteUpgrade :: "env \<Rightarrow> ControlPlaneUpgrader \<Rightarrow> ClusterVersion \<Rightarrow> ReleaseImage \<Rightarrow> unit cact" where
  "cp_ExecuteUpgrade E u cv ri =
     check (cp_preUpgradeChecks E u) (wrap ''pre-upgrade checks failed: '') (\<lambda>_.
     check (backupBeforeUpgrade E u) (wrap ''backup failed: '') (\<lambda>_.
     andthen (getControlPlaneNodes E) (\<lambda>nodes.
     andthen (for_each nodes (cp_upgrade_one E u ri)) (\<lambda>_.
     check (when_act (kcp_WaitForKCP (cpc_KubeadmControlPlane (cpu_config u))) (waitForKCPUpgrade E cv))
       (wrap ''KCP upgrade failed: '') (\<lambda>_.
       postUpgradeVerification E u)))))"

section \<open>Images\<close>

text \<open>
  The new image of a container keeps everything up to the last colon: for a tagged image
  this replaces the tag; for an image without a tag whose registry has a port, the colon is
  the one of the port and the repository path is lost.
\<close>

theorem retag_spec:
  assumes "a \<noteq> []" and "CHR '':'' \<notin> set b"
  shows "retag version (a @ '':'' @ b) = a @ '':'' @ version"
  using assms by (simp add: retag_def last_index_append)

lemma retag_witness: "retag ''v3.26'' (''registry'' @ '':'' @ ''5000/calico/node'') = ''registry'' @ '':'' @ ''v3.26''"
  by (rule retag_spec) simp_all

section \<open>Contracts\<close>

abbreviation any_event :: "event \<Rightarrow> bool" where
  "any_event \<equiv> \<lambda>_. True"

lemma contract_cp_nodes:
  "A (EvList ''Node'' [] control_plane_label) \<Longrightarrow> contract A (getControlPlaneNodes E)
     (\<lambda>nodes l0 l1. k_list_nodes (kube E) l0 control_plane_label = Inr nodes \<and> l1 = l0 @ [EvList ''Node'' [] control_plane_label])"
  unfolding getControlPlaneNodes_def List_nodes_def by (rule contract_query)

lemma contract_guard: "contract A (for_each xs (\<lambda>x. if p x then ret () else fail (f x))) (\<lambda>_ l0 l1. l1 = l0 \<and> (\<forall>x\<in>set xs. p x))"
  by (rule contractI) (auto simp: for_each_guard find_None_conv split: option.splits)

lemma contract_session:
  "(\<And>ev. node_event n ev \<Longrightarrow> A ev) \<Longrightarrow>
   contract A (andthen (run_on_node E sm n script ctx ferr xerr) (\<lambda>_. ret ())) (\<lambda>_. ran_ok E n script ctx)"
  by (rule contract_weaken [OF contract_unit [OF contract_run_on_node]]) auto

definition etcd_healthy :: "env \<Rightarrow> log \<Rightarrow> log \<Rightarrow> bool" where
  "etcd_healthy E l0 l1 \<longleftrightarrow> (\<exists>n ns. k_list_nodes (kube E) l0 control_plane_label = Inr (n # ns)
     \<and> ran_ok E (node_Name n) etcd_health_script None l0 l1)"

lemma contract_etcd: "contract any_event (checkEtcdHealth E u) (\<lambda>_. etcd_healthy E)"
proof -
  have first: "contract any_event (case nodes of [] \<Rightarrow> fail e | n # _ \<Rightarrow>
      andthen (run_on_node E (cpu_sshManager u) (node_Name n) etcd_health_script None f g) (\<lambda>_. ret ()))
      (\<lambda>_ l0 l1. \<exists>n ns. nodes = n # ns \<and> ran_ok E (node_Name n) etcd_health_script None l0 l1)" for nodes e f g
    by (cases nodes) (auto intro: contract_fail contract_weaken [OF contract_session])
  show ?thesis
    unfolding checkEtcdHealth_def
    by (rule contract_weaken [OF contract_check [OF contract_cp_nodes first]])
       (auto simp: etcd_healthy_def dest: ran_ok_appendD)
qed

definition prechecked :: "env \<Rightarrow> log \<Rightarrow> log \<Rightarrow> bool" where
  "prechecked E l0 l1 \<longleftrightarrow> (\<exists>nodes cps l.
     k_list_nodes (kube E) l0 [] = Inr nodes \<and> (\<forall>n\<in>set nodes. node_ready n)
     \<and> k_list_nodes (kube E) (l0 @ [EvList ''Node'' [] []]) control_plane_label = Inr cps \<and> 3 \<le> length cps
     \<and> prefix l0 l \<and> etcd_healthy E l l1)"

lemma contract_prechecks: "contract any_event (cp_preUpgradeChecks E u) (\<lambda>_. prechecked E)"
proof -
  have health: "contract any_event (checkClusterHealth E) (\<lambda>_ l0 l1. l1 = l0 @ [EvList ''Node'' [] []]
      \<and> (\<exists>nodes. k_list_nodes (kube E) l0 [] = Inr nodes \<and> (\<forall>n\<in>set nodes. node_ready n)))"
    unfolding checkClusterHealth_def List_nodes_def
    by (rule contract_weaken [OF contract_check [OF contract_query contract_guard]]) auto
  have count: "contract any_event (if length nodes < 3 then fail e else checkEtcdHealth E u)
      (\<lambda>_ l0 l1. 3 \<le> length nodes \<and> etcd_healthy E l0 l1)" for nodes :: "node list" and e
    by (auto intro: contract_fail contract_weaken [OF contract_etcd])
  show ?thesis
    unfolding cp_preUpgradeChecks_def
    by (rule contract_weaken [OF contract_check [OF health contract_check [OF contract_cp_nodes count]]])
       (auto simp: prechecked_def, metis prefixI)
qed

definition backed_up :: "env \<Rightarrow> ControlPlaneUpgrader \<Rightarrow> log \<Rightarrow> log \<Rightarrow> bool" where
  "backed_up E u l0 l1 \<longleftrightarrow> (eb_Enabled (cpc_EtcdBackup (cpu_config u)) \<longrightarrow>
     (\<exists>cps. k_list_nodes (kube E) l0 control_plane_label = Inr cps
        \<and> (\<forall>n\<in>set cps. ran_ok E (node_Name n) etcd_backup_script None l0 l1)))"

lemma contract_backup: "contract any_event (backupBeforeUpgrade E u) (\<lambda>_. backed_up E u)"
proof -
  have one: "contract any_event (check (backupEtcd E u n) f ret) (\<lambda>_. ran_ok E (node_Name n) etcd_backup_script None)" for n f
    unfolding backupEtcd_def
    by (rule contract_weaken [OF contract_check [OF contract_session contract_ret]]) auto
  have all: "contract any_event (for_each nodes (\<lambda>n. check (backupEtcd E u n) (f n) ret))
      (\<lambda>_ l0 l1. \<forall>n\<in>set nodes. ran_ok E (node_Name n) etcd_backup_script None l0 l1)" for nodes f
    by (rule contract_weaken [OF contract_for_each [OF one]]) (auto intro: ran_ok_prefix)
  show ?thesis
    unfolding backupBeforeUpgrade_def
    by (intro contract_if, rule contract_retI, simp add: backed_up_def,
        rule contract_weaken [OF contract_check [OF contract_cp_nodes all]])
       (auto simp: backed_up_def dest: ran_ok_appendD)
qed

section \<open>Hooks\<close>

interpretation pre_hooks: hook_runner hook_OnFailure
  "\<lambda>(E, u, n, c) h. executeHookOnNode E (cpu_sshManager u) n h c ''pre''"
  "\<lambda>(E, u, n, c) h. wrap (hook_failed_text ''pre'' h c (node_Name n))"
  "\<lambda>(E, u, n, c) hooks. executeComponentPreHooks E u n hooks c"
  by unfold_locales (auto simp: executeComponentPreHooks_def split: prod.split)

interpretation post_hooks: hook_runner hook_OnFailure
  "\<lambda>(E, u, n, c) h. executeHookOnNode E (cpu_sshManager u) n h c ''post''"
  "\<lambda>(E, u, n, c) h. wrap (hook_failed_text ''post'' h c (node_Name n))"
  "\<lambda>(E, u, n, c) hooks. executeComponentPostHooks E u n hooks c"
  by unfold_locales (auto simp: executeComponentPostHooks_def split: prod.split)

lemma contract_hook:
  "(\<And>ev. node_event (node_Name n) ev \<Longrightarrow> A ev) \<Longrightarrow>
   contract A (executeHookOnNode E sm n h c phase) (\<lambda>_. ran_ok E (node_Name n) (hook_Command h) (hook_timeout h))"
  unfolding executeHookOnNode_def by (rule contract_session)

definition hooks_ran :: "env \<Rightarrow> string \<Rightarrow> AddonHook list \<Rightarrow> log \<Rightarrow> log \<Rightarrow> bool" where
  "hooks_ran E n hooks l0 l1 \<longleftrightarrow>
     (\<forall>h\<in>set hooks. hook_ignored (hook_OnFailure h) \<or> ran_ok E n (hook_Command h) (hook_timeout h) l0 l1)"

lemma contract_hooks:
  assumes "\<And>ev. node_event (node_Name n) ev \<Longrightarrow> A ev"
  shows "contract A (executeComponentPreHooks E u n hooks c) (\<lambda>_. hooks_ran E (node_Name n) hooks)"
    and "contract A (executeComponentPostHooks E u n hooks c) (\<lambda>_. hooks_ran E (node_Name n) hooks)"
proof -
  note hook = contract_hook [of n A E "cpu_sshManager u" _ c, OF assms]
  from pre_hooks.run_contract [of hooks A "(E, u, n, c)", simplified, OF hook]
  show "contract A (executeComponentPreHooks E u n hooks c) (\<lambda>_. hooks_ran E (node_Name n) hooks)"
    by (rule contract_weaken) (simp_all add: hooks_ran_def, blast intro: ran_ok_prefix)
  from post_hooks.run_contract [of hooks A "(E, u, n, c)", simplified, OF hook]
  show "contract A (executeComponentPostHooks E u n hooks c) (\<lambda>_. hooks_ran E (node_Name n) hooks)"
    by (rule contract_weaken) (simp_all add: hooks_ran_def, blast intro: ran_ok_prefix)
qed

text \<open>
  Hooks before a component upgrade: when they pass, every hook whose failure policy is
  neither \<open>Ignore\<close> nor \<open>Continue\<close> (an empty or misspelt policy included) has succeeded; when
  they fail, it is at such a hook, with the hooks before it run and none after it.
\<close>

theorem pre_hooks_policy:
  assumes "executeComponentPreHooks E u n hooks c w = (r, w')"
  shows "case r of
      Ok _ \<Rightarrow> \<forall>h\<in>set hooks. \<not> hook_ignored (hook_OnFailure h) \<longrightarrow>
        (\<exists>w1 w2. executeHookOnNode E (cpu_sshManager u) n h c ''pre'' w1 = (Ok (), w2))
    | Err e \<Rightarrow> \<exists>pre h post w1 e'. hooks = pre @ h # post \<and> executeComponentPreHooks E u n pre c w = (Ok (), w1)
        \<and> executeHookOnNode E (cpu_sshManager u) n h c ''pre'' w1 = (Err e', w')
        \<and> \<not> hook_ignored (hook_OnFailure h) \<and> e = wrap (hook_failed_text ''pre'' h c (node_Name n)) e'
    | Panic s \<Rightarrow> True"
proof (cases r)
  case (Ok x)
  with pre_hooks.run_Ok [of "(E, u, n, c)" hooks w x w'] assms show ?thesis by auto
next
  case (Err e)
  with pre_hooks.run_Err [of "(E, u, n, c)" hooks w e w'] assms show ?thesis by simp
qed simp

section \<open>CNI and CSI images\<close>

text \<open>Which addons count as network plugins, and what is patched for one of them.\<close>

definition cni_addon :: "AddonDefinition \<Rightarrow> bool" where
  "cni_addon a \<longleftrightarrow> ad_Type a \<in> {''helm'', ''manifest''} \<and> ad_Name a \<in> {''calico'', ''cilium'', ''flannel''}"

definition all_patched :: "('w \<Rightarrow> kobj) \<Rightarrow> 'w list \<Rightarrow> log \<Rightarrow> log \<Rightarrow> bool" where
  "all_patched k ws l0 l1 \<longleftrightarrow> (\<forall>w\<in>set ws. \<exists>l. prefix l0 l \<and> prefix (l @ [EvPatch (k w)]) l1)"

lemma contract_patch_all:
  assumes "\<And>w. w \<in> set ws \<Longrightarrow> A (EvPatch (k w))"
  shows "contract A (for_each ws (\<lambda>w. check (api_write E (EvPatch (k w))) (f w) ret)) (\<lambda>_. all_patched k ws)"
proof -
  have one: "contract A (check (api_write E (EvPatch (k w))) (f w) ret) (\<lambda>_ l0 l1. l1 = l0 @ [EvPatch (k w)])" if "w \<in> set ws" for w
    by (rule contract_weaken [OF contract_check [OF contract_write contract_ret]]) (auto intro: assms that)
  show ?thesis
    by (rule contract_weaken [OF contract_for_each [OF one]]) (auto simp: all_patched_def)
qed

definition image_event :: "event \<Rightarrow> bool" where
  "image_event ev \<longleftrightarrow> (\<exists>k ns. ev = EvList k ns [] \<and> k \<in> {''DaemonSet'', ''Deployment''})
     \<or> (\<exists>w. ev = EvPatch (KDaemonSet w)) \<or> (\<exists>w. ev = EvPatch (KDeployment w))"

definition cni_done :: "env \<Rightarrow> AddonDefinition \<Rightarrow> log \<Rightarrow> log \<Rightarrow> bool" where
  "cni_done E a l0 l1 \<longleftrightarrow> (cni_addon a \<longrightarrow> (\<exists>dss. k_list_daemonsets (kube E) l0 (ad_Namespace a) = Inr dss
     \<and> all_patched (\<lambda>ds. KDaemonSet (retag_workload (ad_Version a) ds)) dss l0 l1))"

lemma all_patched_appendD: "all_patched k ws (l0 @ m) l1 \<Longrightarrow> all_patched k ws l0 l1"
  unfolding all_patched_def by (meson append_prefixD)

lemma contract_upgradeCNI:
  "contract image_event (upgradeCNI E ri)
     (\<lambda>_ l0 l1. \<forall>a\<in>set (ris_Addons (ri_Spec ri)). \<exists>l l'. prefix l0 l \<and> prefix l' l1 \<and> cni_done E a l l')"
proof -
  have list: "contract image_event (query (EvList ''DaemonSet'' ns []) (\<lambda>l. k_list_daemonsets (kube E) l ns))
      (\<lambda>x l0 l1. k_list_daemonsets (kube E) l0 ns = Inr x \<and> l1 = l0 @ [EvList ''DaemonSet'' ns []])" for ns
    by (rule contract_query) (simp add: image_event_def)
  have patch: "contract image_event (for_each items (\<lambda>ds. check (api_write E (EvPatch (KDaemonSet (retag_workload v ds)))) (f ds) ret))
      (\<lambda>_. all_patched (\<lambda>ds. KDaemonSet (retag_workload v ds)) items)" for items v f
    by (rule contract_patch_all) (simp add: image_event_def)
  show ?thesis
    unfolding upgradeCNI_def
  proof (rule contract_for_each)
    fix a
    show "contract image_event
       (if ad_Type a \<noteq> ''helm'' \<and> ad_Type a \<noteq> ''manifest'' then ret ()
        else if ad_Name a \<noteq> ''calico'' \<and> ad_Name a \<noteq> ''cilium'' \<and> ad_Name a \<noteq> ''flannel'' then ret ()
        else check (query (EvList ''DaemonSet'' (ad_Namespace a) []) (\<lambda>l. k_list_daemonsets (kube E) l (ad_Namespace a)))
           (wrap (''failed to list DaemonSets in '' @ ad_Namespace a @ '': '')) (\<lambda>items.
         for_each items (\<lambda>ds. check (api_write E (EvPatch (KDaemonSet (retag_workload (ad_Version a) ds))))
             (wrap (''failed to update DaemonSet '' @ wl_Namespace ds @ ''/'' @ wl_Name ds @ '': '')) ret)))
       (\<lambda>_. cni_done E a)"
      by (intro contract_if contract_retI, simp add: cni_done_def cni_addon_def, simp add: cni_done_def cni_addon_def,
          rule contract_weaken [OF contract_check [OF list patch]])
         (auto simp: cni_done_def dest: all_patched_appendD)
  qed
qed

lemma contract_upgradeCSI: "contract image_event (upgradeCSI E ri) (\<lambda>_ _ _. True)"
proof -
  have list: "contract image_event (query (EvList ''Deployment'' ns []) f) (\<lambda>x l0 l1. True)" for ns and f :: "log \<Rightarrow> error + workload list"
    by (rule contract_weaken [OF contract_query]) (simp_all add: image_event_def)
  have patch: "contract image_event (for_each items (\<lambda>d. check (api_write E (EvPatch (KDeployment (retag_workload v d)))) (f d) ret))
      (\<lambda>_ _ _. True)" for items v f
    by (rule contract_weaken [OF contract_patch_all]) (simp_all add: image_event_def)
  have body: "contract image_event (check (query (EvList ''Deployment'' ns []) q) f (\<lambda>items.
      for_each items (\<lambda>d. check (api_write E (EvPatch (KDeployment (retag_workload v d)))) (g d) ret))) (\<lambda>_ _ _. True)" for ns q f v g
    by (rule contract_weaken [OF contract_check [OF list patch]]) simp
  show ?thesis
    unfolding upgradeCSI_def
    by (rule contract_weaken [OF contract_for_each [where Q = "\<lambda>_ _ _. True"]])
       (intro contract_if contract_retI body TrueI, simp)
qed

text \<open>
  The CNI upgrade rewrites every DaemonSet of the addon's namespace, not only those of the
  network plugin: for a plugin installed in \<open>kube-system\<close>, each DaemonSet listed there is
  patched so that all its images carry the addon's version as their tag.
\<close>

theorem upgradeCNI_patches_whole_namespace:
  assumes "pool_wf w" and "upgradeCNI E ri w = (Ok (), w')" and "a \<in> set (ris_Addons (ri_Spec ri))" and "cni_addon a"
  shows "\<exists>l dss. prefix (w_log w) l \<and> k_list_daemonsets (kube E) l (ad_Namespace a) = Inr dss
    \<and> (\<forall>ds\<in>set dss. EvPatch (KDaemonSet (retag_workload (ad_Version a) ds)) \<in> set (w_log w'))"
proof -
  from contractD(4) [OF contract_upgradeCNI assms(1,2)] assms(3)
  obtain l l' where l: "prefix (w_log w) l" "prefix l' (w_log w')" "cni_done E a l l'" by blast
  with assms(4) obtain dss where "k_list_daemonsets (kube E) l (ad_Namespace a) = Inr dss"
    "all_patched (\<lambda>ds. KDaemonSet (retag_workload (ad_Version a) ds)) dss l l'"
    by (auto simp: cni_done_def)
  moreover from this(2) l(2) have "\<forall>ds\<in>set dss. EvPatch (KDaemonSet (retag_workload (ad_Version a) ds)) \<in> set (w_log w')"
    unfolding all_patched_def by (auto elim!: prefixE)
  ultimately show ?thesis using l(1) by blast
qed

definition ex_cni_env :: env where
  "ex_cni_env = quiet_env\<lparr>kube := quiet_kube\<lparr>k_list_daemonsets := (\<lambda>l ns. Inr
     [zero_workload\<lparr>wl_Name := ''kube-proxy'', wl_Namespace := ns, wl_Images := [''registry.k8s.io/kube-proxy:v1.30.0''], wl_Ready := 1, wl_Desired := 1\<rparr>])\<rparr>\<rparr>"

definition ex_cni_release :: ReleaseImage where
  "ex_cni_release = zero_ReleaseImage\<lparr>ri_Spec := zero_ReleaseImageSpec\<lparr>ris_Addons :=
     [zero_Addon\<lparr>ad_Name := ''calico'', ad_Type := ''manifest'', ad_Version := ''v3.26'', ad_Namespace := ''kube-system''\<rparr>]\<rparr>\<rparr>"

lemma upgradeCNI_witness:
  "\<exists>w' ds. upgradeCNI ex_cni_env ex_cni_release empty_world = (Ok (), w') \<and> wl_Name ds = ''kube-proxy''
     \<and> EvPatch (KDaemonSet (retag_workload ''v3.26'' ds)) \<in> set (w_log w')"
proof -
  let ?a = "zero_Addon\<lparr>ad_Name := ''calico'', ad_Type := ''manifest'', ad_Version := ''v3.26'', ad_Namespace := ''kube-system''\<rparr>"
  have addons: "ris_Addons (ri_Spec ex_cni_release) = [?a]" by (simp add: ex_cni_release_def)
  obtain w' where run: "upgradeCNI ex_cni_env ex_cni_release empty_world = (Ok (), w')"
    by (simp add: upgradeCNI_def addons act_simps query_def command_def api_write_def ex_cni_env_def quiet_kube_def)
  let ?ds = "zero_workload\<lparr>wl_Name := ''kube-proxy'', wl_Namespace := ''kube-system'', wl_Images := [''registry.k8s.io/kube-proxy:v1.30.0''],
    wl_Ready := 1, wl_Desired := 1\<rparr>"
  from upgradeCNI_patches_whole_namespace [OF pool_wf_empty run, of ?a] addons
  have "EvPatch (KDaemonSet (retag_workload ''v3.26'' ?ds)) \<in> set (w_log w')"
    by (auto simp: cni_addon_def ex_cni_env_def zero_Addon_def)
  with run show ?thesis by (intro exI [of _ w'] exI [of _ ?ds]) simp
qed

section \<open>One control plane node\<close>

definition cp_event :: "string \<Rightarrow> event \<Rightarrow> bool" where
  "cp_event n ev \<longleftrightarrow> about_node n ev \<or> image_event ev"

lemma cp_event_node: "node_event n ev \<Longrightarrow> cp_event n ev" "about_node n ev \<Longrightarrow> cp_event n ev" "image_event ev \<Longrightarrow> cp_event n ev"
  by (simp_all add: cp_event_def about_node_session)

text \<open>
  What the log shows after a successful upgrade of a control plane node, in this order: the
  pre-hooks, the drain, the containerd script of the release's version, the post-hooks, (the
  images), the verification, the uncordon.
\<close>

definition cp_containerd_ran :: "env \<Rightarrow> ReleaseImage \<Rightarrow> string \<Rightarrow> log \<Rightarrow> log \<Rightarrow> bool" where
  "cp_containerd_ran E ri n l0 l1 \<longleftrightarrow>
     (let c = rc_Containerd (ris_Components (ri_Spec ri))
      in ran_ok E n (cp_containerd_of c (install_strategy c)) (strategy_timeout (upgrade_strategy c)) l0 l1)"

definition cp_upgraded :: "env \<Rightarrow> ControlPlaneUpgrader \<Rightarrow> ReleaseImage \<Rightarrow> string \<Rightarrow> log \<Rightarrow> log \<Rightarrow> bool" where
  "cp_upgraded E u ri n l0 l7 \<longleftrightarrow> (\<exists>l1 l2 l3 l4 l5 l6.
     hooks_ran E n (bc_PreHooks (rc_Containerd (ris_Components (ri_Spec ri)))) l0 l1
     \<and> (if should_drain u ri then drained E n l1 l2 else l2 = l1)
     \<and> cp_containerd_ran E ri n l2 l3
     \<and> hooks_ran E n (bc_PostHooks (rc_Containerd (ris_Components (ri_Spec ri)))) l3 l4
     \<and> prefix l4 l5 \<and> verified E n l5 l6
     \<and> l7 = (if should_drain u ri then l6 @ [EvUncordon n] else l6))"

lemma contract_cp_containerd:
  assumes "poll_ok E"
  shows "contract (cp_event (node_Name n)) (cp_upgradeContainerd E u n ri) (\<lambda>_. cp_containerd_ran E ri (node_Name n))"
proof -
  let ?c = "rc_Containerd (ris_Components (ri_Spec ri))"
  have roll: "contract (cp_event (node_Name n)) (upgradeContainerdRolling E u n ?c (upgrade_strategy ?c) (install_strategy ?c))
      (\<lambda>_. cp_containerd_ran E ri (node_Name n))"
    unfolding upgradeContainerdRolling_def
    by (rule contract_weaken [OF contract_session]) (auto simp: cp_event_node cp_containerd_ran_def)
  have drain: "contract (cp_event (node_Name n)) (cp_drainNode E u n) (\<lambda>_ l0 l1. prefix l0 l1)"
    unfolding cp_drainNode_def by (rule contract_conseq [OF contract_drain [OF assms]]) (auto simp: cp_event_node)
  have both: "contract (cp_event (node_Name n)) (upgradeContainerdDrainAndUpgrade E u n ?c (upgrade_strategy ?c) (install_strategy ?c))
      (\<lambda>_. cp_containerd_ran E ri (node_Name n))"
    unfolding upgradeContainerdDrainAndUpgrade_def
    by (rule contract_weaken [OF contract_check [OF drain roll]])
       (auto simp: cp_containerd_ran_def Let_def intro: ran_ok_prefix)
  show ?thesis
    unfolding cp_upgradeContainerd_def upgradeContainerdParallel_def Let_def by (intro contract_if roll both)
qed

lemma contract_cp_upgradeNode:
  assumes "poll_ok E"
  shows "contract (cp_event (node_Name n)) (cp_upgradeNode E u n ri) (\<lambda>_. cp_upgraded E u ri (node_Name n))"
proof -
  let ?n = "node_Name n" and ?c = "rc_Containerd (ris_Components (ri_Spec ri))" and ?d = "should_drain u ri"
  note pre = contract_hooks(1) [of n "cp_event ?n" E u "bc_PreHooks ?c" "''containerd''", OF cp_event_node(1)]
  note post = contract_hooks(2) [of n "cp_event ?n" E u "bc_PostHooks ?c" "''containerd''", OF cp_event_node(1)]
  have drain: "contract (cp_event ?n) (when_act ?d (cp_drainNode E u n)) (\<lambda>_ l0 l1. if ?d then drained E ?n l0 l1 else l1 = l0)"
    unfolding cp_drainNode_def
    by (rule contract_when, rule contract_conseq [OF contract_drain [OF assms]]) (auto simp: cp_event_node)
  have verify: "contract (cp_event ?n) (cp_verifyNodeUpgrade E n) (\<lambda>_. verified E ?n)"
    unfolding cp_verifyNodeUpgrade_def by (rule contract_conseq [OF contract_verify]) (auto simp: cp_event_node)
  have uncordon: "contract (cp_event ?n) (when_act ?d (cp_uncordonNode E u n))
      (\<lambda>_ l0 l1. if ?d then l1 = l0 @ [EvUncordon ?n] else l1 = l0)"
    unfolding cp_uncordonNode_def
    by (rule contract_when, rule contract_conseq [OF contract_uncordon]) (auto simp: cp_event_node)
  have cni: "contract (cp_event ?n) (upgradeCNI E ri) (\<lambda>_ l0 l1. prefix l0 l1)"
    by (rule contract_conseq [OF contract_upgradeCNI]) (auto simp: cp_event_node)
  have csi: "contract (cp_event ?n) (upgradeCSI E ri) (\<lambda>_ l0 l1. prefix l0 l1)"
    by (rule contract_conseq [OF contract_upgradeCSI]) (auto simp: cp_event_node)
  have images: "contract (cp_event ?n) (andthen (upgradeCNI E ri) (\<lambda>_. andthen (upgradeCSI E ri) (\<lambda>_.
      andthen (cp_verifyNodeUpgrade E n) (\<lambda>_. when_act ?d (cp_uncordonNode E u n)))))
      (\<lambda>_ l0 l1. \<exists>l5 l6. prefix l0 l5 \<and> verified E ?n l5 l6 \<and> l1 = (if ?d then l6 @ [EvUncordon ?n] else l6))"
    by (rule contract_weaken [OF contract_check [OF cni contract_check [OF csi contract_check [OF verify uncordon]]]])
       (meson prefix_order.trans)
  show ?thesis
    unfolding cp_upgradeNode_def Let_def
    by (rule contract_weaken [OF contract_check [OF pre contract_check [OF drain contract_check
          [OF contract_cp_containerd [OF assms] contract_check [OF post images]]]]])
       (assumption, assumption, unfold cp_upgraded_def, elim exE conjE, intro exI conjI)
qed

text \<open>
  A control plane node whose upgrade succeeds went through the whole sequence on that node:
  pre-hooks, drain (if asked for by the configuration or by the strategy), the containerd
  script for the release's version with exit code 0, post-hooks, verification, uncordon.
\<close>

theorem cp_upgradeNode_correct:
  assumes "poll_ok E" and "pool_wf w" and "cp_upgradeNode E u n ri w = (r, w')"
  shows "grew (cp_event (node_Name n)) (w_log w) w' \<and> pool_wf w' \<and> (\<forall>s. r \<noteq> Panic s)
    \<and> (r = Ok () \<longrightarrow> cp_upgraded E u ri (node_Name n) (w_log w) (w_log w'))"
  using contractD [OF contract_cp_upgradeNode [OF assms(1)] assms(2,3)] by blast

section \<open>The whole control plane upgrade\<close>

text \<open>
  The availability guard: with fewer than three control plane nodes the upgrade is refused
  before anything is done: the node list has been read twice and no host was contacted.
\<close>

theorem small_control_plane_refused:
  assumes "k_list_nodes (kube E) (w_log w) [] = Inr nodes" and "\<forall>n\<in>set nodes. node_ready n"
    and "k_list_nodes (kube E) (w_log w @ [EvList ''Node'' [] []]) control_plane_label = Inr cps" and "length cps < 3"
  shows "cp_ExecuteUpgrade E u cv ri w =
    (Err (wrap ''pre-upgrade checks failed: ''
       (Errorf (''at least 3 control plane nodes required for HA, got '' @ show_nat (length cps)))),
     w\<lparr>w_log := w_log w @ [EvList ''Node'' [] [], EvList ''Node'' [] control_plane_label]\<rparr>)"
proof -
  have "List.find (\<lambda>n. \<not> node_ready n) nodes = None" using assms(2) by (simp add: find_None_conv)
  with assms show ?thesis
    by (simp add: cp_ExecuteUpgrade_def cp_preUpgradeChecks_def checkClusterHealth_def getControlPlaneNodes_def
        List_nodes_def query_def check_apply for_each_guard fail_apply)
qed

text \<open>
  Waiting for KCP never looks at the cluster: it compares two fields of the ClusterVersion
  object in memory. When they differ, as they do during every upgrade, the wait only ends with
  the deadline error, so an upgrade that waits for KCP fails after all its nodes are done.
\<close>

theorem kcp_wait_never_succeeds:
  assumes "poll_ok E" and "cvs_DesiredUpdate (cv_Spec cv) = Some d" and "cvst_ActualVersion (cv_Status cv) \<noteq> upd_Version d"
  shows "waitForKCPUpgrade E cv w = (Err deadline_exceeded, w)"
proof -
  have "poll_n n (ret False) w = (Err deadline_exceeded, w)" for n
    by (induction n) (simp_all add: act_simps)
  moreover from assms(1) obtain n where "Poll E (10 * second) (10 * minute) (ret False) w = poll_n n (ret False) w"
    unfolding poll_ok_def Poll_def by blast
  ultimately show ?thesis using assms(2,3) by (simp add: waitForKCPUpgrade_def)
qed

text \<open>What a failed node leads to.\<close>

definition rolled_back :: "env \<Rightarrow> log \<Rightarrow> log \<Rightarrow> bool" where
  "rolled_back E l0 l1 \<longleftrightarrow> (\<exists>cps. k_list_nodes (kube E) l0 control_plane_label = Inr cps
     \<and> (\<forall>n\<in>set cps. ran_ok E (node_Name n) etcd_rollback_script None l0 l1))"

lemma contract_rollback: "contract any_event (cp_rollback E u) (\<lambda>_. rolled_back E)"
proof -
  have all: "contract any_event (on_all_nodes E sm nodes script ctx f g)
      (\<lambda>_ l0 l1. \<forall>n\<in>set nodes. ran_ok E (node_Name n) script ctx l0 l1)" for sm nodes script ctx f g
  proof (rule contractI)
    fix w r w' assume "pool_wf w" and "on_all_nodes E sm nodes script ctx f g w = (r, w')"
    from on_all_nodes_runs [OF this] show "pool_wf w' \<and> grew any_event (w_log w) w' \<and> (\<forall>s. r \<noteq> Panic s)
        \<and> (\<forall>x. r = Ok x \<longrightarrow> (\<forall>n\<in>set nodes. ran_ok E (node_Name n) script ctx (w_log w) (w_log w')))"
      by (auto elim: grew_mono)
  qed
  show ?thesis
    unfolding cp_rollback_def
    by (rule contract_weaken [OF contract_check [OF contract_cp_nodes all]])
       (auto simp: rolled_back_def dest: ran_ok_appendD)
qed

text \<open>
  (C17) A failed node upgrade is never reported as a success. With rollback enabled, either the
  etcd rollback script has run with exit code 0 on every control plane node after the failure,
  or the error says that the rollback failed too.
\<close>

theorem cp_failure_rolls_back:
  assumes "poll_ok E" and "pool_wf w" and "rbk_Enabled (cpc_Rollback (cpu_config u))"
    and "cp_upgradeNode E u n ri w = (Err e, w1)" and "cp_upgrade_one E u ri n w = (r, w')"
  shows "(r = Err (wrap (''upgrade failed on node '' @ node_Name n @ '': '') e) \<and> rolled_back E (w_log w1) (w_log w'))
    \<or> (\<exists>e'. r = Err (Wrapf (''upgrade failed on node '' @ node_Name n @ '' and rollback also failed: '') e
               ('', rollback error: '' @ error_string e')))"
proof -
  have wf: "pool_wf w1" using contractD(1) [OF contract_cp_upgradeNode [OF assms(1)] assms(2,4)] .
  obtain r2 w2 where rb: "cp_rollback E u w1 = (r2, w2)" by fastforce
  note c = contractD [OF contract_rollback wf rb]
  from c assms(3,4,5) rb show ?thesis
    by (cases r2) (auto simp: cp_upgrade_one_def attempt_apply fail_apply)
qed

text \<open>
  The final verification: control plane nodes ready, etcd healthy, control plane pods running,
  and the API server answering as the last event.
\<close>

definition post_verified :: "env \<Rightarrow> log \<Rightarrow> log \<Rightarrow> bool" where
  "post_verified E l0 l4 \<longleftrightarrow> (\<exists>cps l2 pods.
     k_list_nodes (kube E) l0 control_plane_label = Inr cps \<and> (\<forall>n\<in>set cps. node_ready n)
     \<and> etcd_healthy E (l0 @ [EvList ''Node'' [] control_plane_label]) l2
     \<and> k_list_pods (kube E) l2 (PodsLabels ''kube-system'' [(''tier'', ''control-plane'')]) = Inr pods
     \<and> (\<forall>p\<in>set pods. pod_Phase p = ''Running'')
     \<and> l4 = l2 @ [EvListPods (PodsLabels ''kube-system'' [(''tier'', ''control-plane'')]), EvAPIProbe]
     \<and> k_probe (kube E) (l2 @ [EvListPods (PodsLabels ''kube-system'' [(''tier'', ''control-plane'')])]) = None)"

lemma contract_post: "contract any_event (postUpgradeVerification E u) (\<lambda>_. post_verified E)"
proof -
  have nodes: "contract any_event (checkControlPlaneNodesReady E)
      (\<lambda>_ l0 l1. l1 = l0 @ [EvList ''Node'' [] control_plane_label]
         \<and> (\<exists>cps. k_list_nodes (kube E) l0 control_plane_label = Inr cps \<and> (\<forall>n\<in>set cps. node_ready n)))"
    unfolding checkControlPlaneNodesReady_def
    by (rule contract_weaken [OF contract_check [OF contract_cp_nodes contract_guard]]) auto
  let ?sel = "PodsLabels ''kube-system'' [(''tier'', ''control-plane'')]"
  have pods: "contract any_event (checkControlPlanePods E)
      (\<lambda>_ l0 l1. l1 = l0 @ [EvListPods ?sel]
         \<and> (\<exists>pods. k_list_pods (kube E) l0 ?sel = Inr pods \<and> (\<forall>p\<in>set pods. pod_Phase p = ''Running'')))"
    unfolding checkControlPlanePods_def List_pods_def
    by (rule contract_weaken [OF contract_check [OF contract_query contract_guard]]) auto
  have api: "contract any_event (checkAPIServerHealth E u) (\<lambda>_ l0 l1. k_probe (kube E) l0 = None \<and> l1 = l0 @ [EvAPIProbe])"
    unfolding checkAPIServerHealth_def by (intro contract_if contract_fail contract_command TrueI)
  show ?thesis
    unfolding postUpgradeVerification_def
    by (rule contract_weaken [OF contract_check [OF nodes contract_check [OF contract_etcd contract_check [OF pods api]]]])
       (auto simp: post_verified_def)
qed

lemma contract_upgrade_one:
  assumes "poll_ok E"
  shows "contract any_event (cp_upgrade_one E u ri n) (\<lambda>_. cp_upgraded E u ri (node_Name n))"
proof -
  have node: "contract any_event (cp_upgradeNode E u n ri) (\<lambda>_. cp_upgraded E u ri (node_Name n))"
    by (rule contract_conseq [OF contract_cp_upgradeNode [OF assms]]) auto
  have rollback: "contract any_event (attempt (cp_rollback E u) (\<lambda>r'. case r' of Inl e' \<Rightarrow> fail (f e') | Inr _ \<Rightarrow> fail g)) Q" for f g and Q :: "unit \<Rightarrow> _"
    by (rule contract_weaken [OF contract_attempt [OF contract_rollback, where R = "\<lambda>_ _ _ _. False" and S = "\<lambda>_ _ _. False"]])
       (auto intro: contract_fail)
  have ok: "contract any_event (ret ()) (\<lambda>_ l0 l1. l1 = l0)" by (rule contract_retI) simp
  show ?thesis
    unfolding cp_upgrade_one_def
    by (rule contract_weaken [OF contract_attempt [OF node, where R = "\<lambda>_ _ l0 l1. l1 = l0" and S = "\<lambda>_ _ _. False"]])
       (auto intro!: contract_fail rollback ok)
qed

lemma contract_kcp:
  assumes "poll_ok E" and "cvs_DesiredUpdate (cv_Spec cv) = Some d"
  shows "contract any_event (when_act b (waitForKCPUpgrade E cv)) (\<lambda>_ l0 l1. prefix l0 l1)"
proof -
  have "contract any_event (Poll E (10 * second) (10 * minute) (ret x)) (\<lambda>_ l0 l1. prefix l0 l1)" for x
    by (rule contract_weaken [OF contract_Poll [OF assms(1) contract_ret]]) auto
  then show ?thesis
    by (auto simp: when_act_def waitForKCPUpgrade_def assms(2) intro: contract_retI)
qed

text \<open>
  (C4) A control plane upgrade that succeeds has done all of it, in this order: all nodes were
  ready and etcd healthy with at least three control plane nodes; etcd was backed up on every
  control plane node (if configured) before the first node was touched; every control plane
  node then listed was upgraded; and afterwards nodes, etcd, pods and API server were healthy.
\<close>

theorem cp_ExecuteUpgrade_correct:
  assumes "poll_ok E" and "pool_wf w" and "cvs_DesiredUpdate (cv_Spec cv) = Some d"
    and "cp_ExecuteUpgrade E u cv ri w = (Ok (), w')"
  shows "\<exists>l1 l2 cps l3 l4. prechecked E (w_log w) l1 \<and> backed_up E u l1 l2
    \<and> k_list_nodes (kube E) l2 control_plane_label = Inr cps
    \<and> (\<forall>n\<in>set cps. \<exists>l l'. prefix (l2 @ [EvList ''Node'' [] control_plane_label]) l \<and> prefix l' l3
         \<and> cp_upgraded E u ri (node_Name n) l l')
    \<and> prefix l3 l4 \<and> post_verified E l4 (w_log w')"
proof -
  let ?wait = "kcp_WaitForKCP (cpc_KubeadmControlPlane (cpu_config u))"
  have tail: "contract any_event (check (when_act ?wait (waitForKCPUpgrade E cv)) f (\<lambda>_. postUpgradeVerification E u))
      (\<lambda>_ l0 l1. \<exists>l. prefix l0 l \<and> post_verified E l l1)" for f
    by (rule contract_weaken [OF contract_check [OF contract_kcp [OF assms(1,3)] contract_post]]) blast
  have nodes: "contract any_event (for_each ns (cp_upgrade_one E u ri))
      (\<lambda>_ l0 l1. \<forall>n\<in>set ns. \<exists>l l'. prefix l0 l \<and> prefix l' l1 \<and> cp_upgraded E u ri (node_Name n) l l')" for ns
    by (rule contract_for_each) (rule contract_upgrade_one [OF assms(1)])
  have "contract any_event (cp_ExecuteUpgrade E u cv ri)
      (\<lambda>_ l0 l5. \<exists>l1 l2 cps l3 l4. prechecked E l0 l1 \<and> backed_up E u l1 l2
        \<and> k_list_nodes (kube E) l2 control_plane_label = Inr cps
        \<and> (\<forall>n\<in>set cps. \<exists>l l'. prefix (l2 @ [EvList ''Node'' [] control_plane_label]) l \<and> prefix l' l3
             \<and> cp_upgraded E u ri (node_Name n) l l')
        \<and> prefix l3 l4 \<and> post_verified E l4 l5)"
    unfolding cp_ExecuteUpgrade_def
    by (rule contract_weaken [OF contract_check [OF contract_prechecks contract_check [OF contract_backup
          contract_check [OF contract_cp_nodes contract_check [OF nodes tail]]]]]) (simp, blast)
  from contractD(4) [OF this assms(2,4)] show ?thesis by simp
qed

section \<open>Concrete runs\<close>

definition ex_cp :: ControlPlaneUpgrader where
  "ex_cp = NewControlPlaneUpgrader True (NewSSHManager 0)
     \<lparr>cpc_KubeadmControlPlane = \<lparr>kcp_Enabled = True, kcp_WaitForKCP = False\<rparr>,
      cpc_RollingUpdate = \<lparr>rlu_MaxUnavailable = 1,
        rlu_Drain = \<lparr>dr_Enabled = True, dr_Timeout = minute, dr_IgnoreDaemonSets = True\<rparr>, rlu_Timeout = minute\<rparr>,
      cpc_EtcdBackup = \<lparr>eb_Enabled = True, eb_Timeout = minute, eb_Storage = \<lparr>ebs_Type = ''Secret'', ebs_Retention = 3\<rparr>\<rparr>,
      cpc_Rollback = \<lparr>rbk_Enabled = True, rbk_OnTimeout = True, rbk_OnFailure = True\<rparr>\<rparr>"

definition ex_ready :: "string \<Rightarrow> node" where
  "ex_ready n = zero_node\<lparr>node_Name := n, node_Conditions := [(''Ready'', ''True'')]\<rparr>"

definition ex_cp_env :: "node list \<Rightarrow> bool \<Rightarrow> env" where
  "ex_cp_env nodes up = quiet_env\<lparr>kube := quiet_kube\<lparr>k_list_nodes := (\<lambda>l s. Inr nodes),
     k_get_node := (\<lambda>l n. if up then Inr (ex_ready n) else Inl not_found)\<rparr>\<rparr>"

definition ex_cps :: "node list" where
  "ex_cps = [ex_ready ''m1'', ex_ready ''m2'', ex_ready ''m3'']"

lemma ex_cp_env_simps [simp]:
  "ssh (ex_cp_env nodes up) = quiet_ssh" "host (ex_cp_env nodes up) = quiet_host" "poll_ok (ex_cp_env nodes up)"
  "k_list_pods (kube (ex_cp_env nodes up)) = (\<lambda>l s. Inr [])"
  "k_get_node (kube (ex_cp_env nodes up)) = (\<lambda>l n. if up then Inr (ex_ready n) else Inl not_found)"
  "k_list_nodes (kube (ex_cp_env nodes up)) = (\<lambda>l s. Inr nodes)"
  "k_write (kube (ex_cp_env nodes up)) = (\<lambda>l ev. None)" "k_probe (kube (ex_cp_env nodes up)) = (\<lambda>l. None)"
  by (simp_all add: ex_cp_env_def quiet_kube_def poll_ok_quiet)

lemma ex_cp_simps [simp]:
  "cpu_sshManager ex_cp = NewSSHManager 0" "cpu_clientset ex_cp" "rbk_Enabled (cpc_Rollback (cpu_config ex_cp))"
  "should_drain ex_cp zero_ReleaseImage" "eb_Enabled (cpc_EtcdBackup (cpu_config ex_cp))"
  "\<not> kcp_WaitForKCP (cpc_KubeadmControlPlane (cpu_config ex_cp))"
  by (simp_all add: ex_cp_def NewControlPlaneUpgrader_def should_drain_def)

lemma ex_release_simps [simp]:
  "ris_Addons (ri_Spec zero_ReleaseImage) = []" "ris_Components (ri_Spec zero_ReleaseImage) = zero_Components"
  "rc_Containerd zero_Components = zero_BinaryComponent"
  "bc_PreHooks zero_BinaryComponent = []" "bc_PostHooks zero_BinaryComponent = []"
  by (simp_all add: zero_defs)

lemma ex_containerd:
  assumes "w_pool w = []"
  shows "\<exists>w'. cp_upgradeContainerd (ex_cp_env nodes up) ex_cp n zero_ReleaseImage w = (Ok (), w') \<and> w_pool w' = []"
proof -
  have "bus_Type (upgrade_strategy zero_BinaryComponent) = ''Rolling''"
    by (simp add: upgrade_strategy_def zero_BinaryComponent_def default_upgrade_def)
  then show ?thesis
    unfolding cp_upgradeContainerd_def Let_def upgradeContainerdRolling_def
    using quiet_session [of "ex_cp_env nodes up" w] assms by simp
qed

text \<open>One node: succeeds when the node can be read afterwards, fails when it cannot.\<close>

lemma ex_cp_node:
  assumes "w_pool w = []"
  shows "\<exists>w'. cp_upgradeNode (ex_cp_env nodes up) ex_cp n zero_ReleaseImage w
      = (if up then Ok () else Err (wrap (''failed to get node '' @ node_Name n @ '': '') not_found), w') \<and> w_pool w' = []"
proof -
  let ?w0 = "w\<lparr>w_log := w_log w @ [EvListPods (PodsOnNode (node_Name n)), EvListPods (PodsOnNode (node_Name n))]\<rparr>"
  have "\<exists>w1. cp_upgradeContainerd (ex_cp_env nodes up) ex_cp n zero_ReleaseImage ?w0 = (Ok (), w1) \<and> w_pool w1 = []"
    using assms by (intro ex_containerd) simp
  then obtain w1 where w1: "cp_upgradeContainerd (ex_cp_env nodes up) ex_cp n zero_ReleaseImage ?w0 = (Ok (), w1)" "w_pool w1 = []"
    by blast
  have "\<not> not_ready_condition (ex_ready m)" for m by (simp add: not_ready_condition_def ex_ready_def)
  then show ?thesis
    using w1
    by (simp add: cp_upgradeNode_def executeComponentPreHooks_def executeComponentPostHooks_def upgradeCNI_def upgradeCSI_def
        check_apply ret_apply fail_apply cp_drainNode_def quiet_drain cp_verifyNodeUpgrade_def verify_node_def Get_node_def
        query_def cp_uncordonNode_def uncordon_node_def api_write_def command_def)
qed

lemma cp_upgradeNode_witness: "\<exists>l. cp_upgraded (ex_cp_env [] True) ex_cp zero_ReleaseImage ''m1'' [] l"
proof -
  have n: "node_Name (ex_ready ''m1'') = ''m1''" by (simp add: ex_ready_def)
  obtain w' where run: "cp_upgradeNode (ex_cp_env [] True) ex_cp (ex_ready ''m1'') zero_ReleaseImage empty_world = (Ok (), w')"
    using ex_cp_node [of empty_world "[]" True "ex_ready ''m1''"] by (auto simp: empty_world_def)
  have "cp_upgraded (ex_cp_env [] True) ex_cp zero_ReleaseImage ''m1'' (w_log empty_world) (w_log w')"
    using cp_upgradeNode_correct [OF _ pool_wf_empty run] n by simp
  then show ?thesis by (intro exI [of _ "w_log w'"]) (simp add: empty_world_def)
qed

lemma small_control_plane_witness:
  "\<exists>e. cp_ExecuteUpgrade (ex_cp_env [ex_ready ''m1''] True) ex_cp zero_ClusterVersion zero_ReleaseImage empty_world
     = (Err e, empty_world\<lparr>w_log := [EvList ''Node'' [] [], EvList ''Node'' [] control_plane_label]\<rparr>)"
proof -
  have "node_ready (ex_ready ''m1'')" by (simp add: node_ready_def ex_ready_def)
  then show ?thesis
    using small_control_plane_refused [of "ex_cp_env [ex_ready ''m1''] True" empty_world "[ex_ready ''m1'']" "[ex_ready ''m1'']"]
    by (simp add: empty_world_def)
qed

lemma kcp_wait_witness:
  "waitForKCPUpgrade quiet_env (zero_ClusterVersion\<lparr>cv_Spec := (cv_Spec zero_ClusterVersion)
      \<lparr>cvs_DesiredUpdate := Some \<lparr>upd_Version = ''v1.1'', upd_Image = [], upd_Force = False\<rparr>\<rparr>\<rparr>) empty_world
   = (Err deadline_exceeded, empty_world)"
  by (rule kcp_wait_never_succeeds [where d = "\<lparr>upd_Version = ''v1.1'', upd_Image = [], upd_Force = False\<rparr>"])
     (simp_all add: zero_ClusterVersion_def zero_ClusterVersionStatus_def)

lemma pre_hooks_witness:
  "\<exists>w'. executeComponentPreHooks quiet_env ex_cp (ex_ready ''m1'')
      [\<lparr>hook_Name = ''h'', hook_Command = ''true'', hook_Timeout = None, hook_OnFailure = []\<rparr>] ''containerd'' empty_world = (Ok (), w')
   \<and> (\<exists>w1 w2. executeHookOnNode quiet_env (NewSSHManager 0) (ex_ready ''m1'')
        \<lparr>hook_Name = ''h'', hook_Command = ''true'', hook_Timeout = None, hook_OnFailure = []\<rparr> ''containerd'' ''pre'' w1 = (Ok (), w2))"
proof -
  let ?h = "\<lparr>hook_Name = ''h'', hook_Command = ''true'', hook_Timeout = None, hook_OnFailure = []\<rparr>"
  have "\<exists>w'. executeHookOnNode quiet_env (NewSSHManager 0) (ex_ready ''m1'') ?h ''containerd'' ''pre'' empty_world = (Ok (), w') \<and> w_pool w' = []"
    unfolding executeHookOnNode_def by (rule quiet_session) (simp_all add: empty_world_def)
  then obtain w' where "executeHookOnNode quiet_env (NewSSHManager 0) (ex_ready ''m1'') ?h ''containerd'' ''pre'' empty_world = (Ok (), w')"
    by blast
  then have run: "executeComponentPreHooks quiet_env ex_cp (ex_ready ''m1'') [?h] ''containerd'' empty_world = (Ok (), w')"
    by (simp add: executeComponentPreHooks_def check_apply hook_step_apply ret_apply)
  from pre_hooks_policy [OF run] run show ?thesis by (auto simp: hook_ignored_def)
qed

lemma ex_quiet_nodes:
  "w_pool w = [] \<Longrightarrow> \<exists>w'. on_all_nodes (ex_cp_env nodes up) (NewSSHManager 0) ns script ctx f g w = (Ok (), w') \<and> w_pool w' = []"
proof (induction ns arbitrary: w)
  case Nil
  then show ?case by (simp add: on_all_nodes_def act_simps)
next
  case (Cons n ns)
  have "\<exists>w'. andthen (run_on_node (ex_cp_env nodes up) (NewSSHManager 0) (node_Name n) script ctx (f n) (g n)) (\<lambda>_. ret ()) w
      = (Ok (), w') \<and> w_pool w' = []"
    using Cons.prems by (intro quiet_session) simp_all
  then obtain w1 where w1: "andthen (run_on_node (ex_cp_env nodes up) (NewSSHManager 0) (node_Name n) script ctx (f n) (g n)) (\<lambda>_. ret ()) w
      = (Ok (), w1)" "w_pool w1 = []" by blast
  from Cons.IH [OF w1(2)] w1(1) show ?case by (auto simp: on_all_nodes_def check_apply [of "andthen _ _"])
qed

lemma cp_rollback_witness:
  "\<exists>l0 l1. rolled_back (ex_cp_env ex_cps False) l0 l1"
proof -
  let ?E = "ex_cp_env ex_cps False"
  obtain e w1 where node: "cp_upgradeNode ?E ex_cp (ex_ready ''m1'') zero_ReleaseImage empty_world = (Err e, w1)" "w_pool w1 = []"
    using ex_cp_node [of empty_world ex_cps False "ex_ready ''m1''"] by (auto simp: empty_world_def)
  let ?w2 = "w1\<lparr>w_log := w_log w1 @ [EvList ''Node'' [] control_plane_label]\<rparr>"
  have "\<exists>w'. cp_rollback ?E ex_cp w1 = (Ok (), w') \<and> w_pool w' = []"
    unfolding cp_rollback_def getControlPlaneNodes_def List_nodes_def check_apply query_def
    using ex_quiet_nodes [of ?w2 ex_cps False ex_cps] node(2) by simp
  then obtain w' where "cp_rollback ?E ex_cp w1 = (Ok (), w')" by blast
  with node(1) have run: "cp_upgrade_one ?E ex_cp zero_ReleaseImage (ex_ready ''m1'') empty_world
      = (Err (wrap (''upgrade failed on node '' @ node_Name (ex_ready ''m1'') @ '': '') e), w')"
    by (simp add: cp_upgrade_one_def attempt_apply fail_apply)
  from cp_failure_rolls_back [OF _ pool_wf_empty _ node(1) run] show ?thesis by auto
qed

lemma ex_for_each_Ok:
  assumes "\<And>x w. w_pool w = [] \<Longrightarrow> \<exists>w'. f x w = (Ok (), w') \<and> w_pool w' = []"
  shows "w_pool w = [] \<Longrightarrow> \<exists>w'. for_each xs f w = (Ok (), w') \<and> w_pool w' = []"
proof (induction xs arbitrary: w)
  case (Cons x xs)
  from assms [OF Cons.prems] obtain w1 where "f x w = (Ok (), w1)" "w_pool w1 = []" by blast
  with Cons.IH [of w1] show ?case by (simp add: check_apply)
qed (simp add: act_simps)

lemma ex_list:
  "getControlPlaneNodes (ex_cp_env ex_cps True) w = (Ok ex_cps, w\<lparr>w_log := w_log w @ [EvList ''Node'' [] control_plane_label]\<rparr>)"
  by (simp add: getControlPlaneNodes_def List_nodes_def query_def)

lemma ex_etcd:
  assumes "w_pool w = []"
  shows "\<exists>w'. checkEtcdHealth (ex_cp_env ex_cps True) ex_cp w = (Ok (), w') \<and> w_pool w' = []"
proof -
  let ?w = "w\<lparr>w_log := w_log w @ [EvList ''Node'' [] control_plane_label]\<rparr>"
  have first: "(case ex_cps of [] \<Rightarrow> a | n # _ \<Rightarrow> b n) = b (ex_ready ''m1'')" for a :: "unit cact" and b
    by (simp add: ex_cps_def)
  have "\<exists>w'. andthen (run_on_node (ex_cp_env ex_cps True) (NewSSHManager 0) n sc None f g) (\<lambda>_. ret ()) ?w
      = (Ok (), w') \<and> w_pool w' = []" for n sc f g
    by (rule quiet_session) (simp_all add: assms)
  then show ?thesis
    unfolding checkEtcdHealth_def by (subst check_apply) (simp only: ex_list prod.case res.case first ex_cp_simps)
qed

lemma ex_prechecks:
  assumes "w_pool w = []"
  shows "\<exists>w'. cp_preUpgradeChecks (ex_cp_env ex_cps True) ex_cp w = (Ok (), w') \<and> w_pool w' = []"
proof -
  have "List.find (\<lambda>n. \<not> node_ready n) ex_cps = None"
    by (simp add: node_ready_def ex_ready_def ex_cps_def)
  then have health: "checkClusterHealth (ex_cp_env ex_cps True) w = (Ok (), w\<lparr>w_log := w_log w @ [EvList ''Node'' [] []]\<rparr>)"
    by (simp add: checkClusterHealth_def List_nodes_def check_apply query_def for_each_guard)
  have three: "\<not> length ex_cps < 3" by (simp add: ex_cps_def)
  let ?w = "w\<lparr>w_log := w_log w @ [EvList ''Node'' [] [], EvList ''Node'' [] control_plane_label]\<rparr>"
  have "\<exists>w'. checkEtcdHealth (ex_cp_env ex_cps True) ex_cp ?w = (Ok (), w') \<and> w_pool w' = []"
    using assms by (intro ex_etcd) simp
  then show ?thesis
    unfolding cp_preUpgradeChecks_def by (simp add: check_apply health ex_list three)
qed

lemma ex_backup:
  assumes "w_pool w = []"
  shows "\<exists>w'. backupBeforeUpgrade (ex_cp_env ex_cps True) ex_cp w = (Ok (), w') \<and> w_pool w' = []"
proof -
  have one: "\<exists>w'. check (backupEtcd (ex_cp_env ex_cps True) ex_cp n) f ret w = (Ok (), w') \<and> w_pool w' = []" if "w_pool w = []" for n f w
  proof -
    have "\<exists>w'. backupEtcd (ex_cp_env ex_cps True) ex_cp n w = (Ok (), w') \<and> w_pool w' = []"
      unfolding backupEtcd_def ex_cp_simps by (rule quiet_session) (simp_all add: that)
    then show ?thesis by (auto simp: check_apply ret_apply)
  qed
  let ?w = "w\<lparr>w_log := w_log w @ [EvList ''Node'' [] control_plane_label]\<rparr>"
  let ?f = "\<lambda>n. check (backupEtcd (ex_cp_env ex_cps True) ex_cp n) (wrap (''failed to backup etcd on node '' @ node_Name n @ '': '')) ret"
  have "\<exists>w'. for_each ex_cps ?f ?w = (Ok (), w') \<and> w_pool w' = []"
    using assms by (intro ex_for_each_Ok one) simp_all
  moreover have "backupBeforeUpgrade (ex_cp_env ex_cps True) ex_cp w = for_each ex_cps ?f ?w"
    unfolding backupBeforeUpgrade_def by (simp only: ex_cp_simps not_True_eq_False if_False check_apply [of "getControlPlaneNodes _"] ex_list prod.case res.case)
  ultimately show ?thesis by simp
qed

lemma ex_upgrade_nodes:
  assumes "w_pool w = []"
  shows "\<exists>w'. for_each ns (cp_upgrade_one (ex_cp_env ex_cps True) ex_cp zero_ReleaseImage) w = (Ok (), w') \<and> w_pool w' = []"
proof (rule ex_for_each_Ok [OF _ assms])
  fix n :: node and w :: world assume "w_pool w = []"
  from ex_cp_node [OF this, of ex_cps True n]
  show "\<exists>w'. cp_upgrade_one (ex_cp_env ex_cps True) ex_cp zero_ReleaseImage n w = (Ok (), w') \<and> w_pool w' = []"
    by (auto simp: cp_upgrade_one_def attempt_apply ret_apply)
qed

lemma ex_post:
  assumes "w_pool w = []"
  shows "\<exists>w'. postUpgradeVerification (ex_cp_env ex_cps True) ex_cp w = (Ok (), w')"
proof -
  have ready: "node_ready (ex_ready n)" for n by (simp add: node_ready_def ex_ready_def)
  let ?w = "w\<lparr>w_log := w_log w @ [EvList ''Node'' [] control_plane_label]\<rparr>"
  obtain w1 where w1: "checkEtcdHealth (ex_cp_env ex_cps True) ex_cp ?w = (Ok (), w1)" using ex_etcd [of ?w] assms by auto
  have nodes: "checkControlPlaneNodesReady (ex_cp_env ex_cps True) w = (Ok (), ?w)"
    using ready by (simp add: checkControlPlaneNodesReady_def getControlPlaneNodes_def List_nodes_def check_apply query_def
        ret_apply ex_cps_def)
  show ?thesis
    unfolding postUpgradeVerification_def check_apply nodes
    using w1 by (simp add: checkControlPlanePods_def checkAPIServerHealth_def List_pods_def query_def command_def check_apply ret_apply)
qed

definition ex_desired :: ClusterVersion where
  "ex_desired = zero_ClusterVersion\<lparr>cv_Spec := (cv_Spec zero_ClusterVersion)
      \<lparr>cvs_DesiredUpdate := Some \<lparr>upd_Version = ''v1.1'', upd_Image = [], upd_Force = False\<rparr>\<rparr>\<rparr>"

lemma cp_ExecuteUpgrade_witness:
  "\<exists>w' l1 l2. cp_ExecuteUpgrade (ex_cp_env ex_cps True) ex_cp ex_desired zero_ReleaseImage empty_world = (Ok (), w')
     \<and> prechecked (ex_cp_env ex_cps True) [] l1 \<and> backed_up (ex_cp_env ex_cps True) ex_cp l1 l2"
proof -
  let ?E = "ex_cp_env ex_cps True"
  have "w_pool empty_world = []" by (simp add: empty_world_def)
  from ex_prechecks [OF this] obtain w1 where w1: "cp_preUpgradeChecks ?E ex_cp empty_world = (Ok (), w1)" "w_pool w1 = []" by blast
  from ex_backup [OF w1(2)] obtain w2 where w2: "backupBeforeUpgrade ?E ex_cp w1 = (Ok (), w2)" "w_pool w2 = []" by blast
  let ?w3 = "w2\<lparr>w_log := w_log w2 @ [EvList ''Node'' [] control_plane_label]\<rparr>"
  have "w_pool ?w3 = []" using w2 by simp
  from ex_upgrade_nodes [OF this] obtain w4 where
    w4: "for_each ex_cps (cp_upgrade_one ?E ex_cp zero_ReleaseImage) ?w3 = (Ok (), w4)" "w_pool w4 = []" by blast
  from ex_post [OF w4(2)] obtain w' where w': "postUpgradeVerification ?E ex_cp w4 = (Ok (), w')" by blast
  have list: "getControlPlaneNodes ?E w2 = (Ok ex_cps, ?w3)"
    by (simp add: getControlPlaneNodes_def List_nodes_def query_def)
  have run: "cp_ExecuteUpgrade ?E ex_cp ex_desired zero_ReleaseImage empty_world = (Ok (), w')"
    unfolding cp_ExecuteUpgrade_def check_apply by (simp add: w1 w2 list w4 w' ret_apply)
  have d: "cvs_DesiredUpdate (cv_Spec ex_desired) = Some \<lparr>upd_Version = ''v1.1'', upd_Image = [], upd_Force = False\<rparr>"
    by (simp add: ex_desired_def)
  have "\<exists>l1 l2. prechecked ?E [] l1 \<and> backed_up ?E ex_cp l1 l2"
    using cp_ExecuteUpgrade_correct [OF _ pool_wf_empty d run] by (auto simp: empty_world_def)
  with run show ?thesis by blast
qed

end
