(* ===== verification/Addon_Values.thy ===== *)
theory Addon_Values
  imports Cluster_Env Topo_Sort Go_Quote
begin

text \<open>
  Values of addons: \<open>modules/cvo/internal/addon/values.go\<close> (merging the defaults of a release
  with the values of a ClusterAddon, validating the values against the declared variables)
  and \<open>processor.go\<close> (rendering a manifest template). A decoded JSON document is a \<open>json\<close>;
  a Go map is an association list whose keys are distinct, and a number is kept as the text
  of the \<open>float64\<close>. Decoding JSON, encoding YAML and the template engine are parameters, in
  the record \<open>codec\<close>, and so are the parts of \<open>net/http\<close> that can fail besides the request
  itself, and whether the dynamic type of an error has a method \<open>IsAlreadyExists\<close>.
\<close>

section \<open>Definitions\<close>

datatype json =
    JNull
  | JBool bool
  | JNumber string
  | JString string
  | JArray "json list"
  | JObject "(string \<times> json) list"

type_synonym values_raw = "(string \<times> json_raw) list"
type_synonym json_map = "(string \<times> json) list"

record codec =
  c_unmarshal :: "json_raw \<Rightarrow> error + json"
  c_yaml :: "json \<Rightarrow> error + string"
  c_template :: "(json \<Rightarrow> string) \<Rightarrow> (int \<Rightarrow> string \<Rightarrow> string) \<Rightarrow> string \<Rightarrow> json \<Rightarrow> error + string"
  c_new_request :: "string \<Rightarrow> error option"
  c_read_body :: "log \<Rightarrow> error option"
  c_exists_method :: "error \<Rightarrow> bool"

fun deepMerge :: "json \<Rightarrow> json \<Rightarrow> json" where
  "deepMerge base override =
     (case (base, override) of
        (JObject baseMap, JObject overrideMap) \<Rightarrow>
          JObject (foldl (\<lambda>result (k, v).
              case map_of result k of
                Some existing \<Rightarrow> upd_key k (deepMerge existing v) result
              | None \<Rightarrow> upd_key k v result) baseMap overrideMap)
      | _ \<Rightarrow> override)"

declare deepMerge.simps [simp del]

definition merge_default :: "codec \<Rightarrow> json_map \<Rightarrow> string \<times> json_raw \<Rightarrow> json_map" where
  "merge_default X result kv = (case c_unmarshal X (snd kv) of Inl e \<Rightarrow> result | Inr val \<Rightarrow> upd_key (fst kv) val result)"

definition merge_override :: "codec \<Rightarrow> json_map \<Rightarrow> string \<times> json_raw \<Rightarrow> json_map" where
  "merge_override X result kv =
     (case c_unmarshal X (snd kv) of
        Inl e \<Rightarrow> result
      | Inr val \<Rightarrow> upd_key (fst kv) (deepMerge (case map_of result (fst kv) of None \<Rightarrow> JNull | Some v \<Rightarrow> v) val) result)"

definition MergeValues :: "codec \<Rightarrow> values_raw \<Rightarrow> values_raw \<Rightarrow> json_map" where
  "MergeValues X defaults overrides =
     foldl (merge_override X) (foldl (merge_default X) [] defaults) overrides"

fun findVariable :: "AddonVariable list \<Rightarrow> string \<Rightarrow> AddonVariable option" where
  "findVariable [] name = None"
| "findVariable (v # vs) name = (if av_Name v = name then Some v else findVariable vs name)"

text \<open>\<open>%T\<close> of a decoded value.\<close>

fun go_type :: "json \<Rightarrow> string" where
  "go_type JNull = ''<nil>''"
| "go_type (JBool b) = ''bool''"
| "go_type (JNumber n) = ''float64''"
| "go_type (JString s) = ''string''"
| "go_type (JArray xs) = ''[]interface {}''"
| "go_type (JObject m) = ''map[string]interface {}''"

definition validateType :: "json \<Rightarrow> string \<Rightarrow> error option" where
  "validateType val expectedType =
     (if expectedType = ''string'' then
        (case val of JString s \<Rightarrow> None | _ \<Rightarrow> Some (Errorf (''expected string, got '' @ go_type val)))
      else if expectedType = ''number'' then
        (case val of JNumber n \<Rightarrow> None | _ \<Rightarrow> Some (Errorf (''expected number, got '' @ go_type val)))
      else if expectedType = ''boolean'' then
        (case val of JBool b \<Rightarrow> None | _ \<Rightarrow> Some (Errorf (''expected boolean, got '' @ go_type val)))
      else if expectedType = ''object'' then
        (case val of JObject m \<Rightarrow> None | _ \<Rightarrow> Some (Errorf (''expected object, got '' @ go_type val)))
      else None)"

definition containsEnumValue :: "json_raw list \<Rightarrow> json_raw \<Rightarrow> bool" where
  "containsEnumValue enum value = list_ex (\<lambda>e. e = value) enum"

definition check_required :: "values_raw \<Rightarrow> AddonVariable \<Rightarrow> error option" where
  "check_required values v =
     (if av_Required v \<and> map_of values (av_Name v) = None
      then Some (Errorf (''required variable '' @ go_quote (av_Name v) @ '' is not provided'')) else None)"

definition check_value :: "codec \<Rightarrow> AddonVariable list \<Rightarrow> string \<Rightarrow> json_raw \<Rightarrow> error option" where
  "check_value X vars name value =
     (case findVariable vars name of
        None \<Rightarrow> None
      | Some varDef \<Rightarrow>
          (case c_unmarshal X value of
             Inl e \<Rightarrow> Some (wrap (''invalid value for variable '' @ go_quote name @ '': '') e)
           | Inr val \<Rightarrow>
               (case validateType val (av_Type varDef) of
                  Some e \<Rightarrow> Some (wrap (''invalid type for variable '' @ go_quote name @ '': '') e)
                | None \<Rightarrow>
                    if length (av_Enum varDef) > 0 \<and> \<not> containsEnumValue (av_Enum varDef) value
                    then Some (Errorf (''value for variable '' @ go_quote name @ '' not in allowed values'')) else None)))"

fun first_error :: "('a \<Rightarrow> error option) \<Rightarrow> 'a list \<Rightarrow> error option" where
  "first_error f [] = None"
| "first_error f (x # xs) = (case f x of Some e \<Rightarrow> Some e | None \<Rightarrow> first_error f xs)"

text \<open>\<open>ord\<close> is the order in which \<open>range\<close> visits the keys of \<open>values\<close>.\<close>

definition ValidateVariables :: "codec \<Rightarrow> string list \<Rightarrow> values_raw \<Rightarrow> AddonVariable list \<Rightarrow> error option" where
  "ValidateVariables X ord values vars =
     (case first_error (check_required values) vars of
        Some e \<Rightarrow> Some e
      | None \<Rightarrow> first_error (\<lambda>name. case map_of values name of None \<Rightarrow> None | Some value \<Rightarrow> check_value X vars name value) ord)"

definition toYAML :: "codec \<Rightarrow> json \<Rightarrow> string" where
  "toYAML X v = (case c_yaml X v of Inl e \<Rightarrow> [] | Inr data \<Rightarrow> data)"

definition indent :: "int \<Rightarrow> string \<Rightarrow> string" where
  "indent n s = replicate (nat n) CHR '' '' @ s"

definition Process :: "codec \<Rightarrow> string \<Rightarrow> json_map \<Rightarrow> error + string" where
  "Process X content variables = c_template X (toYAML X) indent content (JObject [(''Vars'', JObject variables)])"

section \<open>Merging\<close>

text \<open>
  A decoded document has distinct keys at every level. \<open>json_at p v\<close> is the value at the
  path \<open>p\<close>; \<open>silent p v\<close> says that the document leaves the path open: following it, it
  reaches an object that does not have the next key.
\<close>

fun wf_json :: "json \<Rightarrow> bool" where
  "wf_json (JObject m) \<longleftrightarrow> distinct (map fst m) \<and> (\<forall>kv\<in>set m. wf_json (snd kv))"
| "wf_json _ \<longleftrightarrow> True"

fun json_at :: "string list \<Rightarrow> json \<Rightarrow> json option" where
  "json_at [] v = Some v"
| "json_at (k # p) (JObject m) = (case map_of m k of None \<Rightarrow> None | Some v \<Rightarrow> json_at p v)"
| "json_at (k # p) _ = None"

fun silent :: "string list \<Rightarrow> json \<Rightarrow> bool" where
  "silent [] v \<longleftrightarrow> False"
| "silent (k # p) (JObject m) \<longleftrightarrow> (case map_of m k of None \<Rightarrow> True | Some v \<Rightarrow> silent p v)"
| "silent (k # p) _ \<longleftrightarrow> False"

fun is_object :: "json \<Rightarrow> bool" where
  "is_object (JObject m) \<longleftrightarrow> True"
| "is_object _ \<longleftrightarrow> False"

definition merge_entry :: "json_map \<Rightarrow> string \<times> json \<Rightarrow> json_map" where
  "merge_entry result kv =
     (case map_of result (fst kv) of
        Some existing \<Rightarrow> upd_key (fst kv) (deepMerge existing (snd kv)) result
      | None \<Rightarrow> upd_key (fst kv) (snd kv) result)"

lemma deepMerge_objects: "deepMerge (JObject b) (JObject m) = JObject (foldl merge_entry b m)"
proof -
  have "merge_entry = (\<lambda>result (k, v). case map_of result k of
      Some existing \<Rightarrow> upd_key k (deepMerge existing v) result | None \<Rightarrow> upd_key k v result)"
    by (auto simp: merge_entry_def fun_eq_iff split: option.split)
  then show ?thesis by (subst deepMerge.simps) simp
qed

lemma deepMerge_other: "\<not> (is_object b \<and> is_object v) \<Longrightarrow> deepMerge b v = v"
  by (subst deepMerge.simps) (cases b; cases v; simp)

lemma map_of_merge_entry:
  "map_of (merge_entry b (k, v)) = (map_of b)(k \<mapsto> (case map_of b k of Some x \<Rightarrow> deepMerge x v | None \<Rightarrow> v))"
  by (auto simp: merge_entry_def map_of_upd_key split: option.split)

lemma map_of_merge_objects:
  assumes "distinct (map fst m)"
  shows "map_of (foldl merge_entry b m) k = (case map_of m k of
      None \<Rightarrow> map_of b k
    | Some v \<Rightarrow> Some (case map_of b k of Some x \<Rightarrow> deepMerge x v | None \<Rightarrow> v))"
  using assms
proof (induction m arbitrary: b)
  case (Cons kv m)
  moreover obtain k' v' where "kv = (k', v')" by fastforce
  moreover have "map_of m k' = None" using Cons.prems calculation(3) by (simp add: map_of_eq_None_iff)
  ultimately show ?case by (auto simp: map_of_merge_entry split: option.split)
qed simp

lemma silent_at: "silent p v \<Longrightarrow> json_at p v = None"
  by (induction p v rule: silent.induct) (auto split: option.splits)

lemma silent_at_leaf: "silent p v \<Longrightarrow> \<not> is_object x \<Longrightarrow> json_at p x = None"
  by (cases p; cases x) auto

text \<open>
  (C26) Merging values: what the override says at a path wins, whatever the defaults have
  there, unless both are objects, when there is an object again; and where the override leaves a
  path open the default survives, at every depth.
\<close>

theorem deepMerge_spec:
  assumes "wf_json override"
  shows "(\<forall>v. json_at p override = Some v \<and> \<not> is_object v \<longrightarrow> json_at p (deepMerge base override) = Some v)
    \<and> (\<forall>v. json_at p override = Some v \<and> is_object v \<longrightarrow>
         (\<exists>x. json_at p (deepMerge base override) = Some x \<and> is_object x))
    \<and> (silent p override \<longrightarrow> json_at p (deepMerge base override) = json_at p base)"
  using assms
proof (induction p override arbitrary: base rule: json_at.induct)
  case (1 v)
  have "is_object (deepMerge base v)" if "is_object v"
    using that by (cases base; cases v) (auto simp: deepMerge_objects deepMerge_other)
  then show ?case by (auto simp: deepMerge_other)
next
  case (2 k p m)
  show ?case
  proof (cases "is_object base")
    case False
    then show ?thesis using silent_at [of "k # p" "JObject m"] silent_at_leaf [of "k # p" "JObject m" base]
      by (simp add: deepMerge_other)
  next
    case True
    then obtain b where b: "base = JObject b" by (cases base) auto
    show ?thesis
    proof (cases "map_of m k")
      case None
      with 2 b show ?thesis by (auto simp: deepMerge_objects map_of_merge_objects)
    next
      case (Some v)
      moreover from Some 2(2) have "wf_json v" using map_of_SomeD by fastforce
      ultimately show ?thesis
        using 2(1) [OF Some, of "the (map_of b k)"] 2(2) b silent_at [of p v]
        by (auto simp: deepMerge_objects map_of_merge_objects split: option.splits)
    qed
  qed
qed (auto simp: deepMerge_other)

definition ex_defaults :: json where
  "ex_defaults = JObject [(''replicas'', JNumber ''1''), (''image'', JObject [(''tag'', JString ''v1''), (''pull'', JBool True)])]"

definition ex_overrides :: json where
  "ex_overrides = JObject [(''image'', JObject [(''tag'', JString ''v2'')])]"

theorem deepMerge_witness:
  "json_at [''image'', ''tag''] (deepMerge ex_defaults ex_overrides) = Some (JString ''v2'')
   \<and> json_at [''image'', ''pull''] (deepMerge ex_defaults ex_overrides) = Some (JBool True)"
  using deepMerge_spec [of ex_overrides "[''image'', ''tag'']" ex_defaults]
    deepMerge_spec [of ex_overrides "[''image'', ''pull'']" ex_defaults]
  by (simp add: ex_defaults_def ex_overrides_def)

text \<open>What a map of raw values says about a key: the decoded value, if it decodes.\<close>

definition decoded :: "codec \<Rightarrow> values_raw \<Rightarrow> string \<Rightarrow> json option" where
  "decoded X m k = (case map_of m k of
      None \<Rightarrow> None
    | Some raw \<Rightarrow> (case c_unmarshal X raw of Inl e \<Rightarrow> None | Inr v \<Rightarrow> Some v))"

lemma map_of_merge_default:
  "map_of (merge_default X r kv) k = (if k = fst kv then
      (case c_unmarshal X (snd kv) of Inl e \<Rightarrow> map_of r k | Inr v \<Rightarrow> Some v) else map_of r k)"
  by (auto simp: merge_default_def map_of_upd_key split: sum.split)

lemma map_of_merge_override:
  "map_of (merge_override X r kv) k = (if k = fst kv then
      (case c_unmarshal X (snd kv) of Inl e \<Rightarrow> map_of r k
       | Inr v \<Rightarrow> Some (deepMerge (case map_of r k of None \<Rightarrow> JNull | Some x \<Rightarrow> x) v)) else map_of r k)"
  by (auto simp: merge_override_def map_of_upd_key split: sum.split)

text \<open>A fold over a map in which the step for a key touches that key only.\<close>

lemma fold_keys:
  assumes "distinct (map fst m)" and "\<And>r kv k. k \<noteq> fst kv \<Longrightarrow> map_of (step r kv) k = map_of r k"
  shows "k \<notin> fst ` set m \<Longrightarrow> map_of (foldl step r m) k = map_of r k"
    and "\<And>raw. (k, raw) \<in> set m \<Longrightarrow> \<exists>r'. map_of r' k = map_of r k \<and> map_of (foldl step r m) k = map_of (step r' (k, raw)) k"
  using assms(1)
proof (induction m arbitrary: r)
  case (Cons kv m)
  {
    case 1
    then show ?case using Cons.IH(1) assms(2) by auto
  next
    case (2 raw)
    show ?case
    proof (cases "kv = (k, raw)")
      case True
      with 2 have "k \<notin> fst ` set m" by auto
      with True Cons.IH(1) 2 show ?thesis by (intro exI [of _ r]) auto
    next
      case False
      with 2 have m: "(k, raw) \<in> set m" by auto
      then have "k \<noteq> fst kv" using 2 by (metis distinct.simps(2) fst_conv image_eqI list.map(2) list.set_map)
      with m Cons.IH(2) [of raw "step r kv"] 2 assms(2) show ?thesis by auto
    qed
  }
qed auto

lemma merged_defaults:
  assumes "distinct (map fst d)"
  shows "map_of (foldl (merge_default X) [] d) k = decoded X d k"
proof (cases "map_of d k")
  case None
  then have "k \<notin> fst ` set d" by (simp add: map_of_eq_None_iff)
  with None fold_keys(1) [OF assms, of "merge_default X" k "[]"] show ?thesis
    by (simp add: decoded_def map_of_merge_default)
next
  case (Some raw)
  with fold_keys(2) [OF assms, of "merge_default X" k raw "[]"] show ?thesis
    by (auto simp: decoded_def map_of_merge_default dest!: map_of_SomeD split: sum.splits)
qed

text \<open>
  (C24) \<open>MergeValues\<close> is determined key by key, so independent of the iteration order of the
  two maps: an override that decodes is merged into the default of its key, a key without
  (decodable) override keeps its default, and values that do not decode are dropped.
\<close>

theorem MergeValues_spec:
  assumes "distinct (map fst defaults)" and "distinct (map fst overrides)"
  shows "map_of (MergeValues X defaults overrides) k = (case decoded X overrides k of
      None \<Rightarrow> decoded X defaults k
    | Some v \<Rightarrow> Some (case decoded X defaults k of None \<Rightarrow> v | Some d \<Rightarrow> deepMerge d v))"
proof (cases "map_of overrides k")
  case None
  then have "k \<notin> fst ` set overrides" by (simp add: map_of_eq_None_iff)
  with None fold_keys(1) [OF assms(2), of "merge_override X" k] show ?thesis
    by (simp add: MergeValues_def merged_defaults assms(1) decoded_def [of X overrides] map_of_merge_override)
next
  case (Some raw)
  then have "(k, raw) \<in> set overrides" by (rule map_of_SomeD)
  with fold_keys(2) [OF assms(2), of "merge_override X" k raw "foldl (merge_default X) [] defaults"]
  obtain r' where "map_of r' k = decoded X defaults k"
    and "map_of (MergeValues X defaults overrides) k = map_of (merge_override X r' (k, raw)) k"
    by (auto simp: MergeValues_def merged_defaults assms(1) map_of_merge_override)
  with Some show ?thesis
    by (simp add: map_of_merge_override decoded_def [of X overrides] deepMerge_other split: sum.split option.split)
qed

definition ex_codec :: codec where
  "ex_codec = \<lparr>c_unmarshal = (\<lambda>raw. if raw = [] then Inl (Errorf ''unexpected end of JSON input'') else Inr (JString raw)),
     c_yaml = (\<lambda>v. Inr (go_type v)), c_template = (\<lambda>ty ind content vars. Inr content),
     c_new_request = (\<lambda>u. None), c_read_body = (\<lambda>l. None), c_exists_method = (\<lambda>e. False)\<rparr>"

theorem MergeValues_witness:
  "map_of (MergeValues ex_codec [(''a'', ''1''), (''b'', ''2'')] [(''b'', ''3''), (''a'', [])]) ''b'' = Some (JString ''3'')
   \<and> map_of (MergeValues ex_codec [(''a'', ''1''), (''b'', ''2'')] [(''b'', ''3''), (''a'', [])]) ''a'' = Some (JString ''1'')"
  using MergeValues_spec [of "[(''a'', ''1''), (''b'', ''2'')]" "[(''b'', ''3''), (''a'', [])]" ex_codec]
  by (simp add: decoded_def ex_codec_def deepMerge_other)

section \<open>Validation\<close>

lemma first_error_None: "first_error f xs = None \<longleftrightarrow> (\<forall>x\<in>set xs. f x = None)"
  by (induction xs) (auto split: option.splits)

text \<open>A value is acceptable for a declared variable: it decodes, has the type and is in the enum.\<close>

definition value_ok :: "codec \<Rightarrow> AddonVariable \<Rightarrow> json_raw \<Rightarrow> bool" where
  "value_ok X v raw \<longleftrightarrow> (\<exists>val. c_unmarshal X raw = Inr val \<and> validateType val (av_Type v) = None
     \<and> (av_Enum v = [] \<or> raw \<in> set (av_Enum v)))"

lemma check_value_None:
  "check_value X vars name raw = None \<longleftrightarrow> (\<forall>v. findVariable vars name = Some v \<longrightarrow> value_ok X v raw)"
  by (auto simp: check_value_def value_ok_def containsEnumValue_def list_ex_iff split: option.splits sum.splits if_splits)

text \<open>
  (C25) Validation accepts exactly the values that provide every required variable and, for
  each declared variable they set, decode to the declared type and lie in the enum; whether
  it accepts does not depend on the iteration order. Undeclared values pass.
\<close>

theorem ValidateVariables_iff:
  assumes "set ord = fst ` set values"
  shows "ValidateVariables X ord values vars = None \<longleftrightarrow>
    (\<forall>v\<in>set vars. av_Required v \<longrightarrow> av_Name v \<in> fst ` set values)
    \<and> (\<forall>name raw v. map_of values name = Some raw \<and> findVariable vars name = Some v \<longrightarrow> value_ok X v raw)"
proof -
  have "first_error (check_required values) vars = None \<longleftrightarrow> (\<forall>v\<in>set vars. av_Required v \<longrightarrow> av_Name v \<in> fst ` set values)"
    by (auto simp: first_error_None check_required_def map_of_eq_None_iff split: if_splits)
  moreover have "first_error (\<lambda>name. case map_of values name of None \<Rightarrow> None | Some value \<Rightarrow> check_value X vars name value) ord = None
      \<longleftrightarrow> (\<forall>name raw v. map_of values name = Some raw \<and> findVariable vars name = Some v \<longrightarrow> value_ok X v raw)"
    using assms by (fastforce simp: first_error_None check_value_None map_of_eq_None_iff image_iff dest: map_of_SomeD split: option.splits)
  ultimately show ?thesis by (auto simp: ValidateVariables_def split: option.splits)
qed

theorem ValidateVariables_witness:
  "ValidateVariables ex_codec [''size''] [(''size'', ''big'')]
     [\<lparr>av_Name = ''size'', av_Type = ''string'', av_Description = [], av_Required = True, av_Default = None,
       av_Enum = [''big'', ''small''], av_Path = []\<rparr>] = None"
  by (subst ValidateVariables_iff) (auto simp: value_ok_def ex_codec_def validateType_def)

end
