(* ===== verification/Addon_Jobs.thy ===== *)
theory Addon_Jobs
  imports Addon_Values Contracts Hooks
begin

text \<open>
  What the addon upgrader and the two addon installers share, from
  \<open>modules/cvo/internal/addon/manifest_installer.go\<close> and \<open>upgrader.go\<close>: the content of an
  addon fetched from the release, job timeouts printed and parsed, hooks as jobs, and the
  wait for a job. Contexts with a timeout around a single API call are part of the answer
  of that call.
\<close>

section \<open>Numbers and durations\<close>

text \<open>\<open>time.Time.Unix\<close>.\<close>

definition Unix :: "timestamp \<Rightarrow> int" where
  "Unix t = t div second"

text \<open>
  \<open>time.Duration.String\<close>: the fraction without its trailing zeros, the unit of a duration
  below one second, hours and minutes only when there are any.
\<close>

definition fmtFrac :: "nat \<Rightarrow> nat \<Rightarrow> string" where
  "fmtFrac v prec =
     (let ds = show_nat (v mod 10 ^ prec);
          t = rev (dropWhile (\<lambda>c. c = CHR ''0'') (rev (replicate (prec - length ds) CHR ''0'' @ ds)))
      in if t = [] then [] else CHR ''.'' # t)"

definition Duration_String :: "duration \<Rightarrow> string" where
  "Duration_String d =
     (let u = nat \<bar>d\<bar>; sgn = (if d < 0 then ''-'' else []); s = u div 1000000000
      in if u = 0 then ''0s''
         else if u < 1000 then sgn @ show_nat u @ ''ns''
         else if u < 1000000 then sgn @ show_nat (u div 1000) @ fmtFrac u 3 @ [CHR 0xC2, CHR 0xB5, CHR ''s'']
         else if u < 1000000000 then sgn @ show_nat (u div 1000000) @ fmtFrac u 6 @ ''ms''
         else sgn @ (if s \<ge> 3600 then show_nat (s div 3600) @ ''h'' else [])
                @ (if s \<ge> 60 then show_nat (s div 60 mod 60) @ ''m'' else [])
                @ show_nat (s mod 60) @ fmtFrac u 9 @ ''s'')"

text \<open>
  \<open>fmt.Sscanf(s, "%ds", &n)\<close>: blanks, a sign, at least one digit, a value that fits the type,
  and then the letter; what follows is not looked at.
\<close>

definition scan_ds :: "string \<Rightarrow> int option" where
  "scan_ds s =
     (let s1 = dropWhile (\<lambda>c. c = CHR '' '') s;
          neg = (s1 \<noteq> [] \<and> hd s1 = CHR ''-'');
          s2 = (if s1 \<noteq> [] \<and> (hd s1 = CHR ''-'' \<or> hd s1 = CHR ''+'') then tl s1 else s1);
          ds = takeWhile is_digit s2;
          rest = dropWhile is_digit s2;
          n = (if neg then - int (read_digits ds) else int (read_digits ds))
      in if ds \<noteq> [] \<and> -(2 ^ 63) \<le> n \<and> n < 2 ^ 63 \<and> rest \<noteq> [] \<and> hd rest = CHR ''s'' then Some n else None)"

definition parseTimeoutSeconds :: "string \<Rightarrow> int" where
  "parseTimeoutSeconds timeout =
     (case scan_ds timeout of None \<Rightarrow> 300 | Some seconds \<Rightarrow> if seconds = 0 then 300 else seconds)"

section \<open>Content of an addon\<close>

record ContentFetcher =
  cf_releaseServer :: string
  cf_localDir :: string

definition NewContentFetcher :: "string \<Rightarrow> ContentFetcher" where
  "NewContentFetcher releaseServer = \<lparr>cf_releaseServer = releaseServer, cf_localDir = []\<rparr>"

definition NewContentFetcherWithLocalDir :: "string \<Rightarrow> string \<Rightarrow> ContentFetcher" where
  "NewContentFetcherWithLocalDir releaseServer localDir = \<lparr>cf_releaseServer = releaseServer, cf_localDir = localDir\<rparr>"

definition read_body :: "codec \<Rightarrow> string \<Rightarrow> string cact" where
  "read_body X body = (\<lambda>w. (case c_read_body X (w_log w) of None \<Rightarrow> Ok body | Some e \<Rightarrow> Err e, w))"

definition fetch_http :: "env \<Rightarrow> codec \<Rightarrow> string \<Rightarrow> string \<Rightarrow> string cact" where
  "fetch_http E X what url =
     (case c_new_request X url of
        Some e \<Rightarrow> fail (wrap ''failed to create request: '' e)
      | None \<Rightarrow>
          check (query (EvHTTPGet url) (\<lambda>l. h_http (host E) l url)) (wrap (''failed to fetch '' @ what @ '': '')) (\<lambda>(status, body).
            if status \<noteq> 200 then fail (Errorf (''unexpected status code: '' @ show_int status)) else read_body X body))"

text \<open>The local directory first, if there is one, then the server; \<open>local\<close> and \<open>remote\<close> are the two paths.\<close>

definition fetch_content :: "env \<Rightarrow> codec \<Rightarrow> ContentFetcher \<Rightarrow> string \<Rightarrow> string list \<Rightarrow> string \<Rightarrow> string cact" where
  "fetch_content E X f what elems remote =
     (let from_server = (if cf_releaseServer f \<noteq> [] then fetch_http E X what (cf_releaseServer f @ remote)
            else fail (Errorf ''no content source configured (releaseServer or localDir)''))
      in if cf_localDir f \<noteq> []
         then attempt (os_ReadFile E (path_Join (cf_localDir f # elems))) (\<lambda>r. case r of
           Inr data \<Rightarrow> ret data | Inl e \<Rightarrow> from_server)
         else from_server)"

definition FetchFromReleaseImage :: "env \<Rightarrow> codec \<Rightarrow> ContentFetcher \<Rightarrow> ReleaseImage \<Rightarrow> string \<Rightarrow> string cact" where
  "FetchFromReleaseImage E X f ri addonName =
     (case findAddon (ris_Addons (ri_Spec ri)) addonName of
        None \<Rightarrow> fail (Errorf (''addon '' @ addonName @ '' not found in release image '' @ m_Name (ri_Meta ri)))
      | Some addonDef \<Rightarrow>
          fetch_content E X f ''content'' [ad_ContentPath addonDef] (''/'' @ ad_ContentPath addonDef))"

definition FetchChart :: "env \<Rightarrow> codec \<Rightarrow> ContentFetcher \<Rightarrow> ReleaseImage \<Rightarrow> string \<Rightarrow> string cact" where
  "FetchChart E X f ri addonName = FetchFromReleaseImage E X f ri addonName"

definition FetchManifest :: "env \<Rightarrow> codec \<Rightarrow> ContentFetcher \<Rightarrow> ReleaseImage \<Rightarrow> string \<Rightarrow> string cact" where
  "FetchManifest E X f ri addonName = FetchFromReleaseImage E X f ri addonName"

definition FetchScript :: "env \<Rightarrow> codec \<Rightarrow> ContentFetcher \<Rightarrow> ReleaseImage \<Rightarrow> string \<Rightarrow> string cact" where
  "FetchScript E X f ri scriptName =
     fetch_content E X f ''script'' [''scripts'', scriptName] (''/scripts/'' @ scriptName)"

section \<open>Jobs\<close>

definition DefaultKubectlImage :: string where
  "DefaultKubectlImage = ''bitnami/kubectl:1.31.0''"

definition isAlreadyExists :: "codec \<Rightarrow> error \<Rightarrow> bool" where
  "isAlreadyExists X e = c_exists_method X e"

text \<open>\<open>simple_job\<close>: a job with one shell command and no volumes, as the code builds them.\<close>

definition simple_job :: "string \<Rightarrow> string \<Rightarrow> labels \<Rightarrow> int \<Rightarrow> string \<Rightarrow> string \<Rightarrow> string \<Rightarrow> job" where
  "simple_job name ns lbls backoff container img cmd =
     \<lparr>job_Name = name, job_Namespace = ns, job_Labels = lbls, job_BackoffLimit = backoff,
      job_ActiveDeadlineSeconds = None, job_Container = container, job_Image = img,
      job_Command = [''sh'', ''-c'', cmd], job_Volumes = []\<rparr>"

definition Create_job :: "env \<Rightarrow> job \<Rightarrow> unit cact" where
  "Create_job E j = api_write E (EvCreate (KJob j))"

definition Create_unless_exists :: "env \<Rightarrow> codec \<Rightarrow> kobj \<Rightarrow> unit cact" where
  "Create_unless_exists E X obj =
     attempt (api_write E (EvCreate obj)) (\<lambda>r. case r of
       Inl e \<Rightarrow> if \<not> isAlreadyExists X e then fail e else ret () | Inr _ \<Rightarrow> ret ())"

definition Get_job :: "env \<Rightarrow> string \<Rightarrow> string \<Rightarrow> job_state cact" where
  "Get_job E ns n = query (EvGet ''Job'' ns n) (\<lambda>l. k_get_job (kube E) l ns n)"

text \<open>The loop over the conditions of a job: the first that is true decides.\<close>

fun job_verdict :: "(string \<Rightarrow> error) \<Rightarrow> (string \<times> string \<times> string) list \<Rightarrow> error + bool" where
  "job_verdict err [] = Inr False"
| "job_verdict err ((ctype, status, msg) # cs) =
     (if ctype = ''Complete'' \<and> status = ''True'' then Inr True
      else if ctype = ''Failed'' \<and> status = ''True'' then Inl (err msg)
      else job_verdict err cs)"

definition poll_job :: "env \<Rightarrow> job \<Rightarrow> (string \<Rightarrow> error) \<Rightarrow> duration \<Rightarrow> unit cact" where
  "poll_job E j err timeout =
     Poll E (5 * second) timeout
       (attempt (Get_job E (job_Namespace j) (job_Name j)) (\<lambda>r. case r of
          Inl e \<Rightarrow> ret False
        | Inr js \<Rightarrow> (case job_verdict err (js_Conditions js) of Inl e \<Rightarrow> fail e | Inr b \<Rightarrow> ret b)))"

definition timeout_or_5m :: "duration option \<Rightarrow> duration" where
  "timeout_or_5m t = (case t of None \<Rightarrow> 5 * minute | Some d \<Rightarrow> d)"

definition job_failed_text :: "job \<Rightarrow> string \<Rightarrow> error" where
  "job_failed_text j msg = Errorf (''job '' @ job_Name j @ '' failed: '' @ msg)"

text \<open>A hook: a job that is created and not waited for. \<open>img\<close> is the image the caller writes.\<close>

definition hook_job :: "string \<Rightarrow> ClusterAddon \<Rightarrow> AddonHook \<Rightarrow> string \<Rightarrow> timestamp \<Rightarrow> job" where
  "hook_job img addon hook phase now =
     simple_job (''hook-'' @ m_Name (ca_Meta addon) @ ''-'' @ hook_Name hook @ ''-'' @ show_int (Unix now))
       (m_Namespace (ca_Meta addon))
       [(''capbm.capbm.io/addon'', m_Name (ca_Meta addon)), (''capbm.capbm.io/hook'', hook_Name hook),
        (''capbm.capbm.io/phase'', phase)]
       1 ''hook'' img (hook_Command hook)"

definition addon_hook :: "env \<Rightarrow> string \<Rightarrow> ClusterAddon \<Rightarrow> AddonHook \<Rightarrow> string \<Rightarrow> unit cact" where
  "addon_hook E img addon hook phase =
     andthen (time_Now E) (\<lambda>now. Create_job E (hook_job img addon hook phase now))"

definition addon_hook_text :: "AddonHook \<Rightarrow> string \<Rightarrow> string" where
  "addon_hook_text h phase = ''hook '' @ hook_Name h @ '' failed during '' @ phase @ '': ''"

definition addon_hooks :: "env \<Rightarrow> string \<Rightarrow> ClusterAddon \<Rightarrow> AddonHook list \<Rightarrow> string \<Rightarrow> unit cact" where
  "addon_hooks E img addon hooks phase =
     for_each hooks (\<lambda>h. hook_step (hook_OnFailure h) (addon_hook E img addon h phase) (wrap (addon_hook_text h phase)))"

section \<open>Job deadlines\<close>

lemma show_nat_is_digit: "c \<in> set (show_nat n) \<Longrightarrow> is_digit c"
  using show_nat_digits by (simp add: is_digit_def)

lemma scan_ds_digits:
  assumes "ds \<noteq> []" and "list_all is_digit ds" and "\<not> is_digit c"
  shows "scan_ds (ds @ c # r) = (if c = CHR ''s'' \<and> read_digits ds < 2 ^ 63 then Some (int (read_digits ds)) else None)"
proof -
  from assms obtain d es where ds: "ds = d # es" "is_digit d" by (cases ds) auto
  then have "d \<noteq> CHR '' ''" "d \<noteq> CHR ''-''" "d \<noteq> CHR ''+''" by (auto simp: is_digit_def)
  moreover have "takeWhile is_digit (ds @ c # r) = ds" and "dropWhile is_digit (ds @ c # r) = c # r"
    using assms by (auto simp: takeWhile_append2 dropWhile_append2 list_all_iff)
  moreover have "int k < 2 ^ 63 \<longleftrightarrow> k < 2 ^ 63" for k by (metis of_nat_less_iff of_nat_numeral of_nat_power)
  ultimately show ?thesis using ds assms(3)
    by (cases "c = CHR ''s''") (simp_all add: scan_ds_def Let_def)
qed

lemma scan_ds_show_nat:
  "\<not> is_digit c \<Longrightarrow> scan_ds (show_nat n @ c # r) = (if c = CHR ''s'' \<and> n < 2 ^ 63 then Some (int n) else None)"
  using scan_ds_digits [of "show_nat n" c r] show_nat_is_digit by (simp add: list_all_iff)

lemma digit_char_0: "digit_char 0 = CHR ''0''"
  unfolding digit_char_def by code_simp

lemma not_digits: "\<not> is_digit CHR ''s''" "\<not> is_digit CHR ''n''" "\<not> is_digit CHR ''m''" "\<not> is_digit CHR ''h''"
  "\<not> is_digit CHR ''.''" "\<not> is_digit CHR 0xC2"
  by (simp_all add: is_digit_def)

lemma read_digits_zeros: "list_all (\<lambda>c. c = CHR ''0'') s \<Longrightarrow> read_digits s = 0"
proof -
  have "foldl (\<lambda>a c. 10 * a + (of_char c - 48)) 0 s = (0::nat)" if "list_all (\<lambda>c. c = CHR ''0'') s"
    using that by (induction s) simp_all
  then show "list_all (\<lambda>c. c = CHR ''0'') s \<Longrightarrow> read_digits s = 0" by (simp add: read_digits_def)
qed

lemma fmtFrac_cases:
  "fmtFrac v prec = [] \<and> v mod 10 ^ prec = 0 \<or> v mod 10 ^ prec \<noteq> 0 \<and> (\<exists>r. fmtFrac v prec = CHR ''.'' # r)"
proof (cases "v mod 10 ^ prec = 0")
  case True
  then show ?thesis by (simp add: fmtFrac_def show_nat.simps [of 0] digit_char_0 Let_def)
next
  case False
  let ?ds = "show_nat (v mod 10 ^ prec)"
  have "\<not> list_all (\<lambda>c. c = CHR ''0'') ?ds"
    using False read_digits_zeros [of ?ds] by auto
  then have "\<exists>c\<in>set (rev (replicate (prec - length ?ds) CHR ''0'' @ ?ds)). c \<noteq> CHR ''0''"
    by (auto simp: list_all_iff)
  then have "dropWhile (\<lambda>c. c = CHR ''0'') (rev (replicate (prec - length ?ds) CHR ''0'' @ ?ds)) \<noteq> []"
    by (simp only: dropWhile_eq_Nil_conv) blast
  with False show ?thesis by (simp add: fmtFrac_def Let_def)
qed

text \<open>
  The deadline of an addon job is the configured timeout only for whole numbers of
  seconds below one minute. Every other positive timeout, in particular every one of a
  minute or more, gives a deadline of 300 seconds: the text of the duration then has another
  unit, which the parser does not read.
\<close>

theorem parseTimeoutSeconds_String:
  assumes "0 \<le> d" and "d < 2 ^ 63"
  shows "parseTimeoutSeconds (Duration_String d) =
    (if 0 < d \<and> d < minute \<and> d mod second = 0 then d div second else 300)"
proof -
  define u where "u = nat d"
  have d: "d = int u" using assms by (simp add: u_def)
  consider "u = 0" | "0 < u" "u < 1000000000" | "1000000000 \<le> u" "u < 60000000000" | "60000000000 \<le> u" by linarith
  then show ?thesis
  proof cases
    case 1
    then show ?thesis using d scan_ds_show_nat [of "CHR ''s''" 0 "[]"]
      by (simp add: Duration_String_def parseTimeoutSeconds_def show_nat.simps [of 0] digit_char_0 not_digits)
  next
    case 2
    have "int u mod second \<noteq> 0" using 2 by simp
    moreover have "parseTimeoutSeconds (Duration_String (int u)) = 300"
      using 2 fmtFrac_cases [of u 3] fmtFrac_cases [of u 6]
      by (auto simp: Duration_String_def parseTimeoutSeconds_def Let_def scan_ds_show_nat not_digits)
    ultimately show ?thesis using d by simp
  next
    case 3
    have "nat (int u) = u" by simp
    from 3 have s: "u div 1000000000 < 60" "0 < u div 1000000000" by (auto simp: div_less_iff_less_mult)
    then have str: "Duration_String (int u) = show_nat (u div 1000000000) @ fmtFrac u 9 @ ''s''"
      using 3 by (simp add: Duration_String_def Let_def)
    have m: "int u mod second = int (u mod 1000000000)" "int u div second = int (u div 1000000000)"
      by (simp_all add: of_nat_mod of_nat_div)
    show ?thesis using 3 s d m fmtFrac_cases [of u 9]
      by (auto simp: str parseTimeoutSeconds_def scan_ds_show_nat not_digits)
  next
    case 4
    then have "\<not> u < 1000" "\<not> u < 1000000" "\<not> u < 1000000000" "u div 1000000000 \<ge> 60" by (auto simp: less_eq_div_iff_mult_less_eq)
    then have "\<exists>n c r. Duration_String (int u) = show_nat n @ c # r \<and> (c = CHR ''h'' \<or> c = CHR ''m'')"
      using 4 by (auto simp: Duration_String_def Let_def)
    then show ?thesis using 4 d by (auto simp: parseTimeoutSeconds_def scan_ds_show_nat not_digits)
  qed
qed

theorem parseTimeoutSeconds_witness:
  "parseTimeoutSeconds (Duration_String (600 * second)) = 300 \<and> parseTimeoutSeconds (Duration_String (45 * second)) = 45"
  using parseTimeoutSeconds_String [of "600 * second"] parseTimeoutSeconds_String [of "45 * second"] by simp

section \<open>Waiting for a job\<close>

text \<open>A job is complete when a true \<open>Complete\<close> condition comes before any true \<open>Failed\<close> one.\<close>

definition job_completed :: "(string \<times> string \<times> string) list \<Rightarrow> bool" where
  "job_completed conds \<longleftrightarrow> (\<exists>pre msg post. conds = pre @ (''Complete'', ''True'', msg) # post
     \<and> (\<forall>c\<in>set pre. \<not> (fst c = ''Failed'' \<and> fst (snd c) = ''True'')))"

lemma job_verdict_True: "job_verdict err conds = Inr True \<Longrightarrow> job_completed conds"
proof (induction err conds rule: job_verdict.induct)
  case (2 err ctype status msg cs)
  show ?case
  proof (cases "ctype = ''Complete'' \<and> status = ''True''")
    case True
    then show ?thesis unfolding job_completed_def by (metis append_Nil empty_iff empty_set)
  next
    case False
    with 2 have *: "job_completed cs" "\<not> (ctype = ''Failed'' \<and> status = ''True'')" by (auto split: if_splits)
    then obtain pre m post where "cs = pre @ (''Complete'', ''True'', m) # post"
      and "\<forall>c\<in>set pre. \<not> (fst c = ''Failed'' \<and> fst (snd c) = ''True'')" unfolding job_completed_def by blast
    with * show ?thesis unfolding job_completed_def
      by (intro exI [of _ "(ctype, status, msg) # pre"] exI [of _ m] exI [of _ post]) auto
  qed
qed simp

definition job_seen_complete :: "env \<Rightarrow> job \<Rightarrow> log \<Rightarrow> log \<Rightarrow> bool" where
  "job_seen_complete E j l0 l1 \<longleftrightarrow> (\<exists>l js. prefix l0 l \<and> l1 = l @ [EvGet ''Job'' (job_Namespace j) (job_Name j)]
     \<and> k_get_job (kube E) l (job_Namespace j) (job_Name j) = Inr js \<and> job_completed (js_Conditions js))"

lemma contract_poll_job:
  assumes "poll_ok E" and "A (EvGet ''Job'' (job_Namespace j) (job_Name j))"
  shows "contract A (poll_job E j err t) (\<lambda>_. job_seen_complete E j)"
proof -
  let ?ev = "EvGet ''Job'' (job_Namespace j) (job_Name j)"
  let ?cond = "attempt (Get_job E (job_Namespace j) (job_Name j)) (\<lambda>r. case r of
      Inl e \<Rightarrow> ret False | Inr js \<Rightarrow> (case job_verdict err (js_Conditions js) of Inl e \<Rightarrow> fail e | Inr b \<Rightarrow> ret b))"
  have get: "contract A (Get_job E (job_Namespace j) (job_Name j))
      (\<lambda>x l0 l1. k_get_job (kube E) l0 (job_Namespace j) (job_Name j) = Inr x \<and> l1 = l0 @ [?ev])"
    unfolding Get_job_def by (rule contract_query) (rule assms(2))
  have k: "contract A (case job_verdict err (js_Conditions js) of Inl e \<Rightarrow> fail e | Inr b \<Rightarrow> ret b)
      (\<lambda>b l0 l1. job_verdict err (js_Conditions js) = Inr b \<and> l1 = l0)" for js
    by (cases "job_verdict err (js_Conditions js)") (auto intro: contract_fail contract_retI)
  have "contract A ?cond (\<lambda>b l0 l1. b \<longrightarrow> (\<exists>js. k_get_job (kube E) l0 (job_Namespace j) (job_Name j) = Inr js
      \<and> job_completed (js_Conditions js) \<and> l1 = l0 @ [?ev]))"
    by (rule contract_weaken [OF contract_attempt [OF get, where S = "\<lambda>b l0 l1. \<not> b" and R = "\<lambda>x b l0 l1. job_verdict err (js_Conditions x) = Inr b \<and> l1 = l0"]])
       (auto intro: k contract_retI dest: job_verdict_True)
  from contract_Poll [OF assms(1) this] show ?thesis
    unfolding poll_job_def by (rule contract_weaken) (auto simp: job_seen_complete_def)
qed

section \<open>Hooks and content\<close>

interpretation job_hooks: hook_runner hook_OnFailure
  "\<lambda>(E, img, addon, phase) h. addon_hook E img addon h phase"
  "\<lambda>(E, img, addon, phase) h. wrap (addon_hook_text h phase)"
  "\<lambda>(E, img, addon, phase) hs. addon_hooks E img addon hs phase"
  by unfold_locales (simp add: addon_hooks_def split: prod.split)

text \<open>\<open>never_ok m\<close>: \<open>m\<close> does not return without an error, in any state.\<close>

named_theorems never_rules \<open>actions that never succeed\<close>

definition never_ok :: "'a cact \<Rightarrow> bool" where
  "never_ok m \<longleftrightarrow> (\<forall>w x w'. m w \<noteq> (Ok x, w'))"

lemma never_okD: "never_ok m \<Longrightarrow> m w \<noteq> (Ok x, w')"
  by (simp add: never_ok_def)

lemma never_ok_fail [never_rules]: "never_ok (fail e)"
  by (simp add: never_ok_def fail_apply)

lemma never_ok_attempt [never_rules]: "(\<And>r. never_ok (k r)) \<Longrightarrow> never_ok (attempt m k)"
  by (auto simp: never_ok_def attempt_apply split: prod.split res.split)

lemma never_ok_check [never_rules]: "(\<And>x. never_ok (k x)) \<Longrightarrow> never_ok (check m f k)"
  by (auto simp: never_ok_def check_apply split: prod.split res.split)

lemma never_ok_check_first: "never_ok m \<Longrightarrow> never_ok (check m f k)"
  by (auto simp: never_ok_def check_apply split: prod.split res.split)

lemma never_ok_sum [never_rules]:
  "(\<And>e. never_ok (f e)) \<Longrightarrow> (\<And>x. never_ok (g x)) \<Longrightarrow> never_ok (case r of Inl e \<Rightarrow> f e | Inr x \<Rightarrow> g x)"
  by (cases r) simp_all

lemma never_ok_option [never_rules]:
  "never_ok m \<Longrightarrow> (\<And>x. never_ok (g x)) \<Longrightarrow> never_ok (case r of None \<Rightarrow> m | Some x \<Rightarrow> g x)"
  by (cases r) simp_all

lemma never_ok_if [never_rules]: "never_ok m \<Longrightarrow> never_ok m' \<Longrightarrow> never_ok (if b then m else m')"
  by simp

text \<open>Without a server and a local directory there is no content.\<close>

lemma fetch_without_source: "never_ok (FetchFromReleaseImage E X (NewContentFetcher []) ri name)"
  by (simp add: FetchFromReleaseImage_def fetch_content_def NewContentFetcher_def Let_def never_ok_fail split: option.split)

lemma fetch_unknown_addon:
  "findAddon (ris_Addons (ri_Spec ri)) name = None \<Longrightarrow> never_ok (FetchFromReleaseImage E X f ri name)"
  by (simp add: FetchFromReleaseImage_def never_ok_fail)

end
