(* ===== verification/Addon_Upgrader.thy ===== *)
theory Addon_Upgrader
  imports Addon_Jobs
begin

text \<open>
  The addon upgrader, \<open>modules/cvo/internal/addon/upgrader.go\<close>: hooks, backup, one of three
  strategies, rollback on failure, health check and the status of the ClusterAddon. The
  Kubernetes client is in the environment; the release server and the namespace are fields
  of \<open>Upgrader\<close>. A \<open>ReleaseImage\<close> pointer that may be nil is an option.
\<close>

section \<open>Definitions\<close>

record Upgrader =
  au_releaseServer :: string
  au_namespace :: string

definition NewUpgrader :: "string \<Rightarrow> string \<Rightarrow> Upgrader" where
  "NewUpgrader releaseServer namespace = \<lparr>au_releaseServer = releaseServer, au_namespace = namespace\<rparr>"

definition findAddonDefinition :: "ReleaseImage option \<Rightarrow> string \<Rightarrow> AddonDefinition option" where
  "findAddonDefinition release name =
     (case release of None \<Rightarrow> None | Some ri \<Rightarrow> findAddon (ris_Addons (ri_Spec ri)) name)"

definition addon_waitForJob :: "env \<Rightarrow> job \<Rightarrow> duration option \<Rightarrow> unit cact" where
  "addon_waitForJob E j timeout = poll_job E j (job_failed_text j) (timeout_or_5m timeout)"

definition strategy_String :: "AddonUpgradeStrategy option \<Rightarrow> string" where
  "strategy_String strategy =
     (case strategy of None \<Rightarrow> ''300s'' | Some s \<Rightarrow> (case aus_Timeout s of None \<Rightarrow> ''300s'' | Some d \<Rightarrow> Duration_String d))"

definition strategy_retries :: "AddonUpgradeStrategy option \<Rightarrow> int" where
  "strategy_retries strategy =
     (case strategy of None \<Rightarrow> 3 | Some s \<Rightarrow> if aus_RetryCount s > 0 then int32 (aus_RetryCount s) else 3)"

definition upgrade_command :: "ClusterAddon \<Rightarrow> AddonDefinition \<Rightarrow> string \<Rightarrow> string" where
  "upgrade_command addon targetDef timeout =
     (if ad_Type targetDef = ''helm'' then
        ''helm upgrade '' @ cas_AddonName (ca_Spec addon) @ '' /charts/chart.tgz --namespace ''
          @ (if cas_Namespace (ca_Spec addon) = [] then ''default'' else cas_Namespace (ca_Spec addon))
          @ '' --values /values/values.yaml --wait --timeout='' @ timeout
      else if ad_Type targetDef = ''manifest'' then ''kubectl apply -f /manifests/addon.yaml''
      else [])"

definition buildUpgradeJob :: "ClusterAddon \<Rightarrow> AddonDefinition \<Rightarrow> AddonUpgradeStrategy option \<Rightarrow> job" where
  "buildUpgradeJob addon targetDef strategy =
     (simple_job (''upgrade-'' @ m_Name (ca_Meta addon)) (m_Namespace (ca_Meta addon))
        [(''capbm.capbm.io/addon'', m_Name (ca_Meta addon)), (''capbm.capbm.io/type'', ''upgrade'')]
        (strategy_retries strategy) ''upgrade'' ''DefaultKubectlImage''
        (upgrade_command addon targetDef (strategy_String strategy)))
     \<lparr>job_ActiveDeadlineSeconds := Some (parseTimeoutSeconds (strategy_String strategy))\<rparr>"

definition run_upgrade_job :: "env \<Rightarrow> ClusterAddon \<Rightarrow> AddonDefinition \<Rightarrow> AddonUpgradeStrategy \<Rightarrow> unit cact" where
  "run_upgrade_job E addon targetDef strategy =
     (let j = buildUpgradeJob addon targetDef (Some strategy) in
      andthen (Create_job E j) (\<lambda>_.
        poll_job E j (\<lambda>msg. Errorf (''upgrade job failed: '' @ msg)) (timeout_or_5m (aus_Timeout strategy))))"

definition rollingUpgradeHelm ::
  "env \<Rightarrow> codec \<Rightarrow> Upgrader \<Rightarrow> ClusterAddon \<Rightarrow> AddonDefinition \<Rightarrow> ReleaseImage \<Rightarrow> AddonUpgradeStrategy \<Rightarrow> unit cact" where
  "rollingUpgradeHelm E X u addon targetDef ri strategy =
     (let mergedValues = MergeValues X (ad_DefaultValues targetDef) (cas_Values (ca_Spec addon)) in
      case c_yaml X (JObject mergedValues) of
        Inl e \<Rightarrow> fail (wrap ''failed to marshal values: '' e)
      | Inr valuesYAML \<Rightarrow>
          andthen (FetchFromReleaseImage E X (NewContentFetcher (au_releaseServer u)) ri (cas_AddonName (ca_Spec addon))) (\<lambda>chartContent.
          andthen (Create_unless_exists E X (KConfigMap
              \<lparr>cm_Name = m_Name (ca_Meta addon) @ ''-helm'', cm_Namespace = m_Namespace (ca_Meta addon), cm_Labels = [],
               cm_Data = Some [(''values.yaml'', valuesYAML)], cm_BinaryData = [(''chart.tgz'', chartContent)]\<rparr>)) (\<lambda>_.
            run_upgrade_job E addon targetDef strategy)))"

definition Get_configmap :: "env \<Rightarrow> string \<Rightarrow> string \<Rightarrow> config_map cact" where
  "Get_configmap E ns n = query (EvGet ''ConfigMap'' ns n) (\<lambda>l. k_get_configmap (kube E) l ns n)"

definition set_data :: "string \<Rightarrow> string \<Rightarrow> config_map \<Rightarrow> config_map cact" where
  "set_data k v cm = (case cm_Data cm of
      None \<Rightarrow> panic ''assignment to entry in nil map''
    | Some d \<Rightarrow> ret (cm\<lparr>cm_Data := Some (upd_key k v d)\<rparr>))"

definition rollingUpgradeManifest ::
  "env \<Rightarrow> codec \<Rightarrow> Upgrader \<Rightarrow> ClusterAddon \<Rightarrow> AddonDefinition \<Rightarrow> ReleaseImage \<Rightarrow> AddonUpgradeStrategy \<Rightarrow> unit cact" where
  "rollingUpgradeManifest E X u addon targetDef ri strategy =
     (let mergedValues = MergeValues X (ad_DefaultValues targetDef) (cas_Values (ca_Spec addon)) in
      andthen (FetchFromReleaseImage E X (NewContentFetcher (au_releaseServer u)) ri (cas_AddonName (ca_Spec addon))) (\<lambda>content.
        case Process X content mergedValues of
          Inl e \<Rightarrow> fail (wrap ''failed to process manifest: '' e)
        | Inr processedContent \<Rightarrow>
            andthen (Get_configmap E (m_Namespace (ca_Meta addon)) (m_Name (ca_Meta addon) @ ''-manifest'')) (\<lambda>configMap.
            andthen (set_data ''addon.yaml'' processedContent configMap) (\<lambda>configMap'.
            andthen (api_write E (EvUpdate (KConfigMap configMap'))) (\<lambda>_.
              run_upgrade_job E addon targetDef strategy)))))"

definition rollingUpgrade ::
  "env \<Rightarrow> codec \<Rightarrow> Upgrader \<Rightarrow> ClusterAddon \<Rightarrow> AddonDefinition \<Rightarrow> ReleaseImage \<Rightarrow> AddonUpgradeStrategy \<Rightarrow> unit cact" where
  "rollingUpgrade E X u addon targetDef ri strategy =
     (if ad_Type targetDef = ''helm'' then rollingUpgradeHelm E X u addon targetDef ri strategy
      else if ad_Type targetDef = ''manifest'' then rollingUpgradeManifest E X u addon targetDef ri strategy
      else fail (Errorf (''unsupported addon type: '' @ ad_Type targetDef)))"

definition recreateUpgrade ::
  "env \<Rightarrow> codec \<Rightarrow> Upgrader \<Rightarrow> ClusterAddon \<Rightarrow> AddonDefinition \<Rightarrow> ReleaseImage \<Rightarrow> AddonUpgradeStrategy \<Rightarrow> unit cact" where
  "recreateUpgrade E X u addon targetDef ri strategy =
     (let deleteJob = simple_job (''delete-'' @ m_Name (ca_Meta addon)) (m_Namespace (ca_Meta addon)) [] 1 ''delete''
            ''DefaultKubectlImage'' ''kubectl delete -f /manifests/addon.yaml --ignore-not-found'' in
      andthen (Create_job E deleteJob) (\<lambda>_.
      andthen (addon_waitForJob E deleteJob (aus_Timeout strategy)) (\<lambda>_.
        rollingUpgrade E X u addon targetDef ri strategy)))"

definition verifyAddon :: "env \<Rightarrow> ClusterAddon \<Rightarrow> unit cact" where
  "verifyAddon E addon =
     Poll E (5 * second) (5 * minute)
       (attempt (Get_clusteraddon E (m_Namespace (ca_Meta addon)) (m_Name (ca_Meta addon))) (\<lambda>r. case r of
          Inl e \<Rightarrow> ret False | Inr currentAddon \<Rightarrow> ret (cast_Phase (ca_Status currentAddon) = AddonPhaseInstalled)))"

text \<open>\<open>strings.Replace(s, old, new, 1)\<close>.\<close>

fun Replace1 :: "string \<Rightarrow> string \<Rightarrow> string \<Rightarrow> string" where
  "Replace1 old new [] = (if old = [] then new else [])"
| "Replace1 old new (c # s) = (if prefix old (c # s) then new @ drop (length old) (c # s) else c # Replace1 old new s)"

definition switch_selector :: "string \<Rightarrow> string \<Rightarrow> service \<Rightarrow> service" where
  "switch_selector old new svc =
     (case svc_Selector svc of
        None \<Rightarrow> svc
      | Some sel \<Rightarrow> (case map_of sel ''version'' of
            None \<Rightarrow> svc
          | Some version \<Rightarrow> svc\<lparr>svc_Selector := Some (upd_key ''version'' (Replace1 old new version) sel)\<rparr>))"

definition switchTraffic :: "env \<Rightarrow> ClusterAddon \<Rightarrow> ClusterAddon \<Rightarrow> unit cact" where
  "switchTraffic E oldAddon newAddon =
     (let ns = m_Namespace (ca_Meta oldAddon); old = cas_AddonName (ca_Spec oldAddon); new = cas_AddonName (ca_Spec newAddon);
          lbls = [(''app.kubernetes.io/part-of'', old)] in
      check (query (EvList ''Service'' ns lbls) (\<lambda>l. k_list_services (kube E) l ns lbls)) (wrap ''failed to list services: '') (\<lambda>svcs.
        for_each svcs (\<lambda>svc.
          attempt (api_write E (EvPatch (KService (switch_selector old new svc)))) (\<lambda>_. ret ()))))"

definition green :: "ClusterAddon \<Rightarrow> ClusterAddon" where
  "green addon = addon\<lparr>ca_Meta := (ca_Meta addon)\<lparr>m_Name := m_Name (ca_Meta addon) @ ''-green''\<rparr>,
     ca_Spec := (ca_Spec addon)\<lparr>cas_AddonName := cas_AddonName (ca_Spec addon) @ ''-green''\<rparr>\<rparr>"

definition blueGreenUpgrade ::
  "env \<Rightarrow> codec \<Rightarrow> Upgrader \<Rightarrow> ClusterAddon \<Rightarrow> AddonDefinition \<Rightarrow> ReleaseImage \<Rightarrow> AddonUpgradeStrategy \<Rightarrow> unit cact" where
  "blueGreenUpgrade E X u addon targetDef ri strategy =
     (let newAddon = green addon in
      andthen (rollingUpgrade E X u newAddon targetDef ri strategy) (\<lambda>_.
      andthen (verifyAddon E newAddon) (\<lambda>_.
      check (switchTraffic E addon newAddon) (wrap ''failed to switch traffic: '') (\<lambda>_.
      andthen (time_Sleep (30 * second)) (\<lambda>_.
        Create_job E (simple_job (''delete-'' @ m_Name (ca_Meta addon)) (m_Namespace (ca_Meta addon)) [] 1 ''delete''
          DefaultKubectlImage (''kubectl delete clusteraddon '' @ m_Name (ca_Meta addon))))))))"

definition default_strategy :: AddonUpgradeStrategy where
  "default_strategy = \<lparr>aus_Type = ''Rolling'', aus_RollingUpdate = None, aus_MaxUnavailable = 0,
     aus_Timeout = Some (5 * minute), aus_RetryCount = 3, aus_Force = False\<rparr>"

definition performUpgrade :: "env \<Rightarrow> codec \<Rightarrow> Upgrader \<Rightarrow> ClusterAddon \<Rightarrow> AddonDefinition \<Rightarrow> ReleaseImage \<Rightarrow> unit cact" where
  "performUpgrade E X u addon targetDef ri =
     (let strategy = (case ad_UpgradeStrategy targetDef of None \<Rightarrow> default_strategy | Some s \<Rightarrow> s) in
      if aus_Type strategy = ''Rolling'' then rollingUpgrade E X u addon targetDef ri strategy
      else if aus_Type strategy = ''Recreate'' then recreateUpgrade E X u addon targetDef ri strategy
      else if aus_Type strategy = ''BlueGreen'' then blueGreenUpgrade E X u addon targetDef ri strategy
      else rollingUpgrade E X u addon targetDef ri strategy)"

definition backupAddon :: "env \<Rightarrow> ClusterAddon \<Rightarrow> AddonDefinition option \<Rightarrow> unit cact" where
  "backupAddon E addon currentDef =
     andthen (time_Now E) (\<lambda>now.
       case currentDef of
         None \<Rightarrow> panic ''nil pointer dereference''
       | Some def \<Rightarrow>
           api_write E (EvCreate (KConfigMap
             \<lparr>cm_Name = ''backup-'' @ m_Name (ca_Meta addon) @ ''-'' @ show_int (Unix now),
              cm_Namespace = m_Namespace (ca_Meta addon),
              cm_Labels = [(''capbm.capbm.io/backup-for'', m_Name (ca_Meta addon)), (''capbm.capbm.io/backup-type'', ''addon'')],
              cm_Data = Some [(''version'', ad_Version def), (''addonName'', cas_AddonName (ca_Spec addon))],
              cm_BinaryData = []\<rparr>)))"

definition rollback_job :: "ClusterAddon \<Rightarrow> ComponentRollbackConfig \<Rightarrow> job" where
  "rollback_job addon rb = simple_job (''rollback-'' @ m_Name (ca_Meta addon)) (m_Namespace (ca_Meta addon)) [] 1 ''rollback''
     ''DefaultKubectlImage'' (rb_Script rb)"

definition rollbackAddon :: "env \<Rightarrow> ClusterAddon \<Rightarrow> ComponentRollbackConfig \<Rightarrow> unit cact" where
  "rollbackAddon E addon rb =
     andthen (Create_job E (rollback_job addon rb)) (\<lambda>_.
       addon_waitForJob E (rollback_job addon rb) (Some (timeout_or_5m (rb_Timeout rb))))"

definition executeHooks :: "env \<Rightarrow> ClusterAddon \<Rightarrow> AddonHook list \<Rightarrow> string \<Rightarrow> unit cact" where
  "executeHooks E addon hooks phase = addon_hooks E ''DefaultKubectlImage'' addon hooks phase"

definition check_job :: "ClusterAddon \<Rightarrow> ComponentHealthCheckConfig \<Rightarrow> timestamp \<Rightarrow> job" where
  "check_job addon hc now = simple_job (''healthcheck-'' @ m_Name (ca_Meta addon) @ ''-'' @ show_int (Unix now))
     (m_Namespace (ca_Meta addon)) [] 0 ''healthcheck'' ''DefaultKubectlImage'' (chc_Command hc)"

definition health_try :: "env \<Rightarrow> ClusterAddon \<Rightarrow> ComponentHealthCheckConfig \<Rightarrow> unit cact" where
  "health_try E addon hc =
     andthen (time_Now E) (\<lambda>now.
     andthen (Create_job E (check_job addon hc now)) (\<lambda>_.
       addon_waitForJob E (check_job addon hc now) (Some (timeout_or_5m (chc_Timeout hc)))))"

text \<open>The loop of \<open>runHealthCheck\<close> with \<open>n\<close> rounds left; \<open>%w\<close> of a nil error prints as below.\<close>

fun health_rounds :: "env \<Rightarrow> ClusterAddon \<Rightarrow> ComponentHealthCheckConfig \<Rightarrow> int \<Rightarrow> nat \<Rightarrow> error option \<Rightarrow> unit cact" where
  "health_rounds E addon hc retries 0 lastErr =
     (let msg = ''health check failed after '' @ show_int retries @ '' retries: '' in
      fail (case lastErr of None \<Rightarrow> Errorf (msg @ ''%!w(<nil>)'') | Some e \<Rightarrow> wrap msg e))"
| "health_rounds E addon hc retries (Suc n) lastErr =
     attempt (health_try E addon hc) (\<lambda>r. case r of
       Inl e \<Rightarrow> health_rounds E addon hc retries n (Some e) | Inr _ \<Rightarrow> ret ())"

definition addon_runHealthCheck :: "env \<Rightarrow> ClusterAddon \<Rightarrow> ComponentHealthCheckConfig \<Rightarrow> unit cact" where
  "addon_runHealthCheck E addon hc =
     (let retries = (if chc_Retries hc = 0 then 3 else chc_Retries hc)
      in health_rounds E addon hc retries (nat retries) None)"

definition upgraded_status :: "ClusterAddon \<Rightarrow> AddonDefinition \<Rightarrow> ClusterAddon" where
  "upgraded_status addon targetDef = addon\<lparr>ca_Status := (ca_Status addon)\<lparr>cast_Version := ad_Version targetDef,
     cast_Phase := AddonPhaseInstalled, cast_LastAppliedRevision := ad_Version targetDef\<rparr>\<rparr>"

definition rollback_or :: "env \<Rightarrow> ClusterAddon \<Rightarrow> AddonDefinition \<Rightarrow> error \<Rightarrow> unit cact" where
  "rollback_or E addon targetDef err =
     (let failed = fail (wrap ''upgrade failed: '' err) in
      case ad_Upgrade targetDef of
        None \<Rightarrow> failed
      | Some cu \<Rightarrow>
          if rb_Script (cu_Rollback cu) \<noteq> [] then
            attempt (rollbackAddon E addon (cu_Rollback cu)) (\<lambda>r. case r of
              Inl rollbackErr \<Rightarrow> fail (Wrapf ''upgrade failed and rollback also failed: '' err
                ('', rollback error: '' @ error_string rollbackErr))
            | Inr _ \<Rightarrow> failed)
          else failed)"

definition Upgrade :: "env \<Rightarrow> codec \<Rightarrow> Upgrader \<Rightarrow> ClusterAddon \<Rightarrow> ReleaseImage option \<Rightarrow> ReleaseImage \<Rightarrow> unit cact" where
  "Upgrade E X u addon currentRelease targetRelease =
     (let currentDef = findAddonDefinition currentRelease (cas_AddonName (ca_Spec addon)) in
      case findAddonDefinition (Some targetRelease) (cas_AddonName (ca_Spec addon)) of
        None \<Rightarrow> fail (Errorf (''addon '' @ cas_AddonName (ca_Spec addon) @ '' not found in target release ''
                  @ m_Name (ri_Meta targetRelease)))
      | Some targetDef \<Rightarrow>
          check (executeHooks E addon (ad_PreHooks targetDef) ''pre-upgrade'') (wrap ''pre-upgrade hooks failed: '') (\<lambda>_.
          check (case ad_Upgrade targetDef of
                   None \<Rightarrow> ret ()
                 | Some cu \<Rightarrow> when_act (bk_Enabled (cu_Backup cu)) (backupAddon E addon currentDef)) (wrap ''backup failed: '') (\<lambda>_.
          attempt (performUpgrade E X u addon targetDef targetRelease) (\<lambda>r. case r of
            Inl err \<Rightarrow> rollback_or E addon targetDef err
          | Inr _ \<Rightarrow>
              check (executeHooks E addon (ad_PostHooks targetDef) ''post-upgrade'') (wrap ''post-upgrade hooks failed: '') (\<lambda>_.
              check (case ad_Upgrade targetDef of
                       None \<Rightarrow> ret ()
                     | Some cu \<Rightarrow> when_act (chc_Command (cu_HealthCheck cu) \<noteq> []) (addon_runHealthCheck E addon (cu_HealthCheck cu)))
                (wrap ''health check failed after upgrade: '') (\<lambda>_.
                api_write E (EvStatusUpdate (KClusterAddon (upgraded_status addon targetDef)))))))))"

section \<open>No content, no upgrade\<close>

lemma rollingUpgrade_no_content:
  assumes "never_ok (FetchFromReleaseImage E X (NewContentFetcher (au_releaseServer u)) ri (cas_AddonName (ca_Spec addon)))"
  shows "never_ok (rollingUpgrade E X u addon targetDef ri strategy)"
  unfolding rollingUpgrade_def rollingUpgradeHelm_def rollingUpgradeManifest_def Let_def
  by (intro never_ok_if never_ok_sum never_ok_fail never_ok_check_first assms)

lemma performUpgrade_no_server:
  assumes "au_releaseServer u = []"
  shows "never_ok (performUpgrade E X u addon targetDef ri)"
proof -
  have roll: "never_ok (rollingUpgrade E X u a targetDef ri strategy)" for a strategy
    by (rule rollingUpgrade_no_content) (simp add: assms fetch_without_source)
  show ?thesis
    unfolding performUpgrade_def recreateUpgrade_def blueGreenUpgrade_def Let_def
    by (intro never_ok_if roll never_ok_check_first [OF roll] never_rules)
qed

lemma rollback_or_never: "never_ok (rollback_or E addon targetDef err)"
  unfolding rollback_or_def Let_def by (intro never_rules)

lemma Upgrade_never:
  assumes "\<And>targetDef. findAddonDefinition (Some tgt) (cas_AddonName (ca_Spec addon)) = Some targetDef \<Longrightarrow>
      never_ok (performUpgrade E X u addon targetDef tgt)"
  shows "never_ok (Upgrade E X u addon cur tgt)"
proof (cases "findAddonDefinition (Some tgt) (cas_AddonName (ca_Spec addon))")
  case None
  then show ?thesis by (simp add: Upgrade_def Let_def never_ok_fail)
next
  case (Some def)
  have "never_ok (attempt (performUpgrade E X u addon def tgt) (\<lambda>r. case r of Inl err \<Rightarrow> rollback_or E addon def err | Inr z \<Rightarrow> k z))"
    for k :: "unit \<Rightarrow> unit cact"
    using assms [OF Some] rollback_or_never unfolding never_ok_def
    by (auto simp: attempt_apply split: prod.split res.split)
  with Some show ?thesis by (simp add: Upgrade_def Let_def never_ok_check)
qed

text \<open>
  An upgrader without a release server never upgrades anything: whatever the addon, its
  strategy and the environment, \<open>Upgrade\<close> does not return nil. The content fetcher it builds
  has no local directory either. Both controllers of the program create it in this way.
\<close>

theorem Upgrade_needs_server:
  "Upgrade E X (NewUpgrader [] ns) addon cur tgt w \<noteq> (Ok u, w')"
  by (rule never_okD [OF Upgrade_never]) (simp add: performUpgrade_no_server NewUpgrader_def)

text \<open>
  The blue-green strategy fetches its content under the name of the addon with the
  suffix \<open>-green\<close>; a release that has no addon of that name can never be upgraded to with it.
\<close>

theorem blue_green_never_succeeds:
  assumes "findAddon (ris_Addons (ri_Spec tgt)) (cas_AddonName (ca_Spec addon)) = Some def"
    and "ad_UpgradeStrategy def = Some s" and "aus_Type s = ''BlueGreen''"
    and "findAddon (ris_Addons (ri_Spec tgt)) (cas_AddonName (ca_Spec addon) @ ''-green'') = None"
  shows "Upgrade E X u addon cur tgt w \<noteq> (Ok x, w')"
proof (rule never_okD [OF Upgrade_never])
  fix targetDef
  assume "findAddonDefinition (Some tgt) (cas_AddonName (ca_Spec addon)) = Some targetDef"
  with assms(1) have "targetDef = def" by (simp add: findAddonDefinition_def)
  moreover have "never_ok (rollingUpgrade E X u (green addon) def tgt s)"
    by (rule rollingUpgrade_no_content, rule fetch_unknown_addon) (simp add: green_def assms(4))
  ultimately show "never_ok (performUpgrade E X u addon targetDef tgt)"
    by (simp add: performUpgrade_def assms(2,3) blueGreenUpgrade_def Let_def never_ok_check_first)
qed

definition ex_bg_addon :: AddonDefinition where
  "ex_bg_addon = zero_Addon\<lparr>ad_Name := ''dns'', ad_Type := ''helm'',
     ad_UpgradeStrategy := Some (default_strategy\<lparr>aus_Type := ''BlueGreen''\<rparr>)\<rparr>"

definition ex_addon_release :: "AddonDefinition \<Rightarrow> ReleaseImage" where
  "ex_addon_release a = zero_ReleaseImage\<lparr>ri_Spec := zero_ReleaseImageSpec\<lparr>ris_Addons := [a]\<rparr>\<rparr>"

definition ex_dns :: ClusterAddon where
  "ex_dns = zero_ClusterAddon\<lparr>ca_Meta := zero_meta\<lparr>m_Name := ''dns'', m_Namespace := ''kube-system''\<rparr>,
     ca_Spec := zero_ClusterAddonSpec\<lparr>cas_AddonName := ''dns''\<rparr>\<rparr>"

lemmas ex_addon_defs = ex_bg_addon_def ex_addon_release_def ex_dns_def zero_defs default_strategy_def

theorem blue_green_witness:
  "fst (Upgrade quiet_env ex_codec (NewUpgrader ''http://release'' []) ex_dns None (ex_addon_release ex_bg_addon) empty_world) \<noteq> Ok ()"
  using blue_green_never_succeeds [of "ex_addon_release ex_bg_addon" ex_dns ex_bg_addon "default_strategy\<lparr>aus_Type := ''BlueGreen''\<rparr>"
      quiet_env ex_codec "NewUpgrader ''http://release'' []" None empty_world]
  by (simp add: ex_addon_defs) (metis prod.collapse)

text \<open>
  A first installation with a backup configured crashes: there is no current definition,
  and \<open>backupAddon\<close> reads its version through the nil pointer.
\<close>

theorem fresh_backup_panics:
  assumes "findAddonDefinition cur (cas_AddonName (ca_Spec addon)) = None"
    and "findAddonDefinition (Some tgt) (cas_AddonName (ca_Spec addon)) = Some def"
    and "ad_Upgrade def = Some cu" and "bk_Enabled (cu_Backup cu)"
    and "executeHooks E addon (ad_PreHooks def) ''pre-upgrade'' w = (Ok (), w1)"
  shows "fst (Upgrade E X u addon cur tgt w) = Panic ''nil pointer dereference''"
  using assms by (simp add: Upgrade_def Let_def act_simps backupAddon_def time_Now_def query_def)

definition ex_backup_addon :: AddonDefinition where
  "ex_backup_addon = zero_Addon\<lparr>ad_Name := ''dns'', ad_Type := ''helm'', ad_Upgrade := Some (zero_ComponentUpgradeConfig
     \<lparr>cu_Backup := \<lparr>bk_Enabled = True, bk_Config = [], bk_EtcdSnapshot = False\<rparr>\<rparr>)\<rparr>"

theorem fresh_backup_witness:
  "fst (Upgrade quiet_env ex_codec (NewUpgrader ''http://release'' []) ex_dns None (ex_addon_release ex_backup_addon) empty_world)
   = Panic ''nil pointer dereference''"
  by (rule fresh_backup_panics [of _ _ _ ex_backup_addon "the (ad_Upgrade ex_backup_addon)" _ _ empty_world])
     (simp_all add: ex_addon_defs ex_backup_addon_def findAddonDefinition_def executeHooks_def addon_hooks_def act_simps)

section \<open>What a successful upgrade has done\<close>

definition upgrade_done :: "env \<Rightarrow> job \<Rightarrow> log \<Rightarrow> log \<Rightarrow> bool" where
  "upgrade_done E j l0 l1 \<longleftrightarrow> (\<exists>l l'. prefix l0 l \<and> prefix l' l1 \<and> job_seen_complete E j (l @ [EvCreate (KJob j)]) l')"

lemma upgrade_done_widen: "upgrade_done E j l l' \<Longrightarrow> prefix l0 l \<Longrightarrow> prefix l' l1 \<Longrightarrow> upgrade_done E j l0 l1"
  unfolding upgrade_done_def by (meson prefix_order.trans)

lemma upgrade_done_left: "prefix l0 l \<Longrightarrow> upgrade_done E j l l1 \<Longrightarrow> upgrade_done E j l0 l1"
  by (blast intro: upgrade_done_widen prefix_order.refl)

lemma outcome_create_and_poll:
  assumes "poll_ok E"
  shows "outcome (andthen (Create_job E j) (\<lambda>_. poll_job E j err t)) (\<lambda>_. upgrade_done E j)"
proof -
  have c: "outcome (Create_job E j) (\<lambda>_ l0 l1. l1 = l0 @ [EvCreate (KJob j)])"
    unfolding Create_job_def by (rule outcome_write)
  have p: "outcome (poll_job E j err t) (\<lambda>_. job_seen_complete E j)"
    by (rule outcome_contract [OF contract_poll_job [OF assms, where A = "\<lambda>_. True"]]) simp
  show ?thesis by (rule outcome_weaken [OF outcome_check [OF c p]]) (auto simp: upgrade_done_def)
qed

lemma outcome_fetch: "outcome (FetchFromReleaseImage E X f ri n) (\<lambda>_ _ _. True)"
proof -
  have body: "outcome (read_body X b) (\<lambda>_ _ _. True)" for b
    by (auto simp: outcome_def read_body_def)
  have http: "outcome (fetch_http E X what url) (\<lambda>_ _ _. True)" for what url
    unfolding fetch_http_def
    by (auto intro!: outcome_fail outcome_then [OF outcome_any [OF outcome_query]] body split: option.split prod.split)
  show ?thesis
    unfolding FetchFromReleaseImage_def fetch_content_def os_ReadFile_def Let_def
    by (auto intro!: outcome_fail http outcome_weaken [OF outcome_attempt [OF outcome_any [OF outcome_query],
        where R = "\<lambda>_ _ _ _. True" and S = "\<lambda>_ _ _. True"]] outcome_retI split: option.split)
qed

lemma outcome_run_upgrade_job:
  "poll_ok E \<Longrightarrow> outcome (run_upgrade_job E addon def s) (\<lambda>_. upgrade_done E (buildUpgradeJob addon def (Some s)))"
  unfolding run_upgrade_job_def Let_def by (rule outcome_create_and_poll)

lemma outcome_rollingUpgrade:
  assumes "poll_ok E"
  shows "outcome (rollingUpgrade E X u addon def ri s) (\<lambda>_. upgrade_done E (buildUpgradeJob addon def (Some s)))"
proof -
  note j = outcome_run_upgrade_job [OF assms, of addon def s]
  have create: "outcome (Create_unless_exists E X obj) (\<lambda>_ _ _. True)" for obj
    unfolding Create_unless_exists_def
    by (rule outcome_weaken [OF outcome_attempt [OF outcome_write, where R = "\<lambda>_ _ _ _. True" and S = "\<lambda>_ _ _. True"]])
       (auto intro: outcome_retI outcome_fail)
  have data: "outcome (set_data k v cm) (\<lambda>_ _ _. True)" for k v cm
    by (auto simp: set_data_def intro: outcome_retI outcome_panic split: option.split)
  note steps = outcome_then [OF outcome_fetch] outcome_then [OF create] outcome_then [OF data]
    outcome_then [OF outcome_any [OF outcome_write]] outcome_then [OF outcome_any [OF outcome_query]]
  show ?thesis
    unfolding rollingUpgrade_def rollingUpgradeHelm_def rollingUpgradeManifest_def Get_configmap_def Let_def
    by (auto intro!: outcome_fail steps j intro: upgrade_done_left split: sum.split)
qed

lemma outcome_verifyAddon: "poll_ok E \<Longrightarrow> outcome (verifyAddon E a) (\<lambda>_ _ _. True)"
proof -
  assume p: "poll_ok E"
  have "contract (\<lambda>_. True) (attempt (Get_clusteraddon E (m_Namespace (ca_Meta a)) (m_Name (ca_Meta a))) (\<lambda>r. case r of
      Inl e \<Rightarrow> ret False | Inr c \<Rightarrow> ret (cast_Phase (ca_Status c) = AddonPhaseInstalled))) (\<lambda>_ _ _. True)"
    unfolding Get_clusteraddon_def
    by (rule contract_weaken [OF contract_attempt [OF contract_query, where R = "\<lambda>_ _ _ _. True" and S = "\<lambda>_ _ _. True"]])
       (auto intro: contract_retI)
  from contract_Poll [OF p this] show ?thesis
    unfolding verifyAddon_def by (rule outcome_any [OF outcome_contract])
qed

lemma outcome_switchTraffic: "outcome (switchTraffic E a b) (\<lambda>_ _ _. True)"
  unfolding switchTraffic_def Let_def
  by (intro outcome_then [OF outcome_any [OF outcome_query]] outcome_for_each
      outcome_weaken [OF outcome_attempt [OF outcome_write, where R = "\<lambda>_ _ _ _. True" and S = "\<lambda>_ _ _. True"]] outcome_retI) auto

lemma outcome_performUpgrade:
  assumes "poll_ok E"
  shows "outcome (performUpgrade E X u addon def ri) (\<lambda>_ l0 l1. \<exists>a s. (a = addon \<or> a = green addon) \<and> upgrade_done E (buildUpgradeJob a def (Some s)) l0 l1)"
proof -
  let ?Q = "\<lambda>_ l0 l1. \<exists>a s. (a = addon \<or> a = green addon) \<and> upgrade_done E (buildUpgradeJob a def (Some s)) l0 l1"
  have left: "\<And>y l0 l l1. prefix l0 l \<Longrightarrow> ?Q y l l1 \<Longrightarrow> ?Q y l0 l1" by (blast intro: upgrade_done_left)
  have right: "?Q z l0 l1" if "?Q y l0 l" and "prefix l l1" for y z :: unit and l0 l l1
    using that upgrade_done_widen [OF _ prefix_order.refl] by blast
  have roll: "outcome (rollingUpgrade E X u a def ri s) ?Q" if "a = addon \<or> a = green addon" for a s
    by (rule outcome_weaken [OF outcome_rollingUpgrade [OF assms]]) (use that in blast)
  have poll: "outcome (poll_job E j err t) (\<lambda>_. job_seen_complete E j)" for j err t
    by (rule outcome_contract [OF contract_poll_job [OF assms, where A = "\<lambda>_. True"]]) simp
  have recreate: "outcome (recreateUpgrade E X u addon def ri s) ?Q" for s
    unfolding recreateUpgrade_def Let_def addon_waitForJob_def Create_job_def
    by (rule outcome_then [OF outcome_any [OF outcome_write]], rule outcome_then [OF outcome_any [OF poll]],
        rule roll, simp, (erule (1) left)+)
  have rest: "outcome (andthen (verifyAddon E a) (\<lambda>_. check (switchTraffic E addon a) f (\<lambda>_. andthen (time_Sleep t) (\<lambda>_. Create_job E j))))
      (\<lambda>_ _ _. True)" for a f t j
    unfolding time_Sleep_def Create_job_def
    by (intro outcome_then [OF outcome_verifyAddon [OF assms]] outcome_then [OF outcome_switchTraffic]
        outcome_then [OF outcome_any [OF outcome_query]] outcome_any [OF outcome_write]) simp_all
  have bg: "outcome (blueGreenUpgrade E X u addon def ri s) ?Q" for s
    unfolding blueGreenUpgrade_def Let_def
  proof (rule outcome_first)
    show "outcome (rollingUpgrade E X u (green addon) def ri s) ?Q" by (rule roll) (rule disjI2, rule refl)
  qed (rule rest, rule right)
  have here: "outcome (rollingUpgrade E X u addon def ri s) ?Q" for s by (rule roll) (rule disjI1, rule refl)
  show ?thesis unfolding performUpgrade_def Let_def
    by (simp only: here recreate bg simp_thms split: if_split)
qed

lemma outcome_executeHooks: "outcome (executeHooks E addon hooks phase) (\<lambda>_ _ _. True)"
proof -
  have "outcome (addon_hook E img addon h phase) (\<lambda>_ _ _. True)" for img h
    unfolding addon_hook_def time_Now_def Create_job_def
    by (intro outcome_then [OF outcome_any [OF outcome_query]] outcome_any [OF outcome_write]) simp_all
  then have "outcome (hook_step pol (addon_hook E img addon h phase) err) (\<lambda>_ _ _. True)" for pol img h err
    unfolding hook_step_def
    by (rule outcome_weaken [OF outcome_attempt [where R = "\<lambda>_ _ _ _. True" and S = "\<lambda>_ _ _. True"]])
       (auto intro: outcome_retI outcome_fail)
  then show ?thesis unfolding executeHooks_def addon_hooks_def by (rule outcome_for_each)
qed

definition check_passed :: "env \<Rightarrow> ClusterAddon \<Rightarrow> ComponentHealthCheckConfig \<Rightarrow> log \<Rightarrow> log \<Rightarrow> bool" where
  "check_passed E addon hc l0 l1 \<longleftrightarrow> (\<exists>now. upgrade_done E (check_job addon hc now) l0 l1)"

lemma check_passed_left: "prefix l0 l \<Longrightarrow> check_passed E addon hc l l1 \<Longrightarrow> check_passed E addon hc l0 l1"
  unfolding check_passed_def by (blast intro: upgrade_done_left)

lemma outcome_health_rounds:
  assumes "poll_ok E"
  shows "outcome (health_rounds E addon hc retries n le) (\<lambda>_. check_passed E addon hc)"
proof (induction n arbitrary: le)
  case 0
  show ?case by (simp add: outcome_fail Let_def)
next
  case (Suc n)
  have done_here: "outcome (andthen (Create_job E j) (\<lambda>_. addon_waitForJob E j t)) (\<lambda>_. upgrade_done E j)" for j t
    unfolding addon_waitForJob_def by (rule outcome_create_and_poll [OF assms])
  have one: "outcome (health_try E addon hc) (\<lambda>_. check_passed E addon hc)"
    unfolding health_try_def time_Now_def
    by (rule outcome_then [OF outcome_any [OF outcome_query]], rule outcome_weaken [OF done_here])
       (auto simp: check_passed_def intro: upgrade_done_left)
  show ?case
    unfolding health_rounds.simps
    by (rule outcome_weaken [OF outcome_attempt [OF one, where R = "\<lambda>_ _ l0 l1. l1 = l0" and S = "\<lambda>_. check_passed E addon hc"]])
       (auto intro: outcome_retI Suc.IH check_passed_left)
qed

lemma check_OkE:
  assumes "check m f k w = (Ok y, w')"
  obtains x w1 where "m w = (Ok x, w1)" and "k x w1 = (Ok y, w')"
  using assms by (auto simp: check_apply split: prod.splits res.splits)

text \<open>
  (C19) An addon is reported as upgraded only after it was: when \<open>Upgrade\<close> succeeds, the last
  thing it did was to write the ClusterAddon status with the target version and phase
  Installed; before that the upgrade job of the addon (with blue-green, of its green copy)
  was created and then seen complete; and if a health check is configured, a job with the
  check's command was created after that and seen complete.
\<close>

theorem Upgrade_correct:
  assumes "poll_ok E" and "pool_wf w" and "Upgrade E X u addon cur tgt w = (Ok (), w')"
  shows "\<exists>def l1 l2. findAddonDefinition (Some tgt) (cas_AddonName (ca_Spec addon)) = Some def
    \<and> (\<exists>a s. (a = addon \<or> a = green addon) \<and> upgrade_done E (buildUpgradeJob a def (Some s)) (w_log w) l1)
    \<and> prefix l1 l2
    \<and> (\<forall>cu. ad_Upgrade def = Some cu \<longrightarrow> chc_Command (cu_HealthCheck cu) \<noteq> [] \<longrightarrow> check_passed E addon (cu_HealthCheck cu) l1 l2)
    \<and> w_log w' = l2 @ [EvStatusUpdate (KClusterAddon (upgraded_status addon def))]"
proof (cases "findAddonDefinition (Some tgt) (cas_AddonName (ca_Spec addon))")
  case None
  with assms(3) show ?thesis by (simp add: Upgrade_def Let_def act_simps)
next
  case (Some def)
  let ?health = "case ad_Upgrade def of None \<Rightarrow> ret () | Some cu \<Rightarrow> when_act (chc_Command (cu_HealthCheck cu) \<noteq> []) (addon_runHealthCheck E addon (cu_HealthCheck cu))"
  let ?backup = "case ad_Upgrade def of None \<Rightarrow> ret () | Some cu \<Rightarrow> when_act (bk_Enabled (cu_Backup cu)) (backupAddon E addon (findAddonDefinition cur (cas_AddonName (ca_Spec addon))))"
  have hl: "outcome ?health (\<lambda>_ l0 l1. \<forall>cu. ad_Upgrade def = Some cu \<longrightarrow> chc_Command (cu_HealthCheck cu) \<noteq> [] \<longrightarrow> check_passed E addon (cu_HealthCheck cu) l0 l1)"
    unfolding addon_runHealthCheck_def Let_def
    by (auto intro: outcome_retI outcome_weaken [OF outcome_when [OF outcome_health_rounds [OF assms(1)]]] split: option.split)
  have bk: "outcome ?backup (\<lambda>_ _ _. True)"
  proof -
    have "outcome (backupAddon E addon c) (\<lambda>_ _ _. True)" for c
      unfolding backupAddon_def time_Now_def
      by (auto intro!: outcome_then [OF outcome_any [OF outcome_query]] outcome_panic outcome_any [OF outcome_write] split: option.split)
    then show ?thesis by (auto intro: outcome_retI outcome_any [OF outcome_when] split: option.split)
  qed
  let ?tail = "check (executeHooks E addon (ad_PostHooks def) ''post-upgrade'') (wrap ''post-upgrade hooks failed: '') (\<lambda>_.
      check ?health (wrap ''health check failed after upgrade: '') (\<lambda>_. api_write E (EvStatusUpdate (KClusterAddon (upgraded_status addon def)))))"
  from assms(3) Some obtain w1 w2 where h: "executeHooks E addon (ad_PreHooks def) ''pre-upgrade'' w = (Ok (), w1)"
    and b: "?backup w1 = (Ok (), w2)"
    and p0: "attempt (performUpgrade E X u addon def tgt) (\<lambda>r. case r of Inl err \<Rightarrow> rollback_or E addon def err | Inr _ \<Rightarrow> ?tail) w2 = (Ok (), w')"
    by (auto simp: Upgrade_def Let_def elim!: check_OkE)
  from p0 obtain w3 where p: "performUpgrade E X u addon def tgt w2 = (Ok (), w3)" and t: "?tail w3 = (Ok (), w')"
    using never_okD [OF rollback_or_never] by (auto simp: attempt_apply split: prod.splits res.splits)
  from t obtain w4 w5 where hk: "executeHooks E addon (ad_PostHooks def) ''post-upgrade'' w3 = (Ok (), w4)"
    and hc: "?health w4 = (Ok (), w5)" and st: "api_write E (EvStatusUpdate (KClusterAddon (upgraded_status addon def))) w5 = (Ok (), w')"
    by (auto elim!: check_OkE)
  note o1 = outcomeD [OF outcome_executeHooks assms(2) h]
  note o2 = outcomeD [OF bk o1(1) b]
  note o3 = outcomeD [OF outcome_performUpgrade [OF assms(1)] o2(1) p]
  note o4 = outcomeD [OF outcome_executeHooks o3(1) hk]
  note o5 = outcomeD [OF hl o4(1) hc]
  note o6 = outcomeD [OF outcome_write o5(1) st]
  have "prefix (w_log w) (w_log w2)" using o1(2) o2(2) by (rule prefix_order.trans)
  with o3(3) have "\<exists>a s. (a = addon \<or> a = green addon) \<and> upgrade_done E (buildUpgradeJob a def (Some s)) (w_log w) (w_log w3)"
    by (blast intro: upgrade_done_left)
  moreover have "prefix (w_log w3) (w_log w5)" using o4(2) o5(2) by (rule prefix_order.trans)
  moreover from o5(3) o4(2) have "\<forall>cu. ad_Upgrade def = Some cu \<longrightarrow> chc_Command (cu_HealthCheck cu) \<noteq> [] \<longrightarrow> check_passed E addon (cu_HealthCheck cu) (w_log w3) (w_log w5)"
    by (blast intro: check_passed_left)
  ultimately show ?thesis using Some o6(3) by (intro exI [of _ def] exI [of _ "w_log w3"] exI [of _ "w_log w5"]) simp
qed

definition ex_helm_addon :: AddonDefinition where
  "ex_helm_addon = zero_Addon\<lparr>ad_Name := ''dns'', ad_Type := ''helm'', ad_Version := ''v2'', ad_ContentPath := ''charts/dns''\<rparr>"

lemma ex_upgrade_runs:
  "\<exists>l. Upgrade quiet_env ex_codec (NewUpgrader ''http://release'' []) ex_dns None (ex_addon_release ex_helm_addon) empty_world
    = (Ok (), empty_world\<lparr>w_log := l\<rparr>)"
  by (simp add: Upgrade_def Let_def findAddonDefinition_def ex_addon_defs ex_helm_addon_def executeHooks_def addon_hooks_def
      act_simps performUpgrade_def rollingUpgrade_def rollingUpgradeHelm_def MergeValues_def ex_codec_def
      FetchFromReleaseImage_def fetch_content_def NewContentFetcher_def NewUpgrader_def fetch_http_def read_body_def
      Create_unless_exists_def run_upgrade_job_def Create_job_def poll_job_def Poll_def Get_job_def query_def
      api_write_def command_def quiet_defs numeral_3_eq_3)

theorem Upgrade_witness:
  "\<exists>l1 l2. (\<exists>a s. upgrade_done quiet_env (buildUpgradeJob a ex_helm_addon (Some s)) [] l1) \<and> prefix l1 l2
    \<and> w_log (snd (Upgrade quiet_env ex_codec (NewUpgrader ''http://release'' []) ex_dns None (ex_addon_release ex_helm_addon) empty_world))
      = l2 @ [EvStatusUpdate (KClusterAddon (upgraded_status ex_dns ex_helm_addon))]"
proof -
  obtain l where run: "Upgrade quiet_env ex_codec (NewUpgrader ''http://release'' []) ex_dns None (ex_addon_release ex_helm_addon) empty_world
    = (Ok (), empty_world\<lparr>w_log := l\<rparr>)" using ex_upgrade_runs by blast
  have "findAddonDefinition (Some (ex_addon_release ex_helm_addon)) (cas_AddonName (ca_Spec ex_dns)) = Some ex_helm_addon"
    by (simp add: findAddonDefinition_def ex_addon_defs ex_helm_addon_def)
  then show ?thesis using Upgrade_correct [OF _ pool_wf_empty run] run by (fastforce simp: empty_world_def)
qed

end
