(* ===== verification/Object_State.thy ===== *)
theory Object_State
  imports Contracts
begin

text \<open>
  What the controllers share. A controller reads one object, mutates it in place and writes
  it back, so its actions work on the world and that object. \<open>on_world\<close> is a call that does
  not touch the object, \<open>with_obj\<close> reads it, \<open>modify_obj\<close> assigns to it. The result of a round
  and the finalizer functions of controller-runtime are here too.
\<close>

section \<open>Definitions\<close>

type_synonym ('o, 'a) objact = "(world \<times> 'o, 'a) act"

definition on_world :: "'a cact \<Rightarrow> ('o, 'a) objact" where
  "on_world m = (\<lambda>(w, x). case m w of (r, w') \<Rightarrow> (r, (w', x)))"

definition with_obj :: "('o \<Rightarrow> ('o, 'a) objact) \<Rightarrow> ('o, 'a) objact" where
  "with_obj k = (\<lambda>(w, x). k x (w, x))"

definition modify_obj :: "('o \<Rightarrow> 'o) \<Rightarrow> ('o, unit) objact" where
  "modify_obj f = (\<lambda>(w, x). (Ok (), (w, f x)))"

lemma on_world_apply [act_simps]: "on_world m (w, x) = (case m w of (r, w') \<Rightarrow> (r, (w', x)))"
  by (simp add: on_world_def)

lemma with_obj_apply [act_simps]: "with_obj k (w, x) = k x (w, x)"
  by (simp add: with_obj_def)

lemma modify_obj_apply [act_simps]: "modify_obj f (w, x) = (Ok (), (w, f x))"
  by (simp add: modify_obj_def)

lemma obj_result: "\<exists>r w' x'. m s = (r, (w', x'))"
  by (cases "m s") auto

lemma time_Now_apply: "time_Now E w = (Ok (h_now (host E) (w_log w)), w\<lparr>w_log := w_log w @ [EvNow]\<rparr>)"
  by (simp add: time_Now_def query_def)

record ctrl_result =
  RequeueAfter :: duration
  Requeue :: bool

abbreviation requeue :: "duration \<Rightarrow> ctrl_result" where
  "requeue d \<equiv> \<lparr>RequeueAfter = d, Requeue = False\<rparr>"

abbreviation requeue_now :: ctrl_result where
  "requeue_now \<equiv> \<lparr>RequeueAfter = 0, Requeue = True\<rparr>"

definition AddFinalizer :: "string \<Rightarrow> object_meta \<Rightarrow> object_meta" where
  "AddFinalizer f m = (if f \<in> set (m_Finalizers m) then m else m\<lparr>m_Finalizers := m_Finalizers m @ [f]\<rparr>)"

definition RemoveFinalizer :: "string \<Rightarrow> object_meta \<Rightarrow> object_meta" where
  "RemoveFinalizer f m = m\<lparr>m_Finalizers := filter (\<lambda>g. g \<noteq> f) (m_Finalizers m)\<rparr>"

lemma finalizer_meta [simp]:
  "m_Namespace (AddFinalizer f m) = m_Namespace m" "m_Namespace (RemoveFinalizer f m) = m_Namespace m"
  by (simp_all add: AddFinalizer_def RemoveFinalizer_def)

section \<open>How an action may change the state\<close>

text \<open>
  \<open>moves R m\<close>: whatever happens, also on an error or a panic, \<open>m\<close> takes the state to one that is
  related to it by \<open>R\<close>. For a reflexive and transitive \<open>R\<close> this composes along the control flow;
  the locale states that once for all relations used below.
\<close>

definition moves :: "(world \<times> 'o \<Rightarrow> world \<times> 'o \<Rightarrow> bool) \<Rightarrow> ('o, 'a) objact \<Rightarrow> bool" where
  "moves R m \<longleftrightarrow> (\<forall>s r s'. m s = (r, s') \<longrightarrow> R s s')"

lemma movesD: "moves R m \<Longrightarrow> m s = (r, s') \<Longrightarrow> R s s'"
  unfolding moves_def by blast

locale state_relation =
  fixes R :: "world \<times> 'o \<Rightarrow> world \<times> 'o \<Rightarrow> bool"
  assumes R_refl: "R s s"
    and R_trans: "R s s' \<Longrightarrow> R s' s'' \<Longrightarrow> R s s''"
begin

lemma moves_ret: "moves R (ret x)"
  by (auto simp: moves_def ret_apply R_refl)

lemma moves_fail: "moves R (fail e)"
  by (auto simp: moves_def fail_apply R_refl)

lemma moves_panic: "moves R (panic e)"
  by (auto simp: moves_def panic_apply R_refl)

lemma moves_on_world: "(\<And>w r w' cv. m w = (r, w') \<Longrightarrow> R (w, cv) (w', cv)) \<Longrightarrow> moves R (on_world m)"
  by (auto simp: moves_def on_world_def split: prod.splits)

lemma moves_modify_obj: "(\<And>w x. R (w, x) (w, f x)) \<Longrightarrow> moves R (modify_obj f)"
  by (auto simp: moves_def modify_obj_def)

lemma moves_attempt:
  assumes "moves R m" and "\<And>x. moves R (k x)"
  shows "moves R (attempt m k)"
  unfolding moves_def
proof (intro allI impI)
  fix s r s' assume run: "attempt m k s = (r, s')"
  obtain r1 s1 where m: "m s = (r1, s1)" by (metis surj_pair)
  note first = movesD [OF assms(1) m]
  show "R s s'"
  proof (cases r1)
    case (Ok x)
    with run m have "k (Inr x) s1 = (r, s')" by (simp add: attempt_apply)
    with first movesD [OF assms(2)] show ?thesis by (blast intro: R_trans)
  next
    case (Err e)
    with run m have "k (Inl e) s1 = (r, s')" by (simp add: attempt_apply)
    with first movesD [OF assms(2)] show ?thesis by (blast intro: R_trans)
  next
    case (Panic e)
    with run m first show ?thesis by (simp add: attempt_apply)
  qed
qed

lemma moves_check: "moves R m \<Longrightarrow> (\<And>x. moves R (k x)) \<Longrightarrow> moves R (check m f k)"
  unfolding check_def by (rule moves_attempt) (auto intro: moves_fail split: sum.split)

lemma moves_with_obj: "(\<And>cv. moves R (k cv)) \<Longrightarrow> moves R (with_obj k)"
  by (auto simp: moves_def with_obj_def)

lemma moves_when: "moves R m \<Longrightarrow> moves R (when_act b m)"
  by (simp add: when_act_def moves_ret)

lemma moves_if: "moves R m \<Longrightarrow> moves R m' \<Longrightarrow> moves R (if b then m else m')"
  by simp

lemma moves_sum: "(\<And>e. moves R (f e)) \<Longrightarrow> (\<And>x. moves R (g x)) \<Longrightarrow> moves R (case r of Inl e \<Rightarrow> f e | Inr x \<Rightarrow> g x)"
  by (cases r) simp_all

lemma moves_option: "moves R m \<Longrightarrow> (\<And>x. moves R (g x)) \<Longrightarrow> moves R (case r of None \<Rightarrow> m | Some x \<Rightarrow> g x)"
  by (cases r) simp_all

lemmas moves_rules = moves_ret moves_fail moves_panic moves_on_world moves_attempt moves_check moves_with_obj
  moves_when moves_if moves_sum moves_option moves_modify_obj

end

end
