(* ===== verification/Cluster_Version.thy ===== *)
theory Cluster_Version
  imports Object_State Addon_Upgrader Graph_Exec Version_Path
begin

text \<open>
  The controller of ClusterVersion objects, \<open>modules/cvo/internal/controllers/clusterversion_controller.go\<close>.
  The object under reconciliation is mutated in place and patched when \<open>Reconcile\<close> returns,
  even if it panics; so the state of the model is the world and that object. Metrics, log
  messages and the clock reads that only feed them are not part of the model. Parsers,
  \<open>sort.Slice\<close>, reading the ClusterVersion and the patch helper of Cluster API are
  parameters, in the record \<open>cvo_env\<close>.
\<close>

section \<open>Definitions\<close>

record cvo_env =
  x_codec :: codec
  x_parse_catalog :: "string \<Rightarrow> error + ReleaseCatalogStatus"
  x_parse_path :: "string \<Rightarrow> error + UpgradePathSpec"
  x_parse_release :: "string \<Rightarrow> error + ReleaseImageSpec"
  x_sort_phases :: "UpgradePhase list \<Rightarrow> UpgradePhase list"
  x_sort_releases :: "Release list \<Rightarrow> Release list"
  x_get_cv :: "log \<Rightarrow> string \<Rightarrow> string \<Rightarrow> error + ClusterVersion"
  x_patch_helper :: "ClusterVersion \<Rightarrow> error option"

record ClusterVersionReconciler =
  cvr_Puller :: "OCIPuller option"

text \<open>Actions on the world and the object.\<close>

type_synonym cvstate = "world \<times> ClusterVersion"
type_synonym 'a cvact = "(cvstate, 'a) act"

abbreviation modify_status :: "(ClusterVersionStatus \<Rightarrow> ClusterVersionStatus) \<Rightarrow> unit cvact" where
  "modify_status f \<equiv> modify_obj (\<lambda>cv. cv\<lparr>cv_Status := f (cv_Status cv)\<rparr>)"

abbreviation modify_meta :: "(object_meta \<Rightarrow> object_meta) \<Rightarrow> unit cvact" where
  "modify_meta f \<equiv> modify_obj (\<lambda>cv. cv\<lparr>cv_Meta := f (cv_Meta cv)\<rparr>)"

fun put_condition :: "condition \<Rightarrow> condition list \<Rightarrow> condition list" where
  "put_condition c [] = [c]"
| "put_condition c (d # ds) = (if cond_Type d = cond_Type c then c # ds else d # put_condition c ds)"

definition setCVCondition :: "env \<Rightarrow> string \<Rightarrow> string \<Rightarrow> string \<Rightarrow> string \<Rightarrow> unit cvact" where
  "setCVCondition E condType status reason message =
     andthen (on_world (time_Now E)) (\<lambda>now.
       modify_status (\<lambda>s. s\<lparr>cvst_Conditions := put_condition
         \<lparr>cond_Type = condType, cond_Status = status, cond_Reason = reason, cond_Message = message,
          cond_LastTransitionTime = now\<rparr> (cvst_Conditions s)\<rparr>))"

definition prependHistory :: "UpdateHistory list \<Rightarrow> UpdateHistory \<Rightarrow> UpdateHistory list" where
  "prependHistory history entry =
     (case history of
        h # hs \<Rightarrow> if uh_Version h = uh_Version entry \<and> uh_State h = PartialUpdate then history else entry # history
      | [] \<Rightarrow> [entry])"

definition versionToName :: "string \<Rightarrow> string" where
  "versionToName version = concat (map (\<lambda>c. if is_alnum c then [c] else ''-'') version)"

definition DefaultUpgradePathImage :: string where "DefaultUpgradePathImage = []"
definition DefaultCatalogImage :: string where "DefaultCatalogImage = []"

text \<open>An object whose \<open>Get\<close> failed otherwise than with NotFound is the zero object.\<close>

definition syncUpgradePath :: "env \<Rightarrow> cvo_env \<Rightarrow> ClusterVersionReconciler \<Rightarrow> unit cact" where
  "syncUpgradePath E X r =
     attempt (Get_upgradepath E ''global'') (\<lambda>got.
       let img = (case got of Inr up \<Rightarrow> if ups_Image (upath_Spec up) \<noteq> [] then ups_Image (upath_Spec up) else DefaultUpgradePathImage
                  | Inl e \<Rightarrow> DefaultUpgradePathImage)
       in case cvr_Puller r of
            None \<Rightarrow> ret ()
          | Some p \<Rightarrow>
              andthen (PullAndParseUpgradePath E (x_parse_path X) p img) (\<lambda>spec.
              andthen (time_Now E) (\<lambda>now.
                case got of
                  Inl e \<Rightarrow>
                    if IsNotFound e
                    then api_write E (EvCreate (KUpgradePath (zero_UpgradePath\<lparr>upath_Meta := zero_meta\<lparr>m_Name := ''global''\<rparr>,
                      upath_Spec := spec, upath_Status := \<lparr>upst_LastSyncTime = now, upst_SyncSucceeded = True, upst_ImageDigest = []\<rparr>\<rparr>)))
                    else api_write E (EvUpdate (KUpgradePath (zero_UpgradePath\<lparr>upath_Spec := spec,
                      upath_Status := (upath_Status zero_UpgradePath)\<lparr>upst_LastSyncTime := now, upst_SyncSucceeded := True\<rparr>\<rparr>)))
                | Inr up \<Rightarrow> api_write E (EvUpdate (KUpgradePath (up\<lparr>upath_Spec := spec,
                      upath_Status := (upath_Status up)\<lparr>upst_LastSyncTime := now, upst_SyncSucceeded := True\<rparr>\<rparr>))))))"

definition syncReleaseCatalog :: "env \<Rightarrow> cvo_env \<Rightarrow> ClusterVersionReconciler \<Rightarrow> unit cact" where
  "syncReleaseCatalog E X r =
     attempt (Get_catalog E ''global'') (\<lambda>got.
       let img = (case got of Inr cat \<Rightarrow> if rcat_Image cat \<noteq> [] then rcat_Image cat else DefaultCatalogImage
                  | Inl e \<Rightarrow> DefaultCatalogImage)
       in case cvr_Puller r of
            None \<Rightarrow> ret ()
          | Some p \<Rightarrow>
              andthen (PullAndParseCatalog E (x_parse_catalog X) p img) (\<lambda>status.
              andthen (time_Now E) (\<lambda>now.
                let st = status\<lparr>rcs_LastSyncTime := now, rcs_SyncSucceeded := True\<rparr> in
                case got of
                  Inl e \<Rightarrow>
                    if IsNotFound e
                    then api_write E (EvCreate (KReleaseCatalog \<lparr>rcat_Meta = zero_meta\<lparr>m_Name := ''global''\<rparr>,
                      rcat_Image = img, rcat_SyncInterval = 60 * minute, rcat_Status = st\<rparr>))
                    else api_write E (EvUpdate (KReleaseCatalog (zero_ReleaseCatalog\<lparr>rcat_Status := st\<rparr>)))
                | Inr cat \<Rightarrow> api_write E (EvUpdate (KReleaseCatalog (cat\<lparr>rcat_Status := st\<rparr>))))))"

definition computeAvailableUpdates :: "env \<Rightarrow> cvo_env \<Rightarrow> ClusterVersionReconciler \<Rightarrow> unit cvact" where
  "computeAvailableUpdates E X r =
     (case cvr_Puller r of
        None \<Rightarrow> ret ()
      | Some p \<Rightarrow>
          with_obj (\<lambda>cv.
          attempt (on_world (ComputeAvailableUpdates E (x_sort_releases X) cv)) (\<lambda>got. case got of
            Inl e \<Rightarrow> setCVCondition E ''RetrievedUpdates'' ''False'' ''ComputeFailed'' (error_string e)
          | Inr updates \<Rightarrow>
              andthen (modify_status (\<lambda>s. s\<lparr>cvst_AvailableUpdates := updates\<rparr>)) (\<lambda>_.
                setCVCondition E ''RetrievedUpdates'' ''True'' ''AsExpected'' []))))"

definition validateUpgrade :: "env \<Rightarrow> ClusterVersionReconciler \<Rightarrow> ClusterVersion \<Rightarrow> unit cact" where
  "validateUpgrade E r cv = (case cvr_Puller r of None \<Rightarrow> ret () | Some p \<Rightarrow> ValidateUpgradePath E cv)"

definition preUpgradeHealthCheck :: "env \<Rightarrow> unit cact" where
  "preUpgradeHealthCheck E =
     check (List_nodes E []) (wrap ''failed to list nodes for health check: '') (\<lambda>nodes.
       for_each nodes (\<lambda>n. if node_ready n then ret ()
         else fail (Errorf (''node '' @ node_Name n @ '' is not Ready, cannot proceed with upgrade''))))"

definition release_image_of :: "env \<Rightarrow> Update \<Rightarrow> string cact" where
  "release_image_of E du =
     (if upd_Image du \<noteq> [] then ret (upd_Image du)
      else check (Get_catalog E ''global'') (wrap ''failed to get ReleaseCatalog: '') (\<lambda>cat.
        case List.find (\<lambda>entry. re_Version entry = upd_Version du) (rcs_Releases (rcat_Status cat)) of
          Some entry \<Rightarrow> if re_Image entry = [] then fail (Errorf (''release image not found for version '' @ upd_Version du))
                         else ret (re_Image entry)
        | None \<Rightarrow> fail (Errorf (''release image not found for version '' @ upd_Version du))))"

text \<open>\<open>store_release\<close>: creating the ReleaseImage object, or replacing its spec.\<close>

definition store_release :: "env \<Rightarrow> ReleaseImageSpec \<Rightarrow> ReleaseImage cact" where
  "store_release E spec =
     attempt (Get_releaseimage E (versionToName (ris_Version spec))) (\<lambda>got. case got of
       Inl e \<Rightarrow>
         if IsNotFound e then
           (let ri = zero_ReleaseImage\<lparr>ri_Meta := zero_meta\<lparr>m_Name := versionToName (ris_Version spec)\<rparr>, ri_Spec := spec,
                       ri_Status := zero_ReleaseImageStatus\<lparr>rist_Verified := True\<rparr>\<rparr>
            in andthen (api_write E (EvCreate (KReleaseImage ri))) (\<lambda>_. ret ri))
         else fail e
     | Inr found \<Rightarrow>
         (let ri = found\<lparr>ri_Spec := spec\<rparr>
          in andthen (api_write E (EvUpdate (KReleaseImage ri))) (\<lambda>_. ret ri)))"

definition fetchReleaseImage :: "env \<Rightarrow> cvo_env \<Rightarrow> ClusterVersionReconciler \<Rightarrow> ReleaseImage cvact" where
  "fetchReleaseImage E X r =
     with_obj (\<lambda>cv. case cvs_DesiredUpdate (cv_Spec cv) of
       None \<Rightarrow> panic ''nil pointer dereference''
     | Some du \<Rightarrow>
         andthen (on_world (release_image_of E du)) (\<lambda>img.
           case cvr_Puller r of
             None \<Rightarrow> fail (Errorf ''OCI puller not configured'')
           | Some p \<Rightarrow>
               andthen (on_world (PullAndParseReleaseImage E (x_parse_release X) p img)) (\<lambda>spec.
               andthen (on_world (store_release E spec)) (\<lambda>ri.
               andthen (modify_status (\<lambda>s. s\<lparr>cvst_Desired := \<lparr>rel_Version = ris_Version spec, rel_Image = ris_Image spec\<rparr>\<rparr>)) (\<lambda>_.
                 ret ri)))))"

definition pending :: "string \<Rightarrow> string \<Rightarrow> ComponentStatus list" where
  "pending name version =
     (if version \<noteq> [] then [\<lparr>cs_Name = name, cs_Version = version, cs_TargetVersion = version, cs_Phase = ''Pending''\<rparr>] else [])"

definition initComponentStatus :: "ReleaseImage \<Rightarrow> ComponentStatus list" where
  "initComponentStatus ri =
     (let c = ris_Components (ri_Spec ri) in
      pending ''containerd'' (bc_Version (rc_Containerd c)) @ pending ''kubernetes'' (kc_Version (rc_Kubernetes c))
        @ concat (map (\<lambda>a. pending (ad_Name a) (ad_Version a)) (ris_Addons (ri_Spec ri))))"

definition fresh_addon :: "ClusterVersion \<Rightarrow> ReleaseImage \<Rightarrow> string \<Rightarrow> AddonDefinition \<Rightarrow> ClusterAddon" where
  "fresh_addon cv ri addonName addonDef = zero_ClusterAddon\<lparr>
     ca_Meta := zero_meta\<lparr>m_Name := addonName, m_Namespace := m_Namespace (cv_Meta cv)\<rparr>,
     ca_Spec := zero_ClusterAddonSpec\<lparr>cas_ClusterRef := cvs_ClusterRef (cv_Spec cv), cas_ReleaseImageRef := m_Name (ri_Meta ri),
       cas_AddonName := ad_Name addonDef, cas_Namespace := ad_Namespace addonDef\<rparr>\<rparr>"

definition ensure_addon :: "env \<Rightarrow> ClusterVersion \<Rightarrow> ReleaseImage \<Rightarrow> string \<Rightarrow> AddonDefinition \<Rightarrow> ClusterAddon cact" where
  "ensure_addon E cv ri addonName addonDef =
     attempt (Get_clusteraddon E (m_Namespace (cv_Meta cv)) addonName) (\<lambda>got. case got of
       Inr ca \<Rightarrow> ret ca
     | Inl e \<Rightarrow>
         if IsNotFound e then
           check (api_write E (EvCreate (KClusterAddon (fresh_addon cv ri addonName addonDef))))
             (wrap (''failed to create addon '' @ addonName @ '': '')) (\<lambda>_. ret (fresh_addon cv ri addonName addonDef))
         else fail e)"

definition upgrade_addon ::
  "env \<Rightarrow> codec \<Rightarrow> Upgrader \<Rightarrow> ClusterVersion \<Rightarrow> ReleaseImage \<Rightarrow> ReleaseImage option \<Rightarrow> string \<Rightarrow> unit cact" where
  "upgrade_addon E C u cv ri currentRelease addonName =
     (case findAddonDefByName ri addonName of
        None \<Rightarrow> ret ()
      | Some addonDef \<Rightarrow>
          andthen (ensure_addon E cv ri addonName addonDef) (\<lambda>clusterAddon.
            if cast_Version (ca_Status clusterAddon) = ad_Version addonDef then ret ()
            else check (Upgrade E C u clusterAddon currentRelease ri) (wrap (''failed to upgrade addon '' @ addonName @ '': '')) ret))"

definition executeAddonUpgrades :: "env \<Rightarrow> codec \<Rightarrow> ClusterVersion \<Rightarrow> ReleaseImage \<Rightarrow> unit cact" where
  "executeAddonUpgrades E C cv ri =
     (let u = NewUpgrader [] (m_Namespace (cv_Meta cv)); graph = buildAddonDependencyGraph ri in
      andthen (range_map E (map fst graph)) (\<lambda>ord.
      attempt (Get_releaseimage E (versionToName (cvst_ActualVersion (cv_Status cv)))) (\<lambda>got.
        let currentRelease = (case got of Inl e \<Rightarrow> None | Inr cur \<Rightarrow> Some cur) in
        for_each (topologicalSortAddons ord graph) (upgrade_addon E C u cv ri currentRelease))))"

text \<open>The loop returns at the first addon that is missing or has another version; other errors are skipped.\<close>

fun needsAddonUpgrade_loop :: "env \<Rightarrow> string \<Rightarrow> AddonDefinition list \<Rightarrow> bool cact" where
  "needsAddonUpgrade_loop E ns [] = ret False"
| "needsAddonUpgrade_loop E ns (addonDef # defs) =
     (if ad_Version addonDef = [] then needsAddonUpgrade_loop E ns defs
      else attempt (Get_clusteraddon E ns (ad_Name addonDef)) (\<lambda>got. case got of
        Inl e \<Rightarrow> if IsNotFound e then ret True else needsAddonUpgrade_loop E ns defs
      | Inr ca \<Rightarrow> if cast_Version (ca_Status ca) \<noteq> ad_Version addonDef then ret True else needsAddonUpgrade_loop E ns defs))"

definition needsAddonUpgrade :: "env \<Rightarrow> ClusterVersion \<Rightarrow> ReleaseImage \<Rightarrow> bool cact" where
  "needsAddonUpgrade E cv ri = needsAddonUpgrade_loop E (m_Namespace (cv_Meta cv)) (ris_Addons (ri_Spec ri))"

definition addon_status :: "AddonDefinition \<Rightarrow> error + ClusterAddon \<Rightarrow> timestamp \<Rightarrow> AddonVersionStatus" where
  "addon_status addonDef got now =
     (let status = \<lparr>avs_Name = ad_Name addonDef, avs_Version = [], avs_TargetVersion = ad_Version addonDef,
            avs_Phase = AddonPhaseInstalled, avs_LastTransitionTime = now\<rparr>
      in case got of
           Inl e \<Rightarrow> if IsNotFound e then status\<lparr>avs_Phase := AddonPhasePending\<rparr> else status
         | Inr ca \<Rightarrow>
             if cast_Version (ca_Status ca) \<noteq> ad_Version addonDef
             then status\<lparr>avs_Version := cast_Version (ca_Status ca), avs_Phase := AddonPhaseUpgrading\<rparr>
             else status\<lparr>avs_Version := cast_Version (ca_Status ca)\<rparr>)"

fun addon_statuses :: "env \<Rightarrow> string \<Rightarrow> AddonDefinition list \<Rightarrow> AddonVersionStatus list cact" where
  "addon_statuses E ns [] = ret []"
| "addon_statuses E ns (addonDef # defs) =
     (if ad_Version addonDef = [] then addon_statuses E ns defs
      else attempt (Get_clusteraddon E ns (ad_Name addonDef)) (\<lambda>got.
        andthen (time_Now E) (\<lambda>now.
        andthen (addon_statuses E ns defs) (\<lambda>rest. ret (addon_status addonDef got now # rest)))))"

definition updateAddonStatus :: "env \<Rightarrow> ReleaseImage \<Rightarrow> unit cvact" where
  "updateAddonStatus E ri =
     with_obj (\<lambda>cv.
     andthen (on_world (addon_statuses E (m_Namespace (cv_Meta cv)) (ris_Addons (ri_Spec ri)))) (\<lambda>sts.
       modify_status (\<lambda>s. s\<lparr>cvst_AddonStatus := sts\<rparr>)))"

definition executeUpgrade :: "env \<Rightarrow> cvo_env \<Rightarrow> ClusterVersionReconciler \<Rightarrow> ReleaseImage \<Rightarrow> bool \<Rightarrow> unit cvact" where
  "executeUpgrade E X r ri needsK8SUpgrade =
     (case cvr_Puller r of
        None \<Rightarrow> ret ()
      | Some p \<Rightarrow>
          andthen (when_act needsK8SUpgrade
            (andthen (modify_status (\<lambda>s. s\<lparr>cvst_ComponentStatus := initComponentStatus ri\<rparr>)) (\<lambda>_.
             with_obj (\<lambda>cv.
             check (on_world (ExecuteUpgradeGraph E (x_sort_phases X) (NewGraphExecutor p None) cv ri)) (wrap ''k8s upgrade failed: '') ret)))) (\<lambda>_.
          with_obj (\<lambda>cv.
          check (on_world (executeAddonUpgrades E (x_codec X) cv ri)) (wrap ''addon upgrades failed: '') (\<lambda>_.
            updateAddonStatus E ri))))"

definition ClusterVersionFinalizer :: string where
  "ClusterVersionFinalizer = ''clusterversion.cvo.capbm.io''"

definition reconcileDelete :: "env \<Rightarrow> ctrl_result cvact" where
  "reconcileDelete E =
     andthen (modify_meta (RemoveFinalizer ClusterVersionFinalizer)) (\<lambda>_.
     with_obj (\<lambda>cv.
     andthen (on_world (api_write E (EvUpdate (KClusterVersion cv)))) (\<lambda>_. ret (requeue 0))))"

definition as_expected :: "env \<Rightarrow> unit cvact" where
  "as_expected E =
     andthen (setCVCondition E ''Available'' ''True'' ''AsExpected'' []) (\<lambda>_.
       setCVCondition E ''Progressing'' ''False'' ''AsExpected'' [])"

definition refuse :: "env \<Rightarrow> string \<Rightarrow> error \<Rightarrow> ctrl_result cvact" where
  "refuse E reason e =
     andthen (setCVCondition E ''Failing'' ''True'' reason (error_string e)) (\<lambda>_.
     andthen (setCVCondition E ''Upgradeable'' ''False'' reason (error_string e)) (\<lambda>_. ret (requeue (60 * second))))"

text \<open>The part of \<open>Reconcile\<close> after all checks.\<close>

definition complete_head :: "timestamp \<Rightarrow> UpdateHistory list \<Rightarrow> UpdateHistory list" where
  "complete_head now hist = (case hist of [] \<Rightarrow> []
     | h # hs \<Rightarrow> h\<lparr>uh_State := CompletedUpdate, uh_CompletionTime := Some now\<rparr> # hs)"

definition run_upgrade :: "env \<Rightarrow> cvo_env \<Rightarrow> ClusterVersionReconciler \<Rightarrow> Update \<Rightarrow> ReleaseImage \<Rightarrow> bool \<Rightarrow> ctrl_result cvact" where
  "run_upgrade E X r du ri needsK8SUpgrade =
     andthen (on_world (time_Now E)) (\<lambda>started.
     andthen (modify_status (\<lambda>s. s\<lparr>cvst_History := prependHistory (cvst_History s)
        \<lparr>uh_State = PartialUpdate, uh_Version = upd_Version du, uh_Image = ris_Image (ri_Spec ri), uh_Verified = True,
         uh_StartedTime = started, uh_CompletionTime = None\<rparr>\<rparr>)) (\<lambda>_.
     andthen (when_act needsK8SUpgrade (setCVCondition E ''Progressing'' ''True'' ''Upgrading'' (''Upgrading to '' @ upd_Version du))) (\<lambda>_.
     attempt (executeUpgrade E X r ri needsK8SUpgrade) (\<lambda>res. case res of
       Inl e \<Rightarrow>
         andthen (setCVCondition E ''Failing'' ''True'' ''UpgradeFailed'' (error_string e)) (\<lambda>_. ret (requeue (60 * second)))
     | Inr _ \<Rightarrow>
         andthen (modify_status (\<lambda>s. s\<lparr>cvst_ActualVersion := upd_Version du\<rparr>)) (\<lambda>_.
         andthen (with_obj (\<lambda>cv. when_act (cvst_History (cv_Status cv) \<noteq> [])
           (andthen (on_world (time_Now E)) (\<lambda>now. modify_status (\<lambda>s. s\<lparr>cvst_History := complete_head now (cvst_History s)\<rparr>))))) (\<lambda>_.
         andthen (as_expected E) (\<lambda>_.
         andthen (setCVCondition E ''Failing'' ''False'' ''AsExpected'' []) (\<lambda>_. ret (requeue (5 * minute))))))))))"

text \<open>
  The body of \<open>Reconcile\<close> once the object is not deleted. An error of the two
  synchronisations and of the fetch ends the round with a requeue, not with an error.
\<close>

definition reconcile_desired :: "env \<Rightarrow> cvo_env \<Rightarrow> ClusterVersionReconciler \<Rightarrow> Update \<Rightarrow> ctrl_result cvact" where
  "reconcile_desired E X r du =
     with_obj (\<lambda>cv.
     let needsK8SUpgrade = (cvst_ActualVersion (cv_Status cv) \<noteq> upd_Version du) in
     attempt (fetchReleaseImage E X r) (\<lambda>got. case got of
       Inl e \<Rightarrow> andthen (setCVCondition E ''Failing'' ''True'' ''PullFailed'' (error_string e)) (\<lambda>_. ret (requeue (60 * second)))
     | Inr ri \<Rightarrow>
         with_obj (\<lambda>cv1.
         andthen (on_world (needsAddonUpgrade E cv1 ri)) (\<lambda>needsAddons.
           if \<not> needsK8SUpgrade \<and> \<not> needsAddons then andthen (as_expected E) (\<lambda>_. ret (requeue (5 * minute)))
           else if \<not> needsK8SUpgrade then run_upgrade E X r du ri False
           else
             attempt (on_world (validateUpgrade E r cv1)) (\<lambda>v. case v of
               Inl e \<Rightarrow> refuse E ''ValidationFailed'' e
             | Inr _ \<Rightarrow>
                 attempt (on_world (preUpgradeHealthCheck E)) (\<lambda>h. case h of
                   Inl e \<Rightarrow> refuse E ''PreUpgradeHealthCheckFailed'' e
                 | Inr _ \<Rightarrow>
                     andthen (setCVCondition E ''Upgradeable'' ''True'' ''PreconditionsPassed'' ''All preconditions passed'') (\<lambda>_.
                       run_upgrade E X r du ri True)))))))"

definition reconcile_body :: "env \<Rightarrow> cvo_env \<Rightarrow> ClusterVersionReconciler \<Rightarrow> ctrl_result cvact" where
  "reconcile_body E X r =
     with_obj (\<lambda>cv.
     if m_DeletionTimestamp (cv_Meta cv) \<noteq> None then reconcileDelete E
     else
       andthen (modify_meta (AddFinalizer ClusterVersionFinalizer)) (\<lambda>_.
       if cvs_Paused (cv_Spec cv) then
         andthen (setCVCondition E ''Paused'' ''True'' ''UpgradePaused'' ''Upgrade is paused'') (\<lambda>_. ret (requeue (30 * second)))
       else
         attempt (on_world (syncUpgradePath E X r)) (\<lambda>s1. case s1 of
           Inl e \<Rightarrow> ret (requeue (5 * minute))
         | Inr _ \<Rightarrow>
             attempt (on_world (syncReleaseCatalog E X r)) (\<lambda>s2. case s2 of
               Inl e \<Rightarrow> ret (requeue (5 * minute))
             | Inr _ \<Rightarrow>
                 andthen (computeAvailableUpdates E X r) (\<lambda>_.
                   case cvs_DesiredUpdate (cv_Spec cv) of
                     None \<Rightarrow> andthen (as_expected E) (\<lambda>_. ret (requeue (5 * minute)))
                   | Some du \<Rightarrow> reconcile_desired E X r du)))))"

text \<open>\<open>Reconcile\<close>: the deferred patch writes the object as the body left it; its error is only logged.\<close>

definition patch_cv :: "env \<Rightarrow> unit cvact" where
  "patch_cv E = with_obj (\<lambda>cv. attempt (on_world (api_write E (EvPatch (KClusterVersion cv)))) (\<lambda>_. ret ()))"

definition cv_Reconcile :: "env \<Rightarrow> cvo_env \<Rightarrow> ClusterVersionReconciler \<Rightarrow> string \<Rightarrow> string \<Rightarrow> ctrl_result cact" where
  "cv_Reconcile E X r ns name =
     attempt (query (EvGet ''ClusterVersion'' ns name) (\<lambda>l. x_get_cv X l ns name)) (\<lambda>got. case got of
       Inl e \<Rightarrow> if IsNotFound e then ret (requeue 0) else fail e
     | Inr cv \<Rightarrow>
         (case x_patch_helper X cv of
            Some e \<Rightarrow> fail e
          | None \<Rightarrow> (\<lambda>w. case deferring (reconcile_body E X r) (patch_cv E) (w, cv) of (res, (w', cv')) \<Rightarrow> (res, w'))))"

section \<open>How an action may change the state\<close>

text \<open>
  Four relations: only the status (and the finalizers) change and the condition types stay
  unique; history entries are never lost; version, spec, namespace and history stay the same;
  the log only grows.
\<close>

definition status_only :: "cvstate \<Rightarrow> cvstate \<Rightarrow> bool" where
  "status_only s s' \<longleftrightarrow> cv_Spec (snd s') = cv_Spec (snd s)
     \<and> (distinct (map cond_Type (cvst_Conditions (cv_Status (snd s)))) \<longrightarrow>
        distinct (map cond_Type (cvst_Conditions (cv_Status (snd s')))))"

definition entry_key :: "UpdateHistory \<Rightarrow> string \<times> string \<times> bool \<times> timestamp" where
  "entry_key h = (uh_Version h, uh_Image h, uh_Verified h, uh_StartedTime h)"

definition history_grows :: "cvstate \<Rightarrow> cvstate \<Rightarrow> bool" where
  "history_grows s s' \<longleftrightarrow>
     suffix (map entry_key (cvst_History (cv_Status (snd s)))) (map entry_key (cvst_History (cv_Status (snd s'))))"

definition same_core :: "cvstate \<Rightarrow> cvstate \<Rightarrow> bool" where
  "same_core s s' \<longleftrightarrow> cv_Spec (snd s') = cv_Spec (snd s)
     \<and> cvst_ActualVersion (cv_Status (snd s')) = cvst_ActualVersion (cv_Status (snd s))
     \<and> cvst_History (cv_Status (snd s')) = cvst_History (cv_Status (snd s))
     \<and> m_Namespace (cv_Meta (snd s')) = m_Namespace (cv_Meta (snd s))"

definition log_grows :: "cvstate \<Rightarrow> cvstate \<Rightarrow> bool" where
  "log_grows s s' \<longleftrightarrow> prefix (w_log (fst s)) (w_log (fst s'))"

interpretation status_rel: state_relation status_only
  by unfold_locales (auto simp: status_only_def)

interpretation history_rel: state_relation history_grows
  by unfold_locales (auto simp: history_grows_def intro: suffix_order.trans)

interpretation core_rel: state_relation same_core
  by unfold_locales (auto simp: same_core_def)

interpretation log_rel: state_relation log_grows
  by unfold_locales (auto simp: log_grows_def intro: prefix_order.trans)

lemma put_condition_types:
  "map cond_Type (put_condition c cs) = (if cond_Type c \<in> cond_Type ` set cs then map cond_Type cs else map cond_Type cs @ [cond_Type c])"
  by (induction cs) auto

lemma distinct_put_condition: "distinct (map cond_Type cs) \<Longrightarrow> distinct (map cond_Type (put_condition c cs))"
  by (auto simp: put_condition_types)

lemmas fetch_defs = fetchReleaseImage_def computeAvailableUpdates_def setCVCondition_def
lemmas exec_defs = executeUpgrade_def updateAddonStatus_def
lemmas body_defs = reconcile_body_def reconcileDelete_def reconcile_desired_def run_upgrade_def
  as_expected_def refuse_def fetch_defs exec_defs Let_def

lemma complete_head_keys: "map entry_key (complete_head now h) = map entry_key h"
  by (cases h) (simp_all add: complete_head_def entry_key_def)

lemma prependHistory_keys: "suffix (map entry_key h) (map entry_key (prependHistory h e))"
  by (cases h) (auto simp: prependHistory_def suffix_ConsI)

lemma body_status: "moves status_only (reconcile_body E X r)"
  unfolding body_defs
  by (intro status_rel.moves_rules) (simp_all add: status_only_def distinct_put_condition)

lemma body_history: "moves history_grows (reconcile_body E X r)"
  unfolding body_defs
  by (intro history_rel.moves_rules) (simp_all add: history_grows_def prependHistory_keys complete_head_keys)

lemma core_parts:
  "moves same_core (setCVCondition E t st reason msg)" "moves same_core (fetchReleaseImage E X r)"
  "moves same_core (computeAvailableUpdates E X r)" "moves same_core (executeUpgrade E X r ri b)"
  unfolding fetch_defs exec_defs by (intro core_rel.moves_rules; simp add: same_core_def)+

text \<open>
  (C3) The status stays well formed in every round of the controller, whatever fails: the spec
  is never touched, the types of the conditions stay unique, and no entry of the update
  history is lost or changed except for its state and completion time.
\<close>

theorem reconcile_status_invariant:
  assumes "distinct (map cond_Type (cvst_Conditions (cv_Status cv)))" and "reconcile_body E X r (w, cv) = (res, (w', cv'))"
  shows "cv_Spec cv' = cv_Spec cv \<and> distinct (map cond_Type (cvst_Conditions (cv_Status cv')))
    \<and> suffix (map entry_key (cvst_History (cv_Status cv))) (map entry_key (cvst_History (cv_Status cv')))"
  using assms(1) movesD [OF body_status assms(2)] movesD [OF body_history assms(2)]
  by (simp add: status_only_def history_grows_def)

section \<open>When the actual version changes\<close>

lemma setCVCondition_apply:
  "setCVCondition E t st reason msg (w, cv) = (Ok (), (w\<lparr>w_log := w_log w @ [EvNow]\<rparr>,
     cv\<lparr>cv_Status := (cv_Status cv)\<lparr>cvst_Conditions := put_condition \<lparr>cond_Type = t, cond_Status = st, cond_Reason = reason,
       cond_Message = msg, cond_LastTransitionTime = h_now (host E) (w_log w)\<rparr> (cvst_Conditions (cv_Status cv))\<rparr>\<rparr>))"
  by (simp add: setCVCondition_def act_simps time_Now_apply)

text \<open>\<open>completed v cv\<close>: the newest history entry is a completed update to \<open>v\<close>.\<close>

definition completed_to :: "string \<Rightarrow> ClusterVersion \<Rightarrow> bool" where
  "completed_to v cv \<longleftrightarrow> (\<exists>h hs. cvst_History (cv_Status cv) = h # hs \<and> uh_State h = CompletedUpdate \<and> uh_Version h = v
     \<and> uh_CompletionTime h \<noteq> None)"

lemma prependHistory_head: "\<exists>h hs. prependHistory hist e = h # hs \<and> uh_Version h = uh_Version e"
  by (cases hist) (auto simp: prependHistory_def)

lemma run_upgrade_outcome:
  assumes "run_upgrade E X r du ri b (w, cv) = (res, (w', cv'))"
  shows "\<exists>w1 cv1 res1 w2 cv2. cv_Spec cv1 = cv_Spec cv \<and> prefix (w_log w) (w_log w1)
      \<and> cvst_ActualVersion (cv_Status cv1) = cvst_ActualVersion (cv_Status cv) \<and> m_Namespace (cv_Meta cv1) = m_Namespace (cv_Meta cv)
      \<and> executeUpgrade E X r ri b (w1, cv1) = (res1, (w2, cv2))
      \<and> cvst_ActualVersion (cv_Status cv') = (if res1 = Ok () then upd_Version du else cvst_ActualVersion (cv_Status cv))
      \<and> (res1 = Ok () \<longrightarrow> completed_to (upd_Version du) cv' \<and> res = Ok (requeue (5 * minute)))"
proof -
  let ?e = "\<lambda>now. \<lparr>uh_State = PartialUpdate, uh_Version = upd_Version du, uh_Image = ris_Image (ri_Spec ri), uh_Verified = True,
      uh_StartedTime = now, uh_CompletionTime = None\<rparr>"
  let ?now = "h_now (host E) (w_log w)"
  let ?cv0 = "cv\<lparr>cv_Status := (cv_Status cv)\<lparr>cvst_History := prependHistory (cvst_History (cv_Status cv)) (?e ?now)\<rparr>\<rparr>"
  obtain u w1 cv1 where pre: "when_act b (setCVCondition E ''Progressing'' ''True'' ''Upgrading'' (''Upgrading to '' @ upd_Version du))
      (w\<lparr>w_log := w_log w @ [EvNow]\<rparr>, ?cv0) = (Ok u, (w1, cv1))"
    and cv1: "same_core (w, ?cv0) (w1, cv1)" and l1: "prefix (w_log w) (w_log w1)"
    by (cases b) (auto simp: act_simps setCVCondition_apply same_core_def)
  obtain res1 w2 cv2 where ex: "executeUpgrade E X r ri b (w1, cv1) = (res1, (w2, cv2))" by (metis prod.exhaust)
  from movesD [OF core_parts(4) ex] cv1 have core: "same_core (w, ?cv0) (w2, cv2)" by (simp add: same_core_def)
  obtain h hs where h: "prependHistory (cvst_History (cv_Status cv)) (?e ?now) = h # hs" "uh_Version h = upd_Version du"
    using prependHistory_head [of _ "?e ?now"] by fastforce
  have run: "(case res1 of
      Ok u \<Rightarrow> andthen (modify_status (\<lambda>s. s\<lparr>cvst_ActualVersion := upd_Version du\<rparr>)) (\<lambda>_.
         andthen (with_obj (\<lambda>cv. when_act (cvst_History (cv_Status cv) \<noteq> [])
           (andthen (on_world (time_Now E)) (\<lambda>now. modify_status (\<lambda>s. s\<lparr>cvst_History := complete_head now (cvst_History s)\<rparr>))))) (\<lambda>_.
         andthen (as_expected E) (\<lambda>_.
         andthen (setCVCondition E ''Failing'' ''False'' ''AsExpected'' []) (\<lambda>_. ret (requeue (5 * minute)))))) (w2, cv2)
    | Err e \<Rightarrow> andthen (setCVCondition E ''Failing'' ''True'' ''UpgradeFailed'' (error_string e)) (\<lambda>_. ret (requeue (60 * second))) (w2, cv2)
    | Panic m \<Rightarrow> (Panic m, (w2, cv2))) = (res, (w', cv'))"
    using assms pre ex by (cases res1) (simp_all add: run_upgrade_def act_simps time_Now_apply)
  have "cvst_ActualVersion (cv_Status cv') = (if res1 = Ok () then upd_Version du else cvst_ActualVersion (cv_Status cv))
      \<and> (res1 = Ok () \<longrightarrow> completed_to (upd_Version du) cv' \<and> res = Ok (requeue (5 * minute)))"
    using run core h
    by (cases res1) (auto simp: act_simps setCVCondition_apply time_Now_apply as_expected_def same_core_def completed_to_def complete_head_def)
  with cv1 l1 ex show ?thesis unfolding same_core_def by (intro exI [of _ w1] exI [of _ cv1] exI [of _ res1] exI [of _ w2] exI [of _ cv2]) simp
qed

lemma emits_grows: "emits A m \<Longrightarrow> m w = (r, w') \<Longrightarrow> prefix (w_log w) (w_log w')"
  by (auto dest: emitsD)

lemma emits_pull_any: "emits (\<lambda>_. True) (pullImage E p img pfx)"
  by (rule emits_mono [OF emits_pullImage]) simp

lemma emits_parse:
  "emits (\<lambda>_. True) (PullAndParseCatalog E f p img)" "emits (\<lambda>_. True) (PullAndParseUpgradePath E g p img)"
  "emits (\<lambda>_. True) (PullAndParseReleaseImage E h p img)"
  unfolding PullAndParseCatalog_def PullAndParseUpgradePath_def PullAndParseReleaseImage_def os_ReadFile_def
  by (intro emits_rules emits_pull_any TrueI)+

lemma emits_sync:
  "emits (\<lambda>_. True) (syncUpgradePath E X r)" "emits (\<lambda>_. True) (syncReleaseCatalog E X r)"
  unfolding syncUpgradePath_def syncReleaseCatalog_def Get_upgradepath_def Get_catalog_def time_Now_def Let_def
  by (intro emits_rules emits_parse TrueI)+

lemma emits_updates: "emits (\<lambda>_. True) (ComputeAvailableUpdates E srt cv)"
  unfolding ComputeAvailableUpdates_def Get_upgradepath_def Get_catalog_def
  by (intro emits_rules TrueI)

lemma emits_release:
  "emits (\<lambda>_. True) (release_image_of E du)" "emits (\<lambda>_. True) (store_release E spec)"
  unfolding release_image_of_def store_release_def Get_catalog_def Get_releaseimage_def Let_def
  by (intro emits_rules TrueI)+

lemma emits_needs: "emits (\<lambda>_. True) (needsAddonUpgrade_loop E ns defs)"
  by (induction defs) (auto simp: Get_clusteraddon_def intro!: emits_rules)

lemma emits_validate:
  "emits (\<lambda>_. True) (validateUpgrade E r cv)" "emits (\<lambda>_. True) (preUpgradeHealthCheck E)"
  unfolding validateUpgrade_def preUpgradeHealthCheck_def ValidateUpgradePath_def check_blocked_def Get_upgradepath_def List_nodes_def Let_def
  by (intro emits_rules TrueI)+

lemmas cv_grows = emits_sync [THEN emits_grows] emits_updates [THEN emits_grows] emits_release [THEN emits_grows]
  emits_parse [THEN emits_grows] emits_needs [THEN emits_grows] emits_validate [THEN emits_grows]

lemma log_parts:
  "moves log_grows (computeAvailableUpdates E X r)" "moves log_grows (fetchReleaseImage E X r)"
  unfolding fetch_defs
  by (intro log_rel.moves_rules; simp add: log_grows_def cv_grows time_Now_apply)+

lemma validate_Ok:
  assumes "cvs_DesiredUpdate (cv_Spec cv) = Some du" and "cvst_ActualVersion (cv_Status cv) \<noteq> upd_Version du"
    and "ValidateUpgradePath E cv w = (Ok (), w')"
  shows "upd_Version du = [] \<or> (\<exists>path. k_get_upgradepath (kube E) (w_log w) ''global'' = Inr path
    \<and> path_allows (upath_Spec path) (cvst_ActualVersion (cv_Status cv)) (upd_Version du) (upd_Force du))"
proof (cases "k_get_upgradepath (kube E) (w_log w) ''global''")
  case (Inl e)
  with assms show ?thesis by (auto simp: ValidateUpgradePath_def Get_upgradepath_def query_def act_simps split: if_splits)
next
  case (Inr path)
  have blocked: "\<forall>b\<in>set bs. \<not> block_matches f t b" if "check_blocked bs f t w1 = (Ok (), w2)" for bs f t w1 w2
    using that check_blocked_Ok [of bs f t w1] by simp
  from Inr assms show ?thesis
    by (auto simp: ValidateUpgradePath_def Get_upgradepath_def query_def act_simps path_allows_def Let_def
        dest!: blocked split: option.splits if_splits)
qed

lemma health_Ok:
  assumes "preUpgradeHealthCheck E w = (Ok (), w')"
  shows "\<exists>nodes. k_list_nodes (kube E) (w_log w) [] = Inr nodes \<and> (\<forall>n\<in>set nodes. node_ready n)"
  using assms
  by (auto simp: preUpgradeHealthCheck_def List_nodes_def query_def act_simps for_each_guard find_None_conv
      split: sum.splits option.splits)

text \<open>What has been checked when the upgrade of Kubernetes is run.\<close>

definition upgrade_checked :: "env \<Rightarrow> ClusterVersion \<Rightarrow> Update \<Rightarrow> log \<Rightarrow> bool" where
  "upgrade_checked E cv du l0 \<longleftrightarrow>
     (upd_Version du = [] \<or> (\<exists>l path. prefix l0 l \<and> k_get_upgradepath (kube E) l ''global'' = Inr path
        \<and> path_allows (upath_Spec path) (cvst_ActualVersion (cv_Status cv)) (upd_Version du) (upd_Force du)))
     \<and> (\<exists>l nodes. prefix l0 l \<and> k_list_nodes (kube E) l [] = Inr nodes \<and> (\<forall>n\<in>set nodes. node_ready n))"

lemma refuse_core: "refuse E reason e (w, cv) = (res, (w', cv')) \<Longrightarrow> same_core (w, cv) (w', cv')"
  by (auto simp: refuse_def act_simps setCVCondition_apply same_core_def)

text \<open>A release image that was pulled and parsed.\<close>

definition fetched :: "cvo_env \<Rightarrow> ClusterVersionReconciler \<Rightarrow> ReleaseImage \<Rightarrow> bool" where
  "fetched X r ri \<longleftrightarrow> cvr_Puller r \<noteq> None \<and> (\<exists>data. x_parse_release X data = Inr (ri_Spec ri))"

lemma store_release_Ok: "store_release E spec w = (Ok ri, w') \<Longrightarrow> ri_Spec ri = spec"
  by (auto simp: store_release_def act_simps Let_def split: prod.splits res.splits sum.splits if_splits)

lemma PullAndParseReleaseImage_Ok: "PullAndParseReleaseImage E f p img w = (Ok spec, w') \<Longrightarrow> \<exists>data. f data = Inr spec"
  by (auto simp: PullAndParseReleaseImage_def act_simps split: prod.splits res.splits sum.splits)

lemma fetchReleaseImage_Ok:
  assumes "fetchReleaseImage E X r (w, cv) = (Ok ri, (w', cv'))"
  shows "fetched X r ri"
  using assms
  by (auto simp: fetchReleaseImage_def fetched_def act_simps split: option.splits prod.splits res.splits
      dest!: store_release_Ok PullAndParseReleaseImage_Ok)

lemma reconcile_desired_change:
  assumes du: "cvs_DesiredUpdate (cv_Spec cv) = Some du" and run: "reconcile_desired E X r du (w, cv) = (res, (w', cv'))"
    and change: "cvst_ActualVersion (cv_Status cv') \<noteq> cvst_ActualVersion (cv_Status cv)"
  shows "upgrade_checked E cv du (w_log w) \<and> completed_to (upd_Version du) cv' \<and> cvst_ActualVersion (cv_Status cv') = upd_Version du \<and> res = Ok (requeue (5 * minute))
    \<and> (\<exists>ri w1 cv1 w2 cv2. fetched X r ri \<and> executeUpgrade E X r ri True (w1, cv1) = (Ok (), (w2, cv2)) \<and> m_Namespace (cv_Meta cv1) = m_Namespace (cv_Meta cv)
        \<and> prefix (w_log w) (w_log w1))"
proof -
  let ?needs = "cvst_ActualVersion (cv_Status cv) \<noteq> upd_Version du"
  obtain got w1 cv1 where f: "fetchReleaseImage E X r (w, cv) = (got, (w1, cv1))" by (metis prod.exhaust)
  from movesD [OF core_parts(2) f] movesD [OF log_parts(2) f]
  have c1: "same_core (w, cv) (w1, cv1)" and l1: "prefix (w_log w) (w_log w1)" by (simp_all add: log_grows_def)
  show ?thesis
  proof (cases got)
    case (Ok ri)
    obtain n w2 where n: "needsAddonUpgrade E cv1 ri w1 = (n, w2)" by fastforce
    have l2: "prefix (w_log w) (w_log w2)" using l1 cv_grows n unfolding needsAddonUpgrade_def by (meson prefix_order.trans)
    show ?thesis
    proof (cases "\<exists>nd. n = Ok nd")
      case False
      with run f Ok n c1 change show ?thesis
        by (cases n) (auto simp: reconcile_desired_def Let_def act_simps same_core_def)
    next
      case True
      then obtain nd where nd: "n = Ok nd" by blast
      show ?thesis
      proof (cases ?needs)
        case False
        with run f Ok n nd have "nd \<and> run_upgrade E X r du ri False (w2, cv1) = (res, (w', cv')) \<or> \<not> nd \<and> cvst_ActualVersion (cv_Status cv') = cvst_ActualVersion (cv_Status cv1)"
          by (cases nd) (auto simp: reconcile_desired_def Let_def act_simps as_expected_def setCVCondition_apply)
        with run_upgrade_outcome [of E X r du ri False w2 cv1 res w' cv'] change False c1 show ?thesis
          by (fastforce simp: same_core_def split: if_splits)
      next
        case needs: True
        obtain v w3 where v: "validateUpgrade E r cv1 w2 = (v, w3)" by fastforce
        obtain h w4 where h: "preUpgradeHealthCheck E w3 = (h, w4)" by fastforce
        let ?cv2 = "snd (snd (setCVCondition E ''Upgradeable'' ''True'' ''PreconditionsPassed'' ''All preconditions passed'' (w4, cv1)))"
        let ?w5 = "w4\<lparr>w_log := w_log w4 @ [EvNow]\<rparr>"
        have l3: "prefix (w_log w) (w_log w3)" using l2 cv_grows v by (meson prefix_order.trans)
        have l4: "prefix (w_log w) (w_log w4)" using l3 cv_grows h by (meson prefix_order.trans)
        from run f Ok n nd needs v h change c1 refuse_core
        have "v = Ok () \<and> h = Ok () \<and> run_upgrade E X r du ri True (?w5, ?cv2) = (res, (w', cv'))"
          by (cases v; cases h) (auto simp: reconcile_desired_def Let_def act_simps setCVCondition_apply same_core_def)
        then have vh: "v = Ok ()" "h = Ok ()" and ru: "run_upgrade E X r du ri True (?w5, ?cv2) = (res, (w', cv'))" by blast+
        have c2: "same_core (w, cv) (?w5, ?cv2)" using c1 by (simp add: setCVCondition_apply same_core_def)
        have fetched: "fetched X r ri" using f Ok by (blast intro: fetchReleaseImage_Ok)
        then have "cvr_Puller r \<noteq> None" by (simp add: fetched_def)
        with v vh have "ValidateUpgradePath E cv1 w2 = (Ok (), w3)" by (auto simp: validateUpgrade_def)
        with validate_Ok [of cv1 du E w2 w3] c1 du needs health_Ok [of E w3 w4] h vh l2 l3
        have chk: "upgrade_checked E cv du (w_log w)" by (fastforce simp: upgrade_checked_def same_core_def)
        have l5: "prefix (w_log w) (w_log ?w5)" using l4 by auto
        from run_upgrade_outcome [OF ru] obtain w6 cv6 res1 w7 cv7
          where o: "prefix (w_log ?w5) (w_log w6)" "m_Namespace (cv_Meta cv6) = m_Namespace (cv_Meta ?cv2)"
            "executeUpgrade E X r ri True (w6, cv6) = (res1, (w7, cv7))"
            "cvst_ActualVersion (cv_Status cv') = (if res1 = Ok () then upd_Version du else cvst_ActualVersion (cv_Status ?cv2))"
            "res1 = Ok () \<longrightarrow> completed_to (upd_Version du) cv' \<and> res = Ok (requeue (5 * minute))" by blast
        have "cvst_ActualVersion (cv_Status ?cv2) = cvst_ActualVersion (cv_Status cv)"
          and ns: "m_Namespace (cv_Meta ?cv2) = m_Namespace (cv_Meta cv)" using c2 by (simp_all add: same_core_def)
        with o(4) change have "res1 = Ok ()" by presburger
        moreover have "prefix (w_log w) (w_log w6)" using l5 o(1) by (rule prefix_order.trans)
        moreover have "m_Namespace (cv_Meta cv6) = m_Namespace (cv_Meta cv)" using o(2) ns by simp
        ultimately have "executeUpgrade E X r ri True (w6, cv6) = (Ok (), (w7, cv7)) \<and> m_Namespace (cv_Meta cv6) = m_Namespace (cv_Meta cv)
            \<and> prefix (w_log w) (w_log w6)" and "completed_to (upd_Version du) cv'" and "cvst_ActualVersion (cv_Status cv') = upd_Version du"
            and "res = Ok (requeue (5 * minute))"
          using o(3-5) by simp_all
        with chk fetched show ?thesis by blast
      qed
    qed
  next
    case (Err e)
    with run f c1 change show ?thesis by (auto simp: reconcile_desired_def act_simps setCVCondition_apply same_core_def Let_def)
  next
    case (Panic m)
    with run f c1 change show ?thesis by (auto simp: reconcile_desired_def act_simps same_core_def Let_def)
  qed
qed

lemma reconcile_change:
  assumes run: "reconcile_body E X r (w, cv) = (res, (w', cv'))"
    and change: "cvst_ActualVersion (cv_Status cv') \<noteq> cvst_ActualVersion (cv_Status cv)"
  shows "\<exists>du. cvs_DesiredUpdate (cv_Spec cv) = Some du \<and> \<not> cvs_Paused (cv_Spec cv) \<and> m_DeletionTimestamp (cv_Meta cv) = None
    \<and> upgrade_checked E cv du (w_log w) \<and> completed_to (upd_Version du) cv' \<and> cvst_ActualVersion (cv_Status cv') = upd_Version du \<and> res = Ok (requeue (5 * minute))
    \<and> (\<exists>ri w1 cv1 w2 cv2. fetched X r ri \<and> executeUpgrade E X r ri True (w1, cv1) = (Ok (), (w2, cv2)) \<and> m_Namespace (cv_Meta cv1) = m_Namespace (cv_Meta cv)
        \<and> prefix (w_log w) (w_log w1))"
proof -
  have del: "m_DeletionTimestamp (cv_Meta cv) = None"
  proof (rule ccontr)
    assume "m_DeletionTimestamp (cv_Meta cv) \<noteq> None"
    with run change show False
      by (auto simp: reconcile_body_def reconcileDelete_def act_simps api_write_def command_def query_def split: prod.splits res.splits sum.splits option.splits)
  qed
  let ?cv0 = "cv\<lparr>cv_Meta := AddFinalizer ClusterVersionFinalizer (cv_Meta cv)\<rparr>"
  have paused: "\<not> cvs_Paused (cv_Spec cv)"
  proof
    assume "cvs_Paused (cv_Spec cv)"
    with run change del show False by (auto simp: reconcile_body_def act_simps setCVCondition_apply)
  qed
  obtain s1 w1 where s1: "syncUpgradePath E X r w = (s1, w1)" by fastforce
  obtain s2 w2 where s2: "syncReleaseCatalog E X r w1 = (s2, w2)" by fastforce
  obtain s3 w3 cv3 where s3: "computeAvailableUpdates E X r (w2, ?cv0) = (s3, (w3, cv3))" by (metis prod.exhaust)
  have c3: "same_core (w, cv) (w3, cv3)" using movesD [OF core_parts(3) s3] by (simp add: same_core_def)
  have l3: "prefix (w_log w) (w_log w3)"
    using cv_grows(1) [OF s1] cv_grows(2) [OF s2] movesD [OF log_parts(1) s3]
    by (auto simp: log_grows_def intro: prefix_order.trans)
  show ?thesis
  proof (cases "cvs_DesiredUpdate (cv_Spec cv)")
    case None
    with run change del paused s1 s2 s3 c3 show ?thesis
      by (cases s1; cases s2; cases s3) (auto simp: reconcile_body_def act_simps as_expected_def setCVCondition_apply same_core_def)
  next
    case (Some du)
    with run change del paused s1 s2 s3 c3
    have d: "reconcile_desired E X r du (w3, cv3) = (res, (w', cv'))"
      by (cases s1; cases s2; cases s3) (auto simp: reconcile_body_def act_simps same_core_def)
    from c3 change Some have du: "cvs_DesiredUpdate (cv_Spec cv3) = Some du"
      and ch: "cvst_ActualVersion (cv_Status cv') \<noteq> cvst_ActualVersion (cv_Status cv3)" by (simp_all add: same_core_def)
    from reconcile_desired_change [OF du d ch] c3 l3 Some paused del show ?thesis
      unfolding upgrade_checked_def same_core_def by simp (blast intro: prefix_order.trans)
  qed
qed

text \<open>
  (C1) The actual version changes only by a checked upgrade. If a round of the controller
  changes it, the object is neither paused nor being deleted, the new version is the desired
  one and the newest history entry records it as completed; in this round the upgrade path
  was read and allows the step (unless the desired version is the empty string, which
  validation lets through), and all nodes were listed and ready.
\<close>

theorem actual_version_change:
  assumes "reconcile_body E X r (w, cv) = (res, (w', cv'))"
    and "cvst_ActualVersion (cv_Status cv') \<noteq> cvst_ActualVersion (cv_Status cv)"
  shows "\<exists>du. cvs_DesiredUpdate (cv_Spec cv) = Some du \<and> \<not> cvs_Paused (cv_Spec cv) \<and> m_DeletionTimestamp (cv_Meta cv) = None
    \<and> upgrade_checked E cv du (w_log w) \<and> completed_to (upd_Version du) cv' \<and> cvst_ActualVersion (cv_Status cv') = upd_Version du"
  using reconcile_change [OF assms] by blast

end
