(* ===== verification/Cluster_Round.thy ===== *)
theory Cluster_Round
  imports Cluster_Version
begin

text \<open>
  Further properties of a round of the ClusterVersion controller, over the model of
  \<open>Cluster_Version\<close>: which addons a successful upgrade leaves behind, that failures are
  reported, that a paused object is left alone, and a concrete round that takes a cluster from
  one version to the next.
\<close>

section \<open>Addons\<close>

lemma for_each_Ok:
  "for_each xs f w = (Ok u, w') \<Longrightarrow> x \<in> set xs \<Longrightarrow> \<exists>w1 w2. f x w1 = (Ok (), w2)"
  by (induction xs arbitrary: w) (fastforce simp: act_simps split: prod.splits res.splits)+

text \<open>\<open>addon_current E ns d\<close>: the API server reported the addon at the version of its definition \<open>d\<close> (or \<open>d\<close> has none).\<close>

definition addon_current :: "env \<Rightarrow> string \<Rightarrow> AddonDefinition \<Rightarrow> bool" where
  "addon_current E ns d \<longleftrightarrow> ad_Version d = []
     \<or> (\<exists>l ca. k_get_clusteraddon (kube E) l ns (ad_Name d) = Inr ca \<and> cast_Version (ca_Status ca) = ad_Version d)"

lemma findAddon_name: "findAddon as n = Some d \<Longrightarrow> ad_Name d = n"
  by (induction as) (auto split: if_splits)

lemma findAddon_exists: "a \<in> set as \<Longrightarrow> \<exists>d. findAddon as (ad_Name a) = Some d"
  by (induction as) auto

lemma ensure_addon_Ok:
  assumes "ensure_addon E cv ri n d w = (Ok ca, w')"
  shows "(\<exists>l. k_get_clusteraddon (kube E) l (m_Namespace (cv_Meta cv)) n = Inr ca) \<or> cast_Version (ca_Status ca) = []"
proof (cases "k_get_clusteraddon (kube E) (w_log w) (m_Namespace (cv_Meta cv)) n")
  case (Inl e)
  with assms show ?thesis
    by (auto simp: ensure_addon_def Get_clusteraddon_def query_def act_simps fresh_addon_def zero_ClusterAddon_def
        zero_ClusterAddonStatus_def split: if_splits prod.splits res.splits)
next
  case (Inr ca')
  with assms show ?thesis by (auto simp: ensure_addon_def Get_clusteraddon_def query_def act_simps)
qed

lemma upgrade_addon_Ok:
  assumes "upgrade_addon E C (NewUpgrader [] ns) cv ri cur n w = (Ok u, w')" and "findAddonDefByName ri n = Some d"
  shows "addon_current E (m_Namespace (cv_Meta cv)) d"
proof -
  have never: "Upgrade E C (NewUpgrader [] ns) ca cur ri w1 \<noteq> (Ok x, w2)" for ca w1 x w2
    by (rule never_okD [OF Upgrade_never]) (simp add: performUpgrade_no_server NewUpgrader_def)
  obtain r w1 where e: "ensure_addon E cv ri n d w = (r, w1)" by fastforce
  from assms e obtain ca where ca: "r = Ok ca" by (cases r) (auto simp: upgrade_addon_def act_simps)
  obtain r2 w2 where up: "Upgrade E C (NewUpgrader [] ns) ca cur ri w1 = (r2, w2)" by fastforce
  with never have "r2 \<noteq> Ok x" for x by (metis)
  with assms e ca up have "cast_Version (ca_Status ca) = ad_Version d"
    by (cases r2) (auto simp: upgrade_addon_def act_simps split: if_splits)
  moreover have "ad_Name d = n" using assms(2) findAddon_name by (simp add: findAddonDefByName_def)
  ultimately show ?thesis using ensure_addon_Ok [OF e [unfolded ca]] by (auto simp: addon_current_def)
qed

lemma executeAddonUpgrades_current:
  assumes "range_ok E" and "executeAddonUpgrades E C cv ri w = (Ok u, w')" and "a \<in> set (ris_Addons (ri_Spec ri))"
  shows "\<exists>d. findAddonDefByName ri (ad_Name a) = Some d \<and> addon_current E (m_Namespace (cv_Meta cv)) d"
proof -
  let ?g = "buildAddonDependencyGraph ri"
  have "mset (h_range (host E) (w_log w) (map fst ?g)) = mset (map fst ?g)" using assms(1) by (simp add: range_ok_def ranges_keys_def)
  then have "set (h_range (host E) (w_log w) (map fst ?g)) = fst ` set ?g" by (metis mset_eq_setD list.set_map)
  then obtain ord w1 where ord: "range_map E (map fst ?g) w = (Ok ord, w1)" "set ord = fst ` set ?g"
    by (simp add: range_map_def)
  from assms(2) ord(1) obtain cur w2 where
    run: "for_each (topologicalSortAddons ord ?g) (upgrade_addon E C (NewUpgrader [] (m_Namespace (cv_Meta cv))) cv ri cur) w2 = (Ok u, w')"
    by (auto simp: executeAddonUpgrades_def Let_def act_simps split: prod.splits res.splits)
  have "ad_Name a \<in> set (topologicalSortAddons ord ?g)"
    using addon_sort.sort_keys [OF ord(2)] assms(3) by (auto simp: buildAddonDependencyGraph_keys)
  from for_each_Ok [OF run this] obtain w3 w4 where
    "upgrade_addon E C (NewUpgrader [] (m_Namespace (cv_Meta cv))) cv ri cur (ad_Name a) w3 = (Ok (), w4)" by blast
  with upgrade_addon_Ok findAddon_exists [OF assms(3)] show ?thesis
    by (fastforce simp: findAddonDefByName_def)
qed

section \<open>A concrete round\<close>

definition ex_cvo :: cvo_env where
  "ex_cvo = \<lparr>x_codec = ex_codec, x_parse_catalog = (\<lambda>_. Inr (rcat_Status ex_catalog)), x_parse_path = (\<lambda>_. Inr (upath_Spec ex_path)),
     x_parse_release = (\<lambda>_. Inr (zero_ReleaseImageSpec\<lparr>ris_Version := ''v1.1'', ris_Image := ''b''\<rparr>)),
     x_sort_phases = sort_key up_Order, x_sort_releases = sort_key rel_Version,
     x_get_cv = (\<lambda>l ns n. Inr ex_cv), x_patch_helper = (\<lambda>cv. None)\<rparr>"

definition ex_reconciler :: ClusterVersionReconciler where
  "ex_reconciler = \<lparr>cvr_Puller = Some (NewOCIPuller [])\<rparr>"

lemmas ex_round_defs = ex_path_env_def ex_cvo_def quiet_defs ex_reconciler_def

abbreviation ex_spec :: ReleaseImageSpec where
  "ex_spec \<equiv> zero_ReleaseImageSpec\<lparr>ris_Version := ''v1.1'', ris_Image := ''b''\<rparr>"

lemma ex_sync:
  "\<exists>w'. syncUpgradePath ex_path_env ex_cvo ex_reconciler w = (Ok (), w')"
  "\<exists>w'. syncReleaseCatalog ex_path_env ex_cvo ex_reconciler w = (Ok (), w')"
  "\<exists>w'. PullAndParseReleaseImage ex_path_env (x_parse_release ex_cvo) p img w = (Ok ex_spec, w')"
  "\<exists>w'. release_image_of ex_path_env \<lparr>upd_Version = ''v1.1'', upd_Image = [], upd_Force = False\<rparr> w = (Ok ''b'', w')"
  "\<exists>ri w'. store_release ex_path_env ex_spec w = (Ok ri, w') \<and> ri_Spec ri = ex_spec"
  by (simp_all add: syncUpgradePath_def syncReleaseCatalog_def PullAndParseUpgradePath_def PullAndParseCatalog_def PullAndParseReleaseImage_def
    pullImage_def os_Stat_dir_def command_def query_def act_simps Let_def Get_upgradepath_def Get_catalog_def ex_round_defs state_defs
    os_ReadFile_def api_write_def time_Now_apply release_image_of_def store_release_def Get_releaseimage_def not_found_def IsNotFound_def ex_catalog_def zero_defs)

lemma ex_fetch:
  assumes "cv_Spec cv = cv_Spec ex_cv"
  shows "\<exists>ri w' cv'. fetchReleaseImage ex_path_env ex_cvo ex_reconciler (w, cv) = (Ok ri, (w', cv')) \<and> ri_Spec ri = ex_spec"
proof -
  obtain w1 where 1: "release_image_of ex_path_env \<lparr>upd_Version = ''v1.1'', upd_Image = [], upd_Force = False\<rparr> w = (Ok ''b'', w1)" using ex_sync by blast
  obtain w2 where 2: "PullAndParseReleaseImage ex_path_env (x_parse_release ex_cvo) (NewOCIPuller []) ''b'' w1 = (Ok ex_spec, w2)" using ex_sync by blast
  obtain ri w3 where 3: "store_release ex_path_env ex_spec w2 = (Ok ri, w3)" "ri_Spec ri = ex_spec" using ex_sync by blast
  show ?thesis
    using 1 2 3 assms by (simp add: fetchReleaseImage_def act_simps ex_cv_def zero_ClusterVersion_def ex_reconciler_def)
qed

lemma ex_validate:
  assumes "cv_Spec cv = cv_Spec ex_cv" "cvst_ActualVersion (cv_Status cv) = ''v1.0''"
  shows "\<exists>w'. validateUpgrade ex_path_env ex_reconciler cv w = (Ok (), w')"
  using assms
  by (simp add: validateUpgrade_def ex_reconciler_def ValidateUpgradePath_def ex_cv_def zero_defs Get_upgradepath_def query_def
     ex_path_env_def act_simps ex_path_def edge_matches_def matchVersion_def check_blocked_def)

lemma ex_execute_upgrade:
  assumes "ri_Spec ri = ex_spec"
  shows "\<exists>w' cv'. executeUpgrade ex_path_env ex_cvo ex_reconciler ri True (w, cv) = (Ok (), (w', cv'))"
  using assms
  by (simp add: executeUpgrade_def ex_reconciler_def act_simps ExecuteUpgradeGraph_def zero_ReleaseImageSpec_def ex_cvo_def
    executeAddonUpgrades_def Let_def buildAddonDependencyGraph_def range_map_def Get_releaseimage_def query_def ex_path_env_def
    quiet_defs topologicalSortAddons_def topo_init_def updateAddonStatus_def not_found_def)

lemma ex_run:
  assumes "ri_Spec ri = ex_spec"
  shows "\<exists>w' cv'. run_upgrade ex_path_env ex_cvo ex_reconciler \<lparr>upd_Version = ''v1.1'', upd_Image = [], upd_Force = False\<rparr> ri True (w, cv)
    = (Ok (requeue (5 * minute)), (w', cv')) \<and> cvst_ActualVersion (cv_Status cv') = ''v1.1''"
proof -
  obtain w1 cv1 where pre: "andthen (on_world (time_Now ex_path_env)) (\<lambda>started.
     andthen (modify_status (\<lambda>s. s\<lparr>cvst_History := prependHistory (cvst_History s)
        \<lparr>uh_State = PartialUpdate, uh_Version = ''v1.1'', uh_Image = ris_Image (ri_Spec ri), uh_Verified = True,
         uh_StartedTime = started, uh_CompletionTime = None\<rparr>\<rparr>)) (\<lambda>_.
     setCVCondition ex_path_env ''Progressing'' ''True'' ''Upgrading'' (''Upgrading to '' @ ''v1.1''))) (w, cv) = (Ok (), (w1, cv1))"
    by (simp add: act_simps time_Now_apply setCVCondition_apply)
  obtain w2 cv2 where ex: "executeUpgrade ex_path_env ex_cvo ex_reconciler ri True (w1, cv1) = (Ok (), (w2, cv2))" using ex_execute_upgrade [OF assms] by blast
  show ?thesis
    using pre ex by (cases "cvst_History (cv_Status cv2) = []") (auto simp: run_upgrade_def act_simps time_Now_apply setCVCondition_apply as_expected_def)
qed

lemma ex_desired:
  assumes "cv_Spec cv = cv_Spec ex_cv" "cvst_ActualVersion (cv_Status cv) = ''v1.0''"
  shows "\<exists>w' cv'. reconcile_desired ex_path_env ex_cvo ex_reconciler \<lparr>upd_Version = ''v1.1'', upd_Image = [], upd_Force = False\<rparr>
    (w, cv) = (Ok (requeue (5 * minute)), (w', cv')) \<and> cvst_ActualVersion (cv_Status cv') = ''v1.1''"
proof -
  obtain ri w1 cv1 where f: "fetchReleaseImage ex_path_env ex_cvo ex_reconciler (w, cv) = (Ok ri, (w1, cv1))" "ri_Spec ri = ex_spec"
    using ex_fetch [OF assms(1)] by blast
  have core: "cv_Spec cv1 = cv_Spec ex_cv" "cvst_ActualVersion (cv_Status cv1) = ''v1.0''"
    using movesD [OF core_parts(2) f(1)] assms by (simp_all add: same_core_def)
  obtain w2 where v: "validateUpgrade ex_path_env ex_reconciler cv1 w1 = (Ok (), w2)" using ex_validate [OF core] by blast
  obtain w3 where h: "preUpgradeHealthCheck ex_path_env w2 = (Ok (), w3)"
    by (simp add: preUpgradeHealthCheck_def List_nodes_def query_def act_simps ex_path_env_def quiet_defs)
  have n: "needsAddonUpgrade ex_path_env cv1 ri w1 = (Ok False, w1)"
    using f(2) by (simp add: needsAddonUpgrade_def zero_ReleaseImageSpec_def act_simps)
  show ?thesis
    using ex_run [OF f(2)] by (simp add: reconcile_desired_def Let_def act_simps f n v h assms setCVCondition_apply)
qed

lemma ex_round:
  "\<exists>w' cv'. reconcile_body ex_path_env ex_cvo ex_reconciler (empty_world, ex_cv) = (Ok (requeue (5 * minute)), (w', cv'))
     \<and> cvst_ActualVersion (cv_Status cv') = ''v1.1''"
proof -
  let ?cv = "ex_cv\<lparr>cv_Meta := AddFinalizer ClusterVersionFinalizer (cv_Meta ex_cv)\<rparr>"
  obtain w1 where 1: "syncUpgradePath ex_path_env ex_cvo ex_reconciler empty_world = (Ok (), w1)" using ex_sync by blast
  obtain w2 where 2: "syncReleaseCatalog ex_path_env ex_cvo ex_reconciler w1 = (Ok (), w2)" using ex_sync by blast
  obtain w3 cv3 where 3: "computeAvailableUpdates ex_path_env ex_cvo ex_reconciler (w2, ?cv) = (Ok (), (w3, cv3))"
    by (simp add: computeAvailableUpdates_def ex_reconciler_def act_simps ComputeAvailableUpdates_def Get_upgradepath_def
        Get_catalog_def query_def ex_path_env_def setCVCondition_apply)
  have core: "cv_Spec cv3 = cv_Spec ex_cv" "cvst_ActualVersion (cv_Status cv3) = ''v1.0''"
    using movesD [OF core_parts(3) 3] by (simp_all add: same_core_def ex_cv_def zero_defs)
  have cv: "\<not> cvs_Paused (cv_Spec ex_cv)" "m_DeletionTimestamp (cv_Meta ex_cv) = None"
      "cvs_DesiredUpdate (cv_Spec ex_cv) = Some \<lparr>upd_Version = ''v1.1'', upd_Image = [], upd_Force = False\<rparr>"
    by (simp_all add: ex_cv_def zero_defs)
  show ?thesis using ex_desired [OF core] by (simp add: reconcile_body_def act_simps 1 2 3 cv)
qed

theorem status_invariant_witness:
  "\<exists>w' cv'. reconcile_body ex_path_env ex_cvo ex_reconciler (empty_world, ex_cv) = (Ok (requeue (5 * minute)), (w', cv'))
     \<and> cv_Spec cv' = cv_Spec ex_cv \<and> distinct (map cond_Type (cvst_Conditions (cv_Status cv')))"
proof -
  obtain w' cv' where run: "reconcile_body ex_path_env ex_cvo ex_reconciler (empty_world, ex_cv) = (Ok (requeue (5 * minute)), (w', cv'))"
    using ex_round by blast
  from reconcile_status_invariant [OF _ this] run show ?thesis by (simp add: ex_cv_def zero_defs)
qed

theorem version_change_witness:
  "\<exists>w' cv'. reconcile_body ex_path_env ex_cvo ex_reconciler (empty_world, ex_cv) = (Ok (requeue (5 * minute)), (w', cv'))
     \<and> cvst_ActualVersion (cv_Status cv') = ''v1.1'' \<and> completed_to ''v1.1'' cv'"
proof -
  obtain w' cv' where run: "reconcile_body ex_path_env ex_cvo ex_reconciler (empty_world, ex_cv) = (Ok (requeue (5 * minute)), (w', cv'))"
    and new: "cvst_ActualVersion (cv_Status cv') = ''v1.1''" using ex_round by blast
  from actual_version_change [OF run] new have "completed_to ''v1.1'' cv'" by (auto simp: ex_cv_def zero_defs)
  with run new show ?thesis by blast
qed

text \<open>
  A paused object is left alone: the round reads the clock for its condition, patches the
  object and asks for a new round in 30 seconds; nothing else happens, no image is pulled, no
  node touched.
\<close>

theorem paused_does_nothing:
  assumes "x_get_cv X (w_log w) ns name = Inr cv" and "x_patch_helper X cv = None"
    and "cvs_Paused (cv_Spec cv)" and "m_DeletionTimestamp (cv_Meta cv) = None"
  shows "\<exists>cv'. cv_Reconcile E X r ns name w
    = (Ok (requeue (30 * second)), w\<lparr>w_log := w_log w @ [EvGet ''ClusterVersion'' ns name, EvNow, EvPatch (KClusterVersion cv')]\<rparr>)
    \<and> cv_Spec cv' = cv_Spec cv \<and> cvst_ActualVersion (cv_Status cv') = cvst_ActualVersion (cv_Status cv)
    \<and> cvst_History (cv_Status cv') = cvst_History (cv_Status cv)"
proof -
  let ?now = "h_now (host E) (w_log w @ [EvGet ''ClusterVersion'' ns name])"
  let ?cv = "cv\<lparr>cv_Meta := AddFinalizer ClusterVersionFinalizer (cv_Meta cv), cv_Status := (cv_Status cv)\<lparr>cvst_Conditions :=
    put_condition \<lparr>cond_Type = ''Paused'', cond_Status = ''True'', cond_Reason = ''UpgradePaused'', cond_Message = ''Upgrade is paused'',
      cond_LastTransitionTime = ?now\<rparr> (cvst_Conditions (cv_Status cv))\<rparr>\<rparr>"
  show ?thesis
    by (rule exI [of _ ?cv], simp add: assms cv_Reconcile_def query_def act_simps reconcile_body_def setCVCondition_apply)
       (simp add: patch_cv_def api_write_def command_def query_def act_simps split: option.split)
qed

theorem paused_witness:
  "\<exists>cv'. cv_Reconcile quiet_env (ex_cvo\<lparr>x_get_cv := (\<lambda>l ns n. Inr (ex_cv\<lparr>cv_Spec := (cv_Spec ex_cv)\<lparr>cvs_Paused := True\<rparr>\<rparr>))\<rparr>) ex_reconciler ''ns'' ''cv'' empty_world
    = (Ok (requeue (30 * second)), empty_world\<lparr>w_log := [EvGet ''ClusterVersion'' ''ns'' ''cv'', EvNow, EvPatch (KClusterVersion cv')]\<rparr>)"
  using paused_does_nothing [of "ex_cvo\<lparr>x_get_cv := (\<lambda>l ns n. Inr (ex_cv\<lparr>cv_Spec := (cv_Spec ex_cv)\<lparr>cvs_Paused := True\<rparr>\<rparr>))\<rparr>"
      empty_world "''ns''" "''cv''" "ex_cv\<lparr>cv_Spec := (cv_Spec ex_cv)\<lparr>cvs_Paused := True\<rparr>\<rparr>" quiet_env ex_reconciler]
  by (fastforce simp: ex_cvo_def ex_cv_def zero_defs empty_world_def)
section \<open>Failures are reported\<close>

text \<open>\<open>reports m\<close>: if \<open>m\<close> asks for another round after 60 seconds, the object says that it is failing.\<close>

definition failing :: "ClusterVersion \<Rightarrow> bool" where
  "failing cv \<longleftrightarrow> (\<exists>c\<in>set (cvst_Conditions (cv_Status cv)). cond_Type c = ''Failing'' \<and> cond_Status c = ''True'')"

definition reports :: "ctrl_result cvact \<Rightarrow> bool" where
  "reports m \<longleftrightarrow> (\<forall>s s'. m s = (Ok (requeue (60 * second)), s') \<longrightarrow> failing (snd s'))"

lemma put_condition_in [simp]: "c \<in> set (put_condition c cs)"
  by (induction cs) auto

lemma failing_put [simp]:
  "failing (cv\<lparr>cv_Status := s\<lparr>cvst_Conditions := put_condition
     \<lparr>cond_Type = ''Failing'', cond_Status = ''True'', cond_Reason = r, cond_Message = m, cond_LastTransitionTime = t\<rparr> cs\<rparr>\<rparr>)"
  unfolding failing_def by simp (rule bexI [OF _ put_condition_in], simp)

lemma put_condition_other: "d \<in> set cs \<Longrightarrow> cond_Type d \<noteq> cond_Type c \<Longrightarrow> d \<in> set (put_condition c cs)"
  by (induction cs) auto

lemma reports_ret: "d \<noteq> 60 * second \<Longrightarrow> reports (ret (requeue d))"
  by (auto simp: reports_def ret_apply)

lemma reports_attempt: "(\<And>r. reports (k r)) \<Longrightarrow> reports (attempt m k)"
  by (auto simp: reports_def attempt_apply split: prod.splits res.splits)

lemma reports_check: "(\<And>x. reports (k x)) \<Longrightarrow> reports (andthen m k)"
  by (auto simp: reports_def check_apply split: prod.splits res.splits)

lemma reports_with_obj: "(\<And>cv. reports (k cv)) \<Longrightarrow> reports (with_obj k)"
  by (auto simp: reports_def with_obj_def)

lemma reports_if: "reports m \<Longrightarrow> reports m' \<Longrightarrow> reports (if b then m else m')"
  by simp

lemma reports_sum: "(\<And>e. reports (f e)) \<Longrightarrow> (\<And>x. reports (g x)) \<Longrightarrow> reports (case r of Inl e \<Rightarrow> f e | Inr x \<Rightarrow> g x)"
  by (cases r) simp_all

lemma reports_option: "reports m \<Longrightarrow> (\<And>x. reports (g x)) \<Longrightarrow> reports (case r of None \<Rightarrow> m | Some x \<Rightarrow> g x)"
  by (cases r) simp_all

lemma reports_failing:
  "reports (andthen (setCVCondition E ''Failing'' ''True'' reason msg) (\<lambda>_. ret (requeue d)))"
  by (auto simp: reports_def act_simps setCVCondition_apply)

lemma reports_refuse: "reports (refuse E reason e)"
proof -
  have keeps: "failing (snd (snd (setCVCondition E ''Upgradeable'' st r m s)))" if "failing (snd s)" for s st r m
    using that by (cases s) (auto simp: failing_def setCVCondition_apply intro!: put_condition_other)
  have ok: "\<exists>s'. setCVCondition E t st r m s = (Ok (), s')" for t st r m s
    by (cases s) (simp add: setCVCondition_apply)
  show ?thesis
    unfolding reports_def
  proof (intro allI impI)
    fix s s' assume run: "refuse E reason e s = (Ok (requeue (60 * second)), s')"
    obtain s1 where s1: "setCVCondition E ''Failing'' ''True'' reason (error_string e) s = (Ok (), s1)" using ok by blast
    then have "failing (snd s1)" by (cases s) (auto simp: setCVCondition_apply)
    moreover obtain s2 where s2: "setCVCondition E ''Upgradeable'' ''False'' reason (error_string e) s1 = (Ok (), s2)" using ok by blast
    ultimately have "failing (snd s2)" using keeps [of s1 "''False''" reason "error_string e"] by simp
    moreover have "s' = s2" using run s1 s2 by (simp add: refuse_def act_simps)
    ultimately show "failing (snd s')" by simp
  qed
qed

lemma reports_delete: "reports (reconcileDelete E)"
  unfolding reconcileDelete_def by (intro reports_check reports_with_obj reports_ret) simp

lemma reports_body: "reports (reconcile_body E X r)"
  unfolding reconcile_body_def reconcile_desired_def run_upgrade_def Let_def
  by (intro reports_delete reports_refuse reports_failing reports_with_obj reports_if reports_check reports_attempt reports_sum reports_option reports_ret) simp_all

text \<open>
  A failure is always reported and never changes the version: when a round ends with the
  retry interval of 60 seconds, as it does after a failed pull, a failed validation, a failed
  health check or a failed upgrade, the object carries the condition Failing, and its actual
  version is the one it had.
\<close>

theorem retry_reports_failure:
  assumes "reconcile_body E X r (w, cv) = (Ok (requeue (60 * second)), (w', cv'))"
  shows "cvst_ActualVersion (cv_Status cv') = cvst_ActualVersion (cv_Status cv)
    \<and> (\<exists>c. c \<in> set (cvst_Conditions (cv_Status cv')) \<and> cond_Type c = ''Failing'' \<and> cond_Status c = ''True'')"
  using assms reports_body [of E X r] reconcile_change [OF assms] unfolding reports_def failing_def by fastforce

definition ex_no_puller :: ClusterVersionReconciler where
  "ex_no_puller = \<lparr>cvr_Puller = None\<rparr>"

theorem retry_reports_witness:
  "\<exists>w' cv' c. reconcile_body ex_path_env ex_cvo ex_no_puller (empty_world, ex_cv) = (Ok (requeue (60 * second)), (w', cv'))
     \<and> c \<in> set (cvst_Conditions (cv_Status cv')) \<and> cond_Type c = ''Failing'' \<and> cond_Status c = ''True''"
proof -
  have "\<exists>w' cv'. reconcile_body ex_path_env ex_cvo ex_no_puller (empty_world, ex_cv) = (Ok (requeue (60 * second)), (w', cv'))"
    by (simp add: reconcile_body_def act_simps ex_cv_def zero_defs syncUpgradePath_def syncReleaseCatalog_def Get_upgradepath_def
       Get_catalog_def query_def ex_path_env_def ex_no_puller_def Let_def computeAvailableUpdates_def reconcile_desired_def fetchReleaseImage_def
       release_image_of_def ex_catalog_def setCVCondition_apply)
  then obtain w' cv' where run: "reconcile_body ex_path_env ex_cvo ex_no_puller (empty_world, ex_cv) = (Ok (requeue (60 * second)), (w', cv'))" by blast
  from retry_reports_failure [OF this] run show ?thesis by blast
qed
end
