(* ===== verification/Self_Sort.thy ===== *)
theory Self_Sort
  imports Api_Types
begin

text \<open>
  The dependency sort of the self-upgrade controller,
  \<open>topologicalSort\<close> in \<open>modules/cvo/internal/controllers/selfupgrade_controller.go\<close>, and the
  validation that runs before it. The recursive closure has no mark for components in
  progress, so on a cycle it calls itself until the stack overflows; it is modelled as a
  partial function whose value is \<open>None\<close> when it does not return.
\<close>

section \<open>Definitions\<close>

fun duplicate_name :: "string list \<Rightarrow> SelfUpgradeComponent list \<Rightarrow> string option" where
  "duplicate_name seen [] = None"
| "duplicate_name seen (c # cs) = (if suc_Name c \<in> set seen then Some (suc_Name c) else duplicate_name (suc_Name c # seen) cs)"

fun unknown_dependency :: "string set \<Rightarrow> SelfUpgradeComponent list \<Rightarrow> (string \<times> string) option" where
  "unknown_dependency names [] = None"
| "unknown_dependency names (c # cs) =
     (case List.find (\<lambda>d. d \<notin> names) (suc_DependsOn c) of
        Some d \<Rightarrow> Some (suc_Name c, d)
      | None \<Rightarrow> unknown_dependency names cs)"

definition validateComponents :: "SelfUpgradeComponent list \<Rightarrow> error option" where
  "validateComponents cs =
     (case duplicate_name [] cs of
        Some n \<Rightarrow> Some (Errorf (''duplicate component name: '' @ n))
      | None \<Rightarrow>
          (case unknown_dependency (suc_Name ` set cs) cs of
             Some (n, d) \<Rightarrow> Some (Errorf (''component '' @ n @ '' depends on unknown component: '' @ d))
           | None \<Rightarrow> None))"

record sort_state =
  so_visited :: "string set"
  so_sorted :: "SelfUpgradeComponent list"

definition dependencies :: "SelfUpgradeComponent list \<Rightarrow> SelfUpgradeComponent \<Rightarrow> SelfUpgradeComponent list" where
  "dependencies cs c = concat (map (\<lambda>d. filter (\<lambda>x. suc_Name x = d) cs) (suc_DependsOn c))"

definition sort_finish :: "SelfUpgradeComponent \<Rightarrow> sort_state \<Rightarrow> sort_state" where
  "sort_finish c s = s\<lparr>so_visited := insert (suc_Name c) (so_visited s), so_sorted := so_sorted s @ [c]\<rparr>"

text \<open>\<open>self_visit cs xs s\<close>: the calls of the closure for the components \<open>xs\<close> in turn.\<close>

partial_function (option) self_visit ::
  "SelfUpgradeComponent list \<Rightarrow> SelfUpgradeComponent list \<Rightarrow> sort_state \<Rightarrow> sort_state option" where
  "self_visit cs xs s =
     (case xs of
        [] \<Rightarrow> Some s
      | c # rest \<Rightarrow>
          if suc_Name c \<in> so_visited s then self_visit cs rest s
          else Option.bind (self_visit cs (dependencies cs c) s) (\<lambda>s1. self_visit cs rest (sort_finish c s1)))"

definition self_topologicalSort :: "SelfUpgradeComponent list \<Rightarrow> SelfUpgradeComponent list option" where
  "self_topologicalSort cs = map_option so_sorted (self_visit cs cs \<lparr>so_visited = {}, so_sorted = []\<rparr>)"

section \<open>Validation\<close>

lemma duplicate_name_None: "duplicate_name seen cs = None \<longleftrightarrow> distinct (map suc_Name cs) \<and> set seen \<inter> suc_Name ` set cs = {}"
  by (induction seen cs rule: duplicate_name.induct) auto

lemma unknown_dependency_None: "unknown_dependency names cs = None \<longleftrightarrow> (\<forall>c\<in>set cs. set (suc_DependsOn c) \<subseteq> names)"
proof (induction cs)
  case (Cons c cs)
  have "List.find (\<lambda>d. d \<notin> names) (suc_DependsOn c) = None \<longleftrightarrow> set (suc_DependsOn c) \<subseteq> names"
    by (auto simp: find_None_iff)
  with Cons show ?case by (auto split: option.split)
qed simp

lemma validateComponents_None:
  "validateComponents cs = None \<longleftrightarrow> distinct (map suc_Name cs) \<and> (\<forall>c\<in>set cs. set (suc_DependsOn c) \<subseteq> suc_Name ` set cs)"
  using duplicate_name_None [of "[]" cs] unknown_dependency_None [of "suc_Name ` set cs" cs]
  by (auto simp: validateComponents_def split: option.split prod.split)

section \<open>When the sort returns\<close>

text \<open>The relation between the names of a component and of what it depends on.\<close>

definition needs :: "SelfUpgradeComponent list \<Rightarrow> (string \<times> string) set" where
  "needs cs = {(suc_Name d, suc_Name c) | c d. c \<in> set cs \<and> d \<in> set (dependencies cs c)}"

lemma set_dependencies: "d \<in> set (dependencies cs c) \<longleftrightarrow> d \<in> set cs \<and> suc_Name d \<in> set (suc_DependsOn c)"
  by (auto simp: dependencies_def)

lemma finite_needs: "finite (needs cs)"
proof -
  have "needs cs \<subseteq> suc_Name ` set cs \<times> suc_Name ` set cs" by (auto simp: needs_def set_dependencies)
  then show ?thesis by (rule finite_subset) simp
qed

lemma self_visit_simps [simp]:
  "self_visit cs [] s = Some s"
  "self_visit cs (c # rest) s = (if suc_Name c \<in> so_visited s then self_visit cs rest s
     else Option.bind (self_visit cs (dependencies cs c) s) (\<lambda>s1. self_visit cs rest (sort_finish c s1)))"
  by (subst self_visit.simps, simp)+

lemma self_visit_list:
  assumes "\<And>c s. c \<in> set xs \<Longrightarrow> self_visit cs [c] s \<noteq> None"
  shows "self_visit cs xs s \<noteq> None"
  using assms
proof (induction xs arbitrary: s)
  case (Cons c xs)
  have "self_visit cs xs s' \<noteq> None" for s' using Cons by simp
  with Cons.prems [of c s] show ?case
    by (cases "self_visit cs (dependencies cs c) s"; cases "suc_Name c \<in> so_visited s") auto
qed simp

lemma acyclic_returns:
  assumes "acyclic (needs cs)" and "c \<in> set cs"
  shows "self_visit cs [c] s \<noteq> None"
proof -
  have wf: "wf (needs cs)" using finite_needs assms(1) by (rule finite_acyclic_wf)
  have "\<forall>c\<in>set cs. suc_Name c = n \<longrightarrow> (\<forall>s. self_visit cs [c] s \<noteq> None)" for n
  proof (induction n rule: wf_induct_rule [OF wf])
    case (1 n)
    show ?case
    proof (intro ballI impI allI)
      fix c s assume c: "c \<in> set cs" "suc_Name c = n"
      have "self_visit cs (dependencies cs c) s \<noteq> None"
      proof (rule self_visit_list)
        fix d s assume "d \<in> set (dependencies cs c)"
        with c have "(suc_Name d, n) \<in> needs cs" and "d \<in> set cs" by (auto simp: needs_def set_dependencies)
        with 1 show "self_visit cs [d] s \<noteq> None" by blast
      qed
      then show "self_visit cs [c] s \<noteq> None" by auto
    qed
  qed
  with assms(2) show ?thesis by blast
qed

text \<open>Induction over a run that returns.\<close>

lemma self_visit_induct [consumes 1, case_names finished skip visit]:
  assumes "self_visit cs xs s = Some s'"
    and "\<And>s. P [] s s"
    and "\<And>c rest s s'. suc_Name c \<in> so_visited s \<Longrightarrow> P rest s s' \<Longrightarrow> P (c # rest) s s'"
    and "\<And>c rest s s1 s'. suc_Name c \<notin> so_visited s \<Longrightarrow> self_visit cs (dependencies cs c) s = Some s1 \<Longrightarrow>
      P (dependencies cs c) s s1 \<Longrightarrow> P rest (sort_finish c s1) s' \<Longrightarrow> P (c # rest) s s'"
  shows "P xs s s'"
proof -
  let ?Q = "\<lambda>cs' xs s s'. cs' = cs \<longrightarrow> P xs s s' \<and> self_visit cs xs s = Some s'"
  have "?Q cs xs s s'" using _ assms(1)
  proof (rule self_visit.raw_induct [of ?Q])
    fix f :: "SelfUpgradeComponent list \<Rightarrow> SelfUpgradeComponent list \<Rightarrow> sort_state \<Rightarrow> sort_state option" and cs' xs s s'
    assume IH: "\<And>cs' xs s s'. f cs' xs s = Some s' \<Longrightarrow> ?Q cs' xs s s'"
      and run: "(case xs of [] \<Rightarrow> Some s | c # rest \<Rightarrow> if suc_Name c \<in> so_visited s then f cs' rest s
        else Option.bind (f cs' (dependencies cs' c) s) (\<lambda>s1. f cs' rest (sort_finish c s1))) = Some s'"
    show "?Q cs' xs s s'"
    proof (cases xs)
      case Nil
      with run assms(2) show ?thesis by simp
    next
      case (Cons c rest)
      show ?thesis
      proof (cases "suc_Name c \<in> so_visited s")
        case True
        with run Cons have "f cs' rest s = Some s'" by simp
        from IH [OF this] True Cons assms(3) show ?thesis by simp
      next
        case False
        with run Cons obtain s1 where "f cs' (dependencies cs' c) s = Some s1" "f cs' rest (sort_finish c s1) = Some s'"
          by (auto simp: bind_eq_Some_conv)
        from IH [OF this(1)] IH [OF this(2)] False Cons assms(4) show ?thesis by auto
      qed
    qed
  qed
  then show ?thesis by blast
qed

text \<open>
  Whatever the closure has finished lies below no cycle: the names it has visited belong to
  the well-founded part of the dependency relation. And it visits only what it was asked
  for and what that needs.
\<close>

lemma self_visit_settles:
  assumes "self_visit cs xs s = Some s'" and "distinct (map suc_Name cs)" and "set xs \<subseteq> set cs"
    and "so_visited s \<subseteq> Wellfounded.acc (needs cs)"
  shows "so_visited s' \<subseteq> Wellfounded.acc (needs cs) \<and> suc_Name ` set xs \<subseteq> so_visited s' \<and> so_visited s \<subseteq> so_visited s'
    \<and> so_visited s' \<subseteq> so_visited s \<union> {n. \<exists>x\<in>set xs. (n, suc_Name x) \<in> (needs cs)\<^sup>*}"
  using assms(1,3,4)
proof (induction rule: self_visit_induct)
  case (finished s)
  then show ?case by simp
next
  case (skip c rest s s')
  then show ?case by auto
next
  case (visit c rest s s1 s')
  have deps: "set (dependencies cs c) \<subseteq> set cs" by (auto simp: set_dependencies)
  note s1 = conjunct1 [OF visit.IH(1) [OF deps visit.prems(2)]]
    conjunct1 [OF conjunct2 [OF visit.IH(1) [OF deps visit.prems(2)]]]
    conjunct1 [OF conjunct2 [OF conjunct2 [OF visit.IH(1) [OF deps visit.prems(2)]]]]
    conjunct2 [OF conjunct2 [OF conjunct2 [OF visit.IH(1) [OF deps visit.prems(2)]]]]
  have c: "c \<in> set cs" using visit.prems by simp
  have below: "(suc_Name d, suc_Name c) \<in> needs cs" if "d \<in> set (dependencies cs c)" for d
    using that c by (auto simp: needs_def)
  have "y \<in> Wellfounded.acc (needs cs)" if y: "(y, suc_Name c) \<in> needs cs" for y
  proof -
    from y obtain c' d where d: "y = suc_Name d" "suc_Name c' = suc_Name c" "c' \<in> set cs" "d \<in> set (dependencies cs c')"
      by (auto simp: needs_def)
    then have "c' = c" using assms(2) c by (metis distinct_map inj_on_eq_iff)
    with d s1(1,2) show ?thesis by blast
  qed
  then have "suc_Name c \<in> Wellfounded.acc (needs cs)" by (rule accI)
  with s1(1) have fin: "so_visited (sort_finish c s1) \<subseteq> Wellfounded.acc (needs cs)" by (simp add: sort_finish_def)
  have rest: "set rest \<subseteq> set cs" using visit.prems by simp
  note 2 = visit.IH(2) [OF rest fin]
  have "{n. \<exists>x\<in>set (dependencies cs c). (n, suc_Name x) \<in> (needs cs)\<^sup>*} \<subseteq> {n. (n, suc_Name c) \<in> (needs cs)\<^sup>*}"
    using below by (auto intro: rtrancl_into_rtrancl)
  with s1(4) have v1: "so_visited s1 \<subseteq> so_visited s \<union> {n. (n, suc_Name c) \<in> (needs cs)\<^sup>*}"
    by (rule order_trans [OF _ Un_mono [OF order_refl]])
  have v2: "so_visited s' \<subseteq> insert (suc_Name c) (so_visited s1) \<union> {n. \<exists>x\<in>set rest. (n, suc_Name x) \<in> (needs cs)\<^sup>*}"
    using 2 by (simp add: sort_finish_def)
  have "so_visited s' \<subseteq> so_visited s \<union> {n. \<exists>x\<in>set (c # rest). (n, suc_Name x) \<in> (needs cs)\<^sup>*}"
  proof
    fix n assume "n \<in> so_visited s'"
    with v2 consider "n = suc_Name c" | "n \<in> so_visited s1" | "\<exists>x\<in>set rest. (n, suc_Name x) \<in> (needs cs)\<^sup>*" by blast
    then show "n \<in> so_visited s \<union> {n. \<exists>x\<in>set (c # rest). (n, suc_Name x) \<in> (needs cs)\<^sup>*}"
      using v1 by cases auto
  qed
  moreover have "suc_Name c \<in> so_visited s'" and "suc_Name ` set rest \<subseteq> so_visited s'" and "so_visited s1 \<subseteq> so_visited s'"
    using 2 by (simp_all add: sort_finish_def)
  ultimately show ?case using 2 s1(3) by simp
qed

definition sort_ok :: "SelfUpgradeComponent list \<Rightarrow> sort_state \<Rightarrow> bool" where
  "sort_ok cs s \<longleftrightarrow> so_visited s = suc_Name ` set (so_sorted s) \<and> so_visited s \<subseteq> Wellfounded.acc (needs cs)
     \<and> distinct (map suc_Name (so_sorted s)) \<and> set (so_sorted s) \<subseteq> set cs
     \<and> (\<forall>ys c zs. so_sorted s = ys @ c # zs \<longrightarrow> suc_Name ` set (dependencies cs c) \<subseteq> suc_Name ` set ys)"

lemma acc_not_cyclic: "x \<in> Wellfounded.acc r \<Longrightarrow> (x, x) \<notin> r\<^sup>+"
proof (induction rule: acc_induct_rule)
  case (1 x)
  show ?case
  proof
    assume "(x, x) \<in> r\<^sup>+"
    then obtain y where y: "(x, y) \<in> r\<^sup>*" "(y, x) \<in> r" by (meson tranclD2)
    then have "(y, y) \<in> r\<^sup>+" by (meson rtrancl_into_trancl2)
    with 1 y(2) show False by blast
  qed
qed

lemma sort_ok_finish:
  assumes ok: "sort_ok cs s" and new: "suc_Name c \<notin> so_visited s" and c: "c \<in> set cs" and "distinct (map suc_Name cs)"
    and deps: "suc_Name ` set (dependencies cs c) \<subseteq> so_visited s"
  shows "sort_ok cs (sort_finish c s)"
proof -
  have "y \<in> Wellfounded.acc (needs cs)" if "(y, suc_Name c) \<in> needs cs" for y
  proof -
    from that obtain c' d where d: "y = suc_Name d" "suc_Name c' = suc_Name c" "c' \<in> set cs" "d \<in> set (dependencies cs c')"
      by (auto simp: needs_def)
    then have "c' = c" using assms(4) c by (metis distinct_map inj_on_eq_iff)
    with d deps ok show ?thesis by (auto simp: sort_ok_def)
  qed
  then have acc: "suc_Name c \<in> Wellfounded.acc (needs cs)" by (rule accI)
  have "suc_Name ` set (dependencies cs c1) \<subseteq> suc_Name ` set ys" if "so_sorted s @ [c] = ys @ c1 # zs" for ys c1 zs
  proof (cases zs rule: rev_cases)
    case Nil
    with that ok deps show ?thesis by (simp add: sort_ok_def)
  next
    case (snoc zs' z)
    with that ok show ?thesis by (simp add: sort_ok_def)
  qed
  with ok new c acc show ?thesis by (auto simp: sort_ok_def sort_finish_def)
qed

lemma self_visit_sorts:
  assumes "self_visit cs xs s = Some s'" and "distinct (map suc_Name cs)" and "set xs \<subseteq> set cs" and "sort_ok cs s"
  shows "sort_ok cs s'"
  using assms(1,3,4)
proof (induction rule: self_visit_induct)
  case (visit c rest s s1 s')
  have c: "c \<in> set cs" and rest: "set rest \<subseteq> set cs" and deps: "set (dependencies cs c) \<subseteq> set cs"
    using visit.prems by (auto simp: set_dependencies)
  have ok1: "sort_ok cs s1" using visit.IH(1) [OF deps visit.prems(2)] .
  have acc: "so_visited s \<subseteq> Wellfounded.acc (needs cs)" using visit.prems(2) unfolding sort_ok_def by (elim conjE)
  note 1 = self_visit_settles [OF visit.hyps(2) assms(2) deps acc]
  have "suc_Name c \<notin> so_visited s1"
  proof
    assume "suc_Name c \<in> so_visited s1"
    with 1 visit.hyps(1) obtain x where x: "x \<in> set (dependencies cs c)" "(suc_Name c, suc_Name x) \<in> (needs cs)\<^sup>*" by blast
    then have "(suc_Name x, suc_Name c) \<in> needs cs" using c by (auto simp: needs_def)
    with x(2) have "(suc_Name c, suc_Name c) \<in> (needs cs)\<^sup>+" by (rule rtrancl_into_trancl1)
    moreover have "suc_Name c \<in> Wellfounded.acc (needs cs)" using 1 \<open>suc_Name c \<in> so_visited s1\<close> by blast
    ultimately show False by (meson acc_not_cyclic)
  qed
  then have "sort_ok cs (sort_finish c s1)" using sort_ok_finish [OF ok1 _ c] 1 assms(2) by blast
  with visit.IH(2) [OF rest] show ?case .
next
  case (finished s)
  then show ?case by simp
next
  case (skip c rest s s')
  then show ?case by simp
qed

section \<open>Correctness of the sort\<close>

lemma sort_ok_start: "sort_ok cs \<lparr>so_visited = {}, so_sorted = []\<rparr>"
  by (simp add: sort_ok_def)

lemma self_sort_result:
  assumes "self_topologicalSort cs = Some ys" and "distinct (map suc_Name cs)"
  obtains s where "sort_ok cs s" and "so_sorted s = ys" and "suc_Name ` set cs \<subseteq> so_visited s"
proof -
  from assms(1) obtain s where s: "self_visit cs cs \<lparr>so_visited = {}, so_sorted = []\<rparr> = Some s" "so_sorted s = ys"
    by (auto simp: self_topologicalSort_def)
  have "sort_ok cs s" using self_visit_sorts [OF s(1) assms(2) order_refl sort_ok_start] .
  moreover have "suc_Name ` set cs \<subseteq> so_visited s" using self_visit_settles [OF s(1) assms(2) order_refl] by simp
  ultimately show thesis using s(2) that by blast
qed

lemma self_sort_subset:
  assumes "self_topologicalSort cs = Some ys"
  shows "set ys \<subseteq> set cs"
proof -
  have "set (so_sorted s') \<subseteq> set (so_sorted s) \<union> set xs \<union> set cs" if "self_visit cs xs s = Some s'" for xs s s'
    using that by (induction rule: self_visit_induct) (auto simp: sort_finish_def set_dependencies)
  with assms show ?thesis by (fastforce simp: self_topologicalSort_def)
qed

lemma acc_needs_acyclic:
  assumes "suc_Name ` set cs \<subseteq> Wellfounded.acc (needs cs)"
  shows "acyclic (needs cs)"
proof -
  have "n \<in> suc_Name ` set cs" if "(n, m) \<in> (needs cs)\<^sup>+" for n m
    using that by (induction rule: converse_trancl_induct) (auto simp: needs_def set_dependencies)
  with assms show ?thesis unfolding acyclic_def by (meson acc_not_cyclic subsetD)
qed

text \<open>
  (C16) The dependency sort of the self-upgrade controller returns exactly on the component lists
  whose dependencies have no cycle; on every other list its closure never returns, and the
  controller process ends with a stack overflow. Component names are distinct, which is what
  \<open>validateComponents\<close> checks (it does not look for cycles).
\<close>

theorem self_sort_terminates_iff:
  assumes "distinct (map suc_Name cs)"
  shows "(\<exists>res. self_topologicalSort cs = Some res) \<longleftrightarrow> acyclic (needs cs)"
proof
  assume "\<exists>res. self_topologicalSort cs = Some res"
  then obtain ys where "self_topologicalSort cs = Some ys" ..
  then obtain s where s: "sort_ok cs s" "suc_Name ` set cs \<subseteq> so_visited s" using assms by (rule self_sort_result)
  from s(1) have "so_visited s \<subseteq> Wellfounded.acc (needs cs)" unfolding sort_ok_def by (elim conjE)
  with s(2) show "acyclic (needs cs)" by (intro acc_needs_acyclic) (rule order_trans)
next
  assume "acyclic (needs cs)"
  then have "self_visit cs cs s \<noteq> None" for s by (rule self_visit_list [OF acyclic_returns])
  then show "\<exists>res. self_topologicalSort cs = Some res" by (auto simp: self_topologicalSort_def)
qed

definition example_components :: "SelfUpgradeComponent list" where
  "example_components =
     [\<lparr>suc_Name = ''manager'', suc_Type = ''deployment'', suc_Order = 2, suc_Blocking = True,
        suc_DependsOn = [''crds''], suc_HealthCheck = None\<rparr>,
      \<lparr>suc_Name = ''crds'', suc_Type = ''crd'', suc_Order = 1, suc_Blocking = True,
        suc_DependsOn = [], suc_HealthCheck = None\<rparr>]"

lemma example_sorted: "self_topologicalSort example_components = Some (rev example_components)"
  by (simp add: self_topologicalSort_def example_components_def dependencies_def sort_finish_def)

theorem self_sort_terminates_iff_witness: "acyclic (needs example_components)"
proof -
  have "distinct (map suc_Name example_components)" by (simp add: example_components_def)
  from self_sort_terminates_iff [OF this] example_sorted show ?thesis by blast
qed

text \<open>
  When it returns, the sort is a permutation of the components in which everything a component
  depends on stands before it.
\<close>

theorem self_sort_correct:
  assumes "self_topologicalSort cs = Some res" and "validateComponents cs = None"
  shows "mset res = mset cs \<and>
    (\<forall>ys c zs. res = ys @ c # zs \<longrightarrow> set (suc_DependsOn c) \<subseteq> suc_Name ` set ys)"
proof -
  from assms(2) have d: "distinct (map suc_Name cs)" and known: "\<forall>c\<in>set cs. set (suc_DependsOn c) \<subseteq> suc_Name ` set cs"
    by (simp_all add: validateComponents_None)
  obtain s where s: "sort_ok cs s" "so_sorted s = res" "suc_Name ` set cs \<subseteq> so_visited s"
    using assms(1) d by (rule self_sort_result)
  have sub: "set res \<subseteq> set cs" and dn: "distinct (map suc_Name res)" and vis: "so_visited s = suc_Name ` set res"
    and early: "\<forall>ys c zs. res = ys @ c # zs \<longrightarrow> suc_Name ` set (dependencies cs c) \<subseteq> suc_Name ` set ys"
    using s(1,2) unfolding sort_ok_def by blast+
  have "set cs \<subseteq> set res"
  proof
    fix c assume c: "c \<in> set cs"
    then have "suc_Name c \<in> suc_Name ` set res" using s(3) vis by blast
    then obtain x where x: "x \<in> set res" "suc_Name c = suc_Name x" by blast
    with sub have "x \<in> set cs" by blast
    with x c d have "c = x" by (metis distinct_map inj_on_eq_iff)
    with x show "c \<in> set res" by simp
  qed
  with sub d dn have "mset res = mset cs" by (metis distinct_map set_eq_iff_mset_eq_distinct subset_antisym)
  moreover have "set (suc_DependsOn c) \<subseteq> suc_Name ` set ys" if "res = ys @ c # zs" for ys c zs
  proof
    fix n assume n: "n \<in> set (suc_DependsOn c)"
    have "c \<in> set cs" using sub that by auto
    with known n obtain x where "x \<in> set cs" "suc_Name x = n" by blast
    with n have "n \<in> suc_Name ` set (dependencies cs c)" by (auto simp: set_dependencies)
    with early that show "n \<in> suc_Name ` set ys" by blast
  qed
  ultimately show ?thesis by blast
qed

theorem self_sort_correct_witness:
  "mset (rev example_components) = mset example_components \<and>
    (\<exists>m c. rev example_components = [c, m] \<and> set (suc_DependsOn m) \<subseteq> {suc_Name c})"
proof -
  have "validateComponents example_components = None" by (simp add: validateComponents_None example_components_def)
  from self_sort_correct [OF example_sorted this] have m: "mset (rev example_components) = mset example_components"
    and e: "\<And>ys c zs. rev example_components = ys @ c # zs \<Longrightarrow> set (suc_DependsOn c) \<subseteq> suc_Name ` set ys" by blast+
  have "rev example_components = [example_components ! 1, example_components ! 0]" by (simp add: example_components_def)
  then have "rev example_components = [example_components ! 1, example_components ! 0]
      \<and> set (suc_DependsOn (example_components ! 0)) \<subseteq> {suc_Name (example_components ! 1)}"
    using e [of "[example_components ! 1]" "example_components ! 0" "[]"] by simp
  with m show ?thesis by blast
qed

end
