(* ===== verification/Self_Components.thy ===== *)
theory Self_Components
  imports Object_State Graph_Exec
begin

text \<open>
  What a self-upgrade does to the cluster: \<open>modules/cvo/internal/upgrader/self_upgrade_executor.go\<close>
  and the operations of \<open>modules/cvo/internal/controllers/selfupgrade_controller.go\<close> on single
  components (\<open>upgradeCRDs\<close>, \<open>upgradeRBAC\<close>, \<open>upgradeWebhooks\<close>, \<open>upgradeDeployment\<close>,
  \<open>rollbackComponent\<close>, \<open>backupCurrentConfig\<close>, \<open>executeHook\<close>, \<open>runHealthCheck\<close>). The YAML library and
  the type registry of client-go are parameters, in the record \<open>su_env\<close>. The controller waits
  for a CRD in a loop over a timer and its context; how many turns the loop gets before
  the context ends is the parameter \<open>y_turns\<close>.
\<close>

section \<open>Definitions\<close>

record su_env =
  y_get_su :: "log \<Rightarrow> string \<Rightarrow> string \<Rightarrow> error + SelfUpgrade"
  y_patch_helper :: "SelfUpgrade \<Rightarrow> error option"
  y_marshal_crd :: "crd \<Rightarrow> error + string"
  y_marshal_deployment :: "workload \<Rightarrow> error + string"
  y_type_meta :: "string \<Rightarrow> error + string \<times> string"
  y_group_version :: "string \<Rightarrow> error + string \<times> string"
  y_new_object :: "string \<times> string \<times> string \<Rightarrow> error + bool"
  y_unmarshal :: "string \<Rightarrow> string \<times> string \<times> string \<Rightarrow> error option"
  y_turns :: "log \<Rightarrow> duration \<Rightarrow> nat"

abbreviation lift_sum :: "error + 'a \<Rightarrow> ('w, 'a) act" where
  "lift_sum r \<equiv> (case r of Inl e \<Rightarrow> fail e | Inr x \<Rightarrow> ret x)"

definition Get_deployment :: "env \<Rightarrow> string \<Rightarrow> string \<Rightarrow> workload cact" where
  "Get_deployment E ns n = query (EvGet ''Deployment'' ns n) (\<lambda>l. k_get_deployment (kube E) l ns n)"

definition Get_crd :: "env \<Rightarrow> string \<Rightarrow> (string \<times> string) list cact" where
  "Get_crd E n = query (EvGet ''CustomResourceDefinition'' [] n) (\<lambda>l. k_get_crd (kube E) l n)"

definition List_crds :: "env \<Rightarrow> labels \<Rightarrow> crd list cact" where
  "List_crds E sel = query (EvList ''CustomResourceDefinition'' [] sel) (\<lambda>l. k_list_crds (kube E) l sel)"

definition List_configmaps :: "env \<Rightarrow> string \<Rightarrow> labels \<Rightarrow> config_map list cact" where
  "List_configmaps E ns sel = query (EvList ''ConfigMap'' ns sel) (\<lambda>l. k_list_configmaps (kube E) l ns sel)"

definition crd_established :: "(string \<times> string) list \<Rightarrow> bool" where
  "crd_established = list_ex (\<lambda>(t, s). t = ''Established'' \<and> s = ''True'')"

text \<open>\<open>Create\<close> where an existing object is not an error.\<close>

definition create_backup :: "env \<Rightarrow> string \<Rightarrow> config_map \<Rightarrow> unit cact" where
  "create_backup E msg cm =
     attempt (api_write E (EvCreate (KConfigMap cm))) (\<lambda>r. case r of
       Inl e \<Rightarrow> if IsAlreadyExists e then ret () else fail (wrap msg e)
     | Inr _ \<Rightarrow> ret ())"

subsection \<open>The executor\<close>

record UpgradeStrategy =
  ust_MaxUnavailable :: "int_or_string option"
  ust_MaxSurge :: "int_or_string option"
  ust_MinReadySeconds :: int
  ust_Timeout :: duration

definition backupCRD :: "env \<Rightarrow> su_env \<Rightarrow> crd \<Rightarrow> unit cact" where
  "backupCRD E Y c =
     check (lift_sum (y_marshal_crd Y c)) (wrap (''failed to marshal CRD '' @ crd_Name c @ '': '')) (\<lambda>text.
     andthen (time_Now E) (\<lambda>now.
       create_backup E ''failed to create CRD backup ConfigMap: ''
         \<lparr>cm_Name = ''crd-backup-'' @ crd_Name c @ ''-'' @ h_format_time (host E) ''20060102150405'' now,
          cm_Namespace = ''cvo-system'',
          cm_Labels = [(''app.kubernetes.io/part-of'', ''capbm''), (''cvo.capbm.io/backup'', ''true''),
            (''cvo.capbm.io/backup-type'', ''crd''), (''cvo.capbm.io/crd-name'', crd_Name c)],
          cm_Data = Some [(''crd.yaml'', text)], cm_BinaryData = []\<rparr>))"

definition BackupCRDs :: "env \<Rightarrow> su_env \<Rightarrow> unit cact" where
  "BackupCRDs E Y =
     check (List_crds E []) (wrap ''failed to list CRDs: '') (\<lambda>crds.
       for_each crds (\<lambda>c. check (backupCRD E Y c) (wrap (''failed to backup CRD '' @ crd_Name c @ '': '')) ret))"

definition deployment_ready :: "workload \<Rightarrow> bool" where
  "deployment_ready d \<longleftrightarrow> wl_Generation d = wl_ObservedGeneration d
     \<and> (case wl_Replicas d of None \<Rightarrow> True | Some n \<Rightarrow> \<not> wl_Ready d < n) \<and> \<not> wl_Unavailable d > 0"

definition x_WaitForDeploymentReady :: "env \<Rightarrow> string \<Rightarrow> string \<Rightarrow> duration \<Rightarrow> unit cact" where
  "x_WaitForDeploymentReady E namespace name timeout =
     Poll E (5 * second) (if timeout = 0 then 5 * minute else timeout)
       (attempt (Get_deployment E namespace name) (\<lambda>r. case r of
          Inl e \<Rightarrow> if IsNotFound e then ret False else fail e
        | Inr d \<Rightarrow> ret (deployment_ready d)))"

definition x_WaitForCRDEstablished :: "env \<Rightarrow> string \<Rightarrow> duration \<Rightarrow> unit cact" where
  "x_WaitForCRDEstablished E name timeout =
     Poll E (5 * second) (if timeout = 0 then 2 * minute else timeout)
       (attempt (Get_crd E name) (\<lambda>r. case r of
          Inl e \<Rightarrow> ret False
        | Inr conds \<Rightarrow> ret (crd_established conds)))"

text \<open>The first container of a workload, \<open>Containers[0]\<close>, if there is one.\<close>

fun map_first :: "('a \<Rightarrow> 'a) \<Rightarrow> 'a list \<Rightarrow> 'a list" where
  "map_first f [] = []"
| "map_first f (x # xs) = f x # xs"

abbreviation set_first_image :: "(string \<Rightarrow> string) \<Rightarrow> workload \<Rightarrow> workload" where
  "set_first_image f d \<equiv> d\<lparr>wl_Images := map_first f (wl_Images d)\<rparr>"

definition drop_tag :: "string \<Rightarrow> string" where
  "drop_tag img = (case last_index CHR '':'' img of Some idx \<Rightarrow> if idx > 0 then take idx img else img | None \<Rightarrow> img)"

definition rolling_of :: "workload \<Rightarrow> int_or_string option \<times> int_or_string option" where
  "rolling_of d = (case wl_RollingUpdate d of None \<Rightarrow> (None, None) | Some ru \<Rightarrow> ru)"

definition x_upgraded :: "string \<Rightarrow> UpgradeStrategy \<Rightarrow> workload \<Rightarrow> workload" where
  "x_upgraded newImage strategy d =
     (let ru = rolling_of d; d1 = set_first_image (\<lambda>_. newImage) d in
      d1\<lparr>wl_StrategyType := ''RollingUpdate'',
         wl_RollingUpdate := Some
           (if ust_MaxUnavailable strategy \<noteq> None then ust_MaxUnavailable strategy else fst ru,
            if ust_MaxSurge strategy \<noteq> None then ust_MaxSurge strategy else snd ru),
         wl_MinReadySeconds := (if ust_MinReadySeconds strategy > 0 then ust_MinReadySeconds strategy else wl_MinReadySeconds d)\<rparr>)"

definition UpgradeDeployment :: "env \<Rightarrow> string \<Rightarrow> string \<Rightarrow> string \<Rightarrow> UpgradeStrategy \<Rightarrow> unit cact" where
  "UpgradeDeployment E namespace name newImage strategy =
     check (Get_deployment E namespace name) (wrap (''failed to get deployment '' @ namespace @ ''/'' @ name @ '': '')) (\<lambda>d.
     check (api_write E (EvPatch (KDeployment (x_upgraded newImage strategy d))))
       (wrap (''failed to update deployment '' @ namespace @ ''/'' @ name @ '': '')) (\<lambda>_.
     check (x_WaitForDeploymentReady E namespace name (ust_Timeout strategy))
       (\<lambda>e. Wrapf (''deployment '' @ namespace @ ''/'' @ name @ '' not ready: '') e []) ret))"

definition previous_image :: "workload \<Rightarrow> workload" where
  "previous_image d =
     (case map_of (wl_Annotations d) ''cvo.capbm.io/previous-image'' of
        Some prev \<Rightarrow> if prev \<noteq> [] then set_first_image (\<lambda>_. prev) d else set_first_image drop_tag d
      | None \<Rightarrow> set_first_image drop_tag d)"

definition no_previous :: "string \<Rightarrow> string \<Rightarrow> error" where
  "no_previous namespace name = Errorf (''no previous revision to rollback to for '' @ namespace @ ''/'' @ name)"

definition RollbackDeployment :: "env \<Rightarrow> string \<Rightarrow> string \<Rightarrow> unit cact" where
  "RollbackDeployment E namespace name =
     check (Get_deployment E namespace name) (wrap (''failed to get deployment '' @ namespace @ ''/'' @ name @ '': '')) (\<lambda>d.
       if wl_ObservedGeneration d < 2 then fail (no_previous namespace name)
       else
         check (api_write E (EvPatch (KDeployment (previous_image d))))
           (wrap (''failed to rollback deployment '' @ namespace @ ''/'' @ name @ '': '')) ret)"

subsection \<open>Helpers of the controller\<close>

definition gvk_string :: "string \<times> string \<times> string \<Rightarrow> string" where
  "gvk_string gvk = (case gvk of (g, v, k) \<Rightarrow> g @ ''/'' @ v @ '', Kind='' @ k)"

definition su_decodeYAML :: "su_env \<Rightarrow> string \<Rightarrow> kobj cact" where
  "su_decodeYAML Y content =
     check (lift_sum (y_type_meta Y content)) (wrap ''failed to unmarshal TypeMeta: '') (\<lambda>(apiVersion, kind).
     check (lift_sum (y_group_version Y apiVersion)) (wrap (''failed to parse apiVersion '' @ apiVersion @ '': '')) (\<lambda>(g, v).
     check (lift_sum (y_new_object Y (g, v, kind))) (wrap (''failed to create object for GVK '' @ gvk_string (g, v, kind) @ '': '')) (\<lambda>ok.
       if \<not> ok then fail (Errorf (''object '' @ gvk_string (g, v, kind) @ '' does not implement client.Object''))
       else (case y_unmarshal Y content (g, v, kind) of
               Some e \<Rightarrow> fail (wrap ''failed to unmarshal into object: '' e)
             | None \<Rightarrow> ret (KManifest content)))))"

definition su_waitForCRDEstablished :: "env \<Rightarrow> su_env \<Rightarrow> string \<Rightarrow> duration \<Rightarrow> unit cact" where
  "su_waitForCRDEstablished E Y name timeout =
     (\<lambda>w. poll_n (y_turns Y (w_log w) timeout)
        (attempt (Get_crd E name) (\<lambda>r. case r of
           Inl e \<Rightarrow> ret False
         | Inr conds \<Rightarrow> ret (crd_established conds))) w)"

definition validateClusterHealth :: "env \<Rightarrow> unit cact" where
  "validateClusterHealth E =
     check (List_nodes E []) (wrap ''failed to list nodes: '') (\<lambda>nodes.
       for_each nodes (\<lambda>n. if node_ready n then ret ()
         else fail (Errorf (''node '' @ node_Name n @ '' is not ready''))))"

definition executeHook :: "env \<Rightarrow> Hook \<Rightarrow> unit cact" where
  "executeHook E hook =
     (if hk_Command hook = [] then ret ()
      else
        (let timeout = (case hk_Timeout hook of None \<Rightarrow> 5 * minute | Some t \<Rightarrow> t) in
         andthen (query (EvLocalExec (hk_Command hook) timeout) (\<lambda>l. Inr (h_exec (host E) l (hk_Command hook) timeout))) (\<lambda>(err, output).
           case err of
             None \<Rightarrow> ret ()
           | Some e \<Rightarrow>
               if hk_OnFailure hook = ''Ignore'' \<or> hk_OnFailure hook = ''Continue'' then ret ()
               else fail (Wrapf (''hook '' @ hk_Name hook @ '' failed: '') e ('', output: '' @ output)))))"

definition su_runHealthCheck :: "env \<Rightarrow> SelfUpgradeComponent \<Rightarrow> unit cact" where
  "su_runHealthCheck E c =
     (case suc_HealthCheck c of
        None \<Rightarrow> ret ()
      | Some hc \<Rightarrow>
          if hc_Type hc = ''DeploymentReady'' then WaitForDeploymentReady E (hc_Namespace hc) (hc_Name hc) (hc_Timeout hc)
          else if hc_Type hc = ''DaemonSetReady'' then WaitForDaemonSetReady E (hc_Namespace hc) (hc_Name hc) (hc_Timeout hc)
          else if hc_Type hc = ''CRDEstablished'' then ret ()
          else if hc_Type hc = ''EndpointHealthy'' then ret ()
          else fail (Errorf (''unknown health check type: '' @ hc_Type hc)))"

definition capbm_label :: labels where
  "capbm_label = [(''app.kubernetes.io/part-of'', ''capbm'')]"

definition backup_crds :: "su_env \<Rightarrow> crd list \<Rightarrow> (string \<times> string) list" where
  "backup_crds Y crds = foldl (\<lambda>data c. case y_marshal_crd Y c of
      Inl e \<Rightarrow> data
    | Inr text \<Rightarrow> upd_key (''crd-'' @ crd_Name c @ ''.yaml'') text data) [] crds"

definition managed_deployments :: "(string \<times> string) list" where
  "managed_deployments = [(''cvo-system'', ''cvo-controller-manager''), (''capbm-system'', ''capbm-controller-manager'')]"

primrec backup_deployments ::
  "env \<Rightarrow> su_env \<Rightarrow> (string \<times> string) list \<Rightarrow> (string \<times> string) list \<Rightarrow> (string \<times> string) list cact" where
  "backup_deployments E Y [] data = ret data"
| "backup_deployments E Y (k # ks) data =
     attempt (Get_deployment E (fst k) (snd k)) (\<lambda>r. case r of
       Inl e \<Rightarrow> backup_deployments E Y ks data
     | Inr d \<Rightarrow> (case y_marshal_deployment Y d of
          Inl e \<Rightarrow> backup_deployments E Y ks data
        | Inr text \<Rightarrow> backup_deployments E Y ks (upd_key (''deployment-'' @ wl_Namespace d @ ''-'' @ wl_Name d @ ''.yaml'') text data)))"

definition backupCurrentConfig :: "env \<Rightarrow> su_env \<Rightarrow> SelfUpgrade \<Rightarrow> unit cact" where
  "backupCurrentConfig E Y su =
     andthen (time_Now E) (\<lambda>now.
     check (List_crds E capbm_label) (wrap ''failed to list CRDs: '') (\<lambda>crds.
     andthen (backup_deployments E Y managed_deployments (backup_crds Y crds)) (\<lambda>data.
       create_backup E ''failed to create backup ConfigMap: ''
         \<lparr>cm_Name = ''backup-'' @ m_Name (su_Meta su) @ ''-'' @ h_format_time (host E) ''20060102150405'' now,
          cm_Namespace = m_Namespace (su_Meta su),
          cm_Labels = [(''app.kubernetes.io/part-of'', ''capbm''), (''cvo.capbm.io/backup'', ''true''),
            (''cvo.capbm.io/self-upgrade'', m_Name (su_Meta su))],
          cm_Data = Some data, cm_BinaryData = []\<rparr>)))"

subsection \<open>Upgrading a component\<close>

definition annotate_crd :: "string \<Rightarrow> crd \<Rightarrow> crd" where
  "annotate_crd version c = c\<lparr>crd_Annotations :=
     Some (upd_key ''cvo.capbm.io/last-upgraded-version'' version (case crd_Annotations c of None \<Rightarrow> [] | Some a \<Rightarrow> a))\<rparr>"

definition upgradeCRDs :: "env \<Rightarrow> su_env \<Rightarrow> SelfUpgrade \<Rightarrow> unit cact" where
  "upgradeCRDs E Y su =
     check (List_crds E capbm_label) (wrap ''failed to list CRDs: '') (\<lambda>crds.
       for_each crds (\<lambda>c.
         check (api_write E (EvPatch (KCRD (annotate_crd (sus_TargetVersion (su_Spec su)) c))))
           (wrap (''failed to update CRD '' @ crd_Name c @ '': '')) (\<lambda>_.
         check (su_waitForCRDEstablished E Y (crd_Name c) (60 * second))
           (\<lambda>e. Wrapf (''CRD '' @ crd_Name c @ '' not established: '') e []) ret)))"

definition is_yaml :: "string \<Rightarrow> bool" where
  "is_yaml name \<longleftrightarrow> HasSuffix name ''.yaml'' \<or> HasSuffix name ''.yml''"

text \<open>
  \<open>upgradeRBAC\<close> and \<open>upgradeWebhooks\<close> have the same text but for the directory and the word
  in the messages.
\<close>

definition apply_dir :: "env \<Rightarrow> su_env \<Rightarrow> string \<Rightarrow> string \<Rightarrow> string \<Rightarrow> unit cact" where
  "apply_dir E Y dir dirname what =
     andthen (stat_missing E dir) (\<lambda>missing.
       if missing then ret ()
       else
         check (query (EvReadDir dir) (\<lambda>l. h_read_dir (host E) l dir)) (wrap (''failed to read '' @ dirname @ '' directory: '')) (\<lambda>entries.
           for_each entries (\<lambda>entry.
             if \<not> is_yaml entry then ret ()
             else
               check (os_ReadFile E (path_Join [dir, entry])) (wrap (''failed to read '' @ what @ '' file '' @ entry @ '': '')) (\<lambda>content.
               check (su_decodeYAML Y content) (wrap (''failed to decode '' @ what @ '' manifest '' @ entry @ '': '')) (\<lambda>obj.
               check (api_write E (EvPatch obj)) (wrap (''failed to apply '' @ what @ '' manifest '' @ entry @ '': '')) ret)))))"

definition release_dir :: "SelfUpgrade \<Rightarrow> string \<Rightarrow> string" where
  "release_dir su sub = ''/tmp/capbm-upgrade/release-'' @ safeImageName (sus_ReleaseImage (su_Spec su)) @ ''/'' @ sub"

definition upgradeRBAC :: "env \<Rightarrow> su_env \<Rightarrow> SelfUpgrade \<Rightarrow> unit cact" where
  "upgradeRBAC E Y su = apply_dir E Y (release_dir su ''rbac'') ''RBAC'' ''RBAC''"

definition upgradeWebhooks :: "env \<Rightarrow> su_env \<Rightarrow> SelfUpgrade \<Rightarrow> unit cact" where
  "upgradeWebhooks E Y su = apply_dir E Y (release_dir su ''webhooks'') ''webhooks'' ''webhook''"

definition su_upgraded :: "SelfUpgradeSpec \<Rightarrow> workload \<Rightarrow> workload" where
  "su_upgraded spec d =
     (let st = sus_Strategy spec; d1 = set_first_image (\<lambda>img. img @ '':'' @ sus_TargetVersion spec) d in
      d1\<lparr>wl_StrategyType := ''RollingUpdate'',
         wl_RollingUpdate := Some (Some (IntVal (int32 (ss_MaxUnavailable st))), Some (IntVal (int32 (ss_MaxSurge st)))),
         wl_MinReadySeconds := (if ss_MinReadySeconds st > 0 then int32 (ss_MinReadySeconds st) else wl_MinReadySeconds d)\<rparr>)"

definition deployment_of :: "SelfUpgradeComponent \<Rightarrow> (string \<times> string \<times> duration) option" where
  "deployment_of c = (case suc_HealthCheck c of
      None \<Rightarrow> None
    | Some hc \<Rightarrow> if hc_Namespace hc = [] \<or> hc_Name hc = [] then None else Some (hc_Namespace hc, hc_Name hc, hc_Timeout hc))"

definition no_deployment :: "SelfUpgradeComponent \<Rightarrow> error" where
  "no_deployment c = Errorf (''deployment component '' @ suc_Name c @ '' requires healthCheck.namespace and healthCheck.name'')"

definition upgradeDeployment :: "env \<Rightarrow> SelfUpgrade \<Rightarrow> SelfUpgradeComponent \<Rightarrow> unit cact" where
  "upgradeDeployment E su c =
     (case deployment_of c of
        None \<Rightarrow> fail (no_deployment c)
      | Some (ns, name, t) \<Rightarrow>
          check (Get_deployment E ns name) (wrap (''failed to get deployment '' @ ns @ ''/'' @ name @ '': '')) (\<lambda>d.
          check (api_write E (EvPatch (KDeployment (su_upgraded (su_Spec su) d))))
            (wrap (''failed to update deployment '' @ ns @ ''/'' @ name @ '': '')) (\<lambda>_.
          check (x_WaitForDeploymentReady E ns name (if t \<noteq> 0 then t else 5 * minute))
            (\<lambda>e. Wrapf (''deployment '' @ ns @ ''/'' @ name @ '' not ready: '') e []) ret)))"

definition upgradeComponent :: "env \<Rightarrow> su_env \<Rightarrow> SelfUpgrade \<Rightarrow> SelfUpgradeComponent \<Rightarrow> unit cact" where
  "upgradeComponent E Y su c =
     (if suc_Type c = ''crd'' then upgradeCRDs E Y su
      else if suc_Type c = ''rbac'' then upgradeRBAC E Y su
      else if suc_Type c = ''webhook'' then upgradeWebhooks E Y su
      else if suc_Type c = ''deployment'' then upgradeDeployment E su c
      else fail (Errorf (''unknown component type: '' @ suc_Type c)))"

subsection \<open>Rolling a component back\<close>

definition data_of :: "config_map \<Rightarrow> (string \<times> string) list" where
  "data_of cm = (case cm_Data cm of None \<Rightarrow> [] | Some d \<Rightarrow> d)"

definition restore_entry :: "env \<Rightarrow> su_env \<Rightarrow> string \<Rightarrow> unit cact" where
  "restore_entry E Y content =
     attempt (su_decodeYAML Y content) (\<lambda>r. case r of
       Inl e \<Rightarrow> ret ()
     | Inr obj \<Rightarrow> attempt (api_write E (EvPatch obj)) (\<lambda>_. ret ()))"

definition restore_data :: "env \<Rightarrow> su_env \<Rightarrow> string \<Rightarrow> config_map \<Rightarrow> unit cact" where
  "restore_data E Y pfx cm =
     andthen (range_map E (map fst (data_of cm))) (\<lambda>keys.
       for_each keys (\<lambda>k.
         if HasPrefix k pfx then restore_entry E Y (case map_of (data_of cm) k of None \<Rightarrow> [] | Some c \<Rightarrow> c) else ret ()))"

definition restore_backup :: "env \<Rightarrow> su_env \<Rightarrow> SelfUpgrade \<Rightarrow> string \<Rightarrow> unit cact \<Rightarrow> unit cact" where
  "restore_backup E Y su pfx none =
     check (List_configmaps E (m_Namespace (su_Meta su)) [(''cvo.capbm.io/self-upgrade'', m_Name (su_Meta su))])
       (wrap ''failed to list backup ConfigMaps: '') (\<lambda>backups.
         case backups of [] \<Rightarrow> none | latest # _ \<Rightarrow> restore_data E Y pfx latest)"

definition no_backup :: "SelfUpgrade \<Rightarrow> unit cact" where
  "no_backup su = fail (Errorf (''no backup found for self-upgrade '' @ m_Name (su_Meta su)))"

definition rollback_deployment :: "env \<Rightarrow> SelfUpgradeComponent \<Rightarrow> unit cact" where
  "rollback_deployment E c =
     (case deployment_of c of
        None \<Rightarrow> fail (no_deployment c)
      | Some (ns, name, t) \<Rightarrow>
          check (Get_deployment E ns name) (wrap (''failed to get deployment '' @ ns @ ''/'' @ name @ '': '')) (\<lambda>d.
            if wl_ObservedGeneration d < 2 then fail (no_previous ns name)
            else
              check (api_write E (EvPatch (KDeployment (set_first_image drop_tag d))))
                (wrap (''failed to rollback deployment '' @ ns @ ''/'' @ name @ '': '')) ret))"

definition rollbackComponent :: "env \<Rightarrow> su_env \<Rightarrow> SelfUpgrade \<Rightarrow> SelfUpgradeComponent \<Rightarrow> unit cact" where
  "rollbackComponent E Y su c =
     (if suc_Type c = ''deployment'' then rollback_deployment E c
      else if suc_Type c = ''crd'' then restore_backup E Y su ''crd-'' (no_backup su)
      else if suc_Type c = ''rbac'' \<or> suc_Type c = ''webhook'' then
        restore_backup E Y su (if suc_Type c = ''webhook'' then ''webhook-'' else ''rbac-'') (no_backup su)
      else restore_backup E Y su (suc_Name c @ ''-'') (ret ()))"

section \<open>Rolling back a deployment\<close>

lemma drop_tag_tagged: "a \<noteq> [] \<Longrightarrow> CHR '':'' \<notin> set b \<Longrightarrow> drop_tag (a @ CHR '':'' # b) = a"
  by (simp add: drop_tag_def last_index_append)

lemma drop_tag_upgraded:
  assumes "CHR '':'' \<notin> set (sus_TargetVersion spec)" and "\<forall>img\<in>set (wl_Images d). img \<noteq> []"
  shows "map_first drop_tag (wl_Images (su_upgraded spec d)) = wl_Images d"
  using assms by (cases "wl_Images d") (simp_all add: su_upgraded_def Let_def drop_tag_tagged)

text \<open>
  Rolling a deployment back undoes what its upgrade did to the images: if the deployment that is read
  has the images its upgrade gave it, one patch writes the original images. The target version has no
  colon, and the deployment has been observed at least twice.
\<close>

theorem rollback_restores_images:
  assumes "deployment_of c = Some (ns, name, t)" and "k_get_deployment (kube E) (w_log w) ns name = Inr d'"
    and "wl_Images d' = wl_Images (su_upgraded spec d)" and "CHR '':'' \<notin> set (sus_TargetVersion spec)"
    and "\<forall>img\<in>set (wl_Images d). img \<noteq> []" and "2 \<le> wl_ObservedGeneration d'" and "k_write (kube E) = (\<lambda>l ev. None)"
  shows "\<exists>d''. rollback_deployment E c w
      = (Ok (), w\<lparr>w_log := w_log w @ [EvGet ''Deployment'' ns name, EvPatch (KDeployment d'')]\<rparr>) \<and> wl_Images d'' = wl_Images d"
  using assms drop_tag_upgraded [OF assms(4,5)]
  by (intro exI [of _ "set_first_image drop_tag d'"]) (simp add: rollback_deployment_def Get_deployment_def query_def act_simps api_write_def command_def)

definition example_deployment :: SelfUpgradeComponent where
  "example_deployment = \<lparr>suc_Name = ''manager'', suc_Type = ''deployment'', suc_Order = 1, suc_Blocking = True, suc_DependsOn = [],
     suc_HealthCheck = Some \<lparr>hc_Type = ''DeploymentReady'', hc_Namespace = ''cvo-system'', hc_Name = ''cvo-controller-manager'',
       hc_LabelSelector = [], hc_Endpoint = [], hc_Timeout = 0\<rparr>\<rparr>"

definition example_env :: "workload \<Rightarrow> env" where
  "example_env d = quiet_env\<lparr>kube := quiet_kube\<lparr>k_get_deployment := (\<lambda>l ns n. Inr d)\<rparr>\<rparr>"

theorem rollback_restores_images_witness:
  "\<exists>w' d''. rollback_deployment (example_env (su_upgraded (su_Spec zero_SelfUpgrade\<lparr>sus_TargetVersion := ''v2''\<rparr>)
        (zero_workload\<lparr>wl_Images := [''registry:5000/cvo''], wl_ObservedGeneration := 2\<rparr>))) example_deployment empty_world = (Ok (), w')
     \<and> last (w_log w') = EvPatch (KDeployment d'') \<and> wl_Images d'' = [''registry:5000/cvo'']"
proof -
  let ?spec = "su_Spec zero_SelfUpgrade\<lparr>sus_TargetVersion := ''v2''\<rparr>"
  let ?d = "zero_workload\<lparr>wl_Images := [''registry:5000/cvo''], wl_ObservedGeneration := 2\<rparr>"
  let ?E = "example_env (su_upgraded ?spec ?d)"
  have "deployment_of example_deployment = Some (''cvo-system'', ''cvo-controller-manager'', 0)"
    "k_get_deployment (kube ?E) (w_log empty_world) ''cvo-system'' ''cvo-controller-manager'' = Inr (su_upgraded ?spec ?d)"
    "CHR '':'' \<notin> set (sus_TargetVersion ?spec)" "\<forall>img\<in>set (wl_Images ?d). img \<noteq> []"
    "2 \<le> wl_ObservedGeneration (su_upgraded ?spec ?d)" "k_write (kube ?E) = (\<lambda>l ev. None)"
    by (simp_all add: deployment_of_def example_deployment_def example_env_def su_upgraded_def Let_def quiet_kube_def)
  from rollback_restores_images [OF this(1,2) refl this(3-6)] show ?thesis by auto
qed

section \<open>What a backup holds\<close>

definition backup_key :: "string \<Rightarrow> bool" where
  "backup_key k \<longleftrightarrow> prefix ''crd-'' k \<or> prefix ''deployment-'' k"

lemma backup_key_upd:
  assumes "\<forall>k\<in>fst ` set data. backup_key k"
  shows "\<forall>k\<in>fst ` set (upd_key (''crd-'' @ n) v data). backup_key k" and "\<forall>k\<in>fst ` set (upd_key (''deployment-'' @ n) v data). backup_key k"
  unfolding keys_upd_key using assms by (auto simp: backup_key_def)

lemma backup_crds_keys: "\<forall>k\<in>fst ` set (backup_crds Y crds). backup_key k"
proof -
  have "\<forall>k\<in>fst ` set (foldl (\<lambda>data c. case y_marshal_crd Y c of Inl e \<Rightarrow> data
      | Inr text \<Rightarrow> upd_key (''crd-'' @ crd_Name c @ ''.yaml'') text data) acc crds). backup_key k"
    if "\<forall>k\<in>fst ` set acc. backup_key k" for acc
    using that
  proof (induction crds arbitrary: acc)
    case (Cons c crds)
    have "\<forall>k\<in>fst ` set (case y_marshal_crd Y c of Inl e \<Rightarrow> acc
        | Inr text \<Rightarrow> upd_key (''crd-'' @ crd_Name c @ ''.yaml'') text acc). backup_key k"
      using Cons.prems backup_key_upd(1) [OF Cons.prems] by (simp split: sum.split del: append_Cons append_Nil)
    from Cons.IH [OF this] show ?case by (simp only: foldl_Cons)
  qed simp
  from this [of "[]"] show ?thesis by (simp add: backup_crds_def)
qed

lemma backup_deployments_keys:
  assumes "backup_deployments E Y ks data w = (r, w')" and "\<forall>k\<in>fst ` set data. backup_key k"
  shows "(\<exists>data'. r = Ok data' \<and> (\<forall>k\<in>fst ` set data'. backup_key k)) \<and> (\<exists>es. w_log w' = w_log w @ es \<and> list_all (\<lambda>ev. \<exists>ns n. ev = EvGet ''Deployment'' ns n) es)"
  using assms
proof (induction ks arbitrary: data w)
  case (Cons k ks)
  let ?w = "w\<lparr>w_log := w_log w @ [EvGet ''Deployment'' (fst k) (snd k)]\<rparr>"
  from Cons.prems(1) obtain data1 where run: "backup_deployments E Y ks data1 ?w = (r, w')" and "\<forall>k\<in>fst ` set data1. backup_key k"
    using Cons.prems(2) backup_key_upd(2) [OF Cons.prems(2)]
    by (auto simp: Get_deployment_def query_def act_simps simp del: append_Cons split: sum.splits)
  from Cons.IH [OF this] show ?case by auto
qed (auto simp: ret_apply)

lemma backup_writes:
  assumes "backupCurrentConfig E Y su w = (r, w')"
  obtains es where "w_log w' = w_log w @ es" and "\<And>cm. EvCreate (KConfigMap cm) \<in> set es \<Longrightarrow> \<forall>k\<in>fst ` set (data_of cm). backup_key k"
proof -
  let ?w = "w\<lparr>w_log := w_log w @ [EvNow, EvList ''CustomResourceDefinition'' [] capbm_label]\<rparr>"
  show thesis
  proof (cases "k_list_crds (kube E) (w_log w @ [EvNow]) capbm_label")
    case (Inl e)
    with assms have "w_log w' = w_log w @ [EvNow, EvList ''CustomResourceDefinition'' [] capbm_label]"
      by (auto simp: backupCurrentConfig_def time_Now_apply act_simps List_crds_def query_def)
    then show thesis by (rule that) simp
  next
    case (Inr crds)
    obtain r1 w1 where d: "backup_deployments E Y managed_deployments (backup_crds Y crds) ?w = (r1, w1)" by (metis surj_pair)
    from backup_deployments_keys [OF d backup_crds_keys] obtain data es where
      data: "r1 = Ok data" "\<forall>k\<in>fst ` set data. backup_key k" "w_log w1 = w_log ?w @ es" "list_all (\<lambda>ev. \<exists>ns n. ev = EvGet ''Deployment'' ns n) es"
      by blast
    with assms Inr d have "\<exists>cm. cm_Data cm = Some data \<and> w_log w' = w_log w1 @ [EvCreate (KConfigMap cm)]"
      by (auto simp: backupCurrentConfig_def time_Now_apply act_simps List_crds_def query_def create_backup_def api_write_def command_def
          split: option.splits if_splits)
    then obtain cm where cm: "cm_Data cm = Some data" "w_log w' = w_log w1 @ [EvCreate (KConfigMap cm)]" by blast
    with data(3) have "w_log w' = w_log w @ ([EvNow, EvList ''CustomResourceDefinition'' [] capbm_label] @ es @ [EvCreate (KConfigMap cm)])" by simp
    then show thesis
    proof (rule that)
      fix cm' assume "EvCreate (KConfigMap cm') \<in> set ([EvNow, EvList ''CustomResourceDefinition'' [] capbm_label] @ es @ [EvCreate (KConfigMap cm)])"
      with data(4) have "cm' = cm" by (auto simp: list_all_iff)
      with cm(1) data(2) show "\<forall>k\<in>fst ` set (data_of cm'). backup_key k" by (simp add: data_of_def)
    qed
  qed
qed

lemma restore_nothing:
  assumes "range_ok E" and "\<forall>k\<in>fst ` set (data_of cm). \<not> prefix pfx k"
  shows "restore_data E Y pfx cm w = (Ok (), w)"
proof -
  have "set (h_range (host E) (w_log w) (map fst (data_of cm))) = fst ` set (data_of cm)"
    using assms(1) ranges_keys_set [of "h_range (host E) (w_log w)"] by (simp add: range_ok_def)
  with assms(2) have none: "\<forall>k\<in>set (h_range (host E) (w_log w) (map fst (data_of cm))). \<not> HasPrefix k pfx" by (simp add: HasPrefix_def)
  have "for_each ks (\<lambda>k. if HasPrefix k pfx then restore_entry E Y (case map_of (data_of cm) k of None \<Rightarrow> [] | Some c \<Rightarrow> c) else ret ()) w = (Ok (), w)"
    if "\<forall>k\<in>set ks. \<not> HasPrefix k pfx" for ks
    using that by (induction ks) (simp_all add: act_simps)
  from this [OF none] show ?thesis by (simp add: restore_data_def range_map_def act_simps)
qed

text \<open>
  A backup never holds RBAC or webhook objects: when the backup that the controller wrote before the upgrade
  is the one that is found, rolling an RBAC or webhook component back reports success and writes nothing.
\<close>

theorem rbac_rollback_restores_nothing:
  assumes "backupCurrentConfig E Y su w = (r, w')" and "EvCreate (KConfigMap cm) \<in> set (drop (length (w_log w)) (w_log w'))"
    and "suc_Type c = ''rbac'' \<or> suc_Type c = ''webhook''" and "range_ok E1"
    and "k_list_configmaps (kube E1) (w_log w1) (m_Namespace (su_Meta su)) [(''cvo.capbm.io/self-upgrade'', m_Name (su_Meta su))] = Inr (cm # cms)"
  shows "rollbackComponent E1 Y su c w1 = (Ok (), w1\<lparr>w_log := w_log w1
    @ [EvList ''ConfigMap'' (m_Namespace (su_Meta su)) [(''cvo.capbm.io/self-upgrade'', m_Name (su_Meta su))]]\<rparr>)"
proof -
  from assms(1) obtain es where es: "w_log w' = w_log w @ es"
    and created: "\<And>cm. EvCreate (KConfigMap cm) \<in> set es \<Longrightarrow> \<forall>k\<in>fst ` set (data_of cm). backup_key k" by (rule backup_writes) blast
  from assms(2) es created have keys: "\<forall>k\<in>fst ` set (data_of cm). backup_key k" by simp
  have "\<not> prefix ''rbac-'' k \<and> \<not> prefix ''webhook-'' k" if "backup_key k" for k
    using that by (cases k) (auto simp: backup_key_def)
  with keys have "\<forall>k\<in>fst ` set (data_of cm). \<not> prefix ''rbac-'' k" and "\<forall>k\<in>fst ` set (data_of cm). \<not> prefix ''webhook-'' k" by blast+
  with assms(3-5) show ?thesis
    by (auto simp: rollbackComponent_def restore_backup_def List_configmaps_def query_def act_simps restore_nothing)
qed

definition quiet_su :: su_env where
  "quiet_su = \<lparr>y_get_su = (\<lambda>l ns n. Inr zero_SelfUpgrade), y_patch_helper = (\<lambda>su. None), y_marshal_crd = (\<lambda>c. Inr (crd_Name c)),
     y_marshal_deployment = (\<lambda>d. Inr (wl_Name d)), y_type_meta = (\<lambda>s. Inr (''v1'', ''ClusterRole'')),
     y_group_version = (\<lambda>s. Inr ([], s)), y_new_object = (\<lambda>g. Inr True), y_unmarshal = (\<lambda>s g. None), y_turns = (\<lambda>l t. 12)\<rparr>"

definition example_backup :: config_map where
  "example_backup = \<lparr>cm_Name = ''backup--'' @ show_int 0, cm_Namespace = [],
     cm_Labels = [(''app.kubernetes.io/part-of'', ''capbm''), (''cvo.capbm.io/backup'', ''true''), (''cvo.capbm.io/self-upgrade'', [])],
     cm_Data = Some [], cm_BinaryData = []\<rparr>"

lemma example_backup_written:
  "\<exists>w'. backupCurrentConfig quiet_env quiet_su zero_SelfUpgrade empty_world = (Ok (), w') \<and> EvCreate (KConfigMap example_backup) \<in> set (w_log w')"
  by (simp add: backupCurrentConfig_def time_Now_apply act_simps List_crds_def Get_deployment_def query_def create_backup_def
      api_write_def command_def quiet_defs quiet_su_def managed_deployments_def backup_crds_def not_found_def example_backup_def zero_defs)

theorem rbac_rollback_restores_nothing_witness:
  "\<exists>w'. rollbackComponent (quiet_env\<lparr>kube := quiet_kube\<lparr>k_list_configmaps := (\<lambda>l ns s. Inr [example_backup])\<rparr>\<rparr>) quiet_su zero_SelfUpgrade
      (example_deployment\<lparr>suc_Type := ''rbac''\<rparr>) empty_world = (Ok (), w') \<and> list_all (\<lambda>ev. \<not> is_api_write ev) (w_log w')"
proof -
  let ?E = "quiet_env\<lparr>kube := quiet_kube\<lparr>k_list_configmaps := (\<lambda>l ns s. Inr [example_backup])\<rparr>\<rparr>"
  obtain w' where run: "backupCurrentConfig quiet_env quiet_su zero_SelfUpgrade empty_world = (Ok (), w')"
    and "EvCreate (KConfigMap example_backup) \<in> set (w_log w')" using example_backup_written by blast
  then have mem: "EvCreate (KConfigMap example_backup) \<in> set (drop (length (w_log empty_world)) (w_log w'))" by (simp add: empty_world_def)
  have "range_ok ?E" by (simp add: range_ok_def quiet_host_def)
  from rbac_rollback_restores_nothing [OF run mem _ this, of "example_deployment\<lparr>suc_Type := ''rbac''\<rparr>" empty_world "[]"]
  show ?thesis by (simp add: empty_world_def)
qed

end
