(* ===== verification/Self_Upgrade.thy ===== *)
theory Self_Upgrade
  imports Self_Sort Self_Components
begin

text \<open>
  The controller of SelfUpgrade objects,
  \<open>modules/cvo/internal/controllers/selfupgrade_controller.go\<close>: one definition per phase handler,
  on the world and the object, which is patched when \<open>Reconcile\<close> returns. A stack overflow
  ends the Go process without running deferred calls; it is the panic \<open>stack_overflow\<close>, and
  the deferred patch is left out for it.
\<close>

section \<open>Definitions\<close>

type_synonym 'a suact = "(SelfUpgrade, 'a) objact"

definition SelfUpgradeFinalizer :: string where
  "SelfUpgradeFinalizer = ''selfupgrade.cvo.capbm.io''"

abbreviation modify_su :: "(SelfUpgradeStatus \<Rightarrow> SelfUpgradeStatus) \<Rightarrow> unit suact" where
  "modify_su f \<equiv> modify_obj (\<lambda>su. su\<lparr>su_Status := f (su_Status su)\<rparr>)"

abbreviation set_phase :: "SelfUpgradePhase \<Rightarrow> unit suact" where
  "set_phase p \<equiv> modify_su (\<lambda>s. s\<lparr>sust_Phase := p\<rparr>)"

fun put_observed :: "observed_condition \<Rightarrow> observed_condition list \<Rightarrow> observed_condition list" where
  "put_observed c [] = [c]"
| "put_observed c (d # ds) = (if cond_Type d = cond_Type c then c # ds else d # put_observed c ds)"

definition setCondition :: "env \<Rightarrow> string \<Rightarrow> string \<Rightarrow> string \<Rightarrow> string \<Rightarrow> unit suact" where
  "setCondition E conditionType status reason message =
     andthen (on_world (time_Now E)) (\<lambda>now.
       modify_obj (\<lambda>su. su\<lparr>su_Status := (su_Status su)\<lparr>sust_Conditions := put_observed
         \<lparr>cond_Type = conditionType, cond_Status = status, cond_Reason = reason, cond_Message = message,
          cond_LastTransitionTime = now, cond_ObservedGeneration = su_Generation su\<rparr> (sust_Conditions (su_Status su))\<rparr>\<rparr>))"

definition record_event :: "string \<Rightarrow> string \<Rightarrow> string \<Rightarrow> unit suact" where
  "record_event kind reason message = on_world (query (EvRecord kind reason message) (\<lambda>l. Inr ()))"

definition initializeUpgrade :: "env \<Rightarrow> ctrl_result suact" where
  "initializeUpgrade E =
     with_obj (\<lambda>su.
     andthen (if sust_StartedTime (su_Status su) = None
              then andthen (on_world (time_Now E)) (\<lambda>now. modify_su (\<lambda>s. s\<lparr>sust_StartedTime := Some now\<rparr>))
              else ret ()) (\<lambda>_.
     andthen (set_phase PhaseValidating) (\<lambda>_.
     andthen (setCondition E ''Validating'' ''True'' ''Initializing'' ''Starting upgrade validation'') (\<lambda>_.
     andthen (record_event ''Normal'' ''UpgradeStarted'' (''Self-upgrade to '' @ sus_TargetVersion (su_Spec su) @ '' started'')) (\<lambda>_.
       ret requeue_now)))))"

definition su_fail :: "env \<Rightarrow> string \<Rightarrow> string \<Rightarrow> ctrl_result suact" where
  "su_fail E reason message =
     andthen (set_phase PhaseFailed) (\<lambda>_.
     andthen (setCondition E ''Failed'' ''True'' reason message) (\<lambda>_. ret (requeue 0)))"

definition su_validateUpgrade :: "env \<Rightarrow> ctrl_result suact" where
  "su_validateUpgrade E =
     with_obj (\<lambda>su.
       if sus_TargetVersion (su_Spec su) = [] then su_fail E ''ValidationFailed'' ''Target version is required''
       else if sus_Components (su_Spec su) = [] then su_fail E ''ValidationFailed'' ''No components defined''
       else (case validateComponents (sus_Components (su_Spec su)) of
               Some e \<Rightarrow> su_fail E ''ValidationFailed'' (error_string e)
             | None \<Rightarrow>
                 attempt (on_world (validateClusterHealth E)) (\<lambda>r. case r of
                   Inl e \<Rightarrow> su_fail E ''ValidationFailed'' (error_string e)
                 | Inr _ \<Rightarrow>
                     andthen (set_phase PhasePreUpgrade) (\<lambda>_.
                     andthen (setCondition E ''PreUpgrade'' ''True'' ''PreUpgrade'' ''Executing pre-upgrade hooks'') (\<lambda>_.
                       ret requeue_now)))))"

text \<open>\<open>roll_back\<close>: to the phase RollingBack, with a condition.\<close>

definition roll_back :: "env \<Rightarrow> string \<Rightarrow> ctrl_result suact" where
  "roll_back E message =
     andthen (set_phase PhaseRollingBack) (\<lambda>_.
     andthen (setCondition E ''RollingBack'' ''True'' ''RollingBack'' message) (\<lambda>_. ret requeue_now))"

text \<open>The loops over hooks and components return early; \<open>k\<close> is what follows the loop.\<close>

fun pre_hooks :: "env \<Rightarrow> Hook list \<Rightarrow> ctrl_result suact \<Rightarrow> ctrl_result suact" where
  "pre_hooks E [] k = k"
| "pre_hooks E (hook # hooks) k =
     attempt (on_world (executeHook E hook)) (\<lambda>r. case r of
       Inr _ \<Rightarrow> pre_hooks E hooks k
     | Inl e \<Rightarrow>
         if hk_OnFailure hook = ''Abort'' \<or> hk_OnFailure hook = [] then
           with_obj (\<lambda>su.
             if ss_AutoRollback (sus_Strategy (su_Spec su))
             then roll_back E (''Pre-upgrade hook '' @ hk_Name hook @ '' failed: '' @ error_string e)
             else su_fail E ''PreUpgradeFailed'' (''Hook '' @ hk_Name hook @ '' failed: '' @ error_string e))
         else pre_hooks E hooks k)"

definition start_upgrading :: "env \<Rightarrow> ctrl_result suact" where
  "start_upgrading E =
     andthen (set_phase PhaseUpgrading) (\<lambda>_.
     andthen (setCondition E ''Upgrading'' ''True'' ''Upgrading'' ''Executing upgrade'') (\<lambda>_. ret requeue_now))"

definition executePreUpgrade :: "env \<Rightarrow> su_env \<Rightarrow> ctrl_result suact" where
  "executePreUpgrade E Y =
     with_obj (\<lambda>su.
       pre_hooks E (sus_PreUpgradeHooks (su_Spec su))
         (attempt (on_world (backupCurrentConfig E Y su)) (\<lambda>r. case r of
            Inl e \<Rightarrow>
              if ss_AutoRollback (sus_Strategy (su_Spec su))
              then andthen (set_phase PhaseRollingBack) (\<lambda>_. ret requeue_now)
              else start_upgrading E
          | Inr _ \<Rightarrow> start_upgrading E)))"

definition isComponentCompleted :: "SelfUpgradeStatus \<Rightarrow> string \<Rightarrow> bool" where
  "isComponentCompleted s name = list_ex (\<lambda>c. cus_Name c = name \<and> cus_Phase c = ''Completed'') (sust_ComponentStatus s)"

fun put_component :: "string \<Rightarrow> (ComponentUpgradeStatus \<Rightarrow> ComponentUpgradeStatus) \<Rightarrow>
    ComponentUpgradeStatus list \<Rightarrow> ComponentUpgradeStatus list" where
  "put_component name f [] = []"
| "put_component name f (c # cs) = (if cus_Name c = name then f c # cs else c # put_component name f cs)"

definition updateComponentStatus :: "env \<Rightarrow> string \<Rightarrow> string \<Rightarrow> string \<Rightarrow> unit suact" where
  "updateComponentStatus E name phase message =
     with_obj (\<lambda>su.
       if list_ex (\<lambda>c. cus_Name c = name) (sust_ComponentStatus (su_Status su)) then
         andthen (modify_su (\<lambda>s. s\<lparr>sust_ComponentStatus :=
             put_component name (\<lambda>c. c\<lparr>cus_Phase := phase, cus_Message := message\<rparr>) (sust_ComponentStatus s)\<rparr>)) (\<lambda>_.
           if phase = ''Completed'' then
             andthen (on_world (time_Now E)) (\<lambda>now. modify_su (\<lambda>s. s\<lparr>sust_ComponentStatus :=
               put_component name (\<lambda>c. c\<lparr>cus_CompletedTime := Some now\<rparr>) (sust_ComponentStatus s)\<rparr>))
           else ret ())
       else
         andthen (on_world (time_Now E)) (\<lambda>started.
         andthen (if phase = ''Completed'' then andthen (on_world (time_Now E)) (\<lambda>now. ret (Some now)) else ret None) (\<lambda>completed.
           modify_su (\<lambda>s. s\<lparr>sust_ComponentStatus := sust_ComponentStatus s @
             [\<lparr>cus_Name = name, cus_Type = [], cus_Phase = phase, cus_StartedTime = Some started,
               cus_CompletedTime = completed, cus_Message = message\<rparr>]\<rparr>))))"

definition start_verifying :: "env \<Rightarrow> ctrl_result suact" where
  "start_verifying E =
     andthen (set_phase PhaseVerifying) (\<lambda>_.
     andthen (setCondition E ''Verifying'' ''True'' ''Verifying'' ''Verifying upgrade'') (\<lambda>_. ret requeue_now))"

fun upgrade_components :: "env \<Rightarrow> su_env \<Rightarrow> SelfUpgradeComponent list \<Rightarrow> ctrl_result suact" where
  "upgrade_components E Y [] = start_verifying E"
| "upgrade_components E Y (c # cs) =
     with_obj (\<lambda>su.
       if isComponentCompleted (su_Status su) (suc_Name c) then upgrade_components E Y cs
       else
         (let finish = andthen (updateComponentStatus E (suc_Name c) ''Completed'' []) (\<lambda>_.
                if cs \<noteq> [] then ret (requeue (2 * second)) else upgrade_components E Y cs)
          in attempt (on_world (upgradeComponent E Y su c)) (\<lambda>r. case r of
               Inr _ \<Rightarrow> finish
             | Inl e \<Rightarrow>
                 andthen (updateComponentStatus E (suc_Name c) ''Failed'' (error_string e)) (\<lambda>_.
                   if suc_Blocking c \<or> ss_AutoRollback (sus_Strategy (su_Spec su))
                   then roll_back E (''Component '' @ suc_Name c @ '' failed: '' @ error_string e)
                   else finish))))"

definition stack_overflow :: string where
  "stack_overflow = ''stack overflow''"

definition su_executeUpgrade :: "env \<Rightarrow> su_env \<Rightarrow> ctrl_result suact" where
  "su_executeUpgrade E Y =
     with_obj (\<lambda>su.
       case self_topologicalSort (sus_Components (su_Spec su)) of
         None \<Rightarrow> panic stack_overflow
       | Some cs \<Rightarrow> upgrade_components E Y cs)"

fun verify_components :: "env \<Rightarrow> SelfUpgradeComponent list \<Rightarrow> ctrl_result suact \<Rightarrow> ctrl_result suact" where
  "verify_components E [] k = k"
| "verify_components E (c # cs) k =
     (if suc_HealthCheck c = None then verify_components E cs k
      else attempt (on_world (su_runHealthCheck E c)) (\<lambda>r. case r of
        Inr _ \<Rightarrow> verify_components E cs k
      | Inl e \<Rightarrow>
          with_obj (\<lambda>su.
            if ss_AutoRollback (sus_Strategy (su_Spec su))
            then andthen (set_phase PhaseRollingBack) (\<lambda>_. ret requeue_now)
            else su_fail E ''VerificationFailed'' (error_string e))))"

definition complete_upgrade :: "env \<Rightarrow> string \<Rightarrow> ctrl_result suact" where
  "complete_upgrade E version =
     andthen (set_phase PhaseCompleted) (\<lambda>_.
     andthen (modify_su (\<lambda>s. s\<lparr>sust_CurrentVersion := version\<rparr>)) (\<lambda>_.
     andthen (on_world (time_Now E)) (\<lambda>now.
     andthen (modify_su (\<lambda>s. s\<lparr>sust_CompletedTime := Some now\<rparr>)) (\<lambda>_.
     andthen (setCondition E ''Completed'' ''True'' ''Completed'' ''Upgrade completed successfully'') (\<lambda>_.
     andthen (record_event ''Normal'' ''UpgradeCompleted'' (''Self-upgrade to '' @ version @ '' completed'')) (\<lambda>_.
       ret (requeue 0)))))))"

definition verifyUpgrade :: "env \<Rightarrow> ctrl_result suact" where
  "verifyUpgrade E =
     with_obj (\<lambda>su.
       verify_components E (sus_Components (su_Spec su))
         (andthen (on_world (for_each (sus_PostUpgradeHooks (su_Spec su)) (\<lambda>hook. attempt (executeHook E hook) (\<lambda>_. ret ())))) (\<lambda>_.
            complete_upgrade E (sus_TargetVersion (su_Spec su)))))"

definition executeRollback :: "env \<Rightarrow> su_env \<Rightarrow> ctrl_result suact" where
  "executeRollback E Y =
     with_obj (\<lambda>su.
       attempt (on_world (for_each (rev (sus_Components (su_Spec su))) (rollbackComponent E Y su))) (\<lambda>r. case r of
         Inl e \<Rightarrow> su_fail E ''RollbackFailed'' (error_string e)
       | Inr _ \<Rightarrow>
           andthen (set_phase PhaseFailed) (\<lambda>_.
           andthen (on_world (time_Now E)) (\<lambda>now.
           andthen (modify_su (\<lambda>s. s\<lparr>sust_CompletedTime := Some now\<rparr>)) (\<lambda>_.
           andthen (setCondition E ''Failed'' ''True'' ''RolledBack'' ''Upgrade rolled back'') (\<lambda>_.
           andthen (record_event ''Warning'' ''UpgradeRolledBack'' ''Self-upgrade rolled back'') (\<lambda>_.
             ret (requeue 0))))))))"

definition su_reconcileDelete :: "ctrl_result suact" where
  "su_reconcileDelete =
     andthen (modify_obj (\<lambda>su. su\<lparr>su_Meta := RemoveFinalizer SelfUpgradeFinalizer (su_Meta su)\<rparr>)) (\<lambda>_. ret (requeue 0))"

definition su_phase :: "env \<Rightarrow> su_env \<Rightarrow> ctrl_result suact" where
  "su_phase E Y =
     with_obj (\<lambda>su. case sust_Phase (su_Status su) of
       PhaseNone \<Rightarrow> initializeUpgrade E
     | PhaseValidating \<Rightarrow> su_validateUpgrade E
     | PhasePreUpgrade \<Rightarrow> executePreUpgrade E Y
     | PhaseUpgrading \<Rightarrow> su_executeUpgrade E Y
     | PhaseVerifying \<Rightarrow> verifyUpgrade E
     | PhaseRollingBack \<Rightarrow> executeRollback E Y
     | PhaseCompleted \<Rightarrow> ret (requeue 0)
     | PhaseFailed \<Rightarrow> ret (requeue 0)
     | _ \<Rightarrow> ret (requeue (5 * second)))"

definition su_body :: "env \<Rightarrow> su_env \<Rightarrow> ctrl_result suact" where
  "su_body E Y =
     with_obj (\<lambda>su.
       if m_DeletionTimestamp (su_Meta su) \<noteq> None then su_reconcileDelete
       else
         andthen (modify_obj (\<lambda>su. su\<lparr>su_Meta := AddFinalizer SelfUpgradeFinalizer (su_Meta su)\<rparr>)) (\<lambda>_.
           if sus_Paused (su_Spec su) then
             andthen (set_phase PhasePending) (\<lambda>_.
             andthen (setCondition E ''Validating'' ''True'' ''Paused'' ''Upgrade is paused'') (\<lambda>_. ret (requeue (30 * second))))
           else su_phase E Y))"

definition patch_su :: "env \<Rightarrow> unit suact" where
  "patch_su E = with_obj (\<lambda>su. attempt (on_world (api_write E (EvPatch (KSelfUpgrade su)))) (\<lambda>_. ret ()))"

definition deferring_alive :: "('w, 'a) act \<Rightarrow> ('w, unit) act \<Rightarrow> ('w, 'a) act" where
  "deferring_alive m d = (\<lambda>w. case m w of
      (Panic s, w') \<Rightarrow> if s = stack_overflow then (Panic s, w') else deferring (\<lambda>_. (Panic s, w')) d w'
    | (r, w') \<Rightarrow> deferring (\<lambda>_. (r, w')) d w')"

definition su_Reconcile :: "env \<Rightarrow> su_env \<Rightarrow> string \<Rightarrow> string \<Rightarrow> ctrl_result cact" where
  "su_Reconcile E Y ns name =
     attempt (query (EvGet ''SelfUpgrade'' ns name) (\<lambda>l. y_get_su Y l ns name)) (\<lambda>got. case got of
       Inl e \<Rightarrow> if IsNotFound e then ret (requeue 0) else fail e
     | Inr su \<Rightarrow>
         (case y_patch_helper Y su of
            Some e \<Rightarrow> fail e
          | None \<Rightarrow> (\<lambda>w. case deferring_alive (su_body E Y) (patch_su E) (w, su) of (res, (w', su')) \<Rightarrow> (res, w'))))"

end
