(* ===== verification/Self_Machine.thy ===== *)
theory Self_Machine
  imports Self_Upgrade
begin

text \<open>
  The phase machine of a self-upgrade: an abstract step relation on the phase and the
  recorded version, and the proof that every round of the controller is a step of it; what
  is invariant along the steps; and how a round in the phase Upgrading makes progress.
\<close>

section \<open>The abstract machine\<close>

type_synonym su_state = "SelfUpgradePhase \<times> string"

inductive su_step :: "SelfUpgradeSpec \<Rightarrow> su_state \<Rightarrow> su_state \<Rightarrow> bool" for spec :: SelfUpgradeSpec where
  pause: "sus_Paused spec \<Longrightarrow> su_step spec (p, v) (PhasePending, v)"
| start: "\<not> sus_Paused spec \<Longrightarrow> su_step spec (PhaseNone, v) (PhaseValidating, v)"
| valid: "\<not> sus_Paused spec \<Longrightarrow> sus_TargetVersion spec \<noteq> [] \<Longrightarrow> sus_Components spec \<noteq> [] \<Longrightarrow>
    validateComponents (sus_Components spec) = None \<Longrightarrow> su_step spec (PhaseValidating, v) (PhasePreUpgrade, v)"
| invalid: "\<not> sus_Paused spec \<Longrightarrow> su_step spec (PhaseValidating, v) (PhaseFailed, v)"
| prepared: "\<not> sus_Paused spec \<Longrightarrow> su_step spec (PhasePreUpgrade, v) (PhaseUpgrading, v)"
| pre_failed: "\<not> sus_Paused spec \<Longrightarrow> \<not> ss_AutoRollback (sus_Strategy spec) \<Longrightarrow> su_step spec (PhasePreUpgrade, v) (PhaseFailed, v)"
| pre_rollback: "\<not> sus_Paused spec \<Longrightarrow> ss_AutoRollback (sus_Strategy spec) \<Longrightarrow> su_step spec (PhasePreUpgrade, v) (PhaseRollingBack, v)"
| component: "\<not> sus_Paused spec \<Longrightarrow> su_step spec (PhaseUpgrading, v) (PhaseUpgrading, v)"
| component_failed: "\<not> sus_Paused spec \<Longrightarrow> su_step spec (PhaseUpgrading, v) (PhaseRollingBack, v)"
| upgraded: "\<not> sus_Paused spec \<Longrightarrow> su_step spec (PhaseUpgrading, v) (PhaseVerifying, v)"
| verified: "\<not> sus_Paused spec \<Longrightarrow> su_step spec (PhaseVerifying, v) (PhaseCompleted, sus_TargetVersion spec)"
| unhealthy: "\<not> sus_Paused spec \<Longrightarrow> \<not> ss_AutoRollback (sus_Strategy spec) \<Longrightarrow> su_step spec (PhaseVerifying, v) (PhaseFailed, v)"
| unhealthy_rollback: "\<not> sus_Paused spec \<Longrightarrow> ss_AutoRollback (sus_Strategy spec) \<Longrightarrow> su_step spec (PhaseVerifying, v) (PhaseRollingBack, v)"
| rolled_back: "\<not> sus_Paused spec \<Longrightarrow> su_step spec (PhaseRollingBack, v) (PhaseFailed, v)"
| at_rest: "\<not> sus_Paused spec \<Longrightarrow> p \<in> {PhaseCompleted, PhaseFailed, PhasePending} \<or> (\<exists>s. p = PhaseOther s) \<Longrightarrow> su_step spec (p, v) (p, v)"

inductive_cases su_step_Completed: "su_step spec s (PhaseCompleted, v)"
inductive_cases su_step_Pending: "su_step spec (PhasePending, v) s"

section \<open>Where the handlers lead\<close>

definition su_state :: "SelfUpgrade \<Rightarrow> su_state" where
  "su_state su = (sust_Phase (su_Status su), sust_CurrentVersion (su_Status su))"

text \<open>\<open>same_state\<close>: the machine does not move. It is a relation that composes.\<close>

definition same_state :: "world \<times> SelfUpgrade \<Rightarrow> world \<times> SelfUpgrade \<Rightarrow> bool" where
  "same_state s s' \<longleftrightarrow> su_Spec (snd s') = su_Spec (snd s) \<and> su_state (snd s') = su_state (snd s)"

interpretation stay: state_relation same_state
  by unfold_locales (auto simp: same_state_def)

lemma stay_on_world: "moves same_state (on_world m)"
  by (rule stay.moves_on_world) (simp add: same_state_def)

lemma stay_modify:
  "(\<And>su. su_Spec (f su) = su_Spec su \<and> su_state (f su) = su_state su) \<Longrightarrow> moves same_state (modify_obj f)"
  by (rule stay.moves_modify_obj) (simp add: same_state_def)

lemmas stay_rules = stay.moves_ret stay.moves_fail stay.moves_panic stay_on_world stay.moves_attempt stay.moves_check
  stay.moves_with_obj stay.moves_when stay.moves_if stay.moves_sum stay.moves_option

lemma stay_setCondition: "moves same_state (setCondition E t s r m)"
  unfolding setCondition_def by (intro stay_rules stay_modify) (simp add: su_state_def)

lemma stay_record: "moves same_state (record_event k r m)"
  unfolding record_event_def by (rule stay_on_world)

lemma stay_updateComponentStatus: "moves same_state (updateComponentStatus E n p m)"
  unfolding updateComponentStatus_def by (intro stay_rules stay_modify) (simp_all add: su_state_def)

text \<open>
  \<open>lands spec Q m\<close>: a run of \<open>m\<close> on an object with this spec keeps the spec, and either it panics
  where the machine stood or it ends in a state of the machine that satisfies \<open>Q\<close>.
\<close>

definition lands :: "SelfUpgradeSpec \<Rightarrow> (su_state \<Rightarrow> su_state \<Rightarrow> bool) \<Rightarrow> 'a suact \<Rightarrow> bool" where
  "lands spec Q m \<longleftrightarrow> (\<forall>s r s'. su_Spec (snd s) = spec \<longrightarrow> m s = (r, s') \<longrightarrow> su_Spec (snd s') = spec \<and>
     ((\<exists>p. r = Panic p) \<and> su_state (snd s') = su_state (snd s) \<or> Q (su_state (snd s)) (su_state (snd s'))))"

lemma landsI:
  "(\<And>s r s'. su_Spec (snd s) = spec \<Longrightarrow> m s = (r, s') \<Longrightarrow> su_Spec (snd s') = spec \<and>
     ((\<exists>p. r = Panic p) \<and> su_state (snd s') = su_state (snd s) \<or> Q (su_state (snd s)) (su_state (snd s')))) \<Longrightarrow> lands spec Q m"
  unfolding lands_def by blast

lemma landsD:
  "lands spec Q m \<Longrightarrow> su_Spec (snd s) = spec \<Longrightarrow> m s = (r, s') \<Longrightarrow> su_Spec (snd s') = spec \<and>
     ((\<exists>p. r = Panic p) \<and> su_state (snd s') = su_state (snd s) \<or> Q (su_state (snd s)) (su_state (snd s')))"
  unfolding lands_def by blast

lemma lands_stay: "moves same_state m \<Longrightarrow> (\<And>p. Q p p) \<Longrightarrow> lands spec Q m"
  unfolding lands_def by (metis movesD same_state_def)

lemma lands_attempt:
  assumes "moves same_state m" and "\<And>x. lands spec Q (k x)"
  shows "lands spec Q (attempt m k)"
proof (rule landsI)
  fix s r s' assume spec: "su_Spec (snd s) = spec" and run: "attempt m k s = (r, s')"
  obtain r1 s1 where m: "m s = (r1, s1)" by (metis surj_pair)
  from movesD [OF assms(1) m] spec have same: "su_Spec (snd s1) = spec" "su_state (snd s1) = su_state (snd s)"
    by (simp_all add: same_state_def)
  note k = landsD [OF assms(2) same(1)]
  show "su_Spec (snd s') = spec \<and>
    ((\<exists>p. r = Panic p) \<and> su_state (snd s') = su_state (snd s) \<or> Q (su_state (snd s)) (su_state (snd s')))"
  proof (cases r1)
    case (Ok x)
    with run m have "k (Inr x) s1 = (r, s')" by (simp add: attempt_apply)
    from k [OF this] same show ?thesis by simp
  next
    case (Err e)
    with run m have "k (Inl e) s1 = (r, s')" by (simp add: attempt_apply)
    from k [OF this] same show ?thesis by simp
  next
    case (Panic e)
    with run m same show ?thesis by (auto simp: attempt_apply)
  qed
qed

lemma lands_panic: "lands spec Q (panic e)"
  by (rule landsI) (auto simp: panic_apply)

lemma lands_with_obj: "(\<And>su. su_Spec su = spec \<Longrightarrow> lands spec Q (k su)) \<Longrightarrow> lands spec Q (with_obj k)"
proof (rule landsI)
  fix s :: "world \<times> SelfUpgrade" and r s'
  assume k: "\<And>su. su_Spec su = spec \<Longrightarrow> lands spec Q (k su)" and spec: "su_Spec (snd s) = spec" and run: "with_obj k s = (r, s')"
  from run have "k (snd s) s = (r, s')" by (simp add: with_obj_def split: prod.splits)
  from landsD [OF k [OF spec] spec this] show "su_Spec (snd s') = spec \<and>
    ((\<exists>p. r = Panic p) \<and> su_state (snd s') = su_state (snd s) \<or> Q (su_state (snd s)) (su_state (snd s')))" .
qed

lemma lands_sum: "(\<And>e. lands spec Q (f e)) \<Longrightarrow> (\<And>x. lands spec Q (g x)) \<Longrightarrow> lands spec Q (case r of Inl e \<Rightarrow> f e | Inr x \<Rightarrow> g x)"
  by (cases r) simp_all

lemma lands_if: "(b \<Longrightarrow> lands spec Q m) \<Longrightarrow> (\<not> b \<Longrightarrow> lands spec Q n) \<Longrightarrow> lands spec Q (if b then m else n)"
  by simp

lemma lands_to:
  assumes "moves same_state k" and "\<And>p v. Q (p, v) (p', v)"
  shows "lands spec Q (andthen (set_phase p') (\<lambda>_. k))"
proof (rule landsI)
  fix s :: "world \<times> SelfUpgrade" and r s' assume spec: "su_Spec (snd s) = spec" and run: "andthen (set_phase p') (\<lambda>_. k) s = (r, s')"
  obtain w su where s: "s = (w, su)" by (cases s)
  with run have "k (w, su\<lparr>su_Status := (su_Status su)\<lparr>sust_Phase := p'\<rparr>\<rparr>) = (r, s')" by (simp add: act_simps)
  from movesD [OF assms(1) this] s spec have "su_Spec (snd s') = spec" "su_state (snd s') = (p', snd (su_state (snd s)))"
    by (simp_all add: same_state_def su_state_def)
  with assms(2) show "su_Spec (snd s') = spec \<and>
    ((\<exists>p. r = Panic p) \<and> su_state (snd s') = su_state (snd s) \<or> Q (su_state (snd s)) (su_state (snd s')))"
    by (metis prod.collapse)
qed

text \<open>Actions that return or panic, but give no error.\<close>

definition no_error :: "('w, 'a) act \<Rightarrow> bool" where
  "no_error m \<longleftrightarrow> (\<forall>s r s'. m s = (r, s') \<longrightarrow> (\<forall>e. r \<noteq> Err e))"

lemma no_error_basic: "no_error (ret x)" "no_error (modify_obj f)" "no_error (on_world (time_Now E))"
  by (auto simp: no_error_def act_simps modify_obj_def on_world_def time_Now_def query_def)

lemma no_error_attempt: "(\<And>x. no_error (k x)) \<Longrightarrow> no_error (attempt m k)"
  unfolding no_error_def by (auto simp: attempt_apply split: prod.splits res.splits)

lemma no_error_check:
  assumes "no_error m" and "\<And>x. no_error (k x)"
  shows "no_error (check m f k)"
  unfolding no_error_def
proof (intro allI impI)
  fix s r s' e assume run: "check m f k s = (r, s')"
  obtain r1 s1 where m: "m s = (r1, s1)" by (metis surj_pair)
  with assms(1) have "\<forall>e. r1 \<noteq> Err e" unfolding no_error_def by blast
  with run m assms(2) show "r \<noteq> Err e" unfolding no_error_def by (cases r1) (auto simp: check_apply)
qed

lemma no_error_more:
  "(\<And>x. no_error (k x)) \<Longrightarrow> no_error (with_obj k)" "no_error m \<Longrightarrow> no_error n \<Longrightarrow> no_error (if b then m else n)"
  "no_error m' \<Longrightarrow> no_error (on_world m')"
  by (auto simp: no_error_def with_obj_def on_world_def split: prod.splits)

lemma no_error_for_each: "(\<And>x. no_error (f x)) \<Longrightarrow> no_error (for_each xs f)"
  by (induction xs) (auto intro: no_error_basic no_error_check)

lemmas no_error_rules = no_error_basic no_error_attempt no_error_check no_error_more no_error_for_each

lemma no_error_updateComponentStatus: "no_error (updateComponentStatus E n p m)"
  unfolding updateComponentStatus_def by (intro no_error_rules)

lemma lands_after:
  assumes "moves same_state m" and "no_error m" and "\<And>x. lands spec Q (k x)"
  shows "lands spec Q (andthen m k)"
proof -
  have "andthen m k s = attempt m (\<lambda>r. case r of Inl e \<Rightarrow> panic [] | Inr x \<Rightarrow> k x) s" for s
  proof -
    obtain r s1 where m: "m s = (r, s1)" by (metis surj_pair)
    with assms(2) have "\<forall>e. r \<noteq> Err e" unfolding no_error_def by blast
    with m show ?thesis by (cases r) (auto simp: act_simps)
  qed
  then have "andthen m k = attempt m (\<lambda>r. case r of Inl e \<Rightarrow> panic [] | Inr x \<Rightarrow> k x)" by (rule ext)
  then show ?thesis by (simp only:) (intro lands_attempt assms(1,3) lands_sum lands_panic)
qed

section \<open>Every round is a step\<close>

lemmas stay_more = stay_rules stay_setCondition stay_record stay_updateComponentStatus

lemma lands_su_fail: "(\<And>p v. Q (p, v) (PhaseFailed, v)) \<Longrightarrow> lands spec Q (su_fail E r m)"
  unfolding su_fail_def by (rule lands_to) (intro stay_more)

lemma lands_roll_back: "(\<And>p v. Q (p, v) (PhaseRollingBack, v)) \<Longrightarrow> lands spec Q (roll_back E m)"
  unfolding roll_back_def by (rule lands_to) (intro stay_more)

lemma lands_start_upgrading: "(\<And>p v. Q (p, v) (PhaseUpgrading, v)) \<Longrightarrow> lands spec Q (start_upgrading E)"
  unfolding start_upgrading_def by (rule lands_to) (intro stay_more)

lemma lands_start_verifying: "(\<And>p v. Q (p, v) (PhaseVerifying, v)) \<Longrightarrow> lands spec Q (start_verifying E)"
  unfolding start_verifying_def by (rule lands_to) (intro stay_more)

lemmas lands_rules = lands_with_obj lands_if lands_sum lands_attempt [OF stay_on_world] lands_panic
  lands_su_fail lands_roll_back lands_start_upgrading lands_start_verifying

definition from_phase :: "SelfUpgradeSpec \<Rightarrow> SelfUpgradePhase \<Rightarrow> su_state \<Rightarrow> su_state \<Rightarrow> bool" where
  "from_phase spec p0 p q \<longleftrightarrow> su_step spec (p0, snd p) q"

lemma lands_initialize: "\<not> sus_Paused spec \<Longrightarrow> lands spec (from_phase spec PhaseNone) (initializeUpgrade E)"
  unfolding initializeUpgrade_def from_phase_def
  by (intro lands_with_obj lands_after lands_to stay_more no_error_rules stay_modify) (simp_all add: su_state_def su_step.start)

lemma lands_validate: "\<not> sus_Paused spec \<Longrightarrow> lands spec (from_phase spec PhaseValidating) (su_validateUpgrade E)"
  unfolding su_validateUpgrade_def from_phase_def
  by (intro lands_rules lands_to stay_more) (auto intro!: su_step.invalid su_step.valid lands_rules lands_to stay_more split: option.split)

lemma lands_pre_hooks:
  assumes "\<not> sus_Paused spec" and "lands spec (from_phase spec PhasePreUpgrade) k"
  shows "lands spec (from_phase spec PhasePreUpgrade) (pre_hooks E hs k)"
proof (induction hs)
  case (Cons h hs)
  with assms(1) show ?case unfolding pre_hooks.simps
    by (intro lands_rules) (auto simp: from_phase_def intro: su_step.pre_failed su_step.pre_rollback)
qed (simp add: assms(2))

lemma lands_preUpgrade: "\<not> sus_Paused spec \<Longrightarrow> lands spec (from_phase spec PhasePreUpgrade) (executePreUpgrade E Y)"
  unfolding executePreUpgrade_def
  by (intro lands_rules lands_pre_hooks lands_to stay_more) (auto simp: from_phase_def intro: su_step.intros)

lemma lands_upgrade_components:
  assumes "\<not> sus_Paused spec"
  shows "lands spec (\<lambda>p q. fst p = PhaseUpgrading \<longrightarrow> su_step spec p q) (upgrade_components E Y cs)"
proof (induction cs)
  case Nil
  show ?case using assms by (auto intro!: lands_start_verifying su_step.upgraded)
next
  case (Cons c cs)
  have stay: "lands spec (\<lambda>p q. fst p = PhaseUpgrading \<longrightarrow> su_step spec p q) (ret x)" for x
    using su_step.component [OF assms] by (intro lands_stay [OF stay.moves_ret]) auto
  show ?case unfolding upgrade_components.simps Let_def using assms
    by (intro lands_rules lands_after stay_updateComponentStatus no_error_updateComponentStatus Cons stay)
       (auto intro: su_step.component_failed)
qed

lemma lands_executeUpgrade:
  "\<not> sus_Paused spec \<Longrightarrow> lands spec (\<lambda>p q. fst p = PhaseUpgrading \<longrightarrow> su_step spec p q) (su_executeUpgrade E Y)"
  unfolding su_executeUpgrade_def
  by (intro lands_with_obj) (auto intro: lands_panic lands_upgrade_components split: option.split)

lemma lands_complete: "lands spec (\<lambda>p q. q = (PhaseCompleted, version)) (complete_upgrade E version)"
proof (rule landsI)
  fix s :: "world \<times> SelfUpgrade" and r s' assume spec: "su_Spec (snd s) = spec"
    and run: "complete_upgrade E version s = (r, s')"
  obtain w su where s: "s = (w, su)" by (cases s)
  let ?k = "andthen (on_world (time_Now E)) (\<lambda>now. andthen (modify_su (\<lambda>s. s\<lparr>sust_CompletedTime := Some now\<rparr>)) (\<lambda>_.
     andthen (setCondition E ''Completed'' ''True'' ''Completed'' ''Upgrade completed successfully'') (\<lambda>_.
     andthen (record_event ''Normal'' ''UpgradeCompleted'' (''Self-upgrade to '' @ version @ '' completed'')) (\<lambda>_. ret (requeue 0)))))"
  have k: "moves same_state ?k" by (intro stay_more stay_modify) (simp add: su_state_def)
  have "?k (w, su\<lparr>su_Status := (su_Status su)\<lparr>sust_Phase := PhaseCompleted, sust_CurrentVersion := version\<rparr>\<rparr>) = (r, s')"
    using run s by (simp add: complete_upgrade_def check_apply [where m = "modify_obj f" for f] modify_obj_apply)
  from movesD [OF k this] s spec show "su_Spec (snd s') = spec \<and>
    ((\<exists>p. r = Panic p) \<and> su_state (snd s') = su_state (snd s) \<or> su_state (snd s') = (PhaseCompleted, version))"
    by (simp add: same_state_def su_state_def)
qed

lemma lands_mono: "lands spec Q m \<Longrightarrow> (\<And>p q. Q p q \<Longrightarrow> Q' p q) \<Longrightarrow> lands spec Q' m"
  unfolding lands_def by blast

lemma lands_verify_components:
  assumes "\<not> sus_Paused spec" and "lands spec (from_phase spec PhaseVerifying) k"
  shows "lands spec (from_phase spec PhaseVerifying) (verify_components E cs k)"
proof (induction cs)
  case (Cons c cs)
  with assms(1) show ?case unfolding verify_components.simps
    by (intro lands_rules lands_to stay_more) (auto simp: from_phase_def intro: su_step.unhealthy su_step.unhealthy_rollback)
qed (simp add: assms(2))

lemma lands_verify:
  assumes "\<not> sus_Paused spec"
  shows "lands spec (from_phase spec PhaseVerifying) (verifyUpgrade E)"
proof -
  have "lands spec (from_phase spec PhaseVerifying) (complete_upgrade E (sus_TargetVersion spec))"
    by (rule lands_mono [OF lands_complete]) (simp add: from_phase_def su_step.verified [OF assms])
  then show ?thesis unfolding verifyUpgrade_def
    by (intro lands_with_obj lands_verify_components [OF assms] lands_after stay_on_world no_error_rules) simp
qed

lemma lands_rollback: "\<not> sus_Paused spec \<Longrightarrow> lands spec (from_phase spec PhaseRollingBack) (executeRollback E Y)"
  unfolding executeRollback_def
  by (intro lands_rules lands_to stay_more stay_modify) (auto simp: from_phase_def su_state_def intro: su_step.rolled_back)

lemma lands_phase:
  assumes "\<not> sus_Paused spec"
  shows "lands spec (su_step spec) (su_phase E Y)"
proof (rule landsI)
  fix s :: "world \<times> SelfUpgrade" and r s'
  assume spec: "su_Spec (snd s) = spec" and run: "su_phase E Y s = (r, s')"
  let ?C = "su_Spec (snd s') = spec \<and>
    ((\<exists>p. r = Panic p) \<and> su_state (snd s') = su_state (snd s) \<or> su_step spec (su_state (snd s)) (su_state (snd s')))"
  have from_handler: ?C if "lands spec (from_phase spec p) m" "m s = (r, s')" "sust_Phase (su_Status (snd s)) = p" for p and m :: "ctrl_result suact"
    using landsD [OF that(1) spec that(2)] that(3) by (auto simp: from_phase_def su_state_def)
  have rest: ?C if "s' = s" "sust_Phase (su_Status (snd s)) \<in> {PhaseCompleted, PhaseFailed, PhasePending} \<or> (\<exists>t. sust_Phase (su_Status (snd s)) = PhaseOther t)"
    using that spec su_step.at_rest [OF assms] by (auto simp: su_state_def)
  note lands_handlers = lands_initialize lands_validate lands_preUpgrade lands_verify lands_rollback
  show ?C
  proof (cases "sust_Phase (su_Status (snd s))")
    case PhaseUpgrading
    then have "su_executeUpgrade E Y s = (r, s')" using run by (simp add: su_phase_def with_obj_def split: prod.splits)
    from landsD [OF lands_executeUpgrade [OF assms] spec this] PhaseUpgrading show ?thesis by (auto simp: su_state_def)
  qed (use run from_handler [OF lands_handlers(1) [OF assms]] from_handler [OF lands_handlers(2) [OF assms]]
      from_handler [OF lands_handlers(3) [OF assms]] from_handler [OF lands_handlers(4) [OF assms]]
      from_handler [OF lands_handlers(5) [OF assms]] rest in \<open>simp add: su_phase_def with_obj_def ret_apply split: prod.splits\<close>)+
qed

lemma lands_body:
  assumes "m_DeletionTimestamp (su_Meta (snd s)) = None" and run: "su_body E Y s = (r, s')"
  shows "su_Spec (snd s') = su_Spec (snd s) \<and> ((\<exists>p. r = Panic p) \<and> su_state (snd s') = su_state (snd s)
    \<or> su_step (su_Spec (snd s)) (su_state (snd s)) (su_state (snd s')))"
proof -
  obtain w su where s: "s = (w, su)" by (cases s)
  let ?su = "su\<lparr>su_Meta := AddFinalizer SelfUpgradeFinalizer (su_Meta su)\<rparr>"
  have same: "su_Spec ?su = su_Spec su" "su_state ?su = su_state su" by (simp_all add: su_state_def)
  show ?thesis
  proof (cases "sus_Paused (su_Spec su)")
    case True
    let ?m = "andthen (set_phase PhasePending) (\<lambda>_. andthen (setCondition E ''Validating'' ''True'' ''Paused'' ''Upgrade is paused'') (\<lambda>_. ret (requeue (30 * second))))"
    have "lands (su_Spec su) (su_step (su_Spec su)) ?m" by (rule lands_to) (intro stay_more, rule su_step.pause [OF True])
    moreover have "?m (w, ?su) = (r, s')" using run s True assms(1) by (simp add: su_body_def act_simps)
    ultimately show ?thesis using landsD [of "su_Spec su" _ ?m "(w, ?su)"] same s by simp
  next
    case False
    then have "su_phase E Y (w, ?su) = (r, s')" using run s assms(1) by (simp add: su_body_def act_simps)
    from landsD [OF lands_phase [OF False] _ this] same s show ?thesis by simp
  qed
qed

lemma body_step:
  assumes "su_body E Y (w, su) = (r, (w', su'))" and "m_DeletionTimestamp (su_Meta su) = None" and "\<nexists>p. r = Panic p"
  shows "su_Spec su' = su_Spec su" and "su_step (su_Spec su) (su_state su) (su_state su')"
proof -
  have "su_Spec su' = su_Spec su \<and> ((\<exists>p. r = Panic p) \<and> su_state su' = su_state su \<or> su_step (su_Spec su) (su_state su) (su_state su'))"
    using lands_body [of "(w, su)", OF _ assms(1)] assms(2) by simp
  with assms(3) show "su_Spec su' = su_Spec su" and "su_step (su_Spec su) (su_state su) (su_state su')" by blast+
qed

text \<open>A round on an object whose spec was edited before it.\<close>

lemma edited_step:
  assumes "su_body E Y (w, su\<lparr>su_Spec := spec\<rparr>) = (r, (w', su'))" and "m_DeletionTimestamp (su_Meta su) = None" and "\<nexists>p. r = Panic p"
  shows "su_Spec su' = spec" and "su_step spec (su_state su) (su_state su')"
  using body_step [OF assms(1) _ assms(3)] assms(2) by (simp_all add: su_state_def)

section \<open>Progress of the components\<close>

abbreviation completed :: "SelfUpgrade \<Rightarrow> string \<Rightarrow> bool" where
  "completed su n \<equiv> isComponentCompleted (su_Status su) n"

lemma completed_put_component:
  assumes "\<And>c. cus_Name (f c) = cus_Name c"
  shows "x \<noteq> n \<Longrightarrow> list_ex (\<lambda>c. cus_Name c = x \<and> cus_Phase c = ''Completed'') (put_component n f cs)
      \<longleftrightarrow> list_ex (\<lambda>c. cus_Name c = x \<and> cus_Phase c = ''Completed'') cs"
    and "list_ex (\<lambda>c. cus_Name c = n) (put_component n f cs) \<longleftrightarrow> list_ex (\<lambda>c. cus_Name c = n) cs"
  using assms by (induction cs) auto

lemma put_component_completes:
  "list_ex (\<lambda>c. cus_Name c = n) cs \<Longrightarrow> list_ex (\<lambda>c. cus_Name c = n \<and> cus_Phase c = ''Completed'')
    (put_component n g (put_component n (\<lambda>c. c\<lparr>cus_Phase := ''Completed'', cus_Message := m\<rparr>) cs))"
  if "\<And>c. cus_Name (g c) = cus_Name c \<and> cus_Phase (g c) = cus_Phase c"
  using that by (induction cs) auto

lemma updateComponentStatus_result:
  "\<exists>w' su'. updateComponentStatus E n phase m (w, su) = (Ok (), (w', su')) \<and> su_Spec su' = su_Spec su \<and> su_Meta su' = su_Meta su
     \<and> su_state su' = su_state su \<and> (\<forall>x. x \<noteq> n \<longrightarrow> completed su' x = completed su x) \<and> (phase = ''Completed'' \<longrightarrow> completed su' n)"
  by (auto simp: updateComponentStatus_def act_simps time_Now_apply isComponentCompleted_def su_state_def
      completed_put_component put_component_completes)

text \<open>What is left to do of a list of components.\<close>

definition remaining :: "SelfUpgrade \<Rightarrow> SelfUpgradeComponent list \<Rightarrow> nat" where
  "remaining su cs = length (filter (\<lambda>c. \<not> completed su (suc_Name c)) cs)"

lemma remaining_less:
  assumes "\<And>x. completed su x \<Longrightarrow> completed su' x" and "c \<in> set cs" and "\<not> completed su (suc_Name c)" and "completed su' (suc_Name c)"
  shows "remaining su' cs < remaining su cs"
  unfolding remaining_def using assms(2)
proof (induction cs)
  case (Cons d ds)
  have le: "length (filter (\<lambda>c. \<not> completed su' (suc_Name c)) ds) \<le> length (filter (\<lambda>c. \<not> completed su (suc_Name c)) ds)"
    using assms(1) by (induction ds) auto
  from Cons le assms show ?case by (cases "d = c") auto
qed simp

lemma leaves_upgrading:
  assumes "lands spec (\<lambda>p q. fst q \<noteq> PhaseUpgrading) m" and "su_Spec su = spec" and "m (w, su) = (Ok r, (w', su'))"
  shows "sust_Phase (su_Status su') \<noteq> PhaseUpgrading"
  using landsD [OF assms(1) _ assms(3)] assms(2) by (auto simp: su_state_def)

lemma upgrade_components_progress:
  assumes "upgrade_components E Y cs (w, su) = (Ok r, (w', su'))" and "sust_Phase (su_Status su') = PhaseUpgrading"
  shows "\<exists>c\<in>set cs. \<not> completed su (suc_Name c) \<and> completed su' (suc_Name c) \<and> (\<forall>x. completed su x \<longrightarrow> completed su' x)"
  using assms
proof (induction cs arbitrary: w su)
  case Nil
  then show ?case using leaves_upgrading [OF lands_start_verifying refl] by auto
next
  case (Cons c cs)
  show ?case
  proof (cases "completed su (suc_Name c)")
    case True
    with Cons show ?thesis by (auto simp: act_simps)
  next
    case False
    let ?finish = "andthen (updateComponentStatus E (suc_Name c) ''Completed'' []) (\<lambda>_.
                if cs \<noteq> [] then ret (requeue (2 * second)) else upgrade_components E Y cs)"
    have finish: ?thesis if run: "?finish (w1, su1) = (Ok r, (w', su'))" and same: "\<And>x. x \<noteq> suc_Name c \<Longrightarrow> completed su1 x = completed su x" for w1 su1
    proof -
      have "\<exists>w2 su2. updateComponentStatus E (suc_Name c) ''Completed'' [] (w1, su1) = (Ok (), (w2, su2))
          \<and> completed su2 (suc_Name c) \<and> (\<forall>x. x \<noteq> suc_Name c \<longrightarrow> completed su2 x = completed su1 x)"
        using updateComponentStatus_result [of E "suc_Name c" "''Completed''" "[]" w1 su1] by auto
      then obtain w2 su2 where u: "updateComponentStatus E (suc_Name c) ''Completed'' [] (w1, su1) = (Ok (), (w2, su2))"
        "completed su2 (suc_Name c)" "\<forall>x. x \<noteq> suc_Name c \<longrightarrow> completed su2 x = completed su1 x" by blast
      have "cs \<noteq> [] \<and> su2 = su'"
      proof (cases "cs = []")
        case True
        with run u(1) have "start_verifying E (w2, su2) = (Ok r, (w', su'))" by (simp add: act_simps)
        with Cons.prems(2) show ?thesis using leaves_upgrading [OF lands_start_verifying refl] by auto
      next
        case False
        with run u(1) show ?thesis by (simp add: act_simps)
      qed
      with u same False show ?thesis by (metis list.set_intros(1))
    qed
    obtain r1 w1 where up: "upgradeComponent E Y su c w = (r1, w1)" by (metis surj_pair)
    show ?thesis
    proof (cases r1)
      case (Ok u)
      with Cons.prems(1) False up have "?finish (w1, su) = (Ok r, (w', su'))" by (simp add: act_simps Let_def)
      then show ?thesis by (rule finish) simp
    next
      case (Err e)
      obtain w2 su2 where u: "updateComponentStatus E (suc_Name c) ''Failed'' (error_string e) (w1, su) = (Ok (), (w2, su2))"
        "\<forall>x. x \<noteq> suc_Name c \<longrightarrow> completed su2 x = completed su x"
        using updateComponentStatus_result [of E "suc_Name c" "''Failed''" "error_string e" w1 su] by blast
      show ?thesis
      proof (cases "suc_Blocking c \<or> ss_AutoRollback (sus_Strategy (su_Spec su))")
        case True
        with Cons.prems(1) False up Err u(1) have "roll_back E (''Component '' @ suc_Name c @ '' failed: '' @ error_string e) (w2, su2) = (Ok r, (w', su'))"
          by (simp add: act_simps Let_def)
        with Cons.prems(2) show ?thesis using leaves_upgrading [OF lands_roll_back refl] by auto
      next
        case noback: False
        with Cons.prems(1) False up Err u(1) have "?finish (w2, su2) = (Ok r, (w', su'))" by (simp add: act_simps Let_def)
        then show ?thesis by (rule finish) (simp add: u(2))
      qed
    next
      case (Panic e)
      with Cons.prems(1) False up show ?thesis by (simp add: act_simps Let_def)
    qed
  qed
qed

section \<open>Properties\<close>

lemma body_phase:
  assumes "m_DeletionTimestamp (su_Meta su) = None" and "\<not> sus_Paused (su_Spec su)"
  shows "su_body E Y (w, su) = su_phase E Y (w, su\<lparr>su_Meta := AddFinalizer SelfUpgradeFinalizer (su_Meta su)\<rparr>)"
  using assms by (simp add: su_body_def act_simps)

lemma patch_su_apply:
  "patch_su E (w, su) = (Ok (), (w\<lparr>w_log := w_log w @ [EvPatch (KSelfUpgrade su)]\<rparr>, su))"
  by (simp add: patch_su_def api_write_def command_def query_def act_simps split: option.split)

text \<open>
  (C6) Every round of the controller on a live SelfUpgrade object that does not panic ends by patching
  the object, and takes it one step along the phase machine: the spec is the one that was
  read, and phase and recorded version change as \<open>su_step\<close> allows.
\<close>

theorem self_upgrade_round_refines:
  assumes "y_get_su Y (w_log w) ns name = Inr su" and "y_patch_helper Y su = None" and "m_DeletionTimestamp (su_Meta su) = None"
    and "su_Reconcile E Y ns name w = (r, w')" and "\<nexists>p. r = Panic p"
  shows "\<exists>su'. last (w_log w') = EvPatch (KSelfUpgrade su') \<and> su_Spec su' = su_Spec su \<and> su_step (su_Spec su) (su_state su) (su_state su')"
proof -
  let ?w = "w\<lparr>w_log := w_log w @ [EvGet ''SelfUpgrade'' ns name]\<rparr>"
  obtain r1 w1 su1 where body: "su_body E Y (?w, su) = (r1, (w1, su1))" by (metis obj_result)
  have end_patch: "last (w_log w') = EvPatch (KSelfUpgrade su1) \<and> r = r1"
    using assms body by (cases r1) (auto simp: su_Reconcile_def query_def act_simps deferring_alive_def patch_su_apply split: if_splits)
  with body_step [OF body assms(3)] assms(5) show ?thesis by blast
qed

text \<open>
  (C8) In the phase Upgrading every round that returns and stays in that phase completes one more
  component: the number of components still to do, and with it the number of such rounds,
  decreases until the phase is left.
\<close>

theorem upgrading_makes_progress:
  assumes "m_DeletionTimestamp (su_Meta su) = None" and "\<not> sus_Paused (su_Spec su)" and "sust_Phase (su_Status su) = PhaseUpgrading"
    and "su_body E Y (w, su) = (Ok r, (w', su'))" and "sust_Phase (su_Status su') = PhaseUpgrading"
  shows "remaining su' (sus_Components (su_Spec su)) < remaining su (sus_Components (su_Spec su))"
proof -
  let ?su = "su\<lparr>su_Meta := AddFinalizer SelfUpgradeFinalizer (su_Meta su)\<rparr>"
  from assms(3,4) have run: "su_executeUpgrade E Y (w, ?su) = (Ok r, (w', su'))"
    by (simp add: body_phase [OF assms(1,2)] su_phase_def act_simps)
  then obtain cs where sort: "self_topologicalSort (sus_Components (su_Spec su)) = Some cs"
    and "upgrade_components E Y cs (w, ?su) = (Ok r, (w', su'))"
    by (auto simp: su_executeUpgrade_def act_simps split: option.splits)
  from upgrade_components_progress [OF this(2) assms(5)] obtain c where c: "c \<in> set cs" "\<not> completed su (suc_Name c)"
    "completed su' (suc_Name c)" "\<And>x. completed su x \<Longrightarrow> completed su' x" by auto
  moreover have "c \<in> set (sus_Components (su_Spec su))" using c(1) self_sort_subset [OF sort] by blast
  ultimately show ?thesis by (intro remaining_less)
qed

text \<open>
  A sequence of rounds: between two rounds the spec may be edited as \<open>edits\<close> allows; every round
  may find the world and its environment in any state.
\<close>

inductive su_rounds :: "(SelfUpgradeSpec \<Rightarrow> SelfUpgradeSpec \<Rightarrow> bool) \<Rightarrow> SelfUpgrade \<Rightarrow> SelfUpgrade \<Rightarrow> bool"
  for edits :: "SelfUpgradeSpec \<Rightarrow> SelfUpgradeSpec \<Rightarrow> bool" and su :: SelfUpgrade where
  none: "su_rounds edits su su"
| round: "su_rounds edits su su1 \<Longrightarrow> edits (su_Spec su1) spec \<Longrightarrow> m_DeletionTimestamp (su_Meta su1) = None \<Longrightarrow>
    su_body E Y (w, su1\<lparr>su_Spec := spec\<rparr>) = (r, (w', su2)) \<Longrightarrow> (\<nexists>p. r = Panic p) \<Longrightarrow> su_rounds edits su su2"

text \<open>
  A self-upgrade that has been paused is never resumed: once its phase is Pending, no sequence
  of rounds, however the spec is edited in between (also to unpause it), leads to another phase
  or another recorded version.
\<close>

theorem paused_self_upgrade_never_resumes:
  assumes "su_rounds edits su su'" and "sust_Phase (su_Status su) = PhasePending"
  shows "sust_Phase (su_Status su') = PhasePending \<and> sust_CurrentVersion (su_Status su') = sust_CurrentVersion (su_Status su)"
  using assms
proof (induction rule: su_rounds.induct)
  case (round su1 spec E Y w r w' su2)
  then have "su_step spec (PhasePending, sust_CurrentVersion (su_Status su)) (su_state su2)"
    using edited_step(2) [OF round.hyps(4,3,5)] by (simp add: su_state_def)
  then show ?case by (auto simp: su_state_def elim: su_step_Pending)
qed simp

text \<open>
  (C7) A self-upgrade that starts from an empty status and whose spec is not edited records a new
  version only by completing, and then the version it records is the target version, which is
  not empty, and its component list passed the validation.
\<close>

theorem completed_self_upgrade:
  assumes "su_rounds (=) su su'" and "sust_Phase (su_Status su) = PhaseNone"
    and "sust_CurrentVersion (su_Status su') \<noteq> sust_CurrentVersion (su_Status su) \<or> sust_Phase (su_Status su') = PhaseCompleted"
  shows "sust_Phase (su_Status su') = PhaseCompleted \<and> sust_CurrentVersion (su_Status su') = sus_TargetVersion (su_Spec su)
    \<and> sus_TargetVersion (su_Spec su) \<noteq> [] \<and> sus_Components (su_Spec su) \<noteq> [] \<and> validateComponents (sus_Components (su_Spec su)) = None"
proof -
  define valid where "valid = (sus_TargetVersion (su_Spec su) \<noteq> [] \<and> sus_Components (su_Spec su) \<noteq> []
    \<and> validateComponents (sus_Components (su_Spec su)) = None)"
  define inv where "inv = (\<lambda>(p, v). (p \<in> {PhasePreUpgrade, PhaseUpgrading, PhaseVerifying, PhaseCompleted} \<longrightarrow> valid)
    \<and> (sus_Paused (su_Spec su) \<longrightarrow> p \<in> {PhaseNone, PhasePending}) \<and> v = (if p = PhaseCompleted then sus_TargetVersion (su_Spec su) else sust_CurrentVersion (su_Status su)))"
  have step: "inv q" if "su_step (su_Spec su) p q" "inv p" for p q
    using that by (induction rule: su_step.induct) (auto simp: inv_def valid_def)
  have "su_Spec su' = su_Spec su \<and> inv (su_state su')" using assms(1)
  proof (induction rule: su_rounds.induct)
    case none
    show ?case using assms(2) by (simp add: inv_def su_state_def)
  next
    case (round su1 spec E Y w r w' su2)
    have spec: "spec = su_Spec su" and inv: "inv (su_state su1)" using round.hyps(2) round.IH by simp_all
    note next_step = edited_step [OF round.hyps(4,3,5)]
    have "inv (su_state su2)" using step [OF next_step(2) [unfolded spec] inv] .
    moreover have "su_Spec su2 = su_Spec su" using next_step(1) spec by (rule trans)
    ultimately show ?case by (rule conjI [rotated])
  qed
  then have "sust_Phase (su_Status su') = PhaseCompleted \<longrightarrow> valid"
    and v: "sust_CurrentVersion (su_Status su') = (if sust_Phase (su_Status su') = PhaseCompleted
      then sus_TargetVersion (su_Spec su) else sust_CurrentVersion (su_Status su))"
    by (simp_all add: inv_def su_state_def)
  moreover have c: "sust_Phase (su_Status su') = PhaseCompleted" using v assms(3) by metis
  ultimately show ?thesis unfolding valid_def by simp
qed

text \<open>
  A component whose upgrade fails, when it is not blocking and automatic rollback is off, is
  recorded as Completed: the next round skips it, and the self-upgrade goes on as if the
  component had been upgraded.
\<close>

theorem failed_component_counts_as_completed:
  assumes "\<not> completed su (suc_Name c)" and "upgradeComponent E Y su c w = (Err e, w1)"
    and "\<not> suc_Blocking c" and "\<not> ss_AutoRollback (sus_Strategy (su_Spec su))" and "cs \<noteq> []"
  shows "\<exists>w' su'. upgrade_components E Y (c # cs) (w, su) = (Ok (requeue (2 * second)), (w', su')) \<and> completed su' (suc_Name c)"
proof -
  obtain w2 su2 where 2: "updateComponentStatus E (suc_Name c) ''Failed'' (error_string e) (w1, su) = (Ok (), (w2, su2))"
    using updateComponentStatus_result by blast
  obtain w3 su3 where 3: "updateComponentStatus E (suc_Name c) ''Completed'' [] (w2, su2) = (Ok (), (w3, su3))" "completed su3 (suc_Name c)"
    using updateComponentStatus_result [of E "suc_Name c" "''Completed''" "[]" w2 su2] by auto
  from assms 2 3 show ?thesis by (auto simp: act_simps Let_def)
qed

section \<open>Witnesses\<close>

lemmas su_eval = su_body_def su_phase_def act_simps body_phase initializeUpgrade_def su_validateUpgrade_def executePreUpgrade_def
  su_executeUpgrade_def verifyUpgrade_def executeRollback_def setCondition_def record_event_def start_upgrading_def start_verifying_def
  complete_upgrade_def roll_back_def su_fail_def time_Now_apply query_def command_def api_write_def quiet_defs quiet_su_def
  validateClusterHealth_def List_nodes_def backupCurrentConfig_def List_crds_def Get_deployment_def managed_deployments_def
  backup_crds_def create_backup_def upgradeComponent_def upgradeCRDs_def not_found_def

theorem self_upgrade_round_refines_witness:
  "\<exists>su' (w' :: world). last (w_log w') = EvPatch (KSelfUpgrade su') \<and> su_step (su_Spec zero_SelfUpgrade) (su_state zero_SelfUpgrade) (su_state su')"
proof -
  obtain r w' where run: "su_Reconcile quiet_env quiet_su ''ns'' ''su'' empty_world = (r, w')" and ok: "\<nexists>p. r = Panic p"
    by (simp add: su_Reconcile_def su_eval zero_defs deferring_alive_def patch_su_apply stack_overflow_def)
  have "m_DeletionTimestamp (su_Meta zero_SelfUpgrade) = None" "y_get_su quiet_su (w_log empty_world) ''ns'' ''su'' = Inr zero_SelfUpgrade"
    "y_patch_helper quiet_su zero_SelfUpgrade = None" by (simp_all add: quiet_su_def zero_SelfUpgrade_def zero_meta_def)
  from self_upgrade_round_refines [OF this(2,3,1) run ok] show ?thesis by blast
qed

definition example_su :: "SelfUpgradePhase \<Rightarrow> SelfUpgradeComponent list \<Rightarrow> SelfUpgrade" where
  "example_su p cs = zero_SelfUpgrade\<lparr>su_Spec := (su_Spec zero_SelfUpgrade)\<lparr>sus_TargetVersion := ''v2'', sus_Components := cs\<rparr>,
     su_Status := (su_Status zero_SelfUpgrade)\<lparr>sust_Phase := p\<rparr>\<rparr>"

lemma example_upgrading_round:
  "\<exists>w' su'. su_body quiet_env quiet_su (empty_world, example_su PhaseUpgrading example_components) = (Ok (requeue (2 * second)), (w', su'))
    \<and> sust_Phase (su_Status su') = PhaseUpgrading"
  by (simp add: su_eval example_su_def example_sorted zero_defs)
     (simp add: example_components_def su_eval Let_def isComponentCompleted_def updateComponentStatus_def)

theorem upgrading_makes_progress_witness:
  "\<exists>su'. remaining su' example_components < remaining (example_su PhaseUpgrading example_components) example_components"
proof -
  obtain w' su' where "su_body quiet_env quiet_su (empty_world, example_su PhaseUpgrading example_components) = (Ok (requeue (2 * second)), (w', su'))"
    "sust_Phase (su_Status su') = PhaseUpgrading" using example_upgrading_round by blast
  from upgrading_makes_progress [OF _ _ _ this] have "remaining su' example_components < remaining (example_su PhaseUpgrading example_components) example_components"
    by (simp add: example_su_def zero_SelfUpgrade_def zero_meta_def)
  then show ?thesis ..
qed

theorem paused_never_resumes_witness:
  "\<exists>su'. su_rounds (\<lambda>_ _. True) (example_su PhasePending example_components) su' \<and> sust_Phase (su_Status su') = PhasePending
     \<and> su' \<noteq> example_su PhasePending example_components"
proof -
  let ?su = "example_su PhasePending example_components"
  obtain w' su' where run: "su_body quiet_env quiet_su (empty_world, ?su\<lparr>su_Spec := su_Spec ?su\<rparr>) = (Ok (requeue (5 * second)), (w', su'))" "su' \<noteq> ?su"
    by (simp add: su_eval example_su_def zero_SelfUpgrade_def zero_meta_def AddFinalizer_def)
  have "su_rounds (\<lambda>_ _. True) ?su su'"
    by (rule su_rounds.round [OF su_rounds.none _ _ run(1)]) (simp_all add: example_su_def zero_SelfUpgrade_def zero_meta_def)
  moreover have "sust_Phase (su_Status ?su) = PhasePending" by (simp add: example_su_def)
  ultimately show ?thesis using paused_self_upgrade_never_resumes run(2) by blast
qed

text \<open>A whole self-upgrade of the CRDs in the quiet environment, phase by phase.\<close>

definition crds_only :: "SelfUpgradeComponent list" where
  "crds_only = [\<lparr>suc_Name = ''crds'', suc_Type = ''crd'', suc_Order = 1, suc_Blocking = True, suc_DependsOn = [], suc_HealthCheck = None\<rparr>]"

lemma crds_only_sorted: "self_topologicalSort crds_only = Some crds_only" "validateComponents crds_only = None"
  by (simp_all add: self_topologicalSort_def crds_only_def dependencies_def sort_finish_def validateComponents_None)

definition live :: "SelfUpgrade \<Rightarrow> bool" where
  "live su \<longleftrightarrow> su_Spec su = su_Spec (example_su PhaseNone crds_only) \<and> m_DeletionTimestamp (su_Meta su) = None"

lemma live_simps:
  assumes "live su"
  shows "sus_Paused (su_Spec su) = False" "sus_TargetVersion (su_Spec su) = ''v2''" "sus_Components (su_Spec su) = crds_only"
    "sus_PreUpgradeHooks (su_Spec su) = []" "sus_PostUpgradeHooks (su_Spec su) = []" "ss_AutoRollback (sus_Strategy (su_Spec su)) = False"
    "m_DeletionTimestamp (su_Meta su) = None" "m_DeletionTimestamp (AddFinalizer f (su_Meta su)) = None"
  using assms by (simp_all add: live_def example_su_def zero_SelfUpgrade_def AddFinalizer_def)

lemma live_upd [simp]:
  "live (su\<lparr>su_Status := s\<rparr>) = live su" "live (su\<lparr>su_Meta := AddFinalizer f (su_Meta su)\<rparr>) = live su"
  by (simp_all add: live_def AddFinalizer_def)

lemma crds_upgraded: "upgradeComponent quiet_env quiet_su su (hd crds_only) w = (Ok (), w\<lparr>w_log := w_log w @ [EvList ''CustomResourceDefinition'' [] capbm_label]\<rparr>)"
  by (simp add: upgradeComponent_def crds_only_def upgradeCRDs_def List_crds_def query_def act_simps quiet_defs)

lemma live_finish:
  "live su \<Longrightarrow> \<exists>w' su'. start_verifying E (w, su) = (Ok requeue_now, (w', su')) \<and> live su' \<and> sust_Phase (su_Status su') = PhaseVerifying"
  by (simp add: start_verifying_def setCondition_def act_simps time_Now_apply)

lemma live_upgrading:
  assumes "live su"
  shows "\<exists>r w' su'. upgrade_components quiet_env quiet_su crds_only (w, su) = (Ok r, (w', su')) \<and> live su' \<and> sust_Phase (su_Status su') = PhaseVerifying"
proof (cases "completed su ''crds''")
  case True
  then show ?thesis using live_finish [OF assms, of quiet_env w] by (auto simp: crds_only_def act_simps)
next
  case False
  let ?w = "w\<lparr>w_log := w_log w @ [EvList ''CustomResourceDefinition'' [] capbm_label]\<rparr>"
  obtain w1 su1 where u: "updateComponentStatus quiet_env ''crds'' ''Completed'' [] (?w, su) = (Ok (), (w1, su1))" "live su1"
    using assms updateComponentStatus_result [of quiet_env "''crds''" "''Completed''" "[]" ?w su] unfolding live_def by (elim exE conjE) auto
  from False u live_finish [OF u(2), of quiet_env w1] show ?thesis
    using crds_upgraded [of su w] by (auto simp: crds_only_def act_simps Let_def)
qed

lemma live_round:
  assumes "live su"
    and "(sust_Phase (su_Status su), q) \<in> {(PhaseNone, PhaseValidating), (PhaseValidating, PhasePreUpgrade), (PhasePreUpgrade, PhaseUpgrading),
      (PhaseUpgrading, PhaseVerifying), (PhaseVerifying, PhaseCompleted)}"
  shows "\<exists>r w' su'. su_body quiet_env quiet_su (empty_world, su) = (Ok r, (w', su')) \<and> live su' \<and> sust_Phase (su_Status su') = q"
proof -
  let ?su = "su\<lparr>su_Meta := AddFinalizer SelfUpgradeFinalizer (su_Meta su)\<rparr>"
  have l: "live ?su" using assms(1) by simp
  have body: "su_body quiet_env quiet_su (empty_world, su) = su_phase quiet_env quiet_su (empty_world, ?su)"
    using live_simps [OF assms(1)] by (intro body_phase) simp_all
  note eval = su_phase_def act_simps su_eval(4-) crds_only_sorted live_simps [OF assms(1)] assms(1)
  consider "sust_Phase (su_Status su) = PhaseNone" "q = PhaseValidating" | "sust_Phase (su_Status su) = PhaseValidating" "q = PhasePreUpgrade"
    | "sust_Phase (su_Status su) = PhasePreUpgrade" "q = PhaseUpgrading" | "sust_Phase (su_Status su) = PhaseUpgrading" "q = PhaseVerifying"
    | "sust_Phase (su_Status su) = PhaseVerifying" "q = PhaseCompleted" using assms(2) by auto
  then show ?thesis
  proof cases
    case 4
    with live_upgrading [OF l, of empty_world] show ?thesis unfolding body
      by (simp add: su_phase_def act_simps su_executeUpgrade_def live_simps [OF assms(1)] crds_only_sorted)
  next
    case 2
    then show ?thesis unfolding body by (simp add: eval) (simp add: crds_only_def)
  next
    case 5
    then show ?thesis unfolding body by (simp add: eval) (simp add: crds_only_def eval)
  qed (simp_all add: body eval)
qed

lemma live_next:
  assumes "su_rounds (=) su0 su" and "live su"
    and "(sust_Phase (su_Status su), q) \<in> {(PhaseNone, PhaseValidating), (PhaseValidating, PhasePreUpgrade), (PhasePreUpgrade, PhaseUpgrading),
      (PhaseUpgrading, PhaseVerifying), (PhaseVerifying, PhaseCompleted)}"
  shows "\<exists>su'. su_rounds (=) su0 su' \<and> live su' \<and> sust_Phase (su_Status su') = q"
proof -
  from live_round [OF assms(2,3)] obtain r w' su' where run: "su_body quiet_env quiet_su (empty_world, su\<lparr>su_Spec := su_Spec su\<rparr>) = (Ok r, (w', su'))"
    and "live su'" "sust_Phase (su_Status su') = q" by auto
  moreover have "su_rounds (=) su0 su'" by (rule su_rounds.round [OF assms(1) refl _ run]) (simp_all add: live_simps [OF assms(2)])
  ultimately show ?thesis by blast
qed

theorem completed_self_upgrade_witness:
  "\<exists>su'. su_rounds (=) (example_su PhaseNone crds_only) su' \<and> sust_Phase (su_Status su') = PhaseCompleted
     \<and> sust_CurrentVersion (su_Status su') = ''v2''"
proof -
  let ?su = "example_su PhaseNone crds_only"
  have start: "su_rounds (=) ?su ?su" "live ?su" "sust_Phase (su_Status ?su) = PhaseNone"
    by (simp_all add: su_rounds.none live_def example_su_def zero_SelfUpgrade_def zero_meta_def)
  from live_next [OF this(1,2), of PhaseValidating] this(3) obtain su1 where 1: "su_rounds (=) ?su su1" "live su1" "sust_Phase (su_Status su1) = PhaseValidating" by auto
  from live_next [OF this(1,2), of PhasePreUpgrade] this(3) obtain su2 where 2: "su_rounds (=) ?su su2" "live su2" "sust_Phase (su_Status su2) = PhasePreUpgrade" by auto
  from live_next [OF this(1,2), of PhaseUpgrading] this(3) obtain su3 where 3: "su_rounds (=) ?su su3" "live su3" "sust_Phase (su_Status su3) = PhaseUpgrading" by auto
  from live_next [OF this(1,2), of PhaseVerifying] this(3) obtain su4 where 4: "su_rounds (=) ?su su4" "live su4" "sust_Phase (su_Status su4) = PhaseVerifying" by auto
  from live_next [OF this(1,2), of PhaseCompleted] this(3) obtain su5 where 5: "su_rounds (=) ?su su5" "sust_Phase (su_Status su5) = PhaseCompleted" by auto
  from completed_self_upgrade [OF 5(1) start(3) disjI2 [OF 5(2)]] 5 show ?thesis by (auto simp: example_su_def)
qed

theorem failed_component_witness:
  "\<exists>w' su'. upgrade_components quiet_env quiet_su
      [\<lparr>suc_Name = ''x'', suc_Type = ''unknown'', suc_Order = 0, suc_Blocking = False, suc_DependsOn = [], suc_HealthCheck = None\<rparr>, hd crds_only]
      (empty_world, example_su PhaseUpgrading crds_only) = (Ok (requeue (2 * second)), (w', su')) \<and> completed su' ''x''"
  using failed_component_counts_as_completed [of "example_su PhaseUpgrading crds_only"
      "\<lparr>suc_Name = ''x'', suc_Type = ''unknown'', suc_Order = 0, suc_Blocking = False, suc_DependsOn = [], suc_HealthCheck = None\<rparr>"
      quiet_env quiet_su empty_world "Errorf ''unknown component type: unknown''" empty_world "[hd crds_only]"]
  by (simp add: upgradeComponent_def fail_apply example_su_def zero_SelfUpgrade_def isComponentCompleted_def del: upgrade_components.simps)

end
