(* ===== verification/Sessions.thy ===== *)
theory Sessions
  imports Contracts
begin

text \<open>
  Reasoning about code that works on an open SSH connection: what it keeps, what a command or a
  script that it ran left in the log, and how such code composes. The connection is opened on
  some port of a host and closed by the caller.
\<close>

section \<open>Inside a session\<close>

text \<open>
  \<open>in_session p n port m Q\<close>: started with a live connection \<open>p\<close> to \<open>port\<close> of node \<open>n\<close>, the action keeps the pool and the
  connection, only extends the log, and a value it returns satisfies \<open>Q\<close>.
\<close>

definition in_session :: "nat \<Rightarrow> string \<Rightarrow> int \<Rightarrow> 'a cact \<Rightarrow> ('a \<Rightarrow> log \<Rightarrow> log \<Rightarrow> bool) \<Rightarrow> bool" where
  "in_session p n port m Q \<longleftrightarrow> (\<forall>w r w'. pool_wf w \<longrightarrow> conn_at w p n port \<longrightarrow> m w = (r, w') \<longrightarrow>
     pool_wf w' \<and> conn_at w' p n port \<and> prefix (w_log w) (w_log w') \<and> (\<forall>x. r = Ok x \<longrightarrow> Q x (w_log w) (w_log w')))"

lemma in_sessionD:
  assumes "in_session p n port m Q" and "pool_wf w" and "conn_at w p n port" and "m w = (r, w')"
  shows "pool_wf w'" "conn_at w' p n port" "prefix (w_log w) (w_log w')" "r = Ok x \<Longrightarrow> Q x (w_log w) (w_log w')"
  using assms unfolding in_session_def by blast+

lemma conn_at_log [simp]: "conn_at (w\<lparr>w_log := l\<rparr>) p n port = conn_at w p n port"
  by (simp add: conn_at_def)

lemma in_session_basic:
  "in_session p n port (ret x) (\<lambda>y l0 l1. y = x \<and> l1 = l0)" "in_session p n port (fail e) Q"
  "in_session p n port (query ev f) (\<lambda>x l0 l1. f l0 = Inr x \<and> l1 = l0 @ [ev])"
  by (auto simp: in_session_def act_simps query_def split: sum.splits)

lemma in_session_script: "in_session p n port (ExecuteScript E p script ctx) (\<lambda>x. executed E n script ctx x)"
  unfolding in_session_def
proof (intro allI impI)
  fix w r w' assume "pool_wf w" "conn_at w p n port" "ExecuteScript E p script ctx w = (r, w')"
  with hoareD [OF hoare_ExecuteScript [of n "w_log w" p port E script ctx], of w r w'] show "pool_wf w' \<and> conn_at w' p n port
      \<and> prefix (w_log w) (w_log w') \<and> (\<forall>x. r = Ok x \<longrightarrow> executed E n script ctx x (w_log w) (w_log w'))"
    by (auto dest: grew_prefix)
qed

lemma in_session_attempt:
  assumes "in_session p n port m Q" and "\<And>x. in_session p n port (k (Inr x)) (R x)" and "\<And>e. in_session p n port (k (Inl e)) S"
  shows "in_session p n port (attempt m k) (\<lambda>y l0 l1. (\<exists>x l. Q x l0 l \<and> prefix l0 l \<and> prefix l l1 \<and> R x y l l1) \<or> (\<exists>l. prefix l0 l \<and> S y l l1))"
  unfolding in_session_def
proof (intro allI impI)
  fix w r w' assume wf: "pool_wf w" and conn: "conn_at w p n port" and run: "attempt m k w = (r, w')"
  obtain r1 w1 where m: "m w = (r1, w1)" by (metis surj_pair)
  note c1 = in_sessionD [OF assms(1) wf conn m]
  show "pool_wf w' \<and> conn_at w' p n port \<and> prefix (w_log w) (w_log w') \<and> (\<forall>y. r = Ok y \<longrightarrow>
      (\<exists>x l. Q x (w_log w) l \<and> prefix (w_log w) l \<and> prefix l (w_log w') \<and> R x y l (w_log w')) \<or> (\<exists>l. prefix (w_log w) l \<and> S y l (w_log w')))"
  proof (cases r1)
    case (Ok x)
    with run m have "k (Inr x) w1 = (r, w')" by (simp add: attempt_apply)
    note c2 = in_sessionD [OF assms(2) c1(1,2) this]
    from c1 c2 Ok show ?thesis by (blast intro: prefix_order.trans)
  next
    case (Err e)
    with run m have "k (Inl e) w1 = (r, w')" by (simp add: attempt_apply)
    note c2 = in_sessionD [OF assms(3) c1(1,2) this]
    from c1 c2 show ?thesis by (blast intro: prefix_order.trans)
  next
    case (Panic e)
    with run m c1 show ?thesis by (auto simp: attempt_apply)
  qed
qed

lemma in_session_weaken:
  "in_session p n port m Q \<Longrightarrow> (\<And>x l0 l1. prefix l0 l1 \<Longrightarrow> Q x l0 l1 \<Longrightarrow> Q' x l0 l1) \<Longrightarrow> in_session p n port m Q'"
  unfolding in_session_def by blast

lemma in_session_check:
  assumes "in_session p n port m Q" and "\<And>x. in_session p n port (k x) (R x)"
  shows "in_session p n port (check m f k) (\<lambda>y l0 l1. \<exists>x l. Q x l0 l \<and> prefix l0 l \<and> prefix l l1 \<and> R x y l l1)"
  unfolding check_def
  by (rule in_session_weaken [OF in_session_attempt [OF assms(1), where R = R and S = "\<lambda>_ _ _. False"]])
     (auto intro: assms(2) in_session_basic)

lemma outcome_session:
  assumes "\<And>p. in_session p n port (body p) Q" and "\<And>x l0 l l1 l2. prefix l0 l \<Longrightarrow> prefix l1 l2 \<Longrightarrow> Q x l l1 \<Longrightarrow> Q x l0 l2"
  shows "outcome (check (Connect E sm n port creds) f (\<lambda>p. deferring (body p) (Close (Some p)))) Q"
  unfolding outcome_def
proof (intro allI impI)
  fix w r w' assume wf: "pool_wf w" and run: "check (Connect E sm n port creds) f (\<lambda>p. deferring (body p) (Close (Some p))) w = (r, w')"
  obtain r1 w1 where con: "Connect E sm n port creds w = (r1, w1)" by (metis surj_pair)
  from hoareD [OF hoare_Connect [of "w_log w"] _ con] wf have c: "pool_wf w1" "prefix (w_log w) (w_log w1)" "\<forall>p. r1 = Ok p \<longrightarrow> conn_at w1 p n port"
    by (auto dest: grew_prefix)
  show "pool_wf w' \<and> prefix (w_log w) (w_log w') \<and> (\<forall>x. r = Ok x \<longrightarrow> Q x (w_log w) (w_log w'))"
  proof (cases r1)
    case (Ok p)
    obtain r2 w2 where b: "body p w1 = (r2, w2)" by (metis surj_pair)
    note s = in_sessionD [OF assms(1) c(1) _ b] c(3) [rule_format, OF Ok]
    obtain r3 w3 where cl: "Close (Some p) w2 = (r3, w3)" by (metis surj_pair)
    from hoareD [OF hoare_Close [of n "w_log w2" p port] _ cl] s have d: "r3 = Ok ()" "pool_wf w3" "prefix (w_log w2) (w_log w3)"
      by (auto dest: grew_prefix)
    with run con Ok b cl have "r = r2" "w' = w3" by (simp_all add: act_simps)
    with c s d assms(2) show ?thesis by (blast intro: prefix_order.trans)
  qed (use run con c in \<open>auto simp: act_simps\<close>)
qed

section \<open>Commands\<close>

text \<open>\<open>commanded E h cmd ctx res l0 l1\<close>: the command ran on the host, which answered with \<open>res\<close>.\<close>

definition commanded :: "env \<Rightarrow> string \<Rightarrow> string \<Rightarrow> duration option \<Rightarrow> CommandResult \<Rightarrow> log \<Rightarrow> log \<Rightarrow> bool" where
  "commanded E h cmd ctx res l0 l1 \<longleftrightarrow> (\<exists>l. prefix l0 l \<and> prefix (l @ [EvExec h cmd ctx]) l1
     \<and> s_run (ssh E) l h cmd ctx = RunDone (cr_Stdout res) (cr_Stderr res) (cr_ExitCode res))"

lemma commanded_widen: "commanded E h cmd ctx res l l' \<Longrightarrow> prefix l0 l \<Longrightarrow> prefix l' l1 \<Longrightarrow> commanded E h cmd ctx res l0 l1"
  unfolding commanded_def by (blast intro: prefix_order.trans)

lemma execute_command:
  assumes "ExecuteCommand E p cmd ctx w = (r, w')" and "conn_at w p h port"
  shows "conn_at w' p h port \<and> prefix (w_log w) (w_log w') \<and> (\<forall>s. r \<noteq> Panic s)
    \<and> (\<forall>x. r = Ok x \<longrightarrow> w_log w' = w_log w @ [EvSession h, EvExec h cmd ctx, EvNow]
         \<and> s_run (ssh E) (w_log w @ [EvSession h]) h cmd ctx = RunDone (cr_Stdout x) (cr_Stderr x) (cr_ExitCode x))"
  using assms
  by (auto simp: ExecuteCommand_def act_simps deref_def conn_at_def query_def command_def time_Now_def touch_def state_defs
      split: option.splits run_outcome.splits)

lemma in_session_command: "in_session p n port (ExecuteCommand E p cmd ctx) (\<lambda>x. commanded E n cmd ctx x)"
  unfolding in_session_def
proof (intro allI impI)
  fix w r w' assume wf: "pool_wf w" and at: "conn_at w p n port" and run: "ExecuteCommand E p cmd ctx w = (r, w')"
  have "pool_wf w'" using keeps_pool_operations(4) wf run by (rule keeps_poolD)
  moreover note ex = execute_command [OF run at]
  moreover have "commanded E n cmd ctx x (w_log w) (w_log w')" if "r = Ok x" for x
    unfolding commanded_def by (rule exI [of _ "w_log w @ [EvSession n]"]) (use ex that in simp)
  ultimately show "pool_wf w' \<and> conn_at w' p n port \<and> prefix (w_log w) (w_log w')
      \<and> (\<forall>x. r = Ok x \<longrightarrow> commanded E n cmd ctx x (w_log w) (w_log w'))" by blast
qed

section \<open>Control flow\<close>

lemma in_session_retI: "(\<And>l. Q x l l) \<Longrightarrow> in_session p n port (ret x) Q"
  by (auto simp: in_session_def act_simps)

lemma in_session_panic: "in_session p n port (panic s) Q"
  by (auto simp: in_session_def act_simps)

lemma in_session_if:
  "(b \<Longrightarrow> in_session p n port m Q) \<Longrightarrow> (\<not> b \<Longrightarrow> in_session p n port m' Q) \<Longrightarrow> in_session p n port (if b then m else m') Q"
  by simp

lemma in_session_when:
  "(b \<Longrightarrow> in_session p n port m (\<lambda>_. Q)) \<Longrightarrow> in_session p n port (when_act b m) (\<lambda>_ l0 l1. b \<longrightarrow> Q l0 l1)"
  by (auto simp: when_act_def intro: in_session_retI in_session_weaken)

lemma in_session_then:
  assumes "in_session p n port m Q" and "\<And>x. in_session p n port (k x) R"
    and "\<And>x y l0 l l1. Q x l0 l \<Longrightarrow> prefix l0 l \<Longrightarrow> prefix l l1 \<Longrightarrow> R y l l1 \<Longrightarrow> S y l0 l1"
  shows "in_session p n port (check m f k) S"
  by (rule in_session_weaken [OF in_session_check [OF assms(1,2)]]) (blast intro: assms(3))

lemma in_session_any: "in_session p n port m Q \<Longrightarrow> in_session p n port m (\<lambda>_ _ _. True)"
  by (rule in_session_weaken) simp_all

section \<open>Scripts whose failure is not handled\<close>

text \<open>
  The CAPBM code runs its scripts with \<open>result, err := ExecuteScript(...)\<close> and builds the error message
  from \<open>result.Stderr\<close>. On an error \<open>ExecuteScript\<close> returns a nil result, so the message is never built:
  the dereference panics. A script that ran is judged by its exit code.
\<close>

definition nil_deref :: string where
  "nil_deref = ''nil pointer dereference''"

definition run_script :: "env \<Rightarrow> nat \<Rightarrow> string \<Rightarrow> duration option \<Rightarrow> CommandResult cact" where
  "run_script E p script ctx = attempt (ExecuteScript E p script ctx) (\<lambda>r. case r of Inl e \<Rightarrow> panic nil_deref | Inr x \<Rightarrow> ret x)"

definition exit_text :: "string \<Rightarrow> CommandResult \<Rightarrow> error" where
  "exit_text what r = Errorf (what @ '' failed with exit code '' @ show_int (cr_ExitCode r) @ '': '' @ cr_Stderr r)"

definition run_checked :: "env \<Rightarrow> nat \<Rightarrow> string \<Rightarrow> duration option \<Rightarrow> string \<Rightarrow> unit cact" where
  "run_checked E p script ctx what =
     andthen (run_script E p script ctx) (\<lambda>r. if cr_ExitCode r \<noteq> 0 then fail (exit_text what r) else ret ())"

lemma in_session_run_script: "in_session p n port (run_script E p script ctx) (\<lambda>x. executed E n script ctx x)"
  unfolding run_script_def
  by (rule in_session_weaken [OF in_session_attempt [OF in_session_script, where R = "\<lambda>x y l0 l1. y = x \<and> l1 = l0" and S = "\<lambda>_ _ _. False"]])
     (auto intro: in_session_basic in_session_panic)

lemma in_session_run_checked: "in_session p n port (run_checked E p script ctx what) (\<lambda>_. ran_ok E n script ctx)"
  unfolding run_checked_def
  by (rule in_session_weaken [OF in_session_check [OF in_session_run_script, where R = "\<lambda>x _ l0 l1. cr_ExitCode x = 0 \<and> l1 = l0"]])
     (auto intro: in_session_basic in_session_weaken [OF in_session_basic(1)] simp: ran_ok_def)

lemma run_script_panics:
  "ExecuteScript E p script ctx w = (Err e, w') \<Longrightarrow> run_script E p script ctx w = (Panic nil_deref, w')"
  by (simp add: run_script_def act_simps)

lemma run_checked_panics:
  "ExecuteScript E p script ctx w = (Err e, w') \<Longrightarrow> run_checked E p script ctx what w = (Panic nil_deref, w')"
  by (simp add: run_checked_def run_script_panics act_simps)

end
