(* ===== verification/Backup_Rollback.thy ===== *)
theory Backup_Rollback
  imports Control_Plane Addon_Upgrader Sessions
begin

text \<open>
  Backup and rollback of the components of a release, \<open>modules/cvo/internal/upgrader/backup_rollback.go\<close>:
  \<open>BackupComponents\<close>, \<open>RollbackComponent\<close> and everything they call, scripts included. The maps of
  the code are association lists read in the order of \<open>range_map\<close>.
\<close>

section \<open>Definitions\<close>

record BackupRollbackExecutor =
  bre_sshManager :: SSHManager

definition NewBackupRollbackExecutor :: "SSHManager \<Rightarrow> BackupRollbackExecutor" where
  "NewBackupRollbackExecutor sm = \<lparr>bre_sshManager = sm\<rparr>"

definition br_getClusterNodes :: "env \<Rightarrow> ClusterVersion \<Rightarrow> node list cact" where
  "br_getClusterNodes E cluster = List_nodes E [(''cluster.x-k8s.io/cluster-name'', ref_Name (cvs_ClusterRef (cv_Spec cluster)))]"

definition getComponentUpgradeConfigsWithNames :: "ReleaseImage \<Rightarrow> (string \<times> ComponentUpgradeConfig) list" where
  "getComponentUpgradeConfigsWithNames ri =
     (let cs = ris_Components (ri_Spec ri);
          put = (\<lambda>n u configs. case u of None \<Rightarrow> configs | Some c \<Rightarrow> upd_key n c configs);
          bin = put ''containerd'' (bc_Upgrade (rc_Containerd cs)) (put ''kubernetes'' (kc_Upgrade (rc_Kubernetes cs)) [])
      in fold (\<lambda>a. put (ad_Name a) (ad_Upgrade a)) (ris_Addons (ri_Spec ri)) bin)"

definition getComponentUpgradeConfig :: "ReleaseImage \<Rightarrow> string \<Rightarrow> ComponentUpgradeConfig option" where
  "getComponentUpgradeConfig ri name =
     (let cs = ris_Components (ri_Spec ri) in
      if name = ''kubernetes'' \<and> kc_Upgrade (rc_Kubernetes cs) \<noteq> None then kc_Upgrade (rc_Kubernetes cs)
      else if name = ''containerd'' \<and> bc_Upgrade (rc_Containerd cs) \<noteq> None then bc_Upgrade (rc_Containerd cs)
      else (case List.find (\<lambda>a. ad_Name a = name \<and> ad_Upgrade a \<noteq> None) (ris_Addons (ri_Spec ri)) of
              Some a \<Rightarrow> ad_Upgrade a
            | None \<Rightarrow> None))"

definition getComponentPreHooks :: "ReleaseImage \<Rightarrow> string \<Rightarrow> AddonHook list" where
  "getComponentPreHooks ri name =
     (let cs = ris_Components (ri_Spec ri) in
      if name = ''kubernetes'' then kc_PreHooks (rc_Kubernetes cs)
      else if name = ''containerd'' then bc_PreHooks (rc_Containerd cs)
      else (case List.find (\<lambda>a. ad_Name a = name) (ris_Addons (ri_Spec ri)) of Some a \<Rightarrow> ad_PreHooks a | None \<Rightarrow> []))"

definition getComponentPostHooks :: "ReleaseImage \<Rightarrow> string \<Rightarrow> AddonHook list" where
  "getComponentPostHooks ri name =
     (let cs = ris_Components (ri_Spec ri) in
      if name = ''kubernetes'' then kc_PostHooks (rc_Kubernetes cs)
      else if name = ''containerd'' then bc_PostHooks (rc_Containerd cs)
      else (case List.find (\<lambda>a. ad_Name a = name) (ris_Addons (ri_Spec ri)) of Some a \<Rightarrow> ad_PostHooks a | None \<Rightarrow> []))"

subsection \<open>Hooks\<close>

definition br_executeHookOnNode :: "env \<Rightarrow> BackupRollbackExecutor \<Rightarrow> node \<Rightarrow> AddonHook \<Rightarrow> string \<Rightarrow> string \<Rightarrow> unit cact" where
  "br_executeHookOnNode E x n h componentName phase =
     andthen (run_on_node E (bre_sshManager x) (node_Name n) (hook_Command h) (hook_timeout h)
       (wrap (hook_failed_text phase h componentName (node_Name n)))
       (\<lambda>r. Errorf (hook_failed_text phase h componentName (node_Name n) @ cr_Stderr r))) (\<lambda>_. ret ())"

definition during_text :: "AddonHook \<Rightarrow> string \<Rightarrow> string \<Rightarrow> node \<Rightarrow> string" where
  "during_text h phase componentName n =
     ''hook '' @ hook_Name h @ '' failed during '' @ phase @ '' for component '' @ componentName @ '' on node '' @ node_Name n @ '': ''"

definition executeHooksOnNodes ::
  "env \<Rightarrow> BackupRollbackExecutor \<Rightarrow> node list \<Rightarrow> AddonHook list \<Rightarrow> string \<Rightarrow> string \<Rightarrow> unit cact" where
  "executeHooksOnNodes E x nodes hooks componentName phase =
     for_each hooks (\<lambda>h. for_each nodes (\<lambda>n.
       hook_step (hook_OnFailure h) (br_executeHookOnNode E x n h componentName phase) (wrap (during_text h phase componentName n))))"

definition executePreBackupHooks :: "env \<Rightarrow> BackupRollbackExecutor \<Rightarrow> node list \<Rightarrow> string \<Rightarrow> ReleaseImage \<Rightarrow> unit cact" where
  "executePreBackupHooks E x nodes name ri = executeHooksOnNodes E x nodes (getComponentPreHooks ri name) name ''pre-backup''"

definition executePostBackupHooks :: "env \<Rightarrow> BackupRollbackExecutor \<Rightarrow> node list \<Rightarrow> string \<Rightarrow> ReleaseImage \<Rightarrow> unit cact" where
  "executePostBackupHooks E x nodes name ri = executeHooksOnNodes E x nodes (getComponentPostHooks ri name) name ''post-backup''"

definition executePreRollbackHooks :: "env \<Rightarrow> BackupRollbackExecutor \<Rightarrow> node list \<Rightarrow> string \<Rightarrow> ReleaseImage \<Rightarrow> unit cact" where
  "executePreRollbackHooks E x nodes name ri = executeHooksOnNodes E x nodes (getComponentPreHooks ri name) name ''pre-rollback''"

definition executePostRollbackHooks :: "env \<Rightarrow> BackupRollbackExecutor \<Rightarrow> node list \<Rightarrow> string \<Rightarrow> ReleaseImage \<Rightarrow> unit cact" where
  "executePostRollbackHooks E x nodes name ri = executeHooksOnNodes E x nodes (getComponentPostHooks ri name) name ''post-rollback''"

subsection \<open>Backup\<close>

definition backup_script :: "string \<Rightarrow> string \<Rightarrow> string" where
  \<open>backup_script path kind = script_lines [
    ''#!/bin/bash'',
    ''set -euo pipefail'',
    [],
    ''PATH="'' @ path @ ''"'',
    ''TYPE="'' @ kind @ ''"'',
    [],
    ''if [ "$TYPE" = "file" ]; then'',
    ''    if [ ! -f "$PATH" ]; then'',
    ''        echo "File not found: $PATH"'',
    ''        exit 1'',
    ''    fi'',
    ''    cat "$PATH"'',
    ''elif [ "$TYPE" = "directory" ]; then'',
    ''    if [ ! -d "$PATH" ]; then'',
    ''        echo "Directory not found: $PATH"'',
    ''        exit 1'',
    ''    fi'',
    ''    tar -czf - -C "$(dirname "$PATH")" "$(basename "$PATH")" | base64'',
    ''else'',
    ''    echo "Unknown type: $TYPE"'',
    ''    exit 1'',
    ''fi'']\<close>

definition rfc3339 :: string where
  "rfc3339 = ''2006-01-02T15:04:05Z07:00''"

definition backup_map :: "string \<Rightarrow> string \<Rightarrow> BackupItem \<Rightarrow> string \<Rightarrow> string \<Rightarrow> config_map" where
  "backup_map backupName n item stamp content =
     \<lparr>cm_Name = backupName, cm_Namespace = ''cvo-system'',
      cm_Labels = [(''app.kubernetes.io/part-of'', ''capbm''), (''cvo.capbm.io/backup'', ''true''),
        (''cvo.capbm.io/backup-component'', bi_Path item)],
      cm_Data = Some [(''node'', n), (''path'', bi_Path item), (''type'', bi_Type item), (''timestamp'', stamp), (''content'', content)],
      cm_BinaryData = []\<rparr>"

definition store_backup :: "env \<Rightarrow> string \<Rightarrow> string \<Rightarrow> BackupItem \<Rightarrow> string \<Rightarrow> unit cact" where
  "store_backup E backupName n item content =
     andthen (time_Now E) (\<lambda>now.
     attempt (api_write E (EvCreate (KConfigMap (backup_map backupName n item (h_format_time (host E) rfc3339 now) content)))) (\<lambda>r. case r of
       Inr _ \<Rightarrow> ret ()
     | Inl e \<Rightarrow>
         if \<not> IsAlreadyExists e then fail (wrap ''failed to create backup ConfigMap: '' e)
         else
           check (Get_configmap E ''cvo-system'' backupName) (wrap ''failed to get existing backup ConfigMap: '') (\<lambda>existing.
           andthen (set_data (n @ ''-'' @ bi_Path item) content existing) (\<lambda>cm.
           check (api_write E (EvUpdate (KConfigMap cm))) (wrap ''failed to update backup ConfigMap: '') ret))))"

definition backup_on_node :: "env \<Rightarrow> BackupRollbackExecutor \<Rightarrow> string \<Rightarrow> BackupItem \<Rightarrow> node \<Rightarrow> unit cact" where
  "backup_on_node E x backupName item n =
     andthen (run_on_node E (bre_sshManager x) (node_Name n) (backup_script (bi_Path item) (bi_Type item)) None
         (wrap (''failed to backup '' @ bi_Path item @ '' on node '' @ node_Name n @ '': ''))
         (\<lambda>r. Errorf (''backup script failed for '' @ bi_Path item @ '' on node '' @ node_Name n @ '': '' @ cr_Stderr r))) (\<lambda>r.
       store_backup E backupName (node_Name n) item (cr_Stdout r))"

definition backupConfigItem :: "env \<Rightarrow> BackupRollbackExecutor \<Rightarrow> ClusterVersion \<Rightarrow> string \<Rightarrow> BackupItem \<Rightarrow> unit cact" where
  "backupConfigItem E x cluster backupName item =
     andthen (br_getClusterNodes E cluster) (\<lambda>nodes. for_each nodes (backup_on_node E x backupName item))"

definition etcd_snapshot_script :: string where
  \<open>etcd_snapshot_script = script_lines [
    ''#!/bin/bash'',
    ''set -euo pipefail'',
    [],
    ''BACKUP_DIR="/tmp/etcd-backup"'',
    ''TIMESTAMP=$(date +%Y%m%d%H%M%S)'',
    ''SNAPSHOT_FILE="${BACKUP_DIR}/etcd-snapshot-${TIMESTAMP}.db"'',
    [],
    ''mkdir -p "$BACKUP_DIR"'',
    [],
    ''ETCDCTL_API=3 etcdctl snapshot save "$SNAPSHOT_FILE" '' @ backslash,
    ''  --endpoints=https://127.0.0.1:2379 '' @ backslash,
    ''  --cacert=/etc/kubernetes/pki/etcd/ca.crt '' @ backslash,
    ''  --cert=/etc/kubernetes/pki/etcd/server.crt '' @ backslash,
    ''  --key=/etc/kubernetes/pki/etcd/server.key'',
    [],
    ''# Output snapshot as base64'',
    ''base64 "$SNAPSHOT_FILE"'',
    [],
    ''# Clean up old backups'',
    ''ls -t ${BACKUP_DIR}/etcd-snapshot-*.db 2>/dev/null | tail -n +4 | xargs rm -f 2>/dev/null || true'']\<close>

definition snapshot_secret :: "string \<Rightarrow> string \<Rightarrow> string \<Rightarrow> config_map" where
  "snapshot_secret backupName n content =
     \<lparr>cm_Name = backupName, cm_Namespace = ''cvo-system'',
      cm_Labels = [(''app.kubernetes.io/part-of'', ''capbm''), (''cvo.capbm.io/backup'', ''true''), (''cvo.capbm.io/backup-type'', ''etcd-snapshot'')],
      cm_Data = Some [(''snapshot'', content), (''node'', n)], cm_BinaryData = []\<rparr>"

definition createEtcdSnapshot :: "env \<Rightarrow> BackupRollbackExecutor \<Rightarrow> ClusterVersion \<Rightarrow> string \<Rightarrow> unit cact" where
  "createEtcdSnapshot E x cluster backupName =
     andthen (br_getClusterNodes E cluster) (\<lambda>nodes.
       case filter (\<lambda>n. map_of (node_Labels n) ''node-role.kubernetes.io/control-plane'' \<noteq> None) nodes of
         [] \<Rightarrow> fail (Errorf ''no control-plane nodes found for etcd backup'')
       | n # _ \<Rightarrow>
           check (Connect E (bre_sshManager x) (node_Name n) 22 no_creds) (wrap (''failed to connect to node '' @ node_Name n @ '': '')) (\<lambda>p.
             deferring
               (check (ExecuteScript E p etcd_snapshot_script None) (wrap ''failed to execute etcd snapshot script: '') (\<lambda>r.
                  if cr_ExitCode r \<noteq> 0 then fail (Errorf (''etcd snapshot script failed: '' @ cr_Stderr r))
                  else attempt (api_write E (EvCreate (KSecret (snapshot_secret backupName (node_Name n) (cr_Stdout r))))) (\<lambda>res. case res of
                         Inl e \<Rightarrow> if IsAlreadyExists e then ret () else fail (wrap ''failed to create etcd snapshot Secret: '' e)
                       | Inr _ \<Rightarrow> ret ())))
               (Close (Some p))))"

definition backupComponent :: "env \<Rightarrow> BackupRollbackExecutor \<Rightarrow> ClusterVersion \<Rightarrow> string \<Rightarrow> ComponentUpgradeConfig \<Rightarrow> unit cact" where
  "backupComponent E x cluster componentName uc =
     andthen (time_Now E) (\<lambda>now.
       let backupName = ''backup-'' @ m_Name (cv_Meta cluster) @ ''-'' @ h_format_time (host E) ''20060102150405'' now in
       andthen (for_each (bk_Config (cu_Backup uc)) (backupConfigItem E x cluster backupName)) (\<lambda>_.
         when_act (bk_EtcdSnapshot (cu_Backup uc)) (createEtcdSnapshot E x cluster backupName)))"

definition backup_named :: "env \<Rightarrow> BackupRollbackExecutor \<Rightarrow> ClusterVersion \<Rightarrow> ReleaseImage \<Rightarrow> node list \<Rightarrow> string \<Rightarrow> unit cact" where
  "backup_named E x cluster ri nodes name =
     (case map_of (getComponentUpgradeConfigsWithNames ri) name of
        None \<Rightarrow> ret ()
      | Some uc \<Rightarrow>
          if \<not> bk_Enabled (cu_Backup uc) then ret ()
          else
            check (executePreBackupHooks E x nodes name ri) (wrap (''pre-backup hooks failed for component '' @ name @ '': '')) (\<lambda>_.
            check (backupComponent E x cluster name uc) (wrap (''failed to backup component '' @ name @ '': '')) (\<lambda>_.
            check (executePostBackupHooks E x nodes name ri) (wrap (''post-backup hooks failed for component '' @ name @ '': '')) ret)))"

definition BackupComponents :: "env \<Rightarrow> BackupRollbackExecutor \<Rightarrow> ClusterVersion \<Rightarrow> ReleaseImage \<Rightarrow> unit cact" where
  "BackupComponents E x cluster ri =
     andthen (br_getClusterNodes E cluster) (\<lambda>nodes.
     andthen (range_map E (map fst (getComponentUpgradeConfigsWithNames ri))) (\<lambda>names.
       for_each names (backup_named E x cluster ri nodes)))"

subsection \<open>Rollback\<close>

definition executeRollbackScript :: "env \<Rightarrow> BackupRollbackExecutor \<Rightarrow> node \<Rightarrow> string \<Rightarrow> duration \<Rightarrow> unit cact" where
  "executeRollbackScript E x n scriptPath timeout =
     check (Connect E (bre_sshManager x) (node_Name n) 22 no_creds) (wrap (''failed to connect to node '' @ node_Name n @ '': '')) (\<lambda>p.
       deferring
         (check (os_ReadFile E scriptPath) (wrap (''failed to read rollback script '' @ scriptPath @ '': '')) (\<lambda>content.
          check (ExecuteScript E p content (Some timeout)) (wrap (''failed to execute rollback script on node '' @ node_Name n @ '': '')) (\<lambda>r.
            if cr_ExitCode r \<noteq> 0 then fail (Errorf (''rollback script failed on node '' @ node_Name n @ '': '' @ cr_Stderr r)) else ret ())))
         (Close (Some p)))"

text \<open>
  One round of the health check: the first node that fails ends it (\<open>Some\<close> error). When the
  command cannot be executed, \<open>result\<close> is nil and reading its \<open>Stderr\<close> panics.
\<close>

fun health_nodes :: "env \<Rightarrow> BackupRollbackExecutor \<Rightarrow> string \<Rightarrow> duration \<Rightarrow> node list \<Rightarrow> error option cact" where
  "health_nodes E x cmd timeout [] = ret None"
| "health_nodes E x cmd timeout (n # ns) =
     attempt (Connect E (bre_sshManager x) (node_Name n) 22 no_creds) (\<lambda>r. case r of
       Inl e \<Rightarrow> ret (Some (wrap (''failed to connect to node '' @ node_Name n @ '': '') e))
     | Inr p \<Rightarrow>
         attempt (ExecuteScript E p cmd (Some timeout)) (\<lambda>r.
         andthen (Close (Some p)) (\<lambda>_. case r of
           Inl e \<Rightarrow> panic ''nil pointer dereference''
         | Inr res \<Rightarrow>
             if cr_ExitCode res \<noteq> 0 then ret (Some (Errorf (''health check failed on node '' @ node_Name n @ '': '' @ cr_Stderr res)))
             else health_nodes E x cmd timeout ns)))"

fun br_health_rounds :: "env \<Rightarrow> BackupRollbackExecutor \<Rightarrow> string \<Rightarrow> duration \<Rightarrow> node list \<Rightarrow> (error option \<Rightarrow> error) \<Rightarrow> nat \<Rightarrow> error option \<Rightarrow> unit cact" where
  "br_health_rounds E x cmd timeout nodes err 0 lastErr = fail (err lastErr)"
| "br_health_rounds E x cmd timeout nodes err (Suc k) lastErr =
     andthen (health_nodes E x cmd timeout nodes) (\<lambda>bad. case bad of
       None \<Rightarrow> ret ()
     | Some e \<Rightarrow> andthen (time_Sleep (10 * second)) (\<lambda>_. br_health_rounds E x cmd timeout nodes err k (Some e)))"

definition retries_failed :: "int \<Rightarrow> error option \<Rightarrow> error" where
  "retries_failed retries lastErr =
     (let msg = ''health check failed after '' @ show_int retries @ '' retries: ''
      in case lastErr of Some e \<Rightarrow> wrap msg e | None \<Rightarrow> Errorf (msg @ ''%!w(<nil>)''))"

definition br_runHealthCheck :: "env \<Rightarrow> BackupRollbackExecutor \<Rightarrow> ClusterVersion \<Rightarrow> ComponentHealthCheckConfig \<Rightarrow> unit cact" where
  "br_runHealthCheck E x cluster hc =
     (if chc_Command hc = [] then ret ()
      else
        (let timeout = (case chc_Timeout hc of None \<Rightarrow> 5 * minute | Some t \<Rightarrow> t);
             retries = (if chc_Retries hc = 0 then 3 else chc_Retries hc)
         in andthen (br_getClusterNodes E cluster) (\<lambda>nodes.
              br_health_rounds E x (chc_Command hc) timeout nodes (retries_failed retries) (nat retries) None)))"

definition rollback_node ::
  "env \<Rightarrow> BackupRollbackExecutor \<Rightarrow> node list \<Rightarrow> string \<Rightarrow> ReleaseImage \<Rightarrow> string \<Rightarrow> duration \<Rightarrow> node \<Rightarrow> unit cact" where
  "rollback_node E x nodes name ri scriptPath timeout n =
     attempt (executeRollbackScript E x n scriptPath timeout) (\<lambda>r. case r of
       Inr _ \<Rightarrow> ret ()
     | Inl e \<Rightarrow>
         (let msg = ''failed to rollback component '' @ name @ '' on node '' @ node_Name n @ '': '' in
          attempt (executePostRollbackHooks E x nodes name ri) (\<lambda>post. case post of
            Inl postErr \<Rightarrow> fail (Wrapf msg e (''; post-rollback hooks also failed: '' @ error_string postErr))
          | Inr _ \<Rightarrow> fail (wrap msg e))))"

definition RollbackComponent :: "env \<Rightarrow> BackupRollbackExecutor \<Rightarrow> ClusterVersion \<Rightarrow> string \<Rightarrow> ReleaseImage \<Rightarrow> unit cact" where
  "RollbackComponent E x cluster name ri =
     (case getComponentUpgradeConfig ri name of
        None \<Rightarrow> fail (Errorf (''no upgrade config found for component '' @ name))
      | Some uc \<Rightarrow>
          if rb_Script (cu_Rollback uc) = [] then fail (Errorf (''no rollback script defined for component '' @ name))
          else
            (let timeout = (case rb_Timeout (cu_Rollback uc) of None \<Rightarrow> 5 * minute | Some t \<Rightarrow> t) in
             andthen (br_getClusterNodes E cluster) (\<lambda>nodes.
             check (executePreRollbackHooks E x nodes name ri) (wrap (''pre-rollback hooks failed for component '' @ name @ '': '')) (\<lambda>_.
             andthen (for_each nodes (rollback_node E x nodes name ri (rb_Script (cu_Rollback uc)) timeout)) (\<lambda>_.
             check (executePostRollbackHooks E x nodes name ri) (wrap (''post-rollback hooks failed for component '' @ name @ '': '')) (\<lambda>_.
             check (br_runHealthCheck E x cluster (cu_HealthCheck uc)) (wrap (''health check failed after rollback of '' @ name @ '': '')) ret))))))"

section \<open>Hooks\<close>

lemma for_each_append: "for_each (xs @ ys) f = andthen (for_each xs f) (\<lambda>_. for_each ys f)"
  by (induction xs) (auto simp: fun_eq_iff act_simps split: prod.split res.split)

lemma nested_for_each: "for_each xs (\<lambda>x. for_each ys (f x)) = for_each (List.product xs ys) (\<lambda>(x, y). f x y)"
proof (induction xs)
  case (Cons x xs)
  have "for_each (map (Pair x) ys) (\<lambda>(x, y). f x y) = for_each ys (f x)" by (induction ys) simp_all
  with Cons show ?case by (simp add: for_each_append)
qed simp

interpretation node_hooks: hook_runner "\<lambda>(h, n). hook_OnFailure h"
  "\<lambda>(E, x, c, phase) (h, n). br_executeHookOnNode E x n h c phase"
  "\<lambda>(E, x, c, phase) (h, n). wrap (during_text h phase c n)"
  "\<lambda>(E, x, c, phase) hs. for_each hs (\<lambda>(h, n). hook_step (hook_OnFailure h) (br_executeHookOnNode E x n h c phase) (wrap (during_text h phase c n)))"
  by unfold_locales (simp add: case_prod_unfold)

definition hooks_ran_on :: "env \<Rightarrow> AddonHook list \<Rightarrow> node list \<Rightarrow> log \<Rightarrow> log \<Rightarrow> bool" where
  "hooks_ran_on E hooks nodes l0 l1 \<longleftrightarrow> (\<forall>h\<in>set hooks. \<forall>n\<in>set nodes.
     hook_ignored (hook_OnFailure h) \<or> ran_ok E (node_Name n) (hook_Command h) (hook_timeout h) l0 l1)"

lemma contract_executeHooksOnNodes:
  "contract any_event (executeHooksOnNodes E x nodes hooks c phase) (\<lambda>_. hooks_ran_on E hooks nodes)"
proof -
  have one: "contract any_event (br_executeHookOnNode E x n h c phase) (\<lambda>_. ran_ok E (node_Name n) (hook_Command h) (hook_timeout h))" for h n
    unfolding br_executeHookOnNode_def by (rule contract_session) simp
  have "contract any_event (for_each (List.product hooks nodes) (\<lambda>(h, n). hook_step (hook_OnFailure h)
      (br_executeHookOnNode E x n h c phase) (wrap (during_text h phase c n))))
    (\<lambda>_ l0 l1. \<forall>hn\<in>set (List.product hooks nodes). hook_ignored (case hn of (h, n) \<Rightarrow> hook_OnFailure h)
      \<or> (\<exists>l l'. prefix l0 l \<and> prefix l' l1 \<and> (case hn of (h, n) \<Rightarrow> ran_ok E (node_Name n) (hook_Command h) (hook_timeout h)) l l'))"
    using node_hooks.run_contract [of "List.product hooks nodes" any_event "(E, x, c, phase)"
        "\<lambda>(h, n). ran_ok E (node_Name n) (hook_Command h) (hook_timeout h)"] one by auto
  then show ?thesis unfolding executeHooksOnNodes_def nested_for_each
    by (rule contract_weaken) (fastforce simp: hooks_ran_on_def intro: ran_ok_prefix)
qed

section \<open>Rollback\<close>

definition rolled_back_on :: "env \<Rightarrow> string \<Rightarrow> duration \<Rightarrow> string \<Rightarrow> log \<Rightarrow> log \<Rightarrow> bool" where
  "rolled_back_on E path timeout n l0 l1 \<longleftrightarrow> (\<exists>l content. prefix l0 l \<and> h_read_file (host E) l path = Inr content
     \<and> ran_ok E n content (Some timeout) l l1)"

lemma rolled_back_on_widen:
  "prefix l0 l \<Longrightarrow> prefix l1 l2 \<Longrightarrow> rolled_back_on E path timeout n l l1 \<Longrightarrow> rolled_back_on E path timeout n l0 l2"
  unfolding rolled_back_on_def by (meson prefix_order.trans prefix_order.refl ran_ok_prefix)

lemma outcome_rollback_script: "outcome (executeRollbackScript E x n path timeout) (\<lambda>_. rolled_back_on E path timeout (node_Name n))"
  unfolding executeRollbackScript_def
proof (rule outcome_session)
  fix p
  have run: "in_session p (node_Name n) 22 (check (ExecuteScript E p content (Some timeout)) f
      (\<lambda>r. if cr_ExitCode r \<noteq> 0 then fail (g r) else ret ())) (\<lambda>_. ran_ok E (node_Name n) content (Some timeout))" for content f g
  proof (rule in_session_weaken [OF in_session_check [OF in_session_script]])
    show "in_session p (node_Name n) 22 (if cr_ExitCode r \<noteq> 0 then fail (g r) else ret ()) (\<lambda>_ l0 l1. cr_ExitCode r = 0 \<and> l1 = l0)" for r
      by (auto intro: in_session_basic in_session_weaken [OF in_session_basic(1)])
  qed (auto simp: ran_ok_def)
  show "in_session p (node_Name n) 22 (check (os_ReadFile E path) (wrap (''failed to read rollback script '' @ path @ '': '')) (\<lambda>content.
          check (ExecuteScript E p content (Some timeout)) (wrap (''failed to execute rollback script on node '' @ node_Name n @ '': '')) (\<lambda>r.
            if cr_ExitCode r \<noteq> 0 then fail (Errorf (''rollback script failed on node '' @ node_Name n @ '': '' @ cr_Stderr r)) else ret ())))
     (\<lambda>_. rolled_back_on E path timeout (node_Name n))"
    unfolding os_ReadFile_def
    by (rule in_session_weaken [OF in_session_check [OF in_session_basic(3) run]])
       (unfold rolled_back_on_def, blast intro: ran_ok_appendD)
qed (rule rolled_back_on_widen)

lemma outcome_rollback_node:
  "outcome (rollback_node E x nodes name ri path timeout n) (\<lambda>_. rolled_back_on E path timeout (node_Name n))"
proof -
  have post: "outcome (attempt (executePostRollbackHooks E x nodes name ri) (\<lambda>post. case post of Inl e \<Rightarrow> fail (f e) | Inr _ \<Rightarrow> fail g))
      (\<lambda>_ _ _. False)" for f and g :: error
    unfolding executePostRollbackHooks_def
    by (rule outcome_weaken [OF outcome_attempt [OF outcome_contract [OF contract_executeHooksOnNodes],
        where R = "\<lambda>_ _ _ _. False" and S = "\<lambda>_ _ _. False"]]) (auto intro: outcome_fail)
  show ?thesis unfolding rollback_node_def Let_def
    by (rule outcome_weaken [OF outcome_attempt [OF outcome_rollback_script, where R = "\<lambda>_ _ l0 l1. l1 = l0" and S = "\<lambda>_ _ _. False"]])
       (auto intro: outcome_retI post)
qed

lemma outcome_all:
  assumes "\<And>x. x \<in> set xs \<Longrightarrow> outcome (f x) (\<lambda>_. Q x)" and "\<And>x l0 l l1 l2. prefix l0 l \<Longrightarrow> prefix l1 l2 \<Longrightarrow> Q x l l1 \<Longrightarrow> Q x l0 l2"
  shows "outcome (for_each xs f) (\<lambda>_ l0 l1. \<forall>x\<in>set xs. Q x l0 l1)"
  using assms(1)
proof (induction xs)
  case (Cons x xs)
  have "outcome (for_each xs f) (\<lambda>_ l0 l1. \<forall>x\<in>set xs. Q x l0 l1)" using Cons by simp
  then show ?case unfolding for_each.simps
    by (rule outcome_weaken [OF outcome_check [OF Cons.prems [OF list.set_intros(1)]]])
       (auto intro: assms(2) prefix_order.refl)
qed (simp add: outcome_retI)

text \<open>The health check that passes: in its last round the command exited with 0 on every node.\<close>

lemma outcome_health_nodes:
  "outcome (health_nodes E x cmd timeout ns)
     (\<lambda>r l0 l1. r = None \<longrightarrow> (\<forall>n\<in>set ns. ran_ok E (node_Name n) cmd (Some timeout) l0 l1))"
proof (induction ns)
  case Nil
  show ?case by (simp add: outcome_retI)
next
  case (Cons n ns)
  show ?case unfolding outcome_def
  proof (intro allI impI)
    fix w r w' assume wf: "pool_wf w" and run: "health_nodes E x cmd timeout (n # ns) w = (r, w')"
    obtain r1 w1 where con: "Connect E (bre_sshManager x) (node_Name n) 22 no_creds w = (r1, w1)" by (metis surj_pair)
    from hoareD [OF hoare_Connect [of "w_log w"] _ con] wf have c: "pool_wf w1" "prefix (w_log w) (w_log w1)" "\<forall>p. r1 = Ok p \<longrightarrow> conn_at w1 p (node_Name n) 22"
      by (auto dest: grew_prefix)
    show "pool_wf w' \<and> prefix (w_log w) (w_log w') \<and> (\<forall>y. r = Ok y \<longrightarrow> y = None \<longrightarrow>
        (\<forall>n\<in>set (n # ns). ran_ok E (node_Name n) cmd (Some timeout) (w_log w) (w_log w')))"
    proof (cases r1)
      case (Ok p)
      obtain r2 w2 where ex: "ExecuteScript E p cmd (Some timeout) w1 = (r2, w2)" by (metis surj_pair)
      note s = in_sessionD [OF in_session_script c(1) c(3) [rule_format, OF Ok] ex]
      obtain r3 w3 where cl: "Close (Some p) w2 = (r3, w3)" by (metis surj_pair)
      from hoareD [OF hoare_Close [of "node_Name n" "w_log w2" p 22] _ cl] s(1,2) have d: "r3 = Ok ()" "pool_wf w3" "prefix (w_log w2) (w_log w3)"
        by (auto dest: grew_prefix)
      have p3: "prefix (w_log w) (w_log w3)" using c(2) s(3) d(3) by (meson prefix_order.trans)
      show ?thesis
      proof (cases "\<exists>res. r2 = Ok res \<and> cr_ExitCode res = 0")
        case True
        then obtain res where res: "r2 = Ok res" "cr_ExitCode res = 0" by blast
        with run con Ok ex cl d have "health_nodes E x cmd timeout ns w3 = (r, w')" by (simp add: act_simps)
        note rest = outcomeD [OF Cons.IH d(2) this]
        have first: "ran_ok E (node_Name n) cmd (Some timeout) (w_log w) (w_log w')"
          using s(4) [OF res(1)] res(2) c(2) d(3) rest(2) unfolding ran_ok_def [of _ _ _ _ "w_log w1"]
          by (meson ran_ok_def ran_ok_prefix prefix_order.trans)
        have "ran_ok E (node_Name m) cmd (Some timeout) (w_log w) (w_log w')"
          if "ran_ok E (node_Name m) cmd (Some timeout) (w_log w3) (w_log w')" for m
          using that p3 by (rule ran_ok_prefix) simp
        with rest first p3 show ?thesis by (auto intro: prefix_order.trans)
      next
        case False
        have "prefix (w_log w) (w_log w2)" using c(2) s(3) by (rule prefix_order.trans)
        with False run con Ok ex cl d p3 s show ?thesis by (cases r2) (auto simp: act_simps)
      qed
    qed (use run con c in \<open>auto simp: act_simps\<close>)
  qed
qed

definition healthy_on :: "env \<Rightarrow> ClusterVersion \<Rightarrow> ComponentHealthCheckConfig \<Rightarrow> log \<Rightarrow> log \<Rightarrow> bool" where
  "healthy_on E cluster hc l0 l1 \<longleftrightarrow> chc_Command hc \<noteq> [] \<longrightarrow>
     (\<exists>nodes. k_list_nodes (kube E) l0 [(''cluster.x-k8s.io/cluster-name'', ref_Name (cvs_ClusterRef (cv_Spec cluster)))] = Inr nodes \<and>
       (\<forall>n\<in>set nodes. ran_ok E (node_Name n) (chc_Command hc) (Some (case chc_Timeout hc of None \<Rightarrow> 5 * minute | Some t \<Rightarrow> t)) l0 l1))"

lemma outcome_br_health_rounds:
  "outcome (br_health_rounds E x cmd timeout nodes err k lastErr) (\<lambda>_ l0 l1. \<forall>n\<in>set nodes. ran_ok E (node_Name n) cmd (Some timeout) l0 l1)"
proof (induction k arbitrary: lastErr)
  case (Suc k)
  have "outcome (andthen (time_Sleep (10 * second)) (\<lambda>_. br_health_rounds E x cmd timeout nodes err k (Some e)))
      (\<lambda>_ l0 l1. \<forall>n\<in>set nodes. ran_ok E (node_Name n) cmd (Some timeout) l0 l1)" for e
    unfolding time_Sleep_def
    by (rule outcome_then [OF outcome_any [OF outcome_query] Suc]) (auto intro: ran_ok_prefix)
  then have k: "outcome (case bad of None \<Rightarrow> ret () | Some e \<Rightarrow> andthen (time_Sleep (10 * second)) (\<lambda>_. br_health_rounds E x cmd timeout nodes err k (Some e)))
      (\<lambda>_ l0 l1. bad \<noteq> None \<longrightarrow> (\<forall>n\<in>set nodes. ran_ok E (node_Name n) cmd (Some timeout) l0 l1))" for bad
    by (cases bad) (auto intro: outcome_retI)
  show ?case unfolding br_health_rounds.simps
    by (rule outcome_weaken [OF outcome_check [OF outcome_health_nodes k]]) (auto intro: ran_ok_prefix)
qed (simp add: outcome_fail)

lemma outcome_runHealthCheck: "outcome (br_runHealthCheck E x cluster hc) (\<lambda>_. healthy_on E cluster hc)"
proof (cases "chc_Command hc = []")
  case True
  then show ?thesis by (simp add: br_runHealthCheck_def healthy_on_def outcome_retI)
next
  case False
  show ?thesis unfolding br_runHealthCheck_def br_getClusterNodes_def List_nodes_def Let_def if_not_P [OF False]
    by (rule outcome_weaken [OF outcome_check [OF outcome_query outcome_br_health_rounds]])
       (auto simp: healthy_on_def dest: ran_ok_appendD)
qed

text \<open>
  (C13) A rollback of a component that succeeds has done every step, in this order: the pre-rollback
  hooks on all nodes of the cluster, the rollback script (its content as read from its path) with exit
  code 0 on every node, the post-rollback hooks, and the health check on every node, if there is one.
\<close>

theorem RollbackComponent_correct:
  assumes "pool_wf w" and "RollbackComponent E x cluster name ri w = (Ok u, w')"
  shows "\<exists>uc nodes l1 l2 l3. getComponentUpgradeConfig ri name = Some uc
    \<and> k_list_nodes (kube E) (w_log w) [(''cluster.x-k8s.io/cluster-name'', ref_Name (cvs_ClusterRef (cv_Spec cluster)))] = Inr nodes
    \<and> hooks_ran_on E (getComponentPreHooks ri name) nodes (w_log w) l1
    \<and> (\<forall>n\<in>set nodes. rolled_back_on E (rb_Script (cu_Rollback uc)) (case rb_Timeout (cu_Rollback uc) of None \<Rightarrow> 5 * minute | Some t \<Rightarrow> t) (node_Name n) l1 l2)
    \<and> hooks_ran_on E (getComponentPostHooks ri name) nodes l2 l3 \<and> healthy_on E cluster (cu_HealthCheck uc) l3 (w_log w')
    \<and> prefix (w_log w) l1 \<and> prefix l1 l2 \<and> prefix l2 l3 \<and> prefix l3 (w_log w')"
proof -
  from assms(2) obtain uc where uc: "getComponentUpgradeConfig ri name = Some uc" "rb_Script (cu_Rollback uc) \<noteq> []"
    by (auto simp: RollbackComponent_def fail_apply split: option.splits if_splits)
  define T where "T = (case rb_Timeout (cu_Rollback uc) of None \<Rightarrow> 5 * minute | Some t \<Rightarrow> t)"
  let ?sel = "[(''cluster.x-k8s.io/cluster-name'', ref_Name (cvs_ClusterRef (cv_Spec cluster)))]"
  have health: "outcome (check (br_runHealthCheck E x cluster hc) f ret) (\<lambda>_ l0 l1. healthy_on E cluster hc l0 l1)" for hc f
    by (rule outcome_weaken [OF outcome_check [OF outcome_runHealthCheck, where R = "\<lambda>_ _ l0 l1. l1 = l0"]]) (auto intro: outcome_retI)
  have hooks: "outcome (executeHooksOnNodes E x nodes hs name ph) (\<lambda>_. hooks_ran_on E hs nodes)" for nodes hs ph
    by (rule outcome_contract [OF contract_executeHooksOnNodes])
  have post: "outcome (check (executePostRollbackHooks E x nodes name ri) f (\<lambda>_. check (br_runHealthCheck E x cluster (cu_HealthCheck uc)) g ret))
      (\<lambda>_ l0 l1. \<exists>l. hooks_ran_on E (getComponentPostHooks ri name) nodes l0 l \<and> prefix l0 l \<and> prefix l l1 \<and> healthy_on E cluster (cu_HealthCheck uc) l l1)" for nodes f g
    unfolding executePostRollbackHooks_def by (rule outcome_weaken [OF outcome_check [OF hooks health]]) blast
  have scripts: "outcome (for_each nodes (rollback_node E x nodes name ri (rb_Script (cu_Rollback uc)) T))
      (\<lambda>_ l0 l1. \<forall>n\<in>set nodes. rolled_back_on E (rb_Script (cu_Rollback uc)) T (node_Name n) l0 l1)" for nodes
    by (rule outcome_all [OF outcome_rollback_node]) (rule rolled_back_on_widen)
  let ?k = "\<lambda>nodes. check (executePreRollbackHooks E x nodes name ri) (wrap (''pre-rollback hooks failed for component '' @ name @ '': '')) (\<lambda>_.
             andthen (for_each nodes (rollback_node E x nodes name ri (rb_Script (cu_Rollback uc)) T)) (\<lambda>_.
             check (executePostRollbackHooks E x nodes name ri) (wrap (''post-rollback hooks failed for component '' @ name @ '': '')) (\<lambda>_.
             check (br_runHealthCheck E x cluster (cu_HealthCheck uc)) (wrap (''health check failed after rollback of '' @ name @ '': '')) ret)))"
  have body: "outcome (?k nodes) (\<lambda>_ l0 l4. \<exists>l1 l2 l3. hooks_ran_on E (getComponentPreHooks ri name) nodes l0 l1 \<and> prefix l0 l1
      \<and> (\<forall>n\<in>set nodes. rolled_back_on E (rb_Script (cu_Rollback uc)) T (node_Name n) l1 l2) \<and> prefix l1 l2
      \<and> hooks_ran_on E (getComponentPostHooks ri name) nodes l2 l3 \<and> prefix l2 l3 \<and> prefix l3 l4 \<and> healthy_on E cluster (cu_HealthCheck uc) l3 l4)" for nodes
    unfolding executePreRollbackHooks_def by (rule outcome_weaken [OF outcome_check [OF hooks outcome_check [OF scripts post]]]) blast
  let ?w = "w\<lparr>w_log := w_log w @ [EvList ''Node'' [] ?sel]\<rparr>"
  from assms(2) uc have "andthen (br_getClusterNodes E cluster) ?k w = (Ok u, w')"
    by (simp add: RollbackComponent_def T_def Let_def)
  then obtain nodes where nodes: "k_list_nodes (kube E) (w_log w) ?sel = Inr nodes" and run: "?k nodes ?w = (Ok u, w')"
    by (auto simp: br_getClusterNodes_def List_nodes_def query_def check_apply split: sum.splits)
  have wf: "pool_wf ?w" using assms(1) by simp
  from outcomeD(3) [OF body wf run] obtain l1 l2 l3 where
    "hooks_ran_on E (getComponentPreHooks ri name) nodes (w_log ?w) l1" and p: "prefix (w_log ?w) l1"
    and rest: "\<forall>n\<in>set nodes. rolled_back_on E (rb_Script (cu_Rollback uc)) T (node_Name n) l1 l2" "prefix l1 l2"
      "hooks_ran_on E (getComponentPostHooks ri name) nodes l2 l3" "prefix l2 l3" "prefix l3 (w_log w')" "healthy_on E cluster (cu_HealthCheck uc) l3 (w_log w')"
    by blast
  then have "hooks_ran_on E (getComponentPreHooks ri name) nodes (w_log w) l1" unfolding hooks_ran_on_def by (auto dest: ran_ok_appendD)
  moreover have "prefix (w_log w) l1" using p by (auto simp: prefix_def)
  ultimately show ?thesis using uc nodes rest unfolding T_def by blast
qed

section \<open>Backup\<close>

text \<open>\<open>wrote_ok E ev l0 l1\<close>: between the two logs the API server accepted the write \<open>ev\<close>.\<close>

definition wrote_ok :: "env \<Rightarrow> event \<Rightarrow> log \<Rightarrow> log \<Rightarrow> bool" where
  "wrote_ok E ev l0 l1 \<longleftrightarrow> (\<exists>a b. l1 = l0 @ a @ ev # b \<and> k_write (kube E) (l0 @ a) ev = None)"

lemma wrote_ok_widen: "prefix l0 l \<Longrightarrow> prefix l1 l2 \<Longrightarrow> wrote_ok E ev l l1 \<Longrightarrow> wrote_ok E ev l0 l2"
  unfolding wrote_ok_def prefix_def by (metis append.assoc append_Cons)

lemma outcome_write_ok: "outcome (api_write E ev) (\<lambda>_. wrote_ok E ev)"
  by (auto simp: outcome_def api_write_def command_def query_def wrote_ok_def intro!: exI [of _ "[]"] split: option.splits)

text \<open>
  \<open>saved_on\<close>: the backup script ran on the node, and what it printed is in a ConfigMap that was
  written afterwards.
\<close>

definition holds_content :: "string \<Rightarrow> event \<Rightarrow> bool" where
  "holds_content content ev \<longleftrightarrow> (\<exists>cm d k. (ev = EvCreate (KConfigMap cm) \<or> ev = EvUpdate (KConfigMap cm))
     \<and> cm_Data cm = Some d \<and> map_of d k = Some content)"

definition stored_content :: "env \<Rightarrow> string \<Rightarrow> log \<Rightarrow> log \<Rightarrow> bool" where
  "stored_content E content l0 l1 \<longleftrightarrow> (\<exists>ev. holds_content content ev \<and> wrote_ok E ev l0 l1)"

definition saved_on :: "env \<Rightarrow> BackupItem \<Rightarrow> string \<Rightarrow> log \<Rightarrow> log \<Rightarrow> bool" where
  "saved_on E item n l0 l2 \<longleftrightarrow> (\<exists>res l1. cr_ExitCode res = 0 \<and> prefix l0 l1
     \<and> executed E n (backup_script (bi_Path item) (bi_Type item)) None res l0 l1 \<and> stored_content E (cr_Stdout res) l1 l2)"

lemma stored_content_widen: "prefix l0 l \<Longrightarrow> prefix l1 l2 \<Longrightarrow> stored_content E c l l1 \<Longrightarrow> stored_content E c l0 l2"
  unfolding stored_content_def using wrote_ok_widen by blast

lemma executed_widen: "prefix l0 l \<Longrightarrow> executed E n s c r l l1 \<Longrightarrow> executed E n s c r l0 l1"
  by (auto simp: prefix_def intro: executed_earlier)

lemma saved_on_widen: "prefix l0 l \<Longrightarrow> prefix l1 l2 \<Longrightarrow> saved_on E item n l l1 \<Longrightarrow> saved_on E item n l0 l2"
  unfolding saved_on_def using executed_widen stored_content_widen [OF prefix_order.refl] by (blast intro: prefix_order.trans)

lemma outcome_run_on_node:
  "outcome (run_on_node E sm n script ctx f g) (\<lambda>x l0 l1. cr_ExitCode x = 0 \<and> executed E n script ctx x l0 l1)"
  unfolding outcome_def
proof (intro allI impI)
  fix w r w' assume "pool_wf w" "run_on_node E sm n script ctx f g w = (r, w')"
  from hoareD [OF hoare_run_on_node [of "w_log w"] _ this(2)] this(1)
  show "pool_wf w' \<and> prefix (w_log w) (w_log w') \<and> (\<forall>x. r = Ok x \<longrightarrow> cr_ExitCode x = 0 \<and> executed E n script ctx x (w_log w) (w_log w'))"
    by (auto dest: grew_prefix)
qed

lemma outcome_store_backup: "outcome (store_backup E backupName n item content) (\<lambda>_. stored_content E content)"
proof -
  have stored_update: "outcome (check (api_write E (EvUpdate (KConfigMap cm))) f ret) (\<lambda>_. stored_content E content)"
    if "cm_Data cm = Some (upd_key k content d)" for cm f k d
  proof -
    have "map_of (upd_key k content d) k = Some content" by (simp add: map_of_upd_key)
    with that have "holds_content content (EvUpdate (KConfigMap cm))" unfolding holds_content_def by blast
    then have "stored_content E content l0 l1" if "wrote_ok E (EvUpdate (KConfigMap cm)) l0 l" "prefix l l1" for l0 l l1
      using wrote_ok_widen [OF prefix_order.refl that(2,1)] unfolding stored_content_def by blast
    then show ?thesis by (intro outcome_first [OF outcome_write_ok]) (auto intro: outcome_retI)
  qed
  have set_data: "outcome (andthen (set_data k content cm) (\<lambda>cm. check (api_write E (EvUpdate (KConfigMap cm))) f ret)) (\<lambda>_. stored_content E content)" for k cm f
  proof (cases "cm_Data cm")
    case None
    then show ?thesis by (auto simp: set_data_def outcome_def act_simps)
  next
    case (Some d)
    let ?m = "check (api_write E (EvUpdate (KConfigMap (cm\<lparr>cm_Data := Some (upd_key k content d)\<rparr>)))) f ret"
    from Some have "andthen (set_data k content cm) (\<lambda>cm. check (api_write E (EvUpdate (KConfigMap cm))) f ret) = ?m"
      by (simp add: fun_eq_iff set_data_def check_apply ret_apply)
    moreover have "outcome ?m (\<lambda>_. stored_content E content)" by (rule stored_update) simp
    ultimately show ?thesis by simp
  qed
  have existing: "outcome (check (Get_configmap E ''cvo-system'' backupName) g (\<lambda>existing.
      andthen (set_data k content existing) (\<lambda>cm. check (api_write E (EvUpdate (KConfigMap cm))) f ret))) (\<lambda>_. stored_content E content)" for g f k
    unfolding Get_configmap_def by (rule outcome_then [OF outcome_any [OF outcome_query] set_data]) (auto intro: stored_content_widen)
  have "map_of [(''node'', n), (''path'', bi_Path item), (''type'', bi_Type item), (''timestamp'', s), (''content'', content)] ''content'' = Some content" for s
    by simp
  then have "holds_content content (EvCreate (KConfigMap (backup_map backupName n item s content)))" for s
    unfolding holds_content_def backup_map_def by fastforce
  then have "stored_content E content l0 l1" if "wrote_ok E (EvCreate (KConfigMap (backup_map backupName n item s content))) l0 l1" for l0 l1 s
    using that unfolding stored_content_def by blast
  then have "outcome (attempt (api_write E (EvCreate (KConfigMap (backup_map backupName n item s content)))) (\<lambda>r. case r of
       Inr _ \<Rightarrow> ret ()
     | Inl e \<Rightarrow>
         if \<not> IsAlreadyExists e then fail (wrap ''failed to create backup ConfigMap: '' e)
         else
           check (Get_configmap E ''cvo-system'' backupName) (wrap ''failed to get existing backup ConfigMap: '') (\<lambda>existing.
           andthen (set_data (n @ ''-'' @ bi_Path item) content existing) (\<lambda>cm.
           check (api_write E (EvUpdate (KConfigMap cm))) (wrap ''failed to update backup ConfigMap: '') ret)))) (\<lambda>_. stored_content E content)" for s
    by (intro outcome_weaken [OF outcome_attempt [OF outcome_write_ok, where R = "\<lambda>_ _ l0 l1. l1 = l0" and S = "\<lambda>_. stored_content E content"]])
       (auto intro: outcome_retI outcome_fail existing stored_content_widen prefix_order.refl)
  then show ?thesis unfolding store_backup_def time_Now_def
    by (rule outcome_then [OF outcome_any [OF outcome_query]]) (erule (1) stored_content_widen [OF _ prefix_order.refl])
qed

lemma outcome_backup_on_node: "outcome (backup_on_node E x backupName item n) (\<lambda>_. saved_on E item (node_Name n))"
  unfolding backup_on_node_def
  by (rule outcome_weaken [OF outcome_check [OF outcome_run_on_node outcome_store_backup]])
     (unfold saved_on_def, blast)

abbreviation cluster_selector :: "ClusterVersion \<Rightarrow> labels" where
  "cluster_selector cluster \<equiv> [(''cluster.x-k8s.io/cluster-name'', ref_Name (cvs_ClusterRef (cv_Spec cluster)))]"

definition item_saved :: "env \<Rightarrow> ClusterVersion \<Rightarrow> BackupItem \<Rightarrow> log \<Rightarrow> log \<Rightarrow> bool" where
  "item_saved E cluster item l0 l1 \<longleftrightarrow> (\<exists>l nodes. prefix l0 l \<and> k_list_nodes (kube E) l (cluster_selector cluster) = Inr nodes
     \<and> (\<forall>n\<in>set nodes. saved_on E item (node_Name n) l l1))"

lemma item_saved_widen: "prefix l0 l \<Longrightarrow> prefix l1 l2 \<Longrightarrow> item_saved E cluster item l l1 \<Longrightarrow> item_saved E cluster item l0 l2"
  unfolding item_saved_def using saved_on_widen [OF prefix_order.refl] by (blast intro: prefix_order.trans)

lemma outcome_backupConfigItem: "outcome (backupConfigItem E x cluster backupName item) (\<lambda>_. item_saved E cluster item)"
proof -
  have all: "outcome (for_each nodes (backup_on_node E x backupName item)) (\<lambda>_ l0 l1. \<forall>n\<in>set nodes. saved_on E item (node_Name n) l0 l1)" for nodes
    by (rule outcome_all [OF outcome_backup_on_node]) (rule saved_on_widen)
  have earlier: "saved_on E item n l0 l1" if "saved_on E item n (l0 @ [ev]) l1" for n l0 l1 ev
    using that by (rule saved_on_widen [OF _ prefix_order.refl, rotated]) simp
  show ?thesis unfolding backupConfigItem_def br_getClusterNodes_def List_nodes_def
    by (rule outcome_weaken [OF outcome_check [OF outcome_query all]]) (unfold item_saved_def, blast intro: earlier)
qed

definition snapshot_saved :: "env \<Rightarrow> log \<Rightarrow> log \<Rightarrow> bool" where
  "snapshot_saved E l0 l1 \<longleftrightarrow> (\<exists>n res. cr_ExitCode res = 0 \<and> executed E n etcd_snapshot_script None res l0 l1)"

lemma executed_later: "prefix l1 l2 \<Longrightarrow> executed E n s c r l0 l1 \<Longrightarrow> executed E n s c r l0 l2"
  by (auto simp: prefix_def intro: executed_append)

lemma snapshot_saved_widen: "prefix l0 l \<Longrightarrow> prefix l1 l2 \<Longrightarrow> snapshot_saved E l l1 \<Longrightarrow> snapshot_saved E l0 l2"
  unfolding snapshot_saved_def using executed_widen executed_later by blast

lemma outcome_createEtcdSnapshot: "outcome (createEtcdSnapshot E x cluster backupName) (\<lambda>_. snapshot_saved E)"
proof -
  have creates: "in_session p n 22 (attempt (api_write E ev) (\<lambda>res. case res of
      Inl e \<Rightarrow> if IsAlreadyExists e then ret () else fail (f e) | Inr _ \<Rightarrow> ret ())) (\<lambda>_ _ _. True)" for p n ev f
    unfolding api_write_def command_def
    by (rule in_session_weaken [OF in_session_attempt [OF in_session_basic(3), where R = "\<lambda>_ _ _ _. True" and S = "\<lambda>_ _ _. True"]])
       (auto intro: in_session_basic in_session_weaken [OF in_session_basic(1)])
  have body: "in_session p n 22 (check (ExecuteScript E p etcd_snapshot_script None) f (\<lambda>r. if cr_ExitCode r \<noteq> 0 then fail (g r)
      else attempt (api_write E (ev r)) (\<lambda>res. case res of Inl e \<Rightarrow> if IsAlreadyExists e then ret () else fail (h e) | Inr _ \<Rightarrow> ret ())))
      (\<lambda>_. snapshot_saved E)" for p n f g ev h
  proof (rule in_session_weaken [OF in_session_check [OF in_session_script]])
    show "in_session p n 22 (if cr_ExitCode r \<noteq> 0 then fail (g r)
      else attempt (api_write E (ev r)) (\<lambda>res. case res of Inl e \<Rightarrow> if IsAlreadyExists e then ret () else fail (h e) | Inr _ \<Rightarrow> ret ()))
      (\<lambda>_ l0 l1. cr_ExitCode r = 0)" for r
      by (auto intro: in_session_basic in_session_weaken [OF creates])
  qed (unfold snapshot_saved_def, blast intro: executed_later)
  have "outcome (case ns of [] \<Rightarrow> fail e | n # _ \<Rightarrow> check (Connect E (bre_sshManager x) (node_Name n) 22 no_creds) (c n) (\<lambda>p.
      deferring (check (ExecuteScript E p etcd_snapshot_script None) f (\<lambda>r. if cr_ExitCode r \<noteq> 0 then fail (g r)
      else attempt (api_write E (ev n r)) (\<lambda>res. case res of Inl e \<Rightarrow> if IsAlreadyExists e then ret () else fail (h e) | Inr _ \<Rightarrow> ret ())))
      (Close (Some p)))) (\<lambda>_. snapshot_saved E)" for ns e c f g ev h
    by (auto intro: outcome_fail outcome_session [OF body] snapshot_saved_widen split: list.split)
  then show ?thesis unfolding createEtcdSnapshot_def br_getClusterNodes_def List_nodes_def
    by (intro outcome_then [OF outcome_any [OF outcome_query]]) (auto intro: snapshot_saved_widen)
qed

definition component_saved :: "env \<Rightarrow> ClusterVersion \<Rightarrow> ComponentUpgradeConfig \<Rightarrow> log \<Rightarrow> log \<Rightarrow> bool" where
  "component_saved E cluster uc l0 l1 \<longleftrightarrow> (\<forall>item\<in>set (bk_Config (cu_Backup uc)). item_saved E cluster item l0 l1)
     \<and> (bk_EtcdSnapshot (cu_Backup uc) \<longrightarrow> snapshot_saved E l0 l1)"

lemma component_saved_widen: "prefix l0 l \<Longrightarrow> prefix l1 l2 \<Longrightarrow> component_saved E cluster uc l l1 \<Longrightarrow> component_saved E cluster uc l0 l2"
  unfolding component_saved_def using item_saved_widen snapshot_saved_widen by blast

lemma outcome_backupComponent: "outcome (backupComponent E x cluster name uc) (\<lambda>_. component_saved E cluster uc)"
proof -
  have items: "outcome (for_each items (backupConfigItem E x cluster b)) (\<lambda>_ l0 l1. \<forall>item\<in>set items. item_saved E cluster item l0 l1)" for items b
    by (rule outcome_all [OF outcome_backupConfigItem]) (rule item_saved_widen)
  have "outcome (andthen (for_each (bk_Config (cu_Backup uc)) (backupConfigItem E x cluster b)) (\<lambda>_.
         when_act (bk_EtcdSnapshot (cu_Backup uc)) (createEtcdSnapshot E x cluster b))) (\<lambda>_. component_saved E cluster uc)" for b
    by (rule outcome_weaken [OF outcome_check [OF items outcome_when [OF outcome_createEtcdSnapshot]]])
       (auto simp: component_saved_def intro: item_saved_widen [OF prefix_order.refl] snapshot_saved_widen [OF _ prefix_order.refl] split: if_splits)
  then show ?thesis unfolding backupComponent_def time_Now_def Let_def
    by (intro outcome_then [OF outcome_any [OF outcome_query]]) (auto intro: component_saved_widen)
qed

definition backed_up_component :: "env \<Rightarrow> ClusterVersion \<Rightarrow> ReleaseImage \<Rightarrow> node list \<Rightarrow> string \<Rightarrow> log \<Rightarrow> log \<Rightarrow> bool" where
  "backed_up_component E cluster ri nodes name l0 l3 \<longleftrightarrow> (\<forall>uc. map_of (getComponentUpgradeConfigsWithNames ri) name = Some uc \<longrightarrow>
     bk_Enabled (cu_Backup uc) \<longrightarrow> (\<exists>l1 l2. hooks_ran_on E (getComponentPreHooks ri name) nodes l0 l1 \<and> component_saved E cluster uc l1 l2
       \<and> hooks_ran_on E (getComponentPostHooks ri name) nodes l2 l3 \<and> prefix l0 l1 \<and> prefix l1 l2 \<and> prefix l2 l3))"

lemma hooks_ran_on_widen: "prefix l0 l \<Longrightarrow> prefix l1 l2 \<Longrightarrow> hooks_ran_on E hs nodes l l1 \<Longrightarrow> hooks_ran_on E hs nodes l0 l2"
  unfolding hooks_ran_on_def using ran_ok_prefix by blast

lemma backed_up_component_widen:
  assumes "prefix l0 l" and "prefix l1 l2" and "backed_up_component E cluster ri nodes name l l1"
  shows "backed_up_component E cluster ri nodes name l0 l2"
  using assms(3) hooks_ran_on_widen [OF assms(1) prefix_order.refl] hooks_ran_on_widen [OF prefix_order.refl assms(2)]
    prefix_order.trans [OF assms(1)] prefix_order.trans [OF _ assms(2)]
  unfolding backed_up_component_def by metis

lemma outcome_backup_named: "outcome (backup_named E x cluster ri nodes name) (\<lambda>_. backed_up_component E cluster ri nodes name)"
proof -
  have hooks: "outcome (executeHooksOnNodes E x nodes hs name ph) (\<lambda>_. hooks_ran_on E hs nodes)" for hs ph
    by (rule outcome_contract [OF contract_executeHooksOnNodes])
  have post: "outcome (check (executePostBackupHooks E x nodes name ri) f ret) (\<lambda>_. hooks_ran_on E (getComponentPostHooks ri name) nodes)" for f
    unfolding executePostBackupHooks_def
    by (rule outcome_weaken [OF outcome_check [OF hooks, where R = "\<lambda>_ _ l0 l1. l1 = l0"]]) (auto intro: outcome_retI)
  note steps = outcome_check [OF hooks outcome_check [OF outcome_backupComponent post]]
  show ?thesis
  proof (cases "map_of (getComponentUpgradeConfigsWithNames ri) name")
    case None
    then show ?thesis by (simp add: backup_named_def backed_up_component_def outcome_retI)
  next
    case (Some uc)
    show ?thesis
    proof (cases "bk_Enabled (cu_Backup uc)")
      case True
      with Some show ?thesis unfolding backup_named_def executePreBackupHooks_def
        by simp (rule outcome_weaken [OF steps], unfold backed_up_component_def, auto)
    next
      case False
      with Some show ?thesis by (simp add: backup_named_def backed_up_component_def outcome_retI)
    qed
  qed
qed

text \<open>
  (C14) A backup that succeeds is complete: for every component of the release whose backup is enabled, between
  its pre-backup and its post-backup hooks every configured item was read on every node of the cluster
  by a script that exited with 0 and what it printed was written to a ConfigMap, and the etcd
  snapshot was taken if it is configured.
\<close>

theorem BackupComponents_correct:
  assumes "pool_wf w" and "range_ok E" and "BackupComponents E x cluster ri w = (Ok u, w')"
  shows "\<exists>nodes. k_list_nodes (kube E) (w_log w) (cluster_selector cluster) = Inr nodes
    \<and> (\<forall>name. backed_up_component E cluster ri nodes name (w_log w) (w_log w'))"
proof -
  let ?w = "w\<lparr>w_log := w_log w @ [EvList ''Node'' [] (cluster_selector cluster)]\<rparr>"
  let ?configs = "getComponentUpgradeConfigsWithNames ri"
  from assms(3) obtain nodes where nodes: "k_list_nodes (kube E) (w_log w) (cluster_selector cluster) = Inr nodes"
    and run: "for_each (h_range (host E) (w_log ?w) (map fst ?configs)) (backup_named E x cluster ri nodes) ?w = (Ok u, w')"
    by (auto simp: BackupComponents_def br_getClusterNodes_def List_nodes_def query_def check_apply range_map_def split: sum.splits)
  have "outcome (for_each names (backup_named E x cluster ri nodes)) (\<lambda>_ l0 l1. \<forall>name\<in>set names. backed_up_component E cluster ri nodes name l0 l1)" for names
    by (rule outcome_all [OF outcome_backup_named]) (rule backed_up_component_widen)
  from outcomeD(3) [OF this _ run] assms(1)
  have all: "\<forall>name\<in>set (h_range (host E) (w_log ?w) (map fst ?configs)). backed_up_component E cluster ri nodes name (w_log ?w) (w_log w')" by simp
  have keys: "set (h_range (host E) (w_log ?w) (map fst ?configs)) = fst ` set ?configs"
    using assms(2) ranges_keys_set [of "h_range (host E) (w_log ?w)"] by (simp add: range_ok_def)
  have "backed_up_component E cluster ri nodes name (w_log w) (w_log w')" for name
  proof (cases "name \<in> fst ` set ?configs")
    case True
    with all keys have "backed_up_component E cluster ri nodes name (w_log ?w) (w_log w')" by blast
    then show ?thesis by (rule backed_up_component_widen [rotated 2]) simp_all
  next
    case False
    then have "map_of ?configs name = None" by (simp add: map_of_eq_None_iff)
    then show ?thesis by (simp add: backed_up_component_def)
  qed
  with nodes show ?thesis by blast
qed

text \<open>
  The two ways in which the executor looks up the configuration of a component agree if the addons have
  distinct names, none of them that of a binary component.
\<close>

theorem upgrade_configs_agree:
  assumes "distinct (map ad_Name (ris_Addons (ri_Spec ri)))" and "\<forall>a\<in>set (ris_Addons (ri_Spec ri)). ad_Name a \<notin> {''kubernetes'', ''containerd''}"
  shows "map_of (getComponentUpgradeConfigsWithNames ri) name = getComponentUpgradeConfig ri name"
proof -
  let ?put = "\<lambda>n u (configs :: (string \<times> ComponentUpgradeConfig) list). case u of None \<Rightarrow> configs | Some c \<Rightarrow> upd_key n c configs"
  have put: "map_of (?put n u configs) m = (if m = n \<and> u \<noteq> None then u else map_of configs m)" for n u configs m
    by (cases u) (auto simp: map_of_upd_key)
  have "map_of (fold (\<lambda>a. ?put (ad_Name a) (ad_Upgrade a)) as base) name
      = (case List.find (\<lambda>a. ad_Name a = name \<and> ad_Upgrade a \<noteq> None) as of Some a \<Rightarrow> ad_Upgrade a | None \<Rightarrow> map_of base name)"
    if "distinct (map ad_Name as)" for as base
    using that
  proof (induction as arbitrary: base)
    case (Cons a as)
    have none: "List.find (\<lambda>b. ad_Name b = ad_Name a \<and> ad_Upgrade b \<noteq> None) as = None"
      using Cons.prems by (auto simp: find_None_iff image_iff)
    from Cons show ?case by (cases "ad_Name a = name \<and> ad_Upgrade a \<noteq> None") (use none in \<open>auto simp: put split: option.split\<close>)
  qed simp
  note fold = this [OF assms(1)]
  have "List.find (\<lambda>a. ad_Name a = name \<and> ad_Upgrade a \<noteq> None) (ris_Addons (ri_Spec ri)) = None" if "name \<in> {''kubernetes'', ''containerd''}"
    using that assms(2) by (auto simp: find_None_iff)
  then show ?thesis
    unfolding getComponentUpgradeConfigsWithNames_def getComponentUpgradeConfig_def Let_def fold
    by (auto simp: put split: option.split)
qed

section \<open>Backups of absolute paths\<close>

text \<open>
  The documented validation of labels by the API server: a label value is at most 63 characters
  of letters, digits, dots, dashes and underscores; an object with another one is rejected as
  invalid, before it is compared with what is stored.
\<close>

definition labels_validated :: "env \<Rightarrow> bool" where
  "labels_validated E \<longleftrightarrow> (\<forall>l cm. (\<exists>v\<in>snd ` set (cm_Labels cm). CHR ''/'' \<in> set v) \<longrightarrow>
     (\<exists>e. k_write (kube E) l (EvCreate (KConfigMap cm)) = Some e \<and> \<not> IsAlreadyExists e))"

lemma store_backup_rejected:
  assumes "labels_validated E" and "CHR ''/'' \<in> set (bi_Path item)"
  shows "\<exists>e w'. store_backup E b n item content w = (Err e, w')"
proof -
  have "\<exists>e. k_write (kube E) l (EvCreate (KConfigMap (backup_map b n item s content))) = Some e \<and> \<not> IsAlreadyExists e" for l s
    using assms unfolding labels_validated_def by (auto simp: backup_map_def)
  then obtain e where "k_write (kube E) (w_log w @ [EvNow]) (EvCreate (KConfigMap (backup_map b n item
      (h_format_time (host E) rfc3339 (h_now (host E) (w_log w))) content))) = Some e \<and> \<not> IsAlreadyExists e" by blast
  then show ?thesis by (simp add: store_backup_def time_Now_def api_write_def command_def query_def act_simps)
qed

text \<open>
  The path of an item is also a label value of its ConfigMap, where a slash is not allowed: the backup of
  a path with a slash, so of every absolute path, fails on every cluster that has a node.
\<close>

theorem absolute_path_backup_fails:
  assumes "labels_validated E" and "CHR ''/'' \<in> set (bi_Path item)"
    and "k_list_nodes (kube E) (w_log w) (cluster_selector cluster) = Inr (n # ns)"
  shows "\<nexists>w'. backupConfigItem E x cluster b item w = (Ok (), w')"
proof -
  have never: "\<nexists>w'. backup_on_node E x b item n v = (Ok (), w')" for v
    using store_backup_rejected [OF assms(1,2)] unfolding backup_on_node_def check_apply
    by (auto split: prod.splits res.splits) (metis res.distinct(1) fst_conv)
  obtain r w1 where first: "backup_on_node E x b item n (w\<lparr>w_log := w_log w @ [EvList ''Node'' [] (cluster_selector cluster)]\<rparr>) = (r, w1)"
    by (metis surj_pair)
  with never have "r \<noteq> Ok ()" by metis
  with first assms(3) show ?thesis
    by (cases r) (auto simp: backupConfigItem_def br_getClusterNodes_def List_nodes_def query_def act_simps)
qed

text \<open>
  When the command of the health check cannot be executed on a node (the session breaks or the
  timeout passes), the check panics instead of recording the failure and trying again.
\<close>

theorem broken_health_check_panics:
  assumes "pool_wf w" and "Connect E (bre_sshManager x) (node_Name n) 22 no_creds w = (Ok p, w1)"
    and "ExecuteScript E p cmd (Some timeout) w1 = (Err e, w2)"
  shows "\<exists>w'. br_health_rounds E x cmd timeout (n # ns) err (Suc k) lastErr w = (Panic ''nil pointer dereference'', w')"
proof -
  from hoareD [OF hoare_Connect [of "w_log w"] _ assms(2)] assms(1) have c: "pool_wf w1" "conn_at w1 p (node_Name n) 22" by auto
  note s = in_sessionD [OF in_session_script c assms(3)]
  obtain r3 w3 where cl: "Close (Some p) w2 = (r3, w3)" by (metis surj_pair)
  from hoareD [OF hoare_Close [of "node_Name n" "w_log w2" p 22] _ cl] s(1,2) have "r3 = Ok ()" by simp
  with assms cl show ?thesis by (simp add: act_simps)
qed

section \<open>Witnesses\<close>

definition br_node :: node where
  "br_node = zero_node\<lparr>node_Name := ''n1''\<rparr>"

definition br_env :: env where
  "br_env = quiet_env\<lparr>kube := quiet_kube\<lparr>k_list_nodes := (\<lambda>l s. Inr [br_node])\<rparr>\<rparr>"

definition br_config :: ComponentUpgradeConfig where
  "br_config = zero_ComponentUpgradeConfig\<lparr>cu_Backup := \<lparr>bk_Enabled = True, bk_Config = [\<lparr>bi_Path = ''cfg'', bi_Type = ''file''\<rparr>], bk_EtcdSnapshot = False\<rparr>,
     cu_Rollback := \<lparr>rb_Script = ''rollback.sh'', rb_Timeout = None\<rparr>\<rparr>"

definition br_release :: ReleaseImage where
  "br_release = zero_ReleaseImage\<lparr>ri_Spec := zero_ReleaseImageSpec\<lparr>ris_Components := zero_Components\<lparr>rc_Kubernetes :=
     zero_KubernetesComponent\<lparr>kc_Upgrade := Some br_config\<rparr>\<rparr>\<rparr>\<rparr>"

abbreviation br_x :: BackupRollbackExecutor where
  "br_x \<equiv> NewBackupRollbackExecutor (NewSSHManager 0)"

lemma br_release_config: "getComponentUpgradeConfig br_release ''kubernetes'' = Some br_config"
  "getComponentUpgradeConfigsWithNames br_release = [(''kubernetes'', br_config)]"
  "getComponentPreHooks br_release n = []" "getComponentPostHooks br_release n = []"
  by (simp_all add: getComponentUpgradeConfig_def getComponentUpgradeConfigsWithNames_def getComponentPreHooks_def getComponentPostHooks_def
     br_release_def zero_defs Let_def)

lemmas br_eval = br_env_def quiet_defs NewSSHManager_def NewBackupRollbackExecutor_def act_simps state_defs deref_def query_def command_def time_Now_def
  touch_def Connect_def pooled_def dial_new_def Close_def ExecuteScript_def ExecuteCommand_def br_getClusterNodes_def List_nodes_def
  executeHooksOnNodes_def executePreRollbackHooks_def executePostRollbackHooks_def executePreBackupHooks_def executePostBackupHooks_def
  br_release_config br_config_def api_write_def run_on_node_def os_ReadFile_def range_map_def

lemma br_rollback_runs: "\<exists>w'. RollbackComponent br_env br_x zero_ClusterVersion ''kubernetes'' br_release empty_world = (Ok (), w')"
  by (simp add: RollbackComponent_def rollback_node_def executeRollbackScript_def br_runHealthCheck_def br_eval)
     (simp add: zero_defs act_simps)

theorem RollbackComponent_witness:
  "\<exists>l1 l2. rolled_back_on br_env ''rollback.sh'' (5 * minute) ''n1'' l1 l2"
proof -
  obtain w' where run: "RollbackComponent br_env br_x zero_ClusterVersion ''kubernetes'' br_release empty_world = (Ok (), w')" using br_rollback_runs by blast
  have "k_list_nodes (kube br_env) l s = Inr [br_node]" for l s by (simp add: br_env_def)
  with RollbackComponent_correct [OF pool_wf_empty run] show ?thesis
    by (auto simp: br_release_config br_config_def br_node_def)
qed

lemma br_backup_runs: "\<exists>w'. BackupComponents br_env br_x zero_ClusterVersion br_release empty_world = (Ok (), w')"
  by (simp add: BackupComponents_def backup_named_def backupComponent_def backupConfigItem_def backup_on_node_def store_backup_def br_eval Let_def)

theorem BackupComponents_witness:
  "\<exists>l0 l1. saved_on br_env \<lparr>bi_Path = ''cfg'', bi_Type = ''file''\<rparr> ''n1'' l0 l1"
proof -
  obtain w' where run: "BackupComponents br_env br_x zero_ClusterVersion br_release empty_world = (Ok (), w')" using br_backup_runs by blast
  have nodes: "k_list_nodes (kube br_env) l s = Inr [br_node]" for l s by (simp add: br_env_def)
  have "range_ok br_env" by (simp add: range_ok_def br_env_def quiet_host_def)
  from BackupComponents_correct [OF pool_wf_empty this run]
  have "backed_up_component br_env zero_ClusterVersion br_release [br_node] ''kubernetes'' (w_log empty_world) (w_log w')" by (auto simp: nodes)
  then obtain l1 l2 where "component_saved br_env zero_ClusterVersion br_config l1 l2" by (auto simp: backed_up_component_def br_release_config br_config_def)
  then have "item_saved br_env zero_ClusterVersion \<lparr>bi_Path = ''cfg'', bi_Type = ''file''\<rparr> l1 l2" by (simp add: component_saved_def br_config_def)
  then show ?thesis by (auto simp: item_saved_def nodes br_node_def)
qed

lemma upgrade_configs_agree_witness: "map_of (getComponentUpgradeConfigsWithNames br_release) ''kubernetes'' = getComponentUpgradeConfig br_release ''kubernetes''"
  by (rule upgrade_configs_agree) (simp_all add: br_release_def zero_defs)

definition strict_env :: env where
  "strict_env = br_env\<lparr>kube := (kube br_env)\<lparr>k_write := (\<lambda>l ev. case ev of
     EvCreate (KConfigMap cm) \<Rightarrow> if list_ex (\<lambda>(k, v). CHR ''/'' \<in> set v) (cm_Labels cm) then Some (Errorf ''invalid label value'') else None
   | _ \<Rightarrow> None)\<rparr>\<rparr>"

theorem absolute_path_backup_witness:
  "\<nexists>w'. backupConfigItem strict_env br_x zero_ClusterVersion ''b'' \<lparr>bi_Path = ''/etc/kubernetes/admin.conf'', bi_Type = ''file''\<rparr> empty_world = (Ok (), w')"
proof (rule absolute_path_backup_fails)
  show "labels_validated strict_env"
    by (auto simp: labels_validated_def strict_env_def list_ex_iff IsAlreadyExists_def)
  show "k_list_nodes (kube strict_env) (w_log empty_world) (cluster_selector zero_ClusterVersion) = Inr (br_node # [])"
    by (simp add: strict_env_def br_env_def)
qed simp

theorem broken_health_check_witness:
  "\<exists>w'. br_health_rounds (br_env\<lparr>ssh := quiet_ssh\<lparr>s_run := (\<lambda>l h c t. RunCancelled deadline_exceeded)\<rparr>\<rparr>) br_x ''true'' (5 * minute) [br_node]
     (retries_failed 3) (Suc 2) None empty_world = (Panic ''nil pointer dereference'', w')"
proof -
  let ?E = "br_env\<lparr>ssh := quiet_ssh\<lparr>s_run := (\<lambda>l h c t. RunCancelled deadline_exceeded)\<rparr>\<rparr>"
  have "\<exists>p w1 w2. Connect ?E (bre_sshManager br_x) (node_Name br_node) 22 no_creds empty_world = (Ok p, w1)
      \<and> ExecuteScript ?E p ''true'' (Some (5 * minute)) w1 = (Err deadline_exceeded, w2)" by (simp add: br_eval)
  then show ?thesis using broken_health_check_panics [OF pool_wf_empty] by blast
qed

end
