(* ===== verification/Addon_Install.thy ===== *)
theory Addon_Install
  imports Addon_Upgrader
begin

text \<open>
  The two addon installers, \<open>modules/cvo/internal/addon/manifest_installer.go\<close> and
  \<open>helm_installer.go\<close>. Both implement the interface \<open>Installer\<close>; the locale \<open>installer\<close> states what
  its clients may rely on, and is interpreted on both. Values are validated in the order of
  \<open>range_map\<close>, which is arbitrary.
\<close>

section \<open>Definitions\<close>

record ManifestInstaller =
  mi_releaseServer :: string
  mi_namespace :: string

record HelmInstaller =
  hi_releaseServer :: string
  hi_namespace :: string

definition NewManifestInstaller :: "string \<Rightarrow> string \<Rightarrow> ManifestInstaller" where
  "NewManifestInstaller releaseServer namespace = \<lparr>mi_releaseServer = releaseServer, mi_namespace = namespace\<rparr>"

definition NewHelmInstaller :: "string \<Rightarrow> string \<Rightarrow> HelmInstaller" where
  "NewHelmInstaller releaseServer namespace = \<lparr>hi_releaseServer = releaseServer, hi_namespace = namespace\<rparr>"

definition validate_values :: "env \<Rightarrow> codec \<Rightarrow> ClusterAddon \<Rightarrow> AddonDefinition \<Rightarrow> unit cact" where
  "validate_values E X addon addonDef =
     andthen (range_map E (map fst (cas_Values (ca_Spec addon)))) (\<lambda>ord.
       case ValidateVariables X ord (cas_Values (ca_Spec addon)) (ad_Variables addonDef) of
         Some e \<Rightarrow> fail e | None \<Rightarrow> ret ())"

definition install_timeout :: "AddonInstallStrategy option \<Rightarrow> string" where
  "install_timeout strategy =
     (case strategy of None \<Rightarrow> ''300s'' | Some s \<Rightarrow> (case ais_Timeout s of None \<Rightarrow> ''300s'' | Some d \<Rightarrow> Duration_String d))"

definition install_retries :: "AddonInstallStrategy option \<Rightarrow> int" where
  "install_retries strategy =
     (case strategy of None \<Rightarrow> 3 | Some s \<Rightarrow> if ais_RetryCount s > 0 then int32 (ais_RetryCount s) else 3)"

subsection \<open>Manifests\<close>

definition manifest_map :: "ClusterAddon \<Rightarrow> string \<Rightarrow> config_map" where
  "manifest_map addon processedContent =
     \<lparr>cm_Name = m_Name (ca_Meta addon) @ ''-manifest'', cm_Namespace = m_Namespace (ca_Meta addon), cm_Labels = [],
      cm_Data = Some [(''addon.yaml'', processedContent)], cm_BinaryData = []\<rparr>"

definition buildApplyJob :: "ClusterAddon \<Rightarrow> AddonInstallStrategy option \<Rightarrow> job" where
  "buildApplyJob addon strategy =
     (simple_job (''install-'' @ m_Name (ca_Meta addon)) (m_Namespace (ca_Meta addon))
        [(''capbm.capbm.io/addon'', m_Name (ca_Meta addon)), (''capbm.capbm.io/type'', ''manifest'')]
        (install_retries strategy) ''kubectl'' ''addon.DefaultKubectlImage'' ''kubectl apply -f /manifests/addon.yaml'')
     \<lparr>job_ActiveDeadlineSeconds := Some (parseTimeoutSeconds (install_timeout strategy)),
      job_Volumes := [(''manifests'', ''/manifests'', m_Name (ca_Meta addon) @ ''-manifest'')]\<rparr>"

definition mi_executeHook :: "env \<Rightarrow> ClusterAddon \<Rightarrow> AddonHook \<Rightarrow> string \<Rightarrow> unit cact" where
  "mi_executeHook E addon hook phase = addon_hook E ''addon.DefaultKubectlImage'' addon hook phase"

definition mi_executeHooks :: "env \<Rightarrow> ClusterAddon \<Rightarrow> AddonHook list \<Rightarrow> string \<Rightarrow> unit cact" where
  "mi_executeHooks E addon hooks phase =
     for_each hooks (\<lambda>h. hook_step (hook_OnFailure h) (mi_executeHook E addon h phase) (wrap (addon_hook_text h phase)))"

definition mi_waitForJob :: "env \<Rightarrow> job \<Rightarrow> AddonInstallStrategy option \<Rightarrow> unit cact" where
  "mi_waitForJob E j strategy =
     (case strategy of
        None \<Rightarrow> ret ()
      | Some s \<Rightarrow> if \<not> ais_Wait s then ret () else poll_job E j (job_failed_text j) (timeout_or_5m (ais_Timeout s)))"

definition mi_Install :: "env \<Rightarrow> codec \<Rightarrow> ManifestInstaller \<Rightarrow> ClusterAddon \<Rightarrow> ReleaseImage \<Rightarrow> AddonDefinition \<Rightarrow> unit cact" where
  "mi_Install E X i addon ri addonDef =
     andthen (validate_values E X addon addonDef) (\<lambda>_.
     check (mi_executeHooks E addon (ad_PreHooks addonDef) ''pre-install'') (wrap ''pre-install hooks failed: '') (\<lambda>_.
       let mergedValues = MergeValues X (ad_DefaultValues addonDef) (cas_Values (ca_Spec addon)) in
       andthen (FetchFromReleaseImage E X (NewContentFetcher (mi_releaseServer i)) ri (cas_AddonName (ca_Spec addon))) (\<lambda>content.
         case Process X content mergedValues of
           Inl e \<Rightarrow> fail (wrap ''failed to process manifest template: '' e)
         | Inr processedContent \<Rightarrow>
             andthen (Create_unless_exists E X (KConfigMap (manifest_map addon processedContent))) (\<lambda>_.
               let j = buildApplyJob addon (ad_InstallStrategy addonDef) in
               andthen (Create_job E j) (\<lambda>_.
               andthen (mi_waitForJob E j (ad_InstallStrategy addonDef)) (\<lambda>_.
                 mi_executeHooks E addon (ad_PostHooks addonDef) ''post-install''))))))"

subsection \<open>Helm charts\<close>

definition helm_map :: "ClusterAddon \<Rightarrow> string \<Rightarrow> string \<Rightarrow> config_map" where
  "helm_map addon chartContent valuesYAML =
     \<lparr>cm_Name = m_Name (ca_Meta addon) @ ''-helm'', cm_Namespace = m_Namespace (ca_Meta addon), cm_Labels = [],
      cm_Data = Some [(''values.yaml'', valuesYAML)], cm_BinaryData = [(''chart.tgz'', chartContent)]\<rparr>"

definition getHelmImage :: "ClusterAddon \<Rightarrow> string" where
  "getHelmImage addon = ''DefaultHelmImage''"

definition helm_args :: "ClusterAddon \<Rightarrow> AddonInstallStrategy option \<Rightarrow> string" where
  "helm_args addon strategy =
     (let namespace = (if cas_Namespace (ca_Spec addon) = [] then ''default'' else cas_Namespace (ca_Spec addon));
          waitFlag = (case strategy of Some s \<Rightarrow> if \<not> ais_Wait s then [] else ''--wait'' | None \<Rightarrow> ''--wait'');
          createNamespaceFlag = (case strategy of Some s \<Rightarrow> if \<not> ais_CreateNamespace s then [] else ''--create-namespace''
                                 | None \<Rightarrow> ''--create-namespace'')
      in ''helm upgrade --install '' @ cas_AddonName (ca_Spec addon) @ '' /charts/chart.tgz --namespace '' @ namespace @ '' ''
           @ createNamespaceFlag @ '' --values /values/values.yaml '' @ waitFlag @ '' --timeout='' @ install_timeout strategy)"

definition buildHelmJob :: "ClusterAddon \<Rightarrow> AddonInstallStrategy option \<Rightarrow> job" where
  "buildHelmJob addon strategy =
     (simple_job (''install-'' @ m_Name (ca_Meta addon)) (m_Namespace (ca_Meta addon))
        [(''capbm.capbm.io/addon'', m_Name (ca_Meta addon)), (''capbm.capbm.io/type'', ''helm'')]
        (install_retries strategy) ''helm'' (getHelmImage addon) (helm_args addon strategy))
     \<lparr>job_Volumes := [(''charts'', ''/charts'', m_Name (ca_Meta addon) @ ''-helm''), (''values'', ''/values'', m_Name (ca_Meta addon) @ ''-helm'')]\<rparr>"

definition hi_executeHook :: "env \<Rightarrow> ClusterAddon \<Rightarrow> AddonHook \<Rightarrow> string \<Rightarrow> unit cact" where
  "hi_executeHook E addon hook phase = addon_hook E ''DefaultKubectlImage'' addon hook phase"

definition hi_executeHooks :: "env \<Rightarrow> ClusterAddon \<Rightarrow> AddonHook list \<Rightarrow> string \<Rightarrow> unit cact" where
  "hi_executeHooks E addon hooks phase =
     for_each hooks (\<lambda>h. hook_step (hook_OnFailure h) (hi_executeHook E addon h phase) (wrap (addon_hook_text h phase)))"

definition hi_waitForJob :: "env \<Rightarrow> job \<Rightarrow> AddonInstallStrategy option \<Rightarrow> unit cact" where
  "hi_waitForJob E j strategy =
     (case strategy of
        None \<Rightarrow> ret ()
      | Some s \<Rightarrow> if \<not> ais_Wait s then ret () else poll_job E j (job_failed_text j) (timeout_or_5m (ais_Timeout s)))"

definition hi_Install :: "env \<Rightarrow> codec \<Rightarrow> HelmInstaller \<Rightarrow> ClusterAddon \<Rightarrow> ReleaseImage \<Rightarrow> AddonDefinition \<Rightarrow> unit cact" where
  "hi_Install E X i addon ri addonDef =
     andthen (validate_values E X addon addonDef) (\<lambda>_.
     check (hi_executeHooks E addon (ad_PreHooks addonDef) ''pre-install'') (wrap ''pre-install hooks failed: '') (\<lambda>_.
       let mergedValues = MergeValues X (ad_DefaultValues addonDef) (cas_Values (ca_Spec addon)) in
       case c_yaml X (JObject mergedValues) of
         Inl e \<Rightarrow> fail (wrap ''failed to marshal values: '' e)
       | Inr valuesYAML \<Rightarrow>
           andthen (FetchFromReleaseImage E X (NewContentFetcher (hi_releaseServer i)) ri (cas_AddonName (ca_Spec addon))) (\<lambda>chartContent.
           andthen (Create_unless_exists E X (KConfigMap (helm_map addon chartContent valuesYAML))) (\<lambda>_.
             let j = buildHelmJob addon (ad_InstallStrategy addonDef) in
             andthen (Create_job E j) (\<lambda>_.
             andthen (hi_waitForJob E j (ad_InstallStrategy addonDef)) (\<lambda>_.
               hi_executeHooks E addon (ad_PostHooks addonDef) ''post-install''))))))"

section \<open>What an installation has done\<close>

definition created :: "env \<Rightarrow> kobj \<Rightarrow> log \<Rightarrow> log \<Rightarrow> bool" where
  "created E obj l0 l1 \<longleftrightarrow> (\<exists>l. prefix l0 l \<and> prefix (l @ [EvCreate obj]) l1 \<and> k_write (kube E) l (EvCreate obj) = None)"

text \<open>Stored: created, or refused with an error that \<open>isAlreadyExists\<close> lets pass.\<close>

definition stored :: "env \<Rightarrow> codec \<Rightarrow> kobj \<Rightarrow> log \<Rightarrow> log \<Rightarrow> bool" where
  "stored E X obj l0 l1 \<longleftrightarrow> (\<exists>l. prefix l0 l \<and> prefix (l @ [EvCreate obj]) l1
     \<and> (case k_write (kube E) l (EvCreate obj) of None \<Rightarrow> True | Some e \<Rightarrow> isAlreadyExists X e))"

definition hooks_created :: "env \<Rightarrow> string \<Rightarrow> ClusterAddon \<Rightarrow> AddonHook list \<Rightarrow> string \<Rightarrow> log \<Rightarrow> log \<Rightarrow> bool" where
  "hooks_created E img addon hooks phase l0 l1 \<longleftrightarrow> (\<forall>h\<in>set hooks. hook_ignored (hook_OnFailure h)
     \<or> (\<exists>now. created E (KJob (hook_job img addon h phase now)) l0 l1))"

definition waits :: "AddonInstallStrategy option \<Rightarrow> bool" where
  "waits strategy \<longleftrightarrow> (case strategy of None \<Rightarrow> False | Some s \<Rightarrow> ais_Wait s)"

definition validated :: "env \<Rightarrow> codec \<Rightarrow> ClusterAddon \<Rightarrow> AddonDefinition \<Rightarrow> log \<Rightarrow> bool" where
  "validated E X addon def l \<longleftrightarrow> ValidateVariables X (h_range (host E) l (map fst (cas_Values (ca_Spec addon))))
     (cas_Values (ca_Spec addon)) (ad_Variables def) = None"

text \<open>
  The abstract installation: values valid, pre-install hooks created, content stored, then the
  job created and, if the strategy waits, seen complete, then the post-install hooks created.
\<close>

definition put_in_place ::
  "env \<Rightarrow> codec \<Rightarrow> string \<Rightarrow> job \<Rightarrow> (config_map \<Rightarrow> bool) \<Rightarrow> ClusterAddon \<Rightarrow> AddonDefinition \<Rightarrow> log \<Rightarrow> log \<Rightarrow> bool" where
  "put_in_place E X img j holds addon def la l1 \<longleftrightarrow> (\<exists>cm lb lc ld. holds cm \<and> stored E X (KConfigMap cm) la lb \<and> prefix la lb
     \<and> created E (KJob j) lb lc \<and> prefix lb lc
     \<and> (if waits (ad_InstallStrategy def) then job_seen_complete E j lc ld else ld = lc) \<and> prefix lc ld
     \<and> hooks_created E img addon (ad_PostHooks def) ''post-install'' ld l1 \<and> prefix ld l1)"

definition installed ::
  "env \<Rightarrow> codec \<Rightarrow> string \<Rightarrow> job \<Rightarrow> (config_map \<Rightarrow> bool) \<Rightarrow> ClusterAddon \<Rightarrow> AddonDefinition \<Rightarrow> log \<Rightarrow> log \<Rightarrow> bool" where
  "installed E X img j holds addon def l0 l1 \<longleftrightarrow> validated E X addon def l0 \<and> (\<exists>la lb.
     hooks_created E img addon (ad_PreHooks def) ''pre-install'' l0 la \<and> prefix l0 la \<and> prefix la lb
     \<and> put_in_place E X img j holds addon def lb l1 \<and> prefix lb l1)"

text \<open>What an installation may do to the outside: it stays in the namespace of the addon.\<close>

fun install_event :: "string \<Rightarrow> event \<Rightarrow> bool" where
  "install_event ns (EvCreate (KJob j)) = (job_Namespace j = ns)"
| "install_event ns (EvCreate (KConfigMap cm)) = (cm_Namespace cm = ns)"
| "install_event ns (EvGet kind n name) = (kind = ''Job'' \<and> n = ns)"
| "install_event ns (EvHTTPGet url) = True"
| "install_event ns EvNow = True"
| "install_event ns _ = False"

locale installer =
  fixes Install :: "env \<Rightarrow> codec \<Rightarrow> 'i \<Rightarrow> ClusterAddon \<Rightarrow> ReleaseImage \<Rightarrow> AddonDefinition \<Rightarrow> unit cact"
    and server :: "'i \<Rightarrow> string"
    and img :: string
    and job_of :: "ClusterAddon \<Rightarrow> AddonInstallStrategy option \<Rightarrow> job"
    and holds :: "codec \<Rightarrow> ClusterAddon \<Rightarrow> AddonDefinition \<Rightarrow> config_map \<Rightarrow> bool"
  assumes installs: "poll_ok E \<Longrightarrow> contract (install_event (m_Namespace (ca_Meta addon))) (Install E X i addon ri def)
      (\<lambda>_ l0 l1. server i \<noteq> [] \<and> installed E X img (job_of addon (ad_InstallStrategy def)) (holds X addon def) addon def l0 l1)"
begin

lemma install_done:
  assumes "poll_ok E" and "pool_wf w" and "Install E X i addon ri def w = (Ok u, w')"
  shows "server i \<noteq> []" "installed E X img (job_of addon (ad_InstallStrategy def)) (holds X addon def) addon def (w_log w) (w_log w')"
  using contractD(4) [OF installs [OF assms(1)] assms(2,3)] by simp_all

lemma install_needs_server: "poll_ok E \<Longrightarrow> pool_wf w \<Longrightarrow> server i = [] \<Longrightarrow> \<exists>e w'. Install E X i addon ri def w = (Err e, w')"
  using contractD(3) [OF installs] install_done(1) by (metis res.exhaust surj_pair)

text \<open>
  Errors of the API server do not have the method \<open>isAlreadyExists\<close> looks for; then an addon whose
  content is already stored cannot be installed again.
\<close>

lemma install_twice:
  assumes "poll_ok E" and "pool_wf w" and "\<And>e. \<not> isAlreadyExists X e"
    and "\<And>l cm. holds X addon def cm \<Longrightarrow> k_write (kube E) l (EvCreate (KConfigMap cm)) \<noteq> None"
  shows "\<exists>e w'. Install E X i addon ri def w = (Err e, w')"
proof -
  obtain r w' where run: "Install E X i addon ri def w = (r, w')" by (metis surj_pair)
  have "r \<noteq> Ok u" for u
  proof
    assume "r = Ok u"
    with run install_done(2) [OF assms(1,2)] have "installed E X img (job_of addon (ad_InstallStrategy def)) (holds X addon def) addon def (w_log w) (w_log w')" by blast
    then obtain cm la lb where "holds X addon def cm" "stored E X (KConfigMap cm) la lb" unfolding installed_def put_in_place_def by blast
    with assms(3,4) show False unfolding stored_def by (auto split: option.splits)
  qed
  with contractD(3) [OF installs [OF assms(1)] assms(2) run] run show ?thesis by (cases r) auto
qed

end

section \<open>Both installers keep the contract\<close>

lemma created_widen: "created E obj l l' \<Longrightarrow> prefix l0 l \<Longrightarrow> prefix l' l1 \<Longrightarrow> created E obj l0 l1"
  unfolding created_def by (meson prefix_order.trans)

lemma contract_hooks_created:
  "contract (install_event (m_Namespace (ca_Meta addon))) (addon_hooks E img addon hooks phase)
     (\<lambda>_. hooks_created E img addon hooks phase)"
proof -
  let ?A = "install_event (m_Namespace (ca_Meta addon))"
  let ?Q = "\<lambda>h l0 l1. hook_ignored (hook_OnFailure h) \<or> (\<exists>now. created E (KJob (hook_job img addon h phase now)) l0 l1)"
  have create: "contract ?A (Create_job E (hook_job img addon h phase now)) (\<lambda>_. created E (KJob (hook_job img addon h phase now)))" for h now
    unfolding Create_job_def
    by (rule contract_weaken [OF contract_accepted]) (auto simp: created_def hook_job_def simple_job_def)
  have hook: "contract ?A (addon_hook E img addon h phase) (\<lambda>_ l0 l1. \<exists>now. created E (KJob (hook_job img addon h phase now)) l0 l1)" for h
    unfolding addon_hook_def time_Now_def
    by (rule contract_weaken [OF contract_check [OF contract_query create]], simp) (clarsimp, rule exI, erule created_widen, simp_all)
  have step: "contract ?A (hook_step (hook_OnFailure h) (addon_hook E img addon h phase) err) (\<lambda>_. ?Q h)" for h err
    unfolding hook_step_def
    by (rule contract_weaken [OF contract_attempt [OF hook, where R = "\<lambda>_ _ l0 l1. l1 = l0" and S = "\<lambda>_ _ _. hook_ignored (hook_OnFailure h)"]])
       (auto simp: hook_ignored_def intro: contract_retI contract_fail)
  have widen: "?Q h l0 l1" if "?Q h l l'" "prefix l0 l" "prefix l' l1" for h l0 l l' l1
    using that created_widen by blast
  show ?thesis unfolding addon_hooks_def hooks_created_def
    by (rule contract_weaken [OF contract_for_each [OF step]]) (meson widen)
qed

lemma contract_stored:
  assumes "A (EvCreate obj)"
  shows "contract A (Create_unless_exists E X obj) (\<lambda>_. stored E X obj)"
  unfolding Create_unless_exists_def api_write_def command_def
proof (rule contractI)
  fix w r w' assume "pool_wf w" and run: "attempt (query (EvCreate obj) (\<lambda>l. case k_write (kube E) l (EvCreate obj) of None \<Rightarrow> Inr () | Some e \<Rightarrow> Inl e))
      (\<lambda>r. case r of Inl e \<Rightarrow> if \<not> isAlreadyExists X e then fail e else ret () | Inr _ \<Rightarrow> ret ()) w = (r, w')"
  with assms show "pool_wf w' \<and> grew A (w_log w) w' \<and> (\<forall>s. r \<noteq> Panic s) \<and> (\<forall>x. r = Ok x \<longrightarrow> stored E X obj (w_log w) (w_log w'))"
    by (cases "k_write (kube E) (w_log w) (EvCreate obj)")
       (auto simp: attempt_apply query_def act_simps stored_def grew_def split: if_splits)
qed

lemma contract_fetch:
  assumes "\<And>url. A (EvHTTPGet url)"
  shows "contract A (FetchFromReleaseImage E X (NewContentFetcher srv) ri n) (\<lambda>_ l0 l1. srv \<noteq> [])"
proof -
  have body: "contract A (read_body X b) (\<lambda>_ _ _. True)" for b
    by (auto simp: contract_def read_body_def grew_def split: option.splits)
  have http: "contract A (fetch_http E X what url) (\<lambda>_ _ _. True)" for what url
    unfolding fetch_http_def
    by (auto intro!: contract_fail body contract_weaken [OF contract_check [OF contract_query [of A], where R = "\<lambda>_ _ _ _. True"]] assms split: option.split prod.split)
  show ?thesis
    unfolding FetchFromReleaseImage_def fetch_content_def NewContentFetcher_def Let_def
    by (auto intro!: contract_fail contract_weaken [OF http] split: option.split)
qed

lemma contract_validate: "contract A (validate_values E X addon def) (\<lambda>_ l0 l1. validated E X addon def l0 \<and> l1 = l0)"
  unfolding validate_values_def
  by (auto simp: contract_def check_apply range_map_def validated_def act_simps grew_def split: option.splits)

lemma contract_wait:
  assumes "poll_ok E"
  shows "contract (install_event (job_Namespace j)) (mi_waitForJob E j s) (\<lambda>_ l0 l1. if waits s then job_seen_complete E j l0 l1 else l1 = l0)"
  unfolding mi_waitForJob_def waits_def
  by (cases s) (auto intro!: contract_retI contract_weaken [OF contract_poll_job [OF assms]])

text \<open>The part both installers share, from storing the content on.\<close>

lemma contract_install_tail:
  assumes "poll_ok E" and "cm_Namespace cm = m_Namespace (ca_Meta addon)" and "job_Namespace j = m_Namespace (ca_Meta addon)" and "holds cm"
  shows "contract (install_event (m_Namespace (ca_Meta addon)))
    (andthen (Create_unless_exists E X (KConfigMap cm)) (\<lambda>_. andthen (Create_job E j) (\<lambda>_.
       andthen (mi_waitForJob E j (ad_InstallStrategy def)) (\<lambda>_. addon_hooks E img addon (ad_PostHooks def) ''post-install''))))
    (\<lambda>_. put_in_place E X img j holds addon def)"
proof -
  let ?A = "install_event (m_Namespace (ca_Meta addon))"
  have grows: "contract ?A m (\<lambda>x l0 l1. Q x l0 l1 \<and> prefix l0 l1)" if "contract ?A m Q" for m :: "unit cact" and Q
    by (rule contract_weaken [OF that]) simp
  have create: "contract ?A (Create_job E j) (\<lambda>_ l0 l1. created E (KJob j) l0 l1 \<and> prefix l0 l1)"
    unfolding Create_job_def by (rule grows, rule contract_weaken [OF contract_accepted]) (auto simp: created_def assms)
  have wait: "contract ?A (mi_waitForJob E j (ad_InstallStrategy def)) (\<lambda>_ l0 l1.
      (if waits (ad_InstallStrategy def) then job_seen_complete E j l0 l1 else l1 = l0) \<and> prefix l0 l1)"
    using grows [OF contract_wait [OF assms(1), of j "ad_InstallStrategy def", unfolded assms(3)]] .
  have store: "contract ?A (Create_unless_exists E X (KConfigMap cm)) (\<lambda>_ l0 l1. stored E X (KConfigMap cm) l0 l1 \<and> prefix l0 l1)"
    by (rule grows, rule contract_stored) (simp add: assms)
  note steps = contract_check [OF store contract_check [OF create contract_check [OF wait grows [OF contract_hooks_created]]]]
  show ?thesis
    by (rule contract_weaken [OF steps], unfold put_in_place_def) (use assms(4) in blast)
qed

definition manifest_content :: "codec \<Rightarrow> ClusterAddon \<Rightarrow> AddonDefinition \<Rightarrow> config_map \<Rightarrow> bool" where
  "manifest_content X addon def cm \<longleftrightarrow> (\<exists>content processed. cm = manifest_map addon processed
     \<and> Process X content (MergeValues X (ad_DefaultValues def) (cas_Values (ca_Spec addon))) = Inr processed)"

definition helm_content :: "codec \<Rightarrow> ClusterAddon \<Rightarrow> AddonDefinition \<Rightarrow> config_map \<Rightarrow> bool" where
  "helm_content X addon def cm \<longleftrightarrow> (\<exists>chart yaml. cm = helm_map addon chart yaml
     \<and> c_yaml X (JObject (MergeValues X (ad_DefaultValues def) (cas_Values (ca_Spec addon)))) = Inr yaml)"

lemma same_steps: "hi_waitForJob = mi_waitForJob" "mi_executeHooks E = addon_hooks E ''addon.DefaultKubectlImage''"
  "hi_executeHooks E = addon_hooks E ''DefaultKubectlImage''"
  by (auto simp: fun_eq_iff hi_waitForJob_def mi_waitForJob_def mi_executeHooks_def hi_executeHooks_def addon_hooks_def
      mi_executeHook_def hi_executeHook_def)

text \<open>
  The steps before: both installers validate, run the hooks and fetch; \<open>m\<close> is what they do with
  the fetched content.
\<close>

lemma contract_install_head:
  assumes "contract (install_event (m_Namespace (ca_Meta addon))) m (\<lambda>_ l0 l1. srv \<noteq> [] \<and> (\<exists>l. prefix l0 l \<and> prefix l l1 \<and> put_in_place E X img j holds addon def l l1))"
  shows "contract (install_event (m_Namespace (ca_Meta addon)))
    (andthen (validate_values E X addon def) (\<lambda>_. check (addon_hooks E img addon (ad_PreHooks def) ''pre-install'') f (\<lambda>_. m)))
    (\<lambda>_ l0 l1. srv \<noteq> [] \<and> installed E X img j holds addon def l0 l1)"
proof -
  let ?A = "install_event (m_Namespace (ca_Meta addon))"
  have hooks: "contract ?A (addon_hooks E img addon (ad_PreHooks def) ''pre-install'')
      (\<lambda>_ l0 l1. hooks_created E img addon (ad_PreHooks def) ''pre-install'' l0 l1 \<and> prefix l0 l1)"
    by (rule contract_weaken [OF contract_hooks_created]) simp
  show ?thesis
  proof (rule contract_weaken [OF contract_check [OF contract_validate contract_check [OF hooks assms]]])
    fix l0 l1
    assume "\<exists>x l. (validated E X addon def l0 \<and> l = l0) \<and> prefix l l1 \<and> (\<exists>x l'. (hooks_created E img addon (ad_PreHooks def) ''pre-install'' l l' \<and> prefix l l')
       \<and> prefix l' l1 \<and> srv \<noteq> [] \<and> (\<exists>l. prefix l' l \<and> prefix l l1 \<and> put_in_place E X img j holds addon def l l1))"
    then show "srv \<noteq> [] \<and> installed E X img j holds addon def l0 l1" unfolding installed_def by blast
  qed
qed

lemma contract_fetched:
  assumes "\<And>content. contract (install_event ns) (k content) (\<lambda>_. put_in_place E X img j holds addon def)"
  shows "contract (install_event ns) (andthen (FetchFromReleaseImage E X (NewContentFetcher srv) ri n) k)
    (\<lambda>_ l0 l1. srv \<noteq> [] \<and> (\<exists>l. prefix l0 l \<and> prefix l l1 \<and> put_in_place E X img j holds addon def l l1))"
proof -
  have fetch: "contract (install_event ns) (FetchFromReleaseImage E X (NewContentFetcher srv) ri n) (\<lambda>_ l0 l1. srv \<noteq> [] \<and> prefix l0 l1)"
    by (rule contract_weaken [OF contract_fetch]) simp_all
  show ?thesis by (rule contract_weaken [OF contract_check [OF fetch assms]]) blast
qed

lemma contract_mi_Install:
  assumes "poll_ok E"
  shows "contract (install_event (m_Namespace (ca_Meta addon))) (mi_Install E X i addon ri def) (\<lambda>_ l0 l1. mi_releaseServer i \<noteq> []
    \<and> installed E X ''addon.DefaultKubectlImage'' (buildApplyJob addon (ad_InstallStrategy def)) (manifest_content X addon def) addon def l0 l1)"
  unfolding mi_Install_def Let_def same_steps
proof (rule contract_install_head, rule contract_fetched)
  fix content
  let ?m = "MergeValues X (ad_DefaultValues def) (cas_Values (ca_Spec addon))" and ?j = "buildApplyJob addon (ad_InstallStrategy def)"
  have j: "job_Namespace ?j = m_Namespace (ca_Meta addon)" by (simp add: buildApplyJob_def simple_job_def)
  show "contract (install_event (m_Namespace (ca_Meta addon))) (case Process X content ?m of
      Inl e \<Rightarrow> fail (wrap ''failed to process manifest template: '' e)
    | Inr p \<Rightarrow> andthen (Create_unless_exists E X (KConfigMap (manifest_map addon p))) (\<lambda>_. andthen (Create_job E ?j) (\<lambda>_.
        andthen (mi_waitForJob E ?j (ad_InstallStrategy def)) (\<lambda>_.
          addon_hooks E ''addon.DefaultKubectlImage'' addon (ad_PostHooks def) ''post-install''))))
    (\<lambda>_. put_in_place E X ''addon.DefaultKubectlImage'' ?j (manifest_content X addon def) addon def)"
  proof (cases "Process X content ?m")
    case (Inr p)
    then have "manifest_content X addon def (manifest_map addon p)" unfolding manifest_content_def by blast
    then show ?thesis using contract_install_tail [where cm = "manifest_map addon p", OF assms _ j] Inr by (simp add: manifest_map_def)
  qed (simp add: contract_fail)
qed

lemma contract_hi_Install:
  assumes "poll_ok E"
  shows "contract (install_event (m_Namespace (ca_Meta addon))) (hi_Install E X i addon ri def) (\<lambda>_ l0 l1. hi_releaseServer i \<noteq> []
    \<and> installed E X ''DefaultKubectlImage'' (buildHelmJob addon (ad_InstallStrategy def)) (helm_content X addon def) addon def l0 l1)"
proof -
  let ?A = "install_event (m_Namespace (ca_Meta addon))"
  let ?m = "MergeValues X (ad_DefaultValues def) (cas_Values (ca_Spec addon))" and ?j = "buildHelmJob addon (ad_InstallStrategy def)"
  let ?Q = "\<lambda>_ l0 l1. hi_releaseServer i \<noteq> [] \<and> (\<exists>l. prefix l0 l \<and> prefix l l1
      \<and> put_in_place E X ''DefaultKubectlImage'' ?j (helm_content X addon def) addon def l l1)"
  have j: "job_Namespace ?j = m_Namespace (ca_Meta addon)" by (simp add: buildHelmJob_def simple_job_def)
  have "contract ?A (case c_yaml X (JObject ?m) of
      Inl e \<Rightarrow> fail (wrap ''failed to marshal values: '' e)
    | Inr yaml \<Rightarrow> andthen (FetchFromReleaseImage E X (NewContentFetcher (hi_releaseServer i)) ri (cas_AddonName (ca_Spec addon))) (\<lambda>chart.
        andthen (Create_unless_exists E X (KConfigMap (helm_map addon chart yaml))) (\<lambda>_. andthen (Create_job E ?j) (\<lambda>_.
        andthen (mi_waitForJob E ?j (ad_InstallStrategy def)) (\<lambda>_. addon_hooks E ''DefaultKubectlImage'' addon (ad_PostHooks def) ''post-install'')))))
    ?Q"
  proof (cases "c_yaml X (JObject ?m)")
    case (Inr yaml)
    then have "helm_content X addon def (helm_map addon chart yaml)" for chart unfolding helm_content_def by blast
    then show ?thesis using Inr contract_fetched [OF contract_install_tail [where cm = "helm_map addon chart yaml" for chart, OF assms _ j]]
      by (simp add: helm_map_def)
  qed (simp add: contract_fail)
  then show ?thesis unfolding hi_Install_def Let_def same_steps by (rule contract_install_head)
qed

interpretation manifest: installer mi_Install mi_releaseServer "''addon.DefaultKubectlImage''" buildApplyJob manifest_content
  by unfold_locales (rule contract_mi_Install)

interpretation helm: installer hi_Install hi_releaseServer "''DefaultKubectlImage''" buildHelmJob helm_content
  by unfold_locales (rule contract_hi_Install)

section \<open>Properties\<close>

text \<open>
  (C20) An installation that succeeds, by either installer, had a release server and did every
  step in order: the values passed validation, the job of every pre-install hook that may not fail was created, the
  ConfigMap with the merged values was stored, the install job was created and, when the strategy
  waits, seen complete, and the jobs of the post-install hooks were created last.
\<close>

theorem Install_correct:
  assumes "poll_ok E" and "pool_wf w"
  shows "(mi_Install E X i addon ri def w = (Ok (), w') \<longrightarrow> mi_releaseServer i \<noteq> []
      \<and> installed E X ''addon.DefaultKubectlImage'' (buildApplyJob addon (ad_InstallStrategy def)) (manifest_content X addon def) addon def (w_log w) (w_log w'))
    \<and> (hi_Install E X k addon ri def w = (Ok (), w') \<longrightarrow> hi_releaseServer k \<noteq> []
      \<and> installed E X ''DefaultKubectlImage'' (buildHelmJob addon (ad_InstallStrategy def)) (helm_content X addon def) addon def (w_log w) (w_log w'))"
  by (intro conjI impI, (erule manifest.install_done [OF assms])+, (erule helm.install_done [OF assms])+)

text \<open>
  An installation that was done once cannot be done again: the API server refuses to create the ConfigMap that
  exists, its error does not have the method that \<open>isAlreadyExists\<close> looks for, and both installers
  return that error.
\<close>

theorem reinstall_fails:
  assumes "poll_ok E" and "pool_wf w" and "\<forall>e. \<not> isAlreadyExists X e"
    and "\<forall>l cm. cm_Namespace cm = m_Namespace (ca_Meta addon) \<and> cm_Name cm \<in> {m_Name (ca_Meta addon) @ ''-manifest'', m_Name (ca_Meta addon) @ ''-helm''}
      \<longrightarrow> k_write (kube E) l (EvCreate (KConfigMap cm)) \<noteq> None"
  shows "(\<exists>e w'. mi_Install E X i addon ri def w = (Err e, w')) \<and> (\<exists>e w'. hi_Install E X k addon ri def w = (Err e, w'))"
  by (intro conjI manifest.install_twice helm.install_twice assms(1,2))
     (use assms(3,4) in \<open>auto simp: manifest_content_def helm_content_def manifest_map_def helm_map_def\<close>)

section \<open>Witnesses\<close>

definition serving_env :: env where
  "serving_env = quiet_env\<lparr>host := quiet_host\<lparr>h_http := (\<lambda>l u. Inr (200, ''chart''))\<rparr>\<rparr>"

lemma install_runs:
  "\<exists>w'. mi_Install serving_env ex_codec (NewManifestInstaller ''http://release'' []) ex_dns (ex_addon_release (zero_Addon\<lparr>ad_Name := ''dns''\<rparr>))
     (zero_Addon\<lparr>ad_Name := ''dns''\<rparr>) empty_world = (Ok (), w')"
  by (simp add: mi_Install_def validate_values_def ValidateVariables_def same_steps addon_hooks_def act_simps range_map_def serving_env_def quiet_defs
      FetchFromReleaseImage_def fetch_content_def fetch_http_def read_body_def query_def ex_codec_def ex_addon_defs NewManifestInstaller_def NewContentFetcher_def
      Process_def Create_unless_exists_def Create_job_def api_write_def command_def mi_waitForJob_def Let_def)

theorem Install_witness:
  "\<exists>w'. installed serving_env ex_codec ''addon.DefaultKubectlImage'' (buildApplyJob ex_dns None)
     (manifest_content ex_codec ex_dns (zero_Addon\<lparr>ad_Name := ''dns''\<rparr>)) ex_dns (zero_Addon\<lparr>ad_Name := ''dns''\<rparr>) [] (w_log (w' :: world))"
proof -
  have "poll_ok serving_env" by (simp add: serving_env_def quiet_host_def)
  from Install_correct [OF this pool_wf_empty] install_runs show ?thesis
    by (fastforce simp: zero_defs empty_world_def)
qed

theorem reinstall_witness:
  "(\<exists>e w'. mi_Install (quiet_env\<lparr>kube := quiet_kube\<lparr>k_write := (\<lambda>l ev. Some (ApiError ReasonAlreadyExists ''exists''))\<rparr>\<rparr>) ex_codec
      (NewManifestInstaller ''http://release'' []) ex_dns zero_ReleaseImage zero_Addon empty_world = (Err e, (w' :: world)))
   \<and> (\<exists>e w'. hi_Install (quiet_env\<lparr>kube := quiet_kube\<lparr>k_write := (\<lambda>l ev. Some (ApiError ReasonAlreadyExists ''exists''))\<rparr>\<rparr>) ex_codec
      (NewHelmInstaller ''http://release'' []) ex_dns zero_ReleaseImage zero_Addon empty_world = (Err e, (w' :: world)))"
  by (rule reinstall_fails) (simp_all add: quiet_env_def quiet_host_def isAlreadyExists_def ex_codec_def)

end
