(* ===== verification/Cluster_Addon.thy ===== *)
theory Cluster_Addon
  imports Addon_Install Object_State
begin

text \<open>
  The controller of ClusterAddon objects, \<open>modules/cvo/internal/controllers/clusteraddon_controller.go\<close>.
  The object is mutated in place and written with \<open>Update\<close> and \<open>Status().Update\<close>; the state is
  the world and that object. \<open>genv\<close> is the process environment. A result returned beside an
  error is not read by controller-runtime, so such a return is just the error.
\<close>

section \<open>Definitions\<close>

type_synonym 'a caact = "(ClusterAddon, 'a) objact"

definition ClusterAddonFinalizer :: string where
  "ClusterAddonFinalizer = ''clusteraddon.cvo.capbm.io''"

abbreviation modify_ca :: "(ClusterAddonStatus \<Rightarrow> ClusterAddonStatus) \<Rightarrow> unit caact" where
  "modify_ca f \<equiv> modify_obj (\<lambda>a. a\<lparr>ca_Status := f (ca_Status a)\<rparr>)"

definition update_ca :: "env \<Rightarrow> unit caact" where
  "update_ca E = with_obj (\<lambda>a. on_world (api_write E (EvUpdate (KClusterAddon a))))"

definition update_ca_status :: "env \<Rightarrow> unit caact" where
  "update_ca_status E = with_obj (\<lambda>a. on_world (api_write E (EvStatusUpdate (KClusterAddon a))))"

definition ca_findAddonDefinition :: "ReleaseImage \<Rightarrow> string \<Rightarrow> AddonDefinition option" where
  "ca_findAddonDefinition ri addonName = List.find (\<lambda>d. ad_Name d = addonName) (ris_Addons (ri_Spec ri))"

definition getLocalDir :: "(string \<Rightarrow> string) \<Rightarrow> string" where
  "getLocalDir genv = (if genv ''CAPBM_RELEASE_LOCAL_DIR'' \<noteq> [] then genv ''CAPBM_RELEASE_LOCAL_DIR'' else ''release-image'')"

text \<open>The two loops over the jobs and their conditions: the first condition that is true decides.\<close>

fun jobs_verdict :: "(string \<times> job_state) list \<Rightarrow> error + bool" where
  "jobs_verdict [] = Inr False"
| "jobs_verdict ((n, js) # rest) =
     (case job_verdict (\<lambda>_. Errorf (''job '' @ n @ '' failed'')) (js_Conditions js) of
        Inl e \<Rightarrow> Inl e | Inr True \<Rightarrow> Inr True | Inr False \<Rightarrow> jobs_verdict rest)"

definition List_jobs :: "env \<Rightarrow> string \<Rightarrow> labels \<Rightarrow> (string \<times> job_state) list cact" where
  "List_jobs E ns lbls = query (EvList ''Job'' ns lbls) (\<lambda>l. k_list_jobs (kube E) l ns lbls)"

definition addon_ready :: "env \<Rightarrow> ClusterAddon \<Rightarrow> bool cact" where
  "addon_ready E addon =
     andthen (Get_clusteraddon E (m_Namespace (ca_Meta addon)) (m_Name (ca_Meta addon))) (\<lambda>_.
     andthen (List_jobs E (m_Namespace (ca_Meta addon)) [(''capbm.capbm.io/addon'', cas_AddonName (ca_Spec addon))]) (\<lambda>jobs.
       case jobs_verdict jobs of Inl e \<Rightarrow> fail e | Inr b \<Rightarrow> ret b))"

definition waitForAddonReady :: "env \<Rightarrow> ClusterAddon \<Rightarrow> AddonDefinition \<Rightarrow> unit cact" where
  "waitForAddonReady E addon addonDef =
     (case ad_InstallStrategy addonDef of
        None \<Rightarrow> ret ()
      | Some s \<Rightarrow> if \<not> ais_Wait s then ret () else Poll E (5 * second) (timeout_or_5m (ais_Timeout s)) (addon_ready E addon))"

definition record_installed :: "env \<Rightarrow> AddonDefinition \<Rightarrow> unit caact" where
  "record_installed E addonDef =
     andthen (modify_ca (\<lambda>s. s\<lparr>cast_Version := ad_Version addonDef, cast_Phase := AddonPhaseInstalled,
         cast_LastAppliedRevision := ad_Version addonDef\<rparr>)) (\<lambda>_. update_ca_status E)"

definition install_by :: "env \<Rightarrow> codec \<Rightarrow> ClusterAddon \<Rightarrow> AddonDefinition \<Rightarrow> ReleaseImage \<Rightarrow> unit cact" where
  "install_by E X addon addonDef ri =
     (if ad_Type addonDef = ''helm'' then
        check (hi_Install E X (NewHelmInstaller [] (m_Namespace (ca_Meta addon))) addon ri addonDef) (wrap ''failed to install addon: '') ret
      else if ad_Type addonDef = ''manifest'' then
        check (mi_Install E X (NewManifestInstaller [] (m_Namespace (ca_Meta addon))) addon ri addonDef) (wrap ''failed to install addon: '') ret
      else fail (Errorf (''unsupported addon type: '' @ ad_Type addonDef)))"

definition upgradeAddon :: "env \<Rightarrow> codec \<Rightarrow> (string \<Rightarrow> string) \<Rightarrow> AddonDefinition \<Rightarrow> ReleaseImage \<Rightarrow> unit caact" where
  "upgradeAddon E X genv addonDef ri =
     andthen (modify_ca (\<lambda>s. s\<lparr>cast_Phase := AddonPhaseUpgrading\<rparr>)) (\<lambda>_.
     andthen (update_ca_status E) (\<lambda>_.
       let contentFetcher = NewContentFetcherWithLocalDir [] (getLocalDir genv) in
       with_obj (\<lambda>addon.
         andthen (on_world (install_by E X addon addonDef ri)) (\<lambda>_.
         check (on_world (waitForAddonReady E addon addonDef)) (wrap ''addon installation did not complete: '') (\<lambda>_.
           record_installed E addonDef)))))"

definition ca_reconcileDelete :: "env \<Rightarrow> ctrl_result caact" where
  "ca_reconcileDelete E =
     andthen (modify_obj (\<lambda>a. a\<lparr>ca_Meta := RemoveFinalizer ClusterAddonFinalizer (ca_Meta a)\<rparr>)) (\<lambda>_.
     andthen (update_ca E) (\<lambda>_. ret (requeue 0)))"

definition add_ca_finalizer :: "env \<Rightarrow> unit caact" where
  "add_ca_finalizer E = with_obj (\<lambda>a.
     if ClusterAddonFinalizer \<in> set (m_Finalizers (ca_Meta a)) then ret ()
     else andthen (modify_obj (\<lambda>a. a\<lparr>ca_Meta := AddFinalizer ClusterAddonFinalizer (ca_Meta a)\<rparr>)) (\<lambda>_. update_ca E))"

definition ca_upgrade_round :: "env \<Rightarrow> codec \<Rightarrow> (string \<Rightarrow> string) \<Rightarrow> AddonDefinition \<Rightarrow> ReleaseImage \<Rightarrow> ctrl_result caact" where
  "ca_upgrade_round E X genv addonDef ri = with_obj (\<lambda>a.
     if cast_Version (ca_Status a) \<noteq> ad_Version addonDef then
       attempt (upgradeAddon E X genv addonDef ri) (\<lambda>r. case r of
         Inl e \<Rightarrow>
           andthen (modify_ca (\<lambda>s. s\<lparr>cast_Phase := AddonPhaseFailed\<rparr>)) (\<lambda>_.
             attempt (update_ca_status E) (\<lambda>_. fail e))
       | Inr _ \<Rightarrow> ret (requeue (5 * minute)))
     else ret (requeue (5 * minute)))"

definition ca_body :: "env \<Rightarrow> codec \<Rightarrow> (string \<Rightarrow> string) \<Rightarrow> ctrl_result caact" where
  "ca_body E X genv = with_obj (\<lambda>a.
     if m_DeletionTimestamp (ca_Meta a) \<noteq> None then ca_reconcileDelete E
     else
       andthen (add_ca_finalizer E) (\<lambda>_.
       attempt (on_world (Get_releaseimage E (cas_ReleaseImageRef (ca_Spec a)))) (\<lambda>got. case got of
         Inl e \<Rightarrow> if IsNotFound e then ret (requeue (30 * second)) else fail e
       | Inr ri \<Rightarrow>
           (case ca_findAddonDefinition ri (cas_AddonName (ca_Spec a)) of
              None \<Rightarrow> ret (requeue (60 * second))
            | Some addonDef \<Rightarrow> ca_upgrade_round E X genv addonDef ri))))"

definition ca_Reconcile :: "env \<Rightarrow> codec \<Rightarrow> (string \<Rightarrow> string) \<Rightarrow> string \<Rightarrow> string \<Rightarrow> ctrl_result cact" where
  "ca_Reconcile E X genv ns name =
     attempt (Get_clusteraddon E ns name) (\<lambda>got. case got of
       Inl e \<Rightarrow> if IsNotFound e then ret (requeue 0) else fail e
     | Inr addon \<Rightarrow> (\<lambda>w. case ca_body E X genv (w, addon) of (res, (w', addon')) \<Rightarrow> (res, w')))"

section \<open>No addon is ever installed\<close>

lemma install_by_fails:
  assumes "poll_ok E" and "pool_wf w"
  shows "\<exists>e w'. install_by E X addon def ri w = (Err e, w') \<and> pool_wf w' \<and> grew (install_event (m_Namespace (ca_Meta addon))) (w_log w) w'"
proof -
  let ?hi = "hi_Install E X (NewHelmInstaller [] (m_Namespace (ca_Meta addon))) addon ri def"
  let ?mi = "mi_Install E X (NewManifestInstaller [] (m_Namespace (ca_Meta addon))) addon ri def"
  obtain e w1 where h: "?hi w = (Err e, w1)"
    using helm.install_needs_server [OF assms, of "NewHelmInstaller [] (m_Namespace (ca_Meta addon))" X addon ri def] by (auto simp: NewHelmInstaller_def)
  obtain f w2 where m: "?mi w = (Err f, w2)"
    using manifest.install_needs_server [OF assms, of "NewManifestInstaller [] (m_Namespace (ca_Meta addon))" X addon ri def] by (auto simp: NewManifestInstaller_def)
  note ch = contractD(1,2) [OF helm.installs [OF assms(1)] assms(2) h]
  note cm = contractD(1,2) [OF manifest.installs [OF assms(1)] assms(2) m]
  show ?thesis using h m ch cm assms(2) by (simp add: install_by_def check_apply fail_apply grew_def)
qed

abbreviation in_phase :: "AddonPhase \<Rightarrow> ClusterAddon \<Rightarrow> ClusterAddon" where
  "in_phase p a \<equiv> a\<lparr>ca_Status := (ca_Status a)\<lparr>cast_Phase := p\<rparr>\<rparr>"

lemma update_ca_status_apply:
  "update_ca_status E (w, a) = (case k_write (kube E) (w_log w) (EvStatusUpdate (KClusterAddon a)) of None \<Rightarrow> Ok () | Some e \<Rightarrow> Err e,
     w\<lparr>w_log := w_log w @ [EvStatusUpdate (KClusterAddon a)]\<rparr>, a)"
  by (simp add: update_ca_status_def act_simps api_write_def command_def query_def split: option.split)

lemma upgradeAddon_fails:
  assumes "poll_ok E" and "pool_wf w"
  shows "\<exists>e w' es. upgradeAddon E X genv def ri (w, a) = (Err e, (w', in_phase AddonPhaseUpgrading a))
    \<and> w_log w' = w_log w @ EvStatusUpdate (KClusterAddon (in_phase AddonPhaseUpgrading a)) # es
    \<and> list_all (install_event (m_Namespace (ca_Meta a))) es"
proof -
  let ?a = "in_phase AddonPhaseUpgrading a"
  let ?w = "w\<lparr>w_log := w_log w @ [EvStatusUpdate (KClusterAddon ?a)]\<rparr>"
  have "pool_wf ?w" using assms(2) by simp
  from install_by_fails [OF assms(1) this, of X ?a def ri] obtain e w' where f: "install_by E X ?a def ri ?w = (Err e, w')"
    and g: "grew (install_event (m_Namespace (ca_Meta a))) (w_log ?w) w'" by auto
  from g obtain es where "w_log w' = w_log ?w @ es" "list_all (install_event (m_Namespace (ca_Meta a))) es" by (auto simp: grew_def)
  with f show ?thesis
    by (cases "k_write (kube E) (w_log w) (EvStatusUpdate (KClusterAddon ?a))") (auto simp: upgradeAddon_def Let_def act_simps update_ca_status_apply)
qed

lemma ca_upgrade_round_fails:
  assumes "poll_ok E" and "pool_wf w" and "cast_Version (ca_Status a) \<noteq> ad_Version def"
  shows "\<exists>e w' a' es. ca_upgrade_round E X genv def ri (w, a) = (Err e, (w', a'))
    \<and> w_log w' = w_log w @ [EvStatusUpdate (KClusterAddon (in_phase AddonPhaseUpgrading a))] @ es @ [EvStatusUpdate (KClusterAddon (in_phase AddonPhaseFailed a))]
    \<and> list_all (install_event (m_Namespace (ca_Meta a))) es"
proof -
  from upgradeAddon_fails [OF assms(1,2), of X genv def ri a] obtain e w' es
    where "upgradeAddon E X genv def ri (w, a) = (Err e, (w', in_phase AddonPhaseUpgrading a))"
      "w_log w' = w_log w @ EvStatusUpdate (KClusterAddon (in_phase AddonPhaseUpgrading a)) # es"
      "list_all (install_event (m_Namespace (ca_Meta a))) es" by blast
  with assms(3) show ?thesis by (simp add: ca_upgrade_round_def act_simps update_ca_status_apply split: option.split)
qed

text \<open>
  A round of the ClusterAddon controller on a live addon whose version is not that of the release always fails: the status goes to
  Upgrading, the pre-install hooks may run again, and the last thing written is the status Failed
  with the old version. The installers are built without a release server, so there is no
  content to install.
\<close>

theorem cluster_addon_round_fails:
  assumes "poll_ok E" and "pool_wf w" and "k_get_clusteraddon (kube E) (w_log w) ns name = Inr a"
    and "m_DeletionTimestamp (ca_Meta a) = None" and "ClusterAddonFinalizer \<in> set (m_Finalizers (ca_Meta a))"
    and "k_get_releaseimage (kube E) (w_log w @ [EvGet ''ClusterAddon'' ns name]) (cas_ReleaseImageRef (ca_Spec a)) = Inr ri"
    and "ca_findAddonDefinition ri (cas_AddonName (ca_Spec a)) = Some def" and "cast_Version (ca_Status a) \<noteq> ad_Version def"
  shows "\<exists>e w' es. ca_Reconcile E X genv ns name w = (Err e, w') \<and> list_all (install_event (m_Namespace (ca_Meta a))) es
    \<and> w_log w' = w_log w @ [EvGet ''ClusterAddon'' ns name, EvGet ''ReleaseImage'' [] (cas_ReleaseImageRef (ca_Spec a)),
        EvStatusUpdate (KClusterAddon (in_phase AddonPhaseUpgrading a))] @ es @ [EvStatusUpdate (KClusterAddon (in_phase AddonPhaseFailed a))]"
proof -
  let ?w = "w\<lparr>w_log := w_log w @ [EvGet ''ClusterAddon'' ns name, EvGet ''ReleaseImage'' [] (cas_ReleaseImageRef (ca_Spec a))]\<rparr>"
  have "pool_wf ?w" using assms(2) by simp
  from ca_upgrade_round_fails [OF assms(1) this assms(8), of X genv ri] obtain e w' a' es
    where "ca_upgrade_round E X genv def ri (?w, a) = (Err e, (w', a'))" "list_all (install_event (m_Namespace (ca_Meta a))) es"
      "w_log w' = w_log ?w @ [EvStatusUpdate (KClusterAddon (in_phase AddonPhaseUpgrading a))] @ es @ [EvStatusUpdate (KClusterAddon (in_phase AddonPhaseFailed a))]"
    by blast
  with assms(3-7) show ?thesis
    by (simp add: ca_Reconcile_def ca_body_def add_ca_finalizer_def act_simps Get_clusteraddon_def Get_releaseimage_def query_def)
qed

text \<open>
  What a round writes of the addon: with \<open>Update\<close> only other metadata, with the status only the phase, Upgrading or Failed.
\<close>

fun frozen :: "ClusterAddon \<Rightarrow> event \<Rightarrow> bool" where
  "frozen a (EvUpdate obj) \<longleftrightarrow> (\<exists>m. obj = KClusterAddon (a\<lparr>ca_Meta := m\<rparr>))"
| "frozen a (EvStatusUpdate obj) \<longleftrightarrow> (\<exists>m. obj = KClusterAddon (in_phase AddonPhaseUpgrading (a\<lparr>ca_Meta := m\<rparr>))
     \<or> obj = KClusterAddon (in_phase AddonPhaseFailed (a\<lparr>ca_Meta := m\<rparr>)))"
| "frozen a ev \<longleftrightarrow> True"

lemma install_event_frozen: "list_all (install_event ns) es \<Longrightarrow> list_all (frozen a) es"
proof -
  have "frozen a ev" if "install_event ns ev" for ev using that by (cases "(ns, ev)" rule: install_event.cases) simp_all
  then show "list_all (install_event ns) es \<Longrightarrow> list_all (frozen a) es" by (auto simp: list_all_iff)
qed

lemma ca_upgrade_round_frozen:
  assumes "poll_ok E" and "pool_wf w"
  shows "\<exists>res w' a' es. ca_upgrade_round E X genv def ri (w, a\<lparr>ca_Meta := m\<rparr>) = (res, (w', a')) \<and> w_log w' = w_log w @ es \<and> list_all (frozen a) es
    \<and> (\<forall>s. res \<noteq> Panic s) \<and> (\<forall>c. res = Ok c \<longrightarrow> cast_Version (ca_Status a) = ad_Version def)"
proof (cases "cast_Version (ca_Status a) = ad_Version def")
  case True
  then show ?thesis by (simp add: ca_upgrade_round_def act_simps)
next
  case False
  then have "cast_Version (ca_Status (a\<lparr>ca_Meta := m\<rparr>)) \<noteq> ad_Version def" by simp
  from ca_upgrade_round_fails [OF assms this, of X genv ri] install_event_frozen [of _ _ a] show ?thesis by fastforce
qed

lemma add_ca_finalizer_run:
  "\<exists>res m es. add_ca_finalizer E (w, a) = (res, (w\<lparr>w_log := w_log w @ es\<rparr>, a\<lparr>ca_Meta := m\<rparr>)) \<and> list_all (frozen a) es \<and> (\<forall>s. res \<noteq> Panic s)"
proof (cases "ClusterAddonFinalizer \<in> set (m_Finalizers (ca_Meta a))")
  case True
  then show ?thesis by (intro exI [of _ "Ok ()"] exI [of _ "ca_Meta a"] exI [of _ "[]"]) (simp add: add_ca_finalizer_def act_simps)
next
  case False
  let ?m = "AddFinalizer ClusterAddonFinalizer (ca_Meta a)"
  from False show ?thesis
    by (intro exI [of _ "case k_write (kube E) (w_log w) (EvUpdate (KClusterAddon (a\<lparr>ca_Meta := ?m\<rparr>))) of None \<Rightarrow> Ok () | Some e \<Rightarrow> Err e"]
        exI [of _ ?m] exI [of _ "[EvUpdate (KClusterAddon (a\<lparr>ca_Meta := ?m\<rparr>))]"])
       (auto simp: add_ca_finalizer_def update_ca_def act_simps api_write_def command_def query_def split: option.split)
qed

lemma ca_body_frozen:
  assumes "poll_ok E" and "pool_wf w" and "ca_body E X genv (w, a) = (res, (w', a'))"
  shows "\<exists>es. w_log w' = w_log w @ es \<and> list_all (frozen a) es \<and> (\<forall>s. res \<noteq> Panic s)"
proof (cases "m_DeletionTimestamp (ca_Meta a) = None")
  case False
  with assms(3) show ?thesis
    by (auto simp: ca_body_def ca_reconcileDelete_def update_ca_def act_simps api_write_def command_def query_def split: option.splits)
next
  case True
  obtain r1 m es where fin: "add_ca_finalizer E (w, a) = (r1, (w\<lparr>w_log := w_log w @ es\<rparr>, a\<lparr>ca_Meta := m\<rparr>))"
    and es: "list_all (frozen a) es" "\<forall>s. r1 \<noteq> Panic s" using add_ca_finalizer_run by metis
  let ?get = "EvGet ''ReleaseImage'' [] (cas_ReleaseImageRef (ca_Spec a))"
  let ?w = "w\<lparr>w_log := w_log w @ es @ [?get]\<rparr>"
  show ?thesis
  proof (cases r1)
    case (Ok u)
    show ?thesis
    proof (cases "k_get_releaseimage (kube E) (w_log w @ es) (cas_ReleaseImageRef (ca_Spec a))")
      case (Inl e)
      with True fin Ok es assms(3) show ?thesis
        by (auto simp: ca_body_def act_simps Get_releaseimage_def query_def split: if_splits)
    next
      case (Inr ri)
      show ?thesis
      proof (cases "ca_findAddonDefinition ri (cas_AddonName (ca_Spec a))")
        case None
        with True fin Ok es Inr assms(3) show ?thesis by (auto simp: ca_body_def act_simps Get_releaseimage_def query_def)
      next
        case (Some def)
        have "pool_wf ?w" using assms(2) by simp
        from ca_upgrade_round_frozen [OF assms(1) this, where X = X and genv = genv and def = def and ri = ri and a = a and m = m] obtain r2 w2 a2 fs
          where "ca_upgrade_round E X genv def ri (?w, a\<lparr>ca_Meta := m\<rparr>) = (r2, (w2, a2))" "w_log w2 = w_log ?w @ fs" "list_all (frozen a) fs"
            "\<forall>s. r2 \<noteq> Panic s" by blast
        with True fin Ok es Inr Some assms(3) show ?thesis by (simp add: ca_body_def act_simps Get_releaseimage_def query_def)
      qed
    qed
  qed (use True fin es assms(3) in \<open>auto simp: ca_body_def act_simps\<close>)
qed

text \<open>
  (C21) No round of the controller ever records an addon as installed or changes its version: whatever it
  writes of the object it read, the spec and the recorded version are as read and the phase is only
  set to Upgrading or Failed. The round does not panic.
\<close>

theorem cluster_addon_never_installed:
  assumes "poll_ok E" and "pool_wf w" and "k_get_clusteraddon (kube E) (w_log w) ns name = Inr a"
    and "ca_Reconcile E X genv ns name w = (res, w')"
  shows "\<exists>new. w_log w' = w_log w @ new \<and> list_all (frozen a) new \<and> (\<forall>s. res \<noteq> Panic s)"
proof -
  let ?w = "w\<lparr>w_log := w_log w @ [EvGet ''ClusterAddon'' ns name]\<rparr>"
  obtain r1 w1 a1 where b: "ca_body E X genv (?w, a) = (r1, (w1, a1))" by (metis surj_pair)
  have "pool_wf ?w" using assms(2) by simp
  from ca_body_frozen [OF assms(1) this b] b assms(3,4) show ?thesis
    by (auto simp: ca_Reconcile_def act_simps Get_clusteraddon_def query_def)
qed

section \<open>Waiting for the wrong jobs\<close>

text \<open>A list with a label selector returns only objects that carry its labels.\<close>

definition selectors_honoured :: "env \<Rightarrow> bool" where
  "selectors_honoured E \<longleftrightarrow> (\<forall>l ns sel js. k_list_jobs (kube E) l ns sel = Inr js \<longrightarrow>
     list_all (\<lambda>(n, j). list_all (\<lambda>(k, v). map_of (js_Labels j) k = Some v) sel) js)"

text \<open>
  The jobs of an addon are labelled with the name of the ClusterAddon object, but the wait lists them by the
  name of the addon in the release. If no job of the namespace carries that name, the wait cannot
  succeed, however long the install job has been complete.
\<close>

theorem wait_misses_the_jobs:
  assumes "poll_ok E" and "pool_wf w" and "selectors_honoured E" and "waits (ad_InstallStrategy def)"
    and "\<forall>l sel js n j. k_list_jobs (kube E) l (m_Namespace (ca_Meta a)) sel = Inr js \<and> (n, j) \<in> set js
      \<longrightarrow> map_of (js_Labels j) ''capbm.capbm.io/addon'' \<noteq> Some (cas_AddonName (ca_Spec a))"
  shows "\<exists>e w'. waitForAddonReady E a def w = (Err e, w')"
proof -
  let ?sel = "[(''capbm.capbm.io/addon'', cas_AddonName (ca_Spec a))]"
  from assms(4) obtain s where s: "ad_InstallStrategy def = Some s" "ais_Wait s" by (auto simp: waits_def split: option.splits)
  have none: "js = []" if "k_list_jobs (kube E) l (m_Namespace (ca_Meta a)) ?sel = Inr js" for l js
  proof (rule ccontr)
    assume "js \<noteq> []"
    then obtain n j where "(n, j) \<in> set js" by (metis list.set_intros(1) neq_Nil_conv surj_pair)
    with that assms(3,5) show False by (fastforce simp: selectors_honoured_def list_all_iff)
  qed
  have verdict: "contract (\<lambda>_. True) (case jobs_verdict js of Inl e \<Rightarrow> fail e | Inr b \<Rightarrow> ret b) (\<lambda>b l0 l1. jobs_verdict js = Inr b)" for js
    by (cases "jobs_verdict js") (auto intro: contract_fail contract_retI)
  have get: "contract (\<lambda>_. True) (Get_clusteraddon E ns n) (\<lambda>_ _ _. True)" for ns n
    unfolding Get_clusteraddon_def by (rule contract_weaken [OF contract_query]) simp_all
  have list: "contract (\<lambda>_. True) (List_jobs E (m_Namespace (ca_Meta a)) ?sel) (\<lambda>js _ _. js = [])"
    unfolding List_jobs_def by (rule contract_weaken [OF contract_query]) (auto dest: none)
  have "contract (\<lambda>_. True) (addon_ready E a) (\<lambda>b _ _. \<not> b)"
    unfolding addon_ready_def by (rule contract_weaken [OF contract_check [OF get contract_check [OF list verdict]]]) auto
  note c = contract_Poll [OF assms(1) this, of "5 * second" "timeout_or_5m (ais_Timeout s)"]
  obtain r w' where run: "Poll E (5 * second) (timeout_or_5m (ais_Timeout s)) (addon_ready E a) w = (r, w')" by (metis surj_pair)
  from contractD(3,4) [OF c assms(2) run] have "\<exists>e. r = Err e" by (cases r) auto
  with run s show ?thesis by (auto simp: waitForAddonReady_def)
qed

section \<open>Witnesses\<close>

definition ex_dns_addon :: AddonDefinition where
  "ex_dns_addon = zero_Addon\<lparr>ad_Name := ''dns'', ad_Type := ''helm'', ad_Version := ''1.2.0'',
     ad_InstallStrategy := Some \<lparr>ais_Timeout = None, ais_RetryCount = 0, ais_CreateNamespace = False, ais_Wait = True\<rparr>\<rparr>"

definition live_dns :: ClusterAddon where
  "live_dns = ex_dns\<lparr>ca_Meta := (ca_Meta ex_dns)\<lparr>m_Finalizers := [ClusterAddonFinalizer]\<rparr>\<rparr>"

definition ca_env :: env where
  "ca_env = quiet_env\<lparr>kube := quiet_kube\<lparr>k_get_clusteraddon := (\<lambda>l ns n. Inr live_dns),
     k_get_releaseimage := (\<lambda>l n. Inr (ex_addon_release ex_dns_addon))\<rparr>\<rparr>"

lemma ca_env_simps: "poll_ok ca_env" "k_get_clusteraddon (kube ca_env) l ns n = Inr live_dns"
  "k_get_releaseimage (kube ca_env) l n = Inr (ex_addon_release ex_dns_addon)" "k_list_jobs (kube ca_env) l ns sel = Inr []"
  "m_DeletionTimestamp (ca_Meta live_dns) = None" "ClusterAddonFinalizer \<in> set (m_Finalizers (ca_Meta live_dns))"
  "ca_findAddonDefinition (ex_addon_release ex_dns_addon) (cas_AddonName (ca_Spec live_dns)) = Some ex_dns_addon"
  "cast_Version (ca_Status live_dns) \<noteq> ad_Version ex_dns_addon" "waits (ad_InstallStrategy ex_dns_addon)"
  by (simp_all add: ca_env_def quiet_defs live_dns_def ex_addon_defs ex_dns_addon_def ca_findAddonDefinition_def waits_def poll_ok_quiet)

theorem cluster_addon_round_witness:
  "\<exists>e w'. ca_Reconcile ca_env ex_codec (\<lambda>_. []) ''kube-system'' ''dns'' empty_world = (Err e, (w' :: world))
     \<and> last (w_log w') = EvStatusUpdate (KClusterAddon (in_phase AddonPhaseFailed live_dns))"
  using cluster_addon_round_fails [OF ca_env_simps(1) pool_wf_empty ca_env_simps(2,5,6,3,7,8), of ex_codec "\<lambda>_. []" "''kube-system''" "''dns''"]
  by auto

theorem never_installed_witness:
  "\<exists>new. w_log (snd (ca_Reconcile ca_env ex_codec (\<lambda>_. []) ''kube-system'' ''dns'' empty_world)) = new \<and> list_all (frozen live_dns) new"
  using cluster_addon_never_installed [OF ca_env_simps(1) pool_wf_empty ca_env_simps(2) prod.collapse [symmetric], of ex_codec "\<lambda>_. []" "''kube-system''" "''dns''"]
  by (auto simp: empty_world_def)

theorem wait_misses_witness: "\<exists>e w'. waitForAddonReady ca_env live_dns ex_dns_addon empty_world = (Err e, (w' :: world))"
  by (rule wait_misses_the_jobs) (simp_all add: ca_env_simps selectors_honoured_def)

end
