(* ===== verification/Image_Import.thy ===== *)
theory Image_Import
  imports Addon_Jobs Object_State
begin

text \<open>
  The image importer and its status tracker, \<open>modules/cvo/internal/registry/importer.go\<close> and
  \<open>status.go\<close>: the job that copies the images of a release into a registry, the environment it
  hands to its script, and the import status of the ReleaseImage. The script is the text of the source; what it does
  with its variables is not modelled (it is written for \<open>bash\<close> and the job runs it with \<open>sh\<close>).
\<close>

section \<open>Definitions\<close>

definition LabelReleaseVersion :: string where "LabelReleaseVersion = ''capbm.capbm.io/release-version''"
definition LabelImportType :: string where "LabelImportType = ''capbm.capbm.io/type''"
definition JobTypeImageImport :: string where "JobTypeImageImport = ''image-import''"
definition ImageImporterServiceAccount :: string where "ImageImporterServiceAccount = ''capbm-image-importer''"
definition ImageImporterImage :: string where "ImageImporterImage = ''registry.k8s.io/cri-tools:latest''"
definition ContainerdSocketPath :: string where "ContainerdSocketPath = ''/run/containerd/containerd.sock''"
definition HostsDirPath :: string where "HostsDirPath = ''/etc/containerd/hosts.d''"

record Importer =
  im_releaseServer :: string
  im_namespace :: string

text \<open>\<open>strings.TrimRight\<close> with a cutset of one character.\<close>

definition TrimRight :: "string \<Rightarrow> char \<Rightarrow> string" where
  "TrimRight s c = rev (dropWhile (\<lambda>d. d = c) (rev s))"

definition NewImporter :: "string \<Rightarrow> string \<Rightarrow> Importer" where
  "NewImporter releaseServer namespace = \<lparr>im_releaseServer = TrimRight releaseServer CHR ''/'', im_namespace = namespace\<rparr>"

definition addonImageMap :: "(string \<times> string list) list" where
  "addonImageMap = [
     (''calico'', [''docker.io/calico/node.tar'', ''docker.io/calico/kube-controllers.tar'', ''docker.io/calico/cni.tar'']),
     (''ceph-csi'', [''quay.io/cephcsi/cephcsi.tar'', ''registry.k8s.io/sig-storage/csi-attacher.tar'',
        ''registry.k8s.io/sig-storage/csi-provisioner.tar'', ''registry.k8s.io/sig-storage/csi-snapshotter.tar'',
        ''registry.k8s.io/sig-storage/csi-resizer.tar'', ''registry.k8s.io/sig-storage/csi-node-driver-registrar.tar'']),
     (''metallb'', [''quay.io/metallb/controller.tar'', ''quay.io/metallb/speaker.tar'']),
     (''gateway-api'', [''docker.io/envoyproxy/gateway.tar'', ''docker.io/envoyproxy/envoy.tar'']),
     (''capi-core-controller'', [''registry.k8s.io/capi/capi-controller.tar''])]"

definition buildAddonImageList :: "AddonDefinition \<Rightarrow> string list" where
  "buildAddonImageList addon = (case map_of addonImageMap (ad_Name addon) of Some images \<Rightarrow> images | None \<Rightarrow> [])"

text \<open>The components of a release that have images, in the order in which the job lists them.\<close>

definition component_images :: "ReleaseImageSpec \<Rightarrow> (string \<times> string list) list" where
  "component_images spec =
     (let kube = kc_ImageList (rc_Kubernetes (ris_Components spec)) in
      (if kube \<noteq> [] then [(''kubernetes'', kube)] else [])
      @ filter (\<lambda>(n, images). images \<noteq> []) (map (\<lambda>a. (ad_Name a, buildAddonImageList a)) (ris_Addons spec)))"

definition componentList :: "ReleaseImageSpec \<Rightarrow> string" where
  "componentList spec = join_with '','' (map fst (component_images spec))"

definition imageLists :: "ReleaseImageSpec \<Rightarrow> string" where
  "imageLists spec = join_with '';'' (map (\<lambda>(n, images). n @ '':'' @ join_with '','' images) (component_images spec))"

definition import_env :: "Importer \<Rightarrow> ImageRegistryConfig \<Rightarrow> ReleaseImageSpec \<Rightarrow> (string \<times> env_value) list" where
  "import_env i cfg spec =
     [(''RELEASE_SERVER'', EnvText (im_releaseServer i)), (''REGISTRY'', EnvText (ir_Registry cfg)),
      (''REPOSITORY'', EnvText (ir_Repository cfg)), (''IMAGE_PREFIX'', EnvText (ir_ImagePrefix cfg)),
      (''INSECURE'', EnvText (if ir_InsecureSkipVerify cfg then ''true'' else ''false'')),
      (''COMPONENTS'', EnvText (componentList spec)), (''IMAGE_LISTS'', EnvText (imageLists spec))]
     @ (if ir_CredentialsSecret cfg \<noteq> [] then
          [(''REGISTRY_USER'', EnvSecret (ir_CredentialsSecret cfg) ''username''),
           (''REGISTRY_PASSWORD'', EnvSecret (ir_CredentialsSecret cfg) ''password'')] else [])"

definition buildImportScript :: string where
  \<open>buildImportScript = script_lines [
    ''#!/bin/sh'',
    ''set -euo pipefail'',
    [],
    ''RELEASE_SERVER="${RELEASE_SERVER}"'',
    ''REGISTRY="${REGISTRY}"'',
    ''REPOSITORY="${REPOSITORY}"'',
    ''IMAGE_PREFIX="${IMAGE_PREFIX}"'',
    ''REGISTRY_USER="${REGISTRY_USER:-}"'',
    ''REGISTRY_PASSWORD="${REGISTRY_PASSWORD:-}"'',
    ''INSECURE="${INSECURE:-false}"'',
    ''COMPONENTS="${COMPONENTS}"'',
    ''IMAGE_LISTS="${IMAGE_LISTS}"'',
    ''CONTAINERD_NS="k8s.io"'',
    ''HOSTS_DIR="/etc/containerd/hosts.d"'',
    [],
    ''echo "=== Starting image import to $REGISTRY/$REPOSITORY ==="'',
    [],
    ''# Configure containerd hosts.d for registry authentication'',
    ''mkdir -p "${HOSTS_DIR}/${REGISTRY}"'',
    [],
    ''# Generate hosts.toml'',
    ''cat > "${HOSTS_DIR}/${REGISTRY}/hosts.toml" << EOF'',
    ''server = "https://${REGISTRY}"'',
    [],
    ''[host."https://${REGISTRY}"]'',
    ''  capabilities = ["pull", "resolve", "push"]'',
    ''EOF'',
    [],
    ''# Add authentication if credentials provided'',
    ''if [ -n "$REGISTRY_USER" ] && [ -n "$REGISTRY_PASSWORD" ]; then'',
    ''  AUTH=$(echo -n "${REGISTRY_USER}:${REGISTRY_PASSWORD}" | base64)'',
    ''  cat >> "${HOSTS_DIR}/${REGISTRY}/hosts.toml" << EOF'',
    [],
    ''[host."https://${REGISTRY}".header]'',
    ''  Authorization = "Basic ${AUTH}"'',
    ''EOF'',
    ''fi'',
    [],
    ''# Add insecure skip verify if enabled'',
    ''if [ "$INSECURE" = "true" ]; then'',
    ''  cat >> "${HOSTS_DIR}/${REGISTRY}/hosts.toml" << EOF'',
    [],
    ''[host."https://${REGISTRY}"]'',
    ''  skip_verify = true'',
    ''EOF'',
    ''fi'',
    [],
    ''# Parse components and image lists'',
    ''IFS='' @ [CHR 0x27] @ '','' @ [CHR 0x27] @ '' read -ra COMPONENT_ARRAY <<< "$COMPONENTS"'',
    ''IFS='' @ [CHR 0x27] @ '';'' @ [CHR 0x27] @ '' read -ra IMAGE_LIST_ARRAY <<< "$IMAGE_LISTS"'',
    [],
    ''# Build component to images mapping'',
    ''declare -A COMPONENT_IMAGES'',
    ''for entry in "${IMAGE_LIST_ARRAY[@]}"; do'',
    ''  component="${entry%%:*}"'',
    ''  images="${entry#*:}"'',
    ''  COMPONENT_IMAGES[$component]="$images"'',
    ''done'',
    [],
    ''# Import images for each component'',
    ''for component in "${COMPONENT_ARRAY[@]}"; do'',
    ''  echo "=== Importing $component images ==="'',
    ''  '',
    ''  # Get component version from index.json'',
    ''  VERSION=$(curl -fsSL "${RELEASE_SERVER}/index.json" | jq -r ".components.'' @ backslash @ ''"$component'' @ backslash @ ''".version")'',
    ''  if [ "$VERSION" = "null" ] || [ -z "$VERSION" ]; then'',
    ''    echo "Skipping $component (not in release)"'',
    ''    continue'',
    ''  fi'',
    ''  '',
    ''  # Get image list'',
    ''  IMAGES="${COMPONENT_IMAGES[$component]}"'',
    ''  if [ -z "$IMAGES" ]; then'',
    ''    echo "Skipping $component (no images)"'',
    ''    continue'',
    ''  fi'',
    ''  '',
    ''  IFS='' @ [CHR 0x27] @ '','' @ [CHR 0x27] @ '' read -ra IMAGE_ARRAY <<< "$IMAGES"'',
    ''  '',
    ''  for image_tar in "${IMAGE_ARRAY[@]}"; do'',
    ''    echo "Processing $image_tar..."'',
    ''    '',
    ''    # Download tar'',
    ''    curl -fsSL "${RELEASE_SERVER}/images/${component}/${VERSION}/${image_tar}" -o "/tmp/${image_tar}"'',
    ''    '',
    ''    # Import to containerd'',
    ''    ctr -n "$CONTAINERD_NS" images import "/tmp/${image_tar}"'',
    ''    '',
    ''    # Get image name from tar filename (remove .tar extension)'',
    ''    IMAGE_NAME=$(echo "$image_tar" | sed '' @ [CHR 0x27] @ ''s/'' @ backslash @ ''.tar$//'' @ [CHR 0x27] @ '')'',
    ''    '',
    ''    # Tag image'',
    ''    TARGET_IMAGE="${REGISTRY}/${REPOSITORY}/${IMAGE_PREFIX}/${component}/${IMAGE_NAME}:${VERSION}"'',
    ''    ctr -n "$CONTAINERD_NS" images tag "${IMAGE_NAME}" "$TARGET_IMAGE"'',
    ''    '',
    ''    # Push to registry using hosts.d for authentication'',
    ''    ctr -n "$CONTAINERD_NS" images push '' @ backslash,
    ''      --hosts-dir "$HOSTS_DIR" '' @ backslash,
    ''      "$TARGET_IMAGE"'',
    ''    '',
    ''    echo "Pushed: $TARGET_IMAGE"'',
    ''    rm -f "/tmp/${image_tar}"'',
    ''  done'',
    ''  '',
    ''  echo "=== $component images imported ==="'',
    ''done'',
    [],
    ''echo "=== All images imported successfully ==="'']\<close>

definition import_job_name :: "ReleaseImage \<Rightarrow> string" where
  "import_job_name ri = ''import-images-'' @ ris_Version (ri_Spec ri)"

definition buildImportJob :: "Importer \<Rightarrow> ReleaseImage \<Rightarrow> ImageRegistryConfig \<Rightarrow> import_job" where
  "buildImportJob i ri cfg =
     \<lparr>ij_Name = import_job_name ri, ij_Namespace = im_namespace i,
      ij_Labels = [(LabelReleaseVersion, ris_Version (ri_Spec ri)), (LabelImportType, JobTypeImageImport)],
      ij_BackoffLimit = 3, ij_ActiveDeadlineSeconds = 3600, ij_ServiceAccount = ImageImporterServiceAccount,
      ij_Container = ''image-importer'', ij_Image = ImageImporterImage, ij_Command = [''sh'', ''-c'', buildImportScript],
      ij_Env = import_env i cfg (ri_Spec ri),
      ij_Mounts = [(''containerd-socket'', ContainerdSocketPath, False), (''hosts-dir'', HostsDirPath, False)]
        @ (if ir_CAConfigMap cfg \<noteq> [] then [(''registry-ca'', ''/etc/containerd/certs.d'', True)] else []),
      ij_Volumes = [(''containerd-socket'', VolHostPath ContainerdSocketPath), (''hosts-dir'', VolEmptyDir)]
        @ (if ir_CAConfigMap cfg \<noteq> [] then [(''registry-ca'', VolConfigMap (ir_CAConfigMap cfg))] else [])\<rparr>"

text \<open>The registry configuration, if the import is enabled.\<close>

definition import_enabled :: "ReleaseImage \<Rightarrow> ImageRegistryConfig option" where
  "import_enabled ri = (case ris_ImageRegistry (ri_Spec ri) of None \<Rightarrow> None | Some cfg \<Rightarrow> if ir_Enabled cfg then Some cfg else None)"

definition ImportImages :: "env \<Rightarrow> Importer \<Rightarrow> ReleaseImage \<Rightarrow> unit cact" where
  "ImportImages E i ri =
     (case import_enabled ri of
        None \<Rightarrow> ret ()
      | Some cfg \<Rightarrow>
          (let create = api_write E (EvCreate (KImportJob (buildImportJob i ri cfg))) in
           attempt (Get_job E (im_namespace i) (import_job_name ri)) (\<lambda>r. case r of
             Inl e \<Rightarrow> create
           | Inr js \<Rightarrow>
               if (case map_of (js_Labels js) LabelReleaseVersion of None \<Rightarrow> [] | Some v \<Rightarrow> v) = ris_Version (ri_Spec ri) then ret ()
               else check (api_write E (EvDelete ''Job'' (im_namespace i) (import_job_name ri))) (wrap ''failed to delete old import job: '') (\<lambda>_. create))))"

subsection \<open>Import status\<close>

definition ImportStatusPending :: string where "ImportStatusPending = ''pending''"
definition ImportStatusRunning :: string where "ImportStatusRunning = ''running''"
definition ImportStatusCompleted :: string where "ImportStatusCompleted = ''completed''"
definition ImportStatusFailed :: string where "ImportStatusFailed = ''failed''"

type_synonym 'a riact = "(ReleaseImage, 'a) objact"

abbreviation modify_ri :: "(ReleaseImageStatus \<Rightarrow> ReleaseImageStatus) \<Rightarrow> unit riact" where
  "modify_ri f \<equiv> modify_obj (\<lambda>ri. ri\<lparr>ri_Status := f (ri_Status ri)\<rparr>)"

definition pending_status :: "ReleaseImageStatus \<Rightarrow> ReleaseImageStatus" where
  "pending_status s = s\<lparr>rist_ImagesImported := False, rist_ImportStatus := ImportStatusPending, rist_ImportMessage := ''Import job not yet created''\<rparr>"

definition job_import_status :: "job_state \<Rightarrow> ReleaseImageStatus \<Rightarrow> ReleaseImageStatus" where
  "job_import_status js s =
     (if js_Succeeded js > 0 then
        s\<lparr>rist_ImagesImported := True, rist_ImportStatus := ImportStatusCompleted, rist_ImportMessage := ''All images imported successfully''\<rparr>
      else if js_Failed js > 0 then
        (let s' = s\<lparr>rist_ImagesImported := False, rist_ImportStatus := ImportStatusFailed\<rparr> in
         case js_Conditions js of [] \<Rightarrow> s' | (_, _, msg) # _ \<Rightarrow> s'\<lparr>rist_ImportMessage := msg\<rparr>)
      else
        s\<lparr>rist_ImagesImported := False, rist_ImportStatus := ImportStatusRunning,
          rist_ImportMessage := ''Import in progress: '' @ show_int (js_Active js) @ '' active pods''\<rparr>)"

text \<open>The status of one image; a name of fewer than four characters makes the slice panic (\<open>None\<close>).\<close>

definition image_status :: "ImageRegistryConfig \<Rightarrow> string \<Rightarrow> string \<Rightarrow> job_state \<Rightarrow> string \<Rightarrow> ImportedImageStatus option" where
  "image_status cfg name version js img =
     (if length img < 4 then None
      else Some \<lparr>ii_Component = name, ii_Image = take (length img - 4) img,
        ii_TargetRef = ir_Registry cfg @ ''/'' @ ir_Repository cfg @ ''/'' @ ir_ImagePrefix cfg @ ''/'' @ name @ '':'' @ version,
        ii_Status = (if js_Succeeded js > 0 then ''imported'' else if js_Failed js > 0 then ''failed'' else ''pending''), ii_Message = []\<rparr>)"

fun all_some :: "'a option list \<Rightarrow> 'a list option" where
  "all_some [] = Some []"
| "all_some (None # xs) = None"
| "all_some (Some x # xs) = (case all_some xs of None \<Rightarrow> None | Some ys \<Rightarrow> Some (x # ys))"

definition status_components :: "ReleaseImageSpec \<Rightarrow> (string \<times> string list \<times> string) list" where
  "status_components spec =
     (''kubernetes'', kc_ImageList (rc_Kubernetes (ris_Components spec)), kc_Version (rc_Kubernetes (ris_Components spec)))
     # filter (\<lambda>(n, images, v). images \<noteq> []) (map (\<lambda>a. (ad_Name a, buildAddonImageList a, ad_Version a)) (ris_Addons spec))"

definition buildImportedImageStatus :: "ReleaseImage \<Rightarrow> job_state \<Rightarrow> ImportedImageStatus list option" where
  "buildImportedImageStatus ri js =
     (case ris_ImageRegistry (ri_Spec ri) of
        None \<Rightarrow> Some []
      | Some cfg \<Rightarrow> all_some (concat (map (\<lambda>(n, images, v). map (image_status cfg n v js) images) (status_components (ri_Spec ri)))))"

definition UpdateReleaseImageStatus :: "env \<Rightarrow> unit riact" where
  "UpdateReleaseImageStatus E = with_obj (\<lambda>ri.
     case import_enabled ri of
       None \<Rightarrow> ret ()
     | Some cfg \<Rightarrow>
         attempt (on_world (Get_job E (m_Namespace (ri_Meta ri)) (import_job_name ri))) (\<lambda>r. case r of
           Inl e \<Rightarrow> modify_ri pending_status
         | Inr js \<Rightarrow>
             andthen (modify_ri (\<lambda>s. job_import_status js (s\<lparr>rist_ImportJobName := import_job_name ri\<rparr>))) (\<lambda>_.
               case buildImportedImageStatus ri js of
                 None \<Rightarrow> panic ''slice bounds out of range''
               | Some statuses \<Rightarrow> modify_ri (\<lambda>s. s\<lparr>rist_ImportedImages := statuses\<rparr>))))"

definition GetImportStatus :: "env \<Rightarrow> ReleaseImage \<Rightarrow> ReleaseImageStatus cact" where
  "GetImportStatus E ri =
     (case import_enabled ri of
        None \<Rightarrow> ret (zero_ReleaseImageStatus\<lparr>rist_ImportStatus := ''disabled'', rist_ImportMessage := ''Image registry import is not enabled''\<rparr>)
      | Some cfg \<Rightarrow>
          attempt (Get_job E (m_Namespace (ri_Meta ri)) (import_job_name ri)) (\<lambda>r. case r of
            Inl e \<Rightarrow> ret (pending_status zero_ReleaseImageStatus)
          | Inr js \<Rightarrow> ret (job_import_status js (zero_ReleaseImageStatus\<lparr>rist_ImportJobName := import_job_name ri\<rparr>))))"

section \<open>Import status\<close>

lemma addonImageMap_long: "list_all (\<lambda>(n, images). list_all (\<lambda>i. 4 \<le> length i) images) addonImageMap"
  by (simp add: addonImageMap_def)

lemma buildAddonImageList_long: "i \<in> set (buildAddonImageList a) \<Longrightarrow> 4 \<le> length i"
  using addonImageMap_long
  by (cases "map_of addonImageMap (ad_Name a)") (fastforce simp: buildAddonImageList_def list_all_iff dest: map_of_SomeD)+

lemma all_some_None: "all_some xs = None \<longleftrightarrow> None \<in> set xs"
  by (induction xs rule: all_some.induct) (auto split: option.splits)

text \<open>
  (C23) The per-image status cannot be built exactly when an image of Kubernetes has a name shorter than the
  extension \<open>.tar\<close>: the code cuts four characters off every name.
\<close>

theorem short_image_name_panics:
  assumes "import_enabled ri = Some cfg" and "k_get_job (kube E) (w_log w) (m_Namespace (ri_Meta ri)) (import_job_name ri) = Inr js"
  shows "(\<exists>s. UpdateReleaseImageStatus E (w, ri) = (Panic ''slice bounds out of range'', s))
    \<longleftrightarrow> (\<exists>i\<in>set (kc_ImageList (rc_Kubernetes (ris_Components (ri_Spec ri)))). length i < 4)"
proof -
  from assms(1) have cfg: "ris_ImageRegistry (ri_Spec ri) = Some cfg" by (auto simp: import_enabled_def split: option.splits if_splits)
  have addon: "\<not> length i < 4" if "i \<in> set (buildAddonImageList a)" for i a
    using buildAddonImageList_long [OF that] by simp
  have none: "image_status cfg n v js i = None \<longleftrightarrow> length i < 4" for n v i by (simp add: image_status_def)
  have short: "None \<in> set (concat (map (\<lambda>(n, images, v). map (image_status cfg n v js) images) cs))
      \<longleftrightarrow> (\<exists>(n, images, v)\<in>set cs. \<exists>i\<in>set images. length i < 4)" for cs
  proof (induction cs)
    case (Cons c cs)
    have "None \<in> set (map (image_status cfg n v js) images) \<longleftrightarrow> (\<exists>i\<in>set images. length i < 4)" for n v images
      by (induction images) (simp_all add: none eq_commute [of None])
    with Cons show ?case by (cases c) simp
  qed simp
  have "buildImportedImageStatus ri js = None \<longleftrightarrow> (\<exists>i\<in>set (kc_ImageList (rc_Kubernetes (ris_Components (ri_Spec ri)))). length i < 4)"
  proof -
    have "buildImportedImageStatus ri js = None \<longleftrightarrow> (\<exists>(n, images, v)\<in>set (status_components (ri_Spec ri)). \<exists>i\<in>set images. length i < 4)"
      unfolding buildImportedImageStatus_def cfg option.case all_some_None by (rule short)
    also have "\<dots> \<longleftrightarrow> (\<exists>i\<in>set (kc_ImageList (rc_Kubernetes (ris_Components (ri_Spec ri)))). length i < 4)"
      using addon by (auto simp: status_components_def)
    finally show ?thesis .
  qed
  with assms show ?thesis
    by (cases "buildImportedImageStatus ri js") (auto simp: UpdateReleaseImageStatus_def Get_job_def query_def act_simps)
qed

text \<open>
  The two readers of the import status agree: what \<open>UpdateReleaseImageStatus\<close> stores in the object and what \<open>GetImportStatus\<close>
  returns from the same cluster state have the same flag and the same state, and the same message unless the job
  has failed without a condition, when the old message stays.
\<close>

theorem import_status_readers_agree:
  assumes "import_enabled ri = Some cfg" and "UpdateReleaseImageStatus E (w, ri) = (Ok (), (w', ri'))"
  shows "\<exists>s. GetImportStatus E ri w = (Ok s, w') \<and> rist_ImagesImported (ri_Status ri') = rist_ImagesImported s
    \<and> rist_ImportStatus (ri_Status ri') = rist_ImportStatus s
    \<and> (rist_ImportMessage (ri_Status ri') = rist_ImportMessage s
       \<or> rist_ImportStatus s = ImportStatusFailed \<and> rist_ImportMessage s = [] \<and> rist_ImportMessage (ri_Status ri') = rist_ImportMessage (ri_Status ri))"
proof (cases "k_get_job (kube E) (w_log w) (m_Namespace (ri_Meta ri)) (import_job_name ri)")
  case (Inl e)
  with assms show ?thesis
    by (auto simp: UpdateReleaseImageStatus_def GetImportStatus_def Get_job_def query_def act_simps pending_status_def)
next
  case (Inr js)
  with assms show ?thesis
    by (cases "js_Conditions js"; cases "buildImportedImageStatus ri js")
       (auto simp: UpdateReleaseImageStatus_def GetImportStatus_def Get_job_def query_def act_simps job_import_status_def Let_def zero_ReleaseImageStatus_def)
qed

section \<open>One import per release\<close>

text \<open>
  \<open>ImportImages\<close> succeeds in exactly three ways: the import is disabled and nothing is done; a job with the label of this version
  is already there and it is only read; or the job built from the release was created, as the last thing done.
\<close>

theorem ImportImages_correct:
  assumes "ImportImages E i ri w = (Ok u, w')"
  shows "(import_enabled ri = None \<and> w' = w)
    \<or> (\<exists>js. k_get_job (kube E) (w_log w) (im_namespace i) (import_job_name ri) = Inr js
         \<and> w_log w' = w_log w @ [EvGet ''Job'' (im_namespace i) (import_job_name ri)]
         \<and> (case map_of (js_Labels js) LabelReleaseVersion of None \<Rightarrow> [] | Some v \<Rightarrow> v) = ris_Version (ri_Spec ri))
    \<or> (\<exists>cfg l. import_enabled ri = Some cfg \<and> k_write (kube E) l (EvCreate (KImportJob (buildImportJob i ri cfg))) = None
         \<and> prefix (w_log w) l \<and> w_log w' = l @ [EvCreate (KImportJob (buildImportJob i ri cfg))])"
proof (cases "import_enabled ri")
  case None
  with assms show ?thesis by (simp add: ImportImages_def act_simps)
next
  case (Some cfg)
  let ?get = "EvGet ''Job'' (im_namespace i) (import_job_name ri)"
  show ?thesis
  proof (cases "k_get_job (kube E) (w_log w) (im_namespace i) (import_job_name ri)")
    case (Inl e)
    with Some assms show ?thesis
      by (auto simp: ImportImages_def Get_job_def query_def act_simps api_write_def command_def Let_def split: option.splits)
  next
    case (Inr js)
    with Some assms show ?thesis
      by (cases "(case map_of (js_Labels js) LabelReleaseVersion of None \<Rightarrow> [] | Some v \<Rightarrow> v) = ris_Version (ri_Spec ri)")
         (auto simp: ImportImages_def Get_job_def query_def act_simps api_write_def command_def Let_def split: option.splits res.splits prod.splits)
  qed
qed

section \<open>Witnesses\<close>

definition ex_registry :: ImageRegistryConfig where
  "ex_registry = \<lparr>ir_Enabled = True, ir_Registry = ''r'', ir_Repository = ''p'', ir_CredentialsSecret = [], ir_InsecureSkipVerify = False,
     ir_ImagePrefix = ''x'', ir_CAConfigMap = []\<rparr>"

definition ex_import :: "string list \<Rightarrow> ReleaseImage" where
  "ex_import images = zero_ReleaseImage\<lparr>ri_Spec := zero_ReleaseImageSpec\<lparr>ris_ImageRegistry := Some ex_registry,
     ris_Components := zero_Components\<lparr>rc_Kubernetes := zero_KubernetesComponent\<lparr>kc_ImageList := images\<rparr>\<rparr>,
     ris_Addons := [zero_Addon\<lparr>ad_Name := ''metallb''\<rparr>]\<rparr>\<rparr>"

lemma ex_import_simps [simp]: "import_enabled (ex_import images) = Some ex_registry"
  "kc_ImageList (rc_Kubernetes (ris_Components (ri_Spec (ex_import images)))) = images"
  by (simp_all add: ex_import_def import_enabled_def ex_registry_def component_images_def buildAddonImageList_def addonImageMap_def zero_defs)

definition import_env_world :: env where
  "import_env_world = quiet_env\<lparr>kube := quiet_kube\<lparr>k_get_job := (\<lambda>l ns n. Inr \<lparr>js_Labels = [], js_Succeeded = 0, js_Failed = 1, js_Active = 0, js_Conditions = []\<rparr>)\<rparr>\<rparr>"

theorem short_image_name_witness:
  "\<exists>s. UpdateReleaseImageStatus import_env_world (empty_world, ex_import [''a'']) = (Panic ''slice bounds out of range'', (s :: world \<times> ReleaseImage))"
  by (subst short_image_name_panics [of _ ex_registry]) (simp_all add: import_env_world_def)

theorem import_status_readers_witness:
  "\<exists>s. GetImportStatus import_env_world (ex_import [''a.tar'']) empty_world = (Ok s, snd (GetImportStatus import_env_world (ex_import [''a.tar'']) empty_world))
     \<and> rist_ImportStatus s = ImportStatusFailed"
proof -
  have "\<exists>w' ri'. UpdateReleaseImageStatus import_env_world (empty_world, ex_import [''a.tar'']) = (Ok (), (w', ri'))
      \<and> rist_ImportStatus (ri_Status ri') = ImportStatusFailed"
    by (simp add: UpdateReleaseImageStatus_def Get_job_def query_def act_simps import_env_world_def job_import_status_def Let_def
        buildImportedImageStatus_def ex_import_def ex_registry_def status_components_def image_status_def buildAddonImageList_def addonImageMap_def zero_defs import_enabled_def)
  with import_status_readers_agree [OF ex_import_simps(1)] show ?thesis by fastforce
qed

definition jobless_env :: env where
  "jobless_env = quiet_env\<lparr>kube := quiet_kube\<lparr>k_get_job := (\<lambda>l ns n. Inl not_found)\<rparr>\<rparr>"

theorem ImportImages_witness:
  "\<exists>l. w_log (snd (ImportImages jobless_env (NewImporter ''http://r/'' ''ns'') (ex_import []) empty_world))
     = l @ [EvCreate (KImportJob (buildImportJob (NewImporter ''http://r/'' ''ns'') (ex_import []) ex_registry))]"
proof -
  let ?r = "ImportImages jobless_env (NewImporter ''http://r/'' ''ns'') (ex_import []) empty_world"
  have job: "k_get_job (kube jobless_env) l ns n = Inl not_found" for l ns n by (simp add: quiet_defs jobless_env_def)
  have "fst ?r = Ok ()"
    by (simp add: ImportImages_def Get_job_def query_def act_simps api_write_def command_def Let_def quiet_defs jobless_env_def)
  then have "?r = (Ok (), snd ?r)" by (metis prod.collapse)
  from ImportImages_correct [OF this] job show ?thesis by auto
qed

end
