(* ===== verification/Release_Image.thy ===== *)
theory Release_Image
  imports Oci_Puller Image_Import
begin

text \<open>
  The controller of ReleaseImage objects, \<open>modules/cvo/internal/controllers/releaseimage_controller.go\<close>.
  SHA-256 and the reading of the object are parameters, in the record \<open>rel_env\<close>; \<open>filepath.Walk\<close> is the
  parameter \<open>h_walk\<close> of the host, which lists what it passes to its function, in order.
\<close>

section \<open>Definitions\<close>

record rel_env =
  z_get_ri :: "log \<Rightarrow> string \<Rightarrow> string \<Rightarrow> error + ReleaseImage"
  z_sha256 :: "string \<Rightarrow> string"
  z_stat :: "log \<Rightarrow> string \<Rightarrow> error option"

definition ReleaseImageFinalizer :: string where
  "ReleaseImageFinalizer = ''releaseimage.cvo.capbm.io''"

definition update_ri :: "env \<Rightarrow> unit riact" where
  "update_ri E = with_obj (\<lambda>ri. on_world (api_write E (EvUpdate (KReleaseImage ri))))"

definition update_ri_status :: "env \<Rightarrow> unit riact" where
  "update_ri_status E = with_obj (\<lambda>ri. on_world (api_write E (EvStatusUpdate (KReleaseImage ri))))"

definition Walk :: "env \<Rightarrow> string \<Rightarrow> (string \<times> walk_entry) list cact" where
  "Walk E dir = query (EvWalk dir) (\<lambda>l. Inr (h_walk (host E) l dir))"

text \<open>The function \<open>verifyContentHash\<close> walks with; \<open>data\<close> is what was written to the hash so far.\<close>

fun hash_files :: "env \<Rightarrow> (string \<times> walk_entry) list \<Rightarrow> string \<Rightarrow> string cact" where
  "hash_files E [] data = ret data"
| "hash_files E ((path, WalkError e) # es) data = fail e"
| "hash_files E ((path, WalkDir) # es) data = hash_files E es data"
| "hash_files E ((path, WalkFile) # es) data = andthen (os_ReadFile E path) (\<lambda>content. hash_files E es (data @ content))"

definition verifyContentHash :: "env \<Rightarrow> rel_env \<Rightarrow> ReleaseImage \<Rightarrow> unit cact" where
  "verifyContentHash E Z ri =
     (if ris_Image (ri_Spec ri) = [] then fail (Errorf ''release image reference is empty'')
      else
        check (GetImageDir E (NewOCIPuller []) (ris_Image (ri_Spec ri))) (wrap ''failed to pull release image: '') (\<lambda>dir.
        check (andthen (Walk E dir) (\<lambda>es. hash_files E es [])) (wrap ''failed to calculate content hash: '') (\<lambda>data.
          let calculatedHash = ''sha256:'' @ z_sha256 Z data in
          if calculatedHash \<noteq> ris_ContentHash (ri_Spec ri)
          then fail (Errorf (''content hash mismatch: expected '' @ ris_ContentHash (ri_Spec ri) @ '', got '' @ calculatedHash))
          else ret ())))"

definition count_addons :: "ReleaseImage \<Rightarrow> int" where
  "count_addons ri = int (length (filter (\<lambda>a. ad_Type a = ''manifest'') (ris_Addons (ri_Spec ri))))"

text \<open>\<open>filepath.Ext\<close>: from the last dot of the last element of the path.\<close>

definition path_Ext :: "string \<Rightarrow> string" where
  "path_Ext p = (let base = last (split_on CHR ''/'' p) in case last_index CHR ''.'' base of None \<Rightarrow> [] | Some i \<Rightarrow> drop i base)"

fun count_yaml :: "(string \<times> walk_entry) list \<Rightarrow> int \<Rightarrow> error + int" where
  "count_yaml [] n = Inr n"
| "count_yaml ((path, WalkError e) # es) n = Inl e"
| "count_yaml ((path, WalkDir) # es) n = count_yaml es n"
| "count_yaml ((path, WalkFile) # es) n =
     count_yaml es (if ToLower (path_Ext path) \<in> {''.yaml'', ''.yml''} then n + 1 else n)"

definition countManifests :: "env \<Rightarrow> rel_env \<Rightarrow> ReleaseImage \<Rightarrow> int cact" where
  "countManifests E Z ri =
     (if ris_Image (ri_Spec ri) = [] then ret (count_addons ri)
      else
        attempt (GetImageDir E (NewOCIPuller []) (ris_Image (ri_Spec ri))) (\<lambda>r. case r of
          Inl e \<Rightarrow> ret (count_addons ri)
        | Inr dir \<Rightarrow>
            (let manifestsDir = path_Join [dir, ''manifests''] in
             attempt (command (EvStat manifestsDir) (\<lambda>l. z_stat Z l manifestsDir)) (\<lambda>st. case st of
               Inl e \<Rightarrow> ret 0
             | Inr _ \<Rightarrow> andthen (Walk E manifestsDir) (\<lambda>es. ret (case count_yaml es 0 of Inl e \<Rightarrow> count_addons ri | Inr n \<Rightarrow> n))))))"

definition ri_reconcileDelete :: "env \<Rightarrow> ctrl_result riact" where
  "ri_reconcileDelete E =
     andthen (modify_obj (\<lambda>ri. ri\<lparr>ri_Meta := RemoveFinalizer ReleaseImageFinalizer (ri_Meta ri)\<rparr>)) (\<lambda>_.
     andthen (update_ri E) (\<lambda>_. ret (requeue 0)))"

definition add_ri_finalizer :: "env \<Rightarrow> unit riact" where
  "add_ri_finalizer E = with_obj (\<lambda>ri.
     if ReleaseImageFinalizer \<in> set (m_Finalizers (ri_Meta ri)) then ret ()
     else andthen (modify_obj (\<lambda>ri. ri\<lparr>ri_Meta := AddFinalizer ReleaseImageFinalizer (ri_Meta ri)\<rparr>)) (\<lambda>_. update_ri E))"

definition ri_count :: "env \<Rightarrow> rel_env \<Rightarrow> ctrl_result riact" where
  "ri_count E Z = with_obj (\<lambda>ri.
     andthen (if rist_ManifestCount (ri_Status ri) = 0 then
         andthen (on_world (countManifests E Z ri)) (\<lambda>n.
         andthen (modify_ri (\<lambda>s. s\<lparr>rist_ManifestCount := n\<rparr>)) (\<lambda>_. update_ri_status E))
       else ret ()) (\<lambda>_. ret (requeue (5 * minute))))"

definition ri_verify :: "env \<Rightarrow> rel_env \<Rightarrow> ctrl_result riact \<Rightarrow> ctrl_result riact" where
  "ri_verify E Z next = with_obj (\<lambda>ri.
     if ris_ContentHash (ri_Spec ri) \<noteq> [] \<and> \<not> rist_Verified (ri_Status ri) then
       attempt (on_world (verifyContentHash E Z ri)) (\<lambda>r. case r of
         Inl e \<Rightarrow> ret (requeue (60 * second))
       | Inr _ \<Rightarrow> andthen (modify_ri (\<lambda>s. s\<lparr>rist_Verified := True\<rparr>)) (\<lambda>_. andthen (update_ri_status E) (\<lambda>_. next)))
     else next)"

definition ri_body :: "env \<Rightarrow> rel_env \<Rightarrow> ctrl_result riact" where
  "ri_body E Z = with_obj (\<lambda>ri.
     if m_DeletionTimestamp (ri_Meta ri) \<noteq> None then ri_reconcileDelete E
     else andthen (add_ri_finalizer E) (\<lambda>_. ri_verify E Z (ri_count E Z)))"

definition ri_Reconcile :: "env \<Rightarrow> rel_env \<Rightarrow> string \<Rightarrow> string \<Rightarrow> ctrl_result cact" where
  "ri_Reconcile E Z ns name =
     attempt (query (EvGet ''ReleaseImage'' ns name) (\<lambda>l. z_get_ri Z l ns name)) (\<lambda>got. case got of
       Inl e \<Rightarrow> if IsNotFound e then ret (requeue 0) else fail e
     | Inr ri \<Rightarrow> (\<lambda>w. case ri_body E Z (w, ri) of (res, (w', ri')) \<Rightarrow> (res, w')))"

section \<open>Verification of the content\<close>

text \<open>The bytes that go into the hash when the files of a walk are read one after the other from the log \<open>l\<close> on.\<close>

fun content_of :: "env \<Rightarrow> log \<Rightarrow> (string \<times> walk_entry) list \<Rightarrow> string option" where
  "content_of E l [] = Some []"
| "content_of E l ((path, WalkError e) # es) = None"
| "content_of E l ((path, WalkDir) # es) = content_of E l es"
| "content_of E l ((path, WalkFile) # es) = (case h_read_file (host E) l path of
     Inl e \<Rightarrow> None | Inr c \<Rightarrow> map_option (\<lambda>d. c @ d) (content_of E (l @ [EvReadFile path]) es))"

lemma hash_files_Ok: "hash_files E es data w = (Ok out, w') \<Longrightarrow> \<exists>d. content_of E (w_log w) es = Some d \<and> out = data @ d"
proof (induction E es data arbitrary: w rule: hash_files.induct)
  case (4 E path es data)
  then show ?case by (cases "h_read_file (host E) (w_log w) path") (fastforce simp: check_apply os_ReadFile_def query_def)+
qed (auto simp: act_simps)

definition content_verified :: "env \<Rightarrow> rel_env \<Rightarrow> ReleaseImage \<Rightarrow> bool" where
  "content_verified E Z ri \<longleftrightarrow> (\<exists>l dir data. content_of E (l @ [EvWalk dir]) (h_walk (host E) l dir) = Some data
     \<and> dir = pull_dir (NewOCIPuller []) (ris_Image (ri_Spec ri)) ''release''
     \<and> ris_ContentHash (ri_Spec ri) = ''sha256:'' @ z_sha256 Z data)"

lemma pullImage_dir: "pullImage E p img pfx w = (Ok dir, w') \<Longrightarrow> dir = pull_dir p img pfx"
  by (auto simp: pullImage_def Let_def check_apply act_simps split: prod.splits res.splits if_splits option.splits)

lemma verifyContentHash_Ok: "verifyContentHash E Z ri w = (Ok u, w') \<Longrightarrow> content_verified E Z ri"
proof -
  assume run: "verifyContentHash E Z ri w = (Ok u, w')"
  then obtain dir w1 where dir: "GetImageDir E (NewOCIPuller []) (ris_Image (ri_Spec ri)) w = (Ok dir, w1)"
    and rest: "check (andthen (Walk E dir) (\<lambda>es. hash_files E es [])) (wrap ''failed to calculate content hash: '') (\<lambda>data.
        let h = ''sha256:'' @ z_sha256 Z data in if h \<noteq> ris_ContentHash (ri_Spec ri)
        then fail (Errorf (''content hash mismatch: expected '' @ ris_ContentHash (ri_Spec ri) @ '', got '' @ h)) else ret ()) w1 = (Ok u, w')"
    by (auto simp: verifyContentHash_def check_apply act_simps split: if_splits prod.splits res.splits)
  from rest obtain data w2 where data: "hash_files E (h_walk (host E) (w_log w1) dir) [] (w1\<lparr>w_log := w_log w1 @ [EvWalk dir]\<rparr>) = (Ok data, w2)"
    and hash: "ris_ContentHash (ri_Spec ri) = ''sha256:'' @ z_sha256 Z data"
    by (auto simp: check_apply Walk_def query_def Let_def act_simps split: prod.splits res.splits if_splits)
  from hash_files_Ok [OF data] have "content_of E (w_log w1 @ [EvWalk dir]) (h_walk (host E) (w_log w1) dir) = Some data" by simp
  with hash pullImage_dir [OF dir [unfolded GetImageDir_def]] show ?thesis unfolding content_verified_def by blast
qed

text \<open>
  What a round may do to the object: the spec stays, and the mark Verified appears only on content
  whose hash is that of the spec (the content is named by the spec, so this is a relation on states).
\<close>

definition verified_step :: "env \<Rightarrow> rel_env \<Rightarrow> world \<times> ReleaseImage \<Rightarrow> world \<times> ReleaseImage \<Rightarrow> bool" where
  "verified_step E Z s s' \<longleftrightarrow> ri_Spec (snd s') = ri_Spec (snd s)
     \<and> (rist_Verified (ri_Status (snd s')) \<longrightarrow> rist_Verified (ri_Status (snd s)) \<or> content_verified E Z (snd s))"

lemma content_verified_spec: "ri_Spec ri' = ri_Spec ri \<Longrightarrow> content_verified E Z ri' = content_verified E Z ri"
  by (simp add: content_verified_def)

interpretation ri_rel: state_relation "verified_step E Z" for E Z
proof
  show "verified_step E Z s s" for s by (simp add: verified_step_def)
  show "verified_step E Z s s''" if "verified_step E Z s s'" "verified_step E Z s' s''" for s s' s''
    using that content_verified_spec [of "snd s'" "snd s" E Z] unfolding verified_step_def by metis
qed

lemma moves_keep: "moves (verified_step E Z) (on_world m)"
  "(\<And>ri. ri_Spec (f ri) = ri_Spec ri \<and> rist_Verified (ri_Status (f ri)) = rist_Verified (ri_Status ri)) \<Longrightarrow> moves (verified_step E Z) (modify_obj f)"
  by (rule ri_rel.moves_on_world, simp add: verified_step_def) (rule ri_rel.moves_modify_obj, simp add: verified_step_def)

lemma moves_writes: "moves (verified_step E Z) (update_ri E)" "moves (verified_step E Z) (update_ri_status E)"
  unfolding update_ri_def update_ri_status_def by (intro ri_rel.moves_with_obj moves_keep)+

lemma moves_ri_count: "moves (verified_step E Z) (ri_count E Z)"
  unfolding ri_count_def by (intro ri_rel.moves_with_obj ri_rel.moves_check ri_rel.moves_if ri_rel.moves_ret moves_keep moves_writes) simp_all

lemma moves_ri_verify:
  assumes "moves (verified_step E Z) next"
  shows "moves (verified_step E Z) (ri_verify E Z next)"
  unfolding moves_def
proof (intro allI impI)
  fix s res s' assume run: "ri_verify E Z next s = (res, s')"
  obtain w ri where s: "s = (w, ri)" by (cases s)
  obtain v w1 where v: "verifyContentHash E Z ri w = (v, w1)" by (metis surj_pair)
  let ?ri = "ri\<lparr>ri_Status := (ri_Status ri)\<lparr>rist_Verified := True\<rparr>\<rparr>"
  have tail: "moves (verified_step E Z) (andthen (update_ri_status E) (\<lambda>_. next))"
    by (intro ri_rel.moves_check moves_writes assms)
  show "verified_step E Z s s'"
  proof (cases "ris_ContentHash (ri_Spec ri) \<noteq> [] \<and> \<not> rist_Verified (ri_Status ri)")
    case True
    show ?thesis
    proof (cases v)
      case (Ok u)
      with True run s v have "andthen (update_ri_status E) (\<lambda>_. next) (w1, ?ri) = (res, s')"
        by (simp add: ri_verify_def act_simps)
      from movesD [OF tail this] have "verified_step E Z (w1, ?ri) s'" .
      moreover have "content_verified E Z ri" using v Ok verifyContentHash_Ok by blast
      ultimately show ?thesis by (simp add: s verified_step_def)
    qed (use True run s v in \<open>auto simp: ri_verify_def act_simps verified_step_def\<close>)
  next
    case False
    with run s have "next s = (res, s')" by (auto simp: ri_verify_def act_simps)
    then show ?thesis using movesD [OF assms] by blast
  qed
qed

lemma moves_ri_body: "moves (verified_step E Z) (ri_body E Z)"
  unfolding ri_body_def ri_reconcileDelete_def add_ri_finalizer_def
  by (intro ri_rel.moves_with_obj ri_rel.moves_check ri_rel.moves_if ri_rel.moves_ret moves_keep moves_writes moves_ri_verify moves_ri_count) simp_all

text \<open>
  (C22) A release is marked as verified only if it is: whatever a round does and however it ends, the object has the mark afterwards only if it
  had it before or if the bytes of all files of the pulled image, read in the order of the walk, have the SHA-256
  given in the spec. The spec never changes.
\<close>

theorem verified_release:
  assumes "ri_body E Z (w, ri) = (res, (w', ri'))"
  shows "ri_Spec ri' = ri_Spec ri \<and> (rist_Verified (ri_Status ri') \<longrightarrow> rist_Verified (ri_Status ri) \<or> content_verified E Z ri)"
  using movesD [OF moves_ri_body assms] by (simp add: verified_step_def)

text \<open>
  The hash covers only the bytes: two images whose files, concatenated in the order of the walk, are the same text are
  verified alike, however the text is cut into files and whatever the files are called.
\<close>

theorem hash_ignores_file_boundaries:
  assumes "h_walk (host E) l dir = [(p, WalkFile), (q, WalkFile)]" and "h_walk (host E') l dir = [(r, WalkFile)]"
    and "h_read_file (host E) (l @ [EvWalk dir]) p = Inr a" and "h_read_file (host E) (l @ [EvWalk dir, EvReadFile p]) q = Inr b"
    and "h_read_file (host E') (l @ [EvWalk dir]) r = Inr (a @ b)"
  shows "content_of E (l @ [EvWalk dir]) (h_walk (host E) l dir) = content_of E' (l @ [EvWalk dir]) (h_walk (host E') l dir)"
  using assms by simp

section \<open>Witnesses\<close>

definition ex_rel_env :: rel_env where
  "ex_rel_env = \<lparr>z_get_ri = (\<lambda>l ns n. Inl not_found), z_sha256 = (\<lambda>d. d), z_stat = (\<lambda>l p. None)\<rparr>"

definition ex_release :: ReleaseImage where
  "ex_release = zero_ReleaseImage\<lparr>ri_Spec := zero_ReleaseImageSpec\<lparr>ris_Image := ''img'', ris_ContentHash := ''sha256:''\<rparr>\<rparr>"

lemma ex_release_runs:
  "\<exists>w' ri'. ri_body quiet_env ex_rel_env (empty_world, ex_release) = (Ok (requeue (5 * minute)), (w', ri')) \<and> rist_Verified (ri_Status ri')"
  by (simp add: ri_body_def add_ri_finalizer_def ri_verify_def ri_count_def verifyContentHash_def countManifests_def GetImageDir_def pullImage_def
      Let_def act_simps update_ri_def update_ri_status_def api_write_def command_def query_def Walk_def os_Stat_dir_def quiet_defs ex_rel_env_def ex_release_def
      zero_defs add_dir_def)

theorem verified_release_witness: "content_verified quiet_env ex_rel_env ex_release"
  using ex_release_runs verified_release by (fastforce simp: ex_release_def zero_defs)

end
