(* ===== verification/Bm_Zero.thy ===== *)
theory Bm_Zero
  imports Zero_Values Bm_Types
begin

text \<open>
  The zero values of the CAPBM types, which Go gives to fields that a composite literal leaves
  out. The code relies on them where it builds a default configuration; examples start from them.
\<close>

definition zero_ContainerRuntimeConfig :: ContainerRuntimeConfig where
  "zero_ContainerRuntimeConfig = \<lparr>crc_Type = [], crc_Version = [], crc_RegistryMirrors = [], crc_Config = None\<rparr>"

definition zero_KubernetesComponentsConfig :: KubernetesComponentsConfig where
  "zero_KubernetesComponentsConfig = \<lparr>kcc_Version = [], kcc_Repository = None, kcc_Config = None\<rparr>"

definition zero_CNIConfig :: CNIConfig where
  "zero_CNIConfig = \<lparr>cni_Enabled = False, cni_Type = [], cni_Version = [], cni_InstallMode = [], cni_UpgradeStrategy = [],
     cni_Config = None, cni_AirGap = None\<rparr>"

definition zero_CSIConfig :: CSIConfig where
  "zero_CSIConfig = \<lparr>csi_Enabled = False, csi_Driver = [], csi_Version = [], csi_InstallMode = [], csi_Config = None, csi_AirGap = None\<rparr>"

definition zero_ComponentInstallConfig :: ComponentInstallConfig where
  "zero_ComponentInstallConfig = \<lparr>cic_Enabled = False, cic_Strategy = [], cic_ContainerRuntime = zero_ContainerRuntimeConfig,
     cic_Kubernetes = zero_KubernetesComponentsConfig, cic_Timeout = None, cic_AirGap = None, cic_RollbackOnError = False,
     cic_MaxRetries = 0, cic_CNI = zero_CNIConfig, cic_CSI = zero_CSIConfig\<rparr>"

definition zero_InstalledVersions :: InstalledVersions where
  "zero_InstalledVersions = \<lparr>cvr_ContainerRuntime = [], cvr_Kubeadm = [], cvr_Kubelet = [], cvr_Kubectl = [], cvr_CNI = [],
     cvr_CNIType = [], cvr_CSI = [], cvr_CSIDriver = [], cvr_OSType = [], cvr_OSVersion = []\<rparr>"

definition zero_BareMetalMachineSpec :: BareMetalMachineSpec where
  "zero_BareMetalMachineSpec = \<lparr>bms_ProviderID = None, bms_HostInventoryRef = None, bms_HostName = [], bms_IPAddress = [], bms_SSHPort = 0,
     bms_CredentialsRef = None, bms_UseSudo = False, bms_PowerManagement = None, bms_Role = [], bms_ReleaseImageRef = None,
     bms_ComponentInstall = None, bms_Firewall = None, bms_SELinux = None, bms_NodeBootstrap = None\<rparr>"

definition zero_BareMetalMachine :: BareMetalMachine where
  "zero_BareMetalMachine = \<lparr>bm_Meta = zero_meta, bm_Spec = zero_BareMetalMachineSpec,
     bm_Status = \<lparr>bmt_Ready = False, bmt_ProviderID = [], bmt_Addresses = [], bmt_InstalledComponents = zero_InstalledVersions, bmt_Conditions = []\<rparr>\<rparr>"

definition zero_HostEntry :: HostEntry where
  "zero_HostEntry = \<lparr>he_Name = [], he_HostName = [], he_IPAddress = [], he_SSHPort = 0, he_CredentialsRef = [], he_Role = [], he_Labels = []\<rparr>"

definition zero_Inventory :: BareMetalHostInventory where
  "zero_Inventory = \<lparr>inv_Meta = zero_meta, inv_Spec = \<lparr>his_Hosts = []\<rparr>,
     inv_Status = \<lparr>hit_TotalHosts = 0, hit_AvailableHosts = 0, hit_AllocatedHosts = 0, hit_HostsStatus = None\<rparr>\<rparr>"

definition zero_HAProxyConfig :: HAProxyConfig where
  "zero_HAProxyConfig = \<lparr>hap_AdminHost = [], hap_AdminPort = 0, hap_SSHHost = [], hap_SSHPort = 0, hap_SSHUser = [], hap_SSHKnownHostsFile = [],
     hap_SSHCredentialsRef = None, hap_ConfigFile = [], hap_BackendName = [], hap_ReloadCommand = []\<rparr>"

definition zero_F5Config :: F5Config where
  "zero_F5Config = \<lparr>f5c_Host = [], f5c_Port = 0, f5c_Username = [], f5c_Password = [], f5c_CredentialsRef = None, f5c_Partition = [],
     f5c_PoolName = [], f5c_VirtualServerName = [], f5c_InsecureSkipVerify = False\<rparr>"

definition zero_LoadBalancerConfig :: LoadBalancerConfig where
  "zero_LoadBalancerConfig = \<lparr>lbc_Provider = [],
     lbc_HealthCheck = \<lparr>lhc_Enabled = False, lhc_Path = [], lhc_Interval = [], lhc_Timeout = [], lhc_HealthyThreshold = 0, lhc_UnhealthyThreshold = 0\<rparr>,
     lbc_HAProxy = None, lbc_Keepalived = None, lbc_F5 = None, lbc_MetalLB = None\<rparr>"

definition zero_BareMetalCluster :: BareMetalCluster where
  "zero_BareMetalCluster = \<lparr>bmc_Meta = zero_meta, bmc_Annotations = None, bmc_OwnerReferences = [],
     bmc_Spec = \<lparr>bcs_ControlPlaneEndpoint = ([], 0), bcs_Network = \<lparr>nwc_PodCIDR = [], nwc_ServiceCIDR = [], nwc_DNSDomain = []\<rparr>,
       bcs_LoadBalancer = None, bcs_IngressLoadBalancer = None, bcs_GatewayAPI = None\<rparr>,
     bmc_Status = \<lparr>bct_Ready = False, bct_Initialization = None, bct_Conditions = []\<rparr>\<rparr>"

definition zero_capi_cluster :: capi_cluster where
  "zero_capi_cluster = \<lparr>cl_Name = [], cl_Namespace = [], cl_ControlPlaneEndpoint = ([], 0), cl_PodCIDRs = [], cl_ServiceCIDRs = [],
     cl_ServiceDomain = [], cl_InfraKind = [], cl_InfraName = []\<rparr>"

definition zero_capi_machine :: capi_machine where
  "zero_capi_machine = \<lparr>mc_Name = [], mc_Labels = [], mc_ClusterName = [], mc_Version = [], mc_Phase = [], mc_Addresses = []\<rparr>"

lemmas bm_zero_defs = zero_ContainerRuntimeConfig_def zero_KubernetesComponentsConfig_def zero_CNIConfig_def zero_CSIConfig_def
  zero_ComponentInstallConfig_def zero_InstalledVersions_def zero_BareMetalMachineSpec_def zero_BareMetalMachine_def zero_HostEntry_def
  zero_Inventory_def zero_HAProxyConfig_def zero_F5Config_def zero_LoadBalancerConfig_def zero_BareMetalCluster_def zero_meta_def
  zero_capi_cluster_def zero_capi_machine_def

end
