(* ===== verification/Bm_Inventory.thy ===== *)
theory Bm_Inventory
  imports Object_State Sessions Bm_Zero
begin

text \<open>
  The host inventory: the controller that recomputes its status
  (\<open>modules/capbm/internal/controllers/baremetalhostinventory_controller.go\<close>) and the two operations of
  the machine controller that allocate a host and give it back
  (\<open>allocateHostFromInventory\<close>, \<open>releaseHostToInventory\<close>).
\<close>

section \<open>Definitions\<close>

definition Get_inventory :: "env \<Rightarrow> string \<Rightarrow> string \<Rightarrow> BareMetalHostInventory cact" where
  "Get_inventory E ns n = query (EvGet ''BareMetalHostInventory'' ns n) (\<lambda>l. k_get_inventory (kube E) l ns n)"

definition List_bmmachines :: "env \<Rightarrow> string \<Rightarrow> BareMetalMachine list cact" where
  "List_bmmachines E ns = query (EvList ''BareMetalMachine'' ns []) (\<lambda>l. k_list_bmmachines (kube E) l ns)"

abbreviation inv_ns :: "BareMetalHostInventory \<Rightarrow> string" where
  "inv_ns iv \<equiv> m_Namespace (inv_Meta iv)"

abbreviation inv_hosts :: "BareMetalHostInventory \<Rightarrow> HostEntry list" where
  "inv_hosts iv \<equiv> his_Hosts (inv_Spec iv)"

definition holds_host :: "string \<Rightarrow> BareMetalMachine \<Rightarrow> bool" where
  "holds_host hostName m \<longleftrightarrow> bms_HostName (bm_Spec m) = hostName \<and> m_DeletionTimestamp (bm_Meta m) = None"

definition getAllocatedMachine :: "env \<Rightarrow> BareMetalHostInventory \<Rightarrow> string \<Rightarrow> BareMetalMachine option cact" where
  "getAllocatedMachine E iv hostName =
     andthen (List_bmmachines E (inv_ns iv)) (\<lambda>ms. ret (List.find (holds_host hostName) ms))"

text \<open>Reading a missing key of a Go map gives the zero value.\<close>

definition label_of :: "labels \<Rightarrow> string \<Rightarrow> string" where
  "label_of ls k = (case map_of ls k of None \<Rightarrow> [] | Some v \<Rightarrow> v)"

definition cluster_ref :: "BareMetalMachine \<Rightarrow> object_reference" where
  "cluster_ref m = \<lparr>ref_Kind = [], ref_Namespace = m_Namespace (bm_Meta m), ref_Name = label_of (m_Labels (bm_Meta m)) ClusterNameLabel\<rparr>"

subsection \<open>The inventory controller\<close>

definition host_status :: "HostEntry \<Rightarrow> error + BareMetalMachine option \<Rightarrow> HostStatusEntry" where
  "host_status h r = (case r of
      Inl e \<Rightarrow> \<lparr>hst_Name = he_Name h, hst_State = HostStateMaintenance, hst_ClusterRef = None\<rparr>
    | Inr (Some m) \<Rightarrow> \<lparr>hst_Name = he_Name h, hst_State = HostStateAllocated, hst_ClusterRef = Some (cluster_ref m)\<rparr>
    | Inr None \<Rightarrow> \<lparr>hst_Name = he_Name h, hst_State = HostStateAvailable, hst_ClusterRef = None\<rparr>)"

definition add_status :: "HostStatusEntry \<Rightarrow> BareMetalHostInventoryStatus \<Rightarrow> BareMetalHostInventoryStatus" where
  "add_status s st =
     (let st' = st\<lparr>hit_HostsStatus := Some (case hit_HostsStatus st of None \<Rightarrow> [s] | Some xs \<Rightarrow> xs @ [s])\<rparr>
      in if hst_State s = HostStateAllocated then st'\<lparr>hit_AllocatedHosts := hit_AllocatedHosts st' + 1\<rparr>
         else st'\<lparr>hit_AvailableHosts := hit_AvailableHosts st' + 1\<rparr>)"

fun status_loop :: "env \<Rightarrow> BareMetalHostInventory \<Rightarrow> HostEntry list \<Rightarrow> BareMetalHostInventoryStatus \<Rightarrow> BareMetalHostInventoryStatus cact" where
  "status_loop E iv [] st = ret st"
| "status_loop E iv (h # hs) st =
     attempt (getAllocatedMachine E iv (he_Name h)) (\<lambda>r. status_loop E iv hs (add_status (host_status h r) st))"

definition inv_reconcileNormal :: "env \<Rightarrow> BareMetalHostInventory \<Rightarrow> ctrl_result cact" where
  "inv_reconcileNormal E iv =
     andthen (status_loop E iv (inv_hosts iv)
       \<lparr>hit_TotalHosts = int (length (inv_hosts iv)), hit_AvailableHosts = 0, hit_AllocatedHosts = 0, hit_HostsStatus = None\<rparr>) (\<lambda>st.
     andthen (api_write E (EvStatusUpdate (KInventory (iv\<lparr>inv_Status := st\<rparr>)))) (\<lambda>_. ret (requeue 0)))"

definition inv_Reconcile :: "env \<Rightarrow> string \<Rightarrow> string \<Rightarrow> ctrl_result cact" where
  "inv_Reconcile E ns n =
     attempt (Get_inventory E ns n) (\<lambda>r. case r of
       Inl e \<Rightarrow> if IsNotFound e then ret (requeue 0) else fail e
     | Inr iv \<Rightarrow> inv_reconcileNormal E iv)"

subsection \<open>Allocation\<close>

definition zero_HostStatus :: HostStatusEntry where
  "zero_HostStatus = \<lparr>hst_Name = [], hst_State = [], hst_ClusterRef = None\<rparr>"

definition known_busy :: "BareMetalHostInventory \<Rightarrow> nat \<Rightarrow> bool" where
  "known_busy iv i = (case hit_HostsStatus (inv_Status iv) of
      None \<Rightarrow> False
    | Some xs \<Rightarrow> i < length xs \<and> hst_State (xs ! i) \<noteq> HostStateAvailable)"

definition claim_host :: "BareMetalMachine \<Rightarrow> HostEntry \<Rightarrow> nat \<Rightarrow> BareMetalHostInventory \<Rightarrow> BareMetalHostInventory" where
  "claim_host bm h i iv =
     (let st = inv_Status iv;
          xs = (case hit_HostsStatus st of None \<Rightarrow> replicate (length (inv_hosts iv)) zero_HostStatus | Some xs \<Rightarrow> xs);
          ys = (if i \<ge> length xs then xs @ replicate (i - length xs + 1) zero_HostStatus else xs)
      in iv\<lparr>inv_Status := st\<lparr>
           hit_HostsStatus := Some (ys[i := \<lparr>hst_Name = he_Name h, hst_State = HostStateAllocated, hst_ClusterRef = Some (cluster_ref bm)\<rparr>]),
           hit_AvailableHosts := hit_AvailableHosts st - 1, hit_AllocatedHosts := hit_AllocatedHosts st + 1\<rparr>\<rparr>)"

definition role_mismatch :: "BareMetalMachine \<Rightarrow> HostEntry \<Rightarrow> bool" where
  "role_mismatch bm h \<longleftrightarrow> bms_Role (bm_Spec bm) \<noteq> [] \<and> he_Role h \<noteq> bms_Role (bm_Spec bm)"

fun alloc_loop :: "env \<Rightarrow> BareMetalMachine \<Rightarrow> BareMetalHostInventory \<Rightarrow> nat \<Rightarrow> HostEntry list \<Rightarrow> HostEntry cact" where
  "alloc_loop E bm iv i [] =
     fail (Errorf (''no available hosts in inventory '' @ m_Name (inv_Meta iv) @ '' matching role '' @ bms_Role (bm_Spec bm)))"
| "alloc_loop E bm iv i (h # hs) =
     (if role_mismatch bm h then alloc_loop E bm iv (Suc i) hs
      else if known_busy iv i then alloc_loop E bm iv (Suc i) hs
      else andthen (getAllocatedMachine E iv (he_Name h)) (\<lambda>m.
        if m \<noteq> None then alloc_loop E bm iv (Suc i) hs
        else check (api_write E (EvStatusUpdate (KInventory (claim_host bm h i iv)))) (wrap ''failed to update host inventory status: '') (\<lambda>_. ret h)))"

definition inventory_key :: "BareMetalMachine \<Rightarrow> string \<Rightarrow> string" where
  "inventory_key bm ref = m_Namespace (bm_Meta bm) @ ''/'' @ ref"

definition allocateHostFromInventory :: "env \<Rightarrow> BareMetalMachine \<Rightarrow> HostEntry cact" where
  "allocateHostFromInventory E bm = (case bms_HostInventoryRef (bm_Spec bm) of
      None \<Rightarrow> panic nil_deref
    | Some ref \<Rightarrow>
        check (Get_inventory E (m_Namespace (bm_Meta bm)) ref) (wrap (''failed to get host inventory '' @ inventory_key bm ref @ '': '')) (\<lambda>iv.
          alloc_loop E bm iv 0 (inv_hosts iv)))"

subsection \<open>Release\<close>

definition release_host :: "nat \<Rightarrow> BareMetalHostInventory \<Rightarrow> BareMetalHostInventory" where
  "release_host i iv =
     (let st = inv_Status iv;
          xs = (case hit_HostsStatus st of
                  None \<Rightarrow> None
                | Some xs \<Rightarrow> Some (if i < length xs then xs[i := (xs ! i)\<lparr>hst_State := HostStateAvailable, hst_ClusterRef := None\<rparr>] else xs))
      in iv\<lparr>inv_Status := st\<lparr>hit_HostsStatus := xs, hit_AvailableHosts := hit_AvailableHosts st + 1,
           hit_AllocatedHosts := (if hit_AllocatedHosts st > 0 then hit_AllocatedHosts st - 1 else hit_AllocatedHosts st)\<rparr>\<rparr>)"

fun release_loop :: "env \<Rightarrow> BareMetalMachine \<Rightarrow> BareMetalHostInventory \<Rightarrow> nat \<Rightarrow> HostEntry list \<Rightarrow> unit cact" where
  "release_loop E bm iv i [] = ret ()"
| "release_loop E bm iv i (h # hs) =
     (if he_Name h = bms_HostName (bm_Spec bm)
      then check (api_write E (EvStatusUpdate (KInventory (release_host i iv)))) (wrap ''failed to update host inventory status: '') ret
      else release_loop E bm iv (Suc i) hs)"

definition releaseHostToInventory :: "env \<Rightarrow> BareMetalMachine \<Rightarrow> unit cact" where
  "releaseHostToInventory E bm = (case bms_HostInventoryRef (bm_Spec bm) of
      None \<Rightarrow> panic nil_deref
    | Some ref \<Rightarrow>
        attempt (Get_inventory E (m_Namespace (bm_Meta bm)) ref) (\<lambda>r. case r of
          Inl e \<Rightarrow> if IsNotFound e then ret () else fail (wrap (''failed to get host inventory '' @ inventory_key bm ref @ '': '') e)
        | Inr iv \<Rightarrow> release_loop E bm iv 0 (inv_hosts iv)))"

section \<open>A consistent status\<close>

definition status_entries :: "BareMetalHostInventoryStatus \<Rightarrow> HostStatusEntry list" where
  "status_entries st = (case hit_HostsStatus st of None \<Rightarrow> [] | Some xs \<Rightarrow> xs)"

abbreviation is_allocated :: "HostStatusEntry \<Rightarrow> bool" where
  "is_allocated s \<equiv> hst_State s = HostStateAllocated"

text \<open>
  The invariant of the status: one entry per host, in order and under its name, and the counters
  count the entries.
\<close>

definition counted :: "BareMetalHostInventoryStatus \<Rightarrow> bool" where
  "counted st \<longleftrightarrow> hit_AllocatedHosts st = int (length (filter is_allocated (status_entries st)))
     \<and> hit_AvailableHosts st = int (length (filter (\<lambda>s. \<not> is_allocated s) (status_entries st)))"

definition inv_wf :: "BareMetalHostInventory \<Rightarrow> bool" where
  "inv_wf iv \<longleftrightarrow> map hst_Name (status_entries (inv_Status iv)) = map he_Name (inv_hosts iv)
     \<and> hit_TotalHosts (inv_Status iv) = int (length (inv_hosts iv)) \<and> counted (inv_Status iv)"

lemma inv_wf_length: "inv_wf iv \<Longrightarrow> length (status_entries (inv_Status iv)) = length (inv_hosts iv)"
  unfolding inv_wf_def by (metis length_map)

lemma states_distinct [simp]:
  "HostStateAllocated \<noteq> HostStateAvailable" "HostStateMaintenance \<noteq> HostStateAllocated" "HostStateAvailable \<noteq> HostStateAllocated"
  "HostStateMaintenance \<noteq> HostStateAvailable" "HostStateAvailable \<noteq> []"
  by (simp_all add: HostStateAllocated_def HostStateAvailable_def HostStateMaintenance_def)

lemma add_status_simps [simp]:
  "status_entries (add_status s st) = status_entries st @ [s]"
  "hit_TotalHosts (add_status s st) = hit_TotalHosts st"
  "counted st \<Longrightarrow> counted (add_status s st)"
  by (auto simp: add_status_def status_entries_def counted_def Let_def split: option.split)

lemma count_at:
  assumes "i < length xs"
  shows "length (filter P xs) = length (filter P (take i xs)) + (if P (xs ! i) then 1 else 0) + length (filter P (drop (Suc i) xs))"
  by (subst id_take_nth_drop [OF assms]) simp

lemma count_update:
  assumes "i < length xs"
  shows "length (filter P (xs[i := y])) + (if P (xs ! i) then 1 else 0) = length (filter P xs) + (if P y then 1 else 0)"
  using assms by (simp add: count_at [of i xs] upd_conv_take_nth_drop)

section \<open>The controller\<close>

definition listed :: "env \<Rightarrow> log \<Rightarrow> BareMetalHostInventory \<Rightarrow> HostEntry \<Rightarrow> error + BareMetalMachine option" where
  "listed E l iv h = (case k_list_bmmachines (kube E) l (inv_ns iv) of Inl e \<Rightarrow> Inl e | Inr ms \<Rightarrow> Inr (List.find (holds_host (he_Name h)) ms))"

abbreviation list_event :: "BareMetalHostInventory \<Rightarrow> event" where
  "list_event iv \<equiv> EvList ''BareMetalMachine'' (inv_ns iv) []"

lemma getAllocatedMachine_apply:
  "getAllocatedMachine E iv (he_Name h) w
     = (case listed E (w_log w) iv h of Inl e \<Rightarrow> Err e | Inr m \<Rightarrow> Ok m, w\<lparr>w_log := w_log w @ [list_event iv]\<rparr>)"
  by (simp add: getAllocatedMachine_def List_bmmachines_def query_def listed_def act_simps split: sum.split)

fun statuses :: "env \<Rightarrow> BareMetalHostInventory \<Rightarrow> log \<Rightarrow> HostEntry list \<Rightarrow> HostStatusEntry list" where
  "statuses E iv l [] = []"
| "statuses E iv l (h # hs) = host_status h (listed E l iv h) # statuses E iv (l @ [list_event iv]) hs"

lemma statuses_length [simp]: "length (statuses E iv l hs) = length hs"
  by (induction hs arbitrary: l) auto

lemma statuses_names [simp]: "map hst_Name (statuses E iv l hs) = map he_Name hs"
  by (induction hs arbitrary: l) (auto simp: host_status_def split: sum.split option.split)

lemma status_loop_apply:
  assumes "counted st"
  shows "\<exists>st'. status_loop E iv hs st w = (Ok st', w\<lparr>w_log := w_log w @ replicate (length hs) (list_event iv)\<rparr>)
    \<and> status_entries st' = status_entries st @ statuses E iv (w_log w) hs \<and> hit_TotalHosts st' = hit_TotalHosts st \<and> counted st'"
  using assms
proof (induction hs arbitrary: st w)
  case Nil
  then show ?case by (simp add: act_simps)
next
  case (Cons h hs)
  let ?w = "w\<lparr>w_log := w_log w @ [list_event iv]\<rparr>"
  let ?s = "host_status h (listed E (w_log w) iv h)"
  have step: "status_loop E iv (h # hs) st w = status_loop E iv hs (add_status ?s st) ?w"
    by (simp add: act_simps getAllocatedMachine_apply split: sum.split)
  from Cons.IH [of "add_status ?s st" ?w] Cons.prems show ?case
    by (auto simp: step simp del: status_loop.simps)
qed

text \<open>
  The state of a host by one answer of the API server about the machines: Maintenance when the listing
  failed; Allocated, with the cluster of such a machine, when a machine that is not being deleted
  carries the entry's name as its host name; otherwise Available.
\<close>

definition state_by_listing :: "HostEntry \<Rightarrow> error + BareMetalMachine list \<Rightarrow> HostStatusEntry \<Rightarrow> bool" where
  "state_by_listing h answer s \<longleftrightarrow> hst_Name s = he_Name h \<and> (case answer of
      Inl e \<Rightarrow> hst_State s = HostStateMaintenance \<and> hst_ClusterRef s = None
    | Inr ms \<Rightarrow>
        if list_ex (holds_host (he_Name h)) ms
        then hst_State s = HostStateAllocated \<and> (\<exists>m\<in>set ms. holds_host (he_Name h) m \<and> hst_ClusterRef s = Some (cluster_ref m))
        else hst_State s = HostStateAvailable \<and> hst_ClusterRef s = None)"

lemma state_by_listing_status:
  "state_by_listing h (k_list_bmmachines (kube E) l (inv_ns iv)) (host_status h (listed E l iv h))"
proof (cases "k_list_bmmachines (kube E) l (inv_ns iv)")
  case (Inr ms)
  show ?thesis
  proof (cases "List.find (holds_host (he_Name h)) ms")
    case None
    then have "\<not> list_ex (holds_host (he_Name h)) ms" by (auto simp: find_None_iff list_ex_iff)
    with Inr None show ?thesis by (simp add: state_by_listing_def host_status_def listed_def)
  next
    case (Some m)
    then have "m \<in> set ms" "holds_host (he_Name h) m" by (auto simp: find_Some_iff)
    with Inr Some show ?thesis by (auto simp: state_by_listing_def host_status_def listed_def list_ex_iff)
  qed
qed (simp add: state_by_listing_def host_status_def listed_def)

lemma statuses_by_listing:
  "i < length hs \<Longrightarrow>
     state_by_listing (hs ! i) (k_list_bmmachines (kube E) (l @ replicate i (list_event iv)) (inv_ns iv)) (statuses E iv l hs ! i)"
proof (induction hs arbitrary: l i)
  case (Cons h hs)
  show ?case
  proof (cases i)
    case 0
    then show ?thesis using state_by_listing_status by simp
  next
    case (Suc k)
    with Cons.IH [of k "l @ [list_event iv]"] Cons.prems show ?thesis by simp
  qed
qed simp

text \<open>
  (C31) One round of the inventory controller returns exactly when its status update is accepted, and
  then it has written this status: one entry per host in their order, the state of each decided
  by what the API server answered when the machines were listed for that host; \<open>TotalHosts\<close> is the
  number of hosts, \<open>AllocatedHosts\<close> the number of Allocated entries, and \<open>AvailableHosts\<close> the number of all
  others, hosts in Maintenance included.
\<close>

theorem inventory_round_correct:
  assumes "inv_reconcileNormal E iv w = (r, w')"
  shows "\<exists>iv' xs. w_log w' = w_log w @ replicate (length (inv_hosts iv)) (list_event iv) @ [EvStatusUpdate (KInventory iv')]
    \<and> inv_Spec iv' = inv_Spec iv \<and> inv_Meta iv' = inv_Meta iv
    \<and> r = (case k_write (kube E) (butlast (w_log w')) (EvStatusUpdate (KInventory iv')) of None \<Rightarrow> Ok (requeue 0) | Some e \<Rightarrow> Err e)
    \<and> xs = status_entries (inv_Status iv') \<and> length xs = length (inv_hosts iv)
    \<and> (\<forall>i<length (inv_hosts iv). state_by_listing (inv_hosts iv ! i)
         (k_list_bmmachines (kube E) (w_log w @ replicate i (list_event iv)) (inv_ns iv)) (xs ! i))
    \<and> hit_TotalHosts (inv_Status iv') = int (length (inv_hosts iv))
    \<and> hit_AllocatedHosts (inv_Status iv') = int (length (filter (\<lambda>s. hst_State s = HostStateAllocated) xs))
    \<and> hit_AvailableHosts (inv_Status iv') = int (length (filter (\<lambda>s. hst_State s \<noteq> HostStateAllocated) xs))"
proof -
  let ?st = "\<lparr>hit_TotalHosts = int (length (inv_hosts iv)), hit_AvailableHosts = 0, hit_AllocatedHosts = 0, hit_HostsStatus = None\<rparr>"
  have "counted ?st" by (simp add: counted_def status_entries_def)
  from status_loop_apply [OF this, of E iv "inv_hosts iv" w] obtain st' where
    loop: "status_loop E iv (inv_hosts iv) ?st w = (Ok st', w\<lparr>w_log := w_log w @ replicate (length (inv_hosts iv)) (list_event iv)\<rparr>)"
    and st': "status_entries st' = statuses E iv (w_log w) (inv_hosts iv)" "hit_TotalHosts st' = int (length (inv_hosts iv))" "counted st'"
    by (auto simp: status_entries_def)
  from assms loop have "w_log w' = w_log w @ replicate (length (inv_hosts iv)) (list_event iv) @ [EvStatusUpdate (KInventory (iv\<lparr>inv_Status := st'\<rparr>))]
      \<and> r = (case k_write (kube E) (w_log w @ replicate (length (inv_hosts iv)) (list_event iv)) (EvStatusUpdate (KInventory (iv\<lparr>inv_Status := st'\<rparr>))) of
          None \<Rightarrow> Ok (requeue 0) | Some e \<Rightarrow> Err e)"
    by (auto simp: inv_reconcileNormal_def act_simps api_write_def command_def query_def split: option.splits)
  then show ?thesis using st' statuses_by_listing [of _ "inv_hosts iv" E "w_log w" iv]
    by (intro exI [of _ "iv\<lparr>inv_Status := st'\<rparr>"] exI [of _ "status_entries st'"]) (simp add: counted_def butlast_append)
qed

section \<open>Allocation and release\<close>

lemma not_busy_available:
  assumes "inv_wf iv" and "i < length (inv_hosts iv)" and "\<not> known_busy iv i"
  shows "\<exists>xs. hit_HostsStatus (inv_Status iv) = Some xs \<and> i < length xs \<and> length xs = length (inv_hosts iv) \<and> hst_State (xs ! i) = HostStateAvailable"
  using assms inv_wf_length [OF assms(1)] by (auto simp: known_busy_def status_entries_def split: option.splits)

lemma claim_keeps_wf:
  assumes "inv_wf iv" and "i < length (inv_hosts iv)" and "\<not> known_busy iv i" and "inv_hosts iv ! i = h"
  shows "inv_wf (claim_host bm h i iv)"
proof -
  from not_busy_available [OF assms(1-3)] obtain xs where xs: "hit_HostsStatus (inv_Status iv) = Some xs" "i < length xs"
    "hst_State (xs ! i) = HostStateAvailable" by blast
  let ?s = "\<lparr>hst_Name = he_Name h, hst_State = HostStateAllocated, hst_ClusterRef = Some (cluster_ref bm)\<rparr>"
  have "map hst_Name (xs[i := ?s]) = map he_Name (inv_hosts iv)"
    using assms xs by (auto simp: inv_wf_def status_entries_def map_update) (metis list_update_id nth_map)
  moreover note count_update [OF xs(2), of is_allocated ?s] count_update [OF xs(2), of "\<lambda>s. \<not> is_allocated s" ?s]
  ultimately show ?thesis using assms(1) xs
    by (simp add: claim_host_def inv_wf_def status_entries_def counted_def Let_def)
qed

lemma release_keeps_wf:
  assumes "inv_wf iv" and "i < length (inv_hosts iv)" and "is_allocated (status_entries (inv_Status iv) ! i)"
  shows "inv_wf (release_host i iv)"
proof -
  from assms inv_wf_length [OF assms(1)] obtain xs where xs: "hit_HostsStatus (inv_Status iv) = Some xs" "i < length xs" "is_allocated (xs ! i)"
    by (auto simp: status_entries_def split: option.splits)
  let ?s = "(xs ! i)\<lparr>hst_State := HostStateAvailable, hst_ClusterRef := None\<rparr>"
  have "map hst_Name (xs[i := ?s]) = map he_Name (inv_hosts iv)"
    using assms(1) xs by (simp add: inv_wf_def status_entries_def map_update) (metis list_update_id nth_map)
  moreover have "0 < length (filter is_allocated xs)" using xs by (auto simp: filter_empty_conv)
  moreover note count_update [OF xs(2), of is_allocated ?s] count_update [OF xs(2), of "\<lambda>s. \<not> is_allocated s" ?s]
  ultimately show ?thesis using assms(1) xs
    by (simp add: release_host_def inv_wf_def status_entries_def counted_def Let_def)
qed

text \<open>
  Allocation and release keep the status consistent, and releasing what was just allocated
  restores the inventory: an available host that is claimed and given back leaves every entry and
  every counter as it was.
\<close>

theorem claim_release_roundtrip:
  assumes "inv_wf iv" and "i < length (inv_hosts iv)" and "\<not> known_busy iv i" and "inv_hosts iv ! i = h"
    and "hst_ClusterRef (status_entries (inv_Status iv) ! i) = None"
  shows "inv_wf (claim_host bm h i iv) \<and> known_busy (claim_host bm h i iv) i \<and> release_host i (claim_host bm h i iv) = iv
    \<and> inv_wf (release_host i (claim_host bm h i iv))"
proof -
  from not_busy_available [OF assms(1-3)] obtain xs where xs: "hit_HostsStatus (inv_Status iv) = Some xs" "i < length xs"
    "hst_State (xs ! i) = HostStateAvailable" by blast
  have name: "hst_Name (xs ! i) = he_Name h" using assms xs by (auto simp: inv_wf_def status_entries_def) (metis nth_map)
  have "xs[i := \<lparr>hst_Name = he_Name h, hst_State = HostStateAvailable, hst_ClusterRef = None\<rparr>] = xs"
    using name xs assms(5) by (auto simp: status_entries_def intro!: list_update_same_conv [THEN iffD2])
  moreover have "hit_AllocatedHosts (inv_Status iv) \<ge> 0" using assms(1) by (simp add: inv_wf_def counted_def)
  ultimately have same: "release_host i (claim_host bm h i iv) = iv"
    using xs by (simp add: release_host_def claim_host_def Let_def)
  show ?thesis using claim_keeps_wf [OF assms(1-4)] assms(1) same xs
    by (simp add: known_busy_def claim_host_def Let_def)
qed

lemma alloc_loop_safe:
  assumes "alloc_loop E bm iv i hs w = (Ok h, w')"
  shows "\<exists>j l. j < length hs \<and> hs ! j = h \<and> \<not> role_mismatch bm h \<and> \<not> known_busy iv (i + j) \<and> prefix (w_log w) l
    \<and> listed E l iv h = Inr None \<and> k_write (kube E) (l @ [list_event iv]) (EvStatusUpdate (KInventory (claim_host bm h (i + j) iv))) = None
    \<and> w_log w' = l @ [list_event iv, EvStatusUpdate (KInventory (claim_host bm h (i + j) iv))]"
  using assms
proof (induction hs arbitrary: i w)
  case Nil
  then show ?case by (simp add: act_simps)
next
  case (Cons g hs)
  have later: ?case if "alloc_loop E bm iv (Suc i) hs w1 = (Ok h, w')" "prefix (w_log w) (w_log w1)" for w1
  proof -
    from Cons.IH [OF that(1)] obtain j l where "j < length hs" "hs ! j = h" "\<not> role_mismatch bm h" "\<not> known_busy iv (Suc i + j)" "prefix (w_log w1) l"
      "listed E l iv h = Inr None" "k_write (kube E) (l @ [list_event iv]) (EvStatusUpdate (KInventory (claim_host bm h (Suc i + j) iv))) = None"
      "w_log w' = l @ [list_event iv, EvStatusUpdate (KInventory (claim_host bm h (Suc i + j) iv))]" by blast
    then show ?thesis using that(2) by (intro exI [of _ "Suc j"] exI [of _ l]) (auto intro: prefix_order.trans)
  qed
  show ?case
  proof (cases "role_mismatch bm g \<or> known_busy iv i")
    case True
    with Cons.prems show ?thesis by (intro later [of w]) (auto split: if_splits)
  next
    case free: False
    show ?thesis
    proof (cases "listed E (w_log w) iv g")
      case (Inl e)
      with free Cons.prems show ?thesis by (simp add: act_simps getAllocatedMachine_apply)
    next
      case (Inr m)
      show ?thesis
      proof (cases m)
        case None
        with free Inr Cons.prems show ?thesis
          by (intro exI [of _ 0] exI [of _ "w_log w"])
            (auto simp: act_simps getAllocatedMachine_apply api_write_def command_def query_def split: option.splits)
      next
        case (Some x)
        with free Inr Cons.prems show ?thesis by (intro later [of "w\<lparr>w_log := w_log w @ [list_event iv]\<rparr>"]) (auto simp: act_simps getAllocatedMachine_apply)
      qed
    qed
  qed
qed

text \<open>
  (C30) Allocation is safe in the names the code compares: a host that is returned is an entry of the
  inventory that was read, it has the machine's role when the machine has one, the status did
  not say it was taken, and no machine that is not being deleted carried the entry's name when
  the machines were listed; the claim was accepted by the API server before the host was returned.
  A consistent inventory stays consistent.
\<close>

theorem allocation_safe:
  assumes "allocateHostFromInventory E bm w = (Ok h, w')"
  shows "\<exists>iv i l ref. bms_HostInventoryRef (bm_Spec bm) = Some ref \<and> k_get_inventory (kube E) (w_log w) (m_Namespace (bm_Meta bm)) ref = Inr iv
    \<and> i < length (inv_hosts iv) \<and> inv_hosts iv ! i = h \<and> (bms_Role (bm_Spec bm) = [] \<or> he_Role h = bms_Role (bm_Spec bm))
    \<and> \<not> known_busy iv i \<and> (\<exists>ms. k_list_bmmachines (kube E) l (inv_ns iv) = Inr ms \<and> (\<forall>m\<in>set ms. \<not> holds_host (he_Name h) m))
    \<and> w_log w' = l @ [list_event iv, EvStatusUpdate (KInventory (claim_host bm h i iv))]
    \<and> k_write (kube E) (l @ [list_event iv]) (EvStatusUpdate (KInventory (claim_host bm h i iv))) = None
    \<and> (inv_wf iv \<longrightarrow> inv_wf (claim_host bm h i iv))"
proof -
  from assms obtain ref where ref: "bms_HostInventoryRef (bm_Spec bm) = Some ref"
    by (auto simp: allocateHostFromInventory_def act_simps split: option.splits)
  from assms ref obtain iv where iv: "k_get_inventory (kube E) (w_log w) (m_Namespace (bm_Meta bm)) ref = Inr iv"
    and loop: "alloc_loop E bm iv 0 (inv_hosts iv) (w\<lparr>w_log := w_log w @ [EvGet ''BareMetalHostInventory'' (m_Namespace (bm_Meta bm)) ref]\<rparr>) = (Ok h, w')"
    by (auto simp: allocateHostFromInventory_def Get_inventory_def act_simps query_def split: sum.splits)
  from alloc_loop_safe [OF loop] obtain i l where a: "i < length (inv_hosts iv)" "inv_hosts iv ! i = h" "\<not> role_mismatch bm h" "\<not> known_busy iv i"
    "listed E l iv h = Inr None" "k_write (kube E) (l @ [list_event iv]) (EvStatusUpdate (KInventory (claim_host bm h i iv))) = None"
    "w_log w' = l @ [list_event iv, EvStatusUpdate (KInventory (claim_host bm h i iv))]" by auto
  have "\<exists>ms. k_list_bmmachines (kube E) l (inv_ns iv) = Inr ms \<and> (\<forall>m\<in>set ms. \<not> holds_host (he_Name h) m)"
    using a(5) by (auto simp: listed_def find_None_iff split: sum.splits)
  moreover have "inv_wf iv \<longrightarrow> inv_wf (claim_host bm h i iv)" using claim_keeps_wf a by blast
  moreover have "bms_Role (bm_Spec bm) = [] \<or> he_Role h = bms_Role (bm_Spec bm)" using a(3) by (auto simp: role_mismatch_def)
  ultimately show ?thesis using ref iv a by blast
qed

text \<open>
  The names the code compares are not the ones it stores: a machine records \<open>host.HostName\<close>, the lookup
  of its owner compares that with \<open>host.Name\<close>. When they differ, the next round of the inventory
  controller marks an allocated host as available, and the host is handed out a second time while
  its first owner still holds it.
\<close>

theorem host_allocated_twice:
  assumes hosts: "inv_hosts iv = [h]" and differ: "he_Name h \<noteq> he_HostName h"
    and owner: "holds_host (he_HostName h) owner" and listing: "\<And>l. k_list_bmmachines (kube E) l (inv_ns iv) = Inr [owner]"
    and accepted: "\<And>l ev. k_write (kube E) l ev = None"
    and stored: "\<And>l iv'. k_get_inventory (kube E) (l @ [EvStatusUpdate (KInventory iv')]) (inv_ns iv) ref = Inr iv'"
    and bm: "m_Namespace (bm_Meta bm) = inv_ns iv" "bms_HostInventoryRef (bm_Spec bm) = Some ref" "bms_Role (bm_Spec bm) = []"
  shows "\<exists>w1 w2. inv_reconcileNormal E iv w = (Ok (requeue 0), w1) \<and> allocateHostFromInventory E bm w1 = (Ok h, w2)"
proof -
  have free: "listed E l iv' h = Inr None" if "inv_Meta iv' = inv_Meta iv" for l iv'
    using differ owner listing that by (auto simp: listed_def holds_host_def)
  let ?st = "\<lparr>hit_TotalHosts = 1, hit_AvailableHosts = 1, hit_AllocatedHosts = 0, hit_HostsStatus = Some [host_status h (Inr None)]\<rparr>"
  let ?iv = "iv\<lparr>inv_Status := ?st\<rparr>"
  let ?w1 = "w\<lparr>w_log := w_log w @ [list_event iv, EvStatusUpdate (KInventory ?iv)]\<rparr>"
  have s: "hst_State (host_status h (Inr None)) = HostStateAvailable" by (simp add: host_status_def)
  have round: "inv_reconcileNormal E iv w = (Ok (requeue 0), ?w1)"
    using accepted by (simp add: inv_reconcileNormal_def hosts act_simps getAllocatedMachine_apply free add_status_def s api_write_def command_def query_def)
  have get: "k_get_inventory (kube E) (w_log ?w1) (inv_ns iv) ref = Inr ?iv"
    using stored [of "w_log w @ [list_event iv]" ?iv] by simp
  have "\<exists>w2. allocateHostFromInventory E bm ?w1 = (Ok h, w2)"
    using get accepted by (simp add: allocateHostFromInventory_def bm Get_inventory_def query_def hosts act_simps role_mismatch_def known_busy_def s
        getAllocatedMachine_apply free api_write_def command_def)
  with round show ?thesis by blast
qed

lemma alloc_loop_all_busy:
  assumes "\<forall>j<length hs. known_busy iv (i + j)"
  shows "alloc_loop E bm iv i hs w
    = (Err (Errorf (''no available hosts in inventory '' @ m_Name (inv_Meta iv) @ '' matching role '' @ bms_Role (bm_Spec bm))), w)"
  using assms
proof (induction hs arbitrary: i)
  case Nil
  show ?case by (simp add: act_simps)
next
  case (Cons h hs)
  from Cons.prems have "known_busy iv i" "\<forall>j<length hs. known_busy iv (Suc i + j)" by (auto dest: spec [of _ 0] spec [of _ "Suc _"])
  with Cons.IH [of "Suc i"] show ?case by simp
qed

text \<open>
  An inventory that the controller has not yet visited gives out one host only: the claim fills
  the status with entries whose state is empty, which counts as taken, so the next machine finds
  no host however many are free; and the number of available hosts becomes negative.
\<close>

theorem fresh_inventory_exhausted:
  assumes "hit_HostsStatus (inv_Status iv) = None" and "hit_AvailableHosts (inv_Status iv) = 0" and "i < length (inv_hosts iv)"
    and "bms_HostInventoryRef (bm_Spec bm2) = Some ref"
    and "k_get_inventory (kube E) (w_log w) (m_Namespace (bm_Meta bm2)) ref = Inr (claim_host bm h i iv)"
  shows "hit_AvailableHosts (inv_Status (claim_host bm h i iv)) = -1
    \<and> (\<exists>e w'. allocateHostFromInventory E bm2 w = (Err (Errorf (''no available hosts in inventory '' @ e)), w'))"
proof -
  have hosts: "inv_hosts (claim_host bm h i iv) = inv_hosts iv" by (simp add: claim_host_def Let_def)
  have "known_busy (claim_host bm h i iv) j" if "j < length (inv_hosts iv)" for j
    using assms(1,3) that by (cases "j = i") (simp_all add: known_busy_def claim_host_def Let_def zero_HostStatus_def states_distinct [symmetric])
  then have "alloc_loop E bm2 (claim_host bm h i iv) 0 (inv_hosts iv) w1 = (Err (Errorf (''no available hosts in inventory ''
      @ m_Name (inv_Meta (claim_host bm h i iv)) @ '' matching role '' @ bms_Role (bm_Spec bm2))), w1)" for w1
    by (intro alloc_loop_all_busy) simp
  then have "\<exists>w'. allocateHostFromInventory E bm2 w = (Err (Errorf (''no available hosts in inventory ''
      @ m_Name (inv_Meta (claim_host bm h i iv)) @ '' matching role '' @ bms_Role (bm_Spec bm2))), w')"
    using assms(4,5) by (simp add: allocateHostFromInventory_def Get_inventory_def query_def act_simps hosts)
  moreover have "hit_AvailableHosts (inv_Status (claim_host bm h i iv)) = -1" using assms(2) by (simp add: claim_host_def Let_def)
  ultimately show ?thesis by blast
qed

section \<open>A concrete inventory\<close>

definition ex_entry :: HostEntry where
  "ex_entry = zero_HostEntry\<lparr>he_Name := ''h1'', he_HostName := ''host-1''\<rparr>"

definition ex_inventory :: BareMetalHostInventory where
  "ex_inventory = zero_Inventory\<lparr>inv_Spec := \<lparr>his_Hosts = [ex_entry]\<rparr>\<rparr>"

definition ex_owner :: BareMetalMachine where
  "ex_owner = zero_BareMetalMachine\<lparr>bm_Spec := zero_BareMetalMachineSpec\<lparr>bms_HostName := ''host-1''\<rparr>\<rparr>"

definition ex_claimer :: BareMetalMachine where
  "ex_claimer = zero_BareMetalMachine\<lparr>bm_Spec := zero_BareMetalMachineSpec\<lparr>bms_HostInventoryRef := Some ''inv''\<rparr>\<rparr>"

fun last_inventory :: "log \<Rightarrow> BareMetalHostInventory" where
  "last_inventory l = (case rev l of EvStatusUpdate (KInventory iv) # _ \<Rightarrow> iv | _ \<Rightarrow> ex_inventory)"

declare last_inventory.simps [simp del]

definition ex_inv_env :: "BareMetalMachine list \<Rightarrow> env" where
  "ex_inv_env ms = quiet_env\<lparr>kube := quiet_kube\<lparr>k_list_bmmachines := (\<lambda>l ns. Inr ms), k_get_inventory := (\<lambda>l ns n. Inr (last_inventory l))\<rparr>\<rparr>"

lemma ex_inv_simps [simp]:
  "inv_hosts ex_inventory = [ex_entry]" "inv_ns ex_inventory = []" "he_Name ex_entry = ''h1''" "he_HostName ex_entry = ''host-1''"
  "holds_host ''host-1'' ex_owner" "hit_HostsStatus (inv_Status ex_inventory) = None" "hit_AvailableHosts (inv_Status ex_inventory) = 0"
  "m_Namespace (bm_Meta ex_claimer) = []" "bms_HostInventoryRef (bm_Spec ex_claimer) = Some ''inv''" "bms_Role (bm_Spec ex_claimer) = []"
  "last_inventory (l @ [EvStatusUpdate (KInventory iv)]) = iv"
  by (simp_all add: ex_inventory_def ex_entry_def ex_owner_def ex_claimer_def holds_host_def bm_zero_defs last_inventory.simps)

lemma ex_inv_env_simps [simp]:
  "k_list_bmmachines (kube (ex_inv_env ms)) l ns = Inr ms" "k_write (kube (ex_inv_env ms)) l ev = None"
  "k_get_inventory (kube (ex_inv_env ms)) l ns n = Inr (last_inventory l)"
  by (simp_all add: ex_inv_env_def quiet_defs)

lemma host_allocated_twice_witness:
  "\<exists>w1 w2. inv_reconcileNormal (ex_inv_env [ex_owner]) ex_inventory empty_world = (Ok (requeue 0), w1)
     \<and> allocateHostFromInventory (ex_inv_env [ex_owner]) ex_claimer (w1 :: world) = (Ok ex_entry, (w2 :: world))"
  by (rule host_allocated_twice [where owner = ex_owner and ref = "''inv''"]) simp_all

lemma inventory_round_witness:
  "\<exists>iv'. w_log (snd (inv_reconcileNormal (ex_inv_env [ex_owner\<lparr>bm_Spec := (bm_Spec ex_owner)\<lparr>bms_HostName := ''h1''\<rparr>\<rparr>]) ex_inventory empty_world))
       = [list_event ex_inventory, EvStatusUpdate (KInventory iv')]
     \<and> hst_State (status_entries (inv_Status iv') ! 0) = HostStateAllocated"
proof -
  let ?ms = "[ex_owner\<lparr>bm_Spec := (bm_Spec ex_owner)\<lparr>bms_HostName := ''h1''\<rparr>\<rparr>]"
  have "holds_host ''h1'' (?ms ! 0)" by (simp add: holds_host_def ex_owner_def bm_zero_defs)
  then have holds: "list_ex (holds_host ''h1'') ?ms" by simp
  obtain r w' where run: "inv_reconcileNormal (ex_inv_env ?ms) ex_inventory empty_world = (r, w')" by (metis surj_pair)
  from inventory_round_correct [OF this] obtain iv' xs where *:
    "w_log w' = w_log empty_world @ replicate (length (inv_hosts ex_inventory)) (list_event ex_inventory) @ [EvStatusUpdate (KInventory iv')]"
    "xs = status_entries (inv_Status iv')"
    "\<forall>i<length (inv_hosts ex_inventory). state_by_listing (inv_hosts ex_inventory ! i)
      (k_list_bmmachines (kube (ex_inv_env ?ms)) (w_log empty_world @ replicate i (list_event ex_inventory)) (inv_ns ex_inventory)) (xs ! i)"
    by blast
  from *(3) have "state_by_listing ex_entry (Inr ?ms) (xs ! 0)" by (simp only: ex_inv_simps ex_inv_env_simps) simp
  then have "hst_State (xs ! 0) = HostStateAllocated" unfolding state_by_listing_def using holds by simp
  with run *(1,2) show ?thesis by (intro exI [of _ iv']) (simp add: empty_world_def)
qed

definition ex_visited :: BareMetalHostInventory where
  "ex_visited = ex_inventory\<lparr>inv_Status := \<lparr>hit_TotalHosts = 1, hit_AvailableHosts = 1, hit_AllocatedHosts = 0,
     hit_HostsStatus = Some [\<lparr>hst_Name = ''h1'', hst_State = HostStateAvailable, hst_ClusterRef = None\<rparr>]\<rparr>\<rparr>"

lemma claim_release_witness:
  "known_busy (claim_host ex_claimer ex_entry 0 ex_visited) 0 \<and> release_host 0 (claim_host ex_claimer ex_entry 0 ex_visited) = ex_visited"
  using claim_release_roundtrip [of ex_visited 0 ex_entry ex_claimer]
  by (simp add: ex_visited_def inv_wf_def status_entries_def counted_def known_busy_def)

lemma allocation_safe_witness:
  "\<exists>iv i. inv_hosts iv ! i = ex_entry \<and> \<not> known_busy iv i
     \<and> (\<exists>w'. allocateHostFromInventory (ex_inv_env []) ex_claimer empty_world = (Ok ex_entry, (w' :: world)))"
proof -
  have "\<exists>w'. allocateHostFromInventory (ex_inv_env []) ex_claimer empty_world = (Ok ex_entry, w')"
    by (simp add: allocateHostFromInventory_def Get_inventory_def query_def act_simps empty_world_def last_inventory.simps role_mismatch_def
        known_busy_def getAllocatedMachine_def List_bmmachines_def api_write_def command_def)
  then obtain w' where run: "allocateHostFromInventory (ex_inv_env []) ex_claimer empty_world = (Ok ex_entry, w')" by blast
  from allocation_safe [OF run] run show ?thesis by blast
qed

lemma fresh_inventory_witness:
  "\<exists>e w'. allocateHostFromInventory (ex_inv_env []) ex_claimer
      (empty_world\<lparr>w_log := [EvStatusUpdate (KInventory (claim_host ex_owner ex_entry 0 ex_inventory))]\<rparr>)
     = (Err (Errorf (''no available hosts in inventory '' @ e)), (w' :: world))"
proof -
  let ?iv = "claim_host ex_owner ex_entry 0 ex_inventory"
  have "last_inventory [EvStatusUpdate (KInventory ?iv)] = ?iv" by (simp add: last_inventory.simps)
  then show ?thesis
    using fresh_inventory_exhausted [of ex_inventory 0 ex_claimer "''inv''" "ex_inv_env []"
        "empty_world\<lparr>w_log := [EvStatusUpdate (KInventory ?iv)]\<rparr>" ex_owner ex_entry] by simp
qed

end
