(* ===== verification/Bm_Haproxy.thy ===== *)
theory Bm_Haproxy
  imports Object_State Bm_Zero
begin

text \<open>
  The HAProxy load balancer, \<open>modules/capbm/internal/lb/haproxy.go\<close>, with the type \<open>Backend\<close> of
  \<open>lb/manager.go\<close>. A backend is registered over the runtime API (a TCP connection to the admin
  port) or by a script over SSH; the answers are parsed back into backends.
\<close>

section \<open>Definitions\<close>

record Backend =
  be_Name :: string
  be_IP :: string
  be_Port :: int

definition NewHAProxyProvider :: "HAProxyConfig option \<Rightarrow> error + HAProxyConfig" where
  "NewHAProxyProvider config = (case config of
      None \<Rightarrow> Inl (Errorf ''HAProxy configuration is required'')
    | Some c \<Rightarrow> Inr (let c1 = (if hap_BackendName c = [] then c\<lparr>hap_BackendName := ''k8s-apiserver''\<rparr> else c)
                    in if hap_AdminPort c1 = 0 then c1\<lparr>hap_AdminPort := 9999\<rparr> else c1))"

text \<open>\<open>net.JoinHostPort\<close>: a host with a colon is put in brackets.\<close>

definition JoinHostPort :: "string \<Rightarrow> string \<Rightarrow> string" where
  "JoinHostPort h port = (if CHR '':'' \<in> set h then ''['' @ h @ '']:'' @ port else h @ '':'' @ port)"

definition newline :: string where
  "newline = [CHR 0x0A]"

subsection \<open>TCP\<close>

definition tcp_Dial :: "env \<Rightarrow> string \<Rightarrow> unit cact" where
  "tcp_Dial E addr = command (EvTcpDial addr) (\<lambda>l. h_tcp_dial (host E) l addr)"

definition tcp_Write :: "env \<Rightarrow> string \<Rightarrow> string \<Rightarrow> unit cact" where
  "tcp_Write E addr s = command (EvTcpWrite addr s) (\<lambda>l. h_tcp_write (host E) l addr s)"

definition tcp_Read :: "env \<Rightarrow> string \<Rightarrow> nat \<Rightarrow> string cact" where
  "tcp_Read E addr n = query (EvTcpRead addr n) (\<lambda>l. case h_tcp_read (host E) l addr n of Inl e \<Rightarrow> Inl e | Inr s \<Rightarrow> Inr (take n s))"

definition tcp_Close :: "env \<Rightarrow> string \<Rightarrow> unit cact" where
  "tcp_Close E addr = command (EvTcpClose addr) (\<lambda>l. h_tcp_close (host E) l addr)"

text \<open>\<open>HealthCheck\<close> of the HAProxy provider: can the backend be reached?\<close>

definition hap_HealthCheck :: "env \<Rightarrow> Backend \<Rightarrow> bool cact" where
  "hap_HealthCheck E b =
     (let addr = JoinHostPort (be_IP b) (show_int (be_Port b)) in
      attempt (tcp_Dial E addr) (\<lambda>r. case r of
        Inl e \<Rightarrow> ret False
      | Inr _ \<Rightarrow> attempt (tcp_Close E addr) (\<lambda>_. ret True)))"

subsection \<open>The runtime API\<close>

definition admin_addr :: "HAProxyConfig \<Rightarrow> string" where
  "admin_addr p = JoinHostPort (hap_AdminHost p) (show_int (hap_AdminPort p))"

definition runtime_send :: "env \<Rightarrow> HAProxyConfig \<Rightarrow> string \<Rightarrow> (string \<Rightarrow> 'a cact) \<Rightarrow> 'a cact" where
  "runtime_send E p cmd k =
     check (tcp_Dial E (admin_addr p)) (wrap ''failed to connect to HAProxy Runtime API: '') (\<lambda>_.
       deferring
         (check (tcp_Write E (admin_addr p) (cmd @ newline)) (wrap ''failed to send command to HAProxy: '') (\<lambda>_. k (admin_addr p)))
         (tcp_Close E (admin_addr p)))"

definition add_server_cmd :: "HAProxyConfig \<Rightarrow> Backend \<Rightarrow> string" where
  "add_server_cmd p b = ''add server '' @ hap_BackendName p @ ''/'' @ be_Name b @ '' '' @ be_IP b @ '':'' @ show_int (be_Port b)
     @ '' check inter 5s fall 3 rise 2''"

definition registerViaRuntimeAPI :: "env \<Rightarrow> HAProxyConfig \<Rightarrow> Backend \<Rightarrow> unit cact" where
  "registerViaRuntimeAPI E p b =
     runtime_send E p (add_server_cmd p b) (\<lambda>addr.
       check (tcp_Read E addr 1024) (wrap ''failed to read response from HAProxy: '') (\<lambda>buf.
         let response = TrimSpace buf in
         if contains (ToLower response) ''error'' then fail (Errorf (''HAProxy returned error: '' @ response)) else ret ()))"

definition unregisterViaRuntimeAPI :: "env \<Rightarrow> HAProxyConfig \<Rightarrow> Backend \<Rightarrow> unit cact" where
  "unregisterViaRuntimeAPI E p b = runtime_send E p (''del server '' @ hap_BackendName p @ ''/'' @ be_Name b) (\<lambda>_. ret ())"

subsection \<open>Parsing\<close>

text \<open>\<open>strings.Fields\<close>: the maximal runs without white space (ASCII).\<close>

definition strings_Fields :: "string \<Rightarrow> string list" where
  "strings_Fields s = filter (\<lambda>f. f \<noteq> []) (split_on CHR '' '' (map (\<lambda>c. if is_space c then CHR '' '' else c) s))"

text \<open>
  \<open>fmt.Sscanf(s, "%d", &i)\<close>: leading blanks, an optional sign, then at least one digit; what follows is
  not read. A number outside 64 bits is an error.
\<close>

definition Sscanf_d :: "string \<Rightarrow> int option" where
  "Sscanf_d s =
     (let t = dropWhile is_space s;
          neg = (t \<noteq> [] \<and> hd t = CHR ''-'');
          u = (if t \<noteq> [] \<and> (hd t = CHR ''-'' \<or> hd t = CHR ''+'') then tl t else t);
          ds = takeWhile is_digit u;
          i = (if neg then - int (read_digits ds) else int (read_digits ds))
      in if ds = [] \<or> i < - (2 ^ 63) \<or> i \<ge> 2 ^ 63 then None else Some i)"

definition parse_server_line :: "string \<Rightarrow> Backend option" where
  "parse_server_line raw =
     (let line = TrimSpace raw; parts = strings_Fields line in
      if \<not> HasPrefix line ''server '' then None
      else if length parts < 3 then None
      else
        let addrParts = split_on CHR '':'' (parts ! 2) in
        if length addrParts < 2 then None
        else Some \<lparr>be_Name = parts ! 1, be_IP = addrParts ! 0,
                   be_Port = (case Sscanf_d (addrParts ! 1) of None \<Rightarrow> 6443 | Some i \<Rightarrow> i)\<rparr>)"

definition parseBackendsFromResponse :: "string \<Rightarrow> Backend list" where
  "parseBackendsFromResponse response = List.map_filter parse_server_line (split_on CHR 0x0A response)"

definition getBackendsViaRuntimeAPI :: "env \<Rightarrow> HAProxyConfig \<Rightarrow> Backend list cact" where
  "getBackendsViaRuntimeAPI E p =
     runtime_send E p (''show servers state '' @ hap_BackendName p) (\<lambda>addr.
       check (tcp_Read E addr 4096) (wrap ''failed to read response from HAProxy: '') (\<lambda>buf.
         ret (parseBackendsFromResponse buf)))"

subsection \<open>SSH\<close>

definition createSSHClient :: "env \<Rightarrow> HAProxyConfig \<Rightarrow> unit cact" where
  "createSSHClient E p =
     check (when_act (hap_SSHKnownHostsFile p \<noteq> [])
        (command (EvKnownHosts (hap_SSHKnownHostsFile p)) (\<lambda>l. s_known_hosts (ssh E) l (hap_SSHKnownHostsFile p))))
       (wrap (''failed to load known hosts file '' @ hap_SSHKnownHostsFile p @ '': '')) (\<lambda>_.
     command (EvDial (hap_SSHHost p) (hap_SSHPort p)) (\<lambda>l. s_dial (ssh E) l (hap_SSHHost p) (hap_SSHPort p)))"

definition combined_output :: "env \<Rightarrow> HAProxyConfig \<Rightarrow> string \<Rightarrow> string \<Rightarrow> string cact" where
  "combined_output E p script what =
     check (createSSHClient E p) (wrap ''failed to create SSH client: '') (\<lambda>_.
       deferring
         (check (command (EvSession (hap_SSHHost p)) (\<lambda>l. s_session (ssh E) l (hap_SSHHost p))) (wrap ''failed to create SSH session: '') (\<lambda>_.
          andthen (query (EvExec (hap_SSHHost p) script None) (\<lambda>l. Inr (s_combined (ssh E) l (hap_SSHHost p) script))) (\<lambda>r. case r of
            (Some e, out) \<Rightarrow> fail (Wrapf (what @ '' failed: '') e ('', output: '' @ out))
          | (None, out) \<Rightarrow> ret out)))
         (query (EvCloseClient (hap_SSHHost p) (hap_SSHPort p)) (\<lambda>l. Inr ())))"

definition register_script :: "HAProxyConfig \<Rightarrow> Backend \<Rightarrow> string" where
  \<open>register_script p b = script_lines [
    ''#!/bin/bash'',
    ''set -euo pipefail'',
    [],
    ''CONFIG_FILE="'' @ hap_ConfigFile p @ ''"'',
    ''BACKEND_NAME="'' @ hap_BackendName p @ ''"'',
    ''SERVER_NAME="'' @ be_Name b @ ''"'',
    ''SERVER_IP="'' @ be_IP b @ ''"'',
    ''SERVER_PORT="'' @ show_int (be_Port b) @ ''"'',
    ''RELOAD_CMD="'' @ hap_ReloadCommand p @ ''"'',
    [],
    ''if grep -q "server ${SERVER_NAME} ${SERVER_IP}:${SERVER_PORT}" "$CONFIG_FILE"; then'',
    ''    echo "server already exists"'',
    ''    exit 0'',
    ''fi'',
    [],
    ''sed -i "/^backend ${BACKEND_NAME}/,/^$/ {'',
    ''    /^$/ i'' @ backslash @ backslash @ ''    server ${SERVER_NAME} ${SERVER_IP}:${SERVER_PORT} check inter 5s fall 3 rise 2'',
    ''}" "$CONFIG_FILE"'',
    [],
    ''haproxy -c -f "$CONFIG_FILE"'',
    ''$RELOAD_CMD'']\<close>

definition unregister_script :: "HAProxyConfig \<Rightarrow> Backend \<Rightarrow> string" where
  \<open>unregister_script p b = script_lines [
    ''#!/bin/bash'',
    ''set -euo pipefail'',
    [],
    ''CONFIG_FILE="'' @ hap_ConfigFile p @ ''"'',
    ''SERVER_NAME="'' @ be_Name b @ ''"'',
    ''SERVER_IP="'' @ be_IP b @ ''"'',
    ''SERVER_PORT="'' @ show_int (be_Port b) @ ''"'',
    ''RELOAD_CMD="'' @ hap_ReloadCommand p @ ''"'',
    [],
    ''sed -i "/server ${SERVER_NAME} ${SERVER_IP}:${SERVER_PORT}/d" "$CONFIG_FILE"'',
    ''haproxy -c -f "$CONFIG_FILE"'',
    ''$RELOAD_CMD'']\<close>

definition registerViaSSH :: "env \<Rightarrow> HAProxyConfig \<Rightarrow> Backend \<Rightarrow> unit cact" where
  "registerViaSSH E p b = andthen (combined_output E p (register_script p b) ''SSH script'') (\<lambda>_. ret ())"

definition unregisterViaSSH :: "env \<Rightarrow> HAProxyConfig \<Rightarrow> Backend \<Rightarrow> unit cact" where
  "unregisterViaSSH E p b = andthen (combined_output E p (unregister_script p b) ''SSH script'') (\<lambda>_. ret ())"

definition getBackendsViaSSH :: "env \<Rightarrow> HAProxyConfig \<Rightarrow> Backend list cact" where
  "getBackendsViaSSH E p =
     andthen (combined_output E p (''grep -A 100 '' @ [CHR 0x27] @ ''^backend '' @ hap_BackendName p @ [CHR 0x27] @ '' '' @ hap_ConfigFile p
       @ '' | grep '' @ [CHR 0x27] @ ''server '' @ [CHR 0x27] @ '' | head -50'') ''SSH command'') (\<lambda>out. ret (parseBackendsFromResponse out))"

subsection \<open>The provider\<close>

definition not_configured :: error where
  "not_configured = Errorf ''HAProxy: neither adminHost nor sshHost configured''"

definition hap_RegisterBackend :: "env \<Rightarrow> HAProxyConfig \<Rightarrow> Backend \<Rightarrow> unit cact" where
  "hap_RegisterBackend E p b =
     (if hap_AdminHost p \<noteq> [] then registerViaRuntimeAPI E p b
      else if hap_SSHHost p \<noteq> [] then registerViaSSH E p b else fail not_configured)"

definition hap_UnregisterBackend :: "env \<Rightarrow> HAProxyConfig \<Rightarrow> Backend \<Rightarrow> unit cact" where
  "hap_UnregisterBackend E p b =
     (if hap_AdminHost p \<noteq> [] then unregisterViaRuntimeAPI E p b
      else if hap_SSHHost p \<noteq> [] then unregisterViaSSH E p b else fail not_configured)"

definition hap_GetBackends :: "env \<Rightarrow> HAProxyConfig \<Rightarrow> Backend list cact" where
  "hap_GetBackends E p =
     (if hap_AdminHost p \<noteq> [] then getBackendsViaRuntimeAPI E p
      else if hap_SSHHost p \<noteq> [] then getBackendsViaSSH E p else fail not_configured)"

section \<open>Reading the configuration back\<close>

definition no_space :: "string \<Rightarrow> bool" where
  "no_space s \<longleftrightarrow> (\<forall>c\<in>set s. \<not> is_space c)"

lemma fields_space: "is_space c \<Longrightarrow> strings_Fields (a @ c # b) = strings_Fields a @ strings_Fields b"
  by (simp add: strings_Fields_def split_on_append)

lemma fields_word: "no_space w \<Longrightarrow> w \<noteq> [] \<Longrightarrow> strings_Fields w = [w]"
proof -
  assume w: "no_space w" "w \<noteq> []"
  then have "map (\<lambda>c. if is_space c then CHR '' '' else c) w = w" by (auto simp: no_space_def intro: map_idI)
  moreover have "CHR '' '' \<notin> set w" using w(1) by (auto simp: no_space_def is_space_def)
  ultimately show ?thesis using w(2) by (simp add: strings_Fields_def split_on_single)
qed

lemma trim_indented:
  assumes "\<forall>c\<in>set a. is_space c" and "x \<noteq> []" and "\<not> is_space (hd x)" and "\<not> is_space (last x)"
  shows "TrimSpace (a @ x) = x"
proof -
  have "dropWhile is_space (a @ x) = x" using assms(1-3) by (cases x) (simp_all add: dropWhile_append2)
  moreover have "dropWhile is_space (rev x) = rev x" using assms(2,4) by (metis dropWhile.simps(2) hd_rev list.collapse rev_is_Nil_conv)
  ultimately show ?thesis by (simp add: TrimSpace_def trim_by_def)
qed

lemma show_nat_all_digits: "\<forall>c\<in>set (show_nat n). is_digit c"
  by (auto simp: is_digit_def dest: show_nat_digits)

lemma digit_not_special: "is_digit c \<Longrightarrow> \<not> is_space c \<and> c \<noteq> CHR ''-'' \<and> c \<noteq> CHR ''+'' \<and> c \<noteq> CHR '':''"
  by (auto simp: is_digit_def is_space_def)

lemma no_space_show_int: "no_space (show_int i)"
  using show_nat_all_digits digit_not_special by (auto simp: no_space_def show_int_def is_space_def)

lemma takeWhile_digits: "takeWhile is_digit (show_nat n) = show_nat n"
  using show_nat_all_digits by (simp add: takeWhile_eq_all_conv)

lemma Sscanf_show_int:
  assumes "- (2 ^ 63) \<le> i" and "i < 2 ^ 63"
  shows "Sscanf_d (show_int i) = Some i"
proof (cases "i < 0")
  case True
  with assms show ?thesis by (simp add: Sscanf_d_def show_int_def is_space_def Let_def takeWhile_digits)
next
  case False
  obtain c cs where n: "show_nat (nat i) = c # cs" by (metis list.exhaust show_nat_nonempty)
  then have d: "is_digit c" using show_nat_all_digits [of "nat i"] by simp
  have tw: "takeWhile is_digit (c # cs) = c # cs" using takeWhile_digits [of "nat i"] n by simp
  have "read_digits (c # cs) = nat i" using n read_show_nat [of "nat i"] by simp
  with False assms n digit_not_special [OF d] show ?thesis
    by (simp add: Sscanf_d_def show_int_def Let_def tw del: takeWhile.simps)
qed

subsection \<open>What the registration script writes\<close>

text \<open>
  How the shell reads a double-quoted string, from behind the opening quote: a backslash is special before
  \<open>$\<close>, a backquote, a double quote, a backslash and a newline only, \<open>${NAME}\<close> is replaced by the value of
  the variable (unset: the script stops, \<open>set -u\<close>), and a dollar sign that starts no expansion
  stands for itself. Every other expansion is outside this reading (\<open>None\<close>).
\<close>

definition name_char :: "char \<Rightarrow> bool" where
  "name_char c \<longleftrightarrow> c \<in> set ''ABCDEFGHIJKLMNOPQRSTUVWXYZabcdefghijklmnopqrstuvwxyz0123456789_''"

fun dq_expand :: "(string \<Rightarrow> string option) \<Rightarrow> string \<Rightarrow> (string \<times> string) option" where
  "dq_expand vars [] = None"
| "dq_expand vars (c # cs) =
     (if c = CHR 0x22 then Some ([], cs)
      else if c = CHR 0x60 then None
      else if c = CHR 0x5C then (case cs of
          [] \<Rightarrow> None
        | d # ds \<Rightarrow>
            if d = CHR 0x0A then dq_expand vars ds
            else if d \<in> {CHR ''$'', CHR 0x60, CHR 0x22, CHR 0x5C} then map_option (apfst (Cons d)) (dq_expand vars ds)
            else map_option (apfst (\<lambda>x. c # d # x)) (dq_expand vars ds))
      else if c = CHR ''$'' then (case cs of
          [] \<Rightarrow> None
        | d # ds \<Rightarrow>
            if d = CHR ''{'' then (let name = takeWhile (\<lambda>x. x \<noteq> CHR ''}'') ds in
              case vars name of
                None \<Rightarrow> None
              | Some v \<Rightarrow> map_option (apfst ((@) v)) (dq_expand vars (drop (Suc (length name)) ds)))
            else if name_char d \<or> d \<in> set ''(*@#?-$!'' then None
            else map_option (apfst (Cons c)) (dq_expand vars cs))
      else map_option (apfst (Cons c)) (dq_expand vars cs))"

text \<open>The assignments \<open>NAME="..."\<close> among the lines of a script.\<close>

definition assignment :: "(string \<Rightarrow> string option) \<Rightarrow> string \<Rightarrow> (string \<times> string) option" where
  "assignment vars l =
     (let name = takeWhile name_char l in
      case dropWhile name_char l of
        e # q # rest \<Rightarrow>
          if name \<noteq> [] \<and> e = CHR ''='' \<and> q = CHR 0x22 then
            (case dq_expand vars rest of Some (v, []) \<Rightarrow> Some (name, v) | _ \<Rightarrow> None)
          else None
      | _ \<Rightarrow> None)"

fun shell_vars :: "(string \<Rightarrow> string option) \<Rightarrow> string list \<Rightarrow> string \<Rightarrow> string option" where
  "shell_vars vars [] = vars"
| "shell_vars vars (l # ls) = shell_vars (case assignment vars l of None \<Rightarrow> vars | Some (x, v) \<Rightarrow> vars(x \<mapsto> v)) ls"

text \<open>
  The program that the script hands to \<open>sed -i\<close>, read with the variables set before it, and the text of its
  command \<open>i\\<close>, which \<open>sed\<close> writes before the empty line that ends the section.
\<close>

definition sed_start :: string where
  "sed_start = ''sed -i '' @ [CHR 0x22]"

definition sed_program :: "string \<Rightarrow> string option" where
  "sed_program script =
     (let ls = split_on CHR 0x0A script;
          vars = shell_vars Map.empty (takeWhile (\<lambda>l. \<not> HasPrefix l sed_start) ls)
      in case dropWhile (\<lambda>l. \<not> HasPrefix l sed_start) ls of
           [] \<Rightarrow> None
         | l # rest \<Rightarrow> map_option fst (dq_expand vars (join_with [CHR 0x0A] (drop (length sed_start) l # rest))))"

definition sed_insert :: string where
  "sed_insert = ''    /^$/ i'' @ [CHR 0x5C]"

definition inserted_line :: "string \<Rightarrow> string option" where
  "inserted_line script = (case sed_program script of
     None \<Rightarrow> None
   | Some prog \<Rightarrow> map_option (drop (length sed_insert)) (List.find (\<lambda>l. HasPrefix l sed_insert) (split_on CHR 0x0A prog)))"

text \<open>Values that the shell reads as they are.\<close>

definition plain_text :: "string \<Rightarrow> bool" where
  "plain_text s \<longleftrightarrow> (\<forall>c\<in>set s. c \<notin> {CHR 0x22, CHR 0x60, CHR 0x5C, CHR ''$'', CHR 0x0A})"

definition plain_config :: "HAProxyConfig \<Rightarrow> bool" where
  "plain_config p \<longleftrightarrow> plain_text (hap_ConfigFile p) \<and> plain_text (hap_BackendName p) \<and> plain_text (hap_ReloadCommand p)"

lemma plain_text_newline: "plain_text s \<Longrightarrow> CHR 0x0A \<notin> set s"
  by (auto simp: plain_text_def)

lemma dq_expand_plain:
  "plain_text v \<Longrightarrow> dq_expand vars (v @ rest) = map_option (apfst ((@) v)) (dq_expand vars rest)"
proof (induction v)
  case Nil
  show ?case by (cases "dq_expand vars rest") (simp_all add: apfst_def map_prod_def split_beta)
next
  case (Cons c v)
  then have IH: "dq_expand vars (v @ rest) = map_option (apfst ((@) v)) (dq_expand vars rest)" by (simp add: plain_text_def)
  from Cons.prems have c: "c \<noteq> CHR 0x22" "c \<noteq> CHR 0x60" "c \<noteq> CHR 0x5C" "c \<noteq> CHR ''$''" by (simp_all add: plain_text_def)
  have "dq_expand vars (c # v @ rest) = map_option (apfst (Cons c)) (dq_expand vars (v @ rest))"
    by (subst dq_expand.simps(2)) (simp only: c if_False)
  then show ?case unfolding IH append_Cons by (cases "dq_expand vars rest") (simp_all add: apfst_def map_prod_def split_beta)
qed

lemma plain_text_show_int: "plain_text (show_int i)"
proof -
  have "is_digit c \<Longrightarrow> c \<notin> {CHR 0x22, CHR 0x60, CHR 0x5C, CHR ''$'', CHR 0x0A}" for c by (auto simp: is_digit_def)
  then have "plain_text (show_nat n)" for n using show_nat_all_digits [of n] unfolding plain_text_def by blast
  then show ?thesis by (simp add: show_int_def plain_text_def)
qed

lemma assignment_plain:
  assumes "plain_text v" and "x \<noteq> []" and "list_all name_char x"
  shows "assignment vars (x @ [CHR ''='', CHR 0x22] @ v @ [CHR 0x22]) = Some (x, v)"
proof -
  have "\<not> name_char CHR ''=''" by (simp add: name_char_def)
  then have "takeWhile name_char (x @ CHR ''='' # t) = x" "dropWhile name_char (x @ CHR ''='' # t) = CHR ''='' # t" for t
    using assms(3) by (induction x) auto
  moreover have "dq_expand vars (v @ [CHR 0x22]) = Some (v, [])" using dq_expand_plain [OF assms(1), of vars] by simp
  ultimately show ?thesis using assms(2) by (simp add: assignment_def)
qed

text \<open>The line that a backend should have in the configuration.\<close>

definition server_word :: string where
  "server_word = ''server''"

definition check_options :: string where
  "check_options = ''check inter 5s fall 3 rise 2''"

definition server_addr :: "Backend \<Rightarrow> string" where
  "server_addr b = be_IP b @ CHR '':'' # show_int (be_Port b)"

definition server_fields :: "Backend \<Rightarrow> string" where
  "server_fields b = server_word @ CHR '' '' # be_Name b @ CHR '' '' # server_addr b @ CHR '' '' # check_options"

definition server_line :: "Backend \<Rightarrow> string" where
  "server_line b = ''    '' @ server_fields b"

definition plain_backend :: "Backend \<Rightarrow> bool" where
  "plain_backend b \<longleftrightarrow> no_space (be_Name b) \<and> be_Name b \<noteq> [] \<and> no_space (be_IP b) \<and> CHR '':'' \<notin> set (be_IP b)
     \<and> plain_text (be_Name b) \<and> plain_text (be_IP b)
     \<and> - (2 ^ 63) \<le> be_Port b \<and> be_Port b < 2 ^ 63"

lemma space_char [simp]: "is_space CHR '' ''"
  by (simp add: is_space_def)

lemma server_words:
  "no_space server_word" "server_word \<noteq> []" "\<not> is_space (hd server_word)" "check_options \<noteq> []" "\<not> is_space (last check_options)"
  "prefix ''server '' (server_word @ CHR '' '' # x)" "CHR 0x0A \<notin> set server_word" "CHR 0x0A \<notin> set check_options"
  by (simp_all add: server_word_def check_options_def no_space_def is_space_def)

lemma no_space_newline: "no_space w \<Longrightarrow> CHR 0x0A \<notin> set w"
  by (auto simp: no_space_def is_space_def)

lemma server_addr_word: "plain_backend b \<Longrightarrow> no_space (server_addr b)" "server_addr b \<noteq> []"
  using no_space_show_int [of "be_Port b"] by (auto simp: server_addr_def plain_backend_def no_space_def is_space_def)

lemma trim_server_line: "TrimSpace (server_line b) = server_fields b"
  unfolding server_line_def
proof (rule trim_indented)
  show "\<not> is_space (hd (server_fields b))" using server_words(2,3) by (simp add: server_fields_def)
  show "\<not> is_space (last (server_fields b))" using server_words(4,5) by (simp add: server_fields_def)
  show "server_fields b \<noteq> []" by (simp add: server_fields_def)
qed simp

lemma fields_server:
  assumes "plain_backend b"
  shows "strings_Fields (server_fields b) = server_word # be_Name b # server_addr b # strings_Fields check_options"
proof -
  have "strings_Fields (be_Name b) = [be_Name b]" using assms by (intro fields_word) (simp_all add: plain_backend_def)
  moreover have "strings_Fields (server_addr b) = [server_addr b]" using assms by (intro fields_word server_addr_word)
  moreover have "strings_Fields server_word = [server_word]" by (intro fields_word server_words)
  ultimately show ?thesis by (simp add: server_fields_def fields_space)
qed

lemma parse_server_line_roundtrip:
  assumes "plain_backend b"
  shows "parse_server_line (server_line b) = Some b"
proof -
  have "split_on CHR '':'' (server_addr b) = [be_IP b, show_int (be_Port b)]"
    using assms colon_not_in_show_int [of "be_Port b"] by (simp add: server_addr_def split_on_append plain_backend_def split_on_single)
  moreover have "HasPrefix (server_fields b) ''server ''" using server_words(6) by (simp add: HasPrefix_def server_fields_def)
  ultimately show ?thesis
    using assms Sscanf_show_int [of "be_Port b"]
    by (simp add: parse_server_line_def Let_def trim_server_line fields_server plain_backend_def)
qed

lemma server_line_no_newline: "plain_backend b \<Longrightarrow> CHR 0x0A \<notin> set (server_line b)"
  using server_words(7,8) server_addr_word(1) [of b]
  by (auto simp: server_line_def server_fields_def plain_backend_def dest: no_space_newline)

subsection \<open>The registration script\<close>

definition script_head :: "HAProxyConfig \<Rightarrow> Backend \<Rightarrow> string list" where
  \<open>script_head p b = [
    ''#!/bin/bash'',
    ''set -euo pipefail'',
    [],
    ''CONFIG_FILE="'' @ hap_ConfigFile p @ ''"'',
    ''BACKEND_NAME="'' @ hap_BackendName p @ ''"'',
    ''SERVER_NAME="'' @ be_Name b @ ''"'',
    ''SERVER_IP="'' @ be_IP b @ ''"'',
    ''SERVER_PORT="'' @ show_int (be_Port b) @ ''"'',
    ''RELOAD_CMD="'' @ hap_ReloadCommand p @ ''"'',
    [],
    ''if grep -q "server ${SERVER_NAME} ${SERVER_IP}:${SERVER_PORT}" "$CONFIG_FILE"; then'',
    ''    echo "server already exists"'',
    ''    exit 0'',
    ''fi'',
    []]\<close>

definition script_tail :: "string list" where
  \<open>script_tail = [
    ''    /^$/ i'' @ backslash @ backslash @ ''    server ${SERVER_NAME} ${SERVER_IP}:${SERVER_PORT} check inter 5s fall 3 rise 2'',
    ''}" "$CONFIG_FILE"'',
    [],
    ''haproxy -c -f "$CONFIG_FILE"'',
    ''$RELOAD_CMD'']\<close>

definition sed_range :: string where
  "sed_range = ''/^backend ${BACKEND_NAME}/,/^$/ {''"

lemma register_script_parts:
  "register_script p b = script_lines (script_head p b @ (sed_start @ sed_range) # script_tail)"
  by (simp add: register_script_def script_head_def script_tail_def sed_start_def sed_range_def)

lemma script_head_vars:
  assumes "plain_config p" and "plain_backend b"
  shows "shell_vars Map.empty (script_head p b) = [''CONFIG_FILE'' \<mapsto> hap_ConfigFile p, ''BACKEND_NAME'' \<mapsto> hap_BackendName p,
      ''SERVER_NAME'' \<mapsto> be_Name b, ''SERVER_IP'' \<mapsto> be_IP b, ''SERVER_PORT'' \<mapsto> show_int (be_Port b), ''RELOAD_CMD'' \<mapsto> hap_ReloadCommand p]"
proof -
  have set_var: "assignment vars (x @ CHR ''='' # CHR 0x22 # v @ [CHR 0x22]) = Some (x, v)"
    if "plain_text v" "x \<noteq> []" "list_all name_char x" for vars x v
    using assignment_plain [OF that] by simp
  have names: "list_all name_char ''CONFIG_FILE''" "list_all name_char ''BACKEND_NAME''" "list_all name_char ''SERVER_NAME''"
    "list_all name_char ''SERVER_IP''" "list_all name_char ''SERVER_PORT''" "list_all name_char ''RELOAD_CMD''"
    by (simp_all add: name_char_def)
  have plain: "plain_text (hap_ConfigFile p)" "plain_text (hap_BackendName p)" "plain_text (be_Name b)" "plain_text (be_IP b)"
    "plain_text (show_int (be_Port b))" "plain_text (hap_ReloadCommand p)"
    using assms plain_text_show_int by (simp_all add: plain_config_def plain_backend_def)
  have other: "assignment vars ''#!/bin/bash'' = None" "assignment vars ''set -euo pipefail'' = None" "assignment vars [] = None"
    \<open>assignment vars ''if grep -q "server ${SERVER_NAME} ${SERVER_IP}:${SERVER_PORT}" "$CONFIG_FILE"; then'' = None\<close>
    \<open>assignment vars ''    echo "server already exists"'' = None\<close>
    "assignment vars ''    exit 0'' = None" "assignment vars ''fi'' = None" for vars
    by (simp_all add: assignment_def name_char_def)
  show ?thesis
    unfolding script_head_def
    using set_var [OF plain(1) _ names(1)] set_var [OF plain(2) _ names(2)] set_var [OF plain(3) _ names(3)]
      set_var [OF plain(4) _ names(4)] set_var [OF plain(5) _ names(5)] set_var [OF plain(6) _ names(6)]
    by (simp add: other)
qed

lemma script_lines_plain:
  assumes "plain_config p" and "plain_backend b"
  shows "split_on CHR 0x0A (register_script p b) = script_head p b @ (sed_start @ sed_range) # script_tail @ [[]]"
proof -
  have "CHR 0x0A \<notin> set (show_int (be_Port b))" using plain_text_show_int by (auto simp: plain_text_def)
  then have "\<forall>x\<in>set (script_head p b @ (sed_start @ sed_range) # script_tail). CHR 0x0A \<notin> set x"
    using assms by (simp add: script_head_def script_tail_def sed_start_def sed_range_def plain_config_def plain_backend_def plain_text_newline)
  then have "x \<in> set (script_head p b @ (sed_start @ sed_range) # script_tail) \<Longrightarrow> CHR 0x0A \<notin> set x" for x by blast
  from split_script_lines [of "script_head p b @ (sed_start @ sed_range) # script_tail", OF this] show ?thesis unfolding register_script_parts by simp
qed

lemma script_head_no_sed: "list_all (\<lambda>l. \<not> HasPrefix l sed_start) (script_head p b)"
  by (simp add: script_head_def HasPrefix_def sed_start_def)

lemma sed_program_read:
  assumes "vars ''BACKEND_NAME'' = Some n" "vars ''SERVER_NAME'' = Some (be_Name b)" "vars ''SERVER_IP'' = Some (be_IP b)"
    "vars ''SERVER_PORT'' = Some (show_int (be_Port b))"
  shows "map_option fst (dq_expand vars (join_with [CHR 0x0A] (sed_range # script_tail @ [[]])))
    = Some ((''/^backend '' @ n @ ''/,/^$/ {'') @ CHR 0x0A # (sed_insert @ server_line b) @ CHR 0x0A # ''}'')"
  using assms
  by (simp add: sed_range_def script_tail_def name_char_def sed_insert_def server_line_def server_fields_def server_word_def
      server_addr_def check_options_def)

lemma find_inserted:
  assumes "CHR 0x0A \<notin> set a" and "CHR 0x0A \<notin> set (q @ x)" and "\<not> HasPrefix a q"
  shows "List.find (\<lambda>l. HasPrefix l q) (split_on CHR 0x0A (a @ CHR 0x0A # (q @ x) @ CHR 0x0A # c)) = Some (q @ x)"
proof -
  have "split_on CHR 0x0A (a @ CHR 0x0A # (q @ x) @ CHR 0x0A # c) = a # (q @ x) # split_on CHR 0x0A c"
    using split_on_append [of _ a "(q @ x) @ CHR 0x0A # c"] split_on_append [of _ "q @ x" c] assms(1,2) by (simp add: split_on_single)
  then show ?thesis using assms(3) by (simp add: HasPrefix_def)
qed

lemma inserted_line_correct:
  assumes "plain_config p" and "plain_backend b"
  shows "inserted_line (register_script p b) = Some (server_line b)"
proof -
  have start: "HasPrefix (sed_start @ sed_range) sed_start" by (simp add: HasPrefix_def)
  have upto: "takeWhile (\<lambda>l. \<not> HasPrefix l sed_start) (script_head p b @ (sed_start @ sed_range) # t) = script_head p b"
    "dropWhile (\<lambda>l. \<not> HasPrefix l sed_start) (script_head p b @ (sed_start @ sed_range) # t) = (sed_start @ sed_range) # t" for t
    using script_head_no_sed [of p b] start by (auto simp: list_all_iff takeWhile_append2 dropWhile_append2)
  have range: "drop (length sed_start) (sed_start @ sed_range) = sed_range" by simp
  let ?range = "''/^backend '' @ hap_BackendName p @ ''/,/^$/ {''"
  have prog: "sed_program (register_script p b) = Some (?range @ CHR 0x0A # (sed_insert @ server_line b) @ CHR 0x0A # ''}'')"
    unfolding sed_program_def script_lines_plain [OF assms] upto Let_def list.case script_head_vars [OF assms] range
    by (rule sed_program_read) simp_all
  have "CHR 0x0A \<notin> set ?range" using assms(1) by (simp add: plain_config_def plain_text_newline)
  moreover have "CHR 0x0A \<notin> set (sed_insert @ server_line b)" using server_line_no_newline [OF assms(2)] by (simp add: sed_insert_def)
  moreover have "\<not> HasPrefix ?range sed_insert" by (simp add: HasPrefix_def sed_insert_def)
  ultimately have "List.find (\<lambda>l. HasPrefix l sed_insert) (split_on CHR 0x0A (?range @ CHR 0x0A # (sed_insert @ server_line b) @ CHR 0x0A # ''}''))
      = Some (sed_insert @ server_line b)" by (rule find_inserted)
  then show ?thesis unfolding inserted_line_def prog option.case by (simp only: option.map append_eq_conv_conj) simp
qed

lemma server_lines_roundtrip:
  assumes "\<forall>b\<in>set bs. plain_backend b"
  shows "parseBackendsFromResponse (script_lines (map server_line bs)) = bs"
  using assms
proof (induction bs)
  case Nil
  show ?case by (simp add: parseBackendsFromResponse_def script_lines_def parse_server_line_def TrimSpace_def trim_by_def HasPrefix_def map_filter_simps Let_def)
next
  case (Cons b bs)
  then have b: "plain_backend b" by simp
  have "split_on CHR 0x0A (script_lines (map server_line (b # bs))) = server_line b # split_on CHR 0x0A (script_lines (map server_line bs))"
    using server_line_no_newline [OF b] by (simp add: script_lines_def split_on_append split_on_single)
  with Cons parse_server_line_roundtrip [OF b] show ?case by (simp add: parseBackendsFromResponse_def map_filter_simps)
qed


definition ex_backend :: Backend where
  "ex_backend = \<lparr>be_Name = ''cp-1'', be_IP = ''10.0.0.1'', be_Port = 6443\<rparr>"

definition ex_haproxy :: HAProxyConfig where
  "ex_haproxy = zero_HAProxyConfig\<lparr>hap_ConfigFile := ''/etc/haproxy/haproxy.cfg'', hap_BackendName := ''k8s-apiserver'',
     hap_ReloadCommand := ''systemctl reload haproxy''\<rparr>"


end
