(* ===== verification/Bm_Lb.thy ===== *)
theory Bm_Lb
  imports Bm_Haproxy Topo_Sort
begin

text \<open>
  The load balancer providers of \<open>modules/capbm/internal/lb\<close> (\<open>f5.go\<close>, \<open>keepalived.go\<close>, \<open>metallb.go\<close>), the
  interface \<open>Provider\<close> and its constructor (\<open>manager.go\<close>), and the client of the interface, \<open>syncBackends\<close> of
  \<open>baremetalcluster_controller.go\<close>. The interface is a locale: what a provider promises about the
  pool it manages. Keepalived and MetalLB implement it in memory.
\<close>

section \<open>F5\<close>

record F5Member =
  fm_Address :: string
  fm_Port :: int
  fm_Name :: string

record F5PoolMemberItem =
  fi_Name :: string
  fi_Address :: string
  fi_Port :: int
  fi_State :: string

text \<open>JSON of the standard library, and whether a request URL is accepted.\<close>

record f5_lib =
  fl_marshal :: "F5Member \<Rightarrow> error + string"
  fl_url :: "string \<Rightarrow> error option"
  fl_members :: "string \<Rightarrow> error + F5PoolMemberItem list"
  fl_item :: "string \<Rightarrow> error + F5PoolMemberItem"

record F5Provider =
  f5_config :: F5Config
  f5_baseURL :: string

definition NewF5Provider :: "F5Config option \<Rightarrow> error + F5Provider" where
  "NewF5Provider config = (case config of
      None \<Rightarrow> Inl (Errorf ''F5 configuration is required'')
    | Some c \<Rightarrow>
        if f5c_Host c = [] then Inl (Errorf ''F5 host is required'')
        else if f5c_Username c = [] \<and> f5c_CredentialsRef c = None then Inl (Errorf ''F5 username or credentialsRef is required'')
        else
          let c1 = (if f5c_Partition c = [] then c\<lparr>f5c_Partition := ''Common''\<rparr> else c);
              c2 = (if f5c_Port c1 = 0 then c1\<lparr>f5c_Port := 443\<rparr> else c1)
          in Inr \<lparr>f5_config = c2, f5_baseURL = ''https://'' @ f5c_Host c2 @ '':'' @ show_int (f5c_Port c2) @ ''/mgmt/tm''\<rparr>)"

text \<open>\<open>url.PathEscape\<close>: every byte that is not allowed in a path segment becomes a percent code.\<close>

definition upper_hex :: "nat \<Rightarrow> char" where
  "upper_hex n = (if n < 10 then char_of (48 + n) else char_of (55 + n))"

definition segment_char :: "char \<Rightarrow> bool" where
  "segment_char c \<longleftrightarrow> (let n = of_char c :: nat in 48 \<le> n \<and> n \<le> 57 \<or> 65 \<le> n \<and> n \<le> 90 \<or> 97 \<le> n \<and> n \<le> 122)
     \<or> c \<in> set ''-_.~$&+=:@''"

definition PathEscape :: "string \<Rightarrow> string" where
  "PathEscape s = concat (map (\<lambda>c. if segment_char c then [c]
     else (let n = of_char c :: nat in [CHR ''%'', upper_hex (n div 16), upper_hex (n mod 16)])) s)"

definition pool_path :: "F5Provider \<Rightarrow> string" where
  "pool_path p = ''/ltm/pool/~'' @ f5c_Partition (f5_config p) @ ''~'' @ f5c_PoolName (f5_config p) @ ''/members''"

definition member_path :: "F5Provider \<Rightarrow> Backend \<Rightarrow> string" where
  "member_path p b = pool_path p @ ''/~'' @ f5c_Partition (f5_config p) @ ''~'' @ PathEscape (be_IP b @ '':'' @ show_int (be_Port b))"

text \<open>
  \<open>doF5Request\<close>: \<open>decode\<close> is None where the Go call passes a nil \<open>result\<close>; the zero value stays when the body is
  empty or null. The status is read before the body.
\<close>

definition doF5Request ::
  "env \<Rightarrow> f5_lib \<Rightarrow> F5Provider \<Rightarrow> string \<Rightarrow> string \<Rightarrow> F5Member option \<Rightarrow> (string \<Rightarrow> error + 'a) option \<Rightarrow> 'a \<Rightarrow> 'a cact" where
  "doF5Request E L p meth path body decode zero =
     (case (case body of None \<Rightarrow> Inr None | Some m \<Rightarrow> (case fl_marshal L m of Inl e \<Rightarrow> Inl e | Inr s \<Rightarrow> Inr (Some s))) of
        Inl e \<Rightarrow> fail (wrap ''failed to marshal request body: '' e)
      | Inr reqBody \<Rightarrow>
          (case fl_url L (f5_baseURL p @ path) of
             Some e \<Rightarrow> fail (wrap ''failed to create request: '' e)
           | None \<Rightarrow>
               check (query (EvRequest meth (f5_baseURL p @ path) reqBody) (\<lambda>l. h_request (host E) l meth (f5_baseURL p @ path) reqBody))
                 (wrap ''failed to execute request: '') (\<lambda>(code, resp).
                 if code \<ge> 400 then
                   (case resp of
                      Inl e \<Rightarrow> fail (Wrapf (''F5 API returned status '' @ show_int code @ '' (failed to read body: '') e '')'')
                    | Inr s \<Rightarrow> fail (Errorf (''F5 API returned status '' @ show_int code @ '': '' @ s)))
                 else
                   (case decode of
                      None \<Rightarrow> ret zero
                    | Some d \<Rightarrow>
                        if meth = ''DELETE'' then ret zero
                        else (case resp of
                                Inl e \<Rightarrow> fail (wrap ''failed to read response body: '' e)
                              | Inr s \<Rightarrow>
                                  if s \<noteq> [] \<and> \<not> HasPrefix (TrimSpace s) ''null''
                                  then (case d s of Inl e \<Rightarrow> fail (wrap ''failed to unmarshal response: '' e) | Inr x \<Rightarrow> ret x)
                                  else ret zero)))))"

definition f5_RegisterBackend :: "env \<Rightarrow> f5_lib \<Rightarrow> F5Provider \<Rightarrow> Backend \<Rightarrow> unit cact" where
  "f5_RegisterBackend E L p b =
     doF5Request E L p ''POST'' (pool_path p) (Some \<lparr>fm_Address = be_IP b, fm_Port = be_Port b, fm_Name = be_Name b\<rparr>) None ()"

definition f5_UnregisterBackend :: "env \<Rightarrow> f5_lib \<Rightarrow> F5Provider \<Rightarrow> Backend \<Rightarrow> unit cact" where
  "f5_UnregisterBackend E L p b = doF5Request E L p ''DELETE'' (member_path p b) None None ()"

definition f5_GetBackends :: "env \<Rightarrow> f5_lib \<Rightarrow> F5Provider \<Rightarrow> Backend list cact" where
  "f5_GetBackends E L p =
     andthen (doF5Request E L p ''GET'' (pool_path p) None (Some (fl_members L)) []) (\<lambda>items.
       ret (map (\<lambda>i. \<lparr>be_Name = fi_Name i, be_IP = fi_Address i, be_Port = fi_Port i\<rparr>) items))"

definition f5_HealthCheck :: "env \<Rightarrow> f5_lib \<Rightarrow> F5Provider \<Rightarrow> Backend \<Rightarrow> bool cact" where
  "f5_HealthCheck E L p b =
     andthen (doF5Request E L p ''GET'' (member_path p b) None (Some (fl_item L)) \<lparr>fi_Name = [], fi_Address = [], fi_Port = 0, fi_State = []\<rparr>) (\<lambda>item.
       ret (fi_State item = ''up'' \<or> fi_State item = ''checking''))"

section \<open>Keepalived and MetalLB\<close>

text \<open>
  Both providers keep the backends in a field; with a Kubernetes client they also maintain a
  Service per backend. \<open>kp_client\<close>, \<open>mp_client\<close> say whether \<open>WithK8sClient\<close> was called.
\<close>

record KeepalivedProvider =
  kp_config :: KeepalivedConfig
  kp_client :: bool
  kp_namespace :: string
  kp_backends :: "Backend list"
  kp_vip :: string

record MetalLBProvider =
  mp_config :: MetalLBConfig
  mp_client :: bool
  mp_namespace :: string
  mp_backends :: "Backend list"

definition NewKeepalivedProvider :: "KeepalivedConfig option \<Rightarrow> error + KeepalivedProvider" where
  "NewKeepalivedProvider config = (case config of
      None \<Rightarrow> Inl (Errorf ''keepalived configuration is required'')
    | Some c \<Rightarrow>
        if kac_VirtualIP c = [] then Inl (Errorf ''keepalived virtualIP is required'')
        else
          let c1 = (if kac_Interface c = [] then c\<lparr>kac_Interface := ''eth0''\<rparr> else c);
              c2 = (if kac_VirtualRouterID c1 = 0 then c1\<lparr>kac_VirtualRouterID := 51\<rparr> else c1);
              c3 = (if kac_Priority c2 = 0 then c2\<lparr>kac_Priority := 100\<rparr> else c2);
              c4 = (if kac_AdvertInterval c3 = 0 then c3\<lparr>kac_AdvertInterval := 1\<rparr> else c3)
          in Inr \<lparr>kp_config = c4, kp_client = False, kp_namespace = [], kp_backends = [], kp_vip = kac_VirtualIP c4\<rparr>)"

definition NewMetalLBProvider :: "MetalLBConfig option \<Rightarrow> error + MetalLBProvider" where
  "NewMetalLBProvider config = (case config of
      None \<Rightarrow> Inl (Errorf ''MetalLB configuration is required'')
    | Some c \<Rightarrow> Inr \<lparr>mp_config = c, mp_client = False, mp_namespace = [], mp_backends = []\<rparr>)"

definition kp_WithK8sClient :: "string \<Rightarrow> KeepalivedProvider \<Rightarrow> KeepalivedProvider" where
  "kp_WithK8sClient ns p = p\<lparr>kp_client := True, kp_namespace := ns\<rparr>"

definition mp_WithK8sClient :: "string \<Rightarrow> MetalLBProvider \<Rightarrow> MetalLBProvider" where
  "mp_WithK8sClient ns p = p\<lparr>mp_client := True, mp_namespace := ns\<rparr>"

definition Get_lbservice :: "env \<Rightarrow> string \<Rightarrow> string \<Rightarrow> lb_service cact" where
  "Get_lbservice E ns n = query (EvGet ''Service'' ns n) (\<lambda>l. k_get_lbservice (kube E) l ns n)"

definition List_lbservices :: "env \<Rightarrow> string \<Rightarrow> labels \<Rightarrow> lb_service list cact" where
  "List_lbservices E ns sel = query (EvList ''Service'' ns sel) (\<lambda>l. k_list_lbservices (kube E) l ns sel)"

definition service_port :: "Backend \<Rightarrow> int \<times> int \<times> string" where
  "service_port b = (int32 (be_Port b), be_Port b, ''TCP'')"

definition capbm_service :: "string \<Rightarrow> Backend \<Rightarrow> labels \<Rightarrow> string \<Rightarrow> lb_service" where
  "capbm_service ns b annotations ip =
     \<lparr>ls_Name = ''svc-'' @ be_Name b, ls_Namespace = ns, ls_Labels = [(''app.kubernetes.io/part-of'', ''capbm''), (''app'', be_Name b)],
      ls_Annotations = Some annotations, ls_Type = ''LoadBalancer'', ls_Ports = [service_port b], ls_Selector = [(''app'', be_Name b)],
      ls_LoadBalancerIP = ip, ls_Ingress = []\<rparr>"

definition retarget :: "Backend \<Rightarrow> string \<Rightarrow> string \<Rightarrow> lb_service \<Rightarrow> lb_service" where
  "retarget b key val svc = svc\<lparr>
     ls_Annotations := Some (upd_key key val (case ls_Annotations svc of None \<Rightarrow> [] | Some a \<Rightarrow> a)),
     ls_Ports := [service_port b], ls_Selector := [(''app'', be_Name b)]\<rparr>"

definition updateServiceVIP :: "env \<Rightarrow> KeepalivedProvider \<Rightarrow> Backend \<Rightarrow> unit cact" where
  "updateServiceVIP E p b =
     attempt (Get_lbservice E (kp_namespace p) (''svc-'' @ be_Name b)) (\<lambda>r. case r of
       Inl e \<Rightarrow> api_write E (EvCreate (KLbService (capbm_service (kp_namespace p) b
                  [(''metallb.universe.tf/loadBalancerIPs'', kp_vip p), (''keepalived.org/vip'', kp_vip p)] [])))
     | Inr svc \<Rightarrow> api_write E (EvPatch (KLbService (retarget b ''keepalived.org/vip'' (kp_vip p) svc))))"

definition updateService :: "env \<Rightarrow> MetalLBProvider \<Rightarrow> Backend \<Rightarrow> unit cact" where
  "updateService E p b =
     attempt (Get_lbservice E (mp_namespace p) (''svc-'' @ be_Name b)) (\<lambda>r. case r of
       Inl e \<Rightarrow> api_write E (EvCreate (KLbService (capbm_service (mp_namespace p) b
                  [(''metallb.universe.tf/address-pool'', mlb_AddressPool (mp_config p))] (mlb_LoadBalancerIP (mp_config p)))))
     | Inr svc \<Rightarrow>
         let svc' = retarget b ''metallb.universe.tf/address-pool'' (mlb_AddressPool (mp_config p)) svc;
             ip = mlb_LoadBalancerIP (mp_config p)
         in api_write E (EvPatch (KLbService (if ip \<noteq> [] then svc'\<lparr>ls_LoadBalancerIP := ip\<rparr> else svc'))))"

definition part_of_capbm :: labels where
  "part_of_capbm = [(''app.kubernetes.io/part-of'', ''capbm'')]"

definition vip_backends :: "lb_service \<Rightarrow> Backend list" where
  "vip_backends svc =
     (if ls_Type svc \<noteq> ''LoadBalancer'' then []
      else case map_of (case ls_Annotations svc of None \<Rightarrow> [] | Some a \<Rightarrow> a) ''keepalived.org/vip'' of
        None \<Rightarrow> []
      | Some vip \<Rightarrow> if vip = [] then [] else map (\<lambda>(port, _). \<lparr>be_Name = ls_Name svc, be_IP = vip, be_Port = port\<rparr>) (ls_Ports svc))"

definition ingress_backends :: "lb_service \<Rightarrow> Backend list" where
  "ingress_backends svc =
     (if ls_Type svc \<noteq> ''LoadBalancer'' then []
      else concat (map (\<lambda>ip. map (\<lambda>(port, _). \<lparr>be_Name = ls_Name svc, be_IP = ip, be_Port = port\<rparr>) (ls_Ports svc)) (ls_Ingress svc)))"

definition same_backend :: "Backend \<Rightarrow> Backend \<Rightarrow> bool" where
  "same_backend b c \<longleftrightarrow> be_Name c = be_Name b \<and> be_IP c = be_IP b"

fun remove_backend :: "Backend \<Rightarrow> Backend list \<Rightarrow> Backend list" where
  "remove_backend b [] = []"
| "remove_backend b (c # cs) = (if same_backend b c then cs else c # remove_backend b cs)"

definition kp_RegisterBackend :: "env \<Rightarrow> Backend \<Rightarrow> (KeepalivedProvider, unit) objact" where
  "kp_RegisterBackend E b = with_obj (\<lambda>p.
     if list_ex (same_backend b) (kp_backends p) then ret ()
     else andthen (modify_obj (\<lambda>q. q\<lparr>kp_backends := kp_backends q @ [b]\<rparr>)) (\<lambda>_.
       when_act (kp_client p) (check (on_world (updateServiceVIP E p b)) (wrap ''failed to update Service VIP: '') ret)))"

definition kp_UnregisterBackend :: "Backend \<Rightarrow> (KeepalivedProvider, unit) objact" where
  "kp_UnregisterBackend b = modify_obj (\<lambda>p. p\<lparr>kp_backends := remove_backend b (kp_backends p)\<rparr>)"

definition kp_GetBackends :: "env \<Rightarrow> (KeepalivedProvider, Backend list) objact" where
  "kp_GetBackends E = with_obj (\<lambda>p.
     if kp_client p then andthen (on_world (List_lbservices E (kp_namespace p) part_of_capbm)) (\<lambda>svcs. ret (concat (map vip_backends svcs)))
     else ret (kp_backends p))"

definition mp_RegisterBackend :: "env \<Rightarrow> Backend \<Rightarrow> (MetalLBProvider, unit) objact" where
  "mp_RegisterBackend E b = with_obj (\<lambda>p.
     if list_ex (same_backend b) (mp_backends p) then ret ()
     else andthen (modify_obj (\<lambda>q. q\<lparr>mp_backends := mp_backends q @ [b]\<rparr>)) (\<lambda>_.
       when_act (mp_client p) (check (on_world (updateService E p b)) (wrap ''failed to update Service: '') ret)))"

definition mp_UnregisterBackend :: "Backend \<Rightarrow> (MetalLBProvider, unit) objact" where
  "mp_UnregisterBackend b = modify_obj (\<lambda>p. p\<lparr>mp_backends := remove_backend b (mp_backends p)\<rparr>)"

definition mp_GetBackends :: "env \<Rightarrow> (MetalLBProvider, Backend list) objact" where
  "mp_GetBackends E = with_obj (\<lambda>p.
     if mp_client p then andthen (on_world (List_lbservices E (mp_namespace p) part_of_capbm)) (\<lambda>svcs. ret (concat (map ingress_backends svcs)))
     else ret (mp_backends p))"

text \<open>\<open>HealthCheck\<close> of both: unlike HAProxy's, an error on closing the connection is reported.\<close>

definition tcp_HealthCheck :: "env \<Rightarrow> Backend \<Rightarrow> bool cact" where
  "tcp_HealthCheck E b =
     (let addr = JoinHostPort (be_IP b) (show_int (be_Port b)) in
      attempt (tcp_Dial E addr) (\<lambda>r. case r of
        Inl e \<Rightarrow> ret False
      | Inr _ \<Rightarrow> check (tcp_Close E addr) (wrap ''failed to close connection: '') (\<lambda>_. ret True)))"

section \<open>The interface\<close>

datatype Provider =
    HAProxyProvider HAProxyConfig
  | F5Prov F5Provider
  | KeepalivedProv KeepalivedProvider
  | MetalLBProv MetalLBProvider

definition NewProvider :: "LoadBalancerConfig option \<Rightarrow> error + Provider" where
  "NewProvider config = (case config of
      None \<Rightarrow> Inl (Errorf ''load balancer configuration is required'')
    | Some c \<Rightarrow>
        if lbc_Provider c = ''haproxy'' then map_sum id HAProxyProvider (NewHAProxyProvider (lbc_HAProxy c))
        else if lbc_Provider c = ''f5'' then map_sum id F5Prov (NewF5Provider (lbc_F5 c))
        else if lbc_Provider c = ''keepalived'' then map_sum id KeepalivedProv (NewKeepalivedProvider (lbc_Keepalived c))
        else if lbc_Provider c = ''metal-lb'' then map_sum id MetalLBProv (NewMetalLBProvider (lbc_MetalLB c))
        else if lbc_Provider c = [] then Inl (Errorf ''load balancer provider type is required (supported: haproxy, f5, keepalived, metal-lb)'')
        else Inl (Errorf (''unsupported load balancer provider: '' @ lbc_Provider c)))"

text \<open>A call of a method on the object inside an interface value.\<close>

definition inside :: "('p \<Rightarrow> Provider) \<Rightarrow> 'p \<Rightarrow> ('p, 'a) objact \<Rightarrow> (Provider, 'a) objact" where
  "inside wrapped p m = (\<lambda>(w, _). case m (w, p) of (r, (w', p')) \<Rightarrow> (r, (w', wrapped p')))"

definition RegisterBackend :: "env \<Rightarrow> f5_lib \<Rightarrow> Backend \<Rightarrow> (Provider, unit) objact" where
  "RegisterBackend E L b = with_obj (\<lambda>v. case v of
      HAProxyProvider p \<Rightarrow> on_world (hap_RegisterBackend E p b)
    | F5Prov p \<Rightarrow> on_world (f5_RegisterBackend E L p b)
    | KeepalivedProv p \<Rightarrow> inside KeepalivedProv p (kp_RegisterBackend E b)
    | MetalLBProv p \<Rightarrow> inside MetalLBProv p (mp_RegisterBackend E b))"

definition UnregisterBackend :: "env \<Rightarrow> f5_lib \<Rightarrow> Backend \<Rightarrow> (Provider, unit) objact" where
  "UnregisterBackend E L b = with_obj (\<lambda>v. case v of
      HAProxyProvider p \<Rightarrow> on_world (hap_UnregisterBackend E p b)
    | F5Prov p \<Rightarrow> on_world (f5_UnregisterBackend E L p b)
    | KeepalivedProv p \<Rightarrow> inside KeepalivedProv p (kp_UnregisterBackend b)
    | MetalLBProv p \<Rightarrow> inside MetalLBProv p (mp_UnregisterBackend b))"

definition GetBackends :: "env \<Rightarrow> f5_lib \<Rightarrow> (Provider, Backend list) objact" where
  "GetBackends E L = with_obj (\<lambda>v. case v of
      HAProxyProvider p \<Rightarrow> on_world (hap_GetBackends E p)
    | F5Prov p \<Rightarrow> on_world (f5_GetBackends E L p)
    | KeepalivedProv p \<Rightarrow> inside KeepalivedProv p (kp_GetBackends E)
    | MetalLBProv p \<Rightarrow> inside MetalLBProv p (mp_GetBackends E))"

section \<open>The client: bringing the pool to the desired backends\<close>

type_synonym backend_map = "(string \<times> Backend) list"

definition by_name :: "Backend list \<Rightarrow> backend_map" where
  "by_name bs = fold (\<lambda>b m. upd_key (be_Name b) b m) bs []"

definition to_add :: "backend_map \<Rightarrow> backend_map \<Rightarrow> backend_map" where
  "to_add desired current = filter (\<lambda>(n, b). map_of current n = None) desired"

definition to_remove :: "backend_map \<Rightarrow> backend_map \<Rightarrow> backend_map" where
  "to_remove desired current = filter (\<lambda>(n, b). map_of desired n = None) current"

definition each_backend :: "env \<Rightarrow> backend_map \<Rightarrow> (string \<Rightarrow> Backend \<Rightarrow> ('p, unit) objact) \<Rightarrow> ('p, unit) objact" where
  "each_backend E m f =
     andthen (on_world (range_map E (map fst m))) (\<lambda>names.
       for_each names (\<lambda>n. case map_of m n of None \<Rightarrow> ret () | Some b \<Rightarrow> f n b))"

definition sync_with ::
  "env \<Rightarrow> ('p, Backend list) objact \<Rightarrow> (Backend \<Rightarrow> ('p, unit) objact) \<Rightarrow> (Backend \<Rightarrow> ('p, unit) objact) \<Rightarrow> backend_map \<Rightarrow> ('p, unit) objact" where
  "sync_with E get reg unreg desired =
     check get (wrap ''failed to get current backends: '') (\<lambda>current.
     andthen (each_backend E (to_add desired (by_name current)) (\<lambda>n b. check (reg b) (wrap (''failed to register backend '' @ n @ '': '')) ret)) (\<lambda>_.
       each_backend E (to_remove desired (by_name current)) (\<lambda>n b. check (unreg b) (wrap (''failed to unregister backend '' @ n @ '': '')) ret)))"

definition syncBackends :: "env \<Rightarrow> f5_lib \<Rightarrow> backend_map \<Rightarrow> (Provider, unit) objact" where
  "syncBackends E L desired = sync_with E (GetBackends E L) (RegisterBackend E L) (UnregisterBackend E L) desired"

section \<open>What a provider promises\<close>

lemma by_name_lookup:
  assumes "inj_on be_Name (set bs)"
  shows "map_of (by_name bs) n = Some b \<longleftrightarrow> b \<in> set bs \<and> be_Name b = n"
proof -
  have "map_of (fold (\<lambda>b m. upd_key (be_Name b) b m) bs m) n = Some b
      \<longleftrightarrow> (b \<in> set bs \<and> be_Name b = n) \<or> (n \<notin> be_Name ` set bs \<and> map_of m n = Some b)"
    if "inj_on be_Name (set bs)" for m
    using that
  proof (induction bs arbitrary: m)
    case (Cons a bs)
    from Cons.IH [of "upd_key (be_Name a) a m"] Cons.prems show ?case
      by (auto simp: map_of_upd_key inj_on_def split: if_splits)
  qed simp
  from this [OF assms, of "[]"] show ?thesis by (simp add: by_name_def)
qed

lemma distinct_by_name: "distinct (map fst (by_name bs))"
proof -
  have "distinct (map fst m) \<Longrightarrow> distinct (map fst (fold (\<lambda>b m. upd_key (be_Name b) b m) bs m))" for m
    by (induction bs arbitrary: m) (auto simp: distinct_upd_key)
  then show ?thesis by (simp add: by_name_def)
qed

lemma to_add_by_name:
  assumes "distinct (map fst desired)" and "inj_on be_Name (set bs)"
  shows "distinct (map fst (to_add desired (by_name bs)))"
    and "map_of (to_add desired (by_name bs)) n = Some b \<longleftrightarrow> (n, b) \<in> set desired \<and> n \<notin> be_Name ` set bs"
    and "\<forall>(n, b)\<in>set desired. be_Name b = n \<Longrightarrow> snd ` set (to_add desired (by_name bs)) = {b \<in> snd ` set desired. be_Name b \<notin> be_Name ` set bs}"
proof -
  have none: "map_of (by_name bs) n = None \<longleftrightarrow> n \<notin> be_Name ` set bs" for n
    using by_name_lookup [OF assms(2)] by (metis (no_types, lifting) image_iff not_None_eq)
  show d: "distinct (map fst (to_add desired (by_name bs)))" using assms(1) by (simp add: to_add_def distinct_map_filter)
  show "map_of (to_add desired (by_name bs)) n = Some b \<longleftrightarrow> (n, b) \<in> set desired \<and> n \<notin> be_Name ` set bs"
    using map_of_eq_Some_iff [OF d] none by (auto simp: to_add_def)
  show "snd ` set (to_add desired (by_name bs)) = {b \<in> snd ` set desired. be_Name b \<notin> be_Name ` set bs}" if "\<forall>(n, b)\<in>set desired. be_Name b = n"
    using that by (auto simp: to_add_def none intro: rev_image_eqI)
qed

lemma to_remove_by_name:
  assumes "inj_on be_Name (set bs)"
  shows "distinct (map fst (to_remove desired (by_name bs)))"
    and "map_of (to_remove desired (by_name bs)) n = Some b \<longleftrightarrow> b \<in> set bs \<and> be_Name b = n \<and> n \<notin> fst ` set desired"
    and "snd ` set (to_remove desired (by_name bs)) = {b \<in> set bs. be_Name b \<notin> fst ` set desired}"
proof -
  show d: "distinct (map fst (to_remove desired (by_name bs)))" using distinct_by_name by (simp add: to_remove_def distinct_map_filter)
  have mem: "(k, c) \<in> set (by_name bs) \<longleftrightarrow> c \<in> set bs \<and> be_Name c = k" for k c
    using map_of_eq_Some_iff [OF distinct_by_name] by_name_lookup [OF assms] by blast
  show "map_of (to_remove desired (by_name bs)) n = Some b \<longleftrightarrow> b \<in> set bs \<and> be_Name b = n \<and> n \<notin> fst ` set desired"
    using map_of_eq_Some_iff [OF d] mem by (auto simp: to_remove_def map_of_eq_None_iff)
  show "snd ` set (to_remove desired (by_name bs)) = {b \<in> set bs. be_Name b \<notin> fst ` set desired}"
  proof (rule set_eqI)
    fix b
    have "b \<in> snd ` set (to_remove desired (by_name bs)) \<longleftrightarrow> (\<exists>k. (k, b) \<in> set (by_name bs) \<and> k \<notin> fst ` set desired)"
      by (auto simp: to_remove_def map_of_eq_None_iff intro: rev_image_eqI)
    with mem show "b \<in> snd ` set (to_remove desired (by_name bs)) \<longleftrightarrow> b \<in> {b \<in> set bs. be_Name b \<notin> fst ` set desired}" by auto
  qed
qed

locale lb_pool =
  fixes get :: "('p, Backend list) objact"
    and reg :: "Backend \<Rightarrow> ('p, unit) objact"
    and unreg :: "Backend \<Rightarrow> ('p, unit) objact"
    and pool :: "world \<times> 'p \<Rightarrow> Backend set"
    and sane :: "world \<times> 'p \<Rightarrow> bool"
  assumes names_unique: "sane s \<Longrightarrow> inj_on be_Name (pool s)"
    and get_law: "sane s \<Longrightarrow> get s = (r, s') \<Longrightarrow> sane s' \<and> pool s' = pool s \<and> (\<forall>bs. r = Ok bs \<longrightarrow> set bs = pool s)"
    and reg_law: "sane s \<Longrightarrow> be_Name b \<notin> be_Name ` pool s \<Longrightarrow> reg b s = (Ok (), s') \<Longrightarrow> sane s' \<and> pool s' = insert b (pool s)"
    and unreg_law: "sane s \<Longrightarrow> b \<in> pool s \<Longrightarrow> unreg b s = (Ok (), s') \<Longrightarrow> sane s' \<and> pool s' = pool s - {b}"
begin

lemma add_loop:
  assumes "sane s" and "distinct ns" and "\<forall>n\<in>set ns. \<exists>b. map_of m n = Some b \<and> be_Name b = n \<and> n \<notin> be_Name ` pool s"
    and "for_each ns (\<lambda>n. case map_of m n of None \<Rightarrow> ret () | Some b \<Rightarrow> check (reg b) (f n) ret) s = (Ok (), s')"
  shows "sane s' \<and> pool s' = pool s \<union> {b. \<exists>n\<in>set ns. map_of m n = Some b}"
  using assms
proof (induction ns arbitrary: s)
  case Nil
  then show ?case by (simp add: act_simps)
next
  case (Cons n ns)
  from Cons.prems(3) obtain b where b: "map_of m n = Some b" "be_Name b = n" "n \<notin> be_Name ` pool s" by auto
  with Cons.prems(4) obtain s1 where r: "reg b s = (Ok (), s1)"
    and rest: "for_each ns (\<lambda>n. case map_of m n of None \<Rightarrow> ret () | Some b \<Rightarrow> check (reg b) (f n) ret) s1 = (Ok (), s')"
    by (auto simp: act_simps split: prod.splits res.splits)
  from reg_law [OF Cons.prems(1) _ r] b have s1: "sane s1" "pool s1 = insert b (pool s)" by auto
  have "\<forall>k\<in>set ns. \<exists>c. map_of m k = Some c \<and> be_Name c = k \<and> k \<notin> be_Name ` pool s1"
  proof
    fix k assume k: "k \<in> set ns"
    with Cons.prems(3) obtain c where "map_of m k = Some c" "be_Name c = k" "k \<notin> be_Name ` pool s" by auto
    moreover have "k \<noteq> n" using k Cons.prems(2) by auto
    ultimately show "\<exists>c. map_of m k = Some c \<and> be_Name c = k \<and> k \<notin> be_Name ` pool s1" using s1(2) b(2) by auto
  qed
  from Cons.IH [OF s1(1) _ this rest] Cons.prems(2) s1 b show ?case by auto
qed

lemma remove_loop:
  assumes "sane s" and "distinct ns" and "\<forall>n\<in>set ns. \<exists>b. map_of m n = Some b \<and> be_Name b = n \<and> b \<in> pool s"
    and "for_each ns (\<lambda>n. case map_of m n of None \<Rightarrow> ret () | Some b \<Rightarrow> check (unreg b) (f n) ret) s = (Ok (), s')"
  shows "sane s' \<and> pool s' = pool s - {b. \<exists>n\<in>set ns. map_of m n = Some b}"
  using assms
proof (induction ns arbitrary: s)
  case Nil
  then show ?case by (simp add: act_simps)
next
  case (Cons n ns)
  from Cons.prems(3) obtain b where b: "map_of m n = Some b" "be_Name b = n" "b \<in> pool s" by auto
  with Cons.prems(4) obtain s1 where r: "unreg b s = (Ok (), s1)"
    and rest: "for_each ns (\<lambda>n. case map_of m n of None \<Rightarrow> ret () | Some b \<Rightarrow> check (unreg b) (f n) ret) s1 = (Ok (), s')"
    by (auto simp: act_simps split: prod.splits res.splits)
  from unreg_law [OF Cons.prems(1) b(3) r] have s1: "sane s1" "pool s1 = pool s - {b}" by auto
  have "\<forall>k\<in>set ns. \<exists>c. map_of m k = Some c \<and> be_Name c = k \<and> c \<in> pool s1"
    using Cons.prems(2,3) s1(2) b(2) by auto
  from Cons.IH [OF s1(1) _ this rest] Cons.prems(2) s1 b show ?case by auto
qed

lemma each_backend_loop:
  assumes "range_ok E" and "each_backend E m f s = (r, s')"
  obtains ns where "mset ns = mset (map fst m)" and "for_each ns (\<lambda>n. case map_of m n of None \<Rightarrow> ret () | Some b \<Rightarrow> f n b) s = (r, s')"
proof -
  obtain w p where s: "s = (w, p)" by (metis surj_pair)
  show thesis
    by (rule that [of "h_range (host E) (w_log w) (map fst m)"])
       (use assms s in \<open>auto simp: each_backend_def range_map_def act_simps range_ok_def ranges_keys_def\<close>)
qed

lemma loop_keys:
  assumes "mset ns = mset (map fst m)" and "distinct (map fst m)"
  shows "distinct ns" and "n \<in> set ns \<longleftrightarrow> (\<exists>b. map_of m n = Some b)" and "{b. \<exists>n\<in>set ns. map_of m n = Some b} = snd ` set m"
proof -
  show "distinct ns" using assms by (metis mset_eq_imp_distinct_iff)
  have "set ns = fst ` set m" using assms(1) by (metis list.set_map set_mset_mset)
  then show key: "n \<in> set ns \<longleftrightarrow> (\<exists>b. map_of m n = Some b)" for n
    by (simp add: dom_map_of_conv_image_fst [symmetric] dom_def)
  have "{b. \<exists>n\<in>set ns. map_of m n = Some b} = {b. \<exists>n. map_of m n = Some b}" using key by blast
  also have "\<dots> = snd ` set m" using map_of_eq_Some_iff [OF assms(2)] by (auto intro: rev_image_eqI)
  finally show "{b. \<exists>n\<in>set ns. map_of m n = Some b} = snd ` set m" .
qed

lemma add_all:
  assumes "sane s" and "range_ok E" and "distinct (map fst m)" and "\<And>n b. map_of m n = Some b \<Longrightarrow> be_Name b = n \<and> n \<notin> be_Name ` pool s"
    and "each_backend E m (\<lambda>n b. check (reg b) (f n) ret) s = (Ok (), s')"
  shows "sane s' \<and> pool s' = pool s \<union> snd ` set m"
proof -
  obtain ns where ns: "mset ns = mset (map fst m)"
    and loop: "for_each ns (\<lambda>n. case map_of m n of None \<Rightarrow> ret () | Some b \<Rightarrow> check (reg b) (f n) ret) s = (Ok (), s')"
    by (rule each_backend_loop [OF assms(2,5)])
  note keys = loop_keys [OF ns assms(3)]
  have "\<forall>n\<in>set ns. \<exists>b. map_of m n = Some b \<and> be_Name b = n \<and> n \<notin> be_Name ` pool s" using keys(2) assms(4) by metis
  from add_loop [OF assms(1) keys(1) this loop] keys(3) show ?thesis by simp
qed

lemma remove_all:
  assumes "sane s" and "range_ok E" and "distinct (map fst m)" and "\<And>n b. map_of m n = Some b \<Longrightarrow> be_Name b = n \<and> b \<in> pool s"
    and "each_backend E m (\<lambda>n b. check (unreg b) (f n) ret) s = (Ok (), s')"
  shows "sane s' \<and> pool s' = pool s - snd ` set m"
proof -
  obtain ns where ns: "mset ns = mset (map fst m)"
    and loop: "for_each ns (\<lambda>n. case map_of m n of None \<Rightarrow> ret () | Some b \<Rightarrow> check (unreg b) (f n) ret) s = (Ok (), s')"
    by (rule each_backend_loop [OF assms(2,5)])
  note keys = loop_keys [OF ns assms(3)]
  have "\<forall>n\<in>set ns. \<exists>b. map_of m n = Some b \<and> be_Name b = n \<and> b \<in> pool s" using keys(2) assms(4) by metis
  from remove_loop [OF assms(1) keys(1) this loop] keys(3) show ?thesis by simp
qed

lemma sync_pool:
  assumes "sane s" and "range_ok E" and "distinct (map fst desired)" and "\<forall>(n, b)\<in>set desired. be_Name b = n"
    and run: "sync_with E get reg unreg desired s = (Ok (), s')"
  shows "sane s' \<and> pool s' = {b \<in> pool s. be_Name b \<in> fst ` set desired} \<union> {b \<in> snd ` set desired. be_Name b \<notin> be_Name ` pool s}"
proof -
  from run obtain bs s1 s2 where g: "get s = (Ok bs, s1)"
    and add: "each_backend E (to_add desired (by_name bs)) (\<lambda>n b. check (reg b) (wrap (''failed to register backend '' @ n @ '': '')) ret) s1 = (Ok (), s2)"
    and rem: "each_backend E (to_remove desired (by_name bs)) (\<lambda>n b. check (unreg b) (wrap (''failed to unregister backend '' @ n @ '': '')) ret) s2 = (Ok (), s')"
    unfolding sync_with_def by (auto simp: check_apply split: prod.splits res.splits)
  from get_law [OF assms(1) g] have s1: "sane s1" "pool s1 = pool s" "set bs = pool s" by auto
  have inj: "inj_on be_Name (set bs)" using names_unique [OF assms(1)] s1(3) by simp
  note added = to_add_by_name [OF assms(3) inj, unfolded s1(3)] and removed = to_remove_by_name [OF inj, unfolded s1(3)]
  have fresh: "be_Name b = n \<and> n \<notin> be_Name ` pool s1" if "map_of (to_add desired (by_name bs)) n = Some b" for n b
    using that added(2) assms(4) s1(2) by auto
  from add_all [OF s1(1) assms(2) added(1) fresh add] s1(2)
  have s2: "sane s2" "pool s2 = pool s \<union> snd ` set (to_add desired (by_name bs))" by auto
  have old: "be_Name b = n \<and> b \<in> pool s2" if "map_of (to_remove desired (by_name bs)) n = Some b" for n b
    using that removed(2) s2(2) by auto
  from remove_all [OF s2(1) assms(2) removed(1) old rem]
  have s': "sane s'" "pool s' = pool s2 - snd ` set (to_remove desired (by_name bs))" by auto
  have "be_Name b \<in> fst ` set desired" if "b \<in> snd ` set desired" for b using that assms(4) by force
  moreover have "snd ` set (to_add desired (by_name bs)) = {b \<in> snd ` set desired. be_Name b \<notin> be_Name ` pool s}"
    using added(3) assms(4) by (simp add: case_prod_unfold)
  ultimately show ?thesis using s' s2(2) removed(3) by auto
qed

end

section \<open>The providers that keep their pool in memory\<close>

fun memory_backends :: "Provider \<Rightarrow> Backend list" where
  "memory_backends (KeepalivedProv p) = kp_backends p"
| "memory_backends (MetalLBProv p) = mp_backends p"
| "memory_backends _ = []"

fun in_memory :: "Provider \<Rightarrow> bool" where
  "in_memory (KeepalivedProv p) = (\<not> kp_client p)"
| "in_memory (MetalLBProv p) = (\<not> mp_client p)"
| "in_memory _ = False"

definition memory_sane :: "world \<times> Provider \<Rightarrow> bool" where
  "memory_sane s \<longleftrightarrow> in_memory (snd s) \<and> distinct (map be_Name (memory_backends (snd s)))"

lemma remove_backend_set:
  assumes "distinct (map be_Name bs)" and "b \<in> set bs"
  shows "set (remove_backend b bs) = set bs - {b} \<and> distinct (map be_Name (remove_backend b bs))"
proof -
  have sub: "set (remove_backend b bs) \<subseteq> set bs" for bs by (induction bs) auto
  show ?thesis using assms
  proof (induction bs)
    case (Cons c cs)
    show ?case
    proof (cases "same_backend b c")
      case True
      with Cons.prems have "c = b" by (auto simp: same_backend_def rev_image_eqI)
      with True Cons.prems show ?thesis by auto
    next
      case False
      then have "c \<noteq> b" by (auto simp: same_backend_def)
      with False Cons sub [of cs] show ?thesis by auto
    qed
  qed simp
qed

lemma memory_calls:
  assumes "in_memory v"
  shows "GetBackends E L (w, v) = (Ok (memory_backends v), (w, v))"
    and "\<exists>v'. RegisterBackend E L b (w, v) = (Ok (), (w, v')) \<and> in_memory v'
       \<and> memory_backends v' = (if list_ex (same_backend b) (memory_backends v) then memory_backends v else memory_backends v @ [b])"
    and "\<exists>v'. UnregisterBackend E L b (w, v) = (Ok (), (w, v')) \<and> in_memory v' \<and> memory_backends v' = remove_backend b (memory_backends v)"
  using assms
  by (cases v; auto simp: GetBackends_def RegisterBackend_def UnregisterBackend_def inside_def act_simps
      kp_GetBackends_def mp_GetBackends_def kp_RegisterBackend_def mp_RegisterBackend_def kp_UnregisterBackend_def mp_UnregisterBackend_def)+

interpretation memory: lb_pool "GetBackends E L" "RegisterBackend E L" "UnregisterBackend E L" "\<lambda>s. set (memory_backends (snd s))" memory_sane
proof
  fix s s' :: "world \<times> Provider" and r :: "Backend list res" and b
  obtain w v where s: "s = (w, v)" by (metis surj_pair)
  show "inj_on be_Name (set (memory_backends (snd s)))" if "memory_sane s"
    using that by (simp add: memory_sane_def distinct_map)
  show "memory_sane s' \<and> set (memory_backends (snd s')) = set (memory_backends (snd s)) \<and> (\<forall>bs. r = Ok bs \<longrightarrow> set bs = set (memory_backends (snd s)))"
    if "memory_sane s" "GetBackends E L s = (r, s')"
    using that memory_calls(1) [of v E L w] by (auto simp: s memory_sane_def)
  show "memory_sane s' \<and> set (memory_backends (snd s')) = insert b (set (memory_backends (snd s)))"
    if "memory_sane s" "be_Name b \<notin> be_Name ` set (memory_backends (snd s))" "RegisterBackend E L b s = (Ok (), s')"
  proof -
    have "\<not> list_ex (same_backend b) (memory_backends v)" using that(2) s by (auto simp: list_ex_iff same_backend_def) (metis rev_image_eqI)
    with that memory_calls(2) [of v E L b w] show ?thesis by (auto simp: s memory_sane_def)
  qed
  show "memory_sane s' \<and> set (memory_backends (snd s')) = set (memory_backends (snd s)) - {b}"
    if "memory_sane s" "b \<in> set (memory_backends (snd s))" "UnregisterBackend E L b s = (Ok (), s')"
  proof -
    from that(1) s have m: "in_memory v" "distinct (map be_Name (memory_backends v))" by (simp_all add: memory_sane_def)
    from memory_calls(3) [OF m(1), of E L b w] obtain v' where v': "UnregisterBackend E L b (w, v) = (Ok (), (w, v'))" "in_memory v'"
      "memory_backends v' = remove_backend b (memory_backends v)" by blast
    then have "s' = (w, v')" using that(3) s by simp
    moreover have "b \<in> set (memory_backends v)" using that(2) s by simp
    ultimately show ?thesis using v'(2,3) remove_backend_set [OF m(2), of b] s by (simp add: memory_sane_def)
  qed
qed

text \<open>
  (C32) Synchronisation refines its specification on the providers that keep the pool themselves: after
  a run without error, from any sane provider and any order in which the maps are ranged over,
  the pool holds the backends whose name is desired and those desired ones that were missing;
  its names are exactly the desired names.
\<close>

theorem syncBackends_pool:
  assumes "memory_sane s" and "range_ok E" and "distinct (map fst desired)" and "\<forall>(n, b)\<in>set desired. be_Name b = n"
    and "syncBackends E L desired s = (Ok (), s')"
  shows "set (memory_backends (snd s')) = {b \<in> set (memory_backends (snd s)). be_Name b \<in> fst ` set desired}
      \<union> {b \<in> snd ` set desired. be_Name b \<notin> be_Name ` set (memory_backends (snd s))}
    \<and> be_Name ` set (memory_backends (snd s')) = fst ` set desired \<and> memory_sane s'"
proof -
  let ?old = "set (memory_backends (snd s))" and ?new = "set (memory_backends (snd s'))"
  note p = memory.sync_pool [OF assms(1-4) assms(5) [unfolded syncBackends_def]]
  have names: "b \<in> snd ` set desired" "be_Name b = n" if "(n, b) \<in> set desired" for n b using that assms(4) by (auto intro: rev_image_eqI)
  have "be_Name b \<in> fst ` set desired" if "b \<in> snd ` set desired" for b using that assms(4) by (auto intro: rev_image_eqI)
  with p have "be_Name ` ?new \<subseteq> fst ` set desired" by auto
  moreover have "n \<in> be_Name ` ?new" if "(n, b) \<in> set desired" for n b
  proof (cases "n \<in> be_Name ` ?old")
    case True
    then obtain c where "c \<in> ?old" "be_Name c = n" by auto
    moreover have "n \<in> fst ` set desired" using that by (auto intro: rev_image_eqI)
    ultimately show ?thesis using p by (auto intro: rev_image_eqI)
  next
    case False
    with names [OF that] p have "b \<in> ?new" by auto
    with names(2) [OF that] show ?thesis by auto
  qed
  ultimately have "be_Name ` ?new = fst ` set desired" by (auto simp: subset_antisym)
  with p show ?thesis by simp
qed

text \<open>
  Synchronisation compares names only, whatever the provider: when the current and the desired
  names agree, nothing is registered or unregistered and the run succeeds, so a backend whose
  address or port has changed keeps its old address in the pool.
\<close>

theorem changed_address_ignored:
  assumes "range_ok E" and "GetBackends E L s = (Ok bs, s')" and "be_Name ` set bs = fst ` set desired"
  shows "syncBackends E L desired s = (Ok (), s')"
proof -
  have keys: "fst ` set (by_name bs) = be_Name ` set bs"
  proof -
    have "fst ` set (fold (\<lambda>b m. upd_key (be_Name b) b m) bs m) = fst ` set m \<union> be_Name ` set bs" for m
      by (induction bs arbitrary: m) (auto simp: keys_upd_key)
    then show ?thesis by (simp add: by_name_def)
  qed
  have "to_add desired (by_name bs) = []" "to_remove desired (by_name bs) = []"
    using assms(3) keys by (auto simp: to_add_def to_remove_def filter_empty_conv map_of_eq_None_iff) force+
  moreover have "each_backend E [] f t = (Ok (), t)" for f :: "string \<Rightarrow> Backend \<Rightarrow> (Provider, unit) objact" and t
  proof -
    obtain w p where t: "t = (w, p)" by (metis surj_pair)
    have "h_range (host E) (w_log w) [] = []" using assms(1) unfolding range_ok_def ranges_keys_def by (metis mset_zero_iff)
    then show ?thesis by (simp add: t each_backend_def range_map_def act_simps)
  qed
  ultimately show ?thesis using assms(2) by (simp add: syncBackends_def sync_with_def act_simps)
qed

section \<open>A concrete provider\<close>

definition ex_f5_lib :: f5_lib where
  "ex_f5_lib = \<lparr>fl_marshal = (\<lambda>m. Inr []), fl_url = (\<lambda>u. None), fl_members = (\<lambda>s. Inr []), fl_item = (\<lambda>s. Inl (Errorf []))\<rparr>"

definition ex_metallb :: "Backend list \<Rightarrow> Provider" where
  "ex_metallb bs = MetalLBProv \<lparr>mp_config = \<lparr>mlb_IPAddressPool = [], mlb_LoadBalancerIP = [], mlb_AddressPool = [], mlb_Addresses = []\<rparr>,
     mp_client = False, mp_namespace = [], mp_backends = bs\<rparr>"

lemma ex_metallb_simps [simp]: "memory_backends (ex_metallb bs) = bs" "in_memory (ex_metallb bs)"
  by (simp_all add: ex_metallb_def)

lemma syncBackends_witness:
  "\<exists>s'. syncBackends quiet_env ex_f5_lib [(''cp-1'', ex_backend)] (empty_world, ex_metallb []) = (Ok (), s')
     \<and> set (memory_backends (snd s')) = {ex_backend}"
proof -
  have "\<exists>s'. syncBackends quiet_env ex_f5_lib [(''cp-1'', ex_backend)] (empty_world, ex_metallb []) = (Ok (), s')"
    by (simp add: syncBackends_def sync_with_def act_simps memory_calls(1) by_name_def to_add_def to_remove_def each_backend_def range_map_def
        quiet_defs RegisterBackend_def ex_metallb_def inside_def mp_RegisterBackend_def)
  then obtain s' where run: "syncBackends quiet_env ex_f5_lib [(''cp-1'', ex_backend)] (empty_world, ex_metallb []) = (Ok (), s')" by blast
  from syncBackends_pool [OF _ _ _ _ run] run show ?thesis by (auto simp: memory_sane_def ex_backend_def)
qed

lemma changed_address_witness:
  "syncBackends quiet_env ex_f5_lib [(''cp-1'', ex_backend\<lparr>be_IP := ''10.0.0.9''\<rparr>)] (empty_world, ex_metallb [ex_backend])
     = (Ok (), (empty_world, ex_metallb [ex_backend]))"
  by (rule changed_address_ignored [OF range_ok_quiet memory_calls(1)]) (simp_all add: ex_backend_def)

end
