(* ===== verification/Bm_Conditions.thy ===== *)
theory Bm_Conditions
  imports Object_State Bm_Zero
begin

text \<open>
  Conditions of the CAPBM objects: the constants of \<open>modules/capbm/api/v1beta2/conditions.go\<close> and the
  update that the two controllers share (\<open>setMachineCondition\<close>, \<open>setCondition\<close>): replace the condition of
  that type, or append it.
\<close>

section \<open>Definitions\<close>

definition ReadyCondition :: string where "ReadyCondition = ''Ready''"
definition SSHConnectedCondition :: string where "SSHConnectedCondition = ''SSHConnected''"
definition ComponentsInstalledCondition :: string where "ComponentsInstalledCondition = ''ComponentsInstalled''"
definition FirewallConfiguredCondition :: string where "FirewallConfiguredCondition = ''FirewallConfigured''"
definition SELinuxConfiguredCondition :: string where "SELinuxConfiguredCondition = ''SELinuxConfigured''"
definition CNIInstalledCondition :: string where "CNIInstalledCondition = ''CNIInstalled''"
definition CSIInstalledCondition :: string where "CSIInstalledCondition = ''CSIInstalled''"
definition LoadBalancerReadyCondition :: string where "LoadBalancerReadyCondition = ''LoadBalancerReady''"
definition IngressLoadBalancerReadyCondition :: string where "IngressLoadBalancerReadyCondition = ''IngressLoadBalancerReady''"
definition NodeBootstrapCondition :: string where "NodeBootstrapCondition = ''NodeBootstrap''"

definition make_condition :: "string \<Rightarrow> string \<Rightarrow> string \<Rightarrow> string \<Rightarrow> string \<Rightarrow> timestamp \<Rightarrow> capi_condition" where
  "make_condition ty status reason severity msg now =
     \<lparr>cc_Type = ty, cc_Status = status, cc_Severity = severity, cc_LastTransitionTime = now, cc_Reason = reason, cc_Message = msg\<rparr>"

fun put_bm_condition :: "capi_condition \<Rightarrow> capi_condition list \<Rightarrow> capi_condition list" where
  "put_bm_condition c [] = [c]"
| "put_bm_condition c (d # ds) = (if cc_Type d = cc_Type c then c # ds else d # put_bm_condition c ds)"

section \<open>Reading conditions back\<close>

definition condition_of :: "string \<Rightarrow> capi_condition list \<Rightarrow> capi_condition option" where
  "condition_of ty cs = List.find (\<lambda>c. cc_Type c = ty) cs"

definition condition_true :: "string \<Rightarrow> capi_condition list \<Rightarrow> bool" where
  "condition_true ty cs \<longleftrightarrow> (\<exists>c. condition_of ty cs = Some c \<and> cc_Status c = ''True'')"

lemma condition_of_put [simp]:
  "condition_of ty (put_bm_condition c cs) = (if cc_Type c = ty then Some c else condition_of ty cs)"
  by (induction cs) (auto simp: condition_of_def)

lemma put_bm_condition_types:
  "set (map cc_Type (put_bm_condition c cs)) = insert (cc_Type c) (set (map cc_Type cs))"
  "distinct (map cc_Type cs) \<Longrightarrow> distinct (map cc_Type (put_bm_condition c cs))"
proof -
  show types: "set (map cc_Type (put_bm_condition c cs)) = insert (cc_Type c) (set (map cc_Type cs))" for cs by (induction cs) auto
  show "distinct (map cc_Type (put_bm_condition c cs))" if "distinct (map cc_Type cs)"
    using that
  proof (induction cs)
    case (Cons d ds)
    then show ?case using types [of ds] by auto
  qed simp
qed

lemma make_condition_simps [simp]:
  "cc_Type (make_condition ty status reason severity msg now) = ty" "cc_Status (make_condition ty status reason severity msg now) = status"
  by (simp_all add: make_condition_def)

lemma condition_types_distinct:
  "ReadyCondition \<noteq> LoadBalancerReadyCondition" "ReadyCondition \<noteq> IngressLoadBalancerReadyCondition"
  "LoadBalancerReadyCondition \<noteq> IngressLoadBalancerReadyCondition"
  by (simp_all add: ReadyCondition_def LoadBalancerReadyCondition_def IngressLoadBalancerReadyCondition_def)

end
