(* ===== verification/Bm_Cluster.thy ===== *)
theory Bm_Cluster
  imports Bm_Lb Bm_Conditions
begin

text \<open>
  The controller of \<open>BareMetalCluster\<close>, \<open>modules/capbm/internal/controllers/baremetalcluster_controller.go\<close>:
  endpoint, network configuration, the two load balancers, status. \<open>valid\<close> is \<open>APIEndpoint.IsValid\<close> of
  Cluster API. An update sends the object and takes over what the server answers.
\<close>

section \<open>Definitions\<close>

type_synonym endpoint = "string \<times> int"
type_synonym 'a bcact = "(BareMetalCluster, 'a) objact"

definition bc_Update :: "env \<Rightarrow> unit bcact" where
  "bc_Update E = with_obj (\<lambda>c.
     andthen (on_world (query (EvUpdate (KBareMetalCluster c)) (\<lambda>l. k_update_bmcluster (kube E) l c))) (\<lambda>c'. modify_obj (\<lambda>_. c')))"

definition bc_StatusUpdate :: "env \<Rightarrow> unit bcact" where
  "bc_StatusUpdate E = with_obj (\<lambda>c. on_world (api_write E (EvStatusUpdate (KBareMetalCluster c))))"

definition bc_setCondition :: "env \<Rightarrow> string \<Rightarrow> string \<Rightarrow> string \<Rightarrow> string \<Rightarrow> string \<Rightarrow> unit bcact" where
  "bc_setCondition E ty status reason severity msg =
     andthen (on_world (time_Now E)) (\<lambda>now.
       modify_obj (\<lambda>c. c\<lparr>bmc_Status := (bmc_Status c)\<lparr>bct_Conditions :=
         put_bm_condition (make_condition ty status reason severity msg now) (bct_Conditions (bmc_Status c))\<rparr>\<rparr>))"

definition markConditionFalse :: "env \<Rightarrow> string \<Rightarrow> string \<Rightarrow> string \<Rightarrow> string \<Rightarrow> unit bcact" where
  "markConditionFalse E ty reason severity msg = bc_setCondition E ty ''False'' reason severity msg"

definition markConditionTrue :: "env \<Rightarrow> string \<Rightarrow> string \<Rightarrow> unit bcact" where
  "markConditionTrue E ty msg = bc_setCondition E ty ''True'' [] ''Info'' msg"

subsection \<open>Owner, endpoint, network\<close>

definition getOwnerCluster :: "env \<Rightarrow> BareMetalCluster \<Rightarrow> capi_cluster option cact" where
  "getOwnerCluster E c =
     (case List.find (\<lambda>(kind, api, n). kind = ''Cluster'' \<and> api = ''cluster.x-k8s.io/v1beta2'') (bmc_OwnerReferences c) of
        None \<Rightarrow> ret None
      | Some (_, _, n) \<Rightarrow>
          andthen (query (EvGet ''Cluster'' (m_Namespace (bmc_Meta c)) n) (\<lambda>l. k_get_cluster (kube E) l (m_Namespace (bmc_Meta c)) n)) (\<lambda>cl. ret (Some cl)))"

definition resolveControlPlaneEndpoint :: "(endpoint \<Rightarrow> bool) \<Rightarrow> BareMetalCluster \<Rightarrow> capi_cluster \<Rightarrow> error + (endpoint \<times> string)" where
  "resolveControlPlaneEndpoint valid c cl =
     (let clusterEndpoint = cl_ControlPlaneEndpoint cl; infraEndpoint = bcs_ControlPlaneEndpoint (bmc_Spec c) in
      if valid clusterEndpoint \<and> valid infraEndpoint then Inr (clusterEndpoint, ''cluster'')
      else if valid clusterEndpoint then Inr (clusterEndpoint, ''cluster'')
      else if valid infraEndpoint then Inr (infraEndpoint, ''infrastructure'')
      else Inr (([], 0), []))"

definition network_config :: "capi_cluster \<Rightarrow> NetworkConfig \<Rightarrow> NetworkConfig" where
  "network_config cl nw =
     (let n1 = (if nwc_PodCIDR nw = [] then (case cl_PodCIDRs cl of [] \<Rightarrow> nw | x # _ \<Rightarrow> nw\<lparr>nwc_PodCIDR := x\<rparr>) else nw);
          n2 = (if nwc_ServiceCIDR n1 = [] then (case cl_ServiceCIDRs cl of [] \<Rightarrow> n1 | x # _ \<Rightarrow> n1\<lparr>nwc_ServiceCIDR := x\<rparr>) else n1)
      in if nwc_DNSDomain n2 = []
         then n2\<lparr>nwc_DNSDomain := (if cl_ServiceDomain cl \<noteq> [] then cl_ServiceDomain cl else ''cluster.local'')\<rparr> else n2)"

definition reconcileNetworkConfig :: "env \<Rightarrow> capi_cluster \<Rightarrow> unit bcact" where
  "reconcileNetworkConfig E cl =
     andthen (modify_obj (\<lambda>c. c\<lparr>bmc_Spec := (bmc_Spec c)\<lparr>bcs_Network := network_config cl (bcs_Network (bmc_Spec c))\<rparr>\<rparr>)) (\<lambda>_. bc_Update E)"

subsection \<open>Machines\<close>

definition cp_role_label :: string where
  "cp_role_label = ''cluster.x-k8s.io/control-plane''"

definition List_machines :: "env \<Rightarrow> capi_cluster \<Rightarrow> capi_machine list cact" where
  "List_machines E cl =
     query (EvList ''Machine'' (cl_Namespace cl) [(ClusterNameLabel, cl_Name cl)])
       (\<lambda>l. k_list_machines (kube E) l (cl_Namespace cl) [(ClusterNameLabel, cl_Name cl)])"

definition is_control_plane :: "capi_cluster \<Rightarrow> capi_machine \<Rightarrow> bool" where
  "is_control_plane cl m \<longleftrightarrow> mc_ClusterName m = cl_Name cl
     \<and> (case map_of (mc_Labels m) cp_role_label of None \<Rightarrow> False | Some v \<Rightarrow> v \<noteq> [])"

definition worker_machine :: "capi_cluster \<Rightarrow> capi_machine \<Rightarrow> bool" where
  "worker_machine cl m \<longleftrightarrow> mc_ClusterName m = cl_Name cl \<and> map_of (mc_Labels m) cp_role_label = None"

definition getControlPlaneMachines :: "env \<Rightarrow> capi_cluster \<Rightarrow> capi_machine list cact" where
  "getControlPlaneMachines E cl = andthen (List_machines E cl) (\<lambda>ms. ret (filter (is_control_plane cl) ms))"

definition getWorkerMachines :: "env \<Rightarrow> capi_cluster \<Rightarrow> capi_machine list cact" where
  "getWorkerMachines E cl = andthen (List_machines E cl) (\<lambda>ms. ret (filter (worker_machine cl) ms))"

definition getMachineIP :: "capi_machine \<Rightarrow> string" where
  "getMachineIP m = (case List.find (\<lambda>(ty, a). ty = ''InternalIP'') (mc_Addresses m) of
      Some (_, a) \<Rightarrow> a
    | None \<Rightarrow> (case List.find (\<lambda>(ty, a). ty = ''ExternalIP'') (mc_Addresses m) of Some (_, a) \<Rightarrow> a | None \<Rightarrow> []))"

definition reachable_machine :: "capi_machine \<Rightarrow> bool" where
  "reachable_machine m \<longleftrightarrow> mc_Phase m = ''Running'' \<and> getMachineIP m \<noteq> []"

definition put_backend :: "string \<Rightarrow> string \<Rightarrow> int \<Rightarrow> backend_map \<Rightarrow> backend_map" where
  "put_backend n ip port m = upd_key n \<lparr>be_Name = n, be_IP = ip, be_Port = port\<rparr> m"

subsection \<open>Control plane load balancer\<close>

definition apiserver_backends :: "int \<Rightarrow> capi_machine list \<Rightarrow> backend_map" where
  "apiserver_backends port ms =
     fold (\<lambda>m d. if reachable_machine m then put_backend (mc_Name m) (getMachineIP m) port d else d) ms []"

text \<open>The constructors write the defaults into the configuration they are given.\<close>

definition store_defaults :: "Provider \<Rightarrow> LoadBalancerConfig \<Rightarrow> LoadBalancerConfig" where
  "store_defaults v lb = (case v of
      HAProxyProvider p \<Rightarrow> lb\<lparr>lbc_HAProxy := Some p\<rparr>
    | F5Prov p \<Rightarrow> lb\<lparr>lbc_F5 := Some (f5_config p)\<rparr>
    | KeepalivedProv p \<Rightarrow> lb\<lparr>lbc_Keepalived := Some (kp_config p)\<rparr>
    | MetalLBProv p \<Rightarrow> lb\<lparr>lbc_MetalLB := Some (mp_config p)\<rparr>)"

definition with_provider :: "Provider \<Rightarrow> (Provider, 'a) objact \<Rightarrow> 'a cact" where
  "with_provider v m = (\<lambda>w. case m (w, v) of (r, (w', _)) \<Rightarrow> (r, w'))"

definition reconcileLoadBalancer :: "env \<Rightarrow> f5_lib \<Rightarrow> capi_cluster \<Rightarrow> unit bcact" where
  "reconcileLoadBalancer E L cl = with_obj (\<lambda>c. case bcs_LoadBalancer (bmc_Spec c) of
      None \<Rightarrow> ret ()
    | Some lb \<Rightarrow>
        (case NewProvider (Some lb) of
           Inl e \<Rightarrow> fail (wrap ''failed to create load balancer provider: '' e)
         | Inr v \<Rightarrow>
             andthen (modify_obj (\<lambda>c. c\<lparr>bmc_Spec := (bmc_Spec c)\<lparr>bcs_LoadBalancer := Some (store_defaults v lb)\<rparr>\<rparr>)) (\<lambda>_.
             check (on_world (getControlPlaneMachines E cl)) (wrap ''failed to get control plane machines: '') (\<lambda>ms.
               on_world (with_provider v (syncBackends E L (apiserver_backends (snd (bcs_ControlPlaneEndpoint (bmc_Spec c))) ms)))))))"

subsection \<open>Ingress load balancer\<close>

definition or_default :: "int \<Rightarrow> int \<Rightarrow> int" where
  "or_default d i = (if i = 0 then d else i)"

definition or_name :: "string \<Rightarrow> string \<Rightarrow> string" where
  "or_name d s = (if s = [] then d else s)"

definition ingress_haproxy_backends :: "int \<Rightarrow> int \<Rightarrow> capi_machine list \<Rightarrow> backend_map" where
  "ingress_haproxy_backends httpPort httpsPort ms =
     fold (\<lambda>m d. if reachable_machine m
        then put_backend (mc_Name m @ ''-https'') (getMachineIP m) httpsPort (put_backend (mc_Name m @ ''-http'') (getMachineIP m) httpPort d) else d) ms []"

definition syncIngressHAProxy :: "env \<Rightarrow> f5_lib \<Rightarrow> IngressHAProxyConfig option \<Rightarrow> capi_machine list \<Rightarrow> unit cact" where
  "syncIngressHAProxy E L config ms = (case config of
      None \<Rightarrow> ret ()
    | Some g \<Rightarrow>
        let desired = ingress_haproxy_backends (or_default 30080 (ihp_HTTPPort g)) (or_default 30443 (ihp_HTTPSPort g)) ms;
            backendName = or_name ''k8s-ingress'' (ihp_BackendName g);
            conf = zero_HAProxyConfig\<lparr>hap_AdminHost := ihp_AdminHost g, hap_AdminPort := ihp_AdminPort g, hap_SSHHost := ihp_SSHHost g,
              hap_SSHPort := ihp_SSHPort g, hap_BackendName := backendName @ ''-http''\<rparr>
        in (case NewHAProxyProvider (Some conf) of
              Inl e \<Rightarrow> fail e
            | Inr p \<Rightarrow>
                check (with_provider (HAProxyProvider p) (syncBackends E L desired)) (wrap ''failed to sync HTTP backends: '') (\<lambda>_.
                (case NewHAProxyProvider (Some (p\<lparr>hap_BackendName := backendName @ ''-https''\<rparr>)) of
                   Inl e \<Rightarrow> fail e
                 | Inr q \<Rightarrow> with_provider (HAProxyProvider q) (syncBackends E L desired)))))"

definition ingress_f5_backends :: "string \<Rightarrow> int \<Rightarrow> capi_machine list \<Rightarrow> backend_map" where
  "ingress_f5_backends ending port ms =
     fold (\<lambda>m d. if reachable_machine m then put_backend (mc_Name m @ ending) (getMachineIP m) port d else d) ms []"

definition syncIngressF5 :: "env \<Rightarrow> f5_lib \<Rightarrow> IngressF5Config option \<Rightarrow> capi_machine list \<Rightarrow> unit cact" where
  "syncIngressF5 E L config ms = (case config of
      None \<Rightarrow> ret ()
    | Some g \<Rightarrow>
        let conf = zero_F5Config\<lparr>f5c_Host := if5_Host g, f5c_Port := if5_Port g, f5c_CredentialsRef := if5_CredentialsRef g,
              f5c_Partition := if5_Partition g, f5c_PoolName := or_name ''k8s-ingress-http'' (if5_HTTPPoolName g)\<rparr>
        in (case NewF5Provider (Some conf) of
              Inl e \<Rightarrow> fail e
            | Inr p \<Rightarrow>
                check (with_provider (F5Prov p) (syncBackends E L (ingress_f5_backends ''-http'' (or_default 30080 (if5_HTTPPort g)) ms)))
                  (wrap ''failed to sync HTTP backends: '') (\<lambda>_.
                (case NewF5Provider (Some ((f5_config p)\<lparr>f5c_PoolName := or_name ''k8s-ingress-https'' (if5_HTTPSPoolName g)\<rparr>)) of
                   Inl e \<Rightarrow> fail e
                 | Inr q \<Rightarrow> with_provider (F5Prov q) (syncBackends E L (ingress_f5_backends ''-https'' (or_default 30443 (if5_HTTPSPort g)) ms))))))"

definition syncIngressMetalLB :: "IngressMetalLBConfig option \<Rightarrow> capi_machine list \<Rightarrow> unit cact" where
  "syncIngressMetalLB config ms = (case config of None \<Rightarrow> ret () | Some _ \<Rightarrow> ret ())"

definition reconcileIngressLoadBalancer :: "env \<Rightarrow> f5_lib \<Rightarrow> BareMetalCluster \<Rightarrow> capi_cluster \<Rightarrow> unit cact" where
  "reconcileIngressLoadBalancer E L c cl = (case bcs_IngressLoadBalancer (bmc_Spec c) of
      None \<Rightarrow> ret ()
    | Some g \<Rightarrow>
        if \<not> ilb_Enabled g then ret ()
        else
          check (getWorkerMachines E cl) (wrap ''failed to get worker machines: '') (\<lambda>ms.
            if ilb_Provider g = ''haproxy'' then syncIngressHAProxy E L (ilb_HAProxy g) ms
            else if ilb_Provider g = ''f5'' then syncIngressF5 E L (ilb_F5 g) ms
            else if ilb_Provider g = ''metal-lb'' then syncIngressMetalLB (ilb_MetalLB g) ms
            else fail (Errorf (''unsupported ingress load balancer provider: '' @ ilb_Provider g))))"

subsection \<open>The rounds\<close>

definition EndpointSourceAnnotation :: string where
  "EndpointSourceAnnotation = ''baremetal.cluster.x-k8s.io/endpoint-source''"

definition annotate_source :: "string \<Rightarrow> BareMetalCluster \<Rightarrow> BareMetalCluster" where
  "annotate_source source c = c\<lparr>bmc_Annotations := Some (upd_key EndpointSourceAnnotation source
     (case bmc_Annotations c of None \<Rightarrow> [] | Some a \<Rightarrow> a))\<rparr>"

definition lb_failed :: "env \<Rightarrow> string \<Rightarrow> string \<Rightarrow> error \<Rightarrow> ctrl_result bcact" where
  "lb_failed E ty reason e =
     andthen (markConditionFalse E ty reason ''Warning'' (error_string e)) (\<lambda>_.
     andthen (bc_StatusUpdate E) (\<lambda>_. ret (requeue (30 * second))))"

definition finish_ready :: "env \<Rightarrow> endpoint \<Rightarrow> string \<Rightarrow> ctrl_result bcact" where
  "finish_ready E endpoint source =
     andthen (modify_obj (\<lambda>c. c\<lparr>bmc_Spec := (bmc_Spec c)\<lparr>bcs_ControlPlaneEndpoint := endpoint\<rparr>,
        bmc_Status := (bmc_Status c)\<lparr>bct_Ready := True, bct_Initialization := Some \<lparr>bci_Provisioned = Some True\<rparr>\<rparr>\<rparr>)) (\<lambda>_.
     andthen (markConditionTrue E ReadyCondition (''Cluster infrastructure is ready (endpoint source: '' @ source @ '')'')) (\<lambda>_.
     andthen (bc_StatusUpdate E) (\<lambda>_. ret (requeue 0))))"

definition sync_balancers :: "env \<Rightarrow> f5_lib \<Rightarrow> capi_cluster \<Rightarrow> ctrl_result bcact \<Rightarrow> ctrl_result bcact" where
  "sync_balancers E L cl k =
     attempt (reconcileLoadBalancer E L cl) (\<lambda>r. case r of
       Inl e \<Rightarrow> lb_failed E LoadBalancerReadyCondition ''LBSyncFailed'' e
     | Inr _ \<Rightarrow>
         andthen (with_obj (\<lambda>c. when_act (bcs_LoadBalancer (bmc_Spec c) \<noteq> None)
           (markConditionTrue E LoadBalancerReadyCondition ''Load balancer backends are synced''))) (\<lambda>_.
         attempt (with_obj (\<lambda>c. on_world (reconcileIngressLoadBalancer E L c cl))) (\<lambda>r. case r of
           Inl e \<Rightarrow> lb_failed E IngressLoadBalancerReadyCondition ''IngressLBSyncFailed'' e
         | Inr _ \<Rightarrow>
             andthen (with_obj (\<lambda>c. when_act (case bcs_IngressLoadBalancer (bmc_Spec c) of None \<Rightarrow> False | Some g \<Rightarrow> ilb_Enabled g)
               (markConditionTrue E IngressLoadBalancerReadyCondition ''Ingress load balancer backends are synced''))) (\<lambda>_. k))))"

definition with_endpoint :: "env \<Rightarrow> f5_lib \<Rightarrow> capi_cluster \<Rightarrow> endpoint \<Rightarrow> string \<Rightarrow> ctrl_result bcact" where
  "with_endpoint E L cl endpoint source =
     andthen (modify_obj (annotate_source source)) (\<lambda>_.
     andthen (reconcileNetworkConfig E cl) (\<lambda>_.
       sync_balancers E L cl (finish_ready E endpoint source)))"

definition bc_reconcileNormal :: "env \<Rightarrow> f5_lib \<Rightarrow> (endpoint \<Rightarrow> bool) \<Rightarrow> ctrl_result bcact" where
  "bc_reconcileNormal E L valid =
     andthen (modify_obj (\<lambda>c. c\<lparr>bmc_Meta := AddFinalizer ClusterFinalizer (bmc_Meta c)\<rparr>)) (\<lambda>_.
     andthen (bc_Update E) (\<lambda>_.
     andthen (with_obj (\<lambda>c. on_world (getOwnerCluster E c))) (\<lambda>owner. case owner of
       None \<Rightarrow> ret (requeue 0)
     | Some cl \<Rightarrow> with_obj (\<lambda>c. case resolveControlPlaneEndpoint valid c cl of
           Inl e \<Rightarrow>
             andthen (markConditionFalse E ReadyCondition ''EndpointNotSet'' ''Error'' (error_string e)) (\<lambda>_.
             andthen (bc_StatusUpdate E) (\<lambda>_. ret (requeue 0)))
         | Inr (endpoint, source) \<Rightarrow>
             if \<not> valid endpoint then
               andthen (markConditionFalse E ReadyCondition ''EndpointNotSet'' ''Info'' ''Waiting for ControlPlaneEndpoint to be set'') (\<lambda>_.
                 ret (requeue (10 * second)))
             else with_endpoint E L cl endpoint source))))"

definition bc_reconcileDelete :: "env \<Rightarrow> ctrl_result bcact" where
  "bc_reconcileDelete E =
     andthen (modify_obj (\<lambda>c. c\<lparr>bmc_Meta := RemoveFinalizer ClusterFinalizer (bmc_Meta c)\<rparr>)) (\<lambda>_.
     andthen (bc_Update E) (\<lambda>_. ret (requeue 0)))"

definition bc_Reconcile :: "env \<Rightarrow> f5_lib \<Rightarrow> (endpoint \<Rightarrow> bool) \<Rightarrow> string \<Rightarrow> string \<Rightarrow> ctrl_result cact" where
  "bc_Reconcile E L valid ns n =
     attempt (query (EvGet ''BareMetalCluster'' ns n) (\<lambda>l. k_get_bmcluster (kube E) l ns n)) (\<lambda>r. case r of
       Inl e \<Rightarrow> if IsNotFound e then ret (requeue 0) else fail e
     | Inr c \<Rightarrow> (\<lambda>w.
         case (if m_DeletionTimestamp (bmc_Meta c) \<noteq> None then bc_reconcileDelete E else bc_reconcileNormal E L valid) (w, c) of
           (r, (w', _)) \<Rightarrow> (r, w')))"

definition clusterToBareMetalCluster :: "capi_cluster \<Rightarrow> (string \<times> string) list" where
  "clusterToBareMetalCluster cl =
     (if cl_InfraName cl = [] then [] else if cl_InfraKind cl \<noteq> ''BareMetalCluster'' then [] else [(cl_Namespace cl, cl_InfraName cl)])"

section \<open>Which events a round can cause\<close>

abbreviation bc_endpoint :: "BareMetalCluster \<Rightarrow> endpoint" where
  "bc_endpoint c \<equiv> bcs_ControlPlaneEndpoint (bmc_Spec c)"

fun is_cluster_update :: "event \<Rightarrow> bool" where
  "is_cluster_update (EvUpdate (KBareMetalCluster c)) = True"
| "is_cluster_update _ = False"

fun foreign_update :: "endpoint \<Rightarrow> event \<Rightarrow> bool" where
  "foreign_update e (EvUpdate (KBareMetalCluster c)) = (bc_endpoint c \<noteq> e)"
| "foreign_update e _ = False"

lemma foreign_is_update: "foreign_update e ev \<Longrightarrow> is_cluster_update ev"
  by (cases "(e, ev)" rule: foreign_update.cases) auto

abbreviation other_event :: "event \<Rightarrow> bool" where
  "other_event ev \<equiv> \<not> is_cluster_update ev"

text \<open>Providers never update the cluster object.\<close>

definition logs_other :: "world \<times> Provider \<Rightarrow> world \<times> Provider \<Rightarrow> bool" where
  "logs_other s s' \<longleftrightarrow> (\<exists>es. w_log (fst s') = w_log (fst s) @ es \<and> list_all other_event es)"

interpretation provider_log: state_relation logs_other
proof
  show "logs_other s s" for s by (simp add: logs_other_def)
  show "logs_other s s''" if "logs_other s s'" "logs_other s' s''" for s s' s''
    using that unfolding logs_other_def by (metis append.assoc list_all_append)
qed

lemma provider_log_world: "emits other_event m \<Longrightarrow> moves logs_other (on_world m)"
  by (rule provider_log.moves_on_world) (auto simp: logs_other_def dest: emitsD)

lemma emits_tcp [emits_rules]:
  "emits other_event (tcp_Dial E a)" "emits other_event (tcp_Write E a t)" "emits other_event (tcp_Read E a n)" "emits other_event (tcp_Close E a)"
  unfolding tcp_Dial_def tcp_Write_def tcp_Read_def tcp_Close_def by (intro emits_rules; simp)+

lemma emits_haproxy [emits_rules]:
  "emits other_event (hap_RegisterBackend E p b)" "emits other_event (hap_UnregisterBackend E p b)" "emits other_event (hap_GetBackends E p)"
proof -
  have out: "emits other_event (combined_output E p script what)" for p script what
    unfolding combined_output_def createSSHClient_def by (intro emits_rules; auto intro!: emits_rules split: option.split prod.split)+
  have send: "emits other_event (runtime_send E p cmd k)" if "\<And>a. emits other_event (k a)" for p cmd and k :: "string \<Rightarrow> 'x cact"
    unfolding runtime_send_def by (intro emits_rules that)
  show "emits other_event (hap_RegisterBackend E p b)"
    unfolding hap_RegisterBackend_def registerViaRuntimeAPI_def registerViaSSH_def Let_def by (intro emits_rules send out)
  show "emits other_event (hap_UnregisterBackend E p b)"
    unfolding hap_UnregisterBackend_def unregisterViaRuntimeAPI_def unregisterViaSSH_def by (intro emits_rules send out)
  show "emits other_event (hap_GetBackends E p)"
    unfolding hap_GetBackends_def getBackendsViaRuntimeAPI_def getBackendsViaSSH_def by (intro emits_rules send out)
qed

lemma emits_prod [emits_rules]: "(\<And>a b. emits A (f a b)) \<Longrightarrow> emits A (case x of (a, b) \<Rightarrow> f a b)"
  by (cases x) simp

lemma emits_doF5Request [emits_rules]: "emits other_event (doF5Request E L p meth path body decode zero)"
  unfolding doF5Request_def by (intro emits_rules) simp_all

lemma emits_f5 [emits_rules]:
  "emits other_event (f5_RegisterBackend E L p b)" "emits other_event (f5_UnregisterBackend E L p b)" "emits other_event (f5_GetBackends E L p)"
  unfolding f5_RegisterBackend_def f5_UnregisterBackend_def f5_GetBackends_def by (intro emits_rules)+

lemma emits_services:
  "emits other_event (updateServiceVIP E kp b)" "emits other_event (updateService E mp b)" "emits other_event (List_lbservices E ns sel)"
  unfolding updateServiceVIP_def updateService_def List_lbservices_def Get_lbservice_def Let_def by (intro emits_rules; simp)+

text \<open>A method of the object inside an interface value logs what the method logs.\<close>

lemma moves_inside:
  assumes "\<And>w r w' q. m (w, p) = (r, (w', q)) \<Longrightarrow> \<exists>es. w_log w' = w_log w @ es \<and> list_all other_event es"
  shows "moves logs_other (inside f p m)"
  unfolding moves_def inside_def logs_other_def using assms by (auto split: prod.splits)

lemma logs_when:
  assumes "emits other_event m" and "when_act b (check (on_world m) f ret) (w, q) = (r, (w', q'))"
  shows "\<exists>es. w_log w' = w_log w @ es \<and> list_all other_event es"
proof (cases b)
  case True
  obtain r1 w1 where "m w = (r1, w1)" by (metis surj_pair)
  with True assms(2) emitsD [OF assms(1), of w r1 w1] show ?thesis by (cases r1) (auto simp: act_simps)
qed (use assms(2) in \<open>auto simp: act_simps\<close>)

lemma moves_Register: "moves logs_other (RegisterBackend E L b)"
proof -
  have "\<exists>es. w_log w' = w_log w @ es \<and> list_all other_event es" if "kp_RegisterBackend E b (w, p) = (r, (w', q))" for w p r w' q
    using that logs_when [OF emits_services(1), of _ E p b] by (auto simp: kp_RegisterBackend_def act_simps split: if_splits)
  moreover have "\<exists>es. w_log w' = w_log w @ es \<and> list_all other_event es" if "mp_RegisterBackend E b (w, p) = (r, (w', q))" for w p r w' q
    using that logs_when [OF emits_services(2), of _ E p b] by (auto simp: mp_RegisterBackend_def act_simps split: if_splits)
  ultimately show ?thesis unfolding RegisterBackend_def
    by (intro provider_log.moves_with_obj) (auto intro!: provider_log_world emits_rules moves_inside split: Provider.split)
qed

lemma moves_Unregister: "moves logs_other (UnregisterBackend E L b)"
  unfolding UnregisterBackend_def kp_UnregisterBackend_def mp_UnregisterBackend_def
  by (intro provider_log.moves_with_obj) (auto intro!: provider_log_world emits_rules moves_inside simp: modify_obj_def split: Provider.split)

lemma moves_GetBackends: "moves logs_other (GetBackends E L)"
proof -
  have lst: "\<exists>es. w_log w' = w_log w @ es \<and> list_all other_event es"
    if "andthen (on_world (List_lbservices E ns sel)) (\<lambda>svcs. ret (f svcs)) (w, p) = (r, (w', q))" for f :: "_ \<Rightarrow> Backend list" and ns sel w p r w' q
  proof -
    obtain r1 w1 where "List_lbservices E ns sel w = (r1, w1)" by (metis surj_pair)
    with that emitsD [OF emits_services(3), of E ns sel w r1 w1] show ?thesis by (cases r1) (auto simp: act_simps)
  qed
  show ?thesis unfolding GetBackends_def kp_GetBackends_def mp_GetBackends_def
    by (intro provider_log.moves_with_obj)
       (auto intro!: provider_log_world emits_rules moves_inside simp: with_obj_apply ret_apply dest: lst split: Provider.split if_splits)
qed

lemma moves_each_backend:
  assumes "\<And>n b. moves logs_other (f n b)"
  shows "moves logs_other (each_backend E m f)"
proof -
  have loop: "moves logs_other (for_each ns g)" if "\<And>n. moves logs_other (g n)" for ns :: "string list" and g
    by (induction ns) (auto intro: provider_log.moves_rules that)
  show ?thesis unfolding each_backend_def
    by (intro provider_log.moves_check provider_log_world emits_range loop) (auto intro: provider_log.moves_rules assms split: option.split)
qed

lemma emits_pool_sync [emits_rules]: "emits other_event (with_provider v (syncBackends E L desired))"
proof -
  have "moves logs_other (syncBackends E L desired)"
    unfolding syncBackends_def sync_with_def
    by (intro provider_log.moves_check moves_each_backend moves_GetBackends provider_log.moves_ret moves_Register moves_Unregister)
  then show ?thesis
    by (intro emitsI) (auto simp: with_provider_def logs_other_def dest!: movesD split: prod.splits)
qed

lemma emits_balancers [emits_rules]:
  "emits other_event (getControlPlaneMachines E cl)" "emits other_event (getWorkerMachines E cl)" "emits other_event (getOwnerCluster E c)"
  "emits other_event (reconcileIngressLoadBalancer E L c cl)"
proof -
  show cp: "emits other_event (getControlPlaneMachines E cl)" and wk: "emits other_event (getWorkerMachines E cl)"
    unfolding getControlPlaneMachines_def getWorkerMachines_def List_machines_def by (intro emits_rules; simp)+
  show "emits other_event (getOwnerCluster E c)"
    unfolding getOwnerCluster_def by (intro emits_rules) simp_all
  have "emits other_event (syncIngressHAProxy E L g ms)" "emits other_event (syncIngressF5 E L h ms)" "emits other_event (syncIngressMetalLB k ms)" for g h k ms
    unfolding syncIngressHAProxy_def syncIngressF5_def syncIngressMetalLB_def Let_def by (intro emits_rules)+
  then show "emits other_event (reconcileIngressLoadBalancer E L c cl)"
    unfolding reconcileIngressLoadBalancer_def by (intro emits_rules wk)
qed

section \<open>The resolved endpoint\<close>

text \<open>
  The server stores the specification it is sent and answers with it. Until the very end of a
  round the object keeps its endpoint, and no update carries another one.
\<close>

definition keeps_endpoint :: "env \<Rightarrow> bool" where
  "keeps_endpoint E \<longleftrightarrow> (\<forall>l c c'. k_update_bmcluster (kube E) l c = Inr c' \<longrightarrow> bc_endpoint c' = bc_endpoint c)"

definition same_endpoint :: "world \<times> BareMetalCluster \<Rightarrow> world \<times> BareMetalCluster \<Rightarrow> bool" where
  "same_endpoint s s' \<longleftrightarrow> bc_endpoint (snd s') = bc_endpoint (snd s)
     \<and> (\<exists>es. w_log (fst s') = w_log (fst s) @ es \<and> list_all (\<lambda>ev. \<not> foreign_update (bc_endpoint (snd s)) ev) es)"

interpretation endpoint_kept: state_relation same_endpoint
proof
  show "same_endpoint s s" for s by (simp add: same_endpoint_def)
  show "same_endpoint s s''" if "same_endpoint s s'" "same_endpoint s' s''" for s s' s''
    using that unfolding same_endpoint_def by auto
qed

lemma others_not_foreign: "list_all other_event es \<Longrightarrow> list_all (\<lambda>ev. \<not> foreign_update e ev) es"
  by (metis (mono_tags, lifting) foreign_is_update list.pred_mono_strong)

lemma same_endpoint_world: "emits other_event m \<Longrightarrow> moves same_endpoint (on_world m)"
  by (rule endpoint_kept.moves_on_world) (auto simp: same_endpoint_def dest!: emitsD intro: others_not_foreign)

lemma same_endpoint_modify: "(\<And>c. bc_endpoint (f c) = bc_endpoint c) \<Longrightarrow> moves same_endpoint (modify_obj f)"
  by (rule endpoint_kept.moves_modify_obj) (simp add: same_endpoint_def)

lemma bc_Update_apply:
  "bc_Update E (w, c) = (case k_update_bmcluster (kube E) (w_log w) c of
      Inl e \<Rightarrow> (Err e, (w\<lparr>w_log := w_log w @ [EvUpdate (KBareMetalCluster c)]\<rparr>, c))
    | Inr c' \<Rightarrow> (Ok (), (w\<lparr>w_log := w_log w @ [EvUpdate (KBareMetalCluster c)]\<rparr>, c')))"
  by (simp add: bc_Update_def act_simps query_def split: sum.split)

lemma same_endpoint_Update:
  assumes "keeps_endpoint E"
  shows "moves same_endpoint (bc_Update E)"
  unfolding moves_def
proof (intro allI impI)
  fix s r s' assume run: "bc_Update E s = (r, s')"
  obtain w c where s: "s = (w, c)" by (metis surj_pair)
  have "bc_endpoint (snd s') = bc_endpoint c \<and> w_log (fst s') = w_log w @ [EvUpdate (KBareMetalCluster c)]"
  proof (cases "k_update_bmcluster (kube E) (w_log w) c")
    case (Inr c')
    with assms have "bc_endpoint c' = bc_endpoint c" unfolding keeps_endpoint_def by blast
    with Inr run s show ?thesis by (auto simp: bc_Update_apply)
  qed (use run s in \<open>auto simp: bc_Update_apply\<close>)
  then show "same_endpoint s s'" by (simp add: same_endpoint_def s)
qed

lemma same_endpoint_mark: "moves same_endpoint (markConditionFalse E ty reason sev msg)" "moves same_endpoint (markConditionTrue E ty msg)"
  unfolding markConditionFalse_def markConditionTrue_def bc_setCondition_def
  by (intro endpoint_kept.moves_check same_endpoint_world same_endpoint_modify; (intro emits_rules)?; simp add: time_Now_def emits_query)+

lemma same_endpoint_StatusUpdate: "moves same_endpoint (bc_StatusUpdate E)"
  unfolding bc_StatusUpdate_def by (intro endpoint_kept.moves_with_obj same_endpoint_world emits_write) simp

lemma same_endpoint_balancer: "moves same_endpoint (reconcileLoadBalancer E L cl)"
proof -
  have "moves same_endpoint (modify_obj (\<lambda>c. c\<lparr>bmc_Spec := (bmc_Spec c)\<lparr>bcs_LoadBalancer := x\<rparr>\<rparr>))" for x
    by (rule same_endpoint_modify) simp
  then show ?thesis unfolding reconcileLoadBalancer_def
    by (intro endpoint_kept.moves_with_obj endpoint_kept.moves_option endpoint_kept.moves_sum endpoint_kept.moves_check
        endpoint_kept.moves_ret endpoint_kept.moves_fail same_endpoint_world emits_rules)
qed

lemma same_endpoint_failed: "moves same_endpoint (lb_failed E ty reason e)"
  unfolding lb_failed_def by (intro endpoint_kept.moves_check same_endpoint_mark same_endpoint_StatusUpdate endpoint_kept.moves_ret)

lemma same_endpoint_network: "keeps_endpoint E \<Longrightarrow> moves same_endpoint (reconcileNetworkConfig E cl)"
  unfolding reconcileNetworkConfig_def by (intro endpoint_kept.moves_check same_endpoint_Update same_endpoint_modify) simp_all

text \<open>\<open>grows_from e m\<close>: started on an object whose endpoint is \<open>e\<close>, \<open>m\<close> makes no update with another endpoint.\<close>

definition grows_from :: "endpoint \<Rightarrow> 'a bcact \<Rightarrow> bool" where
  "grows_from e m \<longleftrightarrow> (\<forall>s r s'. bc_endpoint (snd s) = e \<longrightarrow> m s = (r, s') \<longrightarrow>
     (\<exists>es. w_log (fst s') = w_log (fst s) @ es \<and> list_all (\<lambda>ev. \<not> foreign_update e ev) es))"

lemma grows_same: "moves same_endpoint m \<Longrightarrow> grows_from e m"
  unfolding grows_from_def by (auto dest!: movesD simp: same_endpoint_def)

lemma grows_attempt:
  assumes "moves same_endpoint m" and "\<And>x. grows_from e (k x)"
  shows "grows_from e (attempt m k)"
  unfolding grows_from_def
proof (intro allI impI)
  fix s r s' assume e: "bc_endpoint (snd s) = e" and run: "attempt m k s = (r, s')"
  obtain r1 s1 where m: "m s = (r1, s1)" by (metis surj_pair)
  note first = movesD [OF assms(1) m, unfolded same_endpoint_def e]
  have "\<exists>es. w_log (fst s') = w_log (fst s) @ es \<and> list_all (\<lambda>ev. \<not> foreign_update e ev) es" if "k x s1 = (r, s')" for x
  proof -
    from assms(2) [of x] that first e obtain es where "w_log (fst s') = w_log (fst s1) @ es" "list_all (\<lambda>ev. \<not> foreign_update e ev) es"
      unfolding grows_from_def by metis
    with first show ?thesis by auto
  qed
  with run m first show "\<exists>es. w_log (fst s') = w_log (fst s) @ es \<and> list_all (\<lambda>ev. \<not> foreign_update e ev) es"
    by (cases r1) (auto simp: attempt_apply)
qed

lemma grows_check: "moves same_endpoint m \<Longrightarrow> (\<And>x. grows_from e (k x)) \<Longrightarrow> grows_from e (check m f k)"
  unfolding check_def by (rule grows_attempt) (auto intro: grows_same endpoint_kept.moves_fail split: sum.split)

lemma grows_with_obj: "(\<And>c. grows_from e (k c)) \<Longrightarrow> grows_from e (with_obj k)"
  by (auto simp: grows_from_def with_obj_def)

lemma grows_cases:
  "(\<And>e. grows_from ep (f e)) \<Longrightarrow> (\<And>x. grows_from ep (g x)) \<Longrightarrow> grows_from ep (case r of Inl e \<Rightarrow> f e | Inr x \<Rightarrow> g x)"
  "grows_from ep m \<Longrightarrow> (\<And>x. grows_from ep (h x)) \<Longrightarrow> grows_from ep (case q of None \<Rightarrow> m | Some x \<Rightarrow> h x)"
  "(\<And>a b. grows_from ep (k a b)) \<Longrightarrow> grows_from ep (case p of (a, b) \<Rightarrow> k a b)"
  "grows_from ep m \<Longrightarrow> grows_from ep m' \<Longrightarrow> grows_from ep (if b then m else m')"
  by (simp_all split: sum.split option.split prod.split)

definition ready_object :: "endpoint \<Rightarrow> string \<Rightarrow> timestamp \<Rightarrow> BareMetalCluster \<Rightarrow> BareMetalCluster" where
  "ready_object endpoint source now c =
     c\<lparr>bmc_Spec := (bmc_Spec c)\<lparr>bcs_ControlPlaneEndpoint := endpoint\<rparr>,
       bmc_Status := (bmc_Status c)\<lparr>bct_Ready := True, bct_Initialization := Some \<lparr>bci_Provisioned = Some True\<rparr>,
         bct_Conditions := put_bm_condition (make_condition ReadyCondition ''True'' [] ''Info''
           (''Cluster infrastructure is ready (endpoint source: '' @ source @ '')'') now) (bct_Conditions (bmc_Status c))\<rparr>\<rparr>"

lemma finish_ready_apply:
  "\<exists>c'. finish_ready E endpoint source (w, c)
     = (case k_write (kube E) (w_log w @ [EvNow]) (EvStatusUpdate (KBareMetalCluster c')) of None \<Rightarrow> Ok (requeue 0) | Some e \<Rightarrow> Err e,
        (w\<lparr>w_log := w_log w @ [EvNow, EvStatusUpdate (KBareMetalCluster c')]\<rparr>, c'))
     \<and> c' = ready_object endpoint source (h_now (host E) (w_log w)) c"
  by (simp add: finish_ready_def act_simps markConditionTrue_def bc_setCondition_def time_Now_apply bc_StatusUpdate_def api_write_def command_def
      query_def ready_object_def split: option.split)

lemma grows_finish: "grows_from e (finish_ready E endpoint source)"
  unfolding grows_from_def
proof (intro allI impI)
  fix s r s' assume run: "finish_ready E endpoint source s = (r, s')"
  obtain w c where s: "s = (w, c)" by (metis surj_pair)
  from finish_ready_apply [of E endpoint source w c] run s
  show "\<exists>es. w_log (fst s') = w_log (fst s) @ es \<and> list_all (\<lambda>ev. \<not> foreign_update e ev) es" by auto
qed

lemma grows_balancers:
  assumes "\<And>x. grows_from e k"
  shows "grows_from e (sync_balancers E L cl k)"
proof -
  have mark: "moves same_endpoint (with_obj (\<lambda>c. when_act (P c) (markConditionTrue E ty msg)))" for P ty msg
    by (intro endpoint_kept.moves_with_obj endpoint_kept.moves_when same_endpoint_mark)
  have ingress: "moves same_endpoint (with_obj (\<lambda>c. on_world (reconcileIngressLoadBalancer E L c cl)))"
    by (intro endpoint_kept.moves_with_obj same_endpoint_world emits_balancers)
  show ?thesis unfolding sync_balancers_def
    by (intro grows_attempt same_endpoint_balancer grows_cases grows_check mark ingress assms grows_same [OF same_endpoint_failed])
qed

lemma grows_normal:
  assumes "keeps_endpoint E"
  shows "grows_from e (bc_reconcileNormal E L valid)"
proof -
  have rest: "grows_from e (with_endpoint E L cl endpoint source)" for cl endpoint source
    unfolding with_endpoint_def
    by (intro grows_check same_endpoint_modify same_endpoint_network grows_balancers grows_finish assms) (simp_all add: annotate_source_def)
  have waiting: "grows_from e (andthen (markConditionFalse E ty reason sev msg) (\<lambda>_. k))" if "moves same_endpoint k" for ty reason sev msg and k :: "'x bcact"
    by (intro grows_same endpoint_kept.moves_check same_endpoint_mark that)
  have finalizer: "moves same_endpoint (modify_obj (\<lambda>c. c\<lparr>bmc_Meta := AddFinalizer ClusterFinalizer (bmc_Meta c)\<rparr>))"
    by (rule same_endpoint_modify) simp
  have owner: "moves same_endpoint (with_obj (\<lambda>c. on_world (getOwnerCluster E c)))"
    by (intro endpoint_kept.moves_with_obj same_endpoint_world emits_balancers)
  show ?thesis unfolding bc_reconcileNormal_def
    by (intro grows_check [OF finalizer] grows_check [OF same_endpoint_Update [OF assms]] grows_check [OF owner] grows_cases grows_with_obj rest waiting
        grows_same [OF endpoint_kept.moves_ret] endpoint_kept.moves_ret endpoint_kept.moves_check same_endpoint_StatusUpdate)
qed

text \<open>
  The endpoint that a round resolves is never stored: whatever the owner cluster says, every update
  of the object carries the endpoint that the object had when it was read, and the assignment at
  the end of the round is followed by a status update only, which does not store specifications.
  The port of the backends is taken from the stored endpoint, so when the endpoint comes from
  the owner cluster, all backends are registered with the stored port, zero.
\<close>

theorem resolved_endpoint_not_stored:
  assumes "keeps_endpoint E" and "k_get_bmcluster (kube E) (w_log w) ns n = Inr c" and "bc_Reconcile E L valid ns n w = (r, w')"
  shows "(\<exists>es. w_log w' = w_log w @ es \<and> list_all (\<lambda>ev. \<not> foreign_update (bc_endpoint c) ev) es)
    \<and> (\<forall>ms. list_all (\<lambda>(k, b). be_Port b = snd (bc_endpoint c)) (apiserver_backends (snd (bc_endpoint c)) ms))"
proof -
  let ?m = "if m_DeletionTimestamp (bmc_Meta c) \<noteq> None then bc_reconcileDelete E else bc_reconcileNormal E L valid"
  let ?w = "w\<lparr>w_log := w_log w @ [EvGet ''BareMetalCluster'' ns n]\<rparr>"
  have "moves same_endpoint (bc_reconcileDelete E)" unfolding bc_reconcileDelete_def
    by (intro endpoint_kept.moves_check same_endpoint_modify same_endpoint_Update assms endpoint_kept.moves_ret) simp
  then have g: "grows_from (bc_endpoint c) ?m" by (simp add: grows_same grows_normal [OF assms(1)])
  obtain r1 w1 c1 where m: "?m (?w, c) = (r1, (w1, c1))" by (metis surj_pair)
  with assms(2,3) have "w' = w1" by (simp add: bc_Reconcile_def act_simps query_def)
  moreover from g m obtain es where "w_log w1 = w_log ?w @ es" "list_all (\<lambda>ev. \<not> foreign_update (bc_endpoint c) ev) es"
    unfolding grows_from_def by (metis fst_conv snd_conv)
  ultimately have log: "\<exists>es. w_log w' = w_log w @ es \<and> list_all (\<lambda>ev. \<not> foreign_update (bc_endpoint c) ev) es"
    by (intro exI [of _ "EvGet ''BareMetalCluster'' ns n # es"]) simp
  have put: "list_all (\<lambda>(k, b). be_Port b = port) (put_backend n ip port d)" if "list_all (\<lambda>(k, b). be_Port b = port) d" for n ip port d
    using that unfolding put_backend_def by (induction d) (auto split: if_splits)
  have "list_all (\<lambda>(k, b). be_Port b = port)
      (fold (\<lambda>m d. if reachable_machine m then put_backend (mc_Name m) (getMachineIP m) port d else d) ms d)"
    if "list_all (\<lambda>(k, b). be_Port b = port) d" for port ms d
    using that by (induction ms arbitrary: d) (auto simp: put)
  then show ?thesis using log by (simp add: apiserver_backends_def)
qed

section \<open>What a ready cluster has gone through\<close>

definition ingress_enabled :: "BareMetalCluster \<Rightarrow> bool" where
  "ingress_enabled c \<longleftrightarrow> (case bcs_IngressLoadBalancer (bmc_Spec c) of None \<Rightarrow> False | Some g \<Rightarrow> ilb_Enabled g)"

text \<open>
  The backends of the API server are in sync: the machines of the control plane were listed, and the
  provider of the configuration accepted the list of their backends.
\<close>

definition api_backends_synced :: "env \<Rightarrow> f5_lib \<Rightarrow> capi_cluster \<Rightarrow> BareMetalCluster \<Rightarrow> world \<Rightarrow> world \<Rightarrow> bool" where
  "api_backends_synced E L cl c w w' \<longleftrightarrow> (case bcs_LoadBalancer (bmc_Spec c) of
      None \<Rightarrow> w' = w
    | Some lb \<Rightarrow> (\<exists>v ms w1. NewProvider (Some lb) = Inr v \<and> getControlPlaneMachines E cl w = (Ok ms, w1)
        \<and> with_provider v (syncBackends E L (apiserver_backends (snd (bc_endpoint c)) ms)) w1 = (Ok (), w')))"

definition ingress_synced :: "env \<Rightarrow> f5_lib \<Rightarrow> capi_cluster \<Rightarrow> BareMetalCluster \<Rightarrow> world \<Rightarrow> world \<Rightarrow> bool" where
  "ingress_synced E L cl c w w' \<longleftrightarrow> (case bcs_IngressLoadBalancer (bmc_Spec c) of
      None \<Rightarrow> w' = w
    | Some g \<Rightarrow>
        if \<not> ilb_Enabled g then w' = w
        else (\<exists>ms w1. getWorkerMachines E cl w = (Ok ms, w1)
          \<and> (ilb_Provider g = ''haproxy'' \<and> syncIngressHAProxy E L (ilb_HAProxy g) ms w1 = (Ok (), w')
            \<or> ilb_Provider g = ''f5'' \<and> syncIngressF5 E L (ilb_F5 g) ms w1 = (Ok (), w')
            \<or> ilb_Provider g = ''metal-lb'' \<and> syncIngressMetalLB (ilb_MetalLB g) ms w1 = (Ok (), w'))))"

text \<open>The object \<open>c'\<close> has the conditions of the load balancers that \<open>c\<close> configures.\<close>

definition balancers_marked :: "BareMetalCluster \<Rightarrow> BareMetalCluster \<Rightarrow> bool" where
  "balancers_marked c c' \<longleftrightarrow>
     (bcs_LoadBalancer (bmc_Spec c) \<noteq> None \<longrightarrow> condition_true LoadBalancerReadyCondition (bct_Conditions (bmc_Status c')))
     \<and> (ingress_enabled c \<longrightarrow> condition_true IngressLoadBalancerReadyCondition (bct_Conditions (bmc_Status c')))"

definition logged :: "world \<Rightarrow> BareMetalCluster \<Rightarrow> world" where
  "logged w c = w\<lparr>w_log := w_log w @ [EvUpdate (KBareMetalCluster c)]\<rparr>"

definition network_updated :: "capi_cluster \<Rightarrow> string \<Rightarrow> BareMetalCluster \<Rightarrow> BareMetalCluster" where
  "network_updated cl source c = (let c1 = annotate_source source c in
     c1\<lparr>bmc_Spec := (bmc_Spec c1)\<lparr>bcs_Network := network_config cl (bcs_Network (bmc_Spec c1))\<rparr>\<rparr>)"

text \<open>
  From the state \<open>w\<close> on, in this order: the network configuration was stored (the server answered
  \<open>ca\<close>), both load balancers were synced, and the last event is the accepted status update of the
  ready, provisioned object \<open>c'\<close> with its conditions.
\<close>

definition cluster_settled ::
  "env \<Rightarrow> f5_lib \<Rightarrow> capi_cluster \<Rightarrow> endpoint \<Rightarrow> string \<Rightarrow> BareMetalCluster \<Rightarrow> world \<Rightarrow> world \<Rightarrow> BareMetalCluster \<Rightarrow> bool" where
  "cluster_settled E L cl endpoint source c w w' c' \<longleftrightarrow> (\<exists>ca w2 w3 w4 l.
     k_update_bmcluster (kube E) (w_log w) (network_updated cl source c) = Inr ca
     \<and> api_backends_synced E L cl ca (logged w (network_updated cl source c)) w2
     \<and> prefix (w_log w2) (w_log w3) \<and> ingress_synced E L cl ca w3 w4 \<and> prefix (w_log w4) l
     \<and> w_log w' = l @ [EvStatusUpdate (KBareMetalCluster c')] \<and> k_write (kube E) l (EvStatusUpdate (KBareMetalCluster c')) = None
     \<and> bct_Ready (bmc_Status c') \<and> bct_Initialization (bmc_Status c') = Some \<lparr>bci_Provisioned = Some True\<rparr>
     \<and> bc_endpoint c' = endpoint \<and> condition_true ReadyCondition (bct_Conditions (bmc_Status c'))
     \<and> balancers_marked ca c')"

lemma mark_apply:
  "markConditionTrue E ty msg (w, c) = (Ok (), (w\<lparr>w_log := w_log w @ [EvNow]\<rparr>, c\<lparr>bmc_Status := (bmc_Status c)\<lparr>bct_Conditions :=
     put_bm_condition (make_condition ty ''True'' [] ''Info'' msg (h_now (host E) (w_log w))) (bct_Conditions (bmc_Status c))\<rparr>\<rparr>))"
  by (simp add: markConditionTrue_def bc_setCondition_def act_simps time_Now_apply)

lemma lb_failed_requeues: "lb_failed E ty reason e s = (Ok x, s') \<Longrightarrow> x = requeue (30 * second)"
  by (cases s) (auto simp: lb_failed_def check_apply ret_apply split: prod.splits res.splits)

lemma mark_when_apply:
  "\<exists>w' c'. with_obj (\<lambda>c. when_act (P c) (markConditionTrue E ty msg)) (w, c) = (Ok (), (w', c'))
     \<and> bmc_Spec c' = bmc_Spec c \<and> prefix (w_log w) (w_log w') \<and> (P c \<longrightarrow> condition_true ty (bct_Conditions (bmc_Status c')))
     \<and> (\<forall>t. t \<noteq> ty \<longrightarrow> condition_of t (bct_Conditions (bmc_Status c')) = condition_of t (bct_Conditions (bmc_Status c)))"
  by (cases "P c") (simp_all add: with_obj_apply mark_apply ret_apply condition_true_def)

lemma balancer_ok:
  assumes "reconcileLoadBalancer E L cl (w, c) = (Ok (), (w', c'))"
  shows "api_backends_synced E L cl c w w'" "bcs_IngressLoadBalancer (bmc_Spec c') = bcs_IngressLoadBalancer (bmc_Spec c)"
    "bcs_LoadBalancer (bmc_Spec c') = None \<longleftrightarrow> bcs_LoadBalancer (bmc_Spec c) = None"
  using assms
  by (auto simp: reconcileLoadBalancer_def api_backends_synced_def with_obj_apply modify_obj_apply on_world_apply check_apply ret_apply
      fail_apply split: option.splits sum.splits prod.splits res.splits)

lemma ingress_ok:
  assumes "reconcileIngressLoadBalancer E L c cl w = (Ok (), w')" and "bcs_IngressLoadBalancer (bmc_Spec c) = bcs_IngressLoadBalancer (bmc_Spec ca)"
  shows "ingress_synced E L cl ca w w'"
  using assms
  by (auto simp: reconcileIngressLoadBalancer_def ingress_synced_def check_apply ret_apply fail_apply
      split: option.splits if_splits prod.splits res.splits)

lemma sync_balancers_ok:
  assumes "sync_balancers E L cl k (w, ca) = (Ok (requeue 0), s')"
  shows "\<exists>w2 w3 w4 w5 c5. api_backends_synced E L cl ca w w2 \<and> prefix (w_log w2) (w_log w3) \<and> ingress_synced E L cl ca w3 w4
    \<and> prefix (w_log w4) (w_log w5) \<and> k (w5, c5) = (Ok (requeue 0), s') \<and> balancers_marked ca c5"
proof -
  obtain r1 w1 c1 where lb: "reconcileLoadBalancer E L cl (w, ca) = (r1, (w1, c1))" by (metis surj_pair)
  obtain w2 c2 where m: "with_obj (\<lambda>c. when_act (bcs_LoadBalancer (bmc_Spec c) \<noteq> None)
      (markConditionTrue E LoadBalancerReadyCondition ''Load balancer backends are synced'')) (w1, c1) = (Ok (), (w2, c2))"
    and c2: "bmc_Spec c2 = bmc_Spec c1" "prefix (w_log w1) (w_log w2)"
      "bcs_LoadBalancer (bmc_Spec c1) \<noteq> None \<longrightarrow> condition_true LoadBalancerReadyCondition (bct_Conditions (bmc_Status c2))"
    using mark_when_apply [of "\<lambda>c. bcs_LoadBalancer (bmc_Spec c) \<noteq> None"] by blast
  obtain r3 w3 where ing: "reconcileIngressLoadBalancer E L c2 cl w2 = (r3, w3)" by (metis surj_pair)
  obtain w4 c4 where m4: "with_obj (\<lambda>c. when_act (ingress_enabled c)
      (markConditionTrue E IngressLoadBalancerReadyCondition ''Ingress load balancer backends are synced'')) (w3, c2) = (Ok (), (w4, c4))"
    and c4: "bmc_Spec c4 = bmc_Spec c2" "prefix (w_log w3) (w_log w4)"
      "ingress_enabled c2 \<longrightarrow> condition_true IngressLoadBalancerReadyCondition (bct_Conditions (bmc_Status c4))"
      "condition_of LoadBalancerReadyCondition (bct_Conditions (bmc_Status c4)) = condition_of LoadBalancerReadyCondition (bct_Conditions (bmc_Status c2))"
    using mark_when_apply [of ingress_enabled E IngressLoadBalancerReadyCondition _ w3 c2] condition_types_distinct(3) by metis
  have r1: "r1 = Ok ()" using assms lb by (cases r1) (auto simp: sync_balancers_def attempt_apply dest: lb_failed_requeues)
  have r3: "r3 = Ok ()" using assms lb m ing r1
    by (cases r3) (auto simp: sync_balancers_def attempt_apply check_apply with_obj_apply [where k = "\<lambda>c. on_world (reconcileIngressLoadBalancer E L c cl)"]
        on_world_apply dest: lb_failed_requeues)
  have k: "k (w4, c4) = (Ok (requeue 0), s')" using assms lb m ing m4 r1 r3
    by (simp add: sync_balancers_def attempt_apply check_apply with_obj_apply [where k = "\<lambda>c. on_world (reconcileIngressLoadBalancer E L c cl)"]
        on_world_apply ingress_enabled_def)
  note api = balancer_ok [OF lb [unfolded r1]]
  have "ingress_synced E L cl ca w2 w3"
    by (rule ingress_ok [OF ing [unfolded r3]]) (simp add: c2 api)
  moreover have "balancers_marked ca c4" using c2 c4 api by (auto simp: balancers_marked_def condition_true_def ingress_enabled_def)
  ultimately show ?thesis using api(1) c2(2) c4(2) k by blast
qed

lemma with_endpoint_settles:
  assumes "with_endpoint E L cl endpoint source (w, c) = (Ok (requeue 0), (w', c'))"
  shows "cluster_settled E L cl endpoint source c w w' c'"
proof -
  let ?n = "network_updated cl source c"
  from assms obtain ca where ca: "k_update_bmcluster (kube E) (w_log w) ?n = Inr ca"
    and sync: "sync_balancers E L cl (finish_ready E endpoint source) (logged w ?n, ca) = (Ok (requeue 0), (w', c'))"
    by (cases "k_update_bmcluster (kube E) (w_log w) ?n")
       (auto simp: with_endpoint_def check_apply modify_obj_apply reconcileNetworkConfig_def bc_Update_apply network_updated_def Let_def logged_def)
  from sync_balancers_ok [OF sync] obtain w2 w3 w4 w5 c5 where
    *: "api_backends_synced E L cl ca (logged w ?n) w2" "prefix (w_log w2) (w_log w3)" "ingress_synced E L cl ca w3 w4"
      "prefix (w_log w4) (w_log w5)" and fin: "finish_ready E endpoint source (w5, c5) = (Ok (requeue 0), (w', c'))"
    and m: "balancers_marked ca c5" by blast
  from finish_ready_apply [of E endpoint source w5 c5] fin have c': "c' = ready_object endpoint source (h_now (host E) (w_log w5)) c5"
    and w': "w_log w' = (w_log w5 @ [EvNow]) @ [EvStatusUpdate (KBareMetalCluster c')]"
    and acc: "k_write (kube E) (w_log w5 @ [EvNow]) (EvStatusUpdate (KBareMetalCluster c')) = None"
    by (auto split: option.splits)
  have "balancers_marked ca c'" using m condition_types_distinct
    by (simp add: c' ready_object_def balancers_marked_def condition_true_def)
  moreover have "bct_Ready (bmc_Status c')" "bct_Initialization (bmc_Status c') = Some \<lparr>bci_Provisioned = Some True\<rparr>"
    "bc_endpoint c' = endpoint" "condition_true ReadyCondition (bct_Conditions (bmc_Status c'))"
    by (simp_all add: c' ready_object_def condition_true_def)
  moreover have "prefix (w_log w4) (w_log w5 @ [EvNow])" using *(4) by (simp add: prefix_prefix)
  ultimately show ?thesis using ca *(1-3) w' acc unfolding cluster_settled_def by blast
qed

text \<open>
  (C34) A round of the BareMetalCluster controller that asks for no retry stored the finalizer, and then either
  the object has no owner cluster and nothing more was done, or the round has settled the cluster: it has a
  valid endpoint, the backends of the API server were synced for the machines listed, and after that those
  of an enabled ingress, without an error from either load balancer, and the last event is the
  accepted status update of the final object, which is ready and provisioned, carries the endpoint,
  and has the Ready condition and the condition of each configured load balancer.
\<close>

theorem ready_cluster_complete:
  assumes "bc_reconcileNormal E L valid (w, c) = (Ok (requeue 0), (w', c'))"
    and "c1 = c\<lparr>bmc_Meta := AddFinalizer ClusterFinalizer (bmc_Meta c)\<rparr>"
  shows "\<exists>c2. k_update_bmcluster (kube E) (w_log w) c1 = Inr c2
    \<and> (getOwnerCluster E c2 (logged w c1) = (Ok None, w') \<and> c' = c2
       \<or> (\<exists>cl endpoint source w2. getOwnerCluster E c2 (logged w c1) = (Ok (Some cl), w2)
            \<and> resolveControlPlaneEndpoint valid c2 cl = Inr (endpoint, source) \<and> valid endpoint
            \<and> cluster_settled E L cl endpoint source c2 w2 w' c'))"
proof -
  have start: "bc_reconcileNormal E L valid (w, c) = (case k_update_bmcluster (kube E) (w_log w) c1 of
      Inl e \<Rightarrow> (Err e, (logged w c1, c1))
    | Inr c2 \<Rightarrow> andthen (with_obj (\<lambda>c. on_world (getOwnerCluster E c))) (\<lambda>owner. case owner of
       None \<Rightarrow> ret (requeue 0)
     | Some cl \<Rightarrow> with_obj (\<lambda>c. case resolveControlPlaneEndpoint valid c cl of
           Inl e \<Rightarrow>
             andthen (markConditionFalse E ReadyCondition ''EndpointNotSet'' ''Error'' (error_string e)) (\<lambda>_.
             andthen (bc_StatusUpdate E) (\<lambda>_. ret (requeue 0)))
         | Inr (endpoint, source) \<Rightarrow>
             if \<not> valid endpoint then
               andthen (markConditionFalse E ReadyCondition ''EndpointNotSet'' ''Info'' ''Waiting for ControlPlaneEndpoint to be set'') (\<lambda>_.
                 ret (requeue (10 * second)))
             else with_endpoint E L cl endpoint source)) (logged w c1, c2))"
    by (simp add: bc_reconcileNormal_def check_apply [of "modify_obj _"] check_apply [of "bc_Update E"] modify_obj_apply bc_Update_apply
        assms(2) logged_def split: sum.split)
  with assms(1) obtain c2 where c2: "k_update_bmcluster (kube E) (w_log w) c1 = Inr c2" by (auto split: sum.splits)
  obtain r2 w2 where own: "getOwnerCluster E c2 (logged w c1) = (r2, w2)" by (metis surj_pair)
  have r2: "\<exists>owner. r2 = Ok owner" using assms(1) own unfolding start c2 by (cases r2) (auto simp: check_apply with_obj_apply on_world_apply)
  then obtain owner where owner: "r2 = Ok owner" by blast
  show ?thesis
  proof (cases owner)
    case None
    with assms(1) own owner have "w' = w2 \<and> c' = c2" unfolding start c2 by (auto simp: check_apply with_obj_apply on_world_apply ret_apply)
    with None own owner c2 show ?thesis by blast
  next
    case (Some cl)
    have "\<exists>x. resolveControlPlaneEndpoint valid c2 cl = Inr x" by (simp add: resolveControlPlaneEndpoint_def Let_def)
    then obtain endpoint source where res: "resolveControlPlaneEndpoint valid c2 cl = Inr (endpoint, source)" by (metis surj_pair)
    have "valid endpoint"
      using assms(1) own owner Some res unfolding start c2
      by (cases "valid endpoint") (auto simp: check_apply with_obj_apply on_world_apply ret_apply markConditionFalse_def bc_setCondition_def
          time_Now_apply modify_obj_apply)
    moreover from this have "with_endpoint E L cl endpoint source (w2, c2) = (Ok (requeue 0), (w', c'))"
      using assms(1) own owner Some res unfolding start c2 by (simp add: check_apply with_obj_apply on_world_apply)
    ultimately show ?thesis using c2 own owner Some res with_endpoint_settles by blast
  qed
qed

section \<open>Load balancers that are never configured\<close>

lemma memory_sync_silent:
  assumes "in_memory v"
  shows "with_provider v (syncBackends E L desired) w = (Ok (), w)"
proof -
  have loop: "\<exists>v'. for_each ns (\<lambda>n. case map_of m n of None \<Rightarrow> ret () | Some b \<Rightarrow> check (call b) (g n) ret) (w, v) = (Ok (), (w, v')) \<and> in_memory v'"
    if calls: "\<And>b v. in_memory v \<Longrightarrow> \<exists>v'. call b (w, v) = (Ok (), (w, v')) \<and> in_memory v'" and "in_memory v" for ns m call g v
    using that(2)
  proof (induction ns arbitrary: v)
    case (Cons n ns)
    obtain v1 where v1: "(case map_of m n of None \<Rightarrow> ret () | Some b \<Rightarrow> check (call b) (g n) ret) (w, v) = (Ok (), (w, v1))" "in_memory v1"
    proof (cases "map_of m n")
      case None
      with that [of v] Cons.prems show thesis by (simp add: ret_apply)
    next
      case (Some b)
      from calls [OF Cons.prems, of b] obtain v1 where "call b (w, v) = (Ok (), (w, v1))" "in_memory v1" by blast
      with that [of v1] Some show thesis by (simp add: check_apply ret_apply)
    qed
    from Cons.IH [OF v1(2)] v1(1) show ?case by (simp add: check_apply)
  qed (simp add: act_simps)
  have each: "\<exists>v'. each_backend E m (\<lambda>n b. check (call b) (g n) ret) (w, v) = (Ok (), (w, v')) \<and> in_memory v'"
    if "\<And>b v. in_memory v \<Longrightarrow> \<exists>v'. call b (w, v) = (Ok (), (w, v')) \<and> in_memory v'" and "in_memory v" for m call g v
  proof -
    have "\<exists>v'. for_each (h_range (host E) (w_log w) (map fst m)) (\<lambda>n. case map_of m n of None \<Rightarrow> ret () | Some b \<Rightarrow> check (call b) (g n) ret) (w, v)
        = (Ok (), (w, v')) \<and> in_memory v'" by (rule loop) (fact that)+
    then show ?thesis by (simp add: each_backend_def range_map_def check_apply on_world_apply)
  qed
  have reg: "\<exists>v'. RegisterBackend E L b (w, v) = (Ok (), (w, v')) \<and> in_memory v'"
    and unreg: "\<exists>v'. UnregisterBackend E L b (w, v) = (Ok (), (w, v')) \<and> in_memory v'" if "in_memory v" for b v
    using memory_calls(2,3) [OF that, of E L b w] by blast+
  let ?reg = "\<lambda>n b. check (RegisterBackend E L b) (wrap (''failed to register backend '' @ n @ '': '')) ret"
  let ?unreg = "\<lambda>n b. check (UnregisterBackend E L b) (wrap (''failed to unregister backend '' @ n @ '': '')) ret"
  have "\<exists>v1. each_backend E (to_add desired (by_name (memory_backends v))) ?reg (w, v) = (Ok (), (w, v1)) \<and> in_memory v1"
    by (rule each, erule reg, rule assms)
  then obtain v1 where v1: "each_backend E (to_add desired (by_name (memory_backends v))) ?reg (w, v) = (Ok (), (w, v1))" "in_memory v1" by blast
  have "\<exists>v2. each_backend E (to_remove desired (by_name (memory_backends v))) ?unreg (w, v1) = (Ok (), (w, v2)) \<and> in_memory v2"
    by (rule each, erule unreg, rule v1(2))
  then obtain v2 where v2: "each_backend E (to_remove desired (by_name (memory_backends v))) ?unreg (w, v1) = (Ok (), (w, v2))" by blast
  show ?thesis using memory_calls(1) [OF assms, of E L w] v1(1) v2
    by (simp add: with_provider_def syncBackends_def sync_with_def check_apply)
qed

text \<open>
  With Keepalived or MetalLB the controller does nothing but report success: the provider is created
  anew in every round, without a Kubernetes client, so the backends are written into an object
  that is dropped at once. The only effect is the listing of the machines.
\<close>

theorem memory_balancer_without_effect:
  assumes "bcs_LoadBalancer (bmc_Spec c) = Some lb" and "NewProvider (Some lb) = Inr v" and "lbc_Provider lb \<in> {''keepalived'', ''metal-lb''}"
    and "k_list_machines (kube E) (w_log w) (cl_Namespace cl) [(ClusterNameLabel, cl_Name cl)] = Inr ms"
  shows "\<exists>c'. reconcileLoadBalancer E L cl (w, c) =
    (Ok (), (w\<lparr>w_log := w_log w @ [EvList ''Machine'' (cl_Namespace cl) [(ClusterNameLabel, cl_Name cl)]]\<rparr>, c'))"
proof -
  have "in_memory v"
    using assms(2,3) by (auto simp: NewProvider_def NewKeepalivedProvider_def NewMetalLBProvider_def Let_def split: option.splits if_splits)
  then show ?thesis using assms(1,2,4)
    by (simp add: reconcileLoadBalancer_def act_simps getControlPlaneMachines_def List_machines_def query_def memory_sync_silent)
qed

text \<open>
  Cluster API labels control plane machines with an empty value. Such a machine counts neither as a
  control plane machine nor as a worker, so a cluster labelled that way has no desired backend, and
  on a provider that keeps its pool every backend is taken out.
\<close>

theorem empty_label_no_backend:
  assumes "list_all (\<lambda>m. map_of (mc_Labels m) cp_role_label = Some []) ms"
  shows "apiserver_backends port (filter (is_control_plane cl) ms) = [] \<and> filter (worker_machine cl) ms = []
    \<and> (\<forall>E L s s'. memory_sane s \<longrightarrow> range_ok E \<longrightarrow> syncBackends E L (apiserver_backends port (filter (is_control_plane cl) ms)) s = (Ok (), s')
         \<longrightarrow> memory_backends (snd s') = [])"
proof -
  have none: "filter (is_control_plane cl) ms = []" and workers: "filter (worker_machine cl) ms = []"
    using assms by (auto simp: filter_empty_conv is_control_plane_def worker_machine_def list_all_iff)
  have "memory_backends (snd s') = []" if "memory_sane s" "range_ok E" "syncBackends E L [] s = (Ok (), s')" for E L s s'
    using memory.sync_pool [OF that(1,2), where desired = "[]" and s' = s' and L = L] that(3) by (simp add: syncBackends_def)
  then show ?thesis using none workers by (simp add: apiserver_backends_def)
qed

text \<open>
  Both ingress pools of HAProxy get both kinds of backends: the map that is synchronised with the
  HTTP pool contains the HTTPS port of every reachable worker.
\<close>

lemma ingress_https_in_http_pool:
  assumes "m \<in> set ms" and "reachable_machine m"
  shows "mc_Name m @ ''-https'' \<in> fst ` set (ingress_haproxy_backends p q ms)"
proof -
  let ?step = "\<lambda>m d. if reachable_machine m then put_backend (mc_Name m @ ''-https'') (getMachineIP m) q (put_backend (mc_Name m @ ''-http'') (getMachineIP m) p d) else d"
  have mono: "k \<in> fst ` set d \<Longrightarrow> k \<in> fst ` set (fold ?step ns d)" for k ns d
    by (induction ns arbitrary: d) (auto simp: put_backend_def keys_upd_key)
  have "mc_Name m @ ''-https'' \<in> fst ` set (fold ?step ms d)" for d
    using assms
  proof (induction ms arbitrary: d)
    case (Cons x xs)
    show ?case
    proof (cases "m = x")
      case True
      with Cons.prems mono show ?thesis by (simp add: put_backend_def keys_upd_key)
    qed (use Cons in auto)
  qed simp
  then show ?thesis by (simp add: ingress_haproxy_backends_def)
qed

section \<open>A concrete cluster\<close>

definition ex_lb :: LoadBalancerConfig where
  "ex_lb = zero_LoadBalancerConfig\<lparr>lbc_Provider := ''metal-lb'',
     lbc_MetalLB := Some \<lparr>mlb_IPAddressPool = [], mlb_LoadBalancerIP = [], mlb_AddressPool = [], mlb_Addresses = []\<rparr>\<rparr>"

definition ex_bmcluster :: BareMetalCluster where
  "ex_bmcluster = zero_BareMetalCluster\<lparr>bmc_Spec := (bmc_Spec zero_BareMetalCluster)\<lparr>bcs_LoadBalancer := Some ex_lb\<rparr>\<rparr>"

definition ex_capi :: capi_cluster where
  "ex_capi = zero_capi_cluster\<lparr>cl_Name := ''c1'', cl_ControlPlaneEndpoint := (''vip'', 6443)\<rparr>"

definition ex_cp_machine :: capi_machine where
  "ex_cp_machine = zero_capi_machine\<lparr>mc_Name := ''m1'', mc_Labels := [(cp_role_label, [])], mc_ClusterName := ''c1'',
     mc_Phase := ''Running'', mc_Addresses := [(''InternalIP'', ''10.0.0.1'')]\<rparr>"

definition ex_cluster_env :: env where
  "ex_cluster_env = quiet_env\<lparr>kube := quiet_kube\<lparr>k_get_bmcluster := (\<lambda>l ns n. Inr ex_bmcluster), k_list_machines := (\<lambda>l ns s. Inr [ex_cp_machine])\<rparr>\<rparr>"

lemma ex_cluster_env_simps [simp]:
  "k_get_bmcluster (kube ex_cluster_env) l ns n = Inr ex_bmcluster" "k_list_machines (kube ex_cluster_env) l ns sel = Inr [ex_cp_machine]"
  "k_write (kube ex_cluster_env) l ev = None" "k_update_bmcluster (kube ex_cluster_env) l c = Inr c" "host ex_cluster_env = quiet_host"
  by (simp_all add: ex_cluster_env_def quiet_defs)

lemma ex_new_provider:
  "NewProvider (Some ex_lb) = Inr (ex_metallb [])" "bcs_LoadBalancer (bmc_Spec ex_bmcluster) = Some ex_lb"
  "bcs_IngressLoadBalancer (bmc_Spec ex_bmcluster) = None" "lbc_Provider ex_lb = ''metal-lb''" "bcs_Network (bmc_Spec ex_bmcluster) = bcs_Network (bmc_Spec zero_BareMetalCluster)"
  by (simp_all add: NewProvider_def ex_lb_def NewMetalLBProvider_def ex_metallb_def ex_bmcluster_def bm_zero_defs)

lemma memory_balancer_witness:
  "\<exists>c'. reconcileLoadBalancer ex_cluster_env ex_f5_lib ex_capi (empty_world, ex_bmcluster) =
     (Ok (), (empty_world\<lparr>w_log := w_log empty_world @ [EvList ''Machine'' (cl_Namespace ex_capi) [(ClusterNameLabel, cl_Name ex_capi)]]\<rparr>, c'))"
  by (rule memory_balancer_without_effect [OF ex_new_provider(2,1)]) (simp_all add: ex_new_provider)

definition ex_owned :: BareMetalCluster where
  "ex_owned = ex_bmcluster\<lparr>bmc_OwnerReferences := [(''Cluster'', ''cluster.x-k8s.io/v1beta2'', ''c1'')]\<rparr>"

definition ex_owner_env :: env where
  "ex_owner_env = ex_cluster_env\<lparr>kube := (kube ex_cluster_env)\<lparr>k_get_cluster := (\<lambda>l ns n. Inr ex_capi)\<rparr>\<rparr>"

definition ex_valid :: "endpoint \<Rightarrow> bool" where
  "ex_valid e \<longleftrightarrow> fst e \<noteq> [] \<and> snd e \<noteq> 0"

lemma ex_owner_env_simps [simp]:
  "k_get_cluster (kube ex_owner_env) l ns n = Inr ex_capi" "k_list_machines (kube ex_owner_env) l ns sel = Inr [ex_cp_machine]"
  "k_write (kube ex_owner_env) l ev = None" "k_update_bmcluster (kube ex_owner_env) l c = Inr c" "host ex_owner_env = quiet_host"
  by (simp_all add: ex_owner_env_def)

lemma ex_owned_simps [simp]:
  "bmc_OwnerReferences ex_owned = [(''Cluster'', ''cluster.x-k8s.io/v1beta2'', ''c1'')]"
  "bcs_LoadBalancer (bmc_Spec ex_owned) = Some ex_lb" "bcs_IngressLoadBalancer (bmc_Spec ex_owned) = None"
  "cl_ControlPlaneEndpoint ex_capi = (''vip'', 6443)"
  by (simp_all add: ex_owned_def ex_new_provider ex_capi_def)

lemma ex_ready_round:
  "\<exists>w' c'. bc_reconcileNormal ex_owner_env ex_f5_lib ex_valid (empty_world, ex_owned) = (Ok (requeue 0), (w', c'))"
proof -
  have sync: "with_provider (ex_metallb []) (syncBackends ex_owner_env ex_f5_lib d) w = (Ok (), w)" for d w by (simp add: memory_sync_silent)
  have valid: "resolveControlPlaneEndpoint ex_valid c ex_capi = Inr ((''vip'', 6443), ''cluster'')" "ex_valid (''vip'', 6443)" for c
    by (simp_all add: resolveControlPlaneEndpoint_def ex_valid_def Let_def)
  show ?thesis
    by (simp add: bc_reconcileNormal_def getOwnerCluster_def valid with_endpoint_def sync_balancers_def finish_ready_def act_simps annotate_source_def
        reconcileNetworkConfig_def bc_Update_apply reconcileLoadBalancer_def ex_new_provider sync getControlPlaneMachines_def List_machines_def query_def
        mark_apply reconcileIngressLoadBalancer_def bc_StatusUpdate_def api_write_def command_def)
qed

lemma ready_cluster_witness:
  "\<exists>w' c'. bc_reconcileNormal ex_owner_env ex_f5_lib ex_valid (empty_world, ex_owned) = (Ok (requeue 0), (w' :: world, c'))
     \<and> bct_Ready (bmc_Status c') \<and> condition_true LoadBalancerReadyCondition (bct_Conditions (bmc_Status c'))"
proof -
  from ex_ready_round obtain w' c' where run:
    "bc_reconcileNormal ex_owner_env ex_f5_lib ex_valid (empty_world, ex_owned) = (Ok (requeue 0), (w', c'))" by blast
  let ?c1 = "ex_owned\<lparr>bmc_Meta := AddFinalizer ClusterFinalizer (bmc_Meta ex_owned)\<rparr>"
  have owned: "getOwnerCluster ex_owner_env ?c1 w \<noteq> (Ok None, w'')" for w w''
    by (simp add: getOwnerCluster_def check_apply query_def ret_apply)
  from ready_cluster_complete [OF run refl] obtain cl endpoint source w2 where
    "cluster_settled ex_owner_env ex_f5_lib cl endpoint source ?c1 w2 w' c'"
    by (elim exE conjE disjE; simp only: ex_owner_env_simps sum.inject) (use owned in blast)+
  then have "bct_Ready (bmc_Status c') \<and> balancers_marked (network_updated cl source ?c1) c'"
    by (auto simp: cluster_settled_def)
  then show ?thesis using run by (auto simp: balancers_marked_def network_updated_def annotate_source_def Let_def)
qed

lemma resolved_endpoint_witness:
  "\<exists>r w' es. bc_Reconcile ex_cluster_env ex_f5_lib (\<lambda>(h, p). h \<noteq> [] \<and> p \<noteq> 0) [] ''c1'' empty_world = (r, w' :: world)
     \<and> w_log w' = es \<and> list_all (\<lambda>ev. \<not> foreign_update ([], 0) ev) es"
proof -
  obtain r w' where run: "bc_Reconcile ex_cluster_env ex_f5_lib (\<lambda>(h, p). h \<noteq> [] \<and> p \<noteq> 0) [] ''c1'' empty_world = (r, w')" by (metis surj_pair)
  have "bc_endpoint ex_bmcluster = ([], 0)" by (simp add: ex_bmcluster_def bm_zero_defs)
  with resolved_endpoint_not_stored [OF _ _ run, of ex_bmcluster] run show ?thesis by (simp add: keeps_endpoint_def empty_world_def)
qed

lemma empty_label_witness:
  "apiserver_backends 6443 (filter (is_control_plane ex_capi) [ex_cp_machine]) = [] \<and> filter (worker_machine ex_capi) [ex_cp_machine] = []"
  using empty_label_no_backend [of "[ex_cp_machine]" 6443 ex_capi] by (simp add: ex_cp_machine_def)

end
