(* ===== verification/Bm_Host.thy ===== *)
theory Bm_Host
  imports Sessions Addon_Values Bm_Zero
begin

text \<open>
  Preparing a host over an open SSH connection: \<open>modules/capbm/internal/network\<close> (firewall and SELinux),
  \<open>bootstrap/bootstrap.go\<close> (host name, hosts file, swap, kernel modules, sysctl, time) and
  \<open>health/verify.go\<close> (the check at the end). The scripts are those of the source; \<open>p\<close> is the connection.
\<close>

section \<open>Definitions\<close>

subsection \<open>Firewall\<close>

definition firewallScript :: "string" where
  \<open>firewallScript = script_lines [
    ''#!/bin/bash'',
    ''set -euo pipefail'',
    [],
    ''ROLE="${ROLE:-worker}"'',
    [],
    ''detect_firewall() {'',
    ''    if command -v firewall-cmd &>/dev/null && systemctl is-active --quiet firewalld; then'',
    ''        echo "firewalld"'',
    ''    elif command -v ufw &>/dev/null && ufw status 2>/dev/null | grep -q "Status: active"; then'',
    ''        echo "ufw"'',
    ''    else'',
    ''        echo "iptables"'',
    ''    fi'',
    ''}'',
    [],
    ''open_port() {'',
    ''    local port="$1"'',
    ''    local proto="${2:-tcp}"'',
    ''    local desc="$3"'',
    ''    local fw_type'',
    ''    fw_type=$(detect_firewall)'',
    [],
    ''    echo "Opening port: $port/$proto ($desc) using $fw_type"'',
    [],
    ''    case "$fw_type" in'',
    ''        firewalld)'',
    ''            firewall-cmd --permanent --add-port="${port}/${proto}"'',
    ''            ;;'',
    ''        ufw)'',
    ''            ufw allow "${port}/${proto}" comment "$desc"'',
    ''            ;;'',
    ''        iptables)'',
    ''            iptables -A INPUT -p "$proto" --dport "$port" -j ACCEPT'',
    ''            ;;'',
    ''    esac'',
    ''}'',
    [],
    ''echo "=== Configuring firewall ==="'',
    ''fw_type=$(detect_firewall)'',
    ''echo "Detected firewall: $fw_type"'',
    [],
    ''open_port 10250 tcp "kubelet API"'',
    [],
    ''if [ "$ROLE" = "control-plane" ]; then'',
    ''    open_port 6443 tcp "kube-apiserver"'',
    ''    open_port 2379 tcp "etcd client"'',
    ''    open_port 2380 tcp "etcd peer"'',
    ''    open_port 10257 tcp "kube-controller-manager"'',
    ''    open_port 10259 tcp "kube-scheduler"'',
    ''fi'',
    [],
    ''case "$fw_type" in'',
    ''    firewalld)'',
    ''        firewall-cmd --reload'',
    ''        ;;'',
    ''    ufw)'',
    ''        ufw reload'',
    ''        ;;'',
    ''esac'',
    [],
    ''echo "=== Firewall configuration completed ==="'']\<close>

definition ports_script :: "string \<Rightarrow> string" where
  \<open>ports_script ports = script_lines [
    ''#!/bin/bash'',
    ''set -euo pipefail'',
    [],
    ''detect_firewall() {'',
    ''    if command -v firewall-cmd &>/dev/null && systemctl is-active --quiet firewalld; then'',
    ''        echo "firewalld"'',
    ''    elif command -v ufw &>/dev/null && ufw status 2>/dev/null | grep -q "Status: active"; then'',
    ''        echo "ufw"'',
    ''    else'',
    ''        echo "iptables"'',
    ''    fi'',
    ''}'',
    [],
    ''open_port() {'',
    ''    local port="$1"'',
    ''    local proto="${2:-tcp}"'',
    ''    local fw_type'',
    ''    fw_type=$(detect_firewall)'',
    [],
    ''    case "$fw_type" in'',
    ''        firewalld)'',
    ''            firewall-cmd --permanent --add-port="${port}/${proto}"'',
    ''            ;;'',
    ''        ufw)'',
    ''            ufw allow "${port}/${proto}"'',
    ''            ;;'',
    ''        iptables)'',
    ''            iptables -A INPUT -p "$proto" --dport "$port" -j ACCEPT'',
    ''            ;;'',
    ''    esac'',
    ''}'',
    [],
    ports,
    [],
    ''fw_type=$(detect_firewall)'',
    ''if [ "$fw_type" = "firewalld" ]; then'',
    ''    firewall-cmd --reload'',
    ''fi'']\<close>

definition open_port_line :: "PortRule \<Rightarrow> string" where
  \<open>open_port_line r = ''open_port '' @ show_int (prt_Port r) @ '' '' @ (if prt_Protocol r = [] then ''tcp'' else prt_Protocol r)
     @ '' "'' @ prt_Description r @ ''"'' @ [CHR 0x0A]\<close>

definition role_script :: "string \<Rightarrow> string" where
  "role_script role = ''ROLE='' @ go_quote role @ [CHR 0x0A] @ firewallScript"

definition fw_Configure :: "env \<Rightarrow> nat \<Rightarrow> FirewallConfig option \<Rightarrow> string \<Rightarrow> unit cact" where
  "fw_Configure E p config role = (case config of
      None \<Rightarrow> ret ()
    | Some c \<Rightarrow>
        if \<not> fwc_Configure c then ret ()
        else andthen (run_checked E p (role_script role) None ''firewall configuration'') (\<lambda>_.
          let additionalPorts = concat (map open_port_line (fwc_AdditionalPorts c))
          in if additionalPorts \<noteq> [] then andthen (run_script E p (ports_script additionalPorts) None) (\<lambda>_. ret ()) else ret ()))"

subsection \<open>SELinux\<close>

definition selinuxScript :: "string" where
  \<open>selinuxScript = script_lines [
    ''#!/bin/bash'',
    ''set -euo pipefail'',
    [],
    ''echo "=== Configuring SELinux ==="'',
    [],
    ''if ! command -v getenforce &>/dev/null; then'',
    ''    echo "SELinux not installed, skipping"'',
    ''    exit 0'',
    ''fi'',
    [],
    ''SELINUX_STATUS=$(getenforce)'',
    ''echo "Current SELinux status: $SELINUX_STATUS"'',
    [],
    ''if [ "$SELINUX_STATUS" = "Disabled" ]; then'',
    ''    echo "SELinux is disabled, skipping"'',
    ''    exit 0'',
    ''fi'',
    [],
    ''install_containerd_selinux() {'',
    ''    echo "--- Configuring containerd SELinux ---"'',
    [],
    ''    if command -v semodule &>/dev/null; then'',
    ''        if semodule -l 2>/dev/null | grep -q containerd; then'',
    ''            echo "containerd SELinux policy already installed"'',
    ''        else'',
    ''            echo "Installing containerd SELinux policy"'',
    ''            if command -v dnf &>/dev/null; then'',
    ''                dnf install -y container-selinux 2>/dev/null || true'',
    ''            elif command -v yum &>/dev/null; then'',
    ''                yum install -y container-selinux 2>/dev/null || true'',
    ''            fi'',
    ''        fi'',
    ''    fi'',
    ''}'',
    [],
    ''configure_kubelet_selinux() {'',
    ''    echo "--- Configuring kubelet SELinux context ---"'',
    [],
    ''    if command -v semanage &>/dev/null; then'',
    ''        semanage fcontext -a -t var_lib_t "/var/lib/kubelet(/.*)?" 2>/dev/null || true'',
    ''        restorecon -Rv /var/lib/kubelet 2>/dev/null || true'',
    ''    fi'',
    ''}'',
    [],
    ''configure_cni_selinux() {'',
    ''    echo "--- Configuring CNI SELinux context ---"'',
    [],
    ''    if [ -d /etc/cni ]; then'',
    ''        restorecon -Rv /etc/cni 2>/dev/null || true'',
    ''    fi'',
    [],
    ''    if [ -d /opt/cni ]; then'',
    ''        restorecon -Rv /opt/cni 2>/dev/null || true'',
    ''    fi'',
    ''}'',
    [],
    ''install_containerd_selinux'',
    ''configure_kubelet_selinux'',
    ''configure_cni_selinux'',
    [],
    ''echo "=== SELinux configuration completed ==="'']\<close>

definition se_Configure :: "env \<Rightarrow> nat \<Rightarrow> SELinuxConfig option \<Rightarrow> unit cact" where
  "se_Configure E p config = (case config of
      None \<Rightarrow> ret ()
    | Some c \<Rightarrow> if \<not> sec_Configure c then ret () else run_checked E p selinuxScript None ''SELinux configuration'')"

subsection \<open>Node bootstrap\<close>

definition hostname_script :: "string \<Rightarrow> string" where
  \<open>hostname_script name = script_lines [
    ''#!/bin/bash'',
    ''set -euo pipefail'',
    [],
    ''echo "=== Configuring hostname ==="'',
    [],
    ''CURRENT_HOSTNAME=$(hostname)'',
    ''DESIRED_HOSTNAME="'' @ name @ ''"'',
    [],
    ''if [ "$CURRENT_HOSTNAME" = "$DESIRED_HOSTNAME" ]; then'',
    ''    echo "Hostname already set to $DESIRED_HOSTNAME"'',
    ''    exit 0'',
    ''fi'',
    [],
    ''hostnamectl set-hostname "$DESIRED_HOSTNAME"'',
    [],
    ''# Update /etc/hostname'',
    ''echo "$DESIRED_HOSTNAME" > /etc/hostname'',
    [],
    ''echo "Hostname set to $DESIRED_HOSTNAME"'',
    ''echo "=== Hostname configured ==="'']\<close>

definition hosts_script :: "string \<Rightarrow> string" where
  \<open>hosts_script entries = script_lines [
    ''#!/bin/bash'',
    ''set -euo pipefail'',
    [],
    ''echo "=== Configuring /etc/hosts ==="'',
    [],
    ''# Backup existing hosts file'',
    ''cp /etc/hosts /etc/hosts.bak.$(date +%Y%m%d%H%M%S) 2>/dev/null || true'',
    [],
    ''# Add entries if not already present'',
    ''HOSTS_ENTRIES='' @ [CHR 0x27] @ entries @ [CHR 0x27],
    [],
    ''while IFS= read -r line; do'',
    ''    ip=$(echo "$line" | awk '' @ [CHR 0x27] @ ''{print $1}'' @ [CHR 0x27] @ '')'',
    ''    if ! grep -q "^${ip} " /etc/hosts; then'',
    ''        echo "$line" >> /etc/hosts'',
    ''        echo "Added: $line"'',
    ''    else'',
    ''        echo "Already exists: $line"'',
    ''    fi'',
    ''done <<< "$HOSTS_ENTRIES"'',
    [],
    ''echo "=== /etc/hosts configured ==="'']\<close>

definition swap_script :: "string" where
  \<open>swap_script = script_lines [
    ''#!/bin/bash'',
    ''set -euo pipefail'',
    [],
    ''echo "=== Disabling swap ==="'',
    [],
    ''# Check if swap is enabled'',
    ''if ! swapon --show | grep -q .; then'',
    ''    echo "Swap is already disabled"'',
    ''    exit 0'',
    ''fi'',
    [],
    ''# Temporarily disable swap'',
    ''swapoff -a'',
    [],
    ''# Permanently disable swap by commenting out swap entries in /etc/fstab'',
    ''if grep -q "['' @ ''[:space:]]swap['' @ ''[:space:]]" /etc/fstab; then'',
    ''    sed -i '' @ [CHR 0x27] @ ''/['' @ ''[:space:]]swap['' @ ''[:space:]]/s/^/#/'' @ [CHR 0x27] @ '' /etc/fstab'',
    ''    echo "Swap disabled permanently in /etc/fstab"'',
    ''else'',
    ''    echo "No swap entry found in /etc/fstab"'',
    ''fi'',
    [],
    ''# Verify'',
    ''if swapon --show | grep -q .; then'',
    ''    echo "ERROR: Swap is still enabled"'',
    ''    exit 1'',
    ''fi'',
    [],
    ''echo "=== Swap disabled successfully ==="'']\<close>

definition modules_script :: "string \<Rightarrow> string" where
  \<open>modules_script names = script_lines [
    ''#!/bin/bash'',
    ''set -euo pipefail'',
    [],
    ''echo "=== Loading kernel modules ==="'',
    [],
    ''MODULES="'' @ names @ ''"'',
    [],
    ''mkdir -p /etc/modules-load.d'',
    [],
    ''for module in $MODULES; do'',
    ''    if lsmod | grep -q "^${module} "; then'',
    ''        echo "Module $module already loaded"'',
    ''    else'',
    ''        echo "Loading module $module"'',
    ''        if ! modprobe "$module" 2>/dev/null; then'',
    ''            echo "WARNING: Failed to load module $module (may not be available)"'',
    ''        fi'',
    ''    fi'',
    ''    '',
    ''    # Ensure module loads on boot'',
    ''    if [ ! -f "/etc/modules-load.d/k8s.conf" ] || ! grep -q "^${module}$" /etc/modules-load.d/k8s.conf; then'',
    ''        echo "$module" >> /etc/modules-load.d/k8s.conf'',
    ''    fi'',
    ''done'',
    [],
    ''echo "=== Kernel modules configured ==="'']\<close>

definition sysctl_script :: "string \<Rightarrow> string" where
  \<open>sysctl_script settings = script_lines [
    ''#!/bin/bash'',
    ''set -euo pipefail'',
    [],
    ''echo "=== Configuring sysctl ==="'',
    [],
    ''cat > /etc/sysctl.d/k8s.conf << '' @ [CHR 0x27] @ ''EOF'' @ [CHR 0x27],
    settings,
    ''EOF'',
    [],
    ''sysctl --system'',
    [],
    ''echo "=== Sysctl configured ==="'']\<close>

definition time_script :: "string" where
  \<open>time_script = script_lines [
    ''#!/bin/bash'',
    ''set -euo pipefail'',
    [],
    ''echo "=== Configuring time synchronization ==="'',
    [],
    ''# Detect available time sync service'',
    ''if command -v chronyd &>/dev/null || command -v chronyc &>/dev/null; then'',
    ''    echo "Chrony is installed, ensuring it'' @ [CHR 0x27] @ ''s enabled"'',
    ''    systemctl enable --now chronyd 2>/dev/null || systemctl enable --now chrony 2>/dev/null || true'',
    ''elif command -v ntpd &>/dev/null; then'',
    ''    echo "NTP is installed, ensuring it'' @ [CHR 0x27] @ ''s enabled"'',
    ''    systemctl enable --now ntpd 2>/dev/null || systemctl enable --now ntp 2>/dev/null || true'',
    ''elif command -v timedatectl &>/dev/null; then'',
    ''    echo "Using systemd-timesyncd"'',
    ''    timedatectl set-ntp true 2>/dev/null || true'',
    ''    systemctl enable --now systemd-timesyncd 2>/dev/null || true'',
    ''else'',
    ''    echo "WARNING: No time synchronization service found, installing chrony"'',
    ''    if command -v apt-get &>/dev/null; then'',
    ''        apt-get update && apt-get install -y chrony 2>/dev/null || true'',
    ''        systemctl enable --now chrony 2>/dev/null || true'',
    ''    elif command -v dnf &>/dev/null; then'',
    ''        dnf install -y chrony 2>/dev/null || true'',
    ''        systemctl enable --now chronyd 2>/dev/null || true'',
    ''    elif command -v yum &>/dev/null; then'',
    ''        yum install -y chrony 2>/dev/null || true'',
    ''        systemctl enable --now chronyd 2>/dev/null || true'',
    ''    fi'',
    ''fi'',
    [],
    ''echo "=== Time synchronization configured ==="'']\<close>

definition configureHostname :: "env \<Rightarrow> nat \<Rightarrow> NodeBootstrapConfig \<Rightarrow> string \<Rightarrow> unit cact" where
  "configureHostname E p c hostname =
     (let name = (if nbc_Hostname c = [] then hostname else nbc_Hostname c)
      in if name = [] then ret () else run_checked E p (hostname_script name) None ''configure hostname'')"

definition hosts_line :: "HostsEntry \<Rightarrow> string" where
  "hosts_line h = hse_IP h @ '' '' @ join_with '' '' (hse_Hostnames h)"

definition hosts_content :: "HostsEntry list \<Rightarrow> string" where
  "hosts_content hs = join_with [CHR 0x0A] (map hosts_line hs)"

definition configureHosts :: "env \<Rightarrow> nat \<Rightarrow> NodeBootstrapConfig \<Rightarrow> unit cact" where
  "configureHosts E p c = run_checked E p (hosts_script (hosts_content (nbc_HostsEntries c))) None ''configure hosts''"

definition disableSwap :: "env \<Rightarrow> nat \<Rightarrow> unit cact" where
  "disableSwap E p = run_checked E p swap_script None ''disable swap''"

definition loadKernelModules :: "env \<Rightarrow> nat \<Rightarrow> NodeBootstrapConfig \<Rightarrow> unit cact" where
  "loadKernelModules E p c = run_checked E p (modules_script (join_with '' '' (nbc_KernelModules c))) None ''load kernel modules''"

definition sysctl_content :: "labels \<Rightarrow> string list \<Rightarrow> string" where
  "sysctl_content params keys = ''# Kubernetes sysctl settings'' @ [CHR 0x0A]
     @ concat (map (\<lambda>k. k @ '' = '' @ (case map_of params k of None \<Rightarrow> [] | Some v \<Rightarrow> v) @ [CHR 0x0A]) keys)"

definition configureSysctl :: "env \<Rightarrow> nat \<Rightarrow> NodeBootstrapConfig \<Rightarrow> unit cact" where
  "configureSysctl E p c = andthen (range_map E (map fst (nbc_SysctlParams c))) (\<lambda>keys.
     run_checked E p (sysctl_script (sysctl_content (nbc_SysctlParams c) keys)) None ''configure sysctl'')"

definition configureTimeSync :: "env \<Rightarrow> nat \<Rightarrow> unit cact" where
  "configureTimeSync E p = run_checked E p time_script None ''configure time sync''"

text \<open>One step of \<open>Bootstrap\<close>: guarded, its error wrapped, its name added to the steps done.\<close>

definition boot_step :: "bool \<Rightarrow> string \<Rightarrow> string \<Rightarrow> unit cact \<Rightarrow> string list \<Rightarrow> string list cact" where
  "boot_step b name what m steps =
     (if b then check m (wrap (''failed to '' @ what @ '': '')) (\<lambda>_. ret (steps @ [name])) else ret steps)"

definition Bootstrap :: "env \<Rightarrow> nat \<Rightarrow> NodeBootstrapConfig option \<Rightarrow> string \<Rightarrow> string list cact" where
  "Bootstrap E p config hostname = (case config of
      None \<Rightarrow> panic nil_deref
    | Some c \<Rightarrow>
        andthen (boot_step (nbc_Hostname c \<noteq> [] \<or> hostname \<noteq> []) ''hostname'' ''configure hostname'' (configureHostname E p c hostname) []) (\<lambda>s1.
        andthen (boot_step (nbc_HostsEntries c \<noteq> []) ''hosts'' ''configure hosts'' (configureHosts E p c) s1) (\<lambda>s2.
        andthen (boot_step (nbc_DisableSwap c) ''swap'' ''disable swap'' (disableSwap E p) s2) (\<lambda>s3.
        andthen (boot_step (nbc_KernelModules c \<noteq> []) ''kernel_modules'' ''load kernel modules'' (loadKernelModules E p c) s3) (\<lambda>s4.
        andthen (boot_step (nbc_SysctlParams c \<noteq> []) ''sysctl'' ''configure sysctl'' (configureSysctl E p c) s4) (\<lambda>s5.
          boot_step (nbc_TimeSync c) ''time_sync'' ''configure time sync'' (configureTimeSync E p) s5))))))"

subsection \<open>Verification\<close>

record VerificationResult =
  vr_Passed :: bool
  vr_Errors :: "string list"

definition quoted :: "string \<Rightarrow> string" where
  "quoted s = [CHR 0x27] @ s @ [CHR 0x27]"

definition version_command :: "string \<Rightarrow> string \<Rightarrow> string" where
  "version_command tool args = ''command -v '' @ tool @ '' 2>/dev/null && '' @ tool @ '' '' @ args @ '' || echo '' @ quoted ''NOT_FOUND''"

definition active_command :: "string \<Rightarrow> string \<Rightarrow> string \<Rightarrow> string" where
  "active_command unit_name yes no = ''systemctl is-active --quiet '' @ unit_name @ '' && echo '' @ quoted yes @ '' || echo '' @ quoted no"

definition check_binary :: "env \<Rightarrow> nat \<Rightarrow> string \<Rightarrow> string \<Rightarrow> unit cact" where
  "check_binary E p tool args =
     check (ExecuteCommand E p (version_command tool args) None) (wrap (''failed to check '' @ tool @ '': '')) (\<lambda>r.
       if contains (cr_Stdout r) ''NOT_FOUND'' then fail (Errorf (tool @ '' binary not found'')) else ret ())"

definition checkContainerd :: "env \<Rightarrow> nat \<Rightarrow> unit cact" where
  "checkContainerd E p =
     andthen (check_binary E p ''containerd'' ''--version'') (\<lambda>_.
     check (ExecuteCommand E p (active_command ''containerd'' ''running'' ''not_running'') None) (wrap ''failed to check containerd service: '') (\<lambda>r.
       if TrimSpace (cr_Stdout r) \<noteq> ''running'' then fail (Errorf ''containerd service is not running'') else ret ()))"

definition checkKubeadm :: "env \<Rightarrow> nat \<Rightarrow> unit cact" where
  "checkKubeadm E p = check_binary E p ''kubeadm'' ''version -o short''"

definition checkKubelet :: "env \<Rightarrow> nat \<Rightarrow> unit cact" where
  "checkKubelet E p = check_binary E p ''kubelet'' ''--version''"

definition checkServices :: "env \<Rightarrow> nat \<Rightarrow> unit cact" where
  "checkServices E p =
     check (ExecuteCommand E p (active_command ''kubelet'' ''kubelet:running'' ''kubelet:not_running'') None) (wrap ''failed to check kubelet service: '') (\<lambda>r.
       if contains (TrimSpace (cr_Stdout r)) ''not_running''
       then fail (Errorf ''kubelet service is not active (may be normal before kubeadm init)'') else ret ())"

definition dir_command :: "string \<Rightarrow> string" where
  "dir_command dir = ''[ -d '' @ dir @ '' ] && echo '' @ quoted ''exists'' @ '' || echo '' @ quoted ''missing''"

definition verified_dirs :: "string list" where
  "verified_dirs = [''/etc/kubernetes'', ''/var/lib/kubelet'', ''/etc/containerd'']"

definition check_dir :: "env \<Rightarrow> nat \<Rightarrow> string \<Rightarrow> unit cact" where
  "check_dir E p dir =
     check (ExecuteCommand E p (dir_command dir) None) (wrap (''failed to check directory '' @ dir @ '': '')) (\<lambda>r.
       if TrimSpace (cr_Stdout r) = ''missing'' then fail (Errorf (''directory '' @ dir @ '' does not exist'')) else ret ())"

definition checkFilesystems :: "env \<Rightarrow> nat \<Rightarrow> unit cact" where
  "checkFilesystems E p = for_each verified_dirs (check_dir E p)"

definition verify_checks :: "env \<Rightarrow> nat \<Rightarrow> (string \<times> unit cact) list" where
  "verify_checks E p = [(''containerd'', checkContainerd E p), (''kubeadm'', checkKubeadm E p), (''kubelet'', checkKubelet E p),
     (''services'', checkServices E p), (''filesystems'', checkFilesystems E p)]"

fun verify_loop :: "(string \<times> unit cact) list \<Rightarrow> VerificationResult \<Rightarrow> VerificationResult cact" where
  "verify_loop [] res = ret res"
| "verify_loop ((name, m) # cs) res = attempt m (\<lambda>r. verify_loop cs (case r of
      Inl e \<Rightarrow> res\<lparr>vr_Errors := vr_Errors res @ [name @ '': '' @ error_string e], vr_Passed := False\<rparr>
    | Inr _ \<Rightarrow> res))"

definition VerifyInstallation :: "env \<Rightarrow> nat \<Rightarrow> VerificationResult cact" where
  "VerifyInstallation E p = verify_loop (verify_checks E p) \<lparr>vr_Passed = True, vr_Errors = []\<rparr>"

section \<open>Plans of scripts\<close>

text \<open>
  \<open>ran_plan E n ctx Ps l0 l1\<close>: between the two logs, scripts with the properties \<open>Ps\<close> ran on the node, in this
  order, each with exit code 0.
\<close>

fun ran_plan :: "env \<Rightarrow> string \<Rightarrow> duration option \<Rightarrow> (string \<Rightarrow> bool) list \<Rightarrow> log \<Rightarrow> log \<Rightarrow> bool" where
  "ran_plan E n ctx [] l0 l1 \<longleftrightarrow> prefix l0 l1"
| "ran_plan E n ctx (P # Ps) l0 l1 \<longleftrightarrow> (\<exists>s l. P s \<and> ran_ok E n s ctx l0 l \<and> ran_plan E n ctx Ps l l1)"

lemma ran_ok_grows: "ran_ok E n s ctx l0 l1 \<Longrightarrow> prefix l0 l1"
  by (auto simp: ran_ok_def executed_def)

lemma ran_plan_earlier: "ran_plan E n ctx Ps l l1 \<Longrightarrow> prefix l0 l \<Longrightarrow> ran_plan E n ctx Ps l0 l1"
proof (cases Ps)
  case (Cons P Qs)
  assume "ran_plan E n ctx Ps l l1" "prefix l0 l"
  with Cons obtain s l' where "P s" "ran_ok E n s ctx l l'" "ran_plan E n ctx Qs l' l1" by auto
  moreover from this \<open>prefix l0 l\<close> have "ran_ok E n s ctx l0 l'"
    using ran_ok_widen [of E n s ctx l0 _ l' "[]"] by (auto simp: prefix_def)
  ultimately show ?thesis using Cons by auto
qed auto

lemma ran_plan_append:
  "ran_plan E n ctx Ps l0 l \<Longrightarrow> ran_plan E n ctx Qs l l1 \<Longrightarrow> ran_plan E n ctx (Ps @ Qs) l0 l1"
  by (induction Ps arbitrary: l0) (auto intro: ran_plan_earlier)

lemma ran_plan_grows: "ran_plan E n ctx Ps l0 l1 \<Longrightarrow> prefix l0 l1"
proof (induction Ps arbitrary: l0)
  case (Cons P Ps)
  then obtain s l where "ran_ok E n s ctx l0 l" "ran_plan E n ctx Ps l l1" by auto
  with Cons.IH [of l] ran_ok_grows show ?case by (blast intro: prefix_order.trans)
qed simp

lemma ran_plan_later: "ran_plan E n ctx Ps l0 l \<Longrightarrow> prefix l l1 \<Longrightarrow> ran_plan E n ctx Ps l0 l1"
  using ran_plan_append [of E n ctx Ps l0 l "[]" l1] by simp

lemma in_session_planned:
  assumes "P script"
  shows "in_session p n port (run_checked E p script ctx what) (\<lambda>_. ran_plan E n ctx [P])"
  by (rule in_session_weaken [OF in_session_run_checked]) (use assms in auto)

text \<open>
  \<open>ran_exactly E n ctx Ps l0 l1\<close>: the second log is the first with the runs of scripts with the properties \<open>Ps\<close>
  on the node behind it, in this order and each with exit code 0, and with nothing else.
\<close>

fun ran_exactly :: "env \<Rightarrow> string \<Rightarrow> duration option \<Rightarrow> (string \<Rightarrow> bool) list \<Rightarrow> log \<Rightarrow> log \<Rightarrow> bool" where
  "ran_exactly E n ctx [] l0 l1 \<longleftrightarrow> l1 = l0"
| "ran_exactly E n ctx (P # Ps) l0 l1 \<longleftrightarrow> (\<exists>s creds out err. P s
     \<and> s_run (ssh E) (l0 @ [EvSession n]) n (script_command creds s) ctx = RunDone out err 0
     \<and> ran_exactly E n ctx Ps (l0 @ [EvSession n, EvExec n (script_command creds s) ctx, EvNow]) l1)"

lemma ran_exactly_append:
  "ran_exactly E n ctx Ps l0 l \<Longrightarrow> ran_exactly E n ctx Qs l l1 \<Longrightarrow> ran_exactly E n ctx (Ps @ Qs) l0 l1"
  by (induction Ps arbitrary: l0) auto

lemma ran_exactly_plan: "ran_exactly E n ctx Ps l0 l1 \<Longrightarrow> ran_plan E n ctx Ps l0 l1"
proof (induction Ps arbitrary: l0)
  case (Cons P Ps)
  then obtain s creds out err where s: "P s"
    "s_run (ssh E) (l0 @ [EvSession n]) n (script_command creds s) ctx = RunDone out err 0"
    "ran_exactly E n ctx Ps (l0 @ [EvSession n, EvExec n (script_command creds s) ctx, EvNow]) l1" by auto
  have "executed E n s ctx \<lparr>cr_Stdout = out, cr_Stderr = err, cr_ExitCode = 0\<rparr> l0
      (l0 @ [EvSession n, EvExec n (script_command creds s) ctx, EvNow])"
    unfolding executed_def using s(2) by (intro exI [of _ "[EvSession n]"] exI [of _ "[EvNow]"] exI [of _ creds]) simp
  then have "ran_ok E n s ctx l0 (l0 @ [EvSession n, EvExec n (script_command creds s) ctx, EvNow])"
    unfolding ran_ok_def by (metis CommandResult.select_convs(3))
  with s(1) Cons.IH [OF s(3)] show ?case by auto
qed simp

lemma in_session_exactly:
  assumes "P script"
  shows "in_session p n port (run_checked E p script ctx what) (\<lambda>_. ran_exactly E n ctx [P])"
  unfolding in_session_def
proof (intro allI impI)
  fix w r w' assume w: "pool_wf w" "conn_at w p n port" and run: "run_checked E p script ctx what w = (r, w')"
  note session = in_sessionD [OF in_session_run_checked w run]
  have "ran_exactly E n ctx [P] (w_log w) (w_log w')" if "r = Ok x" for x
  proof -
    let ?cmd = "script_command (sc_Credentials (w_conns w ! p)) script"
    have deref: "ExecuteScript E p script ctx w = ExecuteCommand E p ?cmd ctx w"
      using w(2) by (simp add: ExecuteScript_def act_simps deref_def conn_at_def)
    obtain r1 w1 where ex: "ExecuteCommand E p ?cmd ctx w = (r1, w1)" by (metis surj_pair)
    from run that ex deref obtain y where y: "r1 = Ok y" "cr_ExitCode y = 0" "w' = w1"
      by (cases r1) (auto simp: run_checked_def run_script_def act_simps split: if_splits)
    with execute_command [OF ex w(2)] have "w_log w' = w_log w @ [EvSession n, EvExec n ?cmd ctx, EvNow]"
      "s_run (ssh E) (w_log w @ [EvSession n]) n ?cmd ctx = RunDone (cr_Stdout y) (cr_Stderr y) 0" by auto
    with assms show ?thesis by auto
  qed
  with session show "pool_wf w' \<and> conn_at w' p n port \<and> prefix (w_log w) (w_log w')
      \<and> (\<forall>x. r = Ok x \<longrightarrow> ran_exactly E n ctx [P] (w_log w) (w_log w'))" by blast
qed

section \<open>Bootstrap\<close>

definition boot_plan :: "NodeBootstrapConfig \<Rightarrow> string \<Rightarrow> (string \<times> (string \<Rightarrow> bool)) list" where
  "boot_plan c hostname =
     (if nbc_Hostname c \<noteq> [] \<or> hostname \<noteq> []
      then [(''hostname'', (=) (hostname_script (if nbc_Hostname c = [] then hostname else nbc_Hostname c)))] else [])
   @ (if nbc_HostsEntries c \<noteq> [] then [(''hosts'', (=) (hosts_script (hosts_content (nbc_HostsEntries c))))] else [])
   @ (if nbc_DisableSwap c then [(''swap'', (=) swap_script)] else [])
   @ (if nbc_KernelModules c \<noteq> [] then [(''kernel_modules'', (=) (modules_script (join_with '' '' (nbc_KernelModules c))))] else [])
   @ (if nbc_SysctlParams c \<noteq> [] then [(''sysctl'', \<lambda>s. \<exists>keys. mset keys = mset (map fst (nbc_SysctlParams c))
        \<and> s = sysctl_script (sysctl_content (nbc_SysctlParams c) keys))] else [])
   @ (if nbc_TimeSync c then [(''time_sync'', (=) time_script)] else [])"

text \<open>What a step of the plan leaves: the names of the steps done so far, and their scripts in the log.\<close>

definition planned :: "env \<Rightarrow> string \<Rightarrow> (string \<times> (string \<Rightarrow> bool)) list \<Rightarrow> string list \<Rightarrow> string list \<Rightarrow> log \<Rightarrow> log \<Rightarrow> bool" where
  "planned E n plan before steps l0 l1 \<longleftrightarrow> steps = before @ map fst plan \<and> ran_exactly E n None (map snd plan) l0 l1"

lemma in_session_range:
  assumes "range_ok E" and "\<And>ys. mset ys = mset ks \<Longrightarrow> in_session p n port (k ys) Q"
  shows "in_session p n port (andthen (range_map E ks) k) Q"
  unfolding in_session_def
proof (intro allI impI)
  fix w r w' assume w: "pool_wf w" "conn_at w p n port" "andthen (range_map E ks) k w = (r, w')"
  let ?ys = "h_range (host E) (w_log w) ks"
  have "mset ?ys = mset ks" using assms(1) by (simp add: range_ok_def ranges_keys_def)
  moreover have "k ?ys w = (r, w')" using w by (simp add: range_map_def act_simps)
  ultimately show "pool_wf w' \<and> conn_at w' p n port \<and> prefix (w_log w) (w_log w') \<and> (\<forall>x. r = Ok x \<longrightarrow> Q x (w_log w) (w_log w'))"
    using assms(2) [of ?ys] w unfolding in_session_def by blast
qed

lemma planned_step:
  assumes "b \<Longrightarrow> in_session p n port m (\<lambda>_. ran_exactly E n None [P])"
  shows "in_session p n port (boot_step b name what m before) (planned E n (if b then [(name, P)] else []) before)"
proof (cases b)
  case True
  have "in_session p n port (check m (wrap (''failed to '' @ what @ '': '')) (\<lambda>_. ret (before @ [name]))) (planned E n [(name, P)] before)"
    by (rule in_session_then [OF assms [OF True], where R = "\<lambda>y l0 l1. y = before @ [name] \<and> l1 = l0"])
       (simp_all add: in_session_basic(1) planned_def)
  with True show ?thesis by (simp add: boot_step_def)
qed (auto intro: in_session_retI simp: boot_step_def planned_def)

lemma planned_then:
  assumes "in_session p n port m (planned E n plan before)" and "\<And>steps. in_session p n port (k steps) (planned E n rest steps)"
  shows "in_session p n port (andthen m k) (planned E n (plan @ rest) before)"
  by (rule in_session_weaken [OF in_session_check [OF assms]])
     (auto simp: planned_def intro: ran_exactly_append)

lemma bootstrap_session:
  assumes "range_ok E"
  shows "in_session p n port (Bootstrap E p (Some c) hostname) (planned E n (boot_plan c hostname) [])"
proof -
  have sysctl: "in_session p n port (configureSysctl E p c) (\<lambda>_. ran_exactly E n None [\<lambda>s. \<exists>keys. mset keys = mset (map fst (nbc_SysctlParams c))
      \<and> s = sysctl_script (sysctl_content (nbc_SysctlParams c) keys)])"
    unfolding configureSysctl_def by (rule in_session_range [OF assms], rule in_session_exactly) blast
  have name: "in_session p n port (configureHostname E p c hostname)
      (\<lambda>_. ran_exactly E n None [(=) (hostname_script (if nbc_Hostname c = [] then hostname else nbc_Hostname c))])"
    if "nbc_Hostname c \<noteq> [] \<or> hostname \<noteq> []"
    using that by (auto simp: configureHostname_def intro: in_session_exactly)
  show ?thesis unfolding Bootstrap_def option.case boot_plan_def
    by (intro planned_then planned_step sysctl name)
       (simp_all add: configureHosts_def disableSwap_def loadKernelModules_def configureTimeSync_def in_session_exactly del: ran_exactly.simps)
qed

text \<open>
  (C38) A bootstrap that returns has done exactly what the configuration asks for: the steps it reports are
  those configured, and what it did on the host is, in this order, the run of the script of each of these steps
  with exit code 0 (the settings for sysctl in the order in which the map was ranged over), and nothing else.
\<close>

theorem Bootstrap_correct:
  assumes "range_ok E" and "pool_wf w" and "conn_at w p n port" and "Bootstrap E p (Some c) hostname w = (Ok steps, w')"
  shows "steps = map fst (boot_plan c hostname) \<and> ran_exactly E n None (map snd (boot_plan c hostname)) (w_log w) (w_log w')"
  using in_sessionD(4) [OF bootstrap_session [OF assms(1)] assms(2-4)] by (simp add: planned_def)

section \<open>Firewall and SELinux\<close>

lemma in_session_firewall:
  "in_session p n port (fw_Configure E p (Some c) role) (\<lambda>_ l0 l1. fwc_Configure c \<longrightarrow> ran_plan E n None [(=) (role_script role)] l0 l1)"
proof -
  have "in_session p n port (andthen (run_script E p s None) (\<lambda>_. ret ())) (\<lambda>_ _ _. True)" for s
    by (rule in_session_then [OF in_session_run_script, where R = "\<lambda>_ _ _. True"]) (auto intro: in_session_retI)
  then have rest: "in_session p n port (let ports = concat (map open_port_line (fwc_AdditionalPorts c))
      in if ports \<noteq> [] then andthen (run_script E p (ports_script ports) None) (\<lambda>_. ret ()) else ret ()) (\<lambda>_ _ _. True)"
    by (auto simp: Let_def intro: in_session_retI)
  show ?thesis
  proof (cases "fwc_Configure c")
    case True
    have "in_session p n port (andthen (run_checked E p (role_script role) None what) (\<lambda>_. let ports = concat (map open_port_line (fwc_AdditionalPorts c))
        in if ports \<noteq> [] then andthen (run_script E p (ports_script ports) None) (\<lambda>_. ret ()) else ret ()))
      (\<lambda>_. ran_plan E n None [(=) (role_script role)])" for what
      by (rule in_session_then [OF in_session_planned [where P = "(=) (role_script role)"] rest]) (blast intro: ran_plan_later)+
    with True show ?thesis by (simp add: fw_Configure_def del: ran_plan.simps)
  qed (auto simp: fw_Configure_def intro: in_session_retI)
qed

lemma in_session_selinux:
  "in_session p n port (se_Configure E p (Some c)) (\<lambda>_ l0 l1. sec_Configure c \<longrightarrow> ran_plan E n None [(=) selinuxScript] l0 l1)"
  by (cases "sec_Configure c")
     (auto simp: se_Configure_def simp del: ran_plan.simps intro: in_session_retI in_session_planned)

section \<open>Verification\<close>

text \<open>
  \<open>answered E n plan l0 l1\<close>: between the two logs the host was asked the commands of the plan, in order, and each
  answer was acceptable. \<open>calm\<close> is a session that cannot panic.
\<close>

fun answered :: "env \<Rightarrow> string \<Rightarrow> (string \<times> (string \<Rightarrow> bool)) list \<Rightarrow> log \<Rightarrow> log \<Rightarrow> bool" where
  "answered E n [] l0 l1 \<longleftrightarrow> prefix l0 l1"
| "answered E n ((cmd, ok) # plan) l0 l1 \<longleftrightarrow> (\<exists>r l. commanded E n cmd None r l0 l \<and> ok (cr_Stdout r) \<and> answered E n plan l l1)"

lemma answered_earlier: "answered E n plan l l1 \<Longrightarrow> prefix l0 l \<Longrightarrow> answered E n plan l0 l1"
proof (cases plan)
  case (Cons c cs)
  assume a: "answered E n plan l l1" "prefix l0 l"
  obtain cmd ok where c: "c = (cmd, ok)" by (metis surj_pair)
  with a Cons obtain r l' where "commanded E n cmd None r l l'" "ok (cr_Stdout r)" "answered E n cs l' l1" by auto
  moreover from this a(2) have "commanded E n cmd None r l0 l'" by (blast intro: commanded_widen prefix_order.refl)
  ultimately show ?thesis using Cons c by auto
qed auto

lemma answered_append:
  "answered E n plan l0 l \<Longrightarrow> answered E n plan' l l1 \<Longrightarrow> answered E n (plan @ plan') l0 l1"
  by (induction E n plan l0 l rule: answered.induct) (auto intro: answered_earlier)

definition calm :: "nat \<Rightarrow> string \<Rightarrow> int \<Rightarrow> 'a cact \<Rightarrow> ('a \<Rightarrow> log \<Rightarrow> log \<Rightarrow> bool) \<Rightarrow> bool" where
  "calm p n port m Q \<longleftrightarrow> in_session p n port m Q \<and> (\<forall>w r w' s. conn_at w p n port \<longrightarrow> pool_wf w \<longrightarrow> m w = (r, w') \<longrightarrow> r \<noteq> Panic s)"

lemma calm_question:
  assumes "\<And>r. (\<forall>s w. fst (k r w) \<noteq> Panic s) \<and> in_session p n port (k r) (\<lambda>_ l0 l1. ok (cr_Stdout r) \<and> l1 = l0)"
  shows "calm p n port (check (ExecuteCommand E p cmd None) f k) (\<lambda>_. answered E n [(cmd, ok)])"
proof -
  have "in_session p n port (check (ExecuteCommand E p cmd None) f k) (\<lambda>_. answered E n [(cmd, ok)])"
    by (rule in_session_weaken [OF in_session_check [OF in_session_command]]) (use assms in auto)
  moreover have "r \<noteq> Panic s" if "conn_at w p n port" "check (ExecuteCommand E p cmd None) f k w = (r, w')" for w r w' s
  proof -
    obtain r1 w1 where c: "ExecuteCommand E p cmd None w = (r1, w1)" by (metis surj_pair)
    note execute_command [OF c that(1)]
    with c that(2) assms show ?thesis by (auto simp: check_apply split: res.splits) (metis fst_conv)
  qed
  ultimately show ?thesis by (auto simp: calm_def)
qed

lemma calm_then:
  assumes "calm p n port m (\<lambda>_. answered E n plan)" and "calm p n port k (\<lambda>_. answered E n plan')"
  shows "calm p n port (andthen m (\<lambda>_. k)) (\<lambda>_. answered E n (plan @ plan'))"
proof -
  have "in_session p n port (andthen m (\<lambda>_. k)) (\<lambda>_. answered E n (plan @ plan'))"
    by (rule in_session_weaken [OF in_session_check [where R = "\<lambda>_ _. answered E n plan'"]])
       (use assms in \<open>auto simp: calm_def intro: answered_append\<close>)
  moreover have "r \<noteq> Panic s" if "conn_at w p n port" "pool_wf w" "andthen m (\<lambda>_. k) w = (r, w')" for w r w' s
  proof -
    obtain r1 w1 where m: "m w = (r1, w1)" by (metis surj_pair)
    from assms(1) have ses: "in_session p n port m (\<lambda>_. answered E n plan)" and quiet: "r1 \<noteq> Panic s" for s
      using that m unfolding calm_def by blast+
    note in_sessionD(1,2) [OF ses that(2,1) m] quiet
    with assms(2) m that(3) show ?thesis unfolding calm_def by (auto simp: check_apply split: res.splits)
  qed
  ultimately show ?thesis by (auto simp: calm_def)
qed

definition runs_version :: "string \<Rightarrow> string \<Rightarrow> string \<times> (string \<Rightarrow> bool)" where
  "runs_version tool args = (version_command tool args, \<lambda>out. \<not> contains out ''NOT_FOUND'')"

definition verify_plans :: "(string \<times> (string \<Rightarrow> bool)) list list" where
  "verify_plans = [
     [runs_version ''containerd'' ''--version'', (active_command ''containerd'' ''running'' ''not_running'', \<lambda>out. TrimSpace out = ''running'')],
     [runs_version ''kubeadm'' ''version -o short''], [runs_version ''kubelet'' ''--version''],
     [(active_command ''kubelet'' ''kubelet:running'' ''kubelet:not_running'', \<lambda>out. \<not> contains (TrimSpace out) ''not_running'')],
     map (\<lambda>dir. (dir_command dir, \<lambda>out. TrimSpace out \<noteq> ''missing'')) verified_dirs]"

lemma calm_judge: "(\<forall>s w. fst ((if b then fail e else ret ()) w) \<noteq> Panic s)
    \<and> in_session p n port (if b then fail e else ret ()) (\<lambda>_ l0 l1. \<not> b \<and> l1 = l0)"
  by (auto simp: act_simps intro: in_session_basic in_session_retI)

lemma calm_binary: "calm p n port (check_binary E p tool args) (\<lambda>_. answered E n [runs_version tool args])"
  unfolding check_binary_def runs_version_def by (rule calm_question, rule calm_judge)

lemma calm_each:
  assumes "\<And>x. calm p n port (f x) (\<lambda>_. answered E n [plan x])"
  shows "calm p n port (for_each xs f) (\<lambda>_. answered E n (map plan xs))"
proof (induction xs)
  case Nil
  have ses: "in_session p n port (ret ()) (\<lambda>_. answered E n [])" by (rule in_session_retI) simp
  show ?case unfolding calm_def for_each.simps list.map by (intro conjI ses) (auto simp: ret_apply)
next
  case (Cons x xs)
  from calm_then [OF assms [of x] Cons] show ?case by simp
qed

lemma calm_checks: "list_all2 (\<lambda>(name, m) plan. calm p n port m (\<lambda>_. answered E n plan)) (verify_checks E p) verify_plans"
proof -
  have "calm p n port (checkContainerd E p) (\<lambda>_. answered E n ([runs_version ''containerd'' ''--version'']
      @ [(active_command ''containerd'' ''running'' ''not_running'', \<lambda>out. TrimSpace out = ''running'')]))"
    unfolding checkContainerd_def
    by (rule calm_then [OF calm_binary], rule calm_question) (auto simp: act_simps intro: in_session_basic in_session_retI)
  moreover have "calm p n port (checkServices E p) (\<lambda>_. answered E n
      [(active_command ''kubelet'' ''kubelet:running'' ''kubelet:not_running'', \<lambda>out. \<not> contains (TrimSpace out) ''not_running'')])"
    unfolding checkServices_def by (rule calm_question, rule calm_judge)
  moreover have "calm p n port (checkFilesystems E p) (\<lambda>_. answered E n (map (\<lambda>dir. (dir_command dir, \<lambda>out. TrimSpace out \<noteq> ''missing'')) verified_dirs))"
    unfolding checkFilesystems_def by (rule calm_each, unfold check_dir_def, rule calm_question, rule calm_judge)
  ultimately show ?thesis
    by (simp add: verify_checks_def verify_plans_def checkKubeadm_def checkKubelet_def calm_binary)
qed

lemma calmD:
  assumes "calm p n port m Q" and "pool_wf w" and "conn_at w p n port" and "m w = (r, w')"
  shows "pool_wf w'" "conn_at w' p n port" "prefix (w_log w) (w_log w')" "r = Ok x \<Longrightarrow> Q x (w_log w) (w_log w')" "r \<noteq> Panic s"
  using assms unfolding calm_def in_session_def by blast+

lemma verify_loop_sound:
  assumes "list_all2 (\<lambda>(name, m) plan. calm p n port m (\<lambda>_. answered E n plan)) cs plans"
    and "pool_wf w" and "conn_at w p n port" and "verify_loop cs res w = (r, w')" and "vr_Passed res \<longleftrightarrow> vr_Errors res = []"
  shows "\<exists>res'. r = Ok res' \<and> (vr_Passed res' \<longleftrightarrow> vr_Errors res' = []) \<and> (vr_Passed res' \<longrightarrow> vr_Passed res \<and> answered E n (concat plans) (w_log w) (w_log w'))"
  using assms
proof (induction cs plans arbitrary: w res rule: list_all2_induct)
  case Nil
  then show ?case by (auto simp: act_simps)
next
  case (Cons c cs plan plans)
  obtain name m where c: "c = (name, m)" by (metis surj_pair)
  obtain r1 w1 where m: "m w = (r1, w1)" by (metis surj_pair)
  from Cons.hyps(1) c have "calm p n port m (\<lambda>_. answered E n plan)" by simp
  note k = calmD [OF this Cons.prems(1,2) m]
  let ?bad = "\<lambda>e. res\<lparr>vr_Errors := vr_Errors res @ [name @ '': '' @ error_string e], vr_Passed := False\<rparr>"
  show ?case
  proof (cases r1)
    case (Ok x)
    with Cons.prems(3) c m have "verify_loop cs res w1 = (r, w')" by (simp add: act_simps)
    from Cons.IH [OF k(1,2) this Cons.prems(4)] k(4) [OF Ok] show ?thesis by (auto intro: answered_append)
  next
    case (Err e)
    with Cons.prems(3) c m have "verify_loop cs (?bad e) w1 = (r, w')" by (simp add: act_simps)
    from Cons.IH [OF k(1,2) this] show ?thesis by auto
  next
    case (Panic s)
    with k(5) show ?thesis by blast
  qed
qed

text \<open>
  The verification of a host over an open connection always returns a result, without panic or
  error; the result is positive exactly when it lists no error, and a positive result is backed by
  the host: it was asked for the three binaries, the two services and the three directories, in
  this order, and every answer was acceptable.
\<close>

theorem VerifyInstallation_sound:
  assumes "pool_wf w" and "conn_at w p n port" and "VerifyInstallation E p w = (r, w')"
  shows "\<exists>res. r = Ok res \<and> (vr_Passed res \<longleftrightarrow> vr_Errors res = [])
    \<and> (vr_Passed res \<longrightarrow> answered E n (concat verify_plans) (w_log w) (w_log w'))"
  using verify_loop_sound [OF calm_checks assms(1,2) assms(3) [unfolded VerifyInstallation_def]] by simp

section \<open>Examples\<close>

definition ex_session :: world where
  "ex_session = empty_world\<lparr>w_conns := [\<lparr>sc_Client = Some 0, sc_Host = ''node-1'', sc_Port = 22, sc_LastUsed = 0, sc_Credentials = None\<rparr>]\<rparr>"

definition answering_env :: "string \<Rightarrow> env" where
  "answering_env out = quiet_env\<lparr>ssh := quiet_ssh\<lparr>s_run := (\<lambda>l h c t. RunDone out [] 0)\<rparr>\<rparr>"

lemma ex_session_simps [simp]: "pool_wf ex_session" "conn_at ex_session 0 ''node-1'' 22"
  by (simp_all add: ex_session_def empty_world_def pool_wf_def pool_inv_def conn_at_def)

text \<open>A host that accepts every session and answers every command with exit code 0.\<close>

definition obliging :: "env \<Rightarrow> (string \<Rightarrow> string) \<Rightarrow> bool" where
  "obliging E out \<longleftrightarrow> ssh E = quiet_ssh\<lparr>s_run := (\<lambda>l h c t. RunDone (out c) [] 0)\<rparr> \<and> host E = quiet_host"

lemma obliging_answering [simp]: "obliging (answering_env out) (\<lambda>_. out)"
  by (simp add: obliging_def answering_env_def quiet_env_def)

lemma obliging_command:
  assumes "obliging E out" and "conn_at w p n port"
  shows "\<exists>w'. ExecuteCommand E p cmd ctx w = (Ok \<lparr>cr_Stdout = out cmd, cr_Stderr = [], cr_ExitCode = 0\<rparr>, w') \<and> conn_at w' p n port"
  using assms
  by (auto simp: ExecuteCommand_def act_simps deref_def conn_at_def query_def command_def time_Now_def touch_def state_defs
      obliging_def quiet_ssh_def quiet_host_def split: option.splits)

lemmas answering_command = obliging_command [OF obliging_answering]

lemma obliging_script:
  assumes "obliging E out" and "conn_at w p n port"
  shows "\<exists>x w'. run_script E p script ctx w = (Ok x, w') \<and> cr_ExitCode x = 0 \<and> conn_at w' p n port"
proof -
  obtain creds where "sc_Credentials (w_conns w ! p) = creds" by blast
  with assms(2) obliging_command [OF assms, of "script_command creds script" ctx] show ?thesis
    by (auto simp: run_script_def ExecuteScript_def act_simps deref_def conn_at_def state_defs)
qed

lemma obliging_run:
  assumes "obliging E out" and "conn_at w p n port"
  shows "\<exists>w'. run_checked E p script ctx what w = (Ok (), w') \<and> conn_at w' p n port"
  using obliging_script [OF assms, of script ctx] by (auto simp: run_checked_def act_simps)

lemmas answering_script = obliging_run [OF obliging_answering]

text \<open>\<open>gives p n port m x\<close>: over a live connection \<open>m\<close> returns \<open>x\<close> and leaves the connection live.\<close>

definition gives :: "nat \<Rightarrow> string \<Rightarrow> int \<Rightarrow> 'a cact \<Rightarrow> 'a \<Rightarrow> bool" where
  "gives p n port m x \<longleftrightarrow> (\<forall>w. conn_at w p n port \<longrightarrow> (\<exists>w'. m w = (Ok x, w') \<and> conn_at w' p n port))"

lemma gives_ret [simp]: "gives p n port (ret x) x"
  by (simp add: gives_def ret_apply)

lemma gives_check: "gives p n port m x \<Longrightarrow> gives p n port (k x) y \<Longrightarrow> gives p n port (check m f k) y"
  unfolding gives_def by (fastforce simp: check_apply)

lemma gives_attempt: "gives p n port m x \<Longrightarrow> gives p n port (k (Inr x)) y \<Longrightarrow> gives p n port (attempt m k) y"
  unfolding gives_def by (fastforce simp: attempt_apply)

abbreviation answer :: "string \<Rightarrow> CommandResult" where
  "answer out \<equiv> \<lparr>cr_Stdout = out, cr_Stderr = [], cr_ExitCode = 0\<rparr>"

lemma gives_obliging: "obliging E out \<Longrightarrow> gives p n port (ExecuteCommand E p cmd ctx) (answer (out cmd))"
  using obliging_command by (auto simp: gives_def)

lemma gives_run: "obliging E out \<Longrightarrow> gives p n port (run_checked E p script ctx what) ()"
  using obliging_run by (auto simp: gives_def)

lemmas gives_command [simp] = gives_obliging [OF obliging_answering]

abbreviation succeeds :: "nat \<Rightarrow> string \<Rightarrow> int \<Rightarrow> unit cact \<Rightarrow> bool" where
  "succeeds p n port m \<equiv> gives p n port m ()"

lemma succeeds_question:
  assumes "k (answer out) = ret ()"
  shows "succeeds p n port (check (ExecuteCommand (answering_env out) p cmd ctx) f k)"
  by (rule gives_check [OF gives_command]) (simp add: assms)

lemma succeeds_each: "(\<And>x. succeeds p n port (f x)) \<Longrightarrow> succeeds p n port (for_each xs f)"
proof (induction xs)
  case (Cons x xs)
  from gives_check [OF Cons.prems [of x] Cons.IH [OF Cons.prems]] show ?case by simp
qed simp

lemma verify_loop_passes:
  "list_all (\<lambda>(name, m). succeeds p n port m) cs \<Longrightarrow> conn_at w p n port \<Longrightarrow> \<exists>w'. verify_loop cs res w = (Ok res, w')"
proof (induction cs arbitrary: w)
  case (Cons c cs)
  obtain name m where c: "c = (name, m)" by (metis surj_pair)
  with Cons.prems obtain w1 where "m w = (Ok (), w1)" "conn_at w1 p n port" by (auto simp: gives_def)
  with Cons c show ?case by (simp add: attempt_apply)
qed (simp add: ret_apply)

lemma running_answers:
  "\<not> contains ''running'' ''NOT_FOUND''" "\<not> contains ''running'' ''not_running''" "TrimSpace ''running'' = ''running''" "TrimSpace ''running'' \<noteq> ''missing''"
  by code_simp+

lemma healthy_checks: "list_all (\<lambda>(name, m). succeeds p n port m) (verify_checks (answering_env ''running'') p)"
  unfolding verify_checks_def checkContainerd_def checkKubeadm_def checkKubelet_def checkServices_def checkFilesystems_def check_binary_def check_dir_def
  by (auto intro!: gives_check [where x = "()"] succeeds_each succeeds_question simp: running_answers)

theorem VerifyInstallation_witness:
  "\<exists>w'. VerifyInstallation (answering_env ''running'') 0 ex_session = (Ok \<lparr>vr_Passed = True, vr_Errors = []\<rparr>, w')
    \<and> answered (answering_env ''running'') ''node-1'' (concat verify_plans) (w_log ex_session) (w_log w')"
proof -
  obtain w' where w': "VerifyInstallation (answering_env ''running'') 0 ex_session = (Ok \<lparr>vr_Passed = True, vr_Errors = []\<rparr>, w')"
    using verify_loop_passes [OF healthy_checks, of ex_session 0 "''node-1''" 22] by (auto simp: VerifyInstallation_def)
  with VerifyInstallation_sound [OF _ _ w', of "''node-1''" 22] show ?thesis by simp
qed

definition ex_boot :: NodeBootstrapConfig where
  "ex_boot = \<lparr>nbc_Enabled = True, nbc_Hostname = [], nbc_HostsEntries = [], nbc_DisableSwap = True, nbc_KernelModules = [], nbc_SysctlParams = [], nbc_TimeSync = False\<rparr>"

theorem Bootstrap_witness:
  "\<exists>w'. Bootstrap (answering_env []) 0 (Some ex_boot) [] ex_session = (Ok [''swap''], w')
    \<and> ran_exactly (answering_env []) ''node-1'' None [(=) swap_script] (w_log ex_session) (w_log w')"
proof -
  have "conn_at ex_session 0 ''node-1'' 22" by simp
  from answering_script [OF this, of "[]" swap_script None "''disable swap''"] obtain w' where
    w': "Bootstrap (answering_env []) 0 (Some ex_boot) [] ex_session = (Ok [''swap''], w')"
    by (auto simp: Bootstrap_def boot_step_def ex_boot_def disableSwap_def check_apply ret_apply)
  have "range_ok (answering_env [])" using range_ok_quiet by (simp add: range_ok_def answering_env_def)
  from Bootstrap_correct [OF this _ _ w', of "''node-1''" 22] w' show ?thesis
    by (simp add: boot_plan_def ex_boot_def del: ran_exactly.simps)
qed

end
