(* ===== verification/Bm_Installer.thy ===== *)
theory Bm_Installer
  imports Bm_Host Bm_Scripts
begin

text \<open>
  Installation of container runtime and Kubernetes components on a host, \<open>modules/capbm/internal/installer\<close>:
  detection of the operating system (\<open>detector.go\<close>), the progress file (\<open>progress.go\<close>), the installer
  (\<open>installer.go\<close>). \<open>encode\<close> is \<open>json.Marshal\<close> of a progress record, a parameter.
\<close>

section \<open>Definitions\<close>

subsection \<open>Operating system\<close>

record OSInfo =
  os_Type :: string
  os_Version :: string
  os_ID :: string
  os_IDLike :: string
  os_PackageMgr :: string
  os_Arch :: string

definition os_pair :: "string \<Rightarrow> (string \<times> string) option" where
  "os_pair raw = (let line = TrimSpace raw in
     if line = [] \<or> HasPrefix line ''#'' then None
     else if CHR ''='' \<in> set line
       then Some (takeWhile (\<lambda>c. c \<noteq> CHR ''='') line, trim_by (\<lambda>c. c = CHR 0x22 \<or> c = CHR 0x27) (tl (dropWhile (\<lambda>c. c \<noteq> CHR ''='') line)))
     else None)"

definition os_values :: "string \<Rightarrow> labels" where
  "os_values content = fold (\<lambda>(k, v) m. upd_key k v m) (List.map_filter os_pair (split_on CHR 0x0A content)) []"

definition os_value :: "labels \<Rightarrow> string \<Rightarrow> string" where
  "os_value m k = (case map_of m k of None \<Rightarrow> [] | Some v \<Rightarrow> v)"

definition classify_os :: "string \<Rightarrow> string \<Rightarrow> string \<times> string" where
  "classify_os rawID idLike =
     (if contains rawID ''ubuntu'' then (''ubuntu'', ''ubuntu'')
      else if contains rawID ''debian'' then (''debian'', ''debian'')
      else if contains rawID ''centos'' then (''rhel'', ''centos'')
      else if contains rawID ''rhel'' then (''rhel'', ''rhel'')
      else if contains rawID ''rocky'' then (''rhel'', ''rocky'')
      else if contains rawID ''alma'' then (''rhel'', ''almalinux'')
      else if contains rawID ''fedora'' then (''rhel'', ''fedora'')
      else if contains rawID ''amzn'' then (''rhel'', ''amazonlinux'')
      else if contains rawID ''opensuse'' \<or> contains rawID ''sles'' \<or> contains rawID ''suse'' then (''suse'', rawID)
      else if contains rawID ''flatcar'' then (''flatcar'', ''flatcar'')
      else if contains idLike ''debian'' \<or> contains idLike ''ubuntu'' then (''debian'', rawID)
      else if contains idLike ''rhel'' \<or> contains idLike ''centos'' \<or> contains idLike ''fedora'' then (''rhel'', rawID)
      else ([], rawID))"

definition parseOSRelease :: "string \<Rightarrow> string \<times> string \<times> string \<times> string" where
  "parseOSRelease content =
     (let m = os_values content; rawID = ToLower (os_value m ''ID''); idLike = ToLower (os_value m ''ID_LIKE'');
          (ty, n) = classify_os rawID idLike
      in (ty, os_value m ''VERSION_ID'', n, idLike))"

definition detectPackageManager :: "string \<Rightarrow> string" where
  "detectPackageManager osType =
     (if osType \<in> set [''ubuntu'', ''debian''] then ''apt''
      else if osType \<in> set [''rhel'', ''centos'', ''rocky'', ''almalinux'', ''fedora'', ''amazonlinux''] then ''yum''
      else if osType \<in> set [''suse'', ''opensuse'', ''sles''] then ''zypper''
      else if osType = ''flatcar'' then ''none''
      else ''unknown'')"

definition Detect :: "env \<Rightarrow> nat \<Rightarrow> duration option \<Rightarrow> OSInfo cact" where
  "Detect E p ctx =
     attempt (ExecuteCommand E p (''cat /etc/os-release 2>/dev/null || echo '' @ quoted []) ctx) (\<lambda>r.
       case r of
         Inl e \<Rightarrow> fail (Errorf ''failed to detect OS: cannot read /etc/os-release'')
       | Inr x \<Rightarrow>
           if cr_Stdout x = [] then fail (Errorf ''failed to detect OS: cannot read /etc/os-release'')
           else case parseOSRelease (cr_Stdout x) of (ty, ver, n, like) \<Rightarrow>
             if ty = [] then fail (Errorf (''unsupported OS: '' @ cr_Stdout x))
             else attempt (ExecuteCommand E p ''uname -m'' ctx) (\<lambda>a.
               ret \<lparr>os_Type = ty, os_Version = ver, os_ID = n, os_IDLike = like, os_PackageMgr = detectPackageManager ty,
                    os_Arch = (case a of Inl e \<Rightarrow> ''amd64'' | Inr y \<Rightarrow> if cr_Stdout y \<noteq> [] then TrimSpace (cr_Stdout y) else ''amd64'')\<rparr>))"

subsection \<open>Progress\<close>

definition progressFile :: string where
  "progressFile = ''/tmp/.capbm_install_progress''"

record InstallProgress =
  ip_Step :: string
  ip_Status :: string
  ip_Message :: string
  ip_Timestamp :: timestamp

type_synonym progress_json = "InstallProgress \<Rightarrow> error + string"

definition writeProgress :: "env \<Rightarrow> progress_json \<Rightarrow> nat \<Rightarrow> InstallProgress \<Rightarrow> unit cact" where
  "writeProgress E encode p progress = (case encode progress of
      Inl e \<Rightarrow> ret ()
    | Inr data \<Rightarrow> attempt (ExecuteCommand E p (''echo '' @ quoted data @ '' > '' @ progressFile) (Some (5 * second))) (\<lambda>_. ret ()))"

definition post_progress :: "env \<Rightarrow> progress_json \<Rightarrow> nat \<Rightarrow> string \<Rightarrow> string \<Rightarrow> string \<Rightarrow> unit cact" where
  "post_progress E encode p step status message =
     andthen (time_Now E) (\<lambda>now. writeProgress E encode p \<lparr>ip_Step = step, ip_Status = status, ip_Message = message, ip_Timestamp = now\<rparr>)"

definition updateProgress :: "env \<Rightarrow> progress_json \<Rightarrow> nat \<Rightarrow> string \<Rightarrow> string \<Rightarrow> unit cact" where
  "updateProgress E encode p step message = post_progress E encode p step ''running'' message"

definition MarkProgressFailed :: "env \<Rightarrow> progress_json \<Rightarrow> nat \<Rightarrow> string \<Rightarrow> string \<Rightarrow> unit cact" where
  "MarkProgressFailed E encode p step errMsg = post_progress E encode p step ''failed'' errMsg"

definition MarkProgressCompleted :: "env \<Rightarrow> progress_json \<Rightarrow> nat \<Rightarrow> string \<Rightarrow> unit cact" where
  "MarkProgressCompleted E encode p step = post_progress E encode p step ''completed'' ''Installation completed successfully''"

definition GetProgress :: "env \<Rightarrow> (string \<Rightarrow> error + InstallProgress) \<Rightarrow> nat \<Rightarrow> duration option \<Rightarrow> InstallProgress cact" where
  "GetProgress E decode p ctx =
     andthen (ExecuteCommand E p (''cat '' @ progressFile @ '' 2>/dev/null || echo '' @ quoted ''{}'') ctx) (\<lambda>r.
       case decode (cr_Stdout r) of Inl e \<Rightarrow> fail (wrap ''failed to parse progress: '' e) | Inr x \<Rightarrow> ret x)"

subsection \<open>Script variables\<close>

definition prependEnvVar :: "string \<Rightarrow> string \<Rightarrow> string \<Rightarrow> string" where
  "prependEnvVar script key val = (if val = [] then script else key @ ''='' @ go_quote val @ [CHR 0x0A] @ script)"

text \<open>\<open>prependEnvVars\<close> for the order in which the map is ranged over.\<close>

definition prependEnvVars :: "string \<Rightarrow> labels \<Rightarrow> string list \<Rightarrow> string" where
  "prependEnvVars script envVars keys =
     fold (\<lambda>k s. case map_of envVars k of None \<Rightarrow> s | Some val \<Rightarrow> if val \<noteq> [] then prependEnvVar s k val else s) keys script"

definition mirror_text :: "RegistryMirrorEntry list \<Rightarrow> string" where
  "mirror_text ms = fold (\<lambda>m acc. (if acc \<noteq> [] then acc @ '';'' else acc) @ rme_Host m @ ''='' @ join_with '','' (rme_Endpoints m)) ms []"

definition plain_mirrors :: "string list \<Rightarrow> string" where
  "plain_mirrors ms = fold (\<lambda>m acc. (if acc \<noteq> [] then acc @ '','' else acc) @ m) ms []"

definition runtime_vars :: "ContainerRuntimeConfig \<Rightarrow> string \<Rightarrow> string" where
  "runtime_vars c script = (case crc_Config c of
      Some g \<Rightarrow>
        let s1 = (if rtc_SystemdCgroup g = Some True then prependEnvVar script ''SYSTEMD_CGROUP'' ''true'' else script);
            s2 = (if rtc_SandboxImage g \<noteq> [] then prependEnvVar s1 ''SANDBOX_IMAGE'' (rtc_SandboxImage g) else s1);
            s3 = (case rtc_MaxConcurrentDownloads g of None \<Rightarrow> s2 | Some n \<Rightarrow> prependEnvVar s2 ''MAX_CONCURRENT_DOWNLOADS'' (show_int n));
            s4 = (if rtc_RegistryMirrors g \<noteq> [] then prependEnvVar s3 ''REGISTRY_MIRRORS'' (mirror_text (rtc_RegistryMirrors g)) else s3)
        in if rtc_RawConfig g \<noteq> [] then prependEnvVar s4 ''RAW_CONFIG'' (rtc_RawConfig g) else s4
    | None \<Rightarrow>
        if crc_RegistryMirrors c \<noteq> [] then prependEnvVar script ''REGISTRY_MIRRORS'' (plain_mirrors (crc_RegistryMirrors c)) else script)"

definition source_vars :: "AirGapConfig option \<Rightarrow> string \<Rightarrow> string" where
  "source_vars ag script = (case ag of
      Some a \<Rightarrow>
        if \<not> agc_Enabled a then prependEnvVar script ''INSTALL_SOURCE'' ''online''
        else if agc_BinarySource a = ''HTTPServer'' then
          let s1 = prependEnvVar script ''INSTALL_SOURCE'' ''http''
          in (case agc_HTTPServerConfig a of None \<Rightarrow> s1 | Some h \<Rightarrow> prependEnvVar s1 ''RELEASE_SERVER'' (bhs_BaseURL h))
        else if agc_BinarySource a = ''LocalPath'' then
          prependEnvVar (prependEnvVar script ''INSTALL_SOURCE'' ''local'') ''LOCAL_PATH'' (agc_LocalPath a)
        else prependEnvVar script ''INSTALL_SOURCE'' ''http''
    | None \<Rightarrow> prependEnvVar script ''INSTALL_SOURCE'' ''online'')"

definition extra_args :: "labels \<Rightarrow> string list \<Rightarrow> string" where
  "extra_args args keys =
     fold (\<lambda>k acc. (if acc \<noteq> [] then acc @ '' '' else acc) @ ''--'' @ k @ ''='' @ (case map_of args k of None \<Rightarrow> [] | Some v \<Rightarrow> v)) keys []"

definition kubelet_vars :: "KubeletConfig \<Rightarrow> string list \<Rightarrow> string \<Rightarrow> string" where
  "kubelet_vars kc keys script =
     (let s1 = (if klc_CgroupDriver kc \<noteq> [] then prependEnvVar script ''CGROUP_DRIVER'' (klc_CgroupDriver kc) else script);
          s2 = (case klc_MaxPods kc of None \<Rightarrow> s1 | Some n \<Rightarrow> prependEnvVar s1 ''MAX_PODS'' (show_int n));
          s3 = (if klc_ExtraArgs kc \<noteq> [] then prependEnvVar s2 ''EXTRA_ARGS'' (extra_args (klc_ExtraArgs kc) keys) else s2)
      in if klc_RawConfig kc \<noteq> [] then prependEnvVar s3 ''KUBELET_RAW_CONFIG'' (klc_RawConfig kc) else s3)"

definition repository_vars :: "PackageRepository option \<Rightarrow> string \<Rightarrow> string" where
  "repository_vars r script = (case r of
      None \<Rightarrow> script
    | Some x \<Rightarrow>
        let s1 = (if prp_BaseURL x \<noteq> [] then prependEnvVar script ''REPO_BASE_URL'' (prp_BaseURL x) else script)
        in if prp_GPGKey x \<noteq> [] then prependEnvVar s1 ''REPO_GPG_KEY'' (prp_GPGKey x) else s1)"

subsection \<open>Versions\<close>

definition extractVersion :: "string \<Rightarrow> string" where
  "extractVersion output =
     (let o' = TrimSpace output; before = takeWhile (\<lambda>c. \<not> is_digit c) o'; after = dropWhile (\<lambda>c. \<not> is_digit c) o'
      in if after = [] then o'
         else rev (takeWhile (\<lambda>c. c = CHR ''v'' \<or> c = CHR ''.'') (rev before)) @ takeWhile (\<lambda>c. is_digit c \<or> c = CHR ''.'') after)"

record existingComponents =
  ec_ContainerRuntime :: string
  ec_Kubeadm :: string
  ec_Kubelet :: string
  ec_Kubectl :: string

definition allMatch :: "existingComponents \<Rightarrow> string \<Rightarrow> string \<Rightarrow> bool" where
  "allMatch ec k8sVersion crVersion =
     (let expectedK8s = ''v'' @ k8sVersion in
      if ec_Kubeadm ec \<noteq> [] \<and> ec_Kubeadm ec \<noteq> expectedK8s then False
      else if ec_Kubelet ec \<noteq> [] \<and> ec_Kubelet ec \<noteq> expectedK8s then False
      else if crVersion \<noteq> [] \<and> ec_ContainerRuntime ec \<noteq> [] \<and> ec_ContainerRuntime ec \<noteq> crVersion then False
      else ec_Kubeadm ec \<noteq> [] \<or> ec_Kubelet ec \<noteq> [] \<or> ec_ContainerRuntime ec \<noteq> [])"

definition runtime_type :: "ComponentInstallConfig \<Rightarrow> string" where
  "runtime_type c = (if crc_Type (cic_ContainerRuntime c) = [] then ''containerd'' else crc_Type (cic_ContainerRuntime c))"

definition or_nothing :: string where
  "or_nothing = '' || echo '' @ quoted []"

text \<open>Ask for a version: an error is wrapped, an empty answer gives the zero value.\<close>

definition ask :: "env \<Rightarrow> nat \<Rightarrow> duration option \<Rightarrow> string \<Rightarrow> string \<Rightarrow> (string \<Rightarrow> string) \<Rightarrow> string cact" where
  "ask E p ctx cmd what f =
     check (ExecuteCommand E p cmd ctx) (wrap (''failed to check '' @ what @ '' version: '')) (\<lambda>r.
       ret (if cr_Stdout r \<noteq> [] then f (cr_Stdout r) else []))"

definition ask_runtime :: "env \<Rightarrow> nat \<Rightarrow> duration option \<Rightarrow> string \<Rightarrow> string cact" where
  "ask_runtime E p ctx ty =
     (if ty = ''containerd'' then ask E p ctx (''containerd --version 2>/dev/null'' @ or_nothing) ''containerd'' extractVersion
      else if ty = ''cri-o'' then ask E p ctx (''crio --version 2>/dev/null | head -1'' @ or_nothing) ''crio'' extractVersion
      else if ty = ''docker'' then ask E p ctx (''docker --version 2>/dev/null'' @ or_nothing) ''docker'' extractVersion
      else ret [])"

definition kubeadm_command :: string where
  "kubeadm_command = ''kubeadm version -o short 2>/dev/null'' @ or_nothing"

definition kubelet_command :: string where
  "kubelet_command = ''kubelet --version 2>/dev/null'' @ or_nothing"

definition ask_kubeadm :: "env \<Rightarrow> nat \<Rightarrow> duration option \<Rightarrow> string cact" where
  "ask_kubeadm E p ctx = ask E p ctx kubeadm_command ''kubeadm'' (\<lambda>s. s)"

definition ask_kubelet :: "env \<Rightarrow> nat \<Rightarrow> duration option \<Rightarrow> string cact" where
  "ask_kubelet E p ctx = ask E p ctx kubelet_command ''kubelet'' extractVersion"

definition checkExistingComponents :: "env \<Rightarrow> nat \<Rightarrow> duration option \<Rightarrow> ComponentInstallConfig \<Rightarrow> existingComponents cact" where
  "checkExistingComponents E p ctx c =
     andthen (ask_runtime E p ctx (runtime_type c)) (\<lambda>cr.
     andthen (ask_kubeadm E p ctx) (\<lambda>ka.
     andthen (ask_kubelet E p ctx) (\<lambda>kl.
     andthen (ask E p ctx (''kubectl version --client --short 2>/dev/null || kubectl version --client 2>/dev/null | grep ''
        @ quoted ''Client Version'' @ or_nothing) ''kubectl'' extractVersion) (\<lambda>kc.
       ret \<lparr>ec_ContainerRuntime = cr, ec_Kubeadm = ka, ec_Kubelet = kl, ec_Kubectl = kc\<rparr>))))"

record ComponentVersions =
  iv_ContainerRuntime :: string
  iv_Kubeadm :: string
  iv_Kubelet :: string
  iv_Kubectl :: string
  iv_OSType :: string
  iv_OSVersion :: string

definition collectVersions :: "env \<Rightarrow> nat \<Rightarrow> duration option \<Rightarrow> ComponentVersions cact" where
  "collectVersions E p ctx =
     andthen (ask E p ctx (''containerd --version 2>/dev/null || crio --version 2>/dev/null | head -1 || docker --version 2>/dev/null'' @ or_nothing)
        ''container runtime'' extractVersion) (\<lambda>cr.
     andthen (ask_kubeadm E p ctx) (\<lambda>ka.
     andthen (ask_kubelet E p ctx) (\<lambda>kl.
     attempt (ExecuteCommand E p (''kubectl version --client --short 2>/dev/null'' @ or_nothing) ctx) (\<lambda>r. case r of
       Inl e \<Rightarrow> panic nil_deref
     | Inr x \<Rightarrow> ret \<lparr>iv_ContainerRuntime = cr, iv_Kubeadm = ka, iv_Kubelet = kl,
          iv_Kubectl = (if cr_Stdout x \<noteq> [] then extractVersion (cr_Stdout x) else []), iv_OSType = [], iv_OSVersion = []\<rparr>))))"

subsection \<open>Installer\<close>

record Installer =
  ins_config :: "ComponentInstallConfig option"
  ins_releaseImage :: "ReleaseImage option"
  ins_k8sVersion :: string
  ins_role :: string

definition NewInstaller :: "ComponentInstallConfig option \<Rightarrow> string \<Rightarrow> string \<Rightarrow> Installer" where
  "NewInstaller config k8sVersion role = \<lparr>ins_config = config, ins_releaseImage = None, ins_k8sVersion = k8sVersion, ins_role = role\<rparr>"

definition NewWithReleaseImage :: "ReleaseImage \<Rightarrow> ComponentInstallConfig option \<Rightarrow> string \<Rightarrow> Installer" where
  "NewWithReleaseImage ri config role = \<lparr>ins_config = config, ins_releaseImage = Some ri,
     ins_k8sVersion = TrimPrefix (kc_Version (rc_Kubernetes (ris_Components (ri_Spec ri)))) ''v'', ins_role = role\<rparr>"

record InstallResult =
  ir_Completed :: bool
  ir_Success :: bool
  ir_Progress :: string
  ir_Versions :: ComponentVersions
  ir_Error :: string
  ir_RetryCount :: int

definition zero_Versions :: ComponentVersions where
  "zero_Versions = \<lparr>iv_ContainerRuntime = [], iv_Kubeadm = [], iv_Kubelet = [], iv_Kubectl = [], iv_OSType = [], iv_OSVersion = []\<rparr>"

definition install_done :: "string \<Rightarrow> ComponentVersions \<Rightarrow> InstallResult" where
  "install_done progress vs = \<lparr>ir_Completed = True, ir_Success = True, ir_Progress = progress, ir_Versions = vs, ir_Error = [], ir_RetryCount = 0\<rparr>"

definition runtime_script :: "ComponentInstallConfig \<Rightarrow> string list \<Rightarrow> string \<Rightarrow> string" where
  "runtime_script c keys base = source_vars (cic_AirGap c) (runtime_vars (cic_ContainerRuntime c)
     (prependEnvVars base [(''CONTAINERD_VERSION'', crc_Version (cic_ContainerRuntime c))] keys))"

definition installContainerRuntime :: "env \<Rightarrow> nat \<Rightarrow> duration option \<Rightarrow> ComponentInstallConfig \<Rightarrow> OSInfo \<Rightarrow> unit cact" where
  "installContainerRuntime E p ctx c os = (case getContainerRuntimeScript (runtime_type c) (os_Type os) of
      Inl e \<Rightarrow> fail (wrap ''failed to get container runtime script: '' e)
    | Inr script \<Rightarrow>
        andthen (range_map E [''CONTAINERD_VERSION'']) (\<lambda>keys.
          run_checked E p (runtime_script c keys script) ctx ''container runtime installation''))"

definition kubernetes_vars :: "Installer \<Rightarrow> labels" where
  "kubernetes_vars i = [(''K8S_VERSION'', ins_k8sVersion i), (''ROLE'', ins_role i)]"

definition kubelet_config :: "ComponentInstallConfig \<Rightarrow> KubeletConfig option" where
  "kubelet_config c = (case kcc_Config (cic_Kubernetes c) of None \<Rightarrow> None | Some g \<Rightarrow> kcf_Kubelet g)"

definition kubernetes_script :: "Installer \<Rightarrow> ComponentInstallConfig \<Rightarrow> string list \<Rightarrow> string list \<Rightarrow> string \<Rightarrow> string" where
  "kubernetes_script i c keys args base =
     (let s1 = repository_vars (kcc_Repository (cic_Kubernetes c)) (prependEnvVars base (kubernetes_vars i) keys);
          s2 = (case kubelet_config c of None \<Rightarrow> s1 | Some kc \<Rightarrow> kubelet_vars kc args s1)
      in source_vars (cic_AirGap c) s2)"

definition kubelet_keys :: "ComponentInstallConfig \<Rightarrow> string list" where
  "kubelet_keys c = (case kubelet_config c of None \<Rightarrow> [] | Some kc \<Rightarrow> map fst (klc_ExtraArgs kc))"

definition installKubernetesComponents :: "env \<Rightarrow> nat \<Rightarrow> duration option \<Rightarrow> Installer \<Rightarrow> ComponentInstallConfig \<Rightarrow> OSInfo \<Rightarrow> unit cact" where
  "installKubernetesComponents E p ctx i c os = (case getKubernetesScript (os_Type os) of
      Inl e \<Rightarrow> fail (wrap ''failed to get kubernetes installation script: '' e)
    | Inr script \<Rightarrow>
        andthen (range_map E [''K8S_VERSION'', ''ROLE'']) (\<lambda>keys.
        andthen (range_map E (kubelet_keys c)) (\<lambda>args.
          run_checked E p (kubernetes_script i c keys args script) ctx ''kubernetes components installation'')))"

definition executeInstall :: "env \<Rightarrow> progress_json \<Rightarrow> nat \<Rightarrow> duration option \<Rightarrow> Installer \<Rightarrow> ComponentInstallConfig \<Rightarrow> OSInfo \<Rightarrow> InstallResult cact" where
  "executeInstall E encode p ctx i c os =
     andthen (updateProgress E encode p ''starting'' ''Beginning component installation'') (\<lambda>_.
     andthen (installContainerRuntime E p ctx c os) (\<lambda>_.
     andthen (updateProgress E encode p ''container_runtime_done'' ''Container runtime installed successfully'') (\<lambda>_.
     andthen (installKubernetesComponents E p ctx i c os) (\<lambda>_.
     andthen (updateProgress E encode p ''kubernetes_done'' ''Kubernetes components installed successfully'') (\<lambda>_.
     andthen (collectVersions E p ctx) (\<lambda>vs.
       ret (install_done ''Installation completed successfully'' (vs\<lparr>iv_OSType := os_Type os, iv_OSVersion := os_Version os\<rparr>))))))))"

definition rollback_script :: string where
  \<open>rollback_script = script_lines [
    ''#!/bin/bash'',
    ''set -euo pipefail'',
    ''echo "=== Rolling back component installation ==="'',
    [],
    ''systemctl stop kubelet 2>/dev/null || true'',
    ''systemctl stop containerd 2>/dev/null || true'',
    ''systemctl stop crio 2>/dev/null || true'',
    ''systemctl stop docker 2>/dev/null || true'',
    [],
    ''if command -v apt-get &>/dev/null; then'',
    ''    apt-get remove -y kubelet kubeadm kubectl containerd 2>/dev/null || true'',
    ''elif command -v dnf &>/dev/null; then'',
    ''    dnf remove -y kubelet kubeadm kubectl containerd 2>/dev/null || true'',
    ''elif command -v yum &>/dev/null; then'',
    ''    yum remove -y kubelet kubeadm kubectl containerd 2>/dev/null || true'',
    ''elif command -v zypper &>/dev/null; then'',
    ''    zypper remove -y kubelet kubeadm kubectl containerd 2>/dev/null || true'',
    ''fi'',
    [],
    ''rm -f /tmp/.capbm_install_progress'',
    ''echo "=== Rollback completed ==="'']\<close>

definition rollback_install :: "env \<Rightarrow> nat \<Rightarrow> duration option \<Rightarrow> unit cact" where
  "rollback_install E p ctx = andthen (run_script E p rollback_script ctx) (\<lambda>_. ret ())"

text \<open>
  The retry loop: \<open>n\<close> more attempts are allowed after the one with number \<open>k\<close>. The result of the last error
  is what \<open>lastErr\<close> holds after the loop.
\<close>

fun install_loop :: "env \<Rightarrow> progress_json \<Rightarrow> nat \<Rightarrow> duration option \<Rightarrow> Installer \<Rightarrow> ComponentInstallConfig \<Rightarrow> OSInfo \<Rightarrow> int \<Rightarrow> nat \<Rightarrow> nat \<Rightarrow> InstallResult cact" where
  "install_loop E encode p ctx i c os maxRetries k n =
     andthen (when_act (k > 0)
       (andthen (updateProgress E encode p ''retrying'' (''Attempt '' @ show_int (int k + 1) @ ''/'' @ show_int (maxRetries + 1))) (\<lambda>_.
          time_Sleep (10 * second)))) (\<lambda>_.
     attempt (executeInstall E encode p ctx i c os) (\<lambda>r. case r of
       Inr res \<Rightarrow> ret res
     | Inl e \<Rightarrow> (case n of 0 \<Rightarrow> fail e | Suc m \<Rightarrow> install_loop E encode p ctx i c os maxRetries (Suc k) m)))"

definition max_retries :: "ComponentInstallConfig \<Rightarrow> int" where
  "max_retries c = (if cic_MaxRetries c \<le> 0 then 3 else cic_MaxRetries c)"

definition component_timeout :: "ComponentInstallConfig \<Rightarrow> duration" where
  "component_timeout c = (case cic_Timeout c of None \<Rightarrow> 5 * 60 * second | Some d \<Rightarrow> d)"

definition give_up :: "env \<Rightarrow> nat \<Rightarrow> duration option \<Rightarrow> ComponentInstallConfig \<Rightarrow> error \<Rightarrow> InstallResult cact" where
  "give_up E p ctx c lastErr =
     (if cic_RollbackOnError c
      then attempt (rollback_install E p ctx) (\<lambda>r. case r of
        Inl e \<Rightarrow> fail (Wrapf ''installation failed: '' lastErr (''; rollback also failed: '' @ error_string e))
      | Inr _ \<Rightarrow> fail lastErr)
      else fail lastErr)"

definition install_all :: "env \<Rightarrow> progress_json \<Rightarrow> nat \<Rightarrow> duration option \<Rightarrow> Installer \<Rightarrow> ComponentInstallConfig \<Rightarrow> OSInfo \<Rightarrow> InstallResult cact" where
  "install_all E encode p ctx i c os =
     attempt (install_loop E encode p ctx i c os (max_retries c) 0 (nat (max_retries c))) (\<lambda>r. case r of
       Inr res \<Rightarrow> ret res
     | Inl lastErr \<Rightarrow> give_up E p ctx c lastErr)"

definition Install :: "env \<Rightarrow> progress_json \<Rightarrow> nat \<Rightarrow> Installer \<Rightarrow> InstallResult cact" where
  "Install E encode p i = (case ins_config i of
      None \<Rightarrow> ret (install_done ''Installation disabled'' zero_Versions)
    | Some c \<Rightarrow>
        if \<not> cic_Enabled c then ret (install_done ''Installation disabled'' zero_Versions)
        else if cic_Strategy c = Skip then ret (install_done ''Installation skipped'' zero_Versions)
        else
          let ctx = Some (component_timeout c) in
          andthen (Detect E p ctx) (\<lambda>os.
            if cic_Strategy c = InstallIfMissing then
              andthen (checkExistingComponents E p ctx c) (\<lambda>ec.
                if allMatch ec (ins_k8sVersion i) (crc_Version (cic_ContainerRuntime c))
                then ret (install_done ''All components already installed with matching versions''
                  \<lparr>iv_ContainerRuntime = ec_ContainerRuntime ec, iv_Kubeadm = ec_Kubeadm ec, iv_Kubelet = ec_Kubelet ec, iv_Kubectl = ec_Kubectl ec,
                   iv_OSType = os_Type os, iv_OSVersion = os_Version os\<rparr>)
                else install_all E encode p ctx i c os)
            else install_all E encode p ctx i c os))"

section \<open>Every detected system can be installed\<close>

definition os_types :: "string list" where
  "os_types = [''ubuntu'', ''debian'', ''rhel'', ''suse'', ''flatcar'']"

lemma classify_os_type: "fst (classify_os rawID idLike) \<in> insert [] (set os_types)"
  unfolding classify_os_def os_types_def by simp

lemma Detect_type:
  assumes "Detect E p ctx w = (Ok os, w')"
  shows "os_Type os \<in> set os_types" and "os_PackageMgr os = detectPackageManager (os_Type os)"
proof -
  obtain r1 w1 where c: "ExecuteCommand E p (''cat /etc/os-release 2>/dev/null || echo '' @ quoted []) ctx w = (r1, w1)" by (metis surj_pair)
  with assms obtain x where x: "r1 = Ok x" "cr_Stdout x \<noteq> []"
    by (cases r1) (auto simp: Detect_def attempt_apply fail_apply split: if_splits)
  obtain ty ver n like where ty: "parseOSRelease (cr_Stdout x) = (ty, ver, n, like)" by (metis surj_pair)
  then have "ty \<in> insert [] (set os_types)"
    using classify_os_type [of "ToLower (os_value (os_values (cr_Stdout x)) ''ID'')" "ToLower (os_value (os_values (cr_Stdout x)) ''ID_LIKE'')"]
    by (auto simp: parseOSRelease_def Let_def split: prod.splits)
  moreover from assms c x ty have "ty \<noteq> []" "os_Type os = ty" "os_PackageMgr os = detectPackageManager ty"
    by (auto simp: Detect_def attempt_apply fail_apply ret_apply split: if_splits prod.splits res.splits)
  ultimately show "os_Type os \<in> set os_types" "os_PackageMgr os = detectPackageManager (os_Type os)" by auto
qed

text \<open>
  A system that is detected can be provisioned: its type is one of five, for which there is a containerd
  and a Kubernetes script and a known package manager. The default runtime therefore never fails
  for lack of a script.
\<close>

theorem detected_os_supported:
  assumes "Detect E p ctx w = (Ok os, w')"
  shows "os_Type os \<in> set os_types \<and> (\<exists>s. getContainerdScript (os_Type os) = Inr s) \<and> (\<exists>s. getKubernetesScript (os_Type os) = Inr s)
    \<and> os_PackageMgr os \<in> {''apt'', ''yum'', ''zypper'', ''none''}"
  using Detect_type [OF assms] by (auto simp: containerd_script_iff kubernetes_script_iff os_types_def detectPackageManager_def)

section \<open>What an installation has done\<close>

definition runtime_plan :: "ComponentInstallConfig \<Rightarrow> OSInfo \<Rightarrow> string \<Rightarrow> bool" where
  "runtime_plan c os s \<longleftrightarrow> (\<exists>base. getContainerRuntimeScript (runtime_type c) (os_Type os) = Inr base \<and> s = runtime_script c [''CONTAINERD_VERSION''] base)"

definition kubernetes_plan :: "Installer \<Rightarrow> ComponentInstallConfig \<Rightarrow> OSInfo \<Rightarrow> string \<Rightarrow> bool" where
  "kubernetes_plan i c os s \<longleftrightarrow> (\<exists>base keys args. getKubernetesScript (os_Type os) = Inr base \<and> mset keys = mset (map fst (kubernetes_vars i))
     \<and> mset args = mset (kubelet_keys c) \<and> s = kubernetes_script i c keys args base)"

lemma in_session_now: "in_session p n port (time_Now E) (\<lambda>_ _ _. True)"
  unfolding time_Now_def by (rule in_session_any [OF in_session_basic(3)])

lemma in_session_ignored:
  assumes "in_session p n port m Q"
  shows "in_session p n port (attempt m (\<lambda>r. ret (f r))) (\<lambda>_ _ _. True)"
  by (rule in_session_any [OF in_session_attempt [OF assms, where R = "\<lambda>_ _ _ _. True" and S = "\<lambda>_ _ _. True"]]) (auto intro: in_session_retI)

lemma in_session_progress: "in_session p n port (updateProgress E encode p step message) (\<lambda>_ _ _. True)"
proof -
  have "in_session p n port (writeProgress E encode p x) (\<lambda>_ _ _. True)" for x
    by (auto simp: writeProgress_def split: sum.split intro: in_session_retI in_session_ignored [OF in_session_command])
  then show ?thesis unfolding updateProgress_def post_progress_def
    by (rule in_session_then [OF in_session_now]) simp
qed

lemma in_session_ask: "in_session p n port (ask E p ctx cmd what f) (\<lambda>_ _ _. True)"
  unfolding ask_def by (rule in_session_then [OF in_session_command, where R = "\<lambda>_ _ _. True"]) (auto intro: in_session_retI)

lemma in_session_runtime:
  assumes "range_ok E"
  shows "in_session p n port (installContainerRuntime E p ctx c os) (\<lambda>_. ran_plan E n ctx [runtime_plan c os])"
proof (cases "getContainerRuntimeScript (runtime_type c) (os_Type os)")
  case (Inr base)
  have "in_session p n port (run_checked E p (runtime_script c keys base) ctx what) (\<lambda>_. ran_plan E n ctx [runtime_plan c os])"
    if "mset keys = mset [''CONTAINERD_VERSION'']" for keys what
  proof (rule in_session_planned)
    from that have "keys = [''CONTAINERD_VERSION'']" by (metis mset_single_iff_right mset.simps mset_single_iff)
    with Inr show "runtime_plan c os (runtime_script c keys base)" by (simp add: runtime_plan_def)
  qed
  with Inr show ?thesis unfolding installContainerRuntime_def by (simp only: sum.case) (rule in_session_range [OF assms])
qed (simp add: installContainerRuntime_def in_session_basic)

lemma in_session_kubernetes:
  assumes "range_ok E"
  shows "in_session p n port (installKubernetesComponents E p ctx i c os) (\<lambda>_. ran_plan E n ctx [kubernetes_plan i c os])"
proof (cases "getKubernetesScript (os_Type os)")
  case (Inr base)
  have "in_session p n port (run_checked E p (kubernetes_script i c keys args base) ctx what) (\<lambda>_. ran_plan E n ctx [kubernetes_plan i c os])"
    if "mset keys = mset [''K8S_VERSION'', ''ROLE'']" "mset args = mset (kubelet_keys c)" for keys args what
    by (rule in_session_planned) (use that Inr in \<open>auto simp: kubernetes_plan_def kubernetes_vars_def\<close>)
  with Inr show ?thesis unfolding installKubernetesComponents_def
    by (simp only: sum.case) (rule in_session_range [OF assms], rule in_session_range [OF assms])
qed (simp add: installKubernetesComponents_def in_session_basic)

lemma in_session_versions: "in_session p n port (collectVersions E p ctx) (\<lambda>_ _ _. True)"
proof -
  have "in_session p n port (attempt (ExecuteCommand E p cmd ctx) (\<lambda>r. case r of Inl e \<Rightarrow> panic nil_deref | Inr x \<Rightarrow> ret (f x))) (\<lambda>_ _ _. True)" for cmd f
    by (rule in_session_any [OF in_session_attempt [OF in_session_command, where R = "\<lambda>_ _ _ _. True" and S = "\<lambda>_ _ _. True"]])
       (auto intro: in_session_retI in_session_panic)
  then show ?thesis unfolding collectVersions_def ask_kubeadm_def ask_kubelet_def
    by (intro in_session_then [where Q = "\<lambda>_ _ _. True" and R = "\<lambda>_ _ _. True"] in_session_ask) simp_all
qed

text \<open>What a completed installation means: both scripts ran with exit code 0, and the result says so.\<close>

definition components_done :: "env \<Rightarrow> string \<Rightarrow> duration option \<Rightarrow> Installer \<Rightarrow> ComponentInstallConfig \<Rightarrow> OSInfo \<Rightarrow> InstallResult \<Rightarrow> log \<Rightarrow> log \<Rightarrow> bool" where
  "components_done E n ctx i c os res l0 l1 \<longleftrightarrow> ran_plan E n ctx [runtime_plan c os, kubernetes_plan i c os] l0 l1
     \<and> ir_Completed res \<and> ir_Success res \<and> iv_OSType (ir_Versions res) = os_Type os \<and> iv_OSVersion (ir_Versions res) = os_Version os"

lemma components_done_widen:
  "components_done E n ctx i c os res l l' \<Longrightarrow> prefix l0 l \<Longrightarrow> prefix l' l1 \<Longrightarrow> components_done E n ctx i c os res l0 l1"
  unfolding components_done_def by (blast intro: ran_plan_earlier ran_plan_later)

lemma in_session_after:
  assumes "in_session p n port m (\<lambda>_ _ _. True)" and "\<And>x. in_session p n port (k x) Q"
    and "\<And>y l0 l l1. Q y l l1 \<Longrightarrow> prefix l0 l \<Longrightarrow> Q y l0 l1"
  shows "in_session p n port (check m f k) Q"
  by (rule in_session_then [OF assms(1,2)]) (rule assms(3))

lemma in_session_execute:
  assumes "range_ok E"
  shows "in_session p n port (executeInstall E encode p ctx i c os) (components_done E n ctx i c os)"
proof -
  let ?ok = "\<lambda>res. ir_Completed res \<and> ir_Success res \<and> iv_OSType (ir_Versions res) = os_Type os \<and> iv_OSVersion (ir_Versions res) = os_Version os"
  let ?k = "\<lambda>res l0 l1. ran_plan E n ctx [kubernetes_plan i c os] l0 l1 \<and> ?ok res"
  let ?r = "\<lambda>res l0 l1. ran_plan E n ctx ([runtime_plan c os] @ [kubernetes_plan i c os]) l0 l1 \<and> ?ok res"
  note progress = in_session_after [OF in_session_progress]
  have tail: "in_session p n port (andthen (updateProgress E encode p a b) (\<lambda>_. andthen (collectVersions E p ctx) (\<lambda>vs.
      ret (install_done d (vs\<lparr>iv_OSType := os_Type os, iv_OSVersion := os_Version os\<rparr>))))) (\<lambda>res _ _. ?ok res)" for a b d
    by (intro progress in_session_after [OF in_session_versions] in_session_retI) (simp_all add: install_done_def)
  have "in_session p n port (executeInstall E encode p ctx i c os) ?r"
    unfolding executeInstall_def
    by (rule progress, rule in_session_then [OF in_session_runtime [OF assms], where R = ?k], rule progress,
        rule in_session_then [OF in_session_kubernetes [OF assms] tail])
       (blast intro: ran_plan_later ran_plan_earlier ran_plan_append)+
  then show ?thesis by (rule in_session_weaken) (simp add: components_done_def)
qed

declare install_loop.simps [simp del]

lemma in_session_loop:
  assumes "range_ok E"
  shows "in_session p n port (install_loop E encode p ctx i c os maxRetries k m) (components_done E n ctx i c os)"
proof -
  have pause: "in_session p n port (when_act b (andthen (updateProgress E encode p x y) (\<lambda>_. time_Sleep d))) (\<lambda>_ _ _. True)" for b x y d
    unfolding when_act_def time_Sleep_def
    by (intro in_session_if in_session_after [OF in_session_progress] in_session_any [OF in_session_basic(3)] in_session_any [OF in_session_basic(1)]) simp
  have step: "in_session p n port (install_loop E encode p ctx i c os maxRetries k m) (components_done E n ctx i c os)"
    if rest: "\<And>e. in_session p n port (case m of 0 \<Rightarrow> fail e | Suc m' \<Rightarrow> install_loop E encode p ctx i c os maxRetries (Suc k) m') (components_done E n ctx i c os)" for k m
    by (subst install_loop.simps, rule in_session_after [OF pause],
        rule in_session_weaken [OF in_session_attempt [OF in_session_execute [OF assms], where R = "\<lambda>x y l0 l1. y = x \<and> l1 = l0" and S = "components_done E n ctx i c os"]])
       (auto intro: rest in_session_basic components_done_widen)
  show ?thesis
  proof (induction m arbitrary: k)
    case 0
    show ?case by (rule step) (simp add: in_session_basic)
  next
    case (Suc m)
    show ?case by (rule step) (simp add: Suc)
  qed
qed

lemma in_session_install_all:
  assumes "range_ok E"
  shows "in_session p n port (install_all E encode p ctx i c os) (components_done E n ctx i c os)"
proof -
  have rollback: "in_session p n port (rollback_install E p ctx) (\<lambda>_ _ _. True)"
    unfolding rollback_install_def by (rule in_session_then [OF in_session_run_script, where R = "\<lambda>_ _ _. True"]) (auto intro: in_session_retI)
  have "in_session p n port (give_up E p ctx c e) (\<lambda>_ _ _. False)" for e
    unfolding give_up_def
    by (intro in_session_if in_session_basic in_session_weaken [OF in_session_attempt [OF rollback, where R = "\<lambda>_ _ _ _. False" and S = "\<lambda>_ _ _. False"]])
       (auto intro: in_session_basic)
  then show ?thesis unfolding install_all_def
    by (intro in_session_weaken [OF in_session_attempt [OF in_session_loop [OF assms], where R = "\<lambda>x y l0 l1. y = x \<and> l1 = l0" and S = "\<lambda>_ _ _. False"]])
       (auto intro: in_session_basic components_done_widen)
qed

text \<open>The system that was detected is what the host told in \<open>/etc/os-release\<close>.\<close>

definition release_command :: string where
  "release_command = ''cat /etc/os-release 2>/dev/null || echo '' @ quoted []"

definition detected :: "env \<Rightarrow> string \<Rightarrow> duration option \<Rightarrow> OSInfo \<Rightarrow> log \<Rightarrow> log \<Rightarrow> bool" where
  "detected E n ctx os l0 l1 \<longleftrightarrow> (\<exists>r. commanded E n release_command ctx r l0 l1 \<and> os_Type os \<noteq> []
     \<and> parseOSRelease (cr_Stdout r) = (os_Type os, os_Version os, os_ID os, os_IDLike os))"

lemma detected_widen: "detected E n ctx os l l' \<Longrightarrow> prefix l0 l \<Longrightarrow> prefix l' l1 \<Longrightarrow> detected E n ctx os l0 l1"
  unfolding detected_def by (blast intro: commanded_widen)

lemma in_session_detect: "in_session p n port (Detect E p ctx) (detected E n ctx)"
  unfolding Detect_def release_command_def [symmetric]
proof (rule in_session_weaken [OF in_session_attempt [OF in_session_command, where S = "\<lambda>_ _ _. False"
      and R = "\<lambda>x os _ _. os_Type os \<noteq> [] \<and> parseOSRelease (cr_Stdout x) = (os_Type os, os_Version os, os_ID os, os_IDLike os)"]])
  fix x
  obtain ty ver i like where parsed: "parseOSRelease (cr_Stdout x) = (ty, ver, i, like)" by (metis surj_pair)
  have "in_session p n port (attempt (ExecuteCommand E p ''uname -m'' ctx) (\<lambda>a. ret (f a))) (\<lambda>os _ _. \<exists>a. os = f a)" for f :: "error + CommandResult \<Rightarrow> OSInfo"
    by (rule in_session_weaken [OF in_session_attempt [OF in_session_command, where R = "\<lambda>_ os _ _. \<exists>a. os = f a" and S = "\<lambda>os _ _. \<exists>a. os = f a"]])
       (auto intro: in_session_retI)
  then have arch: "in_session p n port (attempt (ExecuteCommand E p ''uname -m'' ctx) (\<lambda>a.
      ret \<lparr>os_Type = ty, os_Version = ver, os_ID = i, os_IDLike = like, os_PackageMgr = m,
        os_Arch = (case a of Inl e \<Rightarrow> ''amd64'' | Inr y \<Rightarrow> if cr_Stdout y \<noteq> [] then TrimSpace (cr_Stdout y) else ''amd64'')\<rparr>))
    (\<lambda>os _ _. os_Type os = ty \<and> os_Version os = ver \<and> os_ID os = i \<and> os_IDLike os = like)" for m
    by (rule in_session_weaken) auto
  show "in_session p n port (case Inr x of Inl e \<Rightarrow> fail (Errorf ''failed to detect OS: cannot read /etc/os-release'')
       | Inr x \<Rightarrow>
           if cr_Stdout x = [] then fail (Errorf ''failed to detect OS: cannot read /etc/os-release'')
           else case parseOSRelease (cr_Stdout x) of (ty, ver, n, like) \<Rightarrow>
             if ty = [] then fail (Errorf (''unsupported OS: '' @ cr_Stdout x))
             else attempt (ExecuteCommand E p ''uname -m'' ctx) (\<lambda>a.
               ret \<lparr>os_Type = ty, os_Version = ver, os_ID = n, os_IDLike = like, os_PackageMgr = detectPackageManager ty,
                    os_Arch = (case a of Inl e \<Rightarrow> ''amd64'' | Inr y \<Rightarrow> if cr_Stdout y \<noteq> [] then TrimSpace (cr_Stdout y) else ''amd64'')\<rparr>))
     (\<lambda>os _ _. os_Type os \<noteq> [] \<and> parseOSRelease (cr_Stdout x) = (os_Type os, os_Version os, os_ID os, os_IDLike os))"
    unfolding sum.case parsed prod.case by (intro in_session_if in_session_basic(2)) (rule in_session_weaken [OF arch], simp)
next
  fix os :: OSInfo and l0 l1
  assume "(\<exists>x l. commanded E n release_command ctx x l0 l \<and> prefix l0 l \<and> prefix l l1 \<and> os_Type os \<noteq> []
      \<and> parseOSRelease (cr_Stdout x) = (os_Type os, os_Version os, os_ID os, os_IDLike os)) \<or> (\<exists>l. prefix l0 l \<and> False)"
  then show "detected E n ctx os l0 l1" unfolding detected_def by (blast intro: commanded_widen)
qed (simp only: sum.case in_session_basic(2))

text \<open>The versions that a check found are those that the host told.\<close>

definition told :: "env \<Rightarrow> string \<Rightarrow> duration option \<Rightarrow> string \<Rightarrow> (string \<Rightarrow> string) \<Rightarrow> string \<Rightarrow> log \<Rightarrow> log \<Rightarrow> bool" where
  "told E n ctx cmd f x l0 l1 \<longleftrightarrow> (\<exists>r. commanded E n cmd ctx r l0 l1 \<and> x = (if cr_Stdout r \<noteq> [] then f (cr_Stdout r) else []))"

lemma told_widen: "told E n ctx cmd f x l l' \<Longrightarrow> prefix l0 l \<Longrightarrow> prefix l' l1 \<Longrightarrow> told E n ctx cmd f x l0 l1"
  unfolding told_def by (blast intro: commanded_widen)

definition runtime_told :: "env \<Rightarrow> string \<Rightarrow> duration option \<Rightarrow> string \<Rightarrow> string \<Rightarrow> log \<Rightarrow> log \<Rightarrow> bool" where
  "runtime_told E n ctx ty x l0 l1 \<longleftrightarrow>
     (if ty = ''containerd'' then told E n ctx (''containerd --version 2>/dev/null'' @ or_nothing) extractVersion x l0 l1
      else if ty = ''cri-o'' then told E n ctx (''crio --version 2>/dev/null | head -1'' @ or_nothing) extractVersion x l0 l1
      else if ty = ''docker'' then told E n ctx (''docker --version 2>/dev/null'' @ or_nothing) extractVersion x l0 l1
      else x = [])"

definition reported :: "env \<Rightarrow> string \<Rightarrow> duration option \<Rightarrow> string \<Rightarrow> existingComponents \<Rightarrow> log \<Rightarrow> log \<Rightarrow> bool" where
  "reported E n ctx ty ec l0 l1 \<longleftrightarrow> runtime_told E n ctx ty (ec_ContainerRuntime ec) l0 l1
     \<and> told E n ctx kubeadm_command (\<lambda>s. s) (ec_Kubeadm ec) l0 l1 \<and> told E n ctx kubelet_command extractVersion (ec_Kubelet ec) l0 l1"

lemma runtime_told_widen: "runtime_told E n ctx ty x l l' \<Longrightarrow> prefix l0 l \<Longrightarrow> prefix l' l1 \<Longrightarrow> runtime_told E n ctx ty x l0 l1"
  unfolding runtime_told_def by (auto split: if_splits intro: told_widen)

lemma reported_widen: "reported E n ctx ty ec l l' \<Longrightarrow> prefix l0 l \<Longrightarrow> prefix l' l1 \<Longrightarrow> reported E n ctx ty ec l0 l1"
  unfolding reported_def by (blast intro: told_widen runtime_told_widen)

lemma in_session_asked: "in_session p n port (ask E p ctx cmd what f) (told E n ctx cmd f)"
  unfolding ask_def
  by (rule in_session_weaken [OF in_session_check [OF in_session_command, where R = "\<lambda>r y l0 l1. y = (if cr_Stdout r \<noteq> [] then f (cr_Stdout r) else []) \<and> l1 = l0"]])
     (auto intro: in_session_basic simp: told_def)

lemma in_session_runtime_asked: "in_session p n port (ask_runtime E p ctx ty) (runtime_told E n ctx ty)"
  unfolding ask_runtime_def
  by (intro in_session_if; (rule in_session_weaken [OF in_session_asked] | rule in_session_retI); simp add: runtime_told_def)

lemma in_session_existing: "in_session p n port (checkExistingComponents E p ctx c) (reported E n ctx (runtime_type c))"
proof -
  let ?ec = "\<lambda>cr ka kl kc. \<lparr>ec_ContainerRuntime = cr, ec_Kubeadm = ka, ec_Kubelet = kl, ec_Kubectl = kc\<rparr>"
  have rest: "in_session p n port (andthen (ask E p ctx cmd what f) (\<lambda>kc. ret (?ec cr ka kl kc)))
      (\<lambda>ec _ _. ec_ContainerRuntime ec = cr \<and> ec_Kubeadm ec = ka \<and> ec_Kubelet ec = kl)" for cr ka kl cmd what f
    by (intro in_session_after [OF in_session_ask] in_session_retI) simp_all
  have kubelet: "in_session p n port (andthen (ask_kubelet E p ctx) (\<lambda>kl. andthen (ask E p ctx cmd what f) (\<lambda>kc. ret (?ec cr ka kl kc))))
      (\<lambda>ec l0 l1. ec_ContainerRuntime ec = cr \<and> ec_Kubeadm ec = ka \<and> told E n ctx kubelet_command extractVersion (ec_Kubelet ec) l0 l1)" for cr ka cmd what f
    unfolding ask_kubelet_def
    by (rule in_session_weaken [OF in_session_check [OF in_session_asked rest]]) (auto intro: told_widen)
  have kubeadm: "in_session p n port (andthen (ask_kubeadm E p ctx) (\<lambda>ka. andthen (ask_kubelet E p ctx) (\<lambda>kl. andthen (ask E p ctx cmd what f) (\<lambda>kc.
      ret (?ec cr ka kl kc))))) (\<lambda>ec l0 l1. ec_ContainerRuntime ec = cr \<and> told E n ctx kubeadm_command (\<lambda>s. s) (ec_Kubeadm ec) l0 l1
        \<and> told E n ctx kubelet_command extractVersion (ec_Kubelet ec) l0 l1)" for cr cmd what f
    unfolding ask_kubeadm_def
    by (rule in_session_weaken [OF in_session_check [OF in_session_asked kubelet]]) (auto intro: told_widen)
  show ?thesis unfolding checkExistingComponents_def
    by (rule in_session_weaken [OF in_session_check [OF in_session_runtime_asked kubeadm]])
       (auto simp: reported_def intro: told_widen runtime_told_widen)
qed

text \<open>
  When the code takes the existing components as installed: no version that the host reported differs
  from the wanted one, and at least one was reported. Components that are missing do not count.
\<close>

definition none_differs :: "existingComponents \<Rightarrow> string \<Rightarrow> string \<Rightarrow> bool" where
  "none_differs ec k8sVersion crVersion \<longleftrightarrow>
     ec_Kubeadm ec \<in> {[], ''v'' @ k8sVersion} \<and> ec_Kubelet ec \<in> {[], ''v'' @ k8sVersion}
     \<and> (crVersion \<noteq> [] \<longrightarrow> ec_ContainerRuntime ec \<in> {[], crVersion})
     \<and> \<not> (ec_Kubeadm ec = [] \<and> ec_Kubelet ec = [] \<and> ec_ContainerRuntime ec = [])"

lemma allMatch_iff: "allMatch ec k8sVersion crVersion \<longleftrightarrow> none_differs ec k8sVersion crVersion"
  by (auto simp: allMatch_def none_differs_def Let_def)

text \<open>The two ways in which an enabled installation can succeed.\<close>

definition already_there :: "env \<Rightarrow> string \<Rightarrow> Installer \<Rightarrow> ComponentInstallConfig \<Rightarrow> OSInfo \<Rightarrow> InstallResult \<Rightarrow> log \<Rightarrow> log \<Rightarrow> bool" where
  "already_there E n i c os res l0 l1 \<longleftrightarrow> cic_Strategy c = InstallIfMissing \<and> ir_Completed res \<and> ir_Success res
     \<and> iv_OSType (ir_Versions res) = os_Type os \<and> iv_OSVersion (ir_Versions res) = os_Version os
     \<and> (\<exists>ec. reported E n (Some (component_timeout c)) (runtime_type c) ec l0 l1
        \<and> none_differs ec (ins_k8sVersion i) (crc_Version (cic_ContainerRuntime c))
        \<and> iv_ContainerRuntime (ir_Versions res) = ec_ContainerRuntime ec
        \<and> iv_Kubeadm (ir_Versions res) = ec_Kubeadm ec \<and> iv_Kubelet (ir_Versions res) = ec_Kubelet ec)"

text \<open>The system was detected, and then, for this system, the components were found or installed.\<close>

definition components_installed :: "env \<Rightarrow> string \<Rightarrow> Installer \<Rightarrow> ComponentInstallConfig \<Rightarrow> InstallResult \<Rightarrow> log \<Rightarrow> log \<Rightarrow> bool" where
  "components_installed E n i c res l0 l1 \<longleftrightarrow> (\<exists>os l. detected E n (Some (component_timeout c)) os l0 l \<and> prefix l l1
     \<and> (already_there E n i c os res l l1 \<or> components_done E n (Some (component_timeout c)) i c os res l l1))"

lemma components_installed_earlier:
  "components_installed E n i c res l l1 \<Longrightarrow> prefix l0 l \<Longrightarrow> components_installed E n i c res l0 l1"
  unfolding components_installed_def by (blast intro: detected_widen)

lemma in_session_install:
  assumes "range_ok E" and "ins_config i = Some c" and "cic_Enabled c" and "cic_Strategy c \<noteq> Skip"
  shows "in_session p n port (Install E encode p i) (components_installed E n i c)"
proof -
  let ?ctx = "Some (component_timeout c)"
  let ?Q = "\<lambda>os res l0 l1. already_there E n i c os res l0 l1 \<or> components_done E n ?ctx i c os res l0 l1"
  have all: "in_session p n port (install_all E encode p ?ctx i c os) (?Q os)" for os
    by (rule in_session_weaken [OF in_session_install_all [OF assms(1)]]) blast
  let ?vs = "\<lambda>os ec. \<lparr>iv_ContainerRuntime = ec_ContainerRuntime ec, iv_Kubeadm = ec_Kubeadm ec, iv_Kubelet = ec_Kubelet ec, iv_Kubectl = ec_Kubectl ec,
      iv_OSType = os_Type os, iv_OSVersion = os_Version os\<rparr>"
  let ?match = "\<lambda>ec. allMatch ec (ins_k8sVersion i) (crc_Version (cic_ContainerRuntime c))"
  have missing: "in_session p n port (andthen (checkExistingComponents E p ?ctx c) (\<lambda>ec.
      if ?match ec then ret (install_done msg (?vs os ec)) else install_all E encode p ?ctx i c os)) (?Q os)" if "cic_Strategy c = InstallIfMissing" for os msg
  proof (rule in_session_weaken [OF in_session_check [OF in_session_existing]])
    show "in_session p n port (if ?match ec then ret (install_done msg (?vs os ec)) else install_all E encode p ?ctx i c os)
        (\<lambda>res l0 l1. if ?match ec then res = install_done msg (?vs os ec) \<and> l1 = l0 else components_done E n ?ctx i c os res l0 l1)" for ec
      using in_session_install_all [OF assms(1)] by (simp add: in_session_basic)
  next
    fix res l0 l1
    assume "\<exists>ec l. reported E n ?ctx (runtime_type c) ec l0 l \<and> prefix l0 l \<and> prefix l l1
      \<and> (if ?match ec then res = install_done msg (?vs os ec) \<and> l1 = l else components_done E n ?ctx i c os res l l1)"
    then show "?Q os res l0 l1" using that
      by (auto simp: already_there_def install_done_def allMatch_iff split: if_splits intro: components_done_widen)
  qed
  have body: "in_session p n port (if cic_Strategy c = InstallIfMissing then andthen (checkExistingComponents E p ?ctx c) (\<lambda>ec.
      if ?match ec then ret (install_done msg (?vs os ec)) else install_all E encode p ?ctx i c os)
      else install_all E encode p ?ctx i c os) (?Q os)" for os msg
    by (intro in_session_if missing all)
  have "in_session p n port (andthen (Detect E p ?ctx) (\<lambda>os. if cic_Strategy c = InstallIfMissing then andthen (checkExistingComponents E p ?ctx c) (\<lambda>ec.
      if ?match ec then ret (install_done msg (?vs os ec)) else install_all E encode p ?ctx i c os)
      else install_all E encode p ?ctx i c os)) (components_installed E n i c)" for msg
    by (rule in_session_weaken [OF in_session_check [OF in_session_detect, where R = ?Q]], rule body, unfold components_installed_def, blast)
  with assms show ?thesis by (simp add: Install_def Let_def)
qed

text \<open>
  (C36) An enabled installation whose strategy is not Skip and that succeeds has happened, over the connection and under
  the configured timeout. The host told its system in \<open>/etc/os-release\<close>; after that, the runtime script for this
  system and then its Kubernetes script ran on the host with exit code 0, and the result is complete and
  names the system; or the strategy was to install only what is missing, no version that the host reported
  for the runtime, for kubeadm and for kubelet differs from the wanted one, and at least one was reported.
\<close>

theorem component_install_correct:
  assumes "range_ok E" and "ins_config i = Some c" and "cic_Enabled c" and "cic_Strategy c \<noteq> Skip"
    and "pool_wf w" and "conn_at w p n port" and "Install E encode p i w = (Ok res, w')"
  shows "\<exists>os l. detected E n (Some (component_timeout c)) os (w_log w) l \<and> prefix l (w_log w')
    \<and> (already_there E n i c os res l (w_log w') \<or> components_done E n (Some (component_timeout c)) i c os res l (w_log w'))"
  using in_sessionD(4) [OF in_session_install [OF assms(1-4)] assms(5-7) refl] unfolding components_installed_def .

section \<open>Installing only what is missing\<close>

text \<open>What \<open>kubeadm version -o short || echo ''\<close> prints ends with a newline.\<close>

definition prints_lines :: "env \<Rightarrow> bool" where
  "prints_lines E \<longleftrightarrow> (\<forall>l h t out err code. s_run (ssh E) l h kubeadm_command t = RunDone out err code \<longrightarrow> (\<exists>x. out = x @ [CHR 0x0A]))"

lemma printed_version_differs:
  assumes "prints_lines E" and "reported E n ctx ty ec l0 l1" and "CHR 0x0A \<notin> set ver"
  shows "\<not> allMatch ec ver cr"
proof -
  from assms(1,2) obtain x where "ec_Kubeadm ec = x @ [CHR 0x0A]"
    by (auto simp: reported_def told_def commanded_def prints_lines_def split: if_splits) blast+
  then have "CHR 0x0A \<in> set (ec_Kubeadm ec)" and ne: "ec_Kubeadm ec \<noteq> []" by simp_all
  moreover from assms(3) have "CHR 0x0A \<notin> set (''v'' @ ver)" by simp
  ultimately have "ec_Kubeadm ec \<noteq> ''v'' @ ver" by metis
  with ne show ?thesis by (simp add: allMatch_def Let_def)
qed

text \<open>
  The output of \<open>kubeadm\<close> is compared with the expected version without trimming its newline, so a check for
  existing components never matches: also with the strategy \<open>InstallIfMissing\<close>, every installation that
  succeeds has run both scripts again.
\<close>

theorem missing_strategy_reinstalls:
  assumes "range_ok E" and "prints_lines E" and "ins_config i = Some c" and "cic_Enabled c" and "cic_Strategy c = InstallIfMissing"
    and "CHR 0x0A \<notin> set (ins_k8sVersion i)" and "pool_wf w" and "conn_at w p n port" and "Install E encode p i w = (Ok res, w')"
  shows "\<exists>os l. detected E n (Some (component_timeout c)) os (w_log w) l
    \<and> components_done E n (Some (component_timeout c)) i c os res l (w_log w')"
proof -
  have "cic_Strategy c \<noteq> Skip" using assms(5) by (simp add: InstallIfMissing_def Skip_def)
  from in_sessionD(4) [OF in_session_install [OF assms(1,3,4) this] assms(7-9) refl] show ?thesis
    using printed_version_differs [OF assms(2) _ assms(6)] unfolding components_installed_def already_there_def allMatch_iff by blast
qed

section \<open>Retries\<close>

abbreviation awake :: "event \<Rightarrow> bool" where
  "awake ev \<equiv> (case ev of EvSleep d \<Rightarrow> False | _ \<Rightarrow> True)"

lemma awake_command [emits_rules]: "emits awake (ExecuteCommand E p cmd ctx)" "emits awake (ExecuteScript E p script ctx)"
proof -
  have deref: "emits awake (deref p)" by (simp add: emits_def deref_def)
  show "emits awake (ExecuteCommand E p cmd ctx)" for cmd
    unfolding ExecuteCommand_def touch_def time_Now_def
    by (auto intro!: emits_rules deref split: run_outcome.split)
  then show "emits awake (ExecuteScript E p script ctx)"
    unfolding ExecuteScript_def by (auto intro!: emits_rules deref)
qed

lemma awake_run [emits_rules]: "emits awake (run_checked E p script ctx what)" "emits awake (run_script E p script ctx)"
  unfolding run_checked_def run_script_def by (auto intro!: emits_rules split: sum.split)

lemma awake_progress [emits_rules]: "emits awake (updateProgress E encode p step message)"
  unfolding updateProgress_def post_progress_def writeProgress_def time_Now_def by (auto intro!: emits_rules split: sum.split)

lemma awake_ask [emits_rules]: "emits awake (ask E p ctx cmd what f)"
  unfolding ask_def by (auto intro!: emits_rules)

lemma awake_execute [emits_rules]: "emits awake (executeInstall E encode p ctx i c os)"
  unfolding executeInstall_def installContainerRuntime_def installKubernetesComponents_def collectVersions_def ask_kubeadm_def ask_kubelet_def
  by (auto intro!: emits_rules split: sum.split)

lemma awake_detect [emits_rules]: "emits awake (Detect E p ctx)"
  unfolding Detect_def by (auto intro!: emits_rules split: sum.split prod.split)

lemma awake_existing [emits_rules]: "emits awake (checkExistingComponents E p ctx c)"
  unfolding checkExistingComponents_def ask_kubeadm_def ask_kubelet_def ask_runtime_def by (auto intro!: emits_rules)

text \<open>\<open>backoff_sleeps n m\<close>: the action waits at most \<open>n\<close> times, ten seconds each.\<close>

definition pauses :: "log \<Rightarrow> log" where
  "pauses es = filter (\<lambda>ev. \<not> awake ev) es"

definition backoff_sleeps :: "nat \<Rightarrow> 'a cact \<Rightarrow> bool" where
  "backoff_sleeps n m \<longleftrightarrow> (\<forall>w r w'. m w = (r, w') \<longrightarrow> (\<exists>es. w_log w' = w_log w @ es \<and> set (pauses es) \<subseteq> {EvSleep (10 * second)} \<and> length (pauses es) \<le> n))"

lemma sleeps_awake: "emits awake m \<Longrightarrow> backoff_sleeps n m"
  unfolding backoff_sleeps_def
proof (intro allI impI)
  fix w r w' assume "emits awake m" "m w = (r, w')"
  then obtain es where "w_log w' = w_log w @ es" "list_all awake es" using emitsD by blast
  moreover from this have "pauses es = []" by (auto simp: pauses_def filter_empty_conv list_all_iff)
  ultimately show "\<exists>es. w_log w' = w_log w @ es \<and> set (pauses es) \<subseteq> {EvSleep (10 * second)} \<and> length (pauses es) \<le> n" by auto
qed

lemma sleeps_ret: "backoff_sleeps n (ret x)"
  by (rule sleeps_awake) (rule emits_ret)

lemma sleeps_if: "backoff_sleeps n m \<Longrightarrow> backoff_sleeps n m' \<Longrightarrow> backoff_sleeps n (if b then m else m')"
  by simp

lemma sleeps_attempt:
  assumes "backoff_sleeps a m" and "\<And>r. backoff_sleeps b (k r)" and "a + b \<le> n"
  shows "backoff_sleeps n (attempt m k)"
  unfolding backoff_sleeps_def
proof (intro allI impI)
  fix w r w' assume run: "attempt m k w = (r, w')"
  obtain r1 w1 where m: "m w = (r1, w1)" by (metis surj_pair)
  with assms(1) obtain es where es: "w_log w1 = w_log w @ es" "set (pauses es) \<subseteq> {EvSleep (10 * second)}" "length (pauses es) \<le> a"
    unfolding backoff_sleeps_def by metis
  have "w' = w1 \<or> (\<exists>x. k x w1 = (r, w'))" using run m by (auto simp: attempt_apply split: res.splits)
  then show "\<exists>es. w_log w' = w_log w @ es \<and> set (pauses es) \<subseteq> {EvSleep (10 * second)} \<and> length (pauses es) \<le> n"
  proof
    assume "\<exists>x. k x w1 = (r, w')"
    with assms(2) obtain fs where "w_log w' = w_log w1 @ fs" "set (pauses fs) \<subseteq> {EvSleep (10 * second)}" "length (pauses fs) \<le> b"
      unfolding backoff_sleeps_def by metis
    with es assms(3) show ?thesis by (intro exI [of _ "es @ fs"]) (auto simp: pauses_def)
  qed (use es assms(3) in \<open>intro exI [of _ es], simp\<close>)
qed

lemma sleeps_check: "backoff_sleeps a m \<Longrightarrow> (\<And>x. backoff_sleeps b (k x)) \<Longrightarrow> a + b \<le> n \<Longrightarrow> backoff_sleeps n (check m f k)"
  unfolding check_def by (rule sleeps_attempt) (auto intro: sleeps_awake emits_rules split: sum.split)

lemma sleeps_pause: "backoff_sleeps (if k > 0 then 1 else 0) (when_act (k > (0 :: nat)) (andthen (updateProgress E encode p x y) (\<lambda>_. time_Sleep (10 * second))))"
proof -
  have "backoff_sleeps 1 (time_Sleep (10 * second))"
    by (auto simp: backoff_sleeps_def time_Sleep_def query_def pauses_def)
  then have "backoff_sleeps 1 (andthen (updateProgress E encode p x y) (\<lambda>_. time_Sleep (10 * second)))"
    by (rule sleeps_check [OF sleeps_awake [OF awake_progress, of 0], where b = 1]) simp
  then show ?thesis by (auto simp: when_act_def intro: sleeps_awake emits_rules)
qed

lemma sleeps_loop: "backoff_sleeps (m + (if k > 0 then 1 else 0)) (install_loop E encode p ctx i c os maxRetries k m)"
proof (induction m arbitrary: k)
  case (0 k)
  show ?case by (subst install_loop.simps, rule sleeps_check [OF sleeps_pause sleeps_awake, where b = 0])
      (auto intro!: emits_rules split: sum.split)
next
  case (Suc m)
  show ?case
    by (subst install_loop.simps, rule sleeps_check [OF sleeps_pause, where b = "Suc m"], rule sleeps_attempt [OF sleeps_awake, where a = 0 and b = "Suc m"])
       (use Suc [of "Suc k"] in \<open>auto intro!: emits_rules intro: sleeps_awake split: sum.split\<close>)
qed

text \<open>
  An installation gives up: whatever the host does, it waits between attempts at most as often as
  retries are configured (three times when none are), ten seconds each time, and no other wait.
\<close>

theorem install_retries_bounded:
  assumes "ins_config i = Some c" and "Install E encode p i w = (r, w')"
  shows "\<exists>es. w_log w' = w_log w @ es \<and> set (pauses es) \<subseteq> {EvSleep (10 * second)} \<and> length (pauses es) \<le> nat (max_retries c)"
proof -
  have "emits awake (give_up E p ctx c e)" for ctx e
    unfolding give_up_def rollback_install_def by (auto intro!: emits_rules split: sum.split)
  then have "backoff_sleeps (nat (max_retries c)) (install_all E encode p ctx i c os)" for ctx os
    unfolding install_all_def using sleeps_loop [of "nat (max_retries c)" 0]
    by (intro sleeps_attempt [where a = "nat (max_retries c)" and b = 0]) (auto intro: sleeps_awake emits_rules split: sum.split)
  then have "backoff_sleeps (nat (max_retries c)) (Install E encode p i)"
    unfolding Install_def assms(1) option.case Let_def
    by (intro sleeps_if sleeps_ret sleeps_check [OF sleeps_awake [OF awake_detect, of 0], where b = "nat (max_retries c)"]
        sleeps_check [OF sleeps_awake [OF awake_existing, of 0], where b = "nat (max_retries c)"]) simp_all
  with assms(2) show ?thesis unfolding backoff_sleeps_def by blast
qed

section \<open>An example\<close>

definition ubuntu_release :: string where
  "ubuntu_release = ''ID=ubuntu'' @ [CHR 0x0A]"

abbreviation ubuntu_env :: env where
  "ubuntu_env \<equiv> answering_env ubuntu_release"

definition ex_install :: ComponentInstallConfig where
  "ex_install = zero_ComponentInstallConfig\<lparr>cic_Enabled := True, cic_Strategy := InstallIfMissing\<rparr>"

definition ex_installer :: Installer where
  "ex_installer = NewInstaller (Some ex_install) ''1.30.0'' ''worker''"

definition no_json :: progress_json where
  "no_json x = Inr ''{}''"

definition ubuntu_os :: "string \<Rightarrow> OSInfo" where
  "ubuntu_os a = \<lparr>os_Type = ''ubuntu'', os_Version = [], os_ID = ''ubuntu'', os_IDLike = [], os_PackageMgr = ''apt'',
     os_Arch = (if a \<noteq> [] then TrimSpace a else ''amd64'')\<rparr>"

lemma ubuntu_parsed: "parseOSRelease ubuntu_release = (''ubuntu'', [], ''ubuntu'', [])" "TrimSpace ubuntu_release = ''ID=ubuntu''" "ubuntu_release \<noteq> []"
  "detectPackageManager ''ubuntu'' = ''apt''"
  by code_simp+

lemma ubuntu_env_simps [simp]: "range_ok ubuntu_env" "prints_lines ubuntu_env"
  using range_ok_quiet by (simp_all add: range_ok_def answering_env_def prints_lines_def ubuntu_release_def)

abbreviation release_question :: string where
  "release_question \<equiv> ''cat /etc/os-release 2>/dev/null || echo '' @ quoted []"

lemma gives_range: "obliging E out \<Longrightarrow> gives p n port (range_map E ks) ks"
  by (simp add: gives_def range_map_def obliging_def quiet_host_def)

lemma gives_detect:
  assumes "obliging E out" and "out release_question = ubuntu_release"
  shows "gives p n port (Detect E p ctx) (ubuntu_os (out ''uname -m''))"
proof -
  have release: "gives p n port (ExecuteCommand E p release_question ctx) (answer ubuntu_release)" for ctx
    using gives_obliging [OF assms(1), of p n port release_question ctx] unfolding assms(2) .
  show ?thesis unfolding Detect_def
    by (rule gives_attempt [OF release]) (simp add: ubuntu_parsed ubuntu_os_def gives_attempt [OF gives_obliging [OF assms(1)]])
qed

lemma gives_ask: "obliging E out \<Longrightarrow> gives p n port (ask E p ctx cmd what f) (if out cmd \<noteq> [] then f (out cmd) else [])"
  unfolding ask_def by (erule gives_check [OF gives_obliging]) simp

lemma gives_now: "obliging E out \<Longrightarrow> gives p n port (time_Now E) 0"
  by (simp add: gives_def time_Now_def query_def obliging_def quiet_host_def)

lemma gives_progress: "obliging E out \<Longrightarrow> gives p n port (updateProgress E no_json p step msg) ()"
  unfolding updateProgress_def post_progress_def writeProgress_def no_json_def
  by (rule gives_check [OF gives_now], assumption) (simp add: gives_attempt [OF gives_obliging])

text \<open>A configuration without a runtime of its own, on Ubuntu.\<close>

lemma gives_runtime:
  assumes "obliging E out" and "cic_ContainerRuntime c = zero_ContainerRuntimeConfig" and "os_Type os = ''ubuntu''"
  shows "gives p n port (installContainerRuntime E p ctx c os) ()"
  using assms unfolding installContainerRuntime_def
  by (simp add: getContainerRuntimeScript_def runtime_type_def bm_zero_defs getContainerdScript_def by_os_def gives_check [OF gives_range] gives_run)

lemma gives_kubernetes:
  assumes "obliging E out" and "os_Type os = ''ubuntu''"
  shows "gives p n port (installKubernetesComponents E p ctx i c os) ()"
  using assms unfolding installKubernetesComponents_def
  by (simp add: getKubernetesScript_def by_os_def gives_check [OF gives_range] gives_check [OF gives_range] gives_run)

lemma gives_versions: "obliging E out \<Longrightarrow> \<exists>vs. gives p n port (collectVersions E p ctx) vs"
  unfolding collectVersions_def ask_kubeadm_def ask_kubelet_def
  by (rule exI, rule gives_check [OF gives_ask], assumption, rule gives_check [OF gives_ask], assumption, rule gives_check [OF gives_ask], assumption,
      rule gives_attempt [OF gives_obliging], assumption, unfold sum.case, rule gives_ret)

lemma gives_execute:
  assumes "obliging E out" and "cic_ContainerRuntime c = zero_ContainerRuntimeConfig" and "os_Type os = ''ubuntu''"
  shows "\<exists>vs. gives p n port (executeInstall E no_json p ctx i c os) (install_done ''Installation completed successfully'' vs)"
proof -
  note progress = gives_check [OF gives_progress [OF assms(1)]]
  obtain vs where vs: "gives p n port (collectVersions E p ctx) vs" using gives_versions [OF assms(1)] by blast
  show ?thesis unfolding executeInstall_def
    by (rule exI, rule progress, rule gives_check [OF gives_runtime [OF assms]], rule progress,
        rule gives_check [OF gives_kubernetes [OF assms(1,3)]], rule progress, rule gives_check [OF vs], rule gives_ret)
qed

text \<open>An installation that is not only for missing components: its first attempt succeeds.\<close>

lemma gives_install_all:
  assumes "obliging E out" and "cic_ContainerRuntime c = zero_ContainerRuntimeConfig" and "os_Type os = ''ubuntu''"
  shows "\<exists>vs. gives p n port (install_all E no_json p ctx i c os) (install_done ''Installation completed successfully'' vs)"
proof -
  from gives_execute [OF assms] obtain vs where
    ex: "gives p n port (executeInstall E no_json p ctx i c os) (install_done ''Installation completed successfully'' vs)" by blast
  have loop: "gives p n port (install_loop E no_json p ctx i c os a 0 m) (install_done ''Installation completed successfully'' vs)" for a m
    by (subst install_loop.simps) (simp add: when_act_def gives_check [OF gives_ret] gives_attempt [OF ex])
  show ?thesis unfolding install_all_def by (rule exI, rule gives_attempt [OF loop], unfold sum.case, rule gives_ret)
qed

lemma gives_existing: "\<exists>ec. gives p n port (checkExistingComponents ubuntu_env p ctx ex_install) ec \<and> ec_Kubeadm ec = ubuntu_release"
proof -
  note question = gives_check [OF gives_ask [OF obliging_answering]]
  have ty: "runtime_type ex_install = ''containerd''" by (simp add: runtime_type_def ex_install_def bm_zero_defs)
  show ?thesis unfolding checkExistingComponents_def ask_runtime_def ask_kubeadm_def ask_kubelet_def ty
    by (rule exI, rule conjI, simp, rule question, rule question, rule question, rule question, rule gives_ret) (simp add: ubuntu_parsed(3))
qed

lemma ex_install_simps: "ins_config ex_installer = Some ex_install" "cic_Enabled ex_install" "cic_Strategy ex_install = InstallIfMissing" "InstallIfMissing \<noteq> Skip"
  "cic_ContainerRuntime ex_install = zero_ContainerRuntimeConfig"
  by (simp_all add: ex_installer_def NewInstaller_def ex_install_def InstallIfMissing_def Skip_def bm_zero_defs)

lemma ubuntu_os_type [simp]: "os_Type (ubuntu_os a) = ''ubuntu''"
  by (simp add: ubuntu_os_def)

lemma gives_install: "\<exists>res. gives p n port (Install ubuntu_env no_json p ex_installer) res"
proof -
  let ?ctx = "Some (component_timeout ex_install)"
  note detect = gives_detect [OF obliging_answering, of ubuntu_release, OF refl]
  obtain res where all: "gives p n port (install_all ubuntu_env no_json p ?ctx ex_installer ex_install (ubuntu_os ubuntu_release)) res"
    using gives_install_all [OF obliging_answering ex_install_simps(5) ubuntu_os_type] by blast
  obtain ec where ec: "gives p n port (checkExistingComponents ubuntu_env p ?ctx ex_install) ec"
    and ka: "ec_Kubeadm ec = ubuntu_release" using gives_existing by blast
  have "ubuntu_release \<noteq> ''v'' @ ''1.30.0''" "ubuntu_release \<noteq> []" by code_simp+
  then have no: "\<not> allMatch ec (ins_k8sVersion ex_installer) cr" for cr
    using ka by (simp add: allMatch_def Let_def ex_installer_def NewInstaller_def)
  show ?thesis unfolding Install_def
    by (auto simp: no Let_def ex_install_simps intro!: exI gives_check [OF detect] gives_check [OF ec] all)
qed

lemma ex_installer_simps: "ins_config ex_installer = Some ex_install" "cic_Enabled ex_install" "cic_Strategy ex_install = InstallIfMissing"
  "cic_Strategy ex_install \<noteq> Skip" "CHR 0x0A \<notin> set (ins_k8sVersion ex_installer)" "max_retries ex_install = 3"
  by (simp_all add: ex_installer_def NewInstaller_def ex_install_def InstallIfMissing_def Skip_def max_retries_def bm_zero_defs)

lemma ex_install_run:
  obtains res w' where "Install ubuntu_env no_json 0 ex_installer ex_session = (Ok res, w')"
  using gives_install [of 0 "''node-1''" 22] ex_session_simps(2) unfolding gives_def by blast

theorem component_install_witness:
  "\<exists>res w' os l. Install ubuntu_env no_json 0 ex_installer ex_session = (Ok res, w')
    \<and> detected ubuntu_env ''node-1'' (Some (component_timeout ex_install)) os (w_log ex_session) l \<and> os_Type os = ''ubuntu''
    \<and> (already_there ubuntu_env ''node-1'' ex_installer ex_install os res l (w_log w')
      \<or> components_done ubuntu_env ''node-1'' (Some (component_timeout ex_install)) ex_installer ex_install os res l (w_log w'))"
proof -
  obtain res w' where run: "Install ubuntu_env no_json 0 ex_installer ex_session = (Ok res, w')" by (rule ex_install_run)
  have ubuntu: "os_Type os = ''ubuntu''" if "detected ubuntu_env n ctx os l0 l1" for n ctx os l0 l1
    using that ubuntu_parsed(1) by (auto simp: detected_def commanded_def answering_env_def)
  from run component_install_correct [OF ubuntu_env_simps(1) ex_installer_simps(1,2,4) ex_session_simps run] ubuntu show ?thesis by blast
qed

theorem missing_strategy_witness:
  "\<exists>res os l w'. Install ubuntu_env no_json 0 ex_installer ex_session = (Ok res, w')
    \<and> components_done ubuntu_env ''node-1'' (Some (component_timeout ex_install)) ex_installer ex_install os res l (w_log w')"
proof -
  obtain res w' where run: "Install ubuntu_env no_json 0 ex_installer ex_session = (Ok res, w')" by (rule ex_install_run)
  from run missing_strategy_reinstalls [OF ubuntu_env_simps ex_installer_simps(1,2,3,5) ex_session_simps run] show ?thesis by blast
qed

theorem install_retries_witness:
  "\<exists>res w' es. Install ubuntu_env no_json 0 ex_installer ex_session = (Ok res, w') \<and> w_log w' = w_log ex_session @ es \<and> length (pauses es) \<le> 3"
proof -
  obtain res w' where run: "Install ubuntu_env no_json 0 ex_installer ex_session = (Ok res, w')" by (rule ex_install_run)
  from run install_retries_bounded [OF ex_installer_simps(1) run] show ?thesis by (auto simp: ex_installer_simps)
qed

theorem detected_os_witness:
  "\<exists>w'. Detect ubuntu_env 0 None ex_session = (Ok (ubuntu_os ubuntu_release), w') \<and> os_Type (ubuntu_os ubuntu_release) \<in> set os_types \<and> (\<exists>s. getKubernetesScript (os_Type (ubuntu_os ubuntu_release)) = Inr s)"
proof -
  obtain w' where "Detect ubuntu_env 0 None ex_session = (Ok (ubuntu_os ubuntu_release), w')"
    using gives_detect [OF obliging_answering, of ubuntu_release, OF refl] ex_session_simps(2) unfolding gives_def by blast
  with detected_os_supported [OF this] show ?thesis by blast
qed

end
