(* ===== verification/Bm_Vars.thy ===== *)
theory Bm_Vars
  imports Bm_Installer
begin

text \<open>
  How the installation scripts read what the installer writes in front of them: an assignment
  \<open>KEY="..."\<close>, whose text Go quoted with \<open>%q\<close> and the shell reads as a double-quoted string, and the
  list of registry mirrors inside such a value.
\<close>

section \<open>Double quotes in the shell\<close>

text \<open>
  The text after an opening double quote up to the closing one, and what follows. A backslash is
  special before \<open>$\<close>, a backquote, a double quote, a backslash and a newline only; a dollar sign or
  backquote starts an expansion, where the result is not the text itself (None).
\<close>

fun dq_read :: "string \<Rightarrow> (string \<times> string) option" where
  "dq_read [] = None"
| "dq_read (c # cs) =
     (if c = CHR 0x22 then Some ([], cs)
      else if c = CHR ''$'' \<or> c = CHR 0x60 then None
      else if c = CHR 0x5C then (case cs of
          [] \<Rightarrow> None
        | d # ds \<Rightarrow>
            if d = CHR 0x0A then dq_read ds
            else if d = CHR ''$'' \<or> d = CHR 0x60 \<or> d = CHR 0x22 \<or> d = CHR 0x5C then map_option (map_prod (Cons d) id) (dq_read ds)
            else map_option (map_prod (\<lambda>x. c # d # x) id) (dq_read ds))
      else map_option (map_prod (Cons c) id) (dq_read cs))"

definition read_assignment :: "string \<Rightarrow> (string \<times> string \<times> string) option" where
  "read_assignment s = (case dropWhile (\<lambda>c. c \<noteq> CHR ''='') s of
      e # q # rest \<Rightarrow>
        if q = CHR 0x22 then (case dq_read rest of
            Some (v, nl # script) \<Rightarrow> if nl = CHR 0x0A then Some (takeWhile (\<lambda>c. c \<noteq> CHR ''='') s, v, script) else None
          | _ \<Rightarrow> None)
        else None
    | _ \<Rightarrow> None)"

text \<open>
  Values that reach the script: UTF-8 of printable characters and newlines, without dollar sign and backquote;
  and what becomes of a newline.
\<close>

fun legible :: "string \<Rightarrow> bool" where
  "legible [] = True"
| "legible (c # cs) = (case decode_rune c cs of None \<Rightarrow> False
     | Some (r, k) \<Rightarrow> (IsPrint r \<and> r \<noteq> of_char CHR ''$'' \<and> r \<noteq> of_char CHR 0x60 \<or> r = of_char CHR 0x0A) \<and> legible (drop k cs))"

definition as_read :: "string \<Rightarrow> string" where
  "as_read v = concat (map (\<lambda>c. if c = CHR 0x0A then [CHR 0x5C, CHR ''n''] else [c]) v)"

lemma as_read_append: "as_read (u @ v) = as_read u @ as_read v"
  by (simp add: as_read_def)

lemma dq_read_escaped: "c = CHR 0x22 \<or> c = CHR 0x5C \<Longrightarrow> dq_read (CHR 0x5C # c # cs) = map_option (map_prod (Cons c) id) (dq_read cs)"
  by auto

lemma dq_read_newline: "dq_read (CHR 0x5C # CHR ''n'' # cs) = map_option (map_prod (\<lambda>x. CHR 0x5C # CHR ''n'' # x) id) (dq_read cs)"
  by simp

lemma dq_read_plain:
  "c \<notin> {CHR 0x22, CHR ''$'', CHR 0x60, CHR 0x5C} \<Longrightarrow> dq_read (c # cs) = map_option (map_prod (Cons c) id) (dq_read cs)"
  by simp

declare dq_read.simps(2) [simp del]

text \<open>Bytes beyond ASCII are nothing special to the shell.\<close>

lemma high_bytes:
  assumes "\<forall>d\<in>set ds. of_char d \<ge> (0x80 :: nat)"
  shows "as_read ds = ds" and "dq_read (ds @ rest) = map_option (map_prod (append ds) id) (dq_read rest)"
proof -
  have no: "c \<notin> {CHR 0x22, CHR ''$'', CHR 0x60, CHR 0x5C, CHR 0x0A}" if "of_char c \<ge> (0x80 :: nat)" for c using that by auto
  from assms show "as_read ds = ds" by (induction ds) (auto simp: as_read_def)
  from assms show "dq_read (ds @ rest) = map_option (map_prod (append ds) id) (dq_read rest)"
  proof (induction ds)
    case Nil
    show ?case by (cases "dq_read rest") auto
  next
    case (Cons d ds)
    then have "dq_read (d # ds @ rest) = map_option (map_prod (Cons d) id) (dq_read (ds @ rest))" using no [of d] by (intro dq_read_plain) auto
    with Cons show ?case by (cases "dq_read rest") auto
  qed
qed

text \<open>A character of ASCII: the bytes that Go writes for it, and what the shell reads.\<close>

lemma ascii_rune:
  assumes "of_char c < (0x80 :: nat)" and "IsPrint (of_char c) \<and> c \<noteq> CHR ''$'' \<and> c \<noteq> CHR 0x60 \<or> c = CHR 0x0A"
  shows "dq_read (quote_rune (of_char c) [c] @ rest) = map_option (map_prod (append (as_read [c])) id) (dq_read rest)"
proof -
  have code: "(of_char c :: nat) = of_char d \<longleftrightarrow> c = d" for d by simp
  consider "c = CHR 0x0A" | "c = CHR 0x22 \<or> c = CHR 0x5C" | "IsPrint (of_char c)" "c \<notin> {CHR 0x22, CHR ''$'', CHR 0x60, CHR 0x5C, CHR 0x0A}"
    using assms(2) by auto
  then show ?thesis
  proof cases
    case 1
    moreover have "quote_rune 10 [CHR 0x0A] = [CHR 0x5C, CHR ''n'']" by (simp add: quote_rune_def IsPrint_def simple_escapes_def)
    ultimately show ?thesis by (cases "dq_read rest") (auto simp: dq_read_newline as_read_def)
  next
    case 2
    then have "quote_rune (of_char c) [c] = [CHR 0x5C, c]" "as_read [c] = [c]" by (auto simp: quote_rune_def as_read_def)
    with dq_read_escaped [OF 2] show ?thesis by (cases "dq_read rest") auto
  next
    case 3
    with code [of "CHR 0x22"] code [of "CHR 0x5C"] have "quote_rune (of_char c) [c] = [c]" "as_read [c] = [c]" by (auto simp: quote_rune_def as_read_def)
    with dq_read_plain [of c rest] 3(2) show ?thesis by (cases "dq_read rest") auto
  qed
qed

lemma dq_read_quoted: "legible v \<Longrightarrow> dq_read (quote_text v @ CHR 0x22 # rest) = Some (as_read v, rest)"
proof (induction v rule: quote_text.induct)
  case 1
  show ?case by (simp add: as_read_def dq_read.simps(2))
next
  case (2 c cs)
  from "2.prems" obtain r k where d: "decode_rune c cs = Some (r, k)" and v: "legible (drop k cs)"
    and r: "IsPrint r \<and> r \<noteq> of_char CHR ''$'' \<and> r \<noteq> of_char CHR 0x60 \<or> r = of_char CHR 0x0A" by (auto split: option.splits)
  from "2.IH"(2) [OF d refl v] have IH: "dq_read (quote_text (drop k cs) @ CHR 0x22 # rest) = Some (as_read (drop k cs), rest)" .
  have read: "as_read (c # cs) = as_read (c # take k cs) @ as_read (drop k cs)" by (simp add: as_read_append [symmetric])
  show ?case
  proof (cases "of_char c < (0x80 :: nat)")
    case True
    with d have rk: "r = of_char c" "k = 0" by (simp_all add: decode_ascii)
    from r have "IsPrint (of_char c) \<and> c \<noteq> CHR ''$'' \<and> c \<noteq> CHR 0x60 \<or> c = CHR 0x0A" unfolding rk of_char_eq_iff .
    from ascii_rune [OF True this, of "quote_text cs @ CHR 0x22 # rest"] IH read d rk show ?thesis by simp
  next
    case False
    then have high: "\<forall>d\<in>set (c # take k cs). of_char d \<ge> (0x80 :: nat)" "k \<le> length cs" using decode_high [OF d] by auto
    have "r \<ge> 0x80" using decode_rune_high [OF d] False by simp
    with r have "quote_rune r (c # take k cs) = c # take k cs" by (auto simp: quote_rune_def)
    with high_bytes [OF high(1)] IH read d show ?thesis by simp
  qed
qed

lemma split_at_equals:
  assumes "CHR ''='' \<notin> set key"
  shows "takeWhile (\<lambda>c. c \<noteq> CHR ''='') (key @ CHR ''='' # s) = key" "dropWhile (\<lambda>c. c \<noteq> CHR ''='') (key @ CHR ''='' # s) = CHR ''='' # s"
  using assms by (induction key) auto

text \<open>
  (C40) A variable that the installer writes in front of a script is read back by the shell with the
  script untouched behind it: every character arrives as it is, but a newline arrives as a
  backslash followed by the letter n. The value is UTF-8 of printable characters and newlines, without
  dollar sign and backquote.
\<close>

theorem env_var_roundtrip:
  assumes "val \<noteq> []" and "CHR ''='' \<notin> set key" and "legible val"
  shows "read_assignment (prependEnvVar script key val) = Some (key, as_read val, script) \<and> (as_read val = val \<longleftrightarrow> CHR 0x0A \<notin> set val)"
proof -
  note split_at_equals [OF assms(2)]
  moreover have "prependEnvVar script key val = key @ CHR ''='' # CHR 0x22 # quote_text val @ CHR 0x22 # CHR 0x0A # script"
    using assms(1) by (simp add: prependEnvVar_def go_quote_def)
  ultimately have "read_assignment (prependEnvVar script key val) = Some (key, as_read val, script)"
    using dq_read_quoted [OF assms(3), of "CHR 0x0A # script"] by (simp add: read_assignment_def)
  moreover have "length (as_read v) = length v + count_list v (CHR 0x0A)" for v by (induction v) (auto simp: as_read_def)
  moreover have "as_read v = v" if "CHR 0x0A \<notin> set v" for v using that by (induction v) (auto simp: as_read_def)
  ultimately show ?thesis by (metis add_cancel_right_right count_list_0_iff)
qed

text \<open>The examples: a version, a text of two lines, and a word with an umlaut, two bytes beyond ASCII.\<close>

theorem env_var_witness:
  "read_assignment (prependEnvVar ''exit'' ''K8S_VERSION'' ''1.30.0'') = Some (''K8S_VERSION'', ''1.30.0'', ''exit'')
    \<and> read_assignment (prependEnvVar ''exit'' ''RAW_CONFIG'' (''a'' @ [CHR 0x0A] @ ''b'')) = Some (''RAW_CONFIG'', ''a'' @ [CHR 0x5C] @ ''nb'', ''exit'')
    \<and> read_assignment (prependEnvVar ''exit'' ''ROLE'' (''Gr'' @ [CHR 0xC3, CHR 0xBC] @ ''n'')) = Some (''ROLE'', ''Gr'' @ [CHR 0xC3, CHR 0xBC] @ ''n'', ''exit'')"
proof -
  have "IsPrint 0xFC" by (simp add: IsPrint_def printable_ranges_def)
  then have "legible ''1.30.0''" "legible (''a'' @ [CHR 0x0A] @ ''b'')" "legible (''Gr'' @ [CHR 0xC3, CHR 0xBC] @ ''n'')"
    by (simp_all add: decode_rune_def tail_bounds_def IsPrint_def)
  then show ?thesis
    using env_var_roundtrip [of "''1.30.0''" "''K8S_VERSION''" "''exit''"] env_var_roundtrip [of "''a'' @ [CHR 0x0A] @ ''b''" "''RAW_CONFIG''" "''exit''"]
      env_var_roundtrip [of "''Gr'' @ [CHR 0xC3, CHR 0xBC] @ ''n''" "''ROLE''" "''exit''"]
    by (simp add: as_read_def)
qed

section \<open>Registry mirrors\<close>

text \<open>
  \<open>IFS=c read -ra A <<< "$V"\<close> of the script, which is run with \<open>bash\<close>: the first line of the value, cut at
  the separator; no field for the empty line, and no empty field at the end.
\<close>

definition read_fields :: "char \<Rightarrow> string \<Rightarrow> string list" where
  "read_fields c s =
     (let l = takeWhile (\<lambda>d. d \<noteq> CHR 0x0A) s; fs = split_on c l in
      if l = [] then [] else if last fs = [] then butlast fs else fs)"

lemma read_fields_join:
  assumes "\<forall>x\<in>set xs. c \<notin> set x \<and> x \<noteq> [] \<and> CHR 0x0A \<notin> set x" and "c \<noteq> CHR 0x0A"
  shows "read_fields c (join_with [c] xs) = xs"
proof (cases "xs = []")
  case False
  with assms have "join_with [c] xs \<noteq> []" using join_with_Nil by blast
  moreover have "CHR 0x0A \<notin> set (join_with [c] xs)"
    using assms by (induction "[c]" xs rule: join_with.induct) auto
  then have line: "takeWhile (\<lambda>d. d \<noteq> CHR 0x0A) (join_with [c] xs) = join_with [c] xs" by (intro takeWhile_eq_all_conv [THEN iffD2] ballI) auto
  moreover have "last xs \<noteq> []" using False assms(1) by simp
  ultimately show ?thesis using False assms split_join [of xs c] unfolding read_fields_def line Let_def by simp
qed (simp add: read_fields_def)

text \<open>The script: entries are separated by semicolons, host and endpoints by the first equals sign, endpoints by commas.\<close>

definition mirror_entry :: "string \<Rightarrow> string \<times> string list" where
  "mirror_entry entry = (takeWhile (\<lambda>c. c \<noteq> CHR ''='') entry,
     read_fields CHR '','' (case dropWhile (\<lambda>c. c \<noteq> CHR ''='') entry of [] \<Rightarrow> entry | _ # eps \<Rightarrow> eps))"

definition script_mirrors :: "string \<Rightarrow> (string \<times> string list) list" where
  "script_mirrors s = map mirror_entry (read_fields CHR '';'' s)"

definition plain_mirror :: "RegistryMirrorEntry \<Rightarrow> bool" where
  "plain_mirror m \<longleftrightarrow> CHR ''='' \<notin> set (rme_Host m) \<and> CHR '';'' \<notin> set (rme_Host m) \<and> CHR 0x0A \<notin> set (rme_Host m)
     \<and> (\<forall>e\<in>set (rme_Endpoints m). e \<noteq> [] \<and> CHR '','' \<notin> set e \<and> CHR '';'' \<notin> set e \<and> CHR 0x0A \<notin> set e)"

definition one_mirror :: "RegistryMirrorEntry \<Rightarrow> string" where
  "one_mirror m = rme_Host m @ ''='' @ join_with '','' (rme_Endpoints m)"

lemma mirror_text_join: "mirror_text ms = join_with '';'' (map one_mirror ms)"
proof (induction ms rule: rev_induct)
  case (snoc m ms)
  show ?case
  proof (cases "ms = []")
    case True
    then show ?thesis by (simp add: mirror_text_def one_mirror_def)
  next
    case False
    moreover have "join_with '';'' (map one_mirror ms) \<noteq> []"
      using False join_with_Nil [of "'';''" "map one_mirror ms"] by (auto simp: one_mirror_def)
    moreover have "mirror_text (ms @ [m]) = (if mirror_text ms \<noteq> [] then mirror_text ms @ '';'' else mirror_text ms) @ one_mirror m"
      by (simp add: mirror_text_def one_mirror_def)
    ultimately show ?thesis using snoc by (simp add: join_with_snoc)
  qed
qed (simp add: mirror_text_def)

lemma mirror_entry_roundtrip: "plain_mirror m \<Longrightarrow> mirror_entry (one_mirror m) = (rme_Host m, rme_Endpoints m)"
  using read_fields_join [of "rme_Endpoints m" "CHR '',''"] split_at_equals [of "rme_Host m"]
  by (simp add: mirror_entry_def one_mirror_def plain_mirror_def)

text \<open>
  The registry mirrors of the configuration arrive in the script: entry by entry, host and endpoints in order.
\<close>

theorem registry_mirrors_roundtrip:
  assumes "\<forall>m\<in>set ms. plain_mirror m"
  shows "script_mirrors (mirror_text ms) = map (\<lambda>m. (rme_Host m, rme_Endpoints m)) ms"
proof -
  have "d \<notin> set (join_with '','' es)" if "d \<noteq> CHR '',''" "\<forall>e\<in>set es. d \<notin> set e" for d es
    using that by (induction "'',''" es rule: join_with.induct) auto
  then have "\<forall>x\<in>set (map one_mirror ms). CHR '';'' \<notin> set x \<and> x \<noteq> [] \<and> CHR 0x0A \<notin> set x"
    using assms by (auto simp: one_mirror_def plain_mirror_def)
  from read_fields_join [OF this] show ?thesis
    using assms by (simp add: script_mirrors_def mirror_text_join mirror_entry_roundtrip)
qed

theorem registry_mirrors_witness:
  "script_mirrors (mirror_text [\<lparr>rme_Host = ''docker.io'', rme_Endpoints = [''https://a'', ''https://b'']\<rparr>, \<lparr>rme_Host = ''quay.io'', rme_Endpoints = [''https://c'']\<rparr>])
     = [(''docker.io'', [''https://a'', ''https://b'']), (''quay.io'', [''https://c''])]"
  using registry_mirrors_roundtrip [of "[\<lparr>rme_Host = ''docker.io'', rme_Endpoints = [''https://a'', ''https://b'']\<rparr>, \<lparr>rme_Host = ''quay.io'', rme_Endpoints = [''https://c'']\<rparr>]"]
  by (simp add: plain_mirror_def)

end
