(* ===== verification/Bm_Plugins.thy ===== *)
theory Bm_Plugins
  imports Bm_Installer
begin

text \<open>
  The network and storage plugins, \<open>modules/capbm/internal/cni/installer.go\<close> and \<open>csi/installer.go\<close>: is the wanted
  version there already, and if not, one script. The scripts are byte for byte those of the
  source, whose Chinese messages have damaged characters.
\<close>

section \<open>Definitions\<close>

record PluginResult =
  pr_Completed :: bool
  pr_Success :: bool
  pr_Version :: string
  pr_Error :: string

definition plugin_ok :: "string \<Rightarrow> PluginResult" where
  "plugin_ok ver = \<lparr>pr_Completed = True, pr_Success = True, pr_Version = ver, pr_Error = []\<rparr>"

definition release_addon :: "ReleaseImage \<Rightarrow> string \<Rightarrow> AddonDefinition option" where
  "release_addon ri name = List.find (\<lambda>a. ad_Name a = name) (ris_Addons (ri_Spec ri))"

text \<open>The version in an image reference: what stands between the first letter v and the next one or a colon.\<close>

definition image_version :: "string \<Rightarrow> string" where
  "image_version out = (if contains out ''v'' then hd (split_on CHR '':'' (split_on CHR ''v'' out ! 1)) else [])"

definition image_command :: "string \<Rightarrow> string \<Rightarrow> string" where
  "image_command what ns = ''kubectl get '' @ what @ '' -n '' @ ns @ '' -o jsonpath='' @ quoted ''{.spec.template.spec.containers[0].image}'' @ '' 2>/dev/null'' @ or_nothing"

definition ask_image :: "env \<Rightarrow> nat \<Rightarrow> string \<Rightarrow> string \<Rightarrow> string \<Rightarrow> string cact" where
  "ask_image E p name what ns =
     check (ExecuteCommand E p (image_command what ns) None) (wrap (''failed to check '' @ name @ '' version: '')) (\<lambda>r. ret (image_version (cr_Stdout r)))"

definition with_vars :: "env \<Rightarrow> labels \<Rightarrow> string \<Rightarrow> string cact" where
  "with_vars E vars script = andthen (range_map E (map fst vars)) (\<lambda>keys. ret (prependEnvVars script vars keys))"

definition install_plugin :: "env \<Rightarrow> nat \<Rightarrow> string \<Rightarrow> string \<Rightarrow> (bool \<times> string) cact \<Rightarrow> string cact \<Rightarrow> PluginResult cact" where
  "install_plugin E p what wanted checkExisting generate =
     andthen checkExisting (\<lambda>(installed, version).
       if installed \<and> version = wanted then ret (plugin_ok version)
       else andthen generate (\<lambda>script.
         andthen (run_script E p script None) (\<lambda>r.
           if cr_ExitCode r \<noteq> 0 then fail (Errorf (what @ '' installation failed with exit code '' @ show_int (cr_ExitCode r)))
           else ret (plugin_ok wanted))))"

text \<open>Where the files come from: source, release server, local path.\<close>

definition plugin_source :: "bool \<Rightarrow> string \<Rightarrow> BmHTTPServerConfig option \<Rightarrow> string \<Rightarrow> string \<times> string \<times> string" where
  "plugin_source airgap source http path =
     (if \<not> airgap then (''online'', [], [])
      else if source = ''HTTPServer'' then (''http'', (case http of None \<Rightarrow> [] | Some h \<Rightarrow> bhs_BaseURL h), [])
      else if source = ''LocalPath'' then (''local'', [], path)
      else (''http'', [], []))"

definition source_labels :: "string \<Rightarrow> string \<Rightarrow> labels" where
  "source_labels releaseServer localPath = (if releaseServer \<noteq> [] then [(''RELEASE_SERVER'', releaseServer)] else [])
     @ (if localPath \<noteq> [] then [(''LOCAL_PATH'', localPath)] else [])"

subsection \<open>CNI\<close>

definition cni_script :: string where
  \<open>cni_script = script_lines [
    ''#!/bin/bash'',
    ''set -euo pipefail'',
    [],
    ''CNI_TYPE="${CNI_TYPE:-calico}"'',
    ''CNI_VERSION="${CNI_VERSION}"'',
    ''POD_CIDR="${POD_CIDR:-10.244.0.0/16}"'',
    ''CNI_PLUGINS_VERSION="${CNI_PLUGINS_VERSION:-1.3.0}"'',
    ''INSTALL_MODE="${INSTALL_MODE:-Manifest}"'',
    ''INSTALL_SOURCE="${INSTALL_SOURCE:-online}"'',
    ''RELEASE_SERVER="${RELEASE_SERVER:-}"'',
    ''LOCAL_PATH="${LOCAL_PATH:-}"'',
    [],
    ''echo "=== CNI '' @ [CHR 0xE5, CHR 0xAE, CHR 0x89, CHR 0xE8, CHR 0xA3, CHR 0x85, CHR 0xE5, CHR 0xBC, CHR 0x80, CHR 0xEF, CHR 0xBF] @ ''?(type=$CNI_TYPE, version=$CNI_VERSION, source=$INSTALL_SOURCE) ==="'',
    [],
    ''fetch_resource() {'',
    ''    local resource="$1"'',
    ''    local dest="$2"'',
    ''    case "$INSTALL_SOURCE" in'',
    ''        online) curl -fsSL "$resource" -o "$dest" ;;'',
    ''        http)   curl -fsSL "${RELEASE_SERVER}/${resource}" -o "$dest" ;;'',
    ''        local)  cp "${LOCAL_PATH}/${resource}" "$dest" ;;'',
    ''        *)      echo "ERROR: '' @ [CHR 0xE4, CHR 0xB8, CHR 0x8D, CHR 0xE6, CHR 0x94, CHR 0xAF, CHR 0xE6, CHR 0x8C, CHR 0x81, CHR 0xE7, CHR 0x9A, CHR 0x84, CHR 0xE5, CHR 0xAE, CHR 0x89, CHR 0xE8, CHR 0xA3, CHR 0x85, CHR 0xEF, CHR 0xBF] @ ''? $INSTALL_SOURCE"; exit 1 ;;'',
    ''    esac'',
    ''}'',
    [],
    ''install_cni_plugins() {'',
    ''    if [ -d "/opt/cni/bin" ] && [ "$(ls -A /opt/cni/bin 2>/dev/null)" ]; then'',
    ''        echo "CNI '' @ [CHR 0xE4, CHR 0xBA, CHR 0x8C, CHR 0xE8, CHR 0xBF, CHR 0x9B, CHR 0xE5, CHR 0x88, CHR 0xB6, CHR 0xE6, CHR 0x8F, CHR 0x92, CHR 0xE4, CHR 0xBB, CHR 0xB6, CHR 0xE5, CHR 0xB7, CHR 0xB2, CHR 0xE5, CHR 0xAE, CHR 0x89, CHR 0xE8, CHR 0xA3, CHR 0x85] @ ''"'',
    ''        return 0'',
    ''    fi'',
    ''    mkdir -p /opt/cni/bin'',
    [],
    ''    local archive=$(mktemp)'',
    ''    case "$INSTALL_SOURCE" in'',
    ''        online)'',
    ''            fetch_resource "https://github.com/containernetworking/plugins/releases/download/v${CNI_PLUGINS_VERSION}/cni-plugins-linux-amd64-v${CNI_PLUGINS_VERSION}.tgz" "$archive"'',
    ''            ;;'',
    ''        http|local)'',
    ''            fetch_resource "cni/plugins/v${CNI_PLUGINS_VERSION}/linux-${ARCH}/cni-plugins-linux-${ARCH}-v${CNI_PLUGINS_VERSION}.tgz" "$archive"'',
    ''            ;;'',
    ''    esac'',
    ''    tar -C /opt/cni/bin -xzf "$archive"'',
    ''    rm -f "$archive"'',
    ''    echo "CNI '' @ [CHR 0xE4, CHR 0xBA, CHR 0x8C, CHR 0xE8, CHR 0xBF, CHR 0x9B, CHR 0xE5, CHR 0x88, CHR 0xB6, CHR 0xE6, CHR 0x8F, CHR 0x92, CHR 0xE4, CHR 0xBB, CHR 0xB6, CHR 0xE5, CHR 0xAE, CHR 0x89, CHR 0xE8, CHR 0xA3, CHR 0x85, CHR 0xE5, CHR 0xAE, CHR 0x8C, CHR 0xEF, CHR 0xBF] @ ''?'',
    ''}'',
    [],
    ''install_calico() {'',
    ''    # '' @ [CHR 0xE5, CHR 0x8A, CHR 0xA0, CHR 0xE8, CHR 0xBD, CHR 0xBD] @ '' Calico '' @ [CHR 0xE9, CHR 0x95, CHR 0x9C, CHR 0xE5, CHR 0x83, CHR 0x8F] @ '' ('' @ [CHR 0xE7, CHR 0xA6, CHR 0xBB, CHR 0xE7, CHR 0xBA, CHR 0xBF, CHR 0xE6, CHR 0xA8, CHR 0xA1, CHR 0xE5, CHR 0xBC, CHR 0x8F] @ '')'',
    ''    if [ "$INSTALL_SOURCE" != "online" ]; then'',
    ''        echo "=== '' @ [CHR 0xE5, CHR 0x8A, CHR 0xA0, CHR 0xE8, CHR 0xBD, CHR 0xBD] @ '' Calico '' @ [CHR 0xE9, CHR 0x95, CHR 0x9C, CHR 0xE5, CHR 0x83, CHR 0x8F] @ '' ==="'',
    ''        for image in calico-node.tar calico-kube-controllers.tar calico-cni.tar; do'',
    ''            echo "'' @ [CHR 0xE4, CHR 0xB8, CHR 0x8B, CHR 0xE8, CHR 0xBD, CHR 0xBD] @ '': $image"'',
    ''            fetch_resource "images/calico/v${CNI_VERSION}/$image" "/tmp/$image"'',
    ''            echo "'' @ [CHR 0xE5, CHR 0xAF, CHR 0xBC, CHR 0xE5, CHR 0x85, CHR 0xA5] @ '': $image"'',
    ''            ctr -n k8s.io images import "/tmp/$image"'',
    ''            rm -f "/tmp/$image"'',
    ''        done'',
    ''        echo "=== Calico '' @ [CHR 0xE9, CHR 0x95, CHR 0x9C, CHR 0xE5, CHR 0x83, CHR 0x8F, CHR 0xE5, CHR 0x8A, CHR 0xA0, CHR 0xE8, CHR 0xBD, CHR 0xBD, CHR 0xE5, CHR 0xAE, CHR 0x8C, CHR 0xE6, CHR 0x88, CHR 0x90] @ '' ==="'',
    ''    fi'',
    [],
    ''    local manifest=$(mktemp)'',
    ''    case "$INSTALL_SOURCE" in'',
    ''        online)'',
    ''            fetch_resource "https://raw.githubusercontent.com/projectcalico/calico/v${CNI_VERSION}/manifests/calico.yaml" "$manifest"'',
    ''            ;;'',
    ''        http|local)'',
    ''            fetch_resource "cni/calico/v${CNI_VERSION}/calico.yaml" "$manifest"'',
    ''            ;;'',
    ''    esac'',
    ''    sed -i "s|'' @ backslash @ ''"192.168.0.0/16'' @ backslash @ ''"|'' @ backslash @ ''"${POD_CIDR}'' @ backslash @ ''"|g" "$manifest"'',
    ''    kubectl apply -f "$manifest"'',
    ''    rm -f "$manifest"'',
    ''    kubectl rollout status daemonset/calico-node -n kube-system --timeout=300s'',
    ''    echo "Calico '' @ [CHR 0xE9, CHR 0x83, CHR 0xA8, CHR 0xE7, CHR 0xBD, CHR 0xB2, CHR 0xE5, CHR 0xAE, CHR 0x8C, CHR 0xE6, CHR 0x88, CHR 0x90] @ ''"'',
    ''}'',
    [],
    ''install_cilium_helm() {'',
    ''    # '' @ [CHR 0xE5, CHR 0x8A, CHR 0xA0, CHR 0xE8, CHR 0xBD, CHR 0xBD] @ '' Cilium '' @ [CHR 0xE9, CHR 0x95, CHR 0x9C, CHR 0xE5, CHR 0x83, CHR 0x8F] @ '' ('' @ [CHR 0xE7, CHR 0xA6, CHR 0xBB, CHR 0xE7, CHR 0xBA, CHR 0xBF, CHR 0xE6, CHR 0xA8, CHR 0xA1, CHR 0xE5, CHR 0xBC, CHR 0x8F] @ '')'',
    ''    if [ "$INSTALL_SOURCE" != "online" ]; then'',
    ''        echo "=== '' @ [CHR 0xE5, CHR 0x8A, CHR 0xA0, CHR 0xE8, CHR 0xBD, CHR 0xBD] @ '' Cilium '' @ [CHR 0xE9, CHR 0x95, CHR 0x9C, CHR 0xE5, CHR 0x83, CHR 0x8F] @ '' ==="'',
    ''        for image in cilium.tar cilium-operator.tar hubble-relay.tar; do'',
    ''            echo "'' @ [CHR 0xE4, CHR 0xB8, CHR 0x8B, CHR 0xE8, CHR 0xBD, CHR 0xBD] @ '': $image"'',
    ''            fetch_resource "images/cilium/v${CNI_VERSION}/$image" "/tmp/$image"'',
    ''            echo "'' @ [CHR 0xE5, CHR 0xAF, CHR 0xBC, CHR 0xE5, CHR 0x85, CHR 0xA5] @ '': $image"'',
    ''            ctr -n k8s.io images import "/tmp/$image"'',
    ''            rm -f "/tmp/$image"'',
    ''        done'',
    ''        echo "=== Cilium '' @ [CHR 0xE9, CHR 0x95, CHR 0x9C, CHR 0xE5, CHR 0x83, CHR 0x8F, CHR 0xE5, CHR 0x8A, CHR 0xA0, CHR 0xE8, CHR 0xBD, CHR 0xBD, CHR 0xE5, CHR 0xAE, CHR 0x8C, CHR 0xE6, CHR 0x88, CHR 0x90] @ '' ==="'',
    ''    fi'',
    [],
    ''    case "$INSTALL_SOURCE" in'',
    ''        online)'',
    ''            helm repo add cilium https://helm.cilium.io/ || true'',
    ''            helm repo update'',
    ''            helm upgrade --install cilium cilium/cilium '' @ backslash,
    ''                --namespace kube-system --version "v${CNI_VERSION}" '' @ backslash,
    ''                --set ipam.mode=kubernetes '' @ backslash,
    ''                --set kubeProxyReplacement="${CILIUM_KUBE_PROXY_REPLACEMENT:-partial}" '' @ backslash,
    ''                --wait --timeout=300s'',
    ''            ;;'',
    ''        http|local)'',
    ''            local chart=$(mktemp)'',
    ''            fetch_resource "cni/cilium/v${CNI_VERSION}/cilium.tgz" "$chart"'',
    ''            helm upgrade --install cilium "$chart" --namespace kube-system '' @ backslash,
    ''                --set ipam.mode=kubernetes '' @ backslash,
    ''                --set kubeProxyReplacement="${CILIUM_KUBE_PROXY_REPLACEMENT:-partial}" '' @ backslash,
    ''                --wait --timeout=300s'',
    ''            rm -f "$chart"'',
    ''            ;;'',
    ''    esac'',
    ''    echo "Cilium '' @ [CHR 0xE9, CHR 0x83, CHR 0xA8, CHR 0xE7, CHR 0xBD, CHR 0xB2, CHR 0xE5, CHR 0xAE, CHR 0x8C, CHR 0xE6, CHR 0x88, CHR 0x90] @ ''"'',
    ''}'',
    [],
    ''install_flannel() {'',
    ''    # '' @ [CHR 0xE5, CHR 0x8A, CHR 0xA0, CHR 0xE8, CHR 0xBD, CHR 0xBD] @ '' Flannel '' @ [CHR 0xE9, CHR 0x95, CHR 0x9C, CHR 0xE5, CHR 0x83, CHR 0x8F] @ '' ('' @ [CHR 0xE7, CHR 0xA6, CHR 0xBB, CHR 0xE7, CHR 0xBA, CHR 0xBF, CHR 0xE6, CHR 0xA8, CHR 0xA1, CHR 0xE5, CHR 0xBC, CHR 0x8F] @ '')'',
    ''    if [ "$INSTALL_SOURCE" != "online" ]; then'',
    ''        echo "=== '' @ [CHR 0xE5, CHR 0x8A, CHR 0xA0, CHR 0xE8, CHR 0xBD, CHR 0xBD] @ '' Flannel '' @ [CHR 0xE9, CHR 0x95, CHR 0x9C, CHR 0xE5, CHR 0x83, CHR 0x8F] @ '' ==="'',
    ''        for image in flannel.tar; do'',
    ''            echo "'' @ [CHR 0xE4, CHR 0xB8, CHR 0x8B, CHR 0xE8, CHR 0xBD, CHR 0xBD] @ '': $image"'',
    ''            fetch_resource "images/flannel/v${CNI_VERSION}/$image" "/tmp/$image"'',
    ''            echo "'' @ [CHR 0xE5, CHR 0xAF, CHR 0xBC, CHR 0xE5, CHR 0x85, CHR 0xA5] @ '': $image"'',
    ''            ctr -n k8s.io images import "/tmp/$image"'',
    ''            rm -f "/tmp/$image"'',
    ''        done'',
    ''        echo "=== Flannel '' @ [CHR 0xE9, CHR 0x95, CHR 0x9C, CHR 0xE5, CHR 0x83, CHR 0x8F, CHR 0xE5, CHR 0x8A, CHR 0xA0, CHR 0xE8, CHR 0xBD, CHR 0xBD, CHR 0xE5, CHR 0xAE, CHR 0x8C, CHR 0xE6, CHR 0x88, CHR 0x90] @ '' ==="'',
    ''    fi'',
    [],
    ''    local manifest=$(mktemp)'',
    ''    case "$INSTALL_SOURCE" in'',
    ''        online)'',
    ''            fetch_resource "https://github.com/flannel-io/flannel/releases/download/v${CNI_VERSION}/kube-flannel.yml" "$manifest"'',
    ''            ;;'',
    ''        http|local)'',
    ''            fetch_resource "cni/flannel/v${CNI_VERSION}/flannel.yaml" "$manifest"'',
    ''            ;;'',
    ''    esac'',
    ''    sed -i "s|'' @ backslash @ ''"10.244.0.0/16'' @ backslash @ ''"|'' @ backslash @ ''"${POD_CIDR}'' @ backslash @ ''"|g" "$manifest"'',
    ''    kubectl apply -f "$manifest"'',
    ''    rm -f "$manifest"'',
    ''    kubectl rollout status daemonset/kube-flannel-ds -n kube-flannel --timeout=300s'',
    ''    echo "Flannel '' @ [CHR 0xE9, CHR 0x83, CHR 0xA8, CHR 0xE7, CHR 0xBD, CHR 0xB2, CHR 0xE5, CHR 0xAE, CHR 0x8C, CHR 0xE6, CHR 0x88, CHR 0x90] @ ''"'',
    ''}'',
    [],
    ''verify_cni() {'',
    ''    [ -d "/opt/cni/bin" ] && [ -n "$(ls -A /opt/cni/bin 2>/dev/null)" ] && echo "CNI '' @ [CHR 0xE4, CHR 0xBA, CHR 0x8C, CHR 0xE8, CHR 0xBF, CHR 0x9B, CHR 0xEF, CHR 0xBF] @ ''? OK" || { echo "ERROR: /opt/cni/bin '' @ [CHR 0xE4, CHR 0xB8, CHR 0xBA, CHR 0xE7, CHR 0xA9, CHR 0xBA] @ ''"; return 1; }'',
    ''    [ -d "/etc/cni/net.d" ] && [ -n "$(ls -A /etc/cni/net.d 2>/dev/null)" ] && echo "CNI '' @ [CHR 0xE9, CHR 0x85, CHR 0x8D, CHR 0xE7, CHR 0xBD, CHR 0xAE] @ '': OK" || { echo "ERROR: /etc/cni/net.d '' @ [CHR 0xE4, CHR 0xB8, CHR 0xBA, CHR 0xE7, CHR 0xA9, CHR 0xBA] @ ''"; return 1; }'',
    ''    local status=$(kubectl get node $(hostname) -o jsonpath='' @ [CHR 0x27] @ ''{.status.conditions[?(@.type=="Ready")].status}'' @ [CHR 0x27] @ '' 2>/dev/null || echo "Unknown")'',
    ''    [ "$status" = "True" ] && echo "Node Ready: OK" || echo "WARNING: Node '' @ [CHR 0xE5, CHR 0xB0, CHR 0x9A, CHR 0xE6, CHR 0x9C, CHR 0xAA] @ '' Ready"'',
    ''    echo "CNI '' @ [CHR 0xE9, CHR 0xAA, CHR 0x8C, CHR 0xE8, CHR 0xAF, CHR 0x81, CHR 0xE5, CHR 0xAE, CHR 0x8C, CHR 0xE6, CHR 0x88, CHR 0x90] @ ''"'',
    ''}'',
    [],
    ''install_cni_plugins'',
    ''case "$CNI_TYPE" in'',
    ''    calico)  install_calico ;;'',
    ''    cilium)  install_cilium_helm ;;'',
    ''    flannel) install_flannel ;;'',
    ''    *) echo "ERROR: '' @ [CHR 0xE4, CHR 0xB8, CHR 0x8D, CHR 0xE6, CHR 0x94, CHR 0xAF, CHR 0xE6, CHR 0x8C, CHR 0x81, CHR 0xE7, CHR 0x9A, CHR 0x84] @ '' CNI '' @ [CHR 0xE7, CHR 0xB1, CHR 0xBB, CHR 0xE5, CHR 0x9E, CHR 0x8B] @ '': $CNI_TYPE"; exit 1 ;;'',
    ''esac'',
    ''verify_cni'',
    ''echo "=== CNI '' @ [CHR 0xE5, CHR 0xAE, CHR 0x89, CHR 0xE8, CHR 0xA3, CHR 0x85, CHR 0xE5, CHR 0xAE, CHR 0x8C, CHR 0xE6, CHR 0x88, CHR 0x90] @ '' ==="'']\<close>

record CniInstaller =
  cni_ins_config :: CNIConfig
  cni_ins_podCIDR :: string

definition NewCNI :: "CNIConfig \<Rightarrow> string \<Rightarrow> CniInstaller" where
  "NewCNI config podCIDR = \<lparr>cni_ins_config = config, cni_ins_podCIDR = podCIDR\<rparr>"

definition cni_from_release :: "ReleaseImage \<Rightarrow> CNIConfig \<Rightarrow> CNIConfig" where
  "cni_from_release ri config =
     (let c1 = (if cni_Type config = [] then (case release_addon ri ''calico'' of
                    Some a \<Rightarrow> config\<lparr>cni_Type := ''calico'', cni_Version := ad_Version a\<rparr>
                  | None \<Rightarrow> (case release_addon ri ''cilium'' of Some a \<Rightarrow> config\<lparr>cni_Type := ''cilium'', cni_Version := ad_Version a\<rparr> | None \<Rightarrow> config))
                else config)
      in if cni_Version c1 = [] \<and> cni_Type c1 \<noteq> []
         then (case release_addon ri (cni_Type c1) of Some a \<Rightarrow> c1\<lparr>cni_Version := ad_Version a\<rparr> | None \<Rightarrow> c1) else c1)"

definition NewCNIFromReleaseImage :: "ReleaseImage \<Rightarrow> CNIConfig \<Rightarrow> string \<Rightarrow> CniInstaller" where
  "NewCNIFromReleaseImage ri config podCIDR = \<lparr>cni_ins_config = cni_from_release ri config, cni_ins_podCIDR = podCIDR\<rparr>"

definition cni_checkExisting :: "env \<Rightarrow> nat \<Rightarrow> CNIConfig \<Rightarrow> (bool \<times> string) cact" where
  "cni_checkExisting E p c =
     check (ExecuteCommand E p (''ls /opt/cni/bin/ 2>/dev/null | head -1'' @ or_nothing) None) (wrap ''failed to check CNI binaries: '') (\<lambda>r.
     andthen (if cni_Type c = ''calico'' then ask_image E p ''calico'' ''daemonset calico-node'' ''kube-system''
              else if cni_Type c = ''cilium'' then ask_image E p ''cilium'' ''deployment cilium-operator'' ''kube-system''
              else if cni_Type c = ''flannel'' then ask_image E p ''flannel'' ''daemonset kube-flannel-ds'' ''kube-flannel''
              else ret []) (\<lambda>version.
       ret (TrimSpace (cr_Stdout r) \<noteq> [], version)))"

definition cni_source :: "CNIConfig \<Rightarrow> string \<times> string \<times> string" where
  "cni_source c = (case cni_AirGap c of None \<Rightarrow> plugin_source False [] None []
     | Some a \<Rightarrow> plugin_source (cna_Enabled a) (cna_ManifestSource a) (cna_HTTPServerConfig a) (cna_LocalPath a))"

definition cni_vars :: "CNIConfig \<Rightarrow> string \<Rightarrow> labels" where
  "cni_vars c podCIDR = (case cni_source c of (installSource, releaseServer, localPath) \<Rightarrow>
     [(''CNI_TYPE'', cni_Type c), (''CNI_VERSION'', cni_Version c), (''POD_CIDR'', podCIDR), (''CNI_PLUGINS_VERSION'', ''1.3.0''),
      (''INSTALL_MODE'', cni_InstallMode c), (''INSTALL_SOURCE'', installSource)] @ source_labels releaseServer localPath
     @ (case cni_Config c of None \<Rightarrow> [] | Some g \<Rightarrow> (case cpc_Cilium g of None \<Rightarrow> []
          | Some x \<Rightarrow> if cil_KubeProxyReplacement x \<noteq> [] then [(''CILIUM_KUBE_PROXY_REPLACEMENT'', cil_KubeProxyReplacement x)] else [])))"

definition cni_defaults :: "CNIConfig \<Rightarrow> CNIConfig" where
  "cni_defaults c = (let c1 = (if cni_Type c = [] then c\<lparr>cni_Type := ''calico''\<rparr> else c)
     in if cni_InstallMode c1 = [] then c1\<lparr>cni_InstallMode := ''Manifest''\<rparr> else c1)"

definition cni_Install :: "env \<Rightarrow> nat \<Rightarrow> CniInstaller \<Rightarrow> PluginResult cact" where
  "cni_Install E p i =
     (if \<not> cni_Enabled (cni_ins_config i)
      then ret \<lparr>pr_Completed = True, pr_Success = True, pr_Version = [], pr_Error = ''CNI installation disabled''\<rparr>
      else let c = cni_defaults (cni_ins_config i) in
        install_plugin E p ''CNI'' (cni_Version c) (cni_checkExisting E p c) (with_vars E (cni_vars c (cni_ins_podCIDR i)) cni_script))"

subsection \<open>CSI\<close>

definition ceph_script :: string where
  \<open>ceph_script = script_lines [
    ''#!/bin/bash'',
    ''set -euo pipefail'',
    [],
    ''CSI_DRIVER="${CSI_DRIVER:-ceph-csi}"'',
    ''CSI_VERSION="${CSI_VERSION}"'',
    ''INSTALL_MODE="${INSTALL_MODE:-Helm}"'',
    ''INSTALL_SOURCE="${INSTALL_SOURCE:-online}"'',
    ''RELEASE_SERVER="${RELEASE_SERVER:-}"'',
    ''LOCAL_PATH="${LOCAL_PATH:-}"'',
    ''CEPH_CLUSTER_ID="${CEPH_CLUSTER_ID}"'',
    ''CEPH_MONITORS="${CEPH_MONITORS}"'',
    ''CEPH_RBD_POOL="${CEPH_RBD_POOL:-kubernetes}"'',
    ''SC_NAME="${SC_NAME:-ceph-rbd}"'',
    [],
    ''echo "=== CSI '' @ [CHR 0xE5, CHR 0xAE, CHR 0x89, CHR 0xE8, CHR 0xA3, CHR 0x85, CHR 0xE5, CHR 0xBC, CHR 0x80, CHR 0xEF, CHR 0xBF] @ ''?(driver=$CSI_DRIVER, version=$CSI_VERSION, source=$INSTALL_SOURCE) ==="'',
    [],
    ''fetch_resource() {'',
    ''    local resource="$1"'',
    ''    local dest="$2"'',
    ''    case "$INSTALL_SOURCE" in'',
    ''        online) curl -fsSL "$resource" -o "$dest" ;;'',
    ''        http)   curl -fsSL "${RELEASE_SERVER}/${resource}" -o "$dest" ;;'',
    ''        local)  cp "${LOCAL_PATH}/${resource}" "$dest" ;;'',
    ''        *)      echo "ERROR: '' @ [CHR 0xE4, CHR 0xB8, CHR 0x8D, CHR 0xE6, CHR 0x94, CHR 0xAF, CHR 0xE6, CHR 0x8C, CHR 0x81, CHR 0xE7, CHR 0x9A, CHR 0x84, CHR 0xE5, CHR 0xAE, CHR 0x89, CHR 0xE8, CHR 0xA3, CHR 0x85, CHR 0xEF, CHR 0xBF] @ ''? $INSTALL_SOURCE"; exit 1 ;;'',
    ''    esac'',
    ''}'',
    [],
    ''load_csi_images() {'',
    ''    case "$INSTALL_SOURCE" in'',
    ''        online)'',
    ''            echo "'' @ [CHR 0xE5, CHR 0x9C, CHR 0xA8, CHR 0xE7, CHR 0xBA, CHR 0xBF, CHR 0xE6, CHR 0xA8, CHR 0xA1, CHR 0xE5, CHR 0xBC, CHR 0x8F, CHR 0xEF, CHR 0xBC, CHR 0x9A, CHR 0xE9, CHR 0x95, CHR 0x9C, CHR 0xE5, CHR 0x83, CHR 0x8F, CHR 0xE4, CHR 0xBB, CHR 0x8E] @ '' registry '' @ [CHR 0xE6, CHR 0x8B, CHR 0x89, CHR 0xE5, CHR 0x8F, CHR 0x96] @ ''"'',
    ''            ;;'',
    ''        http|local)'',
    ''            echo "=== '' @ [CHR 0xE5, CHR 0x8A, CHR 0xA0, CHR 0xE8, CHR 0xBD, CHR 0xBD] @ '' Ceph-CSI '' @ [CHR 0xE9, CHR 0x95, CHR 0x9C, CHR 0xE5, CHR 0x83, CHR 0x8F] @ '' ==="'',
    ''            for image in cephcsi.tar csi-attacher.tar csi-provisioner.tar csi-snapshotter.tar csi-resizer.tar csi-node-driver-registrar.tar; do'',
    ''                echo "'' @ [CHR 0xE4, CHR 0xB8, CHR 0x8B, CHR 0xE8, CHR 0xBD, CHR 0xBD] @ '': $image"'',
    ''                fetch_resource "images/ceph-csi/v${CSI_VERSION}/$image" "/tmp/$image"'',
    ''                echo "'' @ [CHR 0xE5, CHR 0xAF, CHR 0xBC, CHR 0xE5, CHR 0x85, CHR 0xA5] @ '': $image"'',
    ''                ctr -n k8s.io images import "/tmp/$image"'',
    ''                rm -f "/tmp/$image"'',
    ''            done'',
    ''            echo "=== Ceph-CSI '' @ [CHR 0xE9, CHR 0x95, CHR 0x9C, CHR 0xE5, CHR 0x83, CHR 0x8F, CHR 0xE5, CHR 0x8A, CHR 0xA0, CHR 0xE8, CHR 0xBD, CHR 0xBD, CHR 0xE5, CHR 0xAE, CHR 0x8C, CHR 0xE6, CHR 0x88, CHR 0x90] @ '' ==="'',
    ''            ;;'',
    ''    esac'',
    ''}'',
    [],
    ''install_ceph_csi_helm() {'',
    ''    case "$INSTALL_SOURCE" in'',
    ''        online)'',
    ''            helm repo add ceph-csi https://ceph.github.io/csi-charts || true'',
    ''            helm repo update'',
    ''            local monitors_json="["'',
    ''            local first=true'',
    ''            IFS='' @ [CHR 0x27] @ '','' @ [CHR 0x27] @ '' read -ra MON_ARRAY <<< "$CEPH_MONITORS"'',
    ''            for mon in "${MON_ARRAY[@]}"; do'',
    ''                $first && { monitors_json="${monitors_json}'' @ backslash @ ''"${mon}'' @ backslash @ ''""; first=false; } || monitors_json="${monitors_json},'' @ backslash @ ''"${mon}'' @ backslash @ ''""'',
    ''            done'',
    ''            monitors_json="${monitors_json}]"'',
    ''            helm upgrade --install ceph-csi ceph-csi/ceph-csi '' @ backslash,
    ''                --namespace ceph-csi --create-namespace --version "v${CSI_VERSION}" '' @ backslash,
    ''                --set "csiConfig[0].clusterID=${CEPH_CLUSTER_ID}" '' @ backslash,
    ''                --set "csiConfig[0].monitors=${monitors_json}" '' @ backslash,
    ''                --set "storageClass.create=true" '' @ backslash,
    ''                --set "storageClass.name=${SC_NAME}" '' @ backslash,
    ''                --set "storageClass.pool=${CEPH_RBD_POOL}" '' @ backslash,
    ''                --wait --timeout=300s'',
    ''            ;;'',
    ''        http|local)'',
    ''            local chart=$(mktemp)'',
    ''            fetch_resource "csi/ceph-csi/v${CSI_VERSION}/ceph-csi.tgz" "$chart"'',
    ''            local monitors_json="["'',
    ''            local first=true'',
    ''            IFS='' @ [CHR 0x27] @ '','' @ [CHR 0x27] @ '' read -ra MON_ARRAY <<< "$CEPH_MONITORS"'',
    ''            for mon in "${MON_ARRAY[@]}"; do'',
    ''                $first && { monitors_json="${monitors_json}'' @ backslash @ ''"${mon}'' @ backslash @ ''""; first=false; } || monitors_json="${monitors_json},'' @ backslash @ ''"${mon}'' @ backslash @ ''""'',
    ''            done'',
    ''            monitors_json="${monitors_json}]"'',
    ''            helm upgrade --install ceph-csi "$chart" '' @ backslash,
    ''                --namespace ceph-csi --create-namespace '' @ backslash,
    ''                --set "csiConfig[0].clusterID=${CEPH_CLUSTER_ID}" '' @ backslash,
    ''                --set "csiConfig[0].monitors=${monitors_json}" '' @ backslash,
    ''                --set "storageClass.create=true" '' @ backslash,
    ''                --set "storageClass.name=${SC_NAME}" '' @ backslash,
    ''                --wait --timeout=300s'',
    ''            rm -f "$chart"'',
    ''            ;;'',
    ''    esac'',
    ''    echo "Ceph-CSI '' @ [CHR 0xE9, CHR 0x83, CHR 0xA8, CHR 0xE7, CHR 0xBD, CHR 0xB2, CHR 0xE5, CHR 0xAE, CHR 0x8C, CHR 0xE6, CHR 0x88, CHR 0x90] @ ''"'',
    ''}'',
    [],
    ''install_ceph_csi_manifest() {'',
    ''    kubectl create namespace ceph-csi --dry-run=client -o yaml | kubectl apply -f -'',
    ''    local manifest=$(mktemp)'',
    ''    case "$INSTALL_SOURCE" in'',
    ''        online)'',
    ''            local base="https://raw.githubusercontent.com/ceph/ceph-csi/v${CSI_VERSION}/deploy/cephcsi/kubernetes"'',
    ''            for f in csi-config-map.yaml csi-rbdplugin.yaml csi-rbdplugin-provisioner.yaml; do'',
    ''                curl -fsSL "${base}/${f}" | kubectl apply -n ceph-csi -f -'',
    ''            done'',
    ''            ;;'',
    ''        http|local)'',
    ''            fetch_resource "csi/ceph-csi-${CSI_VERSION}.yaml" "$manifest"'',
    ''            kubectl apply -n ceph-csi -f "$manifest"'',
    ''            rm -f "$manifest"'',
    ''            ;;'',
    ''    esac'',
    ''    cat <<EOF | kubectl apply -f -'',
    ''apiVersion: storage.k8s.io/v1'',
    ''kind: StorageClass'',
    ''metadata:'',
    ''  name: ${SC_NAME}'',
    ''provisioner: rbd.csi.ceph.com'',
    ''parameters:'',
    ''  clusterID: ${CEPH_CLUSTER_ID}'',
    ''  pool: ${CEPH_RBD_POOL}'',
    ''  imageFeatures: layering'',
    ''  csi.storage.k8s.io/provisioner-secret-name: csi-rbd-secret'',
    ''  csi.storage.k8s.io/provisioner-secret-namespace: ceph-csi'',
    ''  csi.storage.k8s.io/controller-expand-secret-name: csi-rbd-secret'',
    ''  csi.storage.k8s.io/controller-expand-secret-namespace: ceph-csi'',
    ''  csi.storage.k8s.io/node-stage-secret-name: csi-rbd-secret'',
    ''  csi.storage.k8s.io/node-stage-secret-namespace: ceph-csi'',
    ''reclaimPolicy: Delete'',
    ''volumeBindingMode: Immediate'',
    ''allowVolumeExpansion: true'',
    ''EOF'',
    ''    kubectl rollout status deployment/ceph-csi-rbdplugin-provisioner -n ceph-csi --timeout=300s'',
    ''    echo "Ceph-CSI '' @ [CHR 0xE9, CHR 0x83, CHR 0xA8, CHR 0xE7, CHR 0xBD, CHR 0xB2, CHR 0xE5, CHR 0xAE, CHR 0x8C, CHR 0xE6, CHR 0x88, CHR 0x90] @ ''"'',
    ''}'',
    [],
    ''verify_csi() {'',
    ''    kubectl get storageclass "$SC_NAME" &>/dev/null && echo "StorageClass ($SC_NAME): OK" || { echo "ERROR: StorageClass '' @ [CHR 0xE4, CHR 0xB8, CHR 0x8D, CHR 0xE5, CHR 0xAD, CHR 0x98, CHR 0xEF, CHR 0xBF] @ ''?; return 1; }'',
    ''    echo "CSI '' @ [CHR 0xE9, CHR 0xAA, CHR 0x8C, CHR 0xE8, CHR 0xAF, CHR 0x81, CHR 0xE5, CHR 0xAE, CHR 0x8C, CHR 0xE6, CHR 0x88, CHR 0x90] @ ''"'',
    ''}'',
    [],
    ''load_csi_images'',
    ''case "$INSTALL_MODE" in'',
    ''    Helm)     install_ceph_csi_helm ;;'',
    ''    Manifest) install_ceph_csi_manifest ;;'',
    ''esac'',
    ''verify_csi'',
    ''echo "=== CSI '' @ [CHR 0xE5, CHR 0xAE, CHR 0x89, CHR 0xE8, CHR 0xA3, CHR 0x85, CHR 0xE5, CHR 0xAE, CHR 0x8C, CHR 0xE6, CHR 0x88, CHR 0x90] @ '' ==="'']\<close>

definition local_script :: string where
  \<open>local_script = script_lines [
    ''#!/bin/bash'',
    ''set -euo pipefail'',
    [],
    ''CSI_VERSION="${CSI_VERSION}"'',
    ''INSTALL_SOURCE="${INSTALL_SOURCE:-online}"'',
    ''RELEASE_SERVER="${RELEASE_SERVER:-}"'',
    ''LOCAL_PATH="${LOCAL_PATH:-}"'',
    ''SC_NAME="${SC_NAME:-local-path}"'',
    [],
    ''echo "=== Local-CSI '' @ [CHR 0xE5, CHR 0xAE, CHR 0x89, CHR 0xE8, CHR 0xA3, CHR 0x85, CHR 0xE5, CHR 0xBC, CHR 0x80, CHR 0xEF, CHR 0xBF] @ ''?(source=$INSTALL_SOURCE) ==="'',
    [],
    ''fetch_resource() {'',
    ''    local resource="$1"'',
    ''    local dest="$2"'',
    ''    case "$INSTALL_SOURCE" in'',
    ''        online) curl -fsSL "$resource" -o "$dest" ;;'',
    ''        http)   curl -fsSL "${RELEASE_SERVER}/${resource}" -o "$dest" ;;'',
    ''        local)  cp "${LOCAL_PATH}/${resource}" "$dest" ;;'',
    ''        *)      echo "ERROR: '' @ [CHR 0xE4, CHR 0xB8, CHR 0x8D, CHR 0xE6, CHR 0x94, CHR 0xAF, CHR 0xE6, CHR 0x8C, CHR 0x81, CHR 0xE7, CHR 0x9A, CHR 0x84, CHR 0xE5, CHR 0xAE, CHR 0x89, CHR 0xE8, CHR 0xA3, CHR 0x85, CHR 0xEF, CHR 0xBF] @ ''? $INSTALL_SOURCE"; exit 1 ;;'',
    ''    esac'',
    ''}'',
    [],
    ''install_local_csi() {'',
    ''    local manifest=$(mktemp)'',
    ''    case "$INSTALL_SOURCE" in'',
    ''        online)'',
    ''            curl -fsSL "https://raw.githubusercontent.com/rancher/local-path-provisioner/v${CSI_VERSION}/deploy/local-path-storage.yaml" -o "$manifest"'',
    ''            ;;'',
    ''        http|local)'',
    ''            fetch_resource "csi/local-path-provisioner-${CSI_VERSION}.yaml" "$manifest"'',
    ''            ;;'',
    ''    esac'',
    ''    kubectl apply -f "$manifest"'',
    ''    rm -f "$manifest"'',
    ''    kubectl rollout status deployment/local-path-provisioner -n local-path-storage --timeout=300s'',
    ''    echo "Local-CSI '' @ [CHR 0xE9, CHR 0x83, CHR 0xA8, CHR 0xE7, CHR 0xBD, CHR 0xB2, CHR 0xE5, CHR 0xAE, CHR 0x8C, CHR 0xE6, CHR 0x88, CHR 0x90] @ ''"'',
    ''}'',
    [],
    ''verify_csi() {'',
    ''    kubectl get storageclass "$SC_NAME" &>/dev/null && echo "StorageClass ($SC_NAME): OK" || { echo "ERROR: StorageClass '' @ [CHR 0xE4, CHR 0xB8, CHR 0x8D, CHR 0xE5, CHR 0xAD, CHR 0x98, CHR 0xEF, CHR 0xBF] @ ''?; return 1; }'',
    ''    echo "CSI '' @ [CHR 0xE9, CHR 0xAA, CHR 0x8C, CHR 0xE8, CHR 0xAF, CHR 0x81, CHR 0xE5, CHR 0xAE, CHR 0x8C, CHR 0xE6, CHR 0x88, CHR 0x90] @ ''"'',
    ''}'',
    [],
    ''install_local_csi'',
    ''verify_csi'',
    ''echo "=== Local-CSI '' @ [CHR 0xE5, CHR 0xAE, CHR 0x89, CHR 0xE8, CHR 0xA3, CHR 0x85, CHR 0xE5, CHR 0xAE, CHR 0x8C, CHR 0xE6, CHR 0x88, CHR 0x90] @ '' ==="'']\<close>

definition csi_from_release :: "ReleaseImage \<Rightarrow> CSIConfig \<Rightarrow> CSIConfig" where
  "csi_from_release ri config =
     (let c1 = (if csi_Driver config = [] then (case release_addon ri ''ceph-csi'' of
                    Some a \<Rightarrow> config\<lparr>csi_Driver := ''ceph-csi'', csi_Version := ad_Version a\<rparr> | None \<Rightarrow> config)
                else config)
      in if csi_Version c1 = [] \<and> csi_Driver c1 \<noteq> []
         then (case release_addon ri (csi_Driver c1) of Some a \<Rightarrow> c1\<lparr>csi_Version := ad_Version a\<rparr> | None \<Rightarrow> c1) else c1)"

definition ask_driver :: "env \<Rightarrow> nat \<Rightarrow> string \<Rightarrow> string \<Rightarrow> string \<Rightarrow> (bool \<times> string) cact" where
  "ask_driver E p name what ns =
     check (ExecuteCommand E p (image_command what ns) None) (wrap (''failed to check '' @ name @ '' version: '')) (\<lambda>r.
       ret (contains (cr_Stdout r) ''v'', image_version (cr_Stdout r)))"

definition csi_checkExisting :: "env \<Rightarrow> nat \<Rightarrow> CSIConfig \<Rightarrow> (bool \<times> string) cact" where
  "csi_checkExisting E p c =
     (if csi_Driver c = ''ceph-csi'' then ask_driver E p ''ceph-csi'' ''deployment ceph-csi-rbdplugin-provisioner'' ''ceph-csi''
      else if csi_Driver c = ''local-csi'' then ask_driver E p ''local-csi'' ''deployment local-path-provisioner'' ''local-path-storage''
      else ret (False, []))"

definition csi_source :: "CSIConfig \<Rightarrow> string \<times> string \<times> string" where
  "csi_source c = (case csi_AirGap c of None \<Rightarrow> plugin_source False [] None []
     | Some a \<Rightarrow> plugin_source (csa_Enabled a) (csa_ManifestSource a) (csa_HTTPServerConfig a) (csa_LocalPath a))"

definition class_name :: "CSIStorageClass option \<Rightarrow> string \<Rightarrow> string" where
  "class_name sc d = (case sc of None \<Rightarrow> d | Some s \<Rightarrow> if csc_Name s \<noteq> [] then csc_Name s else d)"

definition ceph_config :: "CSIConfig \<Rightarrow> CephCsiConfig option" where
  "ceph_config c = (case csi_Config c of None \<Rightarrow> None | Some g \<Rightarrow> cdc_CephCsi g)"

definition ceph_vars :: "CSIConfig \<Rightarrow> string \<times> string \<times> string \<Rightarrow> labels" where
  "ceph_vars c source = (case source of (installSource, releaseServer, localPath) \<Rightarrow>
     [(''CSI_DRIVER'', ''ceph-csi''), (''CSI_VERSION'', csi_Version c), (''INSTALL_MODE'', csi_InstallMode c), (''INSTALL_SOURCE'', installSource),
      (''CEPH_CLUSTER_ID'', (case ceph_config c of None \<Rightarrow> [] | Some g \<Rightarrow> cep_ClusterID g)),
      (''CEPH_MONITORS'', (case ceph_config c of None \<Rightarrow> [] | Some g \<Rightarrow> plain_mirrors (cep_Monitors g))),
      (''CEPH_RBD_POOL'', (case ceph_config c of None \<Rightarrow> ''kubernetes''
         | Some g \<Rightarrow> (case cep_RBD g of None \<Rightarrow> ''kubernetes'' | Some r \<Rightarrow> if rbd_Pool r \<noteq> [] then rbd_Pool r else ''kubernetes''))),
      (''SC_NAME'', (case ceph_config c of None \<Rightarrow> ''ceph-rbd'' | Some g \<Rightarrow> class_name (cep_StorageClass g) ''ceph-rbd''))]
     @ source_labels releaseServer localPath)"

definition local_vars :: "CSIConfig \<Rightarrow> string \<times> string \<times> string \<Rightarrow> labels" where
  "local_vars c source = (case source of (installSource, releaseServer, localPath) \<Rightarrow>
     [(''CSI_VERSION'', csi_Version c), (''INSTALL_SOURCE'', installSource),
      (''SC_NAME'', (case csi_Config c of None \<Rightarrow> ''local-path''
         | Some g \<Rightarrow> (case cdc_LocalCsi g of None \<Rightarrow> ''local-path'' | Some x \<Rightarrow> class_name (lcs_StorageClass x) ''local-path'')))]
     @ source_labels releaseServer localPath)"

definition csi_generateInstallScript :: "env \<Rightarrow> CSIConfig \<Rightarrow> string cact" where
  "csi_generateInstallScript E c =
     (if csi_Driver c = ''ceph-csi'' then with_vars E (ceph_vars c (csi_source c)) ceph_script
      else with_vars E (local_vars c (csi_source c)) local_script)"

definition csi_defaults :: "CSIConfig \<Rightarrow> CSIConfig" where
  "csi_defaults c = (let c1 = (if csi_Driver c = [] then c\<lparr>csi_Driver := ''local-csi''\<rparr> else c)
     in if csi_InstallMode c1 = [] then c1\<lparr>csi_InstallMode := ''Helm''\<rparr> else c1)"

definition csi_Install :: "env \<Rightarrow> nat \<Rightarrow> CSIConfig \<Rightarrow> PluginResult cact" where
  "csi_Install E p config =
     (if \<not> csi_Enabled config
      then ret \<lparr>pr_Completed = True, pr_Success = True, pr_Version = [], pr_Error = ''CSI installation disabled''\<rparr>
      else let c = csi_defaults config in
        install_plugin E p ''CSI'' (csi_Version c) (csi_checkExisting E p c) (csi_generateInstallScript E c))"

section \<open>What an installation has done\<close>

lemma andthen_assoc: "andthen (andthen m k) h = andthen m (\<lambda>x. andthen (k x) h)"
  by (rule ext) (auto simp: check_apply split: prod.splits res.splits)

lemma ret_andthen: "andthen (ret x) k = k x"
  by (rule ext) (simp add: check_apply ret_apply)

text \<open>The scripts that \<open>with_vars\<close> can build: one for every order of the map.\<close>

definition plugin_plan :: "labels \<Rightarrow> string \<Rightarrow> string \<Rightarrow> bool" where
  "plugin_plan vars base s \<longleftrightarrow> (\<exists>keys. mset keys = mset (map fst vars) \<and> s = prependEnvVars base vars keys)"

text \<open>The host was asked for the image of a workload, and its version is the one given.\<close>

definition shows_version :: "env \<Rightarrow> string \<Rightarrow> string \<Rightarrow> string \<Rightarrow> string \<Rightarrow> log \<Rightarrow> log \<Rightarrow> bool" where
  "shows_version E n what ns ver l0 l1 \<longleftrightarrow> (\<exists>r. commanded E n (image_command what ns) None r l0 l1 \<and> image_version (cr_Stdout r) = ver)"

lemma shows_version_widen:
  "shows_version E n what ns ver l l' \<Longrightarrow> prefix l0 l \<Longrightarrow> prefix l' l1 \<Longrightarrow> shows_version E n what ns ver l0 l1"
  unfolding shows_version_def by (blast intro: commanded_widen)

definition cni_workload :: "string \<Rightarrow> (string \<times> string) option" where
  "cni_workload ty = map_of [(''calico'', ''daemonset calico-node'', ''kube-system''), (''cilium'', ''deployment cilium-operator'', ''kube-system''),
     (''flannel'', ''daemonset kube-flannel-ds'', ''kube-flannel'')] ty"

definition csi_workload :: "string \<Rightarrow> (string \<times> string) option" where
  "csi_workload driver = map_of [(''ceph-csi'', ''deployment ceph-csi-rbdplugin-provisioner'', ''ceph-csi''),
     (''local-csi'', ''deployment local-path-provisioner'', ''local-path-storage'')] driver"

definition version_found :: "env \<Rightarrow> string \<Rightarrow> (string \<times> string) option \<Rightarrow> string \<Rightarrow> log \<Rightarrow> log \<Rightarrow> bool" where
  "version_found E n workload ver l0 l1 \<longleftrightarrow> (case workload of None \<Rightarrow> ver = [] | Some (what, ns) \<Rightarrow> shows_version E n what ns ver l0 l1)"

lemma version_found_cases:
  "version_found E n None = (\<lambda>ver _ _. ver = [])" "version_found E n (Some (what, ns)) = shows_version E n what ns"
  by (simp_all add: fun_eq_iff version_found_def)

lemma version_found_widen:
  "version_found E n workload ver l l' \<Longrightarrow> prefix l0 l \<Longrightarrow> prefix l' l1 \<Longrightarrow> version_found E n workload ver l0 l1"
  unfolding version_found_def by (auto split: option.splits prod.splits intro: shows_version_widen)

lemma in_session_image: "in_session p n port (ask_image E p name what ns) (\<lambda>v. shows_version E n what ns v)"
  unfolding ask_image_def
  by (rule in_session_weaken [OF in_session_check [OF in_session_command, where R = "\<lambda>x y l0 l1. y = image_version (cr_Stdout x) \<and> l1 = l0"]])
     (auto intro: in_session_basic simp: shows_version_def)

text \<open>
  When a plugin counts as found. A network plugin: the host has files in \<open>/opt/cni/bin\<close>, and the version
  that the host shows for its workload is the one given; the empty version is also the version of a host
  that shows none, and of a type without a known workload. A storage plugin: the image of its workload that
  the host shows has the letter v, and its version is the one given; drivers without a known workload are never found.
\<close>

definition cni_found :: "env \<Rightarrow> string \<Rightarrow> string \<Rightarrow> string \<Rightarrow> log \<Rightarrow> log \<Rightarrow> bool" where
  "cni_found E n ty ver l0 l1 \<longleftrightarrow>
     (\<exists>r. commanded E n (''ls /opt/cni/bin/ 2>/dev/null | head -1'' @ or_nothing) None r l0 l1 \<and> TrimSpace (cr_Stdout r) \<noteq> [])
     \<and> version_found E n (cni_workload ty) ver l0 l1"

definition csi_found :: "env \<Rightarrow> string \<Rightarrow> string \<Rightarrow> string \<Rightarrow> log \<Rightarrow> log \<Rightarrow> bool" where
  "csi_found E n driver ver l0 l1 \<longleftrightarrow> (\<exists>what ns r. csi_workload driver = Some (what, ns)
     \<and> commanded E n (image_command what ns) None r l0 l1 \<and> contains (cr_Stdout r) ''v'' \<and> image_version (cr_Stdout r) = ver)"

lemma cni_found_widen: "cni_found E n ty ver l l' \<Longrightarrow> prefix l0 l \<Longrightarrow> prefix l' l1 \<Longrightarrow> cni_found E n ty ver l0 l1"
  unfolding cni_found_def by (blast intro: commanded_widen version_found_widen)

lemma csi_found_widen: "csi_found E n driver ver l l' \<Longrightarrow> prefix l0 l \<Longrightarrow> prefix l' l1 \<Longrightarrow> csi_found E n driver ver l0 l1"
  unfolding csi_found_def by (blast intro: commanded_widen)

lemma in_session_driver:
  assumes "csi_workload driver = Some (what, ns)"
  shows "in_session p n port (ask_driver E p name what ns) (\<lambda>v l0 l1. fst v \<longrightarrow> csi_found E n driver (snd v) l0 l1)"
  unfolding ask_driver_def
  by (rule in_session_weaken [OF in_session_check [OF in_session_command, where
        R = "\<lambda>x y l0 l1. y = (contains (cr_Stdout x) ''v'', image_version (cr_Stdout x)) \<and> l1 = l0"]])
     (use assms in \<open>auto intro: in_session_basic simp: csi_found_def\<close>)

lemma in_session_cni_existing:
  "in_session p n port (cni_checkExisting E p c) (\<lambda>v l0 l1. fst v \<longrightarrow> cni_found E n (cni_Type c) (snd v) l0 l1)"
proof -
  have ver: "in_session p n port (if cni_Type c = ''calico'' then ask_image E p ''calico'' ''daemonset calico-node'' ''kube-system''
      else if cni_Type c = ''cilium'' then ask_image E p ''cilium'' ''deployment cilium-operator'' ''kube-system''
      else if cni_Type c = ''flannel'' then ask_image E p ''flannel'' ''daemonset kube-flannel-ds'' ''kube-flannel''
      else ret []) (version_found E n (cni_workload (cni_Type c)))"
    by (intro in_session_if) (simp_all add: version_found_cases cni_workload_def in_session_image, rule in_session_retI, simp)
  have rest: "in_session p n port (andthen (if cni_Type c = ''calico'' then ask_image E p ''calico'' ''daemonset calico-node'' ''kube-system''
      else if cni_Type c = ''cilium'' then ask_image E p ''cilium'' ''deployment cilium-operator'' ''kube-system''
      else if cni_Type c = ''flannel'' then ask_image E p ''flannel'' ''daemonset kube-flannel-ds'' ''kube-flannel''
      else ret []) (\<lambda>version. ret (b, version))) (\<lambda>v l0 l1. fst v = b \<and> version_found E n (cni_workload (cni_Type c)) (snd v) l0 l1)" for b
    by (rule in_session_weaken [OF in_session_check [OF ver, where R = "\<lambda>x y l0 l1. y = (b, x) \<and> l1 = l0"]])
       (auto intro: in_session_retI version_found_widen)
  show ?thesis unfolding cni_checkExisting_def
    by (rule in_session_weaken [OF in_session_check [OF in_session_command rest]])
       (auto simp: cni_found_def intro: commanded_widen version_found_widen)
qed

lemma in_session_csi_existing:
  "in_session p n port (csi_checkExisting E p c) (\<lambda>v l0 l1. fst v \<longrightarrow> csi_found E n (csi_Driver c) (snd v) l0 l1)"
  unfolding csi_checkExisting_def
  by (intro in_session_if in_session_driver in_session_retI) (simp_all add: csi_workload_def)

text \<open>A successful run of a plugin installer, whichever plugin: found or installed.\<close>

definition plugin_done :: "env \<Rightarrow> string \<Rightarrow> (string \<Rightarrow> log \<Rightarrow> log \<Rightarrow> bool) \<Rightarrow> string \<Rightarrow> labels \<Rightarrow> string \<Rightarrow> PluginResult \<Rightarrow> log \<Rightarrow> log \<Rightarrow> bool" where
  "plugin_done E n found wanted vars base res l0 l1 \<longleftrightarrow> res = plugin_ok wanted
     \<and> (found wanted l0 l1 \<or> ran_plan E n None [plugin_plan vars base] l0 l1)"

lemma plugin_done_widen:
  assumes "\<And>ver l0 l l' l1. found ver l l' \<Longrightarrow> prefix l0 l \<Longrightarrow> prefix l' l1 \<Longrightarrow> found ver l0 l1"
  shows "plugin_done E n found wanted vars base res l l' \<Longrightarrow> prefix l0 l \<Longrightarrow> prefix l' l1 \<Longrightarrow> plugin_done E n found wanted vars base res l0 l1"
  unfolding plugin_done_def by (blast intro: assms ran_plan_earlier ran_plan_later)

lemma cni_done_widen:
  "plugin_done E n (cni_found E n ty) wanted vars base res l l' \<Longrightarrow> prefix l0 l \<Longrightarrow> prefix l' l1 \<Longrightarrow> plugin_done E n (cni_found E n ty) wanted vars base res l0 l1"
  by (rule plugin_done_widen) (rule cni_found_widen)

lemma csi_done_widen:
  "plugin_done E n (csi_found E n driver) wanted vars base res l l' \<Longrightarrow> prefix l0 l \<Longrightarrow> prefix l' l1 \<Longrightarrow> plugin_done E n (csi_found E n driver) wanted vars base res l0 l1"
  by (rule plugin_done_widen) (rule csi_found_widen)

lemma in_session_install_plugin:
  assumes "range_ok E" and "in_session p n port existing (\<lambda>v l0 l1. fst v \<longrightarrow> found (snd v) l0 l1)" and "generate = with_vars E vars base"
  shows "in_session p n port (install_plugin E p what wanted existing generate) (plugin_done E n found wanted vars base)"
proof -
  let ?judge = "\<lambda>r :: CommandResult. if cr_ExitCode r \<noteq> 0 then fail (Errorf (what @ '' installation failed with exit code '' @ show_int (cr_ExitCode r)))
     else ret (plugin_ok wanted)"
  have run: "in_session p n port (andthen (run_script E p s None) ?judge) (\<lambda>y l0 l1. y = plugin_ok wanted \<and> ran_ok E n s None l0 l1)" for s
    by (rule in_session_weaken [OF in_session_check [OF in_session_run_script, where R = "\<lambda>x y l0 l1. cr_ExitCode x = 0 \<and> y = plugin_ok wanted \<and> l1 = l0"]])
       (auto intro: in_session_basic in_session_retI simp: ran_ok_def)
  have script: "in_session p n port (andthen generate (\<lambda>s. andthen (run_script E p s None) ?judge))
      (\<lambda>y l0 l1. y = plugin_ok wanted \<and> ran_plan E n None [plugin_plan vars base] l0 l1)"
    unfolding assms(3) with_vars_def andthen_assoc
    by (rule in_session_range [OF assms(1)]) (auto simp: ret_andthen plugin_plan_def intro!: in_session_weaken [OF run])
  show ?thesis unfolding install_plugin_def
  proof (rule in_session_weaken [OF in_session_check [OF assms(2)]])
    show "in_session p n port ((\<lambda>(installed, version). if installed \<and> version = wanted then ret (plugin_ok version)
          else andthen generate (\<lambda>s. andthen (run_script E p s None) ?judge)) v)
        (\<lambda>y l0 l1. y = plugin_ok wanted \<and> (fst v \<and> snd v = wanted \<and> l1 = l0 \<or> ran_plan E n None [plugin_plan vars base] l0 l1))" for v
      by (cases v) (auto intro: in_session_retI in_session_weaken [OF script])
  qed (auto simp: plugin_done_def simp del: ran_plan.simps intro: ran_plan_earlier)
qed

lemma in_session_cni:
  assumes "range_ok E" and "cni_Enabled (cni_ins_config i)"
  defines "c \<equiv> cni_defaults (cni_ins_config i)"
  shows "in_session p n port (cni_Install E p i) (plugin_done E n (cni_found E n (cni_Type c)) (cni_Version c) (cni_vars c (cni_ins_podCIDR i)) cni_script)"
  using assms(2) in_session_install_plugin [OF assms(1) in_session_cni_existing refl] by (simp add: cni_Install_def Let_def c_def)

text \<open>
  (C39) An enabled network plugin that is reported as installed, in the version of its configuration with
  defaults: either the host listed a file of \<open>/opt/cni/bin\<close> and told that version for the workload of this plugin
  (when the wanted version is empty: told none), or the script of the plugin, with the variables of the
  configuration in front of it, ran on the host with exit code 0.
\<close>

theorem cni_Install_correct:
  assumes "range_ok E" and "cni_Enabled (cni_ins_config i)" and "pool_wf w" and "conn_at w p n port" and "cni_Install E p i w = (Ok res, w')"
  defines "c \<equiv> cni_defaults (cni_ins_config i)"
  shows "plugin_done E n (cni_found E n (cni_Type c)) (cni_Version c) (cni_vars c (cni_ins_podCIDR i)) cni_script res (w_log w) (w_log w')"
  unfolding c_def using in_sessionD(4) [OF in_session_cni [OF assms(1,2)] assms(3-5) refl] .

text \<open>
  The same for a storage plugin, whose script is the Ceph script for the driver \<open>ceph-csi\<close> and the
  local one for every other driver: \<open>nfs\<close> and \<open>cinder\<close>, which the API accepts, install local volumes.
\<close>

definition csi_plan :: "CSIConfig \<Rightarrow> labels \<times> string" where
  "csi_plan c = (if csi_Driver c = ''ceph-csi'' then (ceph_vars c (csi_source c), ceph_script) else (local_vars c (csi_source c), local_script))"

lemma in_session_csi:
  assumes "range_ok E" and "csi_Enabled config"
  defines "c \<equiv> csi_defaults config"
  shows "in_session p n port (csi_Install E p config)
    (plugin_done E n (csi_found E n (csi_Driver c)) (csi_Version c) (fst (csi_plan c)) (snd (csi_plan c)))"
proof -
  have "csi_generateInstallScript E c = with_vars E (fst (csi_plan c)) (snd (csi_plan c))"
    by (simp add: csi_generateInstallScript_def csi_plan_def)
  from in_session_install_plugin [OF assms(1) in_session_csi_existing this] assms(2) show ?thesis by (simp add: csi_Install_def Let_def c_def)
qed

theorem csi_Install_correct:
  assumes "range_ok E" and "csi_Enabled config" and "pool_wf w" and "conn_at w p n port" and "csi_Install E p config w = (Ok res, w')"
  defines "c \<equiv> csi_defaults config"
  shows "plugin_done E n (csi_found E n (csi_Driver c)) (csi_Version c) (fst (csi_plan c)) (snd (csi_plan c)) res (w_log w) (w_log w')"
  unfolding c_def using in_sessionD(4) [OF in_session_csi [OF assms(1,2)] assms(3-5) refl] .

section \<open>Versions in image names\<close>

text \<open>
  The version is read back from a reference \<open>repository:vVERSION\<close> when the letter v occurs nowhere else
  and the version has no colon.
\<close>

theorem image_version_roundtrip:
  assumes "CHR ''v'' \<notin> set repo" and "CHR ''v'' \<notin> set ver" and "CHR '':'' \<notin> set ver"
  shows "image_version (repo @ '':v'' @ ver) = ver"
proof -
  have split: "split_on CHR ''v'' (repo @ '':v'' @ ver) = [repo @ '':'', ver]"
    using split_on_append [of "CHR ''v''" "repo @ '':''" ver] assms(1,2) by (simp add: split_on_single)
  have "contains (repo @ '':v'' @ ver) ''v''" unfolding contains_iff by (rule exI [of _ "repo @ '':''"], rule exI [of _ ver]) simp
  then show ?thesis using assms(3) split by (simp add: image_version_def split_on_single)
qed

text \<open>
  A network plugin without a version is not installed on a host that has any file in \<open>/opt/cni/bin\<close> and
  whose answer names no version, for instance because \<open>kubectl\<close> is not configured there yet: both versions
  are the empty string, so the plugin counts as present and no script is run.
\<close>

theorem cni_without_version_skipped:
  assumes "cni_Enabled (cni_ins_config i)" and "cni_Version (cni_ins_config i) = []"
    and "cni_checkExisting E p (cni_defaults (cni_ins_config i)) w = (Ok (True, []), w')"
  shows "cni_Install E p i w = (Ok (plugin_ok []), w')"
proof -
  have "cni_Version (cni_defaults (cni_ins_config i)) = []" using assms(2) by (simp add: cni_defaults_def Let_def)
  with assms(1,3) show ?thesis by (simp add: cni_Install_def install_plugin_def Let_def act_simps)
qed

section \<open>Examples\<close>

definition ex_cni :: CniInstaller where
  "ex_cni = NewCNI (zero_CNIConfig\<lparr>cni_Enabled := True\<rparr>) ''10.244.0.0/16''"

definition ex_csi :: CSIConfig where
  "ex_csi = zero_CSIConfig\<lparr>csi_Enabled := True, csi_Driver := ''nfs''\<rparr>"

lemma gives_image: "obliging E out \<Longrightarrow> gives p n port (ask_image E p name what ns) (image_version (out (image_command what ns)))"
  unfolding ask_image_def by (erule gives_check [OF gives_obliging]) simp

lemma gives_install_plugin:
  assumes "obliging E out" and "gives p n port existing v" and "\<not> (fst v \<and> snd v = wanted)"
  shows "gives p n port (install_plugin E p what wanted existing (with_vars E vars base)) (plugin_ok wanted)"
proof -
  have "gives p n port (with_vars E vars base) (prependEnvVars base vars (map fst vars))"
    unfolding with_vars_def by (rule gives_check [OF gives_range [OF assms(1)]]) simp
  note script = gives_check [OF this]
  have run: "gives p n port (andthen (run_script E p s None) (\<lambda>r. if cr_ExitCode r \<noteq> 0 then fail (e r) else ret (plugin_ok wanted))) (plugin_ok wanted)" for s e
    unfolding gives_def
  proof (intro allI impI)
    fix w assume "conn_at w p n port"
    from obliging_script [OF assms(1) this] obtain x w' where "run_script E p s None w = (Ok x, w')" "cr_ExitCode x = 0" "conn_at w' p n port" by blast
    then show "\<exists>w'. andthen (run_script E p s None) (\<lambda>r. if cr_ExitCode r \<noteq> 0 then fail (e r) else ret (plugin_ok wanted)) w = (Ok (plugin_ok wanted), w')
        \<and> conn_at w' p n port" by (simp add: check_apply ret_apply)
  qed
  show ?thesis unfolding install_plugin_def
    by (rule gives_check [OF assms(2)], use assms(3) in \<open>simp add: split_beta del: de_Morgan_conj\<close>, rule script, rule run)
qed

lemma answers: "image_version [] = []" "TrimSpace [] = []" "image_version ''x'' = []" "TrimSpace ''x'' = ''x''"
  by code_simp+

lemma ex_cni_simps: "cni_Enabled (cni_ins_config ex_cni)" "cni_Version (cni_ins_config ex_cni) = []" "cni_Type (cni_defaults (cni_ins_config ex_cni)) = ''calico''"
  "cni_Version (cni_defaults (cni_ins_config ex_cni)) = []"
  by (simp_all add: ex_cni_def NewCNI_def bm_zero_defs cni_defaults_def)

abbreviation list_question :: string where
  "list_question \<equiv> ''ls /opt/cni/bin/ 2>/dev/null | head -1'' @ or_nothing"

lemma gives_cni_existing:
  assumes "obliging E out" and "cni_Type c = ''calico''"
  shows "gives p n port (cni_checkExisting E p c)
    (TrimSpace (out list_question) \<noteq> [], image_version (out (image_command ''daemonset calico-node'' ''kube-system'')))"
  unfolding cni_checkExisting_def assms(2)
  by (rule gives_check [OF gives_obliging [OF assms(1)]], simp only: refl if_True, rule gives_check [OF gives_image [OF assms(1)]]) simp

lemmas gives_ex_cni = gives_cni_existing [OF obliging_answering ex_cni_simps(3)]

lemma answering_range: "range_ok (answering_env out)"
  using range_ok_quiet by (simp add: range_ok_def answering_env_def)

theorem cni_Install_witness:
  "\<exists>w'. cni_Install (answering_env []) 0 ex_cni ex_session = (Ok (plugin_ok []), w')
    \<and> plugin_done (answering_env []) ''node-1'' (cni_found (answering_env []) ''node-1'' ''calico'') []
        (cni_vars (cni_defaults (cni_ins_config ex_cni)) ''10.244.0.0/16'') cni_script (plugin_ok []) (w_log ex_session) (w_log w')"
proof -
  have "gives 0 ''node-1'' 22 (cni_Install (answering_env []) 0 ex_cni) (plugin_ok [])"
    unfolding cni_Install_def using gives_install_plugin [OF obliging_answering gives_ex_cni, of "[]" "[]"] by (simp add: ex_cni_simps answers Let_def)
  then obtain w' where run: "cni_Install (answering_env []) 0 ex_cni ex_session = (Ok (plugin_ok []), w')"
    unfolding gives_def using ex_session_simps(2) by blast
  from cni_Install_correct [OF answering_range ex_cni_simps(1) ex_session_simps run] run show ?thesis
    by (simp add: ex_cni_simps) (simp add: ex_cni_def NewCNI_def)
qed

theorem cni_without_version_witness: "\<exists>w'. cni_Install (answering_env ''x'') 0 ex_cni ex_session = (Ok (plugin_ok []), w')"
proof -
  have "gives 0 ''node-1'' 22 (cni_checkExisting (answering_env ''x'') 0 (cni_defaults (cni_ins_config ex_cni))) (True, [])"
    using gives_ex_cni [of 0 "''node-1''" 22 "''x''"] by (simp add: answers)
  then obtain w' where "cni_checkExisting (answering_env ''x'') 0 (cni_defaults (cni_ins_config ex_cni)) ex_session = (Ok (True, []), w')"
    using ex_session_simps(2) unfolding gives_def by blast
  from cni_without_version_skipped [OF ex_cni_simps(1,2) this] show ?thesis by blast
qed

theorem image_version_witness: "image_version (''docker.io/calico/node'' @ '':v'' @ ''3.26.1'') = ''3.26.1''"
  by (rule image_version_roundtrip) simp_all

lemma ex_csi_simps: "csi_Enabled ex_csi" "csi_Driver (csi_defaults ex_csi) = ''nfs''" "csi_Version (csi_defaults ex_csi) = []"
  by (simp_all add: ex_csi_def csi_defaults_def bm_zero_defs)

theorem csi_Install_witness:
  "\<exists>w'. csi_Install (answering_env []) 0 ex_csi ex_session = (Ok (plugin_ok []), w')
    \<and> plugin_done (answering_env []) ''node-1'' (csi_found (answering_env []) ''node-1'' ''nfs'') [] (local_vars (csi_defaults ex_csi) (csi_source (csi_defaults ex_csi))) local_script
        (plugin_ok []) (w_log ex_session) (w_log w')"
proof -
  have gen: "csi_generateInstallScript (answering_env []) (csi_defaults ex_csi)
      = with_vars (answering_env []) (local_vars (csi_defaults ex_csi) (csi_source (csi_defaults ex_csi))) local_script"
    by (simp add: csi_generateInstallScript_def ex_csi_simps)
  have "gives 0 ''node-1'' 22 (csi_Install (answering_env []) 0 ex_csi) (plugin_ok [])"
    unfolding csi_Install_def using gives_install_plugin [OF obliging_answering, of 0 "''node-1''" 22 "ret (False, [])" "(False, [])" "[]" "[]"]
    by (simp add: ex_csi_simps gen csi_checkExisting_def Let_def)
  then obtain w' where run: "csi_Install (answering_env []) 0 ex_csi ex_session = (Ok (plugin_ok []), w')"
    unfolding gives_def using ex_session_simps(2) by blast
  from csi_Install_correct [OF answering_range ex_csi_simps(1) ex_session_simps run] run show ?thesis
    by (simp add: ex_csi_simps csi_plan_def)
qed

end
