(* ===== verification/Bm_Machine.thy ===== *)
theory Bm_Machine
  imports Bm_Plugins Bm_Conditions Bm_Inventory Preflight
begin

text \<open>
  The controller of \<open>BareMetalMachine\<close>, \<open>modules/capbm/internal/controllers/baremetalmachine_controller.go\<close>: it
  gives the machine a host, opens one SSH connection to it and takes the host through pre-flight
  checks, bootstrap, firewall, SELinux, components, network and storage plugin and verification.
  An update sends the object and takes over what the server answers. The steps of \<open>reconcileNormal\<close>
  are one definition each; what follows a step is its argument \<open>k\<close>.
\<close>

section \<open>Definitions\<close>

type_synonym 'a bmact = "(BareMetalMachine, 'a) objact"

definition bmr_Update :: "env \<Rightarrow> unit bmact" where
  "bmr_Update E = with_obj (\<lambda>m.
     andthen (on_world (query (EvUpdate (KBareMetalMachine m)) (\<lambda>l. k_update_bmmachine (kube E) l m))) (\<lambda>m'. modify_obj (\<lambda>_. m')))"

definition bmr_StatusUpdate :: "env \<Rightarrow> unit bmact" where
  "bmr_StatusUpdate E = with_obj (\<lambda>m. on_world (api_write E (EvStatusUpdate (KBareMetalMachine m))))"

definition setMachineCondition :: "env \<Rightarrow> string \<Rightarrow> string \<Rightarrow> string \<Rightarrow> string \<Rightarrow> string \<Rightarrow> unit bmact" where
  "setMachineCondition E ty status reason severity msg =
     andthen (on_world (time_Now E)) (\<lambda>now.
       modify_obj (\<lambda>m. m\<lparr>bm_Status := (bm_Status m)\<lparr>bmt_Conditions :=
         put_bm_condition (make_condition ty status reason severity msg now) (bmt_Conditions (bm_Status m))\<rparr>\<rparr>))"

definition markMachineConditionFalse :: "env \<Rightarrow> string \<Rightarrow> string \<Rightarrow> string \<Rightarrow> string \<Rightarrow> unit bmact" where
  "markMachineConditionFalse E ty reason severity msg = setMachineCondition E ty ''False'' reason severity msg"

definition markMachineConditionTrue :: "env \<Rightarrow> string \<Rightarrow> unit bmact" where
  "markMachineConditionTrue E ty = setMachineCondition E ty ''True'' [] ''Info'' []"

text \<open>How the controller gives up for now: condition, status update, requeue.\<close>

definition retry_later :: "env \<Rightarrow> string \<Rightarrow> string \<Rightarrow> string \<Rightarrow> string \<Rightarrow> duration \<Rightarrow> ctrl_result bmact" where
  "retry_later E ty reason severity msg d =
     andthen (markMachineConditionFalse E ty reason severity msg) (\<lambda>_.
     andthen (bmr_StatusUpdate E) (\<lambda>_. ret (requeue d)))"

subsection \<open>What the steps read\<close>

definition getBareMetalCluster :: "env \<Rightarrow> BareMetalMachine \<Rightarrow> BareMetalCluster option cact" where
  "getBareMetalCluster E m =
     (let clusterName = label_of (m_Labels (bm_Meta m)) ClusterNameLabel; ns = m_Namespace (bm_Meta m) in
      if clusterName = [] then ret None
      else attempt (query (EvGet ''BareMetalCluster'' ns clusterName) (\<lambda>l. k_get_bmcluster (kube E) l ns clusterName)) (\<lambda>r. case r of
        Inl e \<Rightarrow> if IsNotFound e then ret None else fail e
      | Inr c \<Rightarrow> ret (Some c)))"

definition credentials_of :: "string \<Rightarrow> bool \<Rightarrow> (string \<times> string) list \<Rightarrow> error + Credentials" where
  "credentials_of ref useSudo data =
     (case map_of data ''username'' of
        None \<Rightarrow> Inl (Errorf (''credentials secret '' @ ref @ '' missing username field''))
      | Some username \<Rightarrow> (case map_of data ''password'' of
          None \<Rightarrow> Inl (Errorf (''credentials secret '' @ ref @ '' missing password field''))
        | Some password \<Rightarrow> Inr \<lparr>cred_Username = username, cred_Password = password,
            cred_SudoPassword = (case map_of data ''sudoPassword'' of None \<Rightarrow> [] | Some sudo \<Rightarrow> if sudo \<noteq> password then sudo else []),
            cred_UseSudo = useSudo\<rparr>))"

definition getCredentials :: "env \<Rightarrow> BareMetalMachine \<Rightarrow> Credentials cact" where
  "getCredentials E m = (case bms_CredentialsRef (bm_Spec m) of
      None \<Rightarrow> fail (Errorf ''credentialsRef is not set'')
    | Some ref \<Rightarrow>
        check (query (EvGet ''Secret'' (m_Namespace (bm_Meta m)) ref) (\<lambda>l. k_get_secret (kube E) l (m_Namespace (bm_Meta m)) ref))
          (wrap (''failed to get credentials secret '' @ ref @ '': '')) (\<lambda>data.
            case credentials_of ref (bms_UseSudo (bm_Spec m)) data of Inl e \<Rightarrow> fail e | Inr c \<Rightarrow> ret c))"

definition extractK8sVersion :: "capi_machine option \<Rightarrow> string" where
  "extractK8sVersion machine = (case machine of None \<Rightarrow> [] | Some x \<Rightarrow>
     (case mc_Version x of [] \<Rightarrow> [] | c # cs \<Rightarrow> if c = CHR ''v'' then cs else c # cs))"

definition machine_role :: "BareMetalMachineSpec \<Rightarrow> string" where
  "machine_role s = (if bms_Role s = [] then ''worker'' else bms_Role s)"

subsection \<open>What the steps do on the host\<close>

definition default_components :: ComponentInstallConfig where
  "default_components = zero_ComponentInstallConfig\<lparr>cic_Enabled := True, cic_Strategy := InstallIfMissing,
     cic_ContainerRuntime := zero_ContainerRuntimeConfig\<lparr>crc_Type := ''containerd''\<rparr>, cic_MaxRetries := 3\<rparr>"

definition install_config :: "BareMetalMachineSpec \<Rightarrow> ComponentInstallConfig" where
  "install_config s = (case bms_ComponentInstall s of None \<Rightarrow> default_components | Some c \<Rightarrow> c)"

text \<open>The release of the machine if it names one that can be read; a failed read is only logged.\<close>

definition machine_release :: "env \<Rightarrow> BareMetalMachineSpec \<Rightarrow> ReleaseImage option cact" where
  "machine_release E s = (case bms_ReleaseImageRef s of
      None \<Rightarrow> ret None
    | Some ref \<Rightarrow> attempt (Get_releaseimage E ref) (\<lambda>r. ret (case r of Inl e \<Rightarrow> None | Inr ri \<Rightarrow> Some ri)))"

definition choose_installer :: "BareMetalMachineSpec \<Rightarrow> string \<Rightarrow> ReleaseImage option \<Rightarrow> Installer" where
  "choose_installer s k8sVersion ri = (case ri of
      Some x \<Rightarrow> NewWithReleaseImage x (Some (install_config s)) (machine_role s)
    | None \<Rightarrow> NewInstaller (Some (install_config s)) k8sVersion (machine_role s))"

definition installComponents :: "env \<Rightarrow> progress_json \<Rightarrow> nat \<Rightarrow> string \<Rightarrow> BareMetalMachineSpec \<Rightarrow> InstallResult cact" where
  "installComponents E encode p k8sVersion s =
     (if \<not> cic_Enabled (install_config s) \<or> cic_Strategy (install_config s) = Skip
      then ret (install_done ''Installation disabled or skipped'' zero_Versions)
      else andthen (machine_release E s) (\<lambda>ri. Install E encode p (choose_installer s k8sVersion ri)))"

definition configureFirewall :: "env \<Rightarrow> nat \<Rightarrow> BareMetalMachineSpec \<Rightarrow> unit cact" where
  "configureFirewall E p s = fw_Configure E p (bms_Firewall s) (machine_role s)"

definition configureSELinux :: "env \<Rightarrow> nat \<Rightarrow> BareMetalMachineSpec \<Rightarrow> unit cact" where
  "configureSELinux E p s = se_Configure E p (bms_SELinux s)"

definition pod_cidr :: "CNIConfig \<Rightarrow> string" where
  "pod_cidr c = (case cni_Config c of None \<Rightarrow> ''10.244.0.0/16'' | Some g \<Rightarrow> if cpc_PodCIDR g \<noteq> [] then cpc_PodCIDR g else ''10.244.0.0/16'')"

definition choose_cni :: "CNIConfig \<Rightarrow> ReleaseImage option \<Rightarrow> CniInstaller" where
  "choose_cni c ri = (case ri of Some x \<Rightarrow> NewCNIFromReleaseImage x c (pod_cidr c) | None \<Rightarrow> NewCNI c (pod_cidr c))"

definition installCNI :: "env \<Rightarrow> nat \<Rightarrow> BareMetalMachineSpec \<Rightarrow> PluginResult cact" where
  "installCNI E p s = (case bms_ComponentInstall s of
      None \<Rightarrow> ret (plugin_ok [])
    | Some c \<Rightarrow> if \<not> cni_Enabled (cic_CNI c) then ret (plugin_ok [])
        else andthen (machine_release E s) (\<lambda>ri. cni_Install E p (choose_cni (cic_CNI c) ri)))"

definition choose_csi :: "CSIConfig \<Rightarrow> ReleaseImage option \<Rightarrow> CSIConfig" where
  "choose_csi c ri = (case ri of Some x \<Rightarrow> csi_from_release x c | None \<Rightarrow> c)"

definition installCSI :: "env \<Rightarrow> nat \<Rightarrow> BareMetalMachineSpec \<Rightarrow> PluginResult cact" where
  "installCSI E p s = (case bms_ComponentInstall s of
      None \<Rightarrow> ret (plugin_ok [])
    | Some c \<Rightarrow> if \<not> csi_Enabled (cic_CSI c) then ret (plugin_ok [])
        else andthen (machine_release E s) (\<lambda>ri. csi_Install E p (choose_csi (cic_CSI c) ri)))"

subsection \<open>The steps of a round\<close>

definition provider_id :: "BareMetalMachineSpec \<Rightarrow> string" where
  "provider_id s = ''baremetal://'' @ bms_HostName s"

definition ready_status :: "string \<Rightarrow> BareMetalMachine \<Rightarrow> BareMetalMachine" where
  "ready_status providerID m = m\<lparr>bm_Status := (bm_Status m)\<lparr>bmt_Ready := True, bmt_ProviderID := providerID,
     bmt_Addresses := [(''InternalIP'', bms_IPAddress (bm_Spec m)), (''Hostname'', bms_HostName (bm_Spec m))]\<rparr>\<rparr>"

definition finish_machine :: "env \<Rightarrow> ctrl_result bmact" where
  "finish_machine E = with_obj (\<lambda>m. let providerID = provider_id (bm_Spec m) in
     andthen (when_act (bms_ProviderID (bm_Spec m) \<noteq> Some providerID)
       (andthen (modify_obj (\<lambda>x. x\<lparr>bm_Spec := (bm_Spec x)\<lparr>bms_ProviderID := Some providerID\<rparr>\<rparr>)) (\<lambda>_. bmr_Update E))) (\<lambda>_.
     andthen (modify_obj (ready_status providerID)) (\<lambda>_.
     andthen (markMachineConditionTrue E ReadyCondition) (\<lambda>_.
     andthen (bmr_StatusUpdate E) (\<lambda>_. ret (requeue 0))))))"

definition verify_step :: "env \<Rightarrow> nat \<Rightarrow> ctrl_result bmact \<Rightarrow> ctrl_result bmact" where
  "verify_step E p k = attempt (on_world (VerifyInstallation E p)) (\<lambda>_. k)"

definition plugin_step :: "env \<Rightarrow> string \<Rightarrow> string \<Rightarrow> (BareMetalMachineSpec \<Rightarrow> PluginResult cact) \<Rightarrow> (PluginResult \<Rightarrow> BareMetalMachine \<Rightarrow> BareMetalMachine)
     \<Rightarrow> ctrl_result bmact \<Rightarrow> ctrl_result bmact" where
  "plugin_step E ty reason install note_version k = with_obj (\<lambda>m.
     attempt (on_world (install (bm_Spec m))) (\<lambda>r. case r of
       Inl e \<Rightarrow> retry_later E ty reason ''Error'' (error_string e) (60 * second)
     | Inr res \<Rightarrow>
         if \<not> pr_Completed res then ret (requeue (30 * second))
         else if \<not> pr_Success res then retry_later E ty reason ''Error'' (pr_Error res) (60 * second)
         else andthen (markMachineConditionTrue E ty) (\<lambda>_. andthen (modify_obj (note_version res)) (\<lambda>_. k))))"

definition with_components :: "(InstalledVersions \<Rightarrow> InstalledVersions) \<Rightarrow> BareMetalMachine \<Rightarrow> BareMetalMachine" where
  "with_components f m = m\<lparr>bm_Status := (bm_Status m)\<lparr>bmt_InstalledComponents := f (bmt_InstalledComponents (bm_Status m))\<rparr>\<rparr>"

definition note_cni :: "PluginResult \<Rightarrow> BareMetalMachine \<Rightarrow> BareMetalMachine" where
  "note_cni res m = with_components (\<lambda>v. let v1 = v\<lparr>cvr_CNI := pr_Version res\<rparr> in
     (case bms_ComponentInstall (bm_Spec m) of None \<Rightarrow> v1 | Some c \<Rightarrow> v1\<lparr>cvr_CNIType := cni_Type (cic_CNI c)\<rparr>)) m"

definition note_csi :: "PluginResult \<Rightarrow> BareMetalMachine \<Rightarrow> BareMetalMachine" where
  "note_csi res m = with_components (\<lambda>v. let v1 = v\<lparr>cvr_CSI := pr_Version res\<rparr> in
     (case bms_ComponentInstall (bm_Spec m) of None \<Rightarrow> v1 | Some c \<Rightarrow> v1\<lparr>cvr_CSIDriver := csi_Driver (cic_CSI c)\<rparr>)) m"

definition installed_versions :: "ComponentVersions \<Rightarrow> InstalledVersions" where
  "installed_versions v = zero_InstalledVersions\<lparr>cvr_ContainerRuntime := iv_ContainerRuntime v, cvr_Kubeadm := iv_Kubeadm v, cvr_Kubelet := iv_Kubelet v,
     cvr_Kubectl := iv_Kubectl v, cvr_OSType := iv_OSType v, cvr_OSVersion := iv_OSVersion v\<rparr>"

definition components_step :: "env \<Rightarrow> progress_json \<Rightarrow> nat \<Rightarrow> string \<Rightarrow> ctrl_result bmact \<Rightarrow> ctrl_result bmact" where
  "components_step E encode p k8sVersion k = with_obj (\<lambda>m.
     attempt (on_world (installComponents E encode p k8sVersion (bm_Spec m))) (\<lambda>r. case r of
       Inl e \<Rightarrow> retry_later E ComponentsInstalledCondition ''ComponentInstallFailed'' ''Error'' (error_string e) (60 * second)
     | Inr res \<Rightarrow>
         if \<not> ir_Completed res then ret (requeue (30 * second))
         else if \<not> ir_Success res then retry_later E ComponentsInstalledCondition ''ComponentInstallFailed'' ''Error'' (ir_Error res) (60 * second)
         else andthen (markMachineConditionTrue E ComponentsInstalledCondition) (\<lambda>_.
              andthen (modify_obj (with_components (\<lambda>_. installed_versions (ir_Versions res)))) (\<lambda>_. k))))"

text \<open>Firewall and SELinux: a failure is recorded and the round goes on.\<close>

definition network_step :: "env \<Rightarrow> string \<Rightarrow> string \<Rightarrow> (BareMetalMachineSpec \<Rightarrow> unit cact) \<Rightarrow> ctrl_result bmact \<Rightarrow> ctrl_result bmact" where
  "network_step E ty reason configure k = with_obj (\<lambda>m.
     attempt (on_world (configure (bm_Spec m))) (\<lambda>r.
     andthen (case r of Inl e \<Rightarrow> markMachineConditionFalse E ty reason ''Warning'' (error_string e) | Inr _ \<Rightarrow> markMachineConditionTrue E ty) (\<lambda>_. k)))"

definition boot_hostname :: "BareMetalMachineSpec \<Rightarrow> NodeBootstrapConfig \<Rightarrow> string" where
  "boot_hostname s nb = (if nbc_Hostname nb = [] then bms_HostName s else nbc_Hostname nb)"

definition bootstrap_step :: "env \<Rightarrow> nat \<Rightarrow> ctrl_result bmact \<Rightarrow> ctrl_result bmact" where
  "bootstrap_step E p k = with_obj (\<lambda>m. case bms_NodeBootstrap (bm_Spec m) of
      None \<Rightarrow> k
    | Some nb \<Rightarrow> if \<not> nbc_Enabled nb then k
        else attempt (on_world (Bootstrap E p (Some nb) (boot_hostname (bm_Spec m) nb))) (\<lambda>r. case r of
          Inl e \<Rightarrow> retry_later E NodeBootstrapCondition ''NodeBootstrapFailed'' ''Error'' (error_string e) (60 * second)
        | Inr steps \<Rightarrow> andthen (markMachineConditionTrue E NodeBootstrapCondition) (\<lambda>_. k)))"

text \<open>The verb \<open>%v\<close> of a slice of strings.\<close>

definition show_strings :: "string list \<Rightarrow> string" where
  "show_strings xs = ''['' @ join_with '' '' xs @ '']''"

definition preflight_step :: "env \<Rightarrow> (string \<Rightarrow> string) \<Rightarrow> nat \<Rightarrow> ctrl_result bmact \<Rightarrow> ctrl_result bmact" where
  "preflight_step E atoi_err p k =
     andthen (on_world (RunPreflightChecks E atoi_err p DefaultPreflightConfig)) (\<lambda>res.
       if \<not> pr_Passed res
       then retry_later E PreFlightChecksPassedCondition ''PreFlightChecksFailed'' ''Error'' (''pre-flight checks failed: '' @ show_strings (pr_Errors res)) (60 * second)
       else andthen (markMachineConditionTrue E PreFlightChecksPassedCondition) (\<lambda>_. k))"

definition provision :: "env \<Rightarrow> (string \<Rightarrow> string) \<Rightarrow> progress_json \<Rightarrow> string \<Rightarrow> nat \<Rightarrow> ctrl_result bmact" where
  "provision E atoi_err encode k8sVersion p =
     andthen (markMachineConditionTrue E SSHConnectedCondition) (\<lambda>_.
       preflight_step E atoi_err p
       (bootstrap_step E p
       (network_step E FirewallConfiguredCondition ''FirewallConfigFailed'' (configureFirewall E p)
       (network_step E SELinuxConfiguredCondition ''SELinuxConfigFailed'' (configureSELinux E p)
       (components_step E encode p k8sVersion
       (plugin_step E CNIInstalledCondition ''CNIInstallFailed'' (installCNI E p) note_cni
       (plugin_step E CSIInstalledCondition ''CSIInstallFailed'' (installCSI E p) note_csi
       (verify_step E p (finish_machine E)))))))))"

definition connect_step :: "env \<Rightarrow> SSHManager \<Rightarrow> (nat \<Rightarrow> ctrl_result bmact) \<Rightarrow> ctrl_result bmact" where
  "connect_step E sm k = with_obj (\<lambda>m. case bms_CredentialsRef (bm_Spec m) of
      None \<Rightarrow> andthen (markMachineConditionFalse E ReadyCondition ''InvalidConfiguration'' ''Error'' ''credentialsRef is required'') (\<lambda>_. ret (requeue 0))
    | Some ref \<Rightarrow> attempt (on_world (getCredentials E m)) (\<lambda>r. case r of
          Inl e \<Rightarrow> retry_later E ReadyCondition ''CredentialsNotFound'' ''Error'' (error_string e) (10 * second)
        | Inr creds \<Rightarrow> attempt (on_world (Connect E sm (bms_IPAddress (bm_Spec m)) (bms_SSHPort (bm_Spec m)) creds)) (\<lambda>r. case r of
            Inl e \<Rightarrow> retry_later E SSHConnectedCondition ''SSHConnectionFailed'' ''Warning'' (error_string e) (30 * second)
          | Inr p \<Rightarrow> deferring (k p) (on_world (Close (Some p))))))"

definition take_host :: "HostEntry \<Rightarrow> BareMetalMachine \<Rightarrow> BareMetalMachine" where
  "take_host h m = m\<lparr>bm_Spec := (bm_Spec m)\<lparr>bms_HostName := he_HostName h, bms_IPAddress := he_IPAddress h, bms_SSHPort := he_SSHPort h,
     bms_CredentialsRef := Some (he_CredentialsRef h)\<rparr>\<rparr>"

definition host_step :: "env \<Rightarrow> ctrl_result bmact \<Rightarrow> ctrl_result bmact" where
  "host_step E k = with_obj (\<lambda>m.
     if bms_HostName (bm_Spec m) \<noteq> [] \<and> bms_IPAddress (bm_Spec m) \<noteq> [] then k
     else if bms_HostInventoryRef (bm_Spec m) = None
     then andthen (markMachineConditionFalse E ReadyCondition ''InvalidConfiguration'' ''Error'' ''hostInventoryRef is required when hostName/ipAddress not specified'') (\<lambda>_.
       ret (requeue 0))
     else attempt (on_world (allocateHostFromInventory E m)) (\<lambda>r. case r of
       Inl e \<Rightarrow> retry_later E ReadyCondition ''HostAllocationFailed'' ''Error'' (error_string e) (30 * second)
     | Inr h \<Rightarrow> andthen (modify_obj (take_host h)) (\<lambda>_. andthen (bmr_Update E) (\<lambda>_. k))))"

definition bmr_reconcileNormal :: "env \<Rightarrow> SSHManager \<Rightarrow> (string \<Rightarrow> string) \<Rightarrow> progress_json \<Rightarrow> capi_machine \<Rightarrow> ctrl_result bmact" where
  "bmr_reconcileNormal E sm atoi_err encode machine =
     andthen (modify_obj (\<lambda>m. m\<lparr>bm_Meta := AddFinalizer MachineFinalizer (bm_Meta m)\<rparr>)) (\<lambda>_.
     andthen (bmr_Update E) (\<lambda>_.
     attempt (with_obj (\<lambda>m. on_world (getBareMetalCluster E m))) (\<lambda>r. case r of
       Inl e \<Rightarrow> ret (requeue 0)
     | Inr None \<Rightarrow> ret (requeue (10 * second))
     | Inr (Some c) \<Rightarrow>
         if \<not> bct_Ready (bmc_Status c) then ret (requeue (10 * second))
         else host_step E (connect_step E sm (provision E atoi_err encode (extractK8sVersion (Some machine)))))))"

definition bmr_reconcileDelete :: "env \<Rightarrow> ctrl_result bmact" where
  "bmr_reconcileDelete E =
     andthen (with_obj (\<lambda>m. when_act (bms_HostInventoryRef (bm_Spec m) \<noteq> None \<and> bms_HostName (bm_Spec m) \<noteq> [])
       (attempt (on_world (releaseHostToInventory E m)) (\<lambda>_. ret ())))) (\<lambda>_.
     andthen (modify_obj (\<lambda>m. m\<lparr>bm_Meta := RemoveFinalizer MachineFinalizer (bm_Meta m)\<rparr>)) (\<lambda>_.
     andthen (bmr_Update E) (\<lambda>_. ret (requeue 0))))"

definition GetOwnerMachine :: "env \<Rightarrow> BareMetalMachine \<Rightarrow> capi_machine option cact" where
  "GetOwnerMachine E m = query (EvGet ''Machine'' (m_Namespace (bm_Meta m)) (m_Name (bm_Meta m))) (\<lambda>l. k_owner_machine (kube E) l m)"

definition bmr_Reconcile :: "env \<Rightarrow> SSHManager \<Rightarrow> (string \<Rightarrow> string) \<Rightarrow> progress_json \<Rightarrow> string \<Rightarrow> string \<Rightarrow> ctrl_result cact" where
  "bmr_Reconcile E sm atoi_err encode ns n =
     attempt (query (EvGet ''BareMetalMachine'' ns n) (\<lambda>l. k_get_bmmachine (kube E) l ns n)) (\<lambda>r. case r of
       Inl e \<Rightarrow> if IsNotFound e then ret (requeue 0) else fail e
     | Inr m \<Rightarrow> andthen (GetOwnerMachine E m) (\<lambda>owner. case owner of
           None \<Rightarrow> ret (requeue 0)
         | Some machine \<Rightarrow> (\<lambda>w.
             case (if m_DeletionTimestamp (bm_Meta m) \<noteq> None then bmr_reconcileDelete E else bmr_reconcileNormal E sm atoi_err encode machine) (w, m) of
               (r, (w', _)) \<Rightarrow> (r, w'))))"

section \<open>What provisioning has done\<close>

text \<open>
  \<open>provisions p n port s m D\<close>: started with a live connection \<open>p\<close> to a host and a machine with spec \<open>s\<close>, the action
  keeps the connection, only extends the log, and if it returns without asking for a retry, \<open>D\<close> holds
  of the machine it leaves and of the logs before and after.
\<close>

definition provisions :: "nat \<Rightarrow> string \<Rightarrow> int \<Rightarrow> BareMetalMachineSpec \<Rightarrow> ctrl_result bmact \<Rightarrow> (BareMetalMachine \<Rightarrow> log \<Rightarrow> log \<Rightarrow> bool) \<Rightarrow> bool" where
  "provisions p n port s m D \<longleftrightarrow> (\<forall>w x r w' x'. pool_wf w \<longrightarrow> conn_at w p n port \<longrightarrow> bm_Spec x = s \<longrightarrow> m (w, x) = (r, (w', x')) \<longrightarrow>
     pool_wf w' \<and> conn_at w' p n port \<and> prefix (w_log w) (w_log w') \<and> (\<forall>y. r = Ok y \<longrightarrow> RequeueAfter y = 0 \<longrightarrow> D x' (w_log w) (w_log w')))"

lemma provisionsD:
  assumes "provisions p n port s m D" and "pool_wf w" and "conn_at w p n port" and "bm_Spec x = s" and "m (w, x) = (r, (w', x'))"
  shows "pool_wf w'" "conn_at w' p n port" "prefix (w_log w) (w_log w')" "r = Ok y \<Longrightarrow> RequeueAfter y = 0 \<Longrightarrow> D x' (w_log w) (w_log w')"
  using assms unfolding provisions_def by blast+

text \<open>Conditions on the logs that a longer run keeps.\<close>

definition earlier :: "('a \<Rightarrow> log \<Rightarrow> log \<Rightarrow> bool) \<Rightarrow> bool" where
  "earlier D \<longleftrightarrow> (\<forall>x l0 l l1. D x l l1 \<longrightarrow> prefix l0 l \<longrightarrow> D x l0 l1)"

lemma provisions_world:
  assumes "in_session p n port m Q" and "\<And>x. provisions p n port s (k (Inr x)) (R x)" and "\<And>e. provisions p n port s (k (Inl e)) S"
    and "\<And>x x' l0 l l1. Q x l0 l \<Longrightarrow> R x x' l l1 \<Longrightarrow> prefix l0 l \<Longrightarrow> prefix l l1 \<Longrightarrow> D x' l0 l1" and "\<And>x' l0 l l1. S x' l l1 \<Longrightarrow> prefix l0 l \<Longrightarrow> D x' l0 l1"
  shows "provisions p n port s (attempt (on_world m) k) D"
  unfolding provisions_def
proof (intro allI impI)
  fix w x r w' x' assume wf: "pool_wf w" and at: "conn_at w p n port" and spec: "bm_Spec x = s" and run: "attempt (on_world m) k (w, x) = (r, (w', x'))"
  obtain r1 w1 where m: "m w = (r1, w1)" by (metis surj_pair)
  note c = in_sessionD [OF assms(1) wf at m]
  show "pool_wf w' \<and> conn_at w' p n port \<and> prefix (w_log w) (w_log w') \<and> (\<forall>y. r = Ok y \<longrightarrow> RequeueAfter y = 0 \<longrightarrow> D x' (w_log w) (w_log w'))"
  proof (cases r1)
    case (Ok y)
    with run m have "k (Inr y) (w1, x) = (r, (w', x'))" by (simp add: attempt_apply on_world_apply)
    from provisionsD [OF assms(2) c(1,2) spec this] c(3) c(4) [OF Ok] assms(4) show ?thesis by (blast intro: prefix_order.trans)
  next
    case (Err e)
    with run m have "k (Inl e) (w1, x) = (r, (w', x'))" by (simp add: attempt_apply on_world_apply)
    from provisionsD [OF assms(3) c(1,2) spec this] c(3) assms(5) show ?thesis by (blast intro: prefix_order.trans)
  next
    case (Panic e)
    with run m c show ?thesis by (auto simp: attempt_apply on_world_apply)
  qed
qed

lemma provisions_modify:
  assumes "\<And>x. bm_Spec (f x) = bm_Spec x" and "provisions p n port s k D"
  shows "provisions p n port s (andthen (modify_obj f) (\<lambda>_. k)) D"
  unfolding provisions_def
proof (intro allI impI)
  fix w x r w' x' assume w: "pool_wf w" "conn_at w p n port" "bm_Spec x = s" "andthen (modify_obj f) (\<lambda>_. k) (w, x) = (r, (w', x'))"
  then have "bm_Spec (f x) = s" "k (w, f x) = (r, (w', x'))" using assms(1) by (simp_all add: check_apply modify_obj_apply)
  from provisionsD [OF assms(2) w(1,2) this] show "pool_wf w' \<and> conn_at w' p n port \<and> prefix (w_log w) (w_log w')
      \<and> (\<forall>y. r = Ok y \<longrightarrow> RequeueAfter y = 0 \<longrightarrow> D x' (w_log w) (w_log w'))" by blast
qed

lemma provisions_with: "(\<And>x. bm_Spec x = s \<Longrightarrow> provisions p n port s (k x) D) \<Longrightarrow> provisions p n port s (with_obj k) D"
  unfolding provisions_def by (simp add: with_obj_apply)

lemma condition_apply:
  "setMachineCondition E ty status reason severity msg (w, x) =
     (Ok (), (w\<lparr>w_log := w_log w @ [EvNow]\<rparr>, x\<lparr>bm_Status := (bm_Status x)\<lparr>bmt_Conditions :=
        put_bm_condition (make_condition ty status reason severity msg (h_now (host E) (w_log w))) (bmt_Conditions (bm_Status x))\<rparr>\<rparr>))"
  by (simp add: setMachineCondition_def act_simps time_Now_apply)

lemma StatusUpdate_apply:
  "bmr_StatusUpdate E (w, x) = (let ev = EvStatusUpdate (KBareMetalMachine x) in
     (case k_write (kube E) (w_log w) ev of None \<Rightarrow> Ok () | Some e \<Rightarrow> Err e, (w\<lparr>w_log := w_log w @ [ev]\<rparr>, x)))"
  by (simp add: bmr_StatusUpdate_def act_simps api_write_def command_def query_def split: option.split)

lemmas mark_defs = markMachineConditionFalse_def markMachineConditionTrue_def

lemma provisions_mark:
  assumes "provisions p n port s k D" and "earlier D"
  shows "provisions p n port s (andthen (setMachineCondition E ty status reason severity msg) (\<lambda>_. k)) D"
  unfolding provisions_def
proof (intro allI impI)
  fix w x r w' x' assume w: "pool_wf w" "conn_at w p n port" "bm_Spec x = s" "andthen (setMachineCondition E ty status reason severity msg) (\<lambda>_. k) (w, x) = (r, (w', x'))"
  let ?w = "w\<lparr>w_log := w_log w @ [EvNow]\<rparr>"
  define x1 where "x1 = snd (snd (setMachineCondition E ty status reason severity msg (w, x)))"
  from w(4) have x1: "bm_Spec x1 = bm_Spec x" "k (?w, x1) = (r, (w', x'))" by (simp_all add: x1_def check_apply condition_apply)
  from w x1 have "pool_wf ?w" "conn_at ?w p n port" "bm_Spec x1 = s" by (simp_all add: pool_wf_def pool_inv_def)
  from provisionsD [OF assms(1) this x1(2)] assms(2) show "pool_wf w' \<and> conn_at w' p n port \<and> prefix (w_log w) (w_log w')
      \<and> (\<forall>y. r = Ok y \<longrightarrow> RequeueAfter y = 0 \<longrightarrow> D x' (w_log w) (w_log w'))"
    unfolding earlier_def by (auto dest: append_prefixD)
qed

lemma provisions_retry:
  assumes "d > 0"
  shows "provisions p n port s (retry_later E ty reason severity msg d) D"
  unfolding provisions_def
proof (intro allI impI)
  fix w x r w' x' assume w: "pool_wf w" "conn_at w p n port" "retry_later E ty reason severity msg d (w, x) = (r, (w', x'))"
  then have "w' = w\<lparr>w_log := w_log w'\<rparr>" "prefix (w_log w) (w_log w')" "\<forall>y. r = Ok y \<longrightarrow> RequeueAfter y = d"
    by (auto simp: retry_later_def mark_defs check_apply condition_apply StatusUpdate_apply ret_apply Let_def split: res.splits option.splits)
  with w(1,2) assms show "pool_wf w' \<and> conn_at w' p n port \<and> prefix (w_log w) (w_log w')
      \<and> (\<forall>y. r = Ok y \<longrightarrow> RequeueAfter y = 0 \<longrightarrow> D x' (w_log w) (w_log w'))"
    by (metis conn_at_log pool_wf_log less_irrefl)
qed

lemma provisions_wait: "d > 0 \<Longrightarrow> provisions p n port s (ret (requeue d)) D"
  unfolding provisions_def by (simp add: ret_apply)

lemma provisions_if:
  "(b \<Longrightarrow> provisions p n port s m D) \<Longrightarrow> (\<not> b \<Longrightarrow> provisions p n port s m' D) \<Longrightarrow> provisions p n port s (if b then m else m') D"
  by simp

lemma provisions_fail: "provisions p n port s (fail e) D"
  unfolding provisions_def by (simp add: fail_apply)

lemma provisions_weaken:
  "provisions p n port s m D \<Longrightarrow> (\<And>x l0 l1. prefix l0 l1 \<Longrightarrow> D x l0 l1 \<Longrightarrow> D' x l0 l1) \<Longrightarrow> provisions p n port s m D'"
  unfolding provisions_def by blast

text \<open>One step and the rest: the step has its effect in a first part of the log, the rest in what follows.\<close>

definition stepped :: "(log \<Rightarrow> log \<Rightarrow> bool) \<Rightarrow> (BareMetalMachine \<Rightarrow> log \<Rightarrow> log \<Rightarrow> bool) \<Rightarrow> BareMetalMachine \<Rightarrow> log \<Rightarrow> log \<Rightarrow> bool" where
  "stepped S D x l0 l1 \<longleftrightarrow> (\<exists>l. S l0 l \<and> prefix l0 l \<and> prefix l l1 \<and> D x l l1)"

lemma earlier_stepped: "(\<And>l0 l l1. S l l1 \<Longrightarrow> prefix l0 l \<Longrightarrow> S l0 l1) \<Longrightarrow> earlier (stepped S D)"
  unfolding earlier_def stepped_def by (blast intro: prefix_order.trans)

lemma provisions_step:
  assumes "in_session p n port m Q" and "\<And>x. provisions p n port s (k (Inr x)) (\<lambda>x' l0 l1. P x \<and> D x' l0 l1)"
    and "\<And>e. provisions p n port s (k (Inl e)) (\<lambda>_ _ _. False)" and "\<And>x l0 l. Q x l0 l \<Longrightarrow> P x \<Longrightarrow> S l0 l"
  shows "provisions p n port s (attempt (on_world m) k) (stepped S D)"
  by (rule provisions_world [OF assms(1-3)]) (use assms(4) in \<open>auto simp: stepped_def\<close>)

lemma provisions_skip: "provisions p n port s k D \<Longrightarrow> (\<And>l. S l l) \<Longrightarrow> provisions p n port s k (stepped S D)"
  by (erule provisions_weaken) (auto simp: stepped_def)

subsection \<open>Pre-flight checks\<close>

definition preflighted :: "env \<Rightarrow> (string \<Rightarrow> string) \<Rightarrow> string \<Rightarrow> int \<Rightarrow> PreflightResult \<Rightarrow> log \<Rightarrow> log \<Rightarrow> bool" where
  "preflighted E ae n port pr l0 l1 \<longleftrightarrow> (\<exists>p w w'. conn_at w p n port \<and> RunPreflightChecks E ae p DefaultPreflightConfig w = (Ok pr, w')
     \<and> prefix l0 (w_log w) \<and> prefix (w_log w') l1)"

definition passed_preflight :: "env \<Rightarrow> (string \<Rightarrow> string) \<Rightarrow> string \<Rightarrow> int \<Rightarrow> log \<Rightarrow> log \<Rightarrow> bool" where
  "passed_preflight E ae n port l0 l1 \<longleftrightarrow> (\<exists>pr. preflighted E ae n port pr l0 l1 \<and> pr_Errors pr = [] \<and> os_ok DefaultPreflightConfig pr
     \<and> versionGreaterOrEqual (pr_KernelVersion pr) ''3.10'' \<and> pr_DiskAvailableGB pr \<ge> 20 \<and> pr_MemoryTotalGB pr \<ge> 2)"

lemma passed_preflight_earlier: "passed_preflight E ae n port l l1 \<Longrightarrow> prefix l0 l \<Longrightarrow> passed_preflight E ae n port l0 l1"
  unfolding passed_preflight_def preflighted_def by (blast intro: prefix_order.trans)

lemma in_session_question:
  assumes "\<And>r. in_session p n port (k r) (\<lambda>_ _ _. True)"
  shows "in_session p n port (attempt (ExecuteCommand E p cmd ctx) k) (\<lambda>_ _ _. True)"
  by (rule in_session_weaken [OF in_session_attempt [OF in_session_command assms assms]]) simp

lemma in_session_checks:
  "in_session p n port (checkOS E p c r0) (\<lambda>_ _ _. True)" "in_session p n port (checkKernel E p c r0) (\<lambda>_ _ _. True)"
  "in_session p n port (checkDisk E ae p c r0) (\<lambda>_ _ _. True)" "in_session p n port (checkMemory E ae p c r0) (\<lambda>_ _ _. True)"
  "in_session p n port (checkNetwork E p r0) (\<lambda>_ _ _. True)" "in_session p n port (checkSwap E p r0) (\<lambda>_ _ _. True)"
  unfolding checkOS_def checkKernel_def checkDisk_def checkMemory_def checkNetwork_def checkSwap_def Let_def
  by (rule in_session_question, simp add: in_session_retI split: sum.split option.split)+

lemma in_session_preflight: "in_session p n port (RunPreflightChecks E ae p DefaultPreflightConfig) (preflighted E ae n port)"
proof -
  have "in_session p n port (RunPreflightChecks E ae p c) (\<lambda>_ _ _. True)" for c
    unfolding RunPreflightChecks_def by (intro in_session_after in_session_checks in_session_retI) simp_all
  then show ?thesis unfolding in_session_def preflighted_def by blast
qed

lemma preflighted_passed: "preflighted E ae n port pr l0 l1 \<Longrightarrow> pr_Passed pr \<Longrightarrow> passed_preflight E ae n port l0 l1"
  unfolding preflighted_def passed_preflight_def
  using preflight_sound [of E ae _ DefaultPreflightConfig _ pr] by (fastforce simp: DefaultPreflightConfig_def)

lemma provisions_preflight:
  assumes "provisions p n port s k D" and "earlier D"
  shows "provisions p n port s (preflight_step E ae p k) (stepped (passed_preflight E ae n port) D)"
  unfolding preflight_step_def check_def mark_defs
  by (rule provisions_step [OF in_session_preflight, where P = pr_Passed])
     (auto intro!: provisions_if provisions_retry provisions_fail preflighted_passed provisions_mark [unfolded check_def] assms simp: earlier_def
       intro: provisions_weaken [OF assms(1)] assms(2) [unfolded earlier_def, rule_format])

subsection \<open>Bootstrap, firewall, SELinux\<close>

definition bootstrapped :: "env \<Rightarrow> string \<Rightarrow> BareMetalMachineSpec \<Rightarrow> log \<Rightarrow> log \<Rightarrow> bool" where
  "bootstrapped E n s l0 l1 \<longleftrightarrow> (case bms_NodeBootstrap s of None \<Rightarrow> True
     | Some nb \<Rightarrow> nbc_Enabled nb \<longrightarrow> ran_plan E n None (map snd (boot_plan nb (boot_hostname s nb))) l0 l1)"

lemma bootstrapped_earlier: "bootstrapped E n s l l1 \<Longrightarrow> prefix l0 l \<Longrightarrow> bootstrapped E n s l0 l1"
  unfolding bootstrapped_def by (auto split: option.splits intro: ran_plan_earlier)

lemma provisions_bootstrap:
  assumes "range_ok E" and "provisions p n port s k D" and "earlier D"
  shows "provisions p n port s (bootstrap_step E p k) (stepped (bootstrapped E n s) D)"
  unfolding bootstrap_step_def mark_defs
proof (rule provisions_with)
  fix x assume x: "bm_Spec x = s"
  show "provisions p n port s (case bms_NodeBootstrap (bm_Spec x) of None \<Rightarrow> k | Some nb \<Rightarrow> if \<not> nbc_Enabled nb then k
      else attempt (on_world (Bootstrap E p (Some nb) (boot_hostname (bm_Spec x) nb))) (\<lambda>r. case r of
          Inl e \<Rightarrow> retry_later E NodeBootstrapCondition ''NodeBootstrapFailed'' ''Error'' (error_string e) (60 * second)
        | Inr steps \<Rightarrow> andthen (setMachineCondition E NodeBootstrapCondition ''True'' [] ''Info'' []) (\<lambda>_. k))) (stepped (bootstrapped E n s) D)"
  proof (cases "bms_NodeBootstrap s")
    case None
    with x provisions_skip [OF assms(2)] show ?thesis by (simp add: bootstrapped_def)
  next
    case (Some nb)
    have run: "provisions p n port s (attempt (on_world (Bootstrap E p (Some nb) (boot_hostname s nb))) (\<lambda>r. case r of
          Inl e \<Rightarrow> retry_later E NodeBootstrapCondition ''NodeBootstrapFailed'' ''Error'' (error_string e) (60 * second)
        | Inr steps \<Rightarrow> andthen (setMachineCondition E NodeBootstrapCondition ''True'' [] ''Info'' []) (\<lambda>_. k))) (stepped (bootstrapped E n s) D)"
      by (rule provisions_step [OF bootstrap_session [OF assms(1)], where P = "\<lambda>_. True"])
         (use Some in \<open>auto intro!: provisions_retry provisions_mark assms dest: ran_exactly_plan simp: bootstrapped_def planned_def\<close>)
    have skip: "provisions p n port s k (stepped (bootstrapped E n s) D)" if "\<not> nbc_Enabled nb"
      by (rule provisions_skip [OF assms(2)]) (use Some that in \<open>simp add: bootstrapped_def\<close>)
    show ?thesis unfolding x Some option.case by (rule provisions_if) (erule skip, rule run)
  qed
qed

lemma provisions_network:
  assumes "\<And>s. in_session p n port (configure s) (\<lambda>_ _ _. True)" and "provisions p n port s k D" and "earlier D"
  shows "provisions p n port s (network_step E ty reason configure k) D"
  unfolding network_step_def mark_defs
  by (rule provisions_with, rule provisions_world [OF assms(1), where R = "\<lambda>_. D" and S = D])
     (simp_all only: sum.case provisions_mark [OF assms(2,3)], use assms(3) in \<open>auto simp: earlier_def\<close>)

lemma in_session_network: "in_session p n port (configureFirewall E p s) (\<lambda>_ _ _. True)" "in_session p n port (configureSELinux E p s) (\<lambda>_ _ _. True)"
proof -
  have "in_session p n port (fw_Configure E p None role) (\<lambda>_ _ _. True)" for role by (simp add: fw_Configure_def in_session_retI)
  then show "in_session p n port (configureFirewall E p s) (\<lambda>_ _ _. True)"
    unfolding configureFirewall_def using in_session_any [OF in_session_firewall] by (cases "bms_Firewall s") auto
  have "in_session p n port (se_Configure E p None) (\<lambda>_ _ _. True)" by (simp add: se_Configure_def in_session_retI)
  then show "in_session p n port (configureSELinux E p s) (\<lambda>_ _ _. True)"
    unfolding configureSELinux_def using in_session_any [OF in_session_selinux] by (cases "bms_SELinux s") auto
qed

subsection \<open>Components and plugins\<close>

text \<open>Which release the steps found for the machine: none, or what the server answered.\<close>

definition release_read :: "env \<Rightarrow> BareMetalMachineSpec \<Rightarrow> ReleaseImage option \<Rightarrow> log \<Rightarrow> log \<Rightarrow> bool" where
  "release_read E s ri l0 l1 \<longleftrightarrow> (case bms_ReleaseImageRef s of None \<Rightarrow> ri = None
     | Some ref \<Rightarrow> \<exists>l. prefix l0 l \<and> prefix (l @ [EvGet ''ReleaseImage'' [] ref]) l1
         \<and> ri = (case k_get_releaseimage (kube E) l ref of Inl e \<Rightarrow> None | Inr x \<Rightarrow> Some x))"

lemma release_read_widen: "release_read E s ri l l' \<Longrightarrow> prefix l0 l \<Longrightarrow> prefix l' l1 \<Longrightarrow> release_read E s ri l0 l1"
  unfolding release_read_def by (auto split: option.splits intro: prefix_order.trans)

lemma in_session_release: "in_session p n port (machine_release E s) (release_read E s)"
proof (cases "bms_ReleaseImageRef s")
  case None
  then show ?thesis by (simp add: machine_release_def release_read_def in_session_retI)
next
  case (Some ref)
  have run: "machine_release E s w = (Ok (case k_get_releaseimage (kube E) (w_log w) ref of Inl e \<Rightarrow> None | Inr x \<Rightarrow> Some x),
      w\<lparr>w_log := w_log w @ [EvGet ''ReleaseImage'' [] ref]\<rparr>)" for w
    using Some by (simp add: machine_release_def Get_releaseimage_def query_def act_simps split: sum.split)
  have "release_read E s (case k_get_releaseimage (kube E) l ref of Inl e \<Rightarrow> None | Inr x \<Rightarrow> Some x) l (l @ [EvGet ''ReleaseImage'' [] ref])" for l
    unfolding release_read_def Some option.case by (rule exI [of _ l]) simp
  then show ?thesis unfolding in_session_def by (auto simp: run)
qed

lemma in_session_with_release:
  assumes "\<And>ri. in_session p n port (k ri) (Q ri)" and "\<And>ri x l0 l l1. Q ri x l l1 \<Longrightarrow> prefix l0 l \<Longrightarrow> Q ri x l0 l1"
  shows "in_session p n port (andthen (machine_release E s) k) (\<lambda>x l0 l1. \<exists>ri. release_read E s ri l0 l1 \<and> Q ri x l0 l1)"
  by (rule in_session_weaken [OF in_session_check [OF in_session_release assms(1)]])
     (blast intro: release_read_widen assms(2))

definition components_settled :: "env \<Rightarrow> string \<Rightarrow> string \<Rightarrow> BareMetalMachineSpec \<Rightarrow> log \<Rightarrow> log \<Rightarrow> bool" where
  "components_settled E n k8sVersion s l0 l1 \<longleftrightarrow> (let c = install_config s in cic_Enabled c \<and> cic_Strategy c \<noteq> Skip \<longrightarrow>
     (\<exists>ri res. release_read E s ri l0 l1 \<and> components_installed E n (choose_installer s k8sVersion ri) c res l0 l1))"

lemma components_settled_earlier: "components_settled E n v s l l1 \<Longrightarrow> prefix l0 l \<Longrightarrow> components_settled E n v s l0 l1"
  unfolding components_settled_def Let_def by (blast intro: release_read_widen components_installed_earlier)

lemma choose_installer_config: "ins_config (choose_installer s v ri) = Some (install_config s)"
  by (simp add: choose_installer_def NewInstaller_def NewWithReleaseImage_def split: option.split)

lemma in_session_components:
  assumes "range_ok E"
  shows "in_session p n port (installComponents E encode p v s) (\<lambda>_. components_settled E n v s)"
proof (cases "cic_Enabled (install_config s) \<and> cic_Strategy (install_config s) \<noteq> Skip")
  case True
  note install = in_session_install [OF assms choose_installer_config conjunct1 [OF True] conjunct2 [OF True]]
  have "in_session p n port (andthen (machine_release E s) (\<lambda>ri. Install E encode p (choose_installer s v ri)))
      (\<lambda>_. components_settled E n v s)"
    by (rule in_session_weaken [OF in_session_with_release [OF install components_installed_earlier]]) (auto simp: components_settled_def Let_def)
  with True show ?thesis by (simp add: installComponents_def)
next
  case False
  then show ?thesis by (auto simp: installComponents_def components_settled_def Let_def intro: in_session_retI)
qed

lemma provisions_components:
  assumes "range_ok E" and "provisions p n port s k D" and "earlier D"
  shows "provisions p n port s (components_step E encode p v k) (stepped (components_settled E n v s) D)"
  unfolding components_step_def mark_defs
proof (rule provisions_with)
  fix x assume x: "bm_Spec x = s"
  have tail: "provisions p n port s (andthen (modify_obj (with_components f)) (\<lambda>_. k)) D" for f
    by (rule provisions_modify [OF _ assms(2)]) (simp add: with_components_def)
  show "provisions p n port s (attempt (on_world (installComponents E encode p v (bm_Spec x))) (\<lambda>r. case r of
       Inl e \<Rightarrow> retry_later E ComponentsInstalledCondition ''ComponentInstallFailed'' ''Error'' (error_string e) (60 * second)
     | Inr res \<Rightarrow>
         if \<not> ir_Completed res then ret (requeue (30 * second))
         else if \<not> ir_Success res then retry_later E ComponentsInstalledCondition ''ComponentInstallFailed'' ''Error'' (ir_Error res) (60 * second)
         else andthen (setMachineCondition E ComponentsInstalledCondition ''True'' [] ''Info'' []) (\<lambda>_.
              andthen (modify_obj (with_components (\<lambda>_. installed_versions (ir_Versions res)))) (\<lambda>_. k)))) (stepped (components_settled E n v s) D)"
    unfolding x
    by (rule provisions_step [OF in_session_components [OF assms(1)], where P = "\<lambda>_. True"])
       (auto intro!: provisions_if provisions_wait provisions_retry provisions_mark tail assms(3))
qed

definition cni_settled :: "env \<Rightarrow> string \<Rightarrow> BareMetalMachineSpec \<Rightarrow> log \<Rightarrow> log \<Rightarrow> bool" where
  "cni_settled E n s l0 l1 \<longleftrightarrow> (case bms_ComponentInstall s of None \<Rightarrow> True | Some c \<Rightarrow> cni_Enabled (cic_CNI c) \<longrightarrow>
     (\<exists>ri res. release_read E s ri l0 l1 \<and> (let d = cni_defaults (cni_ins_config (choose_cni (cic_CNI c) ri)) in
        plugin_done E n (cni_found E n (cni_Type d)) (cni_Version d) (cni_vars d (pod_cidr (cic_CNI c))) cni_script res l0 l1)))"

definition csi_settled :: "env \<Rightarrow> string \<Rightarrow> BareMetalMachineSpec \<Rightarrow> log \<Rightarrow> log \<Rightarrow> bool" where
  "csi_settled E n s l0 l1 \<longleftrightarrow> (case bms_ComponentInstall s of None \<Rightarrow> True | Some c \<Rightarrow> csi_Enabled (cic_CSI c) \<longrightarrow>
     (\<exists>ri res. release_read E s ri l0 l1 \<and> (let d = csi_defaults (choose_csi (cic_CSI c) ri) in
        plugin_done E n (csi_found E n (csi_Driver d)) (csi_Version d) (fst (csi_plan d)) (snd (csi_plan d)) res l0 l1)))"

lemma plugins_settled_earlier:
  "cni_settled E n s l l1 \<Longrightarrow> prefix l0 l \<Longrightarrow> cni_settled E n s l0 l1" "csi_settled E n s l l1 \<Longrightarrow> prefix l0 l \<Longrightarrow> csi_settled E n s l0 l1"
proof -
  assume l: "prefix l0 l"
  note release = release_read_widen [OF _ l prefix_order.refl]
  note kept = cni_done_widen [OF _ l prefix_order.refl] csi_done_widen [OF _ l prefix_order.refl]
  { assume "cni_settled E n s l l1"
    then show "cni_settled E n s l0 l1" unfolding cni_settled_def Let_def by (auto split: option.splits dest!: release kept(1)) }
  { assume "csi_settled E n s l l1"
    then show "csi_settled E n s l0 l1" unfolding csi_settled_def Let_def by (auto split: option.splits dest!: release kept(2)) }
qed

lemma choose_plugin:
  "cni_Enabled (cni_ins_config (choose_cni c ri)) = cni_Enabled c" "cni_ins_podCIDR (choose_cni c ri) = pod_cidr c"
  "csi_Enabled (choose_csi d ri) = csi_Enabled d"
  by (simp_all add: choose_cni_def NewCNI_def NewCNIFromReleaseImage_def cni_from_release_def choose_csi_def csi_from_release_def Let_def split: option.split)

lemma in_session_plugins:
  assumes "range_ok E"
  shows "in_session p n port (installCNI E p s) (\<lambda>_. cni_settled E n s)" and "in_session p n port (installCSI E p s) (\<lambda>_. csi_settled E n s)"
proof -
  have "in_session p n port (andthen (machine_release E s) (\<lambda>ri. cni_Install E p (choose_cni (cic_CNI c) ri))) (\<lambda>_. cni_settled E n s)"
    if c: "bms_ComponentInstall s = Some c" "cni_Enabled (cic_CNI c)" for c
  proof -
    have "cni_Enabled (cni_ins_config (choose_cni (cic_CNI c) ri))" for ri using c by (simp add: choose_plugin)
    then show ?thesis
      by (rule in_session_weaken [OF in_session_with_release [OF in_session_cni [OF assms]]])
         (use c in \<open>auto simp: cni_settled_def Let_def choose_plugin intro: cni_done_widen\<close>)
  qed
  then show "in_session p n port (installCNI E p s) (\<lambda>_. cni_settled E n s)"
    unfolding installCNI_def by (auto split: option.split simp: cni_settled_def intro: in_session_retI)
  have "in_session p n port (andthen (machine_release E s) (\<lambda>ri. csi_Install E p (choose_csi (cic_CSI c) ri))) (\<lambda>_. csi_settled E n s)"
    if c: "bms_ComponentInstall s = Some c" "csi_Enabled (cic_CSI c)" for c
  proof -
    have "csi_Enabled (choose_csi (cic_CSI c) ri)" for ri using c by (simp add: choose_plugin)
    then show ?thesis
      by (rule in_session_weaken [OF in_session_with_release [OF in_session_csi [OF assms]]])
         (use c in \<open>auto simp: csi_settled_def Let_def choose_plugin intro: csi_done_widen\<close>)
  qed
  then show "in_session p n port (installCSI E p s) (\<lambda>_. csi_settled E n s)"
    unfolding installCSI_def by (auto split: option.split simp: csi_settled_def intro: in_session_retI)
qed

lemma provisions_plugin:
  assumes "in_session p n port (install s) (\<lambda>_. S)" and "\<And>res x. bm_Spec (note_version res x) = bm_Spec x" and "provisions p n port s k D" and "earlier D"
  shows "provisions p n port s (plugin_step E ty reason install note_version k) (stepped S D)"
  unfolding plugin_step_def mark_defs
proof (rule provisions_with)
  fix x assume x: "bm_Spec x = s"
  have tail: "provisions p n port s (andthen (modify_obj (note_version res)) (\<lambda>_. k)) D" for res
    by (rule provisions_modify [OF assms(2,3)])
  show "provisions p n port s (attempt (on_world (install (bm_Spec x))) (\<lambda>r. case r of
       Inl e \<Rightarrow> retry_later E ty reason ''Error'' (error_string e) (60 * second)
     | Inr res \<Rightarrow>
         if \<not> pr_Completed res then ret (requeue (30 * second))
         else if \<not> pr_Success res then retry_later E ty reason ''Error'' (pr_Error res) (60 * second)
         else andthen (setMachineCondition E ty ''True'' [] ''Info'' []) (\<lambda>_. andthen (modify_obj (note_version res)) (\<lambda>_. k)))) (stepped S D)"
    unfolding x
    by (rule provisions_step [OF assms(1), where P = "\<lambda>_. True"])
       (auto intro!: provisions_if provisions_wait provisions_retry provisions_mark tail assms(4))
qed

subsection \<open>The end of a round\<close>

text \<open>What the API server is relied on for: an update that it accepts stores the spec that was sent.\<close>

definition spec_stored :: "env \<Rightarrow> bool" where
  "spec_stored E \<longleftrightarrow> (\<forall>l m m'. k_update_bmmachine (kube E) l m = Inr m' \<longrightarrow> bm_Spec m' = bm_Spec m)"

definition machine_ready :: "BareMetalMachineSpec \<Rightarrow> BareMetalMachine \<Rightarrow> bool" where
  "machine_ready s m \<longleftrightarrow> bm_Spec m = s\<lparr>bms_ProviderID := Some (provider_id s)\<rparr> \<and> bmt_Ready (bm_Status m) \<and> bmt_ProviderID (bm_Status m) = provider_id s
     \<and> bmt_Addresses (bm_Status m) = [(''InternalIP'', bms_IPAddress s), (''Hostname'', bms_HostName s)] \<and> condition_true ReadyCondition (bmt_Conditions (bm_Status m))"

text \<open>The last event of provisioning is a status update of that machine, which the server accepted.\<close>

definition stored_ready :: "env \<Rightarrow> BareMetalMachineSpec \<Rightarrow> BareMetalMachine \<Rightarrow> log \<Rightarrow> log \<Rightarrow> bool" where
  "stored_ready E s m l0 l1 \<longleftrightarrow> machine_ready s m \<and> (\<exists>l. prefix l0 l \<and> l1 = l @ [EvStatusUpdate (KBareMetalMachine m)]
     \<and> k_write (kube E) l (EvStatusUpdate (KBareMetalMachine m)) = None)"

lemma earlier_stored: "earlier (stored_ready E s)"
  unfolding earlier_def stored_ready_def by (blast intro: prefix_order.trans)

lemma Update_apply:
  "bmr_Update E (w, x) = (case k_update_bmmachine (kube E) (w_log w) x of
      Inl e \<Rightarrow> (Err e, (w\<lparr>w_log := w_log w @ [EvUpdate (KBareMetalMachine x)]\<rparr>, x))
    | Inr x' \<Rightarrow> (Ok (), (w\<lparr>w_log := w_log w @ [EvUpdate (KBareMetalMachine x)]\<rparr>, x')))"
  by (simp add: bmr_Update_def act_simps query_def split: sum.split)

text \<open>The end once the provider ID is stored: ready status, condition, status update.\<close>

definition ready_tail :: "env \<Rightarrow> string \<Rightarrow> ctrl_result bmact" where
  "ready_tail E pid = andthen (modify_obj (ready_status pid)) (\<lambda>_.
     andthen (markMachineConditionTrue E ReadyCondition) (\<lambda>_. andthen (bmr_StatusUpdate E) (\<lambda>_. ret (requeue 0))))"

lemma ready_tail_run:
  assumes "ready_tail E (provider_id s) (w, x) = (r, (w', x'))" and "bm_Spec x = s\<lparr>bms_ProviderID := Some (provider_id s)\<rparr>"
  shows "w' = w\<lparr>w_log := w_log w'\<rparr> \<and> prefix (w_log w) (w_log w') \<and> (\<forall>y. r = Ok y \<longrightarrow> stored_ready E s x' (w_log w) (w_log w'))
    \<and> bmt_InstalledComponents (bm_Status x') = bmt_InstalledComponents (bm_Status x)"
  using assms
  by (auto simp: ready_tail_def mark_defs check_apply modify_obj_apply condition_apply StatusUpdate_apply ret_apply Let_def ready_status_def
      stored_ready_def machine_ready_def condition_true_def split: res.splits option.splits)

lemma finish_machine_alt:
  "finish_machine E (w, x) = (let pid = provider_id (bm_Spec x); x1 = x\<lparr>bm_Spec := (bm_Spec x)\<lparr>bms_ProviderID := Some pid\<rparr>\<rparr> in
     if bms_ProviderID (bm_Spec x) = Some pid then ready_tail E pid (w, x)
     else (case bmr_Update E (w, x1) of (Ok _, t) \<Rightarrow> ready_tail E pid t | (Err e, t) \<Rightarrow> (Err e, t) | (Panic q, t) \<Rightarrow> (Panic q, t)))"
  by (auto simp: finish_machine_def ready_tail_def Let_def with_obj_apply check_apply modify_obj_apply when_act_def ret_apply split: prod.splits res.splits)

lemma provisions_finish:
  assumes "spec_stored E"
  shows "provisions p n port s (finish_machine E) (stored_ready E s)"
  unfolding provisions_def
proof (intro allI impI)
  fix w x r w' x' assume w: "pool_wf w" "conn_at w p n port" and spec: "bm_Spec x = s" and run: "finish_machine E (w, x) = (r, (w', x'))"
  let ?s = "s\<lparr>bms_ProviderID := Some (provider_id s)\<rparr>"
  have same: "s = ?s" if "bms_ProviderID s = Some (provider_id s)" using that by (cases s) simp
  have "w' = w\<lparr>w_log := w_log w'\<rparr> \<and> prefix (w_log w) (w_log w') \<and> (\<forall>y. r = Ok y \<longrightarrow> stored_ready E s x' (w_log w) (w_log w'))"
  proof (cases "bms_ProviderID s = Some (provider_id s)")
    case True
    with run spec have "ready_tail E (provider_id s) (w, x) = (r, (w', x'))" by (simp add: finish_machine_alt Let_def)
    from ready_tail_run [OF this] spec same [OF True] show ?thesis by simp
  next
    case False
    let ?x = "x\<lparr>bm_Spec := ?s\<rparr>" and ?w = "w\<lparr>w_log := w_log w @ [EvUpdate (KBareMetalMachine (x\<lparr>bm_Spec := s\<lparr>bms_ProviderID := Some (provider_id s)\<rparr>\<rparr>))]\<rparr>"
    show ?thesis
    proof (cases "k_update_bmmachine (kube E) (w_log w) ?x")
      case (Inl e)
      with run spec False show ?thesis by (auto simp: finish_machine_alt Update_apply Let_def)
    next
      case (Inr m)
      with assms have m: "bm_Spec m = ?s" unfolding spec_stored_def by fastforce
      from run spec False Inr have "ready_tail E (provider_id s) (?w, m) = (r, (w', x'))" by (simp add: finish_machine_alt Update_apply Let_def)
      from ready_tail_run [OF this m] show ?thesis
        using earlier_stored [of E s] unfolding earlier_def by (auto dest: append_prefixD)
    qed
  qed
  with w show "pool_wf w' \<and> conn_at w' p n port \<and> prefix (w_log w) (w_log w') \<and> (\<forall>y. r = Ok y \<longrightarrow> RequeueAfter y = 0 \<longrightarrow> stored_ready E s x' (w_log w) (w_log w'))"
    by (metis conn_at_log pool_wf_log)
qed

lemma in_session_verify: "in_session p n port (VerifyInstallation E p) (\<lambda>_ _ _. True)"
proof -
  have loop: "in_session p n port (verify_loop cs res) (\<lambda>_ _ _. True)" if "list_all (\<lambda>(name, m). in_session p n port m (\<lambda>_ _ _. True)) cs" for cs res
    using that
  proof (induction cs arbitrary: res)
    case (Cons c cs)
    obtain name m where c: "c = (name, m)" by (metis surj_pair)
    have rest: "in_session p n port (verify_loop cs res') (\<lambda>_ _ _. True)" for res' using Cons by simp
    have "in_session p n port m (\<lambda>_ _ _. True)" using Cons.prems c by simp
    then show ?case unfolding c verify_loop.simps
      by (intro in_session_weaken [OF in_session_attempt [where R = "\<lambda>_ _ _ _. True" and S = "\<lambda>_ _ _. True"]]) (auto intro: rest)
  qed (simp add: in_session_retI)
  have "list_all2 (\<lambda>c plan. case c of (name, m) \<Rightarrow> in_session p n port m (\<lambda>_ _ _. True)) (verify_checks E p) verify_plans"
    using calm_checks [of p n port E] by (rule list_all2_mono) (auto simp: calm_def intro: in_session_any)
  then have "list_all (\<lambda>(name, m). in_session p n port m (\<lambda>_ _ _. True)) (verify_checks E p)"
    unfolding list_all2_conv_all_nth list_all_length by auto
  then show ?thesis unfolding VerifyInstallation_def by (rule loop)
qed

lemma provisions_verify:
  assumes "provisions p n port s k D" and "earlier D"
  shows "provisions p n port s (verify_step E p k) D"
  unfolding verify_step_def
  by (rule provisions_world [OF in_session_verify, where R = "\<lambda>_. D" and S = D]) (use assms in \<open>auto simp: earlier_def\<close>)

text \<open>
  A provisioned machine: on its host, in this order, the pre-flight checks passed, the scripts of an enabled
  bootstrap ran with exit code 0, the components, the network plugin and the storage plugin were found or
  installed where they are enabled, and then the ready machine was written to the API server.
\<close>

definition provisioned :: "env \<Rightarrow> (string \<Rightarrow> string) \<Rightarrow> string \<Rightarrow> BareMetalMachineSpec \<Rightarrow> BareMetalMachine \<Rightarrow> log \<Rightarrow> log \<Rightarrow> bool" where
  "provisioned E ae k8sVersion s = (let n = bms_IPAddress s in
     stepped (passed_preflight E ae n (bms_SSHPort s)) (stepped (bootstrapped E n s) (stepped (components_settled E n k8sVersion s)
     (stepped (cni_settled E n s) (stepped (csi_settled E n s) (stored_ready E s))))))"

lemma provision_correct:
  assumes "range_ok E" and "spec_stored E"
  shows "provisions p (bms_IPAddress s) (bms_SSHPort s) s (provision E ae encode k8sVersion p) (provisioned E ae k8sVersion s)"
proof -
  note earlier = earlier_stepped [OF passed_preflight_earlier] earlier_stepped [OF bootstrapped_earlier] earlier_stepped [OF components_settled_earlier]
    earlier_stepped [OF plugins_settled_earlier(1)] earlier_stepped [OF plugins_settled_earlier(2)] earlier_stored
  have spec_kept: "bm_Spec (note_cni res x) = bm_Spec x" "bm_Spec (note_csi res x) = bm_Spec x" for res x
    by (simp_all add: note_cni_def note_csi_def with_components_def)
  show ?thesis unfolding provision_def provisioned_def Let_def mark_defs
    by (intro provisions_mark provisions_preflight provisions_bootstrap provisions_network provisions_components provisions_plugin provisions_verify provisions_finish
        in_session_network in_session_plugins spec_kept earlier assms)
qed

section \<open>A whole round\<close>

definition other :: "event \<Rightarrow> bool" where
  "other ev \<longleftrightarrow> (\<forall>x. ev \<noteq> EvStatusUpdate (KBareMetalMachine x))"

text \<open>Calls that only talk to the API server, and write no status of a machine.\<close>

definition only_logs :: "'a cact \<Rightarrow> bool" where
  "only_logs m \<longleftrightarrow> (\<forall>w r w'. m w = (r, w') \<longrightarrow> (\<exists>es. w' = w\<lparr>w_log := w_log w @ es\<rparr> \<and> list_all other es))"

lemma only_logs_basic: "only_logs (ret x)" "only_logs (fail e)" "only_logs (panic s)" "other ev \<Longrightarrow> only_logs (query ev f)" "other ev \<Longrightarrow> only_logs (command ev g)"
  by (auto simp: only_logs_def act_simps query_def command_def split: sum.splits intro: exI [of _ "[]"] exI [of _ "[ev]"])

lemma only_logs_attempt:
  assumes "only_logs m" and "\<And>r. only_logs (k r)"
  shows "only_logs (attempt m k)"
  unfolding only_logs_def
proof (intro allI impI)
  fix w r w' assume run: "attempt m k w = (r, w')"
  obtain r1 w1 where m: "m w = (r1, w1)" by (metis surj_pair)
  with assms(1) obtain es where es: "w1 = w\<lparr>w_log := w_log w @ es\<rparr>" "list_all other es" unfolding only_logs_def by blast
  have "w' = w1 \<or> (\<exists>x. k x w1 = (r, w'))" using run m by (auto simp: attempt_apply split: res.splits)
  then show "\<exists>es. w' = w\<lparr>w_log := w_log w @ es\<rparr> \<and> list_all other es"
  proof
    assume "\<exists>x. k x w1 = (r, w')"
    with assms(2) obtain fs where "w' = w1\<lparr>w_log := w_log w1 @ fs\<rparr>" "list_all other fs" unfolding only_logs_def by blast
    with es show ?thesis by (intro exI [of _ "es @ fs"]) simp
  qed (use es in blast)
qed

lemma only_logs_check: "only_logs m \<Longrightarrow> (\<And>x. only_logs (k x)) \<Longrightarrow> only_logs (check m f k)"
  unfolding check_def by (rule only_logs_attempt) (auto intro: only_logs_basic split: sum.split)

lemma other_simps [simp]: "other (EvGet a b c)" "other (EvList a b ls)" "other EvNow" "other (EvUpdate k)" "other (EvStatusUpdate (KInventory iv))"
  by (simp_all add: other_def)

lemma only_logs_alloc: "only_logs (alloc_loop E bm iv i hs)"
  by (induction hs arbitrary: i)
     (auto intro!: only_logs_basic only_logs_check simp: getAllocatedMachine_def List_bmmachines_def api_write_def)

lemma only_logs_calls:
  "only_logs (allocateHostFromInventory E bm)" "only_logs (getCredentials E bm)" "only_logs (getBareMetalCluster E bm)"
  unfolding allocateHostFromInventory_def getCredentials_def getBareMetalCluster_def Get_inventory_def Let_def
  by (auto intro!: only_logs_basic only_logs_check only_logs_attempt only_logs_alloc split: option.split sum.split)

text \<open>The connection of a round: \<open>Connect\<close> to the host of the machine returned it.\<close>

definition connected :: "env \<Rightarrow> SSHManager \<Rightarrow> BareMetalMachineSpec \<Rightarrow> log \<Rightarrow> log \<Rightarrow> bool" where
  "connected E sm s l0 l \<longleftrightarrow> (\<exists>creds w p w'. prefix l0 (w_log w) \<and> Connect E sm (bms_IPAddress s) (bms_SSHPort s) creds w = (Ok p, w') \<and> w_log w' = l)"

text \<open>How a round can end without a retry: it wrote no status, or the machine is provisioned.\<close>

definition settled :: "env \<Rightarrow> SSHManager \<Rightarrow> (string \<Rightarrow> string) \<Rightarrow> string \<Rightarrow> BareMetalMachine \<Rightarrow> log \<Rightarrow> log \<Rightarrow> bool" where
  "settled E sm ae k8sVersion m l0 l1 \<longleftrightarrow> (\<exists>es. l1 = l0 @ es \<and> list_all other es)
     \<or> (\<exists>s la lb. connected E sm s l0 la \<and> provisioned E ae k8sVersion s m la lb \<and> prefix l0 la \<and> prefix lb l1)"

lemma settled_earlier: "settled E sm ae v m (l0 @ es) l1 \<Longrightarrow> list_all other es \<Longrightarrow> settled E sm ae v m l0 l1"
  unfolding settled_def connected_def by (force dest: append_prefixD)

definition settles :: "env \<Rightarrow> SSHManager \<Rightarrow> (string \<Rightarrow> string) \<Rightarrow> string \<Rightarrow> BareMetalMachine \<Rightarrow> ctrl_result bmact \<Rightarrow> bool" where
  "settles E sm ae v x m \<longleftrightarrow> (\<forall>w y w' x'. pool_wf w \<longrightarrow> m (w, x) = (Ok y, (w', x')) \<longrightarrow> RequeueAfter y = 0 \<longrightarrow> settled E sm ae v x' (w_log w) (w_log w'))"

lemma settlesD: "settles E sm ae v x m \<Longrightarrow> pool_wf w \<Longrightarrow> m (w, x) = (Ok y, (w', x')) \<Longrightarrow> RequeueAfter y = 0 \<Longrightarrow> settled E sm ae v x' (w_log w) (w_log w')"
  unfolding settles_def by blast

lemma settles_world:
  assumes "only_logs m" and "\<And>r. settles E sm ae v x (k r)"
  shows "settles E sm ae v x (attempt (on_world m) k)"
  unfolding settles_def
proof (intro allI impI)
  fix w y w' x' assume wf: "pool_wf w" and run: "attempt (on_world m) k (w, x) = (Ok y, (w', x'))" and y: "RequeueAfter y = 0"
  obtain r1 w1 where m: "m w = (r1, w1)" by (metis surj_pair)
  with assms(1) obtain es where es: "w1 = w\<lparr>w_log := w_log w @ es\<rparr>" "list_all other es" unfolding only_logs_def by blast
  with wf have "pool_wf w1" by simp
  moreover from run m obtain r where "k r (w1, x) = (Ok y, (w', x'))" by (auto simp: attempt_apply on_world_apply split: res.splits)
  ultimately have "settled E sm ae v x' (w_log w1) (w_log w')" using settlesD [OF assms(2)] y by blast
  with es show "settled E sm ae v x' (w_log w) (w_log w')" by (auto intro: settled_earlier)
qed

lemma settles_retry: "d > 0 \<Longrightarrow> settles E sm ae v x (retry_later E' ty reason severity msg d)"
  by (auto simp: settles_def retry_later_def mark_defs check_apply condition_apply StatusUpdate_apply ret_apply Let_def split: res.splits option.splits)

lemma settles_ret: "settles E sm ae v x (ret y)"
  by (auto simp: settles_def ret_apply settled_def)

lemma settles_mark: "settles E sm ae v x (andthen (setMachineCondition E' ty status reason severity msg) (\<lambda>_. ret y))"
  by (auto simp: settles_def check_apply condition_apply ret_apply settled_def)

lemma settles_with: "settles E sm ae v x (k x) \<Longrightarrow> settles E sm ae v x (with_obj k)"
  unfolding settles_def by (simp add: with_obj_apply)

lemma settles_modify: "settles E sm ae v (f x) k \<Longrightarrow> settles E sm ae v x (andthen (modify_obj f) (\<lambda>_. k))"
  unfolding settles_def by (simp add: check_apply modify_obj_apply)

lemma settles_update:
  assumes "\<And>x'. settles E sm ae v x' k"
  shows "settles E sm ae v x (andthen (bmr_Update E') (\<lambda>_. k))"
  unfolding settles_def
proof (intro allI impI)
  fix w y w' x' assume wf: "pool_wf w" and run: "andthen (bmr_Update E') (\<lambda>_. k) (w, x) = (Ok y, (w', x'))" and y: "RequeueAfter y = 0"
  let ?w = "w\<lparr>w_log := w_log w @ [EvUpdate (KBareMetalMachine x)]\<rparr>"
  from run obtain x1 where "k (?w, x1) = (Ok y, (w', x'))" by (auto simp: check_apply Update_apply split: sum.splits)
  from settlesD [OF assms _ this y] wf show "settled E sm ae v x' (w_log w) (w_log w')" by (auto intro: settled_earlier)
qed

lemma settles_session:
  assumes "range_ok E" and "spec_stored E"
  shows "settles E sm ae v m (attempt (on_world (Connect E sm (bms_IPAddress (bm_Spec m)) (bms_SSHPort (bm_Spec m)) creds)) (\<lambda>r. case r of
            Inl e \<Rightarrow> retry_later E ty reason severity (error_string e) (30 * second)
          | Inr p \<Rightarrow> deferring (provision E ae encode v p) (on_world (Close (Some p)))))"
  unfolding settles_def
proof (intro allI impI)
  fix w y w' m'
  let ?n = "bms_IPAddress (bm_Spec m)" and ?port = "bms_SSHPort (bm_Spec m)"
  let ?k = "\<lambda>r. case r of Inl e \<Rightarrow> retry_later E ty reason severity (error_string e) (30 * second)
      | Inr p \<Rightarrow> deferring (provision E ae encode v p) (on_world (Close (Some p)))"
  assume wf: "pool_wf w" and y: "RequeueAfter y = 0" and run: "attempt (on_world (Connect E sm ?n ?port creds)) ?k (w, m) = (Ok y, (w', m'))"
  obtain r1 w1 where con: "Connect E sm ?n ?port creds w = (r1, w1)" by (metis surj_pair)
  from hoareD [OF hoare_Connect [of "w_log w"] _ con] wf have c: "pool_wf w1" "prefix (w_log w) (w_log w1)" "\<forall>p. r1 = Ok p \<longrightarrow> conn_at w1 p ?n ?port"
    by (auto dest: grew_prefix)
  show "settled E sm ae v m' (w_log w) (w_log w')"
  proof (cases r1)
    case (Ok p)
    obtain r2 w2 m2 where b: "provision E ae encode v p (w1, m) = (r2, (w2, m2))" by (metis surj_pair)
    note s = provisionsD [OF provision_correct [OF assms] c(1) c(3) [rule_format, OF Ok] refl b]
    obtain r3 w3 where cl: "Close (Some p) w2 = (r3, w3)" by (metis surj_pair)
    from hoareD [OF hoare_Close [of ?n "w_log w2" p ?port] _ cl] s(1,2) have d: "r3 = Ok ()" "prefix (w_log w2) (w_log w3)"
      by (auto dest: grew_prefix)
    with run con Ok b cl have "r2 = Ok y" "w' = w3" "m' = m2" by (simp_all add: act_simps)
    moreover from con Ok have "connected E sm (bm_Spec m) (w_log w) (w_log w1)" unfolding connected_def by blast
    ultimately show ?thesis using s(4) y c(2) d unfolding settled_def by blast
  next
    case (Err e)
    with run con have "retry_later E ty reason severity (error_string e) (30 * second) (w1, m) = (Ok y, (w', m'))" by (simp add: act_simps)
    from settlesD [OF settles_retry _ this y] c show ?thesis
      using y run \<open>retry_later E ty reason severity (error_string e) (30 * second) (w1, m) = (Ok y, (w', m'))\<close>
      by (auto simp: retry_later_def mark_defs check_apply condition_apply StatusUpdate_apply ret_apply Let_def split: option.splits)
  qed (use run con in \<open>simp add: act_simps\<close>)
qed

lemma settles_connect:
  assumes "range_ok E" and "spec_stored E"
  shows "settles E sm ae v x (connect_step E sm (provision E ae encode v))"
  unfolding connect_step_def mark_defs
proof (rule settles_with, cases "bms_CredentialsRef (bm_Spec x)")
  case (Some ref)
  have "settles E sm ae v x (case r of Inl e \<Rightarrow> retry_later E ReadyCondition ''CredentialsNotFound'' ''Error'' (error_string e) (10 * second)
      | Inr creds \<Rightarrow> attempt (on_world (Connect E sm (bms_IPAddress (bm_Spec x)) (bms_SSHPort (bm_Spec x)) creds)) (\<lambda>r. case r of
            Inl e \<Rightarrow> retry_later E SSHConnectedCondition ''SSHConnectionFailed'' ''Warning'' (error_string e) (30 * second)
          | Inr p \<Rightarrow> deferring (provision E ae encode v p) (on_world (Close (Some p)))))" for r :: "error + Credentials"
  proof (cases r)
    case (Inr creds)
    show ?thesis unfolding Inr sum.case by (rule settles_session [OF assms])
  qed (simp add: settles_retry)
  then show "settles E sm ae v x (case bms_CredentialsRef (bm_Spec x) of
      None \<Rightarrow> andthen (setMachineCondition E ReadyCondition ''False'' ''InvalidConfiguration'' ''Error'' ''credentialsRef is required'') (\<lambda>_. ret (requeue 0))
    | Some ref \<Rightarrow> attempt (on_world (getCredentials E x)) (\<lambda>r. case r of
          Inl e \<Rightarrow> retry_later E ReadyCondition ''CredentialsNotFound'' ''Error'' (error_string e) (10 * second)
        | Inr creds \<Rightarrow> attempt (on_world (Connect E sm (bms_IPAddress (bm_Spec x)) (bms_SSHPort (bm_Spec x)) creds)) (\<lambda>r. case r of
            Inl e \<Rightarrow> retry_later E SSHConnectedCondition ''SSHConnectionFailed'' ''Warning'' (error_string e) (30 * second)
          | Inr p \<Rightarrow> deferring (provision E ae encode v p) (on_world (Close (Some p))))))"
    unfolding Some option.case by (rule settles_world [OF only_logs_calls(2)])
qed (simp add: settles_mark)

lemma settles_read:
  assumes "only_logs (m x)" and "\<And>r. settles E sm ae v x (k r)"
  shows "settles E sm ae v x (attempt (with_obj (\<lambda>x. on_world (m x))) k)"
  using settles_world [OF assms] unfolding settles_def by (simp add: attempt_apply with_obj_apply)

lemma settles_host: "(\<And>x. settles E sm ae v x k) \<Longrightarrow> settles E sm ae v x (host_step E' k)"
  unfolding host_step_def mark_defs
  by (rule settles_with) (auto intro!: settles_mark settles_world only_logs_calls settles_retry settles_modify settles_update split: sum.split)


section \<open>Consequences of the order of the writes\<close>

text \<open>
  The first provisioning of a machine forgets what it found: the update that stores the provider ID
  takes over the status that the server has, so the versions of the components and the conditions that
  the round had collected are not part of the status it writes at the end.
\<close>

theorem first_round_loses_components:
  assumes "bms_ProviderID (bm_Spec m) \<noteq> Some (provider_id (bm_Spec m))" and "spec_stored E"
    and "\<And>l x x'. k_update_bmmachine (kube E) l x = Inr x' \<Longrightarrow> bm_Status x' = stored"
    and "finish_machine E (w, m) = (Ok y, (w', m'))"
  shows "bmt_InstalledComponents (bm_Status m') = bmt_InstalledComponents stored
    \<and> (\<forall>ty. ty \<noteq> ReadyCondition \<longrightarrow> condition_of ty (bmt_Conditions (bm_Status m')) = condition_of ty (bmt_Conditions stored))"
proof -
  let ?x = "m\<lparr>bm_Spec := (bm_Spec m)\<lparr>bms_ProviderID := Some (provider_id (bm_Spec m))\<rparr>\<rparr>"
  obtain x1 where up: "k_update_bmmachine (kube E) (w_log w) ?x = Inr x1"
    using assms(1,4) by (auto simp: finish_machine_alt Update_apply Let_def split: sum.splits)
  from assms(3) [OF up] have st: "bm_Status x1 = stored" .
  let ?w = "w\<lparr>w_log := w_log w @ [EvUpdate (KBareMetalMachine ?x)]\<rparr>"
  have "ready_tail E (provider_id (bm_Spec m)) (?w, x1) = (Ok y, (w', m'))"
    using assms(1,4) up by (simp add: finish_machine_alt Update_apply Let_def)
  with st show ?thesis
    by (auto simp: ready_tail_def mark_defs check_apply modify_obj_apply condition_apply StatusUpdate_apply ret_apply Let_def ready_status_def split: res.splits option.splits)
qed

text \<open>
  (C35) A machine takes the host name of its inventory entry, but the entry is looked up by its name when
  the machine is deleted. When no entry has that host name as its name, the host is never released:
  the deletion only reads the inventory, and the inventory controller does not count the machine
  as the holder of the entry either.
\<close>

theorem renamed_host_not_released:
  assumes "he_Name h \<noteq> he_HostName h" and "bms_HostInventoryRef (bm_Spec m) = Some ref"
    and "k_get_inventory (kube E) (w_log w) (m_Namespace (bm_Meta m)) ref = Inr iv" and "\<forall>e\<in>set (inv_hosts iv). he_Name e \<noteq> he_HostName h"
  shows "releaseHostToInventory E (take_host h m) w = (Ok (), w\<lparr>w_log := w_log w @ [EvGet ''BareMetalHostInventory'' (m_Namespace (bm_Meta m)) ref]\<rparr>)
    \<and> \<not> holds_host (he_Name h) (take_host h m)"
proof -
  have "release_loop E (take_host h m) iv i hs = ret ()" if "\<forall>e\<in>set hs. he_Name e \<noteq> he_HostName h" for i hs
    using that by (induction hs arbitrary: i) (auto simp: take_host_def)
  moreover have "bms_HostInventoryRef (bm_Spec (take_host h m)) = Some ref" "bm_Meta (take_host h m) = bm_Meta m" "bms_HostName (bm_Spec (take_host h m)) = he_HostName h"
    using assms(2) by (simp_all add: take_host_def)
  ultimately show ?thesis using assms
    by (simp add: releaseHostToInventory_def Get_inventory_def query_def act_simps holds_host_def)
qed

text \<open>
  The deletion of a machine ends with its finalizer removed whenever the server accepts the
  update, also when the host could not be released: that error is dropped, and the host stays taken.
\<close>

theorem deletion_removes_finalizer:
  assumes "bmr_reconcileDelete E (w, m) = (Ok y, (w', m'))"
  shows "\<exists>l x. w_log w' = l @ [EvUpdate (KBareMetalMachine x)] \<and> MachineFinalizer \<notin> set (m_Finalizers (bm_Meta x)) \<and> bm_Spec x = bm_Spec m"
proof -
  let ?release = "with_obj (\<lambda>m. when_act (bms_HostInventoryRef (bm_Spec m) \<noteq> None \<and> bms_HostName (bm_Spec m) \<noteq> [])
       (attempt (on_world (releaseHostToInventory E m)) (\<lambda>_. ret ())))"
  obtain r1 w1 where rel: "releaseHostToInventory E m w = (r1, w1)" by (metis surj_pair)
  have "?release (w, m) = (Ok (), (w, m)) \<or> ?release (w, m) = (Ok (), (w1, m)) \<or> (\<exists>q. ?release (w, m) = (Panic q, (w1, m)))"
    using rel by (cases r1) (auto simp: with_obj_apply when_act_def act_simps)
  with assms obtain w2 where "?release (w, m) = (Ok (), (w2, m))" by (auto simp: bmr_reconcileDelete_def check_apply)
  with assms show ?thesis
    by (auto simp: bmr_reconcileDelete_def check_apply modify_obj_apply Update_apply ret_apply RemoveFinalizer_def split: sum.splits)
qed

end
