(* ===== verification/Bm_Round.thy ===== *)
theory Bm_Round
  imports Bm_Machine
begin

text \<open>
  A concrete round of the machine controller: a machine with a host of its own whose bootstrap, components,
  network plugin and storage plugin are all enabled, on an Ubuntu host that passes the pre-flight checks and
  on which every script succeeds. It shows that the hypotheses of the theorems of \<open>Bm_Machine\<close> can hold together.
\<close>

section \<open>The environment\<close>

definition ex_components :: ComponentInstallConfig where
  "ex_components = zero_ComponentInstallConfig\<lparr>cic_Enabled := True, cic_Strategy := AlwaysInstall,
     cic_CNI := zero_CNIConfig\<lparr>cni_Enabled := True, cni_Version := ''3.26.1''\<rparr>, cic_CSI := zero_CSIConfig\<lparr>csi_Enabled := True, csi_Driver := ''nfs''\<rparr>\<rparr>"

definition ex_bm_spec :: BareMetalMachineSpec where
  "ex_bm_spec = zero_BareMetalMachineSpec\<lparr>bms_HostName := ''node-1'', bms_IPAddress := ''n1'', bms_SSHPort := 22, bms_CredentialsRef := Some ''creds'',
     bms_NodeBootstrap := Some ex_boot, bms_ComponentInstall := Some ex_components\<rparr>"

definition ex_bm_machine :: BareMetalMachine where
  "ex_bm_machine = zero_BareMetalMachine\<lparr>bm_Meta := zero_meta\<lparr>m_Labels := [(ClusterNameLabel, ''c1'')]\<rparr>, bm_Spec := ex_bm_spec\<rparr>"

definition ready_cluster :: BareMetalCluster where
  "ready_cluster = zero_BareMetalCluster\<lparr>bmc_Status := (bmc_Status zero_BareMetalCluster)\<lparr>bct_Ready := True\<rparr>\<rparr>"

text \<open>The answers of the host: those of the pre-flight checks, and the release file that the installer reads.\<close>

definition round_out :: "string \<Rightarrow> string" where
  "round_out c = (if c = release_question then ubuntu_release else ex_out c)"

definition ex_round_env :: env where
  "ex_round_env = quiet_env\<lparr>ssh := quiet_ssh\<lparr>s_run := (\<lambda>l h c t. RunDone (round_out c) [] 0)\<rparr>, kube := quiet_kube\<lparr>k_get_bmcluster := (\<lambda>l ns n. Inr ready_cluster),
     k_get_secret := (\<lambda>l ns n. Inr [(''username'', ''root''), (''password'', ''secret'')])\<rparr>\<rparr>"

definition ex_creds :: Credentials where
  "ex_creds = \<lparr>cred_Username = ''root'', cred_Password = ''secret'', cred_SudoPassword = [], cred_UseSudo = False\<rparr>"

lemma ex_round_simps [simp]:
  "range_ok ex_round_env" "spec_stored ex_round_env"
  using range_ok_quiet by (simp_all add: range_ok_def spec_stored_def ex_round_env_def quiet_kube_def quiet_env_def)

section \<open>Actions that succeed\<close>

lemma round_obliging: "obliging ex_round_env round_out"
  by (simp add: obliging_def ex_round_env_def quiet_env_def)

lemma round_questions: "os_cmd \<noteq> release_question" "disk_cmd \<noteq> release_question" "mem_cmd \<noteq> release_question" "net_cmd \<noteq> release_question"
  "swap_cmd \<noteq> release_question" "''uname -r'' \<noteq> release_question"
  by (simp_all add: os_cmd_def disk_cmd_def mem_cmd_def net_cmd_def swap_cmd_def single_quoted_def quoted_def)

lemma round_outs: "round_out release_question = ubuntu_release" "c \<noteq> release_question \<Longrightarrow> round_out c = ex_out c"
  by (simp_all add: round_out_def)

lemma gives_round_command:
  assumes "c \<noteq> release_question"
  shows "gives p n port (ExecuteCommand ex_round_env p c ctx) (answer (ex_out c))"
  using gives_obliging [OF round_obliging, of p n port c ctx] unfolding round_outs(2) [OF assms] .

text \<open>\<open>finishes p n port s m\<close>: over a live connection, on a machine with spec \<open>s\<close>, the action ends without a retry.\<close>

definition finishes :: "nat \<Rightarrow> string \<Rightarrow> int \<Rightarrow> BareMetalMachineSpec \<Rightarrow> ctrl_result bmact \<Rightarrow> bool" where
  "finishes p n port s m \<longleftrightarrow> (\<forall>w x. pool_wf w \<longrightarrow> conn_at w p n port \<longrightarrow> bm_Spec x = s \<longrightarrow>
     (\<exists>w' x'. m (w, x) = (Ok (requeue 0), (w', x')) \<and> conn_at w' p n port))"

lemma finishes_world:
  assumes "gives p n port m v" and "in_session p n port m Q" and "finishes p n port s (k (Inr v))"
  shows "finishes p n port s (attempt (on_world m) k)"
  unfolding finishes_def
proof (intro allI impI)
  fix w and x :: BareMetalMachine assume w: "pool_wf w" "conn_at w p n port" "bm_Spec x = s"
  with assms(1) obtain w1 where m: "m w = (Ok v, w1)" "conn_at w1 p n port" unfolding gives_def by blast
  with in_sessionD(1) [OF assms(2) w(1,2)] have "pool_wf w1" by blast
  with m assms(3) w(3) show "\<exists>w' x'. attempt (on_world m) k (w, x) = (Ok (requeue 0), (w', x')) \<and> conn_at w' p n port"
    unfolding finishes_def by (simp add: attempt_apply on_world_apply)
qed

lemma finishes_mark:
  assumes "finishes p n port s k"
  shows "finishes p n port s (andthen (setMachineCondition E ty status reason severity msg) (\<lambda>_. k))"
  using assms unfolding finishes_def by (simp add: check_apply condition_apply)

lemma finishes_modify: "(\<And>x. bm_Spec (f x) = bm_Spec x) \<Longrightarrow> finishes p n port s k \<Longrightarrow> finishes p n port s (andthen (modify_obj f) (\<lambda>_. k))"
  unfolding finishes_def by (simp add: check_apply modify_obj_apply)

lemma finishes_with: "(\<And>x. bm_Spec x = s \<Longrightarrow> finishes p n port s (k x)) \<Longrightarrow> finishes p n port s (with_obj k)"
  unfolding finishes_def by (simp add: with_obj_apply)

lemma finishes_end: "finishes p n port s (finish_machine ex_round_env)"
  by (auto simp: finishes_def finish_machine_alt ready_tail_def mark_defs check_apply modify_obj_apply condition_apply StatusUpdate_apply Update_apply ret_apply Let_def
      ex_round_env_def quiet_kube_def)

section \<open>The steps on the example\<close>

lemma gives_preflight:
  "\<exists>r. gives p n port (RunPreflightChecks ex_round_env ae p DefaultPreflightConfig) r \<and> pr_Passed r"
proof -
  let ?c = DefaultPreflightConfig and ?E = ex_round_env
  note cmd = gives_attempt [OF gives_round_command]
  have os: "gives p n port (checkOS ?E p ?c r0) (r0\<lparr>pr_OSVersion := ''ubuntu:''\<rparr>)" for r0
    unfolding checkOS_def by (rule cmd [OF round_questions(1)]) (simp add: ex_outs ex_contains ex_fields DefaultPreflightConfig_def)
  have kernel: "gives p n port (checkKernel ?E p ?c r0) (r0\<lparr>pr_KernelVersion := ''5.15''\<rparr>)" for r0
    unfolding checkKernel_def by (rule cmd [OF round_questions(6)]) (simp add: ex_outs ex_numbers DefaultPreflightConfig_def)
  have disk: "gives p n port (checkDisk ?E ae p ?c r0) (r0\<lparr>pr_DiskAvailableGB := 40\<rparr>)" for r0
    unfolding checkDisk_def by (rule cmd [OF round_questions(2)]) (simp add: ex_outs ex_numbers DefaultPreflightConfig_def)
  have mem: "gives p n port (checkMemory ?E ae p ?c r0) (r0\<lparr>pr_MemoryTotalGB := 8\<rparr>)" for r0
    unfolding checkMemory_def by (rule cmd [OF round_questions(3)]) (simp add: ex_outs ex_numbers DefaultPreflightConfig_def)
  have net: "gives p n port (checkNetwork ?E p r0) (r0\<lparr>pr_NetworkReachable := True\<rparr>)" for r0
    unfolding checkNetwork_def by (rule cmd [OF round_questions(4)]) (simp add: ex_outs ex_contains)
  have swap: "gives p n port (checkSwap ?E p r0) (r0\<lparr>pr_SwapEnabled := False\<rparr>)" for r0
    unfolding checkSwap_def by (rule cmd [OF round_questions(5)]) (simp add: ex_outs ex_contains)
  show ?thesis unfolding RunPreflightChecks_def
    by (rule exI, rule conjI, rule gives_check [OF os], rule gives_check [OF kernel], rule gives_check [OF disk], rule gives_check [OF mem],
        rule gives_check [OF net], rule gives_check [OF swap], rule gives_ret) (simp add: zero_PreflightResult_def)
qed

lemma verify_gives: "pool_wf w \<Longrightarrow> conn_at w p n port \<Longrightarrow> \<exists>res w'. VerifyInstallation E p w = (Ok res, w') \<and> pool_wf w' \<and> conn_at w' p n port"
proof -
  assume w: "pool_wf w" "conn_at w p n port"
  obtain r w' where run: "VerifyInstallation E p w = (r, w')" by (metis surj_pair)
  from verify_loop_sound [OF calm_checks w run [unfolded VerifyInstallation_def]] in_sessionD(1,2) [OF in_session_verify w run] run show ?thesis by auto
qed

lemma finishes_verify: "finishes p n port s k \<Longrightarrow> finishes p n port s (verify_step E p k)"
  unfolding finishes_def verify_step_def
proof (intro allI impI)
  fix w and x :: BareMetalMachine assume k: "\<forall>w x. pool_wf w \<longrightarrow> conn_at w p n port \<longrightarrow> bm_Spec x = s \<longrightarrow> (\<exists>w' x'. k (w, x) = (Ok (requeue 0), (w', x')) \<and> conn_at w' p n port)"
    and w: "pool_wf w" "conn_at w p n port" "bm_Spec x = s"
  from verify_gives [OF w(1,2)] obtain res w1 where "VerifyInstallation E p w = (Ok res, w1)" "pool_wf w1" "conn_at w1 p n port" by blast
  with k w(3) show "\<exists>w' x'. attempt (on_world (VerifyInstallation E p)) (\<lambda>_. k) (w, x) = (Ok (requeue 0), (w', x')) \<and> conn_at w' p n port"
    by (simp add: attempt_apply on_world_apply)
qed

lemma ex_bm_spec_simps:
  "bms_NodeBootstrap ex_bm_spec = Some ex_boot" "bms_Firewall ex_bm_spec = None" "bms_SELinux ex_bm_spec = None" "install_config ex_bm_spec = ex_components"
  "bms_ComponentInstall ex_bm_spec = Some ex_components" "bms_IPAddress ex_bm_spec = ''n1''" "bms_SSHPort ex_bm_spec = 22" "bms_ReleaseImageRef ex_bm_spec = None"
  "bms_CredentialsRef ex_bm_spec = Some ''creds''" "bms_HostName ex_bm_spec = ''node-1''" "bms_UseSudo ex_bm_spec = False"
  by (simp_all add: ex_bm_spec_def zero_BareMetalMachineSpec_def install_config_def)

lemma ex_components_simps:
  "cic_Enabled ex_components" "cic_Strategy ex_components \<noteq> Skip" "cic_Strategy ex_components \<noteq> InstallIfMissing"
  "cic_ContainerRuntime ex_components = zero_ContainerRuntimeConfig" "cni_Enabled (cic_CNI ex_components)" "csi_Enabled (cic_CSI ex_components)"
  "cni_Type (cni_defaults (cic_CNI ex_components)) = ''calico''" "cni_Version (cni_defaults (cic_CNI ex_components)) = ''3.26.1''"
  "csi_Driver (csi_defaults (cic_CSI ex_components)) = ''nfs''" "csi_Version (csi_defaults (cic_CSI ex_components)) = []"
  by (simp_all add: ex_components_def AlwaysInstall_def Skip_def InstallIfMissing_def bm_zero_defs cni_defaults_def csi_defaults_def)

lemma no_network_config: "configureFirewall E p ex_bm_spec = ret ()" "configureSELinux E p ex_bm_spec = ret ()"
  by (simp_all add: configureFirewall_def configureSELinux_def fw_Configure_def se_Configure_def ex_bm_spec_simps)

lemma ret_release: "machine_release E ex_bm_spec = ret None"
  by (simp add: machine_release_def ex_bm_spec_simps)

lemma gives_bootstrap: "gives p n port (Bootstrap ex_round_env p (Some ex_boot) ''node-1'') [''hostname'', ''swap'']"
proof -
  note run = gives_run [OF round_obliging]
  have "gives p n port (boot_step True ''hostname'' ''configure hostname'' (configureHostname ex_round_env p ex_boot ''node-1'') []) [''hostname'']"
    unfolding boot_step_def by (simp add: configureHostname_def ex_boot_def gives_check [OF run])
  moreover have "gives p n port (boot_step True ''swap'' ''disable swap'' (disableSwap ex_round_env p) [''hostname'']) [''hostname'', ''swap'']"
    unfolding boot_step_def by (simp add: disableSwap_def gives_check [OF run])
  ultimately show ?thesis
    by (auto simp: Bootstrap_def ex_boot_def boot_step_def [of False] ret_andthen intro!: gives_check)
qed

lemma gives_components: "\<exists>vs. gives p n port (installComponents ex_round_env no_json p v ex_bm_spec) (install_done ''Installation completed successfully'' vs)"
proof -
  let ?i = "choose_installer ex_bm_spec v None"
  have i: "ins_config ?i = Some ex_components" by (simp add: choose_installer_config ex_bm_spec_simps)
  note detect = gives_detect [OF round_obliging round_outs(1)]
  obtain vs where all: "gives p n port (install_all ex_round_env no_json p (Some (component_timeout ex_components)) ?i ex_components
      (ubuntu_os (round_out ''uname -m''))) (install_done ''Installation completed successfully'' vs)"
    using gives_install_all [OF round_obliging ex_components_simps(4) ubuntu_os_type] by blast
  have "gives p n port (Install ex_round_env no_json p ?i) (install_done ''Installation completed successfully'' vs)"
    unfolding Install_def i option.case Let_def
    by (simp only: ex_components_simps(1,2,3) not_True_eq_False if_False, rule gives_check [OF detect], rule all)
  then show ?thesis by (intro exI [of _ vs]) (simp add: installComponents_def ex_bm_spec_simps ex_components_simps ret_release ret_andthen)
qed

lemma calico_version: "image_version (round_out (image_command ''daemonset calico-node'' ''kube-system'')) \<noteq> ''3.26.1''"
  by code_simp

lemma gives_plugins:
  "gives p n port (installCNI ex_round_env p ex_bm_spec) (plugin_ok ''3.26.1'')" "gives p n port (installCSI ex_round_env p ex_bm_spec) (plugin_ok [])"
proof -
  let ?c = "cni_defaults (cic_CNI ex_components)" and ?d = "csi_defaults (cic_CSI ex_components)"
  have "gives p n port (cni_Install ex_round_env p (choose_cni (cic_CNI ex_components) None)) (plugin_ok ''3.26.1'')"
    unfolding cni_Install_def
    using gives_install_plugin [OF round_obliging gives_cni_existing [OF round_obliging ex_components_simps(7)], of "''3.26.1''"] calico_version
    by (simp add: choose_cni_def NewCNI_def ex_components_simps Let_def)
  then show "gives p n port (installCNI ex_round_env p ex_bm_spec) (plugin_ok ''3.26.1'')"
    by (simp add: installCNI_def ex_bm_spec_simps ex_components_simps ret_release ret_andthen)
  have gen: "csi_generateInstallScript ex_round_env ?d = with_vars ex_round_env (local_vars ?d (csi_source ?d)) local_script"
    by (simp add: csi_generateInstallScript_def ex_components_simps)
  have "gives p n port (csi_Install ex_round_env p (choose_csi (cic_CSI ex_components) None)) (plugin_ok [])"
    unfolding csi_Install_def
    using gives_install_plugin [OF round_obliging, of p n port "ret (False, [])" "(False, [])" "[]"]
    by (simp add: choose_csi_def ex_components_simps gen csi_checkExisting_def Let_def)
  then show "gives p n port (installCSI ex_round_env p ex_bm_spec) (plugin_ok [])"
    by (simp add: installCSI_def ex_bm_spec_simps ex_components_simps ret_release ret_andthen)
qed

lemma ret_world: "attempt (on_world (ret v)) k = k (Inr v)"
  by (rule ext) (auto simp: attempt_apply on_world_def ret_apply)

lemma provision_finishes: "finishes p n port ex_bm_spec (provision ex_round_env ae no_json v p)"
proof -
  let ?s = ex_bm_spec and ?E = ex_round_env
  have spec_kept: "bm_Spec (note_cni res x) = bm_Spec x" "bm_Spec (note_csi res x) = bm_Spec x" "bm_Spec (with_components f x) = bm_Spec x" for res x f
    by (simp_all add: note_cni_def note_csi_def with_components_def)
  have plugin: "finishes p n port ?s (plugin_step ?E ty reason install note_version k)"
    if "gives p n port (install ?s) (plugin_ok ver)" "in_session p n port (install ?s) Q" "\<And>res x. bm_Spec (note_version res x) = bm_Spec x" "finishes p n port ?s k"
    for ty reason install note_version ver Q k
    unfolding plugin_step_def mark_defs
    by (rule finishes_with, simp only:, rule finishes_world [OF that(1,2)]) (simp add: that plugin_ok_def finishes_mark finishes_modify)
  obtain vs where vs: "gives p n port (installComponents ?E no_json p v ?s) (install_done ''Installation completed successfully'' vs)" using gives_components by blast
  have components: "finishes p n port ?s (components_step ?E no_json p v k)" if "finishes p n port ?s k" for k
    unfolding components_step_def mark_defs
    by (rule finishes_with, simp only:, rule finishes_world [OF vs in_session_components [OF ex_round_simps(1)]])
       (simp add: that install_done_def finishes_mark finishes_modify spec_kept)
  have network: "finishes p n port ?s (network_step ?E ty reason configure k)" if "configure ?s = ret ()" "finishes p n port ?s k" for ty reason configure k
    unfolding network_step_def mark_defs by (rule finishes_with) (simp add: that ret_world finishes_mark)
  have boot: "finishes p n port ?s (bootstrap_step ?E p k)" if "finishes p n port ?s k" for k
  proof -
    have run: "finishes p n port ?s (attempt (on_world (Bootstrap ?E p (Some ex_boot) ''node-1'')) (\<lambda>r. case r of
          Inl e \<Rightarrow> retry_later ?E NodeBootstrapCondition ''NodeBootstrapFailed'' ''Error'' (error_string e) (60 * second)
        | Inr steps \<Rightarrow> andthen (setMachineCondition ?E NodeBootstrapCondition ''True'' [] ''Info'' []) (\<lambda>_. k)))"
      by (rule finishes_world [OF gives_bootstrap bootstrap_session [OF ex_round_simps(1)]]) (simp add: that finishes_mark)
    have nb: "nbc_Enabled ex_boot" "boot_hostname ?s ex_boot = ''node-1''" by (simp_all add: ex_boot_def boot_hostname_def ex_bm_spec_simps)
    show ?thesis unfolding bootstrap_step_def mark_defs
      by (rule finishes_with) (simp only: ex_bm_spec_simps option.case nb not_True_eq_False if_False, rule run)
  qed
  obtain r where r: "gives p n port (RunPreflightChecks ?E ae p DefaultPreflightConfig) r" "pr_Passed r" using gives_preflight by blast
  have preflight: "finishes p n port ?s (preflight_step ?E ae p k)" if "finishes p n port ?s k" for k
    unfolding preflight_step_def check_def mark_defs
    by (rule finishes_world [OF r(1) in_session_preflight]) (use r(2) finishes_mark [OF that, unfolded check_def] in simp)
  show ?thesis unfolding provision_def markMachineConditionTrue_def
    by (intro finishes_mark preflight boot network components plugin [where install = "installCNI ?E p", OF gives_plugins(1) in_session_plugins(1) [OF ex_round_simps(1)]]
        plugin [where install = "installCSI ?E p", OF gives_plugins(2) in_session_plugins(2) [OF ex_round_simps(1)]]
        finishes_verify finishes_end no_network_config spec_kept)
qed

section \<open>The round\<close>

lemma ex_round_reads:
  "k_update_bmmachine (kube ex_round_env) l m = Inr m" "k_get_bmcluster (kube ex_round_env) l ns n = Inr ready_cluster"
  "k_get_secret (kube ex_round_env) l ns n = Inr [(''username'', ''root''), (''password'', ''secret'')]" "bct_Ready (bmc_Status ready_cluster)"
  by (simp_all add: ex_round_env_def quiet_kube_def ready_cluster_def)

lemma ex_bm_machine_simps:
  "bm_Spec ex_bm_machine = ex_bm_spec" "label_of (m_Labels (AddFinalizer MachineFinalizer (bm_Meta ex_bm_machine))) ClusterNameLabel = ''c1''"
  by (simp_all add: ex_bm_machine_def AddFinalizer_def label_of_def)

lemma ex_connect: "\<exists>w'. Connect ex_round_env (NewSSHManager 0) ''n1'' 22 creds (empty_world\<lparr>w_log := l\<rparr>) = (Ok 0, w') \<and> pool_wf w' \<and> conn_at w' 0 ''n1'' 22"
proof -
  obtain w' where run: "Connect ex_round_env (NewSSHManager 0) ''n1'' 22 creds (empty_world\<lparr>w_log := l\<rparr>) = (Ok 0, w')"
    by (simp add: Connect_def pooled_def dial_new_def act_simps state_defs query_def command_def time_Now_def quiet_defs NewSSHManager_def
        ex_round_env_def)
  have "pool_wf (empty_world\<lparr>w_log := l\<rparr>)" by (simp add: pool_wf_def pool_inv_def empty_world_def)
  with run hoareD [OF hoare_Connect [of l] _ run] show ?thesis by auto
qed

lemma provisioned_end:
  assumes "provisioned E ae v s m l0 l1"
  shows "machine_ready s m \<and> EvStatusUpdate (KBareMetalMachine m) \<in> set l1"
  using assms by (auto simp: provisioned_def stepped_def stored_ready_def Let_def)

lemma spec_fields:
  "bms_NodeBootstrap (s\<lparr>bms_ProviderID := p\<rparr>) = bms_NodeBootstrap s" "bms_ComponentInstall (s\<lparr>bms_ProviderID := p\<rparr>) = bms_ComponentInstall s"
  by simp_all

lemma ex_round_runs:
  "\<exists>w' m' x. bmr_reconcileNormal ex_round_env (NewSSHManager 0) ae no_json machine (empty_world, ex_bm_machine) = (Ok (requeue 0), (w', m'))
    \<and> EvStatusUpdate (KBareMetalMachine x) \<in> set (w_log w') \<and> machine_ready ex_bm_spec m'"
proof -
  define m where "m = ex_bm_machine\<lparr>bm_Meta := AddFinalizer MachineFinalizer (bm_Meta ex_bm_machine)\<rparr>"
  define l where "l = [EvUpdate (KBareMetalMachine m), EvGet ''BareMetalCluster'' (m_Namespace (bm_Meta m)) ''c1'', EvGet ''Secret'' (m_Namespace (bm_Meta m)) ''creds'']"
  have m: "bm_Spec m = ex_bm_spec" "label_of (m_Labels (bm_Meta m)) ClusterNameLabel = ''c1''" by (simp_all add: m_def ex_bm_machine_simps)
  from ex_connect [of ex_creds l] obtain w1 where con: "Connect ex_round_env (NewSSHManager 0) ''n1'' 22 ex_creds (empty_world\<lparr>w_log := l\<rparr>) = (Ok 0, w1)"
    "pool_wf w1" "conn_at w1 0 ''n1'' 22" by blast
  let ?prov = "provision ex_round_env ae no_json (extractK8sVersion (Some machine))"
  from provision_finishes con(2,3) m(1) obtain w2 m2 where prov: "?prov 0 (w1, m) = (Ok (requeue 0), (w2, m2))" "conn_at w2 0 ''n1'' 22"
    unfolding finishes_def by blast
  from provisionsD(1,4) [OF provision_correct [OF ex_round_simps] con(2) _ m(1) prov(1)] con(3) have ready: "pool_wf w2" "machine_ready ex_bm_spec m2"
    "EvStatusUpdate (KBareMetalMachine m2) \<in> set (w_log w2)" by (auto simp: ex_bm_spec_simps dest: provisioned_end)
  obtain w3 where cl: "Close (Some 0) w2 = (Ok (), w3)"
    using prov(2) by (auto simp: Close_def act_simps deref_def conn_at_def query_def state_defs)
  from hoareD [OF hoare_Close [of "''n1''" "w_log w2" 0 22] _ cl] ready(1) prov(2) have "prefix (w_log w2) (w_log w3)" by (auto dest: grew_prefix)
  with ready(3) have stored: "EvStatusUpdate (KBareMetalMachine m2) \<in> set (w_log w3)" by (auto simp: prefix_def)
  have creds: "getCredentials ex_round_env m (empty_world\<lparr>w_log := take 2 l\<rparr>) = (Ok ex_creds, empty_world\<lparr>w_log := l\<rparr>)"
    by (simp add: getCredentials_def m ex_bm_spec_simps credentials_of_def query_def act_simps ex_round_reads ex_creds_def l_def)
  have "connect_step ex_round_env (NewSSHManager 0) ?prov (empty_world\<lparr>w_log := take 2 l\<rparr>, m) = (Ok (requeue 0), (w3, m2))"
    by (simp add: connect_step_def m ex_bm_spec_simps act_simps creds con(1) prov(1) cl)
  then have "host_step ex_round_env (connect_step ex_round_env (NewSSHManager 0) ?prov) (empty_world\<lparr>w_log := take 2 l\<rparr>, m) = (Ok (requeue 0), (w3, m2))"
    by (simp add: host_step_def with_obj_apply m ex_bm_spec_simps)
  moreover have "getBareMetalCluster ex_round_env m (empty_world\<lparr>w_log := [EvUpdate (KBareMetalMachine m)]\<rparr>) = (Ok (Some ready_cluster), empty_world\<lparr>w_log := take 2 l\<rparr>)"
    by (simp add: getBareMetalCluster_def Let_def m act_simps query_def ex_round_reads l_def)
  moreover have "w_log empty_world = []" by (simp add: empty_world_def)
  ultimately have "bmr_reconcileNormal ex_round_env (NewSSHManager 0) ae no_json machine (empty_world, ex_bm_machine) = (Ok (requeue 0), (w3, m2))"
    by (simp add: bmr_reconcileNormal_def check_apply modify_obj_apply Update_apply ex_round_reads attempt_apply with_obj_apply on_world_apply flip: m_def)
  with stored ready(2) show ?thesis by blast
qed


section \<open>The order of the writes\<close>

definition forgetful_env :: env where
  "forgetful_env = quiet_env\<lparr>kube := quiet_kube\<lparr>k_update_bmmachine := (\<lambda>l m. Inr (m\<lparr>bm_Status := bm_Status zero_BareMetalMachine\<rparr>))\<rparr>\<rparr>"

definition found_kubelet :: BareMetalMachine where
  "found_kubelet = with_components (\<lambda>v. v\<lparr>cvr_Kubelet := ''v1.30.0''\<rparr>) ex_bm_machine"

theorem first_round_witness:
  "\<exists>w' m'. finish_machine forgetful_env (empty_world, found_kubelet) = (Ok (requeue 0), (w', m'))
    \<and> cvr_Kubelet (bmt_InstalledComponents (bm_Status found_kubelet)) = ''v1.30.0'' \<and> cvr_Kubelet (bmt_InstalledComponents (bm_Status m')) = []"
proof -
  have pid: "bms_ProviderID (bm_Spec found_kubelet) \<noteq> Some (provider_id (bm_Spec found_kubelet))"
    by (simp add: found_kubelet_def with_components_def ex_bm_machine_def ex_bm_spec_def zero_BareMetalMachineSpec_def)
  then obtain w' m' where run: "finish_machine forgetful_env (empty_world, found_kubelet) = (Ok (requeue 0), (w', m'))"
    by (simp add: finish_machine_alt ready_tail_def mark_defs check_apply modify_obj_apply condition_apply StatusUpdate_apply Update_apply ret_apply Let_def
        forgetful_env_def quiet_kube_def)
  have stored: "spec_stored forgetful_env" by (simp add: spec_stored_def forgetful_env_def)
  have "bm_Status x' = bm_Status zero_BareMetalMachine" if "k_update_bmmachine (kube forgetful_env) l x = Inr x'" for l x x'
    using that by (auto simp: forgetful_env_def)
  from first_round_loses_components [OF pid stored this run] run show ?thesis
    by (simp add: found_kubelet_def with_components_def zero_BareMetalMachine_def zero_InstalledVersions_def)
qed

definition renamed_host :: HostEntry where
  "renamed_host = zero_HostEntry\<lparr>he_Name := ''rack-1'', he_HostName := ''node-1''\<rparr>"

definition renamed_env :: env where
  "renamed_env = quiet_env\<lparr>kube := quiet_kube\<lparr>k_get_inventory := (\<lambda>l ns n. Inr (zero_Inventory\<lparr>inv_Spec := \<lparr>his_Hosts = [renamed_host]\<rparr>\<rparr>))\<rparr>\<rparr>"

definition inventory_machine :: BareMetalMachine where
  "inventory_machine = zero_BareMetalMachine\<lparr>bm_Spec := zero_BareMetalMachineSpec\<lparr>bms_HostInventoryRef := Some ''iv''\<rparr>\<rparr>"

theorem renamed_host_witness:
  "\<exists>w'. releaseHostToInventory renamed_env (take_host renamed_host inventory_machine) empty_world = (Ok (), w')
    \<and> \<not> holds_host ''rack-1'' (take_host renamed_host inventory_machine)"
proof -
  have h: "he_Name renamed_host \<noteq> he_HostName renamed_host" "he_Name renamed_host = ''rack-1''" by (simp_all add: renamed_host_def)
  have "bms_HostInventoryRef (bm_Spec inventory_machine) = Some ''iv''" by (simp add: inventory_machine_def)
  moreover have "k_get_inventory (kube renamed_env) l ns n = Inr (zero_Inventory\<lparr>inv_Spec := \<lparr>his_Hosts = [renamed_host]\<rparr>\<rparr>)" for l ns n
    by (simp add: renamed_env_def)
  moreover have "\<forall>e\<in>set (inv_hosts (zero_Inventory\<lparr>inv_Spec := \<lparr>his_Hosts = [renamed_host]\<rparr>\<rparr>)). he_Name e \<noteq> he_HostName renamed_host"
    using h by simp
  ultimately show ?thesis using renamed_host_not_released [OF h(1)] h(2) by metis
qed

theorem deletion_witness:
  "\<exists>w' m' l x. bmr_reconcileDelete quiet_env (empty_world, ex_bm_machine) = (Ok (requeue 0), (w', m'))
    \<and> w_log w' = l @ [EvUpdate (KBareMetalMachine x)] \<and> MachineFinalizer \<notin> set (m_Finalizers (bm_Meta x))"
proof -
  have "bms_HostInventoryRef ex_bm_spec = None" by (simp add: ex_bm_spec_def zero_BareMetalMachineSpec_def)
  then obtain w' m' where run: "bmr_reconcileDelete quiet_env (empty_world, ex_bm_machine) = (Ok (requeue 0), (w', m'))"
    by (simp add: bmr_reconcileDelete_def check_apply with_obj_apply when_act_def ret_apply modify_obj_apply Update_apply ex_bm_machine_simps quiet_env_def quiet_kube_def)
  from run deletion_removes_finalizer [OF run] show ?thesis by blast
qed

end
