(* ===== verification/Bm_Jobs.thy ===== *)
theory Bm_Jobs
  imports Image_Import Cluster_Addon Bm_Inventory "HOL-Library.AList"
begin

text \<open>
  Installation of components by jobs, \<open>modules/capbm/internal/helm\<close> and \<open>modules/capbm/internal/component\<close>: the jobs and
  their scripts, byte for byte, and the tracker of component states that reads and writes a
  ConfigMap. The two packages have their own copies of the Helm scripts; both are here. \<open>title\<close> is the
  title case of a word, from \<open>golang.org/x/text\<close>.
\<close>

section \<open>Definitions\<close>

definition LabelComponent :: string where "LabelComponent = ''capbm.capbm.io/component''"
definition LabelVersion :: string where "LabelVersion = ''capbm.capbm.io/version''"
definition LabelType :: string where "LabelType = ''capbm.capbm.io/type''"
definition LabelAction :: string where "LabelAction = ''capbm.capbm.io/action''"
definition StatusConfigMapName :: string where "StatusConfigMapName = ''capbm-component-status''"

record HelmComponent =
  jc_Name :: string
  jc_Version :: string
  jc_Path :: string
  jc_Namespace :: string
  jc_ImageList :: "string list"
  jc_HelmValues :: labels

record Component = HelmComponent +
  jc_Type :: string
  jc_ManifestFiles :: "string list"

record JobInstaller =
  jin_releaseServer :: string
  jin_namespace :: string

definition NewJobInstaller :: "string \<Rightarrow> string \<Rightarrow> JobInstaller" where
  "NewJobInstaller releaseServer ns = \<lparr>jin_releaseServer = TrimRight releaseServer CHR ''/'', jin_namespace = ns\<rparr>"

subsection \<open>Helm\<close>

definition image_load_text :: "string \<Rightarrow> string" where
  \<open>image_load_text images = script_lines [
    [],
    ''          # Load container images (offline mode)'',
    ''          if [ "${INSTALL_SOURCE}" != "online" ]; then'',
    ''            echo "Loading images for $COMPONENT..."'',
    ''            IMAGE_PATH="${RELEASE_SERVER}/images/${COMPONENT}/${VERSION}"'',
    ''            for image_tar in '' @ images @ ''; do'',
    ''              curl -fsSL "${IMAGE_PATH}/${image_tar}" -o "/tmp/${image_tar}"'',
    ''              ctr -n k8s.io images import "/tmp/${image_tar}"'',
    ''              rm -f "/tmp/${image_tar}"'',
    ''            done''] @ ''          fi''\<close>

definition status_text :: "string \<Rightarrow> string \<Rightarrow> string \<Rightarrow> string" where
  \<open>status_text ns name action = script_lines [
    [],
    ''          # Update status ConfigMap'',
    ''          kubectl patch configmap '' @ ''capbm-component-status'' @ '' -n '' @ ns @ '' '' @ backslash,
    ''            --type merge '' @ backslash] @ ''            -p '' @ [CHR 0x27] @ ''{"data":{"'' @ name @ ''":"version: ${VERSION}'' @ backslash @ ''nstatus: installed'' @ backslash @ ''ninstalledAt: $(date -u +%Y-%m-%dT%H:%M:%SZ)'' @ backslash @ ''njobName: '' @ action @ ''-${COMPONENT}"}}'' @ [CHR 0x27]\<close>

definition helm_text where
  \<open>helm_text name version ns path headline images action values status = script_lines [
    ''#!/bin/sh'',
    ''set -euo pipefail'',
    [],
    ''COMPONENT="'' @ name @ ''"'',
    ''VERSION="'' @ version @ ''"'',
    ''RELEASE_SERVER="${RELEASE_SERVER}"'',
    ''NAMESPACE="'' @ ns @ ''"'',
    ''COMPONENT_PATH="'' @ path @ ''"'',
    ''INSTALL_SOURCE="${INSTALL_SOURCE:-online}"'',
    [],
    ''echo "=== '' @ headline @ '' $COMPONENT v$VERSION ==="'',
    [],
    ''# 1. Download chart package'',
    ''CHART_URL="${RELEASE_SERVER}/${COMPONENT_PATH}/${VERSION}/${COMPONENT}.tgz"'',
    ''CHART_PATH="/tmp/${COMPONENT}.tgz"'',
    ''curl -fsSL "$CHART_URL" -o "$CHART_PATH"'',
    images,
    ''# 2. Install/Upgrade component'',
    ''echo "Installing $COMPONENT via Helm..."'',
    ''helm '' @ action @ '' "$COMPONENT" "$CHART_PATH" '' @ backslash,
    ''  --namespace "$NAMESPACE" '' @ backslash,
    ''  --create-namespace '' @ backslash,
    ''  --wait '' @ backslash,
    ''  --timeout=300s'' @ values,
    [],
    ''echo "=== $COMPONENT v$VERSION installed successfully ==="'',
    status]\<close>

text \<open>The \<open>--set\<close> arguments, for the order in which the map is ranged over.\<close>

definition values_args :: "labels \<Rightarrow> string list \<Rightarrow> string" where
  "values_args vals keys = concat (map (\<lambda>k. '' --set '' @ k @ ''='' @ label_of vals k) keys)"

definition buildInstallScript :: "(string \<Rightarrow> string) \<Rightarrow> JobInstaller \<Rightarrow> 'a HelmComponent_scheme \<Rightarrow> string \<Rightarrow> string list \<Rightarrow> string" where
  "buildInstallScript title i c action keys =
     helm_text (jc_Name c) (jc_Version c) (jin_namespace i) (jc_Path c) (title action)
       (if jc_ImageList c \<noteq> [] then image_load_text (join_with '' '' (jc_ImageList c)) else []) action (values_args (jc_HelmValues c) keys)
       (status_text (jin_namespace i) (jc_Name c) action)"

definition job_env :: "JobInstaller \<Rightarrow> (string \<times> string) list" where
  "job_env i = [(''RELEASE_SERVER'', jin_releaseServer i)]"

definition job_labels :: "'a HelmComponent_scheme \<Rightarrow> string \<Rightarrow> string \<Rightarrow> labels" where
  "job_labels c ty action = [(LabelComponent, jc_Name c), (LabelVersion, jc_Version c), (LabelType, ty), (LabelAction, action)]"

definition job_frame :: "JobInstaller \<Rightarrow> 'a HelmComponent_scheme \<Rightarrow> string \<Rightarrow> string \<Rightarrow> string \<Rightarrow> string \<Rightarrow> string \<Rightarrow> string \<Rightarrow> component_job" where
  "job_frame i c ty action account container img script =
     \<lparr>cj_Name = action @ ''-'' @ jc_Name c, cj_Namespace = jin_namespace i, cj_Labels = job_labels c ty action, cj_BackoffLimit = 3,
      cj_ActiveDeadlineSeconds = 600, cj_PodLabels = [(LabelComponent, jc_Name c), (LabelVersion, jc_Version c)], cj_ServiceAccount = account,
      cj_Container = container, cj_Image = img, cj_Command = [''sh'', ''-c'', script], cj_Env = job_env i, cj_RestartPolicy = ''Never'',
      cj_Tolerations = [(''node-role.kubernetes.io/control-plane'', ''Exists'', ''NoSchedule'')]\<rparr>"

definition buildInstallJob :: "(string \<Rightarrow> string) \<Rightarrow> JobInstaller \<Rightarrow> 'a HelmComponent_scheme \<Rightarrow> string list \<Rightarrow> component_job" where
  "buildInstallJob title i c keys =
     job_frame i c ''helm-install'' ''install'' ''capbm-helm'' ''helm'' ''alpine/helm:3.15.0'' (buildInstallScript title i c ''install'' keys)"

definition buildUpgradeJob_helm :: "(string \<Rightarrow> string) \<Rightarrow> JobInstaller \<Rightarrow> 'a HelmComponent_scheme \<Rightarrow> string list \<Rightarrow> component_job" where
  "buildUpgradeJob_helm title i c keys =
     job_frame i c ''helm-upgrade'' ''upgrade'' ''capbm-helm'' ''helm'' ''alpine/helm:3.15.0'' (buildInstallScript title i c ''upgrade'' keys)"

definition create_component_job :: "env \<Rightarrow> component_job \<Rightarrow> unit cact" where
  "create_component_job E j = api_write E (EvCreate (KComponentJob j))"

text \<open>
  The start of both \<open>InstallComponent\<close>: a job for the same version is left alone, one for another version is
  deleted, and any error in reading the job counts as absence.
\<close>

definition replace_job :: "env \<Rightarrow> JobInstaller \<Rightarrow> 'a HelmComponent_scheme \<Rightarrow> unit cact \<Rightarrow> unit cact" where
  "replace_job E i c create =
     attempt (Get_job E (jin_namespace i) (''install-'' @ jc_Name c)) (\<lambda>r. case r of
       Inl e \<Rightarrow> create
     | Inr js \<Rightarrow> if label_of (js_Labels js) LabelVersion = jc_Version c then ret ()
         else check (api_write E (EvDelete ''Job'' (jin_namespace i) (''install-'' @ jc_Name c))) (wrap ''failed to delete old job: '') (\<lambda>_. create))"

definition helm_InstallComponent :: "env \<Rightarrow> (string \<Rightarrow> string) \<Rightarrow> JobInstaller \<Rightarrow> 'a HelmComponent_scheme \<Rightarrow> unit cact" where
  "helm_InstallComponent E title i c = replace_job E i c
     (andthen (range_map E (map fst (jc_HelmValues c))) (\<lambda>keys. create_component_job E (buildInstallJob title i c keys)))"

definition helm_UpgradeComponent :: "env \<Rightarrow> (string \<Rightarrow> string) \<Rightarrow> JobInstaller \<Rightarrow> 'a HelmComponent_scheme \<Rightarrow> unit cact" where
  "helm_UpgradeComponent E title i c =
     andthen (range_map E (map fst (jc_HelmValues c))) (\<lambda>keys. create_component_job E (buildUpgradeJob_helm title i c keys))"

subsection \<open>Components\<close>

definition comp_image_load_text :: "string \<Rightarrow> string" where
  \<open>comp_image_load_text images = script_lines [
    [],
    ''          # Load container images (offline mode)'',
    ''          if [ "${INSTALL_SOURCE}" != "online" ]; then'',
    ''            echo "Loading images for $COMPONENT..."'',
    ''            IMAGE_PATH="${RELEASE_SERVER}/images/${COMPONENT}/${VERSION}"'',
    ''            for image_tar in '' @ images @ ''; do'',
    ''              curl -fsSL "${IMAGE_PATH}/${image_tar}" -o "/tmp/${image_tar}"'',
    ''              ctr -n k8s.io images import "/tmp/${image_tar}"'',
    ''              rm -f "/tmp/${image_tar}"'',
    ''            done''] @ ''          fi''\<close>

definition comp_status_text :: "string \<Rightarrow> string \<Rightarrow> string \<Rightarrow> string" where
  \<open>comp_status_text ns name action = script_lines [
    [],
    ''          # Update status ConfigMap'',
    ''          kubectl patch configmap '' @ ''capbm-component-status'' @ '' -n '' @ ns @ '' '' @ backslash,
    ''            --type merge '' @ backslash] @ ''            -p '' @ [CHR 0x27] @ ''{"data":{"'' @ name @ ''":"version: ${VERSION}'' @ backslash @ ''nstatus: installed'' @ backslash @ ''ninstalledAt: $(date -u +%Y-%m-%dT%H:%M:%SZ)'' @ backslash @ ''njobName: '' @ action @ ''-${COMPONENT}"}}'' @ [CHR 0x27]\<close>

definition comp_helm_text where
  \<open>comp_helm_text name version ns path headline images action values status = script_lines [
    ''#!/bin/sh'',
    ''set -euo pipefail'',
    [],
    ''COMPONENT="'' @ name @ ''"'',
    ''VERSION="'' @ version @ ''"'',
    ''RELEASE_SERVER="${RELEASE_SERVER}"'',
    ''NAMESPACE="'' @ ns @ ''"'',
    ''COMPONENT_PATH="'' @ path @ ''"'',
    ''INSTALL_SOURCE="${INSTALL_SOURCE:-online}"'',
    [],
    ''echo "=== '' @ headline @ '' $COMPONENT v$VERSION ==="'',
    [],
    ''# 1. Download chart package'',
    ''CHART_URL="${RELEASE_SERVER}/${COMPONENT_PATH}/${VERSION}/${COMPONENT}.tgz"'',
    ''CHART_PATH="/tmp/${COMPONENT}.tgz"'',
    ''curl -fsSL "$CHART_URL" -o "$CHART_PATH"'',
    images,
    ''# 2. Install/Upgrade component'',
    ''echo "Installing $COMPONENT via Helm..."'',
    ''helm '' @ action @ '' "$COMPONENT" "$CHART_PATH" '' @ backslash,
    ''  --namespace "$NAMESPACE" '' @ backslash,
    ''  --create-namespace '' @ backslash,
    ''  --wait '' @ backslash,
    ''  --timeout=300s'' @ values,
    [],
    ''echo "=== $COMPONENT v$VERSION installed successfully ==="'',
    status]\<close>

definition buildHelmScript :: "(string \<Rightarrow> string) \<Rightarrow> JobInstaller \<Rightarrow> Component \<Rightarrow> string \<Rightarrow> string list \<Rightarrow> string" where
  "buildHelmScript title i c action keys =
     comp_helm_text (jc_Name c) (jc_Version c) (jin_namespace i) (jc_Path c) (title action)
       (if jc_ImageList c \<noteq> [] then comp_image_load_text (join_with '' '' (jc_ImageList c)) else []) action (values_args (jc_HelmValues c) keys)
       (comp_status_text (jin_namespace i) (jc_Name c) action)"

definition apply_text :: "string \<Rightarrow> string" where
  \<open>apply_text file = script_lines [
    [],
    ''          echo "Applying '' @ file @ ''..."'',
    ''          kubectl apply -f "/tmp/'' @ file @ ''"'']\<close>

definition manifest_image_load_text :: "string \<Rightarrow> string" where
  \<open>manifest_image_load_text images = script_lines [
    [],
    ''          # Load container images (offline mode)'',
    ''          if [ "${INSTALL_SOURCE}" != "online" ]; then'',
    ''            echo "Loading images for $COMPONENT..."'',
    ''            IMAGE_PATH="${RELEASE_SERVER}/images/${COMPONENT}/${VERSION}"'',
    ''            for image_tar in '' @ images @ ''; do'',
    ''              curl -fsSL "${IMAGE_PATH}/${image_tar}" -o "/tmp/${image_tar}"'',
    ''              ctr -n k8s.io images import "/tmp/${image_tar}"'',
    ''              rm -f "/tmp/${image_tar}"'',
    ''            done''] @ ''          fi''\<close>

definition download_text :: "string \<Rightarrow> string" where
  \<open>download_text file = script_lines [
    [],
    ''          echo "Downloading '' @ file @ ''..."'',
    ''          curl -fsSL "${RELEASE_SERVER}/${COMPONENT_PATH}/${VERSION}/'' @ file @ ''" -o "/tmp/'' @ file @ ''"'']\<close>

definition manifest_status_text :: "string \<Rightarrow> string \<Rightarrow> string \<Rightarrow> string" where
  \<open>manifest_status_text ns name action = script_lines [
    [],
    ''          # Update status ConfigMap'',
    ''          kubectl patch configmap '' @ ''capbm-component-status'' @ '' -n '' @ ns @ '' '' @ backslash,
    ''            --type merge '' @ backslash] @ ''            -p '' @ [CHR 0x27] @ ''{"data":{"'' @ name @ ''":"version: ${VERSION}'' @ backslash @ ''nstatus: installed'' @ backslash @ ''ninstalledAt: $(date -u +%Y-%m-%dT%H:%M:%SZ)'' @ backslash @ ''njobName: '' @ action @ ''-${COMPONENT}"}}'' @ [CHR 0x27]\<close>

definition manifest_text where
  \<open>manifest_text name version ns path headline downloads images commands status = script_lines [
    ''#!/bin/sh'',
    ''set -euo pipefail'',
    [],
    ''COMPONENT="'' @ name @ ''"'',
    ''VERSION="'' @ version @ ''"'',
    ''RELEASE_SERVER="${RELEASE_SERVER}"'',
    ''NAMESPACE="'' @ ns @ ''"'',
    ''COMPONENT_PATH="'' @ path @ ''"'',
    ''INSTALL_SOURCE="${INSTALL_SOURCE:-online}"'',
    [],
    ''echo "=== '' @ headline @ '' $COMPONENT v$VERSION ==="'',
    [],
    ''# 1. Download manifests'',
    downloads,
    images,
    ''# 2. Apply manifests'',
    ''echo "Applying $COMPONENT manifests..."'',
    commands,
    ''echo "=== $COMPONENT v$VERSION installed successfully ==="'',
    status]\<close>

definition buildManifestScript :: "(string \<Rightarrow> string) \<Rightarrow> JobInstaller \<Rightarrow> Component \<Rightarrow> string \<Rightarrow> string" where
  "buildManifestScript title i c action =
     manifest_text (jc_Name c) (jc_Version c) (jin_namespace i) (jc_Path c) (title action) (concat (map download_text (jc_ManifestFiles c)))
       (if jc_ImageList c \<noteq> [] then manifest_image_load_text (join_with '' '' (jc_ImageList c)) else []) (concat (map apply_text (jc_ManifestFiles c)))
       (manifest_status_text (jin_namespace i) (jc_Name c) action)"

definition buildHelmInstallJob :: "(string \<Rightarrow> string) \<Rightarrow> JobInstaller \<Rightarrow> Component \<Rightarrow> string list \<Rightarrow> component_job" where
  "buildHelmInstallJob title i c keys =
     job_frame i c ''helm-install'' ''install'' ''capbm-helm'' ''helm'' ''alpine/helm:3.15.0'' (buildHelmScript title i c ''install'' keys)"

definition buildHelmUpgradeJob :: "(string \<Rightarrow> string) \<Rightarrow> JobInstaller \<Rightarrow> Component \<Rightarrow> string list \<Rightarrow> component_job" where
  "buildHelmUpgradeJob title i c keys =
     job_frame i c ''helm-upgrade'' ''upgrade'' ''capbm-helm'' ''helm'' ''alpine/helm:3.15.0'' (buildHelmScript title i c ''upgrade'' keys)"

definition buildManifestInstallJob :: "(string \<Rightarrow> string) \<Rightarrow> JobInstaller \<Rightarrow> Component \<Rightarrow> component_job" where
  "buildManifestInstallJob title i c =
     job_frame i c ''manifest-install'' ''install'' ''capbm-manifest'' ''kubectl'' ''bitnami/kubectl:1.31.0'' (buildManifestScript title i c ''install'')"

definition buildManifestUpgradeJob :: "(string \<Rightarrow> string) \<Rightarrow> JobInstaller \<Rightarrow> Component \<Rightarrow> component_job" where
  "buildManifestUpgradeJob title i c =
     job_frame i c ''manifest-upgrade'' ''upgrade'' ''capbm-manifest'' ''kubectl'' ''bitnami/kubectl:1.31.0'' (buildManifestScript title i c ''upgrade'')"

text \<open>The job by the type of the component.\<close>

definition create_by_type :: "env \<Rightarrow> Component \<Rightarrow> (string list \<Rightarrow> component_job) \<Rightarrow> component_job \<Rightarrow> unit cact" where
  "create_by_type E c helm_job manifest_job =
     (if jc_Type c = ''helm'' then andthen (range_map E (map fst (jc_HelmValues c))) (\<lambda>keys. create_component_job E (helm_job keys))
      else if jc_Type c = ''manifest'' then create_component_job E manifest_job
      else fail (Errorf (''unsupported component type: '' @ jc_Type c)))"

definition comp_InstallComponent :: "env \<Rightarrow> (string \<Rightarrow> string) \<Rightarrow> JobInstaller \<Rightarrow> Component \<Rightarrow> unit cact" where
  "comp_InstallComponent E title i c =
     replace_job E i c (create_by_type E c (buildHelmInstallJob title i c) (buildManifestInstallJob title i c))"

definition comp_UpgradeComponent :: "env \<Rightarrow> (string \<Rightarrow> string) \<Rightarrow> JobInstaller \<Rightarrow> Component \<Rightarrow> unit cact" where
  "comp_UpgradeComponent E title i c = create_by_type E c (buildHelmUpgradeJob title i c) (buildManifestUpgradeJob title i c)"

subsection \<open>Status\<close>

record HelmStatus =
  hs_Version :: string
  hs_Status :: string
  hs_JobName :: string
  hs_Message :: string

definition zero_HelmStatus :: HelmStatus where
  "zero_HelmStatus = \<lparr>hs_Version = [], hs_Status = [], hs_JobName = [], hs_Message = []\<rparr>"

text \<open>\<open>strings.SplitN(line, ": ", 2)\<close> when there is a separator.\<close>

fun cut_colon :: "string \<Rightarrow> (string \<times> string) option" where
  "cut_colon (c # d # s) = (if c = CHR '':'' \<and> d = CHR '' '' then Some ([], s)
     else (case cut_colon (d # s) of None \<Rightarrow> None | Some (a, b) \<Rightarrow> Some (c # a, b)))"
| "cut_colon s = None"

definition set_field :: "string \<Rightarrow> string \<Rightarrow> HelmStatus \<Rightarrow> HelmStatus" where
  "set_field key val st =
     (if key = ''version'' then st\<lparr>hs_Version := val\<rparr> else if key = ''status'' then st\<lparr>hs_Status := val\<rparr>
      else if key = ''jobName'' then st\<lparr>hs_JobName := val\<rparr> else if key = ''message'' then st\<lparr>hs_Message := val\<rparr> else st)"

definition parse_line :: "string \<Rightarrow> HelmStatus \<Rightarrow> HelmStatus" where
  "parse_line line st = (case cut_colon line of None \<Rightarrow> st | Some (k, v) \<Rightarrow> set_field (TrimSpace k) (TrimSpace v) st)"

definition parseComponentStatus :: "string \<Rightarrow> error + HelmStatus" where
  "parseComponentStatus data =
     (let st = fold parse_line (split_on CHR 0x0A data) zero_HelmStatus in
      if hs_Status st = [] then Inl (Errorf ''invalid status data: missing status field'') else Inr st)"

definition status_lines :: "HelmStatus \<Rightarrow> string" where
  "status_lines st = ''version: '' @ hs_Version st @ [CHR 0x0A] @ ''status: '' @ hs_Status st @ [CHR 0x0A] @ ''jobName: '' @ hs_JobName st
     @ (if hs_Message st \<noteq> [] then [CHR 0x0A] @ ''message: '' @ hs_Message st else [])"

definition getJobStatus :: "string \<times> job_state \<Rightarrow> HelmStatus" where
  "getJobStatus j = (case j of (name, js) \<Rightarrow>
     (let st = zero_HelmStatus\<lparr>hs_Version := label_of (js_Labels js) LabelVersion, hs_JobName := name\<rparr> in
      if js_Succeeded js > 0 then st\<lparr>hs_Status := ''installed''\<rparr>
      else if js_Failed js > 0 then st\<lparr>hs_Status := ''failed'', hs_Message := (case js_Conditions js of [] \<Rightarrow> [] | (_, _, msg) # _ \<Rightarrow> msg)\<rparr>
      else st\<lparr>hs_Status := ''installing''\<rparr>))"

definition cm_entries :: "config_map \<Rightarrow> (string \<times> string) list" where
  "cm_entries cm = (case cm_Data cm of None \<Rightarrow> [] | Some d \<Rightarrow> d)"

definition GetComponentStatus :: "env \<Rightarrow> string \<Rightarrow> string \<Rightarrow> HelmStatus cact" where
  "GetComponentStatus E ns name =
     attempt (Get_configmap E ns StatusConfigMapName) (\<lambda>r.
       case (case r of Inl e \<Rightarrow> None | Inr cm \<Rightarrow> map_of (cm_entries cm) name) of
         Some data \<Rightarrow> (case parseComponentStatus data of Inl e \<Rightarrow> fail e | Inr st \<Rightarrow> ret st)
       | None \<Rightarrow> attempt (List_jobs E ns [(LabelComponent, name)]) (\<lambda>r. ret (case r of
             Inl e \<Rightarrow> zero_HelmStatus\<lparr>hs_Status := ''not-installed''\<rparr>
           | Inr js \<Rightarrow> if js \<noteq> [] then getJobStatus (last js) else zero_HelmStatus\<lparr>hs_Status := ''not-installed''\<rparr>)))"

definition status_map :: "string \<Rightarrow> (string \<times> string) list \<Rightarrow> config_map" where
  "status_map ns entries = \<lparr>cm_Name = StatusConfigMapName, cm_Namespace = ns, cm_Labels = [], cm_Data = Some entries, cm_BinaryData = []\<rparr>"

definition put_status :: "string \<Rightarrow> HelmStatus \<Rightarrow> config_map \<Rightarrow> config_map" where
  "put_status name st cm = cm\<lparr>cm_Data := Some (AList.update name (status_lines st) (cm_entries cm))\<rparr>"

definition UpdateComponentStatus :: "env \<Rightarrow> string \<Rightarrow> string \<Rightarrow> HelmStatus \<Rightarrow> unit cact" where
  "UpdateComponentStatus E ns name st =
     attempt (Get_configmap E ns StatusConfigMapName) (\<lambda>r.
       let cm = put_status name st (case r of Inl e \<Rightarrow> status_map ns [] | Inr cm \<Rightarrow> cm) in
       attempt (Get_configmap E ns StatusConfigMapName) (\<lambda>r. case r of
         Inl e \<Rightarrow> api_write E (EvCreate (KConfigMap cm))
       | Inr _ \<Rightarrow> api_write E (EvUpdate (KConfigMap cm))))"

definition parsed_entries :: "(string \<times> string) list \<Rightarrow> string list \<Rightarrow> string \<rightharpoonup> HelmStatus" where
  "parsed_entries entries keys = fold (\<lambda>k m. case map_of entries k of None \<Rightarrow> m
     | Some d \<Rightarrow> (case parseComponentStatus d of Inl e \<Rightarrow> m | Inr st \<Rightarrow> m(k \<mapsto> st))) keys Map.empty"

definition add_jobs :: "(string \<times> job_state) list \<Rightarrow> (string \<rightharpoonup> HelmStatus) \<Rightarrow> string \<rightharpoonup> HelmStatus" where
  "add_jobs js m = fold (\<lambda>j m. let name = label_of (js_Labels (snd j)) LabelComponent in
     case m name of Some st \<Rightarrow> m | None \<Rightarrow> m(name \<mapsto> getJobStatus j)) js m"

definition GetAllComponentStatus :: "env \<Rightarrow> string \<Rightarrow> (string \<rightharpoonup> HelmStatus) cact" where
  "GetAllComponentStatus E ns =
     attempt (Get_configmap E ns StatusConfigMapName) (\<lambda>r.
     andthen (case r of Inl e \<Rightarrow> ret Map.empty
       | Inr cm \<Rightarrow> andthen (range_map E (map fst (cm_entries cm))) (\<lambda>keys. ret (parsed_entries (cm_entries cm) keys))) (\<lambda>m.
     attempt (List_jobs E ns [(LabelType, ''helm-install'')]) (\<lambda>r. ret (case r of Inl e \<Rightarrow> m | Inr js \<Rightarrow> add_jobs js m))))"

definition CreateStatusConfigMap :: "env \<Rightarrow> string \<Rightarrow> string list \<Rightarrow> unit cact" where
  "CreateStatusConfigMap E ns components =
     api_write E (EvCreate (KConfigMap (status_map ns (fold (\<lambda>n. AList.update n ''status: pending'') components []))))"

section \<open>Lemmas\<close>

subsection \<open>The status entries\<close>

text \<open>What an entry can hold: one line, without surrounding blanks.\<close>

definition plain :: "string \<Rightarrow> bool" where
  "plain v \<longleftrightarrow> CHR 0x0A \<notin> set v \<and> TrimSpace v = v"

lemma plain_parts: "plain v \<Longrightarrow> CHR 0x0A \<notin> set v" "plain v \<Longrightarrow> TrimSpace v = v"
  by (simp_all add: plain_def)

lemma field_keys: "TrimSpace ''version'' = ''version''" "TrimSpace ''status'' = ''status''" "TrimSpace ''jobName'' = ''jobName''" "TrimSpace ''message'' = ''message''"
  by code_simp+

lemma field_lines:
  "plain v \<Longrightarrow> parse_line (''version: '' @ v) st = st\<lparr>hs_Version := v\<rparr>"
  "plain v \<Longrightarrow> parse_line (''status: '' @ v) st = st\<lparr>hs_Status := v\<rparr>"
  "plain v \<Longrightarrow> parse_line (''jobName: '' @ v) st = st\<lparr>hs_JobName := v\<rparr>"
  "plain v \<Longrightarrow> parse_line (''message: '' @ v) st = st\<lparr>hs_Message := v\<rparr>"
  by (simp_all add: parse_line_def set_field_def plain_parts field_keys)

lemma split_two_lines: "CHR 0x0A \<notin> set a \<Longrightarrow> split_on CHR 0x0A (a @ [CHR 0x0A] @ b) = a # split_on CHR 0x0A b"
  by (simp add: split_on_append split_on_single)

lemma split_lines:
  assumes "CHR 0x0A \<notin> set a" "CHR 0x0A \<notin> set b" "CHR 0x0A \<notin> set c"
  shows "split_on CHR 0x0A (a @ [CHR 0x0A] @ b @ [CHR 0x0A] @ c) = [a, b, c]"
    "CHR 0x0A \<notin> set d \<Longrightarrow> split_on CHR 0x0A (a @ [CHR 0x0A] @ b @ [CHR 0x0A] @ c @ [CHR 0x0A] @ d) = [a, b, c, d]"
  using assms by (simp_all only: split_two_lines split_on_single not_False_eq_True)

lemma fold_status_lines:
  assumes "plain (hs_Version st)" "plain (hs_Status st)" "plain (hs_JobName st)" "plain (hs_Message st)"
  shows "fold parse_line (split_on CHR 0x0A (status_lines st)) zero_HelmStatus = st"
proof -
  define a b c d where "a = ''version: '' @ hs_Version st" and "b = ''status: '' @ hs_Status st" and "c = ''jobName: '' @ hs_JobName st"
    and "d = ''message: '' @ hs_Message st"
  note defs = a_def b_def c_def d_def
  have n: "CHR 0x0A \<notin> set a" "CHR 0x0A \<notin> set b" "CHR 0x0A \<notin> set c" "CHR 0x0A \<notin> set d"
    using assms by (simp_all add: defs plain_def)
  have sl: "status_lines st = a @ [CHR 0x0A] @ b @ [CHR 0x0A] @ c @ (if hs_Message st \<noteq> [] then [CHR 0x0A] @ d else [])"
    by (simp only: status_lines_def defs append_assoc)
  have "split_on CHR 0x0A (status_lines st) = [a, b, c] @ (if hs_Message st \<noteq> [] then [d] else [])"
    using split_lines(1) [OF n(1-3)] split_lines(2) [OF n] unfolding sl by (cases "hs_Message st = []") simp_all
  moreover have "parse_line a x = x\<lparr>hs_Version := hs_Version st\<rparr>" "parse_line b x = x\<lparr>hs_Status := hs_Status st\<rparr>"
    "parse_line c x = x\<lparr>hs_JobName := hs_JobName st\<rparr>" "parse_line d x = x\<lparr>hs_Message := hs_Message st\<rparr>" for x
    unfolding defs using assms by (simp_all only: field_lines)
  ultimately show ?thesis by (simp add: zero_HelmStatus_def)
qed

lemma cm_entries_put: "map_of (cm_entries (put_status name st cm)) k = (if k = name then Some (status_lines st) else map_of (cm_entries cm) k)"
  by (simp add: put_status_def cm_entries_def update_conv')

lemma GetComponentStatus_entry:
  assumes "k_get_configmap (kube E) (w_log w) ns StatusConfigMapName = Inr cm" and "map_of (cm_entries cm) name = Some d"
    and "parseComponentStatus d = Inr st"
  shows "fst (GetComponentStatus E ns name w) = Ok st"
  using assms by (simp add: GetComponentStatus_def Get_configmap_def query_def act_simps)

lemma UpdateComponentStatus_writes:
  assumes "UpdateComponentStatus E ns name st w = (r, w')"
  shows "\<exists>cm. last (w_log w') \<in> {EvCreate (KConfigMap (put_status name st cm)), EvUpdate (KConfigMap (put_status name st cm))}
    \<and> (case k_get_configmap (kube E) (w_log w) ns StatusConfigMapName of Inl e \<Rightarrow> cm = status_map ns [] | Inr read \<Rightarrow> cm = read)"
  using assms by (auto simp: UpdateComponentStatus_def Get_configmap_def query_def api_write_def command_def act_simps Let_def split: sum.splits option.splits)

lemma add_jobs_find:
  "add_jobs js m k = (case m k of Some st \<Rightarrow> Some st
     | None \<Rightarrow> map_option getJobStatus (find (\<lambda>j. label_of (js_Labels (snd j)) LabelComponent = k) js))"
proof (induction js arbitrary: m)
  case (Cons j js)
  have "add_jobs (j # js) m = add_jobs js (case m (label_of (js_Labels (snd j)) LabelComponent) of Some st \<Rightarrow> m
      | None \<Rightarrow> m(label_of (js_Labels (snd j)) LabelComponent \<mapsto> getJobStatus j))"
    by (simp add: add_jobs_def Let_def)
  then show ?case using Cons.IH by (auto split: option.splits)
qed (simp add: add_jobs_def split: option.split)

lemma parsed_entries_fold:
  "fold (\<lambda>k m. case map_of entries k of None \<Rightarrow> m
     | Some d \<Rightarrow> (case parseComponentStatus d of Inl e \<Rightarrow> m | Inr st \<Rightarrow> m(k \<mapsto> st))) keys m k =
   (case (if k \<in> set keys then map_of entries k else None) of None \<Rightarrow> m k
     | Some d \<Rightarrow> (case parseComponentStatus d of Inl e \<Rightarrow> m k | Inr st \<Rightarrow> Some st))"
  by (induction keys arbitrary: m) (auto split: option.splits sum.splits)

lemma parsed_entries_eq:
  assumes "set keys = set (map fst entries)"
  shows "parsed_entries entries keys k = (case map_of entries k of None \<Rightarrow> None
     | Some d \<Rightarrow> (case parseComponentStatus d of Inl e \<Rightarrow> None | Inr st \<Rightarrow> Some st))"
proof -
  have "k \<notin> set keys \<Longrightarrow> map_of entries k = None" using assms by (simp add: map_of_eq_None_iff)
  then show ?thesis unfolding parsed_entries_def parsed_entries_fold by auto
qed

lemma pending_entries: "map_of (fold (\<lambda>n. AList.update n v) names al) k = (if k \<in> set names then Some v else map_of al k)"
  by (induction names arbitrary: al) (simp_all add: update_conv')

subsection \<open>The two copies of the Helm installer\<close>

lemma same_texts: "comp_helm_text = helm_text" "comp_image_load_text = image_load_text" "manifest_image_load_text = image_load_text"
  "comp_status_text = status_text" "manifest_status_text = status_text"
  by (intro ext, simp only: comp_helm_text_def helm_text_def comp_image_load_text_def image_load_text_def manifest_image_load_text_def
      comp_status_text_def status_text_def manifest_status_text_def)+

lemma same_script: "buildHelmScript title i c = buildInstallScript title i c"
  by (intro ext) (simp only: buildHelmScript_def buildInstallScript_def same_texts)

lemma same_jobs: "buildHelmInstallJob title i c = buildInstallJob title i c" "buildHelmUpgradeJob title i c = buildUpgradeJob_helm title i c"
  by (intro ext, simp only: buildHelmInstallJob_def buildHelmUpgradeJob_def buildInstallJob_def buildUpgradeJob_helm_def same_script)+

subsection \<open>Installation\<close>

text \<open>An action that creates a component's job, or does nothing and fails.\<close>

definition creates :: "(component_job \<Rightarrow> bool) \<Rightarrow> unit cact \<Rightarrow> bool" where
  "creates P m \<longleftrightarrow> (\<forall>w r w'. m w = (r, w') \<longrightarrow>
     (\<exists>j. P j \<and> w_log w' = w_log w @ [EvCreate (KComponentJob j)]) \<or> (w_log w' = w_log w \<and> r \<noteq> Ok ()))"

lemma create_component_job_apply: "create_component_job E j w =
  (case k_write (kube E) (w_log w) (EvCreate (KComponentJob j)) of None \<Rightarrow> Ok () | Some e \<Rightarrow> Err e, w\<lparr>w_log := w_log w @ [EvCreate (KComponentJob j)]\<rparr>)"
  by (simp add: create_component_job_def api_write_def command_def query_def split: option.split)

lemma creates_job: "P j \<Longrightarrow> creates P (create_component_job E j)"
  by (auto simp: creates_def create_component_job_apply)

lemma creates_range: "(\<And>keys. P (f keys)) \<Longrightarrow> creates P (andthen (range_map E ks) (\<lambda>keys. create_component_job E (f keys)))"
  by (auto simp: creates_def create_component_job_apply range_map_def act_simps)

lemma creates_fail: "creates P (fail e)"
  by (simp add: creates_def act_simps)

lemma creates_by_type:
  assumes "\<And>keys. P (f keys)" "P j"
  shows "creates P (create_by_type E c f j)"
  unfolding create_by_type_def using assms by (simp add: creates_range creates_job creates_fail)

lemma replace_job_log:
  assumes "creates P create" and "replace_job E i c create w = (Ok (), w')"
  shows "(\<exists>js. k_get_job (kube E) (w_log w) (jin_namespace i) (''install-'' @ jc_Name c) = Inr js \<and> label_of (js_Labels js) LabelVersion = jc_Version c
      \<and> w_log w' = w_log w @ [EvGet ''Job'' (jin_namespace i) (''install-'' @ jc_Name c)])
    \<or> (\<exists>j dels. P j \<and> set dels \<subseteq> {EvDelete ''Job'' (jin_namespace i) (''install-'' @ jc_Name c)}
      \<and> (dels = [] \<longleftrightarrow> (\<exists>e. k_get_job (kube E) (w_log w) (jin_namespace i) (''install-'' @ jc_Name c) = Inl e))
      \<and> w_log w' = w_log w @ [EvGet ''Job'' (jin_namespace i) (''install-'' @ jc_Name c)] @ dels @ [EvCreate (KComponentJob j)])"
proof -
  obtain ns n where nm: "ns = jin_namespace i" "n = ''install-'' @ jc_Name c" by blast
  define v where "v = w\<lparr>w_log := w_log w @ [EvGet ''Job'' ns n]\<rparr>"
  define d where "d = v\<lparr>w_log := w_log v @ [EvDelete ''Job'' ns n]\<rparr>"
  have step: "replace_job E i c create w = (case k_get_job (kube E) (w_log w) ns n of Inl e \<Rightarrow> create v
      | Inr js \<Rightarrow> if label_of (js_Labels js) LabelVersion = jc_Version c then (Ok (), v)
         else (case k_write (kube E) (w_log v) (EvDelete ''Job'' ns n) of None \<Rightarrow> create d | Some e \<Rightarrow> (Err (wrap ''failed to delete old job: '' e), d)))"
    unfolding replace_job_def nm [symmetric]
    by (simp add: Get_job_def query_def act_simps api_write_def command_def v_def d_def split: sum.split option.split)
  have made: "\<exists>j. P j \<and> w_log w' = w_log u @ [EvCreate (KComponentJob j)]" if "create u = (Ok (), w')" for u
    using assms(1) that unfolding creates_def by blast
  show ?thesis
  proof (cases "k_get_job (kube E) (w_log w) ns n")
    case (Inl e)
    then obtain j where "P j" "w_log w' = w_log v @ [EvCreate (KComponentJob j)]"
      using assms(2) step made [of v] by auto
    then have "P j \<and> set [] \<subseteq> {EvDelete ''Job'' ns n} \<and> w_log w' = w_log w @ [EvGet ''Job'' ns n] @ [] @ [EvCreate (KComponentJob j)]"
      by (simp add: v_def)
    then show ?thesis unfolding nm [symmetric] using Inl by blast
  next
    case (Inr js)
    show ?thesis
    proof (cases "label_of (js_Labels js) LabelVersion = jc_Version c")
      case True
      then have "w_log w' = w_log w @ [EvGet ''Job'' ns n]" using Inr assms(2) step by (auto simp: v_def)
      then show ?thesis unfolding nm [symmetric] using Inr True by blast
    next
      case False
      then obtain j where "P j" "w_log w' = w_log d @ [EvCreate (KComponentJob j)]"
        using Inr assms(2) step made [of d] by (auto split: option.splits)
      then have "P j \<and> set [EvDelete ''Job'' ns n] \<subseteq> {EvDelete ''Job'' ns n}
          \<and> w_log w' = w_log w @ [EvGet ''Job'' ns n] @ [EvDelete ''Job'' ns n] @ [EvCreate (KComponentJob j)]"
        by (simp add: v_def d_def)
      moreover have "[EvDelete ''Job'' ns n] = [] \<longleftrightarrow> (\<exists>e. k_get_job (kube E) (w_log w) ns n = Inl e)" using Inr by simp
      ultimately show ?thesis unfolding nm [symmetric] by blast
    qed
  qed
qed

section \<open>Properties\<close>

text \<open>
  An entry of the status map reads back as the status that was written, for fields of one line without surrounding
  blanks and a status that is not empty; the value may hold colons.
\<close>

theorem status_entry_roundtrip:
  assumes "plain (hs_Version st)" "plain (hs_Status st)" "plain (hs_JobName st)" "plain (hs_Message st)" "hs_Status st \<noteq> []"
  shows "parseComponentStatus (status_lines st) = Inr st"
  using assms by (simp add: parseComponentStatus_def fold_status_lines Let_def)

text \<open>
  (C37) After a successful \<open>UpdateComponentStatus\<close> of a status whose fields are one line without surrounding blanks
  and whose state is not empty, the last write is a whole ConfigMap, and reading the component's status from it gives
  the status that was written. When the first read of the map succeeded, the entries of all other components are in it
  unchanged; when it failed, the map is built anew and they may be lost.
\<close>

theorem updated_status_read_back:
  assumes "plain (hs_Version st)" "plain (hs_Status st)" "plain (hs_JobName st)" "plain (hs_Message st)" "hs_Status st \<noteq> []"
    and "UpdateComponentStatus E ns name st w = (Ok (), w')"
  shows "\<exists>cm. last (w_log w') \<in> {EvCreate (KConfigMap cm), EvUpdate (KConfigMap cm)}
    \<and> (\<forall>E' v. k_get_configmap (kube E') (w_log v) ns StatusConfigMapName = Inr cm \<longrightarrow> fst (GetComponentStatus E' ns name v) = Ok st)
    \<and> (\<forall>old k. k_get_configmap (kube E) (w_log w) ns StatusConfigMapName = Inr old \<longrightarrow> k \<noteq> name \<longrightarrow> map_of (cm_entries cm) k = map_of (cm_entries old) k)"
proof -
  obtain base where l: "last (w_log w') \<in> {EvCreate (KConfigMap (put_status name st base)), EvUpdate (KConfigMap (put_status name st base))}"
    and b: "case k_get_configmap (kube E) (w_log w) ns StatusConfigMapName of Inl e \<Rightarrow> base = status_map ns [] | Inr read \<Rightarrow> base = read"
    using UpdateComponentStatus_writes [OF assms(6)] by blast
  have parsed: "parseComponentStatus (status_lines st) = Inr st"
    using assms by (simp add: parseComponentStatus_def fold_status_lines Let_def)
  have "fst (GetComponentStatus E' ns name v) = Ok st"
    if "k_get_configmap (kube E') (w_log v) ns StatusConfigMapName = Inr (put_status name st base)" for E' v
    using GetComponentStatus_entry [OF that _ parsed] by (simp add: cm_entries_put)
  moreover have "map_of (cm_entries (put_status name st base)) k = map_of (cm_entries old) k"
    if "k_get_configmap (kube E) (w_log w) ns StatusConfigMapName = Inr old" "k \<noteq> name" for old k
    using b that by (simp add: cm_entries_put)
  ultimately show ?thesis using l by blast
qed

text \<open>
  The component installer and the Helm package do the same for a component of type \<open>helm\<close>, in installation and in
  upgrade: the same reads and writes in the same order, with the same jobs and scripts.
\<close>

theorem helm_copies_agree:
  assumes "jc_Type c = ''helm''"
  shows "comp_InstallComponent E title i c = helm_InstallComponent E title i c \<and> comp_UpgradeComponent E title i c = helm_UpgradeComponent E title i c"
  using assms
  by (simp only: comp_InstallComponent_def comp_UpgradeComponent_def create_by_type_def helm_InstallComponent_def helm_UpgradeComponent_def same_jobs if_True simp_thms)

text \<open>
  \<open>InstallComponent\<close> succeeds only if a job for this version was there, and then nothing is written, or it created one:
  the job carries the component's version and name, and a job of another version was deleted before.
\<close>

theorem install_leaves_current_job:
  assumes "comp_InstallComponent E title i c w = (Ok (), w')"
  shows "(\<exists>js. k_get_job (kube E) (w_log w) (jin_namespace i) (''install-'' @ jc_Name c) = Inr js \<and> label_of (js_Labels js) LabelVersion = jc_Version c
      \<and> w_log w' = w_log w @ [EvGet ''Job'' (jin_namespace i) (''install-'' @ jc_Name c)])
    \<or> (\<exists>j dels. cj_Name j = ''install-'' @ jc_Name c \<and> cj_Namespace j = jin_namespace i \<and> label_of (cj_Labels j) LabelVersion = jc_Version c
      \<and> set dels \<subseteq> {EvDelete ''Job'' (jin_namespace i) (''install-'' @ jc_Name c)}
      \<and> (dels = [] \<longleftrightarrow> (\<exists>e. k_get_job (kube E) (w_log w) (jin_namespace i) (''install-'' @ jc_Name c) = Inl e))
      \<and> w_log w' = w_log w @ [EvGet ''Job'' (jin_namespace i) (''install-'' @ jc_Name c)] @ dels @ [EvCreate (KComponentJob j)])"
proof -
  define P where "P j \<longleftrightarrow> cj_Name j = ''install-'' @ jc_Name c \<and> cj_Namespace j = jin_namespace i \<and> label_of (cj_Labels j) LabelVersion = jc_Version c" for j :: component_job
  have frame: "P (job_frame i c ty ''install'' a k m s)" for ty a k m s
    by (simp add: P_def job_frame_def job_labels_def label_of_def LabelComponent_def LabelVersion_def LabelType_def LabelAction_def)
  have "creates P (create_by_type E c (buildHelmInstallJob title i c) (buildManifestInstallJob title i c))"
    by (rule creates_by_type) (simp_all only: buildHelmInstallJob_def buildManifestInstallJob_def frame)
  from replace_job_log [OF this assms [unfolded comp_InstallComponent_def]] show ?thesis unfolding P_def by simp
qed

text \<open>
  In the list of all components an entry of the ConfigMap that parses wins over the jobs, and of several install
  jobs of a component the first counts.
\<close>

theorem all_status_precedence:
  assumes "k_get_configmap (kube E) (w_log w) ns StatusConfigMapName = Inr cm" "range_ok E"
    and "k_list_jobs (kube E) (w_log w @ [EvGet ''ConfigMap'' ns StatusConfigMapName]) ns [(LabelType, ''helm-install'')] = Inr js"
  shows "\<exists>m w'. GetAllComponentStatus E ns w = (Ok m, w') \<and> (\<forall>k. m k = (case map_of (cm_entries cm) k of
      Some d \<Rightarrow> (case parseComponentStatus d of Inr st \<Rightarrow> Some st
          | Inl e \<Rightarrow> map_option getJobStatus (find (\<lambda>j. label_of (js_Labels (snd j)) LabelComponent = k) js))
    | None \<Rightarrow> map_option getJobStatus (find (\<lambda>j. label_of (js_Labels (snd j)) LabelComponent = k) js)))"
proof -
  define ks where "ks = h_range (host E) (w_log w @ [EvGet ''ConfigMap'' ns StatusConfigMapName]) (map fst (cm_entries cm))"
  have "set ks = set (map fst (cm_entries cm))"
    using assms(2) unfolding ks_def range_ok_def ranges_keys_def by (metis mset_eq_setD)
  note eq = parsed_entries_eq [OF this]
  have "GetAllComponentStatus E ns w = (Ok (add_jobs js (parsed_entries (cm_entries cm) ks)),
     w\<lparr>w_log := w_log w @ [EvGet ''ConfigMap'' ns StatusConfigMapName, EvList ''Job'' ns [(LabelType, ''helm-install'')]]\<rparr>)"
    using assms(1,3) by (simp add: GetAllComponentStatus_def Get_configmap_def List_jobs_def query_def range_map_def act_simps ks_def)
  moreover have "add_jobs js (parsed_entries (cm_entries cm) ks) k = (case map_of (cm_entries cm) k of
      Some d \<Rightarrow> (case parseComponentStatus d of Inr st \<Rightarrow> Some st
          | Inl e \<Rightarrow> map_option getJobStatus (find (\<lambda>j. label_of (js_Labels (snd j)) LabelComponent = k) js))
    | None \<Rightarrow> map_option getJobStatus (find (\<lambda>j. label_of (js_Labels (snd j)) LabelComponent = k) js))" for k
    by (simp add: add_jobs_find eq split: option.split sum.split)
  ultimately show ?thesis by blast
qed

text \<open>The initial map holds exactly the given components, all of them pending.\<close>

theorem initial_status_pending:
  "\<exists>data. snd (CreateStatusConfigMap E ns components w) = w\<lparr>w_log := w_log w @ [EvCreate (KConfigMap (status_map ns data))]\<rparr>
    \<and> (\<forall>k. (case map_of data k of None \<Rightarrow> None | Some d \<Rightarrow> Some (parseComponentStatus d)) =
        (if k \<in> set components then Some (Inr (zero_HelmStatus\<lparr>hs_Status := ''pending''\<rparr>)) else None))"
proof -
  have "parseComponentStatus ''status: pending'' = Inr (zero_HelmStatus\<lparr>hs_Status := ''pending''\<rparr>)" by code_simp
  then show ?thesis
    by (intro exI [of _ "fold (\<lambda>n. AList.update n ''status: pending'') components []"])
      (simp add: CreateStatusConfigMap_def api_write_def command_def query_def pending_entries)
qed

text \<open>
  The entry that the jobs' own patch writes: inside single quotes the shell expands neither the version nor the date, so the
  version that is read back is the text of the variable.
\<close>

lemma patched_entry_version:
  "parseComponentStatus (''version: ${VERSION}'' @ [CHR 0x0A] @ ''status: installed'' @ [CHR 0x0A] @ ''installedAt: $(date -u +%Y-%m-%dT%H:%M:%SZ)''
     @ [CHR 0x0A] @ ''jobName: install-${COMPONENT}'') =
   Inr \<lparr>hs_Version = ''${VERSION}'', hs_Status = ''installed'', hs_JobName = ''install-${COMPONENT}'', hs_Message = []\<rparr>"
  by code_simp

text \<open>
  A component of a type that is neither \<open>helm\<close> nor \<open>manifest\<close> is an error, but a job of another version is deleted before
  the type is looked at.
\<close>

theorem unsupported_type_deletes_job:
  assumes "jc_Type c \<noteq> ''helm''" "jc_Type c \<noteq> ''manifest''"
    and "k_get_job (kube E) (w_log w) (jin_namespace i) (''install-'' @ jc_Name c) = Inr js" "label_of (js_Labels js) LabelVersion \<noteq> jc_Version c"
  shows "\<exists>e w'. comp_InstallComponent E title i c w = (Err e, w') \<and> EvDelete ''Job'' (jin_namespace i) (''install-'' @ jc_Name c) \<in> set (w_log w')"
proof -
  obtain ns n where nm: "ns = jin_namespace i" "n = ''install-'' @ jc_Name c" by blast
  show ?thesis using assms unfolding comp_InstallComponent_def replace_job_def create_by_type_def nm [symmetric]
    by (simp add: Get_job_def query_def act_simps api_write_def command_def split: option.split)
qed

section \<open>Witnesses\<close>

definition ex_status :: HelmStatus where
  "ex_status = \<lparr>hs_Version = ''v1.2: rc'', hs_Status = ''installed'', hs_JobName = ''install-cilium'', hs_Message = []\<rparr>"

definition ex_job_component :: Component where
  "ex_job_component = \<lparr>jc_Name = ''cilium'', jc_Version = ''1.2'', jc_Path = ''charts'', jc_Namespace = ''kube-system'', jc_ImageList = [],
     jc_HelmValues = [(''a'', ''b'')], jc_Type = ''helm'', jc_ManifestFiles = []\<rparr>"

definition ex_job_installer :: JobInstaller where
  "ex_job_installer = NewJobInstaller ''http://r/'' ''capbm''"

lemma ex_status_plain: "plain (hs_Version ex_status)" "plain (hs_Status ex_status)" "plain (hs_JobName ex_status)" "plain (hs_Message ex_status)"
  "hs_Status ex_status \<noteq> []"
  by code_simp+

theorem updated_status_witness:
  "\<exists>cm. last (w_log (snd (UpdateComponentStatus quiet_env ''capbm'' ''cilium'' ex_status empty_world))) \<in> {EvCreate (KConfigMap cm), EvUpdate (KConfigMap cm)}"
proof -
  have "UpdateComponentStatus quiet_env ''capbm'' ''cilium'' ex_status empty_world =
      (Ok (), snd (UpdateComponentStatus quiet_env ''capbm'' ''cilium'' ex_status empty_world))"
    by (simp add: UpdateComponentStatus_def Get_configmap_def query_def api_write_def command_def act_simps Let_def quiet_kube_def)
  from updated_status_read_back [OF ex_status_plain this] show ?thesis by blast
qed

theorem helm_copies_witness:
  "fst (comp_InstallComponent quiet_env (\<lambda>s. s) ex_job_installer ex_job_component empty_world) = Ok ()
    \<and> comp_InstallComponent quiet_env (\<lambda>s. s) ex_job_installer ex_job_component = helm_InstallComponent quiet_env (\<lambda>s. s) ex_job_installer ex_job_component"
proof -
  have t: "jc_Type ex_job_component = ''helm''" by (simp add: ex_job_component_def)
  have v: "label_of [] LabelVersion \<noteq> jc_Version ex_job_component" by (simp add: ex_job_component_def label_of_def)
  have "fst (comp_InstallComponent quiet_env (\<lambda>s. s) ex_job_installer ex_job_component empty_world) = Ok ()"
    unfolding comp_InstallComponent_def replace_job_def create_by_type_def t
    using v by (simp add: Get_job_def query_def api_write_def command_def act_simps create_component_job_apply range_map_def quiet_kube_def)
  with helm_copies_agree [OF t] show ?thesis by blast
qed

theorem install_witness:
  "\<exists>j. EvCreate (KComponentJob j) \<in> set (w_log (snd (comp_InstallComponent quiet_env (\<lambda>s. s) ex_job_installer ex_job_component empty_world)))
     \<and> label_of (cj_Labels j) LabelVersion = ''1.2''"
proof -
  have t: "jc_Type ex_job_component = ''helm''" "jc_Version ex_job_component = ''1.2''" by (simp_all add: ex_job_component_def)
  have v: "label_of [] LabelVersion \<noteq> ''1.2''" by (simp add: label_of_def)
  define w' where "w' = snd (comp_InstallComponent quiet_env (\<lambda>s. s) ex_job_installer ex_job_component empty_world)"
  have "comp_InstallComponent quiet_env (\<lambda>s. s) ex_job_installer ex_job_component empty_world = (Ok (), w')"
    unfolding w'_def comp_InstallComponent_def replace_job_def create_by_type_def t
    using v by (simp add: Get_job_def query_def api_write_def command_def act_simps create_component_job_apply range_map_def quiet_kube_def)
  from install_leaves_current_job [OF this] v show ?thesis
    unfolding w'_def [symmetric] t by (auto simp: quiet_kube_def)
qed

end
