(* ===== verification/Bm_Images.thy ===== *)
theory Bm_Images
  imports Image_Import Bm_Host
begin

text \<open>
  The image loader, \<open>modules/capbm/internal/images/loader.go\<close>, the installers of the gateway components,
  \<open>modules/capbm/internal/gateway\<close>, and the registry configuration of containerd,
  \<open>modules/capbm/internal/node/containerd.go\<close>. The scripts are byte for byte those of the source. An installer holds
  the connection that \<open>WithSSHConnection\<close> gave it, or none.
\<close>

section \<open>Definitions\<close>

subsection \<open>Images\<close>

record LoadResult =
  lr_Completed :: bool
  lr_Success :: bool
  lr_Loaded :: "string list"
  lr_Failed :: "string list"
  lr_Error :: string

record ImageLoader =
  il_releaseServer :: string
  il_namespace :: string
  il_sshConn :: "nat option"

definition NewImageLoader :: "string \<Rightarrow> string \<Rightarrow> ImageLoader" where
  "NewImageLoader releaseServer ns =
     \<lparr>il_releaseServer = TrimRight releaseServer CHR ''/'', il_namespace = (if ns = [] then ''k8s.io'' else ns), il_sshConn = None\<rparr>"

definition loader_WithSSHConnection :: "nat option \<Rightarrow> ImageLoader \<Rightarrow> ImageLoader" where
  "loader_WithSSHConnection conn l = l\<lparr>il_sshConn := conn\<rparr>"

definition image_script :: "string \<Rightarrow> string \<Rightarrow> string \<Rightarrow> string" where
  \<open>image_script url dest ns = script_lines [
    ''#!/bin/bash'',
    ''set -euo pipefail'',
    [],
    ''IMAGE_URL="'' @ url @ ''"'',
    ''DEST="'' @ dest @ ''"'',
    ''NAMESPACE="'' @ ns @ ''"'',
    [],
    ''echo "Downloading: $(basename $DEST)"'',
    ''curl -fsSL "$IMAGE_URL" -o "$DEST"'',
    [],
    ''echo "Importing: $(basename $DEST)"'',
    ''ctr -n "$NAMESPACE" images import "$DEST"'',
    ''rm -f "$DEST"'',
    [],
    ''echo "Successfully imported: $(basename $DEST)"'']\<close>

definition loader_script :: "ImageLoader \<Rightarrow> string \<Rightarrow> string \<Rightarrow> string" where
  "loader_script l imagePath tar =
     image_script (il_releaseServer l @ ''/'' @ imagePath @ ''/'' @ tar) (path_Join [''/tmp'', tar]) (il_namespace l)"

definition add_loaded :: "string \<Rightarrow> LoadResult \<Rightarrow> LoadResult" where
  "add_loaded tar res = res\<lparr>lr_Loaded := lr_Loaded res @ [tar]\<rparr>"

definition add_failed :: "string \<Rightarrow> string \<Rightarrow> LoadResult \<Rightarrow> LoadResult" where
  "add_failed tar why res = res\<lparr>lr_Failed := lr_Failed res @ [tar], lr_Error := ''failed to load '' @ tar @ '': '' @ why\<rparr>"

definition load_image :: "env \<Rightarrow> ImageLoader \<Rightarrow> string \<Rightarrow> string \<Rightarrow> LoadResult \<Rightarrow> LoadResult cact" where
  "load_image E l imagePath tar res = (case il_sshConn l of
     None \<Rightarrow> ret (add_loaded tar res)
   | Some p \<Rightarrow> attempt (ExecuteScript E p (loader_script l imagePath tar) None) (\<lambda>r. ret (case r of
         Inl e \<Rightarrow> add_failed tar (error_string e) res
       | Inr x \<Rightarrow> if cr_ExitCode x \<noteq> 0 then add_failed tar (cr_Stderr x) res else add_loaded tar res)))"

fun load_loop :: "env \<Rightarrow> ImageLoader \<Rightarrow> string \<Rightarrow> string list \<Rightarrow> LoadResult \<Rightarrow> LoadResult cact" where
  "load_loop E l imagePath [] res = ret res"
| "load_loop E l imagePath (tar # tars) res = andthen (load_image E l imagePath tar res) (load_loop E l imagePath tars)"

definition loadImages :: "env \<Rightarrow> ImageLoader \<Rightarrow> string \<Rightarrow> string list \<Rightarrow> LoadResult cact" where
  "loadImages E l imagePath imageList =
     andthen (load_loop E l imagePath imageList \<lparr>lr_Completed = False, lr_Success = False, lr_Loaded = [], lr_Failed = [], lr_Error = []\<rparr>)
       (\<lambda>res. ret (res\<lparr>lr_Completed := True, lr_Success := lr_Failed res = []\<rparr>))"

definition nothing_to_load :: LoadResult where
  "nothing_to_load = \<lparr>lr_Completed = True, lr_Success = True, lr_Loaded = [], lr_Failed = [], lr_Error = []\<rparr>"

definition images_path :: "string \<Rightarrow> string \<Rightarrow> string" where
  "images_path name version = ''images/'' @ name @ ''/'' @ version"

definition LoadComponentImages :: "env \<Rightarrow> ImageLoader \<Rightarrow> string \<Rightarrow> string \<Rightarrow> string list \<Rightarrow> LoadResult cact" where
  "LoadComponentImages E l name version imageList =
     (if imageList = [] then ret nothing_to_load else loadImages E l (images_path name version) imageList)"

definition k8s_images :: "string list" where
  "k8s_images = [''kube-apiserver.tar'', ''kube-controller-manager.tar'', ''kube-scheduler.tar'', ''kube-proxy.tar'', ''coredns.tar'', ''etcd.tar'',
     ''pause.tar'']"

definition LoadKubernetesImages :: "env \<Rightarrow> ImageLoader \<Rightarrow> string \<Rightarrow> LoadResult cact" where
  "LoadKubernetesImages E l version = loadImages E l (images_path ''kubernetes'' version) k8s_images"

definition cni_images :: "string \<Rightarrow> string list option" where
  "cni_images cniType =
     (if cniType = ''calico'' then Some [''calico-node.tar'', ''calico-kube-controllers.tar'', ''calico-cni.tar'']
      else if cniType = ''cilium'' then Some [''cilium.tar'', ''cilium-operator.tar'', ''hubble-relay.tar'']
      else if cniType = ''flannel'' then Some [''flannel.tar''] else None)"

definition LoadCNIImages :: "env \<Rightarrow> ImageLoader \<Rightarrow> string \<Rightarrow> string \<Rightarrow> LoadResult cact" where
  "LoadCNIImages E l cniType version = (case cni_images cniType of
     None \<Rightarrow> ret nothing_to_load | Some imgs \<Rightarrow> loadImages E l (images_path cniType version) imgs)"

definition csi_images :: "string \<Rightarrow> string list option" where
  "csi_images csiType =
     (if csiType = ''ceph-csi'' then Some [''cephcsi.tar'', ''csi-attacher.tar'', ''csi-provisioner.tar'', ''csi-snapshotter.tar'', ''csi-resizer.tar'',
        ''csi-node-driver-registrar.tar'']
      else if csiType = ''local-path-provisioner'' then Some [''local-path-provisioner.tar'', ''helper.tar'']
      else if csiType = ''nfs-csi'' then Some [''nfs.tar'', ''csi-node-driver-registrar.tar''] else None)"

definition LoadCSIImages :: "env \<Rightarrow> ImageLoader \<Rightarrow> string \<Rightarrow> string \<Rightarrow> LoadResult cact" where
  "LoadCSIImages E l csiType version = (case csi_images csiType of
     None \<Rightarrow> ret nothing_to_load | Some imgs \<Rightarrow> loadImages E l (images_path csiType version) imgs)"

definition LoadGatewayImages :: "env \<Rightarrow> ImageLoader \<Rightarrow> string \<Rightarrow> LoadResult cact" where
  "LoadGatewayImages E l version = loadImages E l (images_path ''envoy-gateway'' version) [''envoy-gateway.tar'', ''envoy-proxy.tar'']"

definition LoadMetalLBImages :: "env \<Rightarrow> ImageLoader \<Rightarrow> string \<Rightarrow> LoadResult cact" where
  "LoadMetalLBImages E l version = loadImages E l (images_path ''metallb'' version) [''metallb-controller.tar'', ''metallb-speaker.tar'']"

definition load_head :: "string \<Rightarrow> string \<Rightarrow> string \<Rightarrow> string \<Rightarrow> string \<Rightarrow> string" where
  \<open>load_head server ns path name ver = script_lines [
    ''#!/bin/bash'',
    ''set -euo pipefail'',
    [],
    ''RELEASE_SERVER="'' @ server @ ''"'',
    ''NAMESPACE="'' @ ns @ ''"'',
    ''IMAGE_PATH="'' @ path @ ''"'',
    []] @ ''echo "=== Loading '' @ name @ '' v'' @ ver @ '' images ==="''\<close>

definition load_part :: "string \<Rightarrow> string" where
  \<open>load_part tar = script_lines [
    [],
    ''# Load '' @ tar,
    ''echo "Downloading: '' @ tar @ ''"'',
    ''curl -fsSL "${RELEASE_SERVER}/${IMAGE_PATH}/'' @ tar @ ''" -o "/tmp/'' @ tar @ ''"'',
    ''echo "Importing: '' @ tar @ ''"'',
    ''ctr -n "$NAMESPACE" images import "/tmp/'' @ tar @ ''"'',
    ''rm -f "/tmp/'' @ tar @ ''"'',
    ''echo "Successfully imported: '' @ tar @ ''"'']\<close>

definition load_tail :: "string \<Rightarrow> string \<Rightarrow> string" where
  \<open>load_tail name ver = script_lines [
    []] @ ''echo "=== '' @ name @ '' v'' @ ver @ '' images loaded ==="''\<close>

definition GenerateLoadScript :: "ImageLoader \<Rightarrow> string \<Rightarrow> string \<Rightarrow> string list \<Rightarrow> string" where
  "GenerateLoadScript l name version imageList = (if imageList = [] then [] else
     join_with [CHR 0x0A] (load_head (il_releaseServer l) (il_namespace l) (images_path name version) name version
       # map load_part imageList @ [load_tail name version]))"

definition GenerateKubernetesLoadScript :: "ImageLoader \<Rightarrow> string \<Rightarrow> string" where
  "GenerateKubernetesLoadScript l version = GenerateLoadScript l ''kubernetes'' version k8s_images"

definition GenerateCNILoadScript :: "ImageLoader \<Rightarrow> string \<Rightarrow> string \<Rightarrow> error + string" where
  "GenerateCNILoadScript l cniType version = (case cni_images cniType of
     None \<Rightarrow> Inl (Errorf (''unsupported CNI type: '' @ cniType)) | Some imgs \<Rightarrow> Inr (GenerateLoadScript l cniType version imgs))"

definition GenerateCSILoadScript :: "ImageLoader \<Rightarrow> string \<Rightarrow> string \<Rightarrow> error + string" where
  "GenerateCSILoadScript l csiType version = (case csi_images csiType of
     None \<Rightarrow> Inl (Errorf (''unsupported CSI type: '' @ csiType)) | Some imgs \<Rightarrow> Inr (GenerateLoadScript l csiType version imgs))"

subsection \<open>Gateway\<close>

record GatewayResult =
  gwr_Completed :: bool
  gwr_Success :: bool
  gwr_Version :: string
  gwr_Error :: string

text \<open>The end of the three \<open>Install\<close>: the script runs if there is a connection, and every failure is a result.\<close>

definition gateway_run :: "env \<Rightarrow> nat option \<Rightarrow> string \<Rightarrow> string \<Rightarrow> GatewayResult cact" where
  "gateway_run E conn version script = (case conn of
     None \<Rightarrow> ret \<lparr>gwr_Completed = True, gwr_Success = True, gwr_Version = version, gwr_Error = []\<rparr>
   | Some p \<Rightarrow> attempt (ExecuteScript E p script None) (\<lambda>r. ret (case r of
         Inl e \<Rightarrow> \<lparr>gwr_Completed = True, gwr_Success = False, gwr_Version = version, gwr_Error = ''failed to execute install script: '' @ error_string e\<rparr>
       | Inr x \<Rightarrow> if cr_ExitCode x \<noteq> 0
           then \<lparr>gwr_Completed = True, gwr_Success = False, gwr_Version = version, gwr_Error = ''install script failed: '' @ cr_Stderr x\<rparr>
           else \<lparr>gwr_Completed = True, gwr_Success = True, gwr_Version = version, gwr_Error = []\<rparr>)))"

record GatewayAPICRDsInstaller =
  gci_version :: string
  gci_sshConn :: "nat option"

definition NewGatewayAPICRDsInstaller :: "string \<Rightarrow> GatewayAPICRDsInstaller" where
  "NewGatewayAPICRDsInstaller version = \<lparr>gci_version = version, gci_sshConn = None\<rparr>"

definition crds_WithSSHConnection :: "nat option \<Rightarrow> GatewayAPICRDsInstaller \<Rightarrow> GatewayAPICRDsInstaller" where
  "crds_WithSSHConnection conn i = i\<lparr>gci_sshConn := conn\<rparr>"

definition crds_script :: "string \<Rightarrow> string \<Rightarrow> string" where
  \<open>crds_script version url = script_lines [
    ''#!/bin/bash'',
    ''set -euo pipefail'',
    [],
    ''GATEWAY_API_VERSION="'' @ version @ ''"'',
    ''MANIFEST_URL="'' @ url @ ''"'',
    ''INSTALL_SOURCE="${INSTALL_SOURCE:-online}"'',
    ''RELEASE_SERVER="${RELEASE_SERVER:-}"'',
    ''LOCAL_PATH="${LOCAL_PATH:-}"'',
    [],
    ''echo "=== Installing Gateway API CRDs (version=$GATEWAY_API_VERSION) ==="'',
    [],
    ''fetch_resource() {'',
    ''    local resource="$1"'',
    ''    local dest="$2"'',
    ''    case "$INSTALL_SOURCE" in'',
    ''        online) curl -fsSL "$resource" -o "$dest" ;;'',
    ''        http)   curl -fsSL "${RELEASE_SERVER}/${resource}" -o "$dest" ;;'',
    ''        local)  cp "${LOCAL_PATH}/${resource}" "$dest" ;;'',
    ''        *)      echo "ERROR: unsupported INSTALL_SOURCE=$INSTALL_SOURCE"; exit 1 ;;'',
    ''    esac'',
    ''}'',
    [],
    ''manifest=$(mktemp)'',
    ''case "$INSTALL_SOURCE" in'',
    ''    online)'',
    ''        kubectl apply -f "$MANIFEST_URL"'',
    ''        ;;'',
    ''    http|local)'',
    ''        fetch_resource "gateway/gateway-api/v${GATEWAY_API_VERSION}/gateway-api-crds.yaml" "$manifest"'',
    ''        kubectl apply -f "$manifest"'',
    ''        rm -f "$manifest"'',
    ''        ;;'',
    ''esac'',
    [],
    ''echo "Waiting for CRDs to be established..."'',
    ''kubectl wait --for=condition=Established crd/gatewayclasses.gateway.networking.k8s.io --timeout=60s'',
    ''kubectl wait --for=condition=Established crd/gateways.gateway.networking.k8s.io --timeout=60s'',
    ''kubectl wait --for=condition=Established crd/httproutes.gateway.networking.k8s.io --timeout=60s'',
    [],
    ''echo "=== Gateway API CRDs installation completed ==="'']\<close>

definition crds_Install :: "env \<Rightarrow> GatewayAPICRDsInstaller \<Rightarrow> GatewayResult cact" where
  "crds_Install E i = gateway_run E (gci_sshConn i) (gci_version i) (crds_script (gci_version i)
     (''https://github.com/kubernetes-sigs/gateway-api/releases/download/'' @ gci_version i @ ''/standard-install.yaml''))"

record EnvoyGatewayInstaller =
  egi_version :: string
  egi_config :: "EnvoyGatewayConfig option"
  egi_sshConn :: "nat option"

definition NewEnvoyGatewayInstaller :: "string \<Rightarrow> EnvoyGatewayConfig option \<Rightarrow> EnvoyGatewayInstaller" where
  "NewEnvoyGatewayInstaller version config = \<lparr>egi_version = version, egi_config = config, egi_sshConn = None\<rparr>"

definition envoy_WithSSHConnection :: "nat option \<Rightarrow> EnvoyGatewayInstaller \<Rightarrow> EnvoyGatewayInstaller" where
  "envoy_WithSSHConnection conn i = i\<lparr>egi_sshConn := conn\<rparr>"

definition envoy_script :: "string \<Rightarrow> string \<Rightarrow> string" where
  \<open>envoy_script version replicas = script_lines [
    ''#!/bin/bash'',
    ''set -euo pipefail'',
    [],
    ''ENVOY_GATEWAY_VERSION="'' @ version @ ''"'',
    ''REPLICA_COUNT="'' @ replicas @ ''"'',
    ''INSTALL_SOURCE="${INSTALL_SOURCE:-online}"'',
    ''RELEASE_SERVER="${RELEASE_SERVER:-}"'',
    ''LOCAL_PATH="${LOCAL_PATH:-}"'',
    [],
    ''echo "=== Installing Envoy Gateway (version=$ENVOY_GATEWAY_VERSION) ==="'',
    [],
    ''fetch_resource() {'',
    ''    local resource="$1"'',
    ''    local dest="$2"'',
    ''    case "$INSTALL_SOURCE" in'',
    ''        online) curl -fsSL "$resource" -o "$dest" ;;'',
    ''        http)   curl -fsSL "${RELEASE_SERVER}/${resource}" -o "$dest" ;;'',
    ''        local)  cp "${LOCAL_PATH}/${resource}" "$dest" ;;'',
    ''        *)      echo "ERROR: unsupported INSTALL_SOURCE=$INSTALL_SOURCE"; exit 1 ;;'',
    ''    esac'',
    ''}'',
    [],
    ''# Install Envoy Gateway CRDs first'',
    ''crds_manifest=$(mktemp)'',
    ''case "$INSTALL_SOURCE" in'',
    ''    online)'',
    ''        kubectl apply -f "https://github.com/envoyproxy/gateway/releases/download/v${ENVOY_GATEWAY_VERSION}/install.yaml"'',
    ''        ;;'',
    ''    http|local)'',
    ''        fetch_resource "gateway/envoy-gateway/v${ENVOY_GATEWAY_VERSION}/envoy-gateway-crds.yaml" "$crds_manifest"'',
    ''        kubectl apply -f "$crds_manifest"'',
    ''        rm -f "$crds_manifest"'',
    ''        ;;'',
    ''esac'',
    [],
    ''# Load Envoy Gateway images (offline mode)'',
    ''if [ "$INSTALL_SOURCE" != "online" ]; then'',
    ''    echo "=== Loading Envoy Gateway images ==="'',
    ''    for image in envoy-gateway.tar envoy-proxy.tar; do'',
    ''        echo "'' @ [CHR 0xE4, CHR 0xB8, CHR 0x8B, CHR 0xE8, CHR 0xBD, CHR 0xBD] @ '': $image"'',
    ''        fetch_resource "images/envoy-gateway/v${ENVOY_GATEWAY_VERSION}/$image" "/tmp/$image"'',
    ''        echo "'' @ [CHR 0xE5, CHR 0xAF, CHR 0xBC, CHR 0xE5, CHR 0x85, CHR 0xA5] @ '': $image"'',
    ''        ctr -n k8s.io images import "/tmp/$image"'',
    ''        rm -f "/tmp/$image"'',
    ''    done'',
    ''    echo "=== Envoy Gateway images loaded ==="'',
    ''fi'',
    [],
    ''# Install Envoy Gateway Controller'',
    ''controller_manifest=$(mktemp)'',
    ''case "$INSTALL_SOURCE" in'',
    ''    online)'',
    ''        kubectl apply -f "https://github.com/envoyproxy/gateway/releases/download/v${ENVOY_GATEWAY_VERSION}/install.yaml"'',
    ''        ;;'',
    ''    http|local)'',
    ''        fetch_resource "gateway/envoy-gateway/v${ENVOY_GATEWAY_VERSION}/envoy-gateway-controller.yaml" "$controller_manifest"'',
    ''        kubectl apply -f "$controller_manifest"'',
    ''        rm -f "$controller_manifest"'',
    ''        ;;'',
    ''esac'',
    [],
    ''# Wait for Envoy Gateway to be ready'',
    ''kubectl rollout status deployment/envoy-gateway -n envoy-gateway-system --timeout=300s'',
    [],
    ''echo "=== Envoy Gateway installation completed ==="'']\<close>

definition envoy_replicas :: "EnvoyGatewayConfig option \<Rightarrow> int" where
  "envoy_replicas cfg = (case cfg of None \<Rightarrow> 2 | Some c \<Rightarrow> if egc_ReplicaCount c > 0 then egc_ReplicaCount c else 2)"

definition envoy_Install :: "env \<Rightarrow> EnvoyGatewayInstaller \<Rightarrow> GatewayResult cact" where
  "envoy_Install E i = gateway_run E (egi_sshConn i) (egi_version i) (envoy_script (egi_version i) (show_int (envoy_replicas (egi_config i))))"

record MetalLBInstaller =
  mli_version :: string
  mli_config :: "GatewayMetalLBConfig option"
  mli_sshConn :: "nat option"

definition NewMetalLBInstaller :: "string \<Rightarrow> GatewayMetalLBConfig option \<Rightarrow> MetalLBInstaller" where
  "NewMetalLBInstaller version config = \<lparr>mli_version = version, mli_config = config, mli_sshConn = None\<rparr>"

definition metallb_WithSSHConnection :: "nat option \<Rightarrow> MetalLBInstaller \<Rightarrow> MetalLBInstaller" where
  "metallb_WithSSHConnection conn i = i\<lparr>mli_sshConn := conn\<rparr>"

definition pool_text :: "string \<Rightarrow> string \<Rightarrow> string" where
  \<open>pool_text name addresses = script_lines [
    [],
    ''  - name: '' @ name] @ ''    addresses: ['' @ addresses @ '']''\<close>

text \<open>The address pools; the loop puts a separator before every address but the first.\<close>

definition pool_addresses :: "string list \<Rightarrow> string" where
  \<open>pool_addresses addrs = foldl (\<lambda>acc a. (if acc \<noteq> [] then acc @ '', '' else acc) @ ''"'' @ a @ ''"'') [] addrs\<close>

definition pool_config :: "GatewayMetalLBConfig option \<Rightarrow> string" where
  "pool_config cfg = (case cfg of None \<Rightarrow> []
     | Some c \<Rightarrow> concat (map (\<lambda>p. pool_text (mip_Name p) (pool_addresses (mip_Addresses p))) (gml_IPAddressPools c)))"

definition metallb_mode :: "GatewayMetalLBConfig option \<Rightarrow> string" where
  "metallb_mode cfg = (case cfg of None \<Rightarrow> ''layer2'' | Some c \<Rightarrow> if gml_Mode c \<noteq> [] then gml_Mode c else ''layer2'')"

definition metallb_script :: "string \<Rightarrow> string \<Rightarrow> string \<Rightarrow> string" where
  \<open>metallb_script version mode pools = script_lines [
    ''#!/bin/bash'',
    ''set -euo pipefail'',
    [],
    ''METALLB_VERSION="'' @ version @ ''"'',
    ''MODE="'' @ mode @ ''"'',
    ''INSTALL_SOURCE="${INSTALL_SOURCE:-online}"'',
    ''RELEASE_SERVER="${RELEASE_SERVER:-}"'',
    ''LOCAL_PATH="${LOCAL_PATH:-}"'',
    [],
    ''echo "=== Installing MetalLB (version=$METALLB_VERSION, mode=$MODE) ==="'',
    [],
    ''fetch_resource() {'',
    ''    local resource="$1"'',
    ''    local dest="$2"'',
    ''    case "$INSTALL_SOURCE" in'',
    ''        online) curl -fsSL "$resource" -o "$dest" ;;'',
    ''        http)   curl -fsSL "${RELEASE_SERVER}/${resource}" -o "$dest" ;;'',
    ''        local)  cp "${LOCAL_PATH}/${resource}" "$dest" ;;'',
    ''        *)      echo "ERROR: unsupported INSTALL_SOURCE=$INSTALL_SOURCE"; exit 1 ;;'',
    ''    esac'',
    ''}'',
    [],
    ''# Install MetalLB CRDs first'',
    ''crds_manifest=$(mktemp)'',
    ''case "$INSTALL_SOURCE" in'',
    ''    online)'',
    ''        kubectl apply -f "https://raw.githubusercontent.com/metallb/metallb/v${METALLB_VERSION}/config/manifests/metallb-native.yaml"'',
    ''        ;;'',
    ''    http|local)'',
    ''        fetch_resource "metallb/v${METALLB_VERSION}/metallb-crds.yaml" "$crds_manifest"'',
    ''        kubectl apply -f "$crds_manifest"'',
    ''        rm -f "$crds_manifest"'',
    ''        ;;'',
    ''esac'',
    [],
    ''# Load MetalLB images (offline mode)'',
    ''if [ "$INSTALL_SOURCE" != "online" ]; then'',
    ''    echo "=== Loading MetalLB images ==="'',
    ''    for image in metallb-controller.tar metallb-speaker.tar; do'',
    ''        echo "'' @ [CHR 0xE4, CHR 0xB8, CHR 0x8B, CHR 0xE8, CHR 0xBD, CHR 0xBD] @ '': $image"'',
    ''        fetch_resource "images/metallb/v${METALLB_VERSION}/$image" "/tmp/$image"'',
    ''        echo "'' @ [CHR 0xE5, CHR 0xAF, CHR 0xBC, CHR 0xE5, CHR 0x85, CHR 0xA5] @ '': $image"'',
    ''        ctr -n k8s.io images import "/tmp/$image"'',
    ''        rm -f "/tmp/$image"'',
    ''    done'',
    ''    echo "=== MetalLB images loaded ==="'',
    ''fi'',
    [],
    ''# Install MetalLB Controller and Speaker'',
    ''controller_manifest=$(mktemp)'',
    ''case "$INSTALL_SOURCE" in'',
    ''    online)'',
    ''        kubectl apply -f "https://raw.githubusercontent.com/metallb/metallb/v${METALLB_VERSION}/config/manifests/metallb-native.yaml"'',
    ''        ;;'',
    ''    http|local)'',
    ''        fetch_resource "metallb/v${METALLB_VERSION}/metallb-controller.yaml" "$controller_manifest"'',
    ''        kubectl apply -f "$controller_manifest"'',
    ''        rm -f "$controller_manifest"'',
    ''        ;;'',
    ''esac'',
    [],
    ''# Wait for MetalLB to be ready'',
    ''kubectl rollout status deployment/controller -n metallb-system --timeout=300s'',
    ''kubectl rollout status daemonset/speaker -n metallb-system --timeout=300s'',
    [],
    ''# Configure IPAddressPool if provided'',
    ''if [ -n '' @ [CHR 0x27] @ pools @ [CHR 0x27] @ '' ]; then'',
    ''cat <<EOF | kubectl apply -f -'',
    ''apiVersion: metallb.io/v1beta1'',
    ''kind: IPAddressPool'',
    ''metadata:'',
    ''  name: default-pool'',
    ''  namespace: metallb-system'',
    ''spec:'',
    ''  addresses:'' @ pools,
    ''EOF'',
    ''fi'',
    [],
    ''# Configure L2Advertisement for layer2 mode'',
    ''if [ "$MODE" = "layer2" ]; then'',
    ''cat <<EOF | kubectl apply -f -'',
    ''apiVersion: metallb.io/v1beta1'',
    ''kind: L2Advertisement'',
    ''metadata:'',
    ''  name: default'',
    ''  namespace: metallb-system'',
    ''spec:'',
    ''  ipAddressPools:'',
    ''  - default-pool'',
    ''EOF'',
    ''fi'',
    [],
    ''echo "=== MetalLB installation completed ==="'']\<close>

definition metallb_Install :: "env \<Rightarrow> MetalLBInstaller \<Rightarrow> GatewayResult cact" where
  "metallb_Install E i = gateway_run E (mli_sshConn i) (mli_version i)
     (metallb_script (mli_version i) (metallb_mode (mli_config i)) (pool_config (mli_config i)))"

subsection \<open>Registry configuration\<close>

definition node_HostsDirPath :: string where "node_HostsDirPath = ''/etc/containerd/hosts.d''"
definition CertsDirPath :: string where "CertsDirPath = ''/etc/containerd/certs.d''"

record RegistryAuthConfig =
  rac_Registry :: string
  rac_Username :: string
  rac_Password :: string
  rac_InsecureSkipVerify :: bool
  rac_CACert :: string

text \<open>\<open>base64.StdEncoding.EncodeToString\<close>.\<close>

definition b64_char :: "nat \<Rightarrow> char" where
  "b64_char n = ''ABCDEFGHIJKLMNOPQRSTUVWXYZabcdefghijklmnopqrstuvwxyz0123456789+/'' ! (n mod 64)"

fun base64 :: "string \<Rightarrow> string" where
  "base64 (a # b # c # s) = (let n = of_char a * 65536 + of_char b * 256 + of_char c in
     [b64_char (n div 262144), b64_char (n div 4096), b64_char (n div 64), b64_char n] @ base64 s)"
| "base64 [a, b] = (let n = of_char a * 65536 + of_char b * 256 in [b64_char (n div 262144), b64_char (n div 4096), b64_char (n div 64), CHR ''=''])"
| "base64 [a] = (let n = of_char a * 65536 in [b64_char (n div 262144), b64_char (n div 4096), CHR ''='', CHR ''=''])"
| "base64 [] = []"

definition host_table :: "string \<Rightarrow> string" where
  \<open>host_table registry = ''[host."https://'' @ registry @ ''"]''\<close>

definition GenerateHostsToml :: "RegistryAuthConfig \<Rightarrow> string" where
  \<open>GenerateHostsToml config = script_lines (
     [''server = "https://'' @ rac_Registry config @ ''"'', [], host_table (rac_Registry config), ''  capabilities = ["pull", "resolve"]'']
     @ (if rac_Username config \<noteq> [] \<and> rac_Password config \<noteq> []
        then [[], ''[host."https://'' @ rac_Registry config @ ''".header]'',
          ''  Authorization = "Basic '' @ base64 (rac_Username config @ '':'' @ rac_Password config) @ ''"''] else [])
     @ (if rac_CACert config \<noteq> [] then [[], host_table (rac_Registry config), ''  ca = "'' @ CertsDirPath @ ''/'' @ rac_Registry config @ ''/ca.crt"''] else [])
     @ (if rac_InsecureSkipVerify config then [[], host_table (rac_Registry config), ''  skip_verify = true''] else []))\<close>

definition GenerateContainerdConfigPatch :: "string list \<Rightarrow> string" where
  \<open>GenerateContainerdConfigPatch registries = script_lines (
     [[], ''[plugins."io.containerd.grpc.v1.cri".registry]'', ''  config_path = "'' @ node_HostsDirPath @ ''"'', [],
      ''  [plugins."io.containerd.grpc.v1.cri".registry.mirrors]'']
     @ concat (map (\<lambda>r. [''    [plugins."io.containerd.grpc.v1.cri".registry.mirrors."'' @ r @ ''"]'', ''      endpoint = ["https://'' @ r @ ''"]'']) registries))\<close>

definition configure_script where
  \<open>configure_script registry username password cacert insecure hosts toml certs = script_lines [
    ''#!/bin/bash'',
    ''set -euo pipefail'',
    [],
    ''REGISTRY="'' @ registry @ ''"'',
    ''USERNAME="'' @ username @ ''"'',
    ''PASSWORD="'' @ password @ ''"'',
    ''CA_CERT="'' @ cacert @ ''"'',
    ''INSECURE="'' @ insecure @ ''"'',
    [],
    ''# Configure containerd hosts.d'',
    ''HOSTS_DIR="'' @ hosts @ ''/${REGISTRY}"'',
    ''mkdir -p "$HOSTS_DIR"'',
    [],
    ''# Generate hosts.toml'',
    ''cat > "${HOSTS_DIR}/hosts.toml" << '' @ [CHR 0x27] @ ''EOF'' @ [CHR 0x27],
    toml,
    ''EOF'',
    [],
    ''# If CA certificate provided, save it'',
    ''if [ -n "$CA_CERT" ]; then'',
    ''  CERTS_DIR="'' @ certs @ ''/${REGISTRY}"'',
    ''  mkdir -p "$CERTS_DIR"'',
    ''  echo "$CA_CERT" > "${CERTS_DIR}/ca.crt"'',
    ''fi'',
    [],
    ''# Restart containerd'',
    ''systemctl restart containerd'',
    [],
    ''echo "Containerd registry authentication configured for ${REGISTRY}"'']\<close>

definition GenerateConfigureScript :: "RegistryAuthConfig \<Rightarrow> string" where
  "GenerateConfigureScript config =
     configure_script (rac_Registry config) (rac_Username config) (rac_Password config) (rac_CACert config)
       (if rac_InsecureSkipVerify config then ''true'' else ''false'') node_HostsDirPath (GenerateHostsToml config) CertsDirPath"

section \<open>Lemmas\<close>

text \<open>\<open>ExecuteScript\<close> on a live connection: no panic, the connection stays, and a result means that the script ran.\<close>

lemma execute_script:
  assumes "pool_wf w" "conn_at w p n port" and run: "ExecuteScript E p script ctx w = (r, w')"
  shows "pool_wf w' \<and> conn_at w' p n port \<and> prefix (w_log w) (w_log w')"
    "(\<exists>x. r = Ok x \<and> executed E n script ctx x (w_log w) (w_log w')) \<or> (\<exists>e. r = Err e)"
proof -
  note s = in_sessionD [OF in_session_script assms]
  have "r \<noteq> Panic m" for m
    using run assms(2) by (auto simp: ExecuteScript_def ExecuteCommand_def act_simps deref_def conn_at_def query_def command_def time_Now_def touch_def
        state_defs split: option.splits run_outcome.splits)
  with s(4) show "(\<exists>x. r = Ok x \<and> executed E n script ctx x (w_log w) (w_log w')) \<or> (\<exists>e. r = Err e)" by (cases r) auto
  show "pool_wf w' \<and> conn_at w' p n port \<and> prefix (w_log w) (w_log w')" using s by blast
qed

lemma executed_within: "executed E h s ctx x l l' \<Longrightarrow> prefix l0 l \<Longrightarrow> prefix l' l1 \<Longrightarrow> executed E h s ctx x l0 l1"
  unfolding executed_def prefix_def
proof (elim exE conjE)
  fix zs zt pre post creds assume "l = l0 @ zs" "l1 = l' @ zt" "l' = l @ pre @ EvExec h (script_command creds s) ctx # post"
    "s_run (ssh E) (l @ pre) h (script_command creds s) ctx = RunDone (cr_Stdout x) (cr_Stderr x) (cr_ExitCode x)"
  then show "\<exists>pre post creds. l1 = l0 @ pre @ EvExec h (script_command creds s) ctx # post
      \<and> s_run (ssh E) (l0 @ pre) h (script_command creds s) ctx = RunDone (cr_Stdout x) (cr_Stderr x) (cr_ExitCode x)"
    by (intro exI [of _ "zs @ pre"] exI [of _ "post @ zt"] exI [of _ creds]) simp
qed

text \<open>A script that ran on the host and ended with 0.\<close>

definition script_succeeded :: "env \<Rightarrow> string \<Rightarrow> string \<Rightarrow> log \<Rightarrow> log \<Rightarrow> bool" where
  "script_succeeded E n script l0 l1 \<longleftrightarrow> (\<exists>x. executed E n script None x l0 l1 \<and> cr_ExitCode x = 0)"

lemma script_succeeded_widen: "script_succeeded E n s l l' \<Longrightarrow> prefix l0 l \<Longrightarrow> prefix l' l1 \<Longrightarrow> script_succeeded E n s l0 l1"
  unfolding script_succeeded_def by (blast intro: executed_within)

subsection \<open>Images\<close>

lemma load_image_step:
  assumes "pool_wf w" "conn_at w p n port" "il_sshConn l = Some p" and run: "load_image E l path tar res w = (r, w')"
  shows "pool_wf w' \<and> conn_at w' p n port \<and> prefix (w_log w) (w_log w')
    \<and> ((r = Ok (add_loaded tar res) \<and> script_succeeded E n (loader_script l path tar) (w_log w) (w_log w')) \<or> (\<exists>why. r = Ok (add_failed tar why res)))"
proof -
  obtain q v where ex: "ExecuteScript E p (loader_script l path tar) None w = (q, v)" by (metis surj_pair)
  note s = execute_script [OF assms(1,2) ex]
  from run ex assms(3) have rv: "w' = v" "r = Ok (case q of Err e \<Rightarrow> add_failed tar (error_string e) res
      | Ok x \<Rightarrow> if cr_ExitCode x \<noteq> 0 then add_failed tar (cr_Stderr x) res else add_loaded tar res)" if "\<forall>m. q \<noteq> Panic m"
    using that by (auto simp: load_image_def act_simps split: res.splits)
  from s(2) show ?thesis
  proof (elim disjE exE conjE)
    fix x assume q: "q = Ok x" and e: "executed E n (loader_script l path tar) None x (w_log w) (w_log v)"
    have "script_succeeded E n (loader_script l path tar) (w_log w) (w_log v)" if "cr_ExitCode x = 0"
      using e that unfolding script_succeeded_def by blast
    then show ?thesis using s(1) rv q by auto
  next
    fix e assume "q = Err e"
    then show ?thesis using s(1) rv by auto
  qed
qed

definition load_inv :: "env \<Rightarrow> string \<Rightarrow> ImageLoader \<Rightarrow> string \<Rightarrow> string list \<Rightarrow> log \<Rightarrow> log \<Rightarrow> LoadResult \<Rightarrow> bool" where
  "load_inv E n l path tars l0 l1 res \<longleftrightarrow> mset (lr_Loaded res) + mset (lr_Failed res) = mset tars
     \<and> (\<forall>tar \<in> set (lr_Loaded res). script_succeeded E n (loader_script l path tar) l0 l1)"

lemma load_inv_step:
  assumes "load_inv E n l path seen l0 l1 res" "prefix l0 l1" "prefix l1 l2"
  shows "script_succeeded E n (loader_script l path tar) l1 l2 \<Longrightarrow> load_inv E n l path (seen @ [tar]) l0 l2 (add_loaded tar res)"
    "load_inv E n l path (seen @ [tar]) l0 l2 (add_failed tar why res)"
  using assms unfolding load_inv_def add_loaded_def add_failed_def
  by (auto intro: script_succeeded_widen)

lemma load_loop_inv:
  assumes "pool_wf w" "conn_at w p n port" "il_sshConn l = Some p" "prefix l0 (w_log w)" "load_inv E n l path seen l0 (w_log w) res"
    and "load_loop E l path tars res w = (r, w')"
  shows "\<exists>res'. r = Ok res' \<and> load_inv E n l path (seen @ tars) l0 (w_log w') res'"
  using assms
proof (induction tars arbitrary: w res seen)
  case (Cons tar tars)
  obtain q v where step: "load_image E l path tar res w = (q, v)" by (metis surj_pair)
  note s = load_image_step [OF Cons.prems(1-3) step]
  then obtain res1 where q: "q = Ok res1" and i: "load_inv E n l path (seen @ [tar]) l0 (w_log v) res1"
    using load_inv_step [OF Cons.prems(5,4), of "w_log v" tar] by blast
  have "load_loop E l path tars res1 v = (r, w')" using Cons.prems(6) step q by (simp add: act_simps)
  moreover have "prefix l0 (w_log v)" using s Cons.prems(4) by (blast intro: prefix_order.trans)
  ultimately show ?case using Cons.IH [OF _ _ Cons.prems(3) _ i] s by auto
qed (auto simp: act_simps)

lemma unconnected_loop: "il_sshConn l = None \<Longrightarrow> load_loop E l path tars res w = (Ok (res\<lparr>lr_Loaded := lr_Loaded res @ tars\<rparr>), w)"
  by (induction tars arbitrary: res) (simp_all add: act_simps load_image_def add_loaded_def)

section \<open>Properties\<close>

text \<open>
  \<open>loadImages\<close> over a live connection always returns a result; every image is in exactly one of the two lists as often as
  it was asked for, every image reported as loaded had its script run on the host with exit code 0, and success means that
  none failed.
\<close>

theorem images_accounted_for:
  assumes "pool_wf w" "conn_at w p n port" "il_sshConn l = Some p" and run: "loadImages E l path imageList w = (r, w')"
  shows "\<exists>res. r = Ok res \<and> lr_Completed res \<and> (lr_Success res \<longleftrightarrow> lr_Failed res = [])
    \<and> mset (lr_Loaded res) + mset (lr_Failed res) = mset imageList
    \<and> (\<forall>tar \<in> set (lr_Loaded res). script_succeeded E n (loader_script l path tar) (w_log w) (w_log w'))"
proof -
  let ?zero = "\<lparr>lr_Completed = False, lr_Success = False, lr_Loaded = [], lr_Failed = [], lr_Error = []\<rparr>"
  obtain q v where loop: "load_loop E l path imageList ?zero w = (q, v)" by (metis surj_pair)
  have "load_inv E n l path [] (w_log w) (w_log w) ?zero" by (simp add: load_inv_def)
  from load_loop_inv [OF assms(1-3) _ this loop] obtain res where "q = Ok res" "load_inv E n l path imageList (w_log w) (w_log v) res" by auto
  with run loop show ?thesis by (auto simp: loadImages_def act_simps load_inv_def)
qed

text \<open>Without a connection nothing is done, and all images are reported as loaded.\<close>

theorem unconnected_load_reports_success:
  assumes "il_sshConn l = None"
  shows "\<exists>res. loadImages E l path imageList w = (Ok res, w) \<and> lr_Success res \<and> lr_Loaded res = imageList"
  using assms by (simp add: loadImages_def act_simps unconnected_loop)

text \<open>
  The gateway installers never return an error; over a live connection success means that the script ran on the host and
  ended with 0, and a failure is reported with a text.
\<close>

theorem gateway_success_ran:
  assumes "pool_wf w" "conn_at w p n port" and run: "gateway_run E (Some p) version script w = (r, w')"
  shows "\<exists>res. r = Ok res \<and> gwr_Completed res \<and> gwr_Version res = version
    \<and> (gwr_Success res \<longrightarrow> script_succeeded E n script (w_log w) (w_log w')) \<and> (\<not> gwr_Success res \<longrightarrow> gwr_Error res \<noteq> [])"
proof -
  obtain q v where ex: "ExecuteScript E p script None w = (q, v)" by (metis surj_pair)
  have ok: "script_succeeded E n script (w_log w) (w_log v)" if "q = Ok x" "cr_ExitCode x = 0" for x
    using execute_script(2) [OF assms(1,2) ex] that unfolding script_succeeded_def by auto
  from execute_script(2) [OF assms(1,2) ex] show ?thesis
  proof (elim disjE exE conjE)
    fix x assume "q = Ok x"
    with run ex have rv: "w' = v" "r = Ok (if cr_ExitCode x \<noteq> 0
        then \<lparr>gwr_Completed = True, gwr_Success = False, gwr_Version = version, gwr_Error = ''install script failed: '' @ cr_Stderr x\<rparr>
        else \<lparr>gwr_Completed = True, gwr_Success = True, gwr_Version = version, gwr_Error = []\<rparr>)"
      by (simp_all add: gateway_run_def act_simps)
    show ?thesis
    proof (cases "cr_ExitCode x = 0")
      case True
      with ok [OF \<open>q = Ok x\<close>] rv show ?thesis by simp
    next
      case False
      with rv show ?thesis by simp
    qed
  next
    fix e assume "q = Err e"
    with run ex have "w' = v" "r = Ok \<lparr>gwr_Completed = True, gwr_Success = False, gwr_Version = version,
        gwr_Error = ''failed to execute install script: '' @ error_string e\<rparr>"
      by (simp_all add: gateway_run_def act_simps)
    then show ?thesis by simp
  qed
qed

subsection \<open>Registry configuration\<close>

lemma b64_char_ok: "b64_char n \<noteq> CHR 0x0A"
proof -
  have "\<forall>k < 64. ''ABCDEFGHIJKLMNOPQRSTUVWXYZabcdefghijklmnopqrstuvwxyz0123456789+/'' ! k \<noteq> CHR 0x0A" by code_simp
  then show ?thesis unfolding b64_char_def by simp
qed

lemma base64_no_newline: "CHR 0x0A \<notin> set (base64 s)"
  by (induction s rule: base64.induct) (simp_all add: Let_def b64_char_ok [symmetric])

lemma base64_vectors: "base64 ''user:pass'' = ''dXNlcjpwYXNz''" "base64 ''Ma'' = ''TWE=''" "base64 ''M'' = ''TQ==''"
  by (simp_all add: Let_def b64_char_def)

lemma host_table_lines:
  \<open>(''server = "https://'' @ r @ ''"'') \<noteq> host_table r\<close> \<open>[] \<noteq> host_table r\<close> \<open>''  capabilities = ["pull", "resolve"]'' \<noteq> host_table r\<close>
  \<open>(''[host."https://'' @ r @ ''".header]'') \<noteq> host_table r\<close> \<open>(''  Authorization = "Basic '' @ a) \<noteq> host_table r\<close> \<open>(''  ca = "'' @ a) \<noteq> host_table r\<close>
  \<open>''  skip_verify = true'' \<noteq> host_table r\<close>
  by (simp_all add: host_table_def)

lemma count_append: "count_list (xs @ ys) x = count_list xs x + count_list ys x"
  by (induction xs) simp_all

text \<open>
  The table of the host is opened once for the host itself, again for a CA certificate and again to skip verification:
  with either of the two options \<open>hosts.toml\<close> defines one table more than once.
\<close>

theorem hosts_toml_repeats_table:
  assumes "CHR 0x0A \<notin> set (rac_Registry config)"
  shows "count_list (split_on CHR 0x0A (GenerateHostsToml config)) (host_table (rac_Registry config)) =
    1 + (if rac_CACert config \<noteq> [] then 1 else 0) + (if rac_InsecureSkipVerify config then 1 else 0)"
proof -
  define r auth where "r = rac_Registry config" and "auth = base64 (rac_Username config @ '':'' @ rac_Password config)"
  define ls where \<open>ls = [''server = "https://'' @ r @ ''"'', [], host_table r, ''  capabilities = ["pull", "resolve"]'']
     @ (if rac_Username config \<noteq> [] \<and> rac_Password config \<noteq> []
        then [[], ''[host."https://'' @ r @ ''".header]'', ''  Authorization = "Basic '' @ auth @ ''"''] else [])
     @ (if rac_CACert config \<noteq> [] then [[], host_table r, ''  ca = "'' @ CertsDirPath @ ''/'' @ r @ ''/ca.crt"''] else [])
     @ (if rac_InsecureSkipVerify config then [[], host_table r, ''  skip_verify = true''] else [])\<close>
  have n: "CHR 0x0A \<notin> set r" "CHR 0x0A \<notin> set auth" "CHR 0x0A \<notin> set (host_table r)"
    using assms base64_no_newline by (simp_all add: r_def auth_def host_table_def)
  have "GenerateHostsToml config = script_lines ls" by (simp only: GenerateHostsToml_def ls_def r_def auth_def)
  moreover have "CHR 0x0A \<notin> set x" if "x \<in> set ls" for x
    using that n unfolding ls_def by (auto simp: CertsDirPath_def split: if_splits)
  ultimately have "split_on CHR 0x0A (GenerateHostsToml config) = ls @ [[]]" by (simp add: split_script_lines)
  moreover have "count_list ls (host_table r) = 1 + (if rac_CACert config \<noteq> [] then 1 else 0) + (if rac_InsecureSkipVerify config then 1 else 0)"
    unfolding ls_def count_append by (simp add: host_table_lines [THEN not_sym] host_table_lines del: append.simps)
  ultimately show ?thesis by (simp add: count_append host_table_lines(2) r_def)
qed





section \<open>Witnesses\<close>

theorem images_accounted_witness:
  "\<exists>res. fst (loadImages quiet_env (loader_WithSSHConnection (Some 0) (NewImageLoader ''http://r/'' [])) ''images/etcd/v1'' [''etcd.tar'', ''pause.tar''] ex_session) = Ok res
    \<and> mset (lr_Loaded res) + mset (lr_Failed res) = {#''etcd.tar'', ''pause.tar''#}"
proof -
  define l where "l = loader_WithSSHConnection (Some 0) (NewImageLoader ''http://r/'' [])"
  have c: "il_sshConn l = Some 0" by (simp add: l_def loader_WithSSHConnection_def)
  obtain r w' where run: "loadImages quiet_env l ''images/etcd/v1'' [''etcd.tar'', ''pause.tar''] ex_session = (r, w')" by (metis surj_pair)
  from images_accounted_for [OF ex_session_simps c run] show ?thesis
    unfolding l_def [symmetric] run by auto
qed

end
