(* ===== verification/File_Store.thy ===== *)
theory File_Store
  imports Prelude
begin

text \<open>
  Files, for the code that writes them directly: a store from paths to contents. The system decides for every call
  whether it fails, and after how many bytes a failing write stops.
\<close>

section \<open>Definitions\<close>

record fstate =
  fs_files :: "string \<rightharpoonup> string"
  fs_calls :: nat

type_synonym 'a fact = "(fstate, 'a) act"

record system =
  sys_fail :: "nat \<Rightarrow> error option"
  sys_written :: "nat \<Rightarrow> nat"

subsection \<open>System calls\<close>

text \<open>A call either succeeds with a value and a new store or fails with another store.\<close>

definition syscall :: "'s system_scheme \<Rightarrow> (fstate \<Rightarrow> (error + 'a) \<times> (string \<rightharpoonup> string)) \<Rightarrow> (fstate \<Rightarrow> string \<rightharpoonup> string) \<Rightarrow> 'a fact" where
  "syscall S good bad = (\<lambda>s. case sys_fail S (fs_calls s) of
     Some e \<Rightarrow> (Err e, \<lparr>fs_files = bad s, fs_calls = fs_calls s + 1\<rparr>)
   | None \<Rightarrow> (case good s of (r, fs) \<Rightarrow> (case r of Inl e \<Rightarrow> Err e | Inr x \<Rightarrow> Ok x, \<lparr>fs_files = fs, fs_calls = fs_calls s + 1\<rparr>)))"

definition no_such_file :: "string \<Rightarrow> error" where
  "no_such_file f = Errorf (''open '' @ f @ '': no such file or directory'')"

definition ReadFile :: "'s system_scheme \<Rightarrow> string \<Rightarrow> string fact" where
  "ReadFile S f = syscall S (\<lambda>s. (case fs_files s f of None \<Rightarrow> Inl (no_such_file f) | Some d \<Rightarrow> Inr d, fs_files s)) fs_files"

definition os_Create :: "'s system_scheme \<Rightarrow> string \<Rightarrow> unit fact" where
  "os_Create S f = syscall S (\<lambda>s. (Inr (), (fs_files s)(f \<mapsto> []))) fs_files"

definition append_to :: "string \<Rightarrow> string \<Rightarrow> (string \<rightharpoonup> string) \<Rightarrow> string \<rightharpoonup> string" where
  "append_to f d fs = fs(f \<mapsto> (case fs f of None \<Rightarrow> [] | Some old \<Rightarrow> old) @ d)"

definition file_Write :: "'s system_scheme \<Rightarrow> string \<Rightarrow> string \<Rightarrow> unit fact" where
  "file_Write S f d = syscall S (\<lambda>s. (Inr (), append_to f d (fs_files s))) (\<lambda>s. append_to f (take (sys_written S (fs_calls s)) d) (fs_files s))"

text \<open>\<open>os.OpenFile\<close> with \<open>O_APPEND\<close> and \<open>O_CREATE\<close>.\<close>

definition OpenAppend :: "'s system_scheme \<Rightarrow> string \<Rightarrow> unit fact" where
  "OpenAppend S f = syscall S (\<lambda>s. (Inr (), append_to f [] (fs_files s))) fs_files"

text \<open>\<open>os.WriteFile\<close> opens with truncation and writes.\<close>

definition WriteFile :: "'s system_scheme \<Rightarrow> string \<Rightarrow> string \<Rightarrow> unit fact" where
  "WriteFile S f d = andthen (os_Create S f) (\<lambda>_. file_Write S f d)"

section \<open>Lemmas\<close>

lemma syscall_apply: "syscall S good bad s = (case sys_fail S (fs_calls s) of
     Some e \<Rightarrow> (Err e, \<lparr>fs_files = bad s, fs_calls = fs_calls s + 1\<rparr>)
   | None \<Rightarrow> (case good s of (r, fs) \<Rightarrow> (case r of Inl e \<Rightarrow> Err e | Inr x \<Rightarrow> Ok x, \<lparr>fs_files = fs, fs_calls = fs_calls s + 1\<rparr>)))"
  by (simp add: syscall_def)

lemmas file_calls = ReadFile_def os_Create_def file_Write_def WriteFile_def OpenAppend_def syscall_apply act_simps

end
