(* ===== verification/Encryption.thy ===== *)
theory Encryption
  imports File_Store
begin

text \<open>
  Encryption of files, \<open>modules/cvo/internal/upgrader/encryption/encryption.go\<close>, over a store of files. AES-GCM, from the cryptographic
  library, is a parameter: \<open>Seal\<close> and \<open>Open\<close> as functions of key, nonce and text.
\<close>

section \<open>Definitions\<close>

record crypto_system = system +
  sys_rand :: "nat \<Rightarrow> nat \<Rightarrow> string"
  sys_seal :: "string \<Rightarrow> string \<Rightarrow> string \<Rightarrow> string"
  sys_open :: "string \<Rightarrow> string \<Rightarrow> string \<Rightarrow> error + string"

definition rand_Read :: "crypto_system \<Rightarrow> nat \<Rightarrow> string fact" where
  "rand_Read S n = syscall S (\<lambda>s. (Inr (sys_rand S (fs_calls s) n), fs_files s)) fs_files"

text \<open>\<open>aes.NewCipher\<close> takes keys of 16, 24 or 32 bytes; \<open>cipher.NewGCM\<close> does not fail for AES, and its nonces have 12 bytes.\<close>

definition NonceSize :: nat where "NonceSize = 12"

definition NewCipher :: "string \<Rightarrow> unit fact" where
  "NewCipher key = (if length key \<in> {16, 24, 32} then ret () else fail (Errorf (''crypto/aes: invalid key size '' @ show_int (int (length key)))))"

text \<open>\<open>Seal(nonce, nonce, plaintext, nil)\<close> appends the sealed text to the nonce.\<close>

definition encrypt :: "crypto_system \<Rightarrow> string \<Rightarrow> string \<Rightarrow> string fact" where
  "encrypt S plaintext key =
     check (NewCipher key) (wrap ''failed to create cipher: '') (\<lambda>_.
     check (rand_Read S NonceSize) (wrap ''failed to generate nonce: '') (\<lambda>nonce.
     ret (nonce @ sys_seal S key nonce plaintext)))"

definition decrypt :: "crypto_system \<Rightarrow> string \<Rightarrow> string \<Rightarrow> string fact" where
  "decrypt S ciphertext key =
     check (NewCipher key) (wrap ''failed to create cipher: '') (\<lambda>_.
     if length ciphertext < NonceSize then fail (Errorf ''invalid ciphertext: too short'')
     else (case sys_open S key (take NonceSize ciphertext) (drop NonceSize ciphertext) of
         Inl e \<Rightarrow> fail (wrap ''failed to decrypt: '' e) | Inr plaintext \<Rightarrow> ret plaintext))"

definition EncryptFile :: "crypto_system \<Rightarrow> string \<Rightarrow> string \<Rightarrow> unit fact" where
  "EncryptFile S inputFile outputFile =
     check (rand_Read S 32) (wrap ''failed to generate encryption key: '') (\<lambda>key.
     check (ReadFile S inputFile) (wrap ''failed to read input file: '') (\<lambda>plaintext.
     andthen (encrypt S plaintext key) (\<lambda>ciphertext.
     check (os_Create S outputFile) (wrap ''failed to create output file: '') (\<lambda>_.
     andthen (file_Write S outputFile key) (\<lambda>_.
     file_Write S outputFile ciphertext)))))"

definition DecryptFile :: "crypto_system \<Rightarrow> string \<Rightarrow> string \<Rightarrow> unit fact" where
  "DecryptFile S inputFile outputFile =
     check (ReadFile S inputFile) (wrap ''failed to read input file: '') (\<lambda>data.
     if length data < 32 then fail (Errorf ''invalid encrypted file: too short'')
     else andthen (decrypt S (drop 32 data) (take 32 data)) (\<lambda>plaintext.
       check (WriteFile S outputFile plaintext) (wrap ''failed to write output file: '') (\<lambda>_. ret ())))"

section \<open>The contract of the libraries\<close>

text \<open>
  What the code relies on: \<open>Open\<close> undoes \<open>Seal\<close> for the same key and nonce, and the random source fills the buffer it is given.
\<close>

definition aead_ok :: "crypto_system \<Rightarrow> bool" where
  "aead_ok S \<longleftrightarrow> (\<forall>key nonce d. sys_open S key nonce (sys_seal S key nonce d) = Inr d) \<and> (\<forall>k n. length (sys_rand S k n) = n)"

section \<open>Lemmas\<close>

lemmas calls = rand_Read_def file_calls

lemma NewCipher_ok: "length key = 32 \<Longrightarrow> NewCipher key s = (Ok (), s)"
  by (simp add: NewCipher_def act_simps)

lemma encrypted_file:
  assumes "aead_ok S" and "EncryptFile S a b s = (Ok (), s')"
  shows "\<exists>key nonce d. fs_files s a = Some d \<and> length key = 32 \<and> length nonce = NonceSize
    \<and> fs_files s' = (fs_files s)(b \<mapsto> key @ nonce @ sys_seal S key nonce d)"
proof -
  have len: "length (sys_rand S k n) = n" for k n using assms(1) by (simp add: aead_ok_def)
  define key nonce where "key = sys_rand S (fs_calls s) 32" and "nonce = sys_rand S (fs_calls s + 2) NonceSize"
  obtain d where d: "fs_files s a = Some d"
    using assms(2) by (auto simp: EncryptFile_def calls split: option.splits)
  have "fs_files s' = (fs_files s)(b \<mapsto> key @ nonce @ sys_seal S key nonce d)"
    using assms(2) d len by (auto simp: EncryptFile_def encrypt_def calls NewCipher_ok key_def nonce_def append_to_def split: option.splits)
  with d len show ?thesis unfolding key_def nonce_def by blast
qed

lemma decrypt_layout:
  assumes "sys_open S key nonce (sys_seal S key nonce d) = Inr d" "length key = 32" "length nonce = NonceSize"
  shows "decrypt S (nonce @ sys_seal S key nonce d) key s = (Ok d, s)"
  using assms by (simp add: decrypt_def NewCipher_ok act_simps)

lemma decrypt_state: "decrypt S c key s = (r, s') \<Longrightarrow> s' = s"
  by (auto simp: decrypt_def NewCipher_def act_simps split: if_splits sum.splits)

section \<open>Properties\<close>

text \<open>
  Decryption restores the file: after a successful encryption of \<open>a\<close> into \<open>b\<close>, decrypting \<open>b\<close> into \<open>c\<close> succeeds when no
  system call fails, and \<open>c\<close> then has the contents of \<open>a\<close>.
\<close>

theorem file_encryption_roundtrip:
  assumes "aead_ok S" and "EncryptFile S a b s = (Ok (), s')" and "\<And>k. fs_calls s' \<le> k \<Longrightarrow> sys_fail S k = None"
  shows "\<exists>t. DecryptFile S b c s' = (Ok (), t) \<and> fs_files t c = fs_files s a"
proof -
  obtain key nonce d where d: "fs_files s a = Some d" and k: "length key = 32" "length nonce = NonceSize"
    and f: "fs_files s' = (fs_files s)(b \<mapsto> key @ nonce @ sys_seal S key nonce d)" using encrypted_file [OF assms(1,2)] by blast
  have "sys_open S key nonce (sys_seal S key nonce d) = Inr d" using assms(1) by (simp add: aead_ok_def)
  note dec = decrypt_layout [OF this k]
  show ?thesis using d k by (simp add: DecryptFile_def calls f dec assms(3) append_to_def)
qed

text \<open>The encrypted file is enough to read the text: its first 32 bytes are the key.\<close>

theorem encrypted_file_discloses:
  assumes "aead_ok S" and "EncryptFile S a b s = (Ok (), s')"
  shows "\<exists>f d. fs_files s a = Some d \<and> fs_files s' b = Some f \<and> sys_open S (take 32 f) (take NonceSize (drop 32 f)) (drop (32 + NonceSize) f) = Inr d"
proof -
  obtain key nonce d where d: "fs_files s a = Some d" and k: "length key = 32" "length nonce = NonceSize"
    and f: "fs_files s' = (fs_files s)(b \<mapsto> key @ nonce @ sys_seal S key nonce d)" using encrypted_file [OF assms] by blast
  have "sys_open S key nonce (sys_seal S key nonce d) = Inr d" using assms(1) by (simp add: aead_ok_def)
  with d k f show ?thesis by simp
qed

text \<open>A file that is too short or that the cipher does not authenticate is an error, and no file is touched.\<close>

theorem decrypt_rejects_untouched:
  assumes "fs_files s b = Some f"
    and "length f < 32 + NonceSize \<or> (\<exists>e. sys_open S (take 32 f) (take NonceSize (drop 32 f)) (drop (32 + NonceSize) f) = Inl e)"
  shows "\<exists>e t. DecryptFile S b c s = (Err e, t) \<and> fs_files t = fs_files s"
proof -
  define v where "v = s\<lparr>fs_calls := fs_calls s + 1\<rparr>"
  have read: "ReadFile S b s = (case sys_fail S (fs_calls s) of Some e \<Rightarrow> Err e | None \<Rightarrow> Ok f, v)"
    using assms(1) by (cases s) (simp add: calls v_def split: option.split)
  have "\<exists>e. decrypt S (drop 32 f) (take 32 f) v = (Err e, v)" if "\<not> length f < 32"
    using assms(2) that by (auto simp: decrypt_def NewCipher_def NonceSize_def act_simps add.commute)
  then show ?thesis
    by (cases "length f < 32") (auto simp: DecryptFile_def read act_simps v_def split: option.split)
qed

section \<open>Witness\<close>

text \<open>A cipher for evaluation: the reversed text, followed by the key as its tag.\<close>

definition ex_system :: crypto_system where
  "ex_system = \<lparr>sys_fail = (\<lambda>k. None), sys_written = (\<lambda>k. 0), sys_rand = (\<lambda>k n. replicate n CHR ''r''),
     sys_seal = (\<lambda>key nonce d. rev d @ key),
     sys_open = (\<lambda>key nonce c. let n = length c - length key in if drop n c = key then Inr (rev (take n c)) else Inl (Errorf ''cipher: message authentication failed''))\<rparr>"

definition ex_files :: fstate where
  "ex_files = \<lparr>fs_files = [''/etcd.db'' \<mapsto> ''snapshot''], fs_calls = 0\<rparr>"

theorem file_encryption_witness:
  "\<exists>s' t. EncryptFile ex_system ''/etcd.db'' ''/etcd.enc'' ex_files = (Ok (), s') \<and> DecryptFile ex_system ''/etcd.enc'' ''/out'' s' = (Ok (), t)
    \<and> fs_files t ''/out'' = Some ''snapshot''"
proof -
  have ok: "aead_ok ex_system" by (simp add: aead_ok_def ex_system_def)
  have calm: "sys_fail ex_system k = None" for k by (simp add: ex_system_def)
  have f: "fs_files ex_files ''/etcd.db'' = Some ''snapshot''" by (simp add: ex_files_def)
  have len: "length (sys_rand ex_system k n) = n" for k n by (simp add: ex_system_def)
  obtain s' where "EncryptFile ex_system ''/etcd.db'' ''/etcd.enc'' ex_files = (Ok (), s')"
    by (simp add: EncryptFile_def encrypt_def calls calm f NewCipher_ok len)
  with file_encryption_roundtrip [OF ok this calm, of "''/out''"] f show ?thesis by auto
qed

end
