(* ===== verification/Host_Keys.thy ===== *)
theory Host_Keys
  imports File_Store Bm_Haproxy
begin

text \<open>
  \<open>AddHostKey\<close> of \<open>modules/cvo/pkg/ssh/manager.go\<close>: one line appended to the file of known hosts.
\<close>

definition host_key_line :: "string \<Rightarrow> int \<Rightarrow> string \<Rightarrow> string \<Rightarrow> string" where
  "host_key_line h port keyType keyData = JoinHostPort h (show_int port) @ '' '' @ keyType @ '' '' @ keyData @ [CHR 0x0A]"

definition AddHostKey :: "'s system_scheme \<Rightarrow> string \<Rightarrow> int \<Rightarrow> string \<Rightarrow> string \<Rightarrow> string \<Rightarrow> unit fact" where
  "AddHostKey S h port keyType keyData knownHostsFile =
     check (OpenAppend S knownHostsFile) (wrap ''failed to open known_hosts file: '') (\<lambda>_.
     file_Write S knownHostsFile (host_key_line h port keyType keyData))"

text \<open>
  Whatever fails, no key that was known is lost and no other file is touched; on success the file has exactly one more
  line, and a call that does not fail succeeds.
\<close>

theorem known_hosts_grow:
  assumes "AddHostKey S h port keyType keyData f s = (r, s')"
  shows "(\<forall>g. g \<noteq> f \<longrightarrow> fs_files s' g = fs_files s g)
    \<and> (\<forall>old. fs_files s f = Some old \<longrightarrow> (\<exists>more. fs_files s' f = Some (old @ more)))
    \<and> (r = Ok () \<longrightarrow> fs_files s' f = Some ((case fs_files s f of None \<Rightarrow> [] | Some old \<Rightarrow> old) @ host_key_line h port keyType keyData))
    \<and> (sys_fail S (fs_calls s) = None \<longrightarrow> sys_fail S (fs_calls s + 1) = None \<longrightarrow> r = Ok ())"
  using assms by (auto simp: AddHostKey_def file_calls append_to_def split: option.splits)

end
