(* ===== verification/Spec2Isabelle.thy ===== *)
theory Spec2Isabelle
  imports Version_Path Component_Diff Preflight Retry Graph_Exec Worker_Upgrader Control_Plane
    Addon_Upgrader Cluster_Version Cluster_Round Self_Machine Backup_Rollback Cluster_Addon Release_Image
    Bm_Inventory Bm_Cluster Bm_Vars Bm_Plugins Bm_Round Bm_Jobs Bm_Images Encryption Host_Keys
begin

text \<open>
  A verification development for the two modules of cluster-api-provider-baremetal: the cluster
  version operator, \<open>modules/cvo\<close>, and the infrastructure provider, \<open>modules/capbm\<close>. The provider
  keeps an inventory of hosts, gives hosts to machines, and connects the machines of a cluster
  to load balancers; paths below are those of the operator unless they name the other module.
  The operator takes a cluster of bare metal
  nodes from one release to the next: it pulls a release image, checks the step against an
  upgrade path, runs the phases of the release's upgrade graph, upgrades nodes over SSH and
  addons through Kubernetes jobs, and records the outcome in the status of a ClusterVersion.

  \<^bold>\<open>The style of the model.\<close> The code is translated function by function into actions of a
  state monad with errors: a call returns \<open>Ok\<close>, \<open>Err\<close> (the Go error) or \<open>Panic\<close>, and the state it
  left, so every early return, wrapped error and nil dereference is a branch. \<open>Prelude\<close> has that
  monad, the combinators (\<open>andthen\<close>, \<open>check\<close> for \<open>if err != nil\<close>, \<open>attempt\<close>, \<open>deferring\<close> for
  \<open>defer\<close>, \<open>for_each\<close>), the Go string functions, and a Hoare calculus. The state (\<open>world\<close>, in
  \<open>Cluster_Env\<close>) is what the program itself owns (the SSH connection pool, the directories it
  made) and the log of all its calls to the outside. The outside is a parameter, the record
  \<open>env\<close>: the Kubernetes API, SSH, the clock, files, HTTP; its answers may depend on the whole
  log, so theorems hold for every behaviour of the cluster over time. Named hypotheses on it
  are \<open>poll_ok\<close> (\<open>wait.Poll\<close> evaluates its condition finitely often), \<open>range_ok\<close> and \<open>sched_ok\<close> (a
  map iteration, or a schedule of goroutines, is a permutation), \<open>sorts_by\<close> (\<open>sort.Slice\<close>
  sorts), \<open>pool_wf\<close> (the connection pool is well formed, an invariant that is proved to be kept).
  Strings are lists of bytes; a loop over runes is a loop over bytes, which is the same for
  ASCII text. \<open>Go_Quote\<close> has \<open>%q\<close>, with UTF-8 and the table of printable characters. \<open>Contracts\<close> has two calculi over the log: what an action may do at all
  (\<open>emits\<close>, \<open>contract\<close>) and what has happened when it returns (\<open>outcome\<close>).

  \<^bold>\<open>Parts and theories.\<close>
  \<^item> API types (\<open>api/v1beta1\<close>): \<open>Api_Types\<close>, the structs as records; \<open>Zero_Values\<close>, Go zero values.
  \<^item> \<open>internal/upgrader/graph_executor.go\<close>: \<open>Topo_Sort\<close> (dependency graphs and the recursive
    closure that sorts them; interface \<open>dependency_sort\<close> with two providers, the sort of
    components and the sort of addons), \<open>Version_Path\<close> (\<open>ValidateUpgradePath\<close>,
    \<open>ComputeAvailableUpdates\<close>), \<open>Health_Check\<close> (with \<open>health_checker.go\<close>), \<open>Graph_Exec\<close> (phases,
    manifests, scripts).
  \<^item> \<open>diff_components.go\<close>: \<open>Component_Diff\<close>. \<open>oci_puller.go\<close>: \<open>Oci_Puller\<close>. \<open>retry/retry.go\<close>: \<open>Retry\<close>.
  \<^item> \<open>rolling_upgrade_coordinator.go\<close>: \<open>Rolling\<close>; the goroutines of a batch are a step relation with
    a semaphore in which the calls under way interleave access by access. The rest of the model uses
    the sequential \<open>executeBatch\<close>; for a semaphore of one, the only size that is asked for, it is
    proved to be what every interleaving computes, up to the order of the nodes.
  \<^item> \<open>pkg/ssh\<close>: \<open>Ssh_Manager\<close> (pool, commands, quoting), \<open>Preflight\<close>.
  \<^item> \<open>control_plane_upgrader.go\<close> and \<open>worker_node_upgrader.go\<close>: \<open>Node_Upgrade\<close> (what they share:
    drain, verification, uncordon), \<open>Hooks\<close> (interface \<open>hook_runner\<close>), \<open>Control_Plane\<close>, \<open>Worker_Upgrader\<close>.
  \<^item> \<open>internal/addon\<close>: \<open>Addon_Values\<close> (\<open>values.go\<close>, \<open>processor.go\<close>), \<open>Addon_Jobs\<close> (jobs, timeouts, the
    content fetcher of \<open>manifest_installer.go\<close>), \<open>Addon_Upgrader\<close> (\<open>upgrader.go\<close>).
  \<^item> \<open>internal/controllers/clusterversion_controller.go\<close>: \<open>Cluster_Version\<close> (the model and the
    relations between the states of a round, interface \<open>state_relation\<close>), \<open>Cluster_Round\<close>
    (properties of rounds and a concrete one).
  \<^item> \<open>selfupgrade_controller.go\<close> and \<open>self_upgrade_executor.go\<close>: \<open>Self_Sort\<close> (the dependency sort, a
    partial function because it may not return), \<open>Self_Components\<close> (what is done to single
    components, backup and rollback), \<open>Self_Upgrade\<close> (the phase handlers and \<open>Reconcile\<close>),
    \<open>Self_Machine\<close> (the abstract phase machine, the refinement proof and properties of rounds).
  \<^item> \<open>backup_rollback.go\<close>: \<open>Backup_Rollback\<close>, with the scripts, the stored objects and what a
    successful backup or rollback has done on every node.
  \<^item> \<open>manifest_installer.go\<close>, \<open>helm_installer.go\<close>: \<open>Addon_Install\<close>, with the interface \<open>Installer\<close> as
    a locale interpreted on both; \<open>clusteraddon_controller.go\<close>: \<open>Cluster_Addon\<close>.
  \<^item> \<open>registry/importer.go\<close>, \<open>registry/status.go\<close>: \<open>Image_Import\<close> (the job, its
    script as text, the status per image); \<open>releaseimage_controller.go\<close>: \<open>Release_Image\<close>.
  \<^item> \<open>Object_State\<close>: actions on the world and one object, shared by the controllers.
  \<^item> \<open>modules/capbm/api/v1beta2\<close>: \<open>Bm_Types\<close>, \<open>Bm_Zero\<close>, \<open>Bm_Conditions\<close>. Host inventory (its controller,
    allocation and release): \<open>Bm_Inventory\<close>. \<open>internal/lb\<close>: \<open>Bm_Haproxy\<close>, \<open>Bm_Lb\<close> (four providers behind
    one interface, locale \<open>lb_pool\<close>). \<open>baremetalcluster_controller.go\<close>: \<open>Bm_Cluster\<close>.
  \<^item> Provisioning of a machine in \<open>modules/capbm/internal\<close>: \<open>Sessions\<close> (reasoning about one SSH session),
    \<open>Bm_Host\<close> (\<open>bootstrap\<close>, \<open>network\<close>, \<open>health\<close>), \<open>Bm_Scripts\<close> and \<open>Bm_Installer\<close> (\<open>installer\<close>), \<open>Bm_Vars\<close> (how
    the shell reads the variables that precede a script), \<open>Bm_Plugins\<close> (\<open>cni\<close>, \<open>csi\<close>), \<open>Bm_Machine\<close>
    (\<open>baremetalmachine_controller.go\<close>), \<open>Bm_Round\<close> (a concrete round). The scripts are part of the
    model, byte for byte; what a shell does with them is modelled for quoting, assignments and the
    registration of backends only.
  \<^item> Packages without a caller: \<open>Bm_Jobs\<close> (\<open>helm\<close> and \<open>component\<close>: jobs, their scripts, the status of
    components in a ConfigMap), \<open>Bm_Images\<close> (\<open>images\<close>, \<open>gateway\<close>, \<open>node\<close>: image loading, gateway installers, the
    registry configuration of containerd), \<open>Encryption\<close> (\<open>upgrader/encryption\<close>, with AES-GCM as a
    parameter), \<open>Host_Keys\<close> (\<open>AddHostKey\<close> of \<open>pkg/ssh\<close>), the last two over the files of \<open>File_Store\<close>.

  \<^bold>\<open>What is proved.\<close> For every component the functional behaviour of its operations on all
  branches, and for the composed procedures what has happened, in which order, when they
  succeed: the upgrade of a control plane or worker node, of all nodes, of an addon, of the
  upgrade graph; what they never touch; that a failure stops the procedure, is reported, and
  leaves the version as it was. Invariants: the connection pool, the status of the
  ClusterVersion, the JSON documents. Concurrency: bound, termination and serialisability of a
  batch. Round trips: what the shell of a host reads is what was meant (scripts behind \<open>bash -c\<close>,
  variables in front of a script, the lines that registration adds to HAProxy), and the status of components. Where the code does not do what it means to, the
  theorem says what it does (a dependency inside a phase, the pull cache, timeouts, addons).
  This theory has the properties that span components.

  \<^bold>\<open>Fuel and bounds.\<close> There is no fuel: every loop of the source is a structural recursion or a
  function with a termination proof (the closure visit of \<open>Topo_Sort\<close>, the batches of \<open>Rolling\<close>,
  the retry loop), but for the sort of the self-upgrade controller, a partial function
  whose domain of termination is a theorem; polling is bounded by the hypothesis \<open>poll_ok\<close>. Integers are unbounded except
  where width matters (\<open>int32\<close> and the 64-bit durations of \<open>Addon_Jobs\<close>).

  \<^bold>\<open>Not modelled.\<close> Metrics and logging (no effect on the state), flag parsing and registration in
  \<open>cmd\<close>, generated deep copies; the copies of \<open>pkg/ssh\<close> under \<open>internal/ssh\<close> of both modules,
  which nothing imports; \<open>baremetalmachinetemplate_types.go\<close>, a wrapper that no controller reads.
\<close>

section \<open>Controller, graph executor and addon upgrader together\<close>

lemma executeUpgrade_addons:
  assumes "range_ok E" and "cvr_Puller r \<noteq> None" and "executeUpgrade E X r ri b (w, cv) = (Ok u, (w', cv'))"
    and "a \<in> set (ris_Addons (ri_Spec ri))"
  shows "\<exists>d. findAddonDefByName ri (ad_Name a) = Some d \<and> addon_current E (m_Namespace (cv_Meta cv)) d"
proof -
  from assms(2) obtain p where p: "cvr_Puller r = Some p" by blast
  define m where "m = when_act b (andthen (modify_status (\<lambda>s. s\<lparr>cvst_ComponentStatus := initComponentStatus ri\<rparr>)) (\<lambda>_.
      with_obj (\<lambda>cv. check (on_world (ExecuteUpgradeGraph E (x_sort_phases X) (NewGraphExecutor p None) cv ri))
        (wrap ''k8s upgrade failed: '') ret)))"
  obtain g w1 cv1 where pre: "m (w, cv) = (g, (w1, cv1))" using obj_result [of m "(w, cv)"] by blast
  have ns: "m_Namespace (cv_Meta cv1) = m_Namespace (cv_Meta cv)"
    using pre unfolding m_def by (cases b) (auto simp: act_simps split: prod.splits res.splits)
  obtain h w2 where h: "executeAddonUpgrades E (x_codec X) cv1 ri w1 = (h, w2)" by fastforce
  from assms(3) pre p h obtain x where "h = Ok x"
    unfolding m_def by (cases g; cases h) (auto simp: executeUpgrade_def act_simps)
  with executeAddonUpgrades_current [OF assms(1) _ assms(4)] h ns show ?thesis by fastforce
qed

text \<open>
  (C2) The controller cannot finish an upgrade that would have to upgrade an addon. If every
  release that can be parsed contains an addon whose definition has a version that the API
  server never reports for it, then no round of the controller changes the actual version,
  whatever the upgrade graph does before.
\<close>

theorem stale_addon_blocks_upgrade:
  assumes "range_ok E"
    and "\<And>data spec. x_parse_release X data = Inr spec \<Longrightarrow>
      \<exists>a\<in>set (ris_Addons spec). \<exists>d. findAddon (ris_Addons spec) (ad_Name a) = Some d \<and> ad_Version d \<noteq> []
        \<and> (\<forall>l ca. k_get_clusteraddon (kube E) l (m_Namespace (cv_Meta cv)) (ad_Name d) = Inr ca \<longrightarrow> cast_Version (ca_Status ca) \<noteq> ad_Version d)"
    and "reconcile_body E X r (w, cv) = (res, (w', cv'))"
  shows "cvst_ActualVersion (cv_Status cv') = cvst_ActualVersion (cv_Status cv)"
proof (rule ccontr)
  assume "\<not> ?thesis"
  from reconcile_change [OF assms(3) this] obtain ri w1 cv1 w2 cv2 where
    run: "executeUpgrade E X r ri True (w1, cv1) = (Ok (), (w2, cv2))" and ns: "m_Namespace (cv_Meta cv1) = m_Namespace (cv_Meta cv)"
    and f: "fetched X r ri" by blast
  from f obtain a d where a: "a \<in> set (ris_Addons (ri_Spec ri))" "findAddon (ris_Addons (ri_Spec ri)) (ad_Name a) = Some d" "ad_Version d \<noteq> []"
      "\<forall>l ca. k_get_clusteraddon (kube E) l (m_Namespace (cv_Meta cv)) (ad_Name d) = Inr ca \<longrightarrow> cast_Version (ca_Status ca) \<noteq> ad_Version d"
    unfolding fetched_def using assms(2) by blast
  from executeUpgrade_addons [OF assms(1) _ run a(1)] f a ns show False
    by (auto simp: fetched_def addon_current_def findAddonDefByName_def)
qed

theorem stale_addon_witness:
  "cvst_ActualVersion (cv_Status (snd (snd (reconcile_body ex_path_env
      (ex_cvo\<lparr>x_parse_release := (\<lambda>_. Inr (ri_Spec (ex_addon_release ex_helm_addon)))\<rparr>) ex_reconciler (empty_world, ex_cv))))) = ''v1.0''"
proof -
  let ?X = "ex_cvo\<lparr>x_parse_release := (\<lambda>_. Inr (ri_Spec (ex_addon_release ex_helm_addon)))\<rparr>"
  obtain res w' cv' where run: "reconcile_body ex_path_env ?X ex_reconciler (empty_world, ex_cv) = (res, (w', cv'))" by (metis prod.exhaust)
  have "range_ok ex_path_env" using range_ok_quiet by (simp add: range_ok_def ex_path_env_def)
  from stale_addon_blocks_upgrade [OF this _ run] run show ?thesis
    by (simp add: ex_addon_defs ex_helm_addon_def ex_path_env_def quiet_kube_def ex_cv_def)
qed

end
